(* ===== verification/Prelude.thy ===== *)
theory Prelude
  imports Complex_Main "HOL-Library.AList" "HOL-Library.Sublist"
begin

text \<open>
  Shared vocabulary of the development.

  The program is written in Python. A \<open>dict\<close> is an association list with Python's
  insertion-order semantics (assignment to a present key keeps its place, a new key goes to the
  end), a \<open>float\<close> is an exact rational, a \<open>datetime\<close> is a number of microseconds, and an
  exception is the left summand of a sum type. The combinators \<open>rbind\<close>, \<open>mapM_se\<close>,
  \<open>any_se\<close> and \<open>foldM_e\<close> are the loops of the source with a raise in their body.
  The locales state the contracts several components share.
\<close>

section \<open>Fact collections\<close>

named_theorems dict_simps \<open>lookup, insertion and removal in dictionaries\<close>
named_theorems inv_intros \<open>operations that keep an invariant\<close>

section \<open>Dictionaries\<close>

type_synonym ('k, 'v) dict = "('k \<times> 'v) list"
type_synonym time = int

definition dict_get :: "('k, 'v) dict \<Rightarrow> 'k \<Rightarrow> 'v option" where
  "dict_get m k = map_of m k"

definition dict_set :: "'k \<Rightarrow> 'v \<Rightarrow> ('k, 'v) dict \<Rightarrow> ('k, 'v) dict" where
  "dict_set k v m = AList.update k v m"

definition dict_pop :: "'k \<Rightarrow> ('k, 'v) dict \<Rightarrow> ('k, 'v) dict" where
  "dict_pop k m = AList.delete k m"

definition dict_keys :: "('k, 'v) dict \<Rightarrow> 'k list" where
  "dict_keys m = map fst m"

definition dict_values :: "('k, 'v) dict \<Rightarrow> 'v list" where
  "dict_values m = map snd m"

definition dict_has :: "('k, 'v) dict \<Rightarrow> 'k \<Rightarrow> bool" where
  "dict_has m k = (dict_get m k \<noteq> None)"

text \<open>\<open>d.get(k, x)\<close>, and the in-place change of a present entry.\<close>

definition dict_get_or :: "('k, 'v) dict \<Rightarrow> 'k \<Rightarrow> 'v \<Rightarrow> 'v" where
  "dict_get_or m k x = (case dict_get m k of None \<Rightarrow> x | Some v \<Rightarrow> v)"

definition dict_mod :: "'k \<Rightarrow> ('v \<Rightarrow> 'v) \<Rightarrow> ('k, 'v) dict \<Rightarrow> ('k, 'v) dict" where
  "dict_mod k f m = (case dict_get m k of None \<Rightarrow> m | Some v \<Rightarrow> dict_set k (f v) m)"

definition dict_ok :: "('k, 'v) dict \<Rightarrow> bool" where
  "dict_ok m = distinct (dict_keys m)"

lemmas dict_defs = dict_get_def dict_set_def dict_pop_def dict_keys_def dict_values_def
  dict_has_def dict_get_or_def dict_mod_def dict_ok_def

lemma dict_get_Nil [simp, dict_simps]: "dict_get [] k = None"
  by (simp add: dict_get_def)

lemma dict_get_Cons: "dict_get ((k', v) # m) k = (if k = k' then Some v else dict_get m k)"
  by (simp add: dict_get_def)

lemma dict_get_set [simp, dict_simps]:
  "dict_get (dict_set k v m) k' = (if k' = k then Some v else dict_get m k')"
  by (simp add: dict_get_def dict_set_def update_conv')

lemma dict_get_pop [simp, dict_simps]:
  "dict_get (dict_pop k m) k' = (if k' = k then None else dict_get m k')"
  by (simp add: dict_get_def dict_pop_def delete_conv')

lemma dict_get_mod [simp, dict_simps]:
  "dict_get (dict_mod k f m) k' = (if k' = k then map_option f (dict_get m k) else dict_get m k')"
  by (simp add: dict_mod_def split: option.split)

lemma dict_has_simps [simp, dict_simps]:
  "dict_has [] k = False"
  "dict_has (dict_set k v m) k' = (k' = k \<or> dict_has m k')"
  "dict_has (dict_pop k m) k' = (k' \<noteq> k \<and> dict_has m k')"
  "dict_has (dict_mod k f m) k' = dict_has m k'"
  by (auto simp: dict_has_def)

lemma dict_has_keys: "dict_has m k \<longleftrightarrow> k \<in> set (dict_keys m)"
  by (auto simp: dict_has_def dict_get_def dict_keys_def map_of_eq_None_iff)

lemma dict_get_in: "dict_get m k = Some v \<Longrightarrow> (k, v) \<in> set m"
  by (simp add: dict_get_def map_of_SomeD)

lemma dict_get_keys: "dict_get m k = Some v \<Longrightarrow> k \<in> set (dict_keys m)"
  by (force simp: dict_keys_def dest: dict_get_in)

lemma dict_in_get: "dict_ok m \<Longrightarrow> (k, v) \<in> set m \<Longrightarrow> dict_get m k = Some v"
  by (simp add: dict_ok_def dict_keys_def dict_get_def)

lemma dict_keys_set:
  "dict_keys (dict_set k v m) = (if dict_has m k then dict_keys m else dict_keys m @ [k])"
  by (simp add: dict_keys_def dict_set_def dict_has_keys update_keys)

lemma dict_keys_mod [simp]: "dict_keys (dict_mod k f m) = dict_keys m"
  by (auto simp: dict_mod_def dict_keys_set dict_has_def split: option.split)

lemma set_dict_keys_set [simp]: "set (dict_keys (dict_set k v m)) = insert k (set (dict_keys m))"
  by (auto simp: dict_keys_set dict_has_keys)

lemma set_dict_keys_pop [simp]: "set (dict_keys (dict_pop k m)) = set (dict_keys m) - {k}"
  by (auto simp: dict_has_keys [symmetric])

lemma dict_ok_Nil [simp, inv_intros]: "dict_ok []"
  by (simp add: dict_ok_def dict_keys_def)

lemma dict_ok_set [simp, inv_intros]: "dict_ok m \<Longrightarrow> dict_ok (dict_set k v m)"
  by (simp add: dict_ok_def dict_keys_set dict_has_keys)

lemma dict_ok_mod [simp, inv_intros]: "dict_ok m \<Longrightarrow> dict_ok (dict_mod k f m)"
  by (simp add: dict_ok_def)

lemma dict_ok_pop [simp, inv_intros]: "dict_ok m \<Longrightarrow> dict_ok (dict_pop k m)"
  by (simp add: dict_ok_def dict_keys_def dict_pop_def distinct_delete)

lemma dict_set_new: "\<not> dict_has m k \<Longrightarrow> dict_set k v m = m @ [(k, v)]"
  unfolding dict_set_def dict_has_keys dict_keys_def by (induction m) auto

lemma length_dict_set: "length (dict_set k v m) = (if dict_has m k then length m else Suc (length m))"
  using arg_cong [OF dict_keys_set, of length k v m] by (simp add: dict_keys_def split: if_splits)

lemma dict_set_in_old: "(k', v') \<in> set (dict_set k v m) \<Longrightarrow> (k', v') = (k, v) \<or> (k', v') \<in> set m"
  unfolding dict_set_def by (induction m) (auto split: if_splits)

lemma dict_pop_in: "(k', v') \<in> set (dict_pop k m) \<Longrightarrow> (k', v') \<in> set m \<and> k' \<noteq> k"
  by (auto simp: dict_pop_def AList.delete_eq)

lemma dict_get_tabulate [simp]:
  "dict_get (map (\<lambda>k. (k, f k)) ks) k' = (if k' \<in> set ks then Some (f k') else None)"
  by (induction ks) (auto simp: dict_get_Cons)

lemma dict_keys_tabulate [simp]: "dict_keys (map (\<lambda>k. (k, f k)) ks) = ks"
  by (simp add: dict_keys_def comp_def)

lemma dict_keys_get: "k \<in> set (dict_keys m) \<Longrightarrow> \<exists>v. dict_get m k = Some v"
  by (simp add: dict_has_keys [symmetric] dict_has_def)

text \<open>A property of every entry survives an insertion, a change and a removal.\<close>

definition dict_all :: "('k \<Rightarrow> 'v \<Rightarrow> bool) \<Rightarrow> ('k, 'v) dict \<Rightarrow> bool" where
  "dict_all P m = (\<forall>(k, v) \<in> set m. P k v)"

lemma dict_all_Nil [simp, inv_intros]: "dict_all P []"
  by (simp add: dict_all_def)

lemma dict_allD: "dict_all P m \<Longrightarrow> dict_get m k = Some v \<Longrightarrow> P k v"
  by (auto simp: dict_all_def dest: dict_get_in)

lemma dict_all_set [inv_intros]: "dict_all P m \<Longrightarrow> P k v \<Longrightarrow> dict_all P (dict_set k v m)"
  by (auto simp: dict_all_def dest!: dict_set_in_old)

lemma dict_all_mod [inv_intros]:
  "dict_all P m \<Longrightarrow> (\<And>v. dict_get m k = Some v \<Longrightarrow> P k v \<Longrightarrow> P k (f v)) \<Longrightarrow> dict_all P (dict_mod k f m)"
  by (auto simp: dict_mod_def intro: dict_all_set dict_allD split: option.split)

lemma dict_all_pop [inv_intros]: "dict_all P m \<Longrightarrow> dict_all P (dict_pop k m)"
  by (auto simp: dict_all_def dest: dict_pop_in)

section \<open>The result of code that may raise\<close>

definition rbind :: "'e + 'a \<Rightarrow> ('a \<Rightarrow> 'e + 'b) \<Rightarrow> 'e + 'b" where
  "rbind r f = (case r of Inl e \<Rightarrow> Inl e | Inr a \<Rightarrow> f a)"

lemma rbind_simps [simp]: "rbind (Inl e) f = Inl e" "rbind (Inr a) f = f a"
  by (simp_all add: rbind_def)

lemma rbind_Inr: "rbind r f = Inr b \<longleftrightarrow> (\<exists>a. r = Inr a \<and> f a = Inr b)"
  by (auto simp: rbind_def split: sum.split)

lemma rbind_Inl: "rbind r f = Inl e \<longleftrightarrow> r = Inl e \<or> (\<exists>a. r = Inr a \<and> f a = Inl e)"
  by (auto simp: rbind_def split: sum.split)

lemma rbind_cong [fundef_cong]:
  "r = r' \<Longrightarrow> (\<And>a. r' = Inr a \<Longrightarrow> f a = f' a) \<Longrightarrow> rbind r f = rbind r' f'"
  by (auto simp: rbind_def split: sum.split)

definition is_ok :: "'e + 'a \<Rightarrow> bool" where
  "is_ok r = (case r of Inl _ \<Rightarrow> False | Inr _ \<Rightarrow> True)"

lemma is_ok_simps [simp]: "is_ok (Inr a)" "\<not> is_ok (Inl e)"
  by (simp_all add: is_ok_def)

text \<open>\<open>[f(x) for x in xs]\<close> and \<open>any(f(x) for x in xs)\<close> over a shared state, and a plain
  \<open>for\<close> loop; each stops at the first raise, \<open>any_se\<close> also at the first true result.\<close>

fun mapM_se :: "('a \<Rightarrow> 's \<Rightarrow> 'e + ('b \<times> 's)) \<Rightarrow> 'a list \<Rightarrow> 's \<Rightarrow> 'e + ('b list \<times> 's)" where
  "mapM_se f [] s = Inr ([], s)"
| "mapM_se f (x # xs) s =
     (case f x s of Inl e \<Rightarrow> Inl e
      | Inr (y, s') \<Rightarrow> (case mapM_se f xs s' of Inl e \<Rightarrow> Inl e
                       | Inr (ys, s'') \<Rightarrow> Inr (y # ys, s'')))"

fun any_se :: "('a \<Rightarrow> 's \<Rightarrow> 'e + (bool \<times> 's)) \<Rightarrow> 'a list \<Rightarrow> 's \<Rightarrow> 'e + (bool \<times> 's)" where
  "any_se f [] s = Inr (False, s)"
| "any_se f (x # xs) s =
     (case f x s of Inl e \<Rightarrow> Inl e
      | Inr (b, s') \<Rightarrow> (if b then Inr (True, s') else any_se f xs s'))"

fun foldM_e :: "('a \<Rightarrow> 's \<Rightarrow> 'e + 's) \<Rightarrow> 'a list \<Rightarrow> 's \<Rightarrow> 'e + 's" where
  "foldM_e f [] s = Inr s"
| "foldM_e f (x # xs) s = (case f x s of Inl e \<Rightarrow> Inl e | Inr s' \<Rightarrow> foldM_e f xs s')"

lemma foldM_e_invariant:
  assumes "foldM_e f xs s = Inr s'" and "P s"
    and "\<And>x s s'. x \<in> set xs \<Longrightarrow> P s \<Longrightarrow> f x s = Inr s' \<Longrightarrow> P s'"
  shows "P s'"
  using assms
proof (induction xs arbitrary: s)
  case Nil
  then show ?case by simp
next
  case (Cons x xs)
  from Cons.prems(1) obtain s1 where s1: "f x s = Inr s1" "foldM_e f xs s1 = Inr s'"
    by (auto split: sum.splits)
  with Cons.prems have "P s1" by auto
  with s1 Cons show ?case by auto
qed

lemma foldM_e_ok:
  assumes "P s" and "\<And>x s. x \<in> set xs \<Longrightarrow> P s \<Longrightarrow> \<exists>s'. f x s = Inr s' \<and> P s'"
  shows "\<exists>s'. foldM_e f xs s = Inr s' \<and> P s'"
  using assms
proof (induction xs arbitrary: s)
  case Nil
  then show ?case by simp
next
  case (Cons x xs)
  from Cons.prems obtain s1 where "f x s = Inr s1" "P s1" by force
  with Cons show ?case by auto
qed

section \<open>Lists the code keeps to their last entries\<close>

text \<open>\<open>xs[-n:]\<close>, and the pattern \<open>xs.append(x); if len(xs) > n: xs = xs[-n:]\<close>.\<close>

definition last_n :: "nat \<Rightarrow> 'a list \<Rightarrow> 'a list" where
  "last_n n xs = drop (length xs - n) xs"

definition append_capped :: "nat \<Rightarrow> 'a \<Rightarrow> 'a list \<Rightarrow> 'a list" where
  "append_capped n x xs = (let ys = xs @ [x] in if length ys > n then last_n n ys else ys)"

lemma length_last_n [simp]: "length (last_n n xs) = min n (length xs)"
  by (simp add: last_n_def)

lemma suffix_last_n: "suffix (last_n n xs) xs"
  by (simp add: last_n_def suffix_drop)

lemma last_n_all: "length xs \<le> n \<Longrightarrow> last_n n xs = xs"
  by (simp add: last_n_def)

lemma append_capped_eq: "append_capped n x xs = last_n n (xs @ [x])"
  by (simp add: append_capped_def last_n_all Let_def)

section \<open>Contracts\<close>

text \<open>A key-value store: what a client may rely on after an insertion and a removal.\<close>

locale kv_store =
  fixes empty :: "'m"
    and get :: "'m \<Rightarrow> 'k \<Rightarrow> 'v option"
    and put :: "'k \<Rightarrow> 'v \<Rightarrow> 'm \<Rightarrow> 'm"
    and del :: "'k \<Rightarrow> 'm \<Rightarrow> 'm"
  assumes get_empty: "get empty k = None"
    and get_put: "get (put k v m) k' = (if k' = k then Some v else get m k')"
    and get_del: "get (del k m) k' = (if k' = k then None else get m k')"
begin

lemma put_other: "k' \<noteq> k \<Longrightarrow> get (put k v m) k' = get m k'"
  by (simp add: get_put)

lemma put_put_same: "get (put k v (put k w m)) = get (put k v m)"
  by (rule ext) (simp add: get_put)

lemma put_commute: "k \<noteq> k' \<Longrightarrow> get (put k v (put k' w m)) = get (put k' w (put k v m))"
  by (rule ext) (simp add: get_put)

lemma del_put: "get (del k (put k v m)) = get (del k m)"
  by (rule ext) (simp add: get_put get_del)

lemma dom_put: "{x. get (put k v m) x \<noteq> None} = insert k {x. get m x \<noteq> None}"
  by (auto simp: get_put)

end

interpretation pydict: kv_store "[]" dict_get dict_set dict_pop
  by unfold_locales simp_all

text \<open>A component whose operations keep an invariant, run over any sequence of operations.\<close>

locale op_system =
  fixes exec :: "'op \<Rightarrow> 's \<Rightarrow> 's"
    and inv :: "'s \<Rightarrow> bool"
  assumes inv_exec: "inv s \<Longrightarrow> inv (exec op s)"
begin

lemma inv_run: "inv s \<Longrightarrow> inv (fold exec ops s)"
  by (induction ops arbitrary: s) (simp_all add: inv_exec)

lemma inv_prefix: "inv s \<Longrightarrow> prefix ops' ops \<Longrightarrow> inv (fold exec ops' s)"
  by (rule inv_run)

end

text \<open>A log that keeps its newest entries and never grows past its capacity.\<close>

locale bounded_log =
  fixes push :: "'a \<Rightarrow> 'a list \<Rightarrow> 'a list"
    and cap :: nat
  assumes cap_pos: "0 < cap"
    and push_eq: "push x xs = last_n cap (xs @ [x])"
begin

lemma length_push: "length (push x xs) = min cap (Suc (length xs))"
  by (simp add: push_eq)

lemma length_push_le: "length (push x xs) \<le> cap"
  by (simp add: push_eq)

lemma last_push: "last (push x xs) = x"
  using cap_pos by (simp add: push_eq last_n_def)

lemma set_push: "set (push x xs) \<subseteq> insert x (set xs)"
  using set_mono_suffix [OF suffix_last_n [of cap "xs @ [x]"]] by (auto simp: push_eq)

lemma push_keeps_all: "length xs < cap \<Longrightarrow> push x xs = xs @ [x]"
  by (simp add: push_eq last_n_all)

lemma push_run: "fold push ys (last_n cap xs) = last_n cap (xs @ ys)"
proof (induction ys arbitrary: xs)
  case Nil
  show ?case by simp
next
  case (Cons y ys)
  have "push y (last_n cap xs) = last_n cap (xs @ [y])"
    using cap_pos by (cases "length xs \<le> cap") (auto simp: push_eq last_n_def Suc_diff_le)
  then show ?case using Cons [of "xs @ [y]"] by simp
qed

end

end
