(* ===== verification/PyValue.thy ===== *)
theory PyValue
  imports Prelude
begin

text \<open>
  The dynamically typed values of the source: what a \<open>Dict[str, Any]\<close> holds. Truth values,
  equality, order and membership follow the Python language: numbers of different types compare
  by value, dictionaries compare as maps, an order comparison of unlike types and a membership
  test on a value that is no container raise \<open>TypeError\<close> (\<open>None\<close> here).
\<close>

datatype pyval =
    PNone
  | PBool bool
  | PInt int
  | PFloat rat
  | PStr string
  | PList "pyval list"
  | PDict "(string \<times> pyval) list"

type_synonym pydict = "(string \<times> pyval) list"

fun truthy :: "pyval \<Rightarrow> bool" where
  "truthy PNone = False"
| "truthy (PBool b) = b"
| "truthy (PInt i) = (i \<noteq> 0)"
| "truthy (PFloat r) = (r \<noteq> 0)"
| "truthy (PStr s) = (s \<noteq> [])"
| "truthy (PList xs) = (xs \<noteq> [])"
| "truthy (PDict d) = (d \<noteq> [])"

fun num_val :: "pyval \<Rightarrow> rat option" where
  "num_val (PBool b) = Some (of_bool b)"
| "num_val (PInt i) = Some (of_int i)"
| "num_val (PFloat r) = Some r"
| "num_val _ = None"

fun py_eq :: "pyval \<Rightarrow> pyval \<Rightarrow> bool"
  and py_eq_list :: "pyval list \<Rightarrow> pyval list \<Rightarrow> bool"
  and py_sub_dict :: "pydict \<Rightarrow> pydict \<Rightarrow> bool" where
  "py_eq PNone v = (v = PNone)"
| "py_eq (PStr s) v = (v = PStr s)"
| "py_eq (PList xs) v = (case v of PList ys \<Rightarrow> py_eq_list xs ys | _ \<Rightarrow> False)"
| "py_eq (PDict d) v =
     (case v of PDict d' \<Rightarrow> length d = length d' \<and> py_sub_dict d d' | _ \<Rightarrow> False)"
| "py_eq (PBool b) v = (num_val v = Some (of_bool b))"
| "py_eq (PInt i) v = (num_val v = Some (of_int i))"
| "py_eq (PFloat r) v = (num_val v = Some r)"
| "py_eq_list [] ys = (ys = [])"
| "py_eq_list (x # xs) ys = (case ys of [] \<Rightarrow> False | y # ys' \<Rightarrow> py_eq x y \<and> py_eq_list xs ys')"
| "py_sub_dict [] d' = True"
| "py_sub_dict ((k, v) # d) d' =
     ((case map_of d' k of None \<Rightarrow> False | Some w \<Rightarrow> py_eq v w) \<and> py_sub_dict d d')"

fun str_lt :: "string \<Rightarrow> string \<Rightarrow> bool" where
  "str_lt _ [] = False"
| "str_lt [] (_ # _) = True"
| "str_lt (c # cs) (d # ds) =
     ((of_char c :: nat) < of_char d \<or> c = d \<and> str_lt cs ds)"

fun py_lt :: "pyval \<Rightarrow> pyval \<Rightarrow> bool option"
  and py_lt_list :: "pyval list \<Rightarrow> pyval list \<Rightarrow> bool option" where
  "py_lt (PStr s) v = (case v of PStr t \<Rightarrow> Some (str_lt s t) | _ \<Rightarrow> None)"
| "py_lt (PList xs) v = (case v of PList ys \<Rightarrow> py_lt_list xs ys | _ \<Rightarrow> None)"
| "py_lt PNone v = None"
| "py_lt (PDict d) v = None"
| "py_lt (PBool b) v = map_option (\<lambda>y. of_bool b < y) (num_val v)"
| "py_lt (PInt i) v = map_option (\<lambda>y. of_int i < y) (num_val v)"
| "py_lt (PFloat r) v = map_option (\<lambda>y. r < y) (num_val v)"
| "py_lt_list [] ys = Some (ys \<noteq> [])"
| "py_lt_list (x # xs) ys =
     (case ys of [] \<Rightarrow> Some False
      | y # ys' \<Rightarrow> if py_eq x y then py_lt_list xs ys' else py_lt x y)"

definition py_gt :: "pyval \<Rightarrow> pyval \<Rightarrow> bool option" where
  "py_gt v w = py_lt w v"

text \<open>\<open>v <= w\<close> for two values without NaN: comparable, and less or equal.\<close>

definition py_le :: "pyval \<Rightarrow> pyval \<Rightarrow> bool option" where
  "py_le v w = map_option (\<lambda>b. b \<or> py_eq v w) (py_lt v w)"

definition py_ge :: "pyval \<Rightarrow> pyval \<Rightarrow> bool option" where
  "py_ge v w = py_le w v"

definition py_in :: "pyval \<Rightarrow> pyval \<Rightarrow> bool option" where
  "py_in v w =
     (case w of
        PList xs \<Rightarrow> Some (list_ex (\<lambda>x. py_eq x v) xs)
      | PDict d \<Rightarrow> (case v of PStr k \<Rightarrow> Some (k \<in> set (map fst d))
                    | PList _ \<Rightarrow> None | PDict _ \<Rightarrow> None | _ \<Rightarrow> Some False)
      | PStr t \<Rightarrow> (case v of PStr s \<Rightarrow> Some (sublist s t) | _ \<Rightarrow> None)
      | _ \<Rightarrow> None)"

lemma py_eq_refl_list: "(\<And>x. x \<in> set xs \<Longrightarrow> py_eq x x) \<Longrightarrow> py_eq_list xs xs"
  by (induction xs) auto

lemma py_eq_str [simp]: "py_eq v (PStr s) \<longleftrightarrow> v = PStr s"
  by (cases v) auto

lemma py_lt_irrefl_num: "num_val v = Some x \<Longrightarrow> py_lt v v = Some False"
  by (cases v) auto

lemma py_lt_num: "num_val v = Some x \<Longrightarrow> num_val w = Some y \<Longrightarrow> py_lt v w = Some (x < y)"
  by (cases v) auto

lemma py_lt_num_str [simp]: "num_val v \<noteq> None \<Longrightarrow> py_lt v (PStr s) = None"
  by (cases v) auto

lemma str_lt_irrefl: "\<not> str_lt s s"
  by (induction s) auto

end
