(* ===== verification/Exceptions.thy ===== *)
theory Exceptions
  imports PyValue
begin

text \<open>
  The exception hierarchy of \<open>src/core/exceptions.py\<close>: one constructor function per class, each
  doing what its \<open>__init__\<close> does (message, code, HTTP status and details of the base class, and the
  fields a subclass overwrites after calling it), and the subclass relation that \<open>isinstance\<close>
  tests. The exceptions of the language the source raises or provokes are here too.
  A message is a list of parts, the constant and formatted pieces of the f-string; how a number
  is rendered is not modelled.
\<close>

datatype exn_class =
    PyException | PyKeyError | PyValueError | PyTypeError | PyAttributeError | PyNameError
  | PyUnboundLocalError | PyIndexError | PyZeroDivisionError | PyRecursionError | PyTimeoutError
  | CEnterpriseBase | CAuthentication | CAuthorization | CInvalidToken | CMFARequired
  | CRateLimitExceeded | CValidation | CResourceNotFound | CBusinessRuleViolation
  | CDuplicateResource | CExternalService | CDatabase | CDAGValidation | CAgentExecution
  | CToolExecution | CBudgetExceeded | CQuotaExceeded | CWorkerExecution

text \<open>The direct base class; \<open>PyException\<close> is the root.\<close>

fun base_class :: "exn_class \<Rightarrow> exn_class" where
  "base_class CAuthentication = CEnterpriseBase"
| "base_class CAuthorization = CEnterpriseBase"
| "base_class CInvalidToken = CAuthentication"
| "base_class CMFARequired = CAuthentication"
| "base_class CRateLimitExceeded = CEnterpriseBase"
| "base_class CValidation = CEnterpriseBase"
| "base_class CResourceNotFound = CEnterpriseBase"
| "base_class CBusinessRuleViolation = CEnterpriseBase"
| "base_class CDuplicateResource = CEnterpriseBase"
| "base_class CExternalService = CEnterpriseBase"
| "base_class CDatabase = CEnterpriseBase"
| "base_class CDAGValidation = CEnterpriseBase"
| "base_class CAgentExecution = CEnterpriseBase"
| "base_class CToolExecution = CEnterpriseBase"
| "base_class CBudgetExceeded = CEnterpriseBase"
| "base_class CWorkerExecution = CEnterpriseBase"
| "base_class PyUnboundLocalError = PyNameError"
| "base_class _ = PyException"

text \<open>The chain of base classes is at most three long.\<close>

definition is_subclass :: "exn_class \<Rightarrow> exn_class \<Rightarrow> bool" where
  "is_subclass c d =
     (d \<in> {c, base_class c, base_class (base_class c), base_class (base_class (base_class c))})"

datatype msg_part = Lit string | Num rat

type_synonym msg = "msg_part list"

record exn =
  ex_class :: exn_class
  ex_message :: msg
  ex_code :: "string option"
  ex_status :: "int option"
  ex_details :: pydict

definition isinstance_exn :: "exn \<Rightarrow> exn_class \<Rightarrow> bool" where
  "isinstance_exn e c = is_subclass (ex_class e) c"

definition py_exn :: "exn_class \<Rightarrow> string \<Rightarrow> exn" where
  "py_exn c m = \<lparr>ex_class = c, ex_message = [Lit m], ex_code = None, ex_status = None, ex_details = []\<rparr>"

abbreviation "KeyErr k \<equiv> py_exn PyKeyError k"
abbreviation "ValueErr m \<equiv> py_exn PyValueError m"
abbreviation "TypeErr \<equiv> py_exn PyTypeError []"
abbreviation "AttributeErr a \<equiv> py_exn PyAttributeError a"
abbreviation "NameErr n \<equiv> py_exn PyNameError n"
abbreviation "RecursionErr \<equiv> py_exn PyRecursionError []"

text \<open>\<open>EnterpriseBaseException.__init__\<close>, and the classes built on it.\<close>

definition EnterpriseBaseException ::
    "exn_class \<Rightarrow> msg \<Rightarrow> string \<Rightarrow> int \<Rightarrow> pydict option \<Rightarrow> exn" where
  "EnterpriseBaseException c m code status details =
     \<lparr>ex_class = c, ex_message = m, ex_code = Some code, ex_status = Some status,
      ex_details = (case details of None \<Rightarrow> [] | Some d \<Rightarrow> d)\<rparr>"

definition details_with :: "pydict option \<Rightarrow> pydict \<Rightarrow> pydict option" where
  "details_with details extra =
     Some (fold (\<lambda>(k, v) d. dict_set k v d) extra (case details of None \<Rightarrow> [] | Some d \<Rightarrow> d))"

definition opt_val :: "('a \<Rightarrow> pyval) \<Rightarrow> 'a option \<Rightarrow> pyval" where
  "opt_val f x = (case x of None \<Rightarrow> PNone | Some y \<Rightarrow> f y)"

definition AuthenticationError :: "msg \<Rightarrow> pydict option \<Rightarrow> exn" where
  "AuthenticationError m d = EnterpriseBaseException CAuthentication m ''AUTHENTICATION_ERROR'' 401 d"

definition AuthorizationError :: "msg \<Rightarrow> pydict option \<Rightarrow> exn" where
  "AuthorizationError m d = EnterpriseBaseException CAuthorization m ''AUTHORIZATION_ERROR'' 403 d"

definition InvalidTokenError :: "msg \<Rightarrow> pydict option \<Rightarrow> exn" where
  "InvalidTokenError m d =
     (AuthenticationError m d)\<lparr>ex_class := CInvalidToken, ex_code := Some ''INVALID_TOKEN''\<rparr>"

definition MFARequiredError :: "msg \<Rightarrow> pydict option \<Rightarrow> exn" where
  "MFARequiredError m d =
     (AuthenticationError m d)\<lparr>ex_class := CMFARequired, ex_code := Some ''MFA_REQUIRED'', ex_status := Some 401\<rparr>"

text \<open>A formatted string with numbers in it, as a value: the list of its parts.\<close>

fun part_val :: "msg_part \<Rightarrow> pyval" where
  "part_val (Lit s) = PStr s"
| "part_val (Num r) = PFloat r"

definition msg_val :: "msg \<Rightarrow> pyval" where
  "msg_val m = (case m of [Lit s] \<Rightarrow> PStr s | _ \<Rightarrow> PList (map part_val m))"

definition RateLimitExceededError ::
    "msg \<Rightarrow> int option \<Rightarrow> msg option \<Rightarrow> pydict option \<Rightarrow> exn" where
  "RateLimitExceededError m retry_after limit d =
     EnterpriseBaseException CRateLimitExceeded m ''RATE_LIMIT_EXCEEDED'' 429
       (details_with d [(''retry_after'', opt_val PInt retry_after),
                        (''limit'', opt_val msg_val limit)])"

definition ValidationError :: "msg \<Rightarrow> pyval list option \<Rightarrow> exn" where
  "ValidationError m errors =
     EnterpriseBaseException CValidation m ''VALIDATION_ERROR'' 422
       (Some [(''errors'', PList (case errors of None \<Rightarrow> [] | Some es \<Rightarrow> es))])"

definition ResourceNotFoundError :: "msg \<Rightarrow> string option \<Rightarrow> exn" where
  "ResourceNotFoundError m rt =
     EnterpriseBaseException CResourceNotFound m ''RESOURCE_NOT_FOUND'' 404
       (Some [(''resource_type'', opt_val PStr rt)])"

definition BusinessRuleViolationError :: "msg \<Rightarrow> string \<Rightarrow> pydict option \<Rightarrow> exn" where
  "BusinessRuleViolationError m rule d =
     EnterpriseBaseException CBusinessRuleViolation m ''BUSINESS_RULE_VIOLATION'' 400
       (details_with d [(''rule'', PStr rule)])"

definition DuplicateResourceError :: "msg \<Rightarrow> pydict option \<Rightarrow> exn" where
  "DuplicateResourceError m d = EnterpriseBaseException CDuplicateResource m ''DUPLICATE_RESOURCE'' 409 d"

definition ExternalServiceError :: "msg \<Rightarrow> string \<Rightarrow> int \<Rightarrow> pydict option \<Rightarrow> exn" where
  "ExternalServiceError m service status d =
     EnterpriseBaseException CExternalService m ''EXTERNAL_SERVICE_ERROR'' status
       (details_with d [(''service'', PStr service)])"

definition DatabaseError :: "msg \<Rightarrow> pydict option \<Rightarrow> exn" where
  "DatabaseError m d = EnterpriseBaseException CDatabase m ''DATABASE_ERROR'' 500 d"

definition DAGValidationError :: "msg \<Rightarrow> string list \<Rightarrow> pydict option \<Rightarrow> exn" where
  "DAGValidationError m errors d =
     EnterpriseBaseException CDAGValidation m ''DAG_VALIDATION_ERROR'' 400
       (details_with d [(''errors'', PList (map PStr errors))])"

definition AgentExecutionError :: "msg \<Rightarrow> string \<Rightarrow> string \<Rightarrow> pydict option \<Rightarrow> exn" where
  "AgentExecutionError m agent task d =
     EnterpriseBaseException CAgentExecution m ''AGENT_EXECUTION_ERROR'' 500
       (details_with d [(''agent'', PStr agent), (''task'', PStr task)])"

definition ToolExecutionError :: "msg \<Rightarrow> string \<Rightarrow> pydict option \<Rightarrow> exn" where
  "ToolExecutionError m tool d =
     EnterpriseBaseException CToolExecution m ''TOOL_EXECUTION_ERROR'' 500
       (details_with d [(''tool'', PStr tool)])"

definition BudgetExceededError :: "msg \<Rightarrow> string \<Rightarrow> pydict option \<Rightarrow> exn" where
  "BudgetExceededError m budget_type d =
     EnterpriseBaseException CBudgetExceeded m ''BUDGET_EXCEEDED'' 402
       (details_with d [(''budget_type'', PStr budget_type)])"

definition QuotaExceededError :: "msg \<Rightarrow> string option \<Rightarrow> exn" where
  "QuotaExceededError m qt =
     \<lparr>ex_class = CQuotaExceeded, ex_message = m, ex_code = None, ex_status = None,
      ex_details = [(''quota_type'', opt_val PStr qt)]\<rparr>"

definition WorkerExecutionError :: "msg \<Rightarrow> string \<Rightarrow> pydict option \<Rightarrow> exn" where
  "WorkerExecutionError m worker_id d =
     EnterpriseBaseException CWorkerExecution m ''WORKER_EXECUTION_ERROR'' 500
       (details_with d [(''worker_id'', PStr worker_id)])"

lemmas exn_ctor_defs =
  AuthenticationError_def AuthorizationError_def InvalidTokenError_def MFARequiredError_def
  RateLimitExceededError_def ValidationError_def ResourceNotFoundError_def
  BusinessRuleViolationError_def DuplicateResourceError_def ExternalServiceError_def
  DatabaseError_def DAGValidationError_def AgentExecutionError_def ToolExecutionError_def
  BudgetExceededError_def QuotaExceededError_def WorkerExecutionError_def
  EnterpriseBaseException_def

lemma is_subclass_refl: "is_subclass c c"
  by (simp add: is_subclass_def)

lemma is_subclass_root: "is_subclass c PyException"
  by (cases c) (simp_all add: is_subclass_def)

lemma is_subclass_trans: "is_subclass a b \<Longrightarrow> is_subclass b c \<Longrightarrow> is_subclass a c"
  by (cases a; simp add: is_subclass_def; elim disjE; simp)

lemma ex_class_ctor [simp]:
  "ex_class (py_exn c s) = c"
  "ex_class (DAGValidationError m es d) = CDAGValidation"
  "ex_class (ToolExecutionError m t d) = CToolExecution"
  "ex_class (BudgetExceededError m bt d) = CBudgetExceeded"
  "ex_class (QuotaExceededError m qt) = CQuotaExceeded"
  "ex_class (RateLimitExceededError m ra l d) = CRateLimitExceeded"
  "ex_class (WorkerExecutionError m w d) = CWorkerExecution"
  by (simp_all add: exn_ctor_defs py_exn_def)

end
