(* ===== verification/Dag.thy ===== *)
theory Dag
  imports Exceptions
begin

text \<open>
  The execution plan of \<open>src/models/dag.py\<close>: task nodes, the DAG and its operations
  (\<open>add_node\<close>, \<open>add_edge\<close> with its cycle guard, the critical path, the execution levels).
  Python's recursion limit is the parameter \<open>rlim\<close> of the recursive functions: where the
  source would recurse deeper, the model returns \<open>RecursionError\<close>.
\<close>

section \<open>Data\<close>

datatype task_status =
  TS_PENDING | TS_RUNNING | TS_COMPLETED | TS_FAILED | TS_SKIPPED | TS_RETRYING | TS_BLOCKED | TS_TIMEOUT

datatype task_type =
  TT_SCAN | TT_RECON | TT_EXPLOIT | TT_ANALYSIS | TT_REPORT | TT_VALIDATION | TT_CUSTOM

datatype agent_capability =
    PLANNING | VERIFICATION | EXECUTION | VALIDATION | REPORTING | EXPLOIT
  | NETWORK_SCAN | PORT_SCAN | VULN_SCAN | WEB_SCAN | CODE_ANALYSIS | SECRET_DETECTION
  | MALWARE_ANALYSIS | FORENSICS | SOCIAL_ENGINEERING | CLOUD_SCAN | CONTAINER_SCAN | API_SCAN
  | SERVICE_DETECTION | OS_DETECTION | VERSION_DETECTION | DNS_ENUMERATION | SUBDOMAIN_ENUM
  | SQL_INJECTION

fun task_type_value :: "task_type \<Rightarrow> string" where
  "task_type_value TT_SCAN = ''SCAN''"
| "task_type_value TT_RECON = ''RECON''"
| "task_type_value TT_EXPLOIT = ''EXPLOIT''"
| "task_type_value TT_ANALYSIS = ''ANALYSIS''"
| "task_type_value TT_REPORT = ''REPORT''"
| "task_type_value TT_VALIDATION = ''VALIDATION''"
| "task_type_value TT_CUSTOM = ''CUSTOM''"

record task_node =
  tn_task_id :: string
  tn_name :: string
  tn_description :: "string option"
  tn_task_type :: task_type
  tn_required_capabilities :: "agent_capability list"
  tn_dependencies :: "string list"
  tn_parallel_with :: "string list"
  tn_parameters :: pydict
  tn_timeout_seconds :: "int option"
  tn_retry_config :: pydict
  tn_resource_requirements :: pydict
  tn_estimated_cost :: rat
  tn_estimated_duration_seconds :: "int option"
  tn_status :: task_status
  tn_assigned_agent :: "string option"
  tn_assigned_tool :: "string option"
  tn_start_time :: "time option"
  tn_end_time :: "time option"
  tn_actual_cost :: rat
  tn_result :: "pyval option"
  tn_error :: "pyval option"
  tn_metadata :: pydict

type_synonym edges = "(string \<times> string) list"

record dag =
  dg_dag_id :: string
  dg_process_id :: string
  dg_goal :: string
  dg_target :: "string option"
  dg_nodes :: "(string, task_node) dict"
  dg_edges :: edges
  dg_created_at :: time
  dg_updated_at :: time
  dg_version :: int
  dg_is_validated :: bool
  dg_total_tasks :: int
  dg_estimated_total_cost :: rat
  dg_estimated_total_duration :: "int option"
  dg_critical_path :: "string list"
  dg_context :: pydict
  dg_tags :: "(string, string) dict"

text \<open>
  The defaults of \<open>TaskNode\<close> and \<open>DAG\<close> for the fields a caller leaves out, and the field
  constraints pydantic enforces on construction, with \<open>prevent_self_dependency\<close>.
\<close>

definition new_task_node :: "string \<Rightarrow> string \<Rightarrow> task_type \<Rightarrow> agent_capability list \<Rightarrow> task_node" where
  "new_task_node tid name tt caps =
     \<lparr>tn_task_id = tid, tn_name = name, tn_description = None, tn_task_type = tt,
      tn_required_capabilities = caps, tn_dependencies = [], tn_parallel_with = [],
      tn_parameters = [], tn_timeout_seconds = Some 300,
      tn_retry_config = [(''max_retries'', PInt 3), (''backoff_factor'', PInt 2),
        (''max_backoff'', PInt 60), (''retry_on'', PList [PInt 500, PInt 503, PInt 504])],
      tn_resource_requirements = [(''cpu'', PStr ''0.5''), (''memory'', PStr ''512Mi''),
        (''disk'', PStr ''1Gi''), (''network'', PStr ''low'')],
      tn_estimated_cost = 0, tn_estimated_duration_seconds = None, tn_status = TS_PENDING,
      tn_assigned_agent = None, tn_assigned_tool = None, tn_start_time = None,
      tn_end_time = None, tn_actual_cost = 0, tn_result = None, tn_error = None,
      tn_metadata = []\<rparr>"

definition prevent_self_dependency :: "string \<Rightarrow> string list \<Rightarrow> exn + string list" where
  "prevent_self_dependency task_id v =
     (if task_id \<in> set v then Inl (ValueErr (''Task cannot depend on itself: '' @ task_id)) else Inr v)"

definition validate_task_node :: "task_node \<Rightarrow> exn + task_node" where
  "validate_task_node n =
     rbind (prevent_self_dependency (tn_task_id n) (tn_dependencies n)) (\<lambda>_.
       if (case tn_timeout_seconds n of None \<Rightarrow> False | Some t \<Rightarrow> t < 0)
       then Inl (ValueErr ''timeout_seconds'')
       else if tn_estimated_cost n < 0 then Inl (ValueErr ''estimated_cost'')
       else Inr n)"

definition new_dag :: "string \<Rightarrow> string \<Rightarrow> string \<Rightarrow> string option \<Rightarrow> time \<Rightarrow> dag" where
  "new_dag did pid goal target now =
     \<lparr>dg_dag_id = did, dg_process_id = pid, dg_goal = goal, dg_target = target, dg_nodes = [],
      dg_edges = [], dg_created_at = now, dg_updated_at = now, dg_version = 1,
      dg_is_validated = False, dg_total_tasks = 0, dg_estimated_total_cost = 0,
      dg_estimated_total_duration = None, dg_critical_path = [], dg_context = [], dg_tags = []\<rparr>"

section \<open>Topological sort\<close>

definition outgoing :: "edges \<Rightarrow> string \<Rightarrow> string list" where
  "outgoing es n = map snd (filter (\<lambda>e. fst e = n) es)"

definition incoming :: "edges \<Rightarrow> string \<Rightarrow> string list" where
  "incoming es n = map fst (filter (\<lambda>e. snd e = n) es)"

text \<open>\<open>in_degree[edge["to"]] += 1\<close> for every edge.\<close>

definition incr_degree :: "string \<times> string \<Rightarrow> (string, int) dict \<Rightarrow> exn + (string, int) dict" where
  "incr_degree e d =
     (case dict_get d (snd e) of None \<Rightarrow> Inl (KeyErr (snd e)) | Some n \<Rightarrow> Inr (dict_set (snd e) (n + 1) d))"

definition in_degrees :: "string list \<Rightarrow> edges \<Rightarrow> exn + (string, int) dict" where
  "in_degrees ns es = foldM_e incr_degree es (map (\<lambda>n. (n, 0)) ns)"

text \<open>The inner loop: decrement the successors of the popped task, queue those that reach 0.\<close>

definition relax_degree ::
    "string \<Rightarrow> (string, int) dict \<times> string list \<Rightarrow> exn + (string, int) dict \<times> string list" where
  "relax_degree v s =
     (case s of (d, q) \<Rightarrow>
       (case dict_get d v of None \<Rightarrow> Inl (KeyErr v)
        | Some n \<Rightarrow> Inr (dict_set v (n - 1) d, if n - 1 = 0 then q @ [v] else q)))"

definition degree_sum :: "(string, int) dict \<Rightarrow> nat" where
  "degree_sum d = sum_list (map (\<lambda>kv. nat (snd kv)) d)"

lemma degree_sum_Cons [simp]: "degree_sum ((k, n) # d) = nat n + degree_sum d"
  by (simp add: degree_sum_def)

lemma degree_sum_set:
  "dict_get d k = Some n \<Longrightarrow> degree_sum (dict_set k m d) + nat n = degree_sum d + nat m"
proof (induction d)
  case Nil
  then show ?case by simp
next
  case (Cons kv d)
  obtain k' n' where kv: "kv = (k', n')" by force
  show ?case
  proof (cases "k' = k")
    case True
    with Cons.prems kv show ?thesis by (simp add: dict_get_Cons dict_set_def)
  next
    case False
    with Cons.prems kv have "dict_get d k = Some n" by (simp add: dict_get_Cons)
    from Cons.IH [OF this] False kv show ?thesis by (simp add: dict_set_def)
  qed
qed

lemma relax_degree_measure:
  "relax_degree v (d, q) = Inr (d', q') \<Longrightarrow> degree_sum d' + length q' \<le> degree_sum d + length q"
  using degree_sum_set [of d v _ "the (dict_get d v) - 1"]
  by (fastforce simp: relax_degree_def split: option.splits if_splits)

lemma foldM_relax_measure:
  "foldM_e relax_degree vs (d, q) = Inr (d', q') \<Longrightarrow> degree_sum d' + length q' \<le> degree_sum d + length q"
proof (induction vs arbitrary: d q)
  case Nil
  then show ?case by simp
next
  case (Cons v vs)
  from Cons.prems obtain d1 q1 where
      step: "relax_degree v (d, q) = Inr (d1, q1)" and "foldM_e relax_degree vs (d1, q1) = Inr (d', q')"
    by (auto split: sum.splits)
  with Cons.IH have "degree_sum d' + length q' \<le> degree_sum d1 + length q1" by blast
  with relax_degree_measure [OF step] show ?case by linarith
qed

function topo_loop ::
    "edges \<Rightarrow> string list \<Rightarrow> (string, int) dict \<Rightarrow> string list \<Rightarrow> exn + string list" where
  "topo_loop es [] d out = Inr out"
| "topo_loop es (t # q) d out =
     (case foldM_e relax_degree (outgoing es t) (d, q) of
        Inl e \<Rightarrow> Inl e
      | Inr (d', q') \<Rightarrow> topo_loop es q' d' (out @ [t]))"
  by pat_completeness auto
termination
  by (relation "measure (\<lambda>(es, q, d, out). degree_sum d + length q)")
     (auto dest!: foldM_relax_measure)

definition topological_sort :: "string list \<Rightarrow> edges \<Rightarrow> exn + string list" where
  "topological_sort ns es =
     rbind (in_degrees ns es) (\<lambda>d. topo_loop es (map fst (filter (\<lambda>kv. snd kv = 0) d)) d [])"

section \<open>Critical path\<close>

text \<open>A distance is an integer or \<open>float('-inf')\<close>, which is \<open>None\<close>.\<close>

type_synonym distance = "int option"

fun dist_lt :: "distance \<Rightarrow> distance \<Rightarrow> bool" where
  "dist_lt _ None = False"
| "dist_lt None (Some _) = True"
| "dist_lt (Some x) (Some y) = (x < y)"

definition duration_of :: "task_node \<Rightarrow> int" where
  "duration_of n = (case tn_estimated_duration_seconds n of None \<Rightarrow> 0 | Some k \<Rightarrow> k)"

type_synonym path_state = "(string, distance) dict \<times> (string, string option) dict"

definition init_path_state :: "string list \<Rightarrow> edges \<Rightarrow> path_state" where
  "init_path_state ns es =
     (map (\<lambda>n. (n, if list_ex (\<lambda>e. snd e = n) es then None else Some 0)) ns,
      map (\<lambda>n. (n, None)) ns)"

definition relax_edge ::
    "(string, task_node) dict \<Rightarrow> string \<Rightarrow> string \<Rightarrow> path_state \<Rightarrow> exn + path_state" where
  "relax_edge nodes t v s =
     (case s of (dst, parent) \<Rightarrow>
       (case dict_get nodes v of None \<Rightarrow> Inl (KeyErr v)
        | Some n \<Rightarrow>
          (case dict_get dst v of None \<Rightarrow> Inl (KeyErr v)
           | Some dv \<Rightarrow>
             (case dict_get dst t of None \<Rightarrow> Inl (KeyErr t)
              | Some dt \<Rightarrow>
                (let c = map_option (\<lambda>x. x + duration_of n) dt
                 in if dist_lt dv c then Inr (dict_set v c dst, dict_set v (Some t) parent)
                    else Inr (dst, parent))))))"

definition relax_task ::
    "(string, task_node) dict \<Rightarrow> edges \<Rightarrow> string \<Rightarrow> path_state \<Rightarrow> exn + path_state" where
  "relax_task nodes es t s = foldM_e (relax_edge nodes t) (outgoing es t) s"

text \<open>\<open>max(dist.items(), key=lambda x: x[1])\<close>: the first of the largest.\<close>

fun max_item :: "string \<times> distance \<Rightarrow> (string \<times> distance) list \<Rightarrow> string \<times> distance" where
  "max_item x [] = x"
| "max_item x (y # ys) = max_item (if dist_lt (snd x) (snd y) then y else x) ys"

text \<open>
  \<open>while current: path.append(current); current = parent[current]\<close>. The loop stops on \<open>None\<close>
  and on the empty string; it has no bound of its own, so a run that does not end is \<open>None\<close>.
\<close>

partial_function (option) follow_parents ::
    "(string, string option) dict \<Rightarrow> string option \<Rightarrow> string list \<Rightarrow> (exn + string list) option" where
  "follow_parents parent current path =
     (case current of None \<Rightarrow> Some (Inr path)
      | Some c \<Rightarrow>
        if c = [] then Some (Inr path)
        else (case dict_get parent c of None \<Rightarrow> Some (Inl (KeyErr c))
              | Some p \<Rightarrow> follow_parents parent p (path @ [c])))"

definition find_critical_path ::
    "(string, task_node) dict \<Rightarrow> edges \<Rightarrow> (exn + string list) option" where
  "find_critical_path nodes es =
     (case topological_sort (dict_keys nodes) es of
        Inl e \<Rightarrow> Some (Inl e)
      | Inr topo \<Rightarrow>
        (case foldM_e (relax_task nodes es) topo (init_path_state (dict_keys nodes) es) of
           Inl e \<Rightarrow> Some (Inl e)
         | Inr (dst, parent) \<Rightarrow>
           (case dst of
              [] \<Rightarrow> Some (Inl (ValueErr ''max() arg is an empty sequence''))
            | x # xs \<Rightarrow>
              map_option (map_sum id rev) (follow_parents parent (Some (fst (max_item x xs))) []))))"

section \<open>Operations\<close>

text \<open>
  A method that mutates the DAG returns the DAG as it is left behind, with the exception if it
  raised; \<open>None\<close> stands for a call that does not return.
\<close>

type_synonym dag_result = "(dag \<times> exn option) option"

definition update_estimates :: "dag \<Rightarrow> dag_result" where
  "update_estimates d =
     (let d1 = d\<lparr>dg_estimated_total_cost := sum_list (map tn_estimated_cost (dict_values (dg_nodes d)))\<rparr>
      in map_option
           (\<lambda>r. case r of Inl e \<Rightarrow> (d1, Some e) | Inr p \<Rightarrow> (d1\<lparr>dg_critical_path := p\<rparr>, None))
           (find_critical_path (dg_nodes d) (dg_edges d)))"

definition add_node :: "task_node \<Rightarrow> dag \<Rightarrow> dag_result" where
  "add_node n d =
     (if dict_has (dg_nodes d) (tn_task_id n)
      then Some (d, Some (ValueErr (''Node '' @ tn_task_id n @ '' already exists'')))
      else let nodes = dict_set (tn_task_id n) n (dg_nodes d)
           in update_estimates (d\<lparr>dg_nodes := nodes, dg_total_tasks := int (length nodes)\<rparr>))"

text \<open>The nested \<open>dfs\<close> of \<open>_would_create_cycle\<close>; \<open>vis\<close> is the shared visited set.\<close>

primrec cycle_dfs :: "nat \<Rightarrow> edges \<Rightarrow> string \<Rightarrow> string \<Rightarrow> string list \<Rightarrow> exn + (bool \<times> string list)" where
  "cycle_dfs 0 es to_task n vis = Inl RecursionErr"
| "cycle_dfs (Suc k) es to_task n vis =
     (if n \<in> set vis then Inr (n = to_task, vis)
      else any_se (cycle_dfs k es to_task) (outgoing es n) (n # vis))"

definition would_create_cycle :: "nat \<Rightarrow> edges \<Rightarrow> string \<Rightarrow> string \<Rightarrow> exn + bool" where
  "would_create_cycle rlim es from_task to_task =
     map_sum id fst (cycle_dfs rlim es to_task from_task [])"

definition add_edge :: "nat \<Rightarrow> string \<Rightarrow> string \<Rightarrow> dag \<Rightarrow> dag_result" where
  "add_edge rlim from_task to_task d =
     (if \<not> dict_has (dg_nodes d) from_task \<or> \<not> dict_has (dg_nodes d) to_task
      then Some (d, Some (ValueErr ''Both tasks must exist in DAG''))
      else (case would_create_cycle rlim (dg_edges d) from_task to_task of
          Inl e \<Rightarrow> Some (d, Some e)
        | Inr True \<Rightarrow>
            Some (d, Some (ValueErr (''Adding edge '' @ from_task @ ''->'' @ to_task @ '' would create a cycle'')))
        | Inr False \<Rightarrow>
            update_estimates
              (d\<lparr>dg_edges := dg_edges d @ [(from_task, to_task)],
                 dg_nodes := dict_mod to_task
                   (\<lambda>n. n\<lparr>tn_dependencies := tn_dependencies n @ [from_task]\<rparr>) (dg_nodes d)\<rparr>)))"

section \<open>Execution levels\<close>

text \<open>The nested, memoised \<open>get_level\<close>; \<open>lv\<close> is the \<open>levels\<close> dictionary.\<close>

type_synonym levels = "(string, nat) dict"

primrec get_level :: "nat \<Rightarrow> edges \<Rightarrow> string \<Rightarrow> levels \<Rightarrow> exn + (nat \<times> levels)" where
  "get_level 0 es t lv = Inl RecursionErr"
| "get_level (Suc k) es t lv =
     (case dict_get lv t of
        Some l \<Rightarrow> Inr (l, lv)
      | None \<Rightarrow>
        (let deps = incoming es t
         in if deps = [] then Inr (0, dict_set t 0 lv)
            else (case mapM_se (get_level k es) deps lv of
                Inl e \<Rightarrow> Inl e
              | Inr (ls, lv') \<Rightarrow>
                (let level = Max (set ls) + 1 in Inr (level, dict_set t level lv')))))"

definition all_levels :: "nat \<Rightarrow> edges \<Rightarrow> string list \<Rightarrow> exn + levels" where
  "all_levels rlim es ns = map_sum id snd (mapM_se (get_level rlim es) ns [])"

definition group_levels :: "levels \<Rightarrow> string list list" where
  "group_levels lv =
     map (\<lambda>i. map fst (filter (\<lambda>tl. snd tl = i) lv)) [0..<Max (set (map snd lv)) + 1]"

definition get_execution_order :: "nat \<Rightarrow> dag \<Rightarrow> exn + string list list" where
  "get_execution_order rlim d =
     rbind (all_levels rlim (dg_edges d) (dict_keys (dg_nodes d))) (\<lambda>lv.
       if lv = [] then Inl (ValueErr ''max() arg is an empty sequence'')
       else Inr (group_levels lv))"

end
