(* ===== verification/DagOrder.thy ===== *)
theory DagOrder
  imports Dag
begin

text \<open>
  The execution levels of a DAG (\<open>get_level\<close>, \<open>get_execution_order\<close>): what a successful
  computation returns, when it succeeds, and that a cycle makes it raise. The same nested
  function is used by the DAG validator, so these lemmas serve both.
\<close>

section \<open>The edge relation\<close>

lemma set_incoming [simp]: "set (incoming es t) = {u. (u, t) \<in> set es}"
  by (force simp: incoming_def)

lemma set_outgoing [simp]: "set (outgoing es t) = {v. (t, v) \<in> set es}"
  by (force simp: outgoing_def)

lemma incoming_Nil_iff: "incoming es t = [] \<longleftrightarrow> (\<forall>u. (u, t) \<notin> set es)"
  by (metis (no_types, lifting) empty_Collect_eq set_empty set_incoming)

definition edges_within :: "string set \<Rightarrow> edges \<Rightarrow> bool" where
  "edges_within N es = (\<forall>(u, v) \<in> set es. u \<in> N \<and> v \<in> N)"

lemma edges_withinD: "edges_within N es \<Longrightarrow> (u, v) \<in> set es \<Longrightarrow> u \<in> N \<and> v \<in> N"
  by (auto simp: edges_within_def)

lemma edges_within_trancl: "edges_within N es \<Longrightarrow> (u, v) \<in> (set es)\<^sup>+ \<Longrightarrow> u \<in> N \<and> v \<in> N"
  by (metis edges_withinD tranclD tranclD2)

section \<open>What a successful level computation leaves in the table\<close>

definition levels_le :: "levels \<Rightarrow> levels \<Rightarrow> bool" where
  "levels_le lv lv' = (\<forall>t l. dict_get lv t = Some l \<longrightarrow> dict_get lv' t = Some l)"

lemma levels_le_refl [simp]: "levels_le lv lv"
  by (simp add: levels_le_def)

lemma levels_le_trans: "levels_le a b \<Longrightarrow> levels_le b c \<Longrightarrow> levels_le a c"
  by (simp add: levels_le_def)

definition level_from :: "nat list \<Rightarrow> nat" where
  "level_from ls = (if ls = [] then 0 else Max (set ls) + 1)"

text \<open>Every recorded level is one more than the largest level of its predecessors.\<close>

definition levels_ok :: "edges \<Rightarrow> levels \<Rightarrow> bool" where
  "levels_ok es lv = (\<forall>t l. dict_get lv t = Some l \<longrightarrow>
     (\<exists>ls. map (dict_get lv) (incoming es t) = map Some ls \<and> l = level_from ls))"

definition levels_inv :: "string set \<Rightarrow> edges \<Rightarrow> levels \<Rightarrow> bool" where
  "levels_inv N es lv \<longleftrightarrow> levels_ok es lv \<and> dict_ok lv \<and> set (dict_keys lv) \<subseteq> N"

lemma levels_inv_Nil [simp]: "levels_inv N es []"
  by (simp add: levels_inv_def levels_ok_def dict_keys_def)

lemma map_get_mono:
  "map (dict_get lv) ts = map Some ls \<Longrightarrow> levels_le lv lv' \<Longrightarrow> map (dict_get lv') ts = map Some ls"
proof (induction ts arbitrary: ls)
  case Nil
  then show ?case by simp
next
  case (Cons t ts)
  then show ?case by (cases ls) (auto simp: levels_le_def)
qed

lemma levels_set:
  assumes inv: "levels_inv N es lv" and t: "t \<in> N"
    and ls: "map (dict_get lv) (incoming es t) = map Some ls"
  shows "levels_inv N es (dict_set t (level_from ls) lv) \<and> levels_le lv (dict_set t (level_from ls) lv)"
proof -
  have le: "levels_le lv (dict_set t (level_from ls) lv)"
    unfolding levels_le_def
  proof (intro allI impI)
    fix x l
    assume x: "dict_get lv x = Some l"
    show "dict_get (dict_set t (level_from ls) lv) x = Some l"
    proof (cases "x = t")
      case True
      with x inv obtain ls' where "map (dict_get lv) (incoming es t) = map Some ls'" "l = level_from ls'"
        by (auto simp: levels_inv_def levels_ok_def)
      with ls have "ls' = ls" by (metis inj_Some inj_map_eq_map)
      with True \<open>l = level_from ls'\<close> show ?thesis by simp
    next
      case False
      with x show ?thesis by simp
    qed
  qed
  have "levels_ok es (dict_set t (level_from ls) lv)"
    unfolding levels_ok_def
  proof (intro allI impI)
    fix x l
    assume x: "dict_get (dict_set t (level_from ls) lv) x = Some l"
    show "\<exists>ls'. map (dict_get (dict_set t (level_from ls) lv)) (incoming es x) = map Some ls' \<and> l = level_from ls'"
    proof (cases "x = t")
      case True
      with x map_get_mono [OF ls le] show ?thesis by auto
    next
      case False
      with x have "dict_get lv x = Some l" by simp
      with inv obtain ls' where "map (dict_get lv) (incoming es x) = map Some ls'" "l = level_from ls'"
        by (auto simp: levels_inv_def levels_ok_def)
      with map_get_mono [OF _ le] show ?thesis by blast
    qed
  qed
  with le inv t show ?thesis by (auto simp: levels_inv_def)
qed

lemma mapM_levels:
  assumes f: "\<And>t lv l lv'. t \<in> set ts \<Longrightarrow> f t lv = Inr (l, lv') \<Longrightarrow> levels_inv N es lv \<Longrightarrow>
        levels_inv N es lv' \<and> levels_le lv lv' \<and> dict_get lv' t = Some l"
    and "mapM_se f ts lv = Inr (ls, lv')" and "levels_inv N es lv"
  shows "levels_inv N es lv' \<and> levels_le lv lv' \<and> map (dict_get lv') ts = map Some ls"
  using assms
proof (induction ts arbitrary: lv ls lv')
  case Nil
  then show ?case by simp
next
  case (Cons t ts)
  from Cons.prems(2) obtain l lv1 ls1 where
      1: "f t lv = Inr (l, lv1)" and 2: "mapM_se f ts lv1 = Inr (ls1, lv')" and ls: "ls = l # ls1"
    by (auto split: sum.splits)
  from Cons.prems(1) [OF _ 1 Cons.prems(3)]
  have s1: "levels_inv N es lv1" "levels_le lv lv1" "dict_get lv1 t = Some l" by auto
  have s2: "levels_inv N es lv' \<and> levels_le lv1 lv' \<and> map (dict_get lv') ts = map Some ls1"
    by (rule Cons.IH [OF _ 2 s1(1)]) (use Cons.prems(1) in auto)
  with s1 ls show ?case by (auto intro: levels_le_trans simp: levels_le_def)
qed

lemma get_level_spec:
  assumes "edges_within N es" and "t \<in> N"
    and "get_level k es t lv = Inr (l, lv')" and "levels_inv N es lv"
  shows "levels_inv N es lv' \<and> levels_le lv lv' \<and> dict_get lv' t = Some l"
  using assms
proof (induction k arbitrary: t lv l lv')
  case 0
  then show ?case by simp
next
  case (Suc k)
  show ?case
  proof (cases "dict_get lv t")
    case (Some l0)
    with Suc.prems show ?thesis by auto
  next
    case None
    show ?thesis
    proof (cases "incoming es t = []")
      case True
      with Suc.prems None have eq: "l = 0" "lv' = dict_set t 0 lv" by auto
      have "map (dict_get lv) (incoming es t) = map Some []" using True by simp
      from levels_set [OF Suc.prems(4,2) this] eq show ?thesis
        by (simp add: level_from_def)
    next
      case False
      with Suc.prems(3) None obtain ls lv1 where
          m: "mapM_se (get_level k es) (incoming es t) lv = Inr (ls, lv1)"
          and l: "l = Max (set ls) + 1" and lv': "lv' = dict_set t l lv1"
        by (auto simp: Let_def split: sum.splits)
      have s: "levels_inv N es lv1 \<and> levels_le lv lv1 \<and> map (dict_get lv1) (incoming es t) = map Some ls"
      proof (rule mapM_levels [OF _ m Suc.prems(4)])
        fix u lv l lv'
        assume "u \<in> set (incoming es t)" "get_level k es u lv = Inr (l, lv')" "levels_inv N es lv"
        with Suc.IH Suc.prems(1) show "levels_inv N es lv' \<and> levels_le lv lv' \<and> dict_get lv' u = Some l"
          by (auto dest: edges_withinD)
      qed
      with False have "ls \<noteq> []" by auto
      with l have "l = level_from ls" by (simp add: level_from_def)
      with s levels_set [of N es lv1 t ls] Suc.prems(2) lv' show ?thesis
        by (auto intro: levels_le_trans)
    qed
  qed
qed

lemma all_levels_spec:
  assumes "edges_within N es" and "set ns \<subseteq> N" and "all_levels rlim es ns = Inr lv"
  shows "levels_inv N es lv \<and> (\<forall>t \<in> set ns. dict_has lv t)"
proof -
  from assms(3) obtain ls where m: "mapM_se (get_level rlim es) ns [] = Inr (ls, lv)"
    by (auto simp: all_levels_def map_sum_def split: sum.splits)
  have "levels_inv N es lv \<and> levels_le [] lv \<and> map (dict_get lv) ns = map Some ls"
    by (rule mapM_levels [OF _ m]) (use assms get_level_spec in \<open>auto\<close>)
  moreover have "dict_has lv t" if "t \<in> set ns" and "map (dict_get lv) ns = map Some ls" for t
  proof -
    from that(1) have "dict_get lv t \<in> set (map (dict_get lv) ns)" by simp
    with that(2) show ?thesis by (auto simp: dict_has_def)
  qed
  ultimately show ?thesis by blast
qed

section \<open>A level grows along every edge, so a cycle has no level\<close>

lemma level_edge:
  assumes "levels_ok es lv" and "(u, t) \<in> set es" and "dict_get lv t = Some l"
  shows "\<exists>lu < l. dict_get lv u = Some lu"
proof -
  from assms obtain ls where ls: "map (dict_get lv) (incoming es t) = map Some ls" and l: "l = level_from ls"
    by (auto simp: levels_ok_def)
  from assms(2) have "dict_get lv u \<in> set (map (dict_get lv) (incoming es t))" by simp
  with ls obtain lu where lu: "lu \<in> set ls" "dict_get lv u = Some lu" by auto
  then have "lu < l" by (auto simp: l level_from_def le_imp_less_Suc)
  with lu show ?thesis by blast
qed

lemma level_path:
  assumes ok: "levels_ok es lv" and "(u, t) \<in> (set es)\<^sup>+" and "dict_get lv t = Some l"
  shows "\<exists>lu < l. dict_get lv u = Some lu"
  using assms(2,3)
proof (induction arbitrary: l rule: trancl_induct)
  case (base y)
  then show ?case using level_edge [OF ok] by blast
next
  case (step y z)
  then obtain ly where "ly < l" "dict_get lv y = Some ly" using level_edge [OF ok] by blast
  with step.IH show ?case by (meson less_trans)
qed

lemma no_level_on_cycle: "levels_ok es lv \<Longrightarrow> (t, t) \<in> (set es)\<^sup>+ \<Longrightarrow> dict_get lv t = None"
  using level_path [of es lv t t] by (cases "dict_get lv t") fastforce+

lemma mapM_se_error:
  "mapM_se f xs s = Inl e \<Longrightarrow> \<exists>x \<in> set xs. \<exists>s'. f x s' = Inl e"
  by (induction xs arbitrary: s) (fastforce split: sum.splits)+

lemma get_level_error: "get_level k es t lv = Inl e \<Longrightarrow> e = RecursionErr"
proof (induction k arbitrary: t lv)
  case 0
  then show ?case by simp
next
  case (Suc k)
  then show ?case by (auto simp: Let_def split: option.splits if_splits sum.splits dest!: mapM_se_error)
qed

lemma all_levels_error: "all_levels rlim es ns = Inl e \<Longrightarrow> e = RecursionErr"
  by (auto simp: all_levels_def map_sum_def split: sum.splits dest!: mapM_se_error get_level_error)

lemma all_levels_cycle:
  assumes "edges_within (set ns) es" and "(t, t) \<in> (set es)\<^sup>+"
  shows "all_levels rlim es ns = Inl RecursionErr"
proof (cases "all_levels rlim es ns")
  case (Inl e)
  then show ?thesis using all_levels_error by blast
next
  case (Inr lv)
  from edges_within_trancl [OF assms] have "t \<in> set ns" by simp
  with all_levels_spec [OF assms(1) subset_refl Inr] no_level_on_cycle [OF _ assms(2)] show ?thesis
    by (auto simp: levels_inv_def dict_has_def)
qed

section \<open>An acyclic graph has levels, given enough stack\<close>

lemma mapM_se_total:
  assumes "\<And>x s. x \<in> set xs \<Longrightarrow> \<exists>y s'. f x s = Inr (y, s')"
  shows "\<exists>ys s'. mapM_se f xs s = Inr (ys, s')"
  using assms
proof (induction xs arbitrary: s)
  case Nil
  then show ?case by simp
next
  case (Cons x xs)
  then obtain y s1 where 1: "f x s = Inr (y, s1)" by (metis list.set_intros(1))
  with Cons obtain ys s2 where "mapM_se f xs s1 = Inr (ys, s2)" by (meson list.set_intros(2))
  with 1 show ?case by simp
qed

lemma finite_ancestors: "finite {u. (u, t) \<in> (set es)\<^sup>+}"
proof (rule finite_subset)
  show "{u. (u, t) \<in> (set es)\<^sup>+} \<subseteq> fst ` set es"
    by (force dest: tranclD)
qed simp

lemma ancestors_smaller:
  assumes "acyclic (set es)" and "(u, t) \<in> set es"
  shows "card {w. (w, u) \<in> (set es)\<^sup>+} < card {w. (w, t) \<in> (set es)\<^sup>+}"
proof (rule psubset_card_mono [OF finite_ancestors])
  have "u \<notin> {w. (w, u) \<in> (set es)\<^sup>+}" using assms(1) by (simp add: acyclic_def)
  then show "{w. (w, u) \<in> (set es)\<^sup>+} \<subset> {w. (w, t) \<in> (set es)\<^sup>+}"
    using assms(2) by (auto intro: trancl_into_trancl)
qed

lemma get_level_total:
  assumes "acyclic (set es)" and "card {u. (u, t) \<in> (set es)\<^sup>+} < k"
  shows "\<exists>l lv'. get_level k es t lv = Inr (l, lv')"
  using assms(2)
proof (induction k arbitrary: t lv)
  case 0
  then show ?case by simp
next
  case (Suc k)
  have "\<exists>ls lv'. mapM_se (get_level k es) (incoming es t) lv = Inr (ls, lv')"
  proof (rule mapM_se_total)
    fix u lv
    assume "u \<in> set (incoming es t)"
    with ancestors_smaller [OF assms(1), of u t] Suc.prems
    have "card {w. (w, u) \<in> (set es)\<^sup>+} < k" by simp
    then show "\<exists>l lv'. get_level k es u lv = Inr (l, lv')" by (rule Suc.IH)
  qed
  then show ?case by (auto simp: Let_def split: option.split)
qed

lemma all_levels_total:
  assumes "acyclic (set es)" and "edges_within (set ns) es" and "length ns \<le> rlim"
  shows "\<exists>lv. all_levels rlim es ns = Inr lv"
proof -
  have "\<exists>ls lv. mapM_se (get_level rlim es) ns [] = Inr (ls, lv)"
  proof (rule mapM_se_total)
    fix t lv
    assume t: "t \<in> set ns"
    have "{u. (u, t) \<in> (set es)\<^sup>+} \<subset> set ns"
      using assms(1,2) t by (auto simp: acyclic_def dest: edges_within_trancl)
    then have "card {u. (u, t) \<in> (set es)\<^sup>+} < card (set ns)" by (simp add: psubset_card_mono)
    then have "card {u. (u, t) \<in> (set es)\<^sup>+} < rlim"
      using assms(3) card_length [of ns] by linarith
    then show "\<exists>l lv'. get_level rlim es t lv = Inr (l, lv')"
      by (rule get_level_total [OF assms(1)])
  qed
  then show ?thesis by (auto simp: all_levels_def)
qed

section \<open>Grouping by level\<close>

lemma set_group_level: "fst ` {x \<in> set lv. snd x = i} = {t. (t, i) \<in> set lv}"
  by force

lemma group_levels_nth:
  "i < length (group_levels lv) \<Longrightarrow> set (group_levels lv ! i) = {t. (t, i) \<in> set lv}"
  unfolding group_levels_def by (simp add: set_group_level del: upt_Suc)

lemma level_in_range: "(t, i) \<in> set lv \<Longrightarrow> i < length (group_levels lv)"
  by (force simp: group_levels_def less_Suc_eq_le intro: Max_ge)

lemma set_concat_group_levels: "set (concat (group_levels lv)) = set (dict_keys lv)"
proof -
  have "set (concat (group_levels lv)) = (\<Union>i < length (group_levels lv). {t. (t, i) \<in> set lv})"
    unfolding group_levels_def by (simp add: set_group_level lessThan_atLeast0 del: upt_Suc)
  also have "\<dots> = {t. \<exists>i. (t, i) \<in> set lv}"
    using level_in_range by fastforce
  also have "\<dots> = set (dict_keys lv)" by (force simp: dict_keys_def)
  finally show ?thesis .
qed

lemma distinct_concat_disjoint:
  assumes "\<And>i. distinct (f i)" and "\<And>i j. i \<noteq> j \<Longrightarrow> set (f i) \<inter> set (f j) = {}" and "distinct is"
  shows "distinct (concat (map f is))"
  using assms(3)
proof (induction "is")
  case Nil
  show ?case by simp
next
  case (Cons i "is")
  then have "set (f i) \<inter> set (f j) = {}" if "j \<in> set is" for j
    using that assms(2) [of i j] by auto
  with Cons show ?case by (auto simp: assms(1))
qed

lemma distinct_concat_group_levels:
  assumes "dict_ok lv"
  shows "distinct (concat (group_levels lv))"
  unfolding group_levels_def
proof (rule distinct_concat_disjoint)
  show "distinct (map fst (filter (\<lambda>tl. snd tl = i) lv))" for i
    using assms by (simp add: dict_ok_def dict_keys_def distinct_map_filter)
  show "set (map fst (filter (\<lambda>tl. snd tl = i) lv)) \<inter> set (map fst (filter (\<lambda>tl. snd tl = j) lv)) = {}"
    if "i \<noteq> j" for i j
    using that by (auto dest!: dict_in_get [OF assms])
qed (simp del: upt_Suc)

section \<open>The execution order\<close>

text \<open>A DAG whose dictionary has distinct keys and whose edges connect its own tasks, the state
  \<open>add_node\<close> and \<open>add_edge\<close> keep.\<close>

definition dag_wf :: "dag \<Rightarrow> bool" where
  "dag_wf d \<longleftrightarrow> dict_ok (dg_nodes d) \<and> edges_within (set (dict_keys (dg_nodes d))) (dg_edges d)"

lemma execution_order_Inr:
  assumes "get_execution_order rlim d = Inr groups"
  obtains lv where "all_levels rlim (dg_edges d) (dict_keys (dg_nodes d)) = Inr lv"
    and "lv \<noteq> []" and "groups = group_levels lv"
  using assms by (auto simp: get_execution_order_def rbind_Inr split: if_splits)

lemma execution_order_edges:
  assumes wf: "dag_wf d" and ord: "get_execution_order rlim d = Inr groups"
    and e: "(u, v) \<in> set (dg_edges d)"
  shows "\<exists>i j. i < j \<and> j < length groups \<and> u \<in> set (groups ! i) \<and> v \<in> set (groups ! j)"
proof -
  obtain lv where lv: "all_levels rlim (dg_edges d) (dict_keys (dg_nodes d)) = Inr lv"
      and groups: "groups = group_levels lv"
    using ord by (rule execution_order_Inr)
  from wf have within: "edges_within (set (dict_keys (dg_nodes d))) (dg_edges d)" by (simp add: dag_wf_def)
  from all_levels_spec [OF within subset_refl lv]
  have inv: "levels_ok (dg_edges d) lv" and has: "\<forall>t \<in> set (dict_keys (dg_nodes d)). dict_has lv t"
    by (auto simp: levels_inv_def)
  from edges_withinD [OF within e] has obtain lv_v where j: "dict_get lv v = Some lv_v"
    by (auto simp: dict_has_def)
  with level_edge [OF inv e] obtain lv_u where i: "lv_u < lv_v" "dict_get lv u = Some lv_u" by blast
  from i(2) j have "(u, lv_u) \<in> set lv" "(v, lv_v) \<in> set lv" by (auto dest: dict_get_in)
  with i(1) groups show ?thesis
    by (metis group_levels_nth level_in_range mem_Collect_eq less_trans)
qed

lemma execution_order_tasks:
  assumes wf: "dag_wf d" and ord: "get_execution_order rlim d = Inr groups"
  shows "distinct (concat groups) \<and> set (concat groups) = set (dict_keys (dg_nodes d))"
proof -
  obtain lv where lv: "all_levels rlim (dg_edges d) (dict_keys (dg_nodes d)) = Inr lv"
      and groups: "groups = group_levels lv"
    using ord by (rule execution_order_Inr)
  from wf have within: "edges_within (set (dict_keys (dg_nodes d))) (dg_edges d)" by (simp add: dag_wf_def)
  from all_levels_spec [OF within subset_refl lv]
  have "dict_ok lv" and "set (dict_keys lv) = set (dict_keys (dg_nodes d))"
    by (auto simp: levels_inv_def dict_has_keys)
  then show ?thesis
    using groups by (simp add: distinct_concat_group_levels set_concat_group_levels del: set_concat)
qed

lemma execution_order_exists:
  assumes wf: "dag_wf d" and "acyclic (set (dg_edges d))" and ne: "dg_nodes d \<noteq> []"
    and "length (dg_nodes d) \<le> rlim"
  shows "\<exists>groups. get_execution_order rlim d = Inr groups"
proof -
  from wf have within: "edges_within (set (dict_keys (dg_nodes d))) (dg_edges d)" by (simp add: dag_wf_def)
  from assms all_levels_total [OF _ within] obtain lv where
      lv: "all_levels rlim (dg_edges d) (dict_keys (dg_nodes d)) = Inr lv"
    by (auto simp: dict_keys_def)
  from ne obtain t where "t \<in> set (dict_keys (dg_nodes d))" by (cases "dg_nodes d") (auto simp: dict_keys_def)
  with all_levels_spec [OF within subset_refl lv] have "lv \<noteq> []" by auto
  with lv show ?thesis by (simp add: get_execution_order_def)
qed

lemma execution_order_cycle:
  assumes "dag_wf d" and "(t, t) \<in> (set (dg_edges d))\<^sup>+"
  shows "get_execution_order rlim d = Inl RecursionErr"
  using assms all_levels_cycle [of "dict_keys (dg_nodes d)" "dg_edges d" t rlim]
  by (simp add: get_execution_order_def dag_wf_def)

end
