(* ===== verification/DagPath.thy ===== *)
theory DagPath
  imports DagOrder
begin

text \<open>
  The Kahn sort and the longest-path computation of \<open>DAG._find_critical_path\<close>: what the sort
  returns, that following the parent pointers ends on every DAG (cyclic ones too), and that the
  DAG operations keep the well-formedness the proofs rely on.
\<close>

section \<open>The sort\<close>

text \<open>Edges into \<open>v\<close> whose source is not in the output yet: what the in-degree table counts.\<close>

definition pending :: "edges \<Rightarrow> string list \<Rightarrow> string \<Rightarrow> nat" where
  "pending es out v = length (filter (\<lambda>e. snd e = v \<and> fst e \<notin> set out) es)"

lemma pending_zero: "pending es out v = 0 \<longleftrightarrow> (\<forall>u. (u, v) \<in> set es \<longrightarrow> u \<in> set out)"
  by (auto simp: pending_def filter_empty_conv)

lemma pending_snoc:
  "t \<notin> set out \<Longrightarrow> pending es out v = pending es (out @ [t]) v + count_list (outgoing es t) v"
  by (induction es) (auto simp: pending_def outgoing_def)

lemma relax_fold:
  assumes "\<And>v. v \<in> set vs \<Longrightarrow> \<exists>n. dict_get d v = Some n \<and> int (count_list vs v) \<le> n"
  shows "\<exists>d' new. foldM_e relax_degree vs (d, q) = Inr (d', q @ new) \<and> dict_keys d' = dict_keys d
    \<and> (\<forall>v. dict_get d' v = map_option (\<lambda>n. n - int (count_list vs v)) (dict_get d v))
    \<and> distinct new \<and> set new = {v \<in> set vs. dict_get d v = Some (int (count_list vs v))}"
  using assms
proof (induction vs arbitrary: d q)
  case Nil
  show ?case by (simp add: option.map_ident)
next
  case (Cons v vs)
  obtain n where n: "dict_get d v = Some n" "int (count_list (v # vs) v) \<le> n"
    using Cons.prems [of v] by auto
  let ?d = "dict_set v (n - 1) d" and ?q = "if n - 1 = 0 then q @ [v] else q"
  have prem: "\<exists>m. dict_get ?d w = Some m \<and> int (count_list vs w) \<le> m" if "w \<in> set vs" for w
    using that n Cons.prems [of w] by (auto split: if_splits)
  from Cons.IH [OF prem, of ?q] obtain d' new where IH:
      "foldM_e relax_degree vs (?d, ?q) = Inr (d', ?q @ new)" "dict_keys d' = dict_keys ?d"
      "\<forall>w. dict_get d' w = map_option (\<lambda>n. n - int (count_list vs w)) (dict_get ?d w)"
      "distinct new" "set new = {w \<in> set vs. dict_get ?d w = Some (int (count_list vs w))}"
    by auto
  have memb: "w \<in> set new \<longleftrightarrow> w \<in> set vs \<and> dict_get ?d w = Some (int (count_list vs w))" for w
    by (simp add: IH(5))
  have "n = 1 \<Longrightarrow> v \<notin> set vs" using n(2) by (auto simp: count_list_0_iff [symmetric])
  then have "set (if n = 1 then v # new else new)
      = {w \<in> set (v # vs). dict_get d w = Some (int (count_list (v # vs) w))}"
    using n \<open>n = 1 \<Longrightarrow> v \<notin> set vs\<close>
    by (intro set_eqI, cases "v \<in> set vs") (auto simp: memb count_list_0_iff split: if_splits)
  moreover have "distinct (if n = 1 then v # new else new)"
    using IH(4,5) \<open>n = 1 \<Longrightarrow> v \<notin> set vs\<close> by simp
  moreover have "foldM_e relax_degree (v # vs) (d, q) = Inr (d', q @ (if n = 1 then v # new else new))"
    using IH(1) n(1) by (simp add: relax_degree_def)
  moreover have "dict_keys d' = dict_keys d"
    using IH(2) n(1) by (simp add: dict_keys_set dict_has_def)
  moreover have "\<forall>w. dict_get d' w = map_option (\<lambda>n. n - int (count_list (v # vs) w)) (dict_get d w)"
    using IH(3) n(1) by (auto split: option.split)
  ultimately show ?case by blast
qed

text \<open>Every task comes after all its predecessors.\<close>

definition sorted_by_edges :: "edges \<Rightarrow> string list \<Rightarrow> bool" where
  "sorted_by_edges es out = (\<forall>ys x zs. out = ys @ x # zs \<longrightarrow> (\<forall>u. (u, x) \<in> set es \<longrightarrow> u \<in> set ys))"

lemma sorted_by_edges_Nil [simp]: "sorted_by_edges es []"
  by (simp add: sorted_by_edges_def)

lemma sorted_by_edges_snoc:
  "sorted_by_edges es out \<Longrightarrow> (\<And>u. (u, t) \<in> set es \<Longrightarrow> u \<in> set out) \<Longrightarrow> sorted_by_edges es (out @ [t])"
  unfolding sorted_by_edges_def
proof (intro allI impI)
  fix ys x zs u
  assume out: "\<forall>ys x zs. out = ys @ x # zs \<longrightarrow> (\<forall>u. (u, x) \<in> set es \<longrightarrow> u \<in> set ys)"
    and t: "\<And>u. (u, t) \<in> set es \<Longrightarrow> u \<in> set out" and eq: "out @ [t] = ys @ x # zs" and u: "(u, x) \<in> set es"
  show "u \<in> set ys"
  proof (cases zs rule: rev_cases)
    case Nil
    with eq t u show ?thesis by simp
  next
    case (snoc zs' z)
    with eq have "out = ys @ x # zs'" by (metis append_Cons append_assoc butlast_snoc)
    with out u show ?thesis by blast
  qed
qed

definition topo_inv :: "string set \<Rightarrow> edges \<Rightarrow> string list \<Rightarrow> (string, int) dict \<Rightarrow> string list \<Rightarrow> bool" where
  "topo_inv N es q d out \<longleftrightarrow>
     (\<forall>v. dict_get d v = (if v \<in> N then Some (int (pending es out v)) else None))
     \<and> distinct (out @ q) \<and> set (out @ q) = {v \<in> N. pending es out v = 0} \<and> sorted_by_edges es out"

lemma topo_step:
  assumes inv: "topo_inv N es (t # q) d out" and within: "edges_within N es"
  shows "\<exists>d' q'. foldM_e relax_degree (outgoing es t) (d, q) = Inr (d', q') \<and> topo_inv N es q' d' (out @ [t])"
proof -
  from inv have get: "\<And>v. dict_get d v = (if v \<in> N then Some (int (pending es out v)) else None)"
    and dis: "distinct (out @ t # q)" and eq: "set (out @ t # q) = {v \<in> N. pending es out v = 0}"
    and srt: "sorted_by_edges es out"
    by (auto simp: topo_inv_def)
  have t: "t \<in> N" "t \<notin> set out" and preds: "\<And>u. (u, t) \<in> set es \<Longrightarrow> u \<in> set out"
    using eq dis by (auto simp: pending_zero)
  note pen = pending_snoc [OF t(2), of es]
  have "\<exists>n. dict_get d v = Some n \<and> int (count_list (outgoing es t) v) \<le> n" if "v \<in> set (outgoing es t)" for v
    using that pen [of v] edges_withinD [OF within] by (auto simp: get)
  from relax_fold [OF this, of q] obtain d' new where f:
      "foldM_e relax_degree (outgoing es t) (d, q) = Inr (d', q @ new)"
      "\<forall>v. dict_get d' v = map_option (\<lambda>n. n - int (count_list (outgoing es t) v)) (dict_get d v)"
      "distinct new"
      "set new = {v \<in> set (outgoing es t). dict_get d v = Some (int (count_list (outgoing es t) v))}"
    by auto
  have get': "dict_get d' v = (if v \<in> N then Some (int (pending es (out @ [t]) v)) else None)" for v
    using f(2) pen [of v] by (simp add: get)
  have new: "set new = {v \<in> N. pending es (out @ [t]) v = 0 \<and> pending es out v \<noteq> 0}"
    using f(4) pen edges_withinD [OF within]
    by (auto simp: get count_list_0_iff simp flip: set_outgoing split: if_splits)
  have "set (out @ [t] @ q) \<inter> set new = {}" using new eq by auto
  then have "distinct ((out @ [t]) @ q @ new)" using dis f(3) by auto
  moreover have "set ((out @ [t]) @ q @ new) = {v \<in> N. pending es (out @ [t]) v = 0}"
    using new eq pen by (auto simp: set_eq_iff)
  ultimately have "topo_inv N es (q @ new) d' (out @ [t])"
    using get' sorted_by_edges_snoc [OF srt preds] by (simp add: topo_inv_def)
  with f(1) show ?thesis by blast
qed

lemma topo_loop_sorted:
  assumes "topo_inv N es q d out" and "edges_within N es"
  shows "\<exists>out'. topo_loop es q d out = Inr out' \<and> distinct out' \<and> sorted_by_edges es out'
    \<and> set out' = {v \<in> N. \<forall>u. (u, v) \<in> set es \<longrightarrow> u \<in> set out'}"
  using assms
proof (induction es q d out rule: topo_loop.induct)
  case (1 es d out)
  then show ?case by (auto simp: topo_inv_def pending_zero)
next
  case (2 es t q d out)
  from topo_step [OF 2(2,3)] obtain d' q' where
      "foldM_e relax_degree (outgoing es t) (d, q) = Inr (d', q')" "topo_inv N es q' d' (out @ [t])"
    by blast
  with 2 show ?case by simp
qed

lemma in_degrees_ok:
  assumes "edges_within (set (dict_keys d)) es"
  shows "\<exists>d'. foldM_e incr_degree es d = Inr d' \<and> dict_keys d' = dict_keys d
    \<and> (\<forall>v. dict_get d' v = map_option (\<lambda>n. n + int (length (filter (\<lambda>e. snd e = v) es))) (dict_get d v))"
  using assms
proof (induction es arbitrary: d)
  case Nil
  show ?case by (simp add: option.map_ident)
next
  case (Cons e es)
  then have "snd e \<in> set (dict_keys d)" by (cases e) (auto simp: edges_within_def)
  then obtain n where n: "dict_get d (snd e) = Some n" by (auto simp: dict_has_keys [symmetric] dict_has_def)
  then have keys: "dict_keys (dict_set (snd e) (n + 1) d) = dict_keys d"
    by (simp add: dict_keys_set dict_has_def)
  with Cons.prems have "edges_within (set (dict_keys (dict_set (snd e) (n + 1) d))) es"
    by (auto simp: edges_within_def)
  from Cons.IH [OF this] n keys show ?case
    by (auto simp: incr_degree_def split: option.split)
qed

theorem topological_sort_ok:
  assumes "distinct ns" and within: "edges_within (set ns) es"
  obtains out where "topological_sort ns es = Inr out" and "distinct out" and "sorted_by_edges es out"
    and "set out = {v \<in> set ns. \<forall>u. (u, v) \<in> set es \<longrightarrow> u \<in> set out}"
proof -
  let ?z = "map (\<lambda>n. (n, 0 :: int)) ns"
  have z: "dict_keys ?z = ns" "dict_get ?z v = (if v \<in> set ns then Some 0 else None)" for v
    by simp_all
  with within in_degrees_ok [of ?z es] obtain d where d: "in_degrees ns es = Inr d" "dict_keys d = ns"
      "\<And>v. dict_get d v = map_option (\<lambda>n. n + int (length (filter (\<lambda>e. snd e = v) es))) (dict_get ?z v)"
    by (auto simp: in_degrees_def)
  let ?q = "map fst (filter (\<lambda>kv. snd kv = 0) d)"
  have get: "dict_get d v = (if v \<in> set ns then Some (int (pending es [] v)) else None)" for v
    using d(3) by (simp add: z pending_def)
  have ok: "dict_ok d" using d(2) assms(1) by (simp add: dict_ok_def)
  have "set ?q = {v. dict_get d v = Some 0}"
    using dict_in_get [OF ok] by (force dest: dict_get_in)
  moreover have "distinct ?q" using ok by (simp add: dict_ok_def dict_keys_def distinct_map_filter)
  ultimately have "topo_inv (set ns) es ?q d []" by (auto simp: topo_inv_def get split: if_splits)
  from topo_loop_sorted [OF this within] obtain out where
      "topo_loop es ?q d [] = Inr out" "distinct out" "sorted_by_edges es out"
      "set out = {v \<in> set ns. \<forall>u. (u, v) \<in> set es \<longrightarrow> u \<in> set out}"
    by blast
  with d(1) that show ?thesis by (simp add: topological_sort_def)
qed

text \<open>On an acyclic graph nothing is left out.\<close>

lemma topological_sort_complete:
  assumes "distinct ns" and "edges_within (set ns) es" and "acyclic (set es)"
    and "topological_sort ns es = Inr out"
  shows "set out = set ns"
proof -
  obtain out' where "topological_sort ns es = Inr out'"
      and "set out' = {v \<in> set ns. \<forall>u. (u, v) \<in> set es \<longrightarrow> u \<in> set out'}"
    by (rule topological_sort_ok [OF assms(1,2)])
  with assms(4) have out: "set out = {v \<in> set ns. \<forall>u. (u, v) \<in> set es \<longrightarrow> u \<in> set out}" by simp
  have "wf (set es)" using assms(3) by (simp add: finite_acyclic_wf)
  then have "v \<in> set ns \<longrightarrow> v \<in> set out" for v
  proof (induction v rule: wf_induct_rule)
    case (less v)
    have "v \<in> set out" if v: "v \<in> set ns"
    proof -
      have "u \<in> set out" if "(u, v) \<in> set es" for u
        using less [OF that] edges_withinD [OF assms(2) that] by simp
      with v show ?thesis by (subst out) simp
    qed
    then show ?case by simp
  qed
  moreover have "set out \<subseteq> set ns" by (subst out) auto
  ultimately show ?thesis by blast
qed

section \<open>The longest-path relaxation\<close>

definition plus_dist :: "distance \<Rightarrow> int \<Rightarrow> distance" where
  "plus_dist x k = map_option (\<lambda>y. y + k) x"

definition dur :: "(string, task_node) dict \<Rightarrow> string \<Rightarrow> int" where
  "dur nodes v = duration_of (the (dict_get nodes v))"

definition init_dist :: "edges \<Rightarrow> string \<Rightarrow> distance" where
  "init_dist es v = (if incoming es v = [] then Some 0 else None)"

text \<open>The state of the relaxation once the edges \<open>P\<close> have been processed.\<close>

definition path_inv ::
    "(string, task_node) dict \<Rightarrow> edges \<Rightarrow> (string \<times> string) set \<Rightarrow> path_state \<Rightarrow> bool" where
  "path_inv nodes es P s \<longleftrightarrow>
     dict_keys (fst s) = dict_keys nodes \<and> dict_keys (snd s) = dict_keys nodes \<and>
     (\<forall>u v. (u, v) \<in> P \<longrightarrow>
        \<not> dist_lt (the (dict_get (fst s) v)) (plus_dist (the (dict_get (fst s) u)) (dur nodes v))) \<and>
     (\<forall>v t. dict_get (snd s) v = Some (Some t) \<longrightarrow>
        (t, v) \<in> P \<and> (\<exists>x. dict_get (fst s) t = Some (Some x) \<and> dict_get (fst s) v = Some (Some (x + dur nodes v)))) \<and>
     (\<forall>v. dict_get (snd s) v = Some None \<longrightarrow> dict_get (fst s) v = Some (init_dist es v))"

lemma dist_lt_simps:
  "dist_lt x (Some y) \<longleftrightarrow> (case x of None \<Rightarrow> True | Some x' \<Rightarrow> x' < y)"
  by (cases x) simp_all

lemma dist_lt_trans': "\<not> dist_lt b a \<Longrightarrow> dist_lt b c \<Longrightarrow> \<not> dist_lt c a"
  by (cases a; cases b; cases c) simp_all

lemma dict_fst_keys: "x \<in> set m \<Longrightarrow> fst x \<in> set (dict_keys m)"
  by (simp add: dict_keys_def)

lemma relax_edge_inv:
  assumes inv: "path_inv nodes es P (dst, par)" and t: "t \<in> set (dict_keys nodes)"
    and v: "v \<in> set (dict_keys nodes)" and fresh: "t \<noteq> v" "\<And>w. (v, w) \<notin> P"
  shows "\<exists>s'. relax_edge nodes t v (dst, par) = Inr s' \<and> path_inv nodes es (insert (t, v) P) s'"
proof -
  from inv have keys: "dict_keys dst = dict_keys nodes" "dict_keys par = dict_keys nodes"
    by (simp_all add: path_inv_def)
  obtain n where n: "dict_get nodes v = Some n" using dict_keys_get [OF v] by blast
  obtain dv where dv: "dict_get dst v = Some dv" using dict_keys_get [of v dst] v keys by auto
  obtain dt where dt: "dict_get dst t = Some dt" using dict_keys_get [of t dst] t keys by auto
  have dur: "duration_of n = dur nodes v" by (simp add: dur_def n)
  show ?thesis
  proof (cases "dist_lt dv (plus_dist dt (dur nodes v))")
    case False
    then have "relax_edge nodes t v (dst, par) = Inr (dst, par)"
      by (simp add: relax_edge_def n dv dt dur plus_dist_def)
    with False inv dv dt show ?thesis by (auto simp: path_inv_def)
  next
    case True
    then obtain x where x: "dt = Some x" by (cases dt) (auto simp: plus_dist_def)
    let ?s = "(dict_set v (Some (x + dur nodes v)) dst, dict_set v (Some t) par)"
    have "relax_edge nodes t v (dst, par) = Inr ?s"
      using True x by (simp add: relax_edge_def n dv dt dur plus_dist_def)
    moreover have "path_inv nodes es (insert (t, v) P) ?s"
      unfolding path_inv_def
    proof (intro conjI allI impI)
      show "dict_keys (fst ?s) = dict_keys nodes" "dict_keys (snd ?s) = dict_keys nodes"
        using keys v by (simp_all add: dict_keys_set dict_has_keys)
    next
      fix a b
      assume ab: "(a, b) \<in> insert (t, v) P"
      then have av: "a \<noteq> v" using fresh by auto
      show "\<not> dist_lt (the (dict_get (fst ?s) b)) (plus_dist (the (dict_get (fst ?s) a)) (dur nodes b))"
      proof (cases "b = v")
        case False
        with ab av inv show ?thesis by (auto simp: path_inv_def)
      next
        case b: True
        have "\<not> dist_lt (Some (x + dur nodes v)) (plus_dist (the (dict_get dst a)) (dur nodes v))"
        proof (cases "a = t")
          case True
          then show ?thesis by (simp add: dt x plus_dist_def)
        next
          case False
          with ab b have "(a, v) \<in> P" by auto
          with inv have "\<not> dist_lt (the (dict_get dst v)) (plus_dist (the (dict_get dst a)) (dur nodes v))"
            by (simp add: path_inv_def)
          then have "\<not> dist_lt dv (plus_dist (the (dict_get dst a)) (dur nodes v))"
            by (simp add: dv)
          from dist_lt_trans' [OF this True] x show ?thesis by (simp add: plus_dist_def)
        qed
        with b av show ?thesis by simp
      qed
    next
      fix w p
      assume wp: "dict_get (snd ?s) w = Some (Some p)"
      have "(p, w) \<in> insert (t, v) P \<and>
          (\<exists>x. dict_get (fst ?s) p = Some (Some x) \<and> dict_get (fst ?s) w = Some (Some (x + dur nodes w)))"
      proof (cases "w = v")
        case True
        with wp fresh dt x show ?thesis by auto
      next
        case False
        with wp inv have "(p, w) \<in> P \<and> (\<exists>x. dict_get dst p = Some (Some x) \<and> dict_get dst w = Some (Some (x + dur nodes w)))"
          by (simp add: path_inv_def)
        with fresh False show ?thesis by auto
      qed
      then show "(p, w) \<in> insert (t, v) P"
          and "\<exists>x. dict_get (fst ?s) p = Some (Some x) \<and> dict_get (fst ?s) w = Some (Some (x + dur nodes w))"
        by blast+
    next
      fix w
      assume "dict_get (snd ?s) w = Some None"
      with inv show "dict_get (fst ?s) w = Some (init_dist es w)"
        by (auto simp: path_inv_def split: if_splits)
    qed
    ultimately show ?thesis by blast
  qed
qed

lemma relax_edges_inv:
  assumes "path_inv nodes es P s" and "t \<in> set (dict_keys nodes)"
    and "\<And>v. v \<in> set vs \<Longrightarrow> v \<in> set (dict_keys nodes) \<and> t \<noteq> v \<and> (\<forall>w. (v, w) \<notin> P)"
  shows "\<exists>s'. foldM_e (relax_edge nodes t) vs s = Inr s' \<and> path_inv nodes es (P \<union> {t} \<times> set vs) s'"
  using assms
proof (induction vs arbitrary: s P)
  case Nil
  then show ?case by simp
next
  case (Cons v vs)
  obtain dst par where s: "s = (dst, par)" by force
  from Cons.prems s relax_edge_inv [of nodes es P dst par t v] obtain s1 where
      s1: "relax_edge nodes t v s = Inr s1" "path_inv nodes es (insert (t, v) P) s1"
    by auto
  have "\<exists>s'. foldM_e (relax_edge nodes t) vs s1 = Inr s'
      \<and> path_inv nodes es (insert (t, v) P \<union> {t} \<times> set vs) s'"
    by (rule Cons.IH [OF s1(2)]) (use Cons.prems in auto)
  moreover have "insert (t, v) P \<union> {t} \<times> set vs = P \<union> {t} \<times> set (v # vs)" by auto
  ultimately show ?case using s1(1) by simp
qed

lemma relax_tasks_inv:
  assumes "path_inv nodes es {e \<in> set es. fst e \<in> set pre} s" and "distinct (pre @ post)"
    and "sorted_by_edges es (pre @ post)" and "set (pre @ post) \<subseteq> set (dict_keys nodes)"
    and within: "edges_within (set (dict_keys nodes)) es"
  shows "\<exists>s'. foldM_e (relax_task nodes es) post s = Inr s'
    \<and> path_inv nodes es {e \<in> set es. fst e \<in> set (pre @ post)} s'"
  using assms(1-4)
proof (induction post arbitrary: pre s)
  case Nil
  then show ?case by simp
next
  case (Cons t post)
  have before: "x \<in> set pre \<Longrightarrow> (t, x) \<notin> set es" for x
  proof
    assume "x \<in> set pre" "(t, x) \<in> set es"
    moreover from this obtain ys zs where "pre = ys @ x # zs" by (auto simp: in_set_conv_decomp)
    ultimately have "t \<in> set ys" using Cons.prems(3) by (auto simp: sorted_by_edges_def)
    with \<open>pre = _\<close> Cons.prems(2) show False by auto
  qed
  have self: "(t, t) \<notin> set es"
    using Cons.prems(2,3) by (auto simp: sorted_by_edges_def)
  have "\<exists>s'. relax_task nodes es t s = Inr s'
      \<and> path_inv nodes es ({e \<in> set es. fst e \<in> set pre} \<union> {t} \<times> set (outgoing es t)) s'"
    unfolding relax_task_def
    by (rule relax_edges_inv [OF Cons.prems(1)])
      (use Cons.prems(4) before self edges_withinD [OF within] in auto)
  moreover have "{e \<in> set es. fst e \<in> set pre} \<union> {t} \<times> set (outgoing es t)
      = {e \<in> set es. fst e \<in> set (pre @ [t])}" by auto
  ultimately obtain s1 where s1: "relax_task nodes es t s = Inr s1"
      "path_inv nodes es {e \<in> set es. fst e \<in> set (pre @ [t])} s1" by auto
  from Cons.IH [OF s1(2)] Cons.prems s1(1) show ?case by simp
qed

section \<open>Following the parents\<close>

definition rank :: "string list \<Rightarrow> string \<Rightarrow> nat" where
  "rank out v = length (takeWhile (\<lambda>x. x \<noteq> v) out)"

lemma rank_split: "x \<notin> set as \<Longrightarrow> rank (as @ x # bs) x = length as"
  by (induction as) (auto simp: rank_def)

lemma rank_less:
  assumes "sorted_by_edges es out" and "(t, v) \<in> set es" and "t \<in> set out"
  shows "rank out t < rank out v"
proof (cases "v \<in> set out")
  case True
  then obtain ys zs where out: "out = ys @ v # zs" and v: "v \<notin> set ys" by (auto dest: split_list_first)
  with assms have "t \<in> set ys" by (auto simp: sorted_by_edges_def)
  then obtain as bs where "ys = as @ t # bs" "t \<notin> set as" by (auto dest: split_list_first)
  with out rank_split [of t as "bs @ v # zs"] rank_split [OF v, of zs] show ?thesis by simp
next
  case False
  then have "rank out v = length out" by (induction out) (auto simp: rank_def)
  moreover have "rank out t < length out"
    using assms(3) by (auto simp: rank_split dest!: split_list_first)
  ultimately show ?thesis by simp
qed

lemma follow_parents_ok:
  assumes inv: "path_inv nodes es P (dst, par)" and P: "P \<subseteq> {e \<in> set es. fst e \<in> set out}"
    and srt: "sorted_by_edges es out" and within: "edges_within (set (dict_keys nodes)) es"
    and c: "c \<in> set (dict_keys nodes)"
  shows "\<exists>q. follow_parents par (Some c) path = Some (Inr (path @ q))
    \<and> ([] \<notin> set (dict_keys nodes) \<longrightarrow> q \<noteq> [] \<and> hd q = c \<and> successively (\<lambda>v u. (u, v) \<in> set es) q
      \<and> (\<forall>x. dict_get dst c = Some (Some x) \<longrightarrow>
           sum_list (map (dur nodes) (butlast q)) = x \<and> incoming es (last q) = []))"
  using c
proof (induction "rank out c" arbitrary: c path rule: less_induct)
  case less
  show ?case
  proof (cases "c = []")
    case True
    then show ?thesis using less.prems by (simp add: follow_parents.simps)
  next
    case nonempty: False
    from inv have "dict_keys par = dict_keys nodes" by (simp add: path_inv_def)
    with less.prems obtain p where p: "dict_get par c = Some p" using dict_keys_get by metis
    show ?thesis
    proof (cases p)
      case None
      have "follow_parents par (Some c) path = Some (Inr (path @ [c]))"
        using nonempty p None by (simp add: follow_parents.simps)
      moreover have "dict_get dst c = Some (init_dist es c)"
        using inv p None by (simp add: path_inv_def)
      ultimately show ?thesis
        by (intro exI [of _ "[c]"]) (simp add: init_dist_def split: if_splits)
    next
      case (Some t)
      with inv p have "(t, c) \<in> P \<and> (\<exists>x. dict_get dst t = Some (Some x)
          \<and> dict_get dst c = Some (Some (x + dur nodes c)))"
        by (simp add: path_inv_def)
      then obtain x where t: "(t, c) \<in> P" "dict_get dst t = Some (Some x)"
          "dict_get dst c = Some (Some (x + dur nodes c))"
        by blast
      with P have e: "(t, c) \<in> set es" "t \<in> set out" by auto
      from edges_withinD [OF within e(1)] have tn: "t \<in> set (dict_keys nodes)" by simp
      from less.hyps [OF rank_less [OF srt e] tn, of "path @ [c]"] obtain q where
          q: "follow_parents par (Some t) (path @ [c]) = Some (Inr ((path @ [c]) @ q))"
          "[] \<notin> set (dict_keys nodes) \<longrightarrow> q \<noteq> [] \<and> hd q = t \<and> successively (\<lambda>v u. (u, v) \<in> set es) q
            \<and> sum_list (map (dur nodes) (butlast q)) = x \<and> incoming es (last q) = []"
        using t(2) by auto
      have "follow_parents par (Some c) path = Some (Inr (path @ c # q))"
        using q(1) nonempty p Some by (subst follow_parents.simps) simp
      moreover have "[] \<notin> set (dict_keys nodes) \<longrightarrow> successively (\<lambda>v u. (u, v) \<in> set es) (c # q)"
        using q(2) e(1) by (cases q) auto
      ultimately show ?thesis
        using q(2) t(3) by (intro exI [of _ "c # q"]) auto
    qed
  qed
qed

lemma max_item_in: "max_item x xs \<in> set (x # xs)"
  by (induction xs arbitrary: x) (auto split: if_splits)

lemma max_item_ge: "y \<in> set (x # xs) \<Longrightarrow> \<not> dist_lt (snd (max_item x xs)) (snd y)"
proof (induction xs arbitrary: x y)
  case Nil
  then show ?case by (cases "snd x") auto
next
  case (Cons a xs)
  let ?b = "if dist_lt (snd x) (snd a) then a else x"
  have le: "\<not> dist_lt (snd (max_item ?b xs)) (snd ?b)" by (rule Cons.IH) simp
  show ?case
  proof (cases "y \<in> set (?b # xs)")
    case True
    then show ?thesis using Cons.IH [of y ?b] by simp
  next
    case False
    with Cons.prems have "y = x \<and> dist_lt (snd x) (snd a) \<or> y = a \<and> \<not> dist_lt (snd x) (snd a)"
      by (auto split: if_splits)
    with le show ?thesis
      by (cases "snd x"; cases "snd a"; cases "snd (max_item ?b xs)") (auto split: if_splits)
  qed
qed

lemma init_path_inv:
  "path_inv nodes es {} (init_path_state (dict_keys nodes) es)"
proof -
  have "(list_ex (\<lambda>e. snd e = v) es) = (incoming es v \<noteq> [])" for v
    by (auto simp: list_ex_iff incoming_def filter_empty_conv)
  then show ?thesis
    by (simp add: path_inv_def init_path_state_def init_dist_def)
qed

section \<open>The critical path\<close>

text \<open>Every chain of edges from a task with a distance is bounded by the distance of its end.\<close>

lemma chain_bound:
  assumes inv: "path_inv nodes es (set es) (dst, par)" and within: "edges_within (set (dict_keys nodes)) es"
    and "successively (\<lambda>u v. (u, v) \<in> set es) (u # p)" and "dict_get dst u = Some (Some x)"
  shows "\<exists>y. dict_get dst (last (u # p)) = Some (Some y) \<and> x + sum_list (map (dur nodes) p) \<le> y"
  using assms(3,4)
proof (induction p arbitrary: u x)
  case Nil
  then show ?case by simp
next
  case (Cons v p)
  then have e: "(u, v) \<in> set es" and rest: "successively (\<lambda>u v. (u, v) \<in> set es) (v # p)" by auto
  from inv have "dict_keys dst = dict_keys nodes" by (simp add: path_inv_def)
  with edges_withinD [OF within e] obtain dv where dv: "dict_get dst v = Some dv"
    using dict_keys_get [of v dst] by auto
  from inv e have "\<not> dist_lt (the (dict_get dst v)) (plus_dist (the (dict_get dst u)) (dur nodes v))"
    by (simp add: path_inv_def)
  then obtain y where y: "dv = Some y" "x + dur nodes v \<le> y"
    by (cases dv) (auto simp: dv Cons.prems(2) plus_dist_def)
  with Cons.IH [OF rest, of y] dv show ?case by force
qed

definition is_chain :: "edges \<Rightarrow> string list \<Rightarrow> bool" where
  "is_chain es p \<longleftrightarrow> p \<noteq> [] \<and> incoming es (hd p) = [] \<and> successively (\<lambda>u v. (u, v) \<in> set es) p"

text \<open>The weight the code maximises leaves out the first task's own duration.\<close>

definition chain_weight :: "(string, task_node) dict \<Rightarrow> string list \<Rightarrow> int" where
  "chain_weight nodes p = sum_list (map (dur nodes) (tl p))"

lemma critical_path_run:
  assumes "dict_ok nodes" and "edges_within (set (dict_keys nodes)) es"
  obtains out dst par where "topological_sort (dict_keys nodes) es = Inr out"
    and "foldM_e (relax_task nodes es) out (init_path_state (dict_keys nodes) es) = Inr (dst, par)"
    and "path_inv nodes es {e \<in> set es. fst e \<in> set out} (dst, par)"
    and "sorted_by_edges es out"
proof -
  from assms(1) have dis: "distinct (dict_keys nodes)" by (simp add: dict_ok_def)
  obtain out where
      out: "topological_sort (dict_keys nodes) es = Inr out" "distinct out" "sorted_by_edges es out"
      "set out = {v \<in> set (dict_keys nodes). \<forall>u. (u, v) \<in> set es \<longrightarrow> u \<in> set out}"
    using topological_sort_ok [OF dis assms(2)] .
  from out(4) have "set out \<subseteq> set (dict_keys nodes)" by blast
  with relax_tasks_inv [of nodes es "[]" "init_path_state (dict_keys nodes) es" out] init_path_inv [of nodes es]
    out assms(2)
  have "\<exists>s. foldM_e (relax_task nodes es) out (init_path_state (dict_keys nodes) es) = Inr s
      \<and> path_inv nodes es {e \<in> set es. fst e \<in> set out} s" by simp
  then obtain s where "foldM_e (relax_task nodes es) out (init_path_state (dict_keys nodes) es) = Inr s"
      "path_inv nodes es {e \<in> set es. fst e \<in> set out} s"
    by blast
  with out that show ?thesis by (cases s) blast
qed

text \<open>The computation ends and returns a path on every DAG with a task, cyclic or not.\<close>

lemma critical_path_returns:
  assumes "dict_ok nodes" and within: "edges_within (set (dict_keys nodes)) es" and "nodes \<noteq> []"
  shows "\<exists>p. find_critical_path nodes es = Some (Inr p)"
proof -
  obtain out dst par where run: "topological_sort (dict_keys nodes) es = Inr out"
      "foldM_e (relax_task nodes es) out (init_path_state (dict_keys nodes) es) = Inr (dst, par)"
    and inv: "path_inv nodes es {e \<in> set es. fst e \<in> set out} (dst, par)"
    and srt: "sorted_by_edges es out"
    using critical_path_run [OF assms(1,2)] .
  from inv have keys: "dict_keys dst = dict_keys nodes" by (simp add: path_inv_def)
  with assms(3) obtain x xs where dst: "dst = x # xs" by (cases dst) (auto simp: dict_keys_def)
  have "fst (max_item x xs) \<in> set (dict_keys nodes)"
    using dict_fst_keys [of "max_item x xs" dst] max_item_in [of x xs] keys dst by simp
  from follow_parents_ok [OF inv subset_refl srt within this, of "[]"] run dst show ?thesis
    by (auto simp: find_critical_path_def)
qed

lemma acyclic_source:
  assumes "acyclic (set es)" and "v \<in> set ns" and "edges_within (set ns) es"
  shows "\<exists>u \<in> set ns. incoming es u = []"
proof -
  have "wf (set es)" using assms(1) by (simp add: finite_acyclic_wf)
  then obtain u where u: "u \<in> set ns" "\<And>w. (w, u) \<in> set es \<Longrightarrow> w \<notin> set ns"
    using wfE_min [of "set es" v "set ns"] assms(2) by metis
  then have "incoming es u = []"
    using edges_withinD [OF assms(3)] by (auto simp: incoming_Nil_iff)
  with u(1) show ?thesis by blast
qed

lemma critical_path_longest:
  assumes ok: "dict_ok nodes" and within: "edges_within (set (dict_keys nodes)) es" and ne: "nodes \<noteq> []"
    and acyc: "acyclic (set es)" and names: "[] \<notin> set (dict_keys nodes)"
  shows "\<exists>p. find_critical_path nodes es = Some (Inr p) \<and> is_chain es p \<and> hd p \<in> set (dict_keys nodes)
    \<and> (\<forall>p'. is_chain es p' \<and> hd p' \<in> set (dict_keys nodes) \<longrightarrow> chain_weight nodes p' \<le> chain_weight nodes p)"
proof -
  obtain out dst par where run: "topological_sort (dict_keys nodes) es = Inr out"
      "foldM_e (relax_task nodes es) out (init_path_state (dict_keys nodes) es) = Inr (dst, par)"
    and inv0: "path_inv nodes es {e \<in> set es. fst e \<in> set out} (dst, par)"
    and srt: "sorted_by_edges es out"
    using critical_path_run [OF ok within] .
  from ok have "distinct (dict_keys nodes)" by (simp add: dict_ok_def)
  from topological_sort_complete [OF this within acyc run(1)] have "set out = set (dict_keys nodes)" .
  then have all: "{e \<in> set es. fst e \<in> set out} = set es" using edges_withinD [OF within] by auto
  with inv0 have inv: "path_inv nodes es (set es) (dst, par)" by simp
  then have keys: "dict_keys dst = dict_keys nodes" by (simp add: path_inv_def)
  from ok keys have okd: "dict_ok dst" by (simp add: dict_ok_def)
  from ne keys obtain x xs where dst: "dst = x # xs" by (cases dst) (auto simp: dict_keys_def)
  define c dc where "c = fst (max_item x xs)" and "dc = snd (max_item x xs)"
  have cin: "(c, dc) \<in> set dst" using max_item_in [of x xs] dst by (simp add: c_def dc_def)
  then have c: "c \<in> set (dict_keys nodes)" using dict_fst_keys [of "(c, dc)" dst] keys by simp
  have dc: "dict_get dst c = Some dc" using dict_in_get [OF okd cin] .
  have source: "dict_get dst u = Some (Some 0)"
    if u: "u \<in> set (dict_keys nodes)" and "incoming es u = []" for u
  proof -
    from inv have kp: "dict_keys par = dict_keys nodes" by (simp add: path_inv_def)
    with u obtain p where p: "dict_get par u = Some p" using dict_keys_get by metis
    have "p = None"
    proof (cases p)
      case (Some t)
      with p inv have "(t, u) \<in> set es" by (simp add: path_inv_def)
      with that(2) show ?thesis by (simp add: incoming_Nil_iff)
    qed
    with p inv that(2) show ?thesis by (simp add: path_inv_def init_dist_def)
  qed
  have best: "\<exists>z. dc = Some z \<and> y \<le> z" if "dict_get dst v = Some (Some y)" for v y
    using max_item_ge [of "(v, Some y)" x xs] dict_get_in [OF that] dst
    by (cases dc) (auto simp: dc_def [symmetric])
  obtain u where "u \<in> set (dict_keys nodes)" "incoming es u = []"
    using acyclic_source [OF acyc c within] by blast
  with source best obtain z where z: "dc = Some z" by blast
  from follow_parents_ok [OF inv0 subset_refl srt within c, of "[]"] names z dc obtain q where
      q: "follow_parents par (Some c) [] = Some (Inr q)" "q \<noteq> []" "hd q = c"
      "successively (\<lambda>v u. (u, v) \<in> set es) q" "sum_list (map (dur nodes) (butlast q)) = z"
      "incoming es (last q) = []"
    by auto
  have "find_critical_path nodes es = Some (Inr (rev q))"
    using run dst q(1) by (simp add: find_critical_path_def c_def)
  moreover have "is_chain es (rev q)"
    using q by (simp add: is_chain_def hd_rev successively_rev)
  moreover have "chain_weight nodes (rev q) = z"
    using q(2,5) by (cases q rule: rev_cases) (simp_all add: chain_weight_def rev_map [symmetric] sum_list_rev)
  moreover have "hd (rev q) \<in> set (dict_keys nodes)"
  proof (cases "tl q = []")
    case True
    with q(2,3) c show ?thesis by (cases q) auto
  next
    case False
    then obtain a b r where "q = r @ [a, b]"
      by (metis append_butlast_last_id append.assoc append_Cons append_Nil butlast.simps(2) list.exhaust_sel q(2))
    with q(4) edges_withinD [OF within] show ?thesis
      by (auto simp: successively_append_iff)
  qed
  moreover have "chain_weight nodes p' \<le> z" if p': "is_chain es p'" "hd p' \<in> set (dict_keys nodes)" for p'
  proof -
    from p' have "successively (\<lambda>u v. (u, v) \<in> set es) (hd p' # tl p')" by (simp add: is_chain_def)
    from chain_bound [OF inv within this source] p' best z show ?thesis
      by (force simp: is_chain_def chain_weight_def)
  qed
  ultimately show ?thesis by metis
qed

section \<open>The operations keep the DAG well-formed\<close>

lemma update_estimates_ok:
  assumes "dag_wf d" and "dg_nodes d \<noteq> []"
  shows "\<exists>d'. update_estimates d = Some (d', None) \<and> dag_wf d'
    \<and> dg_nodes d' = dg_nodes d \<and> dg_edges d' = dg_edges d \<and> dg_total_tasks d' = dg_total_tasks d
    \<and> dg_estimated_total_cost d' = sum_list (map tn_estimated_cost (dict_values (dg_nodes d)))"
  using critical_path_returns [of "dg_nodes d" "dg_edges d"] assms
  by (auto simp: update_estimates_def dag_wf_def)

lemma edges_within_mono: "edges_within N es \<Longrightarrow> N \<subseteq> M \<Longrightarrow> edges_within M es"
  by (auto simp: edges_within_def)

lemma add_node_ok:
  assumes "dag_wf d" and "\<not> dict_has (dg_nodes d) (tn_task_id n)"
  shows "\<exists>d'. add_node n d = Some (d', None) \<and> dag_wf d' \<and> dg_edges d' = dg_edges d
    \<and> dg_nodes d' = dg_nodes d @ [(tn_task_id n, n)]
    \<and> dg_total_tasks d' = int (length (dg_nodes d'))
    \<and> dg_estimated_total_cost d' = sum_list (map tn_estimated_cost (dict_values (dg_nodes d')))"
proof -
  let ?d = "d\<lparr>dg_nodes := dict_set (tn_task_id n) n (dg_nodes d),
    dg_total_tasks := int (length (dict_set (tn_task_id n) n (dg_nodes d)))\<rparr>"
  have "dag_wf ?d" "dg_nodes ?d \<noteq> []"
    using assms dict_ok_set [of "dg_nodes d" "tn_task_id n" n]
    by (auto simp: dag_wf_def dict_set_new dict_keys_def intro: edges_within_mono)
  from update_estimates_ok [OF this] assms(2) show ?thesis
    by (auto simp: add_node_def Let_def dict_set_new)
qed

lemma add_edge_ok:
  assumes wf: "dag_wf d" and "dict_has (dg_nodes d) u" and "dict_has (dg_nodes d) v"
    and "would_create_cycle rlim (dg_edges d) u v = Inr False"
  shows "\<exists>d'. add_edge rlim u v d = Some (d', None) \<and> dag_wf d' \<and> dg_edges d' = dg_edges d @ [(u, v)]
    \<and> dict_keys (dg_nodes d') = dict_keys (dg_nodes d)"
proof -
  let ?d = "d\<lparr>dg_edges := dg_edges d @ [(u, v)], dg_nodes := dict_mod v
    (\<lambda>n. n\<lparr>tn_dependencies := tn_dependencies n @ [u]\<rparr>) (dg_nodes d)\<rparr>"
  have "dag_wf ?d" using assms by (auto simp: dag_wf_def edges_within_def dict_has_keys)
  moreover have "dg_nodes ?d \<noteq> []"
  proof
    assume "dg_nodes ?d = []"
    then have "dict_keys (dg_nodes ?d) = []" by (simp add: dict_keys_def)
    with assms(2) show False by (simp add: dict_has_keys)
  qed
  ultimately show ?thesis using update_estimates_ok [of ?d] assms
    by (auto simp: add_edge_def)
qed

end
