(* ===== verification/DagOps.thy ===== *)
theory DagOps
  imports DagPath
begin

text \<open>
  The DAG under any sequence of \<open>add_node\<close> and \<open>add_edge\<close> calls, successful or not, and
  the properties of \<open>src/models/dag.py\<close>.
  Then what running a plan may change of it.
\<close>

section \<open>Runs of the two mutating operations\<close>

datatype dag_op = AddNode task_node | AddEdge string string

text \<open>A caller that catches the exception goes on with the DAG the call left behind.\<close>

definition dag_exec :: "nat \<Rightarrow> dag_op \<Rightarrow> dag \<Rightarrow> dag" where
  "dag_exec rlim op d =
     (case (case op of AddNode n \<Rightarrow> add_node n d | AddEdge u v \<Rightarrow> add_edge rlim u v d) of
        None \<Rightarrow> d | Some (d', _) \<Rightarrow> d')"

definition dag_inv :: "dag \<Rightarrow> bool" where
  "dag_inv d \<longleftrightarrow> dag_wf d \<and> dg_total_tasks d = int (length (dg_nodes d))
     \<and> dg_estimated_total_cost d = sum_list (map tn_estimated_cost (dict_values (dg_nodes d)))
     \<and> dict_all (\<lambda>k n. tn_task_id n = k \<and> set (incoming (dg_edges d) k) \<subseteq> set (tn_dependencies n)) (dg_nodes d)"

lemma length_dict_mod [simp]: "length (dict_mod k f m) = length m"
  using arg_cong [OF dict_keys_mod, of length k f m] by (simp add: dict_keys_def)

lemma dict_mod_Nil_iff [simp]: "dict_mod k f m = [] \<longleftrightarrow> m = []"
  by (metis length_0_conv length_dict_mod)

lemma dag_inv_new: "dag_inv (new_dag i p g t now)"
  by (simp add: dag_inv_def dag_wf_def new_dag_def edges_within_def dict_values_def)

lemma incoming_snoc: "incoming (es @ [(u, v)]) k = incoming es k @ (if v = k then [u] else [])"
  by (simp add: incoming_def)

lemma add_node_inv:
  assumes inv: "dag_inv d" and r: "add_node n d = Some (d', x)"
  shows "dag_inv d'"
proof (cases "dict_has (dg_nodes d) (tn_task_id n)")
  case True
  with r inv show ?thesis by (simp add: add_node_def)
next
  case False
  from inv have wf: "dag_wf d" by (simp add: dag_inv_def)
  from add_node_ok [OF wf False] r have d': "dag_wf d'" "dg_edges d' = dg_edges d"
      "dg_nodes d' = dg_nodes d @ [(tn_task_id n, n)]" "dg_total_tasks d' = int (length (dg_nodes d'))"
      "dg_estimated_total_cost d' = sum_list (map tn_estimated_cost (dict_values (dg_nodes d')))"
    by auto
  have "\<forall>u. (u, tn_task_id n) \<notin> set (dg_edges d)"
    using wf False by (auto simp: dag_wf_def dict_has_keys dest: edges_withinD)
  with d' inv show ?thesis by (auto simp: dag_inv_def dict_all_def)
qed

lemma add_edge_inv:
  assumes inv: "dag_inv d" and r: "add_edge rlim u v d = Some (d', x)"
  shows "dag_inv d'"
proof (cases "dict_has (dg_nodes d) u \<and> dict_has (dg_nodes d) v
    \<and> would_create_cycle rlim (dg_edges d) u v = Inr False")
  case False
  with r inv show ?thesis by (auto simp: add_edge_def split: sum.splits bool.splits if_splits)
next
  case True
  let ?f = "\<lambda>n. n\<lparr>tn_dependencies := tn_dependencies n @ [u]\<rparr>"
  let ?d = "d\<lparr>dg_edges := dg_edges d @ [(u, v)], dg_nodes := dict_mod v ?f (dg_nodes d)\<rparr>"
  from inv have wf: "dag_wf d" by (simp add: dag_inv_def)
  from True add_edge_ok [OF wf, of u v rlim] r have wf': "dag_wf d'" by auto
  from True have "dg_nodes d \<noteq> []" by auto
  then have ne: "dg_nodes ?d \<noteq> []" by simp
  have wf2: "dag_wf ?d" using wf True by (auto simp: dag_wf_def edges_within_def dict_has_keys)
  have "update_estimates ?d = Some (d', x)" using r True by (simp add: add_edge_def)
  with update_estimates_ok [OF wf2 ne] have eq: "dg_nodes d' = dict_mod v ?f (dg_nodes d)"
      "dg_edges d' = dg_edges d @ [(u, v)]" "dg_total_tasks d' = dg_total_tasks d"
      "dg_estimated_total_cost d' = sum_list (map tn_estimated_cost (dict_values (dg_nodes d')))"
    by simp_all
  let ?P = "\<lambda>es k n. tn_task_id n = k \<and> set (incoming es k) \<subseteq> set (tn_dependencies n)"
  have old: "dict_all (?P (dg_edges d)) (dg_nodes d)" and ok: "dict_ok (dg_nodes d)"
    using inv by (simp_all add: dag_inv_def dag_wf_def)
  have new: "dict_all (?P (dg_edges d')) (dg_nodes d')"
    unfolding dict_all_def
  proof clarify
    fix k n assume "(k, n) \<in> set (dg_nodes d')"
    then have "dict_get (dg_nodes d') k = Some n" using ok eq(1) by (intro dict_in_get) simp_all
    then obtain m where m: "dict_get (dg_nodes d) k = Some m" "n = (if k = v then ?f m else m)"
      by (auto simp: eq(1) split: if_splits)
    from dict_allD [OF old m(1)] m(2) show "?P (dg_edges d') k n"
      unfolding eq(2) incoming_snoc by auto
  qed
  have "dg_total_tasks d' = int (length (dg_nodes d'))"
    using inv eq(1,3) by (simp add: dag_inv_def)
  with wf' new eq(4) show ?thesis unfolding dag_inv_def by blast
qed

lemma dag_exec_inv: "dag_inv d \<Longrightarrow> dag_inv (dag_exec rlim op d)"
  by (auto simp: dag_exec_def intro: add_node_inv add_edge_inv split: dag_op.splits option.splits)

interpretation dagsys: op_system "dag_exec rlim" dag_inv
  by unfold_locales (rule dag_exec_inv)

section \<open>Properties\<close>

text \<open>
  Whatever sequence of \<open>add_node\<close> and \<open>add_edge\<close> calls is made on a new DAG, refused calls
  included, the DAG stays consistent: task ids are unique and name their nodes, every edge joins
  two tasks of the DAG and is recorded among the dependencies of its target, and the task count
  and the total cost are those of the nodes.
\<close>
theorem dag_run_consistent:
  "dag_inv (fold (dag_exec rlim) ops (new_dag i p g t now))"
  by (rule dagsys.inv_run [OF dag_inv_new])


definition ex_node :: "string \<Rightarrow> task_node" where
  "ex_node i = (new_task_node i i TT_SCAN [])\<lparr>tn_estimated_duration_seconds := Some 5\<rparr>"

text \<open>A diamond: \<open>a\<close> before \<open>b\<close> and \<open>c\<close>, both before \<open>d\<close>.\<close>

definition ex_dag :: dag where
  "ex_dag = (new_dag ''dag'' ''p'' ''g'' None 0)\<lparr>
     dg_nodes := map (\<lambda>k. (k, ex_node k)) [''a'', ''b'', ''c'', ''d''],
     dg_edges := [(''a'', ''b''), (''a'', ''c''), (''b'', ''d''), (''c'', ''d'')]\<rparr>"

lemma ex_dag_wf: "dag_wf ex_dag"
  by (simp add: dag_wf_def dict_ok_def edges_within_def ex_dag_def dict_keys_def)

lemma ex_dag_acyclic: "acyclic (set (dg_edges ex_dag))"
proof -
  have "set (dg_edges ex_dag) \<subseteq> measure (\<lambda>x. of_char (hd x) :: nat)"
    by (auto simp: ex_dag_def)
  then show ?thesis by (meson acyclic_subset wf_acyclic wf_measure)
qed


text \<open>
  On a well-formed acyclic DAG with non-empty task ids, the critical path the code computes
  starts at a task without predecessors, follows edges, and no other such chain has a larger sum
  of durations.
\<close>
theorem critical_path_is_longest:
  assumes "dag_wf d" and "dg_nodes d \<noteq> []" and "acyclic (set (dg_edges d))"
    and "[] \<notin> set (dict_keys (dg_nodes d))"
  shows "\<exists>p. find_critical_path (dg_nodes d) (dg_edges d) = Some (Inr p)
    \<and> is_chain (dg_edges d) p \<and> hd p \<in> set (dict_keys (dg_nodes d))
    \<and> (\<forall>p'. is_chain (dg_edges d) p' \<and> hd p' \<in> set (dict_keys (dg_nodes d)) \<longrightarrow>
          chain_weight (dg_nodes d) p' \<le> chain_weight (dg_nodes d) p)"
  using critical_path_longest [of "dg_nodes d" "dg_edges d"] assms by (simp add: dag_wf_def)

lemma ex_dag_facts: "dg_nodes ex_dag \<noteq> []" "[] \<notin> set (dict_keys (dg_nodes ex_dag))"
    "length (dg_nodes ex_dag) \<le> 4"
  by (simp_all add: ex_dag_def dict_keys_def)

theorem critical_path_is_longest_witness:
  "\<exists>p. find_critical_path (dg_nodes ex_dag) (dg_edges ex_dag) = Some (Inr p) \<and> is_chain (dg_edges ex_dag) p"
  using critical_path_is_longest [OF ex_dag_wf ex_dag_facts(1) ex_dag_acyclic ex_dag_facts(2)] by blast

text \<open>
  The execution levels partition the tasks, and every edge goes from an earlier level to a
  later one, so the tasks of a level can run in parallel once the levels before it are done.
\<close>
theorem execution_order_schedule:
  assumes "dag_wf d" and "get_execution_order rlim d = Inr groups"
  shows "distinct (concat groups) \<and> set (concat groups) = set (dict_keys (dg_nodes d))
    \<and> (\<forall>(u, v) \<in> set (dg_edges d). \<exists>i j. i < j \<and> j < length groups \<and> u \<in> set (groups ! i) \<and> v \<in> set (groups ! j))"
  using execution_order_tasks [OF assms] execution_order_edges [OF assms] by blast

theorem execution_order_schedule_witness:
  "\<exists>groups. get_execution_order 4 ex_dag = Inr groups \<and> set (concat groups) = set (dict_keys (dg_nodes ex_dag))"
  using execution_order_exists [OF ex_dag_wf ex_dag_acyclic ex_dag_facts(1,3)]
    execution_order_schedule [OF ex_dag_wf, of 4] by blast

text \<open>
  With a stack as deep as the DAG has tasks, the execution order is computed exactly when
  the edges are acyclic; on a cycle the nested recursion exhausts the stack instead, however deep.
\<close>
theorem execution_order_iff_acyclic:
  assumes "dag_wf d" and "dg_nodes d \<noteq> []" and "length (dg_nodes d) \<le> rlim"
  shows "((\<exists>groups. get_execution_order rlim d = Inr groups) \<longleftrightarrow> acyclic (set (dg_edges d)))
    \<and> (acyclic (set (dg_edges d)) \<or> get_execution_order rlim' d = Inl RecursionErr)"
  using execution_order_exists [OF assms(1) _ assms(2,3)] execution_order_cycle [OF assms(1)]
  by (force simp: acyclic_def)

theorem execution_order_iff_acyclic_witness:
  "\<exists>groups. get_execution_order 4 ex_dag = Inr groups"
  using execution_order_iff_acyclic [OF ex_dag_wf ex_dag_facts(1,3)] ex_dag_acyclic by blast

text \<open>
  The cycle guard of \<open>add_edge\<close> does not see every cycle: it searches from the edge's
  source for a second visit of its target, so the edge that closes a cycle is accepted whenever
  its source has no outgoing edge yet. The DAG is then cyclic and its execution order is lost.
\<close>
theorem add_edge_accepts_cycle:
  assumes "dag_wf d" and "(u, v) \<in> set (dg_edges d)" and "outgoing (dg_edges d) v = []" and "0 < rlim"
  shows "\<exists>d'. add_edge rlim v u d = Some (d', None) \<and> dag_wf d' \<and> \<not> acyclic (set (dg_edges d'))
    \<and> get_execution_order rlim' d' = Inl RecursionErr"
proof -
  from assms have uv: "dict_has (dg_nodes d) u" "dict_has (dg_nodes d) v"
    by (auto simp: dag_wf_def dict_has_keys dest: edges_withinD)
  have "would_create_cycle rlim (dg_edges d) v u = Inr False"
    using assms(3,4) by (cases rlim) (simp_all add: would_create_cycle_def)
  from add_edge_ok [OF assms(1) uv(2,1) this] obtain d' where
      d': "add_edge rlim v u d = Some (d', None)" "dag_wf d'" "dg_edges d' = dg_edges d @ [(v, u)]"
    by blast
  have "(u, u) \<in> (set (dg_edges d'))\<^sup>+"
    using assms(2) d'(3) by (auto intro: trancl_trans [of u v])
  with d' execution_order_cycle [OF d'(2)] show ?thesis by (auto simp: acyclic_def)
qed

theorem add_edge_accepts_cycle_witness:
  "\<exists>d'. add_edge 1 ''d'' ''b'' ex_dag = Some (d', None) \<and> \<not> acyclic (set (dg_edges d'))"
proof -
  have "(''b'', ''d'') \<in> set (dg_edges ex_dag)" "outgoing (dg_edges ex_dag) ''d'' = []"
    by (simp_all add: ex_dag_def outgoing_def)
  from add_edge_accepts_cycle [OF ex_dag_wf this, of 1] show ?thesis by auto
qed

section \<open>What a run may change\<close>

text \<open>
  What running a plan may change of it: the tasks of the level at hand and nothing else. The
  scheduler and the orchestrator both run plans level by level.
\<close>

section \<open>Plans of the same shape\<close>

text \<open>Two plans of the same shape: same tasks, same edges; the tasks outside \<open>ts\<close> are the same.\<close>

definition same_but :: "string set \<Rightarrow> dag \<Rightarrow> dag \<Rightarrow> bool" where
  "same_but ts d d' \<longleftrightarrow> dg_edges d' = dg_edges d \<and> dict_keys (dg_nodes d') = dict_keys (dg_nodes d)
     \<and> (\<forall>t. t \<notin> ts \<longrightarrow> dict_get (dg_nodes d') t = dict_get (dg_nodes d) t)"

lemma same_but_refl [simp]: "same_but ts d d"
  by (simp add: same_but_def)

lemma same_but_trans: "same_but ts d d1 \<Longrightarrow> same_but us d1 d2 \<Longrightarrow> same_but (ts \<union> us) d d2"
  by (simp add: same_but_def)

lemma same_but_mono: "same_but ts d d1 \<Longrightarrow> ts \<subseteq> us \<Longrightarrow> same_but us d d1"
  by (auto simp: same_but_def)

lemma same_but_mod: "same_but {t} d (d\<lparr>dg_nodes := dict_mod t f (dg_nodes d)\<rparr>)"
  by (simp add: same_but_def)

lemma same_but_set: "dict_get (dg_nodes d) t = Some n \<Longrightarrow> same_but {t} d (d\<lparr>dg_nodes := dict_set t n' (dg_nodes d)\<rparr>)"
  by (simp add: same_but_def dict_keys_set dict_has_def)

lemma same_but_wf: "same_but ts d d' \<Longrightarrow> dag_wf d' = dag_wf d"
  by (simp add: same_but_def dag_wf_def dict_ok_def)

lemma same_but_order: "same_but ts d d' \<Longrightarrow> get_execution_order rlim d' = get_execution_order rlim d"
  by (simp add: same_but_def get_execution_order_def)

lemma same_but_has: "same_but ts d d' \<Longrightarrow> dict_has (dg_nodes d') t = dict_has (dg_nodes d) t"
  by (simp add: same_but_def dict_has_keys)

definition finished :: "bool \<Rightarrow> dag \<Rightarrow> string \<Rightarrow> bool" where
  "finished cont d t \<longleftrightarrow>
     (\<exists>n. dict_get (dg_nodes d) t = Some n \<and> (tn_status n = TS_COMPLETED \<or> cont \<and> tn_status n = TS_FAILED))"

lemma finished_same: "same_but ts d d' \<Longrightarrow> t \<notin> ts \<Longrightarrow> finished cont d' t = finished cont d t"
  by (simp add: finished_def same_but_def)

lemma finished_mod:
  "finished cont d t \<Longrightarrow> (\<And>n. tn_status (f n) = TS_COMPLETED \<or> cont \<and> tn_status (f n) = TS_FAILED)
     \<Longrightarrow> finished cont (d\<lparr>dg_nodes := dict_mod u f (dg_nodes d)\<rparr>) t"
  by (auto simp: finished_def)

section \<open>Levels\<close>

lemma distinct_concat_index:
  "distinct (concat gs) \<Longrightarrow> i < length gs \<Longrightarrow> j < length gs \<Longrightarrow> v \<in> set (gs ! i) \<Longrightarrow> v \<in> set (gs ! j) \<Longrightarrow> i = j"
proof (induction gs arbitrary: i j)
  case (Cons g gs)
  then have "set g \<inter> set (concat gs) = {}" by simp
  then have "v \<in> set g \<Longrightarrow> k < length gs \<Longrightarrow> v \<notin> set (gs ! k)" for k by (fastforce dest: nth_mem)
  with Cons show ?case by (auto simp: nth_Cons split: nat.splits)
qed simp

end
