(* ===== verification/DagValidator.thy ===== *)
theory DagValidator
  imports DagOps
begin

text \<open>
  The structural checks of \<open>src/agents/verifier/dag_validator.py\<close>: the depth-first cycle
  search, the dependency and isolation checks, the parallelism check. A check returns its errors
  as values (the f-string's parts); \<open>rlim\<close> is the depth at which Python's recursion stops.
\<close>

section \<open>The checks\<close>

datatype verr =
    VCycle "string list"
  | VMissingDeps "(string \<times> string) list"
  | VDuplicates "string list"
  | VInvalidTypes "string list"
  | VIsolated "string list"
  | VParallel string string
  | VCpu string pyval
  | VMemory string pyval
  | VNoAgent string "agent_capability list"
  | VSensitive string "string list"
  | VToolNotAllowed string string
  | VCompliance string

record dfs_state =
  df_visited :: "string list"
  df_rec :: "string list"
  df_path :: "string list"
  df_cycle :: "string list"

text \<open>The nested \<open>dfs\<close> of \<open>_find_cycle\<close>; the result says whether a cycle was found.\<close>

primrec find_dfs :: "nat \<Rightarrow> edges \<Rightarrow> string \<Rightarrow> dfs_state \<Rightarrow> exn + (bool \<times> dfs_state)" where
  "find_dfs 0 es n s = Inl RecursionErr"
| "find_dfs (Suc k) es n s =
     (case any_se
         (\<lambda>nb s. if nb \<notin> set (df_visited s) then find_dfs k es nb s
                 else if nb \<in> set (df_rec s)
                 then Inr (True, s\<lparr>df_cycle := df_cycle s @ dropWhile (\<lambda>x. x \<noteq> nb) (df_path s) @ [nb]\<rparr>)
                 else Inr (False, s))
         (outgoing es n)
         (s\<lparr>df_visited := n # df_visited s, df_rec := n # df_rec s, df_path := df_path s @ [n]\<rparr>) of
        Inl e \<Rightarrow> Inl e
      | Inr (True, s') \<Rightarrow> Inr (True, s')
      | Inr (False, s') \<Rightarrow>
          Inr (False, s'\<lparr>df_rec := removeAll n (df_rec s'), df_path := butlast (df_path s')\<rparr>))"

definition find_cycle :: "nat \<Rightarrow> dag \<Rightarrow> exn + string list" where
  "find_cycle rlim d =
     rbind
       (any_se
         (\<lambda>n s. if n \<in> set (df_visited s) then Inr (False, s)
                else find_dfs rlim (dg_edges d) n (s\<lparr>df_path := []\<rparr>))
         (dict_keys (dg_nodes d))
         \<lparr>df_visited = [], df_rec = [], df_path = [], df_cycle = []\<rparr>)
       (\<lambda>(found, s). Inr (if found then df_cycle s else []))"

definition check_dependencies :: "dag \<Rightarrow> (string \<times> string) list" where
  "check_dependencies d =
     concat (map (\<lambda>(t, n). map (\<lambda>dep. (t, dep)) (filter (\<lambda>dep. \<not> dict_has (dg_nodes d) dep) (tn_dependencies n)))
       (dg_nodes d))"

text \<open>Both checks are stubs of the source: they return no error.\<close>

definition find_duplicates :: "dag \<Rightarrow> string list" where
  "find_duplicates d = []"

definition check_task_types :: "dag \<Rightarrow> string list" where
  "check_task_types d = []"

definition find_isolated_tasks :: "dag \<Rightarrow> string list" where
  "find_isolated_tasks d =
     (if dg_total_tasks d \<le> 1 then []
      else filter (\<lambda>t. t \<notin> set (map snd (dg_edges d)) \<and> t \<notin> set (map fst (dg_edges d)))
             (dict_keys (dg_nodes d)))"

primrec has_path :: "nat \<Rightarrow> edges \<Rightarrow> string \<Rightarrow> string \<Rightarrow> string list \<Rightarrow> exn + (bool \<times> string list)" where
  "has_path 0 es target start vis = Inl RecursionErr"
| "has_path (Suc k) es target start vis =
     (if start = target then Inr (True, vis)
      else if start \<in> set vis then Inr (False, vis)
      else any_se (has_path k es target) (outgoing es start) (start # vis))"

definition related :: "nat \<Rightarrow> edges \<Rightarrow> string \<Rightarrow> string \<Rightarrow> exn + bool" where
  "related rlim es a b =
     rbind (has_path rlim es b a []) (\<lambda>(p, _).
       if p then Inr True else map_sum id fst (has_path rlim es a b []))"

definition check_parallelism :: "nat \<Rightarrow> dag \<Rightarrow> exn + verr list" where
  "check_parallelism rlim d =
     rbind (all_levels rlim (dg_edges d) (dict_keys (dg_nodes d))) (\<lambda>lv.
       foldM_e
         (\<lambda>(t, l) errs.
           foldM_e
             (\<lambda>other errs. rbind (related rlim (dg_edges d) t other) (\<lambda>b.
                Inr (if b then errs @ [VParallel t other] else errs)))
             (map fst (filter (\<lambda>tl. snd tl = l \<and> fst tl \<noteq> t) lv)) errs)
         lv [])"

definition validate_structure :: "nat \<Rightarrow> dag \<Rightarrow> exn + verr list" where
  "validate_structure rlim d =
     rbind (find_cycle rlim d) (\<lambda>cycle.
       let e1 = (if cycle \<noteq> [] then [VCycle cycle] else []);
           missing = check_dependencies d;
           e2 = (if missing \<noteq> [] then e1 @ [VMissingDeps missing] else e1);
           dups = find_duplicates d;
           e3 = (if dups \<noteq> [] then e2 @ [VDuplicates dups] else e2);
           bad = check_task_types d;
           e4 = (if bad \<noteq> [] then e3 @ [VInvalidTypes bad] else e3);
           isolated = find_isolated_tasks d;
           e5 = (if isolated \<noteq> [] \<and> dg_total_tasks d > 1 then e4 @ [VIsolated isolated] else e4)
       in rbind (check_parallelism rlim d) (\<lambda>issues. Inr (e5 @ issues)))"

section \<open>The cycle search\<close>

definition black :: "dfs_state \<Rightarrow> string set" where
  "black s = set (df_visited s) - set (df_rec s)"

text \<open>
  Between two calls of \<open>dfs\<close>: the path is the recursion stack and follows the edges, and no edge
  leaves the explored (visited, not on the stack) tasks, among which there is no cycle.
\<close>

definition explored :: "edges \<Rightarrow> string set \<Rightarrow> bool" where
  "explored es B \<longleftrightarrow> (\<forall>u v. u \<in> B \<longrightarrow> (u, v) \<in> set es \<longrightarrow> v \<in> B) \<and> acyclic {e \<in> set es. fst e \<in> B}"

definition dfs_inv :: "edges \<Rightarrow> dfs_state \<Rightarrow> bool" where
  "dfs_inv es s \<longleftrightarrow> set (df_rec s) \<subseteq> set (df_visited s) \<and> set (df_path s) = set (df_rec s)
     \<and> successively (\<lambda>u v. (u, v) \<in> set es) (df_path s) \<and> df_cycle s = [] \<and> explored es (black s)"

definition closed_walk :: "edges \<Rightarrow> string list \<Rightarrow> bool" where
  "closed_walk es c \<longleftrightarrow> 2 \<le> length c \<and> hd c = last c \<and> successively (\<lambda>u v. (u, v) \<in> set es) c"

text \<open>What a call that finds no cycle leaves: the same stack, more finished tasks.\<close>

definition dfs_grow :: "dfs_state \<Rightarrow> dfs_state \<Rightarrow> bool" where
  "dfs_grow s s' \<longleftrightarrow> df_rec s' = df_rec s \<and> df_path s' = df_path s
     \<and> set (df_visited s) \<subseteq> set (df_visited s')"

lemma dfs_grow_refl [simp]: "dfs_grow s s"
  by (simp add: dfs_grow_def)

lemma dfs_grow_trans: "dfs_grow s s' \<Longrightarrow> dfs_grow s' s'' \<Longrightarrow> dfs_grow s s''"
  by (auto simp: dfs_grow_def)

lemma dfs_grow_black: "dfs_grow s s' \<Longrightarrow> black s \<subseteq> black s'"
  by (auto simp: dfs_grow_def black_def)

lemma any_se_cases:
  assumes step: "\<And>x s b s'. x \<in> set xs \<Longrightarrow> I s \<Longrightarrow> f x s = Inr (b, s') \<Longrightarrow>
      (if b then Q s' else I s' \<and> R s s' \<and> D x s')"
    and refl: "\<And>s. R s s" and trans: "\<And>a b c. R a b \<Longrightarrow> R b c \<Longrightarrow> R a c"
    and mono: "\<And>x s s'. D x s \<Longrightarrow> R s s' \<Longrightarrow> D x s'"
    and run: "any_se f xs s = Inr (b, s')" and I: "I s"
  shows "if b then Q s' else I s' \<and> R s s' \<and> (\<forall>x \<in> set xs. D x s')"
  using step run I
proof (induction xs arbitrary: s)
  case Nil
  then show ?case using refl by simp
next
  case (Cons x xs)
  from Cons.prems(2) obtain b1 s1 where 1: "f x s = Inr (b1, s1)"
    by (auto split: sum.splits)
  show ?case
  proof (cases b1)
    case True
    with 1 Cons.prems(1) [of x s b1 s1] Cons.prems(2,3) show ?thesis by simp
  next
    case False
    with 1 Cons.prems(1) [of x s b1 s1] Cons.prems(3) have s1: "I s1" "R s s1" "D x s1" by auto
    from False 1 Cons.prems(2) have run1: "any_se f xs s1 = Inr (b, s')" by simp
    have "if b then Q s' else I s' \<and> R s1 s' \<and> (\<forall>x \<in> set xs. D x s')"
      by (rule Cons.IH [OF _ run1 s1(1)]) (rule Cons.prems(1), simp_all)
    with s1 trans mono show ?thesis by (cases b) (simp, force)
  qed
qed

lemma explored_insert:
  assumes fin: "explored es B" and "n \<notin> B" and succs: "\<And>v. (n, v) \<in> set es \<Longrightarrow> v \<in> B"
  shows "explored es (insert n B)"
proof -
  let ?R = "{e \<in> set es. fst e \<in> insert n B}" and ?B = "{e \<in> set es. fst e \<in> B}"
  have stay: "y \<in> B \<and> (x \<in> B \<longrightarrow> (x, y) \<in> ?B\<^sup>+)" if "(x, y) \<in> ?R\<^sup>+" for x y
    using that
  proof (induction rule: trancl_induct)
    case (base y)
    with fin succs show ?case by (auto simp: explored_def)
  next
    case (step y z)
    then have "z \<in> B" using fin by (auto simp: explored_def)
    with step show ?case by (auto intro: trancl_into_trancl)
  qed
  have "(x, x) \<notin> ?R\<^sup>+" for x
  proof
    assume "(x, x) \<in> ?R\<^sup>+"
    from stay [OF this] have "(x, x) \<in> ?B\<^sup>+" by auto
    with fin show False by (simp add: explored_def acyclic_def)
  qed
  with fin succs show ?thesis by (auto simp: explored_def acyclic_def)
qed

lemma successively_dropWhile: "successively P xs \<Longrightarrow> successively P (dropWhile Q xs)"
  by (induction xs rule: induct_list012) auto

lemma dropWhile_hd: "x \<in> set xs \<Longrightarrow> dropWhile (\<lambda>y. y \<noteq> x) xs \<noteq> [] \<and> hd (dropWhile (\<lambda>y. y \<noteq> x) xs) = x
    \<and> last (dropWhile (\<lambda>y. y \<noteq> x) xs) = last xs"
  by (induction xs) auto

lemma dfs_push:
  assumes "dfs_inv es s" and "n \<notin> set (df_visited s)"
    and "df_path s \<noteq> [] \<longrightarrow> (last (df_path s), n) \<in> set es"
  shows "dfs_inv es (s\<lparr>df_visited := n # df_visited s, df_rec := n # df_rec s, df_path := df_path s @ [n]\<rparr>)"
proof -
  let ?s = "s\<lparr>df_visited := n # df_visited s, df_rec := n # df_rec s, df_path := df_path s @ [n]\<rparr>"
  have "black ?s = black s" using assms(1,2) by (auto simp: black_def dfs_inv_def)
  with assms(1,3) show ?thesis by (auto simp: dfs_inv_def successively_append_iff)
qed

lemma dfs_found:
  assumes "dfs_inv es s" and "df_path s \<noteq> []" and "nb \<in> set (df_rec s)" and "(last (df_path s), nb) \<in> set es"
  shows "closed_walk es (df_cycle s @ dropWhile (\<lambda>x. x \<noteq> nb) (df_path s) @ [nb])"
proof -
  let ?p = "dropWhile (\<lambda>x. x \<noteq> nb) (df_path s)"
  from assms have "nb \<in> set (df_path s)" "df_cycle s = []" and chain: "successively (\<lambda>u v. (u, v) \<in> set es) (df_path s)"
    by (auto simp: dfs_inv_def)
  moreover from dropWhile_hd [OF this(1)] have "?p \<noteq> []" "hd ?p = nb" "last ?p = last (df_path s)" by auto
  moreover have "successively (\<lambda>u v. (u, v) \<in> set es) (?p @ [nb])"
    using assms(4) \<open>?p \<noteq> []\<close> \<open>last ?p = last (df_path s)\<close> successively_dropWhile [OF chain]
    by (simp add: successively_append_iff)
  moreover have "2 \<le> length (?p @ [nb])" using \<open>?p \<noteq> []\<close> by (cases ?p) simp_all
  ultimately show ?thesis by (simp add: closed_walk_def)
qed

lemma dfs_pop:
  assumes inv0: "dfs_inv es s0" and n: "n \<notin> set (df_visited s0)" and inv: "dfs_inv es s"
    and grow: "dfs_grow (s0\<lparr>df_visited := n # df_visited s0, df_rec := n # df_rec s0, df_path := df_path s0 @ [n]\<rparr>) s"
    and succs: "\<And>v. (n, v) \<in> set es \<Longrightarrow> v \<in> black s"
  shows "dfs_inv es (s\<lparr>df_rec := removeAll n (df_rec s), df_path := butlast (df_path s)\<rparr>)
    \<and> dfs_grow s0 (s\<lparr>df_rec := removeAll n (df_rec s), df_path := butlast (df_path s)\<rparr>)
    \<and> n \<in> black (s\<lparr>df_rec := removeAll n (df_rec s), df_path := butlast (df_path s)\<rparr>)"
proof -
  let ?s = "s\<lparr>df_rec := removeAll n (df_rec s), df_path := butlast (df_path s)\<rparr>"
  from inv0 n have "n \<notin> set (df_rec s0)" by (auto simp: dfs_inv_def)
  with grow have eq: "df_rec ?s = df_rec s0" "df_path ?s = df_path s0" "df_rec s = n # df_rec s0"
    and vis: "insert n (set (df_visited s0)) \<subseteq> set (df_visited s)"
    by (auto simp: dfs_grow_def)
  have blk: "black ?s = insert n (black s)"
    using vis eq \<open>n \<notin> set (df_rec s0)\<close> by (auto simp: black_def)
  have "n \<notin> black s" using eq(3) by (simp add: black_def)
  with inv succs have "explored es (black ?s)"
    unfolding blk by (intro explored_insert) (auto simp: dfs_inv_def)
  with inv0 inv vis eq(1,2) have "dfs_inv es ?s"
    by (auto simp: dfs_inv_def)
  moreover have "dfs_grow s0 ?s" using eq vis by (simp add: dfs_grow_def)
  ultimately show ?thesis by (simp add: blk)
qed

lemma find_dfs_spec:
  assumes "dfs_inv es s" and "n \<notin> set (df_visited s)"
    and "df_path s \<noteq> [] \<longrightarrow> (last (df_path s), n) \<in> set es" and "find_dfs k es n s = Inr (b, s')"
  shows "if b then closed_walk es (df_cycle s') else dfs_inv es s' \<and> dfs_grow s s' \<and> n \<in> black s'"
  using assms
proof (induction k arbitrary: n s b s')
  case 0
  then show ?case by simp
next
  case (Suc k)
  let ?s1 = "s\<lparr>df_visited := n # df_visited s, df_rec := n # df_rec s, df_path := df_path s @ [n]\<rparr>"
  let ?f = "\<lambda>nb s. if nb \<notin> set (df_visited s) then find_dfs k es nb s
                 else if nb \<in> set (df_rec s)
                 then Inr (True, s\<lparr>df_cycle := df_cycle s @ dropWhile (\<lambda>x. x \<noteq> nb) (df_path s) @ [nb]\<rparr>)
                 else Inr (False, s)"
  obtain b2 s2 where run: "any_se ?f (outgoing es n) ?s1 = Inr (b2, s2)"
    and res: "b = b2" "s' = (if b2 then s2 else s2\<lparr>df_rec := removeAll n (df_rec s2), df_path := butlast (df_path s2)\<rparr>)"
    using Suc.prems(4) by (auto split: sum.splits bool.splits)
  let ?I = "\<lambda>s. dfs_inv es s \<and> df_path s \<noteq> [] \<and> last (df_path s) = n"
  have "if b2 then closed_walk es (df_cycle s2)
        else ?I s2 \<and> dfs_grow ?s1 s2 \<and> (\<forall>nb \<in> set (outgoing es n). nb \<in> black s2)"
  proof (rule any_se_cases [where I = ?I and R = dfs_grow and D = "\<lambda>x s. x \<in> black s", OF _ _ _ _ run])
    fix nb s b s'
    assume nb: "nb \<in> set (outgoing es n)" and I: "?I s" and step: "?f nb s = Inr (b, s')"
    show "if b then closed_walk es (df_cycle s') else ?I s' \<and> dfs_grow s s' \<and> nb \<in> black s'"
    proof (cases "nb \<in> set (df_visited s)")
      case False
      with Suc.IH [of s nb b s'] I nb step show ?thesis by (auto simp: dfs_grow_def split: if_splits)
    next
      case True
      with I nb step show ?thesis
        by (auto simp: black_def intro: dfs_found split: if_splits)
    qed
  next
    show "?I ?s1" using dfs_push [OF Suc.prems(1-3)] by simp
  qed (auto intro: dfs_grow_trans dest: dfs_grow_black)
  with res dfs_pop [OF Suc.prems(1,2)] show ?case by (cases b2) auto
qed

lemma chain_trancl:
  "successively (\<lambda>u v. (u, v) \<in> R) (x # xs) \<Longrightarrow> xs \<noteq> [] \<Longrightarrow> (x, last xs) \<in> R\<^sup>+"
  by (induction xs arbitrary: x) (auto split: if_splits intro: trancl_into_trancl2)

lemma closed_walk_cyclic: "closed_walk es c \<Longrightarrow> \<not> acyclic (set es)"
  using chain_trancl [of "set es" "hd c" "tl c"]
  by (cases c rule: remdups_adj.cases) (auto simp: closed_walk_def acyclic_def split: if_splits)

lemma find_cycle_spec:
  assumes wf: "dag_wf d" and run: "find_cycle rlim d = Inr c"
  shows "if acyclic (set (dg_edges d)) then c = [] else closed_walk (dg_edges d) c"
proof -
  let ?es = "dg_edges d" and ?ns = "dict_keys (dg_nodes d)"
  let ?s0 = "\<lparr>df_visited = [], df_rec = [], df_path = [], df_cycle = []\<rparr>"
  let ?f = "\<lambda>n s. if n \<in> set (df_visited s) then Inr (False, s)
                else find_dfs rlim ?es n (s\<lparr>df_path := []\<rparr>)"
  obtain b s where loop: "any_se ?f ?ns ?s0 = Inr (b, s)" and c: "c = (if b then df_cycle s else [])"
    using run by (auto simp: find_cycle_def rbind_Inr)
  let ?I = "\<lambda>s. dfs_inv ?es s \<and> df_rec s = []"
  have "if b then closed_walk ?es (df_cycle s)
        else ?I s \<and> dfs_grow ?s0 s \<and> (\<forall>n \<in> set ?ns. n \<in> black s)"
  proof (rule any_se_cases [where I = ?I and R = dfs_grow and D = "\<lambda>x s. x \<in> black s", OF _ _ _ _ loop])
    fix n s b s'
    assume I: "?I s" and step: "?f n s = Inr (b, s')"
    then have path: "s\<lparr>df_path := []\<rparr> = s" by (cases s) (simp add: dfs_inv_def)
    show "if b then closed_walk ?es (df_cycle s') else ?I s' \<and> dfs_grow s s' \<and> n \<in> black s'"
    proof (cases "n \<in> set (df_visited s)")
      case True
      with I step show ?thesis by (auto simp: black_def)
    next
      case False
      from I have "set (df_path s) = {}" by (simp add: dfs_inv_def)
      then have "df_path s = []" by simp
      with find_dfs_spec [of ?es s n rlim b s'] False I step path show ?thesis
        by (auto simp: dfs_grow_def)
    qed
  next
    show "?I ?s0" by (simp add: dfs_inv_def black_def explored_def acyclic_def)
  qed (auto intro: dfs_grow_trans dest: dfs_grow_black)
  moreover have "acyclic (set ?es)" if "dfs_inv ?es s" "\<forall>n \<in> set ?ns. n \<in> black s"
  proof -
    have "{e \<in> set ?es. fst e \<in> black s} = set ?es"
      using that(2) wf by (auto simp: dag_wf_def dest: edges_withinD)
    with that(1) show ?thesis by (simp add: dfs_inv_def explored_def)
  qed
  ultimately show ?thesis using c closed_walk_cyclic by (cases b) auto
qed

section \<open>The searches end within the stack\<close>

lemma any_se_total:
  assumes "\<And>x s. x \<in> set xs \<Longrightarrow> I s \<Longrightarrow> \<exists>b s'. f x s = Inr (b, s') \<and> I s'" and "I s"
  shows "\<exists>b s'. any_se f xs s = Inr (b, s') \<and> I s'"
  using assms
proof (induction xs arbitrary: s)
  case Nil
  from Nil.prems(2) show ?case by (intro exI [of _ False] exI [of _ s]) simp
next
  case (Cons x xs)
  from Cons.prems(1) [of x s] Cons.prems(2) obtain b s1 where "f x s = Inr (b, s1)" "I s1" by auto
  with Cons show ?case by (cases b) auto
qed

lemma card_Diff_insert_less:
  "finite N \<Longrightarrow> n \<in> N \<Longrightarrow> n \<notin> V \<Longrightarrow> insert n V \<subseteq> V' \<Longrightarrow> card (N - V') < card (N - V)"
  by (rule psubset_card_mono) auto

lemma find_dfs_total:
  assumes "finite N" and within: "edges_within N es"
    and "n \<in> N" and "n \<notin> set (df_visited s)" and "card (N - set (df_visited s)) \<le> k"
  shows "\<exists>b s'. find_dfs k es n s = Inr (b, s') \<and> set (df_visited s) \<subseteq> set (df_visited s')"
  using assms(3-5)
proof (induction k arbitrary: n s)
  case 0
  then show ?case using assms(1) by auto
next
  case (Suc k)
  let ?V = "insert n (set (df_visited s))"
  have small: "card (N - set (df_visited s')) \<le> k" if "?V \<subseteq> set (df_visited s')" for s' :: dfs_state
    using card_Diff_insert_less [OF assms(1) Suc.prems(1,2) that] Suc.prems(3) by simp
  have "\<exists>b s'. any_se (\<lambda>nb s. if nb \<notin> set (df_visited s) then find_dfs k es nb s
                 else if nb \<in> set (df_rec s)
                 then Inr (True, s\<lparr>df_cycle := df_cycle s @ dropWhile (\<lambda>x. x \<noteq> nb) (df_path s) @ [nb]\<rparr>)
                 else Inr (False, s)) (outgoing es n)
         (s\<lparr>df_visited := n # df_visited s, df_rec := n # df_rec s, df_path := df_path s @ [n]\<rparr>) = Inr (b, s')
      \<and> ?V \<subseteq> set (df_visited s')"
  proof (rule any_se_total)
    fix nb and s' :: dfs_state
    assume nb: "nb \<in> set (outgoing es n)" and V: "?V \<subseteq> set (df_visited s')"
    from nb have "nb \<in> N" using edges_withinD [OF within] by auto
    with Suc.IH [of nb s'] small [OF V] V
    show "\<exists>b s''. (if nb \<notin> set (df_visited s') then find_dfs k es nb s'
                 else if nb \<in> set (df_rec s')
                 then Inr (True, s'\<lparr>df_cycle := df_cycle s' @ dropWhile (\<lambda>x. x \<noteq> nb) (df_path s') @ [nb]\<rparr>)
                 else Inr (False, s')) = Inr (b, s'') \<and> ?V \<subseteq> set (df_visited s'')"
      by (cases "nb \<in> set (df_visited s')") force+
  qed simp
  then show ?case by (force split: bool.split)
qed

lemma find_cycle_total:
  assumes "dag_wf d" and "length (dg_nodes d) \<le> rlim"
  shows "\<exists>c. find_cycle rlim d = Inr c"
proof -
  let ?N = "set (dict_keys (dg_nodes d))"
  have within: "edges_within ?N (dg_edges d)" using assms(1) by (simp add: dag_wf_def)
  have "card (?N - V) \<le> rlim" for V
    using card_mono [of ?N "?N - V"] card_length [of "dict_keys (dg_nodes d)"] assms(2)
    by (simp add: dict_keys_def)
  note card_le = this
  have "\<exists>b s'. any_se (\<lambda>n s. if n \<in> set (df_visited s) then Inr (False, s)
                else find_dfs rlim (dg_edges d) n (s\<lparr>df_path := []\<rparr>))
         (dict_keys (dg_nodes d)) \<lparr>df_visited = [], df_rec = [], df_path = [], df_cycle = []\<rparr> = Inr (b, s') \<and> True"
  proof (rule any_se_total)
    fix n and s :: dfs_state
    assume "n \<in> ?N"
    with find_dfs_total [OF _ within, of n "s\<lparr>df_path := []\<rparr>" rlim] card_le
    show "\<exists>b s'. (if n \<in> set (df_visited s) then Inr (False, s)
                else find_dfs rlim (dg_edges d) n (s\<lparr>df_path := []\<rparr>)) = Inr (b, s') \<and> True"
      by auto
  qed simp
  then show ?thesis by (auto simp: find_cycle_def)
qed

lemma any_se_true: "any_se f xs s = Inr (True, s') \<Longrightarrow> \<exists>x \<in> set xs. \<exists>s1 s2. f x s1 = Inr (True, s2)"
  by (induction xs arbitrary: s) (fastforce split: sum.splits if_splits)+

lemma has_path_sound:
  "has_path k es target start vis = Inr (b, vis') \<Longrightarrow> b \<Longrightarrow> (start, target) \<in> (set es)\<^sup>*"
proof (induction k arbitrary: start vis b vis')
  case 0
  then show ?case by simp
next
  case (Suc k)
  show ?case
  proof (cases "start = target")
    case False
    with Suc.prems have "any_se (has_path k es target) (outgoing es start) (start # vis) = Inr (True, vis')"
      by (auto split: if_splits)
    from any_se_true [OF this] Suc.IH obtain nb where "(start, nb) \<in> set es" "(nb, target) \<in> (set es)\<^sup>*"
      by auto
    then show ?thesis by (rule converse_rtrancl_into_rtrancl)
  qed simp
qed

lemma has_path_total:
  assumes "finite N" and within: "edges_within N es" and "start \<in> N" and "card (N - set vis) < k"
  shows "\<exists>b vis'. has_path k es target start vis = Inr (b, vis') \<and> set vis \<subseteq> set vis'"
  using assms(3,4)
proof (induction k arbitrary: start vis)
  case 0
  then show ?case by simp
next
  case (Suc k)
  show ?case
  proof (cases "start = target \<or> start \<in> set vis")
    case True
    then show ?thesis by auto
  next
    case False
    have "\<exists>b v'. any_se (has_path k es target) (outgoing es start) (start # vis) = Inr (b, v')
        \<and> insert start (set vis) \<subseteq> set v'"
    proof (rule any_se_total)
      fix nb v
      assume nb: "nb \<in> set (outgoing es start)" and v: "insert start (set vis) \<subseteq> set v"
      from nb have "nb \<in> N" using edges_withinD [OF within] by auto
      moreover have "card (N - set v) < k"
        using card_Diff_insert_less [OF assms(1) Suc.prems(1) _ v] False Suc.prems(2) by simp
      ultimately show "\<exists>b v'. has_path k es target nb v = Inr (b, v') \<and> insert start (set vis) \<subseteq> set v'"
        using Suc.IH [of nb v] v by blast
    qed simp
    with False show ?thesis by auto
  qed
qed

section \<open>The parallelism check\<close>

lemma level_not_related:
  assumes "levels_ok es lv" and "dict_get lv a = Some l" and "dict_get lv b = Some l" and "a \<noteq> b"
  shows "(a, b) \<notin> (set es)\<^sup>*"
  using level_path [OF assms(1), of a b l] assms(2-4) by (auto simp: rtrancl_eq_or_trancl)

lemma related_false:
  assumes wf: "dag_wf d" and big: "length (dg_nodes d) < rlim"
    and a: "a \<in> set (dict_keys (dg_nodes d))" and b: "b \<in> set (dict_keys (dg_nodes d))"
    and no: "(a, b) \<notin> (set (dg_edges d))\<^sup>*" "(b, a) \<notin> (set (dg_edges d))\<^sup>*"
  shows "related rlim (dg_edges d) a b = Inr False"
proof -
  let ?N = "set (dict_keys (dg_nodes d))"
  have within: "edges_within ?N (dg_edges d)" using wf by (simp add: dag_wf_def)
  have card: "card (?N - set []) < rlim"
    using card_length [of "dict_keys (dg_nodes d)"] big by (simp add: dict_keys_def)
  obtain p v where 1: "has_path rlim (dg_edges d) b a [] = Inr (p, v)"
    using has_path_total [OF _ within a card] by fastforce
  obtain q w where 2: "has_path rlim (dg_edges d) a b [] = Inr (q, w)"
    using has_path_total [OF _ within b card] by fastforce
  have "\<not> p" "\<not> q" using has_path_sound [OF 1] has_path_sound [OF 2] no by auto
  with 1 2 show ?thesis by (simp add: related_def)
qed

text \<open>Levels grow along edges, so the check never reports anything.\<close>

lemma check_parallelism_acyclic:
  assumes wf: "dag_wf d" and acyc: "acyclic (set (dg_edges d))" and big: "length (dg_nodes d) < rlim"
  shows "check_parallelism rlim d = Inr []"
proof -
  let ?ns = "dict_keys (dg_nodes d)"
  have within: "edges_within (set ?ns) (dg_edges d)" using wf by (simp add: dag_wf_def)
  obtain lv where lv: "all_levels rlim (dg_edges d) ?ns = Inr lv"
    using all_levels_total [OF acyc within, of rlim] big by (auto simp: dict_keys_def)
  from all_levels_spec [OF within subset_refl lv]
  have ok: "levels_ok (dg_edges d) lv" "dict_ok lv" "set (dict_keys lv) \<subseteq> set ?ns"
    by (auto simp: levels_inv_def)
  have get: "dict_get lv t = Some l \<and> t \<in> set ?ns" if "(t, l) \<in> set lv" for t l
    using dict_in_get [OF ok(2) that] dict_fst_keys [OF that] ok(3) by auto
  have rel: "related rlim (dg_edges d) t other = Inr False"
    if "(t, l) \<in> set lv" "(other, l) \<in> set lv" "other \<noteq> t" for t other l
    using get [OF that(1)] get [OF that(2)] level_not_related [OF ok(1)] that(3)
    by (intro related_false [OF wf big]) auto
  have inner: "\<exists>e. foldM_e (\<lambda>other errs. rbind (related rlim (dg_edges d) t other) (\<lambda>b.
         Inr (if b then errs @ [VParallel t other] else errs)))
       (map fst (filter (\<lambda>tl. snd tl = l \<and> fst tl \<noteq> t) lv)) errs = Inr e \<and> e = []"
    if "(t, l) \<in> set lv" "errs = []" for t l and errs :: "verr list"
    by (rule foldM_e_ok) (use that rel in auto)
  have "\<exists>e. foldM_e (\<lambda>(t, l) errs. foldM_e (\<lambda>other errs. rbind (related rlim (dg_edges d) t other) (\<lambda>b.
         Inr (if b then errs @ [VParallel t other] else errs)))
       (map fst (filter (\<lambda>tl. snd tl = l \<and> fst tl \<noteq> t) lv)) errs) lv [] = Inr e \<and> e = []"
    by (rule foldM_e_ok) (use inner in auto)
  with lv show ?thesis by (auto simp: check_parallelism_def)
qed

lemma check_parallelism_cycle:
  "dag_wf d \<Longrightarrow> \<not> acyclic (set (dg_edges d)) \<Longrightarrow> check_parallelism rlim d = Inl RecursionErr"
  using all_levels_cycle by (force simp: check_parallelism_def dag_wf_def acyclic_def)

lemma validate_structure_ok:
  assumes "dag_wf d" and "acyclic (set (dg_edges d))" and "length (dg_nodes d) < rlim"
    and "check_dependencies d = []" and "find_isolated_tasks d = []"
  shows "validate_structure rlim d = Inr []"
proof -
  from find_cycle_total [OF assms(1)] assms(3) obtain c where c: "find_cycle rlim d = Inr c" by force
  with find_cycle_spec [OF assms(1) c] check_parallelism_acyclic [OF assms(1-3)] assms
  show ?thesis by (simp add: validate_structure_def find_duplicates_def check_task_types_def)
qed

lemma ex_dag_checks: "length (dg_nodes ex_dag) < 5" "check_dependencies ex_dag = []" "find_isolated_tasks ex_dag = []"
  by (simp_all add: ex_dag_def check_dependencies_def find_isolated_tasks_def
      new_dag_def ex_node_def new_task_node_def)

section \<open>Properties\<close>

text \<open>
  C6: On a well-formed DAG the cycle search of the validator always ends within a stack of one
  frame per task, reports nothing exactly when the edges are acyclic, and otherwise reports a
  closed walk along the edges.
\<close>
theorem find_cycle_correct:
  assumes "dag_wf d" and "length (dg_nodes d) \<le> rlim"
  shows "\<exists>c. find_cycle rlim d = Inr c
    \<and> (if acyclic (set (dg_edges d)) then c = [] else closed_walk (dg_edges d) c)"
  using find_cycle_total [OF assms] find_cycle_spec [OF assms(1)] by blast

definition ex_loop :: dag where
  "ex_loop = ex_dag\<lparr>dg_edges := [(''a'', ''b''), (''b'', ''d''), (''d'', ''b'')]\<rparr>"

lemma ex_loop_wf: "dag_wf ex_loop"
  by (simp add: dag_wf_def dict_ok_def edges_within_def ex_loop_def ex_dag_def dict_keys_def)

lemma ex_loop_cyclic: "\<not> acyclic (set (dg_edges ex_loop))"
  by (rule closed_walk_cyclic [of _ "[''b'', ''d'', ''b'']"]) (simp add: closed_walk_def ex_loop_def)

theorem find_cycle_correct_witness:
  "find_cycle 4 ex_dag = Inr [] \<and> (\<exists>c. find_cycle 4 ex_loop = Inr c \<and> closed_walk (dg_edges ex_loop) c)"
  using find_cycle_correct [OF ex_dag_wf ex_dag_facts(3)] ex_dag_acyclic
    find_cycle_correct [OF ex_loop_wf, of 4] ex_loop_cyclic
  by (auto simp: ex_loop_def ex_dag_facts)

text \<open>
  The structural validation of a well-formed acyclic DAG returns (given one stack frame more
  than tasks) and accepts exactly the DAGs whose tasks name only existing dependencies and none of
  which is isolated; the cycle and parallelism checks then report nothing. On a cyclic DAG it does
  not return the cycle it found: the level computation that follows exhausts the stack.
\<close>
theorem validate_structure_correct:
  assumes "dag_wf d" and "length (dg_nodes d) < rlim"
  shows "if acyclic (set (dg_edges d))
    then \<exists>errs. validate_structure rlim d = Inr errs
      \<and> (errs = [] \<longleftrightarrow> check_dependencies d = [] \<and> find_isolated_tasks d = [])
    else validate_structure rlim d = Inl RecursionErr"
proof -
  from find_cycle_total [OF assms(1)] assms(2) obtain c where c: "find_cycle rlim d = Inr c" by force
  show ?thesis
  proof (cases "acyclic (set (dg_edges d))")
    case True
    with find_cycle_spec [OF assms(1) c] check_parallelism_acyclic [OF assms(1) True assms(2)] c
    show ?thesis
      by (auto simp: validate_structure_def Let_def find_duplicates_def check_task_types_def
          find_isolated_tasks_def)
  next
    case False
    with check_parallelism_cycle [OF assms(1) False] c show ?thesis
      by (simp add: validate_structure_def Let_def)
  qed
qed

theorem validate_structure_correct_witness:
  "validate_structure 5 ex_dag = Inr [] \<and> validate_structure 5 ex_loop = Inl RecursionErr"
proof -
  have "length (dg_nodes ex_loop) < 5" by (simp add: ex_loop_def ex_dag_def)
  with validate_structure_correct [OF ex_dag_wf, of 5] validate_structure_correct [OF ex_loop_wf, of 5]
  show ?thesis using ex_dag_acyclic ex_loop_cyclic ex_dag_checks by auto
qed

end
