(* ===== verification/Verifier.thy ===== *)
theory Verifier
  imports DagValidator
begin

text \<open>
  The verifier agent (\<open>src/agents/verifier/\<close>): the resource and capability validators, the
  security policy checks, \<open>validate_dag\<close> that runs all of them and marks the DAG, and
  \<open>suggest_fixes\<close>. \<open>lower\<close> lower-cases ASCII letters.
\<close>

definition lower_char :: "char \<Rightarrow> char" where
  "lower_char c =
     (let n = of_char c :: nat in if 65 \<le> n \<and> n \<le> 90 then char_of (n + 32) else c)"

definition lower :: "string \<Rightarrow> string" where
  "lower s = map lower_char s"

section \<open>Resources\<close>

text \<open>\<open>cpu_req > 8.0\<close> on a parameter of any type: an unlike type raises.\<close>

definition check_limit ::
    "pyval \<Rightarrow> rat \<Rightarrow> (pyval \<Rightarrow> verr) \<Rightarrow> verr list \<Rightarrow> exn + verr list" where
  "check_limit req limit_v err errs =
     (case py_gt req (PFloat limit_v) of
        None \<Rightarrow> Inl TypeErr
      | Some b \<Rightarrow> Inr (if b then errs @ [err req] else errs))"

definition validate_resources :: "dag \<Rightarrow> exn + verr list" where
  "validate_resources d =
     foldM_e
       (\<lambda>(tid, task) errs.
          rbind (check_limit (dict_get_or (tn_parameters task) ''cpu'' (PFloat 1)) 8 (VCpu (tn_name task)) errs)
            (check_limit (dict_get_or (tn_parameters task) ''memory'' (PInt 512)) 8192 (VMemory (tn_name task))))
       (dg_nodes d) []"

section \<open>Capabilities\<close>

definition available_agents :: "(string \<times> agent_capability list) list" where
  "available_agents =
     [(''scanner_agent'', [PORT_SCAN, VULN_SCAN, WEB_SCAN, NETWORK_SCAN]),
      (''recon_agent'', [NETWORK_SCAN, PORT_SCAN]),
      (''exploit_agent'', [EXPLOIT]),
      (''analyzer_agent'', [VALIDATION])]"

fun find_agent :: "agent_capability list \<Rightarrow> (string \<times> agent_capability list) list \<Rightarrow> string option" where
  "find_agent caps [] = None"
| "find_agent caps ((a, has) # rest) = (if set caps \<subseteq> set has then Some a else find_agent caps rest)"

text \<open>The first agent that can handle a task is assigned to it; the loop goes over all tasks.\<close>

fun assign_agents :: "(string \<times> task_node) list \<Rightarrow> (string \<times> task_node) list \<times> verr list" where
  "assign_agents [] = ([], [])"
| "assign_agents ((tid, task) # rest) =
     (let (rest', errs) = assign_agents rest
      in (case find_agent (tn_required_capabilities task) available_agents of
            Some a \<Rightarrow> ((tid, task\<lparr>tn_assigned_agent := Some a\<rparr>) # rest', errs)
          | None \<Rightarrow> ((tid, task) # rest', VNoAgent (tn_name task) (tn_required_capabilities task) # errs)))"

definition validate_capabilities :: "dag \<Rightarrow> dag \<times> verr list" where
  "validate_capabilities d =
     (let (nodes, errs) = assign_agents (dg_nodes d) in (d\<lparr>dg_nodes := nodes\<rparr>, errs))"

section \<open>Security policies and budget\<close>

definition sensitive_keywords :: "string list" where
  "sensitive_keywords = [''password'', ''token'', ''secret'', ''key'', ''credential'']"

definition check_sensitive_parameters :: "task_node \<Rightarrow> string list" where
  "check_sensitive_parameters task =
     filter (\<lambda>p. list_ex (\<lambda>kw. sublist kw (lower p)) sensitive_keywords) (dict_keys (tn_parameters task))"

definition allowed_tools :: "string list" where
  "allowed_tools = [''nmap'', ''nuclei'', ''sqlmap'', ''gobuster'']"

definition is_tool_allowed :: "task_node \<Rightarrow> bool" where
  "is_tool_allowed task =
     (case tn_assigned_tool task of None \<Rightarrow> True
      | Some t \<Rightarrow> if t = [] then True else t \<in> set allowed_tools)"

definition meets_compliance :: "task_node \<Rightarrow> string \<Rightarrow> bool" where
  "meets_compliance task tenant = True"

definition task_security_errors :: "string \<Rightarrow> task_node \<Rightarrow> verr list" where
  "task_security_errors tenant task =
     (let sens = check_sensitive_parameters task
      in (if sens \<noteq> [] then [VSensitive (tn_name task) sens] else [])
         @ (if \<not> is_tool_allowed task then [VToolNotAllowed (tn_name task) tenant] else [])
         @ (if \<not> meets_compliance task tenant then [VCompliance (tn_name task)] else []))"

definition validate_security_policies :: "dag \<Rightarrow> string \<Rightarrow> verr list" where
  "validate_security_policies d tenant =
     concat (map (\<lambda>(tid, task). task_security_errors tenant task) (dg_nodes d))"

definition validate_budget :: "dag \<Rightarrow> string \<Rightarrow> verr list" where
  "validate_budget d tenant = []"

section \<open>The verifier\<close>

text \<open>
  The outcome of \<open>validate_dag\<close>: another exception on the way, \<open>DAGValidationError\<close> with the
  errors (the DAG keeps the agents assigned so far), or the DAG marked as validated.
\<close>

datatype verdict = Raised exn | Rejected dag "verr list" | Accepted dag

definition validate_dag :: "nat \<Rightarrow> dag \<Rightarrow> string \<Rightarrow> time \<Rightarrow> verdict" where
  "validate_dag rlim d tenant now =
     (case validate_structure rlim d of
        Inl e \<Rightarrow> Raised e
      | Inr e1 \<Rightarrow>
        (case validate_resources d of
           Inl e \<Rightarrow> Raised e
         | Inr e2 \<Rightarrow>
           (let (d', e3) = validate_capabilities d;
                errs = e1 @ e2 @ e3 @ validate_security_policies d' tenant @ validate_budget d' tenant
            in if errs \<noteq> [] then Rejected d' errs
               else Accepted (d'\<lparr>dg_is_validated := True, dg_updated_at := now\<rparr>))))"

text \<open>\<open>execute(task)\<close>: the DAG is taken from the task dictionary and must be there.\<close>

definition verifier_execute :: "nat \<Rightarrow> dag option \<Rightarrow> string \<Rightarrow> time \<Rightarrow> verdict" where
  "verifier_execute rlim d tenant now =
     (case d of None \<Rightarrow> Raised (ValueErr ''VerifierAgent requires a DAG'')
      | Some d \<Rightarrow> validate_dag rlim d tenant now)"

datatype fix_kind = FStructural | FResource | FCapability | FSecurity

definition classify_error :: "string \<Rightarrow> fix_kind option" where
  "classify_error err =
     (if sublist ''cycle'' (lower err) then Some FStructural
      else if sublist ''resource'' (lower err) then Some FResource
      else if sublist ''capability'' (lower err) then Some FCapability
      else if sublist ''security'' (lower err) then Some FSecurity
      else None)"

definition fix_text :: "fix_kind \<Rightarrow> string" where
  "fix_text k =
     (case k of
        FStructural \<Rightarrow> ''Break the dependency cycle by reordering tasks or removing circular dependencies''
      | FResource \<Rightarrow> ''Reduce resource requirements or schedule during off-peak hours''
      | FCapability \<Rightarrow> ''Assign a different agent or split the task into smaller subtasks''
      | FSecurity \<Rightarrow> ''Remove sensitive parameters or use secure parameter storage'')"

definition suggest_fixes :: "string list \<Rightarrow> fix_kind \<Rightarrow> string list" where
  "suggest_fixes errs k = map fix_text (filter (\<lambda>x. x = k) (List.map_filter classify_error errs))"

section \<open>What acceptance means\<close>

lemma find_agent_Some:
  "find_agent caps ags = Some a \<Longrightarrow> \<exists>has. (a, has) \<in> set ags \<and> set caps \<subseteq> set has"
  by (induction caps ags rule: find_agent.induct) (auto split: if_splits)

lemma assign_agents_keys: "map fst (fst (assign_agents ns)) = map fst ns"
  by (induction ns rule: assign_agents.induct) (auto simp: Let_def split: prod.split option.split)

lemma assign_agents_ok:
  "snd (assign_agents ns) = [] \<Longrightarrow> (k, n') \<in> set (fst (assign_agents ns)) \<Longrightarrow>
     \<exists>n a has. (k, n) \<in> set ns \<and> n' = n\<lparr>tn_assigned_agent := Some a\<rparr>
       \<and> (a, has) \<in> set available_agents \<and> set (tn_required_capabilities n) \<subseteq> set has"
proof (induction ns rule: assign_agents.induct)
  case 1
  then show ?case by simp
next
  case (2 tid task rest)
  then show ?case
    by (cases "assign_agents rest") (auto split: option.splits dest!: find_agent_Some)
qed

lemma check_limit_ok:
  "check_limit req m err errs = Inr errs' \<Longrightarrow> \<exists>more. errs' = errs @ more \<and> (more = [] \<longleftrightarrow> py_gt req (PFloat m) = Some False)"
  by (auto simp: check_limit_def split: option.splits if_splits)

lemma foldM_errors_extend:
  assumes "foldM_e f xs errs = Inr errs'"
    and "\<And>x errs errs'. x \<in> set xs \<Longrightarrow> f x errs = Inr errs' \<Longrightarrow> \<exists>more. errs' = errs @ more \<and> (more = [] \<longrightarrow> P x)"
  shows "\<exists>more. errs' = errs @ more \<and> (more = [] \<longrightarrow> (\<forall>x \<in> set xs. P x))"
  using assms
proof (induction xs arbitrary: errs)
  case Nil
  then show ?case by simp
next
  case (Cons x xs)
  from Cons.prems(1) obtain e1 where "f x errs = Inr e1" and rest: "foldM_e f xs e1 = Inr errs'"
    by (auto split: sum.splits)
  with Cons.prems(2) [of x errs e1] obtain m1 where 1: "e1 = errs @ m1" "m1 = [] \<longrightarrow> P x" by auto
  from Cons.IH [OF rest Cons.prems(2)] obtain m2 where "errs' = e1 @ m2" "m2 = [] \<longrightarrow> (\<forall>x \<in> set xs. P x)"
    by auto
  with 1 show ?case by auto
qed

lemma validate_resources_ok:
  assumes "validate_resources d = Inr []" and "(k, n) \<in> set (dg_nodes d)"
  shows "py_gt (dict_get_or (tn_parameters n) ''cpu'' (PFloat 1)) (PFloat 8) = Some False
    \<and> py_gt (dict_get_or (tn_parameters n) ''memory'' (PInt 512)) (PFloat 8192) = Some False"
proof -
  let ?P = "\<lambda>kn. py_gt (dict_get_or (tn_parameters (snd kn)) ''cpu'' (PFloat 1)) (PFloat 8) = Some False
    \<and> py_gt (dict_get_or (tn_parameters (snd kn)) ''memory'' (PInt 512)) (PFloat 8192) = Some False"
  from foldM_errors_extend [OF assms(1) [unfolded validate_resources_def], of ?P]
  have "\<forall>x \<in> set (dg_nodes d). ?P x"
    by (fastforce simp: rbind_Inr dest!: check_limit_ok)
  with assms(2) show ?thesis by auto
qed

text \<open>
  C1: A DAG the verifier accepts comes out marked as validated with every task assigned to an
  available agent that has all the capabilities the task requires; its edges are acyclic, all
  dependencies exist, no task asks for more than the CPU and memory limits, carries a
  sensitive parameter or uses a tool outside the allowed list.
\<close>
theorem validate_dag_accepts:
  assumes wf: "dag_wf d" and big: "length (dg_nodes d) < rlim"
    and acc: "validate_dag rlim d tenant now = Accepted d'"
  shows "acyclic (set (dg_edges d)) \<and> check_dependencies d = []
    \<and> dg_is_validated d' \<and> dg_edges d' = dg_edges d \<and> dict_keys (dg_nodes d') = dict_keys (dg_nodes d)
    \<and> (\<forall>(k, n') \<in> set (dg_nodes d'). \<exists>n a has. (k, n) \<in> set (dg_nodes d) \<and> n' = n\<lparr>tn_assigned_agent := Some a\<rparr>
        \<and> (a, has) \<in> set available_agents \<and> set (tn_required_capabilities n) \<subseteq> set has
        \<and> py_gt (dict_get_or (tn_parameters n) ''cpu'' (PFloat 1)) (PFloat 8) = Some False
        \<and> py_gt (dict_get_or (tn_parameters n) ''memory'' (PInt 512)) (PFloat 8192) = Some False
        \<and> check_sensitive_parameters n = [] \<and> is_tool_allowed n)"
proof -
  from acc obtain d1 where st: "validate_structure rlim d = Inr []" and rs: "validate_resources d = Inr []"
    and cap: "validate_capabilities d = (d1, [])" and sec: "validate_security_policies d1 tenant = []"
    and d': "d' = d1\<lparr>dg_is_validated := True, dg_updated_at := now\<rparr>"
    by (auto simp: validate_dag_def Let_def split: sum.splits prod.splits if_splits)
  from st find_cycle_total [OF wf, of rlim] big check_parallelism_cycle [OF wf]
  have acyc: "acyclic (set (dg_edges d))"
    by (cases "acyclic (set (dg_edges d))") (auto simp: validate_structure_def Let_def)
  have deps: "check_dependencies d = []"
    using st by (auto simp: validate_structure_def Let_def rbind_Inr split: if_splits)
  from cap obtain ns where ns: "assign_agents (dg_nodes d) = (ns, [])" and d1: "d1 = d\<lparr>dg_nodes := ns\<rparr>"
    by (auto simp: validate_capabilities_def split: prod.splits)
  have secn: "check_sensitive_parameters n = [] \<and> is_tool_allowed n" if "(k, n) \<in> set ns" for k n
    using sec that d1
    by (fastforce simp: validate_security_policies_def task_security_errors_def Let_def split: if_splits)
  have "\<exists>n a has. (k, n) \<in> set (dg_nodes d) \<and> n' = n\<lparr>tn_assigned_agent := Some a\<rparr>
        \<and> (a, has) \<in> set available_agents \<and> set (tn_required_capabilities n) \<subseteq> set has
        \<and> py_gt (dict_get_or (tn_parameters n) ''cpu'' (PFloat 1)) (PFloat 8) = Some False
        \<and> py_gt (dict_get_or (tn_parameters n) ''memory'' (PInt 512)) (PFloat 8192) = Some False
        \<and> check_sensitive_parameters n = [] \<and> is_tool_allowed n"
    if kn: "(k, n') \<in> set ns" for k n'
  proof -
    from assign_agents_ok [of "dg_nodes d" k n'] ns kn obtain n a has where
        n: "(k, n) \<in> set (dg_nodes d)" "n' = n\<lparr>tn_assigned_agent := Some a\<rparr>"
        "(a, has) \<in> set available_agents" "set (tn_required_capabilities n) \<subseteq> set has"
      by auto
    from secn [OF kn] n(2) have "check_sensitive_parameters n = [] \<and> is_tool_allowed n"
      by (simp add: check_sensitive_parameters_def is_tool_allowed_def)
    with n validate_resources_ok [OF rs n(1)] show ?thesis by blast
  qed
  with acyc deps d' d1 ns assign_agents_keys [of "dg_nodes d"] show ?thesis
    by (auto simp: dict_keys_def)
qed

lemma ex_dag_accepted: "\<exists>d'. validate_dag 5 ex_dag ''t'' now = Accepted d'"
proof -
  have st: "validate_structure 5 ex_dag = Inr []"
    by (rule validate_structure_ok [OF ex_dag_wf ex_dag_acyclic ex_dag_checks])
  have rs: "validate_resources ex_dag = Inr []"
    by (simp add: validate_resources_def ex_dag_def ex_node_def new_task_node_def check_limit_def
        dict_get_or_def py_gt_def)
  have "snd (validate_capabilities ex_dag) = []
      \<and> validate_security_policies (fst (validate_capabilities ex_dag)) ''t'' = []"
    by (simp add: validate_capabilities_def ex_dag_def ex_node_def new_task_node_def
        available_agents_def validate_security_policies_def task_security_errors_def
        check_sensitive_parameters_def is_tool_allowed_def meets_compliance_def dict_keys_def)
  with st rs show ?thesis
    by (simp add: validate_dag_def validate_budget_def split_beta)
qed

theorem validate_dag_accepts_witness:
  "\<exists>d'. validate_dag 5 ex_dag ''t'' 7 = Accepted d' \<and> dg_is_validated d'"
proof -
  obtain d' where "validate_dag 5 ex_dag ''t'' 7 = Accepted d'" using ex_dag_accepted by blast
  with validate_dag_accepts [OF ex_dag_wf ex_dag_checks(1) this] show ?thesis by blast
qed

end
