(* ===== verification/BudgetTracker.thy ===== *)
theory BudgetTracker
  imports Exceptions
begin

text \<open>
  \<open>src/scheduler/budget_tracker.py\<close>: the budget of each process, its cost history, the threshold
  alerts and the \<open>BudgetExceededError\<close> at 100%. The webhook task an alert starts only performs I/O
  and is not modelled. One call sees one clock value \<open>now\<close>. The tracker is mutated before the
  exception is raised, so an operation returns the tracker it leaves and the exception, if any.
\<close>

section \<open>State\<close>

record budget_alert =
  ba_process_id :: string
  ba_threshold :: rat
  ba_current_spent :: rat
  ba_limit :: rat
  ba_timestamp :: time

record budget =
  bg_process_id :: string
  bg_user_id :: string
  bg_tenant_id :: string
  bg_limit :: rat
  bg_currency :: string
  bg_spent :: rat
  bg_start_time :: time
  bg_last_alert_sent :: "(rat, time) dict"
  bg_alert_webhook :: "string option"
  bg_alerts :: "budget_alert list"

record cost_entry =
  ce_timestamp :: time
  ce_cost :: rat
  ce_running_total :: rat
  ce_description :: "string option"

record budget_tracker =
  bt_active_budgets :: "(string, budget) dict"
  bt_cost_history :: "(string, cost_entry list) dict"

definition new_budget_tracker :: budget_tracker where
  "new_budget_tracker = \<lparr>bt_active_budgets = [], bt_cost_history = []\<rparr>"

definition alert_thresholds :: "rat list" where
  "alert_thresholds = [1/2, 4/5, 9/10, 19/20, 1]"

definition five_minutes :: time where
  "five_minutes = 5 * 60 * 1000000"

section \<open>Operations\<close>

definition initialize_budget ::
    "string \<Rightarrow> string \<Rightarrow> string \<Rightarrow> rat \<Rightarrow> string \<Rightarrow> string option \<Rightarrow> time \<Rightarrow> budget_tracker \<Rightarrow> budget_tracker" where
  "initialize_budget pid user tenant lmt currency webhook now s =
     s\<lparr>bt_active_budgets := dict_set pid
         \<lparr>bg_process_id = pid, bg_user_id = user, bg_tenant_id = tenant, bg_limit = lmt,
          bg_currency = currency, bg_spent = 0, bg_start_time = now, bg_last_alert_sent = [],
          bg_alert_webhook = webhook, bg_alerts = []\<rparr> (bt_active_budgets s)\<rparr>"

definition check_budget :: "string \<Rightarrow> rat \<Rightarrow> budget_tracker \<Rightarrow> bool" where
  "check_budget pid estimated s =
     (case dict_get (bt_active_budgets s) pid of
        None \<Rightarrow> True
      | Some b \<Rightarrow> bg_spent b + estimated \<le> bg_limit b)"

definition budget_exceeded :: "rat \<Rightarrow> rat \<Rightarrow> exn" where
  "budget_exceeded lmt spent =
     BudgetExceededError
       [Lit ''Budget limit of $'', Num lmt, Lit '' exceeded. Current spent: $'', Num spent] ''cost'' None"

definition send_budget_alert :: "rat \<Rightarrow> rat \<Rightarrow> time \<Rightarrow> budget \<Rightarrow> budget \<times> exn option" where
  "send_budget_alert th current now b =
     (if (case dict_get (bg_last_alert_sent b) th of None \<Rightarrow> False | Some t \<Rightarrow> now - t < five_minutes)
      then (b, None)
      else
        (b\<lparr>bg_alerts := bg_alerts b @
             [\<lparr>ba_process_id = bg_process_id b, ba_threshold = th, ba_current_spent = current,
               ba_limit = bg_limit b, ba_timestamp = now\<rparr>],
           bg_last_alert_sent := dict_set th now (bg_last_alert_sent b)\<rparr>,
         if th \<ge> 1 then Some (budget_exceeded (bg_limit b) current) else None))"

fun alert_loop :: "rat list \<Rightarrow> rat \<Rightarrow> rat \<Rightarrow> rat \<Rightarrow> time \<Rightarrow> budget \<Rightarrow> budget \<times> exn option" where
  "alert_loop [] old_p new_p spent now b = (b, None)"
| "alert_loop (th # ths) old_p new_p spent now b =
     (if old_p < th \<and> th \<le> new_p
      then (case send_budget_alert th spent now b of
              (b', Some e) \<Rightarrow> (b', Some e)
            | (b', None) \<Rightarrow> alert_loop ths old_p new_p spent now b')
      else alert_loop ths old_p new_p spent now b)"

definition check_budget_thresholds :: "rat \<Rightarrow> rat \<Rightarrow> time \<Rightarrow> budget \<Rightarrow> budget \<times> exn option" where
  "check_budget_thresholds old_spent new_spent now b =
     (if bg_limit b = 0 then (b, None)
      else alert_loop alert_thresholds (old_spent / bg_limit b) (new_spent / bg_limit b) new_spent now b)"

definition add_cost ::
    "string \<Rightarrow> rat \<Rightarrow> string option \<Rightarrow> time \<Rightarrow> budget_tracker \<Rightarrow> budget_tracker \<times> exn option" where
  "add_cost pid cost desc now s =
     (case dict_get (bt_active_budgets s) pid of
        None \<Rightarrow> (s, None)
      | Some b \<Rightarrow>
        (let b1 = b\<lparr>bg_spent := bg_spent b + cost\<rparr>;
             entry = \<lparr>ce_timestamp = now, ce_cost = cost, ce_running_total = bg_spent b1, ce_description = desc\<rparr>;
             hist = dict_set pid (dict_get_or (bt_cost_history s) pid [] @ [entry]) (bt_cost_history s);
             (b2, e) = check_budget_thresholds (bg_spent b) (bg_spent b1) now b1
         in (s\<lparr>bt_active_budgets := dict_set pid b2 (bt_active_budgets s), bt_cost_history := hist\<rparr>, e)))"

record budget_status =
  bs_process_id :: string
  bs_limit :: rat
  bs_spent :: rat
  bs_remaining :: rat
  bs_percentage_used :: rat
  bs_currency :: string
  bs_start_time :: time
  bs_alerts :: "budget_alert list"

definition get_budget_status :: "string \<Rightarrow> budget_tracker \<Rightarrow> budget_status option" where
  "get_budget_status pid s =
     map_option (\<lambda>b. \<lparr>bs_process_id = bg_process_id b, bs_limit = bg_limit b, bs_spent = bg_spent b,
         bs_remaining = bg_limit b - bg_spent b,
         bs_percentage_used = (if bg_limit b > 0 then bg_spent b / bg_limit b * 100 else 0),
         bs_currency = bg_currency b, bs_start_time = bg_start_time b, bs_alerts = bg_alerts b\<rparr>)
       (dict_get (bt_active_budgets s) pid)"

definition close_budget :: "string \<Rightarrow> budget_tracker \<Rightarrow> budget_tracker" where
  "close_budget pid s = s\<lparr>bt_active_budgets := dict_pop pid (bt_active_budgets s)\<rparr>"

section \<open>The alerts touch nothing else\<close>

lemma send_alert_frame:
  "send_budget_alert th cur now b = (b', e) \<Longrightarrow>
     bg_limit b' = bg_limit b \<and> bg_spent b' = bg_spent b \<and> bg_process_id b' = bg_process_id b"
  by (auto simp: send_budget_alert_def split: if_splits)

lemma alert_loop_frame:
  "alert_loop ths o_p n_p spent now b = (b', e) \<Longrightarrow> bg_limit b' = bg_limit b \<and> bg_spent b' = bg_spent b"
proof (induction ths o_p n_p spent now b rule: alert_loop.induct)
  case (2 th ths old_p new_p spent now b)
  obtain b1 e1 where s: "send_budget_alert th spent now b = (b1, e1)" by force
  from 2 s send_alert_frame [OF s] show ?case by (cases e1) (auto split: if_splits)
qed simp

lemma check_thresholds_frame:
  "check_budget_thresholds o_s n_s now b = (b', e) \<Longrightarrow> bg_limit b' = bg_limit b \<and> bg_spent b' = bg_spent b"
  by (auto simp: check_budget_thresholds_def split: if_splits dest: alert_loop_frame)

section \<open>The accounting contract and its refinement\<close>

text \<open>What a client relies on: a limit and an amount per process.\<close>

type_synonym accounts = "string \<Rightarrow> (rat \<times> rat) option"

datatype budget_op = InitBudget string rat | AddCost string rat | CloseBudget string

fun spec_step :: "budget_op \<Rightarrow> accounts \<Rightarrow> accounts" where
  "spec_step (InitBudget p l) a = a(p \<mapsto> (l, 0))"
| "spec_step (AddCost p c) a = (case a p of None \<Rightarrow> a | Some (l, s) \<Rightarrow> a(p \<mapsto> (l, s + c)))"
| "spec_step (CloseBudget p) a = a(p := None)"

definition budget_abs :: "budget_tracker \<Rightarrow> accounts" where
  "budget_abs s p = map_option (\<lambda>b. (bg_limit b, bg_spent b)) (dict_get (bt_active_budgets s) p)"

text \<open>A concrete call; the exception \<open>add_cost\<close> may raise is caught by the caller.\<close>

datatype budget_call =
    CInit string string string rat string "string option"
  | CAdd string rat "string option"
  | CClose string

fun call_op :: "budget_call \<Rightarrow> budget_op" where
  "call_op (CInit p u t l c w) = InitBudget p l"
| "call_op (CAdd p c d) = AddCost p c"
| "call_op (CClose p) = CloseBudget p"

fun budget_exec :: "budget_call \<times> time \<Rightarrow> budget_tracker \<Rightarrow> budget_tracker" where
  "budget_exec (CInit p u t l c w, now) s = initialize_budget p u t l c w now s"
| "budget_exec (CAdd p c d, now) s = fst (add_cost p c d now s)"
| "budget_exec (CClose p, now) s = close_budget p s"

lemma budget_abs_set:
  "budget_abs (s\<lparr>bt_active_budgets := dict_set p b (bt_active_budgets s)\<rparr>)
     = (budget_abs s)(p \<mapsto> (bg_limit b, bg_spent b))"
  "budget_abs (s\<lparr>bt_active_budgets := dict_set p b (bt_active_budgets s), bt_cost_history := h\<rparr>)
     = (budget_abs s)(p \<mapsto> (bg_limit b, bg_spent b))"
  by (auto simp: budget_abs_def fun_eq_iff)

lemma add_cost_abs: "budget_abs (fst (add_cost p c d now s)) = spec_step (AddCost p c) (budget_abs s)"
proof (cases "dict_get (bt_active_budgets s) p")
  case None
  then show ?thesis by (simp add: add_cost_def budget_abs_def)
next
  case (Some b)
  obtain b2 e where c: "check_budget_thresholds (bg_spent b) (bg_spent b + c) now (b\<lparr>bg_spent := bg_spent b + c\<rparr>) = (b2, e)"
    by force
  from check_thresholds_frame [OF c] Some c show ?thesis
    by (simp add: add_cost_def budget_abs_set Let_def) (simp add: budget_abs_def)
qed

lemma budget_exec_abs: "budget_abs (budget_exec (c, now) s) = spec_step (call_op c) (budget_abs s)"
proof (cases c)
  case (CInit p u t l cu w)
  then show ?thesis by (simp add: initialize_budget_def budget_abs_set)
next
  case (CAdd p x d)
  then show ?thesis by (simp add: add_cost_abs)
next
  case (CClose p)
  then show ?thesis by (auto simp: close_budget_def budget_abs_def fun_eq_iff)
qed

text \<open>
  C8: The tracker implements the accounting contract: over any sequence of calls, alerts and
  exceptions included, the limit and the amount of every process are those of the specification,
  so a cost that raises \<open>BudgetExceededError\<close> is nevertheless accounted.
\<close>
theorem budget_refines_accounts:
  "budget_abs (fold budget_exec calls s) = fold spec_step (map (call_op \<circ> fst) calls) (budget_abs s)"
  by (induction calls arbitrary: s) (simp_all add: budget_exec_abs split_paired_all)

section \<open>Threshold alerts\<close>

lemma alert_loop_no_raise:
  "\<forall>th \<in> set ths. th < 1 \<Longrightarrow> snd (alert_loop ths o_p n_p spent now b) = None"
proof (induction ths o_p n_p spent now b rule: alert_loop.induct)
  case (2 th ths old_p new_p spent now b)
  then have "snd (send_budget_alert th spent now b) = None" by (simp add: send_budget_alert_def)
  with 2 show ?case by (cases "send_budget_alert th spent now b") auto
qed simp

definition recently_alerted :: "rat \<Rightarrow> time \<Rightarrow> budget \<Rightarrow> bool" where
  "recently_alerted th now b =
     (case dict_get (bg_last_alert_sent b) th of None \<Rightarrow> False | Some t \<Rightarrow> now - t < five_minutes)"

lemma send_alert_other:
  "th' \<noteq> th \<Longrightarrow> recently_alerted th' now (fst (send_budget_alert th cur now b)) = recently_alerted th' now b"
  by (simp add: send_budget_alert_def recently_alerted_def)

lemma alert_loop_snoc_one:
  assumes "\<forall>th \<in> set ths. th < 1"
  shows "snd (alert_loop (ths @ [1]) o_p n_p spent now b) =
    (if o_p < 1 \<and> 1 \<le> n_p \<and> \<not> recently_alerted 1 now b then Some (budget_exceeded (bg_limit b) spent) else None)"
  using assms
proof (induction ths arbitrary: b)
  case Nil
  then show ?case by (auto simp: send_budget_alert_def recently_alerted_def split: option.splits)
next
  case (Cons th ths)
  obtain b1 e1 where s: "send_budget_alert th spent now b = (b1, e1)" by force
  have e1: "e1 = None" using s Cons.prems by (auto simp: send_budget_alert_def split: if_splits)
  have "recently_alerted 1 now b1 = recently_alerted 1 now b"
    using send_alert_other [of 1 th now spent b] s Cons.prems by auto
  with Cons send_alert_frame [OF s] s e1 show ?case by simp
qed

text \<open>
  C21: \<open>add_cost\<close> raises in exactly one case: a budget with a positive limit whose amount goes
  from below the limit to the limit or beyond, with no 100% alert in the five minutes before. The
  amount is updated in every case, and a process already at its limit is charged silently.
\<close>
theorem add_cost_raises_iff:
  assumes "dict_get (bt_active_budgets s) p = Some b" and "0 < bg_limit b"
  shows "snd (add_cost p c d now s) =
     (if bg_spent b < bg_limit b \<and> bg_limit b \<le> bg_spent b + c \<and> \<not> recently_alerted 1 now b
      then Some (budget_exceeded (bg_limit b) (bg_spent b + c)) else None)
    \<and> budget_abs (fst (add_cost p c d now s)) p = Some (bg_limit b, bg_spent b + c)"
proof -
  let ?b = "b\<lparr>bg_spent := bg_spent b + c\<rparr>"
  have rec: "recently_alerted 1 now ?b = recently_alerted 1 now b" by (simp add: recently_alerted_def)
  have "snd (add_cost p c d now s) = snd (check_budget_thresholds (bg_spent b) (bg_spent b + c) now ?b)"
    by (simp add: add_cost_def assms(1) Let_def split_beta)
  also have "\<dots> = (if bg_spent b / bg_limit b < 1 \<and> 1 \<le> (bg_spent b + c) / bg_limit b \<and> \<not> recently_alerted 1 now b
      then Some (budget_exceeded (bg_limit b) (bg_spent b + c)) else None)"
    using alert_loop_snoc_one [of "[1/2, 4/5, 9/10, 19/20]" "bg_spent b / bg_limit b"
        "(bg_spent b + c) / bg_limit b" "bg_spent b + c" now ?b] assms(2)
    by (simp add: check_budget_thresholds_def alert_thresholds_def rec del: alert_loop.simps)
  finally show ?thesis using assms add_cost_abs [of p c d now s]
    by (simp add: budget_abs_def)
qed

definition ex_tracker :: budget_tracker where
  "ex_tracker = fst (add_cost ''p'' 6 None 10 (initialize_budget ''p'' ''u'' ''t'' 10 ''USD'' None 0 new_budget_tracker))"

theorem add_cost_raises_iff_witness:
  "snd (add_cost ''p'' 5 None 20 ex_tracker) = Some (budget_exceeded 10 11)"
proof -
  obtain b where b: "dict_get (bt_active_budgets ex_tracker) ''p'' = Some b" "bg_limit b = 10" "bg_spent b = 6"
      "dict_get (bg_last_alert_sent b) 1 = None"
    by (simp add: ex_tracker_def add_cost_def initialize_budget_def new_budget_tracker_def Let_def
        check_budget_thresholds_def alert_thresholds_def send_budget_alert_def split_beta)
  from add_cost_raises_iff [OF b(1), of 5 None 20] b show ?thesis
    by (simp add: recently_alerted_def)
qed

section \<open>Which alerts are sent\<close>

text \<open>For a budget with a positive limit: the alerts sent so far are the thresholds reached.\<close>

definition alerts_ok :: "budget \<Rightarrow> bool" where
  "alerts_ok b \<longleftrightarrow> 0 < bg_limit b
     \<and> map ba_threshold (bg_alerts b) = filter (\<lambda>th. th \<le> bg_spent b / bg_limit b) alert_thresholds
     \<and> set (dict_keys (bg_last_alert_sent b)) = {th \<in> set alert_thresholds. th \<le> bg_spent b / bg_limit b}"

lemma alert_loop_alerts:
  assumes "sorted_wrt (<) ths" and "\<forall>th \<in> set ths. th \<le> 1"
    and "\<forall>th \<in> set ths. o_p < th \<longrightarrow> dict_get (bg_last_alert_sent b) th = None"
    and "alert_loop ths o_p n_p spent now b = (b', e)"
  shows "map ba_threshold (bg_alerts b') = map ba_threshold (bg_alerts b) @ filter (\<lambda>th. o_p < th \<and> th \<le> n_p) ths
    \<and> set (dict_keys (bg_last_alert_sent b')) = set (dict_keys (bg_last_alert_sent b)) \<union> {th \<in> set ths. o_p < th \<and> th \<le> n_p}"
  using assms
proof (induction ths arbitrary: b)
  case Nil
  then show ?case by auto
next
  case (Cons th ths)
  show ?case
  proof (cases "o_p < th \<and> th \<le> n_p")
    case False
    with Cons.IH [of b] Cons.prems show ?thesis by auto
  next
    case True
    obtain b1 e1 where s: "send_budget_alert th spent now b = (b1, e1)" by force
    from True Cons.prems(3) have "dict_get (bg_last_alert_sent b) th = None" by simp
    with s have b1: "map ba_threshold (bg_alerts b1) = map ba_threshold (bg_alerts b) @ [th]"
        "bg_last_alert_sent b1 = dict_set th now (bg_last_alert_sent b)" "e1 = None \<longleftrightarrow> th < 1"
      by (auto simp: send_budget_alert_def split: if_splits)
    show ?thesis
    proof (cases "th < 1")
      case False
      with Cons.prems(1,2) have "ths = []" by (cases ths) auto
      with True False b1 s Cons.prems(4) show ?thesis by (cases e1) auto
    next
      case lt: True
      with True b1 s Cons.prems(4) have "alert_loop ths o_p n_p spent now b1 = (b', e)" by auto
      moreover have "\<forall>t \<in> set ths. o_p < t \<longrightarrow> dict_get (bg_last_alert_sent b1) t = None"
        using Cons.prems(1,3) by (auto simp: b1(2))
      ultimately show ?thesis using Cons.IH [of b1] Cons.prems(1,2) True b1 by auto
    qed
  qed
qed

lemma filter_le_split:
  fixes ths :: "rat list"
  assumes "sorted_wrt (<) ths" and "a \<le> c"
  shows "filter (\<lambda>th. th \<le> c) ths = filter (\<lambda>th. th \<le> a) ths @ filter (\<lambda>th. a < th \<and> th \<le> c) ths"
  using assms(1)
proof (induction ths)
  case Nil
  show ?case by simp
next
  case (Cons th ths)
  show ?case
  proof (cases "th \<le> a")
    case True
    with assms(2) Cons show ?thesis by simp
  next
    case False
    with Cons.prems have "filter (\<lambda>t. t \<le> a) ths = []" by (force simp: filter_empty_conv)
    with Cons False show ?thesis by simp
  qed
qed

lemma thresholds_sorted: "sorted_wrt (<) alert_thresholds" "\<forall>th \<in> set alert_thresholds. th \<le> 1"
  by (simp_all add: alert_thresholds_def)

lemma add_cost_alerts_ok:
  assumes ok: "alerts_ok b" and c: "0 \<le> c"
    and r: "check_budget_thresholds (bg_spent b) (bg_spent b + c) now (b\<lparr>bg_spent := bg_spent b + c\<rparr>) = (b', e)"
  shows "alerts_ok b'"
proof -
  let ?o = "bg_spent b / bg_limit b" and ?n = "(bg_spent b + c) / bg_limit b"
  let ?b = "b\<lparr>bg_spent := bg_spent b + c\<rparr>"
  from ok have l: "0 < bg_limit b" by (simp add: alerts_ok_def)
  from r l have loop: "alert_loop alert_thresholds ?o ?n (bg_spent b + c) now ?b = (b', e)"
    by (simp add: check_budget_thresholds_def)
  have fresh: "\<forall>th \<in> set alert_thresholds. ?o < th \<longrightarrow> dict_get (bg_last_alert_sent ?b) th = None"
  proof (intro ballI impI)
    fix th assume "?o < th"
    with ok have "th \<notin> set (dict_keys (bg_last_alert_sent b))" by (auto simp: alerts_ok_def)
    then show "dict_get (bg_last_alert_sent ?b) th = None"
      by (simp add: dict_has_keys [symmetric] dict_has_def)
  qed
  have le: "?o \<le> ?n" using c l by (simp add: divide_right_mono)
  from filter_le_split [OF thresholds_sorted(1) le] alert_loop_alerts [OF thresholds_sorted fresh loop]
    alert_loop_frame [OF loop] ok
  have "map ba_threshold (bg_alerts b') = filter (\<lambda>th. th \<le> ?n) alert_thresholds"
    and "set (dict_keys (bg_last_alert_sent b')) = {th \<in> set alert_thresholds. th \<le> ?o} \<union> {th \<in> set alert_thresholds. ?o < th \<and> th \<le> ?n}"
    and "bg_limit b' = bg_limit b" "bg_spent b' = bg_spent b + c"
    by (simp_all add: alerts_ok_def)
  moreover have "{th \<in> T. th \<le> ?o} \<union> {th \<in> T. ?o < th \<and> th \<le> ?n} = {th \<in> T. th \<le> ?n}" for T
    using le by (auto simp: not_le intro: order_trans less_imp_le)
  ultimately show ?thesis using l by (simp add: alerts_ok_def)
qed

text \<open>
  For a process with a positive limit that is charged any costs that are not negative, the
  alerts sent are exactly the thresholds the spending has reached, each once and in increasing
  order: charging one keeps this, and it holds for a new budget.
\<close>
theorem budget_alerts_exact:
  assumes "dict_all (\<lambda>p b. 0 < bg_limit b \<longrightarrow> alerts_ok b) (bt_active_budgets s)"
    and "\<forall>(call, now) \<in> set calls. case call of CAdd p c d \<Rightarrow> 0 \<le> c | _ \<Rightarrow> True"
  shows "dict_all (\<lambda>p b. 0 < bg_limit b \<longrightarrow> alerts_ok b) (bt_active_budgets (fold budget_exec calls s))"
  using assms
proof (induction calls arbitrary: s)
  case Nil
  then show ?case by simp
next
  case (Cons cn calls)
  obtain call now where cn: "cn = (call, now)" by force
  let ?P = "\<lambda>p b. 0 < bg_limit b \<longrightarrow> alerts_ok b"
  have "dict_all ?P (bt_active_budgets (budget_exec (call, now) s))"
  proof (cases call)
    case (CInit p u t l c w)
    have "filter (\<lambda>th. th \<le> 0 / l) alert_thresholds = []" by (simp add: alert_thresholds_def)
    moreover from arg_cong [OF this, of set] have "{th \<in> set alert_thresholds. th \<le> 0 / l} = {}" by simp
    ultimately show ?thesis using CInit Cons.prems(1)
      by (simp add: initialize_budget_def dict_all_set alerts_ok_def dict_keys_def)
  next
    case (CClose p)
    with Cons.prems(1) show ?thesis by (simp add: close_budget_def dict_all_pop)
  next
    case (CAdd p c d)
    show ?thesis
    proof (cases "dict_get (bt_active_budgets s) p")
      case None
      with CAdd Cons.prems(1) show ?thesis by (simp add: add_cost_def)
    next
      case (Some b)
      obtain b2 e where r: "check_budget_thresholds (bg_spent b) (bg_spent b + c) now (b\<lparr>bg_spent := bg_spent b + c\<rparr>) = (b2, e)"
        by force
      have "?P p b2"
      proof
        assume "0 < bg_limit b2"
        with check_thresholds_frame [OF r] dict_allD [OF Cons.prems(1) Some] have "alerts_ok b" by simp
        then show "alerts_ok b2" by (rule add_cost_alerts_ok [OF _ _ r]) (use Cons.prems(2) CAdd cn in auto)
      qed
      with Cons.prems(1) Some r CAdd show ?thesis
        by (simp add: add_cost_def Let_def dict_all_set)
    qed
  qed
  with Cons cn show ?case by simp
qed

theorem budget_alerts_exact_witness:
  "dict_all (\<lambda>p b. 0 < bg_limit b \<longrightarrow> alerts_ok b)
     (bt_active_budgets (fold budget_exec [(CInit ''p'' ''u'' ''t'' 10 ''USD'' None, 0), (CAdd ''p'' 9 None, 1)] new_budget_tracker))"
  by (rule budget_alerts_exact) (simp_all add: new_budget_tracker_def)

end
