(* ===== verification/Calendar.thy ===== *)
theory Calendar
  imports Prelude
begin

text \<open>
  The parts of Python's \<open>datetime\<close> the source uses: a UTC time is a number of microseconds since
  1970-01-01, a calendar date is computed from the number of days (proleptic Gregorian
  calendar). Period starts are what \<open>replace(hour=0, ...)\<close>, \<open>replace(day=1, ...)\<close> and
  \<open>replace(month=1, day=1, ...)\<close> return.
  Then the rounding of numbers.
\<close>

definition second :: time where "second = 1000000"
definition minute :: time where "minute = 60 * second"
definition hour :: time where "hour = 60 * minute"
definition day :: time where "day = 24 * hour"

lemmas unit_defs = second_def minute_def hour_def day_def

text \<open>\<open>timedelta.total_seconds()\<close>.\<close>

definition total_seconds :: "time \<Rightarrow> rat" where
  "total_seconds d = of_int d / 1000000"

text \<open>\<open>timedelta(seconds=r)\<close>: the nearest microsecond, ties to the even one.\<close>

definition round_half_even :: "rat \<Rightarrow> int" where
  "round_half_even r =
     (let f = \<lfloor>r\<rfloor>; d = r - of_int f
      in if d < 1 / 2 \<or> d = 1 / 2 \<and> even f then f else f + 1)"

definition seconds_delta :: "rat \<Rightarrow> time" where
  "seconds_delta r = round_half_even (r * 1000000)"

lemma round_half_even_int [simp]: "round_half_even (of_int i) = i"
  by (simp add: round_half_even_def)

lemma seconds_delta_int [simp]: "seconds_delta (of_int i) = i * second"
  using round_half_even_int [of "i * 1000000"] by (simp add: seconds_delta_def second_def del: round_half_even_int)

definition day_number :: "time \<Rightarrow> int" where
  "day_number t = t div day"

definition weekday :: "time \<Rightarrow> int" where
  "weekday t = (day_number t + 3) mod 7"

text \<open>Year, month and day from the number of days since 1970-01-01, years starting in March.\<close>

definition day_of_era :: "int \<Rightarrow> int" where
  "day_of_era n = (n + 719468) mod 146097"

definition year_of_era :: "int \<Rightarrow> int" where
  "year_of_era doe = (doe - doe div 1460 + doe div 36524 - doe div 146096) div 365"

definition day_of_year :: "int \<Rightarrow> int" where
  "day_of_year doe = (let y = year_of_era doe in doe - (365 * y + y div 4 - y div 100))"

definition civil :: "int \<Rightarrow> int \<times> int \<times> int" where
  "civil n =
     (let doe = day_of_era n; doy = day_of_year doe; mp = (5 * doy + 2) div 153;
          d = doy - (153 * mp + 2) div 5 + 1; m = (if mp < 10 then mp + 3 else mp - 9);
          y = year_of_era doe + ((n + 719468) div 146097) * 400 + (if m \<le> 2 then 1 else 0)
      in (y, m, d))"

definition days_from_civil :: "int \<times> int \<times> int \<Rightarrow> int" where
  "days_from_civil ymd =
     (case ymd of (y0, m, d) \<Rightarrow>
       let y = (if m \<le> 2 then y0 - 1 else y0); yoe = y mod 400;
           doy = (153 * (if m > 2 then m - 3 else m + 9) + 2) div 5 + d - 1
       in (y div 400) * 146097 + yoe * 365 + yoe div 4 - yoe div 100 + doy - 719468)"

definition start_of_day :: "time \<Rightarrow> time" where
  "start_of_day t = day_number t * day"

definition start_of_month :: "time \<Rightarrow> time" where
  "start_of_month t = (case civil (day_number t) of (y, m, d) \<Rightarrow> (day_number t - (d - 1)) * day)"

definition start_of_year :: "time \<Rightarrow> time" where
  "start_of_year t = (case civil (day_number t) of (y, m, d) \<Rightarrow> days_from_civil (y, 1, 1) * day)"

lemma day_pos: "0 < day"
  by (simp add: unit_defs)

lemma start_of_day_le: "start_of_day t \<le> t \<and> t - start_of_day t < day"
proof -
  have "t = t div day * day + t mod day" by simp
  with pos_mod_sign [OF day_pos, of t] pos_mod_bound [OF day_pos, of t] show ?thesis
    unfolding start_of_day_def day_number_def by linarith
qed

text \<open>A day of the month is between 1 and 31.\<close>

lemma day_of_month_bounds:
  fixes doy :: int
  shows "1 \<le> doy - (153 * ((5 * doy + 2) div 153) + 2) div 5 + 1"
    and "doy - (153 * ((5 * doy + 2) div 153) + 2) div 5 + 1 \<le> 31"
proof -
  define r where "r = (5 * doy + 2) mod 153"
  have r: "0 \<le> r" "r \<le> 152" by (simp_all add: r_def)
  have "153 * ((5 * doy + 2) div 153) + 2 = (4 - r) + doy * 5"
    using div_mult_mod_eq [of "5 * doy + 2" 153] by (simp add: r_def algebra_simps)
  then have eq: "(153 * ((5 * doy + 2) div 153) + 2) div 5 = doy + (4 - r) div 5" by simp
  have "(4 - r) div 5 \<le> 4 div 5" "(4 - 152) div 5 \<le> (4 - r) div 5"
    using r by (intro zdiv_mono1; simp)+
  then show "1 \<le> doy - (153 * ((5 * doy + 2) div 153) + 2) div 5 + 1"
    and "doy - (153 * ((5 * doy + 2) div 153) + 2) div 5 + 1 \<le> 31"
    unfolding eq by simp_all
qed

lemma civil_day_bounds: "civil n = (y, m, d) \<Longrightarrow> 1 \<le> d \<and> d \<le> 31"
  using day_of_month_bounds [of "day_of_year (day_of_era n)"] by (auto simp: civil_def Let_def)

lemma start_of_month_bounds: "start_of_month t \<le> start_of_day t \<and> start_of_day t \<le> start_of_month t + 30 * day"
proof -
  obtain y m d where c: "civil (day_number t) = (y, m, d)" by (cases "civil (day_number t)")
  from civil_day_bounds [OF c] have "0 \<le> (d - 1) * day" "(d - 1) * day \<le> 30 * day"
    using day_pos by (simp_all add: mult_right_mono)
  with c show ?thesis by (simp add: start_of_month_def start_of_day_def algebra_simps)
qed

lemma start_of_month_recent: "start_of_month t \<le> t \<and> t - 31 * day < start_of_month t"
  using start_of_month_bounds [of t] start_of_day_le [of t] by linarith

text \<open>Spot checks against known dates.\<close>

lemma calendar_examples:
  "civil 0 = (1970, 1, 1)" "civil 11016 = (2000, 2, 29)" "civil 19782 = (2024, 2, 29)"
  "civil 19783 = (2024, 3, 1)" "days_from_civil (2024, 1, 1) = 19723" "weekday (19783 * day) = 4"
  by code_simp+

section \<open>Rounding\<close>

text \<open>
  \<open>int(x)\<close> and \<open>round(x, n)\<close> of a float that is an exact rational: towards zero, and to the nearest, the
  even one when two are as near. The components that score and report use them.
\<close>

definition trunc :: "rat \<Rightarrow> int" where
  "trunc r = (if 0 \<le> r then \<lfloor>r\<rfloor> else \<lceil>r\<rceil>)"

definition round1 :: "rat \<Rightarrow> rat" where
  "round1 x = of_int (round_half_even (x * 10)) / 10"

definition round2 :: "rat \<Rightarrow> rat" where
  "round2 x = of_int (round_half_even (x * 100)) / 100"

definition round3 :: "rat \<Rightarrow> rat" where
  "round3 x = of_int (round_half_even (x * 1000)) / 1000"

lemma trunc_int [simp]: "trunc (of_int i) = i"
  by (simp add: trunc_def)

lemma trunc_mono: "x \<le> y \<Longrightarrow> trunc x \<le> trunc y"
  unfolding trunc_def by (auto intro: floor_mono ceiling_mono order_trans [of _ 0] simp: ceiling_le_zero)

lemma round_half_even_mono: "x \<le> y \<Longrightarrow> round_half_even x \<le> round_half_even y"
proof -
  assume le: "x \<le> y"
  have f: "\<lfloor>x\<rfloor> \<le> \<lfloor>y\<rfloor>" using le by (rule floor_mono)
  show ?thesis
  proof (cases "\<lfloor>x\<rfloor> = \<lfloor>y\<rfloor>")
    case True
    with le show ?thesis by (auto simp: round_half_even_def Let_def)
  next
    case False
    with f have "\<lfloor>x\<rfloor> + 1 \<le> \<lfloor>y\<rfloor>" by simp
    then show ?thesis by (auto simp: round_half_even_def Let_def)
  qed
qed

lemma round_mono:
  "x \<le> y \<Longrightarrow> round1 x \<le> round1 y" "x \<le> y \<Longrightarrow> round2 x \<le> round2 y" "x \<le> y \<Longrightarrow> round3 x \<le> round3 y"
  by (simp_all add: round1_def round2_def round3_def divide_right_mono round_half_even_mono)

lemma round_int [simp]: "round1 (of_int i) = of_int i" "round2 (of_int i) = of_int i" "round3 (of_int i) = of_int i"
  using round_half_even_int [of "i * 10"] round_half_even_int [of "i * 100"] round_half_even_int [of "i * 1000"]
  by (simp_all add: round1_def round2_def round3_def)

lemma round_0_1 [simp]: "round1 0 = 0" "round2 0 = 0" "round3 0 = 0" "round1 1 = 1" "round2 1 = 1" "round3 1 = 1"
  using round_int [of 0] round_int [of 1] by simp_all

lemma round_unit:
  "0 \<le> x \<Longrightarrow> x \<le> 1 \<Longrightarrow> 0 \<le> round1 x \<and> round1 x \<le> 1"
  "0 \<le> x \<Longrightarrow> x \<le> 1 \<Longrightarrow> 0 \<le> round2 x \<and> round2 x \<le> 1"
  "0 \<le> x \<Longrightarrow> x \<le> 1 \<Longrightarrow> 0 \<le> round3 x \<and> round3 x \<le> 1"
  using round_mono [of 0 x] round_mono [of x 1] by simp_all

end
