(* ===== verification/QuotaManager.thy ===== *)
theory QuotaManager
  imports Exceptions Calendar
begin

text \<open>
  \<open>src/scheduler/quota_manager.py\<close>: configured quotas of tenants and users, the usage log per
  \<open>"entity:quota_type"\<close> key, and the counters of active executions per \<open>"tenant:..."\<close> and
  \<open>"user:..."\<close> key. A check that raises leaves the state unchanged, so it is a function to an
  optional exception.
\<close>

section \<open>State\<close>

datatype quota_type =
    DAILY_EXECUTIONS | MONTHLY_EXECUTIONS | CONCURRENT_EXECUTIONS | DAILY_COST | MONTHLY_COST | TOOL_USAGE

fun quota_value :: "quota_type \<Rightarrow> string" where
  "quota_value DAILY_EXECUTIONS = ''daily_executions''"
| "quota_value MONTHLY_EXECUTIONS = ''monthly_executions''"
| "quota_value CONCURRENT_EXECUTIONS = ''concurrent_executions''"
| "quota_value DAILY_COST = ''daily_cost''"
| "quota_value MONTHLY_COST = ''monthly_cost''"
| "quota_value TOOL_USAGE = ''tool_usage''"

record quota_config =
  qc_limit :: int
  qc_period :: string
  qc_grace_period :: int
  qc_created_at :: time

type_synonym usage_log = "(time \<times> int) list"

record quota_manager =
  qm_tenant_quotas :: "(string, (quota_type, quota_config) dict) dict"
  qm_user_quotas :: "(string, (quota_type, quota_config) dict) dict"
  qm_usage :: "(string, usage_log) dict"
  qm_active :: "(string, int) dict"

definition new_quota_manager :: quota_manager where
  "new_quota_manager = \<lparr>qm_tenant_quotas = [], qm_user_quotas = [], qm_usage = [], qm_active = []\<rparr>"

definition tenant_key :: "string \<Rightarrow> string" where
  "tenant_key t = ''tenant:'' @ t"

definition user_key :: "string \<Rightarrow> string" where
  "user_key u = ''user:'' @ u"

definition usage_key :: "string \<Rightarrow> quota_type \<Rightarrow> string" where
  "usage_key entity qt = entity @ '':'' @ quota_value qt"

section \<open>Configuration\<close>

definition put_quota ::
    "string \<Rightarrow> quota_type \<Rightarrow> quota_config \<Rightarrow> (string, (quota_type, quota_config) dict) dict
      \<Rightarrow> (string, (quota_type, quota_config) dict) dict" where
  "put_quota e qt c m = dict_set e (dict_set qt c (dict_get_or m e [])) m"

definition configure_tenant_quota ::
    "string \<Rightarrow> quota_type \<Rightarrow> int \<Rightarrow> string \<Rightarrow> int \<Rightarrow> time \<Rightarrow> quota_manager \<Rightarrow> quota_manager" where
  "configure_tenant_quota t qt l period grace now s =
     s\<lparr>qm_tenant_quotas := put_quota t qt
         \<lparr>qc_limit = l, qc_period = period, qc_grace_period = grace, qc_created_at = now\<rparr>
         (qm_tenant_quotas s)\<rparr>"

definition configure_user_quota ::
    "string \<Rightarrow> quota_type \<Rightarrow> int \<Rightarrow> string \<Rightarrow> int \<Rightarrow> time \<Rightarrow> quota_manager \<Rightarrow> quota_manager" where
  "configure_user_quota u qt l period grace now s =
     s\<lparr>qm_user_quotas := put_quota u qt
         \<lparr>qc_limit = l, qc_period = period, qc_grace_period = grace, qc_created_at = now\<rparr>
         (qm_user_quotas s)\<rparr>"

section \<open>Usage\<close>

definition period_cutoff :: "time \<Rightarrow> string \<Rightarrow> time" where
  "period_cutoff now period =
     (if period = ''daily'' then start_of_day now
      else if period = ''weekly'' then now - weekday now * day
      else if period = ''monthly'' then start_of_month now
      else if period = ''yearly'' then start_of_year now
      else now - 30 * day)"

definition usage_since :: "time \<Rightarrow> usage_log \<Rightarrow> int" where
  "usage_since cutoff recs = sum_list (map snd (filter (\<lambda>r. fst r \<ge> cutoff) recs))"

definition get_usage :: "string \<Rightarrow> quota_type \<Rightarrow> string \<Rightarrow> time \<Rightarrow> quota_manager \<Rightarrow> int" where
  "get_usage entity qt period now s =
     (case dict_get (qm_usage s) (usage_key entity qt) of
        None \<Rightarrow> 0
      | Some recs \<Rightarrow> usage_since (period_cutoff now period) recs)"

definition get_grace_usage :: "string \<Rightarrow> quota_type \<Rightarrow> int" where
  "get_grace_usage entity qt = 0"

definition increment_usage :: "string \<Rightarrow> quota_type \<Rightarrow> int \<Rightarrow> time \<Rightarrow> quota_manager \<Rightarrow> quota_manager" where
  "increment_usage entity qt amount now s =
     (let key = usage_key entity qt;
          recs = dict_get_or (qm_usage s) key [] @ [(now, amount)]
      in s\<lparr>qm_usage := dict_set key (filter (\<lambda>r. fst r \<ge> now - 31 * day) recs) (qm_usage s)\<rparr>)"

section \<open>Checks\<close>

definition concurrent_check ::
    "msg \<Rightarrow> int \<Rightarrow> (quota_type, quota_config) dict option \<Rightarrow> exn option" where
  "concurrent_check m active quotas =
     (case quotas of None \<Rightarrow> None
      | Some q \<Rightarrow>
        (case dict_get q CONCURRENT_EXECUTIONS of None \<Rightarrow> None
         | Some c \<Rightarrow> if active \<ge> qc_limit c
                     then Some (QuotaExceededError m (Some (quota_value CONCURRENT_EXECUTIONS))) else None))"

definition active_count :: "string \<Rightarrow> quota_manager \<Rightarrow> int" where
  "active_count key s = dict_get_or (qm_active s) key 0"

definition check_concurrent_quota :: "string \<Rightarrow> string \<Rightarrow> quota_manager \<Rightarrow> exn option" where
  "check_concurrent_quota t u s =
     (case concurrent_check [Lit ''Tenant '', Lit t, Lit '' has reached concurrent execution limit'']
             (active_count (tenant_key t) s) (dict_get (qm_tenant_quotas s) t) of
        Some e \<Rightarrow> Some e
      | None \<Rightarrow> concurrent_check [Lit ''User '', Lit u, Lit '' has reached concurrent execution limit'']
             (active_count (user_key u) s) (dict_get (qm_user_quotas s) u))"

definition check_quota_value ::
    "string \<Rightarrow> quota_type \<Rightarrow> quota_config \<Rightarrow> time \<Rightarrow> quota_manager \<Rightarrow> exn option" where
  "check_quota_value entity qt c now s =
     (if get_usage entity qt (qc_period c) now s \<ge> qc_limit c
      then if qc_grace_period c > 0 \<and> get_grace_usage entity qt < qc_grace_period c then None
           else Some (QuotaExceededError
                  [Lit ''Quota exceeded for '', Lit entity, Lit '': '', Lit (quota_value qt)]
                  (Some (quota_value qt)))
      else None)"

fun check_values ::
    "string \<Rightarrow> quota_type option \<Rightarrow> (quota_type, quota_config) dict \<Rightarrow> time \<Rightarrow> quota_manager \<Rightarrow> exn option" where
  "check_values entity qt [] now s = None"
| "check_values entity qt ((q, c) # rest) now s =
     (if (case qt of None \<Rightarrow> False | Some q' \<Rightarrow> q \<noteq> q') then check_values entity qt rest now s
      else (case check_quota_value entity q c now s of
              Some e \<Rightarrow> Some e
            | None \<Rightarrow> check_values entity qt rest now s))"

definition check_quota :: "string \<Rightarrow> string \<Rightarrow> quota_type option \<Rightarrow> time \<Rightarrow> quota_manager \<Rightarrow> exn option" where
  "check_quota t u qt now s =
     (case check_concurrent_quota t u s of
        Some e \<Rightarrow> Some e
      | None \<Rightarrow>
        (case check_values t qt (dict_get_or (qm_tenant_quotas s) t []) now s of
           Some e \<Rightarrow> Some e
         | None \<Rightarrow> check_values u qt (dict_get_or (qm_user_quotas s) u []) now s))"

section \<open>Executions\<close>

definition bump_active :: "string \<Rightarrow> quota_manager \<Rightarrow> quota_manager" where
  "bump_active key s = s\<lparr>qm_active := dict_set key (active_count key s + 1) (qm_active s)\<rparr>"

definition start_execution :: "string \<Rightarrow> string \<Rightarrow> time \<Rightarrow> quota_manager \<Rightarrow> quota_manager" where
  "start_execution t u now s =
     increment_usage (user_key u) MONTHLY_EXECUTIONS 1 now
       (increment_usage (user_key u) DAILY_EXECUTIONS 1 now
         (increment_usage (tenant_key t) MONTHLY_EXECUTIONS 1 now
           (increment_usage (tenant_key t) DAILY_EXECUTIONS 1 now
             (bump_active (user_key u) (bump_active (tenant_key t) s)))))"

definition decr_active :: "string \<Rightarrow> quota_manager \<Rightarrow> quota_manager" where
  "decr_active key s = s\<lparr>qm_active := dict_mod key (\<lambda>n. max 0 (n - 1)) (qm_active s)\<rparr>"

definition end_execution :: "string \<Rightarrow> string \<Rightarrow> quota_manager \<Rightarrow> quota_manager" where
  "end_execution t u s = decr_active (user_key u) (decr_active (tenant_key t) s)"

record quota_status =
  qs_limit :: int
  qs_usage :: int
  qs_remaining :: int
  qs_period :: string

definition quota_status_of :: "string \<Rightarrow> quota_type \<Rightarrow> quota_config \<Rightarrow> time \<Rightarrow> quota_manager \<Rightarrow> quota_status" where
  "quota_status_of entity qt c now s =
     (let usage = get_usage entity qt (qc_period c) now s
      in \<lparr>qs_limit = qc_limit c, qs_usage = usage, qs_remaining = qc_limit c - usage, qs_period = qc_period c\<rparr>)"

definition get_quota_status ::
    "string \<Rightarrow> string \<Rightarrow> time \<Rightarrow> quota_manager
      \<Rightarrow> (quota_type \<times> quota_status) list \<times> (quota_type \<times> quota_status) list \<times> int \<times> int" where
  "get_quota_status t u now s =
     (map (\<lambda>(qt, c). (qt, quota_status_of (tenant_key t) qt c now s)) (dict_get_or (qm_tenant_quotas s) t []),
      map (\<lambda>(qt, c). (qt, quota_status_of (user_key u) qt c now s)) (dict_get_or (qm_user_quotas s) u []),
      active_count (tenant_key t) s, active_count (user_key u) s)"

section \<open>Keys\<close>

lemma tenant_user_key [simp]: "tenant_key t \<noteq> user_key u" "user_key u \<noteq> tenant_key t"
  by (simp_all add: tenant_key_def user_key_def)

lemma key_inj [simp]: "tenant_key t = tenant_key t' \<longleftrightarrow> t = t'" "user_key u = user_key u' \<longleftrightarrow> u = u'"
  by (simp_all add: tenant_key_def user_key_def)

lemma increment_simps [simp]:
  "qm_active (increment_usage e qt n now s) = qm_active s"
  "qm_tenant_quotas (increment_usage e qt n now s) = qm_tenant_quotas s"
  "qm_user_quotas (increment_usage e qt n now s) = qm_user_quotas s"
  "active_count k (increment_usage e qt n now s) = active_count k s"
  by (simp_all add: increment_usage_def active_count_def Let_def)

lemma increment_other:
  "usage_key e qt \<noteq> k \<Longrightarrow> dict_get (qm_usage (increment_usage e qt n now s)) k = dict_get (qm_usage s) k"
  by (auto simp: increment_usage_def Let_def)

lemma bump_simps [simp]:
  "qm_tenant_quotas (bump_active k s) = qm_tenant_quotas s"
  "qm_user_quotas (bump_active k s) = qm_user_quotas s"
  "qm_usage (bump_active k s) = qm_usage s"
  "active_count k' (bump_active k s) = active_count k' s + (if k' = k then 1 else 0)"
  by (simp_all add: bump_active_def active_count_def dict_get_or_def)

lemma decr_simps [simp]:
  "qm_tenant_quotas (decr_active k s) = qm_tenant_quotas s"
  "qm_user_quotas (decr_active k s) = qm_user_quotas s"
  by (simp_all add: decr_active_def)

lemma execution_simps [simp]:
  "qm_tenant_quotas (start_execution t u now s) = qm_tenant_quotas s"
  "qm_user_quotas (start_execution t u now s) = qm_user_quotas s"
  "qm_tenant_quotas (end_execution t u s) = qm_tenant_quotas s"
  "qm_user_quotas (end_execution t u s) = qm_user_quotas s"
  by (simp_all add: start_execution_def end_execution_def)

lemma active_count_start:
  "active_count k (start_execution t u now s) =
     active_count k s + (if k = tenant_key t then 1 else 0) + (if k = user_key u then 1 else 0)"
  by (simp add: start_execution_def)

lemma active_count_decr:
  "0 \<le> active_count k s \<Longrightarrow>
     active_count k (decr_active k' s) = (if k = k' then max 0 (active_count k s - 1) else active_count k s)"
  by (auto simp: active_count_def decr_active_def dict_get_or_def split: option.split)

section \<open>Concurrent executions stay within the quota\<close>

datatype exec_event = Begin string string "quota_type option" | Finish string string

text \<open>The scheduler's protocol: an execution starts only when \<open>check_quota\<close> does not raise.\<close>

fun exec_step :: "exec_event \<times> time \<Rightarrow> quota_manager \<Rightarrow> quota_manager" where
  "exec_step (Begin t u qt, now) s =
     (case check_quota t u qt now s of Some e \<Rightarrow> s | None \<Rightarrow> start_execution t u now s)"
| "exec_step (Finish t u, now) s = end_execution t u s"

definition concurrent_limit :: "(string, (quota_type, quota_config) dict) dict \<Rightarrow> string \<Rightarrow> int option" where
  "concurrent_limit m e =
     (case dict_get m e of None \<Rightarrow> None
      | Some q \<Rightarrow> map_option qc_limit (dict_get q CONCURRENT_EXECUTIONS))"

definition within_limits :: "quota_manager \<Rightarrow> bool" where
  "within_limits s \<longleftrightarrow> (\<forall>k. 0 \<le> active_count k s)
     \<and> (\<forall>t l. concurrent_limit (qm_tenant_quotas s) t = Some l \<longrightarrow> active_count (tenant_key t) s \<le> max 0 l)
     \<and> (\<forall>u l. concurrent_limit (qm_user_quotas s) u = Some l \<longrightarrow> active_count (user_key u) s \<le> max 0 l)"

lemma concurrent_check_None:
  "concurrent_check m n (dict_get q e) = None \<longleftrightarrow> (\<forall>l. concurrent_limit q e = Some l \<longrightarrow> n < l)"
  by (auto simp: concurrent_check_def concurrent_limit_def not_le split: option.splits)

lemma check_quota_concurrent:
  "check_quota t u qt now s = None \<Longrightarrow> check_concurrent_quota t u s = None"
  by (simp add: check_quota_def split: option.splits)

lemma within_start:
  assumes "within_limits s" and "check_concurrent_quota t u s = None"
  shows "within_limits (start_execution t u now s)"
proof -
  from assms(2) have t: "\<And>l. concurrent_limit (qm_tenant_quotas s) t = Some l \<Longrightarrow> active_count (tenant_key t) s < l"
    and u: "\<And>l. concurrent_limit (qm_user_quotas s) u = Some l \<Longrightarrow> active_count (user_key u) s < l"
    by (auto simp: check_concurrent_quota_def concurrent_check_None split: option.splits)
  show ?thesis
    using assms(1) by (auto simp: within_limits_def active_count_start dest: t u)
qed

lemma within_end:
  assumes "within_limits s"
  shows "within_limits (end_execution t u s)"
proof -
  have ge: "\<And>k. 0 \<le> active_count k s" using assms by (simp add: within_limits_def)
  then have ge1: "\<And>k k'. 0 \<le> active_count k (decr_active k' s)" by (simp add: active_count_decr)
  have le: "\<And>k. active_count k (end_execution t u s) \<le> active_count k s" "\<And>k. 0 \<le> active_count k (end_execution t u s)"
    using ge ge1 by (auto simp: end_execution_def active_count_decr)
  show ?thesis
    using assms le order_trans [OF le(1)] by (auto simp: within_limits_def)
qed

interpretation quota_run: op_system exec_step within_limits
proof
  fix s and x :: "exec_event \<times> time"
  assume s: "within_limits s"
  obtain ev now where x: "x = (ev, now)" by force
  show "within_limits (exec_step x s)"
  proof (cases ev)
    case (Begin t u qt)
    with s x show ?thesis
      by (auto intro: within_start dest: check_quota_concurrent split: option.split)
  next
    case (Finish t u)
    with s x show ?thesis by (simp add: within_end)
  qed
qed

text \<open>
  C34: When executions start only after \<open>check_quota\<close> let them through, then over any interleaving
  of starts and ends the number of active executions of every tenant and user stays within its
  configured concurrency limit, and no counter becomes negative.
\<close>
theorem concurrent_quota_enforced:
  assumes "qm_active s = []"
  shows "within_limits (fold exec_step evs s)"
  by (rule quota_run.inv_run) (simp add: within_limits_def active_count_def dict_get_or_def assms)

theorem concurrent_quota_enforced_witness:
  "within_limits (fold exec_step [(Begin ''t'' ''u'' None, 5), (Begin ''t'' ''v'' None, 6), (Finish ''t'' ''u'', 7)]
     (configure_tenant_quota ''t'' CONCURRENT_EXECUTIONS 1 ''monthly'' 0 0 new_quota_manager))"
  by (rule concurrent_quota_enforced) (simp add: configure_tenant_quota_def new_quota_manager_def)

section \<open>What is counted\<close>

lemma usage_filter: "c \<le> cutoff \<Longrightarrow> usage_since cutoff (filter (\<lambda>r. fst r \<ge> c) recs) = usage_since cutoff recs"
proof -
  assume "c \<le> cutoff"
  then have "filter (\<lambda>r. fst r \<ge> cutoff) (filter (\<lambda>r. fst r \<ge> c) recs) = filter (\<lambda>r. fst r \<ge> cutoff) recs"
    by (induction recs) auto
  then show ?thesis by (simp add: usage_since_def)
qed

lemma filter_ge_twice: "(a :: int) \<le> b \<Longrightarrow> filter (\<lambda>r. fst r \<ge> b) (filter (\<lambda>r. fst r \<ge> a) recs) = filter (\<lambda>r. fst r \<ge> b) recs"
  by (induction recs) auto

lemma cutoff_recent: "period \<in> {''daily'', ''weekly'', ''monthly''} \<Longrightarrow> now - 31 * day \<le> period_cutoff now period"
  using start_of_day_le [of now] start_of_month_recent [of now] day_pos mult_right_mono [of "weekday now" 7 day]
    pos_mod_bound [of 7 "day_number now + 3"]
  by (auto simp: period_cutoff_def weekday_def)

text \<open>Increments of one counter at given times, and the log a counter without clean-up would hold.\<close>

lemma increments_log:
  assumes "sorted (map fst xs)" and "xs \<noteq> []" and "qm_usage s = []"
  shows "dict_get (qm_usage (fold (\<lambda>(t, n). increment_usage e qt n t) xs s)) (usage_key e qt)
    = Some (filter (\<lambda>r. fst r \<ge> fst (last xs) - 31 * day) xs)"
  using assms(1,2)
proof (induction xs rule: rev_induct)
  case Nil
  then show ?case by simp
next
  case (snoc x xs)
  obtain t n where x: "x = (t, n)" by force
  show ?case
  proof (cases "xs = []")
    case True
    with x assms(3) show ?thesis by (simp add: increment_usage_def dict_get_or_def Let_def unit_defs)
  next
    case False
    with snoc.prems x have "fst (last xs) \<le> t" "sorted (map fst xs)" by (auto simp: sorted_append)
    moreover from this have "filter (\<lambda>r. fst r \<ge> t - 31 * day) (filter (\<lambda>r. fst r \<ge> fst (last xs) - 31 * day) xs)
        = filter (\<lambda>r. fst r \<ge> t - 31 * day) xs"
      by (intro filter_ge_twice) simp
    moreover have "t - 31 * day \<le> t" using day_pos by simp
    ultimately show ?thesis using snoc.IH False x
      by (simp add: increment_usage_def dict_get_or_def Let_def del: filter_filter)
  qed
qed

text \<open>
  For the daily, weekly and monthly periods the clean-up of records older than 31 days loses
  nothing: the usage read at any later time is the sum of all increments made in the period.
\<close>
theorem usage_counts_period:
  assumes "sorted (map fst xs)" and "xs \<noteq> []" and "fst (last xs) \<le> now" and "qm_usage s = []"
    and "period \<in> {''daily'', ''weekly'', ''monthly''}"
  shows "get_usage e qt period now (fold (\<lambda>(t, n). increment_usage e qt n t) xs s)
    = usage_since (period_cutoff now period) xs"
proof -
  have "fst (last xs) - 31 * day \<le> period_cutoff now period"
    using cutoff_recent [OF assms(5), of now] assms(3) by linarith
  then show ?thesis
    by (simp add: get_usage_def increments_log [OF assms(1,2,4)] usage_filter)
qed

theorem usage_counts_period_witness:
  "get_usage ''t'' DAILY_COST ''daily'' (day + 5) (fold (\<lambda>(t, n). increment_usage ''t'' DAILY_COST n t) [(day, 3), (day + 1, 4)] new_quota_manager) = 7"
proof -
  have "usage_since (period_cutoff (day + 5) ''daily'') [(day, 3), (day + 1, 4)] = 7"
    by (simp add: usage_since_def period_cutoff_def start_of_day_def day_number_def unit_defs)
  then show ?thesis
    using usage_counts_period [of "[(day, 3), (day + 1, 4)]" "day + 5" new_quota_manager "''daily''" "''t''" DAILY_COST]
    by (simp add: new_quota_manager_def)
qed

lemma quota_value_colon: "count_list (quota_value qt) CHR '':'' = 0"
  by (cases qt) simp_all

text \<open>
  The executions \<open>start_execution\<close> records are never counted by \<open>check_quota\<close>: it reads the
  usage under the bare tenant and user ids while they are recorded under prefixed keys. So for ids
  without a colon, the period quotas decide as if the executions had not happened.
\<close>
theorem started_executions_not_counted:
  assumes "CHR '':'' \<notin> set e"
  shows "get_usage e qt period now (start_execution t u now' s) = get_usage e qt period now s
    \<and> check_quota_value e qt c now (start_execution t u now' s) = check_quota_value e qt c now s"
proof -
  have ne: "usage_key e qt \<noteq> usage_key k qt'" if "k = tenant_key t \<or> k = user_key u" for k qt'
  proof
    assume eq: "usage_key e qt = usage_key k qt'"
    have "count_list e CHR '':'' = 0" using assms by (simp add: count_list_0_iff)
    then have "count_list (usage_key e qt) CHR '':'' = 1" by (simp add: usage_key_def quota_value_colon)
    moreover have "count_list (usage_key k qt') CHR '':'' \<ge> 2"
      using that by (auto simp: usage_key_def tenant_key_def user_key_def)
    ultimately show False using eq by simp
  qed
  have "dict_get (qm_usage (start_execution t u now' s)) (usage_key e qt) = dict_get (qm_usage s) (usage_key e qt)"
    by (simp add: start_execution_def increment_other ne [symmetric])
  then show ?thesis by (simp add: get_usage_def check_quota_value_def)
qed

theorem started_executions_not_counted_witness:
  "get_usage ''acme'' DAILY_EXECUTIONS ''daily'' 9 (start_execution ''acme'' ''bob'' 8 new_quota_manager) = 0"
  using started_executions_not_counted [of "''acme''"]
  by (simp add: get_usage_def new_quota_manager_def)

end
