(* ===== verification/TaskContexts.thy ===== *)
theory TaskContexts
  imports Dag
begin

text \<open>
  Task contexts: \<open>TaskContext\<close> of \<open>src/models/dag.py\<close> and the manager of
  \<open>src/scheduler/task_context.py\<close>. The context id and the temporary directory that
  \<open>tempfile.mkdtemp\<close> makes are arguments; removing a directory is the value returned.
\<close>

section \<open>State\<close>

record artifact =
  ar_name :: pyval
  ar_data :: pyval
  ar_mime_type :: pyval
  ar_created_at :: time

record task_context =
  tc_context_id :: string
  tc_process_id :: string
  tc_task_id :: string
  tc_inputs :: pydict
  tc_outputs :: pydict
  tc_artifacts :: "artifact list"
  tc_environment_vars :: "(string, string) dict"
  tc_working_directory :: "string option"
  tc_temp_files :: "string list"
  tc_user_id :: string
  tc_tenant_id :: string
  tc_permissions :: "string list"
  tc_created_at :: time
  tc_updated_at :: time

record context_manager =
  cm_contexts :: "(string, task_context) dict"
  cm_temp_dirs :: "(string, string) dict"

definition new_context_manager :: context_manager where
  "new_context_manager = \<lparr>cm_contexts = [], cm_temp_dirs = []\<rparr>"

section \<open>Operations\<close>

definition ctx_add_output :: "string \<Rightarrow> pyval \<Rightarrow> time \<Rightarrow> task_context \<Rightarrow> task_context" where
  "ctx_add_output k v now c = c\<lparr>tc_outputs := dict_set k v (tc_outputs c), tc_updated_at := now\<rparr>"

definition ctx_add_artifact :: "pyval \<Rightarrow> pyval \<Rightarrow> pyval \<Rightarrow> time \<Rightarrow> task_context \<Rightarrow> task_context" where
  "ctx_add_artifact name data mime now c =
     c\<lparr>tc_artifacts := tc_artifacts c
         @ [\<lparr>ar_name = name, ar_data = data, ar_mime_type = mime, ar_created_at = now\<rparr>],
       tc_updated_at := now\<rparr>"

definition create_context ::
    "string \<Rightarrow> string \<Rightarrow> string \<Rightarrow> string \<Rightarrow> string \<Rightarrow> string \<Rightarrow> pydict option \<Rightarrow> time
      \<Rightarrow> context_manager \<Rightarrow> task_context \<times> context_manager" where
  "create_context cid temp_dir pid tid user tenant inputs now s =
     (let c = \<lparr>tc_context_id = cid, tc_process_id = pid, tc_task_id = tid,
               tc_inputs = (case inputs of None \<Rightarrow> [] | Some i \<Rightarrow> i),
               tc_outputs = [], tc_artifacts = [],
               tc_environment_vars = [(''ESO_PROCESS_ID'', pid), (''ESO_TASK_ID'', tid),
                 (''ESO_USER_ID'', user), (''ESO_TENANT_ID'', tenant), (''ESO_TEMP_DIR'', temp_dir)],
               tc_working_directory = Some temp_dir, tc_temp_files = [], tc_user_id = user,
               tc_tenant_id = tenant, tc_permissions = [], tc_created_at = now, tc_updated_at = now\<rparr>
      in (c, s\<lparr>cm_temp_dirs := dict_set tid temp_dir (cm_temp_dirs s),
               cm_contexts := dict_set cid c (cm_contexts s)\<rparr>))"

definition get_context :: "string \<Rightarrow> context_manager \<Rightarrow> task_context option" where
  "get_context cid s = dict_get (cm_contexts s) cid"

text \<open>
  The loop over the artifacts of \<open>update_context\<close>: each is a dictionary that must have a name
  and data; those before a malformed one are kept.
\<close>

fun add_artifacts :: "pydict list \<Rightarrow> time \<Rightarrow> task_context \<Rightarrow> task_context \<times> exn option" where
  "add_artifacts [] now c = (c, None)"
| "add_artifacts (a # as) now c =
     (case dict_get a ''name'' of
        None \<Rightarrow> (c, Some (KeyErr ''name''))
      | Some name \<Rightarrow>
        (case dict_get a ''data'' of
           None \<Rightarrow> (c, Some (KeyErr ''data''))
         | Some data \<Rightarrow>
             add_artifacts as now
               (ctx_add_artifact name data
                  (dict_get_or a ''mime_type'' (PStr ''application/octet-stream'')) now c)))"

definition update_context ::
    "string \<Rightarrow> pydict option \<Rightarrow> pydict list option \<Rightarrow> time \<Rightarrow> context_manager
      \<Rightarrow> (exn + task_context option) \<times> context_manager" where
  "update_context cid outputs artifacts now s =
     (case dict_get (cm_contexts s) cid of
        None \<Rightarrow> (Inr None, s)
      | Some c \<Rightarrow>
        (let c1 = fold (\<lambda>(k, v). ctx_add_output k v now) (case outputs of None \<Rightarrow> [] | Some ov \<Rightarrow> ov) c;
             (c2, e) = add_artifacts (case artifacts of None \<Rightarrow> [] | Some av \<Rightarrow> av) now c1
         in (case e of None \<Rightarrow> Inr (Some c2) | Some x \<Rightarrow> Inl x,
             s\<lparr>cm_contexts := dict_set cid c2 (cm_contexts s)\<rparr>)))"

text \<open>The directory to delete is returned; it is looked up by the task id of the context.\<close>

definition cleanup_context :: "string \<Rightarrow> context_manager \<Rightarrow> string option \<times> context_manager" where
  "cleanup_context cid s =
     (case dict_get (cm_contexts s) cid of
        None \<Rightarrow> (None, s)
      | Some c \<Rightarrow>
        (dict_get (cm_temp_dirs s) (tc_task_id c),
         s\<lparr>cm_contexts := dict_pop cid (cm_contexts s),
           cm_temp_dirs := dict_pop (tc_task_id c) (cm_temp_dirs s)\<rparr>))"

definition get_input :: "string \<Rightarrow> string \<Rightarrow> context_manager \<Rightarrow> pyval option" where
  "get_input cid k s =
     (case dict_get (cm_contexts s) cid of None \<Rightarrow> None | Some c \<Rightarrow> dict_get (tc_inputs c) k)"

definition on_context :: "string \<Rightarrow> (task_context \<Rightarrow> task_context) \<Rightarrow> context_manager \<Rightarrow> context_manager" where
  "on_context cid f s =
     (case dict_get (cm_contexts s) cid of
        None \<Rightarrow> s
      | Some c \<Rightarrow> s\<lparr>cm_contexts := dict_set cid (f c) (cm_contexts s)\<rparr>)"

definition set_output :: "string \<Rightarrow> string \<Rightarrow> pyval \<Rightarrow> time \<Rightarrow> context_manager \<Rightarrow> context_manager" where
  "set_output cid k v now = on_context cid (ctx_add_output k v now)"

definition add_artifact :: "string \<Rightarrow> pyval \<Rightarrow> pyval \<Rightarrow> pyval \<Rightarrow> time \<Rightarrow> context_manager \<Rightarrow> context_manager" where
  "add_artifact cid name data mime now = on_context cid (ctx_add_artifact name data mime now)"

text \<open>The directory and the file name, which \<open>os.path.join\<close> joins.\<close>

definition get_temp_file_path :: "string \<Rightarrow> string \<Rightarrow> context_manager \<Rightarrow> (string \<times> string) option" where
  "get_temp_file_path cid filename s =
     (case dict_get (cm_contexts s) cid of
        None \<Rightarrow> None
      | Some c \<Rightarrow>
        (case dict_get (cm_temp_dirs s) (tc_task_id c) of
           None \<Rightarrow> None
         | Some dir \<Rightarrow> if dir = [] then None else Some (dir, filename)))"

section \<open>Properties\<close>

lemma create_context_get:
  "get_context c (snd (create_context cid dir pid tid u t i now s))
     = (if c = cid then Some (fst (create_context cid dir pid tid u t i now s)) else get_context c s)"
  by (simp add: create_context_def get_context_def Let_def)

lemma cleanup_get: "dict_ok (cm_contexts s) \<Longrightarrow>
    get_context c (snd (cleanup_context cid s)) = (if c = cid then None else get_context c s)"
  by (auto simp: cleanup_context_def get_context_def split: option.split)

lemma fold_outputs:
  "tc_task_id (fold (\<lambda>(k, v). ctx_add_output k v now) kvs c) = tc_task_id c
   \<and> tc_inputs (fold (\<lambda>(k, v). ctx_add_output k v now) kvs c) = tc_inputs c"
  by (induction kvs arbitrary: c) (auto simp: ctx_add_output_def)

text \<open>
  Directories are filed under the task id alone: creating a context for the same task id of
  another process makes the first context use, and its cleanup delete, the directory of the second.
\<close>

lemma shared_task_directory:
  assumes "cid \<noteq> cid'"
  shows "let s1 = snd (create_context cid dir pid tid u t i now s);
             s2 = snd (create_context cid' dir' pid' tid u' t' i' now' s1)
         in fst (cleanup_context cid s2) = Some dir'
            \<and> get_temp_file_path cid' f (snd (cleanup_context cid s2)) = None"
  using assms
  by (simp add: create_context_def cleanup_context_def get_temp_file_path_def Let_def split: option.split)

end
