(* ===== verification/Scheduler.thy ===== *)
theory Scheduler
  imports Verifier BudgetTracker QuotaManager TaskContexts
begin

text \<open>
  \<open>src/scheduler/hybrid_scheduler.py\<close>: an execution is planned, verified, checked against its
  budget and run level by level. The background coroutine of a process is a program counter; a step
  runs it from one external \<open>await\<close> to the next, so that calls and the steps of other processes
  interleave where the event loop can switch. The awaits inside the source that never suspend (the
  verifier, the budget tracker, the quota manager, the context manager) are calls.
  What the scheduler takes from outside is the record \<open>sched_env\<close>: the planner, the orchestrator,
  the outcome of the memory service's operations, drawn identifiers and \<open>str\<close> of an
  exception or a verifier error.
\<close>

section \<open>State\<close>

datatype exec_status =
  ES_pending | ES_planning | ES_validating | ES_ready | ES_executing | ES_completed | ES_failed | ES_cancelled

record execution =
  xc_process_id :: string
  xc_goal :: string
  xc_target :: "string option"
  xc_user_id :: string
  xc_tenant_id :: string
  xc_priority :: string
  xc_status :: exec_status
  xc_created_at :: time
  xc_parameters :: pydict
  xc_dag :: "dag option"
  xc_current_task :: "string option"
  xc_error :: "(string \<times> exn_class) option"
  xc_budget_limit :: "rat option"
  xc_updated_at :: "time option"
  xc_completed_at :: "time option"
  xc_cancelled_at :: "time option"

datatype exec_result = ResCompleted rat time | ResFailed string exn_class

datatype memory_op =
    StoreDag dag
  | UpdateDag dag
  | StoreTaskResult string string pyval
  | StoreExecutionResult string exec_result

text \<open>Where a coroutine is suspended, with the local variables it still needs.\<close>

datatype pc =
    PlanStart
  | AwaitSimilar
  | AwaitPlan "pyval list"
  | AwaitStoreDag dag
  | ExecStart
  | AwaitLevel "(string \<times> task_context) list" "string list list"
  | AwaitUpdate "string list list"
  | AwaitDone exec_result

record scheduler =
  sd_contexts :: context_manager
  sd_budget :: budget_tracker
  sd_quota :: quota_manager
  sd_active :: "(string, execution) dict"
  sd_tasks :: "(string, pc) dict"
  sd_memory :: "memory_op list"

text \<open>What the memory search and the planner are given.\<close>

record plan_request =
  pq_process_id :: string
  pq_goal :: string
  pq_target :: "string option"
  pq_user_id :: string
  pq_tenant_id :: string
  pq_parameters :: pydict

definition plan_request_of :: "execution \<Rightarrow> plan_request" where
  "plan_request_of x =
     \<lparr>pq_process_id = xc_process_id x, pq_goal = xc_goal x, pq_target = xc_target x,
      pq_user_id = xc_user_id x, pq_tenant_id = xc_tenant_id x, pq_parameters = xc_parameters x\<rparr>"

record sched_env =
  se_similar :: "plan_request \<Rightarrow> exn + pyval list"
  se_plan :: "plan_request \<Rightarrow> pyval list \<Rightarrow> exn + dag"
  se_route :: "(string \<Rightarrow> task_node \<Rightarrow> task_context \<Rightarrow> exn + pyval) option"
  se_memory :: "memory_op \<Rightarrow> exn option"
  se_context_id :: "string \<Rightarrow> string \<Rightarrow> string"
  se_temp_dir :: "string \<Rightarrow> string \<Rightarrow> string"
  se_str :: "exn \<Rightarrow> string"
  se_verr :: "verr \<Rightarrow> string"

definition new_scheduler :: "quota_manager \<Rightarrow> scheduler" where
  "new_scheduler q =
     \<lparr>sd_contexts = new_context_manager, sd_budget = new_budget_tracker, sd_quota = q,
      sd_active = [], sd_tasks = [], sd_memory = []\<rparr>"

section \<open>Primitive updates\<close>

definition put_exec :: "string \<Rightarrow> execution \<Rightarrow> scheduler \<Rightarrow> scheduler" where
  "put_exec pid x s = s\<lparr>sd_active := dict_set pid x (sd_active s)\<rparr>"

definition go :: "string \<Rightarrow> pc \<Rightarrow> scheduler \<Rightarrow> scheduler" where
  "go pid c s = s\<lparr>sd_tasks := dict_set pid c (sd_tasks s)\<rparr>"

definition stop :: "string \<Rightarrow> scheduler \<Rightarrow> scheduler" where
  "stop pid s = s\<lparr>sd_tasks := dict_pop pid (sd_tasks s)\<rparr>"

definition call_memory :: "memory_op list \<Rightarrow> scheduler \<Rightarrow> scheduler" where
  "call_memory ops s = s\<lparr>sd_memory := sd_memory s @ ops\<rparr>"

section \<open>Scheduling\<close>

definition schedule_execution ::
    "string \<Rightarrow> string \<Rightarrow> string \<Rightarrow> string \<Rightarrow> string option \<Rightarrow> rat option \<Rightarrow> string \<Rightarrow> pydict option \<Rightarrow> time
      \<Rightarrow> scheduler \<Rightarrow> (exn + string) \<times> scheduler" where
  "schedule_execution pid goal user tenant target budget priority params now s =
     (case check_quota tenant user None now (sd_quota s) of
        Some e \<Rightarrow> (Inl e, s)
      | None \<Rightarrow>
        (let s1 = (case budget of
                     None \<Rightarrow> s
                   | Some b \<Rightarrow>
                     if b = 0 then s
                     else s\<lparr>sd_budget := initialize_budget pid user tenant b ''USD'' None now (sd_budget s)\<rparr>);
             x = \<lparr>xc_process_id = pid, xc_goal = goal, xc_target = target, xc_user_id = user,
                  xc_tenant_id = tenant, xc_priority = priority, xc_status = ES_pending,
                  xc_created_at = now, xc_parameters = (case params of None \<Rightarrow> [] | Some p \<Rightarrow> p),
                  xc_dag = None, xc_current_task = None, xc_error = None, xc_budget_limit = budget,
                  xc_updated_at = None, xc_completed_at = None, xc_cancelled_at = None\<rparr>
         in (Inr pid, go pid PlanStart (put_exec pid x s1))))"

definition update_execution_status :: "string \<Rightarrow> exec_status \<Rightarrow> time \<Rightarrow> scheduler \<Rightarrow> scheduler" where
  "update_execution_status pid st now s =
     s\<lparr>sd_active := dict_mod pid (\<lambda>x. x\<lparr>xc_status := st, xc_updated_at := Some now\<rparr>) (sd_active s)\<rparr>"

text \<open>
  \<open>_handle_execution_error\<close> is the last thing a coroutine does: the execution is marked first, then
  the error goes to memory, whose own outcome nobody looks at.
\<close>

definition handle_execution_error :: "sched_env \<Rightarrow> string \<Rightarrow> exn \<Rightarrow> scheduler \<Rightarrow> scheduler" where
  "handle_execution_error env pid e s =
     stop pid
       (case dict_get (sd_active s) pid of
          None \<Rightarrow> s
        | Some x \<Rightarrow>
            call_memory [StoreExecutionResult pid (ResFailed (se_str env e) (ex_class e))]
              (put_exec pid (x\<lparr>xc_status := ES_failed, xc_error := Some (se_str env e, ex_class e)\<rparr>) s))"

definition should_continue_on_error :: "execution \<Rightarrow> bool" where
  "should_continue_on_error x =
     truthy (dict_get_or (xc_parameters x) ''continue_on_error'' (PBool False))"

section \<open>Planning\<close>

definition validation_error :: "string list \<Rightarrow> exn" where
  "validation_error errs = DAGValidationError [Lit ''DAG validation failed''] errs None"

definition estimate_exceeds :: "rat \<Rightarrow> exn" where
  "estimate_exceeds c =
     BudgetExceededError [Lit ''Estimated cost $'', Num c, Lit '' exceeds budget limit''] ''cost'' None"

text \<open>After the planner returned: verification and the budget check, then the plan is stored.\<close>

definition check_plan :: "nat \<Rightarrow> sched_env \<Rightarrow> string \<Rightarrow> execution \<Rightarrow> dag \<Rightarrow> time \<Rightarrow> scheduler \<Rightarrow> scheduler" where
  "check_plan rlim env pid x d now s =
     (let s1 = update_execution_status pid ES_validating now s
      in case validate_dag rlim (d\<lparr>dg_process_id := pid\<rparr>) (xc_tenant_id x) now of
           Raised e \<Rightarrow> handle_execution_error env pid e s1
         | Rejected d' errs \<Rightarrow> handle_execution_error env pid (validation_error (map (se_verr env) errs)) s1
         | Accepted d' \<Rightarrow>
             if \<not> check_budget pid (dg_estimated_total_cost d') (sd_budget s1)
             then handle_execution_error env pid (estimate_exceeds (dg_estimated_total_cost d')) s1
             else go pid (AwaitStoreDag d') (call_memory [StoreDag d'] s1))"

section \<open>Executing\<close>

text \<open>
  The tasks of a level are marked running and get a context each, in order; the coroutines start
  when they are gathered.
\<close>

fun open_level ::
    "sched_env \<Rightarrow> string \<Rightarrow> execution \<Rightarrow> time \<Rightarrow> string list \<Rightarrow> dag \<Rightarrow> context_manager
      \<Rightarrow> ((string \<times> task_context) list \<times> exn option) \<times> dag \<times> context_manager" where
  "open_level env pid x now [] d cm = (([], None), d, cm)"
| "open_level env pid x now (t # ts) d cm =
     (case dict_get (dg_nodes d) t of
        None \<Rightarrow> (([], Some (KeyErr t)), d, cm)
      | Some n \<Rightarrow>
        (let (c, cm1) = create_context (se_context_id env pid t) (se_temp_dir env pid t) pid t
                          (xc_user_id x) (xc_tenant_id x) (Some (tn_parameters n)) now cm;
             ((cs, e), r) = open_level env pid x now ts
               (d\<lparr>dg_nodes := dict_set t (n\<lparr>tn_status := TS_RUNNING\<rparr>) (dg_nodes d)\<rparr>) cm1
         in (((t, c) # cs, e), r)))"

text \<open>\<open>_execute_task\<close>: what it returns or raises, the task as it leaves it, its memory calls.\<close>

definition execute_task ::
    "sched_env \<Rightarrow> string \<Rightarrow> time \<Rightarrow> task_context \<Rightarrow> task_node \<Rightarrow> (exn + pyval) \<times> task_node \<times> memory_op list" where
  "execute_task env pid now c n =
     (let n1 = n\<lparr>tn_start_time := Some now, tn_end_time := Some now\<rparr>
      in case se_route env of
           None \<Rightarrow> (Inl (py_exn PyException ''Orchestrator not connected to scheduler''),
                    n1\<lparr>tn_status := TS_FAILED\<rparr>, [])
         | Some route \<Rightarrow>
           (case route pid n c of
              Inl e \<Rightarrow> (Inl e, n1\<lparr>tn_status := TS_FAILED\<rparr>, [])
            | Inr v \<Rightarrow>
              (let n2 = n1\<lparr>tn_actual_cost := tn_estimated_cost n * (9/10)\<rparr>;
                   ops = [StoreTaskResult (tn_task_id n) pid v]
               in case se_memory env (StoreTaskResult (tn_task_id n) pid v) of
                    Some e \<Rightarrow> (Inl e, n2\<lparr>tn_status := TS_FAILED\<rparr>, ops)
                  | None \<Rightarrow> (Inr v, n2, ops))))"

text \<open>\<open>asyncio.gather\<close> with \<open>return_exceptions\<close>: every task runs, the results are in the order given.\<close>

fun gather_level ::
    "sched_env \<Rightarrow> string \<Rightarrow> time \<Rightarrow> (string \<times> task_context) list \<Rightarrow> dag \<Rightarrow> (string \<times> (exn + pyval)) list \<times> dag \<times> memory_op list" where
  "gather_level env pid now [] d = ([], d, [])"
| "gather_level env pid now ((t, c) # cs) d =
     (case dict_get (dg_nodes d) t of
        None \<Rightarrow> gather_level env pid now cs d
      | Some n \<Rightarrow>
        (let (r, n', ops) = execute_task env pid now c n;
             (rs, d', ops') = gather_level env pid now cs (d\<lparr>dg_nodes := dict_set t n' (dg_nodes d)\<rparr>)
         in ((t, r) # rs, d', ops @ ops')))"

text \<open>The results are processed in order; the first failure raises unless errors are tolerated.\<close>

fun process_results ::
    "sched_env \<Rightarrow> bool \<Rightarrow> string \<Rightarrow> time \<Rightarrow> (string \<times> (exn + pyval)) list \<Rightarrow> dag \<Rightarrow> budget_tracker
      \<Rightarrow> exn option \<times> dag \<times> budget_tracker" where
  "process_results env cont pid now [] d b = (None, d, b)"
| "process_results env cont pid now ((t, Inl e) # rs) d b =
     (let d' = d\<lparr>dg_nodes := dict_mod t (\<lambda>n. n\<lparr>tn_status := TS_FAILED,
                 tn_error := Some (PDict [(''message'', PStr (se_str env e))])\<rparr>) (dg_nodes d)\<rparr>
      in if \<not> cont then (Some e, d', b) else process_results env cont pid now rs d' b)"
| "process_results env cont pid now ((t, Inr v) # rs) d b =
     (let d' = d\<lparr>dg_nodes := dict_mod t (\<lambda>n. n\<lparr>tn_status := TS_COMPLETED, tn_result := Some v\<rparr>)
                 (dg_nodes d)\<rparr>;
          (b', r) = add_cost pid (case dict_get (dg_nodes d) t of None \<Rightarrow> 0 | Some n \<Rightarrow> tn_actual_cost n)
                      None now b
      in case r of Some e \<Rightarrow> (Some e, d', b') | None \<Rightarrow> process_results env cont pid now rs d' b')"

definition total_actual_cost :: "dag \<Rightarrow> rat" where
  "total_actual_cost d = sum_list (map tn_actual_cost (dict_values (dg_nodes d)))"

definition complete_execution :: "string \<Rightarrow> execution \<Rightarrow> dag \<Rightarrow> time \<Rightarrow> scheduler \<Rightarrow> scheduler" where
  "complete_execution pid x d now s =
     (let res = ResCompleted (total_actual_cost d) now
      in go pid (AwaitDone res)
           (call_memory [StoreExecutionResult pid res]
             (put_exec pid (x\<lparr>xc_status := ES_completed, xc_completed_at := Some now\<rparr>) s)))"

text \<open>The next level, or the end when there is none.\<close>

definition enter_level ::
    "sched_env \<Rightarrow> string \<Rightarrow> execution \<Rightarrow> dag \<Rightarrow> string list list \<Rightarrow> time \<Rightarrow> scheduler \<Rightarrow> scheduler" where
  "enter_level env pid x d groups now s =
     (case groups of
        [] \<Rightarrow> complete_execution pid x d now s
      | ts # rest \<Rightarrow>
        (let ((cs, e), d', cm) = open_level env pid x now ts d (sd_contexts s);
             s1 = put_exec pid (x\<lparr>xc_dag := Some d'\<rparr>) (s\<lparr>sd_contexts := cm\<rparr>)
         in case e of Some e \<Rightarrow> handle_execution_error env pid e s1
            | None \<Rightarrow> go pid (AwaitLevel cs rest) s1))"

definition finish_level ::
    "sched_env \<Rightarrow> string \<Rightarrow> execution \<Rightarrow> dag \<Rightarrow> (string \<times> task_context) list \<Rightarrow> string list list \<Rightarrow> time
      \<Rightarrow> scheduler \<Rightarrow> scheduler" where
  "finish_level env pid x d cs rest now s =
     (let (rs, d1, ops) = gather_level env pid now cs d;
          (e, d2, b) = process_results env (should_continue_on_error x) pid now rs d1 (sd_budget s);
          s1 = call_memory ops (put_exec pid (x\<lparr>xc_dag := Some d2\<rparr>) (s\<lparr>sd_budget := b\<rparr>))
      in case e of Some e \<Rightarrow> handle_execution_error env pid e s1
         | None \<Rightarrow> go pid (AwaitUpdate rest) (call_memory [UpdateDag d2] s1))"

text \<open>One step of the coroutine of \<open>pid\<close>, from where it is suspended to the next suspension.\<close>

definition resume_at ::
    "nat \<Rightarrow> sched_env \<Rightarrow> string \<Rightarrow> execution \<Rightarrow> time \<Rightarrow> scheduler \<Rightarrow> pc \<Rightarrow> scheduler" where
  "resume_at rlim env pid x now s c =
     (case c of
        PlanStart \<Rightarrow> go pid AwaitSimilar (update_execution_status pid ES_planning now s)
      | AwaitSimilar \<Rightarrow>
          (case se_similar env (plan_request_of x) of
             Inl e \<Rightarrow> handle_execution_error env pid e s
           | Inr ts \<Rightarrow> go pid (AwaitPlan ts) s)
      | AwaitPlan ts \<Rightarrow>
          (case se_plan env (plan_request_of x) ts of
             Inl e \<Rightarrow> handle_execution_error env pid e s
           | Inr d \<Rightarrow> check_plan rlim env pid x d now s)
      | AwaitStoreDag d \<Rightarrow>
          (case se_memory env (StoreDag d) of
             Some e \<Rightarrow> handle_execution_error env pid e s
           | None \<Rightarrow> go pid ExecStart (put_exec pid (x\<lparr>xc_dag := Some d, xc_status := ES_ready\<rparr>) s))
      | ExecStart \<Rightarrow>
          (case xc_dag x of
             None \<Rightarrow> handle_execution_error env pid (AttributeErr ''total_tasks'') s
           | Some d \<Rightarrow>
             (let x1 = x\<lparr>xc_status := ES_executing, xc_updated_at := Some now\<rparr>;
                  s1 = update_execution_status pid ES_executing now s
              in case get_execution_order rlim d of
                   Inl e \<Rightarrow> handle_execution_error env pid e s1
                 | Inr groups \<Rightarrow> enter_level env pid x1 d groups now s1))
      | AwaitLevel cs rest \<Rightarrow>
          (case xc_dag x of
             None \<Rightarrow> handle_execution_error env pid (AttributeErr ''nodes'') s
           | Some d \<Rightarrow> finish_level env pid x d cs rest now s)
      | AwaitUpdate rest \<Rightarrow>
          (case xc_dag x of
             None \<Rightarrow> handle_execution_error env pid (AttributeErr ''nodes'') s
           | Some d \<Rightarrow>
             (case se_memory env (UpdateDag d) of
                Some e \<Rightarrow> handle_execution_error env pid e s
              | None \<Rightarrow> enter_level env pid x d rest now s))
      | AwaitDone res \<Rightarrow>
          (case se_memory env (StoreExecutionResult pid res) of
             Some e \<Rightarrow> handle_execution_error env pid e s
           | None \<Rightarrow> stop pid s))"

definition resume :: "nat \<Rightarrow> sched_env \<Rightarrow> string \<Rightarrow> time \<Rightarrow> scheduler \<Rightarrow> scheduler" where
  "resume rlim env pid now s =
     (case dict_get (sd_tasks s) pid of
        None \<Rightarrow> s
      | Some c \<Rightarrow>
        (case dict_get (sd_active s) pid of None \<Rightarrow> s | Some x \<Rightarrow> resume_at rlim env pid x now s c))"

section \<open>Status and cancellation\<close>

record status_report =
  sr_status :: exec_status
  sr_progress :: rat
  sr_created_at :: time
  sr_updated_at :: "time option"
  sr_completed_at :: "time option"
  sr_error :: "(string \<times> exn_class) option"

definition progress :: "dag option \<Rightarrow> rat" where
  "progress d =
     (case d of None \<Rightarrow> 0
      | Some d \<Rightarrow>
        (let completed = length (filter (\<lambda>n. tn_status n = TS_COMPLETED \<or> tn_status n = TS_FAILED)
                                   (dict_values (dg_nodes d)))
         in if dg_total_tasks d > 0 then of_nat completed / of_int (dg_total_tasks d) * 100 else 0))"

text \<open>\<open>None\<close> stands for the look-up in the memory service.\<close>

definition get_execution_status :: "string \<Rightarrow> scheduler \<Rightarrow> status_report option" where
  "get_execution_status pid s =
     map_option (\<lambda>x. \<lparr>sr_status = xc_status x, sr_progress = progress (xc_dag x),
                      sr_created_at = xc_created_at x, sr_updated_at = xc_updated_at x,
                      sr_completed_at = xc_completed_at x, sr_error = xc_error x\<rparr>)
       (dict_get (sd_active s) pid)"

definition cancel_execution :: "string \<Rightarrow> time \<Rightarrow> scheduler \<Rightarrow> bool \<times> scheduler" where
  "cancel_execution pid now s =
     (case dict_get (sd_active s) pid of
        None \<Rightarrow> (False, s)
      | Some x \<Rightarrow>
        if xc_status x \<in> {ES_completed, ES_failed, ES_cancelled} then (False, s)
        else (True, put_exec pid (x\<lparr>xc_status := ES_cancelled, xc_cancelled_at := Some now\<rparr>) s))"

section \<open>Runs\<close>

datatype sched_event =
    Schedule string string string string "string option" "rat option" string "pydict option"
  | Resume string
  | Cancel string

fun sched_exec :: "nat \<Rightarrow> sched_env \<Rightarrow> sched_event \<times> time \<Rightarrow> scheduler \<Rightarrow> scheduler" where
  "sched_exec rlim env (Schedule p g u t tgt b pr ps, now) s =
     snd (schedule_execution p g u t tgt b pr ps now s)"
| "sched_exec rlim env (Resume p, now) s = resume rlim env p now s"
| "sched_exec rlim env (Cancel p, now) s = snd (cancel_execution p now s)"

end
