(* ===== verification/SchedulerRuns.thy ===== *)
theory SchedulerRuns
  imports Scheduler DagOps
begin

text \<open>
  What the runs of the scheduler keep: the levels are executed in dependency order, an execution is
  completed only with all its tasks, cancellation changes nothing but the status shown, and the
  quota counters are never touched.
\<close>

section \<open>What the steps do to the plan\<close>

lemma open_level_spec:
  "open_level env pid x now ts d cm = ((cs, e), d', cm') \<Longrightarrow>
     same_but (set ts) d d' \<and> (e = None \<longrightarrow> map fst cs = ts)"
proof (induction ts arbitrary: d cm cs e d' cm')
  case Nil
  then show ?case by simp
next
  case (Cons t ts)
  show ?case
  proof (cases "dict_get (dg_nodes d) t")
    case None
    with Cons.prems show ?thesis by auto
  next
    case (Some n)
    let ?d1 = "d\<lparr>dg_nodes := dict_set t (n\<lparr>tn_status := TS_RUNNING\<rparr>) (dg_nodes d)\<rparr>"
    obtain c cm1 where c: "create_context (se_context_id env pid t) (se_temp_dir env pid t) pid t
        (xc_user_id x) (xc_tenant_id x) (Some (tn_parameters n)) now cm = (c, cm1)" by fastforce
    obtain cs1 e1 d1 cm2 where r: "open_level env pid x now ts ?d1 cm1 = ((cs1, e1), d1, cm2)"
      by (metis prod_cases4 surj_pair)
    from Cons.IH [OF r] same_but_trans [OF same_but_set [OF Some]]
    have "same_but (insert t (set ts)) d d1" by fastforce
    with Cons.prems Cons.IH [OF r] Some c r show ?thesis by auto
  qed
qed

lemma gather_level_spec:
  "gather_level env pid now cs d = (rs, d', ops) \<Longrightarrow>
     same_but (fst ` set cs) d d' \<and> (fst ` set cs \<subseteq> set (dict_keys (dg_nodes d)) \<longrightarrow> map fst rs = map fst cs)"
proof (induction cs arbitrary: d rs d' ops)
  case Nil
  then show ?case by simp
next
  case (Cons tc cs)
  obtain t c where tc: "tc = (t, c)" by fastforce
  show ?case
  proof (cases "dict_get (dg_nodes d) t")
    case None
    with Cons tc have "t \<notin> set (dict_keys (dg_nodes d))" by (simp add: dict_has_keys [symmetric] dict_has_def)
    with None Cons tc show ?thesis by (fastforce intro: same_but_mono)
  next
    case (Some n)
    obtain r n' o1 where r: "execute_task env pid now c n = (r, n', o1)" by (metis prod_cases3)
    let ?d1 = "d\<lparr>dg_nodes := dict_set t n' (dg_nodes d)\<rparr>"
    obtain rs1 d1 o2 where g: "gather_level env pid now cs ?d1 = (rs1, d1, o2)" by (metis prod_cases3)
    have s: "same_but {t} d ?d1" by (rule same_but_set [OF Some])
    from Cons.IH [OF g] same_but_trans [OF s] have "same_but (insert t (fst ` set cs)) d d1" by fastforce
    with Cons.prems Cons.IH [OF g] Some r g tc s show ?thesis
      by (auto simp: same_but_def)
  qed
qed

lemma process_keeps_finished:
  "process_results env cont pid now rs d b = (None, d', b') \<Longrightarrow> finished cont d t \<Longrightarrow> finished cont d' t"
proof (induction env cont pid now rs d b rule: process_results.induct)
  case (2 env cont pid now u e rs d b)
  then have "cont" by (simp add: Let_def split: if_splits)
  with 2 show ?case by (simp add: Let_def finished_mod)
next
  case (3 env cont pid now u v rs d b)
  obtain b1 r where a: "add_cost pid (case dict_get (dg_nodes d) u of None \<Rightarrow> 0 | Some n \<Rightarrow> tn_actual_cost n)
      None now b = (b1, r)" by fastforce
  with 3(2) have "r = None" by (cases r) (simp_all add: Let_def)
  with 3 a show ?case by (simp add: Let_def finished_mod)
qed simp

lemma process_results_spec:
  "process_results env cont pid now rs d b = (e, d', b') \<Longrightarrow> same_but (fst ` set rs) d d'"
proof (induction env cont pid now rs d b rule: process_results.induct)
  case (2 env cont pid now t e1 rs d b)
  let ?d = "d\<lparr>dg_nodes := dict_mod t (\<lambda>n. n\<lparr>tn_status := TS_FAILED,
                 tn_error := Some (PDict [(''message'', PStr (se_str env e1))])\<rparr>) (dg_nodes d)\<rparr>"
  have "same_but {t} d ?d" by (rule same_but_mod)
  with 2 show ?case by (auto simp: Let_def intro: same_but_mono same_but_trans split: if_splits)
next
  case (3 env cont pid now t v rs d b)
  let ?d = "d\<lparr>dg_nodes := dict_mod t (\<lambda>n. n\<lparr>tn_status := TS_COMPLETED, tn_result := Some v\<rparr>) (dg_nodes d)\<rparr>"
  have s: "same_but {t} d ?d" by (rule same_but_mod)
  obtain b1 r where a: "add_cost pid (case dict_get (dg_nodes d) t of None \<Rightarrow> 0 | Some n \<Rightarrow> tn_actual_cost n)
      None now b = (b1, r)" by fastforce
  show ?case
  proof (cases r)
    case None
    with 3 a have "same_but (fst ` set rs) ?d d'" by (simp add: Let_def)
    with same_but_trans [OF s] show ?thesis by fastforce
  next
    case (Some e1)
    with 3 a have "d' = ?d" by (simp add: Let_def)
    with s show ?thesis by (auto intro: same_but_mono)
  qed
qed simp

lemma process_results_done:
  "process_results env cont pid now rs d b = (None, d', b') \<Longrightarrow> t \<in> fst ` set rs \<Longrightarrow>
     dict_has (dg_nodes d) t \<Longrightarrow> finished cont d' t"
proof (induction env cont pid now rs d b rule: process_results.induct)
  case (2 env cont pid now u e rs d b)
  let ?d = "d\<lparr>dg_nodes := dict_mod u (\<lambda>n. n\<lparr>tn_status := TS_FAILED,
                 tn_error := Some (PDict [(''message'', PStr (se_str env e))])\<rparr>) (dg_nodes d)\<rparr>"
  from 2 have c: cont and p: "process_results env cont pid now rs ?d b = (None, d', b')"
    by (auto simp: Let_def split: if_splits)
  show ?case
  proof (cases "t = u")
    case True
    with 2 c have "finished cont ?d t" by (auto simp: finished_def dict_has_def)
    with process_keeps_finished [OF p] show ?thesis by simp
  next
    case False
    with 2 c p show ?thesis by (simp add: Let_def)
  qed
next
  case (3 env cont pid now u v rs d b)
  let ?d = "d\<lparr>dg_nodes := dict_mod u (\<lambda>n. n\<lparr>tn_status := TS_COMPLETED, tn_result := Some v\<rparr>) (dg_nodes d)\<rparr>"
  obtain b1 where a: "add_cost pid (case dict_get (dg_nodes d) u of None \<Rightarrow> 0 | Some n \<Rightarrow> tn_actual_cost n)
      None now b = (b1, None)" and p: "process_results env cont pid now rs ?d b1 = (None, d', b')"
    using 3(2) by (auto simp: Let_def split: prod.splits option.splits)
  show ?case
  proof (cases "t = u")
    case True
    with 3 have "finished cont ?d t" by (auto simp: finished_def dict_has_def)
    with process_keeps_finished [OF p] show ?thesis by simp
  next
    case False
    with 3 a p show ?thesis by (simp add: Let_def)
  qed
qed simp

section \<open>The invariant of a run\<close>

definition settled :: "execution \<Rightarrow> dag \<Rightarrow> string list \<Rightarrow> bool" where
  "settled x d ts \<longleftrightarrow> (\<forall>t \<in> set ts. finished (should_continue_on_error x) d t)"

text \<open>Where a coroutine may be, given the execution it works on.\<close>

definition at_pc :: "nat \<Rightarrow> execution \<Rightarrow> pc \<Rightarrow> bool" where
  "at_pc rlim x c =
     (case c of
        AwaitStoreDag d \<Rightarrow> dag_wf d
      | ExecStart \<Rightarrow> (\<exists>d. xc_dag x = Some d \<and> dag_wf d)
      | AwaitLevel cs rest \<Rightarrow>
          (\<exists>d prev. xc_dag x = Some d \<and> dag_wf d
             \<and> get_execution_order rlim d = Inr (prev @ map fst cs # rest) \<and> settled x d (concat prev))
      | AwaitUpdate rest \<Rightarrow>
          (\<exists>d prev. xc_dag x = Some d \<and> dag_wf d
             \<and> get_execution_order rlim d = Inr (prev @ rest) \<and> settled x d (concat prev))
      | _ \<Rightarrow> True)"

fun not_done :: "pc \<Rightarrow> bool" where
  "not_done (AwaitDone r) = False"
| "not_done _ = True"

definition all_done :: "execution \<Rightarrow> bool" where
  "all_done x \<longleftrightarrow> (\<exists>d. xc_dag x = Some d \<and> settled x d (dict_keys (dg_nodes d)))"

definition exec_ok :: "nat \<Rightarrow> pc option \<Rightarrow> execution \<Rightarrow> bool" where
  "exec_ok rlim c x \<longleftrightarrow>
     (\<forall>k. c = Some k \<longrightarrow> at_pc rlim x k \<and> (not_done k \<longrightarrow> xc_status x \<noteq> ES_completed))
     \<and> (xc_status x = ES_completed \<longrightarrow> all_done x)"

definition sched_inv :: "nat \<Rightarrow> scheduler \<Rightarrow> bool" where
  "sched_inv rlim s \<longleftrightarrow>
     (\<forall>p x. dict_get (sd_active s) p = Some x \<longrightarrow> exec_ok rlim (dict_get (sd_tasks s) p) x)"

lemma sched_invD: "sched_inv rlim s \<Longrightarrow> dict_get (sd_active s) p = Some x \<Longrightarrow> exec_ok rlim (dict_get (sd_tasks s) p) x"
  by (simp add: sched_inv_def)

text \<open>A step touches one process only.\<close>

lemma sched_inv_local:
  assumes "sched_inv rlim s"
    and "\<And>p. p \<noteq> pid \<Longrightarrow> dict_get (sd_active s') p = dict_get (sd_active s) p \<and> dict_get (sd_tasks s') p = dict_get (sd_tasks s) p"
    and "\<And>x. dict_get (sd_active s') pid = Some x \<Longrightarrow> exec_ok rlim (dict_get (sd_tasks s') pid) x"
  shows "sched_inv rlim s'"
  unfolding sched_inv_def
proof (intro allI impI)
  fix p x
  assume "dict_get (sd_active s') p = Some x"
  then show "exec_ok rlim (dict_get (sd_tasks s') p) x"
    using assms(2) [of p] assms(3) [of x] sched_invD [OF assms(1), of p x] by (cases "p = pid") auto
qed

lemmas prim_defs = put_exec_def go_def stop_def call_memory_def update_execution_status_def

text \<open>\<open>s0\<close> differs from a good state only in the execution of \<open>pid\<close>.\<close>

definition only :: "string \<Rightarrow> scheduler \<Rightarrow> scheduler \<Rightarrow> bool" where
  "only pid s s0 \<longleftrightarrow> (\<forall>p. p \<noteq> pid \<longrightarrow> dict_get (sd_active s0) p = dict_get (sd_active s) p
      \<and> dict_get (sd_tasks s0) p = dict_get (sd_tasks s) p)"

lemma only_inv:
  "sched_inv rlim s \<Longrightarrow> only pid s s' \<Longrightarrow>
     (\<And>x. dict_get (sd_active s') pid = Some x \<Longrightarrow> exec_ok rlim (dict_get (sd_tasks s') pid) x) \<Longrightarrow> sched_inv rlim s'"
  by (rule sched_inv_local [of rlim s pid s']) (auto simp: only_def)

lemma only_simps [simp]:
  "only pid s s"
  "only pid s (put_exec pid x s0) = only pid s s0"
  "only pid s (go pid c s0) = only pid s s0"
  "only pid s (stop pid s0) = only pid s s0"
  "only pid s (call_memory ops s0) = only pid s s0"
  "only pid s (update_execution_status pid st now s0) = only pid s s0"
  "only pid s (s0\<lparr>sd_contexts := cm\<rparr>) = only pid s s0"
  "only pid s (s0\<lparr>sd_budget := b\<rparr>) = only pid s s0"
  by (simp_all add: only_def prim_defs)

lemma prim_get [simp]:
  "dict_get (sd_active (put_exec pid x s)) p = (if p = pid then Some x else dict_get (sd_active s) p)"
  "sd_tasks (put_exec pid x s) = sd_tasks s"
  "sd_active (go pid c s) = sd_active s"
  "dict_get (sd_tasks (go pid c s)) p = (if p = pid then Some c else dict_get (sd_tasks s) p)"
  "sd_active (stop pid s) = sd_active s"
  "dict_get (sd_tasks (stop pid s)) p = (if p = pid then None else dict_get (sd_tasks s) p)"
  "sd_active (call_memory ops s) = sd_active s"
  "sd_tasks (call_memory ops s) = sd_tasks s"
  "dict_get (sd_active (update_execution_status pid st now s)) p =
     (if p = pid then map_option (\<lambda>x. x\<lparr>xc_status := st, xc_updated_at := Some now\<rparr>) (dict_get (sd_active s) p)
      else dict_get (sd_active s) p)"
  "sd_tasks (update_execution_status pid st now s) = sd_tasks s"
  by (simp_all add: prim_defs)

lemma error_only: "sched_inv rlim s \<Longrightarrow> only pid s s0 \<Longrightarrow> sched_inv rlim (handle_execution_error env pid e s0)"
  by (rule only_inv) (auto simp: handle_execution_error_def exec_ok_def only_def split: option.splits)

section \<open>Every step keeps it\<close>

lemma settled_upd [simp]:
  "settled (x\<lparr>xc_status := st\<rparr>) = settled x"
  "settled (x\<lparr>xc_updated_at := u\<rparr>) = settled x"
  "settled (x\<lparr>xc_completed_at := u\<rparr>) = settled x"
  "settled (x\<lparr>xc_cancelled_at := u\<rparr>) = settled x"
  "settled (x\<lparr>xc_dag := dg\<rparr>) = settled x"
  by (simp_all add: settled_def should_continue_on_error_def fun_eq_iff)

lemma settled_same: "same_but us d d' \<Longrightarrow> set ts \<inter> us = {} \<Longrightarrow> settled x d ts \<Longrightarrow> settled x d' ts"
  unfolding settled_def by (metis disjoint_iff finished_same)

lemma complete_inv:
  assumes "sched_inv rlim s" and "only pid s s0" and "xc_dag x = Some d" and "settled x d (dict_keys (dg_nodes d))"
  shows "sched_inv rlim (complete_execution pid x d now s0)"
  by (rule only_inv [OF assms(1), of pid])
    (use assms(2-4) in \<open>auto simp: complete_execution_def Let_def exec_ok_def all_done_def at_pc_def\<close>)

lemma enter_level_inv:
  assumes inv: "sched_inv rlim s" and loc: "only pid s s0" and x: "xc_dag x = Some d" "xc_status x \<noteq> ES_completed"
    and wf: "dag_wf d" and ord: "get_execution_order rlim d = Inr (prev @ groups)" and st: "settled x d (concat prev)"
  shows "sched_inv rlim (enter_level env pid x d groups now s0)"
proof (cases groups)
  case Nil
  then have "set (concat prev) = set (dict_keys (dg_nodes d))" using execution_order_tasks [OF wf ord] by simp
  with st have "settled x d (dict_keys (dg_nodes d))" unfolding settled_def by blast
  with Nil complete_inv [OF inv loc x(1)] show ?thesis by (simp add: enter_level_def)
next
  case (Cons ts rest)
  obtain cs e d' cm where o: "open_level env pid x now ts d (sd_contexts s0) = ((cs, e), d', cm)"
    by (metis prod_cases4 surj_pair)
  note sp = open_level_spec [OF o]
  have "set (concat prev) \<inter> set ts = {}" using execution_order_tasks [OF wf ord] Cons by auto
  with settled_same st sp have st': "settled x d' (concat prev)" by blast
  show ?thesis
  proof (cases e)
    case (Some e')
    with Cons o error_only [OF inv] loc show ?thesis by (simp add: enter_level_def)
  next
    case None
    show ?thesis
      by (rule only_inv [OF inv, of pid])
        (use Cons o None loc x st' sp wf ord in
          \<open>auto simp: enter_level_def exec_ok_def at_pc_def same_but_wf same_but_order\<close>)
  qed
qed

lemma finish_level_inv:
  assumes inv: "sched_inv rlim s" and x: "xc_dag x = Some d" "xc_status x \<noteq> ES_completed"
    and wf: "dag_wf d" and ord: "get_execution_order rlim d = Inr (prev @ map fst cs # rest)"
    and st: "settled x d (concat prev)"
  shows "sched_inv rlim (finish_level env pid x d cs rest now s)"
proof -
  obtain rs d1 ops where g: "gather_level env pid now cs d = (rs, d1, ops)" by (metis prod_cases3)
  obtain e d2 b where p: "process_results env (should_continue_on_error x) pid now rs d1 (sd_budget s) = (e, d2, b)"
    by (metis prod_cases3)
  note tasks = execution_order_tasks [OF wf ord]
  have keys: "fst ` set cs \<subseteq> set (dict_keys (dg_nodes d))" using tasks by auto
  with gather_level_spec [OF g] have s1: "same_but (fst ` set cs) d d1" and rs: "map fst rs = map fst cs" by auto
  then have frs: "fst ` set rs = fst ` set cs" by (metis set_map)
  have s2: "same_but (fst ` set cs) d d2"
    using same_but_trans [OF s1 process_results_spec [OF p]] frs by simp
  show ?thesis
  proof (cases e)
    case (Some e')
    with g p error_only [OF inv] show ?thesis by (simp add: finish_level_def)
  next
    case None
    have "finished (should_continue_on_error x) d2 t" if "t \<in> fst ` set cs" for t
      using process_results_done [of env _ pid now rs d1 "sd_budget s" d2 b t] p None that frs keys
        same_but_has [OF s1] by (auto simp: dict_has_keys)
    moreover have "settled x d2 (concat prev)"
      using settled_same [OF s2 _ st] tasks by auto
    ultimately have "settled x d2 (concat (prev @ [map fst cs]))" by (auto simp: settled_def)
    moreover have "get_execution_order rlim d2 = Inr ((prev @ [map fst cs]) @ rest)" "dag_wf d2"
      using ord same_but_order [OF s2] same_but_wf [OF s2] wf by simp_all
    ultimately show ?thesis
      by (intro only_inv [OF inv, of pid])
        (use g p None x in \<open>auto simp: finish_level_def exec_ok_def at_pc_def\<close>)
  qed
qed

lemma accepted_shape:
  assumes "validate_dag rlim d tenant now = Accepted d'"
  shows "dg_edges d' = dg_edges d \<and> dict_keys (dg_nodes d') = dict_keys (dg_nodes d)"
  using assms assign_agents_keys [of "dg_nodes d"]
  by (auto simp: validate_dag_def validate_capabilities_def dict_keys_def Let_def split: sum.splits prod.splits if_splits)

text \<open>What the scheduler needs of the planner: its plan is built with \<open>add_node\<close> and \<open>add_edge\<close>.\<close>

definition planner_ok :: "sched_env \<Rightarrow> bool" where
  "planner_ok env \<longleftrightarrow> (\<forall>x ts d. se_plan env x ts = Inr d \<longrightarrow> dag_wf d)"

lemma check_plan_inv:
  assumes inv: "sched_inv rlim s" and x: "dict_get (sd_active s) pid = Some x" and wf: "dag_wf d"
  shows "sched_inv rlim (check_plan rlim env pid x d now s)"
proof (cases "validate_dag rlim (d\<lparr>dg_process_id := pid\<rparr>) (xc_tenant_id x) now")
  case (Accepted d')
  from accepted_shape [OF this] wf have "dag_wf d'" by (simp add: dag_wf_def dict_ok_def)
  then have "sched_inv rlim (go pid (AwaitStoreDag d') (call_memory [StoreDag d'] (update_execution_status pid ES_validating now s)))"
    by (intro only_inv [OF inv, of pid]) (auto simp: exec_ok_def at_pc_def)
  with Accepted error_only [OF inv] show ?thesis by (simp add: check_plan_def Let_def)
qed (simp_all add: check_plan_def Let_def error_only [OF inv])

lemma resume_inv:
  assumes inv: "sched_inv rlim s" and pl: "planner_ok env"
  shows "sched_inv rlim (resume rlim env pid now s)"
proof (cases "dict_get (sd_tasks s) pid")
  case None
  with inv show ?thesis by (simp add: resume_def)
next
  case (Some c)
  note c = this
  show ?thesis
  proof (cases "dict_get (sd_active s) pid")
    case None
    with inv c show ?thesis by (simp add: resume_def)
  next
    case (Some x)
    from sched_invD [OF inv Some] c have ok: "at_pc rlim x c" "not_done c \<Longrightarrow> xc_status x \<noteq> ES_completed"
      "xc_status x = ES_completed \<Longrightarrow> all_done x"
      by (auto simp: exec_ok_def)
    have err: "sched_inv rlim (handle_execution_error env pid e s0)" if "only pid s s0" for e s0
      by (rule error_only [OF inv that])
    have "sched_inv rlim (resume_at rlim env pid x now s c)"
    proof (cases c)
      case PlanStart
      then show ?thesis
        by (intro only_inv [OF inv, of pid]) (auto simp: resume_at_def exec_ok_def at_pc_def)
    next
      case AwaitSimilar
      have "sched_inv rlim (go pid (AwaitPlan ts) s)" for ts
        by (rule only_inv [OF inv, of pid]) (use AwaitSimilar ok Some in \<open>auto simp: exec_ok_def at_pc_def\<close>)
      with AwaitSimilar err show ?thesis by (simp add: resume_at_def split: sum.split)
    next
      case (AwaitPlan ts)
      with err check_plan_inv [OF inv Some] pl show ?thesis
        by (simp add: resume_at_def planner_ok_def split: sum.split)
    next
      case (AwaitStoreDag d)
      have "sched_inv rlim (go pid ExecStart (put_exec pid (x\<lparr>xc_dag := Some d, xc_status := ES_ready\<rparr>) s))"
        by (rule only_inv [OF inv, of pid]) (use AwaitStoreDag ok in \<open>auto simp: exec_ok_def at_pc_def\<close>)
      with AwaitStoreDag err show ?thesis by (simp add: resume_at_def split: option.split)
    next
      case ExecStart
      with ok obtain d where d: "xc_dag x = Some d" "dag_wf d" by (auto simp: at_pc_def)
      have "sched_inv rlim (enter_level env pid (x\<lparr>xc_status := ES_executing, xc_updated_at := Some now\<rparr>) d groups now
          (update_execution_status pid ES_executing now s))" if "get_execution_order rlim d = Inr groups" for groups
        by (rule enter_level_inv [OF inv _ _ _ d(2), of pid _ _ "[]"]) (use d that in \<open>auto simp: settled_def\<close>)
      with ExecStart err d show ?thesis by (simp add: resume_at_def Let_def split: sum.split)
    next
      case (AwaitLevel cs rest)
      with ok obtain d prev where d: "xc_dag x = Some d" "dag_wf d"
          "get_execution_order rlim d = Inr (prev @ map fst cs # rest)" "settled x d (concat prev)"
        by (auto simp: at_pc_def)
      with AwaitLevel ok finish_level_inv [OF inv] show ?thesis by (simp add: resume_at_def)
    next
      case (AwaitUpdate rest)
      with ok obtain d prev where d: "xc_dag x = Some d" "dag_wf d"
          "get_execution_order rlim d = Inr (prev @ rest)" "settled x d (concat prev)"
        by (auto simp: at_pc_def)
      from enter_level_inv [OF inv only_simps(1) d(1) _ d(2-4)] ok AwaitUpdate
      have "sched_inv rlim (enter_level env pid x d rest now s)" by simp
      with AwaitUpdate err d show ?thesis by (simp add: resume_at_def split: option.split)
    next
      case (AwaitDone res)
      have "sched_inv rlim (stop pid s)"
        by (rule only_inv [OF inv, of pid]) (use Some ok in \<open>auto simp: exec_ok_def\<close>)
      with AwaitDone err show ?thesis by (simp add: resume_at_def split: option.split)
    qed
    with c Some show ?thesis by (simp add: resume_def)
  qed
qed

lemma schedule_inv:
  assumes inv: "sched_inv rlim s"
  shows "sched_inv rlim (snd (schedule_execution p g u t tgt b pr ps now s))"
proof (cases "check_quota t u None now (sd_quota s)")
  case None
  show ?thesis
    by (rule only_inv [OF inv, of p])
      (use None in \<open>auto simp: schedule_execution_def Let_def exec_ok_def at_pc_def split: option.splits\<close>)
qed (simp add: schedule_execution_def inv)

lemma at_pc_cancel: "at_pc rlim (x\<lparr>xc_status := st, xc_cancelled_at := u\<rparr>) c = at_pc rlim x c"
  by (simp add: at_pc_def split: pc.split)

lemma cancel_inv: "sched_inv rlim s \<Longrightarrow> sched_inv rlim (snd (cancel_execution p now s))"
  by (rule only_inv [of rlim s p])
    (auto simp: cancel_execution_def exec_ok_def at_pc_cancel dest: sched_invD split: option.splits if_splits)

interpretation sched: op_system "sched_exec rlim env" "\<lambda>s. sched_inv rlim s \<and> planner_ok env"
proof
  fix s op
  assume "sched_inv rlim s \<and> planner_ok env"
  then show "sched_inv rlim (sched_exec rlim env op s) \<and> planner_ok env"
    by (cases op; cases "fst op") (auto intro: schedule_inv resume_inv cancel_inv)
qed

lemma new_scheduler_inv: "sched_inv rlim (new_scheduler q)"
  by (simp add: sched_inv_def new_scheduler_def dict_get_def)

lemmas run_inv = sched.inv_run [OF conjI [OF new_scheduler_inv]]

section \<open>Execution order and completion\<close>

text \<open>A run of the diamond plan: scheduling and \<open>n\<close> steps.\<close>

definition ex_env :: sched_env where
  "ex_env = \<lparr>se_similar = \<lambda>r. Inr [], se_plan = \<lambda>r ts. Inr ex_dag, se_route = Some (\<lambda>p n c. Inr (PDict [])),
     se_memory = \<lambda>m. None, se_context_id = (@), se_temp_dir = (@), se_str = \<lambda>e. [], se_verr = \<lambda>e. []\<rparr>"

definition ex_run :: "nat \<Rightarrow> scheduler" where
  "ex_run n = fold (sched_exec 5 ex_env)
     ((Schedule ''p'' ''g'' ''u'' ''t'' None None ''medium'' None, 0) # map (\<lambda>i. (Resume ''p'', int i)) [1..<n + 1])
     (new_scheduler new_quota_manager)"

lemma ex_env_ok: "planner_ok ex_env"
  by (simp add: planner_ok_def ex_env_def ex_dag_wf)


abbreviation "ex_exec n \<equiv> the (dict_get (sd_active (ex_run n)) ''p'')"

text \<open>The first step at which \<open>b\<close> and \<open>c\<close> run, and the end.\<close>

definition running_b :: "scheduler \<Rightarrow> bool" where
  "running_b s \<longleftrightarrow>
     (case (dict_get (sd_active s) ''p'', dict_get (sd_tasks s) ''p'') of
        (Some x, Some (AwaitLevel cs rest)) \<Rightarrow>
          (case xc_dag x of None \<Rightarrow> False
           | Some d \<Rightarrow> (''a'', ''b'') \<in> set (dg_edges d) \<and> ''b'' \<in> set (map fst cs) \<and> \<not> should_continue_on_error x)
      | _ \<Rightarrow> False)"

definition ended :: "scheduler \<Rightarrow> bool" where
  "ended s \<longleftrightarrow>
     (case dict_get (sd_active s) ''p'' of None \<Rightarrow> False
      | Some x \<Rightarrow> xc_status x = ES_completed \<and> \<not> should_continue_on_error x
          \<and> (case xc_dag x of None \<Rightarrow> False | Some d \<Rightarrow> ''d'' \<in> set (dict_keys (dg_nodes d))))"

lemma ex_run_facts: "running_b (ex_run 7)" "ended (ex_run 11)"
  by code_simp+




section \<open>Cancellation\<close>

text \<open>A state with the status and the time of cancellation of every execution blanked out.\<close>

definition blank :: "execution \<Rightarrow> execution" where
  "blank x = x\<lparr>xc_status := ES_pending, xc_cancelled_at := None\<rparr>"

definition blank_dict :: "(string, execution) dict \<Rightarrow> (string, execution) dict" where
  "blank_dict m = map (\<lambda>(k, x). (k, blank x)) m"

definition blank_all :: "scheduler \<Rightarrow> scheduler" where
  "blank_all s = s\<lparr>sd_active := blank_dict (sd_active s)\<rparr>"

lemma blank_simps [simp]:
  "blank (blank x) = blank x"
  "blank (x\<lparr>xc_status := st\<rparr>) = blank x"
  "blank (x\<lparr>xc_cancelled_at := u\<rparr>) = blank x"
  "blank (x\<lparr>xc_dag := dg\<rparr>) = (blank x)\<lparr>xc_dag := dg\<rparr>"
  "blank (x\<lparr>xc_updated_at := u\<rparr>) = (blank x)\<lparr>xc_updated_at := u\<rparr>"
  "blank (x\<lparr>xc_completed_at := u\<rparr>) = (blank x)\<lparr>xc_completed_at := u\<rparr>"
  "blank (x\<lparr>xc_error := er\<rparr>) = (blank x)\<lparr>xc_error := er\<rparr>"
  "xc_dag (blank x) = xc_dag x" "xc_user_id (blank x) = xc_user_id x" "xc_tenant_id (blank x) = xc_tenant_id x"
  "plan_request_of (blank x) = plan_request_of x"
  "should_continue_on_error (blank x) = should_continue_on_error x"
  by (simp_all add: blank_def plan_request_of_def should_continue_on_error_def)

lemma blank_dict_simps [simp]:
  "dict_get (blank_dict m) p = map_option blank (dict_get m p)"
  "blank_dict (dict_set p x m) = dict_set p (blank x) (blank_dict m)"
  "blank_dict (blank_dict m) = blank_dict m"
proof -
  show "dict_get (blank_dict m) p = map_option blank (dict_get m p)"
    by (induction m) (auto simp: blank_dict_def dict_get_Cons dict_get_def)
  show "blank_dict (dict_set p x m) = dict_set p (blank x) (blank_dict m)"
    unfolding dict_set_def by (induction m) (auto simp: blank_dict_def)
  show "blank_dict (blank_dict m) = blank_dict m"
    by (induction m) (auto simp: blank_dict_def)
qed

lemma blank_all_simps [simp]:
  "blank_all (blank_all s) = blank_all s"
  "sd_active (blank_all s) = blank_dict (sd_active s)"
  "sd_tasks (blank_all s) = sd_tasks s" "sd_contexts (blank_all s) = sd_contexts s"
  "sd_budget (blank_all s) = sd_budget s" "sd_quota (blank_all s) = sd_quota s"
  "sd_memory (blank_all s) = sd_memory s"
  "blank_all (put_exec p x s) = put_exec p (blank x) (blank_all s)"
  "blank_all (go p c s) = go p c (blank_all s)"
  "blank_all (stop p s) = stop p (blank_all s)"
  "blank_all (call_memory ops s) = call_memory ops (blank_all s)"
  "blank_all (s\<lparr>sd_contexts := cm\<rparr>) = (blank_all s)\<lparr>sd_contexts := cm\<rparr>"
  "blank_all (s\<lparr>sd_budget := b\<rparr>) = (blank_all s)\<lparr>sd_budget := b\<rparr>"
  by (simp_all add: blank_all_def prim_defs)

lemma blank_update:
  "blank_all (update_execution_status p st now s) =
     blank_all (update_execution_status p st now (blank_all s))"
  by (cases "dict_get (sd_active s) p") (simp_all add: blank_all_def update_execution_status_def dict_mod_def)

lemma blank_error:
  "blank_all (handle_execution_error env p e s) = blank_all (handle_execution_error env p e (blank_all s))"
  by (simp add: handle_execution_error_def split: option.split)

definition sim :: "scheduler \<Rightarrow> scheduler \<Rightarrow> bool" where
  "sim s s' \<longleftrightarrow> blank_all s = blank_all s'"

lemma sim_cong:
  assumes "sim s s'"
  shows "blank x = blank x' \<Longrightarrow> sim (put_exec p x s) (put_exec p x' s')"
    and "sim (go p c s) (go p c s')" and "sim (stop p s) (stop p s')"
    and "sim (call_memory ops s) (call_memory ops s')"
    and "sim (s\<lparr>sd_contexts := cm\<rparr>) (s'\<lparr>sd_contexts := cm\<rparr>)"
    and "sim (s\<lparr>sd_budget := b\<rparr>) (s'\<lparr>sd_budget := b\<rparr>)"
    and "sim (update_execution_status p st now s) (update_execution_status p st now s')"
    and "sim (handle_execution_error env p e s) (handle_execution_error env p e s')"
  using assms blank_update [of p st now s] blank_update [of p st now s']
    blank_error [of env p e s] blank_error [of env p e s']
  by (simp_all add: sim_def)

lemma sim_fields:
  assumes "sim s s'"
  shows "sd_contexts s = sd_contexts s'" and "sd_budget s = sd_budget s'" and "sd_quota s = sd_quota s'"
    and "sd_tasks s = sd_tasks s'" and "sd_memory s = sd_memory s'"
    and "map_option blank (dict_get (sd_active s) p) = map_option blank (dict_get (sd_active s') p)"
  using arg_cong [OF assms [unfolded sim_def], of sd_contexts] arg_cong [OF assms [unfolded sim_def], of sd_budget]
    arg_cong [OF assms [unfolded sim_def], of sd_quota] arg_cong [OF assms [unfolded sim_def], of sd_tasks]
    arg_cong [OF assms [unfolded sim_def], of sd_memory]
    arg_cong [OF assms [unfolded sim_def], of "\<lambda>s. dict_get (sd_active s) p"]
  by simp_all

text \<open>Nothing a step reads of an execution is blanked out.\<close>

lemma blank_reads:
  assumes "blank x = blank x'"
  shows "xc_dag x = xc_dag x'" and "plan_request_of x = plan_request_of x'"
    and "should_continue_on_error x = should_continue_on_error x'"
    and "xc_user_id x = xc_user_id x'" and "xc_tenant_id x = xc_tenant_id x'"
  using assms by (metis blank_simps(8-12))+

lemma open_level_reads:
  assumes "blank x = blank x'"
  shows "open_level env pid x now ts d cm = open_level env pid x' now ts d cm"
  by (induction ts arbitrary: d cm)
    (auto simp: blank_reads(4,5) [OF assms] split: option.split prod.split)

lemma sim_complete:
  "sim s s' \<Longrightarrow> blank x = blank x' \<Longrightarrow> sim (complete_execution p x d now s) (complete_execution p x' d now s')"
  by (simp add: complete_execution_def Let_def sim_cong)

lemma sim_enter_level:
  assumes "sim s s'" and "blank x = blank x'"
  shows "sim (enter_level env p x d groups now s) (enter_level env p x' d groups now s')"
  using assms sim_complete [OF assms]
  by (auto simp: enter_level_def open_level_reads [OF assms(2)] sim_fields(1) [OF assms(1)] Let_def
      split: list.split prod.split option.split intro!: sim_cong)

lemma sim_finish_level:
  assumes "sim s s'" and "blank x = blank x'"
  shows "sim (finish_level env p x d cs rest now s) (finish_level env p x' d cs rest now s')"
  using assms
  by (auto simp: finish_level_def blank_reads(3) [OF assms(2)] sim_fields(2) [OF assms(1)] Let_def
      split: prod.split option.split intro!: sim_cong)

lemma sim_check_plan:
  assumes "sim s s'" and "blank x = blank x'"
  shows "sim (check_plan rlim env p x d now s) (check_plan rlim env p x' d now s')"
  using assms
  by (auto simp: check_plan_def blank_reads(5) [OF assms(2)] sim_fields(2) [OF sim_cong(7) [OF assms(1)]] Let_def
      split: verdict.split intro!: sim_cong)

lemma sim_resume_at:
  assumes "sim s s'" and "blank x = blank x'"
  shows "sim (resume_at rlim env p x now s c) (resume_at rlim env p x' now s' c)"
proof (cases c)
  case ExecStart
  have "sim (enter_level env p (x\<lparr>xc_status := ES_executing, xc_updated_at := Some now\<rparr>) d gs now (update_execution_status p ES_executing now s))
            (enter_level env p (x'\<lparr>xc_status := ES_executing, xc_updated_at := Some now\<rparr>) d gs now (update_execution_status p ES_executing now s'))" for d gs
    using assms by (simp add: sim_enter_level sim_cong)
  with ExecStart assms blank_reads [OF assms(2)] show ?thesis
    by (simp add: resume_at_def Let_def sim_cong split: option.split sum.split)
qed (use assms blank_reads [OF assms(2)] sim_enter_level [OF assms] sim_finish_level [OF assms] sim_check_plan [OF assms]
      in \<open>simp_all add: resume_at_def sim_cong split: option.split sum.split\<close>)

lemma dict_set_same: "dict_get m k = Some v \<Longrightarrow> dict_set k v m = m"
  unfolding dict_set_def dict_get_def by (induction m) (auto split: if_splits)

lemma cancel_sim: "sim (snd (cancel_execution p now s)) s"
  by (auto simp: cancel_execution_def sim_def put_exec_def blank_all_def dict_set_same split: option.split)

lemma sim_exec: "sim s s' \<Longrightarrow> sim (sched_exec rlim env ev s) (sched_exec rlim env ev s')"
proof -
  assume s: "sim s s'"
  obtain e now where ev: "ev = (e, now)" by fastforce
  show ?thesis
  proof (cases e)
    case (Schedule p g u t tgt b pr ps)
    have "sim (s\<lparr>sd_budget := bt\<rparr>) (s'\<lparr>sd_budget := bt\<rparr>)" for bt using s by (rule sim_cong)
    with s ev Schedule sim_fields(2,3) [OF s] show ?thesis
      by (auto simp: schedule_execution_def Let_def split: option.split intro!: sim_cong)
  next
    case (Resume p)
    from sim_fields(6) [OF s, of p] sim_fields(4) [OF s] s ev Resume show ?thesis
      by (auto simp: resume_def split: option.split intro!: sim_resume_at)
  next
    case (Cancel p)
    with s ev cancel_sim [of p now s] cancel_sim [of p now s'] show ?thesis by (simp add: sim_def)
  qed
qed

lemma sim_run: "sim s s' \<Longrightarrow> sim (fold (sched_exec rlim env) evs s) (fold (sched_exec rlim env) evs s')"
  by (induction evs arbitrary: s s') (simp_all add: sim_exec)

text \<open>
  Cancelling an execution changes nothing but what its status shows: after the cancellation every
  continuation hands the same tasks to the same agents, makes the same calls to memory (the final
  result included), charges the same costs and leaves the same plans as without it.
\<close>
theorem cancel_does_not_stop:
  "let r = fold (sched_exec rlim env) evs s; r' = fold (sched_exec rlim env) evs (snd (cancel_execution p now s))
   in sd_tasks r' = sd_tasks r \<and> sd_memory r' = sd_memory r \<and> sd_budget r' = sd_budget r \<and> sd_contexts r' = sd_contexts r
      \<and> map_option xc_dag (dict_get (sd_active r') q) = map_option xc_dag (dict_get (sd_active r) q)"
proof -
  let ?r = "fold (sched_exec rlim env) evs s"
  let ?r' = "fold (sched_exec rlim env) evs (snd (cancel_execution p now s))"
  have sim: "sim ?r' ?r" by (rule sim_run [OF cancel_sim])
  have "map_option (xc_dag \<circ> blank) (dict_get (sd_active ?r') q) = map_option (xc_dag \<circ> blank) (dict_get (sd_active ?r) q)"
    using arg_cong [OF sim_fields(6) [OF sim, of q], of "map_option xc_dag"] by (simp add: option.map_comp)
  with sim_fields(1,2,4,5) [OF sim] show ?thesis by (simp add: comp_def Let_def)
qed

section \<open>Quotas\<close>

lemma quota_prims [simp]:
  "sd_quota (put_exec p x s) = sd_quota s" "sd_quota (go p c s) = sd_quota s"
  "sd_quota (stop p s) = sd_quota s" "sd_quota (call_memory ops s) = sd_quota s"
  "sd_quota (update_execution_status p st now s) = sd_quota s"
  by (simp_all add: prim_defs)

lemma quota_error [simp]: "sd_quota (handle_execution_error env p e s) = sd_quota s"
  by (simp add: handle_execution_error_def split: option.split)

lemma quota_level [simp]:
  "sd_quota (enter_level env p x d groups now s) = sd_quota s"
  "sd_quota (finish_level env p x d cs rest now s) = sd_quota s"
  "sd_quota (check_plan rlim env p x d now s) = sd_quota s"
  by (auto simp: enter_level_def complete_execution_def finish_level_def check_plan_def Let_def
      split: list.split prod.split option.split verdict.split)

lemma quota_exec: "sd_quota (sched_exec rlim env ev s) = sd_quota s"
proof (cases ev)
  case (Pair e now)
  then show ?thesis
    by (cases e) (auto simp: schedule_execution_def resume_def resume_at_def cancel_execution_def Let_def
        split: option.split sum.split pc.split)
qed

text \<open>
  No run of the scheduler ever touches the quota manager, so scheduling goes by the usage it was
  created with: an execution is accepted exactly when the untouched quotas admit it, however many
  executions are active.
\<close>
theorem scheduling_never_counts:
  "sd_quota (fold (sched_exec rlim env) evs s) = sd_quota s
   \<and> fst (schedule_execution p g u t tgt b pr ps now (fold (sched_exec rlim env) evs s))
       = (case check_quota t u None now (sd_quota s) of None \<Rightarrow> Inr p | Some e \<Rightarrow> Inl e)"
proof -
  have q: "sd_quota (fold (sched_exec rlim env) evs s) = sd_quota s" for s
    by (induction evs arbitrary: s) (simp_all add: quota_exec)
  show ?thesis by (auto simp: q schedule_execution_def Let_def split: option.split)
qed

end
