(* ===== verification/CircuitBreaker.thy ===== *)
theory CircuitBreaker
  imports Exceptions
begin

text \<open>
  \<open>src/recovery/circuit_breaker.py\<close>: the CLOSED / OPEN / HALF_OPEN state machine of every named
  circuit. A method works on the dictionary entry of its circuit, created on first use; the
  functions on one circuit are lifted to the dictionary by \<open>on_circuit\<close>. Logging is left out.
\<close>

section \<open>State\<close>

datatype cstate = CLOSED | OPEN | HALF_OPEN

record circuit =
  ci_state :: cstate
  ci_failures :: int
  ci_successes :: int
  ci_timeouts :: int
  ci_consecutive_failures :: int
  ci_consecutive_successes :: int
  ci_last_failure_time :: "time option"
  ci_last_success_time :: "time option"
  ci_last_state_change :: time
  ci_half_open_calls :: int
  ci_rolling_window :: "(time \<times> bool) list"
  ci_response_times :: "rat list"

record breaker =
  br_circuits :: "(string, circuit) dict"
  br_config :: "(string, int) dict"

definition default_config :: "(string, int) dict" where
  "default_config =
     [(''failure_threshold'', 5), (''recovery_timeout'', 60), (''half_open_max_calls'', 3),
      (''success_threshold'', 2), (''timeout_duration'', 30), (''volume_threshold'', 10)]"

definition new_breaker :: breaker where
  "new_breaker = \<lparr>br_circuits = [], br_config = default_config\<rparr>"

definition new_circuit :: "time \<Rightarrow> circuit" where
  "new_circuit now =
     \<lparr>ci_state = CLOSED, ci_failures = 0, ci_successes = 0, ci_timeouts = 0,
      ci_consecutive_failures = 0, ci_consecutive_successes = 0, ci_last_failure_time = None,
      ci_last_success_time = None, ci_last_state_change = now, ci_half_open_calls = 0,
      ci_rolling_window = [], ci_response_times = []\<rparr>"

text \<open>The configuration keys are never removed, so a lookup cannot fail.\<close>

definition conf :: "(string, int) dict \<Rightarrow> string \<Rightarrow> int" where
  "conf cfg k = dict_get_or cfg k 0"

section \<open>One circuit\<close>

definition add_to_rolling_window :: "bool \<Rightarrow> time \<Rightarrow> circuit \<Rightarrow> circuit" where
  "add_to_rolling_window success now c =
     c\<lparr>ci_rolling_window := append_capped 100 (now, success) (ci_rolling_window c)\<rparr>"

definition recovery_timeout_elapsed :: "(string, int) dict \<Rightarrow> time \<Rightarrow> circuit \<Rightarrow> bool" where
  "recovery_timeout_elapsed cfg now c =
     (case ci_last_failure_time c of
        None \<Rightarrow> True
      | Some t \<Rightarrow> now - t \<ge> conf cfg ''recovery_timeout'' * 1000000)"

definition open_circuit :: "time \<Rightarrow> circuit \<Rightarrow> circuit" where
  "open_circuit now c = c\<lparr>ci_state := OPEN, ci_last_state_change := now, ci_half_open_calls := 0\<rparr>"

definition close_circuit :: "time \<Rightarrow> circuit \<Rightarrow> circuit" where
  "close_circuit now c =
     c\<lparr>ci_state := CLOSED, ci_last_state_change := now, ci_consecutive_failures := 0,
       ci_half_open_calls := 0, ci_failures := 0, ci_successes := 0\<rparr>"

definition transition_to_half_open :: "time \<Rightarrow> circuit \<Rightarrow> circuit" where
  "transition_to_half_open now c =
     c\<lparr>ci_state := HALF_OPEN, ci_last_state_change := now, ci_half_open_calls := 0\<rparr>"

definition can_execute :: "(string, int) dict \<Rightarrow> time \<Rightarrow> circuit \<Rightarrow> bool \<times> circuit" where
  "can_execute cfg now c =
     (case ci_state c of
        CLOSED \<Rightarrow> (True, c)
      | OPEN \<Rightarrow>
          if recovery_timeout_elapsed cfg now c then (True, transition_to_half_open now c) else (False, c)
      | HALF_OPEN \<Rightarrow>
          if ci_half_open_calls c < conf cfg ''half_open_max_calls''
          then (True, c\<lparr>ci_half_open_calls := ci_half_open_calls c + 1\<rparr>)
          else (False, c))"

definition record_success :: "(string, int) dict \<Rightarrow> time \<Rightarrow> circuit \<Rightarrow> circuit" where
  "record_success cfg now c =
     (let c1 = add_to_rolling_window True now
                 (c\<lparr>ci_successes := ci_successes c + 1,
                    ci_consecutive_successes := ci_consecutive_successes c + 1,
                    ci_consecutive_failures := 0\<rparr>)
      in if ci_state c1 = HALF_OPEN \<and> ci_consecutive_successes c1 \<ge> conf cfg ''success_threshold''
         then close_circuit now c1 else c1)"

definition record_failure :: "(string, int) dict \<Rightarrow> time \<Rightarrow> circuit \<Rightarrow> circuit" where
  "record_failure cfg now c =
     (let c1 = add_to_rolling_window False now
                 (c\<lparr>ci_failures := ci_failures c + 1,
                    ci_consecutive_failures := ci_consecutive_failures c + 1,
                    ci_consecutive_successes := 0\<rparr>)
      in (case ci_state c1 of
            CLOSED \<Rightarrow> if ci_consecutive_failures c1 \<ge> conf cfg ''failure_threshold''
                      then open_circuit now c1 else c1
          | HALF_OPEN \<Rightarrow> open_circuit now c1
          | OPEN \<Rightarrow> c1))"

definition record_timeout :: "(string, int) dict \<Rightarrow> time \<Rightarrow> circuit \<Rightarrow> circuit" where
  "record_timeout cfg now c = record_failure cfg now (c\<lparr>ci_timeouts := ci_timeouts c + 1\<rparr>)"

definition reset_circuit :: "time \<Rightarrow> circuit \<Rightarrow> circuit" where
  "reset_circuit now c =
     c\<lparr>ci_state := CLOSED, ci_failures := 0, ci_successes := 0, ci_timeouts := 0,
       ci_consecutive_failures := 0, ci_consecutive_successes := 0, ci_last_state_change := now,
       ci_half_open_calls := 0, ci_rolling_window := []\<rparr>"

record circuit_report =
  cr_state :: cstate
  cr_total_requests :: int
  cr_timeouts :: int
  cr_error_rate :: rat
  cr_consecutive_failures :: int
  cr_consecutive_successes :: int
  cr_state_duration :: time

definition error_rate :: "(time \<times> bool) list \<Rightarrow> rat" where
  "error_rate w =
     (if w \<noteq> [] then of_nat (length (filter (\<lambda>r. \<not> snd r) w)) / of_nat (length w) * 100 else 0)"

definition circuit_state :: "time \<Rightarrow> circuit \<Rightarrow> circuit_report" where
  "circuit_state now c =
     \<lparr>cr_state = ci_state c, cr_total_requests = ci_successes c + ci_failures c,
      cr_timeouts = ci_timeouts c, cr_error_rate = error_rate (ci_rolling_window c),
      cr_consecutive_failures = ci_consecutive_failures c,
      cr_consecutive_successes = ci_consecutive_successes c,
      cr_state_duration = now - ci_last_state_change c\<rparr>"

section \<open>The dictionary of circuits\<close>

definition get_circuit :: "string \<Rightarrow> time \<Rightarrow> breaker \<Rightarrow> circuit" where
  "get_circuit name now b = dict_get_or (br_circuits b) name (new_circuit now)"

definition put_circuit :: "string \<Rightarrow> circuit \<Rightarrow> breaker \<Rightarrow> breaker" where
  "put_circuit name c b = b\<lparr>br_circuits := dict_set name c (br_circuits b)\<rparr>"

definition on_circuit :: "(circuit \<Rightarrow> circuit) \<Rightarrow> string \<Rightarrow> time \<Rightarrow> breaker \<Rightarrow> breaker" where
  "on_circuit f name now b = put_circuit name (f (get_circuit name now b)) b"

definition breaker_can_execute :: "string \<Rightarrow> time \<Rightarrow> breaker \<Rightarrow> bool \<times> breaker" where
  "breaker_can_execute name now b =
     (let (ok, c) = can_execute (br_config b) now (get_circuit name now b)
      in (ok, put_circuit name c b))"

definition breaker_reset :: "string \<Rightarrow> time \<Rightarrow> breaker \<Rightarrow> breaker" where
  "breaker_reset name now b = b\<lparr>br_circuits := dict_mod name (reset_circuit now) (br_circuits b)\<rparr>"

definition breaker_get_state :: "string \<Rightarrow> time \<Rightarrow> breaker \<Rightarrow> circuit_report \<times> breaker" where
  "breaker_get_state name now b =
     (circuit_state now (get_circuit name now b), on_circuit id name now b)"

definition breaker_all_states :: "time \<Rightarrow> breaker \<Rightarrow> (string \<times> circuit_report) list" where
  "breaker_all_states now b =
     map (\<lambda>n. (n, circuit_state now (get_circuit n now b))) (dict_keys (br_circuits b))"

definition update_config :: "(string, int) dict \<Rightarrow> breaker \<Rightarrow> breaker" where
  "update_config upd b = b\<lparr>br_config := fold (\<lambda>(k, v) m. dict_set k v m) upd (br_config b)\<rparr>"

datatype breaker_op = CanExecute | Success | Failure | Timeout | Reset | GetState

fun breaker_exec :: "breaker_op \<times> string \<times> time \<Rightarrow> breaker \<Rightarrow> breaker" where
  "breaker_exec (CanExecute, n, now) b = snd (breaker_can_execute n now b)"
| "breaker_exec (Success, n, now) b = on_circuit (record_success (br_config b) now) n now b"
| "breaker_exec (Failure, n, now) b = on_circuit (record_failure (br_config b) now) n now b"
| "breaker_exec (Timeout, n, now) b = on_circuit (record_timeout (br_config b) now) n now b"
| "breaker_exec (Reset, n, now) b = breaker_reset n now b"
| "breaker_exec (GetState, n, now) b = snd (breaker_get_state n now b)"

section \<open>The rolling window is a bounded log\<close>

interpretation window: bounded_log "append_capped 100" 100
  by unfold_locales (simp_all add: append_capped_eq)

section \<open>The invariant of every circuit\<close>

definition circuit_inv :: "(string, int) dict \<Rightarrow> circuit \<Rightarrow> bool" where
  "circuit_inv cfg c \<longleftrightarrow>
     0 \<le> ci_consecutive_failures c \<and> ci_consecutive_failures c \<le> ci_failures c
     \<and> 0 \<le> ci_successes c \<and> 0 \<le> ci_consecutive_successes c
     \<and> 0 \<le> ci_half_open_calls c
     \<and> (ci_state c = CLOSED \<longrightarrow> ci_consecutive_failures c < conf cfg ''failure_threshold'')
     \<and> (ci_state c = HALF_OPEN \<longrightarrow> ci_half_open_calls c \<le> conf cfg ''half_open_max_calls'')
     \<and> (ci_state c \<noteq> HALF_OPEN \<longrightarrow> ci_half_open_calls c = 0)
     \<and> length (ci_rolling_window c) \<le> 100 \<and> ci_last_failure_time c = None"

lemmas circuit_defs = add_to_rolling_window_def open_circuit_def close_circuit_def
  transition_to_half_open_def new_circuit_def reset_circuit_def

definition config_ok :: "(string, int) dict \<Rightarrow> bool" where
  "config_ok cfg \<longleftrightarrow> 0 < conf cfg ''failure_threshold'' \<and> 0 \<le> conf cfg ''half_open_max_calls''"

lemma default_config_ok: "config_ok default_config"
  by (simp add: config_ok_def conf_def dict_get_or_def default_config_def dict_get_Cons)

lemma circuit_inv_new: "config_ok cfg \<Longrightarrow> circuit_inv cfg (new_circuit now)"
  by (simp add: circuit_inv_def new_circuit_def config_ok_def)

lemma circuit_inv_can_execute: "config_ok cfg \<Longrightarrow> circuit_inv cfg c \<Longrightarrow> circuit_inv cfg (snd (can_execute cfg now c))"
  by (auto simp: can_execute_def circuit_inv_def config_ok_def transition_to_half_open_def split: cstate.split)

lemma circuit_inv_success: "config_ok cfg \<Longrightarrow> circuit_inv cfg c \<Longrightarrow> circuit_inv cfg (record_success cfg now c)"
  using window.length_push_le [of "(now, True)" "ci_rolling_window c"]
  by (auto simp: record_success_def circuit_inv_def config_ok_def circuit_defs Let_def)

lemma circuit_inv_failure: "config_ok cfg \<Longrightarrow> circuit_inv cfg c \<Longrightarrow> circuit_inv cfg (record_failure cfg now c)"
  using window.length_push_le [of "(now, False)" "ci_rolling_window c"]
  by (cases "ci_state c") (auto simp: record_failure_def circuit_inv_def config_ok_def circuit_defs Let_def)

lemma circuit_inv_timeout: "config_ok cfg \<Longrightarrow> circuit_inv cfg c \<Longrightarrow> circuit_inv cfg (record_timeout cfg now c)"
  unfolding record_timeout_def by (rule circuit_inv_failure) (simp_all add: circuit_inv_def)

lemma circuit_inv_reset: "config_ok cfg \<Longrightarrow> circuit_inv cfg c \<Longrightarrow> circuit_inv cfg (reset_circuit now c)"
  by (simp add: circuit_inv_def config_ok_def reset_circuit_def)

definition breaker_inv :: "breaker \<Rightarrow> bool" where
  "breaker_inv b \<longleftrightarrow> config_ok (br_config b) \<and> dict_all (\<lambda>n. circuit_inv (br_config b)) (br_circuits b)"

lemma get_circuit_inv: "breaker_inv b \<Longrightarrow> circuit_inv (br_config b) (get_circuit n now b)"
  by (auto simp: breaker_inv_def get_circuit_def dict_get_or_def circuit_inv_new dest: dict_allD split: option.split)

lemma put_circuit_inv: "breaker_inv b \<Longrightarrow> circuit_inv (br_config b) c \<Longrightarrow> breaker_inv (put_circuit n c b)"
  by (simp add: breaker_inv_def put_circuit_def dict_all_set)

lemma on_circuit_inv:
  assumes "breaker_inv b" and "\<And>c. circuit_inv (br_config b) c \<Longrightarrow> circuit_inv (br_config b) (f c)"
  shows "breaker_inv (on_circuit f n now b)"
  unfolding on_circuit_def by (intro put_circuit_inv assms get_circuit_inv)

lemma breaker_exec_inv: "breaker_inv b \<Longrightarrow> breaker_inv (breaker_exec x b)"
proof (cases x)
  case (fields oper n now)
  assume b: "breaker_inv b"
  then have cfg: "config_ok (br_config b)" by (simp add: breaker_inv_def)
  show ?thesis
  proof (cases oper)
    case CanExecute
    with fields b cfg circuit_inv_can_execute [OF cfg get_circuit_inv [OF b]] show ?thesis
      by (simp add: breaker_can_execute_def split_beta put_circuit_inv)
  next
    case Reset
    with fields b cfg show ?thesis
      by (auto simp: breaker_reset_def breaker_inv_def intro: dict_all_mod circuit_inv_reset)
  next
    case GetState
    with fields b show ?thesis by (simp add: breaker_get_state_def on_circuit_inv)
  qed (use fields b cfg in \<open>simp_all add: on_circuit_inv circuit_inv_success circuit_inv_failure circuit_inv_timeout\<close>)
qed

interpretation breaker: op_system breaker_exec breaker_inv
  by unfold_locales (rule breaker_exec_inv)

lemma new_breaker_inv: "breaker_inv new_breaker"
  by (simp add: breaker_inv_def new_breaker_def default_config_ok)

section \<open>Properties\<close>

lemma conf_default [simp]:
  "conf default_config ''failure_threshold'' = 5" "conf default_config ''half_open_max_calls'' = 3"
  "conf default_config ''success_threshold'' = 2" "conf default_config ''recovery_timeout'' = 60"
  by (simp_all add: conf_def default_config_def dict_get_or_def dict_get_Cons)

lemma breaker_config: "br_config (fold breaker_exec xs b) = br_config b"
proof (induction xs arbitrary: b)
  case (Cons x xs)
  obtain p n now where "x = (p, n, now)" by (cases x)
  then have "br_config (breaker_exec x b) = br_config b"
    by (cases p) (simp_all add: breaker_can_execute_def on_circuit_def put_circuit_def breaker_reset_def
        breaker_get_state_def split_beta)
  with Cons show ?case by simp
qed simp

lemma reached_circuit:
  "dict_get (br_circuits (fold breaker_exec xs new_breaker)) name = Some c \<Longrightarrow> circuit_inv default_config c"
  using breaker.inv_run [OF new_breaker_inv, of xs] breaker_config [of xs new_breaker]
  by (auto simp: breaker_inv_def new_breaker_def dest: dict_allD)


definition ex_breaker_ops :: "(breaker_op \<times> string \<times> time) list" where
  "ex_breaker_ops = map (\<lambda>t. (Failure, ''svc'', t)) [1, 2, 3, 4, 5]"

lemma ex_breaker_open:
  "\<exists>c. dict_get (br_circuits (fold breaker_exec ex_breaker_ops new_breaker)) ''svc'' = Some c
     \<and> ci_state c = OPEN"
  by (simp add: ex_breaker_ops_def new_breaker_def on_circuit_def put_circuit_def get_circuit_def
      dict_get_or_def record_failure_def circuit_defs)


text \<open>
  Consecutive failures open a circuit exactly when they reach the threshold: after \<open>n\<close>
  failures in a row a fresh circuit is open iff \<open>n\<close> is at least the threshold.
\<close>
theorem failures_open_at_threshold:
  assumes "0 < conf cfg ''failure_threshold''"
  shows "ci_state (fold (\<lambda>t c. record_failure cfg t c) ts (new_circuit now)) =
     (if int (length ts) < conf cfg ''failure_threshold'' then CLOSED else OPEN)"
proof -
  have "ci_state (fold (\<lambda>t c. record_failure cfg t c) ts c) =
      (if ci_consecutive_failures c + int (length ts) < conf cfg ''failure_threshold'' then CLOSED else OPEN)"
    if "ci_state c = (if ci_consecutive_failures c < conf cfg ''failure_threshold'' then CLOSED else OPEN)" for c
    using that
  proof (induction ts arbitrary: c)
    case Nil
    then show ?case by simp
  next
    case (Cons t ts)
    let ?c = "record_failure cfg t c"
    have cf: "ci_consecutive_failures ?c = ci_consecutive_failures c + 1"
      by (simp add: record_failure_def circuit_defs Let_def split: cstate.split)
    have "ci_state ?c = (if ci_consecutive_failures ?c < conf cfg ''failure_threshold'' then CLOSED else OPEN)"
      using Cons.prems by (auto simp: record_failure_def circuit_defs Let_def split: if_splits)
    from Cons.IH [OF this] cf show ?case by (simp add: algebra_simps)
  qed
  from this [of "new_circuit now"] assms show ?thesis by (simp add: new_circuit_def)
qed

theorem failures_open_at_threshold_witness:
  "ci_state (fold (\<lambda>t c. record_failure default_config t c) [1, 2, 3, 4, 5] (new_circuit 0)) = OPEN
   \<and> ci_state (fold (\<lambda>t c. record_failure default_config t c) [1, 2, 3, 4] (new_circuit 0)) = CLOSED"
  using failures_open_at_threshold [of default_config "[1, 2, 3, 4, 5]" 0]
    failures_open_at_threshold [of default_config "[1, 2, 3, 4]" 0] by (simp del: fold_simps)

text \<open>The calls a circuit admits, one after the other, with no result recorded in between.\<close>

fun admitted :: "(string, int) dict \<Rightarrow> time list \<Rightarrow> circuit \<Rightarrow> nat" where
  "admitted cfg [] c = 0"
| "admitted cfg (t # ts) c = (let (ok, c') = can_execute cfg t c in (if ok then 1 else 0) + admitted cfg ts c')"

lemma admitted_half_open:
  "ci_state c = HALF_OPEN \<Longrightarrow>
     admitted cfg ts c = min (length ts) (nat (conf cfg ''half_open_max_calls'' - ci_half_open_calls c))"
proof (induction ts arbitrary: c)
  case Nil
  then show ?case by simp
next
  case (Cons t ts)
  show ?case
  proof (cases "ci_half_open_calls c < conf cfg ''half_open_max_calls''")
    case True
    have "nat (conf cfg ''half_open_max_calls'' - ci_half_open_calls c)
        = Suc (nat (conf cfg ''half_open_max_calls'' - (ci_half_open_calls c + 1)))"
      using True by simp
    with True Cons.prems Cons.IH [of "c\<lparr>ci_half_open_calls := ci_half_open_calls c + 1\<rparr>"] show ?thesis
      by (simp add: can_execute_def)
  next
    case False
    with Cons show ?thesis by (simp add: can_execute_def)
  qed
qed

text \<open>
  An open circuit never refuses the next call: no operation sets the last failure time, so the
  recovery timeout counts as elapsed at once. Of the calls made on it with no result recorded, the
  one that half-opens it is not counted, so one more than \<open>half_open_max_calls\<close> get through.
\<close>
theorem open_circuit_admits:
  assumes "dict_get (br_circuits (fold breaker_exec ops new_breaker)) name = Some c" and "ci_state c = OPEN"
  shows "fst (can_execute default_config now c)
    \<and> admitted default_config (now # ts) c = 1 + min (length ts) 3"
proof -
  have no: "ci_last_failure_time c = None"
    using reached_circuit [OF assms(1)] by (simp add: circuit_inv_def)
  with assms(2) admitted_half_open [of "transition_to_half_open now c" default_config ts] show ?thesis
    by (simp add: can_execute_def recovery_timeout_elapsed_def transition_to_half_open_def)
qed

theorem open_circuit_admits_witness:
  "\<exists>c. dict_get (br_circuits (fold breaker_exec ex_breaker_ops new_breaker)) ''svc'' = Some c
     \<and> admitted default_config [6, 6, 6, 6, 6, 6] c = 4"
proof -
  from ex_breaker_open obtain c where c: "dict_get (br_circuits (fold breaker_exec ex_breaker_ops new_breaker)) ''svc'' = Some c"
      "ci_state c = OPEN" by blast
  from open_circuit_admits [OF this, of 6 "[6, 6, 6, 6, 6]"] c show ?thesis by simp
qed

end
