(* ===== verification/Fallback.thy ===== *)
theory Fallback
  imports Exceptions Calendar Dag
begin

text \<open>
  \<open>src/recovery/fallback_manager.py\<close>: handlers registered per function name in priority order,
  and the search for the first one that applies and succeeds. A registered callable is one of the
  three the source defines, or an external one, whose outcome is the parameter \<open>ext\<close>; the cache
  key of \<open>cache_fallback\<close> depends on Python's \<open>hash\<close> and \<open>str\<close> and is the parameter \<open>ckey\<close>.
\<close>

section \<open>State\<close>

datatype fb_func = CacheFallback | AlternativeTool | DegradedMode | External string

record fb_conditions =
  fc_time_window :: "(int \<times> int) option"
  fc_task_types :: "string list option"
  fc_required_params :: "string list option"

definition no_conditions :: fb_conditions where
  "no_conditions = \<lparr>fc_time_window = None, fc_task_types = None, fc_required_params = None\<rparr>"

record fb_handler =
  fh_func :: fb_func
  fh_priority :: int
  fh_conditions :: fb_conditions
  fh_registered_at :: time
  fh_success_count :: int
  fh_failure_count :: int
  fh_last_success :: "time option"

record fallback_manager =
  fm_fallbacks :: "(string, fb_handler list) dict"
  fm_cache :: "(string, pyval) dict"

definition new_fallback_manager :: fallback_manager where
  "new_fallback_manager = \<lparr>fm_fallbacks = [], fm_cache = []\<rparr>"

section \<open>Registration\<close>

definition register_fallback ::
    "string \<Rightarrow> fb_func \<Rightarrow> int \<Rightarrow> fb_conditions \<Rightarrow> time \<Rightarrow> fallback_manager \<Rightarrow> fallback_manager" where
  "register_fallback name f prio conds now s =
     (let h = \<lparr>fh_func = f, fh_priority = prio, fh_conditions = conds, fh_registered_at = now,
               fh_success_count = 0, fh_failure_count = 0, fh_last_success = None\<rparr>
      in s\<lparr>fm_fallbacks := dict_set name
             (sort_key fh_priority (dict_get_or (fm_fallbacks s) name [] @ [h])) (fm_fallbacks s)\<rparr>)"

definition register_default_fallbacks :: "time \<Rightarrow> fallback_manager \<Rightarrow> fallback_manager" where
  "register_default_fallbacks now s =
     register_fallback ''*'' DegradedMode 200 no_conditions now
       (register_fallback ''tool_execution'' AlternativeTool 50
          (no_conditions\<lparr>fc_task_types := Some [''scan'', ''recon'']\<rparr>) now
         (register_fallback ''*'' CacheFallback 100 no_conditions now s))"

section \<open>Searching a fallback\<close>

definition hour_of :: "time \<Rightarrow> int" where
  "hour_of now = (now div hour) mod 24"

fun check_params :: "string list \<Rightarrow> pyval \<Rightarrow> exn + bool" where
  "check_params [] params = Inr True"
| "check_params (p # ps) params =
     (case py_in (PStr p) params of
        None \<Rightarrow> Inl TypeErr
      | Some b \<Rightarrow> if b then check_params ps params else Inr False)"

definition check_conditions ::
    "fb_conditions \<Rightarrow> task_node option \<Rightarrow> pydict \<Rightarrow> time \<Rightarrow> exn + bool" where
  "check_conditions c task kwargs now =
     (if (case fc_time_window c of None \<Rightarrow> False
          | Some (lo, hi) \<Rightarrow> \<not> (lo \<le> hour_of now \<and> hour_of now \<le> hi)) then Inr False
      else if (case (fc_task_types c, task) of
                 (Some tts, Some t) \<Rightarrow> task_type_value (tn_task_type t) \<notin> set tts
               | _ \<Rightarrow> False) then Inr False
      else (case fc_required_params c of None \<Rightarrow> Inr True
            | Some ps \<Rightarrow> check_params ps (dict_get_or kwargs ''params'' (PDict []))))"

definition execute_fallback ::
    "(string \<Rightarrow> exn + pyval) \<Rightarrow> (task_node option \<Rightarrow> pydict \<Rightarrow> string) \<Rightarrow> (string, pyval) dict
      \<Rightarrow> task_node option \<Rightarrow> pydict \<Rightarrow> fb_func \<Rightarrow> exn + pyval" where
  "execute_fallback ext ckey cache task kwargs f =
     (case f of
        CacheFallback \<Rightarrow> Inr (dict_get_or cache (ckey task kwargs) PNone)
      | AlternativeTool \<Rightarrow>
          (case task of None \<Rightarrow> Inr PNone
           | Some t \<Rightarrow> Inr (PDict [(''status'', PStr ''fallback''), (''message'', PStr ''Using alternative tool'')]))
      | DegradedMode \<Rightarrow> Inr (PDict [(''status'', PStr ''degraded''),
          (''message'', PStr ''Operating in degraded mode''), (''partial_results'', PDict [])])
      | External n \<Rightarrow> ext n)"

text \<open>
  The loop over the handlers: the result if one succeeded, and the handlers with their counters;
  an exception of the condition check or of the handler counts as a failure.
\<close>

fun try_fallbacks ::
    "(fb_conditions \<Rightarrow> exn + bool) \<Rightarrow> (fb_func \<Rightarrow> exn + pyval) \<Rightarrow> time \<Rightarrow> fb_handler list
      \<Rightarrow> pyval option \<times> fb_handler list" where
  "try_fallbacks cond run now [] = (None, [])"
| "try_fallbacks cond run now (h # hs) =
     (case (case cond (fh_conditions h) of
              Inl e \<Rightarrow> Inl e
            | Inr False \<Rightarrow> Inr None
            | Inr True \<Rightarrow> map_sum id Some (run (fh_func h))) of
        Inl e \<Rightarrow>
          (let (r, hs') = try_fallbacks cond run now hs
           in (r, h\<lparr>fh_failure_count := fh_failure_count h + 1\<rparr> # hs'))
      | Inr None \<Rightarrow> (let (r, hs') = try_fallbacks cond run now hs in (r, h # hs'))
      | Inr (Some v) \<Rightarrow>
          (Some v, h\<lparr>fh_success_count := fh_success_count h + 1, fh_last_success := Some now\<rparr> # hs))"

definition get_fallback ::
    "(string \<Rightarrow> exn + pyval) \<Rightarrow> (task_node option \<Rightarrow> pydict \<Rightarrow> string) \<Rightarrow> string \<Rightarrow> task_node option
      \<Rightarrow> pydict \<Rightarrow> time \<Rightarrow> fallback_manager \<Rightarrow> pyval \<times> fallback_manager" where
  "get_fallback ext ckey name task kwargs now s =
     (case dict_get (fm_fallbacks s) name of
        None \<Rightarrow> (PNone, s)
      | Some hs \<Rightarrow>
        (let (r, hs') = try_fallbacks (\<lambda>c. check_conditions c task kwargs now)
                          (execute_fallback ext ckey (fm_cache s) task kwargs) now hs
         in (case r of None \<Rightarrow> PNone | Some v \<Rightarrow> v,
             s\<lparr>fm_fallbacks := dict_set name hs' (fm_fallbacks s)\<rparr>)))"

section \<open>Cache and statistics\<close>

text \<open>\<open>cache_result\<close> computes the expiry with \<open>timedelta\<close>, which the module does not import.\<close>

definition cache_result :: "string \<Rightarrow> pyval \<Rightarrow> int \<Rightarrow> fallback_manager \<Rightarrow> fallback_manager \<times> exn option" where
  "cache_result key v ttl s = (s, Some (NameErr ''timedelta''))"

text \<open>\<open>expired\<close> tells whether a stored entry's expiry has passed; nothing ever stores one.\<close>

definition get_cached_result :: "(pyval \<Rightarrow> bool) \<Rightarrow> string \<Rightarrow> fallback_manager \<Rightarrow> pyval" where
  "get_cached_result expired key s =
     (case dict_get (fm_cache s) key of None \<Rightarrow> PNone
      | Some v \<Rightarrow> if truthy v \<and> \<not> expired v then v else PNone)"

record fb_stats =
  fs_priority :: int
  fs_success_count :: int
  fs_failure_count :: int
  fs_success_rate :: rat

definition handler_stats :: "fb_handler \<Rightarrow> fb_stats" where
  "handler_stats h =
     \<lparr>fs_priority = fh_priority h, fs_success_count = fh_success_count h,
      fs_failure_count = fh_failure_count h,
      fs_success_rate = (if fh_success_count h + fh_failure_count h > 0
        then of_int (fh_success_count h) / of_int (fh_success_count h + fh_failure_count h) else 0)\<rparr>"

definition get_stats :: "string option \<Rightarrow> fallback_manager \<Rightarrow> (string, fb_stats list) dict" where
  "get_stats name s =
     (case name of
        Some n \<Rightarrow> if n \<noteq> [] then [(n, map handler_stats (dict_get_or (fm_fallbacks s) n []))]
                  else map (\<lambda>(n, hs). (n, map handler_stats hs)) (fm_fallbacks s)
      | None \<Rightarrow> map (\<lambda>(n, hs). (n, map handler_stats hs)) (fm_fallbacks s))"

section \<open>The handlers stay in priority order\<close>

definition fallbacks_inv :: "fallback_manager \<Rightarrow> bool" where
  "fallbacks_inv s \<longleftrightarrow> dict_all (\<lambda>n hs. sorted (map fh_priority hs)
     \<and> (\<forall>h \<in> set hs. 0 \<le> fh_success_count h \<and> 0 \<le> fh_failure_count h)) (fm_fallbacks s)
     \<and> fm_cache s = []"

datatype fb_op =
    Register string fb_func int fb_conditions
  | GetFallback string "task_node option" pydict
  | CacheResult string pyval int

fun fb_exec ::
    "(string \<Rightarrow> exn + pyval) \<Rightarrow> (task_node option \<Rightarrow> pydict \<Rightarrow> string) \<Rightarrow> fb_op \<times> time
      \<Rightarrow> fallback_manager \<Rightarrow> fallback_manager" where
  "fb_exec ext ckey (Register n f p c, now) s = register_fallback n f p c now s"
| "fb_exec ext ckey (GetFallback n t k, now) s = snd (get_fallback ext ckey n t k now s)"
| "fb_exec ext ckey (CacheResult k v ttl, now) s = fst (cache_result k v ttl s)"

lemma try_fallbacks_frame:
  "map fh_priority (snd (try_fallbacks cond run now hs)) = map fh_priority hs
   \<and> map fh_func (snd (try_fallbacks cond run now hs)) = map fh_func hs"
  by (induction hs) (auto simp: Let_def split: sum.split bool.split option.split prod.split)

lemma try_fallbacks_counts:
  "\<forall>h \<in> set hs. 0 \<le> fh_success_count h \<and> 0 \<le> fh_failure_count h \<Longrightarrow>
   \<forall>h \<in> set (snd (try_fallbacks cond run now hs)). 0 \<le> fh_success_count h \<and> 0 \<le> fh_failure_count h"
proof (induction hs)
  case Nil
  then show ?case by simp
next
  case (Cons h hs)
  then show ?case
    by (auto simp: Let_def split: sum.splits bool.splits option.splits prod.splits)
qed

lemma fb_exec_inv: "fallbacks_inv s \<Longrightarrow> fallbacks_inv (fb_exec ext ckey x s)"
proof -
  assume s: "fallbacks_inv s"
  obtain p now where x: "x = (p, now)" by force
  show ?thesis
  proof (cases p)
    case (Register n f pr c)
    have "\<forall>h \<in> set (dict_get_or (fm_fallbacks s) n []). 0 \<le> fh_success_count h \<and> 0 \<le> fh_failure_count h"
      using s dict_allD [of _ "fm_fallbacks s" n]
      by (cases "dict_get (fm_fallbacks s) n") (fastforce simp: fallbacks_inv_def dict_get_or_def)+
    with x s Register show ?thesis
      by (auto simp: register_fallback_def fallbacks_inv_def Let_def intro!: dict_all_set)
  next
    case (GetFallback n t k)
    show ?thesis
    proof (cases "dict_get (fm_fallbacks s) n")
      case None
      with x s GetFallback show ?thesis by (simp add: get_fallback_def)
    next
      case (Some hs)
      let ?r = "try_fallbacks (\<lambda>c. check_conditions c t k now) (execute_fallback ext ckey (fm_cache s) t k) now hs"
      from s Some have "sorted (map fh_priority hs)"
          "\<forall>h \<in> set hs. 0 \<le> fh_success_count h \<and> 0 \<le> fh_failure_count h"
        by (auto simp: fallbacks_inv_def dest: dict_allD)
      with try_fallbacks_frame try_fallbacks_counts
      have "sorted (map fh_priority (snd ?r))"
          "\<forall>h \<in> set (snd ?r). 0 \<le> fh_success_count h \<and> 0 \<le> fh_failure_count h"
        by metis+
      with x s GetFallback Some show ?thesis
        by (simp add: get_fallback_def split_beta fallbacks_inv_def dict_all_set)
    qed
  next
    case (CacheResult k v ttl)
    with x s show ?thesis by (simp add: cache_result_def)
  qed
qed

interpretation fallbacks: op_system "fb_exec ext ckey" fallbacks_inv
  by unfold_locales (rule fb_exec_inv)

text \<open>
  Whatever is registered, tried or cached, the handlers of every function stay sorted by
  priority, their counters are not negative, and the result cache stays empty, since
  \<open>cache_result\<close> raises before storing.
\<close>
theorem fallback_run_invariant:
  "fallbacks_inv (fold (fb_exec ext ckey) ops new_fallback_manager)"
  by (rule fallbacks.inv_run) (simp add: fallbacks_inv_def new_fallback_manager_def)

text \<open>What a handler answers: nothing when its conditions fail or it raises.\<close>

definition answers :: "(fb_conditions \<Rightarrow> exn + bool) \<Rightarrow> (fb_func \<Rightarrow> exn + pyval) \<Rightarrow> fb_handler \<Rightarrow> pyval option" where
  "answers cond run h =
     (if cond (fh_conditions h) = Inr True then (case run (fh_func h) of Inl e \<Rightarrow> None | Inr v \<Rightarrow> Some v) else None)"

lemma try_fallbacks_first:
  "fst (try_fallbacks cond run now hs) =
     (case filter (\<lambda>h. answers cond run h \<noteq> None) hs of [] \<Rightarrow> None | h # _ \<Rightarrow> answers cond run h)"
proof (induction hs)
  case Nil
  show ?case by simp
next
  case (Cons h hs)
  then show ?case
    by (cases "cond (fh_conditions h)"; cases "run (fh_func h)")
      (auto simp: answers_def Let_def split_beta split: bool.splits)
qed

lemma answers_filter: "filter (\<lambda>h. answers c r h \<noteq> None) hs = h # hs' \<Longrightarrow> answers c r h \<noteq> None"
  by (drule arg_cong [of _ _ set]) auto

definition first_answer :: "(fb_conditions \<Rightarrow> exn + bool) \<Rightarrow> (fb_func \<Rightarrow> exn + pyval) \<Rightarrow> fb_handler list \<Rightarrow> pyval" where
  "first_answer cond run hs =
     (case filter (\<lambda>h. answers cond run h \<noteq> None) hs of [] \<Rightarrow> PNone | h # _ \<Rightarrow> the (answers cond run h))"

lemma try_first_answer:
  "(case fst (try_fallbacks cond run now hs) of None \<Rightarrow> PNone | Some v \<Rightarrow> v) = first_answer cond run hs"
proof (cases "filter (\<lambda>h. answers cond run h \<noteq> None) hs")
  case Nil
  then show ?thesis unfolding try_fallbacks_first first_answer_def by simp
next
  case (Cons h hs')
  from answers_filter [OF Cons] obtain v where "answers cond run h = Some v" by blast
  with Cons show ?thesis unfolding try_fallbacks_first first_answer_def by simp
qed

text \<open>
  The fallback used is the first one, in priority order, whose conditions hold and which does
  not raise; without one the result is \<open>None\<close>. Handlers registered under the name \<open>"*"\<close> take part
  only when that very name is asked for, so the default catch-all fallbacks never apply.
\<close>
theorem get_fallback_first:
  "fst (get_fallback ext ckey name task kwargs now s) =
     first_answer (\<lambda>c. check_conditions c task kwargs now)
       (execute_fallback ext ckey (fm_cache s) task kwargs) (dict_get_or (fm_fallbacks s) name [])
   \<and> (name \<notin> {''*'', ''tool_execution''} \<longrightarrow>
        fst (get_fallback ext ckey name task kwargs now (register_default_fallbacks t new_fallback_manager)) = PNone)"
proof
  show "fst (get_fallback ext ckey name task kwargs now s) =
     first_answer (\<lambda>c. check_conditions c task kwargs now)
       (execute_fallback ext ckey (fm_cache s) task kwargs) (dict_get_or (fm_fallbacks s) name [])"
  proof (cases "dict_get (fm_fallbacks s) name")
    case None
    then show ?thesis by (simp add: get_fallback_def dict_get_or_def first_answer_def)
  next
    case (Some hs)
    then show ?thesis
      by (simp add: get_fallback_def dict_get_or_def split_beta try_first_answer)
  qed
  show "name \<notin> {''*'', ''tool_execution''} \<longrightarrow>
        fst (get_fallback ext ckey name task kwargs now (register_default_fallbacks t new_fallback_manager)) = PNone"
    by (simp add: get_fallback_def register_default_fallbacks_def register_fallback_def
        new_fallback_manager_def Let_def)
qed

theorem get_fallback_first_witness:
  "fst (get_fallback (\<lambda>n. Inr (PInt 1)) (\<lambda>t k. []) ''scan'' None [] 0
     (register_default_fallbacks 0 new_fallback_manager)) = PNone"
  using get_fallback_first [of "\<lambda>n. Inr (PInt 1)" "\<lambda>t k. []" "''scan''" None "[]" 0 new_fallback_manager 0]
  by simp

end
