(* ===== verification/Escalation.thy ===== *)
theory Escalation
  imports Exceptions
begin

text \<open>
  \<open>src/recovery/escalation_manager.py\<close>. An escalation is one Python object, referenced from the
  active dictionary and from the history; \<open>em_store\<close> holds the objects by address, so that an
  acknowledgement shows in both. The id \<open>f"{component}_{timestamp}"\<close> is the pair of its parts. The
  channels of the source only log; waiting is the list of the delays slept.
\<close>

section \<open>State\<close>

datatype escalation_level = L_DEBUG | L_INFO | L_WARNING | L_ERROR | L_CRITICAL

fun level_value :: "escalation_level \<Rightarrow> string" where
  "level_value L_DEBUG = ''debug''"
| "level_value L_INFO = ''info''"
| "level_value L_WARNING = ''warning''"
| "level_value L_ERROR = ''error''"
| "level_value L_CRITICAL = ''critical''"

text \<open>The argument is declared as the enum, but callers pass plain strings too.\<close>

datatype level_arg = Enum escalation_level | Str string

fun level_string :: "level_arg \<Rightarrow> string" where
  "level_string (Enum l) = level_value l"
| "level_string (Str s) = s"

type_synonym escalation_id = "string \<times> time"

record escalation_step =
  st_delay :: rat
  st_channels :: "string list"

type_synonym policy = "(string, escalation_step list) dict"

record escalation =
  es_id :: escalation_id
  es_level :: string
  es_component :: string
  es_message :: msg
  es_context :: pydict
  es_timestamp :: time
  es_status :: string
  es_acknowledged :: bool
  es_acknowledged_by :: "string option"
  es_acknowledged_at :: "time option"
  es_resolved :: bool
  es_resolution :: "string option"
  es_resolved_at :: "time option"
  es_notifications_sent :: "(string \<times> escalation_step) list"

record escalation_manager =
  em_policies :: "(string, policy) dict"
  em_active :: "(escalation_id, nat) dict"
  em_history :: "nat list"
  em_store :: "escalation list"
  em_slept :: "rat list"

definition new_escalation_manager :: escalation_manager where
  "new_escalation_manager =
     \<lparr>em_policies = [], em_active = [], em_history = [], em_store = [], em_slept = []\<rparr>"

definition known_channels :: "string list" where
  "known_channels = [''log'', ''email'', ''slack'', ''pagerduty'', ''webhook'']"

definition default_policy :: policy where
  "default_policy =
     [(''debug'', [\<lparr>st_delay = 0, st_channels = [''log'']\<rparr>]),
      (''info'', [\<lparr>st_delay = 0, st_channels = [''log'']\<rparr>]),
      (''warning'', [\<lparr>st_delay = 0, st_channels = [''log'']\<rparr>, \<lparr>st_delay = 300, st_channels = [''email'']\<rparr>]),
      (''error'', [\<lparr>st_delay = 0, st_channels = [''log'', ''email'']\<rparr>,
                   \<lparr>st_delay = 600, st_channels = [''slack'']\<rparr>]),
      (''critical'', [\<lparr>st_delay = 0, st_channels = [''log'', ''email'', ''slack'']\<rparr>,
                      \<lparr>st_delay = 300, st_channels = [''pagerduty'']\<rparr>])]"

section \<open>Escalating\<close>

text \<open>Every \<open>_notify_*\<close> method logs and returns True.\<close>

definition notify :: "string \<Rightarrow> bool" where
  "notify channel = True"

fun send_channels :: "escalation_step \<Rightarrow> string list \<Rightarrow> escalation \<Rightarrow> escalation" where
  "send_channels st [] e = e"
| "send_channels st (c # cs) e =
     send_channels st cs
       (if c \<in> set known_channels \<and> notify c
        then e\<lparr>es_notifications_sent := es_notifications_sent e @ [(c, st)]\<rparr> else e)"

text \<open>The delays slept come with the escalation.\<close>

fun apply_steps :: "escalation_step list \<Rightarrow> escalation \<Rightarrow> escalation \<times> rat list" where
  "apply_steps [] e = (e, [])"
| "apply_steps (st # sts) e =
     (let slept = (if st_delay st > 0 then [st_delay st] else []);
          e1 = send_channels st (st_channels st) e
      in if es_resolved e1 then (e1, slept)
         else (let (e2, more) = apply_steps sts e1 in (e2, slept @ more)))"

definition apply_escalation_policy :: "policy \<Rightarrow> escalation \<Rightarrow> escalation \<times> rat list" where
  "apply_escalation_policy p e = apply_steps (dict_get_or p (es_level e) []) e"

definition new_escalation :: "level_arg \<Rightarrow> string \<Rightarrow> msg \<Rightarrow> pydict option \<Rightarrow> time \<Rightarrow> escalation" where
  "new_escalation level component m ctx now =
     \<lparr>es_id = (component, now), es_level = level_string level, es_component = component,
      es_message = m, es_context = (case ctx of None \<Rightarrow> [] | Some c \<Rightarrow> c), es_timestamp = now,
      es_status = ''active'', es_acknowledged = False, es_acknowledged_by = None,
      es_acknowledged_at = None, es_resolved = False, es_resolution = None, es_resolved_at = None,
      es_notifications_sent = []\<rparr>"

text \<open>A missing or empty policy falls back to the default one.\<close>

definition select_policy :: "string \<Rightarrow> string option \<Rightarrow> escalation_manager \<Rightarrow> policy" where
  "select_policy component policy_name s =
     (let name = (case policy_name of Some n \<Rightarrow> if n \<noteq> [] then n else component @ ''_policy''
                  | None \<Rightarrow> component @ ''_policy'')
      in (case dict_get (em_policies s) name of
            None \<Rightarrow> default_policy
          | Some p \<Rightarrow> if p = [] then default_policy else p))"

text \<open>
  The final logging statement reads the name \<open>logging\<close>, which the module does not import.
\<close>

definition escalate ::
    "level_arg \<Rightarrow> string \<Rightarrow> msg \<Rightarrow> pydict option \<Rightarrow> string option \<Rightarrow> time \<Rightarrow> escalation_manager
      \<Rightarrow> escalation_manager \<times> exn option" where
  "escalate level component m ctx policy_name now s =
     (let (e, slept) = apply_escalation_policy (select_policy component policy_name s)
                         (new_escalation level component m ctx now);
          addr = length (em_store s)
      in (s\<lparr>em_store := em_store s @ [e],
            em_active := dict_set (es_id e) addr (em_active s),
            em_history := append_capped 1000 addr (em_history s),
            em_slept := em_slept s @ slept\<rparr>,
          Some (NameErr ''logging'')))"

definition register_policy :: "string \<Rightarrow> policy \<Rightarrow> escalation_manager \<Rightarrow> escalation_manager" where
  "register_policy name p s = s\<lparr>em_policies := dict_set name p (em_policies s)\<rparr>"

definition update_object :: "nat \<Rightarrow> (escalation \<Rightarrow> escalation) \<Rightarrow> escalation_manager \<Rightarrow> escalation_manager" where
  "update_object a f s = s\<lparr>em_store := (em_store s)[a := f (em_store s ! a)]\<rparr>"

definition acknowledge :: "escalation_id \<Rightarrow> string \<Rightarrow> time \<Rightarrow> escalation_manager \<Rightarrow> escalation_manager" where
  "acknowledge eid user now s =
     (case dict_get (em_active s) eid of None \<Rightarrow> s
      | Some a \<Rightarrow> update_object a (\<lambda>e. e\<lparr>es_acknowledged := True, es_acknowledged_by := Some user,
                                      es_acknowledged_at := Some now\<rparr>) s)"

definition resolve :: "escalation_id \<Rightarrow> string \<Rightarrow> time \<Rightarrow> escalation_manager \<Rightarrow> escalation_manager" where
  "resolve eid resolution now s =
     (case dict_get (em_active s) eid of None \<Rightarrow> s
      | Some a \<Rightarrow>
        (update_object a (\<lambda>e. e\<lparr>es_resolved := True, es_resolution := Some resolution,
                              es_resolved_at := Some now\<rparr>) s)
          \<lparr>em_active := dict_pop eid (em_active s)\<rparr>)"

definition get_active_escalations :: "escalation_manager \<Rightarrow> escalation list" where
  "get_active_escalations s = map (\<lambda>a. em_store s ! a) (dict_values (em_active s))"

definition get_escalation_history ::
    "string option \<Rightarrow> string option \<Rightarrow> nat \<Rightarrow> escalation_manager \<Rightarrow> escalation list" where
  "get_escalation_history component level n s =
     (let all = map (\<lambda>a. em_store s ! a) (em_history s);
          f1 = (case component of None \<Rightarrow> all
                | Some c \<Rightarrow> if c = [] then all else filter (\<lambda>e. es_component e = c) all);
          f2 = (case level of None \<Rightarrow> f1
                | Some l \<Rightarrow> if l = [] then f1 else filter (\<lambda>e. es_level e = l) f1)
      in take n (sort_key (\<lambda>e. - es_timestamp e) f2))"

section \<open>Invariant\<close>

interpretation escalation_log: bounded_log "append_capped 1000" 1000
  by unfold_locales (simp_all add: append_capped_eq)

text \<open>
  Every reference is valid, the history is bounded, and the active dictionary holds unresolved
  escalations under their own ids.
\<close>

definition escalation_inv :: "escalation_manager \<Rightarrow> bool" where
  "escalation_inv s \<longleftrightarrow>
     length (em_history s) \<le> 1000 \<and> (\<forall>a \<in> set (em_history s). a < length (em_store s))
     \<and> dict_all (\<lambda>eid a. a < length (em_store s) \<and> es_id (em_store s ! a) = eid \<and> \<not> es_resolved (em_store s ! a)) (em_active s)
     \<and> dict_ok (em_active s)"

lemma send_channels_frame:
  "es_id (send_channels st cs e) = es_id e \<and> es_resolved (send_channels st cs e) = es_resolved e
   \<and> es_level (send_channels st cs e) = es_level e \<and> es_message (send_channels st cs e) = es_message e
   \<and> es_component (send_channels st cs e) = es_component e"
  by (induction cs arbitrary: e) auto

lemma apply_steps_frame:
  "es_id (fst (apply_steps sts e)) = es_id e \<and> es_resolved (fst (apply_steps sts e)) = es_resolved e
   \<and> es_level (fst (apply_steps sts e)) = es_level e \<and> es_message (fst (apply_steps sts e)) = es_message e
   \<and> es_component (fst (apply_steps sts e)) = es_component e"
  by (induction sts arbitrary: e) (auto simp: Let_def split_beta send_channels_frame)

lemma send_channels_sent:
  "es_notifications_sent (send_channels st cs e)
     = es_notifications_sent e @ map (\<lambda>c. (c, st)) (filter (\<lambda>c. c \<in> set known_channels) cs)"
  by (induction cs arbitrary: e) (auto simp: notify_def)

lemma apply_steps_sent:
  "\<not> es_resolved e \<Longrightarrow>
     es_notifications_sent (fst (apply_steps sts e)) = es_notifications_sent e @
       concat (map (\<lambda>st. map (\<lambda>c. (c, st)) (filter (\<lambda>c. c \<in> set known_channels) (st_channels st))) sts)
     \<and> snd (apply_steps sts e) = filter (\<lambda>d. d > 0) (map st_delay sts)"
  by (induction sts arbitrary: e) (auto simp: Let_def split_beta send_channels_frame send_channels_sent)

datatype escalation_op =
    Escalate level_arg string msg "pydict option" "string option"
  | Acknowledge escalation_id string
  | Resolve escalation_id string
  | RegisterPolicy string policy

fun escalation_exec :: "escalation_op \<times> time \<Rightarrow> escalation_manager \<Rightarrow> escalation_manager" where
  "escalation_exec (Escalate l c m x p, now) s = fst (escalate l c m x p now s)"
| "escalation_exec (Acknowledge i u, now) s = acknowledge i u now s"
| "escalation_exec (Resolve i r, now) s = resolve i r now s"
| "escalation_exec (RegisterPolicy n p, now) s = register_policy n p s"

lemma escalate_inv: "escalation_inv s \<Longrightarrow> escalation_inv (fst (escalate l c m x p now s))"
proof -
  assume inv: "escalation_inv s"
  obtain e slept where e: "apply_escalation_policy (select_policy c p s) (new_escalation l c m x now) = (e, slept)"
    by force
  have "\<not> es_resolved e"
    using apply_steps_frame [of "dict_get_or (select_policy c p s) (level_string l) []" "new_escalation l c m x now"] e
    by (simp add: apply_escalation_policy_def new_escalation_def)
  moreover have "dict_all (\<lambda>eid a. a < length (em_store s @ [e]) \<and> es_id ((em_store s @ [e]) ! a) = eid
      \<and> \<not> es_resolved ((em_store s @ [e]) ! a)) (em_active s)"
    using inv by (auto simp: escalation_inv_def dict_all_def nth_append)
  moreover have "\<forall>b \<in> set (append_capped 1000 (length (em_store s)) (em_history s)). b < Suc (length (em_store s))"
    using inv escalation_log.set_push [of "length (em_store s)" "em_history s"]
    by (fastforce simp: escalation_inv_def)
  ultimately show ?thesis
    using inv e escalation_log.length_push_le [of "length (em_store s)" "em_history s"]
    by (auto simp: escalate_def escalation_inv_def Let_def intro!: dict_all_set)
qed

lemma update_object_inv:
  assumes inv: "escalation_inv s" and a: "dict_get (em_active s) eid = Some a"
    and f: "\<And>e. es_id (f e) = es_id e"
  shows "escalation_inv ((update_object a f s)\<lparr>em_active := dict_pop eid (em_active s)\<rparr>)"
    and "(\<And>e. es_resolved (f e) = es_resolved e) \<Longrightarrow> escalation_inv (update_object a f s)"
proof -
  from inv have all: "dict_all (\<lambda>eid a. a < length (em_store s) \<and> es_id (em_store s ! a) = eid \<and> \<not> es_resolved (em_store s ! a)) (em_active s)"
    by (simp add: escalation_inv_def)
  have sound: "v < length (em_store s) \<and> es_id (em_store s ! v) = k \<and> \<not> es_resolved (em_store s ! v)"
    if "(k, v) \<in> set (em_active s)" for k v
    using all that by (auto simp: dict_all_def)
  have other: "v \<noteq> a" if "(k, v) \<in> set (em_active s)" "k \<noteq> eid" for k v
    using sound [OF that(1)] sound [OF dict_get_in [OF a]] that(2) by auto
  let ?s = "update_object a f s"
  have "dict_all (\<lambda>eid a. a < length (em_store ?s) \<and> es_id (em_store ?s ! a) = eid \<and> \<not> es_resolved (em_store ?s ! a))
      (dict_pop eid (em_active s))"
    unfolding dict_all_def update_object_def
    by (clarsimp simp del: not_None_eq dest!: dict_pop_in) (metis nth_list_update_neq other sound)
  with inv show "escalation_inv (?s\<lparr>em_active := dict_pop eid (em_active s)\<rparr>)"
    by (simp add: escalation_inv_def update_object_def)
  assume r: "\<And>e. es_resolved (f e) = es_resolved e"
  have "dict_all (\<lambda>eid a. a < length (em_store ?s) \<and> es_id (em_store ?s ! a) = eid \<and> \<not> es_resolved (em_store ?s ! a))
      (em_active s)"
    unfolding dict_all_def
  proof
    fix x assume "x \<in> set (em_active s)"
    moreover obtain k v where x: "x = (k, v)" by (cases x)
    ultimately show "case x of (eid, a) \<Rightarrow> a < length (em_store ?s) \<and> es_id (em_store ?s ! a) = eid \<and> \<not> es_resolved (em_store ?s ! a)"
      using sound [of k v] sound [OF dict_get_in [OF a]] f r
      by (cases "v = a") (simp_all add: update_object_def)
  qed
  with inv show "escalation_inv ?s"
    by (simp add: escalation_inv_def update_object_def)
qed

interpretation escalations: op_system escalation_exec escalation_inv
proof
  fix s and x :: "escalation_op \<times> time"
  assume s: "escalation_inv s"
  obtain e now where x: "x = (e, now)" by force
  show "escalation_inv (escalation_exec x s)"
  proof (cases e)
    case (Escalate l c m y p)
    with x s show ?thesis by (simp add: escalate_inv)
  next
    case (Acknowledge i u)
    with x s show ?thesis by (auto simp: acknowledge_def intro: update_object_inv split: option.split)
  next
    case (Resolve i r)
    with x s show ?thesis by (auto simp: resolve_def intro: update_object_inv split: option.split)
  next
    case (RegisterPolicy n p)
    with x s show ?thesis by (simp add: register_policy_def escalation_inv_def)
  qed
qed

lemma new_escalation_manager_inv: "escalation_inv new_escalation_manager"
  by (simp add: escalation_inv_def new_escalation_manager_def)

section \<open>Properties\<close>

text \<open>
  Over any sequence of operations the history holds at most 1000 escalations, every reference
  is to an existing escalation, and an active escalation is one that has not been resolved, filed
  under its own id.
\<close>
theorem escalation_run_invariant:
  "escalation_inv (fold escalation_exec ops new_escalation_manager)"
  by (rule escalations.inv_run [OF new_escalation_manager_inv])

text \<open>
  Escalating notifies, in order, the known channels of the steps the policy has for the level,
  sleeps their positive delays, and files the escalation; but the call never returns normally: its
  last statement reads a name the module does not import, so a \<open>NameError\<close> reaches the caller.
\<close>
theorem escalate_outcome:
  "\<exists>e. escalate l c m x p now s =
     (s\<lparr>em_store := em_store s @ [e], em_active := dict_set (c, now) (length (em_store s)) (em_active s),
        em_history := append_capped 1000 (length (em_store s)) (em_history s),
        em_slept := em_slept s @ filter (\<lambda>d. d > 0) (map st_delay (dict_get_or (select_policy c p s) (level_string l) []))\<rparr>,
      Some (NameErr ''logging''))
   \<and> es_notifications_sent e =
       concat (map (\<lambda>st. map (\<lambda>ch. (ch, st)) (filter (\<lambda>ch. ch \<in> set known_channels) (st_channels st)))
         (dict_get_or (select_policy c p s) (level_string l) []))
   \<and> es_level e = level_string l \<and> es_component e = c \<and> es_message e = m"
proof -
  let ?e = "new_escalation l c m x now" and ?sts = "dict_get_or (select_policy c p s) (level_string l) []"
  have new: "es_level ?e = level_string l" "es_id ?e = (c, now)" "es_component ?e = c" "es_message ?e = m"
      "es_notifications_sent ?e = []" "\<not> es_resolved ?e"
    by (simp_all add: new_escalation_def)
  from apply_steps_sent [OF new(6), of ?sts] apply_steps_frame [of ?sts ?e]
  show ?thesis
    by (intro exI [of _ "fst (apply_steps ?sts ?e)"])
      (simp add: escalate_def apply_escalation_policy_def split_beta new Let_def)
qed

end
