(* ===== verification/Retry.thy ===== *)
theory Retry
  imports CircuitBreaker Fallback Escalation
begin

text \<open>
  \<open>src/recovery/retry_manager.py\<close>: \<open>execute_with_retry\<close> over the circuit breaker, the fallback
  manager and the escalation manager. The function under retry is external: \<open>outcome i\<close> is what its
  \<open>i\<close>-th attempt returns or raises. The record \<open>retry_env\<close> gathers what the run takes from outside:
  the clock and duration of an attempt, the random jitter, \<open>str\<close> of an exception, the external
  fallbacks.
\<close>

section \<open>State\<close>

record retry_config =
  rc_max_retries :: int
  rc_base_delay :: rat
  rc_max_delay :: rat
  rc_backoff_factor :: rat
  rc_jitter :: bool
  rc_retry_on :: "exn_class list"
  rc_exponential :: bool

definition default_retry_config :: retry_config where
  "default_retry_config =
     \<lparr>rc_max_retries = 3, rc_base_delay = 1, rc_max_delay = 60, rc_backoff_factor = 2,
      rc_jitter = True, rc_retry_on = [PyException], rc_exponential = True\<rparr>"

record retry_stats =
  ry_total :: int
  ry_successes :: int
  ry_failures :: int
  ry_total_duration :: rat
  ry_errors :: "(string, int) dict"

record retry_manager =
  rm_breaker :: breaker
  rm_fallback :: fallback_manager
  rm_escalation :: escalation_manager
  rm_stats :: "(string, retry_stats) dict"
  rm_slept :: "rat list"

definition new_retry_manager :: retry_manager where
  "new_retry_manager =
     \<lparr>rm_breaker = new_breaker, rm_fallback = new_fallback_manager,
      rm_escalation = new_escalation_manager, rm_stats = [], rm_slept = []\<rparr>"

record retry_env =
  ev_clock :: "nat \<Rightarrow> time"
  ev_duration :: "nat \<Rightarrow> rat"
  ev_uniform :: "nat \<Rightarrow> rat \<Rightarrow> rat"
  ev_str :: "exn \<Rightarrow> string"
  ev_ext :: "string \<Rightarrow> exn + pyval"
  ev_ckey :: "task_node option \<Rightarrow> pydict \<Rightarrow> string"

section \<open>Delays and statistics\<close>

definition calculate_delay :: "retry_env \<Rightarrow> retry_config \<Rightarrow> nat \<Rightarrow> rat" where
  "calculate_delay env cfg attempt =
     (let raw = (if rc_exponential cfg then rc_base_delay cfg * rc_backoff_factor cfg ^ attempt
                 else rc_base_delay cfg * of_nat (attempt + 1));
          delay = min raw (rc_max_delay cfg)
      in if rc_jitter cfg then delay + ev_uniform env attempt delay else delay)"

definition zero_stats :: retry_stats where
  "zero_stats = \<lparr>ry_total = 0, ry_successes = 0, ry_failures = 0, ry_total_duration = 0, ry_errors = []\<rparr>"

definition stats_success :: "string \<Rightarrow> rat \<Rightarrow> (string, retry_stats) dict \<Rightarrow> (string, retry_stats) dict" where
  "stats_success name duration m =
     (let s = dict_get_or m name zero_stats
      in dict_set name (s\<lparr>ry_total := ry_total s + 1, ry_successes := ry_successes s + 1,
           ry_total_duration := ry_total_duration s + duration\<rparr>) m)"

text \<open>\<open>error.split(":")[0]\<close>, which is the whole string when there is no colon.\<close>

definition error_type :: "string \<Rightarrow> string" where
  "error_type err = takeWhile (\<lambda>c. c \<noteq> CHR '':'') err"

definition stats_failure :: "string \<Rightarrow> string \<Rightarrow> (string, retry_stats) dict \<Rightarrow> (string, retry_stats) dict" where
  "stats_failure name err m =
     (let s = dict_get_or m name zero_stats; et = error_type err
      in dict_set name (s\<lparr>ry_total := ry_total s + 1, ry_failures := ry_failures s + 1,
           ry_errors := dict_set et (dict_get_or (ry_errors s) et 0 + 1) (ry_errors s)\<rparr>) m)"

definition get_retry_stats :: "string option \<Rightarrow> retry_manager \<Rightarrow> (string, retry_stats) dict" where
  "get_retry_stats name s =
     (case name of None \<Rightarrow> rm_stats s
      | Some n \<Rightarrow> if n = [] then rm_stats s
                  else (case dict_get (rm_stats s) n of None \<Rightarrow> [] | Some x \<Rightarrow> [(n, x)]))"

definition reset_stats :: "string option \<Rightarrow> retry_manager \<Rightarrow> retry_manager" where
  "reset_stats name s =
     (case name of None \<Rightarrow> s\<lparr>rm_stats := []\<rparr>
      | Some n \<Rightarrow> if n = [] then s\<lparr>rm_stats := []\<rparr> else s\<lparr>rm_stats := dict_pop n (rm_stats s)\<rparr>)"

section \<open>The attempts\<close>

definition note_success :: "retry_env \<Rightarrow> string \<Rightarrow> nat \<Rightarrow> retry_manager \<Rightarrow> retry_manager" where
  "note_success env name i s =
     s\<lparr>rm_stats := stats_success name (ev_duration env i) (rm_stats s),
       rm_breaker := on_circuit (record_success (br_config (rm_breaker s)) (ev_clock env i)) name
         (ev_clock env i) (rm_breaker s)\<rparr>"

definition note_failure :: "retry_env \<Rightarrow> string \<Rightarrow> nat \<Rightarrow> exn \<Rightarrow> retry_manager \<Rightarrow> retry_manager" where
  "note_failure env name i e s =
     s\<lparr>rm_stats := stats_failure name (ev_str env e) (rm_stats s),
       rm_breaker := on_circuit (record_failure (br_config (rm_breaker s)) (ev_clock env i)) name
         (ev_clock env i) (rm_breaker s)\<rparr>"

definition should_retry :: "retry_config \<Rightarrow> exn \<Rightarrow> bool" where
  "should_retry cfg e = list_ex (isinstance_exn e) (rc_retry_on cfg)"

text \<open>The \<open>for attempt in range(max_retries + 1)\<close> loop; \<open>Inl\<close> carries the last exception.\<close>

fun retry_loop ::
    "retry_env \<Rightarrow> (nat \<Rightarrow> exn + pyval) \<Rightarrow> retry_config \<Rightarrow> string \<Rightarrow> nat list \<Rightarrow> exn option \<Rightarrow> retry_manager
      \<Rightarrow> (exn option + pyval) \<times> retry_manager" where
  "retry_loop env outcome cfg name [] last_e s = (Inl last_e, s)"
| "retry_loop env outcome cfg name (i # is) last_e s =
     (case outcome i of
        Inr v \<Rightarrow> (Inr v, note_success env name i s)
      | Inl e \<Rightarrow>
        if \<not> should_retry cfg e then (Inl (Some e), s)
        else let s1 = note_failure env name i e s
             in if int i = rc_max_retries cfg then (Inl (Some e), s1)
                else retry_loop env outcome cfg name is (Some e)
                       (s1\<lparr>rm_slept := rm_slept s1 @ [calculate_delay env cfg i]\<rparr>))"

text \<open>
  \<open>get_fallback(func_name=..., task=..., *args, **kwargs)\<close>: a positional argument would be bound
  to \<open>func_name\<close> a second time.
\<close>

definition call_fallback ::
    "retry_env \<Rightarrow> string \<Rightarrow> pyval list \<Rightarrow> task_node option \<Rightarrow> pydict \<Rightarrow> time \<Rightarrow> retry_manager
      \<Rightarrow> (exn + pyval) \<times> retry_manager" where
  "call_fallback env name args task kwargs now s =
     (if args \<noteq> [] then (Inl TypeErr, s)
      else (let (r, f) = get_fallback (ev_ext env) (ev_ckey env) name task kwargs now (rm_fallback s)
            in (Inr r, s\<lparr>rm_fallback := f\<rparr>)))"

text \<open>Try a fallback; without a result escalate and raise \<open>final\<close>.\<close>

definition fall_back_or_raise ::
    "retry_env \<Rightarrow> string \<Rightarrow> pyval list \<Rightarrow> task_node option \<Rightarrow> pydict \<Rightarrow> time \<Rightarrow> string \<Rightarrow> msg \<Rightarrow> pydict
      \<Rightarrow> exn \<Rightarrow> retry_manager \<Rightarrow> (exn + pyval) \<times> retry_manager" where
  "fall_back_or_raise env name args task kwargs now level m ctx final s =
     (case call_fallback env name args task kwargs now s of
        (Inl e, s1) \<Rightarrow> (Inl e, s1)
      | (Inr r, s1) \<Rightarrow>
        if r \<noteq> PNone then (Inr r, s1)
        else (case escalate (Str level) name m (Some ctx) None now (rm_escalation s1) of
                (em, Some e) \<Rightarrow> (Inl e, s1\<lparr>rm_escalation := em\<rparr>)
              | (em, None) \<Rightarrow> (Inl final, s1\<lparr>rm_escalation := em\<rparr>)))"

definition execute_with_retry ::
    "retry_env \<Rightarrow> (nat \<Rightarrow> exn + pyval) \<Rightarrow> retry_config \<Rightarrow> string \<Rightarrow> pyval list \<Rightarrow> task_node option
      \<Rightarrow> pydict \<Rightarrow> time \<Rightarrow> retry_manager \<Rightarrow> (exn + pyval) \<times> retry_manager" where
  "execute_with_retry env outcome cfg name args task kwargs now s =
     (let (ok, br) = breaker_can_execute name now (rm_breaker s);
          s0 = s\<lparr>rm_breaker := br\<rparr>;
          ctx = [(''args'', PList args), (''kwargs'', PDict kwargs)]
      in if \<not> ok
         then fall_back_or_raise env name args task kwargs now ''warning''
                [Lit ''Circuit breaker open with no fallback''] ctx
                (py_exn PyException (''Circuit breaker open for '' @ name)) s0
         else (case retry_loop env outcome cfg name [0..<nat (rc_max_retries cfg + 1)] None s0 of
                 (Inr v, s1) \<Rightarrow> (Inr v, s1)
               | (Inl last_e, s1) \<Rightarrow>
                 (let text = (case last_e of None \<Rightarrow> ''None'' | Some e \<Rightarrow> ev_str env e)
                  in fall_back_or_raise env name args task kwargs now ''error''
                       [Lit ''All retries failed: '', Lit text]
                       (ctx @ [(''attempts'', PInt (rc_max_retries cfg + 1)), (''last_error'', PStr text)])
                       (case last_e of None \<Rightarrow> TypeErr | Some e \<Rightarrow> e) s1)))"

section \<open>Attempts and delays\<close>

lemma retry_loop_success:
  assumes "\<forall>i < k. \<exists>e. outcome (a + i) = Inl e \<and> should_retry cfg e \<and> int (a + i) \<noteq> rc_max_retries cfg"
    and "outcome (a + k) = Inr v" and "k < n"
  shows "\<exists>s'. retry_loop env outcome cfg name [a..<a + n] last_e s = (Inr v, s')
    \<and> rm_slept s' = rm_slept s @ map (calculate_delay env cfg) [a..<a + k]"
  using assms
proof (induction k arbitrary: a n last_e s)
  case 0
  then have "[a..<a + n] = a # [Suc a..<a + n]" by (simp add: upt_conv_Cons)
  with 0 show ?case by (simp add: note_success_def)
next
  case (Suc k)
  from Suc.prems(1) obtain e where e: "outcome a = Inl e" "should_retry cfg e" "int a \<noteq> rc_max_retries cfg"
    by force
  from Suc.prems(3) obtain m where n: "n = Suc m" "k < m" by (cases n) auto
  have upt: "[a..<a + n] = a # [Suc a..<Suc a + m]" using n by (simp add: upt_conv_Cons del: upt_Suc)
  have "\<forall>i < k. \<exists>e. outcome (Suc a + i) = Inl e \<and> should_retry cfg e \<and> int (Suc a + i) \<noteq> rc_max_retries cfg"
    using Suc.prems(1) by (metis Suc_mono add_Suc_shift)
  from Suc.IH [OF this _ n(2), of "Some e" "(note_failure env name a e s)
      \<lparr>rm_slept := rm_slept (note_failure env name a e s) @ [calculate_delay env cfg a]\<rparr>"] Suc.prems(2)
  obtain s' where "retry_loop env outcome cfg name [Suc a..<Suc a + m] (Some e) ((note_failure env name a e s)
      \<lparr>rm_slept := rm_slept (note_failure env name a e s) @ [calculate_delay env cfg a]\<rparr>) = (Inr v, s')"
      "rm_slept s' = (rm_slept s @ [calculate_delay env cfg a]) @ map (calculate_delay env cfg) [Suc a..<Suc a + k]"
    by (auto simp: note_failure_def)
  moreover have "[a..<a + Suc k] = a # [Suc a..<Suc a + k]" by (simp add: upt_conv_Cons del: upt_Suc)
  ultimately show ?case using e upt by (simp add: Let_def del: upt_Suc)
qed

text \<open>What the loop keeps: the fallback and escalation managers are not touched.\<close>

lemma retry_loop_frame:
  "retry_loop env outcome cfg name is last_e s = (r, s') \<Longrightarrow>
     rm_fallback s' = rm_fallback s \<and> rm_escalation s' = rm_escalation s"
proof (induction "is" arbitrary: last_e s)
  case Nil
  then show ?case by simp
next
  case (Cons i "is")
  show ?case
  proof (cases "outcome i")
    case (Inr v)
    with Cons.prems show ?thesis by (auto simp: note_success_def)
  next
    case (Inl e)
    with Cons show ?thesis by (fastforce simp: Let_def note_failure_def split: if_splits)
  qed
qed

lemma retry_loop_failure:
  assumes "\<forall>i \<in> set is. \<exists>e. outcome i = Inl e"
  shows "\<exists>last_e' s'. retry_loop env outcome cfg name is last_e s = (Inl last_e', s')"
  using assms
proof (induction "is" arbitrary: last_e s)
  case Nil
  then show ?case by simp
next
  case (Cons i "is")
  then obtain e where "outcome i = Inl e" by auto
  with Cons show ?case by (auto simp: Let_def)
qed

section \<open>Properties\<close>

text \<open>
  When the circuit admits the call and the \<open>k\<close>-th attempt is the first to succeed, the attempts
  before it failing with retryable exceptions and \<open>k\<close> within the retry budget, the call returns that
  result after sleeping exactly the delays of the \<open>k\<close> failed attempts.
\<close>
theorem retry_returns_first_success:
  assumes "fst (breaker_can_execute name now (rm_breaker s))"
    and "\<forall>i < k. \<exists>e. outcome i = Inl e \<and> should_retry cfg e" and "outcome k = Inr v"
    and "int k \<le> rc_max_retries cfg"
  shows "\<exists>s'. execute_with_retry env outcome cfg name args task kwargs now s = (Inr v, s')
    \<and> rm_slept s' = rm_slept s @ map (calculate_delay env cfg) [0..<k]"
proof -
  obtain br where br: "breaker_can_execute name now (rm_breaker s) = (True, br)"
    using assms(1) by (cases "breaker_can_execute name now (rm_breaker s)") auto
  have "\<forall>i < k. \<exists>e. outcome (0 + i) = Inl e \<and> should_retry cfg e \<and> int (0 + i) \<noteq> rc_max_retries cfg"
    using assms(2,4) by force
  moreover have "k < nat (rc_max_retries cfg + 1)" using assms(4) by linarith
  ultimately obtain s' where
      "retry_loop env outcome cfg name [0..<nat (rc_max_retries cfg + 1)] None (s\<lparr>rm_breaker := br\<rparr>) = (Inr v, s')"
      "rm_slept s' = rm_slept s @ map (calculate_delay env cfg) [0..<k]"
    using retry_loop_success [of k outcome 0 cfg v "nat (rc_max_retries cfg + 1)" env name None "s\<lparr>rm_breaker := br\<rparr>"] assms(3)
    by auto
  with br show ?thesis by (simp add: execute_with_retry_def)
qed

definition ex_env :: retry_env where
  "ex_env = \<lparr>ev_clock = int, ev_duration = (\<lambda>i. 1), ev_uniform = (\<lambda>i d. d / 2), ev_str = (\<lambda>e. ''err''),
     ev_ext = (\<lambda>n. Inr PNone), ev_ckey = (\<lambda>t k. [])\<rparr>"

definition ex_outcome :: "nat \<Rightarrow> exn + pyval" where
  "ex_outcome i = (if i < 2 then Inl (ValueErr ''x'') else Inr (PInt 7))"

theorem retry_returns_first_success_witness:
  "\<exists>s'. execute_with_retry ex_env ex_outcome default_retry_config ''f'' [] None [] 0 new_retry_manager = (Inr (PInt 7), s')
     \<and> rm_slept s' = [3 / 2, 3]"
proof -
  have "fst (breaker_can_execute ''f'' 0 (rm_breaker new_retry_manager))"
    by (simp add: breaker_can_execute_def new_retry_manager_def new_breaker_def get_circuit_def
        dict_get_or_def new_circuit_def can_execute_def)
  moreover have "\<forall>i < 2. \<exists>e. ex_outcome i = Inl e \<and> should_retry default_retry_config e"
    by (simp add: ex_outcome_def should_retry_def default_retry_config_def isinstance_exn_def is_subclass_root)
  ultimately show ?thesis
    using retry_returns_first_success [of "''f''" 0 new_retry_manager 2 ex_outcome default_retry_config "PInt 7" ex_env "[]" None "[]"]
    by (simp add: ex_outcome_def default_retry_config_def new_retry_manager_def calculate_delay_def ex_env_def
        upt_conv_Cons Let_def)
qed

text \<open>
  Every delay lies between 0 and twice the maximal delay, when the random jitter is between 0
  and the delay it is drawn for, as \<open>random.uniform(0, delay)\<close> is; without jitter the delays grow
  with the attempts up to the maximum.
\<close>
theorem retry_delay_bounds:
  assumes "0 \<le> rc_base_delay cfg" and "1 \<le> rc_backoff_factor cfg" and "0 \<le> rc_max_delay cfg"
    and "\<forall>i d. 0 \<le> d \<longrightarrow> 0 \<le> ev_uniform env i d \<and> ev_uniform env i d \<le> d"
  shows "0 \<le> calculate_delay env cfg i \<and> calculate_delay env cfg i \<le> 2 * rc_max_delay cfg
    \<and> (\<not> rc_jitter cfg \<longrightarrow> calculate_delay env cfg i \<le> calculate_delay env cfg (Suc i)
        \<and> calculate_delay env cfg i \<le> rc_max_delay cfg)"
proof -
  let ?raw = "\<lambda>i. if rc_exponential cfg then rc_base_delay cfg * rc_backoff_factor cfg ^ i
                 else rc_base_delay cfg * of_nat (i + 1)"
  have raw: "0 \<le> ?raw i" using assms(1,2) by simp
  have "rc_backoff_factor cfg ^ i \<le> rc_backoff_factor cfg ^ Suc i"
    using assms(2) by (intro power_increasing) simp_all
  then have mono: "?raw i \<le> ?raw (Suc i)"
    using assms(1) by (simp add: mult_left_mono del: power_Suc)
  have "0 \<le> min (?raw i) (rc_max_delay cfg)" using raw assms(3) by simp
  with assms(4) have u: "0 \<le> ev_uniform env i (min (?raw i) (rc_max_delay cfg))"
      "ev_uniform env i (min (?raw i) (rc_max_delay cfg)) \<le> min (?raw i) (rc_max_delay cfg)"
    by blast+
  have "min (?raw i) (rc_max_delay cfg) \<le> min (?raw (Suc i)) (rc_max_delay cfg)"
    using mono by (meson min.mono order_refl)
  with u raw assms(3) show ?thesis
    unfolding calculate_delay_def Let_def by (auto simp del: of_nat_add power_Suc)
qed

theorem retry_delay_bounds_witness:
  "calculate_delay ex_env default_retry_config 10 \<le> 120"
  using retry_delay_bounds [of default_retry_config ex_env 10]
  by (simp add: default_retry_config_def ex_env_def)

text \<open>
  When every attempt raises, the exception of the function never reaches the caller. With
  positional arguments the fallback call itself is a \<open>TypeError\<close>; otherwise the caller gets the
  fallback's result, or, without one, the \<open>NameError\<close> of the escalation.
\<close>
theorem retry_exhausted_outcome:
  assumes "fst (breaker_can_execute name now (rm_breaker s))" and "\<forall>i. \<exists>e. outcome i = Inl e"
  shows "fst (execute_with_retry env outcome cfg name args task kwargs now s) =
    (if args \<noteq> [] then Inl TypeErr
     else let r = fst (get_fallback (ev_ext env) (ev_ckey env) name task kwargs now (rm_fallback s))
          in if r \<noteq> PNone then Inr r else Inl (NameErr ''logging''))"
proof -
  obtain br where br: "breaker_can_execute name now (rm_breaker s) = (True, br)"
    using assms(1) by (cases "breaker_can_execute name now (rm_breaker s)") auto
  obtain l s1 where loop: "retry_loop env outcome cfg name [0..<nat (rc_max_retries cfg + 1)] None (s\<lparr>rm_breaker := br\<rparr>) = (Inl l, s1)"
    using retry_loop_failure assms(2) by metis
  have "rm_fallback s1 = rm_fallback s" using retry_loop_frame [OF loop] by simp
  with br loop show ?thesis
    by (simp add: execute_with_retry_def fall_back_or_raise_def call_fallback_def escalate_def split_beta Let_def)
qed

theorem retry_exhausted_outcome_witness:
  "fst (execute_with_retry ex_env (\<lambda>i. Inl (ValueErr ''x'')) default_retry_config ''f'' [] None [] 0 new_retry_manager)
     = Inl (NameErr ''logging'')"
proof -
  have "fst (breaker_can_execute ''f'' 0 (rm_breaker new_retry_manager))"
    by (simp add: breaker_can_execute_def new_retry_manager_def new_breaker_def get_circuit_def
        dict_get_or_def new_circuit_def can_execute_def)
  from retry_exhausted_outcome [OF this, of "\<lambda>i. Inl (ValueErr ''x'')" ex_env default_retry_config "[]" None "[]"]
  show ?thesis by (simp add: new_retry_manager_def new_fallback_manager_def get_fallback_def Let_def)
qed

end
