(* ===== verification/PyString.thy ===== *)
theory PyString
  imports Prelude
begin

text \<open>
  The string operations several components share: \<open>str.split\<close> on one character, the integer
  literals \<open>int(...)\<close> accepts, and the decimal rendering of a number in a formatted string.
  Strings are ASCII here: \<open>int\<close> also accepts other Unicode digits.
\<close>

section \<open>Splitting\<close>

fun split_on :: "char \<Rightarrow> string \<Rightarrow> string list" where
  "split_on c [] = [[]]"
| "split_on c (x # xs) =
     (if x = c then [] # split_on c xs
      else (case split_on c xs of [] \<Rightarrow> [[x]] | p # ps \<Rightarrow> (x # p) # ps))"

lemma split_on_not_Nil [simp]: "split_on c s \<noteq> []"
  by (cases s) (auto split: list.splits)

lemma split_on_none: "c \<notin> set s \<Longrightarrow> split_on c s = [s]"
  by (induction s) auto

lemma split_on_append: "c \<notin> set s \<Longrightarrow> split_on c (s @ c # t) = s # split_on c t"
  by (induction s) auto

lemma length_split_on: "length (split_on c s) = Suc (count_list s c)"
proof (induction s)
  case Nil
  then show ?case by simp
next
  case (Cons x xs)
  obtain p ps where "split_on c xs = p # ps" by (cases "split_on c xs") auto
  with Cons show ?case by auto
qed

section \<open>Integer literals\<close>

definition is_digit :: "char \<Rightarrow> bool" where
  "is_digit c = (let n = of_char c :: nat in 48 \<le> n \<and> n \<le> 57)"

definition digit_val :: "char \<Rightarrow> int" where
  "digit_val c = int (of_char c) - 48"

definition is_space :: "char \<Rightarrow> bool" where
  "is_space c = (let n = of_char c :: nat in n = 32 \<or> 9 \<le> n \<and> n \<le> 13 \<or> 28 \<le> n \<and> n \<le> 31)"

definition strip :: "string \<Rightarrow> string" where
  "strip s = rev (dropWhile is_space (rev (dropWhile is_space s)))"

text \<open>\<open>s.split()\<close>: the non-empty runs between white space.\<close>

fun py_words :: "string \<Rightarrow> string \<Rightarrow> string list" where
  "py_words acc [] = (if acc = [] then [] else [rev acc])"
| "py_words acc (c # cs) =
     (if is_space c then (if acc = [] then py_words [] cs else rev acc # py_words [] cs)
      else py_words (c # acc) cs)"

text \<open>Digits with single underscores between them; \<open>ok\<close> says the last character was a digit.\<close>

fun digits_val :: "int \<Rightarrow> bool \<Rightarrow> string \<Rightarrow> int option" where
  "digits_val acc ok [] = (if ok then Some acc else None)"
| "digits_val acc ok (c # cs) =
     (if is_digit c then digits_val (acc * 10 + digit_val c) True cs
      else if c = CHR ''_'' \<and> ok then digits_val acc False cs
      else None)"

definition py_int :: "string \<Rightarrow> int option" where
  "py_int s =
     (case strip s of
        [] \<Rightarrow> None
      | c # cs \<Rightarrow>
        if c = CHR ''-'' then map_option uminus (digits_val 0 False cs)
        else if c = CHR ''+'' then digits_val 0 False cs
        else digits_val 0 False (c # cs))"

section \<open>Decimal rendering\<close>

definition digit_char :: "nat \<Rightarrow> char" where
  "digit_char n = char_of (48 + n)"

fun nat_str :: "nat \<Rightarrow> string" where
  "nat_str n = (if n < 10 then [digit_char n] else nat_str (n div 10) @ [digit_char (n mod 10)])"

declare nat_str.simps [simp del]

definition int_str :: "int \<Rightarrow> string" where
  "int_str i = (if i < 0 then CHR ''-'' # nat_str (nat (- i)) else nat_str (nat i))"

lemma digit_char [simp]:
  assumes "n < 10"
  shows "is_digit (digit_char n)" "digit_val (digit_char n) = int n" "\<not> is_space (digit_char n)"
    "digit_char n \<noteq> CHR ''-''" "digit_char n \<noteq> CHR ''+''" "digit_char n \<noteq> CHR ''/''"
proof -
  have n: "of_char (digit_char n) = 48 + n" using assms by (simp add: digit_char_def)
  have ne: "digit_char n \<noteq> c" if "of_char c < (48 :: nat)" for c
  proof
    assume "digit_char n = c"
    with n that show False by simp
  qed
  show "is_digit (digit_char n)" "digit_val (digit_char n) = int n" "\<not> is_space (digit_char n)"
    using assms by (simp_all add: is_digit_def digit_val_def is_space_def n)
  show "digit_char n \<noteq> CHR ''-''" "digit_char n \<noteq> CHR ''+''" "digit_char n \<noteq> CHR ''/''"
    by (rule ne, simp)+
qed

lemma nat_str_digits: "c \<in> set (nat_str n) \<Longrightarrow> \<exists>d < 10. c = digit_char d"
proof (induction n rule: nat_str.induct)
  case (1 n)
  show ?case
  proof (cases "n < 10")
    case True
    with 1(2) show ?thesis by (auto simp: nat_str.simps [of n])
  next
    case False
    with 1(2) have "c \<in> set (nat_str (n div 10)) \<or> c = digit_char (n mod 10)"
      by (auto simp: nat_str.simps [of n])
    with 1(1) [OF False] show ?thesis by (metis mod_less_divisor zero_less_numeral)
  qed
qed

lemma nat_str_nonempty [simp]: "nat_str n \<noteq> []"
  by (simp add: nat_str.simps [of n])

lemma digits_val_snoc:
  "\<forall>c \<in> set xs. is_digit c \<Longrightarrow> is_digit c \<Longrightarrow> xs \<noteq> [] \<or> ok \<Longrightarrow>
     digits_val acc ok (xs @ [c]) = map_option (\<lambda>v. v * 10 + digit_val c) (digits_val acc ok xs)"
proof (induction xs arbitrary: acc ok)
  case Nil
  then show ?case by simp
next
  case (Cons x xs)
  from Cons.IH [of True "acc * 10 + digit_val x"] Cons.prems show ?case by simp
qed

lemma digits_val_nat_str: "digits_val 0 False (nat_str n) = Some (int n)"
proof (induction n rule: nat_str.induct)
  case (1 n)
  show ?case
  proof (cases "n < 10")
    case True
    then show ?thesis by (simp add: nat_str.simps [of n])
  next
    case False
    have "\<forall>c \<in> set (nat_str (n div 10)). is_digit c" by (auto dest!: nat_str_digits)
    moreover have "int (n div 10) * 10 + int (n mod 10) = int n"
      by (metis div_mult_mod_eq of_nat_add of_nat_mult of_nat_numeral)
    ultimately show ?thesis
      using digits_val_snoc [of "nat_str (n div 10)" "digit_char (n mod 10)" False 0] 1 False
      by (simp add: nat_str.simps [of n])
  qed
qed

lemma strip_nat_str: "strip (nat_str n) = nat_str n"
proof -
  have no: "\<not> is_space c" if "c \<in> set (nat_str n)" for c
    using nat_str_digits [OF that] by auto
  then have "dropWhile is_space (nat_str n) = nat_str n" "dropWhile is_space (rev (nat_str n)) = rev (nat_str n)"
    by (simp_all add: dropWhile_eq_self_iff) (metis hd_in_set nat_str_nonempty set_rev rev_is_Nil_conv)
  then show ?thesis by (simp add: strip_def)
qed

text \<open>Reading back what was printed.\<close>

lemma py_int_nat_str: "py_int (nat_str n) = Some (int n)"
proof -
  obtain c cs where c: "nat_str n = c # cs" by (cases "nat_str n") auto
  then have "c \<in> set (nat_str n)" by simp
  from nat_str_digits [OF this] have "c \<noteq> CHR ''-''" "c \<noteq> CHR ''+''" by auto
  moreover have "strip (nat_str n) = c # cs" using strip_nat_str [of n] c by simp
  ultimately show ?thesis using digits_val_nat_str [of n] unfolding py_int_def c by simp
qed

lemma slash_not_in_nat_str: "CHR ''/'' \<notin> set (nat_str n)"
  using nat_str_digits [of "CHR ''/''" n] digit_char(6) by metis

end
