(* ===== verification/RateLimits.thy ===== *)
theory RateLimits
  imports PyString Calendar Exceptions
begin

text \<open>
  What the rate limiters share: the contract of a sliding-window log with the bound it gives,
  and the parsing of limit strings such as \<open>"100/minute"\<close>. The simple limiter of
  \<open>src/api/dependencies.py\<close>, the smallest instance, is modelled here.
\<close>

section \<open>Sliding windows\<close>

text \<open>
  A limiter over a log of times: it admits a request only when fewer than \<open>cap\<close> logged requests
  are younger than \<open>period\<close>, logs the requests it admits, and forgets only older ones.
\<close>

locale window_limiter =
  fixes step :: "time \<Rightarrow> time list \<Rightarrow> bool \<times> time list"
    and cap :: int
    and period :: time
  assumes admit: "fst (step now w) \<Longrightarrow> int (length (filter (\<lambda>t. t > now - period) w)) < cap"
    and log_admitted: "fst (step now w) \<Longrightarrow> snd (step now w) = filter (\<lambda>t. t > now - period) w @ [now]"
    and log_refused: "\<not> fst (step now w) \<Longrightarrow> \<exists>rest. snd (step now w) = filter (\<lambda>t. t > now - period) w @ rest"
begin

text \<open>The times at which requests are admitted.\<close>

fun admitted :: "time list \<Rightarrow> time list \<Rightarrow> time list" where
  "admitted w [] = []"
| "admitted w (t # ts) =
     (let (ok, w') = step t w in if ok then t # admitted w' ts else admitted w' ts)"

definition in_window :: "time \<Rightarrow> time list \<Rightarrow> time list" where
  "in_window now ts = filter (\<lambda>t. now - period < t \<and> t \<le> now) ts"

lemma admitted_subset: "set (admitted w ts) \<subseteq> set ts"
  by (induction ts arbitrary: w) (auto simp: Let_def split: prod.splits if_splits)

lemma window_keep:
  "s - period \<le> now - period \<Longrightarrow> in_window now (filter (\<lambda>t. t > s - period) w @ rest) = in_window now w @ in_window now rest"
  unfolding in_window_def by (induction w) auto

lemma window_le: "s \<le> now \<Longrightarrow> length (in_window now w) \<le> length (filter (\<lambda>t. t > s - period) w)"
  unfolding in_window_def by (induction w) auto

lemma window_bound:
  "sorted ts \<Longrightarrow> in_window now (admitted w ts) \<noteq> [] \<Longrightarrow>
     int (length (in_window now w) + length (in_window now (admitted w ts))) \<le> cap"
proof (induction ts arbitrary: w)
  case Nil
  then show ?case by (simp add: in_window_def)
next
  case (Cons t ts)
  obtain ok w' where st: "step t w = (ok, w')" by force
  have srt: "sorted ts" using Cons.prems(1) by simp
  have later: "t \<le> now" if "in_window now (admitted w' ts) \<noteq> []"
  proof -
    from that obtain a where "a \<in> set (admitted w' ts)" "a \<le> now"
      by (auto simp: in_window_def filter_empty_conv)
    with admitted_subset Cons.prems(1) show ?thesis by fastforce
  qed
  show ?case
  proof (cases "in_window now (admitted w' ts) = []")
    case False
    note IH = Cons.IH [OF srt False] and le = later [OF False]
    show ?thesis
    proof (cases ok)
      case True
      with log_admitted [of t w] st have "w' = filter (\<lambda>x. x > t - period) w @ [t]" by simp
      moreover have "in_window now (t # admitted w' ts) = in_window now [t] @ in_window now (admitted w' ts)"
        by (simp add: in_window_def)
      ultimately show ?thesis using IH window_keep [of t now w "[t]"] le True st by simp
    next
      case no: False
      with log_refused [of t w] st obtain rest where "w' = filter (\<lambda>x. x > t - period) w @ rest" by auto
      with IH window_keep [of t now w rest] le no st show ?thesis by simp
    qed
  next
    case True
    with Cons.prems(2) st have ok: "ok" and t: "in_window now [t] \<noteq> []"
      by (auto simp: in_window_def split: if_splits)
    then have tn: "t \<le> now" by (auto simp: in_window_def split: if_splits)
    have "in_window now (t # admitted w' ts) = [t]"
      using True t by (auto simp: in_window_def split: if_splits)
    moreover have "int (length (in_window now w)) < cap"
      using admit [of t w] st ok window_le [OF tn, of w] by simp
    ultimately show ?thesis using st ok by simp
  qed
qed

text \<open>No window of length \<open>period\<close> holds more than \<open>cap\<close> admitted requests.\<close>

lemma at_most_cap:
  assumes "sorted ts" and "0 \<le> cap"
  shows "int (length (in_window now (admitted w ts))) \<le> cap"
proof (cases "in_window now (admitted w ts) = []")
  case True
  with assms(2) show ?thesis by simp
next
  case False
  with window_bound [OF assms(1) False] show ?thesis by simp
qed

end

section \<open>Limit strings\<close>

text \<open>\<open>count, period = s.split("/"); int(count)\<close>; \<open>None\<close> where Python raises \<open>ValueError\<close>.\<close>

definition split_limit :: "string \<Rightarrow> (int \<times> string) option" where
  "split_limit s =
     (case split_on (CHR ''/'') s of
        [count, period] \<Rightarrow> map_option (\<lambda>n. (n, period)) (py_int count)
      | _ \<Rightarrow> None)"

lemma split_limit_render:
  "CHR ''/'' \<notin> set p \<Longrightarrow> split_limit (nat_str n @ CHR ''/'' # p) = Some (int n, p)"
  by (simp add: split_limit_def split_on_append slash_not_in_nat_str split_on_none py_int_nat_str)

definition period_table :: "(string \<times> int) list" where
  "period_table = [(''second'', 1), (''minute'', 60), (''hour'', 3600), (''day'', 86400)]"

section \<open>The limiter of the API dependencies\<close>

text \<open>
  \<open>RateLimiter.check_rate_limit\<close>: the log of a key and whether the request passes; when it does
  not the source raises \<open>HTTPException(429)\<close> after storing the cleaned log.
\<close>

definition simple_step :: "int \<Rightarrow> time \<Rightarrow> time \<Rightarrow> time list \<Rightarrow> bool \<times> time list" where
  "simple_step lmt window now w =
     (let w1 = filter (\<lambda>t. t > now - window) w
      in if int (length w1) \<ge> lmt then (False, w1) else (True, w1 @ [now]))"

definition simple_check ::
    "string \<Rightarrow> int \<Rightarrow> int \<Rightarrow> time \<Rightarrow> (string, time list) dict \<Rightarrow> bool \<times> (string, time list) dict" where
  "simple_check key lmt window now m =
     (let (ok, w) = simple_step lmt (window * second) now (dict_get_or m key []) in (ok, dict_set key w m))"

interpretation simple: window_limiter "simple_step lmt window" lmt window
  by unfold_locales (auto simp: simple_step_def Let_def split: if_splits)

end
