(* ===== verification/ToolRateLimit.thy ===== *)
theory ToolRateLimit
  imports RateLimits
begin

text \<open>
  \<open>src/tools/rate_limiter.py\<close>: the local token bucket, the Lua script that keeps a bucket in
  Redis, and the limits checked for every tool of a request. Redis itself is not modelled: the
  script is a function of what \<open>hgetall\<close> returns, and in distributed mode the answers of the script
  are a parameter of \<open>check_limits\<close>.
\<close>

section \<open>The local token bucket\<close>

record bucket =
  tb_rate :: rat
  tb_capacity :: int
  tb_tokens :: rat
  tb_last_refill :: time

definition new_bucket :: "rat \<Rightarrow> int \<Rightarrow> time \<Rightarrow> bucket" where
  "new_bucket rate capacity now =
     \<lparr>tb_rate = rate, tb_capacity = capacity, tb_tokens = of_int capacity, tb_last_refill = now\<rparr>"

definition refill :: "rat \<Rightarrow> int \<Rightarrow> rat \<Rightarrow> rat \<Rightarrow> rat" where
  "refill rate capacity tokens time_passed = min (of_int capacity) (tokens + time_passed * rate)"

definition consume :: "int \<Rightarrow> time \<Rightarrow> bucket \<Rightarrow> bool \<times> bucket" where
  "consume n now b =
     (let b1 = b\<lparr>tb_tokens := refill (tb_rate b) (tb_capacity b) (tb_tokens b) (total_seconds (now - tb_last_refill b)),
                 tb_last_refill := now\<rparr>
      in if tb_tokens b1 \<ge> of_int n then (True, b1\<lparr>tb_tokens := tb_tokens b1 - of_int n\<rparr>) else (False, b1))"

section \<open>Limit configuration\<close>

record limit_conf =
  lc_rate :: rat
  lc_capacity :: int

record tool_info =
  ti_name :: string
  ti_rate_limits :: "(string, string) dict"

record tool_limiter =
  tl_local :: "(string, bucket) dict"
  tl_limits :: "(string, limit_conf) dict"

definition new_tool_limiter :: tool_limiter where
  "new_tool_limiter = \<lparr>tl_local = [], tl_limits = []\<rparr>"

definition configure_limit :: "string \<Rightarrow> rat \<Rightarrow> int \<Rightarrow> tool_limiter \<Rightarrow> tool_limiter" where
  "configure_limit key rate capacity s =
     s\<lparr>tl_limits := dict_set key \<lparr>lc_rate = rate, lc_capacity = capacity\<rparr> (tl_limits s)\<rparr>"

definition parse_limit :: "string \<Rightarrow> limit_conf" where
  "parse_limit s =
     (case split_limit s of
        Some (count, period) \<Rightarrow>
          (let period_seconds = dict_get_or period_table period 60
           in \<lparr>lc_rate = of_int count / of_int period_seconds, lc_capacity = count\<rparr>)
      | None \<Rightarrow> \<lparr>lc_rate = 100 / 60, lc_capacity = 100\<rparr>)"

definition tool_default :: "tool_info \<Rightarrow> string \<Rightarrow> string \<Rightarrow> string" where
  "tool_default tool kind dflt =
     dict_get_or (ti_rate_limits tool) kind (dict_get_or (ti_rate_limits tool) ''default'' dflt)"

definition get_limit_config :: "string \<Rightarrow> tool_info \<Rightarrow> tool_limiter \<Rightarrow> limit_conf" where
  "get_limit_config key tool s =
     (case dict_get (tl_limits s) key of
        Some c \<Rightarrow> c
      | None \<Rightarrow>
        parse_limit
          (if sublist ''global'' key then tool_default tool ''global'' ''100/minute''
           else if sublist ''tenant'' key then tool_default tool ''tenant'' ''50/minute''
           else if sublist ''user'' key then tool_default tool ''user'' ''10/minute''
           else dict_get_or (ti_rate_limits tool) ''default'' ''100/minute''))"

section \<open>Checking\<close>

definition check_local_limit :: "string \<Rightarrow> limit_conf \<Rightarrow> time \<Rightarrow> tool_limiter \<Rightarrow> bool \<times> tool_limiter" where
  "check_local_limit key c now s =
     (let b = dict_get_or (tl_local s) key (new_bucket (lc_rate c) (lc_capacity c) now);
          (ok, b') = consume 1 now b
      in (ok, s\<lparr>tl_local := dict_set key b' (tl_local s)\<rparr>))"

text \<open>The Lua script: \<open>stored\<close> is the bucket \<open>hgetall\<close> returned, if the key exists.\<close>

definition redis_script :: "rat \<Rightarrow> rat \<Rightarrow> int \<Rightarrow> (rat \<times> rat) option \<Rightarrow> bool \<times> (rat \<times> rat) option" where
  "redis_script now rate capacity stored =
     (let tokens = (case stored of None \<Rightarrow> of_int capacity
                    | Some (tok, last_refill) \<Rightarrow> refill rate capacity tok (now - last_refill))
      in if tokens \<ge> 1 then (True, Some (tokens - 1, now)) else (False, stored))"

text \<open>\<open>remote\<close> is \<open>None\<close> without Redis, else the answer of the script for a key.\<close>

definition check_limit ::
    "(string \<Rightarrow> limit_conf \<Rightarrow> bool) option \<Rightarrow> string \<Rightarrow> tool_info \<Rightarrow> time \<Rightarrow> tool_limiter
      \<Rightarrow> exn option \<times> tool_limiter" where
  "check_limit remote key tool now s =
     (let c = get_limit_config key tool s;
          (allowed, s') = (case remote of Some script \<Rightarrow> (script key c, s) | None \<Rightarrow> check_local_limit key c now s)
      in if \<not> allowed
         then (Some (RateLimitExceededError [Lit ''Rate limit exceeded for '', Lit key] (Some 60)
                 (Some [Num (of_int (lc_capacity c)), Lit ''/'', Num (lc_rate c), Lit ''s'']) None), s')
         else (None, s'))"

definition tool_keys :: "string \<Rightarrow> string \<Rightarrow> tool_info \<Rightarrow> string list" where
  "tool_keys user tenant tool =
     [''tool:global:'' @ ti_name tool,
      ''tool:tenant:'' @ tenant @ '':'' @ ti_name tool,
      ''tool:user:'' @ user @ '':'' @ ti_name tool]"

fun check_keys ::
    "(string \<Rightarrow> limit_conf \<Rightarrow> bool) option \<Rightarrow> (string \<times> tool_info) list \<Rightarrow> time \<Rightarrow> tool_limiter
      \<Rightarrow> exn option \<times> tool_limiter" where
  "check_keys remote [] now s = (None, s)"
| "check_keys remote ((key, tool) # rest) now s =
     (case check_limit remote key tool now s of
        (Some e, s') \<Rightarrow> (Some e, s')
      | (None, s') \<Rightarrow> check_keys remote rest now s')"

definition check_limits ::
    "(string \<Rightarrow> limit_conf \<Rightarrow> bool) option \<Rightarrow> string \<Rightarrow> string \<Rightarrow> tool_info list \<Rightarrow> time \<Rightarrow> tool_limiter
      \<Rightarrow> exn option \<times> tool_limiter" where
  "check_limits remote user tenant tools now s =
     check_keys remote (concat (map (\<lambda>t. map (\<lambda>k. (k, t)) (tool_keys user tenant t)) tools)) now s"

definition reset_limit :: "string \<Rightarrow> tool_limiter \<Rightarrow> tool_limiter" where
  "reset_limit key s = s\<lparr>tl_local := dict_pop key (tl_local s)\<rparr>"

text \<open>Without Redis \<open>get_remaining\<close> is 0; with it, the integer part of the stored tokens.\<close>

definition get_remaining :: "(rat \<times> rat) option \<Rightarrow> int" where
  "get_remaining stored = (case stored of None \<Rightarrow> 0 | Some (tokens, _) \<Rightarrow> \<lfloor>tokens\<rfloor>)"

section \<open>A bucket bounds the number of admitted calls\<close>

text \<open>The answers of a bucket to unit requests at the given times, and the bucket left.\<close>

fun consume_run :: "time list \<Rightarrow> bucket \<Rightarrow> bool list \<times> bucket" where
  "consume_run [] b = ([], b)"
| "consume_run (t # ts) b =
     (let (ok, b1) = consume 1 t b; (oks, b2) = consume_run ts b1 in (ok # oks, b2))"

definition bucket_ok :: "bucket \<Rightarrow> bool" where
  "bucket_ok b \<longleftrightarrow> 0 \<le> tb_tokens b \<and> tb_tokens b \<le> of_int (tb_capacity b) \<and> 0 \<le> tb_rate b"

lemma total_seconds_add: "total_seconds (a - b) + total_seconds (b - c) = total_seconds (a - c)"
  by (simp add: total_seconds_def diff_divide_distrib)

lemma total_seconds_nonneg: "b \<le> a \<Longrightarrow> 0 \<le> total_seconds (a - b)"
  by (simp add: total_seconds_def)

lemma consume_step:
  assumes ok: "bucket_ok b" and t: "tb_last_refill b \<le> t" and r: "consume 1 t b = (admit, b')"
  shows "bucket_ok b' \<and> tb_rate b' = tb_rate b \<and> tb_capacity b' = tb_capacity b \<and> tb_last_refill b' = t
    \<and> (if admit then 1 else 0) + tb_tokens b' \<le> tb_tokens b + total_seconds (t - tb_last_refill b) * tb_rate b"
proof -
  let ?x = "tb_tokens b + total_seconds (t - tb_last_refill b) * tb_rate b"
  have "0 \<le> total_seconds (t - tb_last_refill b) * tb_rate b"
    using ok total_seconds_nonneg [OF t] by (simp add: bucket_ok_def)
  with ok have "0 \<le> min (of_int (tb_capacity b)) ?x" by (simp add: bucket_ok_def)
  with r ok show ?thesis
    by (auto simp: consume_def refill_def bucket_ok_def Let_def split: if_splits)
qed

lemma consume_run_bound:
  assumes "bucket_ok b" and "sorted (tb_last_refill b # ts)" and "consume_run ts b = (oks, b')"
  shows "of_nat (length (filter (\<lambda>x. x) oks)) + tb_tokens b'
    \<le> tb_tokens b + total_seconds (last (tb_last_refill b # ts) - tb_last_refill b) * tb_rate b
    \<and> 0 \<le> tb_tokens b'"
  using assms
proof (induction ts arbitrary: b oks)
  case Nil
  then show ?case by (auto simp: bucket_ok_def total_seconds_def)
next
  case (Cons t ts)
  obtain ok b1 where s: "consume 1 t b = (ok, b1)" by force
  obtain oks' where run: "consume_run ts b1 = (oks', b')" and oks: "oks = ok # oks'"
    using Cons.prems(3) s by (auto split: prod.splits)
  from Cons.prems(2) have le: "tb_last_refill b \<le> t" by simp
  note st = consume_step [OF Cons.prems(1) le s]
  with Cons.prems(2) have "bucket_ok b1" "sorted (tb_last_refill b1 # ts)" by auto
  from Cons.IH [OF this run] st
  have "of_nat (length (filter (\<lambda>x. x) oks')) + tb_tokens b' \<le> tb_tokens b1 + total_seconds (last (t # ts) - t) * tb_rate b"
      "0 \<le> tb_tokens b'" by auto
  moreover have "total_seconds (last (t # ts) - t) * tb_rate b + total_seconds (t - tb_last_refill b) * tb_rate b
      = total_seconds (last (t # ts) - tb_last_refill b) * tb_rate b"
    by (simp add: total_seconds_add flip: distrib_right)
  ultimately show ?case using st oks by (auto split: if_splits)
qed

text \<open>
  Whatever the requests, a bucket admits over any stretch of time at most its capacity plus
  what the rate refills in that time.
\<close>
theorem token_bucket_bound:
  assumes "0 \<le> rate" and "0 \<le> capacity" and "sorted (start # ts)"
  shows "of_nat (length (filter (\<lambda>x. x) (fst (consume_run ts (new_bucket rate capacity start)))))
    \<le> of_int capacity + total_seconds (last (start # ts) - start) * rate"
proof -
  obtain oks b' where run: "consume_run ts (new_bucket rate capacity start) = (oks, b')" by force
  have "bucket_ok (new_bucket rate capacity start)"
    using assms(1,2) by (simp add: bucket_ok_def new_bucket_def)
  from consume_run_bound [OF this _ run] assms(3) run show ?thesis by (simp add: new_bucket_def)
qed

theorem token_bucket_bound_witness:
  "of_nat (length (filter (\<lambda>x. x) (fst (consume_run [0, 0, 0, second] (new_bucket 1 2 0))))) \<le> (3 :: rat)"
  using token_bucket_bound [of 1 2 0 "[0, 0, 0, second]"] by (simp add: total_seconds_def second_def)

section \<open>The script agrees with the local bucket\<close>

text \<open>
  What the two stores have in common: the stored tokens refilled up to the local bucket's last
  refill are the local tokens.
\<close>

definition same_bucket :: "rat \<Rightarrow> int \<Rightarrow> bucket \<Rightarrow> (rat \<times> rat) option \<Rightarrow> bool" where
  "same_bucket rate capacity b stored \<longleftrightarrow> tb_rate b = rate \<and> tb_capacity b = capacity \<and>
     (case stored of
        None \<Rightarrow> tb_tokens b = of_int capacity
      | Some (tok, lst) \<Rightarrow> lst \<le> total_seconds (tb_last_refill b) \<and>
          tb_tokens b = refill rate capacity tok (total_seconds (tb_last_refill b) - lst))"

lemma refill_twice:
  assumes "0 \<le> rate" and "0 \<le> d2"
  shows "refill rate cap (refill rate cap tok d1) d2 = refill rate cap tok (d1 + d2)"
proof -
  have "0 \<le> d2 * rate" using assms by simp
  then show ?thesis by (auto simp: refill_def min_def algebra_simps)
qed

lemma refill_full: "0 \<le> rate \<Longrightarrow> 0 \<le> d \<Longrightarrow> refill rate cap (of_int cap) d = of_int cap"
  by (simp add: refill_def min_def)

lemma script_step:
  assumes "same_bucket rate cap b stored" and "0 \<le> rate" and "tb_last_refill b \<le> t"
    and "consume 1 t b = (ok, b')" and "redis_script (total_seconds t) rate cap stored = (ok', stored')"
  shows "ok' = ok \<and> same_bucket rate cap b' stored' \<and> tb_last_refill b' = t"
proof -
  have ts: "total_seconds (t - tb_last_refill b) = total_seconds t - total_seconds (tb_last_refill b)"
    by (simp add: total_seconds_def diff_divide_distrib)
  have d: "0 \<le> total_seconds t - total_seconds (tb_last_refill b)"
    using total_seconds_nonneg [OF assms(3)] ts by simp
  show ?thesis
  proof (cases stored)
    case None
    with assms d refill_full [OF assms(2) d, of cap] show ?thesis
      by (auto simp: same_bucket_def consume_def redis_script_def ts Let_def refill_def split: if_splits)
  next
    case (Some p)
    obtain tok lst where p: "p = (tok, lst)" by force
    from assms(1) Some p have b: "tb_rate b = rate" "tb_capacity b = cap" "lst \<le> total_seconds (tb_last_refill b)"
        "tb_tokens b = refill rate cap tok (total_seconds (tb_last_refill b) - lst)"
      by (auto simp: same_bucket_def)
    have eq: "refill rate cap (tb_tokens b) (total_seconds t - total_seconds (tb_last_refill b))
        = refill rate cap tok (total_seconds t - lst)"
      using refill_twice [OF assms(2) d, of cap tok] by (simp add: b(4))
    have cap: "refill rate cap x 0 = x" if "x \<le> of_int cap" for x
      using that by (simp add: refill_def)
    have "refill rate cap tok (total_seconds t - lst) \<le> of_int cap" by (simp add: refill_def)
    with assms(4,5) Some p b(1-3) eq d cap show ?thesis
      by (auto simp: same_bucket_def consume_def redis_script_def ts Let_def split: if_splits)
  qed
qed

fun script_run :: "rat \<Rightarrow> int \<Rightarrow> time list \<Rightarrow> (rat \<times> rat) option \<Rightarrow> bool list" where
  "script_run rate cap [] stored = []"
| "script_run rate cap (t # ts) stored =
     (let (ok, stored') = redis_script (total_seconds t) rate cap stored in ok # script_run rate cap ts stored')"

lemma script_run_same:
  assumes "same_bucket rate cap b stored" and "0 \<le> rate" and "sorted (tb_last_refill b # ts)"
  shows "script_run rate cap ts stored = fst (consume_run ts b)"
  using assms
proof (induction ts arbitrary: b stored)
  case Nil
  then show ?case by simp
next
  case (Cons t ts)
  obtain ok b1 where c: "consume 1 t b = (ok, b1)" by force
  obtain ok' st1 where r: "redis_script (total_seconds t) rate cap stored = (ok', st1)" by force
  from Cons.prems(3) have "tb_last_refill b \<le> t" by simp
  from script_step [OF Cons.prems(1,2) this c r]
  have "ok' = ok" "same_bucket rate cap b1 st1" "tb_last_refill b1 = t" by auto
  with Cons.IH [of b1 st1] Cons.prems(2,3) c r show ?case by (simp add: split_beta)
qed

text \<open>
  As long as its key does not expire, the bucket kept in Redis gives, request by request, the
  answers of the local bucket, although it stores nothing on a refusal.
\<close>
theorem redis_bucket_equivalent:
  assumes "0 \<le> rate" and "sorted (start # ts)"
  shows "script_run rate cap ts None = fst (consume_run ts (new_bucket rate cap start))"
  by (rule script_run_same) (use assms in \<open>simp_all add: same_bucket_def new_bucket_def\<close>)

theorem redis_bucket_equivalent_witness:
  "script_run (1 / 2) 1 [0, second, 2 * second] None = fst (consume_run [0, second, 2 * second] (new_bucket (1 / 2) 1 0))"
  by (rule redis_bucket_equivalent) (simp_all add: second_def)

section \<open>Limit strings\<close>

text \<open>
  A limit string printed as a number and one of the known periods is read back as that number
  of tokens per that many seconds, with the number as the capacity of the bucket.
\<close>
theorem parse_limit_meaning:
  assumes "(p, secs) \<in> set period_table"
  shows "parse_limit (nat_str n @ ''/'' @ p) = \<lparr>lc_rate = of_nat n / of_int secs, lc_capacity = int n\<rparr>"
proof -
  from assms have p: "CHR ''/'' \<notin> set p" and "dict_get period_table p = Some secs"
    by (auto simp: period_table_def dict_get_Cons)
  then have "dict_get_or period_table p 60 = secs" by (simp add: dict_get_or_def)
  with split_limit_render [OF p, of n] show ?thesis by (simp add: parse_limit_def)
qed

theorem parse_limit_meaning_witness:
  "parse_limit (nat_str 30 @ ''/'' @ ''minute'') = \<lparr>lc_rate = 1 / 2, lc_capacity = 30\<rparr>"
  using parse_limit_meaning [of "''minute''" 60 30] by (simp add: period_table_def)

end
