(* ===== verification/ApiRateLimit.thy ===== *)
theory ApiRateLimit
  imports RateLimits
begin

text \<open>
  \<open>src/api/middleware/rate_limit.py\<close>: the limits a request has to pass and the strategies that
  count it. The settings are a record; the replies of Redis (a counter, a set cardinality, the
  stored tokens) are arguments of the strategies. Times are in microseconds.
\<close>

section \<open>Settings and requests\<close>

record rl_settings =
  rs_enabled :: bool
  rs_default_limit :: string
  rs_endpoint_limits :: "(string, string) dict"
  rs_user_limits :: "(string, string) dict"
  rs_tenant_limits :: "(string, string) dict"

definition default_settings :: rl_settings where
  "default_settings =
     \<lparr>rs_enabled = True, rs_default_limit = ''100/minute'', rs_endpoint_limits = [],
      rs_user_limits = [], rs_tenant_limits = []\<rparr>"

type_synonym identifiers = "(string, string) dict"

text \<open>What \<open>_get_identifiers\<close> reads off the request; \<open>sub\<close> defaults to \<open>anonymous\<close>.\<close>

record request_info =
  rq_user :: "string option option"
  rq_tenant :: "string option"
  rq_api_key :: "string option"
  rq_ip :: string
  rq_path :: string

definition get_identifiers :: "request_info \<Rightarrow> identifiers" where
  "get_identifiers r =
     (let i1 = (case rq_user r of None \<Rightarrow> []
                | Some sub \<Rightarrow> [(''user'', case sub of None \<Rightarrow> ''anonymous'' | Some s \<Rightarrow> s)]);
          i2 = (case rq_tenant r of None \<Rightarrow> i1 | Some t \<Rightarrow> i1 @ [(''tenant'', t)]);
          i3 = (case rq_api_key r of None \<Rightarrow> i2 | Some k \<Rightarrow> if k = [] then i2 else i2 @ [(''api_key'', k)])
      in i3 @ [(''ip'', rq_ip r), (''endpoint'', rq_path r)])"

section \<open>Limit strings\<close>

definition parse_limit :: "string \<Rightarrow> int \<times> string" where
  "parse_limit s = (case split_limit s of Some x \<Rightarrow> x | None \<Rightarrow> (100, ''minute''))"

definition parse_period :: "string \<Rightarrow> int" where
  "parse_period p =
     dict_get_or [(''second'', 1), (''minute'', 60), (''hour'', 3600), (''day'', 86400), (''week'', 604800)] p 60"

section \<open>Strategies\<close>

text \<open>The in-memory log of a key; the count it returns includes the request itself.\<close>

definition memory_step :: "time \<Rightarrow> time \<Rightarrow> time list \<Rightarrow> int \<times> time list" where
  "memory_step period now w =
     (let w' = filter (\<lambda>t. t > now - period) w @ [now] in (int (length w'), w'))"

text \<open>With Redis the strategy decides: an \<open>INCR\<close> reply, a \<open>ZCARD\<close> reply, or a stored bucket.\<close>

datatype redis_reply =
    FixedWindow int
  | SlidingWindow int
  | TokenBucket "(rat \<times> rat option) option"

definition redis_count :: "int \<Rightarrow> int \<Rightarrow> rat \<Rightarrow> redis_reply \<Rightarrow> int \<times> (rat \<times> rat) option" where
  "redis_count max_requests period now reply =
     (case reply of
        FixedWindow n \<Rightarrow> (n, None)
      | SlidingWindow n \<Rightarrow> (n, None)
      | TokenBucket None \<Rightarrow> (0, Some (of_int max_requests, now))
      | TokenBucket (Some (tok, lst)) \<Rightarrow>
          (let last_refill = (case lst of None \<Rightarrow> now | Some l \<Rightarrow> l);
               add = (now - last_refill) * (of_int max_requests / of_int period);
               tokens = min (of_int max_requests) (tok + add)
           in if tokens \<ge> 1 then (0, Some (tokens - 1, now)) else (max_requests, None)))"

section \<open>Checking\<close>

type_synonym storage = "(string, time list) dict"

definition rate_limit_error :: "int \<Rightarrow> string \<Rightarrow> exn" where
  "rate_limit_error period limit_str =
     RateLimitExceededError [Lit ''Rate limit exceeded''] (Some period) (Some [Lit limit_str]) None"

text \<open>\<open>remote\<close> is the Redis reply for a key, or \<open>None\<close> for the in-memory storage.\<close>

definition check_limit ::
    "(string \<Rightarrow> redis_reply) option \<Rightarrow> string \<Rightarrow> string \<Rightarrow> time \<Rightarrow> storage \<Rightarrow> exn option \<times> storage" where
  "check_limit remote key limit_str now m =
     (let (max_requests, period) = parse_limit limit_str;
          period_seconds = parse_period period;
          (current, m') =
            (case remote of
               Some replies \<Rightarrow> (fst (redis_count max_requests period_seconds (total_seconds now) (replies key)), m)
             | None \<Rightarrow> (let (n, w) = memory_step (period_seconds * second) now (dict_get_or m key [])
                       in (n, dict_set key w m)))
      in (if current > max_requests then Some (rate_limit_error period_seconds limit_str) else None, m'))"

definition limit_checks :: "rl_settings \<Rightarrow> identifiers \<Rightarrow> (string \<times> string) list" where
  "limit_checks st ids =
     (let endpoint = dict_get_or ids ''endpoint'' [];
          for_id = (\<lambda>kind limits. case dict_get ids kind of
             None \<Rightarrow> []
           | Some v \<Rightarrow> if v = [] then []
                       else (case dict_get limits v of None \<Rightarrow> [] | Some l \<Rightarrow> [(kind @ '':'' @ v, l)]))
      in (case dict_get (rs_endpoint_limits st) endpoint of None \<Rightarrow> [] | Some l \<Rightarrow> [(''endpoint:'' @ endpoint, l)])
         @ for_id ''user'' (rs_user_limits st) @ for_id ''tenant'' (rs_tenant_limits st)
         @ [(''default:'' @ dict_get_or ids ''ip'' ''unknown'', rs_default_limit st)])"

fun run_checks ::
    "(string \<Rightarrow> redis_reply) option \<Rightarrow> (string \<times> string) list \<Rightarrow> time \<Rightarrow> storage \<Rightarrow> exn option \<times> storage" where
  "run_checks remote [] now m = (None, m)"
| "run_checks remote ((key, l) # rest) now m =
     (case check_limit remote key l now m of
        (Some e, m') \<Rightarrow> (Some e, m')
      | (None, m') \<Rightarrow> run_checks remote rest now m')"

definition check_rate_limits ::
    "rl_settings \<Rightarrow> (string \<Rightarrow> redis_reply) option \<Rightarrow> identifiers \<Rightarrow> time \<Rightarrow> storage \<Rightarrow> exn option \<times> storage" where
  "check_rate_limits st remote ids now m = run_checks remote (limit_checks st ids) now m"

text \<open>
  \<open>dispatch\<close>: the request is passed on, or answered with the status, code, \<open>retry_after\<close> and
  \<open>limit\<close> of the error.
\<close>

datatype dispatched = Forwarded | TooMany int string pyval pyval

definition exceeded_response :: "exn \<Rightarrow> dispatched" where
  "exceeded_response e =
     TooMany (case ex_status e of None \<Rightarrow> 0 | Some n \<Rightarrow> n) (case ex_code e of None \<Rightarrow> [] | Some c \<Rightarrow> c)
       (dict_get_or (ex_details e) ''retry_after'' PNone) (dict_get_or (ex_details e) ''limit'' PNone)"

definition dispatch ::
    "rl_settings \<Rightarrow> (string \<Rightarrow> redis_reply) option \<Rightarrow> request_info \<Rightarrow> time \<Rightarrow> storage \<Rightarrow> dispatched \<times> storage" where
  "dispatch st remote r now m =
     (if \<not> rs_enabled st then (Forwarded, m)
      else (case check_rate_limits st remote (get_identifiers r) now m of
              (Some e, m') \<Rightarrow> (exceeded_response e, m')
            | (None, m') \<Rightarrow> (Forwarded, m')))"

section \<open>The in-memory strategy is a sliding window\<close>

definition memory_admit :: "int \<Rightarrow> time \<Rightarrow> time \<Rightarrow> time list \<Rightarrow> bool \<times> time list" where
  "memory_admit max_requests period now w =
     (let (n, w') = memory_step period now w in (\<not> n > max_requests, w'))"

interpretation memory: window_limiter "memory_admit cap period" cap period
  by unfold_locales (auto simp: memory_admit_def memory_step_def Let_def)

text \<open>Requests checked against one key at the given times, with in-memory storage.\<close>

fun key_run :: "string \<Rightarrow> string \<Rightarrow> time list \<Rightarrow> storage \<Rightarrow> time list" where
  "key_run key l [] m = []"
| "key_run key l (t # ts) m =
     (case check_limit None key l t m of
        (None, m') \<Rightarrow> t # key_run key l ts m'
      | (Some e, m') \<Rightarrow> key_run key l ts m')"

lemma key_run_admitted:
  "key_run key l ts m =
     memory.admitted (fst (parse_limit l)) (parse_period (snd (parse_limit l)) * second) (dict_get_or m key []) ts"
proof (induction ts arbitrary: m)
  case Nil
  then show ?case by simp
next
  case (Cons t ts)
  obtain n w where w: "memory_step (parse_period (snd (parse_limit l)) * second) t (dict_get_or m key []) = (n, w)"
    by force
  have "dict_get_or (dict_set key w m) key [] = w" by (simp add: dict_get_or_def)
  moreover have "memory_admit (fst (parse_limit l)) (parse_period (snd (parse_limit l)) * second) t (dict_get_or m key [])
      = (\<not> n > fst (parse_limit l), w)"
    using w by (simp add: memory_admit_def)
  ultimately show ?case using Cons [of "dict_set key w m"] w
    by (simp add: check_limit_def split_beta Let_def)
qed

text \<open>
  With the in-memory storage, however requests arrive, no window of one period contains more
  admitted requests of a key than its limit allows.
\<close>
theorem memory_limit_enforced:
  assumes "sorted ts" and "parse_limit l = (max_requests, p)" and "0 \<le> max_requests"
  shows "int (length (filter (\<lambda>t. now - parse_period p * second < t \<and> t \<le> now) (key_run key l ts m))) \<le> max_requests"
  using memory.at_most_cap [OF assms(1,3), where period = "parse_period p * second" and now = now
      and w = "dict_get_or m key []"] assms(2)
  by (simp add: key_run_admitted memory.in_window_def)

theorem memory_limit_enforced_witness:
  "int (length (filter (\<lambda>t. 3 - 60 * second < t \<and> t \<le> 3) (key_run ''k'' ''2/minute'' [1, 2, 3] []))) \<le> 2"
proof -
  have p: "parse_limit ''2/minute'' = (2, ''minute'')"
    by (simp add: parse_limit_def split_limit_def py_int_def strip_def is_space_def is_digit_def digit_val_def)
  have "parse_period ''minute'' = 60" by (simp add: parse_period_def dict_get_or_def dict_get_Cons)
  with memory_limit_enforced [OF _ p, of "[1, 2, 3]" 3 "''k''" "[]"] show ?thesis by simp
qed

text \<open>
  A request that is refused is answered with status 429, code \<open>RATE_LIMIT_EXCEEDED\<close>, the
  period of the limit as \<open>retry_after\<close> and the limit string; a forwarded one has passed every
  applicable limit. With rate limiting disabled every request is forwarded and nothing is stored.
\<close>
theorem dispatch_outcome:
  "(\<not> rs_enabled st \<longrightarrow> dispatch st remote r now m = (Forwarded, m))
   \<and> (fst (dispatch st remote r now m) \<noteq> Forwarded \<longrightarrow>
        (\<exists>(key, l) \<in> set (limit_checks st (get_identifiers r)).
           fst (dispatch st remote r now m) =
             TooMany 429 ''RATE_LIMIT_EXCEEDED'' (PInt (parse_period (snd (parse_limit l)))) (PStr l)))"
proof -
  have err: "(\<exists>(key, l) \<in> set cs. fst (run_checks remote cs now m) = Some (rate_limit_error (parse_period (snd (parse_limit l))) l))"
    if "fst (run_checks remote cs now m) \<noteq> None" for cs m
    using that
  proof (induction cs arbitrary: m)
    case Nil
    then show ?case by simp
  next
    case (Cons kl cs)
    obtain key l where kl: "kl = (key, l)" by force
    obtain e m' where c: "check_limit remote key l now m = (e, m')" by force
    show ?case
    proof (cases e)
      case None
      with Cons kl c show ?thesis by auto
    next
      case (Some x)
      with c have "x = rate_limit_error (parse_period (snd (parse_limit l))) l"
        by (auto simp: check_limit_def Let_def split: prod.splits if_splits)
      with Some kl c show ?thesis by simp
    qed
  qed
  have resp: "exceeded_response (rate_limit_error n l) = TooMany 429 ''RATE_LIMIT_EXCEEDED'' (PInt n) (PStr l)" for n l
    by (simp add: exceeded_response_def rate_limit_error_def exn_ctor_defs details_with_def opt_val_def
        msg_val_def dict_get_or_def)
  show ?thesis
  proof (cases "rs_enabled st")
    case False
    then show ?thesis by (simp add: dispatch_def)
  next
    case True
    obtain e m' where run: "check_rate_limits st remote (get_identifiers r) now m = (e, m')" by force
    show ?thesis
    proof (cases e)
      case None
      with run True show ?thesis by (simp add: dispatch_def)
    next
      case (Some x)
      with run err [of "limit_checks st (get_identifiers r)" m] obtain key l where
          "(key, l) \<in> set (limit_checks st (get_identifiers r))"
          "x = rate_limit_error (parse_period (snd (parse_limit l))) l"
        by (auto simp: check_rate_limits_def)
      with run Some True resp show ?thesis by (auto simp: dispatch_def)
    qed
  qed
qed

definition ex_settings :: rl_settings where
  "ex_settings = default_settings\<lparr>rs_default_limit := ''0/hour''\<rparr>"

definition ex_request :: request_info where
  "ex_request = \<lparr>rq_user = None, rq_tenant = None, rq_api_key = None, rq_ip = ''10.0.0.1'', rq_path = ''/x''\<rparr>"

theorem dispatch_outcome_witness:
  "fst (dispatch ex_settings None ex_request 5 []) = TooMany 429 ''RATE_LIMIT_EXCEEDED'' (PInt 3600) (PStr ''0/hour'')"
proof -
  have p: "parse_limit ''0/hour'' = (0, ''hour'')"
    by (simp add: parse_limit_def split_limit_def py_int_def strip_def is_space_def is_digit_def digit_val_def)
  have h: "parse_period ''hour'' = 3600" by (simp add: parse_period_def dict_get_or_def dict_get_Cons)
  have ids: "limit_checks ex_settings (get_identifiers ex_request) = [(''default:10.0.0.1'', ''0/hour'')]"
    by (simp add: limit_checks_def get_identifiers_def ex_settings_def default_settings_def ex_request_def
        dict_get_or_def dict_get_Cons Let_def)
  have "rs_enabled ex_settings" by (simp add: ex_settings_def default_settings_def)
  then have "fst (dispatch ex_settings None ex_request 5 []) \<noteq> Forwarded"
    by (simp add: dispatch_def check_rate_limits_def ids check_limit_def p h memory_step_def Let_def
        exceeded_response_def dict_get_or_def)
  with dispatch_outcome [of ex_settings None ex_request 5 "[]"] ids p h show ?thesis by simp
qed

text \<open>
  Under the token-bucket strategy no limit is ever enforced, whatever Redis holds: a bucket
  without tokens is reported as a count equal to the limit, and only a larger count is refused.
\<close>
theorem token_bucket_never_limits:
  assumes "\<And>key. \<exists>b. replies key = TokenBucket b" and "\<And>key l. (key, l) \<in> set (limit_checks st ids) \<Longrightarrow> 0 \<le> fst (parse_limit l)"
  shows "check_rate_limits st (Some replies) ids now m = (None, m)"
proof -
  have "fst (redis_count n p t (TokenBucket b)) \<le> n" if "0 \<le> n" for n p t b
    using that by (auto simp: redis_count_def Let_def split: option.splits prod.splits)
  then have "check_limit (Some replies) key l now m = (None, m)" if "0 \<le> fst (parse_limit l)" for key l
    using that assms(1) [of key] by (auto simp: check_limit_def split_beta Let_def not_less)
  then have "run_checks (Some replies) cs now m = (None, m)" if "\<forall>(key, l) \<in> set cs. 0 \<le> fst (parse_limit l)" for cs
    using that by (induction cs) auto
  moreover have "\<forall>(key, l) \<in> set (limit_checks st ids). 0 \<le> fst (parse_limit l)" using assms(2) by auto
  ultimately show ?thesis unfolding check_rate_limits_def by blast
qed

theorem token_bucket_never_limits_witness:
  "check_rate_limits default_settings (Some (\<lambda>k. TokenBucket (Some (0, Some 9)))) [(''ip'', ''10.0.0.1'')] 9 [] = (None, [])"
proof (rule token_bucket_never_limits)
  have p: "parse_limit ''100/minute'' = (100, ''minute'')"
    by (simp add: parse_limit_def split_limit_def py_int_def strip_def is_space_def is_digit_def digit_val_def)
  show "0 \<le> fst (parse_limit l)" if "(key, l) \<in> set (limit_checks default_settings [(''ip'', ''10.0.0.1'')])" for key l
    using that p by (simp add: limit_checks_def default_settings_def dict_get_or_def dict_get_Cons Let_def)
qed simp

end
