(* ===== verification/ApiKeys.thy ===== *)
theory ApiKeys
  imports RateLimits
begin

text \<open>
  \<open>src/gateway/developer_portal/api_key_manager.py\<close>: keys stored under their hash, with
  validation, revocation, rotation, the rate limit of a key and its usage log. SHA-256 is the
  parameter \<open>hash\<close>; the random key and key id are arguments of the operations that draw them.
\<close>

section \<open>State\<close>

record key_info =
  ki_key_id :: string
  ki_tenant_id :: string
  ki_name :: string
  ki_permissions :: "string list"
  ki_created_at :: time
  ki_expires_at :: time
  ki_last_used :: "time option"
  ki_rate_limit :: string
  ki_active :: bool
  ki_revoked_at :: "time option"
  ki_rotated_at :: "time option"
  ki_new_key_id :: "string option"

record usage_entry =
  ue_timestamp :: time
  ue_endpoint :: string
  ue_status_code :: int

record key_manager =
  km_keys :: "(string, key_info) dict"
  km_usage :: "(string, usage_entry list) dict"
  km_rate_limits :: "(string, time list) dict"

definition new_key_manager :: key_manager where
  "new_key_manager = \<lparr>km_keys = [], km_usage = [], km_rate_limits = []\<rparr>"

section \<open>Operations\<close>

definition generate_key ::
    "(string \<Rightarrow> string) \<Rightarrow> string \<Rightarrow> string \<Rightarrow> string \<Rightarrow> string \<Rightarrow> string list option \<Rightarrow> int \<Rightarrow> string \<Rightarrow> time
      \<Rightarrow> key_manager \<Rightarrow> key_manager" where
  "generate_key hash key key_id tenant name permissions days rate_limit now s =
     s\<lparr>km_keys := dict_set (hash key)
         \<lparr>ki_key_id = key_id, ki_tenant_id = tenant, ki_name = name,
          ki_permissions = (case permissions of None \<Rightarrow> [''*''] | Some ps \<Rightarrow> if ps = [] then [''*''] else ps),
          ki_created_at = now, ki_expires_at = now + days * day, ki_last_used = None,
          ki_rate_limit = rate_limit, ki_active = True, ki_revoked_at = None, ki_rotated_at = None,
          ki_new_key_id = None\<rparr> (km_keys s)\<rparr>"

definition validate_key :: "(string \<Rightarrow> string) \<Rightarrow> string \<Rightarrow> string \<Rightarrow> time \<Rightarrow> key_manager \<Rightarrow> bool \<times> key_manager" where
  "validate_key hash key tenant now s =
     (case dict_get (km_keys s) (hash key) of
        None \<Rightarrow> (False, s)
      | Some k \<Rightarrow>
        if ki_tenant_id k \<noteq> tenant then (False, s)
        else if \<not> ki_active k then (False, s)
        else if ki_expires_at k < now then (False, s)
        else (True, s\<lparr>km_keys := dict_set (hash key) (k\<lparr>ki_last_used := Some now\<rparr>) (km_keys s)\<rparr>))"

text \<open>The first entry with the key id and tenant, in insertion order.\<close>

definition find_key :: "string \<Rightarrow> string \<Rightarrow> key_manager \<Rightarrow> (string \<times> key_info) option" where
  "find_key key_id tenant s =
     find (\<lambda>(h, k). ki_key_id k = key_id \<and> ki_tenant_id k = tenant) (km_keys s)"

definition revoke_key :: "string \<Rightarrow> string \<Rightarrow> time \<Rightarrow> key_manager \<Rightarrow> bool \<times> key_manager" where
  "revoke_key key_id tenant now s =
     (case find_key key_id tenant s of
        None \<Rightarrow> (False, s)
      | Some (h, k) \<Rightarrow>
          (True, s\<lparr>km_keys := dict_set h (k\<lparr>ki_active := False, ki_revoked_at := Some now\<rparr>) (km_keys s)\<rparr>))"

text \<open>
  Rotation generates the new key first (with the default expiry) and then deactivates the old
  entry, which is an object: it is updated where it is, under its own hash.
\<close>

definition rotate_key ::
    "(string \<Rightarrow> string) \<Rightarrow> string \<Rightarrow> string \<Rightarrow> string \<Rightarrow> string \<Rightarrow> time \<Rightarrow> key_manager \<Rightarrow> bool \<times> key_manager" where
  "rotate_key hash new_key new_id key_id tenant now s =
     (case find_key key_id tenant s of
        None \<Rightarrow> (False, s)
      | Some (h, k) \<Rightarrow>
        (let s1 = generate_key hash new_key new_id tenant (ki_name k @ '' (rotated)'')
                    (Some (ki_permissions k)) 365 (ki_rate_limit k) now s
         in (True,
             if hash new_key = h then s1
             else s1\<lparr>km_keys := dict_set h
                      (k\<lparr>ki_active := False, ki_rotated_at := Some now, ki_new_key_id := Some new_id\<rparr>)
                      (km_keys s1)\<rparr>)))"

definition key_limit :: "string \<Rightarrow> int \<times> int" where
  "key_limit s =
     (case split_limit s of
        Some (n, p) \<Rightarrow> (n, dict_get_or period_table p 60)
      | None \<Rightarrow> (100, 60))"

definition log_step :: "int \<Rightarrow> time \<Rightarrow> time \<Rightarrow> time list \<Rightarrow> bool \<times> time list" where
  "log_step max_requests period now w =
     (let w1 = filter (\<lambda>t. t > now - period) w
      in if int (length w1) \<ge> max_requests then (False, w1) else (True, w1 @ [now]))"

definition check_key_rate_limit ::
    "(string \<Rightarrow> string) \<Rightarrow> string \<Rightarrow> time \<Rightarrow> key_manager \<Rightarrow> bool \<times> key_manager" where
  "check_key_rate_limit hash key now s =
     (case dict_get (km_keys s) (hash key) of
        None \<Rightarrow> (False, s)
      | Some k \<Rightarrow>
        (let (max_requests, secs) = key_limit (ki_rate_limit k);
             (ok, w) = log_step max_requests (secs * second) now (dict_get_or (km_rate_limits s) (hash key) [])
         in (ok, s\<lparr>km_rate_limits := dict_set (hash key) w (km_rate_limits s)\<rparr>)))"

definition track_usage :: "(string \<Rightarrow> string) \<Rightarrow> string \<Rightarrow> string \<Rightarrow> int \<Rightarrow> time \<Rightarrow> key_manager \<Rightarrow> key_manager" where
  "track_usage hash key endpoint code now s =
     s\<lparr>km_usage := dict_set (hash key)
         (append_capped 10000 \<lparr>ue_timestamp = now, ue_endpoint = endpoint, ue_status_code = code\<rparr>
            (dict_get_or (km_usage s) (hash key) [])) (km_usage s)\<rparr>"

definition get_key_info :: "string \<Rightarrow> string \<Rightarrow> key_manager \<Rightarrow> key_info option" where
  "get_key_info key_id tenant s = map_option snd (find_key key_id tenant s)"

definition list_keys :: "string \<Rightarrow> key_manager \<Rightarrow> key_info list" where
  "list_keys tenant s = filter (\<lambda>k. ki_tenant_id k = tenant) (dict_values (km_keys s))"

section \<open>Contracts\<close>

interpretation key_log: window_limiter "log_step cap period" cap period
  by unfold_locales (auto simp: log_step_def Let_def split: if_splits)

interpretation key_usage: bounded_log "append_capped 10000" 10000
  by unfold_locales (simp_all add: append_capped_eq)

datatype key_op =
    Generate string string string string "string list option" int string
  | Validate string string
  | Revoke string string
  | Rotate string string string string
  | CheckRate string
  | Track string string int

fun key_exec :: "(string \<Rightarrow> string) \<Rightarrow> key_op \<times> time \<Rightarrow> key_manager \<Rightarrow> key_manager" where
  "key_exec hash (Generate k i t n p d r, now) s = generate_key hash k i t n p d r now s"
| "key_exec hash (Validate k t, now) s = snd (validate_key hash k t now s)"
| "key_exec hash (Revoke i t, now) s = snd (revoke_key i t now s)"
| "key_exec hash (Rotate k i old t, now) s = snd (rotate_key hash k i old t now s)"
| "key_exec hash (CheckRate k, now) s = snd (check_key_rate_limit hash k now s)"
| "key_exec hash (Track k e c, now) s = track_usage hash k e c now s"

text \<open>The keys an operation draws.\<close>

fun drawn :: "key_op \<Rightarrow> string list" where
  "drawn (Generate k i t n p d r) = [k]"
| "drawn (Rotate k i old t) = [k]"
| "drawn _ = []"

lemma find_key_Some:
  "dict_ok (km_keys s) \<Longrightarrow> find_key i t s = Some (h, k) \<Longrightarrow>
     dict_get (km_keys s) h = Some k \<and> ki_key_id k = i \<and> ki_tenant_id k = t"
  by (auto simp: find_key_def find_Some_iff intro!: dict_in_get dest: nth_mem)

lemma key_exec_ok: "dict_ok (km_keys s) \<Longrightarrow> dict_ok (km_keys (key_exec hash (x, now) s))"
  by (cases x)
    (auto simp: generate_key_def validate_key_def revoke_key_def rotate_key_def check_key_rate_limit_def
      track_usage_def Let_def split: option.split prod.split)

text \<open>An entry that is inactive stays inactive, for the same tenant, unless its hash is drawn again.\<close>

definition inactive :: "string \<Rightarrow> key_manager \<Rightarrow> bool" where
  "inactive h s \<longleftrightarrow> (\<exists>k. dict_get (km_keys s) h = Some k \<and> \<not> ki_active k)"

lemma key_exec_inactive:
  assumes ok: "dict_ok (km_keys s)" and "inactive h s" and fresh: "\<forall>k \<in> set (drawn x). hash k \<noteq> h"
  shows "inactive h (key_exec hash (x, now) s)"
proof (cases x)
  case (Generate k i t n p d r)
  with assms show ?thesis by (auto simp: inactive_def generate_key_def)
next
  case (Validate k t)
  with assms show ?thesis by (auto simp: inactive_def validate_key_def split: option.split)
next
  case (Revoke i t)
  with assms show ?thesis
    by (auto simp: inactive_def revoke_key_def split: option.split dest: find_key_Some [OF ok])
next
  case (Rotate k i old t)
  with assms show ?thesis
    by (auto simp: inactive_def rotate_key_def generate_key_def Let_def split: option.split dest: find_key_Some [OF ok])
next
  case (CheckRate k)
  with assms show ?thesis by (auto simp: inactive_def check_key_rate_limit_def split: option.split prod.split)
next
  case (Track k e c)
  with assms show ?thesis by (simp add: inactive_def track_usage_def)
qed

definition revoked_inv :: "(string \<Rightarrow> string) \<Rightarrow> string \<Rightarrow> key_manager \<Rightarrow> bool" where
  "revoked_inv hash h s \<longleftrightarrow> dict_ok (km_keys s) \<and> inactive h s"

text \<open>The operations that do not draw the hash again.\<close>

definition safe_exec :: "(string \<Rightarrow> string) \<Rightarrow> string \<Rightarrow> key_op \<times> time \<Rightarrow> key_manager \<Rightarrow> key_manager" where
  "safe_exec hash h x s = (if \<forall>k \<in> set (drawn (fst x)). hash k \<noteq> h then key_exec hash x s else s)"

interpretation revoked: op_system "safe_exec hash h" "revoked_inv hash h"
proof
  fix s and x :: "key_op \<times> time"
  assume "revoked_inv hash h s"
  then show "revoked_inv hash h (safe_exec hash h x s)"
    using key_exec_ok [of s hash "fst x" "snd x"] key_exec_inactive [of s h "fst x" hash "snd x"]
    by (simp add: revoked_inv_def safe_exec_def)
qed

lemma safe_exec_run:
  "\<forall>x \<in> set xs. \<forall>k \<in> set (drawn (fst x)). hash k \<noteq> h \<Longrightarrow> fold (safe_exec hash h) xs s = fold (key_exec hash) xs s"
  by (induction xs arbitrary: s) (auto simp: safe_exec_def)

section \<open>Properties\<close>

text \<open>
  Once a key has been revoked or rotated away it never validates again, for any tenant and at
  any time, whatever operations follow, as long as no new key is drawn with the same hash.
\<close>
theorem revoked_key_stays_invalid:
  assumes "dict_ok (km_keys s)" and "find_key key_id tenant s = Some (hash key, k)"
    and "r = revoke_key key_id tenant t0 s \<or> r = rotate_key hash new_key new_id key_id tenant t0 s"
    and "hash new_key \<noteq> hash key"
    and "\<forall>x \<in> set xs. \<forall>k' \<in> set (drawn (fst x)). hash k' \<noteq> hash key"
  shows "fst r \<and> \<not> fst (validate_key hash key tenant' now (fold (key_exec hash) xs (snd r)))"
proof -
  have "fst r \<and> revoked_inv hash (hash key) (snd r)"
    using assms(1-4)
    by (auto simp: revoke_key_def rotate_key_def generate_key_def revoked_inv_def inactive_def Let_def)
  moreover from this have "revoked_inv hash (hash key) (fold (key_exec hash) xs (snd r))"
    using revoked.inv_run [of hash "hash key" "snd r" xs] safe_exec_run [OF assms(5)] by simp
  ultimately show ?thesis
    by (auto simp: revoked_inv_def inactive_def validate_key_def split: if_splits option.splits)
qed

definition ex_keys :: key_manager where
  "ex_keys = generate_key id ''k1'' ''id1'' ''acme'' ''ci'' None 30 ''2/minute'' 0 new_key_manager"

theorem revoked_key_stays_invalid_witness:
  "\<not> fst (validate_key id ''k1'' ''acme'' 9
     (fold (key_exec id) [(Generate ''k2'' ''id2'' ''acme'' ''x'' None 30 ''2/minute'', 7), (Validate ''k1'' ''acme'', 8)]
       (snd (revoke_key ''id1'' ''acme'' 5 ex_keys))))"
proof -
  have 1: "dict_ok (km_keys ex_keys)" by (simp add: ex_keys_def generate_key_def new_key_manager_def)
  obtain k where 2: "find_key ''id1'' ''acme'' ex_keys = Some (id ''k1'', k)"
    by (simp add: ex_keys_def generate_key_def new_key_manager_def find_key_def dict_set_def)
  show ?thesis
    using revoked_key_stays_invalid [where hash = id and key = "''k1''" and s = ex_keys and key_id = "''id1''"
        and tenant = "''acme''" and k = k and r = "revoke_key ''id1'' ''acme'' 5 ex_keys" and ?t0.0 = 5
        and new_key = "''k2''" and new_id = "''id2''" and tenant' = "''acme''" and now = 9
        and xs = "[(Generate ''k2'' ''id2'' ''acme'' ''x'' None 30 ''2/minute'', 7), (Validate ''k1'' ''acme'', 8)]"]
      1 2 by simp
qed

text \<open>
  A key validates exactly when it is stored under its hash for that very tenant, active and
  not expired; validation changes nothing but its last use.
\<close>
theorem validate_key_iff:
  "(fst (validate_key hash key tenant now s) \<longleftrightarrow>
     (\<exists>k. dict_get (km_keys s) (hash key) = Some k \<and> ki_tenant_id k = tenant \<and> ki_active k \<and> now \<le> ki_expires_at k))
   \<and> (\<forall>h k. dict_get (km_keys s) h = Some k \<longrightarrow>
        (\<exists>u. dict_get (km_keys (snd (validate_key hash key tenant now s))) h = Some (k\<lparr>ki_last_used := u\<rparr>)))"
proof -
  have id: "k\<lparr>ki_last_used := ki_last_used k\<rparr> = k" for k :: key_info by simp
  show ?thesis
    by (auto simp: validate_key_def split: option.splits) (metis id)+
qed

theorem validate_key_iff_witness:
  "fst (validate_key id ''k1'' ''acme'' 9 ex_keys) \<and> \<not> fst (validate_key id ''k1'' ''other'' 9 ex_keys)"
proof -
  have 1: "\<exists>k. dict_get (km_keys ex_keys) (id ''k1'') = Some k \<and> ki_tenant_id k = ''acme'' \<and> ki_active k \<and> 9 \<le> ki_expires_at k"
    by (simp add: ex_keys_def generate_key_def new_key_manager_def dict_set_def dict_get_Cons second_def minute_def hour_def day_def)
  then have "fst (validate_key id ''k1'' ''acme'' 9 ex_keys)"
    using validate_key_iff [of id "''k1''" "''acme''" 9 ex_keys] by simp
  moreover have "\<not> fst (validate_key id ''k1'' ''other'' 9 ex_keys)"
    using 1 validate_key_iff [of id "''k1''" "''other''" 9 ex_keys] by auto
  ultimately show ?thesis by simp
qed

end
