(* ===== verification/Rbac.thy ===== *)
theory Rbac
  imports Exceptions
begin

text \<open>
  \<open>src/security/rbac.py\<close>: roles with inherited permissions, assigned to users globally or inside a
  tenant. Python sets are sets; the recursion over inherited roles is bounded by the recursion limit
  \<open>rlim\<close>, which the hierarchy of the constructor never reaches.
\<close>

section \<open>Data\<close>

datatype permission =
    EXECUTE_SCAN | EXECUTE_RECON | EXECUTE_EXPLOIT | EXECUTE_ANALYSIS
  | READ_EXECUTIONS | READ_FINDINGS | READ_REPORTS | READ_AUDIT
  | WRITE_CONFIG | WRITE_POLICIES | WRITE_RULES
  | ADMIN_USERS | ADMIN_TENANTS | ADMIN_SYSTEM | ADMIN_AUDIT
  | USE_NMAP | USE_NUCLEI | USE_SQLMAP | USE_GOBUSTER

datatype role = ADMIN | SECURITY_ANALYST | SECURITY_ENGINEER | AUDITOR | VIEWER | API_USER

record role_config =
  rl_permissions :: "permission list"
  rl_inherits :: "role list"

record rbac =
  rb_roles :: "(role, role_config) dict"
  rb_user_roles :: "(string, role set) dict"
  rb_tenant_user_roles :: "(string, (string, role set) dict) dict"

definition all_permissions :: "permission list" where
  "all_permissions =
     [EXECUTE_SCAN, EXECUTE_RECON, EXECUTE_EXPLOIT, EXECUTE_ANALYSIS,
      READ_EXECUTIONS, READ_FINDINGS, READ_REPORTS, READ_AUDIT,
      WRITE_CONFIG, WRITE_POLICIES, WRITE_RULES,
      ADMIN_USERS, ADMIN_TENANTS, ADMIN_SYSTEM, ADMIN_AUDIT,
      USE_NMAP, USE_NUCLEI, USE_SQLMAP, USE_GOBUSTER]"

definition default_roles :: "(role, role_config) dict" where
  "default_roles =
     [(ADMIN, \<lparr>rl_permissions = all_permissions, rl_inherits = []\<rparr>),
      (SECURITY_ANALYST,
        \<lparr>rl_permissions = [EXECUTE_SCAN, READ_EXECUTIONS, READ_FINDINGS, READ_REPORTS, USE_NMAP, USE_NUCLEI],
         rl_inherits = [VIEWER]\<rparr>),
      (SECURITY_ENGINEER,
        \<lparr>rl_permissions = [EXECUTE_SCAN, EXECUTE_RECON, EXECUTE_EXPLOIT, EXECUTE_ANALYSIS, READ_EXECUTIONS,
           READ_FINDINGS, READ_REPORTS, WRITE_CONFIG, WRITE_RULES, USE_NMAP, USE_NUCLEI, USE_SQLMAP, USE_GOBUSTER],
         rl_inherits = [SECURITY_ANALYST]\<rparr>),
      (AUDITOR,
        \<lparr>rl_permissions = [READ_EXECUTIONS, READ_FINDINGS, READ_REPORTS, READ_AUDIT], rl_inherits = [VIEWER]\<rparr>),
      (VIEWER, \<lparr>rl_permissions = [READ_EXECUTIONS, READ_FINDINGS, READ_REPORTS], rl_inherits = []\<rparr>),
      (API_USER, \<lparr>rl_permissions = [EXECUTE_SCAN, READ_EXECUTIONS], rl_inherits = []\<rparr>)]"

definition new_rbac :: rbac where
  "new_rbac = \<lparr>rb_roles = default_roles, rb_user_roles = [], rb_tenant_user_roles = []\<rparr>"

section \<open>Assignments\<close>

text \<open>An absent tenant and the empty string are both falsy: the assignment is global.\<close>

definition tenant_given :: "string option \<Rightarrow> string option" where
  "tenant_given t = (case t of None \<Rightarrow> None | Some s \<Rightarrow> if s = [] then None else Some s)"

definition add_to_user :: "string \<Rightarrow> role \<Rightarrow> (string, role set) dict \<Rightarrow> (string, role set) dict" where
  "add_to_user u r m = dict_set u (insert r (dict_get_or m u {})) m"

definition assign_role :: "string \<Rightarrow> role \<Rightarrow> string option \<Rightarrow> rbac \<Rightarrow> rbac" where
  "assign_role u r t s =
     (case tenant_given t of
        None \<Rightarrow> s\<lparr>rb_user_roles := add_to_user u r (rb_user_roles s)\<rparr>
      | Some tn \<Rightarrow> s\<lparr>rb_tenant_user_roles := dict_set tn
            (add_to_user u r (dict_get_or (rb_tenant_user_roles s) tn [])) (rb_tenant_user_roles s)\<rparr>)"

definition remove_role :: "string \<Rightarrow> role \<Rightarrow> string option \<Rightarrow> rbac \<Rightarrow> rbac" where
  "remove_role u r t s =
     (case tenant_given t of
        None \<Rightarrow> s\<lparr>rb_user_roles := dict_mod u (\<lambda>rs. rs - {r}) (rb_user_roles s)\<rparr>
      | Some tn \<Rightarrow> s\<lparr>rb_tenant_user_roles :=
            dict_mod tn (dict_mod u (\<lambda>rs. rs - {r})) (rb_tenant_user_roles s)\<rparr>)"

section \<open>Permissions\<close>

text \<open>\<open>_get_role_permissions\<close> and its loop over the inherited roles.\<close>

fun role_permissions :: "nat \<Rightarrow> (role, role_config) dict \<Rightarrow> role \<Rightarrow> exn + permission set"
  and inherited_permissions :: "nat \<Rightarrow> (role, role_config) dict \<Rightarrow> role list \<Rightarrow> exn + permission set" where
  "role_permissions 0 m r = Inl RecursionErr"
| "role_permissions (Suc k) m r =
     (case dict_get m r of
        None \<Rightarrow> Inr {}
      | Some c \<Rightarrow> rbind (inherited_permissions k m (rl_inherits c)) (\<lambda>ps. Inr (set (rl_permissions c) \<union> ps)))"
| "inherited_permissions k m [] = Inr {}"
| "inherited_permissions k m (r # rs) =
     rbind (role_permissions k m r) (\<lambda>ps. rbind (inherited_permissions k m rs) (\<lambda>qs. Inr (ps \<union> qs)))"

definition tenant_roles :: "string \<Rightarrow> string option \<Rightarrow> rbac \<Rightarrow> role set" where
  "tenant_roles u t s =
     (case tenant_given t of None \<Rightarrow> {}
      | Some tn \<Rightarrow> dict_get_or (dict_get_or (rb_tenant_user_roles s) tn []) u {})"

text \<open>
  The permissions of a set of roles: an exception of any role is the outcome, and otherwise the
  union. The roles are finitely many, so the set is tested role by role.
\<close>

definition all_roles :: "role list" where
  "all_roles = [ADMIN, SECURITY_ANALYST, SECURITY_ENGINEER, AUDITOR, VIEWER, API_USER]"

definition permissions_of :: "nat \<Rightarrow> (role, role_config) dict \<Rightarrow> role set \<Rightarrow> exn + permission set" where
  "permissions_of rlim m rs =
     foldM_e (\<lambda>r ps. rbind (role_permissions rlim m r) (\<lambda>qs. Inr (ps \<union> qs))) (filter (\<lambda>r. r \<in> rs) all_roles) {}"

definition get_user_permissions :: "nat \<Rightarrow> string \<Rightarrow> string option \<Rightarrow> rbac \<Rightarrow> exn + permission set" where
  "get_user_permissions rlim u t s =
     rbind (permissions_of rlim (rb_roles s) (dict_get_or (rb_user_roles s) u {})) (\<lambda>ps.
       rbind (permissions_of rlim (rb_roles s) (tenant_roles u t s)) (\<lambda>qs. Inr (ps \<union> qs)))"

definition has_permission :: "nat \<Rightarrow> string \<Rightarrow> permission \<Rightarrow> string option \<Rightarrow> rbac \<Rightarrow> exn + bool" where
  "has_permission rlim u p t s = rbind (get_user_permissions rlim u t s) (\<lambda>ps. Inr (p \<in> ps))"

definition has_any_permission :: "nat \<Rightarrow> string \<Rightarrow> permission list \<Rightarrow> string option \<Rightarrow> rbac \<Rightarrow> exn + bool" where
  "has_any_permission rlim u pl t s =
     rbind (get_user_permissions rlim u t s) (\<lambda>ps. Inr (list_ex (\<lambda>p. p \<in> ps) pl))"

definition has_all_permissions :: "nat \<Rightarrow> string \<Rightarrow> permission list \<Rightarrow> string option \<Rightarrow> rbac \<Rightarrow> exn + bool" where
  "has_all_permissions rlim u pl t s =
     rbind (get_user_permissions rlim u t s) (\<lambda>ps. Inr (list_all (\<lambda>p. p \<in> ps) pl))"

definition get_user_roles :: "string \<Rightarrow> string option \<Rightarrow> rbac \<Rightarrow> role set" where
  "get_user_roles u t s = dict_get_or (rb_user_roles s) u {} \<union> tenant_roles u t s"

definition get_users_with_role :: "role \<Rightarrow> string option \<Rightarrow> rbac \<Rightarrow> string list" where
  "get_users_with_role r t s =
     map fst (filter (\<lambda>(u, rs). r \<in> rs)
       (case tenant_given t of None \<Rightarrow> rb_user_roles s
        | Some tn \<Rightarrow> dict_get_or (rb_tenant_user_roles s) tn []))"

section \<open>The meaning of a hierarchy\<close>

definition inherits :: "(role, role_config) dict \<Rightarrow> (role \<times> role) set" where
  "inherits m = {(r, r'). \<exists>c. dict_get m r = Some c \<and> r' \<in> set (rl_inherits c)}"

definition grants :: "(role, role_config) dict \<Rightarrow> role \<Rightarrow> permission \<Rightarrow> bool" where
  "grants m r p \<longleftrightarrow>
     (\<exists>r' c. (r, r') \<in> (inherits m)\<^sup>* \<and> dict_get m r' = Some c \<and> p \<in> set (rl_permissions c))"

lemma grants_None: "dict_get m r = None \<Longrightarrow> \<not> grants m r p"
  by (auto simp: grants_def inherits_def elim: converse_rtranclE)

lemma grants_Some:
  "dict_get m r = Some c \<Longrightarrow>
     grants m r p \<longleftrightarrow> p \<in> set (rl_permissions c) \<or> (\<exists>r' \<in> set (rl_inherits c). grants m r' p)"
proof
  assume c: "dict_get m r = Some c" and "grants m r p"
  then obtain r' c' where "(r, r') \<in> (inherits m)\<^sup>*" and c': "dict_get m r' = Some c'" "p \<in> set (rl_permissions c')"
    by (auto simp: grants_def)
  from this(1) show "p \<in> set (rl_permissions c) \<or> (\<exists>r' \<in> set (rl_inherits c). grants m r' p)"
    by (cases rule: converse_rtranclE) (use c c' in \<open>auto simp: grants_def inherits_def\<close>)
next
  assume c: "dict_get m r = Some c" and "p \<in> set (rl_permissions c) \<or> (\<exists>r' \<in> set (rl_inherits c). grants m r' p)"
  moreover have "(r, r') \<in> inherits m" if "r' \<in> set (rl_inherits c)" for r'
    using c that by (auto simp: inherits_def)
  ultimately show "grants m r p"
    unfolding grants_def by (metis converse_rtrancl_into_rtrancl rtrancl.rtrancl_refl)
qed

text \<open>A computation that returns, returns exactly what the hierarchy grants.\<close>

lemma role_permissions_sound:
  "role_permissions k m r = Inr ps \<Longrightarrow> ps = {p. grants m r p}"
  "inherited_permissions k m rs = Inr ps \<Longrightarrow> ps = {p. \<exists>r \<in> set rs. grants m r p}"
proof (induction k m r and k m rs arbitrary: ps and ps rule: role_permissions_inherited_permissions.induct)
  case (2 k m r)
  then show ?case
    by (cases "dict_get m r") (auto simp: grants_None grants_Some rbind_Inr)
next
  case (4 k m r rs)
  then show ?case by (auto simp: rbind_Inr)
qed simp_all

text \<open>Above the depth of a hierarchy the recursion returns; the depth is a rank that falls along it.\<close>

lemma role_permissions_total:
  assumes rank: "\<And>r r'. (r, r') \<in> inherits m \<Longrightarrow> rank r' < (rank r :: nat)"
  shows "rank r < k \<Longrightarrow> is_ok (role_permissions k m r)"
proof (induction k arbitrary: r)
  case (Suc k)
  have rs: "is_ok (inherited_permissions k m rs)" if "\<forall>r' \<in> set rs. is_ok (role_permissions k m r')" for rs
    using that by (induction rs) (auto simp: is_ok_def split: sum.splits)
  show ?case
  proof (cases "dict_get m r")
    case (Some c)
    then have "rank r' < rank r" if "r' \<in> set (rl_inherits c)" for r' using rank that by (auto simp: inherits_def)
    with Suc have "is_ok (inherited_permissions k m (rl_inherits c))" by (intro rs) fastforce
    with Some show ?thesis by (auto simp: is_ok_def split: sum.splits)
  qed simp
qed simp

fun default_rank :: "role \<Rightarrow> nat" where
  "default_rank SECURITY_ENGINEER = 2"
| "default_rank SECURITY_ANALYST = 1"
| "default_rank AUDITOR = 1"
| "default_rank _ = 0"

lemma default_roles_ranked: "(r, r') \<in> inherits default_roles \<Longrightarrow> default_rank r' < default_rank r"
  by (cases r) (auto simp: inherits_def default_roles_def dict_get_Cons)

lemma default_role_permissions:
  assumes "3 \<le> rlim"
  shows "role_permissions rlim default_roles r = Inr {p. grants default_roles r p}"
proof -
  have "default_rank r < rlim" using assms by (cases r) auto
  then have "is_ok (role_permissions rlim default_roles r)"
    using role_permissions_total [of default_roles default_rank r rlim] default_roles_ranked by blast
  then show ?thesis by (auto simp: is_ok_def dest: role_permissions_sound split: sum.splits)
qed

lemma foldM_union:
  assumes "\<And>r. r \<in> set rs \<Longrightarrow> f r = Inr (g r)"
  shows "foldM_e (\<lambda>r ps. rbind (f r) (\<lambda>qs. Inr (ps \<union> qs))) rs A = Inr (A \<union> (\<Union>r \<in> set rs. g r))"
  using assms by (induction rs arbitrary: A) auto

lemma set_all_roles [simp]: "set all_roles = UNIV"
proof -
  have "r \<in> set all_roles" for r by (cases r) (simp_all add: all_roles_def)
  then show ?thesis by blast
qed

lemma permissions_of_default:
  "3 \<le> rlim \<Longrightarrow> permissions_of rlim default_roles rs = Inr {p. \<exists>r \<in> rs. grants default_roles r p}"
  unfolding permissions_of_def
  by (subst foldM_union [where g = "\<lambda>r. {p. grants default_roles r p}"]) (auto simp: default_role_permissions)

section \<open>The assignments as a relation\<close>

text \<open>What the tables promise: a set of triples user, tenant (\<open>None\<close> for everywhere), role.\<close>

type_synonym assignments = "(string \<times> string option \<times> role) set"

datatype rbac_op = Assign string role "string option" | Remove string role "string option"

fun spec_assign :: "rbac_op \<Rightarrow> assignments \<Rightarrow> assignments" where
  "spec_assign (Assign u r t) A = insert (u, tenant_given t, r) A"
| "spec_assign (Remove u r t) A = A - {(u, tenant_given t, r)}"

fun rbac_exec :: "rbac_op \<Rightarrow> rbac \<Rightarrow> rbac" where
  "rbac_exec (Assign u r t) s = assign_role u r t s"
| "rbac_exec (Remove u r t) s = remove_role u r t s"

definition roles_at :: "string \<Rightarrow> string option \<Rightarrow> rbac \<Rightarrow> role set" where
  "roles_at u t s =
     (case t of None \<Rightarrow> dict_get_or (rb_user_roles s) u {}
      | Some tn \<Rightarrow> dict_get_or (dict_get_or (rb_tenant_user_roles s) tn []) u {})"

definition assigned :: "rbac \<Rightarrow> assignments" where
  "assigned s = {(u, t, r). r \<in> roles_at u t s}"

lemma roles_at_assign:
  "roles_at u t (assign_role u' r t' s) = (if u = u' \<and> t = tenant_given t' then insert r (roles_at u t s) else roles_at u t s)"
  by (auto simp: roles_at_def assign_role_def add_to_user_def dict_get_or_def split: option.splits)

lemma roles_at_remove:
  "roles_at u t (remove_role u' r t' s) = (if u = u' \<and> t = tenant_given t' then roles_at u t s - {r} else roles_at u t s)"
  by (auto simp: roles_at_def remove_role_def dict_get_or_def split: option.splits)

lemma exec_assigned: "assigned (rbac_exec a s) = spec_assign a (assigned s)"
  by (cases a) (auto simp: assigned_def roles_at_assign roles_at_remove split: if_splits)

lemma run_assigned: "assigned (fold rbac_exec ops s) = fold spec_assign ops (assigned s)"
  by (induction ops arbitrary: s) (simp_all add: exec_assigned)

lemma run_roles: "rb_roles (fold rbac_exec ops s) = rb_roles s"
proof (induction ops arbitrary: s)
  case (Cons a ops)
  have "rb_roles (rbac_exec a s) = rb_roles s"
    by (cases a) (simp_all add: assign_role_def remove_role_def split: option.split)
  with Cons show ?case by simp
qed simp

lemma tenant_roles_at: "tenant_roles u t s = (case tenant_given t of None \<Rightarrow> {} | Some tn \<Rightarrow> roles_at u (Some tn) s)"
  by (simp add: tenant_roles_def roles_at_def split: option.split)

text \<open>
  C32: After any sequence of assignments and removals a permission check returns, and it says yes
  exactly when some role that the specification counts as assigned to the user, globally or in the
  given tenant, reaches a role listing the permission along the inheritance.
\<close>
theorem has_permission_iff_granted:
  assumes "3 \<le> rlim"
  shows "has_permission rlim u p t (fold rbac_exec ops new_rbac) =
    Inr (\<exists>r. ((u, None, r) \<in> fold spec_assign ops {} \<or> tenant_given t \<noteq> None \<and> (u, tenant_given t, r) \<in> fold spec_assign ops {})
           \<and> grants default_roles r p)"
proof -
  let ?s = "fold rbac_exec ops new_rbac"
  have "assigned new_rbac = {}" by (auto simp: assigned_def roles_at_def new_rbac_def dict_get_or_def split: option.splits)
  then have A: "fold spec_assign ops {} = assigned ?s" by (simp add: run_assigned)
  have m: "rb_roles ?s = default_roles" by (simp add: run_roles new_rbac_def)
  have "dict_get_or (rb_user_roles ?s) u {} = roles_at u None ?s" by (simp add: roles_at_def)
  with assms m A show ?thesis
    by (auto simp: has_permission_def get_user_permissions_def permissions_of_default tenant_roles_at assigned_def
        split: option.splits)
qed

theorem has_permission_iff_granted_witness:
  "has_permission 1000 ''eve'' EXECUTE_EXPLOIT (Some ''acme'')
     (fold rbac_exec [Assign ''eve'' SECURITY_ENGINEER (Some ''acme''), Assign ''eve'' VIEWER None] new_rbac) = Inr True"
proof -
  have "grants default_roles SECURITY_ENGINEER EXECUTE_EXPLOIT"
    by (subst grants_Some) (auto simp: default_roles_def dict_get_Cons)
  then show ?thesis
    by (subst has_permission_iff_granted) (auto simp: tenant_given_def)
qed

end
