(* ===== verification/Abac.thy ===== *)
theory Abac
  imports Exceptions PyString
begin

text \<open>
  \<open>src/security/abac.py\<close>: policies are dictionaries, taken in order; the first one whose action,
  resource type and conditions match decides. Regular-expression matching (\<open>re.match(p, str(v))\<close>)
  is the parameter \<open>rx\<close>.
\<close>

section \<open>Attributes\<close>

fun get_nested :: "pyval \<Rightarrow> string list \<Rightarrow> pyval" where
  "get_nested v [] = v"
| "get_nested v (k # ks) =
     (case v of PDict d \<Rightarrow> get_nested (dict_get_or d k PNone) ks | _ \<Rightarrow> PNone)"

definition get_attribute :: "string \<Rightarrow> pydict \<Rightarrow> pydict \<Rightarrow> pydict \<Rightarrow> pyval" where
  "get_attribute path resource user env =
     (if prefix ''resource.'' path then get_nested (PDict resource) (split_on CHR ''.'' (drop 9 path))
      else if prefix ''user.'' path then get_nested (PDict user) (split_on CHR ''.'' (drop 5 path))
      else if prefix ''environment.'' path then get_nested (PDict env) (split_on CHR ''.'' (drop 12 path))
      else PNone)"

section \<open>Conditions\<close>

definition or_type_error :: "bool option \<Rightarrow> exn + bool" where
  "or_type_error r = (case r of None \<Rightarrow> Inl TypeErr | Some b \<Rightarrow> Inr b)"

definition is_operator :: "string \<Rightarrow> bool" where
  "is_operator op \<longleftrightarrow>
     op \<in> {''eq'', ''neq'', ''gt'', ''gte'', ''lt'', ''lte'', ''in'', ''not_in'', ''contains'', ''matches'', ''and'', ''or''}"

text \<open>
  \<open>_evaluate_condition\<close>: the first known operator of the dictionary decides, the others are not
  looked at. \<open>and\<close> and \<open>or\<close> walk over their operand; over a dictionary or a string the items are
  strings, which have no \<open>items()\<close>.
\<close>

fun eval_condition :: "(pyval \<Rightarrow> pyval \<Rightarrow> exn + bool) \<Rightarrow> pyval \<Rightarrow> pyval \<Rightarrow> exn + bool"
  and eval_operators :: "(pyval \<Rightarrow> pyval \<Rightarrow> exn + bool) \<Rightarrow> pydict \<Rightarrow> pyval \<Rightarrow> exn + bool"
  and eval_operator :: "(pyval \<Rightarrow> pyval \<Rightarrow> exn + bool) \<Rightarrow> string \<Rightarrow> pyval \<Rightarrow> pyval \<Rightarrow> exn + bool"
  and eval_all :: "(pyval \<Rightarrow> pyval \<Rightarrow> exn + bool) \<Rightarrow> bool \<Rightarrow> pyval list \<Rightarrow> pyval \<Rightarrow> exn + bool" where
  "eval_condition rx (PDict ops) v = eval_operators rx ops v"
| "eval_condition rx c v = Inl (AttributeErr ''items'')"
| "eval_operators rx [] v = Inr False"
| "eval_operators rx ((op, operand) # ops) v =
     (if is_operator op then eval_operator rx op operand v else eval_operators rx ops v)"
| "eval_operator rx op p v =
     (if op = ''eq'' then Inr (py_eq v p)
      else if op = ''neq'' then Inr (\<not> py_eq v p)
      else if op = ''gt'' then or_type_error (py_gt v p)
      else if op = ''gte'' then or_type_error (py_ge v p)
      else if op = ''lt'' then or_type_error (py_lt v p)
      else if op = ''lte'' then or_type_error (py_le v p)
      else if op = ''in'' then or_type_error (py_in v p)
      else if op = ''not_in'' then map_sum id Not (or_type_error (py_in v p))
      else if op = ''contains'' then or_type_error (py_in p v)
      else if op = ''matches'' then rx p v
      else (case p of
              PList cs \<Rightarrow> eval_all rx (op = ''and'') cs v
            | PDict d \<Rightarrow> if d = [] then Inr (op = ''and'') else Inl (AttributeErr ''items'')
            | PStr s \<Rightarrow> if s = [] then Inr (op = ''and'') else Inl (AttributeErr ''items'')
            | _ \<Rightarrow> Inl TypeErr))"
| "eval_all rx zero [] v = Inr zero"
| "eval_all rx zero (c # cs) v =
     rbind (eval_condition rx c v) (\<lambda>b. if b = zero then eval_all rx zero cs v else Inr (\<not> zero))"

section \<open>Policies\<close>

definition lookup :: "pydict \<Rightarrow> string \<Rightarrow> exn + pyval" where
  "lookup d k = (case dict_get d k of None \<Rightarrow> Inl (KeyErr k) | Some v \<Rightarrow> Inr v)"

fun eval_conditions ::
    "(pyval \<Rightarrow> pyval \<Rightarrow> exn + bool) \<Rightarrow> pydict \<Rightarrow> pydict \<Rightarrow> pydict \<Rightarrow> pydict \<Rightarrow> exn + bool" where
  "eval_conditions rx [] resource user env = Inr True"
| "eval_conditions rx ((path, c) # cs) resource user env =
     rbind (eval_condition rx c (get_attribute path resource user env)) (\<lambda>b.
       if b then eval_conditions rx cs resource user env else Inr False)"

definition evaluate_policy ::
    "(pyval \<Rightarrow> pyval \<Rightarrow> exn + bool) \<Rightarrow> pydict \<Rightarrow> pydict \<Rightarrow> pydict \<Rightarrow> pydict \<Rightarrow> exn + bool" where
  "evaluate_policy rx policy resource user env =
     (case dict_get_or policy ''conditions'' (PDict []) of
        PDict cs \<Rightarrow> eval_conditions rx cs resource user env
      | _ \<Rightarrow> Inl (AttributeErr ''items''))"

text \<open>\<open>policy[k] != "*" and policy[k] != wanted\<close>, negated.\<close>

definition field_matches :: "pydict \<Rightarrow> string \<Rightarrow> pyval \<Rightarrow> exn + bool" where
  "field_matches policy k wanted = rbind (lookup policy k) (\<lambda>v. Inr (py_eq v (PStr ''*'') \<or> py_eq v wanted))"

definition policy_applies ::
    "(pyval \<Rightarrow> pyval \<Rightarrow> exn + bool) \<Rightarrow> string \<Rightarrow> pydict \<Rightarrow> pydict \<Rightarrow> pydict \<Rightarrow> pydict \<Rightarrow> exn + bool" where
  "policy_applies rx action resource user env policy =
     rbind (field_matches policy ''action'' (PStr action)) (\<lambda>a. if \<not> a then Inr False else
       rbind (field_matches policy ''resource'' (dict_get_or resource ''type'' PNone)) (\<lambda>r. if \<not> r then Inr False else
         evaluate_policy rx policy resource user env))"

fun authorize ::
    "(pyval \<Rightarrow> pyval \<Rightarrow> exn + bool) \<Rightarrow> string \<Rightarrow> pydict \<Rightarrow> pydict \<Rightarrow> pydict \<Rightarrow> pydict list \<Rightarrow> exn + bool" where
  "authorize rx action resource user env [] = Inr False"
| "authorize rx action resource user env (p # ps) =
     rbind (policy_applies rx action resource user env p) (\<lambda>b.
       if b then rbind (lookup p ''effect'') (\<lambda>e. Inr (py_eq e (PStr ''allow'')))
       else authorize rx action resource user env ps)"

definition tenant_isolation :: pydict where
  "tenant_isolation =
     [(''name'', PStr ''tenant-isolation''), (''action'', PStr ''*''), (''resource'', PStr ''*''),
      (''conditions'', PDict [(''user.tenant_id'', PDict [(''eq'', PStr ''resource.tenant_id'')])]),
      (''effect'', PStr ''allow'')]"

definition sensitive_data_access :: pydict where
  "sensitive_data_access =
     [(''name'', PStr ''sensitive-data-access''), (''action'', PStr ''read''), (''resource'', PStr ''finding''),
      (''conditions'', PDict
         [(''user.clearance_level'', PDict [(''gte'', PStr ''resource.sensitivity_level'')]),
          (''user.tenant_id'', PDict [(''eq'', PStr ''resource.tenant_id'')])]),
      (''effect'', PStr ''allow'')]"

definition destructive_operations :: pydict where
  "destructive_operations =
     [(''name'', PStr ''destructive-operations''), (''action'', PStr ''execute''), (''resource'', PStr ''exploit''),
      (''conditions'', PDict
         [(''user.role'', PDict [(''in'', PList [PStr ''security_engineer'', PStr ''admin''])]),
          (''environment.time'', PDict [(''lt'', PStr ''18:00'')]),
          (''environment.day'', PDict [(''not_in'', PList [PStr ''Saturday'', PStr ''Sunday''])])]),
      (''effect'', PStr ''allow'')]"

definition default_policies :: "pydict list" where
  "default_policies = [tenant_isolation, sensitive_data_access, destructive_operations]"

definition add_policy :: "pydict \<Rightarrow> pydict list \<Rightarrow> pydict list" where
  "add_policy p ps = ps @ [p]"

definition remove_policy :: "string \<Rightarrow> pydict list \<Rightarrow> pydict list" where
  "remove_policy name ps = filter (\<lambda>p. \<not> py_eq (dict_get_or p ''name'' PNone) (PStr name)) ps"

section \<open>First applicable policy\<close>

text \<open>
  Authorization grants exactly when there is an applicable policy with the effect allow and no
  policy before it applies; without an applicable policy the request is denied.
\<close>
theorem authorize_first_applicable:
  "authorize rx action resource user env ps = Inr True \<longleftrightarrow>
     (\<exists>qs p rs. ps = qs @ p # rs \<and> policy_applies rx action resource user env p = Inr True
        \<and> dict_get p ''effect'' = Some (PStr ''allow'')
        \<and> list_all (\<lambda>q. policy_applies rx action resource user env q = Inr False) qs)"
    (is "?L ps \<longleftrightarrow> ?R ps")
proof (induction ps)
  case (Cons p ps)
  let ?ap = "policy_applies rx action resource user env"
  show ?case
  proof (cases "?ap p")
    case (Inl e)
    then show ?thesis by (auto simp: Cons_eq_append_conv)
  next
    case (Inr b)
    show ?thesis
    proof (cases b)
      case True
      show ?thesis
      proof
        assume "?L (p # ps)"
        with Inr True have "dict_get p ''effect'' = Some (PStr ''allow'')" by (simp add: lookup_def split: option.splits)
        with Inr True show "?R (p # ps)" by (intro exI [of _ "[]"] exI [of _ p] exI [of _ ps]) simp
      next
        assume "?R (p # ps)"
        then obtain qs q rs where d: "p # ps = qs @ q # rs" "dict_get q ''effect'' = Some (PStr ''allow'')"
            "list_all (\<lambda>q. ?ap q = Inr False) qs" by blast
        with Inr True have "qs = []" by (cases qs) auto
        with d Inr True show "?L (p # ps)" by (simp add: lookup_def)
      qed
    next
      case False
      have "?R (p # ps) \<longleftrightarrow> ?R ps"
      proof
        assume "?R (p # ps)"
        then obtain qs q rs where d: "p # ps = qs @ q # rs" "?ap q = Inr True" "dict_get q ''effect'' = Some (PStr ''allow'')"
            "list_all (\<lambda>q. ?ap q = Inr False) qs" by blast
        with Inr False have "qs \<noteq> []" by auto
        with d show "?R ps" by (cases qs) auto
      next
        assume "?R ps"
        then obtain qs q rs where "ps = qs @ q # rs" "?ap q = Inr True" "dict_get q ''effect'' = Some (PStr ''allow'')"
            "list_all (\<lambda>q. ?ap q = Inr False) qs" by blast
        with Inr False show "?R (p # ps)" by (intro exI [of _ "p # qs"]) auto
      qed
      with Cons Inr False show ?thesis by simp
    qed
  qed
qed simp

section \<open>The default policies\<close>

lemma attributes [simp]:
  "get_attribute ''user.tenant_id'' resource user env = dict_get_or user ''tenant_id'' PNone"
  "get_attribute ''user.clearance_level'' resource user env = dict_get_or user ''clearance_level'' PNone"
  "get_attribute ''user.role'' resource user env = dict_get_or user ''role'' PNone"
  "get_attribute ''environment.time'' resource user env = dict_get_or env ''time'' PNone"
  "get_attribute ''environment.day'' resource user env = dict_get_or env ''day'' PNone"
  by (simp_all add: get_attribute_def prefix_def split_on.simps)

lemma tenant_isolation_applies:
  "policy_applies rx action resource user env tenant_isolation =
     Inr (dict_get_or user ''tenant_id'' PNone = PStr ''resource.tenant_id'')"
  by (simp add: tenant_isolation_def policy_applies_def field_matches_def lookup_def evaluate_policy_def
      dict_get_Cons dict_get_or_def [of "_ # _"] is_operator_def rbind_def)

definition reads_finding :: "string \<Rightarrow> pydict \<Rightarrow> bool" where
  "reads_finding action resource \<longleftrightarrow>
     action = ''read'' \<and> dict_get_or resource ''type'' PNone = PStr ''finding''"

lemma py_eq_str_left: "py_eq (PStr s) v \<longleftrightarrow> v = PStr s"
  by simp

lemma sensitive_data_applies:
  "policy_applies rx action resource user env sensitive_data_access =
     (if reads_finding action resource
      then rbind (or_type_error (py_ge (dict_get_or user ''clearance_level'' PNone) (PStr ''resource.sensitivity_level'')))
             (\<lambda>b. Inr (b \<and> dict_get_or user ''tenant_id'' PNone = PStr ''resource.tenant_id''))
      else Inr False)"
  by (auto simp: sensitive_data_access_def policy_applies_def field_matches_def lookup_def evaluate_policy_def
      reads_finding_def dict_get_Cons dict_get_or_def [of "_ # _"] is_operator_def rbind_def split: sum.split)

definition exploit_window :: "string \<Rightarrow> pydict \<Rightarrow> pydict \<Rightarrow> pydict \<Rightarrow> bool" where
  "exploit_window action resource user env \<longleftrightarrow>
     action = ''execute'' \<and> dict_get_or resource ''type'' PNone = PStr ''exploit''
     \<and> dict_get_or user ''role'' PNone \<in> {PStr ''security_engineer'', PStr ''admin''}
     \<and> py_lt (dict_get_or env ''time'' PNone) (PStr ''18:00'') = Some True
     \<and> dict_get_or env ''day'' PNone \<notin> {PStr ''Saturday'', PStr ''Sunday''}"

lemma destructive_applies:
  "policy_applies rx action resource user env destructive_operations = Inr True
     \<longleftrightarrow> exploit_window action resource user env"
  by (auto simp: destructive_operations_def policy_applies_def field_matches_def lookup_def evaluate_policy_def
      exploit_window_def dict_get_Cons dict_get_or_def [of "_ # _"] is_operator_def rbind_def or_type_error_def py_in_def
      split: option.splits if_splits)

text \<open>
  Under the policies loaded by default the tenant of the resource is never read: for a user
  whose tenant is not the literal text resource.tenant_id, a request is granted only when it is an
  exploit executed by an engineer or administrator before six on a weekday; reading a finding
  with a numeric clearance level raises instead of answering.
\<close>
theorem default_policies_decide:
  assumes "dict_get_or user ''tenant_id'' PNone \<noteq> PStr ''resource.tenant_id''"
  shows "(authorize rx action resource user env default_policies = Inr True \<longleftrightarrow> exploit_window action resource user env)
    \<and> (reads_finding action resource \<longrightarrow> num_val (dict_get_or user ''clearance_level'' PNone) \<noteq> None \<longrightarrow>
         authorize rx action resource user env default_policies = Inl TypeErr)"
proof -
  let ?apply = "policy_applies rx action resource user env"
  have excl: "\<not> exploit_window action resource user env" if "reads_finding action resource"
    using that by (auto simp: exploit_window_def reads_finding_def)
  have 1: "?apply tenant_isolation = Inr False" using assms by (simp add: tenant_isolation_applies)
  have eff: "lookup destructive_operations ''effect'' = Inr (PStr ''allow'')"
    by (simp add: lookup_def destructive_operations_def dict_get_Cons)
  have 3: "authorize rx action resource user env [destructive_operations] = Inr True \<longleftrightarrow> exploit_window action resource user env"
  proof (cases "?apply destructive_operations")
    case (Inr b)
    with destructive_applies [of rx action resource user env] eff show ?thesis by (cases b) simp_all
  qed (use destructive_applies [of rx action resource user env] in simp)
  show ?thesis
  proof (cases "reads_finding action resource")
    case False
    then have "?apply sensitive_data_access = Inr False" by (simp add: sensitive_data_applies)
    with 1 3 False show ?thesis by (simp add: default_policies_def)
  next
    case True
    let ?c = "dict_get_or user ''clearance_level'' PNone"
    have ne: "num_val ?c \<noteq> None \<Longrightarrow> py_ge ?c (PStr s) = None" for s
      by (cases ?c) (simp_all add: py_ge_def py_le_def)
    with 1 3 excl True assms show ?thesis
      by (cases "py_ge ?c (PStr ''resource.sensitivity_level'')")
        (auto simp: default_policies_def sensitive_data_applies or_type_error_def)
  qed
qed

text \<open>An ordinary request inside one tenant, which the tenant isolation policy is meant to allow.\<close>

theorem default_policies_decide_witness:
  "authorize (\<lambda>p v. Inr False) ''read'' [(''type'', PStr ''report''), (''tenant_id'', PStr ''acme'')]
     [(''tenant_id'', PStr ''acme'')] [] default_policies \<noteq> Inr True
   \<and> authorize (\<lambda>p v. Inr False) ''read'' [(''type'', PStr ''finding''), (''tenant_id'', PStr ''acme'')]
       [(''tenant_id'', PStr ''acme''), (''clearance_level'', PInt 3)] [] default_policies = Inl TypeErr"
proof -
  let ?u = "[(''tenant_id'', PStr ''acme''), (''clearance_level'', PInt 3)]"
  have 1: "dict_get_or [(''tenant_id'', PStr ''acme'')] ''tenant_id'' PNone \<noteq> PStr ''resource.tenant_id''"
    and 2: "dict_get_or ?u ''tenant_id'' PNone \<noteq> PStr ''resource.tenant_id''"
    by (simp_all add: dict_get_or_def dict_get_Cons)
  have "num_val (dict_get_or ?u ''clearance_level'' PNone) \<noteq> None"
    "reads_finding ''read'' [(''type'', PStr ''finding''), (''tenant_id'', PStr ''acme'')]"
    "\<not> exploit_window ''read'' [(''type'', PStr ''report''), (''tenant_id'', PStr ''acme'')] [(''tenant_id'', PStr ''acme'')] []"
    by (simp_all add: dict_get_or_def dict_get_Cons reads_finding_def exploit_window_def)
  with default_policies_decide [OF 1] default_policies_decide [OF 2] show ?thesis by blast
qed

end
