(* ===== verification/StateManager.thy ===== *)
theory StateManager
  imports Exceptions Calendar
begin

text \<open>
  \<open>src/orchestrator/state_manager.py\<close>: states cached in memory in front of Redis, with versions for
  optimistic concurrency control. Redis is the dictionary \<open>sm_redis\<close> (\<open>None\<close> when the manager is not
  connected) with its documented \<open>GET\<close>, \<open>SET\<close>, \<open>DEL\<close> and \<open>KEYS\<close>; expiry is not modelled. What a
  listener does is the parameter \<open>cb\<close>, whether it returns; \<open>fmt\<close> renders a time.
\<close>

section \<open>State\<close>

record state_manager =
  sm_redis :: "(string, pydict) dict option"
  sm_cache :: "(string, pydict) dict"
  sm_listeners :: "(string, string list) dict"

definition opt_int :: "int option \<Rightarrow> pyval" where
  "opt_int v = (case v of None \<Rightarrow> PNone | Some i \<Rightarrow> PInt i)"

text \<open>\<open>{**value, "_metadata": {...}}\<close>\<close>

definition with_meta :: "(time \<Rightarrow> string) \<Rightarrow> int option \<Rightarrow> time \<Rightarrow> pydict \<Rightarrow> pydict" where
  "with_meta fmt version now value =
     dict_set ''_metadata''
       (PDict [(''version'', PInt ((case version of None \<Rightarrow> 0 | Some v \<Rightarrow> v) + 1)),
               (''updated_at'', PStr (fmt now)), (''previous_version'', opt_int version)]) value"

text \<open>The version stored with a value; \<open>_metadata\<close> that is no dictionary has no \<open>get\<close>.\<close>

definition stored_version :: "pydict \<Rightarrow> exn + pyval" where
  "stored_version cur =
     (case dict_get_or cur ''_metadata'' (PDict []) of
        PDict m \<Rightarrow> Inr (dict_get_or m ''version'' PNone)
      | _ \<Rightarrow> Inl (AttributeErr ''get''))"

section \<open>Operations\<close>

text \<open>A listener that raises is reported with \<open>logger\<close>, which the module does not import.\<close>

definition notify_listeners :: "(string \<Rightarrow> pydict \<Rightarrow> bool) \<Rightarrow> string \<Rightarrow> pydict \<Rightarrow> state_manager \<Rightarrow> exn option" where
  "notify_listeners cb key value s =
     (if list_all (\<lambda>l. cb l value) (dict_get_or (sm_listeners s) key []) then None
      else Some (NameErr ''logger''))"

definition finish_set ::
    "(string \<Rightarrow> pydict \<Rightarrow> bool) \<Rightarrow> string \<Rightarrow> pydict \<Rightarrow> state_manager \<Rightarrow> (exn + bool) \<times> state_manager" where
  "finish_set cb key v s =
     (case notify_listeners cb key v s of None \<Rightarrow> (Inr True, s) | Some e \<Rightarrow> (Inl e, s))"

definition redis_set :: "string \<Rightarrow> pydict \<Rightarrow> state_manager \<Rightarrow> state_manager" where
  "redis_set key v s = s\<lparr>sm_redis := map_option (dict_set key v) (sm_redis s)\<rparr>"

definition set_state ::
    "(string \<Rightarrow> pydict \<Rightarrow> bool) \<Rightarrow> (time \<Rightarrow> string) \<Rightarrow> string \<Rightarrow> pydict \<Rightarrow> int option \<Rightarrow> time \<Rightarrow> state_manager
      \<Rightarrow> (exn + bool) \<times> state_manager" where
  "set_state cb fmt key value version now s =
     (let v = with_meta fmt version now value;
          s1 = s\<lparr>sm_cache := dict_set key v (sm_cache s)\<rparr>
      in case (sm_redis s, version) of
           (Some r, Some ver) \<Rightarrow>
             (case dict_get r key of
                None \<Rightarrow> finish_set cb key v (redis_set key v s1)
              | Some cur \<Rightarrow>
                (case stored_version cur of
                   Inl e \<Rightarrow> (Inl e, s1)
                 | Inr w \<Rightarrow> if \<not> py_eq w (PInt ver) then (Inr False, s1)
                            else finish_set cb key v (redis_set key v s1)))
         | _ \<Rightarrow> finish_set cb key v (redis_set key v s1))"

definition get_state :: "string \<Rightarrow> state_manager \<Rightarrow> pydict option \<times> state_manager" where
  "get_state key s =
     (case dict_get (sm_cache s) key of
        Some v \<Rightarrow> (Some v, s)
      | None \<Rightarrow>
        (case sm_redis s of
           None \<Rightarrow> (None, s)
         | Some r \<Rightarrow>
           (case dict_get r key of
              None \<Rightarrow> (None, s)
            | Some v \<Rightarrow> (Some v, s\<lparr>sm_cache := dict_set key v (sm_cache s)\<rparr>))))"

definition delete_state :: "string \<Rightarrow> state_manager \<Rightarrow> state_manager" where
  "delete_state key s =
     s\<lparr>sm_cache := dict_pop key (sm_cache s), sm_redis := map_option (dict_pop key) (sm_redis s)\<rparr>"

fun collect_states :: "string list \<Rightarrow> state_manager \<Rightarrow> pydict \<times> state_manager" where
  "collect_states [] s = ([], s)"
| "collect_states (k # ks) s =
     (let (v, s1) = get_state k s; (rest, s2) = collect_states ks s1
      in (case v of Some d \<Rightarrow> if d = [] then rest else dict_set k (PDict d) rest | None \<Rightarrow> rest, s2))"

text \<open>\<open>KEYS state:<execution>:*\<close>, for an execution id without pattern characters.\<close>

definition execution_keys :: "string \<Rightarrow> state_manager \<Rightarrow> string list" where
  "execution_keys eid s =
     (case sm_redis s of None \<Rightarrow> []
      | Some r \<Rightarrow> filter (prefix (''state:'' @ eid @ '':'')) (dict_keys r))"

definition create_snapshot ::
    "(string \<Rightarrow> pydict \<Rightarrow> bool) \<Rightarrow> (time \<Rightarrow> string) \<Rightarrow> string \<Rightarrow> string \<Rightarrow> time \<Rightarrow> state_manager
      \<Rightarrow> (exn + string) \<times> state_manager" where
  "create_snapshot cb fmt snapshot_id eid now s =
     (let (states, s1) = collect_states (execution_keys eid s) s
      in case set_state cb fmt (''snapshot:'' @ snapshot_id)
                [(''execution_id'', PStr eid), (''created_at'', PStr (fmt now)), (''states'', PDict states)]
                None now s1 of
           (Inl e, s2) \<Rightarrow> (Inl e, s2)
         | (Inr b, s2) \<Rightarrow> (Inr snapshot_id, s2))"

fun restore_states ::
    "(string \<Rightarrow> pydict \<Rightarrow> bool) \<Rightarrow> (time \<Rightarrow> string) \<Rightarrow> pydict \<Rightarrow> time \<Rightarrow> state_manager \<Rightarrow> exn option \<times> state_manager" where
  "restore_states cb fmt [] now s = (None, s)"
| "restore_states cb fmt ((k, v) # kvs) now s =
     (case v of
        PDict d \<Rightarrow>
          (case set_state cb fmt k d None now s of
             (Inl e, s1) \<Rightarrow> (Some e, s1)
           | (Inr b, s1) \<Rightarrow> restore_states cb fmt kvs now s1)
      | _ \<Rightarrow> (Some TypeErr, s))"

definition restore_snapshot ::
    "(string \<Rightarrow> pydict \<Rightarrow> bool) \<Rightarrow> (time \<Rightarrow> string) \<Rightarrow> string \<Rightarrow> time \<Rightarrow> state_manager \<Rightarrow> (exn + bool) \<times> state_manager" where
  "restore_snapshot cb fmt snapshot_id now s =
     (case get_state (''snapshot:'' @ snapshot_id) s of
        (None, s1) \<Rightarrow> (Inr False, s1)
      | (Some snap, s1) \<Rightarrow>
        if snap = [] then (Inr False, s1)
        else (case dict_get_or snap ''states'' (PDict []) of
                PDict states \<Rightarrow>
                  (case restore_states cb fmt states now s1 of
                     (Some e, s2) \<Rightarrow> (Inl e, s2)
                   | (None, s2) \<Rightarrow> (Inr True, s2))
              | _ \<Rightarrow> (Inl (AttributeErr ''items''), s1)))"

definition watch_state :: "string \<Rightarrow> string \<Rightarrow> state_manager \<Rightarrow> state_manager" where
  "watch_state key callback s =
     s\<lparr>sm_listeners := dict_set key (dict_get_or (sm_listeners s) key [] @ [callback]) (sm_listeners s)\<rparr>"

definition get_state_history :: "string \<Rightarrow> state_manager \<Rightarrow> pydict list \<times> state_manager" where
  "get_state_history key s =
     (case get_state key s of (Some v, s1) \<Rightarrow> (if v = [] then [] else [v], s1) | (None, s1) \<Rightarrow> ([], s1))"

section \<open>Versions\<close>

lemma with_meta_get [simp]:
  "dict_get (with_meta fmt version now value) k =
     (if k = ''_metadata'' then
        Some (PDict [(''version'', PInt ((case version of None \<Rightarrow> 0 | Some v \<Rightarrow> v) + 1)),
               (''updated_at'', PStr (fmt now)), (''previous_version'', opt_int version)])
      else dict_get value k)"
  by (simp add: with_meta_def)

lemma stored_with_meta [simp]:
  "stored_version (with_meta fmt version now value) = Inr (PInt ((case version of None \<Rightarrow> 0 | Some v \<Rightarrow> v) + 1))"
  by (simp add: stored_version_def dict_get_or_def dict_get_Cons)

lemma finish_set_snd [simp]: "snd (finish_set cb key v s) = s"
  by (simp add: finish_set_def split: option.split)

lemma finish_set_fst: "fst (finish_set cb key v s) \<noteq> Inr False"
  by (simp add: finish_set_def split: option.split)

text \<open>
  A versioned write to Redis is refused exactly when a state with another version is stored; a
  refused write leaves Redis alone, a write that goes through stores the value under the next
  version. But also the refused value is what the manager answers from then on.
\<close>
theorem versioned_write:
  assumes "sm_redis s = Some r"
    and "dict_get r key = Some (with_meta fmt w t0 old)" and "cv = (case w of None \<Rightarrow> 1 | Some x \<Rightarrow> x + 1)"
  shows "let (res, s') = set_state cb fmt key value (Some ver) now s
    in (res = Inr False \<longleftrightarrow> ver \<noteq> cv)
       \<and> sm_redis s' = Some (if ver = cv then dict_set key (with_meta fmt (Some ver) now value) r else r)
       \<and> fst (get_state key s') = Some (with_meta fmt (Some ver) now value)"
proof -
  have v: "stored_version (with_meta fmt w t0 old) = Inr (PInt cv)"
    using assms(3) by (simp split: option.splits)
  show ?thesis
  proof (cases "ver = cv")
    case True
    have "set_state cb fmt key value (Some ver) now s =
        finish_set cb key (with_meta fmt (Some ver) now value)
          (redis_set key (with_meta fmt (Some ver) now value)
            (s\<lparr>sm_cache := dict_set key (with_meta fmt (Some ver) now value) (sm_cache s)\<rparr>))"
      using assms v True by (simp add: set_state_def Let_def)
    with True assms(1) show ?thesis
      using finish_set_fst by (auto simp: split_beta redis_set_def get_state_def)
  next
    case False
    then have "set_state cb fmt key value (Some ver) now s =
        (Inr False, s\<lparr>sm_cache := dict_set key (with_meta fmt (Some ver) now value) (sm_cache s)\<rparr>)"
      using assms v by (simp add: set_state_def Let_def)
    with False assms(1) show ?thesis by (simp add: get_state_def)
  qed
qed

definition ex_state :: state_manager where
  "ex_state = snd (set_state (\<lambda>l v. True) (\<lambda>t. []) ''k'' [(''a'', PInt 1)] None 0
     \<lparr>sm_redis = Some [], sm_cache = [], sm_listeners = []\<rparr>)"

theorem versioned_write_witness:
  "fst (get_state ''k'' (snd (set_state (\<lambda>l v. True) (\<lambda>t. []) ''k'' [(''a'', PInt 2)] (Some 7) 1 ex_state)))
     = Some (with_meta (\<lambda>t. []) (Some 7) 1 [(''a'', PInt 2)])"
proof -
  have r: "sm_redis ex_state = Some [(''k'', with_meta (\<lambda>t. []) None 0 [(''a'', PInt 1)])]"
    by (simp add: ex_state_def set_state_def redis_set_def finish_set_def notify_listeners_def Let_def dict_set_def
        dict_get_or_def)
  have "dict_get [(''k'', with_meta (\<lambda>t. []) None 0 [(''a'', PInt 1)])] ''k'' = Some (with_meta (\<lambda>t. []) None 0 [(''a'', PInt 1)])"
    by (simp add: dict_get_Cons)
  from versioned_write [OF r this refl, of "\<lambda>l v. True" "[(''a'', PInt 2)]" 7 1] show ?thesis
    by (simp add: split_beta Let_def)
qed

end
