(* ===== verification/Lifecycle.thy ===== *)
theory Lifecycle
  imports Exceptions Calendar
begin

text \<open>
  \<open>src/scheduler/lifecycle_manager.py\<close>: the record of every execution, its tasks and the listeners
  of status changes. A listener is known by the text of its \<open>id\<close>; whether its callback raises is the
  parameter \<open>cb\<close>. Times are kept as they are; their rendering is left out.
\<close>

section \<open>State\<close>

datatype execution_status = PENDING | PLANNING | VALIDATING | EXECUTING | COMPLETED | FAILED | CANCELLED

fun status_value :: "execution_status \<Rightarrow> string" where
  "status_value PENDING = ''pending''"
| "status_value PLANNING = ''planning''"
| "status_value VALIDATING = ''validating''"
| "status_value EXECUTING = ''executing''"
| "status_value COMPLETED = ''completed''"
| "status_value FAILED = ''failed''"
| "status_value CANCELLED = ''cancelled''"

record life_execution =
  le_process_id :: string
  le_user_id :: string
  le_tenant_id :: string
  le_status :: string
  le_created_at :: time
  le_updated_at :: time
  le_tasks :: "(string, pydict) dict"
  le_completed_at :: "time option"
  le_result :: "pydict option"
  le_failed_at :: "time option"
  le_error :: "string option"

record lifecycle =
  lc_executions :: "(string, life_execution) dict"
  lc_listeners :: "(string, execution_status option) dict"

definition new_lifecycle :: lifecycle where
  "new_lifecycle = \<lparr>lc_executions = [], lc_listeners = []\<rparr>"

section \<open>Operations\<close>

definition create_execution :: "string \<Rightarrow> string \<Rightarrow> string \<Rightarrow> time \<Rightarrow> lifecycle \<Rightarrow> lifecycle" where
  "create_execution pid user tenant now s =
     s\<lparr>lc_executions := dict_set pid
         \<lparr>le_process_id = pid, le_user_id = user, le_tenant_id = tenant, le_status = status_value PENDING,
          le_created_at = now, le_updated_at = now, le_tasks = [], le_completed_at = None, le_result = None,
          le_failed_at = None, le_error = None\<rparr> (lc_executions s)\<rparr>"

text \<open>The first listener whose callback raises ends the notification.\<close>

definition notify :: "(string \<Rightarrow> string \<Rightarrow> execution_status \<Rightarrow> exn option) \<Rightarrow> string \<Rightarrow> execution_status \<Rightarrow> lifecycle \<Rightarrow> exn option" where
  "notify cb pid st s =
     (case List.map_filter (\<lambda>(l, want). if want = None \<or> want = Some st then cb l pid st else None) (lc_listeners s) of
        [] \<Rightarrow> None | e # es \<Rightarrow> Some e)"

definition on_execution :: "string \<Rightarrow> (life_execution \<Rightarrow> life_execution) \<Rightarrow> lifecycle \<Rightarrow> lifecycle" where
  "on_execution pid f s = s\<lparr>lc_executions := dict_mod pid f (lc_executions s)\<rparr>"

definition update_status ::
    "(string \<Rightarrow> string \<Rightarrow> execution_status \<Rightarrow> exn option) \<Rightarrow> string \<Rightarrow> execution_status \<Rightarrow> time \<Rightarrow> lifecycle
      \<Rightarrow> exn option \<times> lifecycle" where
  "update_status cb pid st now s =
     (if \<not> dict_has (lc_executions s) pid then (None, s)
      else let s1 = on_execution pid (\<lambda>x. x\<lparr>le_status := status_value st, le_updated_at := now\<rparr>) s
           in (notify cb pid st s1, s1))"

definition add_task :: "string \<Rightarrow> string \<Rightarrow> pydict \<Rightarrow> lifecycle \<Rightarrow> lifecycle" where
  "add_task pid tid data = on_execution pid (\<lambda>x. x\<lparr>le_tasks := dict_set tid data (le_tasks x)\<rparr>)"

definition update_task :: "string \<Rightarrow> string \<Rightarrow> pydict \<Rightarrow> lifecycle \<Rightarrow> lifecycle" where
  "update_task pid tid updates =
     on_execution pid (\<lambda>x. x\<lparr>le_tasks := dict_mod tid (fold (\<lambda>(k, v). dict_set k v) updates) (le_tasks x)\<rparr>)"

text \<open>\<open>update_status\<close> ignores an unknown process; the next line looks it up and raises.\<close>

definition then_write ::
    "string \<Rightarrow> (life_execution \<Rightarrow> life_execution) \<Rightarrow> exn option \<times> lifecycle \<Rightarrow> exn option \<times> lifecycle" where
  "then_write pid f r =
     (case r of
        (Some e, s) \<Rightarrow> (Some e, s)
      | (None, s) \<Rightarrow> if dict_has (lc_executions s) pid then (None, on_execution pid f s) else (Some (KeyErr pid), s))"

definition complete_execution ::
    "(string \<Rightarrow> string \<Rightarrow> execution_status \<Rightarrow> exn option) \<Rightarrow> string \<Rightarrow> pydict \<Rightarrow> time \<Rightarrow> lifecycle \<Rightarrow> exn option \<times> lifecycle" where
  "complete_execution cb pid result now s =
     then_write pid (\<lambda>x. x\<lparr>le_completed_at := Some now, le_result := Some result\<rparr>) (update_status cb pid COMPLETED now s)"

definition fail_execution ::
    "(string \<Rightarrow> string \<Rightarrow> execution_status \<Rightarrow> exn option) \<Rightarrow> string \<Rightarrow> string \<Rightarrow> time \<Rightarrow> lifecycle \<Rightarrow> exn option \<times> lifecycle" where
  "fail_execution cb pid err now s =
     then_write pid (\<lambda>x. x\<lparr>le_failed_at := Some now, le_error := Some err\<rparr>) (update_status cb pid FAILED now s)"

definition on_status_change :: "string \<Rightarrow> execution_status option \<Rightarrow> lifecycle \<Rightarrow> lifecycle" where
  "on_status_change l st s = s\<lparr>lc_listeners := dict_set l st (lc_listeners s)\<rparr>"

definition get_execution :: "string \<Rightarrow> lifecycle \<Rightarrow> life_execution option" where
  "get_execution pid s = dict_get (lc_executions s) pid"

text \<open>A filter that is \<open>None\<close> or empty does not filter.\<close>

definition wants :: "string option \<Rightarrow> string \<Rightarrow> bool" where
  "wants f v = (case f of None \<Rightarrow> True | Some w \<Rightarrow> w = [] \<or> v = w)"

definition list_executions :: "string option \<Rightarrow> string option \<Rightarrow> string option \<Rightarrow> lifecycle \<Rightarrow> life_execution list" where
  "list_executions user tenant status s =
     filter (\<lambda>e. wants status (le_status e))
       (filter (\<lambda>e. wants tenant (le_tenant_id e))
         (filter (\<lambda>e. wants user (le_user_id e)) (dict_values (lc_executions s))))"

section \<open>Outcomes\<close>

text \<open>
  Completing an execution marks it completed with the result exactly when it exists and no
  listener of the change raises; a listener that raises leaves it completed without a result, an
  unknown process raises a key error and changes nothing; other executions are never touched.
\<close>
theorem complete_execution_outcome:
  "let (e, s') = complete_execution cb pid result now s;
       raised = notify cb pid COMPLETED s
   in get_execution q s' =
        (if q = pid then map_option (\<lambda>x. if raised = None
               then x\<lparr>le_status := ''completed'', le_updated_at := now, le_completed_at := Some now, le_result := Some result\<rparr>
               else x\<lparr>le_status := ''completed'', le_updated_at := now\<rparr>) (get_execution pid s)
         else get_execution q s)
      \<and> e = (if get_execution pid s = None then Some (KeyErr pid) else raised)"
proof -
  have n: "notify cb pid st (s\<lparr>lc_executions := m\<rparr>) = notify cb pid st s" for st m
    by (simp add: notify_def)
  show ?thesis
  proof (cases "get_execution pid s")
    case None
    then have "\<not> dict_has (lc_executions s) pid" by (simp add: get_execution_def dict_has_def)
    with None show ?thesis by (simp add: complete_execution_def update_status_def then_write_def Let_def)
  next
    case (Some x)
    then have "dict_has (lc_executions s) pid" by (simp add: get_execution_def dict_has_def)
    with Some show ?thesis
      by (auto simp: complete_execution_def update_status_def then_write_def Let_def n get_execution_def on_execution_def
          split: option.split)
  qed
qed

end
