(* ===== verification/CommunicationBus.thy ===== *)
theory CommunicationBus
  imports Exceptions Calendar
begin

text \<open>
  \<open>src/orchestrator/communication_bus.py\<close>: topics with subscribers, queues, a bounded history per
  topic and the dead letters. Subscribers are names; what a subscriber does with a message is the
  parameter \<open>cb\<close> (the exception it raises, if any). The loop that drains the dead letters only logs.
\<close>

section \<open>State\<close>

record dead_letter =
  dl_message :: pydict
  dl_subscriber :: string
  dl_error :: exn

record bus =
  cb_topics :: "(string, string list) dict"
  cb_queues :: "(string, pydict list) dict"
  cb_history :: "(string, pydict list) dict"
  cb_dead :: "dead_letter list"

definition new_bus :: bus where
  "new_bus = \<lparr>cb_topics = [], cb_queues = [], cb_history = [], cb_dead = []\<rparr>"

section \<open>Operations\<close>

text \<open>\<open>{"id": ..., "topic": ..., "timestamp": ..., **message}\<close>: the message's own keys win.\<close>

definition enrich :: "string \<Rightarrow> string \<Rightarrow> string \<Rightarrow> pydict \<Rightarrow> pydict" where
  "enrich mid topic stamp message =
     fold (\<lambda>(k, v). dict_set k v) message
       [(''id'', PStr mid), (''topic'', PStr topic), (''timestamp'', PStr stamp)]"

definition remember :: "string \<Rightarrow> pydict \<Rightarrow> bus \<Rightarrow> bus" where
  "remember topic m s =
     s\<lparr>cb_history := dict_set topic (append_capped 1000 m (dict_get_or (cb_history s) topic [])) (cb_history s)\<rparr>"

definition dead_letters :: "(string \<Rightarrow> pydict \<Rightarrow> exn option) \<Rightarrow> pydict \<Rightarrow> string list \<Rightarrow> dead_letter list" where
  "dead_letters cb m subs =
     List.map_filter (\<lambda>b. map_option (\<lambda>e. \<lparr>dl_message = m, dl_subscriber = b, dl_error = e\<rparr>) (cb b m)) subs"

definition publish ::
    "(string \<Rightarrow> pydict \<Rightarrow> exn option) \<Rightarrow> string \<Rightarrow> string \<Rightarrow> string \<Rightarrow> pydict \<Rightarrow> bool \<Rightarrow> bus \<Rightarrow> bus" where
  "publish cb mid stamp topic message persist s =
     (let m = enrich mid topic stamp message;
          s1 = (if persist then remember topic m s else s)
      in s1\<lparr>cb_dead := cb_dead s1 @ dead_letters cb m (dict_get_or (cb_topics s1) topic []),
            cb_queues := dict_mod topic (\<lambda>q. q @ [m]) (cb_queues s1)\<rparr>)"

text \<open>The last ten messages are replayed to a new subscriber, whose exception reaches the caller.\<close>

definition subscribe ::
    "(string \<Rightarrow> pydict \<Rightarrow> exn option) \<Rightarrow> string \<Rightarrow> string \<Rightarrow> bus \<Rightarrow> bus \<times> exn option" where
  "subscribe cb topic callback s =
     (s\<lparr>cb_topics := dict_set topic (dict_get_or (cb_topics s) topic [] @ [callback]) (cb_topics s)\<rparr>,
      (case List.map_filter (cb callback) (last_n 10 (dict_get_or (cb_history s) topic [])) of
         [] \<Rightarrow> None | e # es \<Rightarrow> Some e))"

definition unsubscribe :: "string \<Rightarrow> string \<Rightarrow> bus \<Rightarrow> bus" where
  "unsubscribe topic callback s = s\<lparr>cb_topics := dict_mod topic (remove1 callback) (cb_topics s)\<rparr>"

text \<open>
  \<open>request\<close>: the reply that arrives before the timeout, if one does, is the argument \<open>reply\<close>; the
  handler subscribed for it is removed again. A timeout is reported with \<open>logger\<close>, which the module
  does not import.
\<close>

definition request ::
    "(string \<Rightarrow> pydict \<Rightarrow> exn option) \<Rightarrow> string \<Rightarrow> string \<Rightarrow> string \<Rightarrow> string \<Rightarrow> string \<Rightarrow> pydict \<Rightarrow> pydict option
      \<Rightarrow> bus \<Rightarrow> (exn + pydict) \<times> bus" where
  "request cb mid stamp fresh rid topic message reply s =
     (let rt = topic @ ''.reply.'' @ fresh;
          s1 = fst (subscribe (\<lambda>b m. None) rt fresh s);
          msg = dict_set ''request_id'' (dict_get_or message ''request_id'' (PStr rid))
                  (dict_set ''reply_to'' (PStr rt) message)
      in (case reply of None \<Rightarrow> Inl (NameErr ''logger'') | Some r \<Rightarrow> Inr r, unsubscribe rt fresh (publish cb mid stamp topic msg False s1)))"

definition get_queue :: "string \<Rightarrow> bus \<Rightarrow> pydict list \<times> bus" where
  "get_queue topic s =
     (case dict_get (cb_queues s) topic of
        Some q \<Rightarrow> (q, s)
      | None \<Rightarrow> ([], s\<lparr>cb_queues := dict_set topic [] (cb_queues s)\<rparr>))"

definition get_last :: "string \<Rightarrow> bus \<Rightarrow> pydict option" where
  "get_last topic s =
     (case dict_get_or (cb_history s) topic [] of [] \<Rightarrow> None | h \<Rightarrow> Some (last h))"

text \<open>\<open>xs[-n:]\<close>: everything for 0, and without the first \<open>-n\<close> for a negative \<open>n\<close>.\<close>

definition slice_last :: "int \<Rightarrow> 'a list \<Rightarrow> 'a list" where
  "slice_last n xs = (if n > 0 then last_n (nat n) xs else drop (nat (- n)) xs)"

definition get_history :: "string \<Rightarrow> int \<Rightarrow> bus \<Rightarrow> pydict list" where
  "get_history topic n s =
     (case dict_get (cb_history s) topic of None \<Rightarrow> [] | Some h \<Rightarrow> slice_last n h)"

definition cleanup_execution :: "string \<Rightarrow> bus \<Rightarrow> bus" where
  "cleanup_execution eid s =
     fold (\<lambda>t s. s\<lparr>cb_topics := dict_pop t (cb_topics s), cb_queues := dict_pop t (cb_queues s),
                   cb_history := dict_pop t (cb_history s)\<rparr>)
       (filter (sublist eid) (dict_keys (cb_topics s))) s"

section \<open>Bounded history\<close>

interpretation topic_history: bounded_log "append_capped 1000" 1000
  by unfold_locales (simp_all add: append_capped_eq)

datatype bus_op =
    Publish string string string pydict bool
  | Subscribe string string
  | Unsubscribe string string
  | Queue string
  | Cleanup string

fun bus_exec :: "(string \<Rightarrow> pydict \<Rightarrow> exn option) \<Rightarrow> bus_op \<Rightarrow> bus \<Rightarrow> bus" where
  "bus_exec cb (Publish i st t m p) s = publish cb i st t m p s"
| "bus_exec cb (Subscribe t c) s = fst (subscribe cb t c s)"
| "bus_exec cb (Unsubscribe t c) s = unsubscribe t c s"
| "bus_exec cb (Queue t) s = snd (get_queue t s)"
| "bus_exec cb (Cleanup e) s = cleanup_execution e s"

text \<open>
  What is persisted on a topic, as the operations say it: nothing else reaches the history, and a
  cleanup forgets a topic of its execution that has an entry of subscribers.
\<close>

fun persisted :: "(string \<Rightarrow> pydict \<Rightarrow> exn option) \<Rightarrow> string \<Rightarrow> bus_op list \<Rightarrow> bus \<Rightarrow> pydict list \<Rightarrow> pydict list" where
  "persisted cb topic [] s acc = acc"
| "persisted cb topic (x # xs) s acc =
     persisted cb topic xs (bus_exec cb x s)
       (case x of
          Publish i st t m p \<Rightarrow> if p \<and> t = topic then acc @ [enrich i t st m] else acc
        | Cleanup e \<Rightarrow> if sublist e topic \<and> dict_has (cb_topics s) topic then [] else acc
        | _ \<Rightarrow> acc)"

lemma cleanup_fold:
  "dict_get (cb_history (fold (\<lambda>t s. s\<lparr>cb_topics := dict_pop t (cb_topics s), cb_queues := dict_pop t (cb_queues s),
                   cb_history := dict_pop t (cb_history s)\<rparr>) ts s)) k
     = (if k \<in> set ts then None else dict_get (cb_history s) k)"
  by (induction ts arbitrary: s) auto

lemma history_exec:
  "dict_get_or (cb_history (bus_exec cb x s)) topic [] =
     (case x of
        Publish i st t m p \<Rightarrow>
          if p \<and> t = topic then append_capped 1000 (enrich i t st m) (dict_get_or (cb_history s) topic [])
          else dict_get_or (cb_history s) topic []
      | Cleanup e \<Rightarrow> if sublist e topic \<and> dict_has (cb_topics s) topic then [] else dict_get_or (cb_history s) topic []
      | _ \<Rightarrow> dict_get_or (cb_history s) topic [])"
  by (cases x)
    (auto simp: publish_def remember_def subscribe_def unsubscribe_def get_queue_def cleanup_execution_def
      cleanup_fold dict_get_or_def dict_has_keys Let_def split: option.splits)

text \<open>
  After any sequence of bus operations the history of a topic holds the newest thousand, in
  order, of the messages persisted on it since the last cleanup that reached the topic; a cleanup
  reaches only topics that have, or had, a subscriber.
\<close>
theorem history_holds_newest:
  "dict_get_or (cb_history (fold (bus_exec cb) ops new_bus)) topic [] = last_n 1000 (persisted cb topic ops new_bus [])"
proof -
  have "dict_get_or (cb_history (fold (bus_exec cb) ops s)) topic [] = last_n 1000 (persisted cb topic ops s acc)"
    if "dict_get_or (cb_history s) topic [] = last_n 1000 acc" for s acc
    using that
  proof (induction ops arbitrary: s acc)
    case (Cons x xs)
    let ?acc = "case x of
          Publish i st t m p \<Rightarrow> if p \<and> t = topic then acc @ [enrich i t st m] else acc
        | Cleanup e \<Rightarrow> if sublist e topic \<and> dict_has (cb_topics s) topic then [] else acc
        | _ \<Rightarrow> acc"
    have "dict_get_or (cb_history (bus_exec cb x s)) topic [] = last_n 1000 ?acc"
      unfolding history_exec Cons.prems
      using topic_history.push_run [of "[_]" acc] by (cases x) (simp_all add: last_n_def)
    from Cons.IH [OF this] show ?case by simp
  qed simp
  then show ?thesis by (simp add: new_bus_def dict_get_or_def last_n_def)
qed

end
