(* ===== verification/Orchestrator.thy ===== *)
theory Orchestrator
  imports Retry CommunicationBus DagOps
begin

text \<open>
  \<open>src/orchestrator/agent_orchestrator.py\<close>: the choice of an agent for a task, the fallback to other
  agents and to tools under retry, the performance table, and the execution of a plan level by level.
  What an agent does with a task, what the tool router returns on each attempt and the memory service
  are the record \<open>orch_env\<close>. The tasks of a level run concurrently: \<open>execute_dag\<close> takes the outcome
  of routing a task as given, \<open>route_task_to_agent\<close> is the routing of one task.
\<close>

section \<open>State\<close>

record agent =
  ag_type :: string
  ag_id :: string
  ag_capabilities :: "agent_capability list"

record perf =
  pf_total :: int
  pf_successful :: int
  pf_failed :: int
  pf_duration :: rat
  pf_success_rate :: "rat option"
  pf_by_type :: "(string, int) dict"

record task_entry =
  te_status :: string
  te_start_time :: time
  te_error :: "string option"
  te_end_time :: "time option"

record orch_execution =
  oe_process_id :: string
  oe_dag_id :: string
  oe_status :: string
  oe_start_time :: time
  oe_user_id :: string
  oe_tenant_id :: string
  oe_tasks :: "(string, task_entry) dict"
  oe_results :: "(string, pyval) dict"
  oe_error :: "string option"
  oe_agent :: "string option"

record orchestrator =
  or_agents :: "(string, agent) dict"
  or_perf :: "(string, perf) dict"
  or_active :: "(string, orch_execution) dict"
  or_queues :: "(string, pyval list) dict"
  or_bus :: bus
  or_retry :: retry_manager

record orch_env =
  ox_run :: "string \<Rightarrow> task_node \<Rightarrow> exn + pyval"
  ox_tool :: "string \<Rightarrow> nat \<Rightarrow> exn + pyval"
  ox_retry :: retry_env
  ox_update :: "dag \<Rightarrow> exn option"
  ox_str :: "exn \<Rightarrow> string"

definition register_domain_agent :: "string \<Rightarrow> agent \<Rightarrow> orchestrator \<Rightarrow> orchestrator" where
  "register_domain_agent ty a s = s\<lparr>or_agents := dict_set ty a (or_agents s)\<rparr>"

section \<open>Choosing an agent\<close>

definition score_agent :: "agent \<Rightarrow> task_node \<Rightarrow> orchestrator \<Rightarrow> rat" where
  "score_agent a task s =
     (let required = set (tn_required_capabilities task);
          have = set (ag_capabilities a);
          match = (if required \<subseteq> have then 50 else of_nat (card (required \<inter> have)) * 10);
          rate = (case dict_get (or_perf s) (ag_id a) of None \<Rightarrow> 1/2
                  | Some p \<Rightarrow> (case pf_success_rate p of None \<Rightarrow> 1/2 | Some r \<Rightarrow> r));
          current = length (filter (\<lambda>e. oe_agent e = Some (ag_id a)) (dict_values (or_active s)))
      in match + rate * 30 + (if current < 3 then 20 else if current < 5 then 10 else 0))"

text \<open>The loop over the agents, with the best score so far and its agent.\<close>

fun best_agent :: "(agent \<Rightarrow> rat) \<Rightarrow> agent list \<Rightarrow> rat \<Rightarrow> agent option \<Rightarrow> agent option" where
  "best_agent score [] best_score best = best"
| "best_agent score (a # as) best_score best =
     (if score a > best_score then best_agent score as (score a) (Some a)
      else best_agent score as best_score best)"

section \<open>Performance\<close>

definition new_perf :: perf where
  "new_perf = \<lparr>pf_total = 0, pf_successful = 0, pf_failed = 0, pf_duration = 0, pf_success_rate = None, pf_by_type = []\<rparr>"

text \<open>A result that is no dictionary or a duration that is no number raises half-way.\<close>

definition perf_after :: "task_node \<Rightarrow> pyval \<Rightarrow> perf \<Rightarrow> perf \<times> exn option" where
  "perf_after task result p =
     (let p1 = p\<lparr>pf_total := pf_total p + 1\<rparr>
      in case result of
           PDict d \<Rightarrow>
             (let p2 = (if py_eq (dict_get_or d ''status'' PNone) (PStr ''success'')
                        then p1\<lparr>pf_successful := pf_successful p1 + 1\<rparr>
                        else p1\<lparr>pf_failed := pf_failed p1 + 1\<rparr>)
              in case num_val (dict_get_or d ''duration_seconds'' (PInt 0)) of
                   None \<Rightarrow> (p2, Some TypeErr)
                 | Some x \<Rightarrow>
                   (let ty = task_type_value (tn_task_type task)
                    in (p2\<lparr>pf_duration := pf_duration p2 + x,
                           pf_success_rate := Some (if pf_total p2 > 0
                             then of_int (pf_successful p2) / of_int (pf_total p2) else 0),
                           pf_by_type := dict_set ty (dict_get_or (pf_by_type p2) ty 0 + 1) (pf_by_type p2)\<rparr>, None)))
         | _ \<Rightarrow> (p1, Some (AttributeErr ''get'')))"

definition track_agent_performance :: "agent \<Rightarrow> task_node \<Rightarrow> pyval \<Rightarrow> orchestrator \<Rightarrow> orchestrator \<times> exn option" where
  "track_agent_performance a task result s =
     (let (p, e) = perf_after task result (dict_get_or (or_perf s) (ag_id a) new_perf)
      in (s\<lparr>or_perf := dict_set (ag_id a) p (or_perf s)\<rparr>, e))"

section \<open>Routing a task\<close>

text \<open>\<open>{**task.parameters, **inputs}\<close>\<close>

definition merge_params :: "pydict \<Rightarrow> pydict \<Rightarrow> pydict" where
  "merge_params ps qs = fold (\<lambda>(k, v). dict_set k v) qs ps"

definition execute_with_tools ::
    "orch_env \<Rightarrow> task_node \<Rightarrow> pydict \<Rightarrow> string \<Rightarrow> string \<Rightarrow> string \<Rightarrow> time \<Rightarrow> orchestrator \<Rightarrow> (exn + pyval) \<times> orchestrator" where
  "execute_with_tools env task inputs user tenant eid now s =
     (let (r, rm) = execute_with_retry (ox_retry env) (ox_tool env (tn_task_id task)) default_retry_config
                      ''route_and_execute'' [] (Some task)
                      [(''params'', PDict (merge_params (tn_parameters task) inputs)), (''user_id'', PStr user),
                       (''tenant_id'', PStr tenant), (''execution_id'', PStr eid)] now (or_retry s)
      in (r, s\<lparr>or_retry := rm\<rparr>))"

text \<open>The other agents, in the order of registration; the failed agent is skipped.\<close>

fun first_success :: "(string \<Rightarrow> task_node \<Rightarrow> exn + pyval) \<Rightarrow> task_node \<Rightarrow> agent \<Rightarrow> agent list \<Rightarrow> pyval option" where
  "first_success run task failed [] = None"
| "first_success run task failed (a # as) =
     (if a = failed then first_success run task failed as
      else case run (ag_id a) task of
             Inr v \<Rightarrow> Some v
           | Inl e \<Rightarrow> first_success run task failed as)"

definition fallback_execution ::
    "orch_env \<Rightarrow> task_node \<Rightarrow> pydict \<Rightarrow> string \<Rightarrow> string \<Rightarrow> string \<Rightarrow> agent \<Rightarrow> time \<Rightarrow> orchestrator
      \<Rightarrow> (exn + pyval) \<times> orchestrator" where
  "fallback_execution env task inputs user tenant eid failed now s =
     (case first_success (ox_run env) task failed (dict_values (or_agents s)) of
        Some v \<Rightarrow> (Inr v, s)
      | None \<Rightarrow> execute_with_tools env task inputs user tenant eid now s)"

definition route_task_to_agent ::
    "orch_env \<Rightarrow> task_node \<Rightarrow> pydict \<Rightarrow> string \<Rightarrow> string \<Rightarrow> string \<Rightarrow> time \<Rightarrow> orchestrator \<Rightarrow> (exn + pyval) \<times> orchestrator" where
  "route_task_to_agent env task inputs user tenant eid now s =
     (case best_agent (\<lambda>a. score_agent a task s) (dict_values (or_agents s)) (- 1) None of
        None \<Rightarrow> execute_with_tools env task inputs user tenant eid now s
      | Some a \<Rightarrow>
        (case ox_run env (ag_id a) task of
           Inl e \<Rightarrow> fallback_execution env task inputs user tenant eid a now s
         | Inr v \<Rightarrow>
           (case track_agent_performance a task v s of
              (s1, None) \<Rightarrow> (Inr v, s1)
            | (s1, Some e) \<Rightarrow> fallback_execution env task inputs user tenant eid a now s1)))"

section \<open>Executing a plan\<close>

text \<open>A level is opened: its tasks are running, in the plan and in the record of the execution.\<close>

fun open_tasks :: "time \<Rightarrow> string list \<Rightarrow> dag \<Rightarrow> orch_execution \<Rightarrow> exn option \<times> dag \<times> orch_execution" where
  "open_tasks now [] d x = (None, d, x)"
| "open_tasks now (t # ts) d x =
     (case dict_get (dg_nodes d) t of
        None \<Rightarrow> (Some (KeyErr t), d, x)
      | Some n \<Rightarrow>
          open_tasks now ts (d\<lparr>dg_nodes := dict_set t (n\<lparr>tn_status := TS_RUNNING\<rparr>) (dg_nodes d)\<rparr>)
            (x\<lparr>oe_tasks := dict_set t \<lparr>te_status = ''running'', te_start_time = now, te_error = None, te_end_time = None\<rparr>
                 (oe_tasks x)\<rparr>))"

definition task_failed :: "orch_env \<Rightarrow> time \<Rightarrow> string \<Rightarrow> exn \<Rightarrow> dag \<times> orch_execution \<Rightarrow> dag \<times> orch_execution" where
  "task_failed env now t e dx =
     (case dx of (d, x) \<Rightarrow>
       (d\<lparr>dg_nodes := dict_mod t (\<lambda>n. n\<lparr>tn_status := TS_FAILED,
            tn_error := Some (PDict [(''message'', PStr (ox_str env e))])\<rparr>) (dg_nodes d)\<rparr>,
        x\<lparr>oe_tasks := dict_mod t (\<lambda>te. te\<lparr>te_status := ''failed'', te_error := Some (ox_str env e),
            te_end_time := Some now\<rparr>) (oe_tasks x)\<rparr>))"

definition task_succeeded :: "time \<Rightarrow> string \<Rightarrow> pyval \<Rightarrow> dag \<times> orch_execution \<Rightarrow> dag \<times> orch_execution" where
  "task_succeeded now t v dx =
     (case dx of (d, x) \<Rightarrow>
       (d\<lparr>dg_nodes := dict_mod t (\<lambda>n. n\<lparr>tn_status := TS_COMPLETED, tn_result := Some v\<rparr>) (dg_nodes d)\<rparr>,
        x\<lparr>oe_tasks := dict_mod t (\<lambda>te. te\<lparr>te_status := ''completed'', te_end_time := Some now\<rparr>) (oe_tasks x),
          oe_results := dict_set t v (oe_results x)\<rparr>))"

fun close_tasks ::
    "orch_env \<Rightarrow> (task_node \<Rightarrow> exn + pyval) \<Rightarrow> bool \<Rightarrow> time \<Rightarrow> string list \<Rightarrow> dag \<times> orch_execution
      \<Rightarrow> exn option \<times> dag \<times> orch_execution" where
  "close_tasks env route cont now [] dx = (None, dx)"
| "close_tasks env route cont now (t # ts) dx =
     (case dict_get (dg_nodes (fst dx)) t of
        None \<Rightarrow> (Some (KeyErr t), dx)
      | Some n \<Rightarrow>
        (case route n of
           Inl e \<Rightarrow>
             (let dx1 = task_failed env now t e dx
              in if \<not> cont then (Some e, dx1) else close_tasks env route cont now ts dx1)
         | Inr v \<Rightarrow> close_tasks env route cont now ts (task_succeeded now t v dx)))"

fun run_levels ::
    "orch_env \<Rightarrow> (task_node \<Rightarrow> exn + pyval) \<Rightarrow> bool \<Rightarrow> time \<Rightarrow> string list list \<Rightarrow> dag \<times> orch_execution
      \<Rightarrow> exn option \<times> dag \<times> orch_execution" where
  "run_levels env route cont now [] dx = (None, dx)"
| "run_levels env route cont now (ts # rest) dx =
     (case open_tasks now ts (fst dx) (snd dx) of
        (Some e, dx1) \<Rightarrow> (Some e, dx1)
      | (None, dx1) \<Rightarrow>
        (case close_tasks env route cont now ts dx1 of
           (Some e, dx2) \<Rightarrow> (Some e, dx2)
         | (None, dx2) \<Rightarrow>
           (case ox_update env (fst dx2) of
              Some e \<Rightarrow> (Some e, dx2)
            | None \<Rightarrow> run_levels env route cont now rest dx2)))"

record dag_summary =
  ds_execution_id :: string
  ds_results :: "(string, pyval) dict"
  ds_task_count :: int

definition cleanup_orch :: "string \<Rightarrow> orchestrator \<Rightarrow> orchestrator" where
  "cleanup_orch eid s =
     s\<lparr>or_active := dict_pop eid (or_active s), or_queues := dict_pop eid (or_queues s),
       or_bus := cleanup_execution eid (or_bus s)\<rparr>"

definition execute_dag ::
    "nat \<Rightarrow> orch_env \<Rightarrow> (task_node \<Rightarrow> exn + pyval) \<Rightarrow> string \<Rightarrow> dag \<Rightarrow> string \<Rightarrow> string \<Rightarrow> string \<Rightarrow> pydict \<Rightarrow> time
      \<Rightarrow> orchestrator \<Rightarrow> (exn + dag_summary) \<times> dag \<times> orchestrator" where
  "execute_dag rlim env route eid d pid user tenant ctx now s =
     (let x = \<lparr>oe_process_id = pid, oe_dag_id = dg_dag_id d, oe_status = ''running'', oe_start_time = now,
               oe_user_id = user, oe_tenant_id = tenant, oe_tasks = [], oe_results = [], oe_error = None,
               oe_agent = None\<rparr>;
          s1 = s\<lparr>or_active := dict_set eid x (or_active s), or_queues := dict_set eid [] (or_queues s)\<rparr>;
          cont = truthy (dict_get_or ctx ''continue_on_error'' (PBool False));
          (e, d1, x1) =
            (case get_execution_order rlim d of
               Inl e \<Rightarrow> (Some e, d, x)
             | Inr groups \<Rightarrow> run_levels env route cont now groups (d, x))
      in case e of
           None \<Rightarrow>
             (Inr \<lparr>ds_execution_id = eid, ds_results = oe_results x1, ds_task_count = dg_total_tasks d1\<rparr>, d1,
              cleanup_orch eid (s1\<lparr>or_active := dict_set eid x1 (or_active s1)\<rparr>))
         | Some e \<Rightarrow>
             (Inl e, d1,
              cleanup_orch eid (s1\<lparr>or_active := dict_set eid
                (x1\<lparr>oe_status := ''failed'', oe_error := Some (ox_str env e)\<rparr>) (or_active s1)\<rparr>)))"

section \<open>Status\<close>

record orch_report =
  op_status :: string
  op_progress :: rat
  op_completed :: int
  op_total :: int
  op_error :: "string option"

definition get_execution_status :: "string \<Rightarrow> orchestrator \<Rightarrow> orch_report option" where
  "get_execution_status eid s =
     map_option (\<lambda>x.
       let total = length (oe_tasks x);
           completed = length (filter (\<lambda>te. te_status te = ''completed'' \<or> te_status te = ''failed'') (dict_values (oe_tasks x)))
       in \<lparr>op_status = oe_status x,
           op_progress = (if total > 0 then of_nat completed / of_nat total * 100 else 0),
           op_completed = int completed, op_total = int total, op_error = oe_error x\<rparr>)
       (dict_get (or_active s) eid)"

definition cancel_execution :: "string \<Rightarrow> orchestrator \<Rightarrow> bool \<times> orchestrator" where
  "cancel_execution eid s =
     (if \<not> dict_has (or_active s) eid then (False, s)
      else (True, s\<lparr>or_active := dict_mod eid (\<lambda>x. x\<lparr>oe_status := ''cancelled''\<rparr>) (or_active s)\<rparr>))"

record agent_status =
  as_capabilities :: "agent_capability list"
  as_performance :: "perf option"

definition get_agent_status :: "string \<Rightarrow> orchestrator \<Rightarrow> agent_status option" where
  "get_agent_status ty s =
     map_option (\<lambda>a. \<lparr>as_capabilities = ag_capabilities a, as_performance = dict_get (or_perf s) (ag_id a)\<rparr>)
       (dict_get (or_agents s) ty)"

definition gather_task_inputs :: "task_node \<Rightarrow> dag \<Rightarrow> orch_execution \<Rightarrow> orchestrator \<Rightarrow> pydict" where
  "gather_task_inputs task d x s =
     fold (\<lambda>dep inp.
       case dict_get (dg_nodes d) dep of
         None \<Rightarrow> inp
       | Some n \<Rightarrow>
         if tn_status n \<noteq> TS_COMPLETED then inp
         else (case dict_get (oe_results x) dep of
                 None \<Rightarrow> inp
               | Some v \<Rightarrow>
                 if \<not> truthy v then inp
                 else (let inp1 = dict_set dep v inp
                       in case get_last (''task.'' @ dep @ ''.completed'') (or_bus s) of
                            None \<Rightarrow> inp1
                          | Some m \<Rightarrow> if m = [] then inp1 else dict_set (dep @ ''_detailed'') (PDict m) inp1)))
       (tn_dependencies task) []"

end
