(* ===== verification/OrchestratorRuns.thy ===== *)
theory OrchestratorRuns
  imports Orchestrator
begin

text \<open>
  What the orchestrator guarantees: the performance table stays meaningful, the agent chosen is the
  first of the best, its failure falls back in order, and executing a plan finishes every task or
  raises, and leaves nothing behind.
\<close>

section \<open>The performance table\<close>

definition perf_ok :: "perf \<Rightarrow> bool" where
  "perf_ok p \<longleftrightarrow> 0 \<le> pf_successful p \<and> 0 \<le> pf_failed p \<and> pf_successful p + pf_failed p \<le> pf_total p
     \<and> (case pf_success_rate p of None \<Rightarrow> True | Some r \<Rightarrow> 0 \<le> r \<and> r \<le> 1)"

lemma new_perf_ok: "perf_ok new_perf"
  by (simp add: perf_ok_def new_perf_def)

lemma rate_bounds: "0 \<le> (a :: int) \<Longrightarrow> a \<le> n \<Longrightarrow> 0 < n \<Longrightarrow> 0 \<le> (of_int a / of_int n :: rat) \<and> (of_int a / of_int n :: rat) \<le> 1"
  by simp

lemma perf_after_ok: "perf_ok p \<Longrightarrow> perf_ok (fst (perf_after task result p))"
  by (cases result) (auto simp: perf_ok_def perf_after_def Let_def split: option.split)

definition perfs_ok :: "orchestrator \<Rightarrow> bool" where
  "perfs_ok s \<longleftrightarrow> dict_all (\<lambda>k p. perf_ok p) (or_perf s)"

lemma perf_get_ok: "perfs_ok s \<Longrightarrow> perf_ok (dict_get_or (or_perf s) k new_perf)"
  by (auto simp: perfs_ok_def dict_get_or_def new_perf_ok dest: dict_allD split: option.split)

lemma track_ok: "perfs_ok s \<Longrightarrow> perfs_ok (fst (track_agent_performance a task v s))"
  using perf_after_ok [OF perf_get_ok, of s]
  by (simp add: track_agent_performance_def perfs_ok_def split_beta Let_def dict_all_set)

lemma tools_perf: "or_perf (snd (execute_with_tools env task inp u t eid now s)) = or_perf s"
  by (simp add: execute_with_tools_def split_beta Let_def)

lemma fallback_perf: "or_perf (snd (fallback_execution env task inp u t eid a now s)) = or_perf s"
  by (simp add: fallback_execution_def tools_perf split: option.split)

lemma route_perfs: "perfs_ok s \<Longrightarrow> perfs_ok (snd (route_task_to_agent env task inp u t eid now s))"
proof -
  assume ok: "perfs_ok s"
  have "perfs_ok s1" if "track_agent_performance a task v s = (s1, e)" for a v s1 e
    using track_ok [OF ok, of a task v] that by simp
  then show ?thesis
    by (auto simp: route_task_to_agent_def perfs_ok_def tools_perf fallback_perf ok [unfolded perfs_ok_def]
        split: option.split sum.split prod.split)
qed

section \<open>Scores\<close>

definition rate_of :: "agent \<Rightarrow> orchestrator \<Rightarrow> rat" where
  "rate_of a s = (case dict_get (or_perf s) (ag_id a) of None \<Rightarrow> 1/2
     | Some p \<Rightarrow> (case pf_success_rate p of None \<Rightarrow> 1/2 | Some r \<Rightarrow> r))"

lemma rate_of_bounds: "perfs_ok s \<Longrightarrow> 0 \<le> rate_of a s \<and> rate_of a s \<le> 1"
  by (auto simp: rate_of_def perfs_ok_def perf_ok_def dest: dict_allD split: option.splits)

lemma score_nonneg: "perfs_ok s \<Longrightarrow> 0 \<le> score_agent a task s"
  using rate_of_bounds [of s a] by (simp add: score_agent_def rate_of_def [symmetric] Let_def)

text \<open>The loop keeps the first agent of the highest score.\<close>

lemma best_agent_keep: "\<not> (\<exists>a \<in> set as. score a > m) \<Longrightarrow> best_agent score as m b = b"
  by (induction as) auto

lemma best_agent_first:
  "\<exists>a \<in> set as. score a > m \<Longrightarrow> \<exists>xs a ys. as = xs @ a # ys \<and> best_agent score as m b = Some a
     \<and> (\<forall>x \<in> set xs. score x < score a) \<and> (\<forall>y \<in> set ys. score y \<le> score a) \<and> m < score a"
proof (induction as arbitrary: m b)
  case (Cons c as)
  define m' b' where "m' = max m (score c)" and "b' = (if score c > m then Some c else b)"
  have step: "best_agent score (c # as) m b = best_agent score as m' b'"
    by (simp add: m'_def b'_def max_def)
  have le: "m \<le> m'" "score c \<le> m'" by (simp_all add: m'_def)
  show ?case
  proof (cases "\<exists>a \<in> set as. score a > m'")
    case True
    from Cons.IH [OF this, of b'] obtain xs a ys where a: "as = xs @ a # ys" "best_agent score as m' b' = Some a"
        "\<forall>x \<in> set xs. score x < score a" "\<forall>y \<in> set ys. score y \<le> score a" "m' < score a"
      by blast
    from le a(5) have "score c < score a" "m < score a" by (auto intro: le_less_trans)
    with a(3) have "\<forall>x \<in> set (c # xs). score x < score a" by simp
    moreover from a(1) have "c # as = (c # xs) @ a # ys" by simp
    ultimately show ?thesis using step a(2,4) \<open>m < score a\<close> by metis
  next
    case False
    have c: "score c > m"
    proof (rule ccontr)
      assume "\<not> score c > m"
      then have "m' = m" by (simp add: m'_def)
      with False Cons.prems \<open>\<not> score c > m\<close> show False by auto
    qed
    then have m': "m' = score c" "b' = Some c" by (simp_all add: m'_def b'_def)
    from False have "best_agent score as m' b' = b'" by (rule best_agent_keep)
    moreover from False m' have "\<forall>y \<in> set as. score y \<le> score c" by (simp add: not_less)
    moreover have "c # as = [] @ c # as" "\<forall>x \<in> set []. score x < score c" by simp_all
    ultimately show ?thesis using step m' c by metis
  qed
qed simp

lemma best_agent_none: "best_agent score [] m None = None"
  by simp

section \<open>Routing\<close>

definition trackable :: "pyval \<Rightarrow> bool" where
  "trackable v \<longleftrightarrow> (\<exists>d. v = PDict d \<and> num_val (dict_get_or d ''duration_seconds'' (PInt 0)) \<noteq> None)"

lemma track_raises: "snd (track_agent_performance a task v s) = None \<longleftrightarrow> trackable v"
  by (cases v) (auto simp: track_agent_performance_def trackable_def perf_after_def Let_def split: option.split)

lemma fallback_outcome:
  "fst (fallback_execution env task inp u t eid a now s) =
     (case first_success (ox_run env) task a (dict_values (or_agents s)) of
        Some v \<Rightarrow> Inr v | None \<Rightarrow> fst (execute_with_tools env task inp u t eid now s))"
  by (simp add: fallback_execution_def split: option.split)

lemma tools_cong: "or_retry s = or_retry s' \<Longrightarrow>
    fst (execute_with_tools env task inp u t eid now s) = fst (execute_with_tools env task inp u t eid now s')"
  by (simp add: execute_with_tools_def split_beta Let_def)

lemma track_frame:
  "or_agents (fst (track_agent_performance a task v s)) = or_agents s"
  "or_retry (fst (track_agent_performance a task v s)) = or_retry s"
  by (simp_all add: track_agent_performance_def split_beta Let_def)

text \<open>
  A task goes to the first registered agent of the highest score. Its result is the outcome when
  it is a dictionary whose duration is a number; when the agent raises, or returns anything else,
  the outcome is the first success of the other agents in the order of registration, and without
  one, or without any agent, what the tools return under retry.
\<close>
theorem route_outcome:
  assumes "perfs_ok s"
  shows "let ags = dict_values (or_agents s); score = (\<lambda>a. score_agent a task s);
             tools = fst (execute_with_tools env task inp u t eid now s);
             out = fst (route_task_to_agent env task inp u t eid now s)
         in if ags = [] then out = tools
            else \<exists>xs a ys. ags = xs @ a # ys \<and> (\<forall>x \<in> set xs. score x < score a) \<and> (\<forall>y \<in> set ys. score y \<le> score a)
              \<and> (\<forall>v. ox_run env (ag_id a) task = Inr v \<and> trackable v \<longrightarrow> out = Inr v)
              \<and> ((\<nexists>v. ox_run env (ag_id a) task = Inr v \<and> trackable v) \<longrightarrow>
                   out = (case first_success (ox_run env) task a ags of Some w \<Rightarrow> Inr w | None \<Rightarrow> tools))"
proof -
  let ?ags = "dict_values (or_agents s)" and ?score = "\<lambda>a. score_agent a task s"
  show ?thesis
  proof (cases "?ags = []")
    case True
    then show ?thesis by (simp add: route_task_to_agent_def Let_def)
  next
    case False
    have pos: "?score a > - 1" for a using score_nonneg [OF assms, of a task] by simp
    from False obtain c where "c \<in> set ?ags" by (cases ?ags) auto
    with pos have "\<exists>a \<in> set ?ags. ?score a > - 1" by blast
    from best_agent_first [OF this, of None] obtain xs a ys where
        a: "?ags = xs @ a # ys" "best_agent ?score ?ags (- 1) None = Some a"
           "\<forall>x \<in> set xs. ?score x < ?score a" "\<forall>y \<in> set ys. ?score y \<le> ?score a"
      by blast
    have out: "fst (route_task_to_agent env task inp u t eid now s) =
        (case ox_run env (ag_id a) task of
           Inl e \<Rightarrow> fst (fallback_execution env task inp u t eid a now s)
         | Inr v \<Rightarrow> if trackable v then Inr v
                    else fst (fallback_execution env task inp u t eid a now (fst (track_agent_performance a task v s))))"
    proof (cases "ox_run env (ag_id a) task")
      case (Inr v)
      obtain s1 e where "track_agent_performance a task v s = (s1, e)" by fastforce
      with Inr a(2) track_raises [of a task v s] show ?thesis
        by (cases e) (simp_all add: route_task_to_agent_def)
    qed (use a(2) in \<open>simp add: route_task_to_agent_def\<close>)
    have fb: "fst (fallback_execution env task inp u t eid a now (fst (track_agent_performance a task v s))) =
        fst (fallback_execution env task inp u t eid a now s)" for v
    proof -
      have "fst (execute_with_tools env task inp u t eid now (fst (track_agent_performance a task v s))) =
          fst (execute_with_tools env task inp u t eid now s)"
        by (rule tools_cong [OF track_frame(2)])
      then show ?thesis by (simp add: fallback_outcome track_frame split: option.split)
    qed
    show ?thesis
      unfolding Let_def if_not_P [OF False]
      by (rule exI [of _ xs], rule exI [of _ a], rule exI [of _ ys])
        (use a(1,3,4) out fb fallback_outcome [of env task inp u t eid a now s] in \<open>auto split: sum.splits\<close>)
  qed
qed

section \<open>Running a plan\<close>

text \<open>A task is settled, in the plan and in the results.\<close>

definition recorded :: "bool \<Rightarrow> dag \<times> orch_execution \<Rightarrow> string \<Rightarrow> bool" where
  "recorded cont dx t \<longleftrightarrow> (\<exists>n. dict_get (dg_nodes (fst dx)) t = Some n
     \<and> (tn_status n = TS_COMPLETED \<and> tn_result n \<noteq> None \<and> dict_get (oe_results (snd dx)) t = tn_result n
         \<or> cont \<and> tn_status n = TS_FAILED))"

definition same_results :: "string set \<Rightarrow> orch_execution \<Rightarrow> orch_execution \<Rightarrow> bool" where
  "same_results ts x x' \<longleftrightarrow> (\<forall>t. t \<notin> ts \<longrightarrow> dict_get (oe_results x') t = dict_get (oe_results x) t)"

definition changes :: "string set \<Rightarrow> dag \<times> orch_execution \<Rightarrow> dag \<times> orch_execution \<Rightarrow> bool" where
  "changes ts dx dx' \<longleftrightarrow> same_but ts (fst dx) (fst dx') \<and> same_results ts (snd dx) (snd dx')"

lemma changes_refl [simp]: "changes ts dx dx"
  by (simp add: changes_def same_results_def)

lemma changes_trans: "changes ts dx dx1 \<Longrightarrow> changes us dx1 dx2 \<Longrightarrow> changes (ts \<union> us) dx dx2"
  by (auto simp: changes_def same_results_def intro: same_but_trans)

lemma changes_mono: "changes ts dx dx1 \<Longrightarrow> ts \<subseteq> us \<Longrightarrow> changes us dx dx1"
  by (auto simp: changes_def same_results_def intro: same_but_mono)

lemma recorded_keep: "changes ts dx dx' \<Longrightarrow> t \<notin> ts \<Longrightarrow> recorded cont dx' t = recorded cont dx t"
  by (simp add: recorded_def changes_def same_but_def same_results_def)

lemma open_tasks_changes: "open_tasks now ts d x = (e, dx) \<Longrightarrow> changes (set ts) (d, x) dx"
proof (induction ts arbitrary: d x)
  case (Cons t ts)
  show ?case
  proof (cases "dict_get (dg_nodes d) t")
    case (Some n)
    let ?dx = "(d\<lparr>dg_nodes := dict_set t (n\<lparr>tn_status := TS_RUNNING\<rparr>) (dg_nodes d)\<rparr>,
      x\<lparr>oe_tasks := dict_set t \<lparr>te_status = ''running'', te_start_time = now, te_error = None, te_end_time = None\<rparr> (oe_tasks x)\<rparr>)"
    have "changes {t} (d, x) ?dx" using same_but_set [OF Some] by (simp add: changes_def same_results_def)
    moreover have "changes (set ts) ?dx dx" using Cons Some by simp
    ultimately show ?thesis using changes_trans [of "{t}" "(d, x)" ?dx "set ts" dx] by simp
  qed (use Cons in auto)
qed auto

lemma task_failed_changes: "changes {t} dx (task_failed env now t e dx)"
  by (cases dx) (simp add: changes_def same_results_def task_failed_def same_but_mod)

lemma task_succeeded_changes: "changes {t} dx (task_succeeded now t v dx)"
  by (cases dx) (simp add: changes_def same_results_def task_succeeded_def same_but_mod)

lemma task_recorded:
  "dict_has (dg_nodes (fst dx)) t \<Longrightarrow> recorded True (task_failed env now t e dx) t"
  "dict_has (dg_nodes (fst dx)) t \<Longrightarrow> recorded cont (task_succeeded now t v dx) t"
  by (cases dx; auto simp: recorded_def task_failed_def task_succeeded_def dict_has_def)+

lemma close_tasks_spec:
  "close_tasks env route cont now ts dx = (e, dx') \<Longrightarrow>
     changes (set ts) dx dx' \<and> (e = None \<longrightarrow> distinct ts \<longrightarrow> (\<forall>t \<in> set ts. recorded cont dx' t))"
proof (induction ts arbitrary: dx)
  case (Cons t ts)
  have go: "changes (set (t # ts)) dx dx' \<and> (e = None \<longrightarrow> distinct (t # ts) \<longrightarrow> (\<forall>u \<in> set (t # ts). recorded cont dx' u))"
    if "close_tasks env route cont now ts dx1 = (e, dx')" and ch: "changes {t} dx dx1" and r: "recorded cont dx1 t" for dx1
  proof -
    note ih = Cons.IH [OF that(1)]
    have "changes (set (t # ts)) dx dx'" using changes_trans [OF ch, of "set ts" dx'] ih by simp
    moreover have "t \<notin> set ts \<Longrightarrow> recorded cont dx' t" using recorded_keep [of "set ts" dx1 dx' t cont] ih r by simp
    ultimately show ?thesis using ih by auto
  qed
  show ?case
  proof (cases "dict_get (dg_nodes (fst dx)) t")
    case None
    with Cons.prems show ?thesis by auto
  next
    case (Some n)
    then have has: "dict_has (dg_nodes (fst dx)) t" by (simp add: dict_has_def)
    show ?thesis
    proof (cases "route n")
      case (Inr v)
      with Cons.prems Some have "close_tasks env route cont now ts (task_succeeded now t v dx) = (e, dx')" by simp
      from go [OF this task_succeeded_changes task_recorded(2) [OF has]] show ?thesis .
    next
      case (Inl e1)
      show ?thesis
      proof (cases cont)
        case True
        with Cons.prems Some Inl have "close_tasks env route cont now ts (task_failed env now t e1 dx) = (e, dx')"
          by (simp add: Let_def)
        from go [OF this task_failed_changes] task_recorded(1) [OF has] True show ?thesis by simp
      next
        case False
        with Cons.prems Some Inl task_failed_changes [of t dx env now e1] show ?thesis
          by (auto simp: Let_def intro: changes_mono)
      qed
    qed
  qed
qed simp

lemma run_levels_spec:
  "run_levels env route cont now gs dx = (None, dx') \<Longrightarrow> distinct (concat gs) \<Longrightarrow>
     changes (set (concat gs)) dx dx' \<and> (\<forall>t \<in> set (concat gs). recorded cont dx' t)"
proof (induction gs arbitrary: dx)
  case (Cons ts rest)
  from Cons.prems obtain dx1 dx2 where o: "open_tasks now ts (fst dx) (snd dx) = (None, dx1)"
      and c: "close_tasks env route cont now ts dx1 = (None, dx2)"
      and r: "run_levels env route cont now rest dx2 = (None, dx')"
    by (auto split: prod.splits option.splits)
  have "changes (set ts) dx dx1" using open_tasks_changes [OF o] by simp
  from changes_trans [OF this, of "set ts" dx2] close_tasks_spec [OF c] have ch: "changes (set ts) dx dx2" by simp
  note ih = Cons.IH [OF r]
  have "recorded cont dx' t" if "t \<in> set ts" for t
    using recorded_keep [of "set (concat rest)" dx2 dx' t cont] ih close_tasks_spec [OF c] that Cons.prems(2) by auto
  moreover have "changes (set ts \<union> set (concat rest)) dx dx'" using changes_trans [OF ch] ih Cons.prems(2) by simp
  ultimately show ?case using ih Cons.prems(2) by auto
qed simp

text \<open>
  C15: Executing a plan leaves no execution and no queue behind, whatever happens, and touches no
  other execution. When it returns, every task of the plan is completed with its result among the
  results returned, or has failed where the caller tolerates errors; on a cyclic plan, and with no
  task at all, it raises.
\<close>
theorem execute_dag_outcome:
  assumes "dag_wf d"
  shows "let (r, d', s') = execute_dag rlim env route eid d pid user tenant ctx now s
    in (\<forall>q. dict_get (or_active s') q = (if q = eid then None else dict_get (or_active s) q))
       \<and> (\<forall>q. dict_get (or_queues s') q = (if q = eid then None else dict_get (or_queues s) q))
       \<and> (\<forall>sm. r = Inr sm \<longrightarrow> acyclic (set (dg_edges d)) \<and> (\<forall>t \<in> set (dict_keys (dg_nodes d)).
             \<exists>n. dict_get (dg_nodes d') t = Some n
               \<and> (tn_status n = TS_COMPLETED \<and> tn_result n \<noteq> None \<and> dict_get (ds_results sm) t = tn_result n
                  \<or> truthy (dict_get_or ctx ''continue_on_error'' (PBool False)) \<and> tn_status n = TS_FAILED)))"
proof -
  let ?cont = "truthy (dict_get_or ctx ''continue_on_error'' (PBool False))"
  let ?x = "\<lparr>oe_process_id = pid, oe_dag_id = dg_dag_id d, oe_status = ''running'', oe_start_time = now,
               oe_user_id = user, oe_tenant_id = tenant, oe_tasks = [], oe_results = [], oe_error = None,
               oe_agent = None\<rparr>"
  obtain e d1 x1 where run: "(case get_execution_order rlim d of
               Inl e \<Rightarrow> (Some e, d, ?x)
             | Inr groups \<Rightarrow> run_levels env route ?cont now groups (d, ?x)) = (e, d1, x1)"
    by (metis prod_cases3)
  have ok: "acyclic (set (dg_edges d)) \<and> (\<forall>t \<in> set (dict_keys (dg_nodes d)). recorded ?cont (d1, x1) t)" if "e = None"
  proof -
    from run that obtain gs where gs: "get_execution_order rlim d = Inr gs"
        "run_levels env route ?cont now gs (d, ?x) = (None, d1, x1)"
      by (auto split: sum.splits)
    have "acyclic (set (dg_edges d))"
      using execution_order_cycle [OF assms] gs(1) by (force simp: acyclic_def)
    with run_levels_spec [OF gs(2)] execution_order_tasks [OF assms gs(1)] show ?thesis by metis
  qed
  show ?thesis
  proof (cases e)
    case None
    with run ok show ?thesis by (auto simp: execute_dag_def cleanup_orch_def Let_def recorded_def)
  next
    case (Some e1)
    with run show ?thesis by (auto simp: execute_dag_def cleanup_orch_def Let_def)
  qed
qed

text \<open>The diamond plan with every task answered.\<close>

definition ex_orch :: orchestrator where
  "ex_orch = \<lparr>or_agents = [(''recon'', \<lparr>ag_type = ''recon'', ag_id = ''r1'', ag_capabilities = [PORT_SCAN]\<rparr>),
       (''scanner'', \<lparr>ag_type = ''scanner'', ag_id = ''s1'', ag_capabilities = []\<rparr>)],
     or_perf = [], or_active = [], or_queues = [], or_bus = new_bus, or_retry = new_retry_manager\<rparr>"

definition ex_orch_env :: orch_env where
  "ex_orch_env = \<lparr>ox_run = \<lambda>a n. Inr (PDict [(''status'', PStr ''success'')]), ox_tool = \<lambda>t i. Inl TypeErr,
     ox_retry = \<lparr>ev_clock = \<lambda>i. 0, ev_duration = \<lambda>i. 0, ev_uniform = \<lambda>i d. 0, ev_str = \<lambda>e. [],
       ev_ext = \<lambda>n. Inr PNone, ev_ckey = \<lambda>t k. []\<rparr>,
     ox_update = \<lambda>d. None, ox_str = \<lambda>e. []\<rparr>"

theorem route_outcome_witness:
  "fst (route_task_to_agent ex_orch_env (ex_node ''a'') [] ''u'' ''t'' ''e'' 0 ex_orch)
     = Inr (PDict [(''status'', PStr ''success'')])"
proof -
  have 1: "perfs_ok ex_orch" by (simp add: perfs_ok_def ex_orch_def)
  have 2: "dict_values (or_agents ex_orch) \<noteq> []" by (simp add: ex_orch_def dict_values_def)
  have 3: "ox_run ex_orch_env i n = Inr (PDict [(''status'', PStr ''success'')])" for i n by (simp add: ex_orch_env_def)
  have 4: "trackable (PDict [(''status'', PStr ''success'')])" by (simp add: trackable_def dict_get_or_def dict_get_Cons)
  from route_outcome [OF 1, of "ex_node ''a''" ex_orch_env "[]" "''u''" "''t''" "''e''" 0] 2 3 4
  show ?thesis by (auto simp: Let_def)
qed

definition returned :: "exn + dag_summary \<Rightarrow> bool" where
  "returned r \<longleftrightarrow> (case r of Inl e \<Rightarrow> False | Inr sm \<Rightarrow> True)"

lemma ex_orch_run:
  "returned (fst (execute_dag 4 ex_orch_env (\<lambda>n. Inr (PDict [])) ''e'' ex_dag ''p'' ''u'' ''t'' [] 0 ex_orch))"
  by code_simp

theorem execute_dag_outcome_witness:
  "\<exists>n. dict_get (dg_nodes (fst (snd (execute_dag 4 ex_orch_env (\<lambda>n. Inr (PDict [])) ''e'' ex_dag ''p'' ''u'' ''t'' [] 0 ex_orch)))) ''d'' = Some n
     \<and> tn_status n = TS_COMPLETED"
proof -
  obtain r d' s' where e: "execute_dag 4 ex_orch_env (\<lambda>n. Inr (PDict [])) ''e'' ex_dag ''p'' ''u'' ''t'' [] 0 ex_orch = (r, d', s')"
    by (metis prod_cases3)
  from ex_orch_run e obtain sm where "r = Inr sm" by (auto simp: returned_def split: sum.splits)
  moreover have "''d'' \<in> set (dict_keys (dg_nodes ex_dag))" by (simp add: ex_dag_def dict_keys_def)
  ultimately show ?thesis
    using execute_dag_outcome [OF ex_dag_wf, of 4 ex_orch_env "\<lambda>n. Inr (PDict [])" "''e''" "''p''" "''u''" "''t''" "[]" 0 ex_orch] e
    by (auto simp: dict_get_or_def)
qed

section \<open>Runs of the orchestrator\<close>

datatype orch_op =
    Register string agent
  | Route task_node pydict string string string
  | RunDag dag string string string string pydict
  | CancelRun string

fun orch_exec :: "nat \<Rightarrow> orch_env \<Rightarrow> (task_node \<Rightarrow> exn + pyval) \<Rightarrow> orch_op \<times> time \<Rightarrow> orchestrator \<Rightarrow> orchestrator" where
  "orch_exec rlim env route (Register ty a, now) s = register_domain_agent ty a s"
| "orch_exec rlim env route (Route task inp u t e, now) s = snd (route_task_to_agent env task inp u t e now s)"
| "orch_exec rlim env route (RunDag d e p u t ctx, now) s = snd (snd (execute_dag rlim env route e d p u t ctx now s))"
| "orch_exec rlim env route (CancelRun e, now) s = snd (cancel_execution e s)"

lemma execute_dag_perf: "or_perf (snd (snd (execute_dag rlim env route e d p u t ctx now s))) = or_perf s"
  by (simp add: execute_dag_def cleanup_orch_def Let_def split: prod.split option.split)

interpretation orch: op_system "orch_exec rlim env route" perfs_ok
proof
  fix s :: orchestrator and y :: "orch_op \<times> time"
  assume ok: "perfs_ok s"
  obtain x now where op: "y = (x, now)" by fastforce
  show "perfs_ok (orch_exec rlim env route y s)"
    by (cases x)
      (use ok op route_perfs [OF ok] execute_dag_perf in
        \<open>auto simp: perfs_ok_def register_domain_agent_def cancel_execution_def\<close>)
qed

lemma score_upper:
  assumes "perfs_ok s" and "length (tn_required_capabilities task) \<le> 5"
  shows "score_agent a task s \<le> 100"
proof -
  let ?common = "set (tn_required_capabilities task) \<inter> set (ag_capabilities a)"
  have "card ?common \<le> card (set (tn_required_capabilities task))" by (rule card_mono) auto
  also have "\<dots> \<le> 5" using card_length [of "tn_required_capabilities task"] assms(2) by simp
  finally have "of_nat (card ?common) \<le> (5 :: rat)" by (metis of_nat_le_iff of_nat_numeral)
  with rate_of_bounds [OF assms(1), of a] show ?thesis
    by (simp add: score_agent_def rate_of_def [symmetric] Let_def)
qed

text \<open>
  After any sequence of registrations, routed tasks, executed plans and cancellations, successes
  and failures of an agent are counted within its total and its success rate is between 0 and 1, so
  a score is at least 0, and at most 100 for a task of at most five required capabilities.
\<close>
theorem scores_stay_bounded:
  assumes "length (tn_required_capabilities task) \<le> 5" and "or_perf s = []"
  shows "let s' = fold (orch_exec rlim env route) ops s
    in 0 \<le> score_agent a task s' \<and> score_agent a task s' \<le> 100
       \<and> (\<forall>p. dict_get (or_perf s') i = Some p \<longrightarrow> pf_successful p + pf_failed p \<le> pf_total p)"
proof -
  have "perfs_ok s" using assms(2) by (simp add: perfs_ok_def)
  from orch.inv_run [OF this] have ok: "perfs_ok (fold (orch_exec rlim env route) ops s)" .
  then have "dict_get (or_perf (fold (orch_exec rlim env route) ops s)) i = Some p \<Longrightarrow> pf_successful p + pf_failed p \<le> pf_total p" for p
    by (auto simp: perfs_ok_def perf_ok_def dest: dict_allD)
  with score_nonneg [OF ok] score_upper [OF ok assms(1)] show ?thesis by (simp add: Let_def)
qed

theorem scores_stay_bounded_witness:
  "score_agent \<lparr>ag_type = ''recon'', ag_id = ''r1'', ag_capabilities = [PORT_SCAN]\<rparr> (ex_node ''a'')
     (fold (orch_exec 4 ex_orch_env (\<lambda>n. Inr PNone)) [(Route (ex_node ''b'') [] ''u'' ''t'' ''e'', 3)] ex_orch) \<le> 100"
  using scores_stay_bounded [of "ex_node ''a''" ex_orch 4 ex_orch_env "\<lambda>n. Inr PNone"
      "[(Route (ex_node ''b'') [] ''u'' ''t'' ''e'', 3)]" "\<lparr>ag_type = ''recon'', ag_id = ''r1'', ag_capabilities = [PORT_SCAN]\<rparr>"]
  by (simp add: Let_def ex_node_def new_task_node_def ex_orch_def del: fold_simps)

end
