(* ===== verification/Approval.thy ===== *)
theory Approval
  imports Exceptions Calendar
begin

text \<open>
  \<open>src/workflow/approval_workflow.py\<close>: approval requests, decisions, deadlines and templates. The
  request and template ids are drawn and are arguments. A request dictionary has no entry
  \<open>sequential\<close>, so reading it gives \<open>False\<close>; the field says so.
\<close>

section \<open>State\<close>

datatype approval_status = AP_pending | AP_approved | AP_rejected | AP_expired

record decision =
  de_approver :: string
  de_approved :: bool
  de_text :: string
  de_timestamp :: time

record approval_request =
  ar_request_id :: string
  ar_type :: string
  ar_requester :: string
  ar_approvers :: "string list"
  ar_data :: pydict
  ar_status :: approval_status
  ar_created_at :: time
  ar_deadline :: "time option"
  ar_policy :: pydict
  ar_decisions :: "decision list"
  ar_current_index :: nat
  ar_sequential :: bool
  ar_completed_at :: "time option"
  ar_auto_approved :: bool

record approval_template =
  at_template_id :: string
  at_name :: string
  at_approvers :: "string list"
  at_sequential :: bool
  at_deadline_hours :: "int option"
  at_policy :: pydict
  at_created_at :: time

record approvals =
  ap_requests :: "(string, approval_request) dict"
  ap_templates :: "(string, approval_template) dict"

definition new_approvals :: approvals where
  "new_approvals = \<lparr>ap_requests = [], ap_templates = []\<rparr>"

section \<open>Operations\<close>

definition create_approval_request ::
    "string \<Rightarrow> string \<Rightarrow> string \<Rightarrow> string list \<Rightarrow> pydict \<Rightarrow> time option \<Rightarrow> pydict option \<Rightarrow> time \<Rightarrow> approvals \<Rightarrow> approvals" where
  "create_approval_request rid ty requester approvers data deadline policy now s =
     s\<lparr>ap_requests := dict_set rid
         \<lparr>ar_request_id = rid, ar_type = ty, ar_requester = requester, ar_approvers = approvers, ar_data = data,
          ar_status = AP_pending, ar_created_at = now, ar_deadline = deadline,
          ar_policy = (case policy of None \<Rightarrow> [] | Some p \<Rightarrow> p), ar_decisions = [], ar_current_index = 0,
          ar_sequential = False, ar_completed_at = None, ar_auto_approved = False\<rparr> (ap_requests s)\<rparr>"

definition awaits :: "string \<Rightarrow> approval_request \<Rightarrow> bool" where
  "awaits user r \<longleftrightarrow> ar_status r = AP_pending \<and> user \<in> set (ar_approvers r)
     \<and> (ar_sequential r \<longrightarrow> ar_current_index r < length (ar_approvers r) \<and> ar_approvers r ! ar_current_index r = user)"

definition get_pending_approvals :: "string \<Rightarrow> approvals \<Rightarrow> approval_request list" where
  "get_pending_approvals user s = filter (awaits user) (dict_values (ap_requests s))"

definition is_approval_complete :: "approval_request \<Rightarrow> bool" where
  "is_approval_complete r =
     (if ar_sequential r then length (ar_decisions r) \<ge> length (ar_approvers r)
      else length (filter de_approved (ar_decisions r)) > 0)"

definition decide :: "bool \<Rightarrow> string \<Rightarrow> string \<Rightarrow> time \<Rightarrow> approval_request \<Rightarrow> approval_request" where
  "decide ok who txt now r =
     r\<lparr>ar_decisions := ar_decisions r @ [\<lparr>de_approver = who, de_approved = ok, de_text = txt, de_timestamp = now\<rparr>]\<rparr>"

definition approve :: "string \<Rightarrow> string \<Rightarrow> string \<Rightarrow> time \<Rightarrow> approvals \<Rightarrow> bool \<times> approvals" where
  "approve rid who comments now s =
     (case dict_get (ap_requests s) rid of
        None \<Rightarrow> (False, s)
      | Some r \<Rightarrow>
        if ar_status r \<noteq> AP_pending then (False, s)
        else (let r1 = decide True who comments now r;
                  r2 = (if is_approval_complete r1 then r1\<lparr>ar_status := AP_approved, ar_completed_at := Some now\<rparr> else r1)
              in (True, s\<lparr>ap_requests := dict_set rid r2 (ap_requests s)\<rparr>)))"

definition reject :: "string \<Rightarrow> string \<Rightarrow> string \<Rightarrow> time \<Rightarrow> approvals \<Rightarrow> bool \<times> approvals" where
  "reject rid who reason now s =
     (case dict_get (ap_requests s) rid of
        None \<Rightarrow> (False, s)
      | Some r \<Rightarrow>
        if ar_status r \<noteq> AP_pending then (False, s)
        else (True, s\<lparr>ap_requests := dict_set rid
                ((decide False who reason now r)\<lparr>ar_status := AP_rejected, ar_completed_at := Some now\<rparr>) (ap_requests s)\<rparr>))"

definition get_request_status :: "string \<Rightarrow> approvals \<Rightarrow> approval_request option" where
  "get_request_status rid s = dict_get (ap_requests s) rid"

definition create_approval_template ::
    "string \<Rightarrow> string \<Rightarrow> string list \<Rightarrow> bool \<Rightarrow> int option \<Rightarrow> pydict option \<Rightarrow> time \<Rightarrow> approvals \<Rightarrow> approvals" where
  "create_approval_template tid name approvers sequential hours policy now s =
     s\<lparr>ap_templates := dict_set tid
         \<lparr>at_template_id = tid, at_name = name, at_approvers = approvers, at_sequential = sequential,
          at_deadline_hours = hours, at_policy = (case policy of None \<Rightarrow> [] | Some p \<Rightarrow> p), at_created_at = now\<rparr>
         (ap_templates s)\<rparr>"

definition create_from_template ::
    "string \<Rightarrow> string \<Rightarrow> string \<Rightarrow> pydict \<Rightarrow> time \<Rightarrow> approvals \<Rightarrow> string option \<times> approvals" where
  "create_from_template rid tid requester data now s =
     (case dict_get (ap_templates s) tid of
        None \<Rightarrow> (None, s)
      | Some t \<Rightarrow>
        (let deadline = (case at_deadline_hours t of None \<Rightarrow> None
                         | Some h \<Rightarrow> if h = 0 then None else Some (now + h * hour))
         in (Some rid, create_approval_request rid (at_name t) requester (at_approvers t) data deadline
               (Some (at_policy t)) now s)))"

definition check_deadline :: "time \<Rightarrow> approval_request \<Rightarrow> approval_request" where
  "check_deadline now r =
     (if ar_status r \<noteq> AP_pending then r
      else (case ar_deadline r of
              None \<Rightarrow> r
            | Some d \<Rightarrow>
              if now > d
              then if py_eq (dict_get_or (ar_policy r) ''on_deadline'' PNone) (PStr ''auto_approve'')
                   then r\<lparr>ar_status := AP_approved, ar_completed_at := Some now, ar_auto_approved := True\<rparr>
                   else r\<lparr>ar_status := AP_expired, ar_completed_at := Some now\<rparr>
              else r))"

definition check_deadlines :: "time \<Rightarrow> approvals \<Rightarrow> approvals" where
  "check_deadlines now s = s\<lparr>ap_requests := map (\<lambda>(k, r). (k, check_deadline now r)) (ap_requests s)\<rparr>"

section \<open>The life of a request\<close>

text \<open>The specification: a pending request is decided once, and a decided one never changes.\<close>

inductive approval_step :: "approval_status \<Rightarrow> approval_status \<Rightarrow> bool" where
  approved: "approval_step AP_pending AP_approved"
| rejected: "approval_step AP_pending AP_rejected"
| expired: "approval_step AP_pending AP_expired"

inductive_simps approval_step_simps: "approval_step a b"
inductive_cases decided_stepE: "approval_step AP_approved b" "approval_step AP_rejected b" "approval_step AP_expired b"

datatype approval_op =
    Create string string string "string list" pydict "time option" "pydict option"
  | Approve string string string
  | Reject string string string
  | CreateTemplate string string "string list" bool "int option" "pydict option"
  | FromTemplate string string string pydict
  | CheckDeadlines

fun approval_exec :: "approval_op \<times> time \<Rightarrow> approvals \<Rightarrow> approvals" where
  "approval_exec (Create i ty q ap d dl p, now) s = create_approval_request i ty q ap d dl p now s"
| "approval_exec (Approve i w c, now) s = snd (approve i w c now s)"
| "approval_exec (Reject i w c, now) s = snd (reject i w c now s)"
| "approval_exec (CreateTemplate i n ap sq h p, now) s = create_approval_template i n ap sq h p now s"
| "approval_exec (FromTemplate i t q d, now) s = snd (create_from_template i t q d now s)"
| "approval_exec (CheckDeadlines, now) s = check_deadlines now s"

text \<open>The request ids an operation draws.\<close>

fun drawn_request :: "approval_op \<Rightarrow> string list" where
  "drawn_request (Create i ty q ap d dl p) = [i]"
| "drawn_request (FromTemplate i t q d) = [i]"
| "drawn_request _ = []"

lemma check_deadlines_get:
  "dict_get (ap_requests (check_deadlines now s)) k = map_option (check_deadline now) (dict_get (ap_requests s) k)"
proof -
  have "dict_get (map (\<lambda>(k, r). (k, f r)) m) k = map_option f (dict_get m k)" for f :: "approval_request \<Rightarrow> approval_request" and m
    by (induction m) (auto simp: dict_get_Cons)
  then show ?thesis by (simp add: check_deadlines_def)
qed

lemma check_deadline_cases:
  "check_deadline now r = r \<or> approval_step (ar_status r) (ar_status (check_deadline now r))"
  by (auto simp: check_deadline_def approval_step_simps split: option.split)

lemma exec_request:
  assumes "k \<notin> set (drawn_request x)" and "dict_get (ap_requests s) k = Some r"
  shows "\<exists>r'. dict_get (ap_requests (approval_exec (x, now) s)) k = Some r'
     \<and> (approval_step (ar_status r) (ar_status r') \<or> ar_status r' = ar_status r \<and> (ar_status r = AP_pending \<or> r' = r))"
proof (cases x)
  case CheckDeadlines
  with assms check_deadline_cases [of now r] show ?thesis by (auto simp: check_deadlines_get)
qed (use assms in \<open>auto simp: create_approval_request_def approve_def reject_def create_approval_template_def
    create_from_template_def decide_def approval_step_simps Let_def split: option.split\<close>)

text \<open>
  Under any further operations a request goes from pending to approved, rejected or expired at
  most once, and a decided request stays exactly as it is: no later approval, rejection or
  deadline touches it.
\<close>
theorem decided_requests_are_final:
  assumes "dict_get (ap_requests s) k = Some r"
    and "\<forall>x \<in> set xs. k \<notin> set (drawn_request (fst x))"
  shows "\<exists>r'. dict_get (ap_requests (fold approval_exec xs s)) k = Some r'
    \<and> approval_step\<^sup>=\<^sup>= (ar_status r) (ar_status r') \<and> (ar_status r \<noteq> AP_pending \<longrightarrow> r' = r)"
  using assms
proof (induction xs arbitrary: s r)
  case (Cons x xs)
  obtain y now where x: "x = (y, now)" by fastforce
  with Cons.prems obtain r1 where r1: "dict_get (ap_requests (approval_exec x s)) k = Some r1"
      "approval_step (ar_status r) (ar_status r1) \<or> ar_status r1 = ar_status r \<and> (ar_status r = AP_pending \<or> r1 = r)"
    using exec_request [of k y s r now] by auto
  from Cons.IH [OF r1(1)] Cons.prems(2) obtain r' where r': "dict_get (ap_requests (fold approval_exec xs (approval_exec x s))) k = Some r'"
      "approval_step\<^sup>=\<^sup>= (ar_status r1) (ar_status r')" "ar_status r1 \<noteq> AP_pending \<longrightarrow> r' = r1"
    by auto
  with r1(2) show ?case by (auto simp: approval_step_simps)
qed auto

definition ex_approvals :: approvals where
  "ex_approvals = create_approval_request ''r'' ''scan'' ''ann'' [''bob''] [] (Some 5) None 0 new_approvals"

theorem decided_requests_are_final_witness:
  "\<exists>r'. dict_get (ap_requests (fold approval_exec [(Reject ''r'' ''bob'' ''no'', 1), (CheckDeadlines, 9)] ex_approvals)) ''r'' = Some r'
     \<and> approval_step\<^sup>=\<^sup>= AP_pending (ar_status r')"
proof -
  obtain r where r: "dict_get (ap_requests ex_approvals) ''r'' = Some r" "ar_status r = AP_pending"
    by (simp add: ex_approvals_def create_approval_request_def new_approvals_def)
  from decided_requests_are_final [OF r(1), of "[(Reject ''r'' ''bob'' ''no'', 1), (CheckDeadlines, 9)]"] r(2)
  show ?thesis by (auto simp del: approval_exec.simps)
qed

text \<open>
  Every request with a deadline is eventually decided: the first deadline check after it leaves
  no such request pending, whatever happened in between.
\<close>
theorem deadline_decides:
  assumes "dict_get (ap_requests s) k = Some r" and "ar_deadline r = Some d" and "d < now"
    and "\<forall>x \<in> set xs. k \<notin> set (drawn_request (fst x))"
  shows "\<exists>r'. dict_get (ap_requests (approval_exec (CheckDeadlines, now) (fold approval_exec xs s))) k = Some r'
    \<and> ar_status r' \<noteq> AP_pending"
proof -
  have step: "\<exists>r'. dict_get (ap_requests (approval_exec x s)) k = Some r' \<and> ar_deadline r' = ar_deadline r"
    if "dict_get (ap_requests s) k = Some r" "k \<notin> set (drawn_request (fst x))" for x :: "approval_op \<times> time" and s r
    by (cases x; cases "fst x")
      (use that in \<open>auto simp: create_approval_request_def approve_def reject_def create_approval_template_def
        create_from_template_def decide_def check_deadlines_get check_deadline_def Let_def split: option.split\<close>)
  have "\<exists>r'. dict_get (ap_requests (fold approval_exec xs s)) k = Some r' \<and> ar_deadline r' = Some d"
    using assms(1,2,4)
  proof (induction xs arbitrary: s r)
    case (Cons x xs)
    with step [of s r x] obtain r1 where "dict_get (ap_requests (approval_exec x s)) k = Some r1" "ar_deadline r1 = Some d"
      by auto
    with Cons show ?case by simp
  qed simp
  then obtain r' where r': "dict_get (ap_requests (fold approval_exec xs s)) k = Some r'" "ar_deadline r' = Some d"
    by blast
  have "ar_status (check_deadline now r') \<noteq> AP_pending"
    using assms(3) r'(2) by (simp add: check_deadline_def)
  with r'(1) show ?thesis by (simp add: check_deadlines_get)
qed

theorem deadline_decides_witness:
  "\<exists>r'. dict_get (ap_requests (approval_exec (CheckDeadlines, 9) (fold approval_exec [(Approve ''q'' ''eve'' '''', 1)] ex_approvals))) ''r'' = Some r'
     \<and> ar_status r' \<noteq> AP_pending"
proof -
  obtain r where "dict_get (ap_requests ex_approvals) ''r'' = Some r" "ar_deadline r = Some 5"
    by (simp add: ex_approvals_def create_approval_request_def new_approvals_def)
  from deadline_decides [OF this, of 9 "[(Approve ''q'' ''eve'' '''', 1)]"] show ?thesis by simp
qed

text \<open>
  Whoever approves decides: the approver need not be among the approvers, and one approval is
  enough even for a template that asks for all of them in sequence.
\<close>

lemma anyone_approves:
  assumes "dict_get (ap_templates s) tid = Some t" and "rid \<noteq> []"
  shows "\<exists>r. get_request_status rid (snd (approve rid who c now (snd (create_from_template rid tid q d now0 s)))) = Some r
    \<and> ar_status r = AP_approved"
  using assms
  by (auto simp: create_from_template_def create_approval_request_def approve_def decide_def is_approval_complete_def
      get_request_status_def Let_def)

end
