(* ===== verification/TaskAssignment.thy ===== *)
theory TaskAssignment
  imports Exceptions Calendar
begin

text \<open>
  \<open>src/workflow/task_assignment.py\<close>: pools of agents, the choice of an agent for a task, workloads and
  assignment rules. An agent is a dictionary whose optional \<open>id\<close> is a string (a field of its own
  here); requirements and attributes are arbitrary values, and what the code does with a value it
  cannot iterate, hash or compare is the exception it raises. \<open>random.choice\<close> is the argument
  \<open>pick\<close>.
\<close>

section \<open>Iteration, sets and membership of arbitrary values\<close>

definition py_iter :: "pyval \<Rightarrow> pyval list option" where
  "py_iter v = (case v of PList xs \<Rightarrow> Some xs | PStr s \<Rightarrow> Some (map (\<lambda>c. PStr [c]) s)
      | PDict d \<Rightarrow> Some (map (PStr \<circ> fst) d) | _ \<Rightarrow> None)"

definition hashable :: "pyval \<Rightarrow> bool" where
  "hashable v = (case v of PList _ \<Rightarrow> False | PDict _ \<Rightarrow> False | _ \<Rightarrow> True)"

text \<open>\<open>set(v)\<close>, up to order and duplicates.\<close>

definition py_set :: "pyval \<Rightarrow> exn + pyval list" where
  "py_set v = (case py_iter v of None \<Rightarrow> Inl TypeErr
      | Some xs \<Rightarrow> if list_all hashable xs then Inr xs else Inl TypeErr)"

definition elem_eq :: "pyval \<Rightarrow> pyval list \<Rightarrow> bool" where
  "elem_eq v xs = list_ex (\<lambda>x. py_eq x v) xs"

section \<open>State\<close>

record agent =
  ag_id :: "string option"
  ag_attrs :: pydict

definition agent_get :: "agent \<Rightarrow> string \<Rightarrow> pyval \<Rightarrow> pyval" where
  "agent_get a k x =
     (if k = ''id'' then (case ag_id a of None \<Rightarrow> x | Some i \<Rightarrow> PStr i) else dict_get_or (ag_attrs a) k x)"

definition agent_truthy :: "agent \<Rightarrow> bool" where
  "agent_truthy a = (ag_id a \<noteq> None \<or> ag_attrs a \<noteq> [])"

record pool =
  po_name :: string
  po_agents :: "agent list"
  po_strategy :: string
  po_created_at :: time

record workload =
  wl_current :: int
  wl_completed :: int
  wl_work_time :: rat
  wl_last :: "time option"

record assignment =
  as_task :: string
  as_agent :: agent
  as_pool :: string
  as_timestamp :: time
  as_requirements :: "pydict option"
  as_context :: "pydict option"

record assignment_rule =
  ru_name :: string
  ru_condition :: pydict
  ru_pool :: string
  ru_priority :: int
  ru_created_at :: time

record task_assignment =
  ta_rules :: "(string, assignment_rule) dict"
  ta_pools :: "(string, pool) dict"
  ta_workloads :: "(string, workload) dict"
  ta_history :: "assignment list"

definition new_task_assignment :: task_assignment where
  "new_task_assignment = \<lparr>ta_rules = [], ta_pools = [], ta_workloads = [], ta_history = []\<rparr>"

text \<open>The agent's identifier where the code tests \<open>if agent_id\<close>.\<close>

definition named :: "agent \<Rightarrow> string option" where
  "named a = (case ag_id a of None \<Rightarrow> None | Some i \<Rightarrow> if i = [] then None else Some i)"

definition workload_of :: "task_assignment \<Rightarrow> agent \<Rightarrow> workload option" where
  "workload_of s a = (case ag_id a of None \<Rightarrow> None | Some i \<Rightarrow> dict_get (ta_workloads s) i)"

section \<open>Pools\<close>

definition new_workload :: workload where
  "new_workload = \<lparr>wl_current = 0, wl_completed = 0, wl_work_time = 0, wl_last = None\<rparr>"

definition register_agent_pool ::
    "string \<Rightarrow> agent list \<Rightarrow> string \<Rightarrow> time \<Rightarrow> task_assignment \<Rightarrow> task_assignment" where
  "register_agent_pool name agents strategy now s =
     s\<lparr>ta_pools := dict_set name \<lparr>po_name = name, po_agents = agents, po_strategy = strategy, po_created_at = now\<rparr> (ta_pools s),
       ta_workloads := fold (\<lambda>a m. case named a of None \<Rightarrow> m | Some i \<Rightarrow> dict_set i new_workload m) agents (ta_workloads s)\<rparr>"

section \<open>The agents that meet the requirements\<close>

definition skills_match :: "pydict \<Rightarrow> agent \<Rightarrow> exn + bool" where
  "skills_match req a =
     (case dict_get req ''skills'' of
        None \<Rightarrow> Inr True
      | Some v \<Rightarrow> rbind (py_set (agent_get a ''skills'' (PList []))) (\<lambda>have.
          rbind (py_set v) (\<lambda>need. Inr (list_all (\<lambda>x. elem_eq x have) need))))"

definition load_matches :: "task_assignment \<Rightarrow> pydict \<Rightarrow> agent \<Rightarrow> exn + bool" where
  "load_matches s req a =
     (case dict_get req ''max_concurrent_tasks'' of
        None \<Rightarrow> Inr True
      | Some v \<Rightarrow> (case workload_of s a of
            None \<Rightarrow> Inr True
          | Some w \<Rightarrow> (case py_ge (PInt (wl_current w)) v of None \<Rightarrow> Inl TypeErr | Some b \<Rightarrow> Inr (\<not> b))))"

definition attributes_match :: "pydict \<Rightarrow> agent \<Rightarrow> exn + bool" where
  "attributes_match req a =
     (case dict_get req ''attributes'' of
        None \<Rightarrow> Inr True
      | Some (PDict d) \<Rightarrow> Inr (list_all (\<lambda>(k, v). py_eq (agent_get a k PNone) v) d)
      | Some _ \<Rightarrow> Inl (AttributeErr ''items''))"

definition matches :: "task_assignment \<Rightarrow> pydict \<Rightarrow> agent \<Rightarrow> exn + bool" where
  "matches s req a =
     rbind (skills_match req a) (\<lambda>b1. rbind (load_matches s req a) (\<lambda>b2. rbind (attributes_match req a) (\<lambda>b3.
       Inr (b1 \<and> b2 \<and> b3))))"

fun filter_matching :: "task_assignment \<Rightarrow> pydict \<Rightarrow> agent list \<Rightarrow> exn + agent list" where
  "filter_matching s req [] = Inr []"
| "filter_matching s req (a # as) =
     rbind (matches s req a) (\<lambda>b. rbind (filter_matching s req as) (\<lambda>r. Inr (if b then a # r else r)))"

definition filter_agents :: "task_assignment \<Rightarrow> agent list \<Rightarrow> pydict option \<Rightarrow> exn + agent list" where
  "filter_agents s agents req =
     (case req of None \<Rightarrow> Inr agents | Some r \<Rightarrow> if r = [] then Inr agents else filter_matching s r agents)"

section \<open>The choice of an agent\<close>

definition assigned_count :: "assignment list \<Rightarrow> string \<Rightarrow> nat" where
  "assigned_count h i = length (filter (\<lambda>x. ag_id (as_agent x) = Some i) h)"

definition agent_assignments :: "assignment list \<Rightarrow> agent list \<Rightarrow> (string, nat) dict" where
  "agent_assignments h agents =
     fold (\<lambda>a m. case named a of None \<Rightarrow> m | Some i \<Rightarrow> dict_set i (assigned_count h i) m) agents []"

text \<open>\<open>min(d, key=d.get)\<close>: the first key of the least value.\<close>

fun min_key :: "(string \<times> nat) list \<Rightarrow> string option" where
  "min_key [] = None"
| "min_key ((k, n) # m) = (if list_all (\<lambda>(_, n'). n \<le> n') m then Some k else min_key m)"

definition round_robin :: "(agent list \<Rightarrow> agent) \<Rightarrow> task_assignment \<Rightarrow> agent list \<Rightarrow> agent" where
  "round_robin pick s agents =
     (case min_key (agent_assignments (ta_history s) agents) of
        None \<Rightarrow> pick agents
      | Some i \<Rightarrow> (case find (\<lambda>a. ag_id a = Some i) agents of Some a \<Rightarrow> a | None \<Rightarrow> pick agents))"

definition less_loaded :: "task_assignment \<Rightarrow> agent \<Rightarrow> (int \<times> agent) option \<Rightarrow> (int \<times> agent) option" where
  "less_loaded s a best =
     (case workload_of s a of
        None \<Rightarrow> best
      | Some w \<Rightarrow> (case best of None \<Rightarrow> Some (wl_current w, a)
                  | Some (l, b) \<Rightarrow> if wl_current w < l then Some (wl_current w, a) else best))"

definition least_loaded :: "(agent list \<Rightarrow> agent) \<Rightarrow> task_assignment \<Rightarrow> agent list \<Rightarrow> agent" where
  "least_loaded pick s agents =
     (case fold (less_loaded s) agents None of None \<Rightarrow> pick agents | Some (l, a) \<Rightarrow> a)"

definition select_agent ::
    "(agent list \<Rightarrow> agent) \<Rightarrow> task_assignment \<Rightarrow> agent list \<Rightarrow> string \<Rightarrow> agent option" where
  "select_agent pick s agents strategy =
     (if agents = [] then None
      else if strategy = ''round_robin'' then Some (round_robin pick s agents)
      else if strategy = ''least_loaded'' then Some (least_loaded pick s agents)
      else Some (pick agents))"

definition record_assignment ::
    "string \<Rightarrow> string \<Rightarrow> pydict option \<Rightarrow> pydict option \<Rightarrow> time \<Rightarrow> agent \<Rightarrow> task_assignment \<Rightarrow> task_assignment" where
  "record_assignment task pn req ctx now a s =
     s\<lparr>ta_workloads := (case ag_id a of None \<Rightarrow> ta_workloads s
         | Some i \<Rightarrow> dict_mod i (\<lambda>w. w\<lparr>wl_current := wl_current w + 1, wl_last := Some now\<rparr>) (ta_workloads s)),
       ta_history := ta_history s @ [\<lparr>as_task = task, as_agent = a, as_pool = pn, as_timestamp = now,
         as_requirements = req, as_context = ctx\<rparr>]\<rparr>"

definition assign_task ::
    "(agent list \<Rightarrow> agent) \<Rightarrow> string \<Rightarrow> string \<Rightarrow> pydict option \<Rightarrow> pydict option \<Rightarrow> time \<Rightarrow> task_assignment
      \<Rightarrow> exn + agent option \<times> task_assignment" where
  "assign_task pick task pn req ctx now s =
     (case dict_get (ta_pools s) pn of
        None \<Rightarrow> Inr (None, s)
      | Some p \<Rightarrow>
        if po_agents p = [] then Inr (None, s)
        else rbind (filter_agents s (po_agents p) req) (\<lambda>eligible.
          case select_agent pick s eligible (po_strategy p) of
            None \<Rightarrow> Inr (None, s)
          | Some a \<Rightarrow> if agent_truthy a then Inr (Some a, record_assignment task pn req ctx now a s)
                     else Inr (None, s)))"

section \<open>Workloads, statistics and rules\<close>

definition complete_task :: "string \<Rightarrow> rat \<Rightarrow> task_assignment \<Rightarrow> task_assignment" where
  "complete_task i duration s =
     s\<lparr>ta_workloads := dict_mod i (\<lambda>w. w\<lparr>wl_current := wl_current w - 1, wl_completed := wl_completed w + 1,
         wl_work_time := wl_work_time w + duration\<rparr>) (ta_workloads s)\<rparr>"

definition get_agent_workload :: "string \<Rightarrow> task_assignment \<Rightarrow> workload option" where
  "get_agent_workload i s = dict_get (ta_workloads s) i"

record pool_stats =
  ps_pool_name :: string
  ps_agent_count :: nat
  ps_current_tasks :: int
  ps_total_completed :: int
  ps_total_tasks :: int
  ps_utilization :: rat

definition get_pool_stats :: "string \<Rightarrow> task_assignment \<Rightarrow> pool_stats option" where
  "get_pool_stats pn s =
     (case dict_get (ta_pools s) pn of
        None \<Rightarrow> None
      | Some p \<Rightarrow>
        (let ws = List.map_filter (workload_of s) (po_agents p);
             cur = sum_list (map wl_current ws);
             compl = sum_list (map wl_completed ws);
             n = length (po_agents p)
         in Some \<lparr>ps_pool_name = pn, ps_agent_count = n, ps_current_tasks = cur, ps_total_completed = compl,
              ps_total_tasks = sum_list (map (\<lambda>w. wl_current w + wl_completed w) ws),
              ps_utilization = (if n = 0 then 0 else of_int cur / of_nat n)\<rparr>))"

definition create_assignment_rule ::
    "string \<Rightarrow> pydict \<Rightarrow> string \<Rightarrow> int \<Rightarrow> time \<Rightarrow> task_assignment \<Rightarrow> task_assignment" where
  "create_assignment_rule name condition pn priority now s =
     s\<lparr>ta_rules := dict_set name \<lparr>ru_name = name, ru_condition = condition, ru_pool = pn, ru_priority = priority,
        ru_created_at = now\<rparr> (ta_rules s)\<rparr>"

definition rule_applies :: "pydict \<Rightarrow> assignment_rule \<Rightarrow> bool" where
  "rule_applies ctx r =
     list_all (\<lambda>(k, v). case dict_get ctx k of None \<Rightarrow> False | Some w \<Rightarrow> py_eq w v) (ru_condition r)"

definition evaluate_rules :: "pydict \<Rightarrow> task_assignment \<Rightarrow> string option" where
  "evaluate_rules ctx s =
     (case sort_key ru_priority (filter (rule_applies ctx) (dict_values (ta_rules s))) of
        [] \<Rightarrow> None
      | r # _ \<Rightarrow> Some (ru_pool r))"


section \<open>Round robin is fair\<close>

lemma min_key_le: "min_key m = Some k \<Longrightarrow> \<exists>n. (k, n) \<in> set m \<and> (\<forall>(k', n') \<in> set m. n \<le> n')"
proof (induction m rule: min_key.induct)
  case (2 k' n m)
  show ?case
  proof (cases "list_all (\<lambda>(_, n'). n \<le> n') m")
    case True
    with 2 show ?thesis by (auto simp: list_all_iff)
  next
    case False
    with 2 obtain n0 where "(k, n0) \<in> set m" "\<forall>(k', n') \<in> set m. n0 \<le> n'" by auto
    moreover from False this(2) have "n0 \<le> n" by (force simp: list_all_iff)
    ultimately show ?thesis by auto
  qed
qed simp

lemma min_key_Some: "m \<noteq> [] \<Longrightarrow> \<exists>k. min_key m = Some k"
proof (induction m rule: min_key.induct)
  case (2 k n m)
  then show ?case by (cases "m = []") auto
qed simp

lemma agent_assignments_get:
  "dict_get (agent_assignments h agents) i = (if Some i \<in> named ` set agents then Some (assigned_count h i) else None)"
proof -
  have "dict_get (fold (\<lambda>a m. case named a of None \<Rightarrow> m | Some i \<Rightarrow> dict_set i (assigned_count h i) m) agents m) i =
      (if Some i \<in> named ` set agents then Some (assigned_count h i) else dict_get m i)" for m
    by (induction agents arbitrary: m) (auto split: option.split)
  then show ?thesis by (simp add: agent_assignments_def)
qed

lemma agent_assignments_ok: "dict_ok (agent_assignments h agents)"
proof -
  have "dict_ok m \<Longrightarrow> dict_ok (fold (\<lambda>a m. case named a of None \<Rightarrow> m | Some i \<Rightarrow> dict_set i (assigned_count h i) m) agents m)" for m
    by (induction agents arbitrary: m) (auto split: option.split)
  then show ?thesis by (simp add: agent_assignments_def)
qed

lemma named_id: "named a = Some i \<Longrightarrow> ag_id a = Some i"
  by (auto simp: named_def split: option.splits if_splits)

lemma round_robin_least:
  assumes "\<forall>a \<in> set agents. named a \<noteq> None" and "agents \<noteq> []"
  shows "\<exists>i. ag_id (round_robin pick s agents) = Some i \<and> round_robin pick s agents \<in> set agents
    \<and> (\<forall>b \<in> set agents. \<forall>j. named b = Some j \<longrightarrow> assigned_count (ta_history s) i \<le> assigned_count (ta_history s) j)"
proof -
  let ?m = "agent_assignments (ta_history s) agents"
  from assms obtain a j where a: "a \<in> set agents" "named a = Some j" by (cases agents) auto
  then have "dict_get ?m j \<noteq> None" by (auto simp: agent_assignments_get intro: rev_image_eqI)
  then have "?m \<noteq> []" by auto
  with min_key_Some obtain i where i: "min_key ?m = Some i" by blast
  from min_key_le [OF i] obtain n where n: "(i, n) \<in> set ?m" "\<forall>(k', n') \<in> set ?m. n \<le> n'" by blast
  with agent_assignments_ok have get: "dict_get ?m i = Some n" by (blast intro: dict_in_get)
  then have n_eq: "n = assigned_count (ta_history s) i" and "Some i \<in> named ` set agents"
    by (auto simp: agent_assignments_get split: if_splits)
  then obtain b where b: "b \<in> set agents" "ag_id b = Some i" by (metis imageE named_id)
  have "find (\<lambda>a. ag_id a = Some i) agents \<noteq> None" using b by (auto simp: find_None_iff)
  then obtain c where c: "find (\<lambda>a. ag_id a = Some i) agents = Some c" by blast
  then have "c \<in> set agents" "ag_id c = Some i" by (auto simp: find_Some_iff)
  moreover from i c have "round_robin pick s agents = c" by (simp add: round_robin_def)
  moreover have "n \<le> assigned_count (ta_history s) j" if "b \<in> set agents" "named b = Some j" for b j
  proof -
    from that have "dict_get ?m j = Some (assigned_count (ta_history s) j)"
      by (auto simp: agent_assignments_get intro: rev_image_eqI)
    then show ?thesis using n(2) by (auto dest: dict_get_in)
  qed
  ultimately show ?thesis using n_eq by auto
qed

definition assign_all :: "(agent list \<Rightarrow> agent) \<Rightarrow> string \<Rightarrow> (string \<times> time) list \<Rightarrow> task_assignment \<Rightarrow> exn + task_assignment" where
  "assign_all pick pn tasks s =
     foldM_e (\<lambda>(task, now) s. rbind (assign_task pick task pn None None now s) (\<lambda>(_, s'). Inr s')) tasks s"

definition balanced :: "agent list \<Rightarrow> assignment list \<Rightarrow> bool" where
  "balanced agents h =
     list_all (\<lambda>a. list_all (\<lambda>b. assigned_count h (the (ag_id a)) \<le> assigned_count h (the (ag_id b)) + 1) agents) agents"

lemma assign_round_robin:
  assumes "dict_get (ta_pools s) pn = Some p" and "po_strategy p = ''round_robin''" and "po_agents p \<noteq> []"
    and "list_all (\<lambda>a. named a \<noteq> None) (po_agents p)" and "balanced (po_agents p) (ta_history s)"
  shows "\<exists>r s'. assign_task pick task pn None None now s = Inr (r, s') \<and> balanced (po_agents p) (ta_history s')
    \<and> length (ta_history s') = Suc (length (ta_history s)) \<and> ta_pools s' = ta_pools s"
proof -
  let ?a = "round_robin pick s (po_agents p)" and ?h = "ta_history s"
  from assms round_robin_least [of "po_agents p" pick s] obtain i where i: "ag_id ?a = Some i" "?a \<in> set (po_agents p)"
      "\<forall>b \<in> set (po_agents p). \<forall>j. named b = Some j \<longrightarrow> assigned_count ?h i \<le> assigned_count ?h j"
    by (auto simp: list_all_iff)
  have le: "assigned_count ?h i \<le> assigned_count ?h (the (ag_id b))" if "b \<in> set (po_agents p)" for b
    using that i(3) assms(4) by (fastforce simp: list_all_iff dest: named_id)
  have "balanced (po_agents p) (?h @ [x])" if "ag_id (as_agent x) = Some i" for x
    using assms(5) le that by (auto simp: balanced_def list_all_iff assigned_count_def le_SucI)
  moreover from assms i have "assign_task pick task pn None None now s = Inr (Some ?a, record_assignment task pn None None now ?a s)"
    by (simp add: assign_task_def filter_agents_def select_agent_def agent_truthy_def)
  ultimately show ?thesis using i(1) by (auto simp: record_assignment_def)
qed

text \<open>
  Round robin is fair: assigning any number of tasks to a pool of identified agents succeeds,
  every task is recorded, and no agent of the pool ever has two assignments more than another.
\<close>
theorem round_robin_fair:
  assumes "dict_get (ta_pools s) pn = Some p" and "po_strategy p = ''round_robin''" and "po_agents p \<noteq> []"
    and "list_all (\<lambda>a. named a \<noteq> None) (po_agents p)" and "balanced (po_agents p) (ta_history s)"
  shows "\<exists>s'. assign_all pick pn tasks s = Inr s' \<and> balanced (po_agents p) (ta_history s')
    \<and> length (ta_history s') = length (ta_history s) + length tasks"
  using assms
proof (induction tasks arbitrary: s)
  case (Cons x tasks)
  obtain task now where x: "x = (task, now)" by fastforce
  from assign_round_robin [OF Cons.prems] obtain r s1 where
    s1: "assign_task pick task pn None None now s = Inr (r, s1)" "balanced (po_agents p) (ta_history s1)"
      "length (ta_history s1) = Suc (length (ta_history s))" "ta_pools s1 = ta_pools s"
    by blast
  from Cons.IH [of s1] s1 Cons.prems show ?case by (auto simp: assign_all_def x)
qed (simp add: assign_all_def)

definition ex_assign :: task_assignment where
  "ex_assign = register_agent_pool ''ops'' [\<lparr>ag_id = Some ''a'', ag_attrs = []\<rparr>, \<lparr>ag_id = Some ''b'', ag_attrs = []\<rparr>]
     ''round_robin'' 0 new_task_assignment"

theorem round_robin_fair_witness:
  "\<exists>s'. assign_all hd ''ops'' [(''t1'', 1), (''t2'', 2), (''t3'', 3)] ex_assign = Inr s' \<and> length (ta_history s') = 3"
proof -
  have "dict_get (ta_pools ex_assign) ''ops'' = Some \<lparr>po_name = ''ops'',
      po_agents = [\<lparr>ag_id = Some ''a'', ag_attrs = []\<rparr>, \<lparr>ag_id = Some ''b'', ag_attrs = []\<rparr>],
      po_strategy = ''round_robin'', po_created_at = 0\<rparr>" and h: "ta_history ex_assign = []"
    by (simp_all add: ex_assign_def register_agent_pool_def new_task_assignment_def)
  from round_robin_fair [OF this(1), of hd "[(''t1'', 1), (''t2'', 2), (''t3'', 3)]"] h show ?thesis
    by (auto simp: named_def balanced_def assigned_count_def)
qed

section \<open>Requirements\<close>

lemma filter_matching_in: "filter_matching s req as = Inr es \<Longrightarrow> a \<in> set es \<Longrightarrow> a \<in> set as \<and> matches s req a = Inr True"
  by (induction as arbitrary: es) (auto simp: rbind_Inr split: if_splits)

lemma less_loaded_in:
  "fold (less_loaded s) as best = Some (l, a) \<Longrightarrow> a \<in> set as \<or> best = Some (l, a)"
  by (induction as arbitrary: best) (fastforce simp: less_loaded_def split: option.splits if_splits)+

lemma select_agent_in:
  assumes "select_agent pick s agents strategy = Some a" and "\<And>xs. xs \<noteq> [] \<Longrightarrow> pick xs \<in> set xs"
  shows "a \<in> set agents"
proof -
  have "round_robin pick s agents \<in> set agents" if "agents \<noteq> []"
    using that assms(2) by (auto simp: round_robin_def find_Some_iff split: option.split)
  moreover have "least_loaded pick s agents \<in> set agents" if "agents \<noteq> []"
    using that assms(2) less_loaded_in [of s agents None] by (auto simp: least_loaded_def split: option.split)
  ultimately show ?thesis using assms by (auto simp: select_agent_def split: if_splits)
qed

lemma filter_agents_in:
  "filter_agents s as req = Inr es \<Longrightarrow> a \<in> set es \<Longrightarrow>
    a \<in> set as \<and> (case req of None \<Rightarrow> True | Some q \<Rightarrow> q = [] \<or> matches s q a = Inr True)"
  by (auto simp: filter_agents_def dest: filter_matching_in split: option.splits if_splits)

lemma assign_task_cases:
  assumes "assign_task pick task pn req ctx now s = Inr (r, s')"
  shows "r = None \<and> s' = s \<or> (\<exists>p es a. dict_get (ta_pools s) pn = Some p \<and> filter_agents s (po_agents p) req = Inr es
    \<and> select_agent pick s es (po_strategy p) = Some a \<and> r = Some a \<and> s' = record_assignment task pn req ctx now a s)"
  using assms by (auto simp: assign_task_def rbind_Inr split: option.splits if_splits)

text \<open>
  An assigned agent is one of the pool and meets every requirement at the moment of the
  assignment, which is recorded with it; where nothing is assigned nothing changes.
\<close>
theorem assignment_meets_requirements:
  assumes "assign_task pick task pn req ctx now s = Inr (r, s')" and "\<And>xs. xs \<noteq> [] \<Longrightarrow> pick xs \<in> set xs"
  shows "case r of
      None \<Rightarrow> s' = s
    | Some a \<Rightarrow> s' = record_assignment task pn req ctx now a s
        \<and> (\<exists>p. dict_get (ta_pools s) pn = Some p \<and> a \<in> set (po_agents p))
        \<and> (case req of None \<Rightarrow> True | Some q \<Rightarrow> q = [] \<or> matches s q a = Inr True)"
proof (cases r)
  case None
  with assign_task_cases [OF assms(1)] show ?thesis by auto
next
  case (Some a)
  with assign_task_cases [OF assms(1)] obtain p es where
    "dict_get (ta_pools s) pn = Some p" "filter_agents s (po_agents p) req = Inr es"
    "select_agent pick s es (po_strategy p) = Some a" "s' = record_assignment task pn req ctx now a s"
    by auto
  with filter_agents_in [of s "po_agents p" req es a] select_agent_in [OF _ assms(2)] Some show ?thesis by auto
qed

theorem assignment_meets_requirements_witness:
  "\<exists>a s'. assign_task hd ''scan'' ''ops'' (Some [(''max_concurrent_tasks'', PInt 1)]) None 5 ex_assign = Inr (Some a, s')
     \<and> matches ex_assign [(''max_concurrent_tasks'', PInt 1)] a = Inr True"
proof -
  have "case assign_task hd ''scan'' ''ops'' (Some [(''max_concurrent_tasks'', PInt 1)]) None 5 ex_assign of
      Inl e \<Rightarrow> False | Inr (r, s') \<Rightarrow> r \<noteq> None"
    by code_simp
  then obtain a s' where *: "assign_task hd ''scan'' ''ops'' (Some [(''max_concurrent_tasks'', PInt 1)]) None 5 ex_assign = Inr (Some a, s')"
    by (auto split: sum.splits)
  from assignment_meets_requirements [OF this] * show ?thesis by auto
qed

text \<open>A chosen rule applies and no applicable one has a smaller priority.\<close>

lemma evaluate_rules_least:
  assumes "evaluate_rules ctx s = Some pn"
  shows "\<exists>r \<in> set (dict_values (ta_rules s)). ru_pool r = pn \<and> rule_applies ctx r
    \<and> (\<forall>r' \<in> set (dict_values (ta_rules s)). rule_applies ctx r' \<longrightarrow> ru_priority r \<le> ru_priority r')"
proof -
  let ?rs = "filter (rule_applies ctx) (dict_values (ta_rules s))"
  from assms obtain r rs where r: "sort_key ru_priority ?rs = r # rs" "ru_pool r = pn"
    by (auto simp: evaluate_rules_def split: list.splits)
  from r(1) have "set (r # rs) = set ?rs" by (metis set_sort)
  moreover have "sorted (map ru_priority (r # rs))" using r(1) by (metis sorted_sort_key)
  ultimately show ?thesis using r(2) by (intro bexI [of _ r]) (auto simp: set_eq_iff)
qed

end
