(* ===== verification/Branching.thy ===== *)
theory Branching
  imports TaskAssignment PyString
begin

text \<open>
  \<open>src/workflow/conditional_branching.py\<close>: conditions as dictionaries, their evaluation against a
  context, and the choice of a branch. Every evaluator is a case of \<open>eval_simple\<close> or of the
  recursion for \<open>and\<close> and \<open>or\<close>. The argument \<open>fr\<close> is the number of frames Python's recursion limit
  leaves; each nested condition takes two. \<open>re_match p v\<close> stands for \<open>re.match(p, str(v))\<close> of the
  regular-expression library and is \<open>None\<close> where that raises \<open>re.error\<close>.
\<close>

section \<open>Numbers in strings\<close>

text \<open>\<open>float(v)\<close>: rationals for the finite values, with the infinities and NaN.\<close>

datatype pyfloat = Fin rat | PosInf | NegInf | NaN

definition lower :: "char \<Rightarrow> char" where
  "lower c = (let n = of_char c :: nat in if 65 \<le> n \<and> n \<le> 90 then char_of (n + 32) else c)"

text \<open>An optional run of digits with single underscores between digits.\<close>

definition digit_run :: "string \<Rightarrow> string \<times> string" where
  "digit_run s = (takeWhile (\<lambda>c. is_digit c \<or> c = CHR ''_'') s, dropWhile (\<lambda>c. is_digit c \<or> c = CHR ''_'') s)"

definition exponent :: "string \<Rightarrow> int option" where
  "exponent s =
     (case s of
        [] \<Rightarrow> Some 0
      | c # r \<Rightarrow>
        if lower c \<noteq> CHR ''e'' then None
        else (case r of
            CHR ''-'' # q \<Rightarrow> map_option uminus (digits_val 0 False q)
          | CHR ''+'' # q \<Rightarrow> digits_val 0 False q
          | _ \<Rightarrow> digits_val 0 False r))"

definition scale10 :: "int \<Rightarrow> rat" where
  "scale10 e = (if 0 \<le> e then 10 ^ nat e else 1 / 10 ^ nat (- e))"

definition digits_or_zero :: "string \<Rightarrow> int option" where
  "digits_or_zero s = (if s = [] then Some 0 else digits_val 0 False s)"

definition decimal :: "string \<Rightarrow> rat option" where
  "decimal s =
     (case digit_run s of (w, r) \<Rightarrow>
        (let (f, r') = (case r of CHR ''.'' # q \<Rightarrow> digit_run q | _ \<Rightarrow> ([], r))
         in if w = [] \<and> f = [] then None
            else (case (digits_or_zero w, digits_or_zero f, exponent r') of
                (Some a, Some b, Some e) \<Rightarrow>
                  Some ((of_int a + of_int b * scale10 (- int (length (filter is_digit f)))) * scale10 e)
              | _ \<Rightarrow> None)))"

definition unsigned_float :: "string \<Rightarrow> pyfloat option" where
  "unsigned_float s =
     (if map lower s \<in> {''inf'', ''infinity''} then Some PosInf
      else if map lower s = ''nan'' then Some NaN
      else map_option Fin (decimal s))"

fun neg_float :: "pyfloat \<Rightarrow> pyfloat" where
  "neg_float (Fin r) = Fin (- r)"
| "neg_float PosInf = NegInf"
| "neg_float NegInf = PosInf"
| "neg_float NaN = NaN"

definition float_of_str :: "string \<Rightarrow> pyfloat option" where
  "float_of_str s =
     (case strip s of
        CHR ''-'' # r \<Rightarrow> map_option neg_float (unsigned_float r)
      | CHR ''+'' # r \<Rightarrow> unsigned_float r
      | r \<Rightarrow> unsigned_float r)"

text \<open>\<open>None\<close> where \<open>float(v)\<close> raises \<open>ValueError\<close> or \<open>TypeError\<close>.\<close>

definition py_float :: "pyval \<Rightarrow> pyfloat option" where
  "py_float v = (case v of PStr s \<Rightarrow> float_of_str s | _ \<Rightarrow> map_option Fin (num_val v))"

fun float_lt :: "pyfloat \<Rightarrow> pyfloat \<Rightarrow> bool" where
  "float_lt (Fin a) (Fin b) = (a < b)"
| "float_lt NaN _ = False"
| "float_lt _ NaN = False"
| "float_lt NegInf b = (b \<noteq> NegInf)"
| "float_lt a PosInf = (a \<noteq> PosInf)"
| "float_lt _ _ = False"

definition compare_floats :: "(pyfloat \<Rightarrow> pyfloat \<Rightarrow> bool) \<Rightarrow> pyval \<Rightarrow> pyval \<Rightarrow> bool" where
  "compare_floats R v w = (case (py_float v, py_float w) of (Some a, Some b) \<Rightarrow> R a b | _ \<Rightarrow> False)"

section \<open>Evaluation\<close>

text \<open>\<open>context[key]\<close> where the key is in the context, and \<open>None\<close> where it is not.\<close>

definition context_value :: "pydict \<Rightarrow> pydict \<Rightarrow> exn + pyval option" where
  "context_value cond ctx =
     (let k = dict_get_or cond ''key'' PNone
      in if \<not> hashable k then Inl TypeErr
         else Inr (case k of PStr s \<Rightarrow> dict_get ctx s | _ \<Rightarrow> None))"

definition or_type_error :: "bool option \<Rightarrow> exn + bool" where
  "or_type_error r = (case r of None \<Rightarrow> Inl TypeErr | Some b \<Rightarrow> Inr b)"

text \<open>An evaluator: its answer where the key is missing, and its test of the value.\<close>

definition keyed :: "pydict \<Rightarrow> pydict \<Rightarrow> bool \<Rightarrow> (pyval \<Rightarrow> exn + bool) \<Rightarrow> exn + bool" where
  "keyed cond ctx missing test =
     rbind (context_value cond ctx) (\<lambda>v. case v of None \<Rightarrow> Inr missing | Some x \<Rightarrow> test x)"

definition evaluate_equals :: "pydict \<Rightarrow> pydict \<Rightarrow> exn + bool" where
  "evaluate_equals cond ctx = keyed cond ctx False (\<lambda>x. Inr (py_eq x (dict_get_or cond ''value'' PNone)))"

definition evaluate_not_equals :: "pydict \<Rightarrow> pydict \<Rightarrow> exn + bool" where
  "evaluate_not_equals cond ctx = keyed cond ctx True (\<lambda>x. Inr (\<not> py_eq x (dict_get_or cond ''value'' PNone)))"

definition evaluate_greater_than :: "pydict \<Rightarrow> pydict \<Rightarrow> exn + bool" where
  "evaluate_greater_than cond ctx =
     keyed cond ctx False (\<lambda>x. Inr (compare_floats (\<lambda>a b. float_lt b a) x (dict_get_or cond ''value'' PNone)))"

definition evaluate_less_than :: "pydict \<Rightarrow> pydict \<Rightarrow> exn + bool" where
  "evaluate_less_than cond ctx =
     keyed cond ctx False (\<lambda>x. Inr (compare_floats float_lt x (dict_get_or cond ''value'' PNone)))"

definition evaluate_contains :: "pydict \<Rightarrow> pydict \<Rightarrow> exn + bool" where
  "evaluate_contains cond ctx =
     keyed cond ctx False (\<lambda>x. or_type_error (py_in (dict_get_or cond ''value'' PNone) x))"

definition evaluate_regex :: "(string \<Rightarrow> pyval \<Rightarrow> bool option) \<Rightarrow> pydict \<Rightarrow> pydict \<Rightarrow> exn + bool" where
  "evaluate_regex re_match cond ctx =
     keyed cond ctx False (\<lambda>x. case dict_get_or cond ''pattern'' PNone of
         PStr p \<Rightarrow> Inr (case re_match p x of None \<Rightarrow> False | Some b \<Rightarrow> b)
       | _ \<Rightarrow> Inl TypeErr)"

definition evaluate_in :: "pydict \<Rightarrow> pydict \<Rightarrow> exn + bool" where
  "evaluate_in cond ctx =
     keyed cond ctx False (\<lambda>x. or_type_error (py_in x (dict_get_or cond ''values'' (PList []))))"

definition evaluate_not_in :: "pydict \<Rightarrow> pydict \<Rightarrow> exn + bool" where
  "evaluate_not_in cond ctx =
     keyed cond ctx True (\<lambda>x. or_type_error (map_option Not (py_in x (dict_get_or cond ''values'' (PList [])))))"

definition eval_simple :: "(string \<Rightarrow> pyval \<Rightarrow> bool option) \<Rightarrow> string \<Rightarrow> pydict \<Rightarrow> pydict \<Rightarrow> exn + bool" where
  "eval_simple re_match ty cond ctx =
     (if ty = ''equals'' then evaluate_equals cond ctx
      else if ty = ''not_equals'' then evaluate_not_equals cond ctx
      else if ty = ''greater_than'' then evaluate_greater_than cond ctx
      else if ty = ''less_than'' then evaluate_less_than cond ctx
      else if ty = ''contains'' then evaluate_contains cond ctx
      else if ty = ''matches_regex'' then evaluate_regex re_match cond ctx
      else if ty = ''in'' then evaluate_in cond ctx
      else if ty = ''not_in'' then evaluate_not_in cond ctx
      else Inr False)"

text \<open>The loops of \<open>and\<close> (\<open>stop = False\<close>) and \<open>or\<close> (\<open>stop = True\<close>): the first answer \<open>stop\<close> ends them.\<close>

fun until :: "bool \<Rightarrow> ('a \<Rightarrow> exn + bool) \<Rightarrow> 'a list \<Rightarrow> exn + bool" where
  "until stop f [] = Inr (\<not> stop)"
| "until stop f (x # xs) = rbind (f x) (\<lambda>b. if b = stop then Inr stop else until stop f xs)"

definition over_subconditions :: "bool \<Rightarrow> (pyval \<Rightarrow> exn + bool) \<Rightarrow> pydict \<Rightarrow> exn + bool" where
  "over_subconditions stop f cond =
     (case py_iter (dict_get_or cond ''conditions'' (PList [])) of
        None \<Rightarrow> Inl TypeErr
      | Some subs \<Rightarrow> until stop f subs)"

fun evaluate_condition ::
    "(string \<Rightarrow> pyval \<Rightarrow> bool option) \<Rightarrow> nat \<Rightarrow> pydict \<Rightarrow> pyval \<Rightarrow> exn + bool" where
  "evaluate_condition re_match (Suc (Suc fr)) ctx (PDict cond) =
     (case dict_get_or cond ''type'' (PStr ''equals'') of
        PStr ty \<Rightarrow>
          if ty = ''and'' then over_subconditions False (evaluate_condition re_match fr ctx) cond
          else if ty = ''or'' then over_subconditions True (evaluate_condition re_match fr ctx) cond
          else eval_simple re_match ty cond ctx
      | ty \<Rightarrow> if hashable ty then Inr False else Inl TypeErr)"
| "evaluate_condition re_match (Suc (Suc fr)) ctx _ = Inl (AttributeErr ''get'')"
| "evaluate_condition re_match _ ctx _ = Inl RecursionErr"

fun get_branch ::
    "(string \<Rightarrow> pyval \<Rightarrow> bool option) \<Rightarrow> nat \<Rightarrow> pydict \<Rightarrow> string option \<Rightarrow> pydict list \<Rightarrow> exn + pyval" where
  "get_branch re_match fr ctx otherwise [] = Inr (opt_val PStr otherwise)"
| "get_branch re_match fr ctx otherwise (br # brs) =
     (let c = dict_get_or br ''condition'' PNone;
          name = dict_get_or br ''name'' PNone
      in if \<not> truthy c then Inr name
         else rbind (evaluate_condition re_match fr ctx c) (\<lambda>b.
           if b then Inr name else get_branch re_match fr ctx otherwise brs))"

text \<open>The module does not import \<open>datetime\<close>.\<close>

definition create_rule :: "string \<Rightarrow> pydict \<Rightarrow> string \<Rightarrow> int \<Rightarrow> exn + pydict" where
  "create_rule name condition action priority = Inl (NameErr ''datetime'')"


section \<open>What evaluation gives\<close>

lemma until_skip: "\<forall>y \<in> set ys. f y = Inr (\<not> stop) \<Longrightarrow> until stop f (ys @ xs) = until stop f xs"
  by (induction ys) auto

lemma until_stop:
  "until stop f xs = Inr stop \<longleftrightarrow> (\<exists>ys x zs. xs = ys @ x # zs \<and> f x = Inr stop \<and> (\<forall>y \<in> set ys. f y = Inr (\<not> stop)))"
    (is "?l \<longleftrightarrow> ?r xs")
proof
  show "?l \<Longrightarrow> ?r xs"
  proof (induction xs)
    case (Cons a xs)
    show ?case
    proof (cases "f a = Inr stop")
      case True
      then show ?thesis by (intro exI [of _ "[]"] exI [of _ a] exI [of _ xs]) simp
    next
      case False
      with Cons.prems have a: "f a = Inr (\<not> stop)" "until stop f xs = Inr stop"
        by (auto simp: rbind_Inr split: if_splits)
      with Cons.IH obtain ys x zs where "xs = ys @ x # zs" "f x = Inr stop" "\<forall>y \<in> set ys. f y = Inr (\<not> stop)"
        by auto
      with a(1) show ?thesis by (intro exI [of _ "a # ys"] exI [of _ x] exI [of _ zs]) simp
    qed
  qed simp
qed (auto simp: until_skip)

lemma until_go: "until stop f xs = Inr (\<not> stop) \<longleftrightarrow> (\<forall>x \<in> set xs. f x = Inr (\<not> stop))"
  by (induction xs) (auto simp: rbind_Inr)

lemma until_cong: "(\<And>x. x \<in> set xs \<Longrightarrow> f x = g x) \<Longrightarrow> until stop f xs = until stop g xs"
  by (induction xs) (simp_all cong: rbind_cong if_cong)

lemma until_Inl: "until stop f xs = Inl e \<Longrightarrow> \<exists>x \<in> set xs. f x = Inl e"
  by (induction xs) (auto simp: rbind_Inl split: if_splits)

text \<open>Two frames per level of nesting are enough.\<close>

lemma size_subcondition:
  assumes "py_iter (dict_get_or cond k (PList [])) = Some subs" and "x \<in> set subs"
  shows "size x < size (PDict cond)"
proof (cases "dict_get cond k")
  case None
  with assms show ?thesis by (simp add: dict_get_or_def py_iter_def)
next
  case (Some v)
  then have "(k, v) \<in> set cond" by (rule dict_get_in)
  then have *: "size v < size (PDict cond)"
    by (induction cond) auto
  have "size x < Suc (size v)"
  proof (cases v)
    case (PList xs)
    with assms Some show ?thesis by (auto simp: dict_get_or_def py_iter_def dest!: size_list_estimation' [of _ _ _ size, OF _ order.refl])
  next
    case (PDict d)
    with assms Some show ?thesis by (auto simp: dict_get_or_def py_iter_def)
  qed (use assms Some in \<open>auto simp: dict_get_or_def py_iter_def\<close>)
  with * show ?thesis by simp
qed

lemma py_exn_inject [simp]: "py_exn c m = py_exn c' m' \<longleftrightarrow> c = c' \<and> m = m'"
  by (simp add: py_exn_def)

lemma keyed_Inl:
  assumes "keyed cond ctx b test = Inl e" and "\<And>x e'. test x = Inl e' \<Longrightarrow> e' = TypeErr"
  shows "e = TypeErr"
  using assms by (auto simp: keyed_def context_value_def rbind_Inl Let_def split: option.splits if_splits)

lemma eval_simple_error: "eval_simple re ty cond ctx = Inl e \<Longrightarrow> e = TypeErr"
  by (auto simp: eval_simple_def evaluate_equals_def evaluate_not_equals_def evaluate_greater_than_def
      evaluate_less_than_def evaluate_contains_def evaluate_regex_def evaluate_in_def evaluate_not_in_def
      or_type_error_def split: if_splits option.splits pyval.splits elim!: keyed_Inl)

lemma eval_simple_no_recursion: "eval_simple re ty cond ctx \<noteq> Inl RecursionErr"
  by (auto dest: eval_simple_error)

text \<open>
  Evaluating a condition terminates: with two frames per level of nesting (twice the size of
  the condition and two suffice) the recursion limit is never hit, and more frames change nothing.
\<close>
theorem condition_frames:
  assumes "2 * size c + 2 \<le> fr"
  shows "evaluate_condition re fr ctx c = evaluate_condition re (2 * size c + 2) ctx c
    \<and> evaluate_condition re fr ctx c \<noteq> Inl RecursionErr"
proof -
  have "2 * size c + 2 \<le> fr \<Longrightarrow> evaluate_condition re (fr + k) ctx c = evaluate_condition re fr ctx c
      \<and> evaluate_condition re fr ctx c \<noteq> Inl RecursionErr" for fr k
  proof (induction "size c" arbitrary: c fr rule: less_induct)
    case less
    obtain n where n: "fr = Suc (Suc n)" using less.prems by (cases fr; cases "fr - 1") auto
    have over: "over_subconditions b (evaluate_condition re (n + k) ctx) cond = over_subconditions b (evaluate_condition re n ctx) cond
        \<and> over_subconditions b (evaluate_condition re n ctx) cond \<noteq> Inl RecursionErr" if c: "c = PDict cond" for b cond
    proof (cases "py_iter (dict_get_or cond ''conditions'' (PList []))")
      case (Some subs)
      have "evaluate_condition re (n + k) ctx x = evaluate_condition re n ctx x \<and> evaluate_condition re n ctx x \<noteq> Inl RecursionErr"
        if "x \<in> set subs" for x
        using size_subcondition [OF Some that] less.prems n c by (intro less.hyps) auto
      with Some show ?thesis
        by (auto simp: over_subconditions_def dest: until_Inl intro!: until_cong)
    qed (simp add: over_subconditions_def)
    show ?case
      using over by (cases c) (auto simp: n eval_simple_no_recursion split: pyval.split)
  qed
  with assms le_Suc_ex [OF assms] show ?thesis by (metis order.refl)
qed

definition ex_condition :: pyval where
  "ex_condition = PDict [(''type'', PStr ''and''), (''conditions'', PList
     [PDict [(''type'', PStr ''greater_than''), (''key'', PStr ''score''), (''value'', PStr ''7.5'')],
      PDict [(''key'', PStr ''env''), (''value'', PStr ''prod'')]])]"

theorem condition_frames_witness:
  "evaluate_condition re 100 [(''score'', PInt 9), (''env'', PStr ''prod'')] ex_condition
     = evaluate_condition re (2 * size ex_condition + 2) [(''score'', PInt 9), (''env'', PStr ''prod'')] ex_condition"
  using condition_frames [of ex_condition 100 re "[(''score'', PInt 9), (''env'', PStr ''prod'')]"]
  by (simp add: ex_condition_def)

text \<open>A conjunction holds when every part does, a disjunction when one does and the earlier ones answer no.\<close>

lemma evaluate_and:
  assumes "dict_get cond ''type'' = Some (PStr ''and'')" and "dict_get cond ''conditions'' = Some (PList cs)"
  shows "evaluate_condition re (Suc (Suc fr)) ctx (PDict cond) = Inr True
    \<longleftrightarrow> (\<forall>c \<in> set cs. evaluate_condition re fr ctx c = Inr True)"
  using assms until_go [of False] by (simp add: over_subconditions_def dict_get_or_def py_iter_def)

lemma evaluate_or:
  assumes "dict_get cond ''type'' = Some (PStr ''or'')" and "dict_get cond ''conditions'' = Some (PList cs)"
  shows "evaluate_condition re (Suc (Suc fr)) ctx (PDict cond) = Inr True
    \<longleftrightarrow> (\<exists>ys x zs. cs = ys @ x # zs \<and> evaluate_condition re fr ctx x = Inr True
        \<and> (\<forall>y \<in> set ys. evaluate_condition re fr ctx y = Inr False))"
  using assms until_stop [of True] by (simp add: over_subconditions_def dict_get_or_def py_iter_def)

text \<open>A branch is taken when it has no condition or its condition holds.\<close>

definition branch_open :: "(string \<Rightarrow> pyval \<Rightarrow> bool option) \<Rightarrow> nat \<Rightarrow> pydict \<Rightarrow> pydict \<Rightarrow> exn + bool" where
  "branch_open re fr ctx br =
     (let c = dict_get_or br ''condition'' PNone
      in if truthy c then evaluate_condition re fr ctx c else Inr True)"

text \<open>
  The first open branch is taken: a result is the name of a branch that is open while every
  earlier one is closed, or the default where all are closed; an exception comes from the first
  branch that is not closed.
\<close>
theorem get_branch_first:
  "get_branch re fr ctx otherwise brs =
     (case dropWhile (\<lambda>br. branch_open re fr ctx br = Inr False) brs of
        [] \<Rightarrow> Inr (opt_val PStr otherwise)
      | br # _ \<Rightarrow> (case branch_open re fr ctx br of Inl e \<Rightarrow> Inl e | Inr _ \<Rightarrow> Inr (dict_get_or br ''name'' PNone)))"
  by (induction brs) (auto simp: branch_open_def Let_def split: sum.split)

end
