(* ===== verification/Sla.thy ===== *)
theory Sla
  imports Exceptions Calendar
begin

text \<open>
  \<open>src/workflow/sla_manager.py\<close>: agreements, tracked workflows and their monitors. A monitor holds the
  tracking dictionary it found when it started, also after the same id is tracked again, so the
  tracking dictionaries live in a store and ids map to places in it. A monitor that is not yet
  started is an id in \<open>sm_starting\<close>, a started one a place in \<open>sm_monitors\<close>; one \<open>Tick\<close> is one iteration
  of its loop, between two sleeps. The ghost component \<open>sm_sent\<close> records the notifications with the
  tracking they are about; what a callback does with one does not come back (its exceptions are
  logged).
\<close>

section \<open>State\<close>

record sla =
  sla_id :: string
  sla_name :: string
  sla_target :: int
  sla_warning :: rat
  sla_critical :: rat
  sla_business_hours_only :: bool
  sla_policy :: "string option"
  sla_created_at :: time

datatype track_status = TS_in_progress | TS_completed | TS_failed

datatype notification_type = Sla_warning | Sla_critical | Sla_breach

record tracking =
  tr_id :: string
  tr_workflow :: string
  tr_sla :: sla
  tr_start :: time
  tr_end :: "time option"
  tr_status :: track_status
  tr_warnings :: "string list"
  tr_escalations :: "(string \<times> time) list"
  tr_duration :: "rat option"
  tr_met :: "bool option"
  tr_breached :: bool

record sla_notification =
  sn_type :: notification_type
  sn_workflow :: string
  sn_sla_id :: string
  sn_message :: msg
  sn_timestamp :: time

record sla_manager =
  sm_slas :: "(string, sla) dict"
  sm_store :: "tracking list"
  sm_tracking :: "(string, nat) dict"
  sm_policies :: "(string, pyval list) dict"
  sm_starting :: "string list"
  sm_monitors :: "nat list"
  sm_sent :: "(nat \<times> sla_notification) list"

definition new_sla_manager :: sla_manager where
  "new_sla_manager = \<lparr>sm_slas = [], sm_store = [], sm_tracking = [], sm_policies = [], sm_starting = [],
     sm_monitors = [], sm_sent = []\<rparr>"

section \<open>Agreements and tracking\<close>

definition define_sla ::
    "string \<Rightarrow> string \<Rightarrow> int \<Rightarrow> rat \<Rightarrow> rat \<Rightarrow> bool \<Rightarrow> string option \<Rightarrow> time \<Rightarrow> sla_manager \<Rightarrow> sla_manager" where
  "define_sla i name target warning critical bho policy now s =
     s\<lparr>sm_slas := dict_set i \<lparr>sla_id = i, sla_name = name, sla_target = target, sla_warning = warning,
        sla_critical = critical, sla_business_hours_only = bho, sla_policy = policy, sla_created_at = now\<rparr> (sm_slas s)\<rparr>"

definition tracking_key :: "string \<Rightarrow> string \<Rightarrow> string" where
  "tracking_key wid i = ''track_'' @ wid @ ''_'' @ i"

definition track_workflow ::
    "string \<Rightarrow> string \<Rightarrow> time option \<Rightarrow> time \<Rightarrow> sla_manager \<Rightarrow> exn + (string \<times> sla_manager)" where
  "track_workflow wid i start now s =
     (case dict_get (sm_slas s) i of
        None \<Rightarrow> Inl (ValueErr (''SLA '' @ i @ '' not defined''))
      | Some a \<Rightarrow>
        (let k = tracking_key wid i;
             t = \<lparr>tr_id = k, tr_workflow = wid, tr_sla = a, tr_start = (case start of None \<Rightarrow> now | Some t0 \<Rightarrow> t0),
                  tr_end = None, tr_status = TS_in_progress, tr_warnings = [], tr_escalations = [],
                  tr_duration = None, tr_met = None, tr_breached = False\<rparr>
         in Inr (k, s\<lparr>sm_store := sm_store s @ [t], sm_tracking := dict_set k (length (sm_store s)) (sm_tracking s),
                      sm_starting := sm_starting s @ [k]\<rparr>)))"

definition complete_tracking :: "bool \<Rightarrow> time \<Rightarrow> tracking \<Rightarrow> tracking" where
  "complete_tracking success now t =
     (let d = total_seconds (now - tr_start t)
      in t\<lparr>tr_end := Some now, tr_status := (if success then TS_completed else TS_failed), tr_duration := Some d,
           tr_met := Some (\<not> d > of_int (sla_target (tr_sla t)))\<rparr>)"

definition complete_workflow :: "string \<Rightarrow> bool \<Rightarrow> time \<Rightarrow> sla_manager \<Rightarrow> sla_manager" where
  "complete_workflow k success now s =
     (case dict_get (sm_tracking s) k of
        None \<Rightarrow> s
      | Some r \<Rightarrow> s\<lparr>sm_store := (sm_store s)[r := complete_tracking success now (sm_store s ! r)]\<rparr>)"

definition define_escalation_policy :: "string \<Rightarrow> pyval list \<Rightarrow> sla_manager \<Rightarrow> sla_manager" where
  "define_escalation_policy name levels s = s\<lparr>sm_policies := dict_set name levels (sm_policies s)\<rparr>"

section \<open>The monitor\<close>

definition warning_time :: "tracking \<Rightarrow> time" where
  "warning_time t = tr_start t + seconds_delta (of_int (sla_target (tr_sla t)) * sla_warning (tr_sla t))"

definition critical_time :: "tracking \<Rightarrow> time" where
  "critical_time t = tr_start t + seconds_delta (of_int (sla_target (tr_sla t)) * sla_critical (tr_sla t))"

definition deadline :: "tracking \<Rightarrow> time" where
  "deadline t = tr_start t + sla_target (tr_sla t) * second"

definition notification :: "notification_type \<Rightarrow> tracking \<Rightarrow> msg \<Rightarrow> time \<Rightarrow> sla_notification" where
  "notification ty t m now =
     \<lparr>sn_type = ty, sn_workflow = tr_workflow t, sn_sla_id = sla_id (tr_sla t), sn_message = m, sn_timestamp = now\<rparr>"

definition trigger_escalation :: "(string, pyval list) dict \<Rightarrow> time \<Rightarrow> tracking \<Rightarrow> tracking" where
  "trigger_escalation policies now t =
     (case sla_policy (tr_sla t) of
        None \<Rightarrow> t
      | Some p \<Rightarrow> if p \<noteq> [] \<and> dict_has policies p then t\<lparr>tr_escalations := tr_escalations t @ [(p, now)]\<rparr> else t)"

definition warn :: "time \<Rightarrow> tracking \<Rightarrow> sla_notification list \<times> tracking" where
  "warn now t =
     (if now \<ge> warning_time t \<and> ''warning'' \<notin> set (tr_warnings t)
      then ([notification Sla_warning t [Lit (''SLA warning: '' @ sla_name (tr_sla t) @ '' at ''),
               Num (sla_warning (tr_sla t) * 100), Lit ''%''] now],
            t\<lparr>tr_warnings := tr_warnings t @ [''warning'']\<rparr>)
      else ([], t))"

definition warn_critical :: "(string, pyval list) dict \<Rightarrow> time \<Rightarrow> tracking \<Rightarrow> sla_notification list \<times> tracking" where
  "warn_critical policies now t =
     (if now \<ge> critical_time t \<and> ''critical'' \<notin> set (tr_warnings t)
      then ([notification Sla_critical t [Lit (''SLA critical: '' @ sla_name (tr_sla t) @ '' at ''),
               Num (sla_critical (tr_sla t) * 100), Lit ''%''] now],
            trigger_escalation policies now (t\<lparr>tr_warnings := tr_warnings t @ [''critical'']\<rparr>))
      else ([], t))"

definition breach :: "time \<Rightarrow> tracking \<Rightarrow> sla_notification list \<times> tracking \<times> bool" where
  "breach now t =
     (if now \<ge> deadline t
      then ([notification Sla_breach t [Lit (''SLA BREACHED: '' @ sla_name (tr_sla t) @ '' exceeded ''),
               Num (of_int (sla_target (tr_sla t))), Lit ''s''] now], t\<lparr>tr_breached := True\<rparr>, False)
      else ([], t, True))"

text \<open>One iteration: what it sends, the tracking it leaves, and whether the loop goes on.\<close>

definition monitor_tick ::
    "(string, pyval list) dict \<Rightarrow> time \<Rightarrow> tracking \<Rightarrow> sla_notification list \<times> tracking \<times> bool" where
  "monitor_tick policies now t =
     (if tr_status t \<noteq> TS_in_progress then ([], t, False)
      else (let (n1, t1) = warn now t;
                (n2, t2) = warn_critical policies now t1;
                (n3, t3, go) = breach now t2
            in (n1 @ n2 @ n3, t3, go)))"

definition tick :: "nat \<Rightarrow> time \<Rightarrow> sla_manager \<Rightarrow> sla_manager" where
  "tick r now s =
     (if r \<notin> set (sm_monitors s) then s
      else (case monitor_tick (sm_policies s) now (sm_store s ! r) of (ns, t, go) \<Rightarrow>
        s\<lparr>sm_store := (sm_store s)[r := t], sm_sent := sm_sent s @ map (Pair r) ns,
          sm_monitors := (if go then sm_monitors s else remove1 r (sm_monitors s))\<rparr>))"

text \<open>The first run of a created monitor: it looks its tracking up and enters the loop.\<close>

definition start_monitor :: "string \<Rightarrow> sla_manager \<Rightarrow> sla_manager" where
  "start_monitor k s =
     (if k \<notin> set (sm_starting s) then s
      else (case dict_get (sm_tracking s) k of
          None \<Rightarrow> s\<lparr>sm_starting := remove1 k (sm_starting s)\<rparr>
        | Some r \<Rightarrow> s\<lparr>sm_starting := remove1 k (sm_starting s), sm_monitors := sm_monitors s @ [r]\<rparr>))"

section \<open>Status\<close>

record sla_report =
  sr_tracking_id :: string
  sr_workflow :: string
  sr_name :: string
  sr_elapsed :: rat
  sr_target :: int
  sr_percent_used :: rat
  sr_status :: track_status
  sr_breached :: bool
  sr_warnings :: "string list"

definition get_sla_status :: "string \<Rightarrow> time \<Rightarrow> sla_manager \<Rightarrow> sla_report option" where
  "get_sla_status k now s =
     (case dict_get (sm_tracking s) k of
        None \<Rightarrow> None
      | Some r \<Rightarrow>
        (let t = sm_store s ! r; a = tr_sla t; e = total_seconds (now - tr_start t)
         in Some \<lparr>sr_tracking_id = k, sr_workflow = tr_workflow t, sr_name = sla_name a, sr_elapsed = e,
              sr_target = sla_target a,
              sr_percent_used = (if sla_target a > 0 then e / of_int (sla_target a) * 100 else 0),
              sr_status = tr_status t, sr_breached = tr_breached t, sr_warnings = tr_warnings t\<rparr>))"

section \<open>Runs\<close>

datatype sla_op =
    DefineSla string string int rat rat bool "string option"
  | Track string string "time option"
  | Complete string bool
  | DefinePolicy string "pyval list"
  | StartMonitor string
  | Tick nat

fun sla_exec :: "sla_op \<times> time \<Rightarrow> sla_manager \<Rightarrow> sla_manager" where
  "sla_exec (DefineSla i n g w c b p, now) s = define_sla i n g w c b p now s"
| "sla_exec (Track wid i st, now) s = (case track_workflow wid i st now s of Inl _ \<Rightarrow> s | Inr (_, s') \<Rightarrow> s')"
| "sla_exec (Complete k ok, now) s = complete_workflow k ok now s"
| "sla_exec (DefinePolicy n ls, now) s = define_escalation_policy n ls s"
| "sla_exec (StartMonitor k, now) s = start_monitor k s"
| "sla_exec (Tick r, now) s = tick r now s"

text \<open>How often a notification of a type has been sent for a tracking.\<close>

definition sent_count :: "sla_manager \<Rightarrow> nat \<Rightarrow> notification_type \<Rightarrow> nat" where
  "sent_count s r ty = length (filter (\<lambda>(r', n). r' = r \<and> sn_type n = ty) (sm_sent s))"

text \<open>Warnings are sent once and remembered, and a breach is recorded with its notification.\<close>

definition notified_ok :: "sla_manager \<Rightarrow> nat \<Rightarrow> bool" where
  "notified_ok s r \<longleftrightarrow>
     sent_count s r Sla_warning = of_bool (''warning'' \<in> set (tr_warnings (sm_store s ! r)))
     \<and> sent_count s r Sla_critical = of_bool (''critical'' \<in> set (tr_warnings (sm_store s ! r)))
     \<and> (tr_breached (sm_store s ! r) \<longleftrightarrow> sent_count s r Sla_breach > 0)"

definition sla_ok :: "sla_manager \<Rightarrow> bool" where
  "sla_ok s \<longleftrightarrow> set (dict_values (sm_tracking s)) \<union> set (sm_monitors s) \<union> fst ` set (sm_sent s) \<subseteq> {..<length (sm_store s)}
     \<and> list_all (notified_ok s) [0..<length (sm_store s)]"

section \<open>Notifications are sent once\<close>

definition of_type :: "notification_type \<Rightarrow> sla_notification list \<Rightarrow> nat" where
  "of_type ty ns = length (filter (\<lambda>n. sn_type n = ty) ns)"

lemma of_type_simps [simp]:
  "of_type ty [] = 0" "of_type ty (n # ns) = of_bool (sn_type n = ty) + of_type ty ns"
  "of_type ty (ns @ ms) = of_type ty ns + of_type ty ms"
  by (simp_all add: of_type_def)

lemma trigger_escalation_keeps [simp]:
  "tr_warnings (trigger_escalation p now t) = tr_warnings t" "tr_breached (trigger_escalation p now t) = tr_breached t"
  "tr_status (trigger_escalation p now t) = tr_status t" "tr_sla (trigger_escalation p now t) = tr_sla t"
  "tr_start (trigger_escalation p now t) = tr_start t"
  by (auto simp: trigger_escalation_def split: option.split)

lemma monitor_tick_counts:
  assumes "monitor_tick p now t = (ns, t', go)"
  shows "of_bool (''warning'' \<in> set (tr_warnings t)) + of_type Sla_warning ns = of_bool (''warning'' \<in> set (tr_warnings t'))"
    and "of_bool (''critical'' \<in> set (tr_warnings t)) + of_type Sla_critical ns = of_bool (''critical'' \<in> set (tr_warnings t'))"
    and "tr_breached t' \<longleftrightarrow> tr_breached t \<or> of_type Sla_breach ns > 0"
  using assms
  by (auto simp: monitor_tick_def warn_def warn_critical_def breach_def notification_def Let_def
      split: prod.splits if_splits)

lemma sent_count_append:
  "sent_count (s\<lparr>sm_sent := sm_sent s @ map (Pair r) ns\<rparr>) r' ty = sent_count s r' ty + (if r' = r then of_type ty ns else 0)"
  by (induction ns) (auto simp: sent_count_def of_type_def)

lemma sla_ok_alt:
  "sla_ok s \<longleftrightarrow> (\<forall>r \<in> set (dict_values (sm_tracking s)) \<union> set (sm_monitors s) \<union> fst ` set (sm_sent s). r < length (sm_store s))
     \<and> (\<forall>r < length (sm_store s). notified_ok s r)"
  by (auto simp: sla_ok_def list_all_iff)

lemma dict_get_values: "dict_get m k = Some v \<Longrightarrow> v \<in> set (dict_values m)"
  by (force simp: dict_values_def dest: dict_get_in)

lemma sla_ok_get: "sla_ok s \<Longrightarrow> dict_get (sm_tracking s) k = Some r \<Longrightarrow> r < length (sm_store s)"
  by (auto simp: sla_ok_alt dest: dict_get_values)

lemma set_dict_values_set: "set (dict_values (dict_set k v m)) \<subseteq> insert v (set (dict_values m))"
  by (force simp: dict_values_def dest: dict_set_in_old)

lemma notified_ok_cong:
  assumes "sm_sent s' = sm_sent s" and "tr_warnings (sm_store s' ! r) = tr_warnings (sm_store s ! r)"
    and "tr_breached (sm_store s' ! r) = tr_breached (sm_store s ! r)"
  shows "notified_ok s' r = notified_ok s r"
  using assms by (simp add: notified_ok_def sent_count_def)

lemma sla_ok_track:
  assumes "sla_ok s" and "track_workflow wid i st now s = Inr (k, s')"
  shows "sla_ok s'"
proof -
  from assms(2) obtain t where t: "sm_store s' = sm_store s @ [t]" "sm_tracking s' = dict_set k (length (sm_store s)) (sm_tracking s)"
      "sm_monitors s' = sm_monitors s" "sm_sent s' = sm_sent s" "tr_warnings t = []" "\<not> tr_breached t"
    by (auto simp: track_workflow_def Let_def split: option.splits)
  have new: "sent_count s (length (sm_store s)) ty = 0" for ty
    using assms(1) by (force simp: sla_ok_alt sent_count_def filter_empty_conv)
  have "notified_ok s' (length (sm_store s))"
    using new t by (simp add: notified_ok_def sent_count_def)
  moreover have "notified_ok s' r" if "r < length (sm_store s)" for r
    using that assms(1) notified_ok_cong [of s' s r] t by (simp add: sla_ok_alt nth_append)
  ultimately show ?thesis
    using assms(1) set_dict_values_set [of k "length (sm_store s)" "sm_tracking s"]
    by (auto simp: sla_ok_alt t less_Suc_eq)
qed

lemma sla_ok_tick:
  assumes "sla_ok s"
  shows "sla_ok (tick r now s)"
proof (cases "r \<in> set (sm_monitors s)")
  case True
  with assms have r: "r < length (sm_store s)" by (auto simp: sla_ok_alt)
  obtain ns t go where mt: "monitor_tick (sm_policies s) now (sm_store s ! r) = (ns, t, go)"
    by (metis prod_cases3)
  let ?s = "tick r now s"
  have s': "sm_store ?s = (sm_store s)[r := t]" "sm_sent ?s = sm_sent s @ map (Pair r) ns"
      "sm_tracking ?s = sm_tracking s" "set (sm_monitors ?s) \<subseteq> set (sm_monitors s)"
    using True mt set_remove1_subset [of r "sm_monitors s"] by (auto simp: tick_def)
  have cnt: "sent_count ?s r' ty = sent_count s r' ty + (if r' = r then of_type ty ns else 0)" for r' ty
    using sent_count_append [of s r ns r' ty] s'(2) by (simp add: sent_count_def)
  have "notified_ok ?s r'" if "r' < length (sm_store s)" for r'
    using that assms monitor_tick_counts [OF mt] r
    by (cases "r' = r") (auto simp: sla_ok_alt notified_ok_def cnt s')
  then show ?thesis using assms r s' by (auto simp: sla_ok_alt)
qed (use assms in \<open>simp add: tick_def\<close>)

lemma sla_ok_complete:
  assumes "sla_ok s"
  shows "sla_ok (complete_workflow k ok now s)"
proof (cases "dict_get (sm_tracking s) k")
  case (Some r)
  let ?s = "complete_workflow k ok now s"
  have "notified_ok ?s r' = notified_ok s r'" for r'
    using Some sla_ok_get [OF assms Some]
    by (intro notified_ok_cong) (auto simp: complete_workflow_def complete_tracking_def Let_def nth_list_update)
  with assms Some show ?thesis by (simp add: sla_ok_alt complete_workflow_def)
qed (use assms in \<open>simp add: complete_workflow_def\<close>)

lemma sla_ok_frame:
  assumes "sla_ok s" and "sm_store s' = sm_store s" and "sm_sent s' = sm_sent s" and "sm_tracking s' = sm_tracking s"
    and "set (sm_monitors s') \<subseteq> set (sm_monitors s) \<union> set (dict_values (sm_tracking s))"
  shows "sla_ok s'"
  using assms notified_ok_cong [of s' s] by (auto simp: sla_ok_alt)

lemma sla_ok_start: "sla_ok s \<Longrightarrow> sla_ok (start_monitor k s)"
  by (erule sla_ok_frame) (auto simp: start_monitor_def split: option.split dest: dict_get_values)

lemma sla_ok_exec: "sla_ok s \<Longrightarrow> sla_ok (sla_exec (op, now) s)"
proof (cases op)
  case (Track wid i st)
  assume "sla_ok s"
  with sla_ok_track [of s wid i st now] show ?thesis by (auto simp: Track split: sum.split)
next
  case (DefineSla i n g w c b p)
  assume "sla_ok s"
  then show ?thesis by (rule sla_ok_frame) (auto simp: DefineSla define_sla_def)
next
  case (DefinePolicy n ls)
  assume "sla_ok s"
  then show ?thesis by (rule sla_ok_frame) (auto simp: DefinePolicy define_escalation_policy_def)
qed (simp_all add: sla_ok_complete sla_ok_start sla_ok_tick)

interpretation sla_system: op_system sla_exec sla_ok
  by unfold_locales (metis sla_ok_exec surj_pair)

text \<open>
  In every run the warning and the critical notification of a tracked workflow are sent at most
  once each, exactly when they are recorded with it, and a breach is recorded exactly when it has
  been announced.
\<close>
theorem sla_notified_once:
  "let s = fold sla_exec xs new_sla_manager
   in sent_count s r Sla_warning \<le> 1 \<and> sent_count s r Sla_critical \<le> 1 \<and> list_all (notified_ok s) [0..<length (sm_store s)]"
proof -
  let ?s = "fold sla_exec xs new_sla_manager"
  have "sla_ok new_sla_manager" by (simp add: sla_ok_def new_sla_manager_def dict_values_def)
  then have ok: "sla_ok ?s" by (rule sla_system.inv_run)
  then have "sent_count ?s r ty = 0" if "\<not> r < length (sm_store ?s)" for ty
    using that by (force simp: sla_ok_alt sent_count_def filter_empty_conv)
  with ok show ?thesis by (cases "r < length (sm_store ?s)") (auto simp: sla_ok_alt notified_ok_def Let_def list_all_iff)
qed

section \<open>Breaches\<close>

text \<open>A running monitor that looks at or after the deadline announces the breach and ends.\<close>

lemma late_tick_breaches:
  assumes "r \<in> set (sm_monitors s)" and "distinct (sm_monitors s)" and "r < length (sm_store s)"
    and "tr_status (sm_store s ! r) = TS_in_progress" and "deadline (sm_store s ! r) \<le> now"
  shows "tr_breached (sm_store (tick r now s) ! r) \<and> r \<notin> set (sm_monitors (tick r now s))"
  using assms
  by (auto simp: tick_def monitor_tick_def warn_def warn_critical_def breach_def deadline_def Let_def split: prod.splits)

text \<open>
  A workflow that ends after its deadline but before the next look has missed its agreement and
  yet no breach is recorded or announced; and a workflow tracked twice before its monitors start
  is announced as breached twice.
\<close>

definition missed_breach :: "(sla_op \<times> time) list" where
  "missed_breach = [(DefineSla ''a'' ''A'' 60 0.8 1 False None, 0), (Track ''w'' ''a'' None, 0), (StartMonitor ''track_w_a'', 0),
     (Tick 0, 58 * second), (Complete ''track_w_a'' True, 61 * second), (Tick 0, 63 * second)]"

lemma breach_unannounced:
  "let s = fold sla_exec missed_breach new_sla_manager
   in tr_met (sm_store s ! 0) = Some False \<and> \<not> tr_breached (sm_store s ! 0) \<and> sent_count s 0 Sla_breach = 0 \<and> sm_monitors s = []"
  by code_simp

definition tracked_twice :: "(sla_op \<times> time) list" where
  "tracked_twice = [(DefineSla ''a'' ''A'' 60 0.8 1 False None, 0), (Track ''w'' ''a'' None, 0), (Track ''w'' ''a'' None, 0),
     (StartMonitor ''track_w_a'', 0), (StartMonitor ''track_w_a'', 0), (Tick 1, 60 * second), (Tick 1, 61 * second)]"

lemma breach_announced_twice:
  "sent_count (fold sla_exec tracked_twice new_sla_manager) 1 Sla_breach = 2"
  by code_simp

end
