(* ===== verification/WorkflowEngine.thy ===== *)
theory WorkflowEngine
  imports TaskAssignment Sla
begin

text \<open>
  \<open>src/workflow/workflow_engine.py\<close>: definitions, instances and their execution step by step. What the
  outside contributes to a step is its oracle: when things happen, what each look at the
  step's approval request finds, and a pause or cancellation that arrives while the step runs. A
  handler gets the number of the attempt and the context, which it may change; the exception of a
  timeout is one of its outcomes.
\<close>

section \<open>State\<close>

datatype workflow_status = WF_pending | WF_running | WF_paused | WF_completed | WF_failed | WF_cancelled

datatype step_status = SS_pending | SS_skipped | SS_rejected | SS_running | SS_completed | SS_failed

datatype approval_answer = AA_pending | AA_approved | AA_rejected

datatype workflow_error = Step_rejected string | Step_failed string exn | Raised_error exn

record workflow_step =
  ws_id :: string
  ws_name :: string
  ws_handler :: "nat \<Rightarrow> pydict \<Rightarrow> (exn + pyval) \<times> pydict"
  ws_requires_approval :: bool
  ws_approvers :: "string list"
  ws_conditions :: pydict
  ws_timeout :: "int option"
  ws_retry :: pydict
  ws_status :: step_status
  ws_result :: pyval
  ws_error :: "exn option"
  ws_started_at :: "time option"
  ws_completed_at :: "time option"

record workflow_definition =
  wd_steps :: "workflow_step list"
  wd_sla_seconds :: "int option"
  wd_created_at :: time

record workflow_instance =
  wi_instance_id :: string
  wi_workflow_id :: string
  wi_tenant :: string
  wi_user :: string
  wi_context :: pydict
  wi_status :: workflow_status
  wi_current_step :: nat
  wi_steps :: "workflow_step list"
  wi_created_at :: time
  wi_updated_at :: time
  wi_sla_deadline :: "time option"
  wi_error :: "workflow_error option"

record step_decision =
  sd_approver :: string
  sd_approved :: bool
  sd_text :: string
  sd_timestamp :: time

record step_approval =
  sa_id :: string
  sa_instance :: string
  sa_step_name :: string
  sa_requester :: string
  sa_approvers :: "string list"
  sa_status :: approval_answer
  sa_created_at :: time
  sa_decisions :: "step_decision list"

record workflow_engine =
  we_workflows :: "(string, workflow_instance) dict"
  we_definitions :: "(string, workflow_definition) dict"
  we_requests :: "(string, step_approval) dict"
  we_scheduled :: "string list"
  we_sla :: sla_manager

text \<open>\<open>WorkflowStep.__init__\<close>: a missing or empty retry configuration becomes one without retries.\<close>

definition new_step ::
    "string \<Rightarrow> string \<Rightarrow> (nat \<Rightarrow> pydict \<Rightarrow> (exn + pyval) \<times> pydict) \<Rightarrow> bool \<Rightarrow> string list \<Rightarrow> pydict \<Rightarrow> int option \<Rightarrow> pydict
      \<Rightarrow> workflow_step" where
  "new_step i name handler approval approvers conditions timeout retry =
     \<lparr>ws_id = i, ws_name = name, ws_handler = handler, ws_requires_approval = approval, ws_approvers = approvers,
      ws_conditions = conditions, ws_timeout = timeout,
      ws_retry = (if retry = [] then [(''max_retries'', PInt 0)] else retry),
      ws_status = SS_pending, ws_result = PNone, ws_error = None, ws_started_at = None, ws_completed_at = None\<rparr>"

definition copy_step :: "workflow_step \<Rightarrow> workflow_step" where
  "copy_step d = new_step (ws_id d) (ws_name d) (ws_handler d) (ws_requires_approval d) (ws_approvers d)
     (ws_conditions d) (ws_timeout d) (ws_retry d)"

definition define_workflow :: "string \<Rightarrow> workflow_step list \<Rightarrow> int option \<Rightarrow> time \<Rightarrow> workflow_engine \<Rightarrow> workflow_engine" where
  "define_workflow i steps sla_seconds now s =
     s\<lparr>we_definitions := dict_set i \<lparr>wd_steps = steps, wd_sla_seconds = sla_seconds, wd_created_at = now\<rparr> (we_definitions s)\<rparr>"

text \<open>The module does not import \<open>timedelta\<close>, so a definition with a deadline cannot be started.\<close>

definition start_workflow ::
    "string \<Rightarrow> string \<Rightarrow> pydict \<Rightarrow> string \<Rightarrow> string \<Rightarrow> time \<Rightarrow> workflow_engine \<Rightarrow> exn + workflow_engine" where
  "start_workflow iid wid context tenant user now s =
     (case dict_get (we_definitions s) wid of
        None \<Rightarrow> Inl (ValueErr (''Workflow '' @ wid @ '' not defined''))
      | Some d \<Rightarrow>
        if wd_sla_seconds d \<noteq> None \<and> wd_sla_seconds d \<noteq> Some 0 then Inl (NameErr ''timedelta'')
        else Inr (s\<lparr>we_workflows := dict_set iid
             \<lparr>wi_instance_id = iid, wi_workflow_id = wid, wi_tenant = tenant, wi_user = user, wi_context = context,
              wi_status = WF_pending, wi_current_step = 0, wi_steps = map copy_step (wd_steps d), wi_created_at = now,
              wi_updated_at = now, wi_sla_deadline = None, wi_error = None\<rparr> (we_workflows s),
             we_scheduled := we_scheduled s @ [iid]\<rparr>))"

section \<open>Conditions\<close>

definition check_op :: "string \<Rightarrow> pyval \<Rightarrow> pyval \<Rightarrow> exn + bool" where
  "check_op opr value expected =
     (let compared = \<lambda>r. case r of None \<Rightarrow> Inl TypeErr | Some b \<Rightarrow> Inr b
      in if opr = ''eq'' then Inr (py_eq value expected)
         else if opr = ''gt'' then compared (py_gt value expected)
         else if opr = ''lt'' then compared (py_lt value expected)
         else if opr = ''in'' then compared (py_in value expected)
         else Inr True)"

fun check_ops :: "pyval \<Rightarrow> pydict \<Rightarrow> exn + bool" where
  "check_ops value [] = Inr True"
| "check_ops value ((opr, expected) # r) =
     rbind (check_op opr value expected) (\<lambda>b. if b then check_ops value r else Inr False)"

fun check_conditions :: "pydict \<Rightarrow> pydict \<Rightarrow> exn + bool" where
  "check_conditions [] ctx = Inr True"
| "check_conditions ((k, c) # r) ctx =
     (let value = dict_get_or ctx k PNone
      in rbind (case c of PDict ops \<Rightarrow> check_ops value ops | _ \<Rightarrow> Inr (py_eq value c)) (\<lambda>b.
           if b then check_conditions r ctx else Inr False))"

section \<open>Approval of a step\<close>

definition request_approval :: "string \<Rightarrow> string \<Rightarrow> workflow_step \<Rightarrow> string \<Rightarrow> time \<Rightarrow> workflow_engine \<Rightarrow> workflow_engine" where
  "request_approval aid iid st requester now s =
     s\<lparr>we_requests := dict_set aid
        \<lparr>sa_id = aid, sa_instance = iid, sa_step_name = ws_name st, sa_requester = requester,
         sa_approvers = ws_approvers st, sa_status = AA_pending, sa_created_at = now, sa_decisions = []\<rparr> (we_requests s)\<rparr>"

definition decide_step :: "approval_answer \<Rightarrow> string \<Rightarrow> string \<Rightarrow> string \<Rightarrow> time \<Rightarrow> workflow_engine \<Rightarrow> workflow_engine" where
  "decide_step answer aid who txt now s =
     s\<lparr>we_requests := dict_mod aid (\<lambda>r. r\<lparr>sa_status := answer,
        sa_decisions := sa_decisions r @ [\<lparr>sd_approver = who, sd_approved = (answer = AA_approved), sd_text = txt,
          sd_timestamp = now\<rparr>]\<rparr>) (we_requests s)\<rparr>"

definition approve_step :: "string \<Rightarrow> string \<Rightarrow> string \<Rightarrow> time \<Rightarrow> workflow_engine \<Rightarrow> workflow_engine" where
  "approve_step = decide_step AA_approved"

definition reject_step :: "string \<Rightarrow> string \<Rightarrow> string \<Rightarrow> time \<Rightarrow> workflow_engine \<Rightarrow> workflow_engine" where
  "reject_step = decide_step AA_rejected"

text \<open>
  The loop that waits, over what each of its looks finds: the time since it began and the request.
  \<open>None\<close> where it still waits after the last of them.
\<close>

fun wait_for_approval :: "int option \<Rightarrow> (time \<times> step_approval option) list \<Rightarrow> bool option" where
  "wait_for_approval timeout [] = None"
| "wait_for_approval timeout ((elapsed, request) # looks) =
     (if (case timeout of None \<Rightarrow> False | Some t \<Rightarrow> t \<noteq> 0 \<and> total_seconds elapsed > of_int t) then Some False
      else (case request of
              None \<Rightarrow> Some False
            | Some r \<Rightarrow> if sa_status r \<noteq> AA_pending then Some (sa_status r = AA_approved)
                       else wait_for_approval timeout looks))"

section \<open>Execution of a step\<close>

record step_oracle =
  so_begin :: time
  so_start :: time
  so_end :: time
  so_looks :: "(time \<times> step_approval option) list"
  so_interrupt :: "workflow_status option"

datatype step_end = Go_on | Stop | Waiting | Raises exn

definition max_retries :: "workflow_step \<Rightarrow> exn + int" where
  "max_retries st =
     (case dict_get_or (ws_retry st) ''max_retries'' (PInt 0) of
        PInt n \<Rightarrow> Inr n | PBool b \<Rightarrow> Inr (of_bool b) | _ \<Rightarrow> Inl TypeErr)"

definition retry_delay :: "workflow_step \<Rightarrow> nat \<Rightarrow> exn + rat" where
  "retry_delay st attempt =
     (case num_val (dict_get_or (ws_retry st) ''delay'' (PInt 1)) of
        None \<Rightarrow> Inl TypeErr | Some d \<Rightarrow> Inr (d * 2 ^ attempt))"

text \<open>
  The attempts from one number on, \<open>n\<close> of them left: an exception that leaves the step, the step,
  the context and what was slept.
\<close>

fun run_attempts :: "nat \<Rightarrow> nat \<Rightarrow> workflow_step \<Rightarrow> pydict \<Rightarrow> exn option \<times> workflow_step \<times> pydict \<times> rat list" where
  "run_attempts 0 attempt st ctx = (None, st, ctx, [])"
| "run_attempts (Suc n) attempt st ctx =
     (case ws_handler st attempt ctx of
        (Inr result, ctx') \<Rightarrow> (None, st\<lparr>ws_result := result, ws_status := SS_completed\<rparr>, ctx', [])
      | (Inl e, ctx') \<Rightarrow>
          if n = 0 then (Some e, st\<lparr>ws_status := SS_failed, ws_error := Some e\<rparr>, ctx', [])
          else (case retry_delay st attempt of
                  Inl e' \<Rightarrow> (Some e', st, ctx', [])
                | Inr d \<Rightarrow> (case run_attempts n (Suc attempt) st ctx' of (r, st', c, ds) \<Rightarrow> (r, st', c, d # ds))))"

text \<open>\<open>assign_task\<close> gets the list of approvers for the name of a pool; looking a list up in a
  dictionary raises \<open>TypeError\<close>.\<close>

definition perform :: "step_oracle \<Rightarrow> workflow_step \<Rightarrow> workflow_instance \<Rightarrow> step_end \<times> workflow_step \<times> workflow_instance" where
  "perform orc st inst =
     (if ws_approvers st \<noteq> [] then (Raises TypeErr, st, inst)
      else
        (let st1 = st\<lparr>ws_status := SS_running, ws_started_at := Some (so_start orc)\<rparr>
         in case max_retries st1 of
              Inl e \<Rightarrow> (Raises e, st1, inst)
            | Inr m \<Rightarrow> (case run_attempts (nat (m + 1)) 0 st1 (wi_context inst) of
                (Some e, st2, ctx, _) \<Rightarrow> (Raises e, st2, inst\<lparr>wi_context := ctx\<rparr>)
              | (None, st2, ctx, _) \<Rightarrow> (Go_on, st2\<lparr>ws_completed_at := Some (so_end orc)\<rparr>, inst\<lparr>wi_context := ctx\<rparr>))))"

definition exec_step :: "step_oracle \<Rightarrow> workflow_step \<Rightarrow> workflow_instance \<Rightarrow> step_end \<times> workflow_step \<times> workflow_instance" where
  "exec_step orc st inst =
     (case check_conditions (ws_conditions st) (wi_context inst) of
        Inl e \<Rightarrow> (Raises e, st, inst)
      | Inr False \<Rightarrow> (Go_on, st\<lparr>ws_status := SS_skipped\<rparr>, inst)
      | Inr True \<Rightarrow>
          if ws_requires_approval st
          then (case wait_for_approval (ws_timeout st) (so_looks orc) of
                  None \<Rightarrow> (Waiting, st, inst)
                | Some False \<Rightarrow> (Stop, st\<lparr>ws_status := SS_rejected\<rparr>,
                                 inst\<lparr>wi_status := WF_failed, wi_error := Some (Step_rejected (ws_name st))\<rparr>)
                | Some True \<Rightarrow> perform orc st inst)
          else perform orc st inst)"

definition interrupted :: "workflow_status option \<Rightarrow> workflow_instance \<Rightarrow> workflow_instance" where
  "interrupted i inst = (case i of None \<Rightarrow> inst | Some st \<Rightarrow> inst\<lparr>wi_status := st\<rparr>)"

fun exec_steps ::
    "(nat \<Rightarrow> step_oracle) \<Rightarrow> nat \<Rightarrow> workflow_step list \<Rightarrow> workflow_instance \<Rightarrow> step_end \<times> workflow_step list \<times> workflow_instance" where
  "exec_steps orc i [] inst = (Go_on, [], inst)"
| "exec_steps orc i (st # sts) inst =
     (let inst1 = interrupted (so_interrupt (orc i)) (inst\<lparr>wi_current_step := i, wi_updated_at := so_begin (orc i)\<rparr>)
      in case exec_step (orc i) st inst1 of
           (Go_on, st', inst2) \<Rightarrow>
             (case exec_steps orc (Suc i) sts inst2 of (e, sts', inst3) \<Rightarrow> (e, st' # sts', inst3))
         | (e, st', inst2) \<Rightarrow> (e, st' # sts, inst2))"

definition settled :: "workflow_step \<Rightarrow> bool" where
  "settled st \<longleftrightarrow> ws_status st = SS_completed \<or> ws_status st = SS_skipped"

text \<open>The whole run; the first component says whether it has ended or still waits for an approval.\<close>

definition execute_workflow ::
    "(nat \<Rightarrow> step_oracle) \<Rightarrow> time \<Rightarrow> workflow_instance \<Rightarrow> sla_manager \<Rightarrow> bool \<times> workflow_instance \<times> sla_manager" where
  "execute_workflow orc now inst sla =
     (case exec_steps orc 0 (wi_steps inst) (inst\<lparr>wi_status := WF_running\<rparr>) of
        (Waiting, sts, inst1) \<Rightarrow> (False, inst1\<lparr>wi_steps := sts\<rparr>, sla)
      | (Raises e, sts, inst1) \<Rightarrow>
          (True, inst1\<lparr>wi_steps := sts, wi_status := WF_failed, wi_error := Some (Raised_error e)\<rparr>,
           complete_workflow (wi_instance_id inst) False now sla)
      | (_, sts, inst1) \<Rightarrow>
          if list_all settled sts
          then (True, inst1\<lparr>wi_steps := sts, wi_status := WF_completed\<rparr>, complete_workflow (wi_instance_id inst) True now sla)
          else (True, inst1\<lparr>wi_steps := sts\<rparr>, sla))"

text \<open>A scheduled execution runs; the instance dictionary is changed in place.\<close>

definition run_scheduled :: "(nat \<Rightarrow> step_oracle) \<Rightarrow> time \<Rightarrow> string \<Rightarrow> workflow_engine \<Rightarrow> workflow_engine" where
  "run_scheduled orc now iid s =
     (case dict_get (we_workflows s) iid of
        None \<Rightarrow> s
      | Some inst \<Rightarrow> (case execute_workflow orc now inst (we_sla s) of (ended, inst', sla) \<Rightarrow>
          s\<lparr>we_workflows := dict_set iid inst' (we_workflows s), we_sla := sla,
            we_scheduled := (if ended then remove1 iid (we_scheduled s) else we_scheduled s)\<rparr>))"

section \<open>Control and status\<close>

definition set_status :: "workflow_status \<Rightarrow> string \<Rightarrow> workflow_engine \<Rightarrow> workflow_engine" where
  "set_status st iid s = s\<lparr>we_workflows := dict_mod iid (\<lambda>w. w\<lparr>wi_status := st\<rparr>) (we_workflows s)\<rparr>"

definition pause_workflow :: "string \<Rightarrow> workflow_engine \<Rightarrow> workflow_engine" where
  "pause_workflow = set_status WF_paused"

definition cancel_workflow :: "string \<Rightarrow> workflow_engine \<Rightarrow> workflow_engine" where
  "cancel_workflow = set_status WF_cancelled"

definition resume_workflow :: "string \<Rightarrow> workflow_engine \<Rightarrow> workflow_engine" where
  "resume_workflow iid s =
     (if dict_has (we_workflows s) iid
      then (set_status WF_running iid s)\<lparr>we_scheduled := we_scheduled s @ [iid]\<rparr> else s)"

record workflow_report =
  wr_instance_id :: string
  wr_workflow_id :: string
  wr_status :: workflow_status
  wr_current_step :: nat
  wr_total_steps :: nat
  wr_created_at :: time
  wr_updated_at :: time
  wr_sla_deadline :: "time option"
  wr_error :: "workflow_error option"

definition get_workflow_status :: "string \<Rightarrow> workflow_engine \<Rightarrow> workflow_report option" where
  "get_workflow_status iid s =
     map_option (\<lambda>w. \<lparr>wr_instance_id = wi_instance_id w, wr_workflow_id = wi_workflow_id w, wr_status = wi_status w,
        wr_current_step = wi_current_step w, wr_total_steps = length (wi_steps w), wr_created_at = wi_created_at w,
        wr_updated_at = wi_updated_at w, wr_sla_deadline = wi_sla_deadline w, wr_error = wi_error w\<rparr>)
       (dict_get (we_workflows s) iid)"

section \<open>Pausing and cancelling change nothing\<close>

lemma exec_step_status:
  "exec_step orc st (inst\<lparr>wi_status := x\<rparr>) =
     (case exec_step orc st inst of (e, st', inst') \<Rightarrow> (e, st', inst'\<lparr>wi_status := if e = Stop then WF_failed else x\<rparr>))"
  by (simp add: exec_step_def perform_def Let_def split: sum.split prod.split bool.split option.split)

lemma exec_step_uninterrupted: "exec_step (orc\<lparr>so_interrupt := j\<rparr>) st inst = exec_step orc st inst"
proof -
  have "perform (orc\<lparr>so_interrupt := j\<rparr>) = perform orc"
    by (intro ext) (simp add: perform_def Let_def split: sum.split prod.split option.split)
  then show ?thesis by (simp add: exec_step_def split: sum.split bool.split option.split)
qed

definition uninterrupted :: "(nat \<Rightarrow> step_oracle) \<Rightarrow> nat \<Rightarrow> step_oracle" where
  "uninterrupted orc i = (orc i)\<lparr>so_interrupt := None\<rparr>"

lemma exec_steps_uninterrupted:
  assumes "exec_steps orc i sts inst = (e, sts', inst')"
  shows "exec_steps (uninterrupted orc) i sts (inst\<lparr>wi_status := x\<rparr>)
      = (e, sts', inst'\<lparr>wi_status := if e = Stop then WF_failed else x\<rparr>)
    \<and> (e = Stop \<longrightarrow> wi_status inst' = WF_failed)"
  using assms
proof (induction sts arbitrary: i inst e sts' inst')
  case (Cons st sts)
  let ?i1 = "interrupted (so_interrupt (orc i)) (inst\<lparr>wi_current_step := i, wi_updated_at := so_begin (orc i)\<rparr>)"
  have i0: "interrupted (so_interrupt (uninterrupted orc i)) ((inst\<lparr>wi_status := x\<rparr>)\<lparr>wi_current_step := i, wi_updated_at := so_begin (uninterrupted orc i)\<rparr>)
      = ?i1\<lparr>wi_status := x\<rparr>"
    by (simp add: interrupted_def uninterrupted_def split: option.split)
  obtain e1 st1 inst1 where e1: "exec_step (orc i) st ?i1 = (e1, st1, inst1)" by (metis prod_cases3)
  have e0: "exec_step (uninterrupted orc i) st (?i1\<lparr>wi_status := x\<rparr>)
      = (e1, st1, inst1\<lparr>wi_status := if e1 = Stop then WF_failed else x\<rparr>)"
    using e1 by (simp add: uninterrupted_def exec_step_uninterrupted exec_step_status)
  have stop: "e1 = Stop \<Longrightarrow> wi_status inst1 = WF_failed"
    using e1 by (auto simp: exec_step_def perform_def Let_def split: sum.splits prod.splits bool.splits option.splits if_splits)
  show ?case
  proof (cases e1)
    case Go_on
    obtain e2 sts2 inst2 where e2: "exec_steps orc (Suc i) sts inst1 = (e2, sts2, inst2)" by (metis prod_cases3)
    from Cons.IH [OF e2] Cons.prems e0 e1 e2 Go_on show ?thesis by (simp add: i0 [simplified])
  qed (use Cons.prems e0 e1 stop in \<open>auto simp: i0 [simplified]\<close>)
qed simp

text \<open>
  Pausing or cancelling a running workflow has no effect on it: it runs the same steps with the
  same results and the same end as without; where it ends completed or failed, even its status is
  the same.
\<close>
theorem cancellation_ignored:
  "case (execute_workflow orc now inst a, execute_workflow (uninterrupted orc) now inst a) of
     ((ended, w, a1), (ended0, w0, a0)) \<Rightarrow>
       ended = ended0 \<and> a1 = a0 \<and> w\<lparr>wi_status := wi_status w0\<rparr> = w0 \<and> (wi_status w0 = WF_running \<or> w = w0)"
proof -
  obtain e sts inst1 where e: "exec_steps orc 0 (wi_steps inst) (inst\<lparr>wi_status := WF_running\<rparr>) = (e, sts, inst1)"
    by (metis prod_cases3)
  from exec_steps_uninterrupted [OF e, of WF_running] have
    u: "exec_steps (uninterrupted orc) 0 (wi_steps inst) (inst\<lparr>wi_status := WF_running\<rparr>)
        = (e, sts, inst1\<lparr>wi_status := if e = Stop then WF_failed else WF_running\<rparr>)"
      "e = Stop \<longrightarrow> wi_status inst1 = WF_failed"
    by simp_all
  show ?thesis using u(2) by (cases e) (simp_all add: execute_workflow_def e u(1))
qed

section \<open>Which workflows complete\<close>

definition only_paused :: "(nat \<Rightarrow> step_oracle) \<Rightarrow> bool" where
  "only_paused orc \<longleftrightarrow> (\<forall>i. so_interrupt (orc i) \<in> {None, Some WF_paused, Some WF_cancelled})"

definition fresh :: "workflow_step \<Rightarrow> bool" where
  "fresh st \<longleftrightarrow> ws_status st = SS_pending"

lemma run_attempts_status:
  assumes "run_attempts n k st ctx = (r, st', ctx', ds)" and "ws_status st \<noteq> SS_completed"
  shows "r = None \<and> ws_status st' = SS_completed \<or> n = 0 \<and> r = None \<and> st' = st
    \<or> r \<noteq> None \<and> (ws_status st' = SS_failed \<or> ws_status st' = ws_status st)"
  using assms
proof (induction n k st ctx arbitrary: r st' ctx' ds rule: run_attempts.induct)
  case (2 n k st ctx)
  then show ?case
    by (cases "ws_handler st k ctx") (auto split: sum.splits if_splits prod.splits)
qed simp

text \<open>After a step: whether the run goes on, and the status the step is left with.\<close>

lemma exec_step_cases:
  assumes "exec_step orc st inst = (e, st', inst')" and "fresh st"
  shows "(e = Go_on \<longrightarrow> settled st' \<or> ws_status st' = SS_running) \<and> (e \<noteq> Go_on \<longrightarrow> \<not> settled st')
    \<and> (e = Go_on \<longrightarrow> wi_status inst' = wi_status inst)
    \<and> (e = Go_on \<longrightarrow> ws_approvers st = [] \<or> check_conditions (ws_conditions st) (wi_context inst) = Inr False)"
  using assms
  by (auto simp: exec_step_def perform_def Let_def fresh_def settled_def
      split: sum.splits bool.splits option.splits if_splits prod.splits dest!: run_attempts_status)

text \<open>How a run of fresh steps ends: the steps before the last one executed are done with, the later
  ones untouched.\<close>

lemma exec_steps_shape:
  assumes "exec_steps orc i sts inst = (e, sts', inst')" and "list_all fresh sts" and "only_paused orc"
    and "wi_status inst \<in> {WF_running, WF_paused, WF_cancelled}"
  shows "if e = Go_on then list_all (\<lambda>st. settled st \<or> ws_status st = SS_running) sts' \<and> length sts' = length sts
           \<and> wi_status inst' \<in> {WF_running, WF_paused, WF_cancelled}
           \<and> list_all (\<lambda>st. ws_conditions st = [] \<longrightarrow> ws_approvers st = []) sts
         else \<exists>ys x zs ys' x'. sts = ys @ x # zs \<and> sts' = ys' @ x' # zs \<and> length ys' = length ys \<and> \<not> settled x'
           \<and> list_all (\<lambda>st. settled st \<or> ws_status st = SS_running) ys'"
  using assms
proof (induction sts arbitrary: i inst e sts' inst')
  case (Cons st sts)
  let ?i1 = "interrupted (so_interrupt (orc i)) (inst\<lparr>wi_current_step := i, wi_updated_at := so_begin (orc i)\<rparr>)"
  obtain e1 st1 inst1 where e1: "exec_step (orc i) st ?i1 = (e1, st1, inst1)" by (metis prod_cases3)
  have i1: "wi_status ?i1 \<in> {WF_running, WF_paused, WF_cancelled}"
    using Cons.prems(3,4) by (auto simp: interrupted_def only_paused_def dest: spec [of _ i])
  from exec_step_cases [OF e1] Cons.prems(2) have c:
    "e1 = Go_on \<Longrightarrow> settled st1 \<or> ws_status st1 = SS_running" "e1 \<noteq> Go_on \<Longrightarrow> \<not> settled st1"
    "e1 = Go_on \<Longrightarrow> wi_status inst1 = wi_status ?i1"
    "e1 = Go_on \<Longrightarrow> ws_approvers st = [] \<or> check_conditions (ws_conditions st) (wi_context ?i1) = Inr False"
    by auto
  show ?case
  proof (cases "e1 = Go_on")
    case True
    obtain e2 sts2 inst2 where e2: "exec_steps orc (Suc i) sts inst1 = (e2, sts2, inst2)" by (metis prod_cases3)
    with e1 True Cons.prems(1) have r: "e = e2" "sts' = st1 # sts2" "inst' = inst2" by simp_all
    from Cons.IH [OF e2] Cons.prems(2,3) c(3) [OF True] i1 have ih:
      "if e2 = Go_on then list_all (\<lambda>st. settled st \<or> ws_status st = SS_running) sts2 \<and> length sts2 = length sts
           \<and> wi_status inst2 \<in> {WF_running, WF_paused, WF_cancelled}
           \<and> list_all (\<lambda>st. ws_conditions st = [] \<longrightarrow> ws_approvers st = []) sts
         else \<exists>ys x zs ys' x'. sts = ys @ x # zs \<and> sts2 = ys' @ x' # zs \<and> length ys' = length ys \<and> \<not> settled x'
           \<and> list_all (\<lambda>st. settled st \<or> ws_status st = SS_running) ys'"
      by simp
    show ?thesis
    proof (cases "e2 = Go_on")
      case True
      with ih r c(1,4) \<open>e1 = Go_on\<close> show ?thesis by auto
    next
      case False
      with ih obtain ys x zs ys' x' where "sts = ys @ x # zs" "sts2 = ys' @ x' # zs" "length ys' = length ys" "\<not> settled x'"
        "list_all (\<lambda>st. settled st \<or> ws_status st = SS_running) ys'" by auto
      with False r c(1) [OF True] show ?thesis
        by (simp, intro exI [of _ "st # ys"] exI [of _ x] exI [of _ zs] exI [of _ "st1 # ys'"] exI [of _ x']) simp
    qed
  next
    case False
    with e1 Cons.prems(1) have "e = e1" "sts' = st1 # sts" by (auto split: step_end.splits)
    with False c(2) show ?thesis
      by (simp, intro exI [of _ "[]"] exI [of _ st] exI [of _ sts] exI [of _ "[]"] exI [of _ st1]) simp
  qed
qed simp

text \<open>
  A run of a fresh workflow ends completed exactly when every step was carried out or skipped;
  otherwise the steps after the one it stopped at are untouched. A workflow with an unconditional
  step that names approvers never completes.
\<close>
theorem workflow_completes_iff:
  assumes "execute_workflow orc now inst a = (True, w, a')" and "list_all fresh (wi_steps inst)" and "only_paused orc"
  shows "(wi_status w = WF_completed \<longleftrightarrow> list_all settled (wi_steps w))
    \<and> (wi_status w = WF_completed \<longrightarrow> list_all (\<lambda>st. ws_conditions st = [] \<longrightarrow> ws_approvers st = []) (wi_steps inst))
    \<and> (wi_status w = WF_failed \<longrightarrow> (\<exists>ys x zs ys' x'. wi_steps inst = ys @ x # zs \<and> wi_steps w = ys' @ x' # zs
        \<and> length ys' = length ys \<and> \<not> settled x'))"
proof -
  obtain e sts inst1 where e: "exec_steps orc 0 (wi_steps inst) (inst\<lparr>wi_status := WF_running\<rparr>) = (e, sts, inst1)"
    by (metis prod_cases3)
  have shape: "if e = Go_on then list_all (\<lambda>st. settled st \<or> ws_status st = SS_running) sts \<and> length sts = length (wi_steps inst)
           \<and> wi_status inst1 \<in> {WF_running, WF_paused, WF_cancelled}
           \<and> list_all (\<lambda>st. ws_conditions st = [] \<longrightarrow> ws_approvers st = []) (wi_steps inst)
         else \<exists>ys x zs ys' x'. wi_steps inst = ys @ x # zs \<and> sts = ys' @ x' # zs \<and> length ys' = length ys \<and> \<not> settled x'
           \<and> list_all (\<lambda>st. settled st \<or> ws_status st = SS_running) ys'"
    using exec_steps_shape [OF e assms(2,3)] by simp
  have not_settled: "\<not> list_all settled sts \<and> (\<exists>ys x zs ys' x'. wi_steps inst = ys @ x # zs \<and> sts = ys' @ x' # zs
      \<and> length ys' = length ys \<and> \<not> settled x')" if "e \<noteq> Go_on"
  proof -
    from shape that obtain ys x zs ys' x' where "wi_steps inst = ys @ x # zs" "sts = ys' @ x' # zs" "length ys' = length ys"
      "\<not> settled x'" by auto
    then show ?thesis
      by (intro conjI exI [of _ ys] exI [of _ x] exI [of _ zs] exI [of _ ys'] exI [of _ x']) auto
  qed
  show ?thesis
  proof (cases e)
    case Go_on
    with shape assms(1) show ?thesis by (auto simp: execute_workflow_def e split: if_splits)
  next
    case Stop
    with exec_steps_uninterrupted [OF e, of WF_running] have "wi_status inst1 = WF_failed" by simp
    moreover from Stop have "\<not> list_all settled sts" using not_settled by simp
    moreover from Stop have "w = inst1\<lparr>wi_steps := sts\<rparr>" using assms(1) not_settled by (simp add: execute_workflow_def e)
    ultimately show ?thesis using Stop not_settled by simp
  next
    case (Raises x)
    with assms(1) have "w = inst1\<lparr>wi_steps := sts, wi_status := WF_failed, wi_error := Some (Raised_error x)\<rparr>"
      by (simp add: execute_workflow_def e)
    with Raises not_settled show ?thesis by simp
  qed (use assms(1) in \<open>auto simp: execute_workflow_def e\<close>)
qed

definition ex_step :: "string \<Rightarrow> bool \<Rightarrow> workflow_step" where
  "ex_step n ok = new_step n n (\<lambda>k ctx. (if ok then Inr PNone else Inl (ValueErr n), ctx)) False [] [] None []"

definition ex_oracle :: "nat \<Rightarrow> step_oracle" where
  "ex_oracle i = \<lparr>so_begin = int i, so_start = int i, so_end = int i, so_looks = [],
     so_interrupt = (if i = 0 then Some WF_cancelled else None)\<rparr>"

definition ex_instance :: "workflow_step list \<Rightarrow> workflow_instance" where
  "ex_instance sts = \<lparr>wi_instance_id = ''wf_1'', wi_workflow_id = ''w'', wi_tenant = ''t'', wi_user = ''u'', wi_context = [],
     wi_status = WF_pending, wi_current_step = 0, wi_steps = sts, wi_created_at = 0, wi_updated_at = 0,
     wi_sla_deadline = None, wi_error = None\<rparr>"

theorem workflow_completes_iff_witness:
  "\<exists>w a'. execute_workflow ex_oracle 9 (ex_instance [ex_step ''a'' True, ex_step ''b'' True]) new_sla_manager = (True, w, a')
     \<and> wi_status w = WF_completed"
proof -
  let ?i = "ex_instance [ex_step ''a'' True, ex_step ''b'' True]"
  obtain w a' where w: "execute_workflow ex_oracle 9 ?i new_sla_manager = (True, w, a')" "list_all settled (wi_steps w)"
    by (simp add: execute_workflow_def ex_instance_def ex_step_def ex_oracle_def new_step_def exec_step_def perform_def
        interrupted_def max_retries_def dict_get_or_def dict_get_def settled_def)
  have "list_all fresh (wi_steps ?i)" "only_paused ex_oracle"
    by (simp_all add: ex_instance_def ex_step_def fresh_def new_step_def only_paused_def ex_oracle_def)
  from workflow_completes_iff [OF w(1) this] w show ?thesis by auto
qed

text \<open>Each failing attempt but the last is followed by a sleep twice as long as the one before.\<close>

lemma run_attempts_backoff:
  assumes "run_attempts n k st ctx = (r, st', ctx', ds)" and "retry_delay st 0 = Inr d"
  shows "ds = map (\<lambda>j. d * 2 ^ (k + j)) [0..<length ds] \<and> length ds \<le> n - 1"
  using assms
proof (induction n k st ctx arbitrary: r st' ctx' ds rule: run_attempts.induct)
  case (2 n k st ctx)
  obtain oc ctx1 where h: "ws_handler st k ctx = (oc, ctx1)" by fastforce
  show ?case
  proof (cases "(\<exists>x. oc = Inr x) \<or> n = 0")
    case True
    with 2 h show ?thesis by (auto split: sum.splits)
  next
    case False
    then obtain e where e: "oc = Inl e" "n \<noteq> 0" by (cases oc) auto
    obtain r2 st2 c2 ds2 where r: "run_attempts n (Suc k) st ctx1 = (r2, st2, c2, ds2)" by (metis prod_cases4)
    from 2(3) have d: "retry_delay st k = Inr (d * 2 ^ k)" by (auto simp: retry_delay_def split: option.splits)
    with 2(2) h e r have ds: "ds = (d * 2 ^ k) # ds2" by simp
    from 2(1) [OF h [symmetric] e(1) e(2) d r 2(3)] h e d r 2(3) have ih: "ds2 = map (\<lambda>j. d * 2 ^ (Suc k + j)) [0..<length ds2]" "length ds2 \<le> n - 1"
      by auto
    have "ds = map (\<lambda>j. d * 2 ^ (k + j)) (0 # map Suc [0..<length ds2])"
      using ih(1) by (simp add: ds comp_def)
    then show ?thesis using ih(2) e(2) by (simp add: ds map_Suc_upt upt_conv_Cons del: upt_Suc)
  qed
qed simp

end
