(* ===== verification/WorkerPool.thy ===== *)
theory WorkerPool
  imports Exceptions Calendar
begin

text \<open>
  \<open>src/workers/worker_pool.py\<close>. A worker is a dictionary shared by its pool, the status table and the
  executions that use it, so the worker dictionaries live in a store and everything else refers to
  places in it. Every operation that awaits a container, the network or the registry is split at
  the await; the pieces are the operations below and the events of a run, which may interleave in
  any way. The execution that has a worker is in the ghost component \<open>wp_running\<close>. What containers
  answer, the drawn ids and the clock are arguments; a creation that fails is an event that does
  not happen.
\<close>

section \<open>State\<close>

datatype worker_status = W_available | W_busy | W_unhealthy

record worker =
  wk_id :: string
  wk_container :: string
  wk_tool :: string
  wk_status :: worker_status
  wk_created_at :: time
  wk_health_check :: time
  wk_tasks :: nat
  wk_time :: rat
  wk_current :: pyval
  wk_permanent_failure :: bool

record worker_pool =
  wp_store :: "worker list"
  wp_pools :: "(string, nat list) dict"
  wp_status :: "(string, nat) dict"
  wp_queues :: "string list"
  wp_recovery :: "(string, nat) dict"
  wp_min_workers :: nat
  wp_max_workers :: nat
  wp_up :: rat
  wp_down :: rat
  wp_running :: "nat list"

text \<open>The settings have none of the three fields, so the defaults of \<open>getattr\<close> hold.\<close>

definition new_worker_pool :: worker_pool where
  "new_worker_pool = \<lparr>wp_store = [], wp_pools = [], wp_status = [], wp_queues = [], wp_recovery = [],
     wp_min_workers = 1, wp_max_workers = 2, wp_up = 8 / 10, wp_down = 1 / 10, wp_running = []\<rparr>"

definition pool_of :: "string \<Rightarrow> worker_pool \<Rightarrow> nat list" where
  "pool_of tool s = dict_get_or (wp_pools s) tool []"

definition on_worker :: "nat \<Rightarrow> (worker \<Rightarrow> worker) \<Rightarrow> worker_pool \<Rightarrow> worker_pool" where
  "on_worker r f s = s\<lparr>wp_store := (wp_store s)[r := f (wp_store s ! r)]\<rparr>"

section \<open>Creation\<close>

definition ensure_pool :: "string \<Rightarrow> worker_pool \<Rightarrow> worker_pool" where
  "ensure_pool tool s = (if dict_has (wp_pools s) tool then s else s\<lparr>wp_pools := dict_set tool [] (wp_pools s)\<rparr>)"

text \<open>\<open>_create_worker\<close> once its container runs: the record is registered and gets a queue.\<close>

definition register_worker :: "string \<Rightarrow> string \<Rightarrow> string \<Rightarrow> time \<Rightarrow> worker_pool \<Rightarrow> exn + (nat \<times> worker_pool)" where
  "register_worker tool wid cid now s =
     (if \<not> dict_has (wp_pools s) tool then Inl (KeyErr tool)
      else (let r = length (wp_store s);
                w = \<lparr>wk_id = wid, wk_container = cid, wk_tool = tool, wk_status = W_available, wk_created_at = now,
                     wk_health_check = now, wk_tasks = 0, wk_time = 0, wk_current = PNone, wk_permanent_failure = False\<rparr>
            in Inr (r, s\<lparr>wp_store := wp_store s @ [w], wp_pools := dict_mod tool (\<lambda>p. p @ [r]) (wp_pools s),
                        wp_status := dict_set wid r (wp_status s), wp_queues := List.insert wid (wp_queues s)\<rparr>)))"

section \<open>Execution\<close>

text \<open>\<open>min(ws, key=f)\<close>: the first of the least.\<close>

fun first_least :: "('a \<Rightarrow> 'k::linorder) \<Rightarrow> 'a list \<Rightarrow> 'a option" where
  "first_least f [] = None"
| "first_least f (x # xs) =
     (case first_least f xs of None \<Rightarrow> Some x | Some y \<Rightarrow> if f x \<le> f y then Some x else Some y)"

definition get_available_worker :: "string \<Rightarrow> worker_pool \<Rightarrow> nat option" where
  "get_available_worker tool s =
     first_least (\<lambda>r. wk_tasks (wp_store s ! r)) (filter (\<lambda>r. wk_status (wp_store s ! r) = W_available) (pool_of tool s))"

datatype execution_step = Make_pool | Run_on nat | Scale_up | Run_direct

text \<open>
  \<open>execute\<close> up to its next await: it needs a pool, takes a worker, needs a new one, or falls back to
  direct execution. After a new worker it looks once more (\<open>may_scale = False\<close>).
\<close>

definition take_worker :: "pyval \<Rightarrow> nat \<Rightarrow> worker_pool \<Rightarrow> worker_pool" where
  "take_worker eid r s = (on_worker r (\<lambda>w. w\<lparr>wk_status := W_busy, wk_current := eid\<rparr>) s)\<lparr>wp_running := r # wp_running s\<rparr>"

definition acquire :: "bool \<Rightarrow> pyval \<Rightarrow> string \<Rightarrow> worker_pool \<Rightarrow> execution_step \<times> worker_pool" where
  "acquire may_scale eid tool s =
     (case get_available_worker tool s of
        Some r \<Rightarrow> (Run_on r, take_worker eid r s)
      | None \<Rightarrow> if may_scale \<and> length (pool_of tool s) < wp_max_workers s then (Scale_up, s) else (Run_direct, s))"

definition begin_execute :: "pyval \<Rightarrow> string \<Rightarrow> worker_pool \<Rightarrow> execution_step \<times> worker_pool" where
  "begin_execute eid tool s = (if dict_has (wp_pools s) tool then acquire True eid tool s else (Make_pool, s))"

definition release :: "worker \<Rightarrow> worker" where
  "release w = (if wk_status w \<noteq> W_unhealthy then w\<lparr>wk_status := W_available, wk_current := PNone\<rparr> else w)"

definition finish :: "(worker \<Rightarrow> worker) \<Rightarrow> nat \<Rightarrow> worker_pool \<Rightarrow> worker_pool" where
  "finish f r s =
     (if r \<in> set (wp_running s) then (on_worker r (release \<circ> f) s)\<lparr>wp_running := remove1 r (wp_running s)\<rparr> else s)"

definition fail :: "worker \<Rightarrow> worker" where
  "fail w = w\<lparr>wk_status := W_unhealthy\<rparr>"

definition task_failed :: "nat \<Rightarrow> worker_pool \<Rightarrow> worker_pool" where
  "task_failed = finish fail"

text \<open>A result whose duration is no number raises after the task has been counted.\<close>

definition task_done :: "pydict \<Rightarrow> nat \<Rightarrow> worker_pool \<Rightarrow> worker_pool" where
  "task_done result =
     finish (\<lambda>w. let w1 = w\<lparr>wk_tasks := wk_tasks w + 1\<rparr>
       in case num_val (dict_get_or result ''duration'' (PInt 0)) of
            None \<Rightarrow> fail w1 | Some d \<Rightarrow> w1\<lparr>wk_time := wk_time w1 + d\<rparr>)"

definition worker_result :: "pydict \<Rightarrow> worker \<Rightarrow> pydict" where
  "worker_result result w =
     dict_set ''execution_method'' (PStr ''docker_worker'') (dict_set ''worker_id'' (PStr (wk_id w)) result)"

section \<open>Execution without a worker\<close>

text \<open>What the Docker client and the subprocess give: an exception, or output and duration.\<close>

definition image_of :: "string \<Rightarrow> string" where
  "image_of tool =
     dict_get_or [(''nmap'', ''instrumentisto/nmap:latest''), (''nuclei'', ''projectdiscovery/nuclei:latest''),
                  (''sqlmap'', ''sqlmapproject/sqlmap:latest''), (''gobuster'', ''gobuster:latest'')] tool (tool @ '':latest'')"

definition tool_report :: "int \<Rightarrow> string \<Rightarrow> string \<Rightarrow> rat \<Rightarrow> bool \<Rightarrow> string \<Rightarrow> pydict" where
  "tool_report code out err duration ok how =
     [(''exit_code'', PInt code), (''stdout'', PStr out), (''stderr'', PStr err), (''duration'', PFloat duration),
      (''success'', PBool ok), (''execution_method'', PStr how)]"

datatype subprocess_outcome = Not_installed | Other_error exn | Exited int string string rat

fun joined :: "string list \<Rightarrow> string" where
  "joined [] = []"
| "joined [a] = a"
| "joined (a # as) = a @ '' '' @ joined as"

definition execute_subprocess :: "string \<Rightarrow> string list \<Rightarrow> subprocess_outcome \<Rightarrow> exn + pydict" where
  "execute_subprocess tool args outcome =
     (case outcome of
        Exited code out err d \<Rightarrow> Inr (tool_report code out err d (code = 0) ''subprocess'')
      | Not_installed \<Rightarrow> Inr (tool_report 0 (''SIMULATED: '' @ tool @ '' '' @ joined args) [] 2 True ''simulated'')
      | Other_error e \<Rightarrow> Inl e)"

definition execute_direct_docker ::
    "string \<Rightarrow> string list \<Rightarrow> exn + (string \<times> rat) \<Rightarrow> subprocess_outcome \<Rightarrow> exn + pydict" where
  "execute_direct_docker tool args docker outcome =
     (case docker of
        Inr (logs, d) \<Rightarrow> Inr (tool_report 0 logs [] d True ''direct_docker'')
      | Inl _ \<Rightarrow> execute_subprocess tool args outcome)"

section \<open>Health and recovery\<close>

definition attempts :: "worker \<Rightarrow> worker_pool \<Rightarrow> nat" where
  "attempts w s = dict_get_or (wp_recovery s) (wk_id w) 0"

text \<open>Before the check: whether the worker is checked at all.\<close>

definition health_due :: "time \<Rightarrow> nat \<Rightarrow> worker_pool \<Rightarrow> bool \<times> worker_pool" where
  "health_due now r s =
     (let w = wp_store s ! r
      in if total_seconds (now - wk_created_at w) < 60 then (False, s)
         else if wk_permanent_failure w then (False, s)
         else if attempts w s > 1 then (False, on_worker r (\<lambda>w. w\<lparr>wk_permanent_failure := True\<rparr>) s)
         else (True, s))"

definition recover_begin :: "nat \<Rightarrow> worker_pool \<Rightarrow> bool \<times> worker_pool" where
  "recover_begin r s =
     (let w = wp_store s ! r
      in if attempts w s > 1 then (False, on_worker r (\<lambda>w. w\<lparr>wk_permanent_failure := True\<rparr>) s)
         else (True, s\<lparr>wp_recovery := dict_set (wk_id w) (attempts w s + 1) (wp_recovery s)\<rparr>))"

text \<open>After the check; the first component says whether a recovery is under way.\<close>

definition health_verdict :: "bool \<Rightarrow> time \<Rightarrow> nat \<Rightarrow> worker_pool \<Rightarrow> bool \<times> worker_pool" where
  "health_verdict healthy now r s =
     (let w = wp_store s ! r
      in if \<not> healthy
         then recover_begin r (on_worker r (\<lambda>w. w\<lparr>wk_status := W_unhealthy, wk_health_check := now\<rparr>) s)
         else if wk_status w = W_unhealthy \<and> \<not> truthy (wk_current w)
         then (False, (on_worker r (\<lambda>w. w\<lparr>wk_status := W_available, wk_health_check := now\<rparr>) s)
                \<lparr>wp_recovery := dict_pop (wk_id w) (wp_recovery s)\<rparr>)
         else (False, on_worker r (\<lambda>w. w\<lparr>wk_health_check := now\<rparr>) s))"

fun index_of :: "'a \<Rightarrow> 'a list \<Rightarrow> nat option" where
  "index_of x [] = None"
| "index_of x (y # ys) = (if x = y then Some 0 else map_option Suc (index_of x ys))"

text \<open>The end of a recovery: a new worker is registered, and then put in the place of the old one.\<close>

definition recover_finish :: "nat \<Rightarrow> string \<Rightarrow> string \<Rightarrow> time \<Rightarrow> worker_pool \<Rightarrow> worker_pool" where
  "recover_finish r wid cid now s =
     (let tool = wk_tool (wp_store s ! r)
      in case register_worker tool wid cid now s of
           Inl _ \<Rightarrow> s
         | Inr (n, s') \<Rightarrow> (case index_of r (pool_of tool s') of
               None \<Rightarrow> s'
             | Some i \<Rightarrow> s'\<lparr>wp_pools := dict_mod tool (\<lambda>p. p[i := n]) (wp_pools s')\<rparr>))"

text \<open>\<open>debug_containers\<close>, run once when the health checks begin, for one worker: \<open>None\<close> where the
  container is not found, else whether it is running.\<close>

definition debug_worker :: "bool option \<Rightarrow> nat \<Rightarrow> worker_pool \<Rightarrow> worker_pool" where
  "debug_worker container r s =
     (case container of
        None \<Rightarrow> on_worker r (\<lambda>w. w\<lparr>wk_status := W_unhealthy\<rparr>) s
      | Some True \<Rightarrow> s
      | Some False \<Rightarrow> on_worker r (\<lambda>w. w\<lparr>wk_status := W_available\<rparr>) s)"

section \<open>Scaling\<close>

datatype scaling = Keep | Add_worker | Remove_worker

definition busy_count :: "string \<Rightarrow> worker_pool \<Rightarrow> nat" where
  "busy_count tool s = length (filter (\<lambda>r. wk_status (wp_store s ! r) = W_busy) (pool_of tool s))"

definition scale_decision :: "string \<Rightarrow> worker_pool \<Rightarrow> scaling" where
  "scale_decision tool s =
     (let total = length (pool_of tool s); ratio = (of_nat (busy_count tool s) / of_nat total :: rat)
      in if total = 0 then Keep
         else if ratio \<ge> wp_up s \<and> total < wp_max_workers s then Add_worker
         else if ratio \<le> wp_down s \<and> total > wp_min_workers s then Remove_worker
         else Keep)"

definition idle_worker :: "string \<Rightarrow> worker_pool \<Rightarrow> nat option" where
  "idle_worker tool s =
     first_least (\<lambda>r. wk_created_at (wp_store s ! r))
       (filter (\<lambda>r. wk_status (wp_store s ! r) = W_available \<and> wk_tasks (wp_store s ! r) > 0) (pool_of tool s))"

text \<open>The end of \<open>_remove_idle_worker\<close>, once the container is gone; nothing where the worker has left the list.\<close>

definition remove_finish :: "string \<Rightarrow> nat \<Rightarrow> worker_pool \<Rightarrow> worker_pool" where
  "remove_finish tool r s =
     (if r \<in> set (pool_of tool s)
      then (let i = wk_id (wp_store s ! r)
            in s\<lparr>wp_pools := dict_mod tool (remove1 r) (wp_pools s), wp_status := dict_pop i (wp_status s),
                 wp_queues := remove1 i (wp_queues s)\<rparr>)
      else s)"

section \<open>Statistics and shutdown\<close>

definition get_tool_load :: "string \<Rightarrow> worker_pool \<Rightarrow> rat" where
  "get_tool_load tool s =
     (if pool_of tool s = [] then 0 else of_nat (busy_count tool s) / of_nat (length (pool_of tool s)))"

definition get_worker_stats :: "string \<Rightarrow> worker_pool \<Rightarrow> worker option" where
  "get_worker_stats wid s = map_option (\<lambda>r. wp_store s ! r) (dict_get (wp_status s) wid)"

text \<open>The number of tasks and their average time are missing for a tool without workers.\<close>

record worker_pool_stats =
  wps_total :: nat
  wps_available :: nat
  wps_busy :: nat
  wps_unhealthy :: nat
  wps_work :: "(nat \<times> rat) option"

definition worker_pool_stats_of :: "string \<Rightarrow> worker_pool \<Rightarrow> worker_pool_stats" where
  "worker_pool_stats_of tool s =
     (let ws = map (\<lambda>r. wp_store s ! r) (pool_of tool s);
          n = \<lambda>st. length (filter (\<lambda>w. wk_status w = st) ws);
          tasks = sum_list (map wk_tasks ws)
      in \<lparr>wps_total = length ws, wps_available = n W_available, wps_busy = n W_busy, wps_unhealthy = n W_unhealthy,
          wps_work = (if ws = [] then None
            else Some (tasks, if tasks > 0 then sum_list (map wk_time ws) / of_nat tasks else 0))\<rparr>)"

definition cleanup_all :: "worker_pool \<Rightarrow> worker_pool" where
  "cleanup_all s = s\<lparr>wp_pools := [], wp_status := [], wp_queues := [], wp_recovery := []\<rparr>"

section \<open>Runs\<close>

datatype pool_event =
    Ensure string
  | Created string string string
  | Begin pyval string
  | Again pyval string
  | Succeeded nat pydict
  | Failed nat
  | Due nat
  | Verdict nat bool
  | Recovered nat string string
  | Removed string nat
  | Cleanup

fun pool_exec :: "pool_event \<times> time \<Rightarrow> worker_pool \<Rightarrow> worker_pool" where
  "pool_exec (Ensure tool, now) s = ensure_pool tool s"
| "pool_exec (Created tool wid cid, now) s = (case register_worker tool wid cid now s of Inl _ \<Rightarrow> s | Inr (_, s') \<Rightarrow> s')"
| "pool_exec (Begin eid tool, now) s = snd (begin_execute eid tool s)"
| "pool_exec (Again eid tool, now) s = snd (acquire False eid tool s)"
| "pool_exec (Succeeded r result, now) s = task_done result r s"
| "pool_exec (Failed r, now) s = task_failed r s"
| "pool_exec (Due r, now) s = (if r < length (wp_store s) then snd (health_due now r s) else s)"
| "pool_exec (Verdict r ok, now) s = (if r < length (wp_store s) then snd (health_verdict ok now r s) else s)"
| "pool_exec (Recovered r wid cid, now) s = (if r < length (wp_store s) then recover_finish r wid cid now s else s)"
| "pool_exec (Removed tool r, now) s = remove_finish tool r s"
| "pool_exec (Cleanup, now) s = cleanup_all s"

text \<open>Every execution has an id.\<close>

fun identified :: "pool_event \<Rightarrow> bool" where
  "identified (Begin eid tool) = truthy eid"
| "identified (Again eid tool) = truthy eid"
| "identified _ = True"

section \<open>Exclusive use\<close>

definition in_use :: "worker \<Rightarrow> bool" where
  "in_use w \<longleftrightarrow> wk_status w \<noteq> W_available \<and> truthy (wk_current w)"

definition pools_ok :: "worker_pool \<Rightarrow> bool" where
  "pools_ok s \<longleftrightarrow> (\<forall>tool. set (pool_of tool s) \<subseteq> {..<length (wp_store s)})"

definition exclusive :: "worker_pool \<Rightarrow> bool" where
  "exclusive s \<longleftrightarrow> distinct (wp_running s) \<and> list_all (\<lambda>r. r < length (wp_store s) \<and> in_use (wp_store s ! r)) (wp_running s)"

text \<open>A change of the store that leaves workers in use as they are in that respect.\<close>

definition keeps_use :: "worker_pool \<Rightarrow> worker_pool \<Rightarrow> bool" where
  "keeps_use s s' \<longleftrightarrow> wp_running s' = wp_running s \<and> length (wp_store s) \<le> length (wp_store s')
     \<and> (\<forall>r < length (wp_store s). in_use (wp_store s ! r) \<longrightarrow>
         in_use (wp_store s' ! r) \<and> (wk_status (wp_store s ! r) = W_unhealthy \<longrightarrow> wk_status (wp_store s' ! r) = W_unhealthy))"

lemma keeps_use_refl [simp]: "keeps_use s s"
  by (simp add: keeps_use_def)

lemma keeps_exclusive: "exclusive s \<Longrightarrow> keeps_use s s' \<Longrightarrow> exclusive s'"
  by (auto simp: exclusive_def keeps_use_def list_all_iff)

lemma on_worker_simps [simp]:
  "wp_running (on_worker r f s) = wp_running s" "wp_pools (on_worker r f s) = wp_pools s"
  "length (wp_store (on_worker r f s)) = length (wp_store s)"
  by (simp_all add: on_worker_def)

lemma on_worker_nth:
  "k < length (wp_store s) \<Longrightarrow> wp_store (on_worker r f s) ! k = (if k = r then f (wp_store s ! k) else wp_store s ! k)"
  by (cases "k = r") (simp_all add: on_worker_def)

lemma on_worker_keeps:
  assumes "in_use (wp_store s ! r) \<Longrightarrow> in_use (f (wp_store s ! r)) \<and> (wk_status (wp_store s ! r) = W_unhealthy \<longrightarrow> wk_status (f (wp_store s ! r)) = W_unhealthy)"
  shows "keeps_use s (on_worker r f s)"
  using assms by (auto simp: keeps_use_def on_worker_nth)

lemma store_keeps: "wp_store s' = wp_store s \<Longrightarrow> wp_running s' = wp_running s \<Longrightarrow> keeps_use s s'"
  by (simp add: keeps_use_def)

lemma keeps_use_trans: "keeps_use s s' \<Longrightarrow> keeps_use s' s'' \<Longrightarrow> keeps_use s s''"
  by (auto simp: keeps_use_def)

lemma register_keeps: "register_worker tool wid cid now s = Inr (n, s') \<Longrightarrow> keeps_use s s'"
  by (auto simp: register_worker_def keeps_use_def Let_def nth_append split: if_splits)

lemma due_keeps: "keeps_use s (snd (health_due now r s))"
  by (auto simp: health_due_def Let_def in_use_def intro: on_worker_keeps)

lemma recover_begin_keeps: "keeps_use s (snd (recover_begin r s))"
  by (auto simp: recover_begin_def Let_def in_use_def intro: on_worker_keeps store_keeps)

lemma verdict_keeps: "keeps_use s (snd (health_verdict ok now r s))"
proof (cases ok)
  case False
  have "keeps_use s (on_worker r (\<lambda>w. w\<lparr>wk_status := W_unhealthy, wk_health_check := now\<rparr>) s)"
    by (rule on_worker_keeps) (simp add: in_use_def)
  with recover_begin_keeps show ?thesis using False by (auto simp: health_verdict_def intro: keeps_use_trans)
next
  case True
  have "keeps_use s ((on_worker r (\<lambda>w. w\<lparr>wk_status := W_available, wk_health_check := now\<rparr>) s)\<lparr>wp_recovery := x\<rparr>)"
    if "\<not> truthy (wk_current (wp_store s ! r))" for x
    using that by (intro keeps_use_trans [OF on_worker_keeps store_keeps]) (auto simp: in_use_def)
  with True show ?thesis by (auto simp: health_verdict_def Let_def in_use_def intro: on_worker_keeps)
qed

lemma recover_finish_keeps: "keeps_use s (recover_finish r wid cid now s)"
proof (cases "register_worker (wk_tool (wp_store s ! r)) wid cid now s")
  case (Inr x)
  obtain n s1 where x: "x = (n, s1)" by fastforce
  with Inr have "keeps_use s s1" by (auto intro: register_keeps)
  moreover have "keeps_use s1 (s1\<lparr>wp_pools := p\<rparr>)" for p by (rule store_keeps) simp_all
  ultimately show ?thesis using Inr x
    by (auto simp: recover_finish_def Let_def split: option.split intro: keeps_use_trans)
qed (simp add: recover_finish_def)

lemma first_least_in: "first_least f xs = Some x \<Longrightarrow> x \<in> set xs"
  by (induction xs arbitrary: x) (auto split: option.splits if_splits)

text \<open>The events other than the start and the end of a task.\<close>

fun other_event :: "pool_event \<Rightarrow> bool" where
  "other_event (Begin _ _) = False"
| "other_event (Again _ _) = False"
| "other_event (Succeeded _ _) = False"
| "other_event (Failed _) = False"
| "other_event _ = True"

lemma other_keeps: "other_event x \<Longrightarrow> keeps_use s (pool_exec (x, now) s)"
  by (cases x)
    (auto simp: ensure_pool_def remove_finish_def cleanup_all_def Let_def due_keeps verdict_keeps recover_finish_keeps
      split: sum.split intro: store_keeps register_keeps)

lemma pools_ok_get: "pools_ok s \<Longrightarrow> r \<in> set (pool_of tool s) \<Longrightarrow> r < length (wp_store s)"
  by (auto simp: pools_ok_def)

lemma pools_ok_mono:
  assumes "pools_ok s" and "length (wp_store s) \<le> length (wp_store s')"
    and "\<And>tool. set (pool_of tool s') \<subseteq> set (pool_of tool s) \<union> {length (wp_store s)..<length (wp_store s')}"
  shows "pools_ok s'"
  using assms by (fastforce simp: pools_ok_def)

lemma pools_ok_same: "pools_ok s \<Longrightarrow> length (wp_store s') = length (wp_store s) \<Longrightarrow> wp_pools s' = wp_pools s \<Longrightarrow> pools_ok s'"
  by (simp add: pools_ok_def pool_of_def)

lemma pool_of_simps [simp]: "pool_of tool (on_worker r f s) = pool_of tool s"
  by (simp add: pool_of_def)

lemma pool_of_mod:
  "pool_of t (s\<lparr>wp_pools := dict_mod tool f (wp_pools s)\<rparr>) =
     (if t = tool \<and> dict_has (wp_pools s) tool then f (pool_of t s) else pool_of t s)"
  by (auto simp: pool_of_def dict_get_or_def dict_has_def split: option.split)

lemma register_pools:
  assumes "register_worker tool wid cid now s = Inr (n, s')"
  shows "n = length (wp_store s) \<and> length (wp_store s') = Suc n
    \<and> (\<forall>t. pool_of t s' = pool_of t s @ (if t = tool then [n] else []))"
  using assms
  by (auto simp: register_worker_def Let_def pool_of_def dict_get_or_def dict_has_def split: if_splits option.split)

lemma register_pools_ok:
  assumes "pools_ok s" and r: "register_worker tool wid cid now s = Inr (n, s')"
  shows "pools_ok s'"
  using assms(1) register_pools [OF r] by (intro pools_ok_mono [OF assms(1)]) auto

lemma recover_finish_pools:
  assumes "pools_ok s"
  shows "pools_ok (recover_finish r wid cid now s)"
proof (cases "register_worker (wk_tool (wp_store s ! r)) wid cid now s")
  case (Inr x)
  obtain n s1 where x: "x = (n, s1)" by fastforce
  let ?tool = "wk_tool (wp_store s ! r)"
  have r: "register_worker ?tool wid cid now s = Inr (n, s1)" using Inr x by simp
  have ok1: "pools_ok s1" using assms r by (rule register_pools_ok)
  have "pools_ok (s1\<lparr>wp_pools := dict_mod ?tool (\<lambda>p. p[i := n]) (wp_pools s1)\<rparr>)" for i
  proof -
    have n: "n < length (wp_store s1)" using register_pools [OF r] by simp
    have "set ((pool_of t s1)[i := n]) \<subseteq> {..<length (wp_store s1)}" for t
      using ok1 n set_update_subset_insert [of "pool_of t s1" i n] unfolding pools_ok_def
      by (meson insert_subset lessThan_iff subset_trans)
    then show ?thesis using ok1 by (simp add: pools_ok_def pool_of_mod)
  qed
  with register_pools_ok [OF assms r] r show ?thesis
    by (auto simp: recover_finish_def Let_def split: option.split)
qed (use assms in \<open>simp add: recover_finish_def\<close>)

lemma remove_finish_pools:
  assumes "pools_ok s"
  shows "pools_ok (remove_finish tool r s)"
proof -
  have "pool_of t (remove_finish tool r s) \<in> {pool_of t s, remove1 r (pool_of t s)}" for t
    by (simp add: remove_finish_def Let_def pool_of_def dict_get_or_def split: option.split)
  moreover have "wp_store (remove_finish tool r s) = wp_store s" by (simp add: remove_finish_def Let_def)
  ultimately show ?thesis
    using assms set_remove1_subset unfolding pools_ok_def by (metis insert_iff singletonD subset_trans)
qed

lemma snd_acquire_pools: "wp_pools (snd (acquire b eid tool s)) = wp_pools s"
  "length (wp_store (snd (acquire b eid tool s))) = length (wp_store s)"
  by (simp_all add: acquire_def take_worker_def split: option.split)

lemma finish_pools: "wp_pools (finish f r s) = wp_pools s" "length (wp_store (finish f r s)) = length (wp_store s)"
  by (simp_all add: finish_def)

lemma health_pools:
  "wp_pools (snd (health_due now r s)) = wp_pools s" "length (wp_store (snd (health_due now r s))) = length (wp_store s)"
  "wp_pools (snd (health_verdict ok now r s)) = wp_pools s" "length (wp_store (snd (health_verdict ok now r s))) = length (wp_store s)"
  by (simp_all add: health_due_def health_verdict_def recover_begin_def Let_def)

lemma pool_exec_pools:
  assumes "pools_ok s"
  shows "pools_ok (pool_exec (x, now) s)"
proof (cases x)
  case (Ensure tool)
  have "pool_of t (ensure_pool tool s) = pool_of t s" for t
    by (simp add: ensure_pool_def pool_of_def dict_get_or_def dict_has_def)
  with assms show ?thesis by (simp add: Ensure pools_ok_def ensure_pool_def)
next
  case (Created tool wid cid)
  with assms register_pools_ok [of s tool wid cid now] show ?thesis by (auto split: sum.split)
next
  case Cleanup
  show ?thesis by (simp add: Cleanup cleanup_all_def pools_ok_def pool_of_def dict_get_or_def)
next
  case (Recovered r wid cid)
  with assms show ?thesis by (simp add: recover_finish_pools)
next
  case (Removed tool r)
  with assms show ?thesis by (simp add: remove_finish_pools)
qed (rule pools_ok_same [OF assms]; simp add: begin_execute_def task_done_def task_failed_def snd_acquire_pools finish_pools
    health_pools)+

text \<open>Taking and giving back a worker.\<close>

lemma acquire_cases:
  assumes "acquire b eid tool s = (x, s')"
  shows "s' = s \<or> (\<exists>r. x = Run_on r \<and> s' = take_worker eid r s \<and> r \<in> set (pool_of tool s) \<and> wk_status (wp_store s ! r) = W_available)"
  using assms
  by (auto simp: acquire_def get_available_worker_def split: option.splits if_splits dest!: first_least_in)

lemma take_exclusive:
  assumes "exclusive s" and "r < length (wp_store s)" and "wk_status (wp_store s ! r) = W_available" and "truthy eid"
  shows "exclusive (take_worker eid r s)"
  using assms by (auto simp: exclusive_def take_worker_def list_all_iff in_use_def on_worker_nth)

lemma finish_exclusive: "exclusive s \<Longrightarrow> exclusive (finish f r s)"
  by (auto simp: exclusive_def finish_def list_all_iff on_worker_nth)

lemma exclusive_exec:
  assumes "exclusive s" and "pools_ok s" and "identified x"
  shows "exclusive (pool_exec (x, now) s)"
proof -
  have acq: "exclusive (snd (acquire b eid tool s))" if "truthy eid" for b eid tool
  proof -
    obtain y s' where y: "acquire b eid tool s = (y, s')" by fastforce
    from acquire_cases [OF y] take_exclusive [OF assms(1) _ _ that] pools_ok_get [OF assms(2)] assms(1) y
    show ?thesis by auto
  qed
  show ?thesis
  proof (cases "other_event x")
    case True
    with assms(1) other_keeps show ?thesis by (blast intro: keeps_exclusive)
  next
    case False
    with acq assms(1,3) show ?thesis
      by (cases x) (auto simp: begin_execute_def task_done_def task_failed_def finish_exclusive)
  qed
qed


definition ex_events :: "(pool_event \<times> time) list" where
  "ex_events = [(Ensure ''nmap'', 0), (Created ''nmap'' ''w1'' ''c1'', 0), (Begin (PStr ''e1'') ''nmap'', 1),
     (Begin (PStr ''e2'') ''nmap'', 2), (Created ''nmap'' ''w2'' ''c2'', 3), (Again (PStr ''e2'') ''nmap'', 3)]"


section \<open>A failed worker never comes back\<close>

definition retired :: "nat \<Rightarrow> worker_pool \<Rightarrow> bool" where
  "retired r s \<longleftrightarrow> r < length (wp_store s) \<and> r \<notin> set (wp_running s) \<and> wk_status (wp_store s ! r) = W_unhealthy
     \<and> truthy (wk_current (wp_store s ! r))"

lemma keeps_retired: "retired r s \<Longrightarrow> keeps_use s s' \<Longrightarrow> retired r s'"
  by (auto simp: retired_def keeps_use_def in_use_def)

lemma retired_exec:
  assumes "retired r s"
  shows "retired r (pool_exec (x, now) s)"
proof -
  have acq: "retired r (snd (acquire b eid tool s))" for b eid tool
  proof -
    obtain y s' where y: "acquire b eid tool s = (y, s')" by fastforce
    from acquire_cases [OF y] assms y show ?thesis
      by (auto simp: retired_def take_worker_def on_worker_nth)
  qed
  have "retired r (finish f r' s)" for f r'
    using assms by (auto simp: retired_def finish_def on_worker_nth)
  note fin = this
  show ?thesis
  proof (cases "other_event x")
    case True
    with assms other_keeps show ?thesis by (blast intro: keeps_retired)
  next
    case False
    with acq fin assms show ?thesis by (cases x) (auto simp: begin_execute_def task_done_def task_failed_def)
  qed
qed

text \<open>
  A worker whose task has failed stays out of use for good: whatever checks, recoveries and
  tasks follow, it is never available again, since its task is never cleared and a health check
  resets only workers without one.
\<close>
theorem failed_worker_never_available:
  assumes "exclusive s" and "r \<in> set (wp_running s)"
  shows "wk_status (wp_store (fold pool_exec xs (task_failed r s)) ! r) = W_unhealthy"
proof -
  have "retired r (task_failed r s)"
    using assms
    by (auto simp: retired_def task_failed_def finish_def on_worker_nth fail_def release_def exclusive_def list_all_iff in_use_def)
  then have "retired r (fold pool_exec xs (task_failed r s))"
  proof (induction xs arbitrary: s)
    case (Cons x xs)
    have "retired r (fold pool_exec xs t)" if "retired r t" for t
      using that by (induction xs arbitrary: t) (auto intro: retired_exec simp: split_paired_all)
    moreover have "retired r (pool_exec x (task_failed r s))" using Cons.prems by (metis retired_exec surj_pair)
    ultimately show ?case by simp
  qed simp
  then show ?thesis by (simp add: retired_def)
qed

theorem failed_worker_never_available_witness:
  "wk_status (wp_store (fold pool_exec [(Due 0, 99 * second), (Verdict 0 True, 99 * second)]
     (task_failed 0 (fold pool_exec ex_events new_worker_pool))) ! 0) = W_unhealthy"
proof (rule failed_worker_never_available)
  show "exclusive (fold pool_exec ex_events new_worker_pool)" by code_simp
  show "0 \<in> set (wp_running (fold pool_exec ex_events new_worker_pool))" by code_simp
qed

section \<open>Races\<close>

text \<open>
  A recovery registers the new worker and then puts it in the place of the old one, so the pool
  lists it twice; two executions that find no worker both scale up, past the maximum; and a worker
  taken while its container is being stopped is removed under its task.
\<close>

definition recovery_run :: "(pool_event \<times> time) list" where
  "recovery_run = [(Ensure ''nmap'', 0), (Created ''nmap'' ''w1'' ''c1'', 0), (Due 0, 99 * second), (Verdict 0 False, 99 * second),
     (Recovered 0 ''w2'' ''c2'', 101 * second)]"

lemma recovery_duplicates_worker:
  "pool_of ''nmap'' (fold pool_exec recovery_run new_worker_pool) = [1, 1]"
  by code_simp

definition scale_run :: "(pool_event \<times> time) list" where
  "scale_run = [(Ensure ''nmap'', 0), (Created ''nmap'' ''w1'' ''c1'', 0), (Begin (PStr ''e1'') ''nmap'', 1),
     (Begin (PStr ''e2'') ''nmap'', 2), (Begin (PStr ''e3'') ''nmap'', 2), (Created ''nmap'' ''w2'' ''c2'', 3), (Created ''nmap'' ''w3'' ''c3'', 3)]"

lemma scaling_exceeds_maximum:
  "let s = fold pool_exec scale_run new_worker_pool in length (pool_of ''nmap'' s) = 3 \<and> wp_max_workers s = 2"
  by code_simp

definition removal_run :: "(pool_event \<times> time) list" where
  "removal_run = [(Ensure ''nmap'', 0), (Created ''nmap'' ''w1'' ''c1'', 0), (Created ''nmap'' ''w2'' ''c2'', 0),
     (Begin (PStr ''e1'') ''nmap'', 1), (Succeeded 0 [], 2)]"

lemma busy_worker_removed:
  "let s = fold pool_exec removal_run new_worker_pool;
       s' = fold pool_exec [(Begin (PStr ''e2'') ''nmap'', 3), (Begin (PStr ''e3'') ''nmap'', 3), (Removed ''nmap'' 0, 4)] s
   in scale_decision ''nmap'' s = Remove_worker \<and> idle_worker ''nmap'' s = Some 0
      \<and> 0 \<in> set (wp_running s') \<and> pool_of ''nmap'' s' = [1]"
  by code_simp

end
