(* ===== verification/ToolRegistry.thy ===== *)
theory ToolRegistry
  imports Branching
begin

text \<open>
  \<open>src/tools/tool_registry.py\<close>: tool definitions and their indexes by capability and version. A
  definition is a dictionary with the keys of the built-in ones; the record has a field for each
  key the code reads, \<open>None\<close> where the key is missing.
\<close>

section \<open>State\<close>

text \<open>What a parameter maps to: nothing, an option, or several words.\<close>

datatype arg_mapping = Positional | Flag string | Flags "string list"

record tool =
  tl_name :: string
  tl_version :: "string option"
  tl_versions :: "string list"
  tl_default_version :: "string option"
  tl_capabilities :: "string list"
  tl_image :: "string option"
  tl_command :: "string option"
  tl_base_command :: "string list"
  tl_param_mapping :: "(string, arg_mapping) dict"
  tl_resources :: pydict
  tl_default_timeout :: "int option"
  tl_cacheable :: "bool option"
  tl_cache_ttl :: "int option"

record tool_registry =
  tr_tools :: "(string, tool) dict"
  tr_capabilities :: "(string, string list) dict"
  tr_versions :: "(string, (string, string list) dict) dict"

section \<open>Registration\<close>

definition index_name :: "string \<Rightarrow> string \<Rightarrow> (string, string list) dict \<Rightarrow> (string, string list) dict" where
  "index_name name c m = dict_set c (dict_get_or m c [] @ [name]) m"

definition index_version :: "tool \<Rightarrow> string \<Rightarrow> (string, (string, string list) dict) dict \<Rightarrow> (string, (string, string list) dict) dict" where
  "index_version t v m = dict_set v (fold (index_name (tl_name t)) (tl_capabilities t) (dict_get_or m v [])) m"

definition register_tool :: "tool \<Rightarrow> tool_registry \<Rightarrow> tool_registry" where
  "register_tool t s =
     s\<lparr>tr_tools := dict_set (tl_name t) t (tr_tools s),
       tr_capabilities := fold (index_name (tl_name t)) (tl_capabilities t) (tr_capabilities s),
       tr_versions := fold (index_version t) (tl_versions t) (tr_versions s)\<rparr>"

definition resources :: "string \<Rightarrow> string \<Rightarrow> string \<Rightarrow> pydict" where
  "resources cpu memory disk = [(''cpu'', PStr cpu), (''memory'', PStr memory), (''disk'', PStr disk)]"

definition nmap_tool :: tool where
  "nmap_tool =
     \<lparr>tl_name = ''nmap'', tl_version = None, tl_versions = [''7.94'', ''7.93'', ''7.80''], tl_default_version = Some ''7.94'',
      tl_capabilities = [''port_scan'', ''service_detection'', ''os_detection''], tl_image = Some ''eso-worker-nmap:latest'',
      tl_command = Some ''nmap'', tl_base_command = [],
      tl_param_mapping = [(''target'', Positional), (''ports'', Flag ''-p''), (''scan_type'', Flag ''-s''), (''timing'', Flag ''-T''),
        (''output_format'', Flag ''-oX'')],
      tl_resources = resources ''0.5'' ''512Mi'' ''100Mi'', tl_default_timeout = Some 600, tl_cacheable = Some True,
      tl_cache_ttl = Some 300\<rparr>"

definition nuclei_tool :: tool where
  "nuclei_tool =
     \<lparr>tl_name = ''nuclei'', tl_version = None, tl_versions = [''3.1.0'', ''3.0.0''], tl_default_version = Some ''3.1.0'',
      tl_capabilities = [''vulnerability_scan'', ''template_based''], tl_image = Some ''eso-worker-nuclei:latest'',
      tl_command = Some ''nuclei'', tl_base_command = [],
      tl_param_mapping = [(''target'', Flag ''-u''), (''templates'', Flag ''-t''), (''severity'', Flag ''-severity''),
        (''rate_limit'', Flag ''-rl'')],
      tl_resources = resources ''1.0'' ''1Gi'' ''500Mi'', tl_default_timeout = Some 1200, tl_cacheable = Some True,
      tl_cache_ttl = Some 600\<rparr>"

definition sqlmap_tool :: tool where
  "sqlmap_tool =
     \<lparr>tl_name = ''sqlmap'', tl_version = None, tl_versions = [''1.7'', ''1.6''], tl_default_version = Some ''1.7'',
      tl_capabilities = [''sql_injection'', ''database_exploit''], tl_image = Some ''eso-worker-sqlmap:latest'',
      tl_command = Some ''sqlmap'', tl_base_command = [''--batch''],
      tl_param_mapping = [(''url'', Flag ''-u''), (''data'', Flag ''--data''), (''method'', Flag ''--method''), (''level'', Flag ''--level''),
        (''risk'', Flag ''--risk''), (''threads'', Flag ''--threads'')],
      tl_resources = resources ''1.0'' ''2Gi'' ''1Gi'', tl_default_timeout = Some 1800, tl_cacheable = Some False,
      tl_cache_ttl = None\<rparr>"

definition gobuster_tool :: tool where
  "gobuster_tool =
     \<lparr>tl_name = ''gobuster'', tl_version = None, tl_versions = [''3.6'', ''3.5''], tl_default_version = Some ''3.6'',
      tl_capabilities = [''directory_bruteforce'', ''dns_enumeration''], tl_image = Some ''eso-worker-gobuster:latest'',
      tl_command = Some ''gobuster'', tl_base_command = [],
      tl_param_mapping = [(''mode'', Positional), (''url'', Flag ''-u''), (''wordlist'', Flag ''-w''), (''threads'', Flag ''-t''),
        (''extensions'', Flag ''-x'')],
      tl_resources = resources ''0.5'' ''512Mi'' ''200Mi'', tl_default_timeout = Some 900, tl_cacheable = Some True,
      tl_cache_ttl = Some 3600\<rparr>"

definition new_tool_registry :: tool_registry where
  "new_tool_registry =
     fold register_tool [nmap_tool, nuclei_tool, sqlmap_tool, gobuster_tool]
       \<lparr>tr_tools = [], tr_capabilities = [], tr_versions = []\<rparr>"

section \<open>Lookup\<close>

text \<open>Every tenant has access to every tool.\<close>

definition tenant_has_access :: "string \<Rightarrow> string \<Rightarrow> bool" where
  "tenant_has_access tenant name = True"

definition find_tools_by_capability :: "string \<Rightarrow> string option \<Rightarrow> string option \<Rightarrow> tool_registry \<Rightarrow> tool list" where
  "find_tools_by_capability c tenant version s =
     (let names = (case version of
            None \<Rightarrow> dict_get_or (tr_capabilities s) c []
          | Some v \<Rightarrow> (case dict_get (tr_versions s) v of
                Some m \<Rightarrow> if v = [] then dict_get_or (tr_capabilities s) c [] else dict_get_or m c []
              | None \<Rightarrow> dict_get_or (tr_capabilities s) c []));
          access = \<lambda>n. (case tenant of None \<Rightarrow> True | Some i \<Rightarrow> i = [] \<or> tenant_has_access i n)
      in List.map_filter (\<lambda>n. if access n then dict_get (tr_tools s) n else None) names)"

definition before_colon :: "string \<Rightarrow> string" where
  "before_colon s = takeWhile (\<lambda>c. c \<noteq> CHR '':'') s"

definition get_tool :: "string \<Rightarrow> string option \<Rightarrow> tool_registry \<Rightarrow> tool option" where
  "get_tool name version s =
     (case dict_get (tr_tools s) name of
        None \<Rightarrow> None
      | Some t \<Rightarrow> (case version of
            None \<Rightarrow> Some t
          | Some v \<Rightarrow> if v = [] \<or> Some v = tl_default_version t then Some t
                     else Some (t\<lparr>tl_version := Some v,
                            tl_image := map_option (\<lambda>i. before_colon i @ '':'' @ v) (tl_image t)\<rparr>)))"

definition get_tool_versions :: "string \<Rightarrow> tool_registry \<Rightarrow> string list" where
  "get_tool_versions name s = (case dict_get (tr_tools s) name of None \<Rightarrow> [] | Some t \<Rightarrow> tl_versions t)"

section \<open>Resources\<close>

definition resource_units :: "(string \<times> rat) list" where
  "resource_units = [(''Ki'', 1024), (''Mi'', 1024 ^ 2), (''Gi'', 1024 ^ 3), (''Ti'', 1024 ^ 4), (''m'', 1 / 1000)]"

fun times_float :: "rat \<Rightarrow> pyfloat \<Rightarrow> pyfloat" where
  "times_float m (Fin r) = Fin (r * m)"
| "times_float m x = x"

definition parse_resource_value :: "string \<Rightarrow> exn + pyfloat" where
  "parse_resource_value v =
     (let parse = \<lambda>t m. (case float_of_str t of None \<Rightarrow> Inl (ValueErr t) | Some x \<Rightarrow> Inr (times_float m x))
      in case find (\<lambda>(u, _). suffix u v) resource_units of
           Some (u, m) \<Rightarrow> parse (take (length v - length u) v) m
         | None \<Rightarrow> parse v 1)"

definition float_le :: "pyfloat \<Rightarrow> pyfloat \<Rightarrow> bool" where
  "float_le a b \<longleftrightarrow> float_lt a b \<or> a = b \<and> a \<noteq> NaN"

definition needs_at_most :: "string \<Rightarrow> rat \<Rightarrow> tool \<Rightarrow> exn + bool" where
  "needs_at_most ty limit t =
     (case dict_get_or (tl_resources t) ty (PInt 0) of
        PStr v \<Rightarrow> rbind (parse_resource_value v) (\<lambda>x. Inr (float_le x (Fin limit)))
      | v \<Rightarrow> (case num_val v of None \<Rightarrow> Inl TypeErr | Some r \<Rightarrow> Inr (r \<le> limit)))"

fun filter_e :: "('a \<Rightarrow> exn + bool) \<Rightarrow> 'a list \<Rightarrow> exn + 'a list" where
  "filter_e f [] = Inr []"
| "filter_e f (x # xs) = rbind (f x) (\<lambda>b. rbind (filter_e f xs) (\<lambda>ys. Inr (if b then x # ys else ys)))"

definition get_tools_by_resource :: "string \<Rightarrow> rat \<Rightarrow> tool_registry \<Rightarrow> exn + tool list" where
  "get_tools_by_resource ty limit s = filter_e (needs_at_most ty limit) (dict_values (tr_tools s))"

section \<open>What the capability index holds\<close>

text \<open>The names registered with a capability, in the order of the registrations.\<close>

definition registered_for :: "string \<Rightarrow> tool list \<Rightarrow> string list" where
  "registered_for c ts = concat (map (\<lambda>t. map (\<lambda>_. tl_name t) (filter (\<lambda>c'. c' = c) (tl_capabilities t))) ts)"

lemma index_names_get:
  "dict_get_or (fold (index_name n) cs m) c [] = dict_get_or m c [] @ map (\<lambda>_. n) (filter (\<lambda>c'. c' = c) cs)"
proof (induction cs arbitrary: m)
  case (Cons a cs)
  have "dict_get_or (index_name n a m) c [] = dict_get_or m c [] @ (if a = c then [n] else [])"
    by (simp add: index_name_def dict_get_or_def)
  with Cons show ?case by simp
qed simp

lemma register_all:
  "dict_get_or (tr_capabilities (fold register_tool ts s)) c [] = dict_get_or (tr_capabilities s) c [] @ registered_for c ts"
  "dict_get (tr_tools (fold register_tool ts s)) n =
     (case find (\<lambda>t. tl_name t = n) (rev ts) of Some t \<Rightarrow> Some t | None \<Rightarrow> dict_get (tr_tools s) n)"
proof -
  show "dict_get_or (tr_capabilities (fold register_tool ts s)) c [] = dict_get_or (tr_capabilities s) c [] @ registered_for c ts"
    by (induction ts arbitrary: s) (simp_all add: register_tool_def index_names_get registered_for_def)
  show "dict_get (tr_tools (fold register_tool ts s)) n =
     (case find (\<lambda>t. tl_name t = n) (rev ts) of Some t \<Rightarrow> Some t | None \<Rightarrow> dict_get (tr_tools s) n)"
  proof (induction ts arbitrary: s)
    case (Cons t ts)
    have "find P (xs @ ys) = (case find P xs of Some x \<Rightarrow> Some x | None \<Rightarrow> find P ys)" for P and xs ys :: "tool list"
      by (induction xs) auto
    with Cons show ?case by (auto simp: register_tool_def split: option.split)
  qed simp
qed

definition empty_registry :: tool_registry where
  "empty_registry = \<lparr>tr_tools = [], tr_capabilities = [], tr_versions = []\<rparr>"

text \<open>
  Looking tools up by capability gives, for every registration with that capability in order, the
  newest definition under the registered name: nothing unregistered, but a tool registered twice
  appears twice, and one that has lost the capability still appears.
\<close>
theorem capability_lookup:
  "find_tools_by_capability c tenant None (fold register_tool ts empty_registry) =
     map (\<lambda>n. the (find (\<lambda>t. tl_name t = n) (rev ts))) (registered_for c ts)"
proof -
  have found: "\<exists>t. find (\<lambda>t. tl_name t = n) (rev ts) = Some t" if "n \<in> set (registered_for c ts)" for n
  proof -
    from that obtain t where "t \<in> set ts" "tl_name t = n" by (auto simp: registered_for_def)
    then have "find (\<lambda>t. tl_name t = n) (rev ts) \<noteq> None" by (auto simp: find_None_iff)
    then show ?thesis by blast
  qed
  have all_some: "List.map_filter f ns = map g ns" if "\<forall>n \<in> set ns. f n = Some (g n)" for f :: "string \<Rightarrow> tool option" and g ns
    using that by (induction ns) (auto simp: map_filter_simps)
  have "List.map_filter (dict_get (tr_tools (fold register_tool ts empty_registry))) (registered_for c ts) =
      map (\<lambda>n. the (find (\<lambda>t. tl_name t = n) (rev ts))) (registered_for c ts)"
    by (rule all_some) (auto simp: register_all dest!: found)
  moreover have "dict_get_or (tr_capabilities (fold register_tool ts empty_registry)) c [] = registered_for c ts"
    by (simp add: register_all) (simp add: empty_registry_def dict_get_or_def)
  ultimately show ?thesis
    by (cases tenant) (simp_all add: find_tools_by_capability_def tenant_has_access_def)
qed

lemma reregistered_twice:
  "map tl_name (find_tools_by_capability ''port_scan'' None None (register_tool nmap_tool new_tool_registry)) = [''nmap'', ''nmap'']"
  by code_simp

end
