(* ===== verification/ToolCosts.thy ===== *)
theory ToolCosts
  imports Exceptions Calendar
begin

text \<open>
  \<open>src/tools/cost_tracker.py\<close>: estimates, usage records, budgets and reports of tool runs. A usage list
  belongs to the key \<open>tenant:user\<close>; the sums find their lists by searching in the keys.
\<close>

section \<open>State\<close>

record usage_record =
  ur_timestamp :: time
  ur_user :: string
  ur_tenant :: string
  ur_tool :: string
  ur_duration :: rat
  ur_cost :: rat
  ur_execution :: string

record tool_budget =
  tb_entity_type :: string
  tb_entity_id :: string
  tb_limit :: rat
  tb_period :: string
  tb_start :: time
  tb_alerts :: "rat list"

record cost_tracker =
  ct_budgets :: "(string, tool_budget) dict"
  ct_usage :: "(string, usage_record list) dict"
  ct_rates :: "(string, rat) dict"

definition new_cost_tracker :: cost_tracker where
  "new_cost_tracker = \<lparr>ct_budgets = [], ct_usage = [],
     ct_rates = [(''nmap'', 1 / 100), (''nuclei'', 2 / 100), (''sqlmap'', 5 / 100), (''gobuster'', 1 / 100)]\<rparr>"

definition rate_of :: "cost_tracker \<Rightarrow> string \<Rightarrow> rat" where
  "rate_of s tool = dict_get_or (ct_rates s) tool (1 / 100)"

section \<open>Estimates\<close>

definition count_commas :: "pyval \<Rightarrow> exn + rat" where
  "count_commas v =
     (case v of
        PStr t \<Rightarrow> Inr (of_nat (count_list t CHR '',''))
      | PList xs \<Rightarrow> Inr (of_nat (length (filter (\<lambda>x. py_eq x (PStr '','')) xs)))
      | _ \<Rightarrow> Inl (AttributeErr ''count''))"

definition py_len :: "pyval \<Rightarrow> exn + rat" where
  "py_len v =
     (case v of
        PStr t \<Rightarrow> Inr (of_nat (length t)) | PList xs \<Rightarrow> Inr (of_nat (length xs)) | PDict d \<Rightarrow> Inr (of_nat (length d))
      | _ \<Rightarrow> Inl TypeErr)"

definition number :: "pyval \<Rightarrow> exn + rat" where
  "number v = (case num_val v of None \<Rightarrow> Inl TypeErr | Some r \<Rightarrow> Inr r)"

definition estimate_duration :: "string \<Rightarrow> pydict \<Rightarrow> exn + rat" where
  "estimate_duration tool p =
     (let scaled = \<lambda>least factor v. rbind v (\<lambda>x. Inr (max least (x * factor)))
      in if tool = ''nmap'' then scaled 1 (1 / 10) (count_commas (dict_get_or p ''ports'' (PStr ''1000'')))
         else if tool = ''nuclei'' then scaled 2 (1 / 2) (py_len (dict_get_or p ''templates'' (PList [])))
         else if tool = ''sqlmap'' then scaled 5 2 (number (dict_get_or p ''level'' (PInt 1)))
         else if tool = ''gobuster'' then scaled 1 (1 / 10) (number (dict_get_or p ''threads'' (PInt 10)))
         else Inr 1)"

definition get_cost_modifiers :: "pydict \<Rightarrow> rat" where
  "get_cost_modifiers p =
     (let level = \<lambda>k one_half double.
        (let v = dict_get_or p k (PStr ''normal'')
         in if py_eq v (PStr one_half) then 3 / 2 else if py_eq v (PStr double) then 2 else 1)
      in level ''priority'' ''high'' ''critical'' * level ''scope'' ''deep'' ''full'')"

definition round4 :: "rat \<Rightarrow> rat" where
  "round4 r = of_int (round_half_even (r * 10000)) / 10000"

definition estimate_cost :: "cost_tracker \<Rightarrow> string \<Rightarrow> pydict \<Rightarrow> exn + rat" where
  "estimate_cost s tool p =
     rbind (estimate_duration tool p) (\<lambda>m. Inr (round4 (rate_of s tool * m * get_cost_modifiers p)))"

section \<open>Usage\<close>

definition get_period_cutoff :: "string \<Rightarrow> time \<Rightarrow> time" where
  "get_period_cutoff period now =
     (if period = ''daily'' then start_of_day now
      else if period = ''weekly'' then now - weekday now * day
      else if period = ''monthly'' then start_of_month now
      else if period = ''yearly'' then start_of_year now
      else now - 30 * day)"

definition cost_since :: "time \<Rightarrow> usage_record list \<Rightarrow> rat" where
  "cost_since cutoff rs = sum_list (map ur_cost (filter (\<lambda>r. cutoff \<le> ur_timestamp r) rs))"

definition usage_where :: "(string \<Rightarrow> bool) \<Rightarrow> time \<Rightarrow> cost_tracker \<Rightarrow> rat" where
  "usage_where P cutoff s = sum_list (map (\<lambda>(k, rs). cost_since cutoff rs) (filter (\<lambda>(k, _). P k) (ct_usage s)))"

definition get_user_usage :: "string \<Rightarrow> string \<Rightarrow> time \<Rightarrow> cost_tracker \<Rightarrow> rat" where
  "get_user_usage user period now s = usage_where (\<lambda>k. sublist user k) (get_period_cutoff period now) s"

definition get_tenant_usage :: "string \<Rightarrow> string \<Rightarrow> time \<Rightarrow> cost_tracker \<Rightarrow> rat" where
  "get_tenant_usage tenant period now s = usage_where (\<lambda>k. prefix tenant k) (get_period_cutoff period now) s"

section \<open>Budgets\<close>

definition budget_key :: "string \<Rightarrow> string \<Rightarrow> string" where
  "budget_key ty i = ty @ '':'' @ i"

definition set_budget :: "string \<Rightarrow> string \<Rightarrow> rat \<Rightarrow> string \<Rightarrow> time \<Rightarrow> cost_tracker \<Rightarrow> cost_tracker" where
  "set_budget ty i l period now s =
     s\<lparr>ct_budgets := dict_set (budget_key ty i)
        \<lparr>tb_entity_type = ty, tb_entity_id = i, tb_limit = l, tb_period = period, tb_start = now, tb_alerts = []\<rparr>
        (ct_budgets s)\<rparr>"

definition admits :: "string \<Rightarrow> rat \<Rightarrow> rat \<Rightarrow> cost_tracker \<Rightarrow> bool" where
  "admits key used estimate s =
     (case dict_get (ct_budgets s) key of None \<Rightarrow> True | Some b \<Rightarrow> \<not> used + estimate > tb_limit b)"

definition check_budget :: "string \<Rightarrow> string \<Rightarrow> rat \<Rightarrow> time \<Rightarrow> cost_tracker \<Rightarrow> bool" where
  "check_budget user tenant estimate now s \<longleftrightarrow>
     admits (budget_key ''user'' user) (get_user_usage user ''monthly'' now s) estimate s
     \<and> admits (budget_key ''tenant'' tenant) (get_tenant_usage tenant ''monthly'' now s) estimate s"

definition thresholds :: "rat list" where
  "thresholds = [1 / 2, 8 / 10, 9 / 10, 95 / 100, 1]"

text \<open>A threshold that is reached and not yet alerted is remembered; the alert itself is a log line.\<close>

definition alert_budget :: "rat \<Rightarrow> tool_budget \<Rightarrow> tool_budget" where
  "alert_budget used b =
     (let share = (if tb_limit b > 0 then used / tb_limit b else 0)
      in fold (\<lambda>t b. if share \<ge> t \<and> t \<notin> set (tb_alerts b) then b\<lparr>tb_alerts := tb_alerts b @ [t]\<rparr> else b) thresholds b)"

definition alert_entity :: "string \<Rightarrow> (string \<Rightarrow> rat) \<Rightarrow> cost_tracker \<Rightarrow> cost_tracker" where
  "alert_entity key used s = s\<lparr>ct_budgets := dict_mod key (\<lambda>b. alert_budget (used (tb_period b)) b) (ct_budgets s)\<rparr>"

definition check_budget_thresholds :: "string \<Rightarrow> string \<Rightarrow> time \<Rightarrow> cost_tracker \<Rightarrow> cost_tracker" where
  "check_budget_thresholds user tenant now s =
     (let s1 = alert_entity (budget_key ''user'' user) (\<lambda>period. get_user_usage user period now s) s
      in alert_entity (budget_key ''tenant'' tenant) (\<lambda>period. get_tenant_usage tenant period now s1) s1)"

definition usage_key :: "string \<Rightarrow> string \<Rightarrow> string" where
  "usage_key tenant user = tenant @ '':'' @ user"

definition track_usage :: "string \<Rightarrow> string \<Rightarrow> string \<Rightarrow> rat \<Rightarrow> string \<Rightarrow> time \<Rightarrow> cost_tracker \<Rightarrow> cost_tracker" where
  "track_usage user tenant tool duration eid now s =
     (let r = \<lparr>ur_timestamp = now, ur_user = user, ur_tenant = tenant, ur_tool = tool, ur_duration = duration,
               ur_cost = rate_of s tool * (duration / 60), ur_execution = eid\<rparr>;
          k = usage_key tenant user
      in check_budget_thresholds user tenant now
           (s\<lparr>ct_usage := dict_set k (append_capped 10000 r (dict_get_or (ct_usage s) k [])) (ct_usage s)\<rparr>))"

section \<open>Reports\<close>

record usage_report =
  rp_tenant :: string
  rp_start :: time
  rp_end :: time
  rp_total :: rat
  rp_by_tool :: "(string, rat) dict"
  rp_by_user :: "(string, rat) dict"
  rp_executions :: nat

definition add_to :: "string \<Rightarrow> rat \<Rightarrow> (string, rat) dict \<Rightarrow> (string, rat) dict" where
  "add_to k x m = dict_set k (dict_get_or m k 0 + x) m"

definition report_record :: "usage_record \<Rightarrow> usage_report \<Rightarrow> usage_report" where
  "report_record r rep =
     (if rp_start rep \<le> ur_timestamp r \<and> ur_timestamp r \<le> rp_end rep
      then rep\<lparr>rp_total := rp_total rep + ur_cost r, rp_executions := rp_executions rep + 1,
               rp_by_tool := add_to (ur_tool r) (ur_cost r) (rp_by_tool rep),
               rp_by_user := add_to (ur_user r) (ur_cost r) (rp_by_user rep)\<rparr>
      else rep)"

definition get_usage_report :: "string \<Rightarrow> time \<Rightarrow> time \<Rightarrow> cost_tracker \<Rightarrow> usage_report" where
  "get_usage_report tenant start_time end_time s =
     fold (\<lambda>(k, rs) rep. if prefix tenant k then fold report_record rs rep else rep) (ct_usage s)
       \<lparr>rp_tenant = tenant, rp_start = start_time, rp_end = end_time, rp_total = 0, rp_by_tool = [], rp_by_user = [],
        rp_executions = 0\<rparr>"

section \<open>Reports add up\<close>

definition total_of :: "(string, rat) dict \<Rightarrow> rat" where
  "total_of m = sum_list (map snd m)"

lemma total_of_set: "dict_ok m \<Longrightarrow> total_of (dict_set k x m) = total_of m - dict_get_or m k 0 + x"
proof (induction m)
  case Nil
  then show ?case by (simp add: total_of_def dict_set_def dict_get_or_def)
next
  case (Cons y m)
  obtain k' v where y: "y = (k', v)" by fastforce
  have "dict_set k x (y # m) = (if k' = k then (k, x) # m else y # dict_set k x m)"
    by (simp add: y dict_set_def)
  moreover have "dict_ok m" "k' \<notin> set (dict_keys m)" using Cons.prems by (auto simp: y dict_ok_def dict_keys_def)
  ultimately show ?case using Cons.IH by (auto simp: y total_of_def dict_get_or_def dict_get_Cons)
qed

lemma total_of_add: "dict_ok m \<Longrightarrow> total_of (add_to k x m) = total_of m + x"
  by (simp add: add_to_def total_of_set)

definition adds_up :: "usage_report \<Rightarrow> bool" where
  "adds_up rep \<longleftrightarrow> dict_ok (rp_by_tool rep) \<and> dict_ok (rp_by_user rep)
     \<and> total_of (rp_by_tool rep) = rp_total rep \<and> total_of (rp_by_user rep) = rp_total rep"

definition cost_between :: "time \<Rightarrow> time \<Rightarrow> usage_record list \<Rightarrow> rat" where
  "cost_between t0 t1 rs = sum_list (map ur_cost (filter (\<lambda>r. t0 \<le> ur_timestamp r \<and> ur_timestamp r \<le> t1) rs))"

lemma report_records:
  assumes "adds_up rep"
  shows "let rep' = fold report_record rs rep in adds_up rep' \<and> rp_start rep' = rp_start rep \<and> rp_end rep' = rp_end rep
    \<and> rp_total rep' = rp_total rep + cost_between (rp_start rep) (rp_end rep) rs"
  using assms
proof (induction rs arbitrary: rep)
  case (Cons r rs)
  have "adds_up (report_record r rep)"
    using Cons.prems by (simp add: adds_up_def report_record_def total_of_add) (simp add: add_to_def)
  from Cons.IH [OF this] show ?case by (auto simp: Let_def report_record_def cost_between_def)
qed (simp add: cost_between_def)

text \<open>
  A usage report adds up: its total is the cost of the records of the period in every list whose
  key begins with the tenant, and the amounts per tool and per user both sum to that total.
\<close>
theorem report_adds_up:
  "let rep = get_usage_report tenant t0 t1 s
   in rp_total rep = sum_list (map (\<lambda>(k, rs). cost_between t0 t1 rs) (filter (\<lambda>(k, _). prefix tenant k) (ct_usage s)))
      \<and> total_of (rp_by_tool rep) = rp_total rep \<and> total_of (rp_by_user rep) = rp_total rep"
proof -
  have "let rep' = fold (\<lambda>(k, rs) rep. if prefix tenant k then fold report_record rs rep else rep) u rep
      in adds_up rep' \<and> rp_total rep' = rp_total rep
        + sum_list (map (\<lambda>(k, rs). cost_between (rp_start rep) (rp_end rep) rs) (filter (\<lambda>(k, _). prefix tenant k) u))"
    if "adds_up rep" for u rep
    using that
  proof (induction u arbitrary: rep)
    case (Cons x u)
    obtain k rs where x: "x = (k, rs)" by fastforce
    from report_records [OF Cons.prems, of rs] Cons.IH [of "fold report_record rs rep"] Cons.IH [OF Cons.prems]
    show ?case by (auto simp: x Let_def)
  qed simp
  from this [of "\<lparr>rp_tenant = tenant, rp_start = t0, rp_end = t1, rp_total = 0, rp_by_tool = [], rp_by_user = [],
      rp_executions = 0\<rparr>" "ct_usage s"]
  show ?thesis by (simp add: get_usage_report_def adds_up_def total_of_def Let_def)
qed

section \<open>Budgets are never undercounted\<close>

datatype cost_op = Usage string string string rat string | Budget string string rat string

fun cost_exec :: "cost_op \<times> time \<Rightarrow> cost_tracker \<Rightarrow> cost_tracker" where
  "cost_exec (Usage u t tool d e, now) s = track_usage u t tool d e now s"
| "cost_exec (Budget ty i l p, now) s = set_budget ty i l p now s"

fun positive_duration :: "cost_op \<Rightarrow> bool" where
  "positive_duration (Usage u t tool d e) = (0 \<le> d)"
| "positive_duration _ = True"

definition own_usage :: "string \<Rightarrow> time \<Rightarrow> cost_tracker \<Rightarrow> rat" where
  "own_usage user cutoff s =
     sum_list (map (\<lambda>(k, rs). cost_since cutoff (filter (\<lambda>r. ur_user r = user) rs)) (ct_usage s))"

definition costs_ok :: "cost_tracker \<Rightarrow> bool" where
  "costs_ok s \<longleftrightarrow> dict_all (\<lambda>k rs. list_all (\<lambda>r. k = usage_key (ur_tenant r) (ur_user r) \<and> 0 \<le> ur_cost r) rs) (ct_usage s)
     \<and> dict_all (\<lambda>_ r. 0 \<le> r) (ct_rates s)"

lemma rate_nonneg: "costs_ok s \<Longrightarrow> 0 \<le> rate_of s tool"
  by (auto simp: costs_ok_def rate_of_def dict_get_or_def dict_all_def split: option.split dest!: dict_get_in)

lemma alert_usage [simp]:
  "ct_usage (check_budget_thresholds u t now s) = ct_usage s" "ct_rates (check_budget_thresholds u t now s) = ct_rates s"
  by (simp_all add: check_budget_thresholds_def alert_entity_def Let_def)

lemma cost_exec_ok:
  assumes "costs_ok s" and "positive_duration x"
  shows "costs_ok (cost_exec (x, now) s)"
proof (cases x)
  case (Usage u t tool d e)
  let ?k = "usage_key t u"
  have "list_all (\<lambda>r. ?k = usage_key (ur_tenant r) (ur_user r) \<and> 0 \<le> ur_cost r) (dict_get_or (ct_usage s) ?k [])"
    using assms(1) by (auto simp: costs_ok_def dict_get_or_def split: option.split dest: dict_allD)
  then have *: "list_all (\<lambda>r. ?k = usage_key (ur_tenant r) (ur_user r) \<and> 0 \<le> ur_cost r)
      (append_capped 10000 y (dict_get_or (ct_usage s) ?k []))" if "ur_tenant y = t" "ur_user y = u" "0 \<le> ur_cost y" for y
    using that set_mono_suffix [OF suffix_last_n] by (fastforce simp: append_capped_eq list_all_iff)
  show ?thesis
    using assms rate_nonneg [OF assms(1)]
    by (auto simp: Usage track_usage_def costs_ok_def Let_def intro!: dict_all_set * split: option.split)
qed (use assms in \<open>simp_all add: costs_ok_def set_budget_def\<close>)

lemma user_in_key: "sublist u (usage_key t u)"
  unfolding usage_key_def sublist_def by (intro exI [of _ "t @ '':''"] exI [of _ "[]"]) simp

lemma own_le_user_usage:
  assumes "costs_ok s"
  shows "own_usage user (get_period_cutoff p now) s \<le> get_user_usage user p now s"
proof -
  let ?c = "get_period_cutoff p now"
  have rs: "cost_since ?c (filter (\<lambda>r. ur_user r = user) rs) \<le> cost_since ?c rs"
    if "list_all (\<lambda>r. 0 \<le> ur_cost r) rs" for rs
    using that by (induction rs) (auto simp: cost_since_def)
  have none: "cost_since ?c (filter (\<lambda>r. ur_user r = user) rs) = 0"
    if "list_all (\<lambda>r. k = usage_key (ur_tenant r) (ur_user r)) rs" "\<not> sublist user k" for k rs
  proof -
    have "filter (\<lambda>r. ur_user r = user) rs = []"
      using that user_in_key by (auto simp: filter_empty_conv list_all_iff)
    then show ?thesis by (simp add: cost_since_def)
  qed
  have "sum_list (map (\<lambda>(k, rs). cost_since ?c (filter (\<lambda>r. ur_user r = user) rs)) m)
      \<le> sum_list (map (\<lambda>(k, rs). cost_since ?c rs) (filter (\<lambda>(k, _). sublist user k) m))"
    if "dict_all (\<lambda>k rs. list_all (\<lambda>r. k = usage_key (ur_tenant r) (ur_user r) \<and> 0 \<le> ur_cost r) rs) m" for m
    using that
  proof (induction m)
    case (Cons x m)
    obtain k rs where x: "x = (k, rs)" by fastforce
    from Cons.prems have "list_all (\<lambda>r. k = usage_key (ur_tenant r) (ur_user r)) rs" "list_all (\<lambda>r. 0 \<le> ur_cost r) rs"
      by (auto simp: x dict_all_def list_all_iff)
    with rs [of rs] none [of k rs] Cons show ?case by (auto simp: x dict_all_def)
  qed simp
  with assms show ?thesis by (simp add: own_usage_def get_user_usage_def usage_where_def costs_ok_def)
qed

text \<open>
  A budget is never undercounted: after any uses of non-negative duration, an execution that
  passes the check keeps what the user is recorded to have spent this month, with its estimate,
  within the user's limit. (The sum may count too much: it searches the user's id in the keys.)
\<close>
theorem budget_never_undercounted:
  assumes "list_all (positive_duration \<circ> fst) xs" and "s = fold cost_exec xs new_cost_tracker"
    and "check_budget user tenant estimate now s" and "dict_get (ct_budgets s) (budget_key ''user'' user) = Some b"
  shows "own_usage user (start_of_month now) s + estimate \<le> tb_limit b"
proof -
  have "costs_ok (fold cost_exec xs t)" if "costs_ok t" for t
    using assms(1) that
  proof (induction xs arbitrary: t)
    case (Cons x xs)
    obtain y u where "x = (y, u)" by fastforce
    with Cons cost_exec_ok show ?case by simp
  qed simp
  moreover have "costs_ok new_cost_tracker" by (simp add: costs_ok_def new_cost_tracker_def dict_all_def)
  ultimately have "costs_ok s" using assms(2) by simp
  from own_le_user_usage [OF this, of user "''monthly''" now] assms(3,4) show ?thesis
    by (simp add: check_budget_def admits_def get_period_cutoff_def)
qed

definition ex_costs :: "(cost_op \<times> time) list" where
  "ex_costs = [(Budget ''user'' ''ann'' 5 ''monthly'', 0), (Usage ''ann'' ''acme'' ''nmap'' 600 ''e1'', 10)]"

theorem budget_never_undercounted_witness:
  "own_usage ''ann'' (start_of_month 20) (fold cost_exec ex_costs new_cost_tracker) + 1 \<le> 5"
proof -
  let ?s = "fold cost_exec ex_costs new_cost_tracker"
  have "list_all (positive_duration \<circ> fst) ex_costs" "check_budget ''ann'' ''acme'' 1 20 ?s"
    by code_simp+
  moreover have "map_option tb_limit (dict_get (ct_budgets ?s) (budget_key ''user'' ''ann'')) = Some 5" by code_simp
  ultimately show ?thesis using budget_never_undercounted [of ex_costs ?s "''ann''" "''acme''" 1 20] by auto
qed

text \<open>The usage of one user counts against another whose id is part of the key.\<close>

lemma usage_of_others_counts:
  "get_user_usage ''ann'' ''monthly'' 20 (fold cost_exec [(Usage ''joanna'' ''acme'' ''nmap'' 600 ''e1'', 10)] new_cost_tracker) = 1 / 10
   \<and> own_usage ''ann'' (start_of_month 20) (fold cost_exec [(Usage ''joanna'' ''acme'' ''nmap'' 600 ''e1'', 10)] new_cost_tracker) = 0"
  by code_simp

end
