(* ===== verification/ToolCache.thy ===== *)
theory ToolCache
  imports Exceptions Calendar
begin

text \<open>
  \<open>src/tools/tool_cache.py\<close>: a local dictionary in front of Redis. Redis, where it is connected, is
  a map from keys to the stored value and its expiry, an entry being invisible from its expiry
  on, and a map from tags to sets of keys with an expiry; a stored text that is no JSON is \<open>None\<close>.
  An expiry that is not positive makes \<open>setex\<close> raise.
\<close>

section \<open>State\<close>

record cache_entry =
  ce_value :: pydict
  ce_expires_at :: time

record redis_cache =
  rc_values :: "(string, pydict option \<times> time) dict"
  rc_tags :: "(string, string list \<times> time) dict"

record cache_stats =
  cs_hits :: nat
  cs_misses :: nat
  cs_sets :: nat
  cs_invalidations :: nat

record tool_cache =
  tc_redis :: "redis_cache option"
  tc_local :: "(string, cache_entry) dict"
  tc_stats :: cache_stats

definition new_tool_cache :: "bool \<Rightarrow> tool_cache" where
  "new_tool_cache online =
     \<lparr>tc_redis = (if online then Some \<lparr>rc_values = [], rc_tags = []\<rparr> else None), tc_local = [],
      tc_stats = \<lparr>cs_hits = 0, cs_misses = 0, cs_sets = 0, cs_invalidations = 0\<rparr>\<rparr>"

section \<open>Redis\<close>

definition redis_get :: "time \<Rightarrow> string \<Rightarrow> redis_cache \<Rightarrow> pydict option option" where
  "redis_get now k c =
     (case dict_get (rc_values c) k of None \<Rightarrow> None | Some (v, e) \<Rightarrow> if now < e then Some v else None)"

definition live_keys :: "time \<Rightarrow> string \<Rightarrow> redis_cache \<Rightarrow> string list" where
  "live_keys now tag c =
     (case dict_get (rc_tags c) tag of None \<Rightarrow> [] | Some (ks, e) \<Rightarrow> if now < e then ks else [])"

text \<open>\<open>sadd\<close> and then \<open>expire\<close>, which replaces the expiry of the whole set.\<close>

definition add_tag :: "time \<Rightarrow> string \<Rightarrow> int \<Rightarrow> string \<Rightarrow> redis_cache \<Rightarrow> redis_cache" where
  "add_tag now k ttl tag c =
     c\<lparr>rc_tags := dict_set tag (List.insert k (live_keys now tag c), now + ttl * second) (rc_tags c)\<rparr>"

section \<open>Operations\<close>

definition count_hit :: "tool_cache \<Rightarrow> tool_cache" where
  "count_hit s = s\<lparr>tc_stats := (tc_stats s)\<lparr>cs_hits := cs_hits (tc_stats s) + 1\<rparr>\<rparr>"

definition count_miss :: "tool_cache \<Rightarrow> tool_cache" where
  "count_miss s = s\<lparr>tc_stats := (tc_stats s)\<lparr>cs_misses := cs_misses (tc_stats s) + 1\<rparr>\<rparr>"

definition local_get :: "time \<Rightarrow> string \<Rightarrow> tool_cache \<Rightarrow> pydict option" where
  "local_get now k s =
     (case dict_get (tc_local s) k of None \<Rightarrow> None
      | Some e \<Rightarrow> if now < ce_expires_at e then Some (ce_value e) else None)"

definition keep_local :: "string \<Rightarrow> pydict \<Rightarrow> time \<Rightarrow> tool_cache \<Rightarrow> tool_cache" where
  "keep_local k v e s = s\<lparr>tc_local := dict_set k \<lparr>ce_value = v, ce_expires_at = e\<rparr> (tc_local s)\<rparr>"

definition cache_get :: "string \<Rightarrow> time \<Rightarrow> tool_cache \<Rightarrow> pydict option \<times> tool_cache" where
  "cache_get k now s =
     (case local_get now k s of
        Some v \<Rightarrow> (Some v, count_hit s)
      | None \<Rightarrow>
        (let s1 = s\<lparr>tc_local := dict_pop k (tc_local s)\<rparr>
         in case Option.bind (tc_redis s) (redis_get now k) of
              Some (Some v) \<Rightarrow> (Some v, keep_local k v (now + 60 * second) (count_hit s1))
            | _ \<Rightarrow> (None, count_miss s1)))"

definition cache_set :: "string \<Rightarrow> pydict \<Rightarrow> int \<Rightarrow> string list \<Rightarrow> time \<Rightarrow> tool_cache \<Rightarrow> exn + tool_cache" where
  "cache_set k v ttl tags now s =
     (let finish = \<lambda>r. (keep_local k v (now + min ttl 60 * second) (s\<lparr>tc_redis := r\<rparr>))
            \<lparr>tc_stats := (tc_stats s)\<lparr>cs_sets := cs_sets (tc_stats s) + 1\<rparr>\<rparr>
      in case tc_redis s of
           None \<Rightarrow> Inr (finish None)
         | Some c \<Rightarrow>
             if ttl \<le> 0 then Inl (py_exn PyException ''invalid expire time in setex'')
             else Inr (finish (Some (fold (add_tag now k ttl) tags
                    (c\<lparr>rc_values := dict_set k (Some v, now + ttl * second) (rc_values c)\<rparr>)))))"

definition count_invalidations :: "nat \<Rightarrow> tool_cache \<Rightarrow> tool_cache" where
  "count_invalidations n s = s\<lparr>tc_stats := (tc_stats s)\<lparr>cs_invalidations := cs_invalidations (tc_stats s) + n\<rparr>\<rparr>"

definition invalidate :: "string \<Rightarrow> tool_cache \<Rightarrow> tool_cache" where
  "invalidate k s =
     count_invalidations 1 (s\<lparr>tc_redis := map_option (\<lambda>c. c\<lparr>rc_values := dict_pop k (rc_values c)\<rparr>) (tc_redis s),
       tc_local := dict_pop k (tc_local s)\<rparr>)"

definition invalidate_by_tag :: "string \<Rightarrow> time \<Rightarrow> tool_cache \<Rightarrow> tool_cache" where
  "invalidate_by_tag tag now s =
     (case tc_redis s of
        None \<Rightarrow> s
      | Some c \<Rightarrow>
        (let ks = live_keys now tag c
         in if ks = [] then s
            else count_invalidations (length ks)
              (s\<lparr>tc_redis := Some (c\<lparr>rc_values := fold dict_pop ks (rc_values c), rc_tags := dict_pop tag (rc_tags c)\<rparr>),
                 tc_local := fold dict_pop ks (tc_local s)\<rparr>)))"

text \<open>A value that is an empty dictionary is computed again. \<open>later\<close> is the time after the computation.\<close>

definition get_or_compute ::
    "string \<Rightarrow> exn + pydict \<Rightarrow> int \<Rightarrow> string list \<Rightarrow> time \<Rightarrow> time \<Rightarrow> tool_cache \<Rightarrow> exn + (pydict \<times> tool_cache)" where
  "get_or_compute k compute ttl tags now later s =
     (case cache_get k now s of
        (Some v, s1) \<Rightarrow> if v \<noteq> [] then Inr (v, s1)
          else rbind compute (\<lambda>v. rbind (cache_set k v ttl tags later s1) (\<lambda>s2. Inr (v, s2)))
      | (None, s1) \<Rightarrow> rbind compute (\<lambda>v. rbind (cache_set k v ttl tags later s1) (\<lambda>s2. Inr (v, s2))))"

text \<open>\<open>flushdb\<close> empties the whole database.\<close>

definition clear :: "tool_cache \<Rightarrow> tool_cache" where
  "clear s = s\<lparr>tc_redis := map_option (\<lambda>_. \<lparr>rc_values = [], rc_tags = []\<rparr>) (tc_redis s), tc_local := []\<rparr>"

definition hit_rate :: "tool_cache \<Rightarrow> rat" where
  "hit_rate s =
     (let h = cs_hits (tc_stats s); n = h + cs_misses (tc_stats s)
      in if n > 0 then of_nat h / of_nat n * 100 else 0)"

definition get_stats :: "tool_cache \<Rightarrow> cache_stats \<times> rat \<times> nat" where
  "get_stats s = (tc_stats s, hit_rate s, length (tc_local s))"

section \<open>What a hit means\<close>

datatype cache_op = Get string | Put string pydict int "string list" | Invalidate string | Invalidate_tag string | Clear

fun cache_exec :: "cache_op \<times> time \<Rightarrow> tool_cache \<Rightarrow> tool_cache" where
  "cache_exec (Get k, now) s = snd (cache_get k now s)"
| "cache_exec (Put k v ttl tags, now) s = (case cache_set k v ttl tags now s of Inl _ \<Rightarrow> s | Inr s' \<Rightarrow> s')"
| "cache_exec (Invalidate k, now) s = invalidate k s"
| "cache_exec (Invalidate_tag tag, now) s = invalidate_by_tag tag now s"
| "cache_exec (Clear, now) s = clear s"

text \<open>
  The specification: the value last put for a key, with its time and lifetime, unless it has been
  invalidated or cleared since.
\<close>

fun last_put :: "bool \<Rightarrow> string \<Rightarrow> cache_op \<times> time \<Rightarrow> (pydict \<times> time \<times> int) option \<Rightarrow> (pydict \<times> time \<times> int) option" where
  "last_put redis k (Put k' v ttl tags, now) p = (if k' = k \<and> (redis \<longrightarrow> 0 < ttl) then Some (v, now, ttl) else p)"
| "last_put redis k (Invalidate k', now) p = (if k' = k then None else p)"
| "last_put redis k (Clear, now) p = None"
| "last_put redis k _ p = p"

text \<open>
  Every stored copy is the last value put: the one in Redis for its lifetime, the local one for at
  most a minute longer.
\<close>

definition copies_ok :: "string \<Rightarrow> (pydict \<times> time \<times> int) option \<Rightarrow> tool_cache \<Rightarrow> bool" where
  "copies_ok k p s \<longleftrightarrow>
     (case dict_get (tc_local s) k of None \<Rightarrow> True
      | Some e \<Rightarrow> (case p of None \<Rightarrow> False
          | Some (v, t, ttl) \<Rightarrow> ce_value e = v \<and> ce_expires_at e \<le> t + (ttl + 60) * second))
     \<and> (case tc_redis s of None \<Rightarrow> True
        | Some c \<Rightarrow> (case dict_get (rc_values c) k of None \<Rightarrow> True
            | Some (v', e) \<Rightarrow> (case p of None \<Rightarrow> False | Some (v, t, ttl) \<Rightarrow> v' = Some v \<and> e = t + ttl * second)))"

lemma add_tag_values [simp]: "rc_values (fold (add_tag now k ttl) tags c) = rc_values c"
  by (induction tags arbitrary: c) (simp_all add: add_tag_def)

lemma pops_get: "dict_get (fold dict_pop ks m) k = (if k \<in> set ks then None else dict_get m k)"
  by (induction ks arbitrary: m) auto

lemma redis_kept: "(tc_redis (cache_exec x s) = None) = (tc_redis s = None)"
  by (induction x s rule: cache_exec.induct)
    (auto simp: cache_get_def cache_set_def keep_local_def count_hit_def count_miss_def invalidate_def count_invalidations_def
      invalidate_by_tag_def clear_def Let_def split: option.split sum.split)

lemma copies_get: "copies_ok k p s \<Longrightarrow> copies_ok k p (snd (cache_get k' now s))"
  by (auto simp: copies_ok_def cache_get_def keep_local_def count_hit_def count_miss_def redis_get_def Let_def algebra_simps
      split: option.split_asm option.split prod.splits if_splits)

lemma copies_put:
  assumes "copies_ok k p s" and "cache_set k' v ttl tags now s = Inr s'"
  shows "copies_ok k (last_put (tc_redis s \<noteq> None) k (Put k' v ttl tags, now) p) s'"
  using assms
  by (auto simp: copies_ok_def cache_set_def keep_local_def Let_def algebra_simps second_def split: option.split_asm option.split if_splits)

lemma copies_exec:
  assumes "copies_ok k p s"
  shows "copies_ok k (last_put (tc_redis s \<noteq> None) k (op, now) p) (cache_exec (op, now) s)"
proof (cases op)
  case (Get k')
  with assms copies_get show ?thesis by simp
next
  case (Put k' v ttl tags)
  with assms copies_put [OF assms, of k' v ttl tags now] show ?thesis
    by (auto simp: cache_set_def Let_def split: option.splits sum.split)
next
  case (Invalidate k')
  with assms show ?thesis by (auto simp: copies_ok_def invalidate_def count_invalidations_def split: option.splits)
next
  case (Invalidate_tag tag)
  with assms show ?thesis
    by (auto simp: copies_ok_def invalidate_by_tag_def count_invalidations_def pops_get Let_def split: option.splits)
next
  case Clear
  then show ?thesis by (auto simp: copies_ok_def clear_def split: option.splits)
qed

lemma copies_run:
  "copies_ok k p s \<Longrightarrow> (tc_redis s \<noteq> None) = online \<Longrightarrow> copies_ok k (fold (last_put online k) xs p) (fold cache_exec xs s)"
proof (induction xs arbitrary: p s)
  case (Cons x xs)
  obtain op now where x: "x = (op, now)" by fastforce
  from copies_exec [OF Cons.prems(1), of op now] Cons.prems(2)
  have "copies_ok k (last_put online k x p) (cache_exec x s)" by (simp add: x)
  with Cons.IH [OF this] redis_kept [of x s] Cons.prems(2) show ?case by simp
qed simp

text \<open>
  A hit is the value last put for the key, never one that has been overwritten, invalidated or
  cleared, and it is at most a minute past its lifetime; with or without Redis.
\<close>
theorem cache_hit_is_last_put:
  assumes "fst (cache_get k now (fold cache_exec xs (new_tool_cache online))) = Some v"
  shows "\<exists>t ttl. fold (last_put online k) xs None = Some (v, t, ttl) \<and> now < t + (ttl + 60) * second"
proof -
  have "copies_ok k (fold (last_put online k) xs None) (fold cache_exec xs (new_tool_cache online))"
    by (rule copies_run) (simp_all add: copies_ok_def new_tool_cache_def)
  with assms show ?thesis
    by (auto simp: copies_ok_def cache_get_def local_get_def redis_get_def second_def Let_def
        split: option.splits if_splits bind_splits)
qed

theorem cache_hit_is_last_put_witness:
  "\<exists>t ttl. fold (last_put True ''k'') [(Put ''k'' [(''a'', PInt 1)] 90 [], 0), (Get ''k'', 70 * second)] None
     = Some ([(''a'', PInt 1)], t, ttl) \<and> 100 * second < t + (ttl + 60) * second"
  by (rule cache_hit_is_last_put) code_simp

text \<open>
  Each entry of a tag moves the expiry of the tag's whole set, so an entry with a short lifetime
  makes the others unreachable by their tag; and without Redis a tag invalidates nothing.
\<close>

definition short_tag :: "(cache_op \<times> time) list" where
  "short_tag = [(Put ''a'' [(''x'', PInt 1)] 300 [''t''], 0), (Put ''b'' [(''x'', PInt 2)] 10 [''t''], 0),
     (Invalidate_tag ''t'', 20 * second)]"

lemma tag_expires_early:
  "fst (cache_get ''a'' (21 * second) (fold cache_exec short_tag (new_tool_cache True))) = Some [(''x'', PInt 1)]"
  by code_simp

lemma tag_needs_redis:
  "invalidate_by_tag tag now (fold cache_exec xs (new_tool_cache False)) = fold cache_exec xs (new_tool_cache False)"
proof -
  have "tc_redis (fold cache_exec xs s) = None" if "tc_redis s = None" for s
    using that by (induction xs arbitrary: s) (simp_all add: redis_kept)
  then show ?thesis by (simp add: invalidate_by_tag_def new_tool_cache_def)
qed

end
