(* ===== verification/ToolRouter.thy ===== *)
theory ToolRouter
  imports ToolRegistry ToolCosts ToolCache
begin

text \<open>
  \<open>src/tools/tool_router.py\<close>: the selection and execution of a tool for a task, over the registry, the
  cache and the cost tracker. The oracle of a call gives what the outside contributes: the key
  (a hash of the task and the parameters), the random choice, the loads and results of the worker
  pool (the \<open>n\<close>th execution of the call gets the number \<open>n\<close>), the measured duration and the clock. The
  executions a call makes are returned with its result.
\<close>

section \<open>State\<close>

record tool_metrics =
  tm_executions :: nat
  tm_successes :: nat
  tm_failures :: nat
  tm_total_duration :: rat
  tm_avg_duration :: rat

record tool_router =
  ro_registry :: tool_registry
  ro_cache :: tool_cache
  ro_costs :: cost_tracker
  ro_metrics :: "(string, tool_metrics) dict"

text \<open>A word of the command line: a text, or \<open>str\<close> of a value.\<close>

datatype arg = Word string | Shown pyval

record tool_request =
  rq_tool :: string
  rq_version :: string
  rq_command :: "string option"
  rq_args :: "arg list"
  rq_timeout :: pyval
  rq_environment :: pydict

record route_oracle =
  or_key :: string
  or_pick :: "tool list \<Rightarrow> tool"
  or_load :: "string \<Rightarrow> rat"
  or_run :: "nat \<Rightarrow> tool_request \<Rightarrow> exn + pydict"
  or_duration :: rat
  or_now :: time

record caller =
  ca_user :: string
  ca_tenant :: string
  ca_execution :: string

section \<open>Selection\<close>

definition least_loaded_tool :: "(string \<Rightarrow> rat) \<Rightarrow> tool list \<Rightarrow> tool" where
  "least_loaded_tool loads ts = hd (filter (\<lambda>t. list_all (\<lambda>t'. loads (tl_name t) \<le> loads (tl_name t')) ts) ts)"

definition version_val :: "tool \<Rightarrow> pyval" where
  "version_val t = opt_val PStr (tl_version t)"

definition no_tool :: "string \<Rightarrow> exn" where
  "no_tool m = ToolExecutionError [Lit m] ''unknown'' None"

definition select_tool :: "route_oracle \<Rightarrow> tool list \<Rightarrow> pydict \<Rightarrow> exn + tool" where
  "select_tool orc ts params =
     (let ts' = (case dict_get params ''tool_version'' of None \<Rightarrow> ts | Some v \<Rightarrow> filter (\<lambda>t. py_eq (version_val t) v) ts);
          strategy = dict_get_or params ''load_balancing'' (PStr ''round_robin'')
      in if ts' = [] then Inl (no_tool ''No tools available after filtering'')
         else (case strategy of
                 PStr st \<Rightarrow> Inr (if st = ''least_loaded'' then least_loaded_tool (or_load orc) ts' else or_pick orc ts')
               | v \<Rightarrow> if hashable v then Inr (or_pick orc ts') else Inl TypeErr))"

section \<open>Execution\<close>

definition mapped_args :: "tool \<Rightarrow> string \<times> pyval \<Rightarrow> arg list" where
  "mapped_args t p =
     (case p of (name, v) \<Rightarrow>
        (let value = (if v = PBool True then [] else [Shown v])
         in case dict_get (tl_param_mapping t) name of
              None \<Rightarrow> []
            | Some Positional \<Rightarrow> []
            | Some (Flag f) \<Rightarrow> Word f # value
            | Some (Flags fs) \<Rightarrow> map Word fs @ value))"

definition prepare_tool_args :: "tool \<Rightarrow> pydict \<Rightarrow> exn + arg list" where
  "prepare_tool_args t params =
     (case dict_get_or params ''tool_args'' (PDict []) of
        PDict d \<Rightarrow> Inr (map Word (tl_base_command t) @ concat (map (mapped_args t) d))
      | _ \<Rightarrow> Inl (AttributeErr ''items''))"

definition tool_request_for :: "tool \<Rightarrow> pydict \<Rightarrow> caller \<Rightarrow> exn + tool_request" where
  "tool_request_for t params c =
     rbind (prepare_tool_args t params) (\<lambda>args.
       case dict_get_or params ''environment'' (PDict []) of
         PDict env \<Rightarrow> Inr \<lparr>rq_tool = tl_name t, rq_version = (case tl_version t of None \<Rightarrow> ''latest'' | Some v \<Rightarrow> v),
             rq_command = tl_command t, rq_args = args,
             rq_timeout = dict_get_or params ''timeout'' (PInt (case tl_default_timeout t of None \<Rightarrow> 300 | Some n \<Rightarrow> n)),
             rq_environment = fold (\<lambda>(k, v) e. dict_set k v e) env
               [(''ESO_USER_ID'', PStr (ca_user c)), (''ESO_TENANT_ID'', PStr (ca_tenant c)),
                (''ESO_EXECUTION_ID'', PStr (ca_execution c))]\<rparr>
       | _ \<Rightarrow> Inl TypeErr)"

text \<open>An execution: its result and the request, where one was made.\<close>

definition execute_tool :: "route_oracle \<Rightarrow> nat \<Rightarrow> tool \<Rightarrow> pydict \<Rightarrow> caller \<Rightarrow> (exn + pydict) \<times> tool_request list" where
  "execute_tool orc n t params c =
     (case tool_request_for t params c of
        Inl e \<Rightarrow> (Inl e, [])
      | Inr rq \<Rightarrow> (or_run orc n rq, [rq]))"

fun joined_errors :: "exn list \<Rightarrow> msg" where
  "joined_errors [] = []"
| "joined_errors [e] = ex_message e"
| "joined_errors (e # es) = ex_message e @ Lit ''; '' # joined_errors es"

fun execute_with_fallback ::
    "route_oracle \<Rightarrow> nat \<Rightarrow> exn list \<Rightarrow> tool list \<Rightarrow> pydict \<Rightarrow> caller \<Rightarrow> (exn + pydict) \<times> tool_request list" where
  "execute_with_fallback orc n errors [] params c =
     (Inl (ToolExecutionError (Lit ''All tools failed: '' # joined_errors errors) ''multiple'' None), [])"
| "execute_with_fallback orc n errors (t # ts) params c =
     (case execute_tool orc n t params c of
        (Inr r, rqs) \<Rightarrow> (Inr r, rqs)
      | (Inl e, rqs) \<Rightarrow> (case execute_with_fallback orc (n + length rqs) (errors @ [e]) ts params c of
            (res, rqs') \<Rightarrow> (res, rqs @ rqs')))"

definition update_metrics :: "string \<Rightarrow> rat \<Rightarrow> bool \<Rightarrow> tool_router \<Rightarrow> tool_router" where
  "update_metrics name duration ok s =
     (let m = dict_get_or (ro_metrics s) name
            \<lparr>tm_executions = 0, tm_successes = 0, tm_failures = 0, tm_total_duration = 0, tm_avg_duration = 0\<rparr>;
          m1 = m\<lparr>tm_executions := tm_executions m + 1\<rparr>;
          total = tm_total_duration m + duration;
          m2 = (if ok then m1\<lparr>tm_successes := tm_successes m + 1, tm_total_duration := total,
                            tm_avg_duration := total / of_nat (tm_successes m + 1)\<rparr>
                else m1\<lparr>tm_failures := tm_failures m + 1\<rparr>)
      in s\<lparr>ro_metrics := dict_set name m2 (ro_metrics s)\<rparr>)"

definition should_cache :: "tool \<Rightarrow> pydict \<Rightarrow> bool" where
  "should_cache t params \<longleftrightarrow>
     \<not> truthy (dict_get_or params ''no_cache'' (PBool False)) \<and> (case tl_cacheable t of None \<Rightarrow> True | Some b \<Rightarrow> b)"

text \<open>What follows a successful run, up to an exception of the cache.\<close>

definition after_success ::
    "route_oracle \<Rightarrow> tool \<Rightarrow> pydict \<Rightarrow> caller \<Rightarrow> pydict \<Rightarrow> tool_router \<Rightarrow> exn option \<times> tool_router" where
  "after_success orc t params c result s =
     (let s1 = s\<lparr>ro_costs := track_usage (ca_user c) (ca_tenant c) (tl_name t) (or_duration orc) (ca_execution c)
                 (or_now orc) (ro_costs s)\<rparr>;
          s2 = update_metrics (tl_name t) (or_duration orc) True s1
      in if should_cache t params
         then (case cache_set (or_key orc) result (case tl_cache_ttl t of None \<Rightarrow> 300 | Some n \<Rightarrow> n) [] (or_now orc) (ro_cache s2) of
                 Inl e \<Rightarrow> (Some e, s2)
               | Inr cache \<Rightarrow> (None, s2\<lparr>ro_cache := cache\<rparr>))
         else (None, s2))"

definition after_failure ::
    "route_oracle \<Rightarrow> exn \<Rightarrow> nat \<Rightarrow> tool \<Rightarrow> tool list \<Rightarrow> pydict \<Rightarrow> caller \<Rightarrow> tool_router
      \<Rightarrow> (exn + pydict) \<times> tool_request list \<times> tool_router" where
  "after_failure orc e n t ts params c s =
     (let s1 = update_metrics (tl_name t) 0 False s
      in if length ts > 1
         then (case execute_with_fallback orc n [e] (tl ts) params c of (res, rqs) \<Rightarrow> (res, rqs, s1))
         else (Inl (ToolExecutionError (Lit ''Tool execution failed: '' # ex_message e) (tl_name t) None), [], s1))"

definition run_selected ::
    "route_oracle \<Rightarrow> tool \<Rightarrow> tool list \<Rightarrow> pydict \<Rightarrow> caller \<Rightarrow> tool_router \<Rightarrow> (exn + pydict) \<times> tool_request list \<times> tool_router" where
  "run_selected orc t ts params c s =
     (case execute_tool orc 0 t params c of
        (Inl e, rqs) \<Rightarrow> (case after_failure orc e (length rqs) t ts params c s of (res, rqs', s') \<Rightarrow> (res, rqs @ rqs', s'))
      | (Inr result, rqs) \<Rightarrow> (case after_success orc t params c result s of
            (None, s1) \<Rightarrow> (Inr result, rqs, s1)
          | (Some e, s1) \<Rightarrow> (case after_failure orc e (length rqs) t ts params c s1 of (res, rqs', s') \<Rightarrow> (res, rqs @ rqs', s'))))"

definition select_and_run ::
    "route_oracle \<Rightarrow> tool list \<Rightarrow> pydict \<Rightarrow> caller \<Rightarrow> tool_router \<Rightarrow> (exn + pydict) \<times> tool_request list \<times> tool_router" where
  "select_and_run orc ts params c s =
     (case select_tool orc ts params of
        Inl e \<Rightarrow> (Inl e, [], s)
      | Inr t \<Rightarrow> (case estimate_cost (ro_costs s) (tl_name t) params of
            Inl e \<Rightarrow> (Inl e, [], s)
          | Inr est \<Rightarrow>
              if check_budget (ca_user c) (ca_tenant c) est (or_now orc) (ro_costs s)
              then run_selected orc t ts params c s
              else (Inl (ToolExecutionError [Lit ''Budget limit exceeded''] (tl_name t) None), [], s)))"

text \<open>The first required capability of the task: its value, and its text in messages.\<close>

definition route_and_execute ::
    "route_oracle \<Rightarrow> (string \<times> string) option \<Rightarrow> pydict \<Rightarrow> caller \<Rightarrow> tool_router
      \<Rightarrow> (exn + pydict) \<times> tool_request list \<times> tool_router" where
  "route_and_execute orc capability params c s =
     (case capability of
        None \<Rightarrow> (Inl (no_tool ''No capability specified for task''), [], s)
      | Some (cap, cap_text) \<Rightarrow>
        (let ts = find_tools_by_capability cap (Some (ca_tenant c)) None (ro_registry s)
         in if ts = [] then (Inl (no_tool (''No tool found for capability: '' @ cap_text)), [], s)
            else (case cache_get (or_key orc) (or_now orc) (ro_cache s) of (cached, cache) \<Rightarrow>
              (let s1 = s\<lparr>ro_cache := cache\<rparr>
               in case cached of
                    Some v \<Rightarrow> if v \<noteq> [] then (Inr v, [], s1) else select_and_run orc ts params c s1
                  | None \<Rightarrow> select_and_run orc ts params c s1))))"

section \<open>What is run, charged and answered\<close>

lemma update_metrics_simps [simp]:
  "ro_costs (update_metrics n d ok s) = ro_costs s" "ro_cache (update_metrics n d ok s) = ro_cache s"
  "ro_registry (update_metrics n d ok s) = ro_registry s"
  by (simp_all add: update_metrics_def Let_def)

lemma after_failure_costs: "after_failure orc e n t ts params c s = (res, rqs, s') \<Longrightarrow> ro_costs s' = ro_costs s"
  by (auto simp: after_failure_def Let_def split: if_splits prod.splits)

lemma after_success_costs:
  "after_success orc t params c result s = (r, s') \<Longrightarrow> ro_costs s' =
     track_usage (ca_user c) (ca_tenant c) (tl_name t) (or_duration orc) (ca_execution c) (or_now orc) (ro_costs s)"
  by (auto simp: after_success_def Let_def split: if_splits sum.splits)

text \<open>Whether the run of a selected tool succeeds.\<close>

definition first_run_ok :: "route_oracle \<Rightarrow> tool \<Rightarrow> pydict \<Rightarrow> caller \<Rightarrow> bool" where
  "first_run_ok orc t params c = is_ok (fst (execute_tool orc 0 t params c))"

lemma run_selected_costs:
  assumes "run_selected orc t ts params c s = (res, rqs, s')"
  shows "ro_costs s' = (if first_run_ok orc t params c
      then track_usage (ca_user c) (ca_tenant c) (tl_name t) (or_duration orc) (ca_execution c) (or_now orc) (ro_costs s)
      else ro_costs s)"
  using assms
  by (auto simp: run_selected_def first_run_ok_def split: prod.splits sum.splits option.splits
      dest!: after_failure_costs after_success_costs)

lemma tool_request_name: "tool_request_for t params c = Inr rq \<Longrightarrow> rq_tool rq = tl_name t"
  by (cases "dict_get_or params ''environment'' (PDict [])") (auto simp: tool_request_for_def rbind_Inr)

lemma execute_tool_cases:
  assumes "execute_tool orc n t params c = (r, rqs)"
  shows "(rqs = [] \<and> \<not> is_ok r) \<or> (\<exists>rq. rqs = [rq] \<and> rq_tool rq = tl_name t)"
  using assms by (auto simp: execute_tool_def tool_request_name split: sum.splits)

lemma fallback_tools:
  "execute_with_fallback orc n errs ts params c = (res, rqs) \<Longrightarrow> rq \<in> set rqs \<Longrightarrow> rq_tool rq \<in> tl_name ` set ts"
proof (induction orc n errs ts params c arbitrary: res rqs rule: execute_with_fallback.induct)
  case (2 orc n errs t ts params c)
  obtain r rqs1 where r: "execute_tool orc n t params c = (r, rqs1)" by fastforce
  from execute_tool_cases [OF this] have t: "rq_tool x = tl_name t" if "x \<in> set rqs1" for x using that by auto
  show ?case
  proof (cases r)
    case (Inl e)
    obtain res2 rqs2 where f: "execute_with_fallback orc (n + length rqs1) (errs @ [e]) ts params c = (res2, rqs2)" by fastforce
    with "2.prems" r Inl have "rqs = rqs1 @ rqs2" by simp
    with "2.prems"(2) t "2.IH" [OF r [symmetric] Inl f] show ?thesis by auto
  qed (use "2.prems" r t in auto)
qed simp

lemma run_selected_tools:
  assumes "run_selected orc t ts params c s = (res, rqs, s')" and "t \<in> set ts" and "rq \<in> set rqs"
  shows "rq_tool rq \<in> tl_name ` set ts"
proof -
  obtain r rqs1 where r: "execute_tool orc 0 t params c = (r, rqs1)" by fastforce
  from execute_tool_cases [OF this] have t: "rq_tool x = tl_name t" if "x \<in> set rqs1" for x using that by auto
  have fail: "rq_tool x \<in> tl_name ` set ts"
    if "after_failure orc e n t ts params c s1 = (res1, rqs2, s2)" "x \<in> set rqs2" for e n s1 res1 rqs2 s2 x
    using that fallback_tools [of orc n "[e]" "tl ts" params c] set_mono_suffix [OF suffix_tl, of ts]
    by (fastforce simp: after_failure_def Let_def split: if_splits prod.splits)
  from assms r have "rq \<in> set rqs1 \<or> (\<exists>e n s1 res1 rqs2 s2. after_failure orc e n t ts params c s1 = (res1, rqs2, s2) \<and> rq \<in> set rqs2)"
    by (auto simp: run_selected_def split: sum.splits prod.splits option.splits) blast+
  with fail t assms(2) show ?thesis by auto
qed

lemma first_run_requests:
  assumes "run_selected orc t ts params c s = (res, rqs, s')" and "rqs = []"
  shows "\<not> first_run_ok orc t params c"
proof -
  obtain r rqs1 where r: "execute_tool orc 0 t params c = (r, rqs1)" by fastforce
  with assms have "rqs1 = []" by (auto simp: run_selected_def split: sum.splits prod.splits option.splits)
  with execute_tool_cases [OF r] r show ?thesis by (auto simp: first_run_ok_def)
qed

lemma select_tool_in:
  assumes "select_tool orc ts params = Inr t" and "\<And>xs. xs \<noteq> [] \<Longrightarrow> or_pick orc xs \<in> set xs"
  shows "t \<in> set ts"
proof -
  have least: "least_loaded_tool l xs \<in> set xs" if "xs \<noteq> []" for l xs
  proof -
    let ?f = "\<lambda>t. l (tl_name t)"
    have "Min (?f ` set xs) \<in> ?f ` set xs" using that by (intro Min_in) auto
    then obtain m where "m \<in> set xs" "?f m = Min (?f ` set xs)" by (metis imageE)
    then have "m \<in> set xs" "\<forall>x \<in> set xs. ?f m \<le> ?f x" by simp_all
    then have "filter (\<lambda>t. list_all (\<lambda>t'. l (tl_name t) \<le> l (tl_name t')) xs) xs \<noteq> []"
      by (auto simp: filter_empty_conv list_all_iff)
    then have "least_loaded_tool l xs \<in> set (filter (\<lambda>t. list_all (\<lambda>t'. l (tl_name t) \<le> l (tl_name t')) xs) xs)"
      unfolding least_loaded_tool_def by (rule hd_in_set)
    then show ?thesis by simp
  qed
  define ts' where "ts' = (case dict_get params ''tool_version'' of None \<Rightarrow> ts | Some v \<Rightarrow> filter (\<lambda>t. py_eq (version_val t) v) ts)"
  have sub: "set ts' \<subseteq> set ts" by (auto simp: ts'_def split: option.split)
  have "ts' \<noteq> [] \<and> (t = least_loaded_tool (or_load orc) ts' \<or> t = or_pick orc ts')"
    using assms(1) unfolding select_tool_def ts'_def [symmetric] Let_def
    by (cases "dict_get_or params ''load_balancing'' (PStr ''round_robin'')") (auto split: if_splits)
  with least [of ts' "or_load orc"] assms(2) [of ts'] sub show ?thesis by auto
qed

text \<open>
  C10: The router runs nothing over budget and charges exactly the first run: where it makes any
  request, all of them are to tools registered for the capability, the estimate for the selected
  one has passed the budget check, and its cost is booked if and only if that first run succeeds;
  runs of fallback tools are never booked. Without a request nothing is booked.
\<close>
theorem router_runs_within_budget:
  assumes "route_and_execute orc capability params c s = (res, rqs, s')" and "\<And>xs. xs \<noteq> [] \<Longrightarrow> or_pick orc xs \<in> set xs"
  shows "(rqs = [] \<longrightarrow> ro_costs s' = ro_costs s)
    \<and> (rqs \<noteq> [] \<longrightarrow> (\<exists>cap shown t est. capability = Some (cap, shown)
        \<and> t \<in> set (find_tools_by_capability cap (Some (ca_tenant c)) None (ro_registry s))
        \<and> (\<forall>rq \<in> set rqs. rq_tool rq \<in> tl_name ` set (find_tools_by_capability cap (Some (ca_tenant c)) None (ro_registry s)))
        \<and> estimate_cost (ro_costs s) (tl_name t) params = Inr est
        \<and> check_budget (ca_user c) (ca_tenant c) est (or_now orc) (ro_costs s)
        \<and> ro_costs s' = (if first_run_ok orc t params c
             then track_usage (ca_user c) (ca_tenant c) (tl_name t) (or_duration orc) (ca_execution c) (or_now orc) (ro_costs s)
             else ro_costs s)))"
proof (cases capability)
  case (Some p)
  obtain cap shown where p: "p = (cap, shown)" by fastforce
  let ?ts = "find_tools_by_capability cap (Some (ca_tenant c)) None (ro_registry s)"
  obtain cached cache where cg: "cache_get (or_key orc) (or_now orc) (ro_cache s) = (cached, cache)" by fastforce
  let ?s1 = "s\<lparr>ro_cache := cache\<rparr>"
  have "(rqs = [] \<and> ro_costs s' = ro_costs s) \<or> select_and_run orc ?ts params c ?s1 = (res, rqs, s')"
    using assms(1) by (auto simp: route_and_execute_def Some p cg Let_def split: if_splits option.splits)
  then show ?thesis
  proof
    assume run: "select_and_run orc ?ts params c ?s1 = (res, rqs, s')"
    show ?thesis
    proof (cases "\<exists>t est. select_tool orc ?ts params = Inr t \<and> estimate_cost (ro_costs s) (tl_name t) params = Inr est
        \<and> check_budget (ca_user c) (ca_tenant c) est (or_now orc) (ro_costs s)")
      case True
      then obtain t est where t: "select_tool orc ?ts params = Inr t" "estimate_cost (ro_costs s) (tl_name t) params = Inr est"
        "check_budget (ca_user c) (ca_tenant c) est (or_now orc) (ro_costs s)" by blast
      with run have rs: "run_selected orc t ?ts params c ?s1 = (res, rqs, s')" by (simp add: select_and_run_def)
      have "t \<in> set ?ts" using select_tool_in [OF t(1) assms(2)] .
      with t run_selected_tools [OF rs] run_selected_costs [OF rs] first_run_requests [OF rs] show ?thesis
        by (auto simp: Some p)
    next
      case False
      with run show ?thesis by (auto simp: select_and_run_def split: sum.splits if_splits)
    qed
  qed simp
qed (use assms(1) in \<open>auto simp: route_and_execute_def\<close>)

definition ex_route :: route_oracle where
  "ex_route = \<lparr>or_key = ''k'', or_pick = hd, or_load = (\<lambda>_. 0), or_run = (\<lambda>n rq. Inr [(''exit_code'', PInt 0)]),
     or_duration = 30, or_now = 5\<rparr>"

definition ex_caller :: caller where
  "ex_caller = \<lparr>ca_user = ''ann'', ca_tenant = ''acme'', ca_execution = ''e1''\<rparr>"

definition ex_router :: tool_router where
  "ex_router = \<lparr>ro_registry = new_tool_registry, ro_cache = new_tool_cache False, ro_costs = new_cost_tracker, ro_metrics = []\<rparr>"

definition ex_params :: pydict where
  "ex_params = [(''tool_args'', PDict [(''target'', PStr ''10.0.0.1''), (''ports'', PStr ''80'')])]"

theorem router_runs_within_budget_witness:
  "case route_and_execute ex_route (Some (''port_scan'', ''port_scan'')) ex_params ex_caller ex_router of
     (res, rqs, s') \<Rightarrow> rqs \<noteq> [] \<and> (\<exists>t. t \<in> set (find_tools_by_capability ''port_scan'' (Some ''acme'') None new_tool_registry)
       \<and> ro_costs s' = (if first_run_ok ex_route t ex_params ex_caller
            then track_usage ''ann'' ''acme'' (tl_name t) 30 ''e1'' 5 new_cost_tracker else new_cost_tracker))"
proof -
  obtain res rqs s' where r: "route_and_execute ex_route (Some (''port_scan'', ''port_scan'')) ex_params ex_caller ex_router = (res, rqs, s')"
    by (metis prod_cases3)
  have "fst (snd (route_and_execute ex_route (Some (''port_scan'', ''port_scan'')) ex_params ex_caller ex_router)) \<noteq> []"
    by code_simp
  with r have "rqs \<noteq> []" by simp
  moreover have "or_pick ex_route xs \<in> set xs" if "xs \<noteq> []" for xs using that by (simp add: ex_route_def)
  ultimately show ?thesis
    using router_runs_within_budget [OF r] r by (auto simp: ex_caller_def ex_router_def ex_route_def)
qed

section \<open>Arguments that are lost\<close>

text \<open>A parameter whose mapping is \<open>None\<close>, meant to be positional, leaves no trace in the command.\<close>

lemma positional_argument_dropped:
  assumes "dict_get (tl_param_mapping t) name = Some Positional"
  shows "prepare_tool_args t (dict_set ''tool_args'' (PDict [(name, v)]) params) = Inr (map Word (tl_base_command t))"
  using assms by (simp add: prepare_tool_args_def dict_get_or_def mapped_args_def)

lemma nmap_has_no_target: "prepare_tool_args nmap_tool ex_params = Inr [Word ''-p'', Shown (PStr ''80'')]"
  by code_simp

text \<open>The built-in tools have no \<open>version\<close>, so asking for one leaves none.\<close>

lemma version_leaves_no_tool:
  "select_tool orc [nmap_tool, nuclei_tool, sqlmap_tool, gobuster_tool] [(''tool_version'', PStr ''7.94'')]
     = Inl (no_tool ''No tools available after filtering'')"
  by (simp add: select_tool_def version_val_def opt_val_def nmap_tool_def nuclei_tool_def sqlmap_tool_def gobuster_tool_def
      dict_get_def)

end
