(* ===== verification/Tenants.thy ===== *)
theory Tenants
  imports Branching
begin

text \<open>
  \<open>src/tenant/\<close>: usage aggregation, invoices, the isolation layers and the tenant manager. Days are
  numbers instead of date strings, and a daily total is keyed by resource and day. Hashes are
  arguments; encryption, which the manager does not use, is left out.
\<close>

section \<open>Usage (\<open>billing/usage_aggregator.py\<close>)\<close>

record usage_event =
  ue_timestamp :: time
  ue_amount :: rat
  ue_metadata :: pydict

record aggregator =
  ua_usage :: "(string, (string, usage_event list) dict) dict"
  ua_daily :: "(string, (string \<times> int, rat) dict) dict"

record usage_data =
  ud_total :: rat
  ud_by_day :: "(int, rat) dict"
  ud_count :: nat

definition new_aggregator :: aggregator where
  "new_aggregator = \<lparr>ua_usage = [], ua_daily = []\<rparr>"

definition bump :: "'k \<Rightarrow> rat \<Rightarrow> ('k, rat) dict \<Rightarrow> ('k, rat) dict" where
  "bump k x m = dict_set k (dict_get_or m k 0 + x) m"

definition track_usage :: "string \<Rightarrow> string \<Rightarrow> rat \<Rightarrow> pydict option \<Rightarrow> time \<Rightarrow> aggregator \<Rightarrow> aggregator" where
  "track_usage t res amount metadata now s =
     (let e = \<lparr>ue_timestamp = now, ue_amount = amount, ue_metadata = (case metadata of None \<Rightarrow> [] | Some m \<Rightarrow> m)\<rparr>;
          u = dict_get_or (ua_usage s) t []
      in s\<lparr>ua_usage := dict_set t (dict_set res (append_capped 10000 e (dict_get_or u res [])) u) (ua_usage s),
           ua_daily := dict_set t (bump (res, day_number now) amount (dict_get_or (ua_daily s) t [])) (ua_daily s)\<rparr>)"

definition usage_of :: "time \<Rightarrow> time \<Rightarrow> usage_event list \<Rightarrow> usage_data" where
  "usage_of t0 t1 es =
     (let es' = filter (\<lambda>e. t0 \<le> ue_timestamp e \<and> ue_timestamp e \<le> t1) es
      in \<lparr>ud_total = sum_list (map ue_amount es'),
          ud_by_day = fold (\<lambda>e. bump (day_number (ue_timestamp e)) (ue_amount e)) es' [],
          ud_count = length es'\<rparr>)"

text \<open>The dictionaries create an entry for every tenant and resource that is read.\<close>

definition read_tenant :: "string \<Rightarrow> aggregator \<Rightarrow> aggregator" where
  "read_tenant t s = s\<lparr>ua_usage := dict_set t (dict_get_or (ua_usage s) t []) (ua_usage s)\<rparr>"

definition read_resource :: "string \<Rightarrow> string \<Rightarrow> aggregator \<Rightarrow> aggregator" where
  "read_resource t r s =
     (let u = dict_get_or (ua_usage s) t [] in s\<lparr>ua_usage := dict_set t (dict_set r (dict_get_or u r []) u) (ua_usage s)\<rparr>)"

definition get_tenant_usage ::
    "string \<Rightarrow> string option \<Rightarrow> time option \<Rightarrow> time option \<Rightarrow> time \<Rightarrow> aggregator \<Rightarrow> (string, usage_data) dict \<times> aggregator" where
  "get_tenant_usage t res start stop now s =
     (let t0 = (case start of None \<Rightarrow> now - 30 * day | Some x \<Rightarrow> x);
          t1 = (case stop of None \<Rightarrow> now | Some x \<Rightarrow> x);
          u = dict_get_or (ua_usage s) t [];
          everything = (map (\<lambda>(r, es). (r, usage_of t0 t1 es)) u, read_tenant t s)
      in case res of
           None \<Rightarrow> everything
         | Some r \<Rightarrow> if r = [] then everything else ([(r, usage_of t0 t1 (dict_get_or u r []))], read_resource t r s))"

text \<open>\<open>get_all_tenants_usage(None, stop)\<close>: \<open>stop\<close> is passed on in the place of the start.\<close>

definition get_all_tenants_usage :: "time option \<Rightarrow> time \<Rightarrow> aggregator \<Rightarrow> (string, (string, usage_data) dict) dict" where
  "get_all_tenants_usage stop now s = map (\<lambda>(t, _). (t, fst (get_tenant_usage t None stop None now s))) (ua_usage s)"

definition resource_price :: "string \<Rightarrow> rat" where
  "resource_price res =
     dict_get_or [(''executions'', 1 / 100), (''storage_gb'', 1 / 10), (''api_calls'', 1 / 1000), (''compute_hours'', 5 / 100)] res 0"

record usage_summary =
  us_tenant :: string
  us_period :: string
  us_start :: time
  us_end :: time
  us_total_cost :: rat
  us_resources :: "(string, rat \<times> rat) dict"

definition period_start :: "string \<Rightarrow> time \<Rightarrow> time" where
  "period_start period now =
     (if period = ''daily'' then start_of_day now
      else if period = ''weekly'' then start_of_day (now - weekday now * day)
      else if period = ''monthly'' then start_of_month now
      else now - 30 * day)"

definition get_usage_summary :: "string \<Rightarrow> string \<Rightarrow> time \<Rightarrow> aggregator \<Rightarrow> usage_summary \<times> aggregator" where
  "get_usage_summary t period now s =
     (let start = period_start period now;
          (usage, s') = get_tenant_usage t None (Some start) None now s;
          costs = map (\<lambda>(r, d). (r, (ud_total d, ud_total d * resource_price r))) usage
      in (\<lparr>us_tenant = t, us_period = period, us_start = start, us_end = now,
          us_total_cost = sum_list (map (snd \<circ> snd) costs), us_resources = costs\<rparr>, s'))"

section \<open>Invoices (\<open>billing/billing_calculator.py\<close>)\<close>

record pricing =
  pr_base :: rat
  pr_included_executions :: rat
  pr_included_storage :: rat
  pr_execution :: rat
  pr_storage :: rat
  pr_api_call :: rat

definition price_tiers :: "(string, pricing) dict" where
  "price_tiers =
     [(''free'', \<lparr>pr_base = 0, pr_included_executions = 100, pr_included_storage = 1, pr_execution = 1 / 100,
         pr_storage = 10 / 100, pr_api_call = 1 / 1000\<rparr>),
      (''basic'', \<lparr>pr_base = 99, pr_included_executions = 1000, pr_included_storage = 10, pr_execution = 8 / 1000,
         pr_storage = 8 / 100, pr_api_call = 8 / 10000\<rparr>),
      (''professional'', \<lparr>pr_base = 499, pr_included_executions = 10000, pr_included_storage = 100, pr_execution = 5 / 1000,
         pr_storage = 5 / 100, pr_api_call = 5 / 10000\<rparr>),
      (''enterprise'', \<lparr>pr_base = 1999, pr_included_executions = 100000, pr_included_storage = 1000, pr_execution = 3 / 1000,
         pr_storage = 3 / 100, pr_api_call = 3 / 10000\<rparr>)]"

definition pricing_for :: "string \<Rightarrow> pricing" where
  "pricing_for tier =
     (case dict_get price_tiers (map lower tier) of Some p \<Rightarrow> p | None \<Rightarrow> the (dict_get price_tiers ''basic''))"

record charge =
  ch_item :: string
  ch_quantity :: rat
  ch_rate :: rat
  ch_amount :: rat

record invoice =
  iv_id :: string
  iv_tenant :: string
  iv_period :: string
  iv_generated_at :: time
  iv_due_date :: time
  iv_charges :: "charge list"
  iv_subtotal :: rat
  iv_tax :: rat
  iv_total :: rat
  iv_usage :: usage_summary

definition overage :: "string \<Rightarrow> rat \<Rightarrow> rat \<Rightarrow> rat \<Rightarrow> charge list" where
  "overage item used included rate =
     (if used > included
      then [\<lparr>ch_item = item, ch_quantity = used - included, ch_rate = rate, ch_amount = (used - included) * rate\<rparr>]
      else [])"

definition used :: "usage_summary \<Rightarrow> string \<Rightarrow> rat" where
  "used u res = (case dict_get (us_resources u) res of None \<Rightarrow> 0 | Some (x, _) \<Rightarrow> x)"

definition calculate_invoice :: "string \<Rightarrow> string \<Rightarrow> string \<Rightarrow> string \<Rightarrow> time \<Rightarrow> aggregator \<Rightarrow> invoice \<times> aggregator" where
  "calculate_invoice iid t tier period now s =
     (let (u, s') = get_usage_summary t period now s;
          p = pricing_for tier;
          over = overage ''execution_overage'' (used u ''executions'') (pr_included_executions p) (pr_execution p)
               @ overage ''storage_overage'' (used u ''storage_gb'') (pr_included_storage p) (pr_storage p);
          total = pr_base p + sum_list (map ch_amount over);
          base = (if pr_base p > 0
                  then [\<lparr>ch_item = ''base_subscription'', ch_quantity = 1, ch_rate = pr_base p, ch_amount = pr_base p\<rparr>] else [])
      in (\<lparr>iv_id = iid, iv_tenant = t, iv_period = period, iv_generated_at = now, iv_due_date = now + 30 * day,
          iv_charges = over @ base, iv_subtotal = total, iv_tax = total * (1 / 10), iv_total = total * (11 / 10), iv_usage = u\<rparr>, s'))"

section \<open>Isolation layers (\<open>isolation/\<close>)\<close>

definition tier_quotas :: "string \<Rightarrow> pydict" where
  "tier_quotas tier =
     (let quotas = \<lambda>cpu memory pods claims. [(''cpu'', PStr cpu), (''memory'', PStr memory), (''pods'', PStr pods),
            (''persistent_volume_claims'', PStr claims)];
          table = [(''free'', quotas ''1'' ''2Gi'' ''5'' ''2''), (''basic'', quotas ''4'' ''8Gi'' ''20'' ''5''),
            (''professional'', quotas ''16'' ''32Gi'' ''100'' ''20''), (''enterprise'', quotas ''64'' ''128Gi'' ''500'' ''100'')]
      in dict_get_or table (map lower tier) (quotas ''4'' ''8Gi'' ''20'' ''5''))"

record isolation =
  is_schemas :: "(string, string) dict"
  is_keys :: "(string, string) dict"
  is_namespaces :: "(string, string) dict"
  is_quotas :: "(string, pydict) dict"
  is_networks :: "(string, string) dict"
  is_cidrs :: "(string, string) dict"

definition new_isolation :: isolation where
  "new_isolation = \<lparr>is_schemas = [], is_keys = [], is_namespaces = [], is_quotas = [], is_networks = [], is_cidrs = []\<rparr>"

definition underscored :: "string \<Rightarrow> string" where
  "underscored = map (\<lambda>c. if c = CHR ''-'' then CHR ''_'' else c)"

text \<open>\<open>_generate_tenant_key\<close> reads \<open>settings\<close>, which the module neither defines nor imports.\<close>

definition generate_tenant_key :: "string \<Rightarrow> exn + string" where
  "generate_tenant_key t = Inl (NameErr ''settings'')"

definition initialize_data :: "string \<Rightarrow> isolation \<Rightarrow> exn option \<times> isolation" where
  "initialize_data t s =
     (let s1 = s\<lparr>is_schemas := dict_set t (''tenant_'' @ underscored t) (is_schemas s)\<rparr>
      in case generate_tenant_key t of
           Inl e \<Rightarrow> (Some e, s1)
         | Inr k \<Rightarrow> (None, s1\<lparr>is_keys := dict_set t k (is_keys s1)\<rparr>))"

definition initialize_compute :: "string \<Rightarrow> string \<Rightarrow> isolation \<Rightarrow> isolation" where
  "initialize_compute t tier s =
     s\<lparr>is_namespaces := dict_set t (''tenant-'' @ take 8 t) (is_namespaces s), is_quotas := dict_set t (tier_quotas tier) (is_quotas s)\<rparr>"

text \<open>\<open>md5\<close> is the number the first eight digits of the hash stand for.\<close>

definition allocate_cidr :: "(string \<Rightarrow> nat) \<Rightarrow> string \<Rightarrow> string" where
  "allocate_cidr md5 t = ''10.'' @ nat_str (md5 t mod 254 + 1) @ ''.0.0/16''"

definition initialize_network :: "(string \<Rightarrow> nat) \<Rightarrow> string \<Rightarrow> isolation \<Rightarrow> isolation" where
  "initialize_network md5 t s =
     s\<lparr>is_networks := dict_set t (''net-'' @ take 8 t) (is_networks s), is_cidrs := dict_set t (allocate_cidr md5 t) (is_cidrs s)\<rparr>"

definition cleanup_isolation :: "string \<Rightarrow> isolation \<Rightarrow> isolation" where
  "cleanup_isolation t s =
     \<lparr>is_schemas = dict_pop t (is_schemas s), is_keys = dict_pop t (is_keys s), is_namespaces = dict_pop t (is_namespaces s),
      is_quotas = dict_pop t (is_quotas s), is_networks = dict_pop t (is_networks s), is_cidrs = dict_pop t (is_cidrs s)\<rparr>"

section \<open>Tenants (\<open>tenant_manager.py\<close>)\<close>

datatype tenant_status = TN_active | TN_suspended | TN_deleted | TN_pending

datatype tenant_tier = Free | Basic | Professional | Enterprise

fun tier_value :: "tenant_tier \<Rightarrow> string" where
  "tier_value Free = ''free''"
| "tier_value Basic = ''basic''"
| "tier_value Professional = ''professional''"
| "tier_value Enterprise = ''enterprise''"

fun tier_features :: "tenant_tier \<Rightarrow> string list" where
  "tier_features Free = [''basic_scanning'', ''email_reports'', ''7_day_retention'']"
| "tier_features Basic = [''basic_scanning'', ''api_access'', ''email_reports'', ''30_day_retention'']"
| "tier_features Professional = [''advanced_scanning'', ''api_access'', ''slack_integration'', ''90_day_retention'', ''custom_reports'']"
| "tier_features Enterprise = [''all_features'', ''sso'', ''audit_logs'', ''365_day_retention'', ''dedicated_support'', ''custom_integrations'']"

definition quota_dict :: "int \<Rightarrow> int \<Rightarrow> int \<Rightarrow> int \<Rightarrow> int \<Rightarrow> pydict" where
  "quota_dict executions concurrent storage calls members =
     [(''executions_per_month'', PInt executions), (''concurrent_executions'', PInt concurrent), (''storage_gb'', PInt storage),
      (''api_calls_per_day'', PInt calls), (''team_members'', PInt members)]"

fun default_quotas :: "tenant_tier \<Rightarrow> pydict" where
  "default_quotas Free = quota_dict 100 2 1 1000 1"
| "default_quotas Basic = quota_dict 1000 5 10 10000 5"
| "default_quotas Professional = quota_dict 10000 20 100 100000 20"
| "default_quotas Enterprise = quota_dict 100000 100 1000 1000000 100"

fun notification_channels :: "tenant_tier \<Rightarrow> string list" where
  "notification_channels Free = [''email'']"
| "notification_channels Basic = [''email'', ''webhook'']"
| "notification_channels Professional = [''email'', ''webhook'', ''slack'']"
| "notification_channels Enterprise = [''email'', ''webhook'', ''slack'', ''pagerduty'', ''teams'']"

fun retention_days :: "tenant_tier \<Rightarrow> int" where
  "retention_days Free = 7"
| "retention_days Basic = 30"
| "retention_days Professional = 90"
| "retention_days Enterprise = 365"

definition default_config :: "tenant_tier \<Rightarrow> pydict" where
  "default_config tier =
     [(''retention_days'', PInt (retention_days tier)), (''audit_logging'', PBool (tier = Professional \<or> tier = Enterprise)),
      (''sso_enabled'', PBool (tier = Enterprise)), (''custom_domains'', PBool (tier = Enterprise)),
      (''notification_channels'', PList (map PStr (notification_channels tier)))]"

record tenant =
  tn_id :: string
  tn_name :: string
  tn_tier :: tenant_tier
  tn_status :: tenant_status
  tn_admin_email :: string
  tn_created_at :: time
  tn_settings :: pydict
  tn_features :: "string list"
  tn_activated_at :: "time option"
  tn_suspended_at :: "time option"
  tn_suspension_reason :: "string option"
  tn_deleted_at :: "time option"

record relationship =
  rl_tenant :: string
  rl_type :: string
  rl_created_at :: time

record tenant_manager =
  tm_tenants :: "(string, tenant) dict"
  tm_quotas :: "(string, pydict) dict"
  tm_configs :: "(string, pydict) dict"
  tm_relationships :: "(string, relationship list) dict"
  tm_isolation :: isolation
  tm_usage :: aggregator

definition new_tenant_manager :: tenant_manager where
  "new_tenant_manager = \<lparr>tm_tenants = [], tm_quotas = [], tm_configs = [], tm_relationships = [], tm_isolation = new_isolation,
     tm_usage = new_aggregator\<rparr>"

text \<open>The time of an update is stored as a text; only that it is a text matters.\<close>

definition set_tenant_quotas :: "string \<Rightarrow> pydict \<Rightarrow> string \<Rightarrow> tenant_manager \<Rightarrow> tenant_manager" where
  "set_tenant_quotas t quotas stamp s =
     s\<lparr>tm_quotas := dict_set t (dict_set ''updated_at'' (PStr stamp) quotas) (tm_quotas s)\<rparr>"

definition create_tenant ::
    "(string \<Rightarrow> nat) \<Rightarrow> string \<Rightarrow> string \<Rightarrow> string \<Rightarrow> tenant_tier \<Rightarrow> pydict option \<Rightarrow> string \<Rightarrow> time \<Rightarrow> tenant_manager
      \<Rightarrow> exn option \<times> tenant_manager" where
  "create_tenant md5 t name email tier settings stamp now s =
     (let tn = \<lparr>tn_id = t, tn_name = name, tn_tier = tier, tn_status = TN_pending, tn_admin_email = email, tn_created_at = now,
                tn_settings = (case settings of None \<Rightarrow> [] | Some d \<Rightarrow> d), tn_features = tier_features tier,
                tn_activated_at = None, tn_suspended_at = None, tn_suspension_reason = None, tn_deleted_at = None\<rparr>;
          s1 = s\<lparr>tm_tenants := dict_set t tn (tm_tenants s)\<rparr>
      in case initialize_data t (tm_isolation s1) of
           (Some e, i) \<Rightarrow> (Some e, s1\<lparr>tm_isolation := i\<rparr>)
         | (None, i) \<Rightarrow>
             (let s2 = s1\<lparr>tm_isolation := initialize_network md5 t (initialize_compute t (tier_value tier) i)\<rparr>;
                  s3 = set_tenant_quotas t (default_quotas tier) stamp s2
              in (None, s3\<lparr>tm_configs := dict_set t (default_config tier) (tm_configs s3)\<rparr>)))"

definition activate_tenant :: "string \<Rightarrow> time \<Rightarrow> tenant_manager \<Rightarrow> tenant_manager" where
  "activate_tenant t now s =
     s\<lparr>tm_tenants := dict_mod t (\<lambda>x. x\<lparr>tn_status := TN_active, tn_activated_at := Some now\<rparr>) (tm_tenants s)\<rparr>"

definition suspend_tenant :: "string \<Rightarrow> string \<Rightarrow> time \<Rightarrow> tenant_manager \<Rightarrow> tenant_manager" where
  "suspend_tenant t reason now s =
     s\<lparr>tm_tenants := dict_mod t (\<lambda>x. x\<lparr>tn_status := TN_suspended, tn_suspended_at := Some now,
        tn_suspension_reason := Some reason\<rparr>) (tm_tenants s)\<rparr>"

definition delete_tenant :: "string \<Rightarrow> time \<Rightarrow> tenant_manager \<Rightarrow> tenant_manager" where
  "delete_tenant t now s =
     (if dict_has (tm_tenants s) t
      then s\<lparr>tm_tenants := dict_mod t (\<lambda>x. x\<lparr>tn_status := TN_deleted, tn_deleted_at := Some now\<rparr>) (tm_tenants s),
             tm_isolation := cleanup_isolation t (tm_isolation s)\<rparr>
      else s)"

definition get_tenant :: "string \<Rightarrow> tenant_manager \<Rightarrow> tenant option" where
  "get_tenant t s = dict_get (tm_tenants s) t"

definition list_tenants :: "tenant_status option \<Rightarrow> tenant_manager \<Rightarrow> tenant list" where
  "list_tenants status s =
     (case status of None \<Rightarrow> dict_values (tm_tenants s) | Some x \<Rightarrow> filter (\<lambda>t. tn_status t = x) (dict_values (tm_tenants s)))"

text \<open>
  The empty entry that reading the usage of a tenant leaves has no effect on the next two results.
  \<open>quotas.get(key, 0) - usage.get(key, 0)\<close>: what is used is a dictionary where it is not missing.\<close>

definition remaining_quota :: "(string, usage_data) dict \<Rightarrow> string \<times> pyval \<Rightarrow> exn + (string \<times> rat)" where
  "remaining_quota usage q =
     (case q of (k, v) \<Rightarrow> if dict_has usage k then Inl TypeErr
        else (case num_val v of None \<Rightarrow> Inl TypeErr | Some r \<Rightarrow> Inr (k, r)))"

fun mapM_e :: "('a \<Rightarrow> exn + 'b) \<Rightarrow> 'a list \<Rightarrow> exn + 'b list" where
  "mapM_e f [] = Inr []"
| "mapM_e f (x # xs) = rbind (f x) (\<lambda>y. rbind (mapM_e f xs) (\<lambda>ys. Inr (y # ys)))"

definition get_tenant_quotas ::
    "string \<Rightarrow> time \<Rightarrow> tenant_manager \<Rightarrow> exn + (pydict \<times> (string, usage_data) dict \<times> (string, rat) dict)" where
  "get_tenant_quotas t now s =
     (let quotas = dict_get_or (tm_quotas s) t [];
          usage = fst (get_tenant_usage t None None None now (tm_usage s))
      in rbind (mapM_e (remaining_quota usage) quotas) (\<lambda>remaining. Inr (quotas, usage, remaining)))"

text \<open>\<open>usage.get(resource, 0) + amount <= quotas.get(resource, inf)\<close>.\<close>

definition check_tenant_quota :: "string \<Rightarrow> string \<Rightarrow> int \<Rightarrow> time \<Rightarrow> tenant_manager \<Rightarrow> exn + bool" where
  "check_tenant_quota t res amount now s =
     (if dict_has (fst (get_tenant_usage t None None None now (tm_usage s))) res then Inl TypeErr
      else (case dict_get (dict_get_or (tm_quotas s) t []) res of
              None \<Rightarrow> Inr True
            | Some v \<Rightarrow> (case py_le (PInt amount) v of None \<Rightarrow> Inl TypeErr | Some b \<Rightarrow> Inr b)))"

definition create_relationship :: "string \<Rightarrow> string \<Rightarrow> string \<Rightarrow> time \<Rightarrow> tenant_manager \<Rightarrow> tenant_manager" where
  "create_relationship t related ty now s =
     s\<lparr>tm_relationships := dict_set t
        (dict_get_or (tm_relationships s) t [] @ [\<lparr>rl_tenant = related, rl_type = ty, rl_created_at = now\<rparr>]) (tm_relationships s)\<rparr>"

definition get_related_tenants :: "string \<Rightarrow> string option \<Rightarrow> tenant_manager \<Rightarrow> relationship list" where
  "get_related_tenants t ty s =
     (let rs = dict_get_or (tm_relationships s) t []
      in case ty of None \<Rightarrow> rs | Some x \<Rightarrow> if x = [] then rs else filter (\<lambda>r. rl_type r = x) rs)"

section \<open>Invoices add up\<close>

lemma pricing_nonneg: "0 \<le> pr_base (pricing_for tier) \<and> 0 \<le> pr_execution (pricing_for tier) \<and> 0 \<le> pr_storage (pricing_for tier)"
  by (auto simp: pricing_for_def price_tiers_def dict_get_Cons split: option.split)

lemma overage_nonneg: "0 \<le> rate \<Longrightarrow> 0 \<le> sum_list (map ch_amount (overage item u i rate))"
  by (auto simp: overage_def)

text \<open>
  An invoice adds up: the charges sum to the subtotal, the total is the subtotal with its tax, the
  subtotal is never below the base price of the tier and equals it exactly when the executions and
  the storage used stay within what the tier includes.
\<close>
theorem invoice_adds_up:
  "case calculate_invoice iid t tier period now s of (iv, s') \<Rightarrow>
     sum_list (map ch_amount (iv_charges iv)) = iv_subtotal iv \<and> iv_total iv = iv_subtotal iv + iv_tax iv
     \<and> pr_base (pricing_for tier) \<le> iv_subtotal iv
     \<and> (iv_subtotal iv = pr_base (pricing_for tier)
        \<longleftrightarrow> used (iv_usage iv) ''executions'' \<le> pr_included_executions (pricing_for tier)
            \<and> used (iv_usage iv) ''storage_gb'' \<le> pr_included_storage (pricing_for tier))"
proof -
  obtain u s' where u: "get_usage_summary t period now s = (u, s')" by fastforce
  let ?p = "pricing_for tier"
  have p: "0 \<le> pr_base ?p" "0 < pr_execution ?p" "0 < pr_storage ?p"
    by (auto simp: pricing_for_def price_tiers_def dict_get_Cons split: option.split)
  have over: "0 \<le> sum_list (map ch_amount (overage i x y r)) \<and> (sum_list (map ch_amount (overage i x y r)) = 0 \<longleftrightarrow> x \<le> y)"
    if "0 < r" for i x y r
    using that by (auto simp: overage_def)
  show ?thesis
    using p over [OF p(2), of "''execution_overage''" "used u ''executions''" "pr_included_executions ?p"]
      over [OF p(3), of "''storage_overage''" "used u ''storage_gb''" "pr_included_storage ?p"]
    by (auto simp: calculate_invoice_def u Let_def)
qed

section \<open>Tenant quotas refuse nothing\<close>

lemma create_tenant_outcome:
  "\<exists>tn i. create_tenant md5 t name email tier settings stamp now s
      = (Some (NameErr ''settings''), s\<lparr>tm_tenants := dict_set t tn (tm_tenants s), tm_isolation := i\<rparr>)
    \<and> tn_status tn = TN_pending"
  by (auto simp: create_tenant_def initialize_data_def generate_tenant_key_def Let_def)

datatype tenant_op =
    Create string string string tenant_tier "pydict option" string
  | Activate string
  | Suspend string string
  | Delete string
  | Track string string rat "pydict option"
  | Relate string string string
  | Set_quotas string pydict string

fun tenant_exec :: "(string \<Rightarrow> nat) \<Rightarrow> tenant_op \<times> time \<Rightarrow> tenant_manager \<Rightarrow> tenant_manager" where
  "tenant_exec md5 (Create t n e tier st u, now) s = snd (create_tenant md5 t n e tier st u now s)"
| "tenant_exec md5 (Activate t, now) s = activate_tenant t now s"
| "tenant_exec md5 (Suspend t r, now) s = suspend_tenant t r now s"
| "tenant_exec md5 (Delete t, now) s = delete_tenant t now s"
| "tenant_exec md5 (Track t r x m, now) s = s\<lparr>tm_usage := track_usage t r x m now (tm_usage s)\<rparr>"
| "tenant_exec md5 (Relate t u ty, now) s = create_relationship t u ty now s"
| "tenant_exec md5 (Set_quotas t q u, now) s = set_tenant_quotas t q u s"

fun sets_no_quota :: "tenant_op \<Rightarrow> bool" where
  "sets_no_quota (Set_quotas _ _ _) = False"
| "sets_no_quota _ = True"

lemma tenant_exec_quotas: "sets_no_quota x \<Longrightarrow> tm_quotas (tenant_exec md5 (x, now) s) = tm_quotas s"
  using create_tenant_outcome
  by (cases x) (auto simp: activate_tenant_def suspend_tenant_def delete_tenant_def create_relationship_def
      create_tenant_def initialize_data_def generate_tenant_key_def Let_def)

text \<open>
  Creating a tenant never gives it its quotas (its key cannot be generated, and the exception
  comes before they are set), so whatever tenants do, no check of a tenant's quota ever refuses
  unless somebody sets the quotas by hand.
\<close>
theorem default_quotas_never_refuse:
  assumes "list_all (sets_no_quota \<circ> fst) xs"
  shows "check_tenant_quota t res amount now (fold (tenant_exec md5) xs new_tenant_manager) \<noteq> Inr False"
proof -
  have "tm_quotas (fold (tenant_exec md5) xs s) = tm_quotas s" for s
    using assms
  proof (induction xs arbitrary: s)
    case (Cons x xs)
    obtain y u where "x = (y, u)" by fastforce
    with Cons tenant_exec_quotas show ?case by simp
  qed simp
  then show ?thesis by (simp add: check_tenant_quota_def new_tenant_manager_def dict_get_or_def)
qed

theorem default_quotas_never_refuse_witness:
  "check_tenant_quota ''t'' ''executions_per_month'' 500 9
     (fold (tenant_exec length) [(Create ''t'' ''T'' ''a@b'' Free None ''now'', 0), (Activate ''t'', 1)] new_tenant_manager) \<noteq> Inr False"
  by (rule default_quotas_never_refuse) simp

text \<open>
  Even a quota set by hand is compared with the requested amount alone: once anything has been
  used of the resource the check raises a type error, and before that it ignores usage.
\<close>
theorem tenant_quota_ignores_usage:
  "check_tenant_quota t res amount now s =
     (if res \<in> set (dict_keys (dict_get_or (ua_usage (tm_usage s)) t [])) then Inl TypeErr
      else (case dict_get (dict_get_or (tm_quotas s) t []) res of
              None \<Rightarrow> Inr True
            | Some v \<Rightarrow> (case num_val v of None \<Rightarrow> Inl TypeErr | Some q \<Rightarrow> Inr (of_int amount \<le> q))))"
proof -
  have "dict_has (map (\<lambda>(r, es). (r, f es)) u) res \<longleftrightarrow> res \<in> set (dict_keys u)" for f :: "usage_event list \<Rightarrow> usage_data" and u
    by (induction u) (auto simp: dict_has_keys dict_keys_def)
  moreover have "py_le (PInt amount) v = map_option (\<lambda>q. of_int amount \<le> q) (num_val v)" for v
    by (cases v) (auto simp: py_le_def)
  ultimately show ?thesis
    by (simp add: check_tenant_quota_def get_tenant_usage_def Let_def split: option.split)
qed

text \<open>Setting quotas stores a text among them, so reading them back always raises.\<close>

lemma mapM_e_raises:
  assumes "x \<in> set xs" and "f x = Inl TypeErr" and "\<And>x e. f x = Inl e \<Longrightarrow> e = TypeErr"
  shows "mapM_e f xs = Inl TypeErr"
  using assms(1,2)
proof (induction xs)
  case (Cons y ys)
  show ?case
  proof (cases "f y")
    case (Inl e)
    with assms(3) [OF Inl] show ?thesis by simp
  next
    case (Inr z)
    with Cons.prems have "x \<in> set ys" using assms(2) by auto
    with Cons.IH assms(2) Inr show ?thesis by simp
  qed
qed simp

lemma remaining_quota_error: "remaining_quota u q = Inl e \<Longrightarrow> e = TypeErr"
  by (cases q) (auto simp: remaining_quota_def split: if_splits option.splits)

lemma get_quotas_raises: "get_tenant_quotas t now (set_tenant_quotas t q stamp s) = Inl TypeErr"
proof -
  let ?q = "dict_set ''updated_at'' (PStr stamp) q"
  have "(''updated_at'', PStr stamp) \<in> set ?q" by (rule dict_get_in) simp
  moreover have "remaining_quota u (''updated_at'', PStr stamp) = Inl TypeErr" for u
    by (simp add: remaining_quota_def)
  ultimately have "mapM_e (remaining_quota u) ?q = Inl TypeErr" for u
    by (rule mapM_e_raises) (rule remaining_quota_error)
  then show ?thesis by (simp add: get_tenant_quotas_def set_tenant_quotas_def dict_get_or_def Let_def)
qed

section \<open>Isolation is shared\<close>

text \<open>
  The name of a namespace keeps one digit of a tenant's id, so all tenants share sixteen of them.
\<close>

definition hex_digits :: string where
  "hex_digits = ''0123456789abcdef''"

lemma namespaces_shared:
  assumes "list_all (\<lambda>t. \<exists>d h. t = ''tenant_'' @ d # h \<and> d \<in> set hex_digits) ts"
  shows "card (set (map (\<lambda>t. the (dict_get (is_namespaces (initialize_compute t tier s)) t)) ts)) \<le> 16"
proof -
  let ?f = "\<lambda>d. ''tenant-tenant_'' @ [d]"
  have "set (map (\<lambda>t. the (dict_get (is_namespaces (initialize_compute t tier s)) t)) ts) \<subseteq> ?f ` set hex_digits"
    using assms by (fastforce simp: initialize_compute_def list_all_iff)
  then have "card (set (map (\<lambda>t. the (dict_get (is_namespaces (initialize_compute t tier s)) t)) ts)) \<le> card (?f ` set hex_digits)"
    by (intro card_mono finite_imageI finite_set)
  also have "\<dots> \<le> card (set hex_digits)" by (rule card_image_le) (rule finite_set)
  also have "\<dots> \<le> length hex_digits" by (rule card_length)
  also have "\<dots> = 16" by (simp add: hex_digits_def)
  finally show ?thesis .
qed

end
