(* ===== verification/MemoryStores.thy ===== *)
theory MemoryStores
  imports Dag CommunicationBus PyString
begin

text \<open>
  The three stores of \<open>src/memory/\<close>, in memory: documents by collection (\<open>vector_store.py\<close>), a graph of
  knowledge (\<open>graph_store.py\<close>) and points in time (\<open>time_series_store.py\<close>). The hash that names a
  document without an id is the parameter \<open>digest\<close>. A point keeps its time as a number of
  microseconds; the code keeps \<open>isoformat()\<close> of it, which \<open>fromisoformat\<close> reads back and whose order
  as strings is the order of times.
\<close>

section \<open>Documents\<close>

text \<open>
  A collection is named by any hashable value; numbers of different types that are equal are the
  same key, so they are kept in one form.
\<close>

definition key_of :: "pyval \<Rightarrow> exn + pyval" where
  "key_of v =
     (case v of
        PList xs \<Rightarrow> Inl TypeErr
      | PDict d \<Rightarrow> Inl TypeErr
      | PBool b \<Rightarrow> Inr (PInt (of_bool b))
      | PFloat r \<Rightarrow> Inr (if r = of_int \<lfloor>r\<rfloor> then PInt \<lfloor>r\<rfloor> else v)
      | _ \<Rightarrow> Inr v)"

record vector_store =
  vs_collections :: "(pyval, (string, pydict) dict) dict"

definition new_vector_store :: vector_store where
  "new_vector_store = \<lparr>vs_collections = []\<rparr>"

text \<open>\<open>xs[:n]\<close>.\<close>

definition slice_first :: "int \<Rightarrow> 'a list \<Rightarrow> 'a list" where
  "slice_first n xs = (if n \<ge> 0 then take (nat n) xs else take (length xs - nat (- n)) xs)"

definition vector_search :: "pyval \<Rightarrow> int \<Rightarrow> vector_store \<Rightarrow> pydict list" where
  "vector_search c n s =
     (case dict_get (vs_collections s) c of None \<Rightarrow> [] | Some docs \<Rightarrow> slice_first n (dict_values docs))"

definition stored_document :: "string \<Rightarrow> string \<Rightarrow> pydict \<Rightarrow> pydict" where
  "stored_document i stamp doc =
     dict_set ''_inserted_at'' (PStr stamp) (dict_set ''_id'' (PStr i) doc)"

definition put_document :: "pyval \<times> string \<Rightarrow> pydict \<Rightarrow> vector_store \<Rightarrow> vector_store" where
  "put_document k doc s =
     s\<lparr>vs_collections := dict_set (fst k) (dict_set (snd k) doc (dict_get_or (vs_collections s) (fst k) []))
                           (vs_collections s)\<rparr>"

definition vector_insert ::
    "(pydict \<Rightarrow> string) \<Rightarrow> string \<Rightarrow> pyval \<Rightarrow> pydict \<Rightarrow> string option \<Rightarrow> vector_store \<Rightarrow> string \<times> vector_store" where
  "vector_insert digest stamp c doc doc_id s =
     (let i = (case doc_id of Some i \<Rightarrow> if i = [] then digest doc else i | None \<Rightarrow> digest doc)
      in (i, put_document (c, i) (stored_document i stamp doc) s))"

definition vector_get :: "pyval \<Rightarrow> string \<Rightarrow> vector_store \<Rightarrow> pydict option" where
  "vector_get c i s = (case dict_get (vs_collections s) c of None \<Rightarrow> None | Some docs \<Rightarrow> dict_get docs i)"

definition vector_delete :: "pyval \<Rightarrow> string \<Rightarrow> vector_store \<Rightarrow> bool \<times> vector_store" where
  "vector_delete c i s =
     (case dict_get (vs_collections s) c of
        None \<Rightarrow> (False, s)
      | Some docs \<Rightarrow>
          if dict_has docs i then (True, s\<lparr>vs_collections := dict_set c (dict_pop i docs) (vs_collections s)\<rparr>)
          else (False, s))"

definition list_collections :: "vector_store \<Rightarrow> pyval list" where
  "list_collections s = dict_keys (vs_collections s)"

definition vector_put_text ::
    "(pydict \<Rightarrow> string) \<Rightarrow> string \<Rightarrow> string \<Rightarrow> pydict \<Rightarrow> vector_store \<Rightarrow> exn + string \<times> vector_store" where
  "vector_put_text digest stamp content metadata s =
     rbind (key_of (dict_get_or metadata ''type'' (PStr ''general'')))
       (\<lambda>c. Inr (vector_insert digest stamp c
                  [(''text'', PStr content), (''metadata'', PDict metadata), (''timestamp'', PStr stamp)] None s))"

section \<open>Graph\<close>

record graph_node =
  gn_label :: string
  gn_properties :: pydict
  gn_created_at :: string
  gn_updated_at :: "string option"

record graph_edge =
  ge_id :: string
  ge_from :: "string \<times> pydict"
  ge_to :: "string \<times> pydict"
  ge_type :: string
  ge_properties :: pydict
  ge_created_at :: string

record graph_store =
  gs_nodes :: "(string, graph_node) dict"
  gs_edges :: "graph_edge list"

definition new_graph_store :: graph_store where
  "new_graph_store = \<lparr>gs_nodes = [], gs_edges = []\<rparr>"

text \<open>The id of a node: a prefix, the number of nodes so far, and the label or topic.\<close>

definition numbered :: "string \<Rightarrow> nat \<Rightarrow> string \<Rightarrow> string" where
  "numbered p n l = p @ nat_str n @ ''_'' @ l"

definition create_node :: "string \<Rightarrow> string \<Rightarrow> pydict \<Rightarrow> graph_store \<Rightarrow> string \<times> graph_store" where
  "create_node stamp label props s =
     (let i = numbered ''node_'' (length (gs_nodes s)) label
      in (i, s\<lparr>gs_nodes := dict_set i \<lparr>gn_label = label, gn_properties = props, gn_created_at = stamp,
                                       gn_updated_at = None\<rparr> (gs_nodes s)\<rparr>))"

definition get_node :: "string \<Rightarrow> graph_store \<Rightarrow> graph_node option" where
  "get_node i s = dict_get (gs_nodes s) i"

text \<open>\<open>d.update(e)\<close>.\<close>

definition dict_update :: "pydict \<Rightarrow> pydict \<Rightarrow> pydict" where
  "dict_update d e = fold (\<lambda>(k, v). dict_set k v) e d"

definition node_matches :: "string \<Rightarrow> pydict \<Rightarrow> graph_node \<Rightarrow> bool" where
  "node_matches label mt n =
     (gn_label n = label \<and> list_all (\<lambda>(k, v). py_eq (dict_get_or (gn_properties n) k PNone) v) mt)"

definition update_node :: "string \<Rightarrow> string \<Rightarrow> pydict \<Rightarrow> pydict \<Rightarrow> graph_store \<Rightarrow> bool \<times> graph_store" where
  "update_node stamp label mt props s =
     (list_ex (node_matches label mt) (dict_values (gs_nodes s)),
      s\<lparr>gs_nodes := map (\<lambda>(i, n). (i, if node_matches label mt n
           then n\<lparr>gn_properties := dict_update (gn_properties n) props, gn_updated_at := Some stamp\<rparr> else n))
         (gs_nodes s)\<rparr>)"

definition create_relationship ::
    "string \<Rightarrow> string \<times> pydict \<Rightarrow> string \<times> pydict \<Rightarrow> string \<Rightarrow> pydict \<Rightarrow> graph_store \<Rightarrow> string \<times> graph_store" where
  "create_relationship stamp src dst ty props s =
     (let i = ''edge_'' @ nat_str (length (gs_edges s))
      in (i, s\<lparr>gs_edges := gs_edges s @
               [\<lparr>ge_id = i, ge_from = src, ge_to = dst, ge_type = ty, ge_properties = props, ge_created_at = stamp\<rparr>]\<rparr>))"

text \<open>\<open>query\<close> and \<open>find_path\<close> return the empty list whatever they are asked.\<close>

definition graph_query :: "string \<Rightarrow> pydict \<Rightarrow> graph_store \<Rightarrow> pydict list" where
  "graph_query q params s = []"

definition find_path :: "string \<Rightarrow> string \<Rightarrow> int \<Rightarrow> graph_store \<Rightarrow> string list list" where
  "find_path start_label end_label max_depth s = []"

definition get_neighbors :: "string \<Rightarrow> string option \<Rightarrow> graph_store \<Rightarrow> graph_node list" where
  "get_neighbors i ty s =
     List.map_filter (\<lambda>e.
       if fst (ge_from e) = i \<and> (case ty of None \<Rightarrow> True | Some t \<Rightarrow> t = [] \<or> ge_type e = t)
       then dict_get (gs_nodes s) (fst (ge_to e)) else None) (gs_edges s)"

definition add_knowledge_node :: "string \<Rightarrow> string \<Rightarrow> string \<Rightarrow> pydict option \<Rightarrow> graph_store \<Rightarrow> string \<times> graph_store" where
  "add_knowledge_node stamp topic content metadata s =
     (let i = numbered ''knowledge_'' (length (gs_nodes s)) topic;
          meta = (case metadata of None \<Rightarrow> [] | Some m \<Rightarrow> m);
          s1 = s\<lparr>gs_nodes := dict_set i
                  \<lparr>gn_label = ''Knowledge'',
                   gn_properties = [(''topic'', PStr topic), (''content'', PStr content),
                     (''metadata'', PDict meta), (''created_at'', PStr stamp)],
                   gn_created_at = stamp, gn_updated_at = None\<rparr> (gs_nodes s)\<rparr>;
          related = filter (\<lambda>(j, n). gn_label n = ''Knowledge'' \<and> j \<noteq> i
                       \<and> py_eq (dict_get_or (gn_properties n) ''topic'' PNone) (PStr topic)) (gs_nodes s1)
      in (i, fold (\<lambda>(j, n) g. snd (create_relationship stamp (''Knowledge'', [(''id'', PStr j)])
                (''Knowledge'', [(''id'', PStr i)]) ''RELATED_TO'' [(''similarity'', PFloat (8 / 10))] g))
             related s1))"

section \<open>Time series\<close>

record ts_point =
  pt_time :: time
  pt_value :: rat
  pt_tags :: "(string, string) dict"

record time_series_store =
  tss_data :: "(string, ts_point list) dict"

definition new_time_series_store :: time_series_store where
  "new_time_series_store = \<lparr>tss_data = []\<rparr>"

definition ts_write :: "time \<Rightarrow> string \<Rightarrow> rat \<Rightarrow> (string, string) dict \<Rightarrow> time_series_store \<Rightarrow> time_series_store" where
  "ts_write t measurement v tags s =
     s\<lparr>tss_data := dict_set measurement
         (append_capped 1000 \<lparr>pt_time = t, pt_value = v, pt_tags = tags\<rparr>
           (dict_get_or (tss_data s) measurement [])) (tss_data s)\<rparr>"

definition has_tags :: "(string, string) dict \<Rightarrow> ts_point \<Rightarrow> bool" where
  "has_tags tags p = list_all (\<lambda>(k, v). dict_get (pt_tags p) k = Some v) tags"

definition ts_query :: "string \<Rightarrow> time \<Rightarrow> time \<Rightarrow> (string, string) dict \<Rightarrow> time_series_store \<Rightarrow> ts_point list" where
  "ts_query measurement t0 t1 tags s =
     filter (\<lambda>p. t0 \<le> pt_time p \<and> pt_time p \<le> t1 \<and> has_tags tags p) (dict_get_or (tss_data s) measurement [])"

text \<open>\<open>sorted(points, key=timestamp, reverse=True)[0]\<close>: the sort is stable.\<close>

definition get_latest :: "string \<Rightarrow> (string, string) dict \<Rightarrow> time_series_store \<Rightarrow> ts_point option" where
  "get_latest measurement tags s =
     (case sort_key (\<lambda>p. - pt_time p) (filter (has_tags tags) (dict_get_or (tss_data s) measurement [])) of
        [] \<Rightarrow> None | p # ps \<Rightarrow> Some p)"

record ts_stats =
  st_min :: rat
  st_max :: rat
  st_avg :: rat
  st_count :: nat

definition get_stats :: "time \<Rightarrow> string \<Rightarrow> time \<Rightarrow> time_series_store \<Rightarrow> ts_stats option" where
  "get_stats now measurement window s =
     (case map pt_value (filter (\<lambda>p. pt_time p \<ge> now - window) (dict_get_or (tss_data s) measurement [])) of
        [] \<Rightarrow> None
      | v # vs \<Rightarrow> Some \<lparr>st_min = fold min vs v, st_max = fold max vs v,
                       st_avg = sum_list (v # vs) / of_nat (length (v # vs)), st_count = length (v # vs)\<rparr>)"

definition list_measurements :: "time_series_store \<Rightarrow> string list" where
  "list_measurements s = dict_keys (tss_data s)"

definition record_event :: "time \<Rightarrow> string \<Rightarrow> (string, string) dict \<Rightarrow> rat \<Rightarrow> time_series_store \<Rightarrow> time_series_store" where
  "record_event now event_type tags v s = ts_write now event_type v tags s"

section \<open>The stores as maps\<close>

interpretation documents: kv_store new_vector_store "\<lambda>s k. vector_get (fst k) (snd k) s" put_document
    "\<lambda>k s. snd (vector_delete (fst k) (snd k) s)"
proof
  show "vector_get (fst k) (snd k) new_vector_store = None" for k
    by (simp add: vector_get_def new_vector_store_def)
  show "vector_get (fst k') (snd k') (put_document k v m) = (if k' = k then Some v else vector_get (fst k') (snd k') m)"
    for k v m k'
    by (cases k; cases k') (auto simp: vector_get_def put_document_def dict_get_or_def split: option.split)
  show "vector_get (fst k') (snd k') (snd (vector_delete (fst k) (snd k) m))
      = (if k' = k then None else vector_get (fst k') (snd k') m)" for k m k'
    by (cases k; cases k') (auto simp: vector_get_def vector_delete_def dict_has_def split: option.splits)
qed

text \<open>What a write leaves of every measurement.\<close>

lemma ts_write_data:
  "dict_get_or (tss_data (ts_write t m v tags s)) m' [] =
     (if m' = m then append_capped 1000 \<lparr>pt_time = t, pt_value = v, pt_tags = tags\<rparr> (dict_get_or (tss_data s) m [])
      else dict_get_or (tss_data s) m' [])"
  by (simp add: ts_write_def dict_get_or_def)

lemma ts_writes_data:
  "dict_get_or (tss_data (fold (\<lambda>(t, m, v, tags). ts_write t m v tags) ws new_time_series_store)) m []
   = last_n 1000 (map (\<lambda>(t, m, v, tags). \<lparr>pt_time = t, pt_value = v, pt_tags = tags\<rparr>)
                    (filter (\<lambda>w. fst (snd w) = m) ws))"
proof (induction ws rule: rev_induct)
  case Nil
  show ?case by (simp add: new_time_series_store_def dict_get_or_def last_n_def)
next
  case (snoc w ws)
  obtain t m' v tags where w: "w = (t, m', v, tags)" by (cases w) auto
  show ?case
    using snoc topic_history.push_run [of "[_]"] by (auto simp: w ts_write_data)
qed

section \<open>The graph's numbering\<close>

lemma takeWhile_number: "takeWhile is_digit (nat_str n @ CHR ''_'' # l) = nat_str n"
proof -
  have "is_digit c" if "c \<in> set (nat_str n)" for c using nat_str_digits [OF that] by auto
  moreover have "\<not> is_digit (CHR ''_'')" by code_simp
  ultimately show ?thesis by (simp add: takeWhile_append2)
qed

lemma numbered_inject:
  assumes "numbered p n l = numbered q m k" "p \<in> {''node_'', ''knowledge_''}" "q \<in> {''node_'', ''knowledge_''}"
  shows "n = m"
proof -
  from assms have "nat_str n @ CHR ''_'' # l = nat_str m @ CHR ''_'' # k"
    unfolding numbered_def insert_iff empty_iff by (elim disjE) (simp_all del: nat_str.simps)
  then have "nat_str n = nat_str m" by (metis takeWhile_number)
  then have "Some (int n) = Some (int m)" by (metis py_int_nat_str)
  then show ?thesis by simp
qed

definition graph_ok :: "graph_store \<Rightarrow> bool" where
  "graph_ok s =
     ((\<forall>n < length (gs_nodes s). \<exists>p l. p \<in> {''node_'', ''knowledge_''} \<and> fst (gs_nodes s ! n) = numbered p n l)
      \<and> (\<forall>n < length (gs_edges s). ge_id (gs_edges s ! n) = ''edge_'' @ nat_str n))"

lemma graph_ok_fresh:
  assumes "graph_ok s" "p \<in> {''node_'', ''knowledge_''}"
  shows "\<not> dict_has (gs_nodes s) (numbered p (length (gs_nodes s)) l)"
proof
  assume "dict_has (gs_nodes s) (numbered p (length (gs_nodes s)) l)"
  then obtain n where n: "n < length (gs_nodes s)" "fst (gs_nodes s ! n) = numbered p (length (gs_nodes s)) l"
    by (auto simp: dict_has_keys dict_keys_def in_set_conv_nth)
  with assms(1) obtain q k where "q \<in> {''node_'', ''knowledge_''}" "numbered q n k = numbered p (length (gs_nodes s)) l"
    unfolding graph_ok_def by metis
  with numbered_inject [of q n k p] assms(2) n(1) show False by blast
qed

lemma graph_ok_distinct:
  assumes "graph_ok s"
  shows "dict_ok (gs_nodes s)"
  unfolding dict_ok_def dict_keys_def distinct_conv_nth
proof (intro allI impI)
  fix i j
  assume ij: "i < length (map fst (gs_nodes s))" "j < length (map fst (gs_nodes s))" "i \<noteq> j"
  from assms ij obtain p k q l where pq: "p \<in> {''node_'', ''knowledge_''}" "q \<in> {''node_'', ''knowledge_''}"
      "fst (gs_nodes s ! i) = numbered p i k" "fst (gs_nodes s ! j) = numbered q j l"
    unfolding graph_ok_def length_map by metis
  with numbered_inject [of p i k q j l] ij show "map fst (gs_nodes s) ! i \<noteq> map fst (gs_nodes s) ! j"
    by auto
qed

lemma graph_add_node_ok:
  assumes "graph_ok s" "p \<in> {''node_'', ''knowledge_''}"
  shows "graph_ok (s\<lparr>gs_nodes := dict_set (numbered p (length (gs_nodes s)) l) v (gs_nodes s)\<rparr>)"
  unfolding graph_ok_def
proof (intro conjI allI impI)
  let ?s = "s\<lparr>gs_nodes := dict_set (numbered p (length (gs_nodes s)) l) v (gs_nodes s)\<rparr>"
  have eq: "gs_nodes ?s = gs_nodes s @ [(numbered p (length (gs_nodes s)) l, v)]"
    using dict_set_new [OF graph_ok_fresh [OF assms]] by simp
  show "\<exists>q k. q \<in> {''node_'', ''knowledge_''} \<and> fst (gs_nodes ?s ! n) = numbered q n k" if "n < length (gs_nodes ?s)" for n
  proof (cases "n < length (gs_nodes s)")
    case True
    with assms(1) show ?thesis unfolding eq graph_ok_def by (simp only: nth_append if_True)
  next
    case False
    with that have "n = length (gs_nodes s)" unfolding eq by simp
    with assms(2) show ?thesis unfolding eq by (simp only: nth_append_length fst_conv) blast
  qed
  show "ge_id (gs_edges ?s ! n) = ''edge_'' @ nat_str n" if "n < length (gs_edges ?s)" for n
    using assms(1) that by (simp add: graph_ok_def)
qed

lemma create_relationship_ok: "graph_ok s \<Longrightarrow> graph_ok (snd (create_relationship st a b ty pr s))"
  by (simp add: graph_ok_def create_relationship_def Let_def nth_append less_Suc_eq)

lemma create_node_ok: "graph_ok s \<Longrightarrow> graph_ok (snd (create_node st label props s))"
  by (simp add: create_node_def Let_def graph_add_node_ok)

lemma update_node_ok: "graph_ok s \<Longrightarrow> graph_ok (snd (update_node st label mt props s))"
  by (simp add: graph_ok_def update_node_def case_prod_beta)

lemma relate_all_ok:
  "graph_ok s \<Longrightarrow> graph_ok (fold (\<lambda>(j, n) g. snd (create_relationship st (a j n) (b j n) ty pr g)) xs s)"
  by (induction xs arbitrary: s) (auto simp: create_relationship_ok)

lemma relationship_nodes: "gs_nodes (snd (create_relationship st a b ty pr s)) = gs_nodes s"
  by (simp add: create_relationship_def Let_def)

lemma relate_all_nodes:
  "gs_nodes (fold (\<lambda>(j, n) g. snd (create_relationship st (a j n) (b j n) ty pr g)) xs s) = gs_nodes s"
  by (induction xs arbitrary: s) (auto simp: relationship_nodes)

lemma add_knowledge_node_ok: "graph_ok s \<Longrightarrow> graph_ok (snd (add_knowledge_node st topic content m s))"
  by (simp add: add_knowledge_node_def Let_def relate_all_ok graph_add_node_ok)

lemma add_knowledge_node_nodes:
  assumes "graph_ok s"
  shows "length (gs_nodes (snd (add_knowledge_node st topic content m s))) = Suc (length (gs_nodes s))"
  using graph_ok_fresh [OF assms, of "''knowledge_''" topic]
  by (simp add: add_knowledge_node_def Let_def relate_all_nodes length_dict_set)

datatype graph_op =
    CreateNode string string pydict
  | UpdateNode string string pydict pydict
  | Relate string "string \<times> pydict" "string \<times> pydict" string pydict
  | AddKnowledge string string string "pydict option"

fun graph_exec :: "graph_op \<Rightarrow> graph_store \<Rightarrow> graph_store" where
  "graph_exec (CreateNode st l p) s = snd (create_node st l p s)"
| "graph_exec (UpdateNode st l mt p) s = snd (update_node st l mt p s)"
| "graph_exec (Relate st a b ty p) s = snd (create_relationship st a b ty p s)"
| "graph_exec (AddKnowledge st t c m) s = snd (add_knowledge_node st t c m s)"

interpretation graph: op_system graph_exec graph_ok
proof
  show "graph_ok s \<Longrightarrow> graph_ok (graph_exec op s)" for s op
    by (cases op) (simp_all add: create_node_ok update_node_ok create_relationship_ok add_knowledge_node_ok)
qed

lemma new_graph_ok: "graph_ok new_graph_store"
  by (simp add: graph_ok_def new_graph_store_def)

fun creates_node :: "graph_op \<Rightarrow> bool" where
  "creates_node (CreateNode st l p) = True"
| "creates_node (AddKnowledge st t c m) = True"
| "creates_node _ = False"

lemma graph_exec_count:
  assumes "graph_ok s"
  shows "length (gs_nodes (graph_exec x s)) = length (gs_nodes s) + of_bool (creates_node x)"
  using graph_ok_fresh [OF assms, of "''node_''"] add_knowledge_node_nodes [OF assms]
  by (cases x) (simp_all add: create_node_def update_node_def relationship_nodes Let_def length_dict_set)

text \<open>
  C40: The graph is well formed after any run of its operations: the ids of the nodes are distinct and
  carry their position, so that a creation never overwrites a node, edges are numbered in order,
  and the number of nodes is the number of creations.
\<close>
theorem graph_well_formed:
  "graph_ok (fold graph_exec ops new_graph_store)
   \<and> dict_ok (gs_nodes (fold graph_exec ops new_graph_store))
   \<and> length (gs_nodes (fold graph_exec ops new_graph_store)) = length (filter creates_node ops)"
proof (intro conjI)
  show ok: "graph_ok (fold graph_exec ops new_graph_store)" by (rule graph.inv_run [OF new_graph_ok])
  then show "dict_ok (gs_nodes (fold graph_exec ops new_graph_store))" by (rule graph_ok_distinct)
  show "length (gs_nodes (fold graph_exec ops new_graph_store)) = length (filter creates_node ops)"
  proof (induction ops rule: rev_induct)
    case Nil
    show ?case by (simp add: new_graph_store_def)
  next
    case (snoc x xs)
    then show ?case by (simp add: graph_exec_count graph.inv_run new_graph_ok)
  qed
qed

section \<open>Reading points back\<close>

lemma latest_is_newest:
  assumes "get_latest m tags s = Some p"
  shows "p \<in> set (dict_get_or (tss_data s) m []) \<and> has_tags tags p
       \<and> (\<forall>q \<in> set (dict_get_or (tss_data s) m []). has_tags tags q \<longrightarrow> pt_time q \<le> pt_time p)"
proof -
  let ?xs = "filter (has_tags tags) (dict_get_or (tss_data s) m [])"
  from assms obtain ps where ps: "sort_key (\<lambda>p. - pt_time p) ?xs = p # ps"
    by (auto simp: get_latest_def split: list.splits)
  have "sorted (map (\<lambda>p. - pt_time p) (p # ps))" unfolding ps [symmetric] by (rule sorted_sort_key)
  moreover have "set (p # ps) = set ?xs" unfolding ps [symmetric] by simp
  ultimately show ?thesis by (auto simp: set_eq_iff)
qed

lemma stats_bounds:
  assumes "get_stats now m w s = Some st"
  shows "st_min st \<le> st_avg st \<and> st_avg st \<le> st_max st \<and> 0 < st_count st"
proof -
  from assms obtain v vs where st: "st = \<lparr>st_min = fold min vs v, st_max = fold max vs v,
      st_avg = sum_list (v # vs) / of_nat (length (v # vs)), st_count = length (v # vs)\<rparr>"
    by (auto simp: get_stats_def split: list.splits)
  have lo: "fold min vs v \<le> x" if "x \<in> set (v # vs)" for x
    using that Min.set_eq_fold [of v vs] by (metis List.finite_set Min_le)
  have hi: "x \<le> fold max vs v" if "x \<in> set (v # vs)" for x
    using that Max.set_eq_fold [of v vs] by (metis List.finite_set Max_ge)
  have "of_nat (length (v # vs)) * fold min vs v \<le> sum_list (v # vs)"
    using sum_list_mono [of "v # vs" "\<lambda>_. fold min vs v" "\<lambda>x. x"] lo by (simp add: sum_list_triv algebra_simps)
  moreover have "sum_list (v # vs) \<le> of_nat (length (v # vs)) * fold max vs v"
    using sum_list_mono [of "v # vs" "\<lambda>x. x" "\<lambda>_. fold max vs v"] hi by (simp add: sum_list_triv algebra_simps)
  ultimately show ?thesis unfolding st by (simp add: field_simps)
qed

text \<open>
  After any sequence of writes a query returns, in order, exactly the points of its time range
  and tags among the newest thousand written to its measurement.
\<close>
theorem query_newest_points:
  "ts_query m t0 t1 tags (fold (\<lambda>(t, m, v, tg). ts_write t m v tg) ws new_time_series_store)
   = filter (\<lambda>p. t0 \<le> pt_time p \<and> pt_time p \<le> t1 \<and> has_tags tags p)
       (last_n 1000 (map (\<lambda>(t, m, v, tg). \<lparr>pt_time = t, pt_value = v, pt_tags = tg\<rparr>)
         (filter (\<lambda>w. fst (snd w) = m) ws)))"
  unfolding ts_query_def ts_writes_data ..

end
