(* ===== verification/MemoryService.thy ===== *)
theory MemoryService
  imports MemoryStores
begin

text \<open>
  \<open>src/memory/memory_service.py\<close> over the three stores, and \<open>src/agents/collaboration/memory_bus.py\<close>, which
  keeps the messages of the agents and files them as knowledge. \<open>json.dumps\<close> is the parameter \<open>dumps\<close>.
  The program always passes the three stores, so the branches for a missing one are left out.
\<close>

section \<open>The service\<close>

record memory =
  mm_vector :: vector_store
  mm_graph :: graph_store
  mm_series :: time_series_store

definition new_memory :: memory where
  "new_memory = \<lparr>mm_vector = new_vector_store, mm_graph = new_graph_store, mm_series = new_time_series_store\<rparr>"

fun agent_capability_value :: "agent_capability \<Rightarrow> string" where
  "agent_capability_value PLANNING = ''planning''"
| "agent_capability_value VERIFICATION = ''verification''"
| "agent_capability_value EXECUTION = ''execution''"
| "agent_capability_value VALIDATION = ''validation''"
| "agent_capability_value REPORTING = ''reporting''"
| "agent_capability_value EXPLOIT = ''exploit''"
| "agent_capability_value NETWORK_SCAN = ''network_scan''"
| "agent_capability_value PORT_SCAN = ''port_scan''"
| "agent_capability_value VULN_SCAN = ''vulnerability_scan''"
| "agent_capability_value WEB_SCAN = ''web_scan''"
| "agent_capability_value CODE_ANALYSIS = ''code_analysis''"
| "agent_capability_value SECRET_DETECTION = ''secret_detection''"
| "agent_capability_value MALWARE_ANALYSIS = ''malware_analysis''"
| "agent_capability_value FORENSICS = ''forensics''"
| "agent_capability_value SOCIAL_ENGINEERING = ''social_engineering''"
| "agent_capability_value CLOUD_SCAN = ''cloud_scan''"
| "agent_capability_value CONTAINER_SCAN = ''container_scan''"
| "agent_capability_value API_SCAN = ''api_scan''"
| "agent_capability_value SERVICE_DETECTION = ''service_detection''"
| "agent_capability_value OS_DETECTION = ''os_detection''"
| "agent_capability_value VERSION_DETECTION = ''version_detection''"
| "agent_capability_value DNS_ENUMERATION = ''dns_enumeration''"
| "agent_capability_value SUBDOMAIN_ENUM = ''subdomain_enum''"
| "agent_capability_value SQL_INJECTION = ''sql_injection''"

fun task_status_value :: "task_status \<Rightarrow> string" where
  "task_status_value TS_PENDING = ''pending''"
| "task_status_value TS_RUNNING = ''running''"
| "task_status_value TS_COMPLETED = ''completed''"
| "task_status_value TS_FAILED = ''failed''"
| "task_status_value TS_SKIPPED = ''skipped''"
| "task_status_value TS_RETRYING = ''retrying''"
| "task_status_value TS_BLOCKED = ''blocked''"
| "task_status_value TS_TIMEOUT = ''timeout''"

definition py_str_opt :: "string option \<Rightarrow> pyval" where
  "py_str_opt v = (case v of None \<Rightarrow> PNone | Some t \<Rightarrow> PStr t)"

definition file_document ::
    "(pydict \<Rightarrow> string) \<Rightarrow> string \<Rightarrow> string \<Rightarrow> pydict \<Rightarrow> string \<Rightarrow> memory \<Rightarrow> memory" where
  "file_document digest stamp collection doc i m =
     m\<lparr>mm_vector := snd (vector_insert digest stamp (PStr collection) doc (Some i) (mm_vector m))\<rparr>"

text \<open>The query text of \<open>find_similar_tasks\<close> reaches a search that does not read it.\<close>

definition find_similar_tasks :: "int \<Rightarrow> memory \<Rightarrow> pydict list" where
  "find_similar_tasks n m = vector_search (PStr ''tasks'') n (mm_vector m)"

definition plan_document :: "string \<Rightarrow> string \<Rightarrow> string option \<Rightarrow> dag \<Rightarrow> string \<Rightarrow> string \<Rightarrow> pydict" where
  "plan_document stamp goal target d user_id tenant_id =
     [(''goal'', PStr goal), (''target'', py_str_opt target), (''dag_id'', PStr (dg_dag_id d)),
      (''process_id'', PStr (dg_process_id d)), (''total_tasks'', PInt (dg_total_tasks d)),
      (''estimated_cost'', PFloat (dg_estimated_total_cost d)), (''created_at'', PStr stamp),
      (''user_id'', PStr user_id), (''tenant_id'', PStr tenant_id),
      (''tags'', PDict (map (\<lambda>(k, v). (k, PStr v)) (dg_tags d))),
      (''task_summary'', PList (map (\<lambda>t. PDict [(''name'', PStr (tn_name t)),
          (''type'', PStr (task_type_value (tn_task_type t))),
          (''capabilities'', PList (map (\<lambda>c. PStr (agent_capability_value c)) (tn_required_capabilities t)))])
        (dict_values (dg_nodes d))))]"

definition store_plan ::
    "(pydict \<Rightarrow> string) \<Rightarrow> string \<Rightarrow> string \<Rightarrow> string option \<Rightarrow> dag \<Rightarrow> string \<Rightarrow> string \<Rightarrow> memory \<Rightarrow> memory" where
  "store_plan digest stamp goal target d user_id tenant_id m =
     file_document digest stamp ''plans'' (plan_document stamp goal target d user_id tenant_id) (dg_dag_id d) m"

definition store_task_result ::
    "(pydict \<Rightarrow> string) \<Rightarrow> string \<Rightarrow> string \<Rightarrow> string \<Rightarrow> pydict \<Rightarrow> memory \<Rightarrow> memory" where
  "store_task_result digest stamp task_id process_id res m =
     file_document digest stamp ''task_results''
       [(''task_id'', PStr task_id), (''process_id'', PStr process_id), (''result'', PDict res), (''timestamp'', PStr stamp)]
       (process_id @ ''_'' @ task_id) m"

definition store_execution_result ::
    "(pydict \<Rightarrow> string) \<Rightarrow> string \<Rightarrow> string \<Rightarrow> pydict \<Rightarrow> memory \<Rightarrow> memory" where
  "store_execution_result digest stamp process_id res m =
     file_document digest stamp ''executions''
       [(''process_id'', PStr process_id), (''result'', PDict res), (''timestamp'', PStr stamp)] process_id m"

definition get_execution_result :: "string \<Rightarrow> memory \<Rightarrow> pydict option" where
  "get_execution_result process_id m = vector_get (PStr ''executions'') process_id (mm_vector m)"

definition store_dag :: "string \<Rightarrow> dag \<Rightarrow> memory \<Rightarrow> memory" where
  "store_dag stamp d m =
     (let g1 = fold (\<lambda>(i, t) g. snd (create_node stamp ''Task''
                 [(''task_id'', PStr i), (''name'', PStr (tn_name t)),
                  (''type'', PStr (task_type_value (tn_task_type t))), (''dag_id'', PStr (dg_dag_id d)),
                  (''process_id'', PStr (dg_process_id d))] g)) (dg_nodes d) (mm_graph m);
          g2 = fold (\<lambda>(a, b) g. snd (create_relationship stamp (''Task'', [(''task_id'', PStr a)])
                 (''Task'', [(''task_id'', PStr b)]) ''DEPENDS_ON''
                 [(''dag_id'', PStr (dg_dag_id d)), (''process_id'', PStr (dg_process_id d))] g)) (dg_edges d) g1
      in m\<lparr>mm_graph := g2\<rparr>)"

definition update_dag :: "string \<Rightarrow> dag \<Rightarrow> memory \<Rightarrow> memory" where
  "update_dag stamp d m =
     m\<lparr>mm_graph := fold (\<lambda>(i, t) g. snd (update_node stamp ''Task'' [(''task_id'', PStr i)]
         [(''status'', PStr (task_status_value (tn_status t))), (''updated_at'', PStr stamp)] g))
       (dg_nodes d) (mm_graph m)\<rparr>"

text \<open>The two graph queries; the store answers every query with the empty list.\<close>

definition find_execution_paths :: "string option \<Rightarrow> string option \<Rightarrow> int \<Rightarrow> memory \<Rightarrow> pydict list" where
  "find_execution_paths a b n m =
     graph_query ''MATCH path = (start:Task)-[:DEPENDS_ON*]->(end:Task)''
       [(''start_type'', py_str_opt a), (''end_type'', py_str_opt b), (''limit'', PInt n)] (mm_graph m)"

definition get_common_patterns :: "int \<Rightarrow> memory \<Rightarrow> pydict list" where
  "get_common_patterns n m =
     graph_query ''MATCH (t1:Task)-[:DEPENDS_ON]->(t2:Task)'' [(''min_freq'', PInt n)] (mm_graph m)"

definition record_metric :: "time \<Rightarrow> string \<Rightarrow> rat \<Rightarrow> (string, string) dict \<Rightarrow> memory \<Rightarrow> memory" where
  "record_metric now name v tags m = m\<lparr>mm_series := ts_write now name v tags (mm_series m)\<rparr>"

definition get_metrics :: "string \<Rightarrow> time \<Rightarrow> time \<Rightarrow> (string, string) dict \<Rightarrow> memory \<Rightarrow> ts_point list" where
  "get_metrics name t0 t1 tags m = ts_query name t0 t1 tags (mm_series m)"

record success_rate =
  sr_rate :: rat
  sr_total :: nat
  sr_successes :: nat
  sr_failures :: nat

definition get_success_rate :: "time \<Rightarrow> string \<Rightarrow> int \<Rightarrow> memory \<Rightarrow> success_rate" where
  "get_success_rate now tenant_id days m =
     (let count = (\<lambda>st. length (ts_query ''execution_completed'' (now - days * day) now
                      [(''tenant_id'', tenant_id), (''status'', st)] (mm_series m)));
          ok = count ''success''; bad = count ''failure''; total = ok + bad
      in \<lparr>sr_rate = (if total > 0 then of_nat ok / of_nat total else 0), sr_total = total,
          sr_successes = ok, sr_failures = bad\<rparr>)"

text \<open>The caller's metadata override the topic, the type and the time, so they also choose the collection.\<close>

definition knowledge_metadata :: "string \<Rightarrow> string \<Rightarrow> pydict \<Rightarrow> pydict" where
  "knowledge_metadata stamp topic metadata =
     dict_update [(''topic'', PStr topic), (''type'', PStr ''knowledge''), (''timestamp'', PStr stamp)] metadata"

definition store_knowledge ::
    "(pydict \<Rightarrow> string) \<Rightarrow> time \<Rightarrow> string \<Rightarrow> string \<Rightarrow> string \<Rightarrow> pydict \<Rightarrow> memory \<Rightarrow> exn option \<times> memory" where
  "store_knowledge digest now stamp topic content metadata m =
     (case vector_put_text digest stamp content (knowledge_metadata stamp topic metadata) (mm_vector m) of
        Inl e \<Rightarrow> (Some e, m)
      | Inr (i, v) \<Rightarrow>
          (None, m\<lparr>mm_vector := v,
             mm_graph := snd (add_knowledge_node stamp topic (slice_first 100 content) (Some metadata) (mm_graph m)),
             mm_series := record_event now ''knowledge_stored'' [(''topic'', topic)] 1 (mm_series m)\<rparr>))"

definition semantic_search :: "int \<Rightarrow> memory \<Rightarrow> pydict list" where
  "semantic_search n m = vector_search (PStr ''knowledge'') n (mm_vector m)"

section \<open>The agents' memory bus\<close>

record agent_bus =
  ab_memory :: memory
  ab_subscribers :: "(string, string list) dict"
  ab_history :: "(string, pydict list) dict"

definition new_agent_bus :: agent_bus where
  "new_agent_bus = \<lparr>ab_memory = new_memory, ab_subscribers = [], ab_history = []\<rparr>"

text \<open>The message keeps its keys; the bus files it in memory under the type it names.\<close>

definition bus_message :: "string \<Rightarrow> string \<Rightarrow> string \<Rightarrow> string \<Rightarrow> pydict \<Rightarrow> pydict" where
  "bus_message mid stamp topic agent message =
     dict_update [(''id'', PStr mid), (''topic'', PStr topic), (''agent_id'', PStr agent), (''timestamp'', PStr stamp)] message"

definition agent_publish ::
    "(pydict \<Rightarrow> string) \<Rightarrow> (pydict \<Rightarrow> string) \<Rightarrow> time \<Rightarrow> string \<Rightarrow> string \<Rightarrow> string \<Rightarrow> string \<Rightarrow> pydict \<Rightarrow> agent_bus
      \<Rightarrow> exn option \<times> agent_bus" where
  "agent_publish digest dumps now mid stamp topic agent message b =
     (let em = bus_message mid stamp topic agent message;
          h = append_capped 100 em (dict_get_or (ab_history b) topic []);
          meta = [(''agent_id'', PStr agent), (''timestamp'', dict_get_or em ''timestamp'' PNone),
                  (''type'', dict_get_or message ''type'' (PStr ''observation''))];
          (e, m) = store_knowledge digest now stamp topic (dumps message) meta (ab_memory b)
      in (e, b\<lparr>ab_history := dict_set topic h (ab_history b), ab_memory := m\<rparr>))"

definition agent_subscribe :: "string \<Rightarrow> string list \<Rightarrow> agent_bus \<Rightarrow> agent_bus" where
  "agent_subscribe agent topics b =
     b\<lparr>ab_subscribers := fold (\<lambda>t s. let l = dict_get_or s t []
         in dict_set t (if agent \<in> set l then l else l @ [agent]) s) topics (ab_subscribers b)\<rparr>"

definition query_knowledge :: "int \<Rightarrow> agent_bus \<Rightarrow> pydict list" where
  "query_knowledge n b = semantic_search n (ab_memory b)"

definition get_topic_history :: "string \<Rightarrow> int \<Rightarrow> agent_bus \<Rightarrow> pydict list" where
  "get_topic_history topic n b = slice_last n (dict_get_or (ab_history b) topic [])"

section \<open>Agents on the bus\<close>

definition share_finding ::
    "(pydict \<Rightarrow> string) \<Rightarrow> (pydict \<Rightarrow> string) \<Rightarrow> time \<Rightarrow> string \<Rightarrow> string \<Rightarrow> string \<Rightarrow> pydict \<Rightarrow> string \<Rightarrow> agent_bus
      \<Rightarrow> exn option \<times> agent_bus" where
  "share_finding digest dumps now mid stamp agent finding topic b =
     agent_publish digest dumps now mid stamp topic agent (dict_update [(''type'', PStr ''finding'')] finding) b"

definition ask_for_help ::
    "(pydict \<Rightarrow> string) \<Rightarrow> (pydict \<Rightarrow> string) \<Rightarrow> time \<Rightarrow> string \<Rightarrow> string \<Rightarrow> string \<Rightarrow> string \<Rightarrow> pydict \<Rightarrow> agent_bus
      \<Rightarrow> (exn + pydict list) \<times> agent_bus" where
  "ask_for_help digest dumps now mid stamp agent question context b =
     (let (e, b1) = agent_publish digest dumps now mid stamp ''help_requests'' agent
                      [(''type'', PStr ''help_request''), (''question'', PStr question), (''context'', PDict context)] b
      in (case e of Some x \<Rightarrow> Inl x | None \<Rightarrow> Inr (query_knowledge 10 b1), b1))"

text \<open>
  \<open>learn_from_history\<close>: the findings of the last fifty messages by target; a target that cannot be
  the key of a dictionary raises.
\<close>

definition learn_message :: "pydict \<Rightarrow> (pyval, pyval list) dict \<Rightarrow> exn + (pyval, pyval list) dict" where
  "learn_message msg patterns =
     (if py_eq (dict_get_or msg ''type'' PNone) (PStr ''finding'')
      then rbind (key_of (dict_get_or msg ''target'' PNone))
             (\<lambda>t. Inr (dict_set t (dict_get_or patterns t [] @ [dict_get_or msg ''finding'' PNone]) patterns))
      else Inr patterns)"

definition learn_from_history :: "string \<Rightarrow> agent_bus \<Rightarrow> exn + (pyval, pyval list) dict" where
  "learn_from_history topic b = foldM_e learn_message (get_topic_history topic 50 b) []"

section \<open>Runs of the service\<close>

datatype memory_op =
    StorePlan string string "string option" dag string string
  | StoreTaskResult string string string pydict
  | StoreExecution string string pydict
  | StoreDag string dag
  | UpdateDag string dag
  | RecordMetric time string rat "(string, string) dict"
  | StoreKnowledge time string string string pydict

fun memory_exec :: "(pydict \<Rightarrow> string) \<Rightarrow> memory_op \<Rightarrow> memory \<Rightarrow> memory" where
  "memory_exec h (StorePlan st g t d u n) m = store_plan h st g t d u n m"
| "memory_exec h (StoreTaskResult st i p r) m = store_task_result h st i p r m"
| "memory_exec h (StoreExecution st p r) m = store_execution_result h st p r m"
| "memory_exec h (StoreDag st d) m = store_dag st d m"
| "memory_exec h (UpdateDag st d) m = update_dag st d m"
| "memory_exec h (RecordMetric now name v tags) m = record_metric now name v tags m"
| "memory_exec h (StoreKnowledge now st topic c meta) m = snd (store_knowledge h now st topic c meta m)"

text \<open>The collection an operation files a document in, and the measurement it writes.\<close>

definition knowledge_type :: "pydict \<Rightarrow> pyval" where
  "knowledge_type meta = dict_get_or (knowledge_metadata [] [] meta) ''type'' PNone"

fun files_in :: "memory_op \<Rightarrow> pyval" where
  "files_in (StorePlan st g t d u n) = PStr ''plans''"
| "files_in (StoreTaskResult st i p r) = PStr ''task_results''"
| "files_in (StoreExecution st p r) = PStr ''executions''"
| "files_in (StoreKnowledge now st topic c meta) = knowledge_type meta"
| "files_in _ = PNone"

fun measures :: "memory_op \<Rightarrow> string" where
  "measures (RecordMetric now name v tags) = name"
| "measures _ = ''knowledge_stored''"

lemma dict_get_update:
  "dict_get (dict_update d e) k = (case map_of (rev e) k of None \<Rightarrow> dict_get d k | Some v \<Rightarrow> Some v)"
  unfolding dict_update_def
  by (induction e rule: rev_induct) (auto split: option.splits)

lemma knowledge_metadata_type:
  "dict_get_or (knowledge_metadata st topic meta) ''type'' x = knowledge_type meta"
  by (simp add: knowledge_type_def knowledge_metadata_def dict_get_or_def dict_get_update dict_get_Cons split: option.split)

lemma key_of_str: "key_of v = Inr (PStr t) \<longleftrightarrow> v = PStr t"
  by (cases v) (auto simp: key_of_def)

lemma put_document_other:
  "c \<noteq> c' \<Longrightarrow> dict_get (vs_collections (put_document (c', i) d v)) c = dict_get (vs_collections v) c"
  by (simp add: put_document_def)

lemma knowledge_collection:
  assumes "knowledge_type meta \<noteq> PStr t"
  shows "dict_get (vs_collections (mm_vector (snd (store_knowledge h now st topic c meta m)))) (PStr t)
       = dict_get (vs_collections (mm_vector m)) (PStr t)"
proof (cases "key_of (knowledge_type meta)")
  case (Inl e)
  then show ?thesis by (simp add: store_knowledge_def vector_put_text_def knowledge_metadata_type)
next
  case (Inr k)
  with assms key_of_str [of "knowledge_type meta" t] have "PStr t \<noteq> k" by auto
  with Inr show ?thesis
    by (simp add: store_knowledge_def vector_put_text_def knowledge_metadata_type vector_insert_def Let_def put_document_other)
qed

lemma collection_frame:
  assumes "files_in op \<noteq> PStr t"
  shows "dict_get (vs_collections (mm_vector (memory_exec h op m))) (PStr t) = dict_get (vs_collections (mm_vector m)) (PStr t)"
  using assms
  by (cases op) (simp_all add: knowledge_collection store_plan_def store_task_result_def store_execution_result_def file_document_def
      vector_insert_def Let_def put_document_other store_dag_def update_dag_def record_metric_def)

lemma collection_frame_run:
  assumes "list_all (\<lambda>op. files_in op \<noteq> PStr t) ops"
  shows "dict_get (vs_collections (mm_vector (fold (memory_exec h) ops m))) (PStr t) = dict_get (vs_collections (mm_vector m)) (PStr t)"
  using assms by (induction ops arbitrary: m) (auto simp: collection_frame)

lemma series_frame:
  assumes "measures op \<noteq> name" "name \<noteq> ''knowledge_stored''"
  shows "dict_get (tss_data (mm_series (memory_exec h op m))) name = dict_get (tss_data (mm_series m)) name"
  using assms
  by (cases op) (auto simp: store_plan_def store_task_result_def store_execution_result_def file_document_def
      store_dag_def update_dag_def record_metric_def ts_write_def store_knowledge_def record_event_def Let_def
      split: sum.split prod.split)

lemma series_frame_run:
  assumes "list_all (\<lambda>op. measures op \<noteq> name) ops" "name \<noteq> ''knowledge_stored''"
  shows "dict_get (tss_data (mm_series (fold (memory_exec h) ops m))) name = dict_get (tss_data (mm_series m)) name"
  using assms by (induction ops arbitrary: m) (auto simp: series_frame)

section \<open>What memory gives back\<close>

text \<open>
  The planner's search for similar tasks finds nothing in any run of the memory service: no
  operation but knowledge filed under the type \<open>tasks\<close> reaches the collection it reads.
\<close>
theorem similar_tasks_never_found:
  assumes "list_all (\<lambda>op. files_in op \<noteq> PStr ''tasks'') ops"
  shows "find_similar_tasks n (fold (memory_exec h) ops new_memory) = []"
  using collection_frame_run [OF assms, of h new_memory]
  by (simp add: find_similar_tasks_def vector_search_def new_memory_def new_vector_store_def)

theorem similar_tasks_never_found_witness:
  "find_similar_tasks 5 (fold (memory_exec (\<lambda>d. ''h''))
     [StoreTaskResult ''t0'' ''task_1'' ''p1'' [(''status'', PStr ''success'')],
      StoreKnowledge 0 ''t0'' ''findings'' ''{}'' [(''type'', PStr ''finding'')]] new_memory) = []"
  by (rule similar_tasks_never_found) (simp, code_simp)

text \<open>
  The success rate of every tenant is 0 over 0 executions in any run that does not write the
  measurement \<open>execution_completed\<close>, which nothing in the program writes.
\<close>
theorem success_rate_always_zero:
  assumes "list_all (\<lambda>op. measures op \<noteq> ''execution_completed'') ops"
  shows "get_success_rate now tenant days (fold (memory_exec h) ops new_memory)
       = \<lparr>sr_rate = 0, sr_total = 0, sr_successes = 0, sr_failures = 0\<rparr>"
  using series_frame_run [OF assms, of h new_memory]
  by (simp add: get_success_rate_def ts_query_def dict_get_or_def new_memory_def new_time_series_store_def)

theorem success_rate_always_zero_witness:
  "get_success_rate 0 ''t'' 30 (fold (memory_exec (\<lambda>d. ''h'')) [RecordMetric 0 ''cpu'' 1 []] new_memory)
     = \<lparr>sr_rate = 0, sr_total = 0, sr_successes = 0, sr_failures = 0\<rparr>"
  by (rule success_rate_always_zero) simp

text \<open>
  The result of an execution is read back after any later operations that do not file another
  document among the results of executions.
\<close>
theorem execution_result_roundtrip:
  assumes "pid \<noteq> []" and "list_all (\<lambda>op. files_in op \<noteq> PStr ''executions'') ops"
  shows "get_execution_result pid (fold (memory_exec h) ops (store_execution_result h stamp pid res m))
       = Some [(''process_id'', PStr pid), (''result'', PDict res), (''timestamp'', PStr stamp),
               (''_id'', PStr pid), (''_inserted_at'', PStr stamp)]"
proof -
  let ?m = "store_execution_result h stamp pid res m"
  have "vector_get (PStr ''executions'') pid (mm_vector (fold (memory_exec h) ops ?m))
      = vector_get (PStr ''executions'') pid (mm_vector ?m)"
    using collection_frame_run [OF assms(2), of h ?m] by (simp add: vector_get_def)
  with assms(1) show ?thesis
    using documents.get_put [of "(PStr ''executions'', pid)"]
    by (simp add: get_execution_result_def store_execution_result_def file_document_def vector_insert_def Let_def
        stored_document_def dict_set_def)
qed

theorem execution_result_roundtrip_witness:
  "get_execution_result ''p1'' (fold (memory_exec (\<lambda>d. ''h'')) [StoreTaskResult ''t1'' ''a'' ''p1'' []]
     (store_execution_result (\<lambda>d. ''h'') ''t0'' ''p1'' [] new_memory))
   = Some [(''process_id'', PStr ''p1''), (''result'', PDict []), (''timestamp'', PStr ''t0''),
           (''_id'', PStr ''p1''), (''_inserted_at'', PStr ''t0'')]"
  by (rule execution_result_roundtrip) simp_all

section \<open>The graph of the service\<close>

text \<open>Edges name the label of a node where the search for neighbours expects its id.\<close>

definition labels_only :: "graph_store \<Rightarrow> bool" where
  "labels_only s =
     (graph_ok s \<and> (\<forall>e \<in> set (gs_edges s). fst (ge_from e) \<in> {''Task'', ''Knowledge''} \<and> fst (ge_to e) \<in> {''Task'', ''Knowledge''}))"

lemma labels_only_create_node: "labels_only s \<Longrightarrow> labels_only (snd (create_node st l p s))"
  using create_node_ok [of s] by (simp add: labels_only_def create_node_def Let_def)

lemma labels_only_update_node: "labels_only s \<Longrightarrow> labels_only (snd (update_node st l mt p s))"
  using update_node_ok [of s] by (simp add: labels_only_def update_node_def)

lemma labels_only_relate:
  "labels_only s \<Longrightarrow> fst a \<in> {''Task'', ''Knowledge''} \<Longrightarrow> fst b \<in> {''Task'', ''Knowledge''} \<Longrightarrow>
     labels_only (snd (create_relationship st a b ty p s))"
  using create_relationship_ok [of s] by (simp add: labels_only_def create_relationship_def Let_def ball_Un)

lemma labels_only_add_node:
  "labels_only s \<Longrightarrow> p \<in> {''node_'', ''knowledge_''} \<Longrightarrow>
     labels_only (s\<lparr>gs_nodes := dict_set (numbered p (length (gs_nodes s)) l) v (gs_nodes s)\<rparr>)"
  using graph_add_node_ok [of s p l v] by (simp add: labels_only_def)

lemma labels_only_fold:
  "labels_only s \<Longrightarrow> (\<And>x s. labels_only s \<Longrightarrow> labels_only (f x s)) \<Longrightarrow> labels_only (fold f xs s)"
  by (rule fold_invariant [where Q = "\<lambda>_. True"]) simp_all

lemma labels_only_knowledge: "labels_only s \<Longrightarrow> labels_only (snd (add_knowledge_node st topic content m s))"
  unfolding add_knowledge_node_def Let_def snd_conv
  by (rule labels_only_fold) (simp_all add: labels_only_add_node labels_only_relate case_prod_beta)

lemma labels_only_store_dag: "labels_only (mm_graph m) \<Longrightarrow> labels_only (mm_graph (store_dag st d m))"
  by (auto simp: store_dag_def Let_def labels_only_create_node labels_only_relate intro!: labels_only_fold split: prod.splits)

lemma labels_only_update_dag: "labels_only (mm_graph m) \<Longrightarrow> labels_only (mm_graph (update_dag st d m))"
  by (auto simp: update_dag_def labels_only_update_node intro!: labels_only_fold split: prod.splits)

lemma labels_only_exec: "labels_only (mm_graph m) \<Longrightarrow> labels_only (mm_graph (memory_exec h op m))"
  by (cases op) (auto simp: labels_only_store_dag labels_only_update_dag store_plan_def store_task_result_def store_execution_result_def file_document_def record_metric_def
      store_knowledge_def labels_only_knowledge split: sum.split)

interpretation memory_graph: op_system "memory_exec h" "\<lambda>m. labels_only (mm_graph m)"
  by unfold_locales (rule labels_only_exec)

lemma labels_only_new: "labels_only (mm_graph new_memory)"
  by (simp add: labels_only_def new_memory_def new_graph_ok) (simp add: new_graph_store_def)

lemma label_is_no_node:
  assumes "graph_ok s" "l \<in> {''Task'', ''Knowledge''}"
  shows "dict_get (gs_nodes s) l = None"
proof (rule ccontr)
  assume "dict_get (gs_nodes s) l \<noteq> None"
  then have "dict_has (gs_nodes s) l" by (simp add: dict_has_def)
  then obtain n where n: "n < length (gs_nodes s)" "fst (gs_nodes s ! n) = l"
    by (auto simp: dict_has_keys dict_keys_def in_set_conv_nth)
  with assms(1) obtain p k where "p \<in> {''node_'', ''knowledge_''}" "l = numbered p n k"
    unfolding graph_ok_def by metis
  with assms(2) show False by (auto simp: numbered_def)
qed

text \<open>
  However many plans and findings the service stores, no node of the knowledge graph has a
  neighbour: relationships name the labels \<open>Task\<close> and \<open>Knowledge\<close>, which are never ids of nodes.
\<close>
theorem graph_has_no_neighbours:
  "get_neighbors i ty (mm_graph (fold (memory_exec h) ops new_memory)) = []"
proof -
  let ?s = "mm_graph (fold (memory_exec h) ops new_memory)"
  have "labels_only ?s" by (rule memory_graph.inv_run [OF labels_only_new])
  then have "dict_get (gs_nodes ?s) (fst (ge_to e)) = None" if "e \<in> set (gs_edges ?s)" for e
    using that label_is_no_node [of ?s] by (auto simp: labels_only_def)
  then show ?thesis by (simp add: get_neighbors_def map_filter_def filter_empty_conv)
qed

section \<open>The bus\<close>

text \<open>A publication is one operation of the memory service.\<close>

lemma publish_memory:
  "ab_memory (snd (agent_publish h dumps now mid st topic agent msg b)) =
     memory_exec h (StoreKnowledge now st topic (dumps msg)
       [(''agent_id'', PStr agent), (''timestamp'', dict_get_or (bus_message mid st topic agent msg) ''timestamp'' PNone),
        (''type'', dict_get_or msg ''type'' (PStr ''observation''))]) (ab_memory b)"
  by (simp add: agent_publish_def Let_def case_prod_beta)

lemma publish_history:
  "dict_get_or (ab_history (snd (agent_publish h dumps now mid st topic agent msg b))) t [] =
     (if t = topic then append_capped 100 (bus_message mid st topic agent msg) (dict_get_or (ab_history b) topic [])
      else dict_get_or (ab_history b) t [])"
  by (simp add: agent_publish_def Let_def case_prod_beta dict_get_or_def)

interpretation bus_history: bounded_log "append_capped 100" 100
  by unfold_locales (simp_all add: append_capped_eq)

lemma publish_run_history:
  "dict_get_or (ab_history (fold (\<lambda>(now, mid, st, topic, agent, msg) b.
       snd (agent_publish h dumps now mid st topic agent msg b)) ps new_agent_bus)) t []
   = last_n 100 (map (\<lambda>(now, mid, st, topic, agent, msg). bus_message mid st topic agent msg)
       (filter (\<lambda>(now, mid, st, topic, agent, msg). topic = t) ps))"
proof (induction ps rule: rev_induct)
  case Nil
  show ?case by (simp add: new_agent_bus_def dict_get_or_def last_n_def)
next
  case (snoc p ps)
  then show ?case
    using bus_history.push_run [of "[_]"] by (cases p) (auto simp: publish_history)
qed

text \<open>
  An agent that asks for help is answered with nothing when no message named the type
  \<open>knowledge\<close>: the bus files a message under its own type, the search reads another collection.
\<close>
theorem help_finds_nothing:
  assumes "ab_memory b = fold (memory_exec h) ops new_memory"
    and "list_all (\<lambda>op. files_in op \<noteq> PStr ''knowledge'') ops"
  shows "fst (ask_for_help h dumps now mid st agent question ctx b) = Inr []"
proof -
  let ?meta = "[(''agent_id'', PStr agent), (''timestamp'', PStr st), (''type'', PStr ''help_request'')]"
  have ty: "knowledge_type ?meta = PStr ''help_request''"
    by (simp add: knowledge_type_def knowledge_metadata_def dict_get_or_def dict_get_update dict_get_Cons)
  have e: "fst (store_knowledge h now st topic c ?meta m) = None" for topic c m
    by (simp add: store_knowledge_def vector_put_text_def knowledge_metadata_type ty key_of_def Let_def case_prod_beta)
  let ?op = "StoreKnowledge now st ''help_requests'' (dumps [(''type'', PStr ''help_request''), (''question'', PStr question), (''context'', PDict ctx)]) ?meta"
  have stamp: "dict_get_or (bus_message mid st ''help_requests'' agent
      [(''type'', PStr ''help_request''), (''question'', PStr question), (''context'', PDict ctx)]) ''timestamp'' PNone = PStr st"
    by (simp add: bus_message_def dict_get_or_def dict_get_update dict_get_Cons)
  have "dict_get (vs_collections (mm_vector (fold (memory_exec h) (ops @ [?op]) new_memory))) (PStr ''knowledge'') = None"
    by (subst collection_frame_run) (use assms(2) ty in \<open>simp_all add: new_memory_def new_vector_store_def\<close>)
  then show ?thesis
    using e by (simp add: ask_for_help_def agent_publish_def Let_def case_prod_beta assms(1) stamp query_knowledge_def
        semantic_search_def vector_search_def dict_get_or_def [of _ "''type''"] dict_get_Cons)
qed

end
