(* ===== verification/DomainAgents.thy ===== *)
theory DomainAgents
  imports MemoryService ToolRegistry ToolRouter
begin

text \<open>
  \<open>src/domain_agents/base_domain_agent.py\<close> and \<open>src/agents/base_agent.py\<close>: an agent thinks about a task,
  designs a plan of steps, acts through the tool router, verifies, reflects and adapts, and heals
  itself by trying again. The tool router is an argument, a function on a state of its own; so are
  \<open>str\<close> of a value or an exception, the load of a tool and the method \<open>_assess_risk\<close>, which the class
  calls and does not define. Timestamps and the generated execution id are left out.
\<close>

section \<open>State\<close>

record strategy =
  sg_task_type :: string
  sg_tool :: string
  sg_context :: pyval

record failed_strategy =
  fs_task_type :: string
  fs_tool :: string
  fs_error :: exn

record lesson =
  ls_success :: bool
  ls_tool :: string
  ls_error :: "exn option"

record domain_agent =
  da_id :: string
  da_type :: string
  da_capabilities :: "agent_capability list"
  da_learned :: "(string, lesson list) dict"
  da_successful :: "strategy list"
  da_failed :: "failed_strategy list"
  da_threshold :: rat
  da_max_retries :: int

text \<open>What the agent is created with; the configuration gives the threshold and the retries.\<close>

definition default_agent_config :: pydict where
  "default_agent_config =
     [(''confidence_threshold'', PFloat (7 / 10)), (''max_retries'', PInt 3), (''learning_enabled'', PBool True),
      (''collaboration_enabled'', PBool True), (''verification_required'', PBool True),
      (''parallel_execution'', PBool True), (''safety_checks'', PBool True)]"

definition new_domain_agent :: "string \<Rightarrow> string \<Rightarrow> agent_capability list \<Rightarrow> domain_agent" where
  "new_domain_agent i ty caps =
     \<lparr>da_id = i, da_type = ty, da_capabilities = caps, da_learned = [], da_successful = [], da_failed = [],
      da_threshold = 7 / 10, da_max_retries = 3\<rparr>"

definition can_handle :: "agent_capability \<Rightarrow> domain_agent \<Rightarrow> bool" where
  "can_handle c a = (c \<in> set (da_capabilities a))"

text \<open>\<open>BaseAgent\<close>: the counters of an agent, and the test of a task's fields.\<close>

record agent_metadata =
  am_total :: nat
  am_successful :: nat
  am_failed :: nat
  am_last :: "time option"

definition new_agent_metadata :: agent_metadata where
  "new_agent_metadata = \<lparr>am_total = 0, am_successful = 0, am_failed = 0, am_last = None\<rparr>"

definition pre_execution_hook :: "time \<Rightarrow> agent_metadata \<Rightarrow> agent_metadata" where
  "pre_execution_hook now m = m\<lparr>am_total := am_total m + 1, am_last := Some now\<rparr>"

definition post_execution_hook :: "agent_metadata \<Rightarrow> agent_metadata" where
  "post_execution_hook m = m\<lparr>am_successful := am_successful m + 1\<rparr>"

definition error_hook :: "agent_metadata \<Rightarrow> agent_metadata" where
  "error_hook m = m\<lparr>am_failed := am_failed m + 1\<rparr>"

definition agent_success_rate :: "agent_metadata \<Rightarrow> rat" where
  "agent_success_rate m = (if am_total m > 0 then of_nat (am_successful m) / of_nat (am_total m) else 0)"

definition validate_agent_task :: "pydict \<Rightarrow> bool" where
  "validate_agent_task t = list_all (dict_has t) [''task_id'', ''name'', ''parameters'']"

text \<open>The world of an agent: the memory and the bus it reads, the registry, and what is outside.\<close>

type_synonym 's router = "task_node \<Rightarrow> pydict \<Rightarrow> caller \<Rightarrow> 's \<Rightarrow> (exn + pydict) \<times> 's"

record 's agent_world =
  aw_memory :: memory
  aw_bus :: "agent_bus option"
  aw_registry :: tool_registry
  aw_load :: "string \<Rightarrow> rat"
  aw_str :: "pyval \<Rightarrow> string"
  aw_exn_str :: "exn \<Rightarrow> string"
  aw_risk :: "task_node \<Rightarrow> pydict \<Rightarrow> exn + pydict"
  aw_route :: "'s router"
  aw_duration :: "'s \<Rightarrow> rat"

text \<open>The risk assessment of a class that does not define it.\<close>

definition no_risk_method :: "task_node \<Rightarrow> pydict \<Rightarrow> exn + pydict" where
  "no_risk_method t inputs = Inl (AttributeErr ''_assess_risk'')"

section \<open>Python helpers\<close>

definition get_item :: "pydict \<Rightarrow> string \<Rightarrow> exn + pyval" where
  "get_item d k = (case dict_get d k of None \<Rightarrow> Inl (KeyErr k) | Some v \<Rightarrow> Inr v)"

definition get_none :: "pydict \<Rightarrow> string \<Rightarrow> pyval" where
  "get_none d k = dict_get_or d k PNone"

definition or_type_err :: "'a option \<Rightarrow> exn + 'a" where
  "or_type_err x = (case x of None \<Rightarrow> Inl TypeErr | Some y \<Rightarrow> Inr y)"

text \<open>\<open>x.get(k, d)\<close> where \<open>x\<close> may be no dictionary.\<close>

definition attr_get :: "pyval \<Rightarrow> string \<Rightarrow> pyval \<Rightarrow> exn + pyval" where
  "attr_get x k d = (case x of PDict m \<Rightarrow> Inr (dict_get_or m k d) | _ \<Rightarrow> Inl (AttributeErr ''get''))"

definition py_len :: "pyval \<Rightarrow> exn + nat" where
  "py_len v =
     (case v of PStr s \<Rightarrow> Inr (length s) | PList xs \<Rightarrow> Inr (length xs) | PDict d \<Rightarrow> Inr (length d) | _ \<Rightarrow> Inl TypeErr)"

section \<open>Think\<close>

record complexity =
  cx_level :: string
  cx_score :: rat

definition analyze_complexity :: "(pyval \<Rightarrow> string) \<Rightarrow> task_node \<Rightarrow> pydict \<Rightarrow> exn + complexity" where
  "analyze_complexity str t inputs =
     (let target = dict_get_or inputs ''target'' (PStr []);
          size = (case target of PStr s \<Rightarrow> length s | v \<Rightarrow> length (str v))
      in case tn_estimated_duration_seconds t of
           None \<Rightarrow> Inl TypeErr
         | Some dur \<Rightarrow>
             (let score = of_nat (length (tn_required_capabilities t)) * 10 + of_nat (length (tn_parameters t)) * 5
                        + (if tn_dependencies t \<noteq> [] then 20 else 0) + min 20 (of_nat size / 10) + min 30 (of_int dur / 60)
              in Inr \<lparr>cx_level = (if score > 50 then ''high'' else if score > 25 then ''medium'' else ''low''),
                      cx_score = score\<rparr>))"

record recommendation =
  rc_tool :: string
  rc_capability :: string
  rc_confidence :: rat
  rc_params :: pydict
  rc_load :: rat

definition learned_confidence :: "string \<Rightarrow> pyval \<Rightarrow> strategy list \<Rightarrow> rat \<Rightarrow> rat" where
  "learned_confidence name ttype ss c =
     fold (\<lambda>s c. if sg_tool s = name then c + 1 / 10 + (if py_eq (sg_context s) ttype then 5 / 100 else 0) else c) ss c"

definition similar_confidence :: "string \<Rightarrow> pydict \<Rightarrow> rat \<Rightarrow> exn + rat" where
  "similar_confidence name sim c =
     (if py_eq (get_none sim ''tool_used'') (PStr name)
      then (if truthy (get_none sim ''success'')
            then rbind (or_type_err (py_gt (dict_get_or sim ''finding_count'' (PInt 0)) (PInt 5)))
                   (\<lambda>b. Inr (c + 15 / 100 + (if b then 1 / 10 else 0)))
            else Inr (c - 1 / 10))
      else Inr c)"

definition recommend_tool ::
    "(string \<Rightarrow> rat) \<Rightarrow> strategy list \<Rightarrow> pydict \<Rightarrow> pydict list \<Rightarrow> string \<Rightarrow> tool \<Rightarrow> exn + recommendation" where
  "recommend_tool load ss inputs similar cap t =
     rbind (foldM_e (similar_confidence (tl_name t)) similar
              (learned_confidence (tl_name t) (get_none inputs ''target_type'') ss (1 / 2)))
       (\<lambda>c. let l = load (tl_name t); c' = (if l > 8 / 10 then c * (8 / 10) else c)
            in Inr \<lparr>rc_tool = tl_name t, rc_capability = cap, rc_confidence = min 1 c', rc_params = [], rc_load = l\<rparr>)"

text \<open>All recommendations in the order of their creation; then the most confident first, at equal
  confidence the least loaded.\<close>

fun mapM_r :: "('a \<Rightarrow> exn + 'b) \<Rightarrow> 'a list \<Rightarrow> exn + 'b list" where
  "mapM_r f [] = Inr []"
| "mapM_r f (x # xs) = rbind (f x) (\<lambda>y. rbind (mapM_r f xs) (\<lambda>ys. Inr (y # ys)))"

definition recommend_tools ::
    "'s agent_world \<Rightarrow> strategy list \<Rightarrow> task_node \<Rightarrow> pydict \<Rightarrow> pydict list \<Rightarrow> exn + recommendation list" where
  "recommend_tools w ss t inputs similar =
     rbind (mapM_r (\<lambda>(cap, tool). recommend_tool (aw_load w) ss inputs similar cap tool)
              (concat (map (\<lambda>c. map (\<lambda>tool. (agent_capability_value c, tool))
                                  (find_tools_by_capability (agent_capability_value c) None None (aw_registry w)))
                         (tn_required_capabilities t))))
       (\<lambda>rs. Inr (sort_key (\<lambda>r. - rc_confidence r) (sort_key rc_load rs)))"

definition insight_strategy :: "pydict \<Rightarrow> pyval \<Rightarrow> exn + pyval" where
  "insight_strategy insight st =
     (let refl = dict_get_or insight ''reflection'' (PDict [])
      in rbind (attr_get refl ''success'' PNone)
           (\<lambda>ok. if truthy ok then attr_get refl ''strategy_used'' st else Inr st))"

definition set_item :: "string \<Rightarrow> pyval \<Rightarrow> pyval \<Rightarrow> exn + pyval" where
  "set_item k x v = (case v of PDict d \<Rightarrow> Inr (PDict (dict_set k x d)) | _ \<Rightarrow> Inl TypeErr)"

definition select_strategy :: "pydict \<Rightarrow> pydict list \<Rightarrow> pydict list \<Rightarrow> exn + pyval" where
  "select_strategy inputs similar insights =
     (let standard = [(''name'', PStr ''standard''), (''parallelize'', PBool False), (''priority'', PStr ''normal''),
                      (''risk_tolerance'', PStr ''medium'')];
          st = (case filter (\<lambda>t. truthy (get_none t ''success'')) similar of
                  [] \<Rightarrow> standard
                | best # _ \<Rightarrow> dict_set ''parallelize'' (dict_get_or best ''parallelized'' (PBool False))
                               (dict_set ''name'' (dict_get_or best ''strategy'' (PStr ''standard'')) standard))
      in rbind (foldM_e insight_strategy (last_n 5 insights) (PDict st))
           (\<lambda>v. if py_eq (get_none inputs ''risk_level'') (PStr ''high'')
                then rbind (set_item ''risk_tolerance'' (PStr ''low'') v) (set_item ''parallelize'' (PBool False))
                else Inr v))"

record thought =
  th_complexity :: complexity
  th_risk :: pydict
  th_tools :: "recommendation list"
  th_strategy :: pyval
  th_similar :: nat
  th_insights :: nat

definition think_phase :: "'s agent_world \<Rightarrow> domain_agent \<Rightarrow> task_node \<Rightarrow> pydict \<Rightarrow> exn + thought" where
  "think_phase w a t inputs =
     (let similar = find_similar_tasks 10 (aw_memory w);
          insights = (case aw_bus w of None \<Rightarrow> []
                      | Some b \<Rightarrow> get_topic_history (''agent:'' @ da_type a @ '':insights'') 20 b)
      in rbind (analyze_complexity (aw_str w) t inputs) (\<lambda>cx.
         rbind (aw_risk w t inputs) (\<lambda>risk.
         rbind (recommend_tools w (da_successful a) t inputs similar) (\<lambda>recs.
         rbind (select_strategy inputs similar insights) (\<lambda>st.
           Inr \<lparr>th_complexity = cx, th_risk = risk, th_tools = recs, th_strategy = st,
                th_similar = length similar, th_insights = length insights\<rparr>)))))"

section \<open>Design\<close>

datatype plan_step =
    SafetyCheck pyval
  | Execute "recommendation list"
  | OtherStep string "string list"

record execution_plan =
  ep_steps :: "plan_step list"
  ep_parallel :: "pyval list"
  ep_fallbacks :: "string list"

text \<open>The type of a task is compared with \<open>scan\<close> in lower case.\<close>

definition decompose_task :: "task_node \<Rightarrow> plan_step list" where
  "decompose_task t =
     (if task_type_value (tn_task_type t) = ''scan''
      then [OtherStep ''reconnaissance'' [''nmap'', ''gobuster''], OtherStep ''detailed_scan'' [''nuclei'', ''nikto'']]
      else [])"

text \<open>A parallel task is known by its target; its type and tool are always the same.\<close>

definition identify_parallel_tasks :: "task_node \<Rightarrow> pydict \<Rightarrow> pyval list" where
  "identify_parallel_tasks t inputs =
     (if ''port_scan'' \<in> set (map agent_capability_value (tn_required_capabilities t))
      then [get_none inputs ''target''] else [])"

definition design_phase :: "task_node \<Rightarrow> pydict \<Rightarrow> thought \<Rightarrow> exn + execution_plan" where
  "design_phase t inputs th =
     rbind (get_item (th_risk th) ''level'') (\<lambda>level.
     rbind (attr_get (th_strategy th) ''parallelize'' (PBool False)) (\<lambda>par.
       Inr \<lparr>ep_steps =
              (if py_eq level (PStr ''high'') \<or> py_eq level (PStr ''critical'') then [SafetyCheck (get_none inputs ''target'')] else [])
              @ (if cx_level (th_complexity th) = ''high'' then decompose_task t else [Execute (take 3 (th_tools th))]),
            ep_parallel = (if truthy par then identify_parallel_tasks t inputs else []),
            ep_fallbacks = map rc_tool (take 3 (drop 1 (th_tools th)))\<rparr>))"

section \<open>Act\<close>

definition dangerous_patterns :: "string list" where
  "dangerous_patterns = [''localhost'', ''127.0.0.1'', ''0.0.0.0'', ''internal'']"

text \<open>\<open>any(p in target for p in ps)\<close> with the raise of a membership test.\<close>

fun contains_any :: "string list \<Rightarrow> pyval \<Rightarrow> exn + bool" where
  "contains_any [] v = Inr False"
| "contains_any (p # ps) v =
     rbind (or_type_err (py_in (PStr p) v)) (\<lambda>b. if b then Inr True else contains_any ps v)"

definition perform_safety_check :: "pyval \<Rightarrow> exn + bool" where
  "perform_safety_check target =
     rbind (contains_any dangerous_patterns target)
       (\<lambda>bad. if bad then Inr False
              else if \<not> truthy target then Inr False
              else rbind (py_len target) (\<lambda>n. Inr (\<not> n < 3)))"

record step_error =
  se_tool :: string
  se_error :: exn

text \<open>What a step has gathered: the results by tool, the errors, and the state of the router.\<close>

record 's acting =
  ac_results :: pydict
  ac_errors :: "step_error list"
  ac_router :: 's

definition as_string :: "pyval \<Rightarrow> string" where
  "as_string v = (case v of PStr s \<Rightarrow> s | _ \<Rightarrow> [])"

text \<open>\<open>context["user_id"]\<close> and the others: a missing key raises, inside the \<open>try\<close> of the call.\<close>

definition caller_of :: "pydict \<Rightarrow> exn + caller" where
  "caller_of ctx =
     rbind (get_item ctx ''user_id'') (\<lambda>u. rbind (get_item ctx ''tenant_id'') (\<lambda>t. rbind (get_item ctx ''execution_id'') (\<lambda>e.
       Inr \<lparr>ca_user = as_string u, ca_tenant = as_string t, ca_execution = as_string e\<rparr>)))"

definition call_tool :: "'s router \<Rightarrow> task_node \<Rightarrow> pydict \<Rightarrow> pydict \<Rightarrow> 's \<Rightarrow> (exn + pydict) \<times> 's" where
  "call_tool route t params ctx s =
     (case caller_of ctx of Inl e \<Rightarrow> (Inl e, s) | Inr c \<Rightarrow> route t params c s)"

definition note_result :: "string \<Rightarrow> pydict \<Rightarrow> 's \<Rightarrow> 's acting \<Rightarrow> 's acting" where
  "note_result name v s x = x\<lparr>ac_results := dict_set name (PDict v) (ac_results x), ac_router := s\<rparr>"

definition note_error :: "string \<Rightarrow> exn \<Rightarrow> 's \<Rightarrow> 's acting \<Rightarrow> 's acting" where
  "note_error name e s x = x\<lparr>ac_errors := ac_errors x @ [\<lparr>se_tool = name, se_error = e\<rparr>], ac_router := s\<rparr>"

text \<open>The fallbacks after the failure of one tool, up to the first that succeeds.\<close>

fun try_fallbacks :: "'s router \<Rightarrow> task_node \<Rightarrow> pydict \<Rightarrow> pydict \<Rightarrow> string list \<Rightarrow> 's acting \<Rightarrow> 's acting" where
  "try_fallbacks route t inputs ctx [] x = x"
| "try_fallbacks route t inputs ctx (f # fs) x =
     (case call_tool route t (dict_set ''tool'' (PStr f) inputs) ctx (ac_router x) of
        (Inr v, s) \<Rightarrow> note_result f v s x
      | (Inl e, s) \<Rightarrow> try_fallbacks route t inputs ctx fs (note_error f e s x))"

text \<open>The tools of a step, up to the first that succeeds itself: a fallback that succeeds does not end
  the step, and the next tool is run as well.\<close>

fun try_tools ::
    "'s router \<Rightarrow> task_node \<Rightarrow> pydict \<Rightarrow> pydict \<Rightarrow> string list \<Rightarrow> recommendation list \<Rightarrow> 's acting \<Rightarrow> 's acting" where
  "try_tools route t inputs ctx fs [] x = x"
| "try_tools route t inputs ctx fs (r # rs) x =
     (case call_tool route t (dict_update inputs (rc_params r)) ctx (ac_router x) of
        (Inr v, s) \<Rightarrow> note_result (rc_tool r) v s x
      | (Inl e, s) \<Rightarrow> try_tools route t inputs ctx fs rs
                      (try_fallbacks route t inputs ctx fs (note_error (rc_tool r) e s x)))"

definition safety_failed :: exn where
  "safety_failed = py_exn PyException ''Safety check failed''"

fun run_step ::
    "'s router \<Rightarrow> task_node \<Rightarrow> pydict \<Rightarrow> pydict \<Rightarrow> string list \<Rightarrow> plan_step \<Rightarrow> 's acting \<Rightarrow> exn + 's acting" where
  "run_step route t inputs ctx fs (SafetyCheck target) x =
     rbind (perform_safety_check target) (\<lambda>ok. if ok then Inr x else Inl safety_failed)"
| "run_step route t inputs ctx fs (Execute rs) x = Inr (try_tools route t inputs ctx fs rs x)"
| "run_step route t inputs ctx fs (OtherStep k tools) x = Inr x"

text \<open>The name \<open>TaskType\<close> is not imported, so a parallel task is reported as failed and never runs.\<close>

definition parallel_outcome :: "pyval \<Rightarrow> pyval" where
  "parallel_outcome target =
     PDict [(''type'', PStr ''dns_enumeration''), (''success'', PBool False),
            (''error'', PStr ''name 'TaskType' is not defined'')]"

record action =
  an_success :: bool
  an_results :: pydict
  an_errors :: "step_error list"

text \<open>A step that raises ends the attempt; what the earlier calls did to the router stays done.\<close>

fun run_steps ::
    "'s router \<Rightarrow> task_node \<Rightarrow> pydict \<Rightarrow> pydict \<Rightarrow> string list \<Rightarrow> plan_step list \<Rightarrow> 's acting \<Rightarrow> exn option \<times> 's acting" where
  "run_steps route t inputs ctx fs [] x = (None, x)"
| "run_steps route t inputs ctx fs (p # ps) x =
     (case run_step route t inputs ctx fs p x of
        Inl e \<Rightarrow> (Some e, x)
      | Inr x' \<Rightarrow> run_steps route t inputs ctx fs ps x')"

definition act_phase ::
    "'s router \<Rightarrow> task_node \<Rightarrow> execution_plan \<Rightarrow> pydict \<Rightarrow> pydict \<Rightarrow> 's \<Rightarrow> (exn + action) \<times> 's" where
  "act_phase route t plan inputs ctx s =
     (let (e, x) = run_steps route t inputs ctx (ep_fallbacks plan) (ep_steps plan)
                     \<lparr>ac_results = [], ac_errors = [], ac_router = s\<rparr>;
          res = (if ep_parallel plan \<noteq> []
                 then dict_set ''parallel'' (PList (map parallel_outcome (ep_parallel plan))) (ac_results x)
                 else ac_results x)
      in (case e of Some err \<Rightarrow> Inl err
          | None \<Rightarrow> Inr \<lparr>an_success = length (ac_errors x) < length (ep_steps plan), an_results = res,
                         an_errors = ac_errors x\<rparr>,
          ac_router x))"

section \<open>Verify\<close>

text \<open>\<open>x.lower()\<close> of a value that may be no string.\<close>

definition py_lower :: "pyval \<Rightarrow> exn + string" where
  "py_lower v = (case v of PStr s \<Rightarrow> Inr (map lower s) | _ \<Rightarrow> Inl (AttributeErr ''lower''))"

definition verify_nmap_result :: "pydict \<Rightarrow> exn + bool" where
  "verify_nmap_result r = contains_any [''open'', ''PORT''] (dict_get_or r ''stdout'' (PStr []))"

definition verify_nuclei_result :: "pydict \<Rightarrow> exn + bool" where
  "verify_nuclei_result r =
     rbind (py_lower (dict_get_or r ''stdout'' (PStr [])))
       (\<lambda>s. Inr (sublist ''[critical]'' s \<or> sublist ''[high]'' s \<or> sublist ''vulnerability'' s))"

definition verify_result :: "string \<times> pyval \<Rightarrow> nat \<times> nat \<times> string list \<Rightarrow> exn + nat \<times> nat \<times> string list" where
  "verify_result entry st =
     (case (entry, st) of ((name, v), (seen, good, issues)) \<Rightarrow>
        (case v of
           PDict r \<Rightarrow>
             (if py_eq (dict_get_or r ''exit_code'' (PInt 0)) (PInt 0)
              then rbind (if name = ''nmap'' then verify_nmap_result r
                          else if name = ''nuclei'' then verify_nuclei_result r else Inr True)
                     (\<lambda>ok. Inr (seen + 1, good + 1,
                               if ok then issues else issues @ [''Suspicious result from '' @ name]))
              else Inr (seen + 1, good, issues @ [''Tool '' @ name @ '' returned error'']))
         | _ \<Rightarrow> Inr (seen + 1, good, issues @ [''Tool '' @ name @ '' returned error''])))"

record verified =
  vf_action :: action
  vf_score :: rat
  vf_noted :: "(rat \<times> string list) option"

text \<open>The score of a failed action is 0.2, but nothing about it is noted in the result.\<close>

definition verify_phase :: "action \<Rightarrow> exn + verified" where
  "verify_phase a =
     (if \<not> an_success a then Inr \<lparr>vf_action = a, vf_score = 2 / 10, vf_noted = None\<rparr>
      else rbind (foldM_e verify_result (an_results a) (0, 0, []))
             (\<lambda>(seen, good, issues).
                let score = (if seen > 0 then of_nat good / of_nat seen else 0)
                in Inr \<lparr>vf_action = a, vf_score = score, vf_noted = Some (score, issues)\<rparr>))"

section \<open>Reflect and adapt\<close>

record reflection =
  rf_success :: bool
  rf_score :: rat
  rf_lessons :: "lesson list"
  rf_suggestions :: "string list"

definition reflect_phase :: "verified \<Rightarrow> task_node \<Rightarrow> pydict \<Rightarrow> rat \<Rightarrow> domain_agent \<Rightarrow> (exn + reflection) \<times> domain_agent" where
  "reflect_phase v t inputs duration a =
     (let act = vf_action v;
          score = (case vf_noted v of None \<Rightarrow> 0 | Some (s, _) \<Rightarrow> s);
          tools = (if an_success act then dict_keys (an_results act) else []);
          lessons = map (\<lambda>n. \<lparr>ls_success = True, ls_tool = n, ls_error = None\<rparr>) tools
                    @ map (\<lambda>e. \<lparr>ls_success = False, ls_tool = se_tool e, ls_error = Some (se_error e)\<rparr>) (an_errors act);
          a1 = a\<lparr>da_successful := da_successful a @ map (\<lambda>n. \<lparr>sg_task_type = task_type_value (tn_task_type t),
                     sg_tool = n, sg_context = dict_get_or inputs ''target'' (PStr ''unknown'')\<rparr>) tools,
                 da_failed := da_failed a @ map (\<lambda>e. \<lparr>fs_task_type = task_type_value (tn_task_type t),
                     fs_tool = se_tool e, fs_error = se_error e\<rparr>) (an_errors act)\<rparr>
      in (case tn_estimated_duration_seconds t of
            None \<Rightarrow> Inl TypeErr
          | Some est \<Rightarrow> Inr \<lparr>rf_success = an_success act, rf_score = score, rf_lessons = lessons,
              rf_suggestions =
                (if score < 7 / 10 then [''Use alternative tools for better results''] else [])
                @ (if duration > of_int est * (15 / 10) then [''Optimize execution - task took longer than estimated''] else [])\<rparr>,
          a1))"

definition lesson_key :: "lesson \<Rightarrow> string" where
  "lesson_key l = (if ls_success l then ''success'' else ''failure'') @ ''_'' @ ls_tool l"

definition adapt_phase :: "reflection \<Rightarrow> domain_agent \<Rightarrow> domain_agent" where
  "adapt_phase r a =
     (let learned = fold (\<lambda>l m. dict_set (lesson_key l) (dict_get_or m (lesson_key l) [] @ [l]) m) (rf_lessons r) (da_learned a);
          ok = length (da_successful a); seen = ok + length (da_failed a)
      in a\<lparr>da_learned := learned,
           da_threshold := (if seen > 10 then max (5 / 10) (min (9 / 10) (of_nat ok / of_nat seen)) else da_threshold a)\<rparr>)"

end
