(* ===== verification/DomainAgentRuns.thy ===== *)
theory DomainAgentRuns
  imports DomainAgents
begin

text \<open>
  The execution of a task by a domain agent (\<open>execute\<close> and \<open>_self_heal\<close> of
  \<open>src/domain_agents/base_domain_agent.py\<close>): one attempt runs the six phases; an attempt that raises is
  healed and repeated until the count of retries in the context reaches the limit. The result is
  returned with the exceptions of the attempts, which the code logs. The calls nest one per retry;
  their number is the limit of retries, so Python's recursion limit is left out.
  Then the two agents of the program, which replace it.
\<close>

section \<open>One attempt\<close>

text \<open>
  After the six phases the lessons are published with an argument \<open>persist\<close> that the bus does not
  take, and the result calls \<open>to_dict\<close>, which a task node does not have.
\<close>

definition after_acting ::
    "'s agent_world \<Rightarrow> task_node \<Rightarrow> pydict \<Rightarrow> action \<Rightarrow> domain_agent \<Rightarrow> 's \<Rightarrow> (exn + pydict) \<times> domain_agent" where
  "after_acting w t inputs act a s =
     (case verify_phase act of
        Inl e \<Rightarrow> (Inl e, a)
      | Inr v \<Rightarrow>
        (case reflect_phase v t inputs (aw_duration w s) a of
           (Inl e, a1) \<Rightarrow> (Inl e, a1)
         | (Inr r, a1) \<Rightarrow>
             (case aw_bus w of Some b \<Rightarrow> Inl TypeErr | None \<Rightarrow> Inl (AttributeErr ''to_dict''), adapt_phase r a1)))"

definition attempt ::
    "'s agent_world \<Rightarrow> task_node \<Rightarrow> pydict \<Rightarrow> pydict \<Rightarrow> domain_agent \<Rightarrow> 's \<Rightarrow> (exn + pydict) \<times> domain_agent \<times> 's" where
  "attempt w t inputs ctx a s =
     (case rbind (think_phase w a t inputs) (design_phase t inputs) of
        Inl e \<Rightarrow> (Inl e, a, s)
      | Inr plan \<Rightarrow>
        (case act_phase (aw_route w) t plan inputs ctx s of
           (Inl e, s1) \<Rightarrow> (Inl e, a, s1)
         | (Inr act, s1) \<Rightarrow> (case after_acting w t inputs act a s1 of (r, a1) \<Rightarrow> (r, a1, s1))))"

section \<open>Healing\<close>

fun py_double :: "pyval \<Rightarrow> exn + pyval" where
  "py_double (PInt i) = Inr (PInt (i * 2))"
| "py_double (PFloat r) = Inr (PFloat (r * 2))"
| "py_double (PBool b) = Inr (PInt (of_bool b * 2))"
| "py_double (PStr s) = Inr (PStr (s @ s))"
| "py_double (PList xs) = Inr (PList (xs @ xs))"
| "py_double _ = Inl TypeErr"

fun py_succ :: "pyval \<Rightarrow> pyval" where
  "py_succ (PInt i) = PInt (i + 1)"
| "py_succ (PFloat r) = PFloat (r + 1)"
| "py_succ (PBool b) = PInt (of_bool b + 1)"
| "py_succ v = v"

text \<open>The class has no \<open>_get_alternative_tool\<close>, so a missing tool changes nothing.\<close>

definition heal_task :: "string \<Rightarrow> task_node \<Rightarrow> exn + task_node" where
  "heal_task err t =
     (let ps = tn_parameters t in
      if sublist ''timeout'' err
      then rbind (py_double (dict_get_or ps ''timeout'' (PInt 300)))
             (\<lambda>v. Inr (t\<lparr>tn_parameters := dict_set ''timeout'' v ps\<rparr>))
      else if sublist ''not found'' err \<or> sublist ''no tool'' err then Inr t
      else if (sublist ''memory'' err \<or> sublist ''resource'' err) \<and> dict_has ps ''ports''
      then Inr (t\<lparr>tn_parameters := dict_set ''ports'' (PStr ''80,443'') ps\<rparr>)
      else Inr t)"

definition retry_count :: "pydict \<Rightarrow> pyval" where
  "retry_count ctx = dict_get_or ctx ''retry_count'' (PInt 0)"

definition self_heal ::
    "(exn \<Rightarrow> string) \<Rightarrow> int \<Rightarrow> task_node \<Rightarrow> pydict \<Rightarrow> exn \<Rightarrow> exn + (task_node \<times> pydict) option" where
  "self_heal exn_str m t ctx e =
     rbind (or_type_err (py_ge (retry_count ctx) (PInt m)))
       (\<lambda>exhausted. if exhausted then Inr None
          else rbind (heal_task (map lower (exn_str e)) t)
                 (\<lambda>t'. Inr (Some (t', dict_set ''retry_count'' (py_succ (retry_count ctx)) ctx))))"

section \<open>Execution\<close>

definition retry_num :: "pydict \<Rightarrow> rat" where
  "retry_num ctx = (case num_val (retry_count ctx) of None \<Rightarrow> 0 | Some r \<Rightarrow> r)"

lemma after_acting_max: "after_acting w t inputs act a s = (r, a') \<Longrightarrow> da_max_retries a' = da_max_retries a"
  by (auto simp: after_acting_def reflect_phase_def adapt_phase_def Let_def split: sum.splits prod.splits option.splits)

lemma attempt_max: "attempt w t inputs ctx a s = (r, a', s') \<Longrightarrow> da_max_retries a' = da_max_retries a"
  by (auto simp: attempt_def split: sum.splits prod.splits dest: after_acting_max)

lemma py_ge_int:
  "py_ge v (PInt m) = Some b \<longleftrightarrow> (\<exists>r. num_val v = Some r \<and> b = (r \<ge> of_int m))"
  by (cases v) (auto simp: py_ge_def py_le_def)

lemma num_val_succ: "num_val v = Some r \<Longrightarrow> num_val (py_succ v) = Some (r + 1)"
  by (cases v) auto

lemma self_heal_retry:
  assumes "self_heal exn_str m t ctx e = Inr (Some (t', ctx'))"
  shows "retry_num ctx < of_int m \<and> retry_num ctx' = retry_num ctx + 1"
proof -
  from assms obtain b where b: "py_ge (retry_count ctx) (PInt m) = Some b" "\<not> b"
    "ctx' = dict_set ''retry_count'' (py_succ (retry_count ctx)) ctx"
    by (auto simp: self_heal_def or_type_err_def rbind_Inr split: option.splits if_splits)
  then obtain r where "num_val (retry_count ctx) = Some r" "r < of_int m" by (auto simp: py_ge_int)
  with b(3) show ?thesis by (simp add: retry_num_def retry_count_def dict_get_or_def num_val_succ)
qed

lemma retry_measure:
  assumes "attempt w t inputs ctx a s = (r, a1, s1)"
    and "self_heal exn_str (da_max_retries a1) t ctx e = Inr (Some (t', ctx'))"
  shows "nat \<lceil>of_int (da_max_retries a1) - retry_num ctx'\<rceil> < nat \<lceil>of_int (da_max_retries a) - retry_num ctx\<rceil>"
proof -
  from self_heal_retry [OF assms(2)] attempt_max [OF assms(1)]
  have lt: "retry_num ctx < of_int (da_max_retries a)" and eq: "retry_num ctx' = retry_num ctx + 1" by simp_all
  have "\<lceil>of_int (da_max_retries a) - retry_num ctx'\<rceil> = \<lceil>of_int (da_max_retries a) - retry_num ctx - 1\<rceil>"
    by (simp only: eq diff_diff_eq [symmetric])
  also have "\<dots> = \<lceil>of_int (da_max_retries a) - retry_num ctx\<rceil> - 1" by (rule ceiling_diff_one)
  finally show ?thesis using lt attempt_max [OF assms(1)] by simp
qed

function agent_execute ::
    "'s agent_world \<Rightarrow> task_node \<Rightarrow> pydict \<Rightarrow> pydict \<Rightarrow> domain_agent \<Rightarrow> 's
      \<Rightarrow> (exn + pydict) \<times> exn list \<times> task_node \<times> pydict \<times> domain_agent \<times> 's" where
  "agent_execute w t inputs ctx a s =
     (case attempt w t inputs ctx a s of (r, a1, s1) \<Rightarrow>
        (case r of
           Inr v \<Rightarrow> (Inr v, [], t, ctx, a1, s1)
         | Inl e \<Rightarrow>
           (case self_heal (aw_exn_str w) (da_max_retries a1) t ctx e of
              Inl e2 \<Rightarrow> (Inl e2, [e], t, ctx, a1, s1)
            | Inr None \<Rightarrow>
                (Inl (AgentExecutionError [Lit ''Agent '', Lit (da_id a1), Lit '' failed: '', Lit (aw_exn_str w e)]
                        (da_id a1) (tn_task_id t) None), [e], t, ctx, a1, s1)
            | Inr (Some (t', ctx')) \<Rightarrow>
                (case agent_execute w t' inputs ctx' a1 s1 of (r', es, rest) \<Rightarrow> (r', e # es, rest)))))"
  by pat_completeness auto

termination
proof (relation "measure (\<lambda>(w, t, inputs, ctx, a, s). nat \<lceil>of_int (da_max_retries a) - retry_num ctx\<rceil>)", goal_cases)
  case 1
  show ?case by simp
next
  case 2
  then show ?case
    unfolding in_measure prod.case
    by (metis retry_measure)
qed

declare agent_execute.simps [simp del]

section \<open>An attempt always raises\<close>

lemma attempt_raises: "attempt w t inputs ctx a s = (r, a1, s1) \<Longrightarrow> \<exists>e. r = Inl e"
  by (auto simp: attempt_def after_acting_def split: sum.splits prod.splits option.splits)

text \<open>A task whose timeout, if it has one, is a number: doubling it cannot raise, and keeps it one.\<close>

definition timeout_number :: "task_node \<Rightarrow> bool" where
  "timeout_number t = (num_val (dict_get_or (tn_parameters t) ''timeout'' (PInt 300)) \<noteq> None)"

lemma double_number: "num_val v \<noteq> None \<Longrightarrow> \<exists>v'. py_double v = Inr v' \<and> num_val v' \<noteq> None"
  by (cases v) auto

lemma heal_task_ok:
  assumes "timeout_number t"
  shows "\<exists>t'. heal_task err t = Inr t' \<and> timeout_number t' \<and> tn_task_id t' = tn_task_id t"
proof -
  obtain v where "py_double (dict_get_or (tn_parameters t) ''timeout'' (PInt 300)) = Inr v" "num_val v \<noteq> None"
    using double_number assms unfolding timeout_number_def by blast
  with assms show ?thesis by (simp add: heal_task_def timeout_number_def dict_get_or_def Let_def)
qed

lemma retry_count_set: "retry_count (dict_set ''retry_count'' v ctx) = v"
  by (simp add: retry_count_def dict_get_or_def)

lemma self_heal_number:
  assumes "num_val (retry_count ctx) = Some (of_int k)" "timeout_number t"
  shows "if k \<ge> m then self_heal exn_str m t ctx e = Inr None
         else \<exists>t' ctx'. self_heal exn_str m t ctx e = Inr (Some (t', ctx')) \<and> timeout_number t'
              \<and> tn_task_id t' = tn_task_id t \<and> num_val (retry_count ctx') = Some (of_int (k + 1))"
proof -
  have ge: "py_ge (retry_count ctx) (PInt m) = Some (k \<ge> m)" using assms(1) by (simp add: py_ge_int)
  obtain t' where "heal_task (map lower (exn_str e)) t = Inr t'" "timeout_number t'" "tn_task_id t' = tn_task_id t"
    using heal_task_ok [OF assms(2)] by blast
  then show ?thesis
    using num_val_succ [OF assms(1)] by (simp add: self_heal_def ge or_type_err_def retry_count_set)
qed


text \<open>An agent as the program creates it, on a task whose tools all fail.\<close>

definition ex_agent :: domain_agent where
  "ex_agent = new_domain_agent ''recon_agent'' ''recon'' [PORT_SCAN]"

definition ex_scan :: task_node where
  "ex_scan = (new_task_node ''t1'' ''scan'' TT_SCAN [PORT_SCAN])\<lparr>tn_estimated_duration_seconds := Some 60\<rparr>"

definition ex_world :: "nat agent_world" where
  "ex_world = \<lparr>aw_memory = new_memory, aw_bus = None, aw_registry = new_tool_registry, aw_load = (\<lambda>_. 0),
     aw_str = (\<lambda>_. []), aw_exn_str = (\<lambda>_. ''timeout''), aw_risk = (\<lambda>_ _. Inr [(''level'', PStr ''low'')]),
     aw_route = (\<lambda>t p c n. (Inr [(''exit_code'', PInt 0)], n + 1)), aw_duration = (\<lambda>_. 1)\<rparr>"

definition ex_context :: pydict where
  "ex_context = [(''user_id'', PStr ''u''), (''tenant_id'', PStr ''t''), (''execution_id'', PStr ''e'')]"


text \<open>The tools run again on every attempt: four times here, although each run succeeds.\<close>

lemma tools_run_on_every_attempt:
  "snd (snd (snd (snd (snd (agent_execute ex_world ex_scan [] ex_context ex_agent 0))))) = 4"
  by code_simp

section \<open>Which tools run\<close>

lemma think_no_risk: "\<exists>e. think_phase (w\<lparr>aw_risk := no_risk_method\<rparr>) a t inputs = Inl e"
  by (cases "analyze_complexity (aw_str w) t inputs") (simp_all add: think_phase_def no_risk_method_def Let_def)

lemma attempt_no_risk: "\<exists>e. attempt (w\<lparr>aw_risk := no_risk_method\<rparr>) t inputs ctx a s = (Inl e, a, s)"
  using think_no_risk [of w a t inputs] by (auto simp: attempt_def)

text \<open>
  An agent of a class that does not define the risk assessment, as both agents of the program
  inherit it, runs no tool and learns nothing: the router and the agent are left as they were.
\<close>
theorem undefined_risk_runs_nothing:
  "snd (snd (snd (snd (agent_execute (w\<lparr>aw_risk := no_risk_method\<rparr>) t inputs ctx a s)))) = (a, s)"
proof -
  let ?w = "w\<lparr>aw_risk := no_risk_method\<rparr>"
  have "w' = ?w \<Longrightarrow> snd (snd (snd (snd (agent_execute w' t inputs ctx a s)))) = (a, s)" for w'
  proof (induction w' t inputs ctx a s rule: agent_execute.induct)
    case (1 w' t inputs ctx a s)
    obtain e where at: "attempt w' t inputs ctx a s = (Inl e, a, s)"
      using attempt_no_risk [of w t inputs ctx a s] unfolding 1(2) by metis
    show ?case
    proof (cases "\<exists>t' ctx'. self_heal (aw_exn_str w') (da_max_retries a) t ctx e = Inr (Some (t', ctx'))")
      case True
      then obtain t' ctx' where h: "self_heal (aw_exn_str w') (da_max_retries a) t ctx e = Inr (Some (t', ctx'))" by blast
      from 1(1) [OF at [symmetric] refl refl h refl refl 1(2)] show ?thesis
        by (simp add: agent_execute.simps [of w' t] at h case_prod_beta)
    next
      case False
      then show ?thesis by (auto simp: agent_execute.simps [of w' t] at split: sum.split option.split)
    qed
  qed
  then show ?thesis by blast
qed

text \<open>A router that counts its calls.\<close>

definition counted :: "'s router \<Rightarrow> (nat \<times> 's) router" where
  "counted route t p c x = (case route t p c (snd x) of (r, s) \<Rightarrow> (r, (fst x + 1, s)))"

lemma call_counted: "call_tool (counted route) t p ctx x = (r, y) \<Longrightarrow> fst y \<le> fst x + 1"
  by (auto simp: call_tool_def counted_def split: sum.splits prod.splits)

lemma fallbacks_counted:
  "fst (ac_router (try_fallbacks (counted route) t inputs ctx fs x)) \<le> fst (ac_router x) + length fs"
proof (induction fs arbitrary: x)
  case (Cons f fs)
  obtain r y where c: "call_tool (counted route) t (dict_set ''tool'' (PStr f) inputs) ctx (ac_router x) = (r, y)" by (metis surj_pair)
  show ?case
  proof (cases r)
    case (Inl e)
    with call_counted [OF c] Cons [of "note_error f e y x"] show ?thesis by (simp add: c note_error_def)
  next
    case (Inr v)
    with call_counted [OF c] show ?thesis by (simp add: c note_result_def)
  qed
qed simp

lemma tools_counted:
  "fst (ac_router (try_tools (counted route) t inputs ctx fs rs x)) \<le> fst (ac_router x) + length rs * Suc (length fs)"
proof (induction rs arbitrary: x)
  case (Cons r rs)
  obtain v y where c: "call_tool (counted route) t (dict_update inputs (rc_params r)) ctx (ac_router x) = (v, y)" by (metis surj_pair)
  show ?case
  proof (cases v)
    case (Inl e)
    let ?x = "try_fallbacks (counted route) t inputs ctx fs (note_error (rc_tool r) e y x)"
    have "fst (ac_router ?x) \<le> Suc (fst (ac_router x)) + length fs"
      using fallbacks_counted [of route t inputs ctx fs "note_error (rc_tool r) e y x"] call_counted [OF c]
      by (simp add: note_error_def)
    with Cons [of ?x] show ?thesis by (simp add: c Inl)
  next
    case (Inr b)
    with call_counted [OF c] show ?thesis by (simp add: c note_result_def)
  qed
qed simp

fun step_calls :: "nat \<Rightarrow> plan_step \<Rightarrow> nat" where
  "step_calls n (Execute rs) = length rs * Suc n"
| "step_calls n _ = 0"

lemma steps_counted:
  "fst (ac_router (snd (run_steps (counted route) t inputs ctx fs ps x)))
     \<le> fst (ac_router x) + sum_list (map (step_calls (length fs)) ps)"
proof (induction ps arbitrary: x)
  case (Cons p ps)
  show ?case
  proof (cases "run_step (counted route) t inputs ctx fs p x")
    case (Inr x')
    have "fst (ac_router x') \<le> fst (ac_router x) + step_calls (length fs) p"
      using Inr tools_counted by (cases p) (auto simp: rbind_Inr split: if_splits)
    with Cons [of x'] Inr show ?thesis by simp
  qed simp
qed simp

lemma design_calls:
  assumes "design_phase t inputs th = Inr plan"
  shows "sum_list (map (step_calls (length (ep_fallbacks plan))) (ep_steps plan)) \<le> 12"
proof -
  have "min (length xs) 3 * Suc (min (length xs - Suc 0) 3) \<le> 3 * 4" for xs :: "recommendation list"
    by (intro mult_le_mono) simp_all
  then show ?thesis
    using assms by (auto simp: design_phase_def decompose_task_def rbind_Inr)
qed

lemma attempt_counted:
  assumes "aw_route w = counted route" "attempt w t inputs ctx a s = (r, a1, s1)"
  shows "fst s1 \<le> fst s + 12"
proof (cases "rbind (think_phase w a t inputs) (design_phase t inputs)")
  case (Inr plan)
  then obtain th where th: "design_phase t inputs th = Inr plan" by (auto simp: rbind_Inr)
  have "fst (snd (act_phase (counted route) t plan inputs ctx s)) \<le> fst s + 12"
    using steps_counted [of route t inputs ctx "ep_fallbacks plan" "ep_steps plan" "\<lparr>ac_results = [], ac_errors = [], ac_router = s\<rparr>"]
      design_calls [OF th]
    by (simp add: act_phase_def Let_def case_prod_beta)
  then show ?thesis using assms(2) Inr assms(1) by (auto simp: attempt_def split: sum.splits prod.splits)
qed (use assms(2) in \<open>auto simp: attempt_def\<close>)

text \<open>
  C31: An attempt runs at most twelve tools, three recommended ones each followed by three fallbacks, and
  an execution at most twelve per attempt.
\<close>
theorem agent_tool_calls_bounded:
  assumes "aw_route w = counted route"
    and "agent_execute w t inputs ctx a s = (r, es, t', ctx', a', s')"
  shows "fst s' \<le> fst s + 12 * length es"
  using assms
proof (induction w t inputs ctx a s arbitrary: r es t' ctx' a' s' rule: agent_execute.induct)
  case (1 w t inputs ctx a s)
  obtain r1 a1 s1 where at: "attempt w t inputs ctx a s = (r1, a1, s1)" by (metis prod_cases3)
  from attempt_raises [OF at] obtain e where e: "r1 = Inl e" by blast
  note n = attempt_counted [OF 1(2) at]
  show ?case
  proof (cases "\<exists>t' ctx'. self_heal (aw_exn_str w) (da_max_retries a1) t ctx e = Inr (Some (t', ctx'))")
    case True
    then obtain t2 ctx2 where h: "self_heal (aw_exn_str w) (da_max_retries a1) t ctx e = Inr (Some (t2, ctx2))" by blast
    obtain r3 es3 t3 c3 a3 s3 where rec: "agent_execute w t2 inputs ctx2 a1 s1 = (r3, es3, t3, c3, a3, s3)"
      by (metis prod_cases6)
    from 1(1) [OF at [symmetric] refl e h refl refl 1(2) rec] n 1(3) show ?thesis
      by (simp add: agent_execute.simps [of w t] at e h rec) auto
  next
    case False
    with n 1(3) show ?thesis by (auto simp: agent_execute.simps [of w t] at e split: sum.splits option.splits)
  qed
qed

definition ex_counted_world :: "(nat \<times> unit) agent_world" where
  "ex_counted_world = \<lparr>aw_memory = new_memory, aw_bus = None, aw_registry = new_tool_registry, aw_load = (\<lambda>_. 0),
     aw_str = (\<lambda>_. []), aw_exn_str = (\<lambda>_. ''timeout''), aw_risk = (\<lambda>_ _. Inr [(''level'', PStr ''low'')]),
     aw_route = counted (\<lambda>t p c s. (Inl TypeErr, s)), aw_duration = (\<lambda>_. 1)\<rparr>"

theorem agent_tool_calls_bounded_witness:
  "fst (snd (snd (snd (snd (snd (agent_execute ex_counted_world ex_scan [] ex_context ex_agent (0, ())))))))
     \<le> 12 * length (fst (snd (agent_execute ex_counted_world ex_scan [] ex_context ex_agent (0, ()))))"
proof -
  obtain r es t' c' a' s' where run: "agent_execute ex_counted_world ex_scan [] ex_context ex_agent (0, ()) = (r, es, t', c', a', s')"
    by (metis prod_cases6)
  from agent_tool_calls_bounded [OF _ run] run show ?thesis by (simp add: ex_counted_world_def)
qed

section \<open>What counts as success\<close>

lemma fallbacks_errors: "\<exists>es. ac_errors (try_fallbacks route t inputs ctx fs x) = ac_errors x @ es"
proof (induction fs arbitrary: x)
  case (Cons f fs)
  obtain r y where c: "call_tool route t (dict_set ''tool'' (PStr f) inputs) ctx (ac_router x) = (r, y)" by (metis surj_pair)
  show ?case
  proof (cases r)
    case (Inl e)
    from Cons [of "note_error f e y x"] show ?thesis by (auto simp: c Inl note_error_def)
  qed (simp add: c note_result_def)
qed simp

lemma tools_errors: "\<exists>es. ac_errors (try_tools route t inputs ctx fs rs x) = ac_errors x @ es"
proof (induction rs arbitrary: x)
  case (Cons r rs)
  obtain v y where c: "call_tool route t (dict_update inputs (rc_params r)) ctx (ac_router x) = (v, y)" by (metis surj_pair)
  show ?case
  proof (cases v)
    case (Inl e)
    obtain es1 where "ac_errors (try_fallbacks route t inputs ctx fs (note_error (rc_tool r) e y x)) = ac_errors (note_error (rc_tool r) e y x) @ es1"
      using fallbacks_errors by blast
    moreover obtain es2 where "ac_errors (try_tools route t inputs ctx fs rs (try_fallbacks route t inputs ctx fs (note_error (rc_tool r) e y x)))
        = ac_errors (try_fallbacks route t inputs ctx fs (note_error (rc_tool r) e y x)) @ es2"
      using Cons by blast
    ultimately show ?thesis by (simp add: c Inl note_error_def)
  qed (simp add: c note_result_def)
qed simp

lemma tools_no_error:
  "ac_errors (try_tools route t inputs ctx fs (r # rs) x) = ac_errors x
     \<longleftrightarrow> is_ok (fst (call_tool route t (dict_update inputs (rc_params r)) ctx (ac_router x)))"
proof -
  obtain v y where c: "call_tool route t (dict_update inputs (rc_params r)) ctx (ac_router x) = (v, y)" by (metis surj_pair)
  show ?thesis
  proof (cases v)
    case (Inl e)
    obtain es1 where "ac_errors (try_fallbacks route t inputs ctx fs (note_error (rc_tool r) e y x)) = ac_errors (note_error (rc_tool r) e y x) @ es1"
      using fallbacks_errors by blast
    moreover obtain es2 where "ac_errors (try_tools route t inputs ctx fs rs (try_fallbacks route t inputs ctx fs (note_error (rc_tool r) e y x)))
        = ac_errors (try_fallbacks route t inputs ctx fs (note_error (rc_tool r) e y x)) @ es2"
      using tools_errors by blast
    ultimately show ?thesis by (simp add: c Inl note_error_def)
  qed (simp add: c note_result_def)
qed

text \<open>
  On a plan of one execution step the action succeeds exactly when the first tool does: a fallback or
  a later tool that succeeds leaves it failed, although its result is returned.
\<close>
theorem fallback_never_rescues:
  "\<exists>act s'. act_phase route t \<lparr>ep_steps = [Execute (r # rs)], ep_parallel = ps, ep_fallbacks = fs\<rparr> inputs ctx s = (Inr act, s')
     \<and> an_success act = is_ok (fst (call_tool route t (dict_update inputs (rc_params r)) ctx s))"
  using tools_no_error [of route t inputs ctx fs r rs "\<lparr>ac_results = [], ac_errors = [], ac_router = s\<rparr>"]
  by (simp add: act_phase_def Let_def del: try_tools.simps)

section \<open>Confidence\<close>

lemma mapM_r_all: "mapM_r f xs = Inr ys \<Longrightarrow> (\<And>x y. f x = Inr y \<Longrightarrow> P y) \<Longrightarrow> y \<in> set ys \<Longrightarrow> P y"
  by (induction xs arbitrary: ys) (auto simp: rbind_Inr)

lemma recommend_tool_confidence: "recommend_tool load ss inputs similar cap t = Inr r \<Longrightarrow> rc_confidence r \<le> 1"
  by (auto simp: recommend_tool_def rbind_Inr Let_def)

lemma recommendations_ranked:
  assumes "recommend_tools w ss t inputs similar = Inr rs"
  shows "sorted (map (\<lambda>r. - rc_confidence r) rs) \<and> (\<forall>r \<in> set rs. rc_confidence r \<le> 1)"
proof -
  from assms obtain qs where q: "rs = sort_key (\<lambda>r. - rc_confidence r) (sort_key rc_load qs)"
    "mapM_r (\<lambda>(cap, tool). recommend_tool (aw_load w) ss inputs similar cap tool)
              (concat (map (\<lambda>c. map (\<lambda>tool. (agent_capability_value c, tool))
                                  (find_tools_by_capability (agent_capability_value c) None None (aw_registry w)))
                         (tn_required_capabilities t))) = Inr qs"
    by (auto simp: recommend_tools_def rbind_Inr)
  have "rc_confidence r \<le> 1" if "r \<in> set qs" for r
    using mapM_r_all [OF q(2) _ that, of "\<lambda>r. rc_confidence r \<le> 1"] recommend_tool_confidence by fastforce
  then show ?thesis unfolding q(1) by simp
qed

definition threshold_ok :: "domain_agent \<Rightarrow> bool" where
  "threshold_ok a = (5 / 10 \<le> da_threshold a \<and> da_threshold a \<le> 9 / 10)"

lemma adapt_threshold: "threshold_ok a \<Longrightarrow> threshold_ok (adapt_phase r a)"
  unfolding threshold_ok_def adapt_phase_def Let_def by (auto simp: max_def min_def)

lemma reflect_threshold: "threshold_ok a \<Longrightarrow> threshold_ok (snd (reflect_phase v t inputs d a))"
  by (simp add: threshold_ok_def reflect_phase_def Let_def)

lemma after_acting_threshold: "threshold_ok a \<Longrightarrow> threshold_ok (snd (after_acting w t inputs act a s))"
proof (cases "verify_phase act")
  case (Inr v)
  assume a: "threshold_ok a"
  obtain r a1 where rf: "reflect_phase v t inputs (aw_duration w s) a = (r, a1)" by (metis surj_pair)
  with reflect_threshold [OF a, of v t inputs "aw_duration w s"] have "threshold_ok a1" by simp
  then show ?thesis by (cases r) (simp_all add: after_acting_def Inr rf adapt_threshold)
qed (simp add: after_acting_def)

lemma attempt_threshold: "threshold_ok a \<Longrightarrow> threshold_ok (fst (snd (attempt w t inputs ctx a s)))"
  using after_acting_threshold [of a w t inputs]
  by (auto simp: attempt_def case_prod_beta split: sum.splits)

text \<open>
  The confidence threshold of an agent created by default stays between one half and nine tenths
  over any executions.
\<close>
theorem confidence_threshold_bounded:
  assumes "threshold_ok a"
  shows "threshold_ok (fst (snd (snd (snd (snd (agent_execute w t inputs ctx a s))))))"
  using assms
proof (induction w t inputs ctx a s rule: agent_execute.induct)
  case (1 w t inputs ctx a s)
  obtain r1 a1 s1 where at: "attempt w t inputs ctx a s = (r1, a1, s1)" by (metis prod_cases3)
  with attempt_threshold [OF 1(2), of w t inputs ctx s] have a1: "threshold_ok a1" by simp
  show ?case
  proof (cases "\<exists>e t' ctx'. r1 = Inl e \<and> self_heal (aw_exn_str w) (da_max_retries a1) t ctx e = Inr (Some (t', ctx'))")
    case True
    then obtain e t2 ctx2 where h: "r1 = Inl e" "self_heal (aw_exn_str w) (da_max_retries a1) t ctx e = Inr (Some (t2, ctx2))" by blast
    from 1(1) [OF at [symmetric] refl h refl refl a1] show ?thesis
      by (simp add: agent_execute.simps [of w t] at h case_prod_beta)
  next
    case False
    with a1 show ?thesis by (auto simp: agent_execute.simps [of w t] at split: sum.split option.split)
  qed
qed

theorem confidence_threshold_bounded_witness:
  "threshold_ok (fst (snd (snd (snd (snd (agent_execute ex_world ex_scan [] ex_context ex_agent 0))))))"
proof -
  have "threshold_ok ex_agent" by code_simp
  then show ?thesis by (rule confidence_threshold_bounded)
qed

section \<open>The agents of the program\<close>

text \<open>
  The two agents of \<open>src/domain_agents/\<close>, \<open>recon_agent.py\<close> and \<open>scanner_agent.py\<close>: they replace the
  execution of the base class by three phases of their own, without healing. What a phase raises
  reaches the caller. The world is that of the base class; \<open>aw_str\<close> renders a target in a topic.
\<close>

section \<open>Shared parts\<close>

definition py_lines :: "string \<Rightarrow> string list" where
  "py_lines s = split_on (CHR 0x0A) s"

text \<open>\<open>f"recon:{inputs.get('target', 'unknown')}"\<close>.\<close>

definition target_topic :: "(pyval \<Rightarrow> string) \<Rightarrow> string \<Rightarrow> pydict \<Rightarrow> string" where
  "target_topic str pre inputs =
     pre @ (case dict_get_or inputs ''target'' (PStr ''unknown'') of PStr t \<Rightarrow> t | v \<Rightarrow> str v)"

text \<open>Every recommended tool is run; the failures are noted and do not stop the others.\<close>

fun act_all :: "'s router \<Rightarrow> task_node \<Rightarrow> pydict \<Rightarrow> pydict \<Rightarrow> (string \<times> pydict) list \<Rightarrow> 's acting \<Rightarrow> 's acting" where
  "act_all route t inputs ctx [] x = x"
| "act_all route t inputs ctx ((name, ps) # rest) x =
     (case call_tool route t (dict_update inputs ps) ctx (ac_router x) of
        (Inr v, s) \<Rightarrow> act_all route t inputs ctx rest (note_result name v s x)
      | (Inl e, s) \<Rightarrow> act_all route t inputs ctx rest (note_error name e s x))"

definition act_simple :: "'s agent_world \<Rightarrow> task_node \<Rightarrow> pydict \<Rightarrow> pydict \<Rightarrow> (string \<times> pydict) list \<Rightarrow> 's \<Rightarrow> action \<times> 's" where
  "act_simple w t inputs ctx tools s =
     (let x = act_all (aw_route w) t inputs ctx tools \<lparr>ac_results = [], ac_errors = [], ac_router = s\<rparr>
      in (\<lparr>an_success = (ac_errors x = []), an_results = ac_results x, an_errors = ac_errors x\<rparr>, ac_router x))"

text \<open>The lines a tool printed: \<open>stdout\<close> must be a string; without the tool there are none.\<close>

definition printed_lines :: "string \<Rightarrow> action \<Rightarrow> exn + string list" where
  "printed_lines tool act =
     (case dict_get (an_results act) tool of
        None \<Rightarrow> Inr []
      | Some r \<Rightarrow> rbind (attr_get r ''stdout'' (PStr []))
          (\<lambda>v. case v of PStr s \<Rightarrow> Inr (py_lines s) | _ \<Rightarrow> Inl (AttributeErr ''split'')))"

section \<open>The reconnaissance agent\<close>

record open_port =
  op_port :: string
  op_service :: string

definition recon_tools :: "(string \<times> pydict) list" where
  "recon_tools = [(''nmap'', [(''scan_type'', PStr ''quick'')]), (''gobuster'', [(''wordlist'', PStr ''common.txt'')])]"

definition is_open_port :: "string \<Rightarrow> bool" where
  "is_open_port line = (sublist ''/tcp'' line \<and> sublist ''open'' line)"

text \<open>The line holds a word, so \<open>parts[0]\<close> exists.\<close>

definition parse_port :: "string \<Rightarrow> open_port" where
  "parse_port line =
     (let parts = py_words [] line
      in \<lparr>op_port = hd (split_on (CHR ''/'') (hd parts)), op_service = (if length parts > 2 then parts ! 2 else ''unknown'')\<rparr>)"

text \<open>The module does not import \<open>datetime\<close>, which the shared message reads.\<close>

definition recon_reflect :: "agent_bus option \<Rightarrow> action \<Rightarrow> exn + open_port list" where
  "recon_reflect b act =
     rbind (printed_lines ''nmap'' act)
       (\<lambda>ls. let fs = map parse_port (filter is_open_port ls)
             in if b \<noteq> None \<and> fs \<noteq> [] then Inl (NameErr ''datetime'') else Inr fs)"

record 'f scan_outcome =
  so_action :: action
  so_findings :: "'f list"
  so_success :: bool

definition recon_execute :: "'s agent_world \<Rightarrow> task_node \<Rightarrow> pydict \<Rightarrow> pydict \<Rightarrow> 's \<Rightarrow> (exn + open_port scan_outcome) \<times> 's" where
  "recon_execute w t inputs ctx s =
     (case act_simple w t inputs ctx recon_tools s of
        (act, s1) \<Rightarrow>
          (rbind (recon_reflect (aw_bus w) act)
             (\<lambda>fs. Inr \<lparr>so_action = act, so_findings = fs, so_success = (fs \<noteq> [])\<rparr>), s1))"

section \<open>The scanner\<close>

text \<open>The reconnaissance data another agent shared: the first message of the type \<open>findings\<close>, whose
  findings are counted for the log.\<close>

fun first_findings :: "pydict list \<Rightarrow> exn + pydict option" where
  "first_findings [] = Inr None"
| "first_findings (m # ms) =
     (if py_eq (get_none m ''type'') (PStr ''findings'')
      then rbind (py_len (dict_get_or m ''findings'' (PList []))) (\<lambda>n. Inr (Some m))
      else first_findings ms)"

definition scanner_think :: "'s agent_world \<Rightarrow> pydict \<Rightarrow> exn + pydict option" where
  "scanner_think w inputs =
     (case aw_bus w of None \<Rightarrow> Inr None
      | Some b \<Rightarrow> first_findings (get_topic_history (target_topic (aw_str w) ''recon:'' inputs) 5 b))"

definition scanner_tools :: "(string \<times> pydict) list" where
  "scanner_tools = [(''nuclei'', [(''severity'', PStr ''high'')]), (''nikto'', [])]"

definition is_vulnerability :: "string \<Rightarrow> bool" where
  "is_vulnerability line =
     (sublist ''[critical]'' (map lower line) \<or> sublist ''[high]'' (map lower line))"

text \<open>The bus takes no argument \<open>persist\<close>.\<close>

definition scanner_reflect :: "agent_bus option \<Rightarrow> action \<Rightarrow> exn + string list" where
  "scanner_reflect b act =
     rbind (printed_lines ''nuclei'' act)
       (\<lambda>ls. let fs = filter is_vulnerability ls
             in if b \<noteq> None \<and> fs \<noteq> [] then Inl TypeErr else Inr fs)"

definition scanner_execute :: "'s agent_world \<Rightarrow> task_node \<Rightarrow> pydict \<Rightarrow> pydict \<Rightarrow> 's \<Rightarrow> (exn + string scan_outcome) \<times> 's" where
  "scanner_execute w t inputs ctx s =
     (case scanner_think w inputs of
        Inl e \<Rightarrow> (Inl e, s)
      | Inr recon \<Rightarrow>
        (case act_simple w t inputs ctx scanner_tools s of
           (act, s1) \<Rightarrow>
             (rbind (scanner_reflect (aw_bus w) act)
                (\<lambda>fs. Inr \<lparr>so_action = act, so_findings = fs, so_success = True\<rparr>), s1)))"

section \<open>What the agents report\<close>

text \<open>
  With a memory bus, which the program always gives its agents, a reconnaissance or a scan that
  finds something raises: what is returned has no findings, so reconnaissance never succeeds, and a
  scan always does, whether its tools ran or failed.
\<close>
theorem findings_never_returned:
  "(case fst (recon_execute (w\<lparr>aw_bus := Some b\<rparr>) t inputs ctx s) of
      Inl e \<Rightarrow> True | Inr o1 \<Rightarrow> so_findings o1 = [] \<and> \<not> so_success o1)
   \<and> (case fst (scanner_execute (w\<lparr>aw_bus := Some b\<rparr>) t inputs ctx s) of
      Inl e \<Rightarrow> True | Inr o2 \<Rightarrow> so_findings o2 = [] \<and> so_success o2)"
  by (auto simp: recon_execute_def scanner_execute_def recon_reflect_def scanner_reflect_def rbind_def Let_def
      split: sum.splits prod.splits if_splits)

text \<open>
  Without a bus the findings are exactly the lines of the tool that name an open port, or a critical
  or high vulnerability.
\<close>
lemma recon_findings:
  assumes "aw_bus w = None" "act_simple w t inputs ctx recon_tools s = (act, s1)" "dict_get (an_results act) ''nmap'' = Some (PDict r)"
    and "dict_get_or r ''stdout'' (PStr []) = PStr out"
  shows "recon_execute w t inputs ctx s =
    (Inr \<lparr>so_action = act, so_findings = map parse_port (filter is_open_port (py_lines out)),
          so_success = list_ex is_open_port (py_lines out)\<rparr>, s1)"
  using assms
  by (simp add: recon_execute_def recon_reflect_def printed_lines_def attr_get_def Let_def filter_empty_conv list_ex_iff)

lemma act_all_errors:
  assumes "\<And>t p c s. \<exists>e. fst (route t p c s) = Inl e"
  shows "ac_results (act_all route t inputs ctx tools x) = ac_results x"
proof (induction tools arbitrary: x)
  case (Cons p tools)
  obtain n ps where p: "p = (n, ps)" by fastforce
  obtain r s where c: "call_tool route t (dict_update inputs ps) ctx (ac_router x) = (r, s)" by (metis surj_pair)
  have "\<exists>e'. fst (call_tool route t q ctx y) = Inl e'" for q y
    using assms by (simp add: call_tool_def split: sum.split)
  with c obtain e' where "r = Inl e'" by (metis fst_conv)
  with c Cons [of "note_error n e' s x"] show ?case by (simp add: p note_error_def)
qed simp

text \<open>
  A scan whose tools all fail is reported as a success without findings.
\<close>
theorem failed_scan_succeeds:
  assumes "\<And>t p c s. \<exists>e. fst (aw_route w t p c s) = Inl e" and "scanner_think w inputs = Inr recon"
  shows "\<exists>act. fst (scanner_execute w t inputs ctx s) = Inr \<lparr>so_action = act, so_findings = [], so_success = True\<rparr>
            \<and> an_results act = []"
  using act_all_errors [of "aw_route w" t inputs ctx scanner_tools "\<lparr>ac_results = [], ac_errors = [], ac_router = s\<rparr>"] assms(1)
  by (simp add: scanner_execute_def assms(2) act_simple_def Let_def scanner_reflect_def printed_lines_def)

theorem failed_scan_succeeds_witness:
  "\<exists>act. fst (scanner_execute (ex_world\<lparr>aw_route := (\<lambda>t p c n. (Inl TypeErr, n + 1))\<rparr>) ex_scan [] ex_context 0)
      = Inr \<lparr>so_action = act, so_findings = [], so_success = True\<rparr> \<and> an_results act = []"
  by (rule failed_scan_succeeds) (simp_all add: scanner_think_def ex_world_def)

text \<open>A port line as nmap prints it.\<close>

lemma parse_port_example:
  "parse_port ''443/tcp open  https'' = \<lparr>op_port = ''443'', op_service = ''https''\<rparr>"
  "is_open_port ''443/tcp open  https''" "\<not> is_open_port ''53/udp open  dns''"
  by code_simp+

end
