(* ===== verification/GatewayAnalytics.thy ===== *)
theory GatewayAnalytics
  imports RateLimits Exceptions Calendar PyString
begin

text \<open>
  \<open>src/gateway/analytics/usage_tracker.py\<close>: the calls of each tenant and API, what is summed up over
  them, the rate limit read off them, and the reports. The tables are \<open>defaultdict\<close>s: reading an absent
  key puts an empty entry there. The key of an hour is the start of the hour (the source writes it as a
  string and reads it back). The constructor logs through a name the module does not define, so it
  raises; the operations are those of the object it would have made.
  Then the quota enforcer beside it.
\<close>

section \<open>State\<close>

record api_call =
  ac_timestamp :: time
  ac_api :: string
  ac_tenant :: string
  ac_key :: "string option"
  ac_status :: int
  ac_duration :: rat
  ac_error :: "msg option"

record usage_stats =
  us_total :: nat
  us_successful :: nat
  us_failed :: nat
  us_duration :: rat
  us_average :: rat
  us_by_hour :: "(time, nat) dict"
  us_by_api :: "(string, nat) dict"

record usage_tracker =
  ut_usage :: "(string, (string, api_call list) dict) dict"
  ut_stats :: "(string, usage_stats) dict"

definition no_stats :: usage_stats where
  "no_stats = \<lparr>us_total = 0, us_successful = 0, us_failed = 0, us_duration = 0, us_average = 0, us_by_hour = [], us_by_api = []\<rparr>"

definition new_usage_tracker :: "exn + usage_tracker" where
  "new_usage_tracker = Inl (NameErr ''logger'')"

definition empty_tracker :: usage_tracker where
  "empty_tracker = \<lparr>ut_usage = [], ut_stats = []\<rparr>"

definition calls_of :: "string \<Rightarrow> string \<Rightarrow> usage_tracker \<Rightarrow> api_call list" where
  "calls_of tenant api s = dict_get_or (dict_get_or (ut_usage s) tenant []) api []"

definition put_calls :: "string \<Rightarrow> string \<Rightarrow> api_call list \<Rightarrow> usage_tracker \<Rightarrow> usage_tracker" where
  "put_calls tenant api cs s =
     s\<lparr>ut_usage := dict_set tenant (dict_set api cs (dict_get_or (ut_usage s) tenant [])) (ut_usage s)\<rparr>"

definition count_one :: "'k \<Rightarrow> ('k, nat) dict \<Rightarrow> ('k, nat) dict" where
  "count_one k m = dict_set k (dict_get_or m k 0 + 1) m"

definition hour_key :: "time \<Rightarrow> time" where
  "hour_key t = t div hour * hour"

section \<open>Operations\<close>

definition add_call :: "api_call \<Rightarrow> usage_stats \<Rightarrow> usage_stats" where
  "add_call c u =
     (let n = us_total u + 1; d = us_duration u + ac_duration c
      in u\<lparr>us_total := n,
           us_successful := us_successful u + (if 200 \<le> ac_status c \<and> ac_status c < 300 then 1 else 0),
           us_failed := us_failed u + (if 200 \<le> ac_status c \<and> ac_status c < 300 then 0 else 1),
           us_duration := d, us_average := d / of_nat n,
           us_by_hour := count_one (hour_key (ac_timestamp c)) (us_by_hour u),
           us_by_api := count_one (ac_api c) (us_by_api u)\<rparr>)"

definition track_call ::
    "string \<Rightarrow> string \<Rightarrow> string option \<Rightarrow> int \<Rightarrow> rat \<Rightarrow> msg option \<Rightarrow> time \<Rightarrow> usage_tracker \<Rightarrow> usage_tracker" where
  "track_call api tenant key status duration err now s =
     (let c = \<lparr>ac_timestamp = now, ac_api = api, ac_tenant = tenant, ac_key = key, ac_status = status,
               ac_duration = duration, ac_error = err\<rparr>;
          s1 = put_calls tenant api (append_capped 10000 c (calls_of tenant api s)) s
      in s1\<lparr>ut_stats := dict_set tenant (add_call c (dict_get_or (ut_stats s) tenant no_stats)) (ut_stats s)\<rparr>)"

definition tracker_limit :: "string \<Rightarrow> int \<times> int" where
  "tracker_limit s =
     (case split_limit s of
        Some (n, p) \<Rightarrow> (n, dict_get_or period_table p 60)
      | None \<Rightarrow> (100, 60))"

text \<open>The key of the caller is not looked at.\<close>

definition check_usage_limit ::
    "string \<Rightarrow> string \<Rightarrow> string option \<Rightarrow> string \<Rightarrow> time \<Rightarrow> usage_tracker \<Rightarrow> bool \<times> usage_tracker" where
  "check_usage_limit api tenant key rate now s =
     (let (max_requests, secs) = tracker_limit rate;
          recent = filter (\<lambda>c. ac_timestamp c > now - secs * second) (calls_of tenant api s)
      in (int (length recent) < max_requests, put_calls tenant api (calls_of tenant api s) s))"

text \<open>What \<open>get_stats\<close> says of a tenant: a copy of its sums with some entries replaced; nothing but the
  empty table of hours when the tenant has none.\<close>

record stats_view =
  sv_stats :: "usage_stats option"
  sv_total :: "nat option"
  sv_by_api :: "(string, nat) dict option"
  sv_by_hour :: "(time, nat) dict"

definition view_of :: "string option \<Rightarrow> time \<Rightarrow> time \<Rightarrow> usage_stats option \<Rightarrow> exn + stats_view" where
  "view_of api from_t to_t u =
     (let hours = (case u of None \<Rightarrow> [] | Some v \<Rightarrow> filter (\<lambda>(h, n). from_t \<le> h \<and> h \<le> to_t) (us_by_hour v))
      in case (api, u) of
           (None, _) \<Rightarrow> Inr \<lparr>sv_stats = u, sv_total = map_option us_total u, sv_by_api = map_option us_by_api u, sv_by_hour = hours\<rparr>
         | (Some a, None) \<Rightarrow> Inl (KeyErr ''calls_by_api'')
         | (Some a, Some v) \<Rightarrow>
             (let n = dict_get_or (us_by_api v) a 0
              in Inr \<lparr>sv_stats = u, sv_total = Some n, sv_by_api = Some [(a, n)], sv_by_hour = hours\<rparr>))"

definition nonempty :: "string option \<Rightarrow> string option" where
  "nonempty s = (case s of Some [] \<Rightarrow> None | _ \<Rightarrow> s)"

definition get_stats ::
    "string option \<Rightarrow> string option \<Rightarrow> time option \<Rightarrow> time option \<Rightarrow> time \<Rightarrow> usage_tracker
      \<Rightarrow> exn + (string, stats_view) dict" where
  "get_stats api tenant start_time end_time now s =
     (let from_t = (case start_time of None \<Rightarrow> now - 30 * day | Some t \<Rightarrow> t);
          to_t = (case end_time of None \<Rightarrow> now | Some t \<Rightarrow> t);
          tenants = (case nonempty tenant of Some t \<Rightarrow> [t] | None \<Rightarrow> dict_keys (ut_usage s))
      in foldM_e (\<lambda>t r. rbind (view_of (nonempty api) from_t to_t (dict_get (ut_stats s) t)) (\<lambda>v. Inr (dict_set t v r)))
           tenants [])"

record forecast =
  fc_daily :: rat
  fc_month :: rat
  fc_quarter :: rat
  fc_confidence :: rat

definition get_usage_forecast :: "string \<Rightarrow> usage_tracker \<Rightarrow> forecast option" where
  "get_usage_forecast tenant s =
     (case dict_get (ut_stats s) tenant of
        None \<Rightarrow> None
      | Some u \<Rightarrow> (let d = of_nat (us_total u) / 30
                  in Some \<lparr>fc_daily = d, fc_month = d * 30, fc_quarter = d * 90, fc_confidence = 8 / 10\<rparr>))"

definition get_top_apis :: "string \<Rightarrow> nat \<Rightarrow> usage_tracker \<Rightarrow> (string \<times> nat) list" where
  "get_top_apis tenant n s =
     (case dict_get (ut_stats s) tenant of
        None \<Rightarrow> []
      | Some u \<Rightarrow> take n (sort_key (\<lambda>(a, c). - int c) (us_by_api u)))"

section \<open>Contracts\<close>

interpretation tracked_calls: bounded_log "append_capped 10000" 10000
  by unfold_locales (simp_all add: append_capped_eq)

lemma calls_of_put [simp]:
  "calls_of t a (put_calls t' a' cs s) = (if t = t' \<and> a = a' then cs else calls_of t a s)"
  by (simp add: calls_of_def put_calls_def dict_get_or_def)

lemma calls_of_stats [simp]: "calls_of t a (s\<lparr>ut_stats := x\<rparr>) = calls_of t a s"
  by (simp add: calls_of_def)

lemma stats_put [simp]: "ut_stats (put_calls t a cs s) = ut_stats s"
  by (simp add: put_calls_def)

text \<open>A check leaves every list of calls and every sum as they are.\<close>

lemma check_usage_limit_frame [simp]:
  "calls_of t a (snd (check_usage_limit api tenant key rate now s)) = calls_of t a s"
  "ut_stats (snd (check_usage_limit api tenant key rate now s)) = ut_stats s"
  by (simp_all add: check_usage_limit_def Let_def split: prod.split)

datatype tracker_op =
    Track string string "string option" int rat "msg option" time
  | Check string string "string option" string time

fun tracker_exec :: "tracker_op \<Rightarrow> usage_tracker \<Rightarrow> usage_tracker" where
  "tracker_exec (Track a t k st d e now) s = track_call a t k st d e now s"
| "tracker_exec (Check a t k l now) s = snd (check_usage_limit a t k l now s)"

text \<open>The calls a run tracks.\<close>

fun tracked :: "tracker_op \<Rightarrow> api_call list" where
  "tracked (Track a t k st d e now) =
     [\<lparr>ac_timestamp = now, ac_api = a, ac_tenant = t, ac_key = k, ac_status = st, ac_duration = d, ac_error = e\<rparr>]"
| "tracked (Check a t k l now) = []"

definition all_tracked :: "tracker_op list \<Rightarrow> api_call list" where
  "all_tracked ops = concat (map tracked ops)"

section \<open>The sums are those of the history\<close>

definition succeeded :: "api_call \<Rightarrow> bool" where
  "succeeded c \<longleftrightarrow> 200 \<le> ac_status c \<and> ac_status c < 300"

text \<open>The sums of a list of calls, computed from it alone.\<close>

definition sums_of :: "api_call list \<Rightarrow> usage_stats \<Rightarrow> bool" where
  "sums_of cs u \<longleftrightarrow>
     us_total u = length cs \<and> us_successful u = length (filter succeeded cs) \<and>
     us_failed u = length (filter (\<lambda>c. \<not> succeeded c) cs) \<and> us_duration u = sum_list (map ac_duration cs) \<and>
     us_average u = (if cs = [] then 0 else sum_list (map ac_duration cs) / of_nat (length cs)) \<and>
     (\<forall>h. dict_get_or (us_by_hour u) h 0 = length (filter (\<lambda>c. hour_key (ac_timestamp c) = h) cs)) \<and>
     (\<forall>a. dict_get_or (us_by_api u) a 0 = length (filter (\<lambda>c. ac_api c = a) cs))"

lemma count_one_get [simp]: "dict_get_or (count_one k m) k' 0 = dict_get_or m k' 0 + (if k' = k then 1 else 0)"
  by (simp add: count_one_def dict_get_or_def)

lemma sums_of_none: "sums_of [] no_stats"
  by (simp add: sums_of_def no_stats_def dict_get_or_def)

lemma sums_of_add: "sums_of cs u \<Longrightarrow> sums_of (cs @ [c]) (add_call c u)"
  by (auto simp: sums_of_def add_call_def Let_def succeeded_def)

definition sums_inv :: "api_call list \<Rightarrow> usage_tracker \<Rightarrow> bool" where
  "sums_inv cs s \<longleftrightarrow> (\<forall>t. sums_of (filter (\<lambda>c. ac_tenant c = t) cs) (dict_get_or (ut_stats s) t no_stats))"

lemma sums_inv_exec: "sums_inv cs s \<Longrightarrow> sums_inv (cs @ tracked op) (tracker_exec op s)"
  by (cases op) (auto simp: sums_inv_def track_call_def Let_def dict_get_or_def intro!: sums_of_add split: if_splits)

lemma sums_inv_run: "sums_inv cs s \<Longrightarrow> sums_inv (cs @ all_tracked ops) (fold tracker_exec ops s)"
proof (induction ops arbitrary: cs s)
  case Nil
  then show ?case by (simp add: all_tracked_def)
next
  case (Cons op ops)
  from Cons.IH [OF sums_inv_exec [OF Cons.prems, of op]] show ?case by (simp add: all_tracked_def)
qed

text \<open>
  after any sequence of tracked calls and checks the sums of a tenant (calls, successes, failures,
  durations and their average, calls by hour and by API) are those of its whole history.
\<close>

theorem usage_sums_are_history:
  "sums_of (filter (\<lambda>c. ac_tenant c = t) (all_tracked ops))
     (dict_get_or (ut_stats (fold tracker_exec ops empty_tracker)) t no_stats)"
proof -
  have "sums_inv [] empty_tracker"
    by (simp add: sums_inv_def empty_tracker_def dict_get_or_def sums_of_none)
  from sums_inv_run [OF this, of ops] show ?thesis by (simp add: sums_inv_def)
qed

section \<open>The limit\<close>

text \<open>The lists hold the newest calls, at most 10000.\<close>

lemma calls_exec:
  "calls_of t a (tracker_exec op s) =
     fold (append_capped 10000) (filter (\<lambda>c. ac_tenant c = t \<and> ac_api c = a) (tracked op)) (calls_of t a s)"
  by (cases op) (auto simp: track_call_def Let_def)

lemma calls_run:
  "calls_of t a (fold tracker_exec ops s) =
     fold (append_capped 10000) (filter (\<lambda>c. ac_tenant c = t \<and> ac_api c = a) (all_tracked ops)) (calls_of t a s)"
  by (induction ops arbitrary: s) (simp_all add: calls_exec all_tracked_def)

lemma calls_are_newest:
  "calls_of t a (fold tracker_exec ops empty_tracker) =
     last_n 10000 (filter (\<lambda>c. ac_tenant c = t \<and> ac_api c = a) (all_tracked ops))"
proof -
  have "calls_of t a empty_tracker = []" by (simp add: calls_of_def empty_tracker_def dict_get_or_def)
  then show ?thesis
    using tracked_calls.push_run [of "filter (\<lambda>c. ac_tenant c = t \<and> ac_api c = a) (all_tracked ops)" "[]"]
    by (simp add: calls_run last_n_def)
qed

text \<open>
  A limit is kept when the calls follow each other: a request passes only when fewer calls than the limit
  were tracked in the period before it, if they are among the newest 10000.
\<close>

lemma passes_iff:
  "fst (check_usage_limit api tenant key rate now s) \<longleftrightarrow>
     int (length (filter (\<lambda>c. ac_timestamp c > now - snd (tracker_limit rate) * second) (calls_of tenant api s)))
       < fst (tracker_limit rate)"
  by (simp add: check_usage_limit_def Let_def split: prod.split)

text \<open>
  a limit of more than 10000 requests refuses none, whatever has been tracked.\<close>

theorem large_limit_never_refuses:
  assumes "10000 < fst (tracker_limit rate)"
  shows "fst (check_usage_limit api tenant key rate now (fold tracker_exec ops empty_tracker))"
proof -
  let ?cs = "calls_of tenant api (fold tracker_exec ops empty_tracker)"
  have "length (filter (\<lambda>c. ac_timestamp c > now - snd (tracker_limit rate) * second) ?cs) \<le> length ?cs"
    by simp
  also have "length ?cs \<le> 10000" by (simp add: calls_are_newest)
  finally show ?thesis using assms by (simp add: passes_iff)
qed

lemma twenty_thousand: "tracker_limit ''20000/hour'' = (20000, 3600)"
  by code_simp

theorem large_limit_never_refuses_witness:
  "fst (check_usage_limit ''execute:v1'' ''acme'' None ''20000/hour'' 9
     (fold tracker_exec (replicate 30000 (Track ''execute:v1'' ''acme'' None 200 1 None 8)) empty_tracker))"
  by (rule large_limit_never_refuses) (simp add: twenty_thousand)

text \<open>A tenant of which only a limit was checked makes the report on one API raise.\<close>

lemma checked_tenant_breaks_report:
  "get_stats (Some ''execute:v1'') None None None 9
     (snd (check_usage_limit ''execute:v1'' ''acme'' None ''100/minute'' 8 empty_tracker)) = Inl (KeyErr ''calls_by_api'')"
  by code_simp

section \<open>Quotas\<close>

text \<open>
  \<open>src/gateway/analytics/quota_enforcer.py\<close>: quotas of a tenant by type, and the uses counted against
  them in the current day, hour or month. A use is the time it was recorded at; the counts of a
  tenant and a type are kept under one string.
\<close>

section \<open>State\<close>

record api_quota =
  aq_limit :: int
  aq_period :: string
  aq_reset_at :: time

record quota_enforcer =
  qe_quotas :: "(string, (string, api_quota) dict) dict"
  qe_usage :: "(string, time list) dict"

definition new_quota_enforcer :: quota_enforcer where
  "new_quota_enforcer = \<lparr>qe_quotas = [], qe_usage = []\<rparr>"

definition usage_name :: "string \<Rightarrow> string \<Rightarrow> string" where
  "usage_name tenant ty = tenant @ '':'' @ ty"

definition usage_list :: "string \<Rightarrow> string \<Rightarrow> quota_enforcer \<Rightarrow> time list" where
  "usage_list tenant ty s = dict_get_or (qe_usage s) (usage_name tenant ty) []"

section \<open>Operations\<close>

definition set_api_quota :: "time \<Rightarrow> string \<Rightarrow> string \<Rightarrow> int \<Rightarrow> string \<Rightarrow> quota_enforcer \<Rightarrow> quota_enforcer" where
  "set_api_quota now tenant ty cap period s =
     s\<lparr>qe_quotas := dict_set tenant
         (dict_set ty \<lparr>aq_limit = cap, aq_period = period, aq_reset_at = now\<rparr> (dict_get_or (qe_quotas s) tenant []))
         (qe_quotas s)\<rparr>"

definition find_quota :: "string \<Rightarrow> string \<Rightarrow> quota_enforcer \<Rightarrow> api_quota option" where
  "find_quota tenant ty s = (case dict_get (qe_quotas s) tenant of None \<Rightarrow> None | Some qs \<Rightarrow> dict_get qs ty)"

definition hour_of_day :: "time \<Rightarrow> int" where
  "hour_of_day t = (t div hour) mod 24"

definition should_reset :: "time \<Rightarrow> string \<Rightarrow> time \<Rightarrow> bool" where
  "should_reset reset_at period now =
     (if period = ''day'' then day_number reset_at < day_number now
      else if period = ''hour'' then hour_of_day reset_at \<noteq> hour_of_day now \<or> day_number reset_at < day_number now
      else if period = ''month''
      then (case (civil (day_number reset_at), civil (day_number now)) of
              ((y, m, d), (y', m', d')) \<Rightarrow> m \<noteq> m' \<or> y < y')
      else False)"

text \<open>The start of a new period, when one has begun.\<close>

definition roll_over :: "time \<Rightarrow> string \<Rightarrow> string \<Rightarrow> api_quota \<Rightarrow> quota_enforcer \<Rightarrow> quota_enforcer" where
  "roll_over now tenant ty q s =
     (if should_reset (aq_reset_at q) (aq_period q) now
      then s\<lparr>qe_usage := dict_set (usage_name tenant ty) [] (qe_usage s),
             qe_quotas := dict_mod tenant (dict_mod ty (\<lambda>q. q\<lparr>aq_reset_at := now\<rparr>)) (qe_quotas s)\<rparr>
      else s)"

definition check_api_quota :: "time \<Rightarrow> string \<Rightarrow> string \<Rightarrow> int \<Rightarrow> quota_enforcer \<Rightarrow> bool \<times> quota_enforcer" where
  "check_api_quota now tenant ty amount s =
     (case find_quota tenant ty s of
        None \<Rightarrow> (True, s)
      | Some q \<Rightarrow>
          (let s1 = roll_over now tenant ty q s; uses = usage_list tenant ty s1
           in if int (length uses) + amount > aq_limit q then (False, s1)
              else (True, s1\<lparr>qe_usage := dict_set (usage_name tenant ty) (uses @ replicate (nat amount) now) (qe_usage s1)\<rparr>)))"

record api_quota_status =
  as_limit :: int
  as_used :: int
  as_remaining :: int
  as_period :: string

definition api_quota_status_of :: "string \<Rightarrow> quota_enforcer \<Rightarrow> (string, api_quota_status) dict" where
  "api_quota_status_of tenant s =
     map (\<lambda>(ty, q). let n = int (length (usage_list tenant ty s))
                   in (ty, \<lparr>as_limit = aq_limit q, as_used = n, as_remaining = aq_limit q - n, as_period = aq_period q\<rparr>))
       (dict_get_or (qe_quotas s) tenant [])"

section \<open>The abstract quota\<close>

text \<open>
  What a quota promises: a counter for the current window of time, cleared when a request comes in
  another window, and an admission exactly when the counter stays within the limit.
\<close>

definition window :: "string \<Rightarrow> time \<Rightarrow> int" where
  "window period t = (if period = ''day'' then day_number t else if period = ''hour'' then t div hour else 0)"

definition spec_check :: "int \<Rightarrow> string \<Rightarrow> time \<Rightarrow> int \<Rightarrow> int \<times> int \<Rightarrow> bool \<times> (int \<times> int)" where
  "spec_check cap period now amount st =
     (let (w, n) = st; n' = (if w = window period now then n else 0)
      in if n' + amount > cap then (False, (window period now, n'))
         else (True, (window period now, n' + max 0 amount)))"

definition abs_quota :: "string \<Rightarrow> string \<Rightarrow> quota_enforcer \<Rightarrow> (int \<times> int) option" where
  "abs_quota tenant ty s =
     (case find_quota tenant ty s of None \<Rightarrow> None
      | Some q \<Rightarrow> Some (window (aq_period q) (aq_reset_at q), int (length (usage_list tenant ty s))))"

lemma hour_pos: "0 < hour"
  by (simp add: unit_defs)

lemma day_number_mono: "a \<le> b \<Longrightarrow> day_number a \<le> day_number b"
  using day_pos by (simp add: day_number_def zdiv_mono1)

lemma day_number_hours: "day_number t = (t div hour) div 24"
  using zdiv_zmult2_eq [of 24 t hour] by (simp add: day_number_def day_def mult.commute)

lemma hours_differ:
  fixes x y :: int
  assumes "x \<le> y"
  shows "(x mod 24 \<noteq> y mod 24 \<or> x div 24 < y div 24) \<longleftrightarrow> x \<noteq> y"
proof (cases "x = y")
  case False
  have "x div 24 \<le> y div 24" using zdiv_mono1 [OF assms, of 24] by simp
  moreover have "x mod 24 \<noteq> y mod 24" if "x div 24 = y div 24"
    using that False div_mult_mod_eq [of x 24] div_mult_mod_eq [of y 24] by metis
  ultimately show ?thesis using False by linarith
qed simp

lemma should_reset_window:
  assumes "period \<noteq> ''month''" "a \<le> b"
  shows "should_reset a period b \<longleftrightarrow> window period a \<noteq> window period b"
proof -
  have h: "a div hour \<le> b div hour" using assms(2) hour_pos by (simp add: zdiv_mono1)
  have "(hour_of_day a \<noteq> hour_of_day b \<or> day_number a < day_number b) \<longleftrightarrow> a div hour \<noteq> b div hour"
    unfolding hour_of_day_def day_number_hours by (rule hours_differ [OF h])
  then show ?thesis
    using assms day_number_mono [OF assms(2)] by (auto simp: should_reset_def window_def)
qed

lemma find_quota_roll:
  "find_quota tenant ty s = Some q \<Longrightarrow> find_quota tenant ty (roll_over now tenant ty q s)
     = Some (if should_reset (aq_reset_at q) (aq_period q) now then q\<lparr>aq_reset_at := now\<rparr> else q)"
  by (auto simp: find_quota_def roll_over_def split: option.splits)

lemma usage_roll:
  "usage_list tenant ty (roll_over now tenant ty q s)
     = (if should_reset (aq_reset_at q) (aq_period q) now then [] else usage_list tenant ty s)"
  by (simp add: usage_list_def roll_over_def dict_get_or_def)

lemma find_quota_usage: "find_quota tenant ty (s\<lparr>qe_usage := u\<rparr>) = find_quota tenant ty s"
  by (simp add: find_quota_def)

lemma usage_put: "usage_list tenant ty (s\<lparr>qe_usage := dict_set (usage_name tenant ty) xs (qe_usage s)\<rparr>) = xs"
  by (simp add: usage_list_def dict_get_or_def)

text \<open>
  A check of a daily or hourly quota, at a time not before the last reset, is a check of the abstract
  quota: same answer, and the state after it is the abstract state after it.
\<close>
theorem quota_check_refines:
  assumes "find_quota tenant ty s = Some q" "aq_period q \<noteq> ''month''" "aq_reset_at q \<le> now"
    and "abs_quota tenant ty s = Some st"
  shows "fst (check_api_quota now tenant ty amount s) = fst (spec_check (aq_limit q) (aq_period q) now amount st)
       \<and> abs_quota tenant ty (snd (check_api_quota now tenant ty amount s))
           = Some (snd (spec_check (aq_limit q) (aq_period q) now amount st))"
proof -
  note reset = should_reset_window [OF assms(2,3)]
  from assms(1,4) have st: "st = (window (aq_period q) (aq_reset_at q), int (length (usage_list tenant ty s)))"
    by (simp add: abs_quota_def)
  show ?thesis
  proof (cases "should_reset (aq_reset_at q) (aq_period q) now")
    case True
    with reset show ?thesis
      by (simp add: check_api_quota_def assms(1) Let_def usage_roll find_quota_roll find_quota_usage usage_put
          abs_quota_def spec_check_def st)
  next
    case False
    with reset show ?thesis
      by (simp add: check_api_quota_def assms(1) Let_def usage_roll find_quota_roll find_quota_usage usage_put
          abs_quota_def spec_check_def st)
  qed
qed

definition ex_quotas :: quota_enforcer where
  "ex_quotas = set_api_quota 0 ''t'' ''calls'' 2 ''day'' new_quota_enforcer"

theorem quota_check_refines_witness:
  "fst (check_api_quota 5 ''t'' ''calls'' 2 ex_quotas) = fst (spec_check 2 ''day'' 5 2 (0, 0))
   \<and> abs_quota ''t'' ''calls'' (snd (check_api_quota 5 ''t'' ''calls'' 2 ex_quotas)) = Some (snd (spec_check 2 ''day'' 5 2 (0, 0)))"
  by (rule quota_check_refines [of _ _ _ "\<lparr>aq_limit = 2, aq_period = ''day'', aq_reset_at = 0\<rparr>", simplified]) code_simp+

text \<open>
  Two tenants whose names run into the type share one count.
\<close>

lemma usage_names_collide: "usage_name ''a:b'' ''c'' = usage_name ''a'' ''b:c''"
  by (simp add: usage_name_def)

lemma shared_count:
  "fst (check_api_quota 1 ''a'' ''b:c'' 1
     (snd (check_api_quota 0 ''a:b'' ''c'' 1
       (set_api_quota 0 ''a'' ''b:c'' 1 ''day'' (set_api_quota 0 ''a:b'' ''c'' 1 ''day'' new_quota_enforcer))))) = False"
  by code_simp

end
