(* ===== verification/Planner.thy ===== *)
theory Planner
  imports DagOps MemoryService DomainAgents Verifier TaskAssignment
begin

text \<open>
  \<open>src/agents/planner/planner_agent.py\<close> with \<open>prompt_templates.py\<close>, \<open>src/utils/token_counter.py\<close> and
  \<open>src/utils/cost_calculator.py\<close>: a goal becomes a DAG through a language model. The plan cache keeps
  the DAG object itself, not a copy, so the DAGs live in a store and a plan is an address in it. The
  model's answer, \<open>json\<close>, pydantic's reading of a string as an integer, the identifiers pydantic
  generates and \<open>str\<close> of an exception are arguments.
\<close>

section \<open>State and surroundings\<close>

record planner =
  pl_cache :: "(string, nat \<times> time) dict"
  pl_heap :: "dag list"
  pl_memory :: memory
  pl_meta :: agent_metadata

definition new_planner :: "memory \<Rightarrow> planner" where
  "new_planner m = \<lparr>pl_cache = [], pl_heap = [], pl_memory = m, pl_meta = new_agent_metadata\<rparr>"

record llm_request =
  lr_prompt :: string
  lr_temperature :: rat
  lr_max_tokens :: int

text \<open>Generated identifiers: of the DAG, of the n-th task of an answer, and of the fallback plan.\<close>

record plan_ids =
  pi_dag :: string
  pi_task :: "nat \<Rightarrow> string"
  pi_fallback :: string
  pi_recon :: string
  pi_scan :: string

record 's plan_env =
  pe_generate :: "llm_request \<Rightarrow> 's \<Rightarrow> (exn + string) \<times> 's"
  pe_loads :: "string \<Rightarrow> exn + pyval"
  pe_dumps :: "pyval \<Rightarrow> string"
  pe_str :: "pyval \<Rightarrow> string"
  pe_exn_str :: "exn \<Rightarrow> string"
  pe_int_of :: "string \<Rightarrow> int option"
  pe_digest :: "pydict \<Rightarrow> string"
  pe_stamp :: "time \<Rightarrow> string"

record plan_call =
  pc_process :: string
  pc_goal :: string
  pc_target :: "string option"
  pc_user :: string
  pc_tenant :: string
  pc_similar :: "pydict list"
  pc_parameters :: pydict

section \<open>The prompt\<close>

definition available_tool :: "string \<Rightarrow> string list \<Rightarrow> rat \<Rightarrow> int \<Rightarrow> pyval" where
  "available_tool name caps cost secs =
     PDict [(''name'', PStr name), (''capabilities'', PList (map PStr caps)),
            (''estimated_cost'', PFloat cost), (''estimated_duration'', PInt secs)]"

definition get_available_tools :: "pyval list" where
  "get_available_tools =
     [available_tool ''nmap'' [''port_scan'', ''service_detection'', ''os_detection''] (1 / 100) 60,
      available_tool ''nuclei'' [''vulnerability_scan'', ''template_based''] (2 / 100) 120,
      available_tool ''sqlmap'' [''sql_injection'', ''database_exploit''] (5 / 100) 300,
      available_tool ''gobuster'' [''directory_bruteforce'', ''dns_enumeration''] (1 / 100) 180]"

definition all_capabilities :: "agent_capability list" where
  "all_capabilities =
     [PLANNING, VERIFICATION, EXECUTION, VALIDATION, REPORTING, EXPLOIT, NETWORK_SCAN, PORT_SCAN, VULN_SCAN,
      WEB_SCAN, CODE_ANALYSIS, SECRET_DETECTION, MALWARE_ANALYSIS, FORENSICS, SOCIAL_ENGINEERING, CLOUD_SCAN,
      CONTAINER_SCAN, API_SCAN, SERVICE_DETECTION, OS_DETECTION, VERSION_DETECTION, DNS_ENUMERATION,
      SUBDOMAIN_ENUM, SQL_INJECTION]"

definition all_task_types :: "task_type list" where
  "all_task_types = [TT_SCAN, TT_RECON, TT_EXPLOIT, TT_ANALYSIS, TT_REPORT, TT_VALIDATION, TT_CUSTOM]"

definition similar_entry :: "pydict \<Rightarrow> exn + pyval" where
  "similar_entry t =
     rbind (get_item t ''goal'') (\<lambda>g.
     rbind (attr_get (dict_get_or t ''dag'' (PDict [])) ''nodes'' (PDict [])) (\<lambda>nodes.
     rbind (py_len nodes) (\<lambda>n.
       Inr (PDict [(''goal'', g), (''tasks'', PInt (int n)),
                   (''success'', dict_get_or t ''success'' (PBool True))]))))"

definition prepare_context :: "string \<Rightarrow> plan_call \<Rightarrow> exn + pydict" where
  "prepare_context stamp c =
     (let ctx = [(''goal'', PStr (pc_goal c)), (''target'', py_str_opt (pc_target c)),
                 (''parameters'', PDict (pc_parameters c)),
                 (''available_capabilities'', PList (map (PStr \<circ> agent_capability_value) all_capabilities)),
                 (''task_types'', PList (map (PStr \<circ> task_type_value) all_task_types)),
                 (''current_time'', PStr stamp)]
      in rbind (if pc_similar c \<noteq> []
                then rbind (mapM_r similar_entry (take 3 (pc_similar c)))
                       (\<lambda>ts. Inr (dict_set ''similar_tasks'' (PList ts) ctx))
                else Inr ctx)
           (\<lambda>ctx'. Inr (dict_set ''available_tools'' (PList get_available_tools) ctx')))"

fun join_with :: "string \<Rightarrow> string list \<Rightarrow> string" where
  "join_with sep [] = []"
| "join_with sep [s] = s"
| "join_with sep (s # t # ts) = s @ sep @ join_with sep (t # ts)"

definition join_strings :: "string \<Rightarrow> pyval \<Rightarrow> exn + string" where
  "join_strings sep v =
     rbind (or_type_err (py_iter v)) (\<lambda>vs.
     rbind (mapM_r (\<lambda>x. case x of PStr s \<Rightarrow> Inr s | _ \<Rightarrow> Inl TypeErr) vs) (\<lambda>ss.
       Inr (join_with sep ss)))"

definition text_lines :: "string list \<Rightarrow> string" where
  "text_lines ls = concat (map (\<lambda>l. l @ [CHR 0x0A]) ls)"

definition prompt_instructions :: "string list" where
  "prompt_instructions =
     [''INSTRUCTIONS:'',
      ''1. Break down the goal into logical steps/tasks'',
      ''2. Each task should have a clear purpose and use available tools'',
      ''3. Define dependencies between tasks (what must complete before what)'',
      ''4. Identify tasks that can run in parallel'',
      ''5. Estimate duration for each task'',
      ''6. Specify required capabilities for each task'',
      [],
      ''RESPONSE FORMAT:'',
      ''Return a JSON object with the following structure:'',
      ''{'',
      ''    \"tasks\": ['',
      ''        {'',
      ''            \"name\": \"task name\",'',
      ''            \"description\": \"what this task does\",'',
      ''            \"type\": \"recon|scan|exploit|analysis|report\",'',
      ''            \"capabilities\": [\"capability1\", \"capability2\"],'',
      ''            \"parameters\": {\"param1\": \"value1\"},'',
      ''            \"estimated_duration\": 300,'',
      ''            \"timeout\": 600'',
      ''        }'',
      ''    ],'',
      ''    \"dependencies\": ['',
      ''        {\"from\": \"task_name_1\", \"to\": \"task_name_2\"}'',
      ''    ]'',
      ''}'',
      [],
      ''EXAMPLES:'',
      [],
      ''Example 1: \"Scan example.com for vulnerabilities\"'',
      ''{'',
      ''    \"tasks\": ['',
      ''        {'',
      ''            \"name\": \"DNS Enumeration\",'',
      ''            \"description\": \"Enumerate DNS records for the target\",'',
      ''            \"type\": \"recon\",'',
      ''            \"capabilities\": [\"dns_enumeration\"],'',
      ''            \"parameters\": {\"target\": \"example.com\", \"record_types\": [\"A\", \"MX\", \"NS\"]},'',
      ''            \"estimated_duration\": 30'',
      ''        },'',
      ''        {'',
      ''            \"name\": \"Port Scan\",'',
      ''            \"description\": \"Scan for open ports and services\",'',
      ''            \"type\": \"recon\",'',
      ''            \"capabilities\": [\"port_scan\"],'',
      ''            \"parameters\": {\"target\": \"example.com\", \"ports\": \"1-1000\"},'',
      ''            \"estimated_duration\": 120'',
      ''        },'',
      ''        {'',
      ''            \"name\": \"Vulnerability Scan\",'',
      ''            \"description\": \"Scan for known vulnerabilities\",'',
      ''            \"type\": \"scan\",'',
      ''            \"capabilities\": [\"vulnerability_scan\"],'',
      ''            \"parameters\": {\"target\": \"example.com\", \"severity\": \"high\"},'',
      ''            \"estimated_duration\": 300'',
      ''        }'',
      ''    ],'',
      ''    \"dependencies\": ['',
      ''        {\"from\": \"DNS Enumeration\", \"to\": \"Port Scan\"},'',
      ''        {\"from\": \"Port Scan\", \"to\": \"Vulnerability Scan\"}'',
      ''    ]'',
      ''}'',
      [],
      ''Now, create a plan for the given goal. Return only the JSON object, no other text.'']"

definition create_planning_prompt ::
    "(pyval \<Rightarrow> string) \<Rightarrow> (pyval \<Rightarrow> string) \<Rightarrow> pydict \<Rightarrow> exn + string" where
  "create_planning_prompt str dumps ctx =
     rbind (get_item ctx ''goal'') (\<lambda>goal.
     rbind (get_item ctx ''current_time'') (\<lambda>now.
     rbind (get_item ctx ''available_capabilities'') (\<lambda>caps.
     rbind (join_strings '', '' caps) (\<lambda>cap_text.
     rbind (get_item ctx ''available_tools'') (\<lambda>tools.
       Inr (text_lines
         ([''You are an expert security orchestration planner. Your task is to decompose security goals into executable task DAGs (Directed Acyclic Graphs).'',
           [],
           ''CONTEXT:'',
           ''Goal: '' @ str goal,
           ''Target: '' @ str (dict_get_or ctx ''target'' (PStr ''Not specified'')),
           ''Current Time: '' @ str now,
           [],
           ''AVAILABLE CAPABILITIES:'',
           cap_text,
           [],
           ''AVAILABLE TOOLS:'',
           dumps tools,
           [],
           ''SIMILAR PAST TASKS:'',
           dumps (dict_get_or ctx ''similar_tasks'' (PList [])),
           [],
           ''CONSTRAINTS:'',
           dumps (dict_get_or ctx ''parameters'' (PDict [])),
           []] @ prompt_instructions)))))))"

text \<open>What the prompt is reckoned to cost; the figure is only logged.\<close>

definition token_count :: "string \<Rightarrow> int" where
  "token_count t = int (length (py_words [] t)) * 2"

definition estimate_cost :: "int \<Rightarrow> string \<Rightarrow> rat" where
  "estimate_cost n model = of_int n * (2 / 100000)"

definition estimate_task_cost :: "task_node \<Rightarrow> rat" where
  "estimate_task_cost t = 1 / 100"

section \<open>Reading the answer\<close>

text \<open>\<open>re.search(r'\{.*\}', response, re.DOTALL)\<close>: from the first opening to the last closing brace.\<close>

definition json_span :: "string \<Rightarrow> string option" where
  "json_span s =
     (let t = dropWhile (\<lambda>c. c \<noteq> CHR 0x7B) s; u = rev (dropWhile (\<lambda>c. c \<noteq> CHR 0x7D) (rev t))
      in if u = [] then None else Some u)"

definition plan_data :: "(string \<Rightarrow> exn + pyval) \<Rightarrow> string \<Rightarrow> exn + pyval" where
  "plan_data loads response =
     (if take 1 (strip response) = [CHR 0x7B] then loads response
      else (case json_span response of
              None \<Rightarrow> Inl (ValueErr ''No valid JSON found in response'')
            | Some s \<Rightarrow> loads s))"

definition upper_char :: "char \<Rightarrow> char" where
  "upper_char c = (let n = of_char c :: nat in if 97 \<le> n \<and> n \<le> 122 then char_of (n - 32) else c)"

definition enum_of :: "('a \<Rightarrow> string) \<Rightarrow> 'a list \<Rightarrow> pyval \<Rightarrow> exn + 'a" where
  "enum_of val xs v =
     (case v of
        PStr s \<Rightarrow> (case find (\<lambda>x. val x = s) xs of None \<Rightarrow> Inl (ValueErr s) | Some x \<Rightarrow> Inr x)
      | _ \<Rightarrow> Inl (ValueErr []))"

definition upper_str :: "pyval \<Rightarrow> exn + pyval" where
  "upper_str v = (case v of PStr s \<Rightarrow> Inr (PStr (map upper_char s)) | _ \<Rightarrow> Inl (AttributeErr ''upper''))"

text \<open>The fields pydantic checks: a string, an optional string, a dictionary, an optional integer, for
  which it also takes a truth value, an integral float and a string that reads as one.\<close>

definition as_str :: "pyval \<Rightarrow> exn + string" where
  "as_str v = (case v of PStr s \<Rightarrow> Inr s | _ \<Rightarrow> Inl (ValueErr ''string''))"

definition as_opt_str :: "pyval \<Rightarrow> exn + string option" where
  "as_opt_str v = (case v of PNone \<Rightarrow> Inr None | PStr s \<Rightarrow> Inr (Some s) | _ \<Rightarrow> Inl (ValueErr ''string''))"

definition as_dict :: "pyval \<Rightarrow> exn + pydict" where
  "as_dict v = (case v of PDict d \<Rightarrow> Inr d | _ \<Rightarrow> Inl (ValueErr ''dictionary''))"

definition as_opt_int :: "(string \<Rightarrow> int option) \<Rightarrow> pyval \<Rightarrow> exn + int option" where
  "as_opt_int int_of v =
     (case v of
        PNone \<Rightarrow> Inr None
      | PBool b \<Rightarrow> Inr (Some (of_bool b))
      | PInt i \<Rightarrow> Inr (Some i)
      | PFloat r \<Rightarrow> (if of_int \<lfloor>r\<rfloor> = r then Inr (Some \<lfloor>r\<rfloor>) else Inl (ValueErr ''integer''))
      | PStr s \<Rightarrow> (case int_of s of None \<Rightarrow> Inl (ValueErr ''integer'') | Some i \<Rightarrow> Inr (Some i))
      | _ \<Rightarrow> Inl (ValueErr ''integer''))"

text \<open>\<open>x[k]\<close> where \<open>x\<close> may be no dictionary.\<close>

definition item_of :: "pyval \<Rightarrow> string \<Rightarrow> exn + pyval" where
  "item_of v k = (case v of PDict d \<Rightarrow> get_item d k | _ \<Rightarrow> Inl TypeErr)"

definition plan_task :: "(string \<Rightarrow> int option) \<Rightarrow> string \<Rightarrow> pyval \<Rightarrow> exn + task_node" where
  "plan_task int_of tid v =
     rbind (item_of v ''name'') (\<lambda>name.
     rbind (attr_get v ''description'' PNone) (\<lambda>desc.
     rbind (attr_get v ''type'' (PStr ''custom'')) (\<lambda>ty.
     rbind (upper_str ty) (\<lambda>ty'.
     rbind (enum_of task_type_value all_task_types ty') (\<lambda>tt.
     rbind (attr_get v ''capabilities'' (PList [])) (\<lambda>caps.
     rbind (or_type_err (py_iter caps)) (\<lambda>cs.
     rbind (mapM_r (enum_of agent_capability_value all_capabilities) cs) (\<lambda>acs.
     rbind (attr_get v ''parameters'' (PDict [])) (\<lambda>ps.
     rbind (attr_get v ''estimated_duration'' (PInt 300)) (\<lambda>secs.
     rbind (attr_get v ''timeout'' (PInt 600)) (\<lambda>tmo.
     rbind (as_str name) (\<lambda>name'.
     rbind (as_opt_str desc) (\<lambda>desc'.
     rbind (as_dict ps) (\<lambda>ps'.
     rbind (as_opt_int int_of tmo) (\<lambda>tmo'.
     rbind (as_opt_int int_of secs) (\<lambda>secs'.
       validate_task_node ((new_task_node tid name' tt acs)
         \<lparr>tn_description := desc', tn_parameters := ps', tn_timeout_seconds := tmo',
          tn_estimated_duration_seconds := secs'\<rparr>)))))))))))))))))"

text \<open>The result of a step that may raise, and may not return.\<close>

type_synonym 'a run = "(exn + 'a) option"

definition run_dag :: "dag_result \<Rightarrow> dag run" where
  "run_dag r = map_option (\<lambda>(d, x). case x of None \<Rightarrow> Inr d | Some e \<Rightarrow> Inl e) r"

definition run_bind :: "'a run \<Rightarrow> ('a \<Rightarrow> 'b run) \<Rightarrow> 'b run" where
  "run_bind r f = (case r of None \<Rightarrow> None | Some (Inl e) \<Rightarrow> Some (Inl e) | Some (Inr x) \<Rightarrow> f x)"

fun add_plan_tasks :: "(string \<Rightarrow> int option) \<Rightarrow> (nat \<Rightarrow> string) \<Rightarrow> nat \<Rightarrow> pyval list \<Rightarrow> dag \<Rightarrow> dag run" where
  "add_plan_tasks int_of ids k [] d = Some (Inr d)"
| "add_plan_tasks int_of ids k (v # vs) d =
     run_bind (Some (plan_task int_of (ids k) v)) (\<lambda>t.
     run_bind (run_dag (add_node t d)) (add_plan_tasks int_of ids (Suc k) vs))"

fun add_plan_edges :: "nat \<Rightarrow> pyval list \<Rightarrow> dag \<Rightarrow> dag run" where
  "add_plan_edges rlim [] d = Some (Inr d)"
| "add_plan_edges rlim (v # vs) d =
     run_bind (Some (item_of v ''from'')) (\<lambda>f.
     run_bind (Some (item_of v ''to'')) (\<lambda>t.
       (case (f, t) of
          (PStr u, PStr w) \<Rightarrow> run_bind (run_dag (add_edge rlim u w d)) (add_plan_edges rlim vs)
        | _ \<Rightarrow> Some (Inl (if \<not> hashable f then TypeErr
            else if (case f of PStr u \<Rightarrow> \<not> dict_has (dg_nodes d) u | _ \<Rightarrow> True) \<or> hashable t
            then ValueErr ''Both tasks must exist in DAG'' else TypeErr)))))"

text \<open>\<open>tags=parameters.get("tags", {}) if parameters else {}\<close>, a \<open>Dict[str, str]\<close>.\<close>

definition plan_tags :: "pydict \<Rightarrow> exn + (string, string) dict" where
  "plan_tags ps =
     rbind (as_dict (if ps \<noteq> [] then dict_get_or ps ''tags'' (PDict []) else PDict []))
       (mapM_r (\<lambda>(k, v). rbind (as_str v) (\<lambda>s. Inr (k, s))))"

definition plan_dag :: "string \<Rightarrow> plan_call \<Rightarrow> time \<Rightarrow> exn + dag" where
  "plan_dag did c now =
     rbind (plan_tags (pc_parameters c))
       (\<lambda>tags. Inr ((new_dag did (pc_process c) (pc_goal c) (pc_target c) now)\<lparr>dg_tags := tags\<rparr>))"

definition plan_tasks_of :: "pyval \<Rightarrow> exn + pyval list" where
  "plan_tasks_of data = rbind (attr_get data ''tasks'' (PList [])) (or_type_err \<circ> py_iter)"

definition plan_deps_of :: "pyval \<Rightarrow> exn + pyval list" where
  "plan_deps_of data = rbind (attr_get data ''dependencies'' (PList [])) (or_type_err \<circ> py_iter)"

definition parsed_plan :: "nat \<Rightarrow> 's plan_env \<Rightarrow> plan_ids \<Rightarrow> plan_call \<Rightarrow> time \<Rightarrow> string \<Rightarrow> dag run" where
  "parsed_plan rlim env ids c now response =
     run_bind (Some (plan_data (pe_loads env) response)) (\<lambda>data.
     run_bind (Some (plan_dag (pi_dag ids) c now)) (\<lambda>d.
     run_bind (Some (plan_tasks_of data)) (\<lambda>tasks.
     run_bind (add_plan_tasks (pe_int_of env) (pi_task ids) 0 tasks d) (\<lambda>d1.
     run_bind (Some (plan_deps_of data)) (\<lambda>deps.
     run_bind (add_plan_edges rlim deps d1) (\<lambda>d2.
       Some (if dg_total_tasks d2 = 0 then Inl (ValueErr ''DAG has no tasks'') else Inr d2)))))))"

definition recon_task :: "plan_ids \<Rightarrow> plan_call \<Rightarrow> task_node" where
  "recon_task ids c =
     (new_task_node (pi_recon ids) ''Basic Reconnaissance'' TT_RECON [NETWORK_SCAN])
       \<lparr>tn_description := Some ''Perform initial reconnaissance on target'',
        tn_estimated_duration_seconds := Some 60,
        tn_parameters := [(''target'', py_str_opt (pc_target c)), (''scan_type'', PStr ''quick'')]\<rparr>"

definition scan_task :: "plan_ids \<Rightarrow> plan_call \<Rightarrow> task_node" where
  "scan_task ids c =
     (new_task_node (pi_scan ids) ''Vulnerability Scan'' TT_SCAN [VULN_SCAN])
       \<lparr>tn_description := Some ''Scan for common vulnerabilities'',
        tn_estimated_duration_seconds := Some 120,
        tn_parameters := [(''target'', py_str_opt (pc_target c)), (''severity'', PStr ''high'')]\<rparr>"

definition fallback_plan :: "nat \<Rightarrow> plan_ids \<Rightarrow> plan_call \<Rightarrow> time \<Rightarrow> dag run" where
  "fallback_plan rlim ids c now =
     run_bind (Some (plan_dag (pi_fallback ids) c now)) (\<lambda>d.
     run_bind (run_dag (add_node (recon_task ids c) d)) (\<lambda>d1.
     run_bind (run_dag (add_node (scan_task ids c) d1)) (\<lambda>d2.
       run_dag (add_edge rlim (pi_recon ids) (pi_scan ids) d2))))"

definition parse_llm_response :: "nat \<Rightarrow> 's plan_env \<Rightarrow> plan_ids \<Rightarrow> plan_call \<Rightarrow> time \<Rightarrow> string \<Rightarrow> dag run" where
  "parse_llm_response rlim env ids c now response =
     (case parsed_plan rlim env ids c now response of
        Some (Inl e) \<Rightarrow> fallback_plan rlim ids c now
      | r \<Rightarrow> r)"

definition estimate_task_costs :: "dag \<Rightarrow> dag run" where
  "estimate_task_costs d =
     run_dag (update_estimates
       (d\<lparr>dg_nodes := map (\<lambda>(i, t). (i, t\<lparr>tn_estimated_cost := estimate_task_cost t\<rparr>)) (dg_nodes d)\<rparr>))"

section \<open>Operations\<close>

definition plan_key :: "plan_call \<Rightarrow> string" where
  "plan_key c = pc_goal c @ '':'' @ (case pc_target c of None \<Rightarrow> ''None'' | Some t \<Rightarrow> t)"

text \<open>\<open>(now - then).seconds\<close>: the seconds of the difference without its days.\<close>

definition seconds_part :: "time \<Rightarrow> int" where
  "seconds_part d = d div 1000000 mod 86400"

definition cached_plan :: "string \<Rightarrow> time \<Rightarrow> planner \<Rightarrow> nat option" where
  "cached_plan k now pl =
     (case dict_get (pl_cache pl) k of
        None \<Rightarrow> None
      | Some (r, ts) \<Rightarrow> if seconds_part (now - ts) < 3600 then Some r else None)"

definition plan_request_of_call :: "'s plan_env \<Rightarrow> plan_call \<Rightarrow> time \<Rightarrow> exn + llm_request" where
  "plan_request_of_call env c now =
     rbind (prepare_context (pe_stamp env now) c) (\<lambda>ctx.
     rbind (create_planning_prompt (pe_str env) (pe_dumps env) ctx) (\<lambda>prompt.
       Inr \<lparr>lr_prompt = prompt, lr_temperature = 2 / 10, lr_max_tokens = 2000\<rparr>))"

definition make_plan ::
    "nat \<Rightarrow> 's plan_env \<Rightarrow> plan_ids \<Rightarrow> plan_call \<Rightarrow> time \<Rightarrow> 's \<Rightarrow> dag run \<times> 's" where
  "make_plan rlim env ids c now s =
     (case plan_request_of_call env c now of
        Inl e \<Rightarrow> (Some (Inl e), s)
      | Inr req \<Rightarrow>
        (case pe_generate env req s of
           (Inl e, s') \<Rightarrow> (Some (Inl e), s')
         | (Inr response, s') \<Rightarrow>
             (run_bind (parse_llm_response rlim env ids c now response) estimate_task_costs, s')))"

definition planning_failed :: "'s plan_env \<Rightarrow> exn \<Rightarrow> exn" where
  "planning_failed env e =
     AgentExecutionError [Lit ''Planning failed: '', Lit (pe_exn_str env e)] ''planner_agent'' ''plan_creation'' None"

text \<open>\<open>create_plan\<close>, called at \<open>now\<close> and done at \<open>later\<close>; the plan is an address in the store.\<close>

definition create_plan ::
    "nat \<Rightarrow> 's plan_env \<Rightarrow> plan_ids \<Rightarrow> plan_call \<Rightarrow> time \<Rightarrow> time \<Rightarrow> planner \<Rightarrow> 's
     \<Rightarrow> ((exn + nat) \<times> planner \<times> 's) option" where
  "create_plan rlim env ids c now later pl s =
     (case cached_plan (plan_key c) now pl of
        Some r \<Rightarrow> Some (Inr r, pl, s)
      | None \<Rightarrow>
        (case make_plan rlim env ids c now s of
           (None, s') \<Rightarrow> None
         | (Some (Inl e), s') \<Rightarrow> Some (Inl (planning_failed env e), pl, s')
         | (Some (Inr d), s') \<Rightarrow>
             Some (Inr (length (pl_heap pl)),
               pl\<lparr>pl_heap := pl_heap pl @ [d],
                  pl_cache := dict_set (plan_key c) (length (pl_heap pl), later) (pl_cache pl),
                  pl_memory := store_plan (pe_digest env) (pe_stamp env later) (pc_goal c) (pc_target c) d
                    (pc_user c) (pc_tenant c) (pl_memory pl)\<rparr>, s')))"

text \<open>\<open>optimize_plan\<close>: its three passes return the DAG they are given.\<close>

definition optimize_for_time :: "dag \<Rightarrow> pyval \<Rightarrow> dag" where "optimize_for_time d v = d"
definition optimize_for_cost :: "dag \<Rightarrow> pyval \<Rightarrow> dag" where "optimize_for_cost d v = d"
definition optimize_parallelism :: "dag \<Rightarrow> pyval \<Rightarrow> dag" where "optimize_parallelism d v = d"

definition optimize_plan :: "dag \<Rightarrow> pydict \<Rightarrow> dag" where
  "optimize_plan d cs =
     (let pass = (\<lambda>f k d. if truthy (get_none cs k) then f d (get_none cs k) else d)
      in pass optimize_parallelism ''max_parallel''
           (pass optimize_for_cost ''max_cost'' (pass optimize_for_time ''max_duration'' d)))"

text \<open>\<open>execute\<close> hands \<open>create_plan\<close> a keyword it does not have and leaves out those it needs.\<close>

definition planner_execute :: "time \<Rightarrow> pydict \<Rightarrow> planner \<Rightarrow> (exn + pydict) \<times> planner" where
  "planner_execute now t pl =
     (Inl (case rbind (get_item t ''parameters'') (\<lambda>ps. attr_get ps ''goal'' PNone) of
             Inl e \<Rightarrow> e | Inr goal \<Rightarrow> TypeErr),
      pl\<lparr>pl_meta := error_hook (pre_execution_hook now (pl_meta pl))\<rparr>)"

section \<open>Plans are well-formed\<close>

text \<open>A run that returns, and whose normal result has a property.\<close>

definition run_ok :: "('a \<Rightarrow> bool) \<Rightarrow> 'a run \<Rightarrow> bool" where
  "run_ok P r = (case r of None \<Rightarrow> False | Some (Inl e) \<Rightarrow> True | Some (Inr x) \<Rightarrow> P x)"

lemma run_ok_simps [simp]:
  "run_ok P (Some (Inr x)) = P x" "run_ok P (Some (Inl e))" "\<not> run_ok P None"
  by (simp_all add: run_ok_def)

lemma run_bind_simps [simp]:
  "run_bind (Some (Inr x)) f = f x" "run_bind (Some (Inl e)) f = Some (Inl e)" "run_bind None f = None"
  by (simp_all add: run_bind_def)

lemma run_ok_Some: "run_ok (\<lambda>x. v = Inr x) (Some v)"
  by (cases v) simp_all

lemma run_ok_bind:
  "run_ok Q r \<Longrightarrow> (\<And>x. Q x \<Longrightarrow> run_ok P (f x)) \<Longrightarrow> run_ok P (run_bind r f)"
  by (cases r; cases "the r") simp_all

lemma run_ok_value: "(\<And>x. v = Inr x \<Longrightarrow> run_ok P (f x)) \<Longrightarrow> run_ok P (run_bind (Some v) f)"
  by (cases v) simp_all

lemma run_dag_simps [simp]: "run_dag (Some (d, None)) = Some (Inr d)" "run_dag (Some (d, Some e)) = Some (Inl e)"
  by (simp_all add: run_dag_def)

definition plan_for :: "plan_call \<Rightarrow> dag \<Rightarrow> bool" where
  "plan_for c d \<longleftrightarrow> dag_inv d \<and> dg_process_id d = pc_process c \<and> dg_goal d = pc_goal c \<and> dg_target d = pc_target c"

lemma update_estimates_frame:
  "update_estimates d = Some (d', x) \<Longrightarrow>
     dg_process_id d' = dg_process_id d \<and> dg_goal d' = dg_goal d \<and> dg_target d' = dg_target d
     \<and> dg_tags d' = dg_tags d"
  by (cases "find_critical_path (dg_nodes d) (dg_edges d)"; cases "the (find_critical_path (dg_nodes d) (dg_edges d))")
     (auto simp: update_estimates_def Let_def)

lemma plan_dag_new: "plan_dag i c now = Inr d \<Longrightarrow> plan_for c d \<and> dg_nodes d = [] \<and> dg_edges d = []"
  by (auto simp: plan_dag_def rbind_Inr plan_for_def dag_inv_def dag_wf_def new_dag_def edges_within_def dict_values_def)

lemma add_node_plan:
  assumes "plan_for c d"
  shows "run_ok (\<lambda>d'. plan_for c d' \<and> dg_edges d' = dg_edges d \<and> dg_nodes d' = dg_nodes d @ [(tn_task_id n, n)])
    (run_dag (add_node n d))"
proof (cases "dict_has (dg_nodes d) (tn_task_id n)")
  case True
  then show ?thesis by (simp add: add_node_def)
next
  case False
  from assms have "dag_wf d" by (simp add: plan_for_def dag_inv_def)
  from add_node_ok [OF this False] obtain d' where
      d': "add_node n d = Some (d', None)" "dg_edges d' = dg_edges d" "dg_nodes d' = dg_nodes d @ [(tn_task_id n, n)]"
    by blast
  moreover have "plan_for c d'"
    using assms add_node_inv [OF _ d'(1)] False d'(1)
    by (auto simp: plan_for_def add_node_def Let_def dest: update_estimates_frame)
  ultimately show ?thesis by simp
qed

lemma add_edge_plan:
  assumes "plan_for c d"
  shows "run_ok (\<lambda>d'. plan_for c d' \<and> dict_keys (dg_nodes d') = dict_keys (dg_nodes d)
      \<and> dict_has (dg_nodes d) u \<and> dict_has (dg_nodes d) v) (run_dag (add_edge rlim u v d))"
proof (cases "dict_has (dg_nodes d) u \<and> dict_has (dg_nodes d) v
    \<and> would_create_cycle rlim (dg_edges d) u v = Inr False")
  case False
  then show ?thesis by (auto simp: add_edge_def split: sum.splits bool.splits)
next
  case True
  from assms have "dag_wf d" by (simp add: plan_for_def dag_inv_def)
  with add_edge_ok True obtain d' where
      d': "add_edge rlim u v d = Some (d', None)" "dict_keys (dg_nodes d') = dict_keys (dg_nodes d)"
    by blast
  moreover have "plan_for c d'"
    using assms add_edge_inv [OF _ d'(1)] True d'(1)
    by (auto simp: plan_for_def add_edge_def dest: update_estimates_frame)
  ultimately show ?thesis using True by simp
qed

lemma plan_task_id: "plan_task int_of i v = Inr t \<Longrightarrow> tn_task_id t = i"
  by (auto simp: plan_task_def rbind_Inr validate_task_node_def new_task_node_def split: if_splits)

lemma add_plan_tasks_ok:
  "plan_for c d \<Longrightarrow>
     run_ok (\<lambda>d'. plan_for c d' \<and> dg_edges d' = dg_edges d
         \<and> dict_keys (dg_nodes d') = dict_keys (dg_nodes d) @ map ids [k..<k + length vs])
       (add_plan_tasks int_of ids k vs d)"
proof (induction vs arbitrary: k d)
  case Nil
  then show ?case by simp
next
  case (Cons v vs)
  show ?case unfolding add_plan_tasks.simps
  proof (rule run_ok_value, rule run_ok_bind [OF add_node_plan [OF Cons.prems]])
    fix t d1
    assume t: "plan_task int_of (ids k) v = Inr t"
      and d1: "plan_for c d1 \<and> dg_edges d1 = dg_edges d \<and> dg_nodes d1 = dg_nodes d @ [(tn_task_id t, t)]"
    have "[k..<k + length (v # vs)] = k # [Suc k..<Suc k + length vs]"
      using upt_conv_Cons [of k "k + length (v # vs)"] by simp
    moreover have "dict_keys (dg_nodes d1) = dict_keys (dg_nodes d) @ [ids k]"
      using d1 plan_task_id [OF t] by (simp add: dict_keys_def)
    ultimately show "run_ok (\<lambda>d'. plan_for c d' \<and> dg_edges d' = dg_edges d
         \<and> dict_keys (dg_nodes d') = dict_keys (dg_nodes d) @ map ids [k..<k + length (v # vs)])
       (add_plan_tasks int_of ids (Suc k) vs d1)"
      using Cons.IH [of d1 "Suc k"] d1 by simp
  qed
qed

lemma add_plan_edges_ok:
  "plan_for c d \<Longrightarrow>
     run_ok (\<lambda>d'. plan_for c d'
         \<and> (\<forall>v \<in> set vs. \<exists>i. item_of v ''from'' = Inr (PStr i) \<and> dict_has (dg_nodes d) i)) (add_plan_edges rlim vs d)"
proof (induction vs arbitrary: d)
  case Nil
  then show ?case by simp
next
  case (Cons v vs)
  show ?case unfolding add_plan_edges.simps
  proof (rule run_ok_value, rule run_ok_value)
    fix f t
    assume f: "item_of v ''from'' = Inr f"
    show "run_ok (\<lambda>d'. plan_for c d'
         \<and> (\<forall>v \<in> set (v # vs). \<exists>i. item_of v ''from'' = Inr (PStr i) \<and> dict_has (dg_nodes d) i))
       (case (f, t) of
          (PStr u, PStr w) \<Rightarrow> run_bind (run_dag (add_edge rlim u w d)) (add_plan_edges rlim vs)
        | _ \<Rightarrow> Some (Inl (if \<not> hashable f then TypeErr
            else if (case f of PStr u \<Rightarrow> \<not> dict_has (dg_nodes d) u | _ \<Rightarrow> True) \<or> hashable t
            then ValueErr ''Both tasks must exist in DAG'' else TypeErr)))"
    proof (cases "\<exists>u w. f = PStr u \<and> t = PStr w")
      case True
      then obtain u w where uw: "f = PStr u" "t = PStr w" by blast
      have "run_ok (\<lambda>d'. plan_for c d'
         \<and> (\<forall>v \<in> set (v # vs). \<exists>i. item_of v ''from'' = Inr (PStr i) \<and> dict_has (dg_nodes d) i))
        (run_bind (run_dag (add_edge rlim u w d)) (add_plan_edges rlim vs))"
      proof (rule run_ok_bind [OF add_edge_plan [OF Cons.prems]])
        fix d1
        assume d1: "plan_for c d1 \<and> dict_keys (dg_nodes d1) = dict_keys (dg_nodes d)
          \<and> dict_has (dg_nodes d) u \<and> dict_has (dg_nodes d) w"
        then have "dict_has (dg_nodes d1) = dict_has (dg_nodes d)" by (simp add: dict_has_keys fun_eq_iff)
        with Cons.IH [of d1] d1 f uw
        show "run_ok (\<lambda>d'. plan_for c d'
           \<and> (\<forall>v \<in> set (v # vs). \<exists>i. item_of v ''from'' = Inr (PStr i) \<and> dict_has (dg_nodes d) i))
          (add_plan_edges rlim vs d1)" by simp
      qed
      with uw show ?thesis by simp
    qed (auto split: pyval.splits)
  qed
qed

text \<open>The sources of the dependencies an accepted answer has are generated identifiers.\<close>

definition deps_use_ids :: "(nat \<Rightarrow> string) \<Rightarrow> pyval \<Rightarrow> bool" where
  "deps_use_ids ids data =
     (case plan_deps_of data of Inl e \<Rightarrow> False
      | Inr vs \<Rightarrow> list_all (\<lambda>v. case item_of v ''from'' of Inr (PStr i) \<Rightarrow> i \<in> range ids | _ \<Rightarrow> False) vs)"

lemma parsed_plan_ok:
  "run_ok (\<lambda>d. plan_for c d \<and> dg_nodes d \<noteq> []
      \<and> (\<exists>data. plan_data (pe_loads env) response = Inr data \<and> deps_use_ids (pi_task ids) data))
    (parsed_plan rlim env ids c now response)"
proof -
  let ?P = "\<lambda>d. plan_for c d \<and> dg_nodes d \<noteq> []
      \<and> (\<exists>data. plan_data (pe_loads env) response = Inr data \<and> deps_use_ids (pi_task ids) data)"
  have "run_ok ?P (run_bind (Some (plan_deps_of data)) (\<lambda>deps. run_bind (add_plan_edges rlim deps d1) (\<lambda>d2.
          Some (if dg_total_tasks d2 = 0 then Inl (ValueErr ''DAG has no tasks'') else Inr d2))))"
    if data: "plan_data (pe_loads env) response = Inr data" and d1: "plan_for c d1"
      and keys: "dict_keys (dg_nodes d1) = map (pi_task ids) [0..<k]" for data d1 k
  proof (rule run_ok_value, rule run_ok_bind [OF add_plan_edges_ok [OF d1]])
    fix deps d2
    assume deps: "plan_deps_of data = Inr deps" and d2: "plan_for c d2
      \<and> (\<forall>v \<in> set deps. \<exists>i. item_of v ''from'' = Inr (PStr i) \<and> dict_has (dg_nodes d1) i)"
    have "deps_use_ids (pi_task ids) data"
      using deps d2 keys by (fastforce simp: deps_use_ids_def list_all_iff dict_has_keys)
    with data d2 show "run_ok ?P (Some (if dg_total_tasks d2 = 0 then Inl (ValueErr ''DAG has no tasks'') else Inr d2))"
      by (auto simp: plan_for_def dag_inv_def)
  qed
  note deps = this
  show ?thesis unfolding parsed_plan_def
  proof (rule run_ok_value, rule run_ok_value, rule run_ok_value)
    fix data d tasks
    assume data: "plan_data (pe_loads env) response = Inr data" and "plan_dag (pi_dag ids) c now = Inr d"
    then have d: "plan_for c d" "dict_keys (dg_nodes d) = []" by (simp_all add: plan_dag_new dict_keys_def)
    show "run_ok ?P (run_bind (add_plan_tasks (pe_int_of env) (pi_task ids) 0 tasks d)
        (\<lambda>d1. run_bind (Some (plan_deps_of data)) (\<lambda>deps. run_bind (add_plan_edges rlim deps d1) (\<lambda>d2.
          Some (if dg_total_tasks d2 = 0 then Inl (ValueErr ''DAG has no tasks'') else Inr d2)))))"
      by (rule run_ok_bind [OF add_plan_tasks_ok [OF d(1)]], rule deps [OF data]) (auto simp: d)
  qed
qed

lemma no_edge_no_cycle: "0 < rlim \<Longrightarrow> outgoing es u = [] \<Longrightarrow> would_create_cycle rlim es u v = Inr False"
  by (cases rlim) (simp_all add: would_create_cycle_def)

text \<open>The fallback plan: two tasks and the edge between them.\<close>

definition is_fallback :: "plan_ids \<Rightarrow> plan_call \<Rightarrow> dag \<Rightarrow> bool" where
  "is_fallback ids c d \<longleftrightarrow> dg_dag_id d = pi_fallback ids \<and> dict_keys (dg_nodes d) = [pi_recon ids, pi_scan ids]
     \<and> map tn_name (dict_values (dg_nodes d)) = [''Basic Reconnaissance'', ''Vulnerability Scan'']
     \<and> dg_edges d = [(pi_recon ids, pi_scan ids)]"

definition fallback_nodes :: "plan_ids \<Rightarrow> plan_call \<Rightarrow> (string, task_node) dict" where
  "fallback_nodes ids c =
     [(pi_recon ids, recon_task ids c), (pi_scan ids, (scan_task ids c)\<lparr>tn_dependencies := [pi_recon ids]\<rparr>)]"

lemma fallback_plan_ok:
  assumes "0 < rlim" and ne: "pi_recon ids \<noteq> pi_scan ids" and tags: "plan_tags (pc_parameters c) = Inr tags"
  shows "\<exists>d. fallback_plan rlim ids c now = Some (Inr d) \<and> plan_for c d \<and> is_fallback ids c d
    \<and> dg_nodes d = fallback_nodes ids c"
proof -
  let ?r = "recon_task ids c" and ?s = "scan_task ids c"
  let ?s' = "?s\<lparr>tn_dependencies := [pi_recon ids]\<rparr>"
  have id: "tn_task_id ?r = pi_recon ids" "tn_task_id ?s = pi_scan ids" "tn_dependencies ?s = []"
    "tn_name ?r = ''Basic Reconnaissance''" "tn_name ?s = ''Vulnerability Scan''"
    by (simp_all add: recon_task_def scan_task_def new_task_node_def)
  obtain d where d: "plan_dag (pi_fallback ids) c now = Inr d" "dg_nodes d = []" "dg_edges d = []"
      "dg_dag_id d = pi_fallback ids" and pd: "plan_for c d"
    using tags plan_dag_new [of "pi_fallback ids" c now] by (auto simp: plan_dag_def new_dag_def)
  have frame: "dg_dag_id d' = dg_dag_id d \<and> dg_nodes d' = dg_nodes d \<and> dg_edges d' = dg_edges d"
    if "update_estimates d = Some (d', x)" for d d' x
    using that by (cases "find_critical_path (dg_nodes d) (dg_edges d)";
        cases "the (find_critical_path (dg_nodes d) (dg_edges d))") (auto simp: update_estimates_def Let_def)
  have wf: "dag_wf e" if "plan_for c e" for e using that by (simp add: plan_for_def dag_inv_def)
  obtain d1 where d1: "add_node ?r d = Some (d1, None)" "dg_nodes d1 = [(pi_recon ids, ?r)]" "dg_edges d1 = []"
    using add_node_ok [OF wf [OF pd], of ?r] d id by (auto simp: dict_has_keys dict_keys_def)
  obtain d2 where d2: "add_node ?s d1 = Some (d2, None)" "dg_nodes d2 = [(pi_recon ids, ?r), (pi_scan ids, ?s)]"
      "dg_edges d2 = []"
    using add_node_ok [OF wf, of d1 ?s] add_node_plan [OF pd, of ?r] d1 id ne by (auto simp: dict_has_keys dict_keys_def)
  have p1: "plan_for c d1" and p2: "plan_for c d2"
    using add_node_plan [OF pd, of ?r] add_node_plan [of c d1 ?s] d1(1) d2(1) by simp_all
  have mem: "dict_has (dg_nodes d2) (pi_recon ids)" "dict_has (dg_nodes d2) (pi_scan ids)"
    by (simp_all add: d2 dict_has_keys dict_keys_def)
  have nc: "would_create_cycle rlim (dg_edges d2) (pi_recon ids) (pi_scan ids) = Inr False"
    by (rule no_edge_no_cycle [OF assms(1)]) (simp add: outgoing_def d2)
  obtain d3 where d3: "add_edge rlim (pi_recon ids) (pi_scan ids) d2 = Some (d3, None)"
    using add_edge_ok [OF wf [OF p2] mem nc] by blast
  have p3: "plan_for c d3" using add_edge_plan [OF p2, of "pi_recon ids" "pi_scan ids" rlim] d3 by simp
  have "dg_nodes d3 = [(pi_recon ids, ?r), (pi_scan ids, ?s')] \<and> dg_edges d3 = [(pi_recon ids, pi_scan ids)]
      \<and> dg_dag_id d3 = pi_fallback ids"
    using d3 d2 d1 d id ne mem nc
    by (auto simp: add_edge_def add_node_def Let_def outgoing_def dict_mod_def dict_set_def dict_get_Cons
        dest!: frame split: if_splits)
  then have "is_fallback ids c d3 \<and> dg_nodes d3 = fallback_nodes ids c"
    by (simp add: is_fallback_def fallback_nodes_def dict_keys_def dict_values_def id)
  with p3 show ?thesis by (simp add: fallback_plan_def d(1) d1(1) d2(1) d3)
qed

lemma estimate_task_costs_ok:
  assumes "plan_for c d" and "dg_nodes d \<noteq> []"
  shows "\<exists>d'. estimate_task_costs d = Some (Inr d') \<and> plan_for c d' \<and> dg_edges d' = dg_edges d
    \<and> dict_keys (dg_nodes d') = dict_keys (dg_nodes d)
    \<and> map tn_name (dict_values (dg_nodes d')) = map tn_name (dict_values (dg_nodes d))
    \<and> dg_dag_id d' = dg_dag_id d \<and> 0 < dg_total_tasks d'
    \<and> dg_estimated_total_cost d' = of_int (dg_total_tasks d') / 100
    \<and> dg_nodes d' = map (\<lambda>(i, t). (i, t\<lparr>tn_estimated_cost := estimate_task_cost t\<rparr>)) (dg_nodes d)"
proof -
  let ?ns = "map (\<lambda>(i, t). (i, t\<lparr>tn_estimated_cost := estimate_task_cost t\<rparr>)) (dg_nodes d)"
  let ?d = "d\<lparr>dg_nodes := ?ns\<rparr>"
  have keys: "dict_keys ?ns = dict_keys (dg_nodes d)" "map tn_name (dict_values ?ns) = map tn_name (dict_values (dg_nodes d))"
    by (auto simp: dict_keys_def dict_values_def)
  have "dag_wf ?d" using assms(1) keys by (simp add: plan_for_def dag_inv_def dag_wf_def dict_ok_def)
  moreover have "dg_nodes ?d \<noteq> []" using assms(2) by simp
  ultimately obtain d' where d': "update_estimates ?d = Some (d', None)" "dag_wf d'" "dg_nodes d' = ?ns"
      "dg_edges d' = dg_edges d" "dg_total_tasks d' = dg_total_tasks d"
      "dg_estimated_total_cost d' = sum_list (map tn_estimated_cost (dict_values ?ns))"
    using update_estimates_ok by fastforce
  have cost: "sum_list (map tn_estimated_cost (dict_values ?ns)) = of_nat (length (dg_nodes d)) / 100"
    by (simp add: dict_values_def comp_def case_prod_unfold estimate_task_cost_def sum_list_triv)
  have "dict_all (\<lambda>k n. tn_task_id n = k \<and> set (incoming (dg_edges d) k) \<subseteq> set (tn_dependencies n)) ?ns"
    using assms(1) by (fastforce simp: plan_for_def dag_inv_def dict_all_def)
  moreover have "dg_total_tasks d = int (length (dg_nodes d))" using assms(1) by (simp add: plan_for_def dag_inv_def)
  moreover have "dg_dag_id d' = dg_dag_id d \<and> dg_process_id d' = dg_process_id d \<and> dg_goal d' = dg_goal d
      \<and> dg_target d' = dg_target d"
    using d'(1) by (cases "find_critical_path ?ns (dg_edges d)"; cases "the (find_critical_path ?ns (dg_edges d))")
      (auto simp: update_estimates_def Let_def)
  ultimately show ?thesis
    using d' assms keys cost by (simp add: estimate_task_costs_def plan_for_def dag_inv_def)
qed

section \<open>Properties\<close>

text \<open>The planner's contract: what a plan that is asked for looks like.\<close>

definition plan_good :: "plan_call \<Rightarrow> dag \<Rightarrow> bool" where
  "plan_good c d \<longleftrightarrow> plan_for c d \<and> 0 < dg_total_tasks d
     \<and> dg_estimated_total_cost d = of_int (dg_total_tasks d) / 100"

text \<open>The answer's dependencies name tasks by the identifiers pydantic has yet to draw.\<close>

definition answer_uses_ids :: "'s plan_env \<Rightarrow> plan_ids \<Rightarrow> string \<Rightarrow> bool" where
  "answer_uses_ids env ids response =
     (case plan_data (pe_loads env) response of Inl e \<Rightarrow> False | Inr data \<Rightarrow> deps_use_ids (pi_task ids) data)"

lemma parse_llm_response_ok:
  assumes "0 < rlim" and "pi_recon ids \<noteq> pi_scan ids" and "plan_tags (pc_parameters c) = Inr tags"
  shows "\<exists>d. parse_llm_response rlim env ids c now response = Some (Inr d) \<and> plan_for c d \<and> dg_nodes d \<noteq> []
    \<and> (answer_uses_ids env ids response \<or> is_fallback ids c d)"
proof -
  obtain d where d: "fallback_plan rlim ids c now = Some (Inr d)" "plan_for c d" "is_fallback ids c d"
    using fallback_plan_ok [OF assms] by blast
  have "dg_nodes d \<noteq> []" using d(3) by (auto simp: is_fallback_def dict_keys_def)
  with d parsed_plan_ok [of c env response ids rlim now] show ?thesis
    by (cases "parsed_plan rlim env ids c now response"; cases "the (parsed_plan rlim env ids c now response)")
       (auto simp: parse_llm_response_def answer_uses_ids_def)
qed


definition ex_answer :: pyval where
  "ex_answer = PDict
     [(''tasks'', PList
        [PDict [(''name'', PStr ''DNS Enumeration''), (''type'', PStr ''recon''),
                (''capabilities'', PList [PStr ''dns_enumeration'']), (''estimated_duration'', PInt 30)],
         PDict [(''name'', PStr ''Port Scan''), (''type'', PStr ''recon''),
                (''capabilities'', PList [PStr ''port_scan'']), (''estimated_duration'', PInt 120)]]),
      (''dependencies'', PList [PDict [(''from'', PStr ''DNS Enumeration''), (''to'', PStr ''Port Scan'')]])]"

definition ex_plan_env :: "unit plan_env" where
  "ex_plan_env =
     \<lparr>pe_generate = \<lambda>req s. (Inr ''{...}'', s), pe_loads = \<lambda>t. Inr ex_answer, pe_dumps = \<lambda>v. ''{}'', pe_str = \<lambda>v. ''text'',
      pe_exn_str = \<lambda>e. ''error'', pe_int_of = \<lambda>t. None, pe_digest = \<lambda>d. ''key'', pe_stamp = \<lambda>t. ''now''\<rparr>"

lemma pe_generate_ex [simp]: "pe_generate ex_plan_env req u = (Inr ''{...}'', u)"
  by (simp add: ex_plan_env_def)

definition ex_ids :: plan_ids where
  "ex_ids = \<lparr>pi_dag = ''dag_1'', pi_task = \<lambda>k. ''task_'' @ nat_str k, pi_fallback = ''dag_2'',
             pi_recon = ''task_r'', pi_scan = ''task_s''\<rparr>"

definition ex_call :: plan_call where
  "ex_call = \<lparr>pc_process = ''p'', pc_goal = ''scan'', pc_target = Some ''example.com'', pc_user = ''u'', pc_tenant = ''t'',
              pc_similar = [], pc_parameters = []\<rparr>"

lemma ex_request: "\<exists>req. plan_request_of_call ex_plan_env ex_call now = Inr req"
  by (simp add: plan_request_of_call_def prepare_context_def create_planning_prompt_def ex_call_def get_item_def
      join_strings_def or_type_err_def py_iter_def all_capabilities_def Let_def dict_set_def dict_get_Cons)


text \<open>
  A plan in the cache is handed out by address. A later request for the same goal and target, from any
  user or tenant and for any process, made any number of whole days plus less than an hour after the plan
  was stored, gets the same DAG object in whatever state the runs in between have left it, without the
  model being asked and without anything being remembered: the age test reads only the seconds of the
  difference and drops its days.
\<close>
theorem plan_cache_shared:
  assumes "create_plan rlim env ids c now later pl s = Some (Inr r, pl', s')"
    and "cached_plan (plan_key c) now pl = None"
    and "pc_goal c' = pc_goal c" and "pc_target c' = pc_target c"
    and "0 \<le> extra" and "extra < 3600000000"
  shows "create_plan rlim' env' ids' c' (later + 86400000000 * days + extra) later' (pl'\<lparr>pl_heap := h\<rparr>) s2
    = Some (Inr r, pl'\<lparr>pl_heap := h\<rparr>, s2)"
proof -
  have "(86400000000 * days + extra) div 1000000 = 86400 * days + extra div 1000000"
    using div_mult_self2 [of 1000000 extra "86400 * days"] by (simp add: algebra_simps)
  moreover have "extra div 1000000 < 3600" "0 \<le> extra div 1000000"
    using assms(5,6) by (simp_all add: pos_imp_zdiv_nonneg_iff int_div_less_self zdiv_mono1)
  ultimately have age: "seconds_part (86400000000 * days + extra) < 3600"
    by (simp add: seconds_part_def)
  have key: "plan_key c' = plan_key c" using assms(3,4) by (simp add: plan_key_def)
  from assms(1,2) have "dict_get (pl_cache pl') (plan_key c) = Some (r, later)"
    by (auto simp: create_plan_def split: prod.splits option.splits sum.splits)
  with age key show ?thesis by (simp add: create_plan_def cached_plan_def)
qed

text \<open>
  Run as an agent, the planner never plans: \<open>execute\<close> raises for every task, so after any number of
  executions each has been counted as failed and the success rate is zero.
\<close>
theorem planner_execute_always_fails:
  "let p = fold (\<lambda>(u, x) p. snd (planner_execute u x p)) ts (new_planner m)
   in (\<exists>e. fst (planner_execute now t p) = Inl e) \<and> am_total (pl_meta p) = length ts
      \<and> am_failed (pl_meta p) = length ts \<and> agent_success_rate (pl_meta p) = 0"
proof -
  have "am_total (pl_meta (fold (\<lambda>(u, x) p. snd (planner_execute u x p)) ts p)) = am_total (pl_meta p) + length ts
      \<and> am_failed (pl_meta (fold (\<lambda>(u, x) p. snd (planner_execute u x p)) ts p)) = am_failed (pl_meta p) + length ts
      \<and> am_successful (pl_meta (fold (\<lambda>(u, x) p. snd (planner_execute u x p)) ts p)) = am_successful (pl_meta p)" for p
    by (induction ts arbitrary: p) (auto simp: planner_execute_def pre_execution_hook_def error_hook_def)
  from this [of "new_planner m"] show ?thesis
    by (simp add: Let_def new_planner_def new_agent_metadata_def agent_success_rate_def planner_execute_def)
qed

theorem plan_cache_shared_witness:
  "\<exists>pl'. create_plan 1 ex_plan_env ex_ids ex_call 0 1 (new_planner new_memory) () = Some (Inr 0, pl', ())
     \<and> create_plan 1 ex_plan_env ex_ids (ex_call\<lparr>pc_process := ''q'', pc_tenant := ''other''\<rparr>) (1 + 86400000000 * 5 + 7) 9
         pl' () = Some (Inr 0, pl', ())"
proof -
  obtain req where req: "plan_request_of_call ex_plan_env ex_call 0 = Inr req" using ex_request by blast
  have miss: "cached_plan (plan_key ex_call) 0 (new_planner new_memory) = None"
    by (simp add: cached_plan_def new_planner_def)
  have tags: "plan_tags (pc_parameters ex_call) = Inr []" by (simp add: plan_tags_def ex_call_def as_dict_def)
  obtain d where "parse_llm_response 1 ex_plan_env ex_ids ex_call 0 ''{...}'' = Some (Inr d)" "plan_for ex_call d" "dg_nodes d \<noteq> []"
    using parse_llm_response_ok [of 1 ex_ids ex_call "[]" ex_plan_env 0 "''{...}''"] tags by (auto simp: ex_ids_def)
  with estimate_task_costs_ok obtain d' where
      "run_bind (parse_llm_response 1 ex_plan_env ex_ids ex_call 0 ''{...}'') estimate_task_costs = Some (Inr d')" by fastforce
  then obtain pl' where made: "create_plan 1 ex_plan_env ex_ids ex_call 0 1 (new_planner new_memory) () = Some (Inr 0, pl', ())"
    using miss req by (simp add: create_plan_def make_plan_def new_planner_def)
  from plan_cache_shared [OF made miss, of "ex_call\<lparr>pc_process := ''q'', pc_tenant := ''other''\<rparr>" 7 _ _ _ 5 _ "pl_heap pl'"] made
  show ?thesis by auto
qed


end
