(* ===== verification/LlmClients.thy ===== *)
theory LlmClients
  imports DomainAgents
begin

text \<open>
  \<open>src/agents/planner/llm_factory.py\<close>: the clients of the language models and the factory that keeps
  them. The HTTP exchange is an argument, a function on a state of its own; so is the construction of the
  Azure SDK's client, whose import may fail.
\<close>

section \<open>Clients\<close>

datatype llm_provider = OpenAI | Anthropic | LocalModel | Azure

record llm_client =
  lc_provider :: llm_provider
  lc_model :: string
  lc_key :: pyval
  lc_url :: string

record http_post =
  hp_url :: string
  hp_headers :: pydict
  hp_json :: pydict

record http_reply =
  hr_status :: int
  hr_text :: string
  hr_json :: pyval

text \<open>\<open>v[k]\<close> for a string key.\<close>

definition item_path :: "string \<Rightarrow> pyval \<Rightarrow> exn + pyval" where
  "item_path k v =
     (case v of PDict d \<Rightarrow> get_item d k | _ \<Rightarrow> Inl TypeErr)"

text \<open>\<open>v[0]\<close> of decoded JSON, whose dictionaries have string keys only.\<close>

definition item_zero :: "pyval \<Rightarrow> exn + pyval" where
  "item_zero v =
     (case v of
        PList [] \<Rightarrow> Inl (py_exn PyIndexError [])
      | PList (x # xs) \<Rightarrow> Inr x
      | PStr [] \<Rightarrow> Inl (py_exn PyIndexError [])
      | PStr (c # cs) \<Rightarrow> Inr (PStr [c])
      | PDict d \<Rightarrow> Inl (KeyErr ''0'')
      | _ \<Rightarrow> Inl TypeErr)"

definition request_body :: "string \<Rightarrow> string \<Rightarrow> rat \<Rightarrow> int \<Rightarrow> pydict \<Rightarrow> pydict" where
  "request_body model prompt temp max_tokens kwargs =
     dict_update
       [(''model'', PStr model),
        (''messages'', PList [PDict [(''role'', PStr ''user''), (''content'', PStr prompt)]]),
        (''temperature'', PFloat temp), (''max_tokens'', PInt max_tokens)] kwargs"

definition openai_post :: "(pyval \<Rightarrow> string) \<Rightarrow> llm_client \<Rightarrow> string \<Rightarrow> rat \<Rightarrow> int \<Rightarrow> pydict \<Rightarrow> http_post" where
  "openai_post str c prompt temp max_tokens kwargs =
     \<lparr>hp_url = lc_url c,
      hp_headers = [(''Authorization'', PStr (''Bearer '' @ str (lc_key c))),
                    (''Content-Type'', PStr ''application/json'')],
      hp_json = request_body (lc_model c) prompt temp max_tokens kwargs\<rparr>"

definition anthropic_post :: "llm_client \<Rightarrow> string \<Rightarrow> rat \<Rightarrow> int \<Rightarrow> pydict \<Rightarrow> http_post" where
  "anthropic_post c prompt temp max_tokens kwargs =
     \<lparr>hp_url = lc_url c,
      hp_headers = [(''x-api-key'', lc_key c), (''anthropic-version'', PStr ''2023-06-01''),
                    (''content-type'', PStr ''application/json'')],
      hp_json = request_body (lc_model c) prompt temp max_tokens kwargs\<rparr>"

definition local_post :: "llm_client \<Rightarrow> string \<Rightarrow> rat \<Rightarrow> int \<Rightarrow> pydict \<Rightarrow> http_post" where
  "local_post c prompt temp max_tokens kwargs =
     \<lparr>hp_url = lc_url c @ ''/api/generate'', hp_headers = [],
      hp_json = dict_update
        [(''model'', PStr (lc_model c)), (''prompt'', PStr prompt), (''temperature'', PFloat temp),
         (''max_tokens'', PInt max_tokens), (''stream'', PBool False)] kwargs\<rparr>"

definition openai_answer :: "pyval \<Rightarrow> exn + pyval" where
  "openai_answer v =
     rbind (item_path ''choices'' v) (\<lambda>cs. rbind (item_zero cs) (\<lambda>c.
     rbind (item_path ''message'' c) (item_path ''content'')))"

definition anthropic_answer :: "pyval \<Rightarrow> exn + pyval" where
  "anthropic_answer v =
     rbind (item_path ''content'' v) (\<lambda>cs. rbind (item_zero cs) (item_path ''text''))"

definition local_answer :: "pyval \<Rightarrow> exn + pyval" where
  "local_answer v = item_path ''response'' v"

text \<open>One post; a status other than 200 raises with the text of the reply.\<close>

definition post_and_read ::
    "(http_post \<Rightarrow> 's \<Rightarrow> (exn + http_reply) \<times> 's) \<Rightarrow> http_post \<Rightarrow> string \<Rightarrow> (pyval \<Rightarrow> exn + pyval) \<Rightarrow> 's
     \<Rightarrow> (exn + pyval) \<times> 's" where
  "post_and_read http req failure answer s =
     (case http req s of
        (Inl e, s') \<Rightarrow> (Inl e, s')
      | (Inr r, s') \<Rightarrow>
          ((if hr_status r \<noteq> 200 then Inl (py_exn PyException (failure @ hr_text r)) else answer (hr_json r)), s'))"

definition llm_generate ::
    "(http_post \<Rightarrow> 's \<Rightarrow> (exn + http_reply) \<times> 's) \<Rightarrow> (llm_client \<Rightarrow> string \<Rightarrow> rat \<Rightarrow> int \<Rightarrow> 's \<Rightarrow> (exn + pyval) \<times> 's)
     \<Rightarrow> (pyval \<Rightarrow> string) \<Rightarrow> llm_client \<Rightarrow> string \<Rightarrow> rat \<Rightarrow> int \<Rightarrow> pydict \<Rightarrow> 's \<Rightarrow> (exn + pyval) \<times> 's" where
  "llm_generate http azure str c prompt temp max_tokens kwargs s =
     (case lc_provider c of
        OpenAI \<Rightarrow> post_and_read http (openai_post str c prompt temp max_tokens kwargs) ''OpenAI API error: '' openai_answer s
      | Anthropic \<Rightarrow> post_and_read http (anthropic_post c prompt temp max_tokens kwargs) ''Anthropic API error: '' anthropic_answer s
      | LocalModel \<Rightarrow> post_and_read http (local_post c prompt temp max_tokens kwargs) ''Local LLM error: '' local_answer s
      | Azure \<Rightarrow> azure c prompt temp max_tokens s)"

section \<open>The factory\<close>

record llm_settings =
  ls_provider :: string
  ls_openai_key :: pyval
  ls_anthropic_key :: pyval
  ls_local_model :: string
  ls_azure_endpoint :: string
  ls_azure_key :: pyval

text \<open>A provider's client may be \<open>None\<close>: the Vertex constructor is empty.\<close>

record llm_factory =
  lf_clients :: "(string, llm_client option) dict"
  lf_default :: string

definition new_llm_factory :: "llm_settings \<Rightarrow> llm_factory" where
  "new_llm_factory st =
     \<lparr>lf_clients = [], lf_default = (if ls_provider st \<noteq> [] then ls_provider st else ''openai'')\<rparr>"

definition or_default :: "string option \<Rightarrow> string \<Rightarrow> string" where
  "or_default v d = (case v of None \<Rightarrow> d | Some [] \<Rightarrow> d | Some s \<Rightarrow> s)"

definition or_value :: "pyval \<Rightarrow> pyval \<Rightarrow> pyval" where
  "or_value v w = (if truthy v then v else w)"

definition client_key :: "string \<Rightarrow> string option \<Rightarrow> string" where
  "client_key provider model = provider @ '':'' @ (case model of None \<Rightarrow> ''None'' | Some m \<Rightarrow> m)"

text \<open>An address among the keyword arguments is a string.\<close>

definition url_of :: "pydict \<Rightarrow> string \<Rightarrow> string \<Rightarrow> string" where
  "url_of kwargs k d = (case dict_get kwargs k of Some (PStr u) \<Rightarrow> u | _ \<Rightarrow> d)"

definition azure_client ::
    "(llm_client \<Rightarrow> exn + llm_client) \<Rightarrow> llm_settings \<Rightarrow> string option \<Rightarrow> pydict \<Rightarrow> exn + llm_client option" where
  "azure_client sdk st model kwargs =
     rbind (sdk \<lparr>lc_provider = Azure, lc_model = or_default model ''gpt-4'',
                 lc_key = dict_get_or kwargs ''api_key'' (ls_azure_key st),
                 lc_url = url_of kwargs ''endpoint'' (ls_azure_endpoint st)\<rparr>) (\<lambda>c. Inr (Some c))"

definition vertex_client :: "string option \<Rightarrow> pydict \<Rightarrow> exn + llm_client option" where
  "vertex_client model kwargs = Inr None"

definition create_client ::
    "(llm_client \<Rightarrow> exn + llm_client) \<Rightarrow> llm_settings \<Rightarrow> string \<Rightarrow> string option \<Rightarrow> pydict \<Rightarrow> exn + llm_client option" where
  "create_client sdk st provider model kwargs =
     (if provider = ''openai''
      then Inr (Some \<lparr>lc_provider = OpenAI, lc_model = or_default model ''gpt-4'',
             lc_key = or_value (dict_get_or kwargs ''api_key'' (ls_openai_key st)) (ls_openai_key st),
             lc_url = ''https://api.openai.com/v1/chat/completions''\<rparr>)
      else if provider = ''anthropic''
      then Inr (Some \<lparr>lc_provider = Anthropic, lc_model = or_default model ''claude-3-opus-20240229'',
             lc_key = or_value (dict_get_or kwargs ''api_key'' (ls_anthropic_key st)) (ls_anthropic_key st),
             lc_url = ''https://api.anthropic.com/v1/messages''\<rparr>)
      else if provider = ''local''
      then Inr (Some \<lparr>lc_provider = LocalModel, lc_model = or_default model (ls_local_model st), lc_key = PNone,
             lc_url = url_of kwargs ''base_url'' ''http://localhost:11434''\<rparr>)
      else if provider = ''azure'' then azure_client sdk st model kwargs
      else if provider = ''vertex'' then vertex_client model kwargs
      else Inl (ValueErr (''Unknown LLM provider: '' @ provider)))"

text \<open>The client is stored before the message that reads its model name is logged.\<close>

definition get_client ::
    "(llm_client \<Rightarrow> exn + llm_client) \<Rightarrow> llm_settings \<Rightarrow> string option \<Rightarrow> string option \<Rightarrow> pydict \<Rightarrow> llm_factory
     \<Rightarrow> (exn + llm_client option) \<times> llm_factory" where
  "get_client sdk st provider model kwargs f =
     (let p = or_default provider (lf_default f); k = client_key p model
      in case dict_get (lf_clients f) k of
           Some c \<Rightarrow> (Inr c, f)
         | None \<Rightarrow>
           (case create_client sdk st p model kwargs of
              Inl e \<Rightarrow> (Inl e, f)
            | Inr c \<Rightarrow>
                ((case c of None \<Rightarrow> Inl (AttributeErr ''model_name'') | Some _ \<Rightarrow> Inr c),
                 f\<lparr>lf_clients := dict_set k c (lf_clients f)\<rparr>)))"

section \<open>Properties\<close>

text \<open>
  The factory keeps one client per provider and model. Once it has made one, every later request for
  that provider and model gets the same client and changes nothing, whatever API key or address the
  request brings: the first caller's key is used for all. A provider whose constructor is empty fails on
  the first request and answers None on every later one.
\<close>
theorem get_client_first_wins:
  assumes "get_client sdk st provider model kwargs f = (r, f')"
    and "create_client sdk st (or_default provider (lf_default f)) model kwargs = Inr c"
    and "dict_get (lf_clients f) (client_key (or_default provider (lf_default f)) model) = None"
  shows "get_client sdk' st' provider model kwargs' f' = (Inr c, f')
    \<and> (case c of None \<Rightarrow> r = Inl (AttributeErr ''model_name'') | Some _ \<Rightarrow> r = Inr c)"
  using assms by (auto simp: get_client_def Let_def split: option.splits)

theorem get_client_first_wins_witness:
  "get_client Inr \<lparr>ls_provider = [], ls_openai_key = PStr ''k'', ls_anthropic_key = PNone, ls_local_model = ''llama2'',
       ls_azure_endpoint = [], ls_azure_key = PNone\<rparr> (Some ''vertex'') None []
     \<lparr>lf_clients = [(''vertex:None'', None)], lf_default = ''openai''\<rparr>
   = (Inr None, \<lparr>lf_clients = [(''vertex:None'', None)], lf_default = ''openai''\<rparr>)"
  using get_client_first_wins [of Inr "\<lparr>ls_provider = [], ls_openai_key = PStr ''k'', ls_anthropic_key = PNone,
       ls_local_model = ''llama2'', ls_azure_endpoint = [], ls_azure_key = PNone\<rparr>" "Some ''vertex''" None "[]"
       "\<lparr>lf_clients = [], lf_default = ''openai''\<rparr>" "Inl (AttributeErr ''model_name'')"
       "\<lparr>lf_clients = [(''vertex:None'', None)], lf_default = ''openai''\<rparr>" None]
  by (simp add: get_client_def create_client_def vertex_client_def client_key_def or_default_def Let_def dict_set_def)

end
