(* ===== verification/AutoScaler.thy ===== *)
theory AutoScaler
  imports WorkerPool DomainAgents
begin

text \<open>
  \<open>src/autonomous/auto_scaler.py\<close>: a loop that reads a tool's worker pool, the depth of its queue and a
  prediction of its demand, decides on a number of workers and creates or removes them one by one. The
  pool is that of \<open>WorkerPool\<close>. The depth, the prediction and what becomes of a creation or a removal
  are arguments. The prediction's numbers are compared as Python does.
\<close>

section \<open>State\<close>

record scaling_policy =
  sp_min :: int
  sp_max :: int
  sp_up_threshold :: rat
  sp_down_threshold :: rat
  sp_queue_threshold :: int
  sp_up_factor :: int
  sp_down_factor :: int
  sp_cooldown :: int

datatype scaling_action = Act_none | Act_up | Act_down

datatype scaling_reason =
    Load_high rat | Queue_deep int | Demand_high pyval | Load_low rat | Demand_low pyval

record scaling_decision =
  sd_tool :: string
  sd_time :: time
  sd_workers :: int
  sd_load :: rat
  sd_queue :: int
  sd_demand :: pyval
  sd_action :: scaling_action
  sd_reasons :: "scaling_reason list"
  sd_target :: int
  sd_delta :: int

record auto_scaler =
  as_pool :: worker_pool
  as_history :: "(time \<times> string \<times> scaling_decision) list"
  as_policies :: "(string, scaling_policy) dict"
  as_decisions :: "(string, scaling_decision \<times> time) dict"
  as_metrics :: "(string, (time \<times> rat \<times> nat) list) dict"
  as_running :: bool

definition new_auto_scaler :: "worker_pool \<Rightarrow> auto_scaler" where
  "new_auto_scaler p = \<lparr>as_pool = p, as_history = [], as_policies = [], as_decisions = [], as_metrics = [],
     as_running = False\<rparr>"

definition start_scaler :: "auto_scaler \<Rightarrow> auto_scaler" where
  "start_scaler a = a\<lparr>as_running := True\<rparr>"

definition stop_scaler :: "auto_scaler \<Rightarrow> auto_scaler" where
  "stop_scaler a = a\<lparr>as_running := False\<rparr>"

definition default_policy :: scaling_policy where
  "default_policy = \<lparr>sp_min = 2, sp_max = 10, sp_up_threshold = 7 / 10, sp_down_threshold = 2 / 10,
     sp_queue_threshold = 5, sp_up_factor = 1, sp_down_factor = 1, sp_cooldown = 300\<rparr>"

text \<open>What a caller of \<open>define_scaling_policy\<close> leaves out.\<close>

definition policy_defaults :: scaling_policy where
  "policy_defaults = \<lparr>sp_min = 2, sp_max = 20, sp_up_threshold = 7 / 10, sp_down_threshold = 2 / 10,
     sp_queue_threshold = 10, sp_up_factor = 2, sp_down_factor = 1, sp_cooldown = 300\<rparr>"

definition define_scaling_policy :: "string \<Rightarrow> scaling_policy \<Rightarrow> auto_scaler \<Rightarrow> auto_scaler" where
  "define_scaling_policy tool p a = a\<lparr>as_policies := dict_set tool p (as_policies a)\<rparr>"

definition policy_of :: "string \<Rightarrow> auto_scaler \<Rightarrow> scaling_policy" where
  "policy_of tool a = dict_get_or (as_policies a) tool default_policy"

section \<open>The decision\<close>

definition keep_decision :: "string \<Rightarrow> int \<Rightarrow> rat \<Rightarrow> int \<Rightarrow> pyval \<Rightarrow> time \<Rightarrow> scaling_decision" where
  "keep_decision tool workers load queue demand now =
     \<lparr>sd_tool = tool, sd_time = now, sd_workers = workers, sd_load = load, sd_queue = queue, sd_demand = demand,
      sd_action = Act_none, sd_reasons = [], sd_target = workers, sd_delta = 0\<rparr>"

definition up_reasons :: "scaling_policy \<Rightarrow> int \<Rightarrow> rat \<Rightarrow> int \<Rightarrow> pyval \<Rightarrow> exn + scaling_reason list" where
  "up_reasons p workers load queue demand =
     rbind (or_type_err (py_gt demand (PFloat (of_int workers * (8 / 10)))))
       (\<lambda>more_demand. Inr ((if load > sp_up_threshold p then [Load_high load] else [])
          @ (if queue > sp_queue_threshold p then [Queue_deep queue] else [])
          @ (if more_demand then [Demand_high demand] else [])))"

definition down_reasons :: "scaling_policy \<Rightarrow> int \<Rightarrow> rat \<Rightarrow> int \<Rightarrow> pyval \<Rightarrow> exn + scaling_reason list" where
  "down_reasons p workers load queue demand =
     rbind (or_type_err (py_lt demand (PFloat (of_int workers * (3 / 10)))))
       (\<lambda>less_demand. Inr ((if load < sp_down_threshold p \<and> queue = 0 then [Load_low load] else [])
          @ (if less_demand then [Demand_low demand] else [])))"

definition make_scaling_decision ::
    "scaling_policy \<Rightarrow> string \<Rightarrow> int \<Rightarrow> rat \<Rightarrow> int \<Rightarrow> pyval \<Rightarrow> time \<Rightarrow> exn + scaling_decision" where
  "make_scaling_decision p tool workers load queue demand now =
     (let keep = keep_decision tool workers load queue demand now
      in rbind (up_reasons p workers load queue demand) (\<lambda>ups.
         if ups \<noteq> [] \<and> workers < sp_max p
         then let t = min (workers + sp_up_factor p) (sp_max p)
              in Inr (keep\<lparr>sd_action := Act_up, sd_reasons := ups, sd_target := t, sd_delta := t - workers\<rparr>)
         else rbind (down_reasons p workers load queue demand) (\<lambda>downs.
           if downs \<noteq> [] \<and> workers > sp_min p
           then let t = max (workers - sp_down_factor p) (sp_min p)
                in Inr (keep\<lparr>sd_action := Act_down, sd_reasons := downs, sd_target := t, sd_delta := workers - t\<rparr>)
           else Inr keep)))"

section \<open>Carrying it out\<close>

text \<open>What the pool meets when it creates the i-th worker, and whether the container of the i-th removal
  is gone when asked for; a removal does not raise.\<close>

record scaling_env =
  sv_created :: "nat \<Rightarrow> exn + (string \<times> string)"
  sv_removed :: "nat \<Rightarrow> bool"

fun add_workers :: "string \<Rightarrow> (exn + (string \<times> string)) list \<Rightarrow> time \<Rightarrow> worker_pool \<Rightarrow> exn option \<times> worker_pool" where
  "add_workers tool [] now s = (None, s)"
| "add_workers tool (Inl e # rs) now s = (Some e, s)"
| "add_workers tool (Inr (wid, cid) # rs) now s =
     (case register_worker tool wid cid now s of
        Inl e \<Rightarrow> (Some e, s)
      | Inr (r, s') \<Rightarrow> add_workers tool rs now s')"

definition remove_idle_worker :: "string \<Rightarrow> bool \<Rightarrow> worker_pool \<Rightarrow> worker_pool" where
  "remove_idle_worker tool gone s =
     (case idle_worker tool s of None \<Rightarrow> s | Some r \<Rightarrow> if gone then remove_finish tool r s else s)"

definition execute_scaling_decision ::
    "scaling_env \<Rightarrow> scaling_decision \<Rightarrow> time \<Rightarrow> auto_scaler \<Rightarrow> exn option \<times> auto_scaler" where
  "execute_scaling_decision env d now a =
     (let (x, pool) =
        (case sd_action d of
           Act_none \<Rightarrow> (None, as_pool a)
         | Act_up \<Rightarrow> add_workers (sd_tool d) (map (sv_created env) [0..<nat (sd_delta d)]) now (as_pool a)
         | Act_down \<Rightarrow> (None, fold (\<lambda>i. remove_idle_worker (sd_tool d) (sv_removed env i)) [0..<nat (sd_delta d)] (as_pool a)))
      in case x of
           Some e \<Rightarrow> (Some e, a\<lparr>as_pool := pool\<rparr>)
         | None \<Rightarrow> (None, a\<lparr>as_pool := pool, as_decisions := dict_set (sd_tool d) (d, now) (as_decisions a)\<rparr>))"

definition peak_demand :: "string \<Rightarrow> pydict \<Rightarrow> exn + pyval" where
  "peak_demand tool prediction =
     rbind (attr_get (dict_get_or prediction ''tools'' (PDict [])) tool (PDict []))
       (\<lambda>t. attr_get t ''peak_demand'' (PInt 0))"

text \<open>The statistics of a pool have no field \<open>utilization\<close>, so the load read from them is the default 0.\<close>

definition load_of_stats :: "worker_pool_stats \<Rightarrow> rat" where
  "load_of_stats st = 0"

definition decide_tool :: "string \<Rightarrow> int \<Rightarrow> exn + pydict \<Rightarrow> time \<Rightarrow> auto_scaler \<Rightarrow> exn + scaling_decision" where
  "decide_tool tool queue prediction now a =
     (let st = worker_pool_stats_of tool (as_pool a)
      in rbind prediction (\<lambda>pr. rbind (peak_demand tool pr) (\<lambda>demand.
           make_scaling_decision (policy_of tool a) tool (int (wps_total st)) (load_of_stats st) queue demand now)))"

definition evaluate_tool ::
    "scaling_env \<Rightarrow> string \<Rightarrow> int \<Rightarrow> exn + pydict \<Rightarrow> time \<Rightarrow> auto_scaler \<Rightarrow> exn option \<times> auto_scaler" where
  "evaluate_tool env tool queue prediction now a =
     (case decide_tool tool queue prediction now a of
        Inl e \<Rightarrow> (Some e, a)
      | Inr d \<Rightarrow>
        if sd_action d = Act_none then (None, a)
        else (case execute_scaling_decision env d now a of
                (Some e, a') \<Rightarrow> (Some e, a')
              | (None, a') \<Rightarrow> (None, a'\<lparr>as_history := as_history a' @ [(now, tool, d)]\<rparr>)))"

definition scaled_tools :: "string list" where
  "scaled_tools = [''nmap'', ''nuclei'', ''sqlmap'', ''gobuster'']"

text \<open>One round; what the outside answers depends on the tool. The first exception ends it.\<close>

fun evaluate_tools ::
    "(string \<Rightarrow> scaling_env) \<Rightarrow> (string \<Rightarrow> int) \<Rightarrow> exn + pydict \<Rightarrow> time \<Rightarrow> string list \<Rightarrow> auto_scaler
     \<Rightarrow> exn option \<times> auto_scaler" where
  "evaluate_tools env queue prediction now [] a = (None, a)"
| "evaluate_tools env queue prediction now (t # ts) a =
     (case evaluate_tool (env t) t (queue t) prediction now a of
        (Some e, a') \<Rightarrow> (Some e, a')
      | (None, a') \<Rightarrow> evaluate_tools env queue prediction now ts a')"

definition evaluate_scaling_needs ::
    "(string \<Rightarrow> scaling_env) \<Rightarrow> (string \<Rightarrow> int) \<Rightarrow> exn + pydict \<Rightarrow> time \<Rightarrow> auto_scaler \<Rightarrow> exn option \<times> auto_scaler" where
  "evaluate_scaling_needs env queue prediction now a = evaluate_tools env queue prediction now scaled_tools a"

text \<open>An iteration of \<open>_scaling_loop\<close>: what it leaves, and the seconds it then sleeps.\<close>

definition scaling_round ::
    "(string \<Rightarrow> scaling_env) \<Rightarrow> (string \<Rightarrow> int) \<Rightarrow> exn + pydict \<Rightarrow> time \<Rightarrow> auto_scaler \<Rightarrow> int \<times> auto_scaler" where
  "scaling_round env queue prediction now a =
     (case evaluate_scaling_needs env queue prediction now a of
        (None, a') \<Rightarrow> (60, a') | (Some e, a') \<Rightarrow> (120, a'))"

section \<open>Reports\<close>

definition get_scaling_status ::
    "string \<Rightarrow> auto_scaler \<Rightarrow> (scaling_decision \<times> time) option \<times> scaling_policy \<times> (time \<times> string \<times> scaling_decision) list" where
  "get_scaling_status tool a =
     (dict_get (as_decisions a) tool, policy_of tool a, filter (\<lambda>h. fst (snd h) = tool) (last_n 10 (as_history a)))"

text \<open>The status of all tools, in no particular order: the number of recent actions of each.\<close>

definition get_all_scaling_status :: "auto_scaler \<Rightarrow> (string, (scaling_decision \<times> time) option \<times> scaling_policy \<times> nat) dict" where
  "get_all_scaling_status a =
     map (\<lambda>t. (t, dict_get (as_decisions a) t, policy_of t a,
                length (filter (\<lambda>h. fst (snd h) = t) (last_n 20 (as_history a)))))
       (remdups (map (fst \<circ> snd) (as_history a)))"

definition bump :: "'k \<Rightarrow> ('k, nat) dict \<Rightarrow> ('k, nat) dict" where
  "bump k d = dict_set k (dict_get_or d k 0 + 1) d"

record scaling_metrics =
  sm_total :: nat
  sm_by_action :: "(scaling_action, nat) dict"
  sm_by_tool :: "(string, nat) dict"
  sm_saved :: rat

definition get_scaling_metrics :: "int \<Rightarrow> time \<Rightarrow> auto_scaler \<Rightarrow> scaling_metrics" where
  "get_scaling_metrics hours now a =
     (let recent = filter (\<lambda>h. fst h \<ge> now - hours * 3600000000) (as_history a)
      in \<lparr>sm_total = length recent,
          sm_by_action = fold (\<lambda>h. bump (sd_action (snd (snd h)))) recent [],
          sm_by_tool = fold (\<lambda>h. bump (fst (snd h))) recent [],
          sm_saved = of_nat (length recent) * (5 / 10)\<rparr>)"

text \<open>\<open>simulate_load\<close>: the recorded load feeds nothing; each entry triggers a round. An empty profile
  divides by zero.\<close>

fun simulate_loads ::
    "(string \<Rightarrow> scaling_env) \<Rightarrow> (string \<Rightarrow> int) \<Rightarrow> exn + pydict \<Rightarrow> string \<Rightarrow> (rat \<times> time) list \<Rightarrow> nat \<Rightarrow> auto_scaler
     \<Rightarrow> exn option \<times> auto_scaler" where
  "simulate_loads env queue prediction tool [] i a = (None, a)"
| "simulate_loads env queue prediction tool ((load, now) # ls) i a =
     (case evaluate_scaling_needs env queue prediction now
             (a\<lparr>as_metrics := dict_set tool (dict_get_or (as_metrics a) tool [] @ [(now, load, i)]) (as_metrics a)\<rparr>) of
        (Some e, a') \<Rightarrow> (Some e, a')
      | (None, a') \<Rightarrow> simulate_loads env queue prediction tool ls (Suc i) a')"

definition simulate_load ::
    "(string \<Rightarrow> scaling_env) \<Rightarrow> (string \<Rightarrow> int) \<Rightarrow> exn + pydict \<Rightarrow> string \<Rightarrow> (rat \<times> time) list \<Rightarrow> auto_scaler
     \<Rightarrow> exn option \<times> auto_scaler" where
  "simulate_load env queue prediction tool profile a =
     (if profile = [] then (Some (py_exn PyZeroDivisionError []), a)
      else simulate_loads env queue prediction tool profile 0 a)"

section \<open>The size of a pool under scaling\<close>

abbreviation pool_size :: "string \<Rightarrow> auto_scaler \<Rightarrow> int" where
  "pool_size t a \<equiv> int (length (pool_of t (as_pool a)))"

definition within_policy :: "string \<Rightarrow> auto_scaler \<Rightarrow> bool" where
  "within_policy t a \<longleftrightarrow> sp_min (policy_of t a) \<le> pool_size t a \<and> pool_size t a \<le> sp_max (policy_of t a)"

lemma scaling_decision_cases:
  assumes "make_scaling_decision p tool n load queue demand now = Inr d"
  shows "sd_tool d = tool \<and>
    (case sd_action d of
       Act_none \<Rightarrow> sd_delta d = 0
     | Act_up \<Rightarrow> n < sp_max p \<and> sd_delta d = min (n + sp_up_factor p) (sp_max p) - n
     | Act_down \<Rightarrow> sp_min p < n \<and> sd_delta d = n - max (n - sp_down_factor p) (sp_min p))"
  using assms by (auto simp: make_scaling_decision_def Let_def rbind_Inr keep_decision_def split: if_splits)

lemma add_workers_size:
  "add_workers tool rs now s = (x, s') \<Longrightarrow>
     (\<forall>t. t \<noteq> tool \<longrightarrow> pool_of t s' = pool_of t s) \<and> length (pool_of tool s) \<le> length (pool_of tool s')
     \<and> length (pool_of tool s') \<le> length (pool_of tool s) + length rs
     \<and> (x = None \<longrightarrow> length (pool_of tool s') = length (pool_of tool s) + length rs)"
proof (induction tool rs now s rule: add_workers.induct)
  case (3 tool wid cid rs now s)
  show ?case
  proof (cases "register_worker tool wid cid now s")
    case (Inr rs1)
    obtain r s1 where r: "rs1 = (r, s1)" by fastforce
    with Inr register_pools [of tool wid cid now s r s1]
    have "\<forall>t. pool_of t s1 = pool_of t s @ (if t = tool then [r] else [])" by blast
    with 3 Inr r show ?thesis by fastforce
  qed (use 3 in auto)
qed auto

lemma remove_idle_size:
  "(t \<noteq> tool \<longrightarrow> pool_of t (remove_idle_worker tool gone s) = pool_of t s)
   \<and> length (pool_of tool (remove_idle_worker tool gone s)) \<le> length (pool_of tool s)
   \<and> length (pool_of tool s) \<le> length (pool_of tool (remove_idle_worker tool gone s)) + 1"
proof (cases "idle_worker tool s")
  case (Some r)
  have "pool_of t (remove_finish tool r s) = (if t = tool then remove1 r (pool_of t s) else pool_of t s)" for t
  proof (cases "r \<in> set (pool_of tool s)")
    case True
    then have "dict_has (wp_pools s) tool"
      by (cases "dict_get (wp_pools s) tool") (simp_all add: pool_of_def dict_get_or_def dict_has_def)
    with True show ?thesis
      by (simp add: remove_finish_def Let_def pool_of_def dict_get_or_def dict_has_def split: option.split)
  qed (simp add: remove_finish_def remove1_idem)
  with Some show ?thesis by (auto simp: remove_idle_worker_def length_remove1)
qed (simp add: remove_idle_worker_def)

lemma remove_idles_size:
  "(t \<noteq> tool \<longrightarrow> pool_of t (fold (\<lambda>i. remove_idle_worker tool (g i)) is s) = pool_of t s)
   \<and> length (pool_of tool (fold (\<lambda>i. remove_idle_worker tool (g i)) is s)) \<le> length (pool_of tool s)
   \<and> length (pool_of tool s) \<le> length (pool_of tool (fold (\<lambda>i. remove_idle_worker tool (g i)) is s)) + length is"
proof (induction "is" arbitrary: s)
  case (Cons i "is")
  show ?case using Cons.IH [of "remove_idle_worker tool (g i) s"] remove_idle_size [of t tool "g i" s]
    by simp
qed simp

lemma execute_scaling_within:
  assumes "make_scaling_decision (policy_of tool a) tool (pool_size tool a) load queue demand now = Inr d"
    and "execute_scaling_decision env d now a = (x, a')"
  shows "as_policies a' = as_policies a \<and> (within_policy t a \<longrightarrow> within_policy t a')
    \<and> (sd_action d = Act_up \<and> x = None \<and> 0 \<le> sp_up_factor (policy_of tool a)
        \<longrightarrow> pool_size tool a' = min (pool_size tool a + sp_up_factor (policy_of tool a)) (sp_max (policy_of tool a)))"
proof -
  note d = scaling_decision_cases [OF assms(1)]
  show ?thesis
  proof (cases "sd_action d")
    case Act_none
    with assms(2) show ?thesis by (auto simp: execute_scaling_decision_def within_policy_def policy_of_def)
  next
    case Act_up
    obtain y s' where y: "add_workers tool (map (sv_created env) [0..<nat (sd_delta d)]) now (as_pool a) = (y, s')"
      by (metis surj_pair)
    from assms(2) Act_up y d have a': "as_pool a' = s'" "as_policies a' = as_policies a" "x = y"
      by (auto simp: execute_scaling_decision_def split: option.splits)
    show ?thesis
      using add_workers_size [OF y] a' d Act_up by (cases "t = tool") (auto simp: within_policy_def policy_of_def)
  next
    case Act_down
    let ?s = "fold (\<lambda>i. remove_idle_worker tool (sv_removed env i)) [0..<nat (sd_delta d)] (as_pool a)"
    from assms(2) Act_down d have a': "as_pool a' = ?s" "as_policies a' = as_policies a"
      by (auto simp: execute_scaling_decision_def)
    show ?thesis
      using remove_idles_size [of t tool "sv_removed env" "[0..<nat (sd_delta d)]" "as_pool a"] a' d Act_down
      by (cases "t = tool") (auto simp: within_policy_def policy_of_def)
  qed
qed

lemma evaluate_tool_within:
  "within_policy t a \<Longrightarrow> within_policy t (snd (evaluate_tool env tool queue prediction now a))"
proof (cases "decide_tool tool queue prediction now a")
  case (Inr d)
  then obtain load demand where
      d: "make_scaling_decision (policy_of tool a) tool (pool_size tool a) load queue demand now = Inr d"
    by (auto simp: decide_tool_def rbind_Inr Let_def worker_pool_stats_of_def)
  obtain x a' where x: "execute_scaling_decision env d now a = (x, a')" by (metis surj_pair)
  have "within_policy t (a'\<lparr>as_history := h\<rparr>) = within_policy t a'" for h
    by (simp add: within_policy_def policy_of_def)
  with execute_scaling_within [OF d x] Inr x show "within_policy t a \<Longrightarrow> ?thesis"
    by (cases x) (auto simp: evaluate_tool_def)
qed (simp add: evaluate_tool_def)

lemma evaluate_tools_within:
  "within_policy t a \<Longrightarrow> within_policy t (snd (evaluate_tools env queue prediction now ts a))"
proof (induction ts arbitrary: a)
  case (Cons tool ts)
  obtain x a' where x: "evaluate_tool (env tool) tool (queue tool) prediction now a = (x, a')" by (metis surj_pair)
  with evaluate_tool_within [OF Cons.prems] have "within_policy t a'" by (metis snd_conv)
  with Cons.IH x show ?case by (simp split: option.split)
qed simp

section \<open>Properties\<close>

text \<open>
  A pool whose size lies between a policy's bounds stays between them through any number of rounds
  of the scaling loop, whatever queues and predictions say and whichever creations and removals fail.
\<close>
theorem scaling_keeps_policy:
  assumes "within_policy tool a"
  shows "within_policy tool
    (fold (\<lambda>(env, queue, prediction, now) a. snd (scaling_round env queue prediction now a)) rounds a)"
  using assms
proof (induction rounds arbitrary: a)
  case (Cons r rounds)
  obtain env queue prediction now where r: "r = (env, queue, prediction, now)" by (metis prod_cases4)
  have "snd (scaling_round env queue prediction now a) = snd (evaluate_tools env queue prediction now scaled_tools a)"
    by (simp add: scaling_round_def evaluate_scaling_needs_def split: prod.split option.split)
  with evaluate_tools_within [OF Cons.prems] Cons.IH r show ?case by simp
qed simp

definition ex_busy :: worker where
  "ex_busy = \<lparr>wk_id = ''w'', wk_container = ''c'', wk_tool = ''nmap'', wk_status = W_busy, wk_created_at = 0,
     wk_health_check = 0, wk_tasks = 1, wk_time = 1, wk_current = PStr ''x'', wk_permanent_failure = False\<rparr>"

definition ex_scaler :: "worker_status \<Rightarrow> auto_scaler" where
  "ex_scaler st = new_auto_scaler (new_worker_pool
     \<lparr>wp_store := [ex_busy\<lparr>wk_status := st\<rparr>, ex_busy\<lparr>wk_status := st\<rparr>], wp_pools := [(''nmap'', [0, 1])]\<rparr>)"

definition ex_scaling_env :: scaling_env where
  "ex_scaling_env = \<lparr>sv_created = \<lambda>i. Inr (''new'', ''box''), sv_removed = \<lambda>i. True\<rparr>"

theorem scaling_keeps_policy_witness:
  "within_policy ''nmap'' (fold (\<lambda>(env, queue, prediction, now) a. snd (scaling_round env queue prediction now a))
     [(\<lambda>t. ex_scaling_env, \<lambda>t. 9, Inr [], 5), (\<lambda>t. ex_scaling_env, \<lambda>t. 0, Inl TypeErr, 9)] (ex_scaler W_busy))"
  by (rule scaling_keeps_policy) code_simp

text \<open>
  The scaler does not see how busy the workers are. Its decision for a tool depends on the number of
  the tool's workers, its policy, the queue and the prediction alone: two pools of the same size, one
  idle and one fully busy, get the same decision.
\<close>
theorem scaler_blind_to_load:
  assumes "length (pool_of tool (as_pool a)) = length (pool_of tool (as_pool a'))"
    and "policy_of tool a = policy_of tool a'"
  shows "decide_tool tool queue prediction now a = decide_tool tool queue prediction now a'"
  using assms by (simp add: decide_tool_def worker_pool_stats_of_def load_of_stats_def Let_def)

theorem scaler_blind_to_load_witness:
  "decide_tool ''nmap'' 3 (Inr []) 5 (ex_scaler W_busy) = decide_tool ''nmap'' 3 (Inr []) 5 (ex_scaler W_available)"
  by (rule scaler_blind_to_load; code_simp)

text \<open>
  A deep queue makes the scaler add workers up to its own policy's maximum without asking the pool for
  its own: after a round that met no failure the pool has grown by the policy's step or to the policy's
  maximum, whatever the maximum of the pool is.
\<close>
theorem scaling_ignores_pool_maximum:
  assumes "decide_tool tool queue prediction now a = Inr d" and "sp_queue_threshold (policy_of tool a) < queue"
    and "pool_size tool a < sp_max (policy_of tool a)" and "0 \<le> sp_up_factor (policy_of tool a)"
    and "evaluate_tool env tool queue prediction now a = (None, a')"
  shows "pool_size tool a' = min (pool_size tool a + sp_up_factor (policy_of tool a)) (sp_max (policy_of tool a))"
proof -
  from assms(1) obtain load demand where
      d: "make_scaling_decision (policy_of tool a) tool (pool_size tool a) load queue demand now = Inr d"
    by (auto simp: decide_tool_def rbind_Inr Let_def worker_pool_stats_of_def)
  with assms(2,3) have up: "sd_action d = Act_up"
    by (auto simp: make_scaling_decision_def rbind_Inr up_reasons_def Let_def)
  obtain x a1 where x: "execute_scaling_decision env d now a = (x, a1)" by (metis surj_pair)
  from assms(1,5) up x have "x = None" "as_pool a' = as_pool a1"
    by (auto simp: evaluate_tool_def split: option.splits)
  with execute_scaling_within [OF d x] up assms(4) show ?thesis by metis
qed

theorem scaling_ignores_pool_maximum_witness:
  "pool_size ''nmap'' (snd (evaluate_tool ex_scaling_env ''nmap'' 9 (Inr []) 5 (ex_scaler W_available))) = 3
    \<and> wp_max_workers (as_pool (ex_scaler W_available)) = 2"
proof -
  let ?a = "ex_scaler W_available"
  have "\<not> isl (decide_tool ''nmap'' 9 (Inr []) 5 ?a)" by code_simp
  then obtain d where d: "decide_tool ''nmap'' 9 (Inr []) 5 ?a = Inr d"
    by (cases "decide_tool ''nmap'' 9 (Inr []) 5 ?a") simp_all
  have facts: "sp_queue_threshold (policy_of ''nmap'' ?a) < 9" "pool_size ''nmap'' ?a < sp_max (policy_of ''nmap'' ?a)"
      "0 \<le> sp_up_factor (policy_of ''nmap'' ?a)"
      "min (pool_size ''nmap'' ?a + sp_up_factor (policy_of ''nmap'' ?a)) (sp_max (policy_of ''nmap'' ?a)) = 3"
      "wp_max_workers (as_pool ?a) = 2" "fst (evaluate_tool ex_scaling_env ''nmap'' 9 (Inr []) 5 ?a) = None"
    by code_simp+
  obtain a' where a': "evaluate_tool ex_scaling_env ''nmap'' 9 (Inr []) 5 ?a = (None, a')"
    using facts(6) by (metis prod.collapse)
  from scaling_ignores_pool_maximum [OF d facts(1-3) a'] facts(4,5) a' show ?thesis by simp
qed

end
