(* ===== verification/HybridApi.thy ===== *)
theory HybridApi
  imports Scheduler MemoryService DomainAgents
begin

text \<open>
  \<open>src/api/routes/v1/hybrid.py\<close> with the requests and responses of \<open>src/api/models/\<close>: the endpoints
  through which executions are requested, listed, looked up and cancelled, and the background jobs behind
  them, over the scheduler of \<open>Scheduler\<close>. A handler returns a response, raises an \<open>HTTPException\<close>, or
  raises something else, which the framework turns into status 500. Identifiers and times are arguments;
  a job runs after its response, when the scheduler draws an identifier of its own.
\<close>

section \<open>Requests and responses\<close>

record exec_request =
  er_goal :: string
  er_target :: "string option"
  er_priority :: string
  er_mode :: string
  er_budget :: "rat option"
  er_tags :: "(string, string) dict"
  er_webhook :: "string option"
  er_parameters :: pydict

text \<open>The validators run after the limits on the length, which see the goal with its white space.\<close>

definition validate_goal :: "string \<Rightarrow> exn + string" where
  "validate_goal v =
     (if length v < 5 \<or> 1000 < length v then Inl (ValueErr ''goal'')
      else if strip v = [] then Inl (ValueErr ''Goal cannot be empty or just whitespace'')
      else Inr (strip v))"

definition validate_target :: "string option \<Rightarrow> exn + string option" where
  "validate_target v =
     (case v of None \<Rightarrow> Inr None | Some [] \<Rightarrow> Inr v
      | Some s \<Rightarrow>
        (let t = strip s
         in if length t < 3 then Inl (ValueErr ''Target too short'')
            else if CHR '' '' \<in> set t \<and> take 4 t \<noteq> ''http'' then Inl (ValueErr ''Target should not contain spaces'')
            else Inr (Some t)))"

datatype api_status =
  AS_pending | AS_planning | AS_validating | AS_executing | AS_completed | AS_failed | AS_cancelled | AS_timeout

fun api_status_value :: "api_status \<Rightarrow> string" where
  "api_status_value AS_pending = ''pending''"
| "api_status_value AS_planning = ''planning''"
| "api_status_value AS_validating = ''validating''"
| "api_status_value AS_executing = ''executing''"
| "api_status_value AS_completed = ''completed''"
| "api_status_value AS_failed = ''failed''"
| "api_status_value AS_cancelled = ''cancelled''"
| "api_status_value AS_timeout = ''timeout''"

definition api_statuses :: "api_status list" where
  "api_statuses = [AS_pending, AS_planning, AS_validating, AS_executing, AS_completed, AS_failed, AS_cancelled, AS_timeout]"

fun exec_status_value :: "exec_status \<Rightarrow> string" where
  "exec_status_value ES_pending = ''pending''"
| "exec_status_value ES_planning = ''planning''"
| "exec_status_value ES_validating = ''validating''"
| "exec_status_value ES_ready = ''ready''"
| "exec_status_value ES_executing = ''executing''"
| "exec_status_value ES_completed = ''completed''"
| "exec_status_value ES_failed = ''failed''"
| "exec_status_value ES_cancelled = ''cancelled''"

text \<open>Pydantic reads a status by its value; the API has none for an execution that is ready.\<close>

definition read_status :: "string \<Rightarrow> exn + api_status" where
  "read_status v = (case find (\<lambda>st. api_status_value st = v) api_statuses of
     None \<Rightarrow> Inl (ValueErr ''status'') | Some st \<Rightarrow> Inr st)"

record exec_response =
  xr_process_id :: string
  xr_status :: api_status
  xr_goal :: string
  xr_target :: "string option"
  xr_created_at :: time
  xr_updated_at :: time

datatype 'a reply = Ok 'a | Http_error int string | Raises exn

record exec_job =
  ej_process_id :: string
  ej_request :: exec_request
  ej_user :: string
  ej_tenant :: string
  ej_request_id :: string

section \<open>Requesting an execution\<close>

definition with_scheduler :: "'s option \<Rightarrow> ('s \<Rightarrow> 'a reply) \<Rightarrow> 'a reply" where
  "with_scheduler sched f =
     (case sched of None \<Rightarrow> Http_error 503 ''Scheduler not initialized yet, please try again in a few seconds''
      | Some s \<Rightarrow> f s)"

definition pending_response :: "string \<Rightarrow> exec_request \<Rightarrow> time \<Rightarrow> exec_response" where
  "pending_response pid r now =
     \<lparr>xr_process_id = pid, xr_status = AS_pending, xr_goal = er_goal r, xr_target = er_target r,
      xr_created_at = now, xr_updated_at = now\<rparr>"

text \<open>The answer, and the job it leaves behind.\<close>

definition execute_goal ::
    "scheduler option \<Rightarrow> string \<Rightarrow> exec_request \<Rightarrow> string \<Rightarrow> string \<Rightarrow> string \<Rightarrow> time \<Rightarrow> (exec_response \<times> exec_job list) reply" where
  "execute_goal sched pid r user tenant request_id now =
     with_scheduler sched (\<lambda>s. Ok (pending_response pid r now,
       [\<lparr>ej_process_id = pid, ej_request = r, ej_user = user, ej_tenant = tenant, ej_request_id = request_id\<rparr>]))"

text \<open>A batch: the drawn process and request identifiers come with each request.\<close>

definition batch_execute ::
    "scheduler option \<Rightarrow> (exec_request \<times> string \<times> string) list \<Rightarrow> string \<Rightarrow> string \<Rightarrow> time
     \<Rightarrow> (exec_response list \<times> exec_job list) reply" where
  "batch_execute sched rs user tenant now =
     with_scheduler sched (\<lambda>s. Ok
       (map (\<lambda>(r, pid, rid). pending_response pid r now) rs,
        map (\<lambda>(r, pid, rid). \<lparr>ej_process_id = pid, ej_request = r, ej_user = user, ej_tenant = tenant,
                             ej_request_id = rid\<rparr>) rs))"

definition job_parameters :: "exec_job \<Rightarrow> pydict" where
  "job_parameters j =
     dict_update [(''request_id'', PStr (ej_request_id j)),
                  (''tags'', PDict (map (\<lambda>(k, v). (k, PStr v)) (er_tags (ej_request j)))),
                  (''mode'', PStr (er_mode (ej_request j)))] (er_parameters (ej_request j))"

text \<open>After a failure the execution of the response's identifier is marked, if the scheduler has it.\<close>

definition mark_failed :: "(exn \<Rightarrow> string) \<Rightarrow> string \<Rightarrow> exn \<Rightarrow> scheduler \<Rightarrow> scheduler" where
  "mark_failed str pid e s =
     s\<lparr>sd_active := dict_mod pid (\<lambda>x. x\<lparr>xc_status := ES_failed, xc_error := Some (str e, PyException)\<rparr>) (sd_active s)\<rparr>"

text \<open>The job: \<open>own\<close> is the identifier the scheduler draws. The result says whether it is then monitored.\<close>

definition process_hybrid_execution ::
    "(exn \<Rightarrow> string) \<Rightarrow> bool \<Rightarrow> string \<Rightarrow> exec_job \<Rightarrow> time \<Rightarrow> scheduler \<Rightarrow> bool \<times> scheduler" where
  "process_hybrid_execution str online own j now s =
     (if \<not> online
      then (False, mark_failed str (ej_process_id j) (py_exn PyException ''Scheduler not connected to orchestrator'') s)
      else (let r = ej_request j
            in case schedule_execution own (er_goal r) (ej_user j) (ej_tenant j) (er_target r) (er_budget r)
                      (er_priority r) (Some (job_parameters j)) now s of
                 (Inl e, s') \<Rightarrow> (False, mark_failed str (ej_process_id j) e s')
               | (Inr p, s') \<Rightarrow> (True, s')))"

section \<open>Monitoring\<close>

text \<open>What a look at the status gives on each attempt; \<open>last\<close> is the variable \<open>status\<close>, if bound.\<close>

fun monitor_loop :: "(nat \<Rightarrow> exn + pydict option) \<Rightarrow> nat \<Rightarrow> nat \<Rightarrow> pydict option option \<Rightarrow> pydict option option" where
  "monitor_loop look 0 k lst = lst"
| "monitor_loop look (Suc n) k lst =
     (case look k of
        Inl e \<Rightarrow> monitor_loop look n (Suc k) lst
      | Inr st \<Rightarrow>
          (if (case st of None \<Rightarrow> False
               | Some d \<Rightarrow> py_in (get_none d ''status'') (PList [PStr ''completed'', PStr ''failed'', PStr ''cancelled'']) = Some True)
           then Some st
           else monitor_loop look n (Suc k) (Some st)))"

text \<open>The webhook that is called, with the status it is told; 60 attempts, two seconds apart.\<close>

definition monitor_execution :: "(nat \<Rightarrow> exn + pydict option) \<Rightarrow> string option \<Rightarrow> (string \<times> pyval) option" where
  "monitor_execution look webhook =
     (case webhook of None \<Rightarrow> None | Some [] \<Rightarrow> None
      | Some url \<Rightarrow>
        (case monitor_loop look 60 0 None of
           Some (Some d) \<Rightarrow> Some (url, dict_get_or d ''status'' (PStr ''completed''))
         | _ \<Rightarrow> None))"

section \<open>Status, list and cancellation\<close>

record api_status_report =
  ap_process_id :: string
  ap_status :: api_status
  ap_progress :: rat
  ap_updated_at :: time

text \<open>The scheduler's report as a response: the field \<open>updated_at\<close> is always there, and may be None.\<close>

definition report_of_execution :: "string \<Rightarrow> status_report \<Rightarrow> exn + api_status_report" where
  "report_of_execution pid r =
     rbind (read_status (exec_status_value (sr_status r))) (\<lambda>st.
       case sr_updated_at r of
         None \<Rightarrow> Inl (ValueErr ''updated_at'')
       | Some t \<Rightarrow> Inr \<lparr>ap_process_id = pid, ap_status = st, ap_progress = sr_progress r, ap_updated_at = t\<rparr>)"

text \<open>A document of the memory as a response; pydantic's reading of a time is an argument.\<close>

definition report_of_document :: "(pyval \<Rightarrow> time option) \<Rightarrow> string \<Rightarrow> pydict \<Rightarrow> time \<Rightarrow> exn + api_status_report" where
  "report_of_document read_time pid d now =
     rbind (get_item d ''status'') (\<lambda>v.
     rbind (case v of PStr s \<Rightarrow> read_status s | _ \<Rightarrow> Inl (ValueErr ''status'')) (\<lambda>st.
     rbind (case num_val (dict_get_or d ''progress'' (PInt 0)) of None \<Rightarrow> Inl (ValueErr ''progress'') | Some p \<Rightarrow> Inr p) (\<lambda>p.
     rbind (case get_none d ''current_task'' of PNone \<Rightarrow> Inr () | PStr s \<Rightarrow> Inr () | _ \<Rightarrow> Inl (ValueErr ''current_task'')) (\<lambda>_.
     rbind (case dict_get d ''updated_at'' of None \<Rightarrow> Inr now
            | Some v \<Rightarrow> (case read_time v of None \<Rightarrow> Inl (ValueErr ''updated_at'') | Some t \<Rightarrow> Inr t)) (\<lambda>t.
       Inr \<lparr>ap_process_id = pid, ap_status = st, ap_progress = p, ap_updated_at = t\<rparr>)))))"

definition status_endpoint ::
    "(exn \<Rightarrow> string) \<Rightarrow> (pyval \<Rightarrow> time option) \<Rightarrow> scheduler option \<Rightarrow> memory \<Rightarrow> string \<Rightarrow> time \<Rightarrow> api_status_report reply" where
  "status_endpoint str read_time sched m pid now =
     with_scheduler sched (\<lambda>s.
       let answer = (\<lambda>r. case r of Inr x \<Rightarrow> Ok x | Inl e \<Rightarrow> Http_error 500 (''Error retrieving execution status: '' @ str e))
       in case Scheduler.get_execution_status pid s of
            Some r \<Rightarrow> answer (report_of_execution pid r)
          | None \<Rightarrow>
            (case get_execution_result pid m of
               None \<Rightarrow> Http_error 404 (''Execution '' @ pid @ '' not found'')
             | Some [] \<Rightarrow> Http_error 404 (''Execution '' @ pid @ '' not found'')
             | Some d \<Rightarrow> answer (report_of_document read_time pid d now)))"

record list_query =
  lq_page :: nat
  lq_size :: nat
  lq_status :: "api_status option"
  lq_from :: "time option"
  lq_to :: "time option"

record exec_page =
  pg_executions :: "exec_response list"
  pg_total :: nat
  pg_more :: bool

definition listed :: "list_query \<Rightarrow> execution \<Rightarrow> bool" where
  "listed q x \<longleftrightarrow> (case lq_status q of None \<Rightarrow> True | Some st \<Rightarrow> exec_status_value (xc_status x) = api_status_value st)
     \<and> (case lq_from q of None \<Rightarrow> True | Some t \<Rightarrow> \<not> xc_created_at x < t)
     \<and> (case lq_to q of None \<Rightarrow> True | Some t \<Rightarrow> \<not> xc_created_at x > t)"

definition response_of :: "string \<times> execution \<Rightarrow> exn + exec_response" where
  "response_of px =
     (case px of (pid, x) \<Rightarrow>
        rbind (read_status (exec_status_value (xc_status x))) (\<lambda>st.
          Inr \<lparr>xr_process_id = pid, xr_status = st, xr_goal = xc_goal x, xr_target = xc_target x,
               xr_created_at = xc_created_at x,
               xr_updated_at = (case xc_updated_at x of None \<Rightarrow> xc_created_at x | Some t \<Rightarrow> t)\<rparr>))"

text \<open>The caller's user and tenant are asked for and not looked at.\<close>

definition list_executions :: "scheduler option \<Rightarrow> list_query \<Rightarrow> string \<Rightarrow> string \<Rightarrow> exec_page reply" where
  "list_executions sched q user tenant =
     with_scheduler sched (\<lambda>s.
       case mapM_r response_of (filter (listed q \<circ> snd) (sd_active s)) of
         Inl e \<Rightarrow> Raises e
       | Inr xs \<Rightarrow>
         (let start = (lq_page q - 1) * lq_size q; end_pos = start + lq_size q
          in Ok \<lparr>pg_executions = take (lq_size q) (drop start xs), pg_total = length xs, pg_more = end_pos < length xs\<rparr>))"

definition cancel_endpoint ::
    "scheduler option \<Rightarrow> string \<Rightarrow> string \<Rightarrow> string \<Rightarrow> time \<Rightarrow> scheduler reply" where
  "cancel_endpoint sched pid user tenant now =
     with_scheduler sched (\<lambda>s.
       case cancel_execution pid now s of
         (True, s') \<Rightarrow> Ok s'
       | (False, s') \<Rightarrow> Http_error 404 (''Execution '' @ pid @ '' not found or cannot be cancelled''))"

text \<open>A schedule in the syntax of cron is only counted; nothing is scheduled.\<close>

definition schedule_endpoint :: "scheduler option \<Rightarrow> string \<Rightarrow> exec_request \<Rightarrow> string \<Rightarrow> time \<Rightarrow> exec_response reply" where
  "schedule_endpoint sched pid r cron now =
     with_scheduler sched (\<lambda>s.
       if length (py_words [] cron) \<in> {5, 6} then Ok (pending_response pid r now)
       else Raises (Exceptions.ValidationError [Lit (''Invalid cron expression: Invalid cron expression: '' @ cron)] None))"

section \<open>Runs of jobs and the scheduler\<close>

text \<open>The background jobs of the API, with the identifier the scheduler draws, and the scheduler's own events.\<close>

datatype api_event = Job string exec_job bool | Sched sched_event

fun api_exec :: "nat \<Rightarrow> sched_env \<Rightarrow> api_event \<times> time \<Rightarrow> scheduler \<Rightarrow> scheduler" where
  "api_exec rlim env (Job own j on, now) s = snd (process_hybrid_execution (se_str env) on own j now s)"
| "api_exec rlim env (Sched ev, now) s = sched_exec rlim env (ev, now) s"

fun drawn_id :: "api_event \<Rightarrow> string option" where
  "drawn_id (Job own j on) = Some own"
| "drawn_id (Sched (Schedule p g u t tgt b pr ps)) = Some p"
| "drawn_id (Sched ev) = None"

text \<open>What the monitor of an identifier sees in a state.\<close>

definition status_fields :: "string \<Rightarrow> status_report \<Rightarrow> pydict" where
  "status_fields pid r =
     [(''process_id'', PStr pid), (''status'', PStr (exec_status_value (sr_status r))), (''progress'', PFloat (sr_progress r))]"

definition look_up :: "memory \<Rightarrow> string \<Rightarrow> scheduler \<Rightarrow> pydict option" where
  "look_up m pid s =
     (case Scheduler.get_execution_status pid s of
        None \<Rightarrow> get_execution_result pid m
      | Some r \<Rightarrow> Some (status_fields pid r))"

lemma has_prims [simp]:
  "dict_has (sd_active (go p c s)) k = dict_has (sd_active s) k"
  "dict_has (sd_active (stop p s)) k = dict_has (sd_active s) k"
  "dict_has (sd_active (call_memory ops s)) k = dict_has (sd_active s) k"
  "dict_has (sd_active (put_exec p x s)) k = (k = p \<or> dict_has (sd_active s) k)"
  "dict_has (sd_active (update_execution_status p st now s)) k = dict_has (sd_active s) k"
  by (simp_all add: go_def stop_def call_memory_def put_exec_def update_execution_status_def dict_has_keys)

lemma has_error [simp]: "dict_has (sd_active (handle_execution_error env p e s)) k = dict_has (sd_active s) k"
  by (cases "dict_get (sd_active s) p") (auto simp: handle_execution_error_def dict_has_def [of "sd_active s" p])

lemma has_mark [simp]: "dict_has (sd_active (mark_failed str p e s)) k = dict_has (sd_active s) k"
  by (simp add: mark_failed_def dict_has_keys)

lemma has_level:
  assumes "dict_has (sd_active s) p"
  shows "dict_has (sd_active (enter_level env p x d groups now s)) k = dict_has (sd_active s) k"
    and "dict_has (sd_active (finish_level env p x d cs rest now s)) k = dict_has (sd_active s) k"
  using assms
  by (auto simp: enter_level_def finish_level_def complete_execution_def Let_def
      split: list.split prod.split option.split)

lemma has_resume: "dict_has (sd_active (resume rlim env p now s)) k = dict_has (sd_active s) k"
proof (cases "dict_get (sd_tasks s) p"; cases "dict_get (sd_active s) p")
  fix c x
  assume c: "dict_get (sd_tasks s) p = Some c" and x: "dict_get (sd_active s) p = Some x"
  then have p: "dict_has (sd_active s) p" by (simp add: dict_has_def)
  have "dict_has (sd_active (check_plan rlim env p x d now s)) k = dict_has (sd_active s) k" for d
    by (simp add: check_plan_def Let_def split: verdict.split)
  with p have "dict_has (sd_active (resume_at rlim env p x now s c)) k = dict_has (sd_active s) k"
    by (cases c) (auto simp: resume_at_def has_level Let_def split: sum.split option.split)
  with c x show ?thesis by (simp add: resume_def)
qed (simp_all add: resume_def)

lemma has_api_exec:
  "dict_has (sd_active (api_exec rlim env (ev, now) s)) k \<longrightarrow> dict_has (sd_active s) k \<or> drawn_id ev = Some k"
proof (cases ev)
  case (Job own j on)
  then show ?thesis
    by (auto simp: process_hybrid_execution_def schedule_execution_def Let_def split: option.splits if_splits)
next
  case (Sched ev')
  then show ?thesis
    by (cases ev') (auto simp: schedule_execution_def cancel_execution_def has_resume Let_def dict_has_def [of "sd_active s"]
        split: option.splits if_splits)
qed

lemma unknown_stays_unknown:
  "list_all (\<lambda>(ev, now). drawn_id ev \<noteq> Some k) evs \<Longrightarrow> \<not> dict_has (sd_active s) k \<Longrightarrow>
     \<not> dict_has (sd_active (fold (api_exec rlim env) evs s)) k"
proof (induction evs arbitrary: s)
  case (Cons e evs)
  obtain ev now where e: "e = (ev, now)" by fastforce
  with Cons has_api_exec [of rlim env ev now s k] show ?case by auto
qed simp

section \<open>Properties\<close>

text \<open>
  C7: The identifier a client gets for its execution is not the one the scheduler uses. Whatever jobs and
  steps of the scheduler run, as long as the scheduler draws other identifiers, a look at the status
  under it answers 404, a cancellation answers 404, and the job's monitor, looking 60 times, calls no
  webhook.
\<close>
theorem returned_id_is_unknown:
  assumes "\<not> dict_has (sd_active s) pid" and "get_execution_result pid m = None"
    and "list_all (\<lambda>(ev, now). drawn_id ev \<noteq> Some pid) evs"
  shows "status_endpoint str read_time (Some (fold (api_exec rlim env) evs s)) m pid now
      = Http_error 404 (''Execution '' @ pid @ '' not found'')
    \<and> cancel_endpoint (Some (fold (api_exec rlim env) evs s)) pid user tenant now
      = Http_error 404 (''Execution '' @ pid @ '' not found or cannot be cancelled'')
    \<and> monitor_execution (\<lambda>k. Inr (look_up m pid (fold (api_exec rlim env) (take (g k) evs) s))) webhook = None"
proof -
  have gone: "dict_get (sd_active (fold (api_exec rlim env) (take n evs) s)) pid = None" for n
    using unknown_stays_unknown [OF _ assms(1), of "take n evs" rlim env] assms(3)
    by (auto simp: dict_has_def list_all_iff dest: in_set_takeD)
  have look: "look_up m pid (fold (api_exec rlim env) (take n evs) s) = None" for n
    using gone [of n] assms(2) by (simp add: look_up_def get_execution_status_def)
  have "monitor_loop (\<lambda>k. Inr None) n k lst \<in> {lst, Some None}" for n k lst
    by (induction n arbitrary: k lst) auto
  from this [of 60 0 None] show ?thesis
    using gone [of "length evs"] assms(2)
    by (auto simp: look status_endpoint_def cancel_endpoint_def with_scheduler_def get_execution_status_def
        cancel_execution_def monitor_execution_def split: option.split list.split)
qed

definition ex_scheduler :: scheduler where
  "ex_scheduler = new_scheduler new_quota_manager"

definition ex_api_env :: sched_env where
  "ex_api_env = \<lparr>se_similar = \<lambda>r. Inr [], se_plan = \<lambda>r ts. Inl TypeErr, se_route = None, se_memory = \<lambda>m. None,
     se_context_id = (@), se_temp_dir = (@), se_str = \<lambda>e. [], se_verr = \<lambda>e. []\<rparr>"

definition ex_job :: exec_job where
  "ex_job = \<lparr>ej_process_id = ''proc_a'', ej_request = \<lparr>er_goal = ''scan it'', er_target = None, er_priority = ''medium'',
     er_mode = ''sync'', er_budget = Some 5, er_tags = [], er_webhook = Some ''http://h'', er_parameters = []\<rparr>,
     ej_user = ''u'', ej_tenant = ''t'', ej_request_id = ''r''\<rparr>"

definition ex_api_run :: "nat \<Rightarrow> scheduler" where
  "ex_api_run n = fold (api_exec 9 ex_api_env)
     (take n [(Job ''proc_b'' ex_job True, 0), (Sched (Resume ''proc_b''), 1), (Sched (Resume ''proc_b''), 2)]) ex_scheduler"

theorem returned_id_is_unknown_witness:
  "status_endpoint (\<lambda>e. []) (\<lambda>v. None) (Some (ex_api_run 3)) new_memory ''proc_a'' 9
     = Http_error 404 (''Execution '' @ ''proc_a'' @ '' not found'')
   \<and> dict_has (sd_active (ex_api_run 3)) ''proc_b''"
proof -
  have "\<not> dict_has (sd_active ex_scheduler) ''proc_a''" "get_execution_result ''proc_a'' new_memory = None"
      "dict_has (sd_active (ex_api_run 3)) ''proc_b''"
    by code_simp+
  with returned_id_is_unknown [where s = ex_scheduler and pid = "''proc_a''" and m = new_memory
      and evs = "[(Job ''proc_b'' ex_job True, 0), (Sched (Resume ''proc_b''), 1), (Sched (Resume ''proc_b''), 2)]"
      and str = "\<lambda>e. []" and read_time = "\<lambda>v. None" and rlim = 9 and env = ex_api_env and now = 9]
  show ?thesis by (simp add: ex_api_run_def)
qed

text \<open>
  The pages of a listing are a partition of what it lists: read one after the other, with any caller
  for each page, they give every execution that passes the filters once and in order. The caller's tenant
  has no influence, so everyone is shown the executions of all tenants.
\<close>
theorem list_pages_partition:
  assumes "mapM_r response_of (filter (listed q \<circ> snd) (sd_active s)) = Inr xs" and "length xs \<le> n * lq_size q"
  shows "concat (map (\<lambda>k. case list_executions (Some s) (q\<lparr>lq_page := Suc k\<rparr>) (user k) (tenant k) of
      Ok p \<Rightarrow> pg_executions p | _ \<Rightarrow> []) [0..<n]) = xs"
proof -
  have "listed (q\<lparr>lq_page := k\<rparr>) = listed q" for k by (simp add: listed_def fun_eq_iff)
  then have page: "(case list_executions (Some s) (q\<lparr>lq_page := Suc k\<rparr>) (user k) (tenant k) of
      Ok p \<Rightarrow> pg_executions p | _ \<Rightarrow> []) = take (lq_size q) (drop (k * lq_size q) xs)" for k
    using assms(1) by (simp add: list_executions_def with_scheduler_def Let_def)
  have "concat (map (\<lambda>k. take c (drop (k * c) xs)) [0..<n]) = take (n * c) xs" for c
  proof (induction n)
    case (Suc n)
    then show ?case using take_add [of "n * c" c xs] by (simp add: add.commute [of "n * c"])
  qed simp
  with assms(2) show ?thesis by (simp add: page)
qed

theorem list_pages_partition_witness:
  "\<exists>xs. length xs = 1 \<and> concat (map (\<lambda>k. case list_executions (Some (ex_api_run 2))
       (\<lparr>lq_page = 1, lq_size = 1, lq_status = None, lq_from = None, lq_to = None\<rparr>\<lparr>lq_page := Suc k\<rparr>) ''u'' ''another tenant'' of
       Ok p \<Rightarrow> pg_executions p | _ \<Rightarrow> []) [0..<2]) = xs"
proof -
  let ?q = "\<lparr>lq_page = 1, lq_size = 1, lq_status = None, lq_from = None, lq_to = None\<rparr>"
  have "(case mapM_r response_of (filter (listed ?q \<circ> snd) (sd_active (ex_api_run 2))) of Inl e \<Rightarrow> False | Inr xs \<Rightarrow> length xs = 1)"
    by code_simp
  then obtain xs where xs: "mapM_r response_of (filter (listed ?q \<circ> snd) (sd_active (ex_api_run 2))) = Inr xs" "length xs = 1"
    by (cases "mapM_r response_of (filter (listed ?q \<circ> snd) (sd_active (ex_api_run 2)))") simp_all
  with list_pages_partition [OF xs(1), of 2 "\<lambda>k. ''u''" "\<lambda>k. ''another tenant''"] show ?thesis by auto
qed

text \<open>
  Between planning and execution an execution is ready, a state the API has no value for: while any
  execution of any tenant is ready, an unfiltered listing raises, and its status answers 500. So does the
  status of an execution that is pending, whose time of update is still missing.
\<close>
theorem ready_breaks_the_api:
  assumes "dict_get (sd_active s) pid = Some x" and "xc_status x = ES_ready \<or> xc_updated_at x = None"
  shows "(xc_status x = ES_ready \<longrightarrow> lq_status q = None \<and> lq_from q = None \<and> lq_to q = None
      \<longrightarrow> (\<exists>e. list_executions (Some s) q user tenant = Raises e))
    \<and> (\<exists>e. status_endpoint str read_time (Some s) m pid now = Http_error 500 (''Error retrieving execution status: '' @ str e))"
proof -
  have ready: "read_status ''ready'' = Inl (ValueErr ''status'')"
    by (simp add: read_status_def api_statuses_def)
  have "\<exists>e. mapM_r f ys = Inl e" if "y \<in> set ys" "f y = Inl e0" for f :: "string \<times> execution \<Rightarrow> exn + exec_response" and y ys e0
    using that by (induction ys) (auto split: sum.splits simp: rbind_def)
  moreover have "(pid, x) \<in> set (sd_active s)" using assms(1) by (rule dict_get_in)
  moreover have "response_of (pid, x) = Inl (ValueErr ''status'')" if "xc_status x = ES_ready"
    using that ready by (simp add: response_of_def)
  ultimately have "\<exists>e. list_executions (Some s) q user tenant = Raises e"
    if "xc_status x = ES_ready" "lq_status q = None \<and> lq_from q = None \<and> lq_to q = None"
    using that by (fastforce simp: list_executions_def with_scheduler_def listed_def)
  moreover have bad: "\<exists>e. report_of_execution pid r = Inl e"
    if "sr_status r = ES_ready \<or> sr_updated_at r = None" for r
    using that ready by (cases "read_status (exec_status_value (sr_status r))") (auto simp: report_of_execution_def)
  have "\<exists>e. status_endpoint str read_time (Some s) m pid now = Http_error 500 (''Error retrieving execution status: '' @ str e)"
  proof -
    obtain r where r: "Scheduler.get_execution_status pid s = Some r" "sr_status r = xc_status x" "sr_updated_at r = xc_updated_at x"
      using assms(1) by (simp add: get_execution_status_def)
    with bad [of r] assms(2) obtain e where "report_of_execution pid r = Inl e" by auto
    with r(1) show ?thesis by (auto simp: status_endpoint_def with_scheduler_def)
  qed
  ultimately show ?thesis by blast
qed

theorem ready_breaks_the_api_witness:
  "\<exists>e. status_endpoint (\<lambda>e. []) (\<lambda>v. None) (Some (ex_api_run 1)) new_memory ''proc_b'' 9 = Http_error 500 e"
proof -
  have "(case dict_get (sd_active (ex_api_run 1)) ''proc_b'' of None \<Rightarrow> False | Some x \<Rightarrow> xc_updated_at x = None)" by code_simp
  then obtain x where "dict_get (sd_active (ex_api_run 1)) ''proc_b'' = Some x" "xc_updated_at x = None"
    by (cases "dict_get (sd_active (ex_api_run 1)) ''proc_b''") simp_all
  with ready_breaks_the_api [of "ex_api_run 1" "''proc_b''" x _ "''u''" "''t''" "\<lambda>e. []" "\<lambda>v. None" new_memory 9]
  show ?thesis by blast
qed

end
