(* ===== verification/Authentication.thy ===== *)
theory Authentication
  imports DomainAgents Verifier
begin

text \<open>
  \<open>src/api/middleware/auth.py\<close>, \<open>src/core/security.py\<close> and the accessors of \<open>src/api/dependencies.py\<close>: who
  a request comes from. The libraries that sign and read tokens, hash, encrypt and draw random tokens are
  arguments. \<open>core/security.py\<close> reads tokens with \<open>jose\<close> and the middleware catches the exceptions of
  \<open>PyJWT\<close>; what counts as one of the latter is an argument too.
\<close>

section \<open>Security service\<close>

record security_env =
  se_encode :: "pydict \<Rightarrow> string"
  se_jose :: "string \<Rightarrow> string + pydict"
  se_hash :: "string \<Rightarrow> string"
  se_verify :: "string \<Rightarrow> string \<Rightarrow> bool"
  se_encrypt :: "string \<Rightarrow> string"
  se_decrypt :: "string \<Rightarrow> string option"
  se_access_minutes :: int
  se_refresh_days :: int

definition is_upper :: "char \<Rightarrow> bool" where
  "is_upper c = (let n = of_char c :: nat in 65 \<le> n \<and> n \<le> 90)"

definition is_lower :: "char \<Rightarrow> bool" where
  "is_lower c = (let n = of_char c :: nat in 97 \<le> n \<and> n \<le> 122)"

definition is_alnum :: "char \<Rightarrow> bool" where
  "is_alnum c = (is_upper c \<or> is_lower c \<or> is_digit c)"

definition common_passwords :: "string list" where
  "common_passwords = [''password'', ''password123'', ''admin'', ''welcome'', ''login'']"

definition validate_password_strength :: "string \<Rightarrow> (string, bool) dict" where
  "validate_password_strength pw =
     [(''length'', length pw \<ge> 12), (''uppercase'', list_ex is_upper pw), (''lowercase'', list_ex is_lower pw),
      (''digits'', list_ex is_digit pw), (''special'', list_ex (\<lambda>c. \<not> is_alnum c) pw),
      (''no_common'', lower pw \<notin> set common_passwords)]"

text \<open>The time of expiry is a \<open>datetime\<close> in the source and a number of microseconds here.\<close>

definition token_claims :: "pydict \<Rightarrow> string \<Rightarrow> time \<Rightarrow> string \<Rightarrow> pydict" where
  "token_claims data ty expire jti =
     dict_update data [(''exp'', PInt expire), (''type'', PStr ty), (''jti'', PStr jti)]"

definition create_access_token :: "security_env \<Rightarrow> pydict \<Rightarrow> time option \<Rightarrow> string \<Rightarrow> time \<Rightarrow> string" where
  "create_access_token env data expires_delta jti now =
     se_encode env (token_claims data ''access''
       (now + (case expires_delta of None \<Rightarrow> se_access_minutes env * 60000000
               | Some d \<Rightarrow> if d = 0 then se_access_minutes env * 60000000 else d)) jti)"

definition create_refresh_token :: "security_env \<Rightarrow> pydict \<Rightarrow> string \<Rightarrow> time \<Rightarrow> string" where
  "create_refresh_token env data jti now =
     se_encode env (token_claims data ''refresh'' (now + se_refresh_days env * 86400000000) jti)"

definition decode_token :: "security_env \<Rightarrow> string \<Rightarrow> exn + pydict" where
  "decode_token env token =
     (case se_jose env token of Inl m \<Rightarrow> Inl (ValueErr (''Invalid token: '' @ m)) | Inr p \<Rightarrow> Inr p)"

definition verify_token_type :: "security_env \<Rightarrow> string \<Rightarrow> string \<Rightarrow> bool" where
  "verify_token_type env token expected =
     (case decode_token env token of Inl e \<Rightarrow> False | Inr p \<Rightarrow> py_eq (get_none p ''type'') (PStr expected))"

definition encrypt_field_of :: "security_env \<Rightarrow> string \<Rightarrow> pydict \<Rightarrow> pydict" where
  "encrypt_field_of env f d =
     (case dict_get d f of Some (PStr s) \<Rightarrow> dict_set f (PStr (se_encrypt env s)) d | _ \<Rightarrow> d)"

definition encrypt_dict_fields :: "security_env \<Rightarrow> pydict \<Rightarrow> string list \<Rightarrow> pydict" where
  "encrypt_dict_fields env d fs = fold (encrypt_field_of env) fs d"

text \<open>A field that does not decrypt is left as it is.\<close>

definition decrypt_field_of :: "security_env \<Rightarrow> string \<Rightarrow> pydict \<Rightarrow> pydict" where
  "decrypt_field_of env f d =
     (case dict_get d f of
        Some (PStr s) \<Rightarrow> (case se_decrypt env s of None \<Rightarrow> d | Some t \<Rightarrow> dict_set f (PStr t) d)
      | _ \<Rightarrow> d)"

definition decrypt_dict_fields :: "security_env \<Rightarrow> pydict \<Rightarrow> string list \<Rightarrow> pydict" where
  "decrypt_dict_fields env d fs = fold (decrypt_field_of env) fs d"

definition mask_sensitive_data :: "string \<Rightarrow> nat \<Rightarrow> string" where
  "mask_sensitive_data s visible =
     (if length s \<le> visible then replicate (length s) (CHR ''*'')
      else take visible s @ replicate (length s - visible) (CHR ''*''))"

definition mask_email :: "string \<Rightarrow> string" where
  "mask_email s =
     (if CHR ''@'' \<notin> set s then mask_sensitive_data s 4
      else mask_sensitive_data (takeWhile (\<lambda>c. c \<noteq> CHR ''@'') s) 2 @ dropWhile (\<lambda>c. c \<noteq> CHR ''@'') s)"

text \<open>The module \<open>secrets\<close> has no function of the name that is called.\<close>

definition validate_csrf_token :: "string \<Rightarrow> string \<Rightarrow> exn + bool" where
  "validate_csrf_token token stored = Inl (AttributeErr ''compare_digital'')"

section \<open>Requests\<close>

record http_request =
  rq_path :: string
  rq_headers :: "(string, string) dict"
  rq_cookies :: "(string, string) dict"
  rq_client :: "string option"
  rq_required :: "string list"
  rq_user :: "pydict option"
  rq_token :: "string option"
  rq_request_id :: "string option"

datatype auth_outcome = Forward http_request | Refuse int string msg | Crash exn

record auth_config =
  ac_security :: security_env
  ac_header :: string
  ac_expired :: "exn \<Rightarrow> bool"
  ac_invalid :: "exn \<Rightarrow> bool"

definition default_exclude_paths :: "string list" where
  "default_exclude_paths =
     [''/'', ''/health'', ''/metrics'', ''/docs'', ''/redoc'', ''/openapi.json'', ''/auth/login'', ''/auth/register'',
      ''/auth/refresh'', ''/hybrid/execute'']"

definition exclude_paths_of :: "string list option \<Rightarrow> string list" where
  "exclude_paths_of given = (case given of None \<Rightarrow> default_exclude_paths | Some [] \<Rightarrow> default_exclude_paths | Some ps \<Rightarrow> ps)"

definition nonempty_get :: "(string, string) dict \<Rightarrow> string \<Rightarrow> string option" where
  "nonempty_get d k = (case dict_get d k of Some (c # cs) \<Rightarrow> Some (c # cs) | _ \<Rightarrow> None)"

definition extract_token :: "auth_config \<Rightarrow> http_request \<Rightarrow> string option" where
  "extract_token cfg r =
     (let bearer = (case nonempty_get (rq_headers r) ''Authorization'' of
                      None \<Rightarrow> None | Some h \<Rightarrow> if take 7 h = ''Bearer '' then Some (drop 7 h) else None)
      in case bearer of
           Some t \<Rightarrow> Some t
         | None \<Rightarrow>
           (case nonempty_get (rq_headers r) (ac_header cfg) of
              Some k \<Rightarrow> Some k
            | None \<Rightarrow> nonempty_get (rq_cookies r) ''access_token''))"

definition auth_error :: "string \<Rightarrow> exn" where
  "auth_error m = AuthenticationError [Lit m] None"

text \<open>\<open>perm in user_perms\<close> for every required permission, up to the first that is missing or raises.\<close>

fun holds_all :: "pyval \<Rightarrow> string list \<Rightarrow> exn + bool" where
  "holds_all perms [] = Inr True"
| "holds_all perms (p # ps) =
     rbind (or_type_err (py_in (PStr p) perms)) (\<lambda>b. if b then holds_all perms ps else Inr False)"

definition check_permissions :: "http_request \<Rightarrow> pydict \<Rightarrow> exn + unit" where
  "check_permissions r payload =
     (if rq_required r = [] then Inr ()
      else rbind (holds_all (dict_get_or payload ''permissions'' (PList [])) (rq_required r))
             (\<lambda>b. if b then Inr () else Inl (AuthorizationError [Lit ''Insufficient permissions''] None)))"

definition validate_api_key :: "string \<Rightarrow> exn + pydict" where
  "validate_api_key k =
     (if take 4 k = ''eso_''
      then Inr [(''sub'', PStr ''api_user''), (''type'', PStr ''api_key''),
                (''permissions'', PList [PStr ''read'', PStr ''write'']), (''tenant_id'', PStr ''default'')]
      else Inl (auth_error ''Invalid API key''))"

definition is_token_blacklisted :: "string \<Rightarrow> bool" where
  "is_token_blacklisted t = False"

definition validate_token :: "auth_config \<Rightarrow> string \<Rightarrow> http_request \<Rightarrow> exn + pydict" where
  "validate_token cfg token r =
     (case rbind (decode_token (ac_security cfg) token) (\<lambda>payload.
             if get_none payload ''type'' \<notin> {PStr ''access'', PStr ''refresh''} then Inl (auth_error ''Invalid token type'')
             else if is_token_blacklisted token then Inl (auth_error ''Token has been revoked'')
             else rbind (check_permissions r payload) (\<lambda>_. Inr payload)) of
        Inl e \<Rightarrow> if ac_expired cfg e then Inl (auth_error ''Token has expired'')
                 else if ac_invalid cfg e then validate_api_key token
                 else Inl e
      | Inr p \<Rightarrow> Inr p)"

text \<open>The log of a success and of a failure reads the address of the client.\<close>

definition client_host :: "http_request \<Rightarrow> exn + string" where
  "client_host r = (case rq_client r of None \<Rightarrow> Inl (AttributeErr ''host'') | Some h \<Rightarrow> Inr h)"

definition handle_auth_error :: "http_request \<Rightarrow> exn \<Rightarrow> auth_outcome" where
  "handle_auth_error r e =
     (case client_host r of
        Inl x \<Rightarrow> Crash x
      | Inr h \<Rightarrow> Refuse (case ex_status e of None \<Rightarrow> 500 | Some n \<Rightarrow> n) (case ex_code e of None \<Rightarrow> [] | Some c \<Rightarrow> c) (ex_message e))"

definition authenticate :: "auth_config \<Rightarrow> http_request \<Rightarrow> exn + http_request" where
  "authenticate cfg r =
     (case extract_token cfg r of
        Some (c # cs) \<Rightarrow>
          rbind (validate_token cfg (c # cs) r) (\<lambda>payload.
          rbind (client_host r) (\<lambda>h. Inr (r\<lparr>rq_user := Some payload, rq_token := Some (c # cs)\<rparr>)))
      | _ \<Rightarrow> Inl (auth_error ''No authentication token provided''))"

definition excluded :: "string list \<Rightarrow> http_request \<Rightarrow> bool" where
  "excluded paths r = list_ex (\<lambda>p. take (length p) (rq_path r) = p) paths"

text \<open>What the middleware does before the rest of the application: pass the request on, or answer.\<close>

definition auth_dispatch :: "auth_config \<Rightarrow> string list option \<Rightarrow> http_request \<Rightarrow> auth_outcome" where
  "auth_dispatch cfg given r =
     (if excluded (exclude_paths_of given) r then Forward r
      else (case authenticate cfg r of
              Inr r' \<Rightarrow> Forward r'
            | Inl e \<Rightarrow> handle_auth_error r (if isinstance_exn e CAuthentication then e else auth_error ''Authentication failed'')))"

section \<open>What the endpoints are told\<close>

definition mock_user :: pydict where
  "mock_user =
     [(''sub'', PStr ''dev_user_123''), (''email'', PStr ''dev@example.com''), (''tenant_id'', PStr ''tenant_001''),
      (''permissions'', PList [PStr ''read'', PStr ''write'', PStr ''execute'']), (''roles'', PList [PStr ''admin''])]"

definition get_current_user :: "http_request \<Rightarrow> pydict" where
  "get_current_user r = (case rq_user r of Some u \<Rightarrow> u | None \<Rightarrow> mock_user)"

definition get_tenant_id :: "http_request \<Rightarrow> pyval" where
  "get_tenant_id r =
     (case nonempty_get (rq_headers r) ''X-Tenant-ID'' of
        Some t \<Rightarrow> PStr t
      | None \<Rightarrow> (case rq_user r of Some u \<Rightarrow> dict_get_or u ''tenant_id'' (PStr ''default'') | None \<Rightarrow> PStr ''default''))"

definition get_request_id :: "string \<Rightarrow> http_request \<Rightarrow> string \<times> http_request" where
  "get_request_id drawn r =
     (case nonempty_get (rq_headers r) ''X-Request-ID'' of
        Some i \<Rightarrow> (i, r) | None \<Rightarrow> (drawn, r\<lparr>rq_request_id := Some drawn\<rparr>))"

text \<open>The application passes an empty list of paths that need no authentication.\<close>

definition app_exclude_paths :: "string list option" where
  "app_exclude_paths = Some []"

section \<open>Properties\<close>

lemma app_excludes_all: "take 1 (rq_path r) = ''/'' \<Longrightarrow> auth_dispatch cfg app_exclude_paths r = Forward r"
  by (simp add: auth_dispatch_def excluded_def exclude_paths_of_def app_exclude_paths_def default_exclude_paths_def)

text \<open>
  The application asks that no path be exempt from authentication, and gets that every path is: the
  empty list is replaced by the default one, whose first entry is a prefix of all paths. Every request,
  with any token or none, is passed on as it came, and its endpoints act for a built-in administrator.
\<close>
theorem authentication_never_runs:
  assumes "take 1 (rq_path r) = ''/''" and "rq_user r = None"
  shows "auth_dispatch cfg app_exclude_paths r = Forward r \<and> get_none (get_current_user r) ''roles'' = PList [PStr ''admin'']"
  using assms
  by (simp add: app_excludes_all get_current_user_def mock_user_def get_none_def dict_get_or_def dict_get_Cons)

definition ex_security :: security_env where
  "ex_security = \<lparr>se_encode = \<lambda>d. ''token'',
     se_jose = \<lambda>t. if t = ''token'' then Inr [(''type'', PStr ''access''), (''permissions'', PList [PStr ''read''])] else Inl ''bad'',
     se_hash = \<lambda>s. s, se_verify = (=), se_encrypt = (\<lambda>s. CHR ''x'' # s),
     se_decrypt = (\<lambda>s. case s of [] \<Rightarrow> None | c # cs \<Rightarrow> Some cs), se_access_minutes = 30, se_refresh_days = 7\<rparr>"

definition ex_auth :: auth_config where
  "ex_auth = \<lparr>ac_security = ex_security, ac_header = ''X-API-Key'', ac_expired = \<lambda>e. False, ac_invalid = \<lambda>e. False\<rparr>"

definition ex_http :: http_request where
  "ex_http = \<lparr>rq_path = ''/api/v1/hybrid/list'', rq_headers = [(''Authorization'', ''Bearer token'')], rq_cookies = [],
     rq_client = Some ''10.0.0.1'', rq_required = [''read''], rq_user = None, rq_token = None, rq_request_id = None\<rparr>"

theorem authentication_never_runs_witness:
  "auth_dispatch ex_auth app_exclude_paths (ex_http\<lparr>rq_headers := []\<rparr>) = Forward (ex_http\<lparr>rq_headers := []\<rparr>)"
  using authentication_never_runs [of "ex_http\<lparr>rq_headers := []\<rparr>" ex_auth] by (simp add: ex_http_def)

text \<open>The exceptions of PyJWT are none of the built-in ones and none of the platform's own.\<close>

definition pyjwt_apart :: "auth_config \<Rightarrow> bool" where
  "pyjwt_apart cfg \<longleftrightarrow> (\<forall>e. ex_class e \<in> {PyValueError, PyTypeError, PyAttributeError, CAuthentication, CAuthorization}
     \<longrightarrow> \<not> ac_expired cfg e \<and> \<not> ac_invalid cfg e)"

definition accepts :: "auth_config \<Rightarrow> http_request \<Rightarrow> string \<Rightarrow> pydict \<Rightarrow> bool" where
  "accepts cfg r token p \<longleftrightarrow> extract_token cfg r = Some token \<and> token \<noteq> [] \<and> se_jose (ac_security cfg) token = Inr p
     \<and> get_none p ''type'' \<in> {PStr ''access'', PStr ''refresh''} \<and> check_permissions r p = Inr ()"

lemma error_classes [simp]:
  "ex_class (auth_error m) = CAuthentication" "ex_status (auth_error m) = Some 401"
  "ex_class (AuthorizationError m' d) = CAuthorization" "ex_class (py_exn c n) = c"
  by (simp_all add: auth_error_def AuthenticationError_def AuthorizationError_def EnterpriseBaseException_def py_exn_def)

lemma holds_all_class: "holds_all perms ps = Inl e \<Longrightarrow> ex_class e = PyTypeError"
  by (induction ps) (auto simp: or_type_err_def rbind_def split: sum.splits option.splits if_splits)

lemma check_permissions_class:
  "check_permissions r p = Inl e \<Longrightarrow> ex_class e \<in> {PyTypeError, CAuthorization}"
  by (auto simp: check_permissions_def rbind_def dest: holds_all_class split: sum.splits if_splits)

lemma validate_token_cases:
  assumes "pyjwt_apart cfg" and "extract_token cfg r = Some token" and "token \<noteq> []"
  shows "case validate_token cfg token r of Inr p \<Rightarrow> accepts cfg r token p
    | Inl e \<Rightarrow> (\<forall>p. \<not> accepts cfg r token p) \<and> ex_class e \<in> {PyValueError, PyTypeError, CAuthentication, CAuthorization}
        \<and> (ex_class e = CAuthentication \<longrightarrow> ex_status e = Some 401)"
proof -
  have apart: "\<not> ac_expired cfg e \<and> \<not> ac_invalid cfg e"
    if "ex_class e \<in> {PyValueError, PyTypeError, CAuthentication, CAuthorization}" for e
    using assms(1) that unfolding pyjwt_apart_def by blast
  show ?thesis
  proof (cases "se_jose (ac_security cfg) token")
    case (Inl m)
    then show ?thesis using apart [of "ValueErr (''Invalid token: '' @ m)"]
      by (simp add: validate_token_def decode_token_def accepts_def)
  next
    case (Inr p)
    show ?thesis
    proof (cases "get_none p ''type'' \<in> {PStr ''access'', PStr ''refresh''}")
      case False
      with Inr show ?thesis using apart [of "auth_error ''Invalid token type''"]
        by (simp add: validate_token_def decode_token_def accepts_def)
    next
      case True
      with Inr show ?thesis using apart assms(2,3) check_permissions_class [of r p]
        by (cases "check_permissions r p")
           (auto simp: validate_token_def decode_token_def accepts_def is_token_blacklisted_def)
    qed
  qed
qed

text \<open>
  C39: Where a path is not exempt, the middleware passes a request on exactly when it carries a token that
  the token library reads, of type access or refresh, whose permissions cover those required, and the
  client's address is known; the request then carries the token's claims as its user. API keys are never
  accepted: the library's complaint about them is not one the middleware takes for an invalid token.
  Every refusal has status 401, a lack of permissions included.
\<close>
theorem auth_dispatch_outcome:
  assumes "pyjwt_apart cfg" and "\<not> excluded (exclude_paths_of given) r"
  shows "(auth_dispatch cfg given r = Forward r' \<longleftrightarrow>
      (\<exists>token p. accepts cfg r token p \<and> rq_client r \<noteq> None \<and> r' = r\<lparr>rq_user := Some p, rq_token := Some token\<rparr>))
    \<and> (auth_dispatch cfg given r = Refuse n c m \<longrightarrow> n = 401)"
proof -
  have refuse: "handle_auth_error r (if isinstance_exn e CAuthentication then e else auth_error ''Authentication failed'') \<noteq> Forward r'
      \<and> (handle_auth_error r (if isinstance_exn e CAuthentication then e else auth_error ''Authentication failed'') = Refuse n c m \<longrightarrow> n = 401)"
    if "ex_class e \<in> {PyValueError, PyTypeError, PyAttributeError, CAuthentication, CAuthorization}"
      "ex_class e = CAuthentication \<longrightarrow> ex_status e = Some 401" for e
    using that by (auto simp: handle_auth_error_def isinstance_exn_def is_subclass_def split: sum.splits)
  show ?thesis
  proof (cases "extract_token cfg r = None \<or> extract_token cfg r = Some []")
    case True
    with assms(2) refuse [of "auth_error ''No authentication token provided''"] show ?thesis
      by (auto simp: auth_dispatch_def authenticate_def accepts_def)
  next
    case False
    then obtain token where token: "extract_token cfg r = Some token" "token \<noteq> []" by auto
    then obtain ch cs where tc: "token = ch # cs" by (cases token) auto
    note v = validate_token_cases [OF assms(1) token]
    show ?thesis
    proof (cases "validate_token cfg token r")
      case (Inl e)
      with v refuse [of e] assms(2) token tc show ?thesis
        by (auto simp: auth_dispatch_def authenticate_def accepts_def)
    next
      case (Inr p)
      with v have "accepts cfg r t q \<longleftrightarrow> t = token \<and> q = p" for t q by (auto simp: accepts_def)
      with Inr assms(2) token tc refuse [of "AttributeErr ''host''"] show ?thesis
        by (cases "rq_client r") (auto simp: auth_dispatch_def authenticate_def client_host_def)
    qed
  qed
qed

definition on_str :: "(string \<Rightarrow> string) \<Rightarrow> pyval \<Rightarrow> pyval" where
  "on_str g v = (case v of PStr s \<Rightarrow> PStr (g s) | _ \<Rightarrow> v)"

lemma dict_mod_map:
  "dict_ok m \<Longrightarrow> dict_mod k f m = map (\<lambda>(j, v). (j, if j = k then f v else v)) m"
proof (induction m)
  case (Cons jv m)
  obtain j v where jv: "jv = (j, v)" by fastforce
  have rest: "map (\<lambda>(i, w). (i, if i = j then g w else w)) m = m" if "j \<notin> set (map fst m)" for g
    using that by (induction m) auto
  from Cons jv rest [of f] show ?case
    by (cases "j = k"; cases "dict_get m k")
       (auto simp: dict_mod_def dict_get_Cons dict_set_def dict_ok_def dict_keys_def)
qed (simp add: dict_mod_def)

lemma fold_dict_mod_map:
  "dict_ok m \<Longrightarrow> distinct ks \<Longrightarrow>
     fold (\<lambda>k. dict_mod k f) ks m = map (\<lambda>(j, v). (j, if j \<in> set ks then f v else v)) m"
proof (induction ks arbitrary: m)
  case (Cons k ks)
  have "dict_ok (dict_mod k f m)" using Cons.prems(1) by (simp add: dict_ok_def)
  with Cons show ?case by (auto simp: dict_mod_map)
qed (auto simp: case_prod_unfold)

lemma field_mods:
  "encrypt_field_of env f d = dict_mod f (on_str (se_encrypt env)) d"
  "decrypt_field_of env f d = dict_mod f (on_str (\<lambda>s. case se_decrypt env s of None \<Rightarrow> s | Some t \<Rightarrow> t)) d"
proof -
  have "dict_set f v d = d" if "dict_get d f = Some v" for v :: pyval
    using that by (simp add: dict_get_def dict_set_def update_triv)
  then show "encrypt_field_of env f d = dict_mod f (on_str (se_encrypt env)) d"
    and "decrypt_field_of env f d = dict_mod f (on_str (\<lambda>s. case se_decrypt env s of None \<Rightarrow> s | Some t \<Rightarrow> t)) d"
    by (auto simp: encrypt_field_of_def decrypt_field_of_def dict_mod_def on_str_def split: option.split pyval.split)
qed

lemma field_folds:
  "encrypt_field_of env = (\<lambda>k. dict_mod k (on_str (se_encrypt env)))"
  "decrypt_field_of env = (\<lambda>k. dict_mod k (on_str (\<lambda>s. case se_decrypt env s of None \<Rightarrow> s | Some t \<Rightarrow> t)))"
  by (simp_all add: fun_eq_iff field_mods)

theorem auth_dispatch_outcome_witness:
  "\<exists>r. auth_dispatch ex_auth (Some [''/health'']) ex_http = Forward r \<and> rq_token r = Some ''token''"
proof -
  have "\<not> excluded (exclude_paths_of (Some [''/health''])) ex_http"
      "\<exists>p. accepts ex_auth ex_http ''token'' p \<and> rq_client ex_http \<noteq> None"
    by (simp_all add: excluded_def exclude_paths_of_def ex_http_def accepts_def extract_token_def nonempty_get_def
        dict_get_Cons ex_auth_def ex_security_def get_none_def dict_get_or_def check_permissions_def py_in_def or_type_err_def)
  moreover have "pyjwt_apart ex_auth" by (simp add: pyjwt_apart_def ex_auth_def)
  ultimately show ?thesis
    using auth_dispatch_outcome [of ex_auth "Some [''/health'']" ex_http] by (metis (no_types, lifting)
        http_request.select_convs(7) http_request.surjective http_request.update_convs(7))
qed

text \<open>
  C38: The fields of a document that were encrypted are restored by decrypting the same fields, and nothing
  else changes, if the cipher decrypts what it encrypted and no field is listed twice.
\<close>
theorem encrypted_fields_roundtrip:
  assumes "\<forall>s. se_decrypt env (se_encrypt env s) = Some s" and "dict_ok d" and "distinct fs"
  shows "decrypt_dict_fields env (encrypt_dict_fields env d fs) fs = d"
proof -
  let ?E = "on_str (se_encrypt env)" and ?D = "on_str (\<lambda>s. case se_decrypt env s of None \<Rightarrow> s | Some t \<Rightarrow> t)"
  let ?d = "map (\<lambda>(j, v). (j, if j \<in> set fs then ?E v else v)) d"
  have "?D (?E v) = v" for v using assms(1) by (simp add: on_str_def split: pyval.split)
  moreover have "dict_ok ?d" using assms(2) by (simp add: dict_ok_def dict_keys_def comp_def case_prod_unfold)
  ultimately show ?thesis
    using assms(2,3) by (simp add: decrypt_dict_fields_def encrypt_dict_fields_def field_folds fold_dict_mod_map
        comp_def case_prod_unfold map_idI)
qed

theorem encrypted_fields_roundtrip_witness:
  "decrypt_dict_fields ex_security (encrypt_dict_fields ex_security [(''a'', PStr ''secret''), (''b'', PInt 1)] [''b'', ''a'']) [''b'', ''a'']
   = [(''a'', PStr ''secret''), (''b'', PInt 1)]"
  by (rule encrypted_fields_roundtrip) (simp_all add: ex_security_def dict_ok_def dict_keys_def)

text \<open>
  A token created for access is one of type access whatever type its data name, and not one of type
  refresh.
\<close>
theorem access_token_has_its_type:
  assumes "se_jose env (create_access_token env data d jti now) = Inr (token_claims data ''access'' expire jti)"
  shows "verify_token_type env (create_access_token env data d jti now) ''access''
    \<and> \<not> verify_token_type env (create_access_token env data d jti now) ''refresh''"
  using assms by (simp add: verify_token_type_def decode_token_def token_claims_def dict_update_def get_none_def
      dict_get_or_def)

lemma mask_hides:
  "length (mask_sensitive_data s n) = length s
   \<and> (\<forall>i. n \<le> i \<and> i < length s \<longrightarrow> mask_sensitive_data s n ! i = CHR ''*'')"
  by (auto simp: mask_sensitive_data_def nth_append)

theorem access_token_has_its_type_witness:
  "verify_token_type (ex_security\<lparr>se_jose := \<lambda>t. Inr (token_claims [(''type'', PStr ''refresh'')] ''access'' 7 ''j'')\<rparr>)
     (create_access_token (ex_security\<lparr>se_jose := \<lambda>t. Inr (token_claims [(''type'', PStr ''refresh'')] ''access'' 7 ''j'')\<rparr>)
        [(''type'', PStr ''refresh'')] None ''j'' 0) ''access''"
  by (rule access_token_has_its_type [THEN conjunct1]) simp

end
