(* ===== verification/Recommender.thy ===== *)
theory Recommender
  imports DomainAgents Calendar
begin

text \<open>
  \<open>src/recommendation/tool_recommender.py\<close>: three tools are scored for a task by capabilities, past
  success, duration and cost, and the best are recommended; executions are recorded. The memory is that of
  \<open>MemoryService\<close>. A number is read as Python compares it; the task's duration and budget, and the
  durations of results, are numbers. \<open>round\<close> to three digits is the nearest, ties to even.
\<close>

section \<open>State\<close>

record past_execution =
  pe_duration :: rat
  pe_success :: bool

record tool_performance =
  tp_executions :: "past_execution list"
  tp_avg_duration :: rat
  tp_success_rate :: rat

record tool_recommender =
  tr_performance :: "(string, tool_performance) dict"

definition new_tool_recommender :: tool_recommender where
  "new_tool_recommender = \<lparr>tr_performance = []\<rparr>"

record candidate =
  cd_name :: string
  cd_capabilities :: "string list"
  cd_cost :: rat
  cd_duration :: rat

record task_wish =
  tw_required :: "string list"
  tw_duration :: rat
  tw_budget :: rat

text \<open>What a caller leaves out of the task context.\<close>

definition default_wish :: task_wish where
  "default_wish = \<lparr>tw_required = [], tw_duration = 300, tw_budget = 1\<rparr>"

definition available_candidates :: "candidate list" where
  "available_candidates =
     [\<lparr>cd_name = ''nmap'', cd_capabilities = [''port_scan'', ''service_detection''], cd_cost = 1 / 100, cd_duration = 60\<rparr>,
      \<lparr>cd_name = ''nuclei'', cd_capabilities = [''vulnerability_scan''], cd_cost = 2 / 100, cd_duration = 120\<rparr>,
      \<lparr>cd_name = ''sqlmap'', cd_capabilities = [''sql_injection''], cd_cost = 5 / 100, cd_duration = 300\<rparr>]"

section \<open>Scores\<close>

definition tool_success_rate :: "string \<Rightarrow> pydict list \<Rightarrow> rat" where
  "tool_success_rate name similar =
     (let mine = filter (\<lambda>s. py_eq (get_none s ''tool_used'') (PStr name)) similar
      in if mine = [] then 1 / 2
         else of_nat (length (filter (\<lambda>s. py_eq (get_none s ''status'') (PStr ''success'')) mine)) / of_nat (length mine))"

definition capability_score :: "string list \<Rightarrow> candidate \<Rightarrow> rat" where
  "capability_score required c =
     (if required = [] then 0
      else of_nat (card (set required \<inter> set (cd_capabilities c))) / of_nat (length required) * (4 / 10))"

definition duration_score :: "tool_recommender \<Rightarrow> task_wish \<Rightarrow> candidate \<Rightarrow> rat" where
  "duration_score r w c =
     (if (case dict_get (tr_performance r) (cd_name c) of None \<Rightarrow> 300 | Some p \<Rightarrow> tp_avg_duration p) \<le> tw_duration w
      then 15 / 100 else 0)"

definition cost_score :: "task_wish \<Rightarrow> candidate \<Rightarrow> rat" where
  "cost_score w c = (if cd_cost c \<le> tw_budget w then 15 / 100 * (1 - cd_cost c / tw_budget w) else 0)"

definition calculate_tool_score :: "memory \<Rightarrow> tool_recommender \<Rightarrow> task_wish \<Rightarrow> candidate \<Rightarrow> rat" where
  "calculate_tool_score m r w c =
     round3 (capability_score (tw_required w) c
       + tool_success_rate (cd_name c) (find_similar_tasks 50 m) * (3 / 10)
       + duration_score r w c + cost_score w c)"

datatype confidence = Conf_high | Conf_medium | Conf_low | Conf_very_low

definition calculate_confidence :: "rat \<Rightarrow> confidence" where
  "calculate_confidence s =
     (if s \<ge> 8 / 10 then Conf_high else if s \<ge> 6 / 10 then Conf_medium else if s \<ge> 4 / 10 then Conf_low else Conf_very_low)"

record scored_tool =
  st_tool :: candidate
  st_score :: rat
  st_confidence :: confidence

definition recommend_best :: "nat \<Rightarrow> memory \<Rightarrow> tool_recommender \<Rightarrow> task_wish \<Rightarrow> scored_tool list" where
  "recommend_best top_k m r w =
     take top_k (sort_key (\<lambda>s. - st_score s)
       (map (\<lambda>c. let s = calculate_tool_score m r w c
                 in \<lparr>st_tool = c, st_score = s, st_confidence = calculate_confidence s\<rparr>) available_candidates))"

section \<open>Learning\<close>

definition mean_of :: "rat list \<Rightarrow> rat" where
  "mean_of xs = (if xs = [] then 0 else sum_list xs / of_nat (length xs))"

definition performance_of :: "past_execution list \<Rightarrow> tool_performance" where
  "performance_of es =
     \<lparr>tp_executions = es, tp_avg_duration = mean_of (map pe_duration es),
      tp_success_rate = (if es = [] then 0 else of_nat (length (filter pe_success es)) / of_nat (length es))\<rparr>"

definition learn_from_execution :: "string \<Rightarrow> rat \<Rightarrow> bool \<Rightarrow> tool_recommender \<Rightarrow> tool_recommender" where
  "learn_from_execution name duration success r =
     (let old = (case dict_get (tr_performance r) name of None \<Rightarrow> [] | Some p \<Rightarrow> tp_executions p)
      in \<lparr>tr_performance = dict_set name
            (performance_of (append_capped 1000 \<lparr>pe_duration = duration, pe_success = success\<rparr> old)) (tr_performance r)\<rparr>)"

definition learn :: "string \<times> rat \<times> bool \<Rightarrow> tool_recommender \<Rightarrow> tool_recommender" where
  "learn e r = (case e of (name, duration, success) \<Rightarrow> learn_from_execution name duration success r)"

definition executions_of :: "string \<Rightarrow> (string \<times> rat \<times> bool) list \<Rightarrow> past_execution list" where
  "executions_of name es =
     map (\<lambda>(n, d, b). \<lparr>pe_duration = d, pe_success = b\<rparr>) (filter (\<lambda>e. fst e = name) es)"

section \<open>What is learned\<close>

lemma executions_of_simps [simp]:
  "executions_of name [] = []"
  "executions_of name (es @ [(n, d, b)]) =
     executions_of name es @ (if n = name then [\<lparr>pe_duration = d, pe_success = b\<rparr>] else [])"
  by (simp_all add: executions_of_def)

lemma executions_of_empty: "executions_of name es = [] \<longleftrightarrow> name \<notin> fst ` set es"
  by (auto simp: executions_of_def filter_empty_conv)

lemma learned_performance:
  "dict_get (tr_performance (fold learn es new_tool_recommender)) name =
     (if executions_of name es = [] then None else Some (performance_of (last_n 1000 (executions_of name es))))"
proof (induction es rule: rev_induct)
  case Nil
  then show ?case by (simp add: new_tool_recommender_def)
next
  case (snoc e es)
  obtain n d b where e: "e = (n, d, b)" by (metis prod_cases3)
  let ?x = "\<lparr>pe_duration = d, pe_success = b\<rparr>"
  have app: "append_capped 1000 ?x (last_n 1000 xs) = last_n 1000 (xs @ [?x])" for xs
    using topic_history.push_run [of "[?x]" xs] by simp
  have one: "append_capped 1000 ?x [] = last_n 1000 [?x]"
    using app [of "[]"] by (simp add: last_n_all)
  show ?case
  proof (cases "n = name")
    case False
    with snoc e show ?thesis by (simp add: learn_def learn_from_execution_def Let_def)
  next
    case True
    show ?thesis
    proof (cases "executions_of name es = []")
      case True
      with snoc e \<open>n = name\<close> one show ?thesis by (simp add: learn_def learn_from_execution_def Let_def)
    next
      case False
      with snoc e \<open>n = name\<close> app show ?thesis
        by (simp add: learn_def learn_from_execution_def Let_def performance_of_def)
    qed
  qed
qed

lemma share_bounds: "(0 :: rat) \<le> of_nat a / of_nat b \<and> (a \<le> b \<longrightarrow> of_nat a / of_nat b \<le> (1 :: rat))"
  by (cases b) (simp_all add: divide_le_eq_1)

lemma take_drop_sorted: "sorted_wrt R ys \<Longrightarrow> s \<in> set (take k ys) \<Longrightarrow> t \<in> set (drop k ys) \<Longrightarrow> R s t"
  by (metis append_take_drop_id sorted_wrt_append)

lemma score_parts:
  "0 \<le> tool_success_rate n ss \<and> tool_success_rate n ss \<le> 1"
  "0 \<le> capability_score req c \<and> capability_score req c \<le> 4 / 10"
  "0 \<le> duration_score r w c \<and> duration_score r w c \<le> 15 / 100"
  "c \<in> set available_candidates \<Longrightarrow> 0 \<le> cost_score w c \<and> cost_score w c \<le> 15 / 100"
proof -
  show "0 \<le> tool_success_rate n ss \<and> tool_success_rate n ss \<le> 1"
    using length_filter_le by (simp add: tool_success_rate_def Let_def share_bounds del: filter_filter)
  have "card (set req \<inter> set (cd_capabilities c)) \<le> length req"
    by (meson card_length card_mono finite_set inf_le1 le_trans)
  then have "of_nat (card (set req \<inter> set (cd_capabilities c))) / of_nat (length req) \<le> (1 :: rat)"
    by (simp add: share_bounds)
  then show "0 \<le> capability_score req c \<and> capability_score req c \<le> 4 / 10"
    by (simp add: capability_score_def)
  show "0 \<le> duration_score r w c \<and> duration_score r w c \<le> 15 / 100"
    by (simp add: duration_score_def)
  assume "c \<in> set available_candidates"
  then have "0 < cd_cost c" by (auto simp: available_candidates_def)
  then have "0 \<le> cd_cost c / tw_budget w \<and> cd_cost c / tw_budget w \<le> 1" if "cd_cost c \<le> tw_budget w"
    using that by (simp add: divide_le_eq_1)
  then have "0 \<le> 15 / 100 * (1 - q) \<and> 15 / 100 * (1 - q) \<le> 15 / (100 :: rat)"
    if "q = cd_cost c / tw_budget w" "cd_cost c \<le> tw_budget w" for q using that by auto
  then show "0 \<le> cost_score w c \<and> cost_score w c \<le> 15 / 100" by (simp add: cost_score_def)
qed

section \<open>Properties\<close>

text \<open>
  Recommendations are scores between 0 and 1, the best first, each with the confidence of its score;
  at most as many as asked for, and no tool that is left out scores better than one that is recommended.
\<close>
theorem recommendations_best_first:
  "sorted_wrt (\<lambda>a b. st_score a \<ge> st_score b) (recommend_best k m r w)
   \<and> length (recommend_best k m r w) = min k 3
   \<and> list_all (\<lambda>s. 0 \<le> st_score s \<and> st_score s \<le> 1 \<and> st_confidence s = calculate_confidence (st_score s)
        \<and> list_all (\<lambda>c. c \<in> st_tool ` set (recommend_best k m r w) \<or> calculate_tool_score m r w c \<le> st_score s)
            available_candidates) (recommend_best k m r w)"
proof -
  let ?f = "\<lambda>c. let s = calculate_tool_score m r w c
              in \<lparr>st_tool = c, st_score = s, st_confidence = calculate_confidence s\<rparr>"
  let ?xs = "map ?f available_candidates" and ?ys = "sort_key (\<lambda>s. - st_score s) (map ?f available_candidates)"
  have rec: "recommend_best k m r w = take k ?ys" by (simp add: recommend_best_def)
  have sorted: "sorted_wrt (\<lambda>a b. st_score a \<ge> st_score b) ?ys"
    using sorted_sort_key [of "\<lambda>s. - st_score s" ?xs] by (simp add: sorted_map)
  have bounds: "0 \<le> calculate_tool_score m r w c \<and> calculate_tool_score m r w c \<le> 1" if "c \<in> set available_candidates" for c
    unfolding calculate_tool_score_def
    using score_parts(1) [of "cd_name c" "find_similar_tasks 50 m"] score_parts(2) [of "tw_required w" c]
      score_parts(3) [of r w c] score_parts(4) [OF that, of w] by (intro round_unit) auto
  have good: "0 \<le> st_score s \<and> st_score s \<le> 1 \<and> st_confidence s = calculate_confidence (st_score s)"
    if "s \<in> set ?ys" for s using that bounds by (auto simp: Let_def)
  have better: "st_score t \<le> st_score s" if "s \<in> set (take k ?ys)" "t \<in> set (drop k ?ys)" for s t
    by (rule take_drop_sorted [OF sorted that])
  have rest: "c \<in> st_tool ` set (take k ?ys) \<or> calculate_tool_score m r w c \<le> st_score s"
    if "s \<in> set (take k ?ys)" "c \<in> set available_candidates" for s c
  proof -
    have "?f c \<in> set ?ys" using that(2) by simp
    then have "?f c \<in> set (take k ?ys) \<union> set (drop k ?ys)" by (metis append_take_drop_id set_append)
    then consider "?f c \<in> set (take k ?ys)" | "?f c \<in> set (drop k ?ys)" by blast
    then show ?thesis
    proof cases
      case 1
      show ?thesis by (intro disjI1 image_eqI [OF _ 1]) (simp add: Let_def)
    next
      case 2
      from better [OF that(1) 2] have "st_score (?f c) \<le> st_score s" .
      then show ?thesis by (intro disjI2) (simp only: Let_def scored_tool.select_convs)
    qed
  qed
  have three: "length ?ys = 3" by (simp only: length_sort length_map) (simp add: available_candidates_def)
  show ?thesis unfolding rec list_all_iff
  proof (intro conjI ballI)
    show "sorted_wrt (\<lambda>a b. st_score a \<ge> st_score b) (take k ?ys)" using sorted by (rule sorted_wrt_take)
    show "length (take k ?ys) = min k 3" unfolding length_take three by (rule min.commute)
    fix s assume s: "s \<in> set (take k ?ys)"
    note g = good [OF in_set_takeD [OF s]]
    show "0 \<le> st_score s" "st_score s \<le> 1" "st_confidence s = calculate_confidence (st_score s)"
      using g by blast+
    fix c assume "c \<in> set available_candidates"
    with rest [OF s] show "c \<in> st_tool ` set (take k ?ys) \<or> calculate_tool_score m r w c \<le> st_score s" by blast
  qed
qed

text \<open>
  Past success teaches the recommender nothing. The executions it records contribute their durations
  only, and the memory it asks for similar tasks has none in any run that does not file documents among
  the tasks: two histories that differ in which executions succeeded give the same recommendations.
\<close>
theorem success_never_matters:
  assumes "list_all (\<lambda>op. files_in op \<noteq> PStr ''tasks'') ops" and "list_all (\<lambda>op. files_in op \<noteq> PStr ''tasks'') ops'"
    and "map (\<lambda>(n, d, b). (n, d)) es = map (\<lambda>(n, d, b). (n, d)) es'"
  shows "recommend_best k (fold (memory_exec h) ops new_memory) (fold learn es new_tool_recommender) w
    = recommend_best k (fold (memory_exec h) ops' new_memory) (fold learn es' new_tool_recommender) w"
proof -
  have none: "find_similar_tasks 50 (fold (memory_exec h) os new_memory) = []"
    if "list_all (\<lambda>op. files_in op \<noteq> PStr ''tasks'') os" for os
    using collection_frame_run [OF that, of h new_memory]
    by (simp add: find_similar_tasks_def vector_search_def new_memory_def new_vector_store_def)
  have "map pe_duration (executions_of n es) = map pe_duration (executions_of n es')" for n
    using assms(3) unfolding executions_of_def
  proof (induction es arbitrary: es')
    case (Cons e es)
    then show ?case by (cases es') (auto split: prod.splits)
  qed simp
  then have durations: "map pe_duration (last_n 1000 (executions_of n es)) = map pe_duration (last_n 1000 (executions_of n es'))"
    and empty: "executions_of n es = [] \<longleftrightarrow> executions_of n es' = []" for n
    by (metis drop_map last_n_def length_map, metis map_is_Nil_conv)
  have "duration_score (fold learn es new_tool_recommender) w c = duration_score (fold learn es' new_tool_recommender) w c" for c
    by (simp add: duration_score_def learned_performance empty performance_of_def durations)
  then show ?thesis
    by (simp add: recommend_best_def calculate_tool_score_def none [OF assms(1)] none [OF assms(2)])
qed

theorem success_never_matters_witness:
  "recommend_best 1 (fold (memory_exec (\<lambda>d. ''h'')) [RecordMetric 0 ''cpu'' 1 []] new_memory)
     (fold learn [(''nmap'', 400, True)] new_tool_recommender) default_wish
   = recommend_best 1 (fold (memory_exec (\<lambda>d. ''h'')) [] new_memory)
       (fold learn [(''nmap'', 400, False)] new_tool_recommender) default_wish"
  by (rule success_never_matters) simp_all

end
