(* ===== verification/KnowledgeGraph.thy ===== *)
theory KnowledgeGraph
  imports DomainAgents
begin

text \<open>
  \<open>src/knowledge_graph/graph_enhancer.py\<close> and \<open>casual_inference.py\<close>: a directed multigraph of
  vulnerabilities, assets, tools and CVEs, the relations the program adds to it, and causes read off its
  paths. The graph of \<open>networkx\<close> is its nodes in order with their attributes and its edges in order of
  creation; the library's path searches and centralities, the cosine of two vectors and the random draws
  are arguments. The time of discovery of an edge is left out.
\<close>

section \<open>The graph\<close>

record kg_edge =
  ke_from :: string
  ke_to :: string
  ke_data :: pydict

record kgraph =
  kg_nodes :: "(string, pydict) dict"
  kg_edges :: "kg_edge list"

definition empty_kgraph :: kgraph where
  "empty_kgraph = \<lparr>kg_nodes = [], kg_edges = []\<rparr>"

definition add_kg_node :: "string \<Rightarrow> pydict \<Rightarrow> kgraph \<Rightarrow> kgraph" where
  "add_kg_node v attrs g =
     g\<lparr>kg_nodes := dict_set v (dict_update (dict_get_or (kg_nodes g) v []) attrs) (kg_nodes g)\<rparr>"

definition ensure_node :: "string \<Rightarrow> kgraph \<Rightarrow> kgraph" where
  "ensure_node v g = (if dict_has (kg_nodes g) v then g else add_kg_node v [] g)"

definition add_kg_edge :: "string \<Rightarrow> string \<Rightarrow> pydict \<Rightarrow> kgraph \<Rightarrow> kgraph" where
  "add_kg_edge u v data g =
     (let g' = ensure_node v (ensure_node u g)
      in g'\<lparr>kg_edges := kg_edges g' @ [\<lparr>ke_from = u, ke_to = v, ke_data = data\<rparr>]\<rparr>)"

definition has_kg_edge :: "kgraph \<Rightarrow> string \<Rightarrow> string \<Rightarrow> bool" where
  "has_kg_edge g u v = list_ex (\<lambda>e. ke_from e = u \<and> ke_to e = v) (kg_edges g)"

definition edges_between :: "kgraph \<Rightarrow> string \<Rightarrow> string \<Rightarrow> kg_edge list" where
  "edges_between g u v = filter (\<lambda>e. ke_from e = u \<and> ke_to e = v) (kg_edges g)"

definition firsts :: "'a list \<Rightarrow> 'a list" where
  "firsts xs = rev (remdups (rev xs))"

definition successors :: "kgraph \<Rightarrow> string \<Rightarrow> string list" where
  "successors g u = firsts (map ke_to (filter (\<lambda>e. ke_from e = u) (kg_edges g)))"

definition predecessors :: "kgraph \<Rightarrow> string \<Rightarrow> string list" where
  "predecessors g v = firsts (map ke_from (filter (\<lambda>e. ke_to e = v) (kg_edges g)))"

definition degree_of :: "kgraph \<Rightarrow> string \<Rightarrow> nat" where
  "degree_of g v =
     length (filter (\<lambda>e. ke_from e = v) (kg_edges g)) + length (filter (\<lambda>e. ke_to e = v) (kg_edges g))"

text \<open>\<open>graph.edges(data=True)\<close>: by source, then by target, then by key.\<close>

definition edges_in_order :: "kgraph \<Rightarrow> kg_edge list" where
  "edges_in_order g =
     concat (map (\<lambda>u. concat (map (edges_between g u) (successors g u))) (dict_keys (kg_nodes g)))"

definition node_attr :: "kgraph \<Rightarrow> string \<Rightarrow> string \<Rightarrow> pyval \<Rightarrow> pyval" where
  "node_attr g v k x = dict_get_or (dict_get_or (kg_nodes g) v []) k x"

definition nodes_of_type :: "kgraph \<Rightarrow> string \<Rightarrow> string list" where
  "nodes_of_type g ty =
     map fst (filter (\<lambda>(v, a). py_eq (get_none a ''type'') (PStr ty)) (kg_nodes g))"

section \<open>The sample graph\<close>

definition sample_nodes :: "(string \<times> string \<times> string \<times> string \<times> pyval) list" where
  "sample_nodes =
     [(''vuln_sqli'', ''vulnerability'', ''SQL Injection'', ''severity'', PStr ''high''),
      (''vuln_xss'', ''vulnerability'', ''XSS'', ''severity'', PStr ''medium''),
      (''vuln_rce'', ''vulnerability'', ''RCE'', ''severity'', PStr ''critical''),
      (''vuln_lfi'', ''vulnerability'', ''LFI'', ''severity'', PStr ''medium''),
      (''asset_web'', ''asset'', ''Web Server'', ''criticality'', PStr ''high''),
      (''asset_db'', ''asset'', ''Database'', ''criticality'', PStr ''critical''),
      (''asset_api'', ''asset'', ''API Gateway'', ''criticality'', PStr ''high''),
      (''tool_nmap'', ''tool'', ''Nmap'', ''capability'', PStr ''scanning''),
      (''tool_nuclei'', ''tool'', ''Nuclei'', ''capability'', PStr ''vulnerability_scan''),
      (''tool_sqlmap'', ''tool'', ''SQLMap'', ''capability'', PStr ''exploit''),
      (''cve_2023_1234'', ''cve'', ''CVE-2023-1234'', ''cvss'', PFloat (98 / 10)),
      (''cve_2023_5678'', ''cve'', ''CVE-2023-5678'', ''cvss'', PFloat (75 / 10))]"

definition sample_edges :: "(string \<times> string \<times> string) list" where
  "sample_edges =
     [(''vuln_sqli'', ''cve_2023_1234'', ''associated_with''), (''vuln_sqli'', ''asset_db'', ''affects''),
      (''vuln_sqli'', ''tool_sqlmap'', ''detected_by''), (''vuln_xss'', ''asset_web'', ''affects''),
      (''vuln_xss'', ''tool_nuclei'', ''detected_by''), (''vuln_rce'', ''cve_2023_5678'', ''associated_with''),
      (''vuln_rce'', ''asset_api'', ''affects''), (''tool_nmap'', ''asset_web'', ''scans''),
      (''tool_nmap'', ''asset_db'', ''scans'')]"

definition load_graph :: "kgraph \<Rightarrow> kgraph" where
  "load_graph g =
     fold (\<lambda>(u, v, ty). add_kg_edge u v [(''type'', PStr ty)]) sample_edges
       (fold (\<lambda>(v, ty, name, k, x). add_kg_node v [(''type'', PStr ty), (''name'', PStr name), (k, x)]) sample_nodes g)"

section \<open>What is outside\<close>

record kg_env =
  kx_simple_paths :: "kgraph \<Rightarrow> string \<Rightarrow> string \<Rightarrow> nat \<Rightarrow> string list list"
  kx_shortest_path :: "kgraph \<Rightarrow> string \<Rightarrow> string \<Rightarrow> string list option"
  kx_degree :: "kgraph \<Rightarrow> (string, rat) dict"
  kx_betweenness :: "kgraph \<Rightarrow> (string, rat) dict"
  kx_closeness :: "kgraph \<Rightarrow> (string, rat) dict"
  kx_cosine :: "rat list \<Rightarrow> rat list \<Rightarrow> rat"
  kx_partition :: "kgraph \<Rightarrow> (string \<times> nat) list option"
  kx_components :: "kgraph \<Rightarrow> string list list"
  kx_path_draw :: "nat \<Rightarrow> int \<times> rat"
  kx_fix_draw :: "nat \<Rightarrow> string \<times> rat"
  kx_cause_draw :: "nat \<Rightarrow> rat \<times> int"
  kx_time_draw :: "nat \<Rightarrow> int \<times> int"

section \<open>Patterns\<close>

datatype kg_pattern =
    Triangle string string string
  | Star string "string list" nat
  | Attack_path "string list" string string int rat
  | Remediation_of string pyval pyval

fun pairs_of :: "'a list \<Rightarrow> ('a \<times> 'a) list" where
  "pairs_of [] = []"
| "pairs_of (x # xs) = map (Pair x) xs @ pairs_of xs"

definition find_motifs :: "kgraph \<Rightarrow> kg_pattern list" where
  "find_motifs g =
     concat (map (\<lambda>v. map (\<lambda>(a, b). Triangle v a b)
                       (filter (\<lambda>(a, b). has_kg_edge g a b \<or> has_kg_edge g b a) (pairs_of (successors g v))))
              (dict_keys (kg_nodes g)))
     @ map (\<lambda>v. Star v (take 5 (successors g v)) (degree_of g v))
         (filter (\<lambda>v. degree_of g v \<ge> 3) (dict_keys (kg_nodes g)))"

definition risk_of :: "kg_pattern \<Rightarrow> rat" where
  "risk_of p = (case p of Attack_path path v a f r \<Rightarrow> r | _ \<Rightarrow> 0)"

definition find_attack_paths :: "kg_env \<Rightarrow> kgraph \<Rightarrow> kg_pattern list" where
  "find_attack_paths env g =
     (let raw = concat (map (\<lambda>v. concat (map (\<lambda>a.
                  map (\<lambda>p. (p, v, a)) (filter (\<lambda>p. length p \<ge> 3) (kx_simple_paths env g v a 4)))
                  (nodes_of_type g ''asset''))) (nodes_of_type g ''vulnerability''));
          drawn = map (\<lambda>(i, p, v, a). Attack_path p v a (fst (kx_path_draw env i)) (snd (kx_path_draw env i)))
                    (enumerate 0 raw)
      in take 20 (sort_key (\<lambda>p. - risk_of p) drawn))"

text \<open>Only where no edge records a remediation are some made up.\<close>

definition find_remediation_patterns :: "kg_env \<Rightarrow> kgraph \<Rightarrow> kg_pattern list" where
  "find_remediation_patterns env g =
     (let known = filter (\<lambda>e. py_eq (get_none (ke_data e) ''type'') (PStr ''remediated_by'')) (edges_in_order g)
      in if known \<noteq> []
         then map (\<lambda>(i, e). Remediation_of (ke_from e) (PStr (ke_to e))
                (dict_get_or (ke_data e) ''effectiveness'' (PFloat (snd (kx_fix_draw env i))))) (enumerate 0 known)
         else map (\<lambda>(i, v). Remediation_of v (PStr (fst (kx_fix_draw env i))) (PFloat (snd (kx_fix_draw env i))))
                (enumerate 0 (take 5 (nodes_of_type g ''vulnerability''))))"

definition discover_patterns :: "kg_env \<Rightarrow> kgraph \<Rightarrow> kg_pattern list" where
  "discover_patterns env g = find_motifs g @ find_attack_paths env g @ find_remediation_patterns env g"

section \<open>Relations\<close>

definition embedding_of :: "kg_env \<Rightarrow> kgraph \<Rightarrow> string \<Rightarrow> rat list" where
  "embedding_of env g v =
     [dict_get_or (kx_degree env g) v 0, dict_get_or (kx_betweenness env g) v 0, dict_get_or (kx_closeness env g) v 0,
      of_nat (degree_of g v) / 100, of_nat (length (predecessors g v)) / 50, of_nat (length (successors g v)) / 50]"

text \<open>The embeddings of all nodes are made anew, so both of a pair are there.\<close>

definition learn_similarities :: "kg_env \<Rightarrow> kgraph \<Rightarrow> (string \<times> string \<times> rat) list" where
  "learn_similarities env g =
     filter (\<lambda>(u, v, s). s > 7 / 10)
       (map (\<lambda>(u, v). (u, v, kx_cosine env (embedding_of env g u) (embedding_of env g v))) (pairs_of (dict_keys (kg_nodes g))))"

record causal_relation =
  cr_cause :: string
  cr_effect :: string
  cr_correlation :: rat
  cr_confidence :: string
  cr_evidence :: int

definition causal_pairs :: "(string \<times> string) list" where
  "causal_pairs = [(''vuln_sqli'', ''cve_2023_1234''), (''vuln_rce'', ''cve_2023_5678''), (''tool_nmap'', ''asset_web''),
     (''vuln_xss'', ''asset_web'')]"

definition infer_causality :: "kg_env \<Rightarrow> kgraph \<Rightarrow> causal_relation list" where
  "infer_causality env g =
     map (\<lambda>(i, u, v). let c = fst (kx_cause_draw env i)
            in \<lparr>cr_cause = u, cr_effect = v, cr_correlation = c,
                cr_confidence = (if c > 8 / 10 then ''high'' else ''medium''), cr_evidence = snd (kx_cause_draw env i)\<rparr>)
       (enumerate 0 (filter (\<lambda>(u, v). dict_has (kg_nodes g) u \<and> dict_has (kg_nodes g) v \<and> kx_shortest_path env g u v \<noteq> None)
          causal_pairs))"

definition temporal_pairs :: "(string \<times> string) list" where
  "temporal_pairs = [(''tool_nmap'', ''vuln_sqli''), (''vuln_sqli'', ''tool_sqlmap''), (''tool_nmap'', ''vuln_xss''),
     (''vuln_xss'', ''tool_nuclei''), (''vuln_sqli'', ''cve_2023_1234''), (''cve_2023_1234'', ''asset_db'')]"

definition temporal_relations :: "kg_env \<Rightarrow> kgraph \<Rightarrow> (string \<times> string \<times> int \<times> int) list" where
  "temporal_relations env g =
     map (\<lambda>(i, u, v). (u, v, fst (kx_time_draw env i), snd (kx_time_draw env i)))
       (enumerate 0 (filter (\<lambda>(u, v). dict_has (kg_nodes g) u \<and> dict_has (kg_nodes g) v) temporal_pairs))"

definition detect_communities :: "kg_env \<Rightarrow> kgraph \<Rightarrow> (nat, string list) dict" where
  "detect_communities env g =
     (case kx_partition env g of
        Some part \<Rightarrow> fold (\<lambda>(v, i) d. dict_set i (dict_get_or d i [] @ [v]) d) part []
      | None \<Rightarrow> enumerate 0 (kx_components env g))"

section \<open>The update\<close>

definition add_if_missing :: "string \<Rightarrow> string \<Rightarrow> pydict \<Rightarrow> kgraph \<Rightarrow> kgraph" where
  "add_if_missing u v data g = (if has_kg_edge g u v then g else add_kg_edge u v data g)"

fun steps_of :: "'a list \<Rightarrow> ('a \<times> 'a) list" where
  "steps_of (x # y # xs) = (x, y) # steps_of (y # xs)"
| "steps_of _ = []"

definition add_pattern :: "kg_pattern \<Rightarrow> kgraph \<Rightarrow> kgraph" where
  "add_pattern p g =
     (case p of
        Attack_path path v a f r \<Rightarrow>
          fold (\<lambda>(x, y). add_if_missing x y [(''type'', PStr ''attack_step''), (''frequency'', PInt f)]) (steps_of path) g
      | _ \<Rightarrow> g)"

definition add_similarity :: "string \<times> string \<times> rat \<Rightarrow> kgraph \<Rightarrow> kgraph" where
  "add_similarity s g =
     (case s of (u, v, x) \<Rightarrow> add_if_missing u v [(''type'', PStr ''similar_to''), (''similarity'', PFloat x)] g)"

definition add_cause :: "causal_relation \<Rightarrow> kgraph \<Rightarrow> kgraph" where
  "add_cause r =
     add_if_missing (cr_cause r) (cr_effect r)
       [(''type'', PStr ''causes''), (''correlation'', PFloat (cr_correlation r)), (''confidence'', PStr (cr_confidence r))]"

definition add_temporal :: "string \<times> string \<times> int \<times> int \<Rightarrow> kgraph \<Rightarrow> kgraph" where
  "add_temporal t g =
     (case t of (u, v, f, gap) \<Rightarrow>
        add_if_missing u v [(''type'', PStr ''followed_by''), (''frequency'', PInt f), (''avg_time_gap'', PInt gap)] g)"

definition update_graph ::
    "kg_pattern list \<Rightarrow> (string \<times> string \<times> rat) list \<Rightarrow> causal_relation list \<Rightarrow> (string \<times> string \<times> int \<times> int) list
     \<Rightarrow> kgraph \<Rightarrow> kgraph" where
  "update_graph ps sims cs ts g =
     fold add_temporal ts (fold add_cause cs (fold add_similarity sims (fold add_pattern ps g)))"

text \<open>The counts that \<open>enhance_graph\<close> reports of what it found are left out.\<close>

record graph_enhancer =
  ge_graph :: kgraph
  ge_patterns :: "kg_pattern list"
  ge_communities :: "(nat, string list) dict"

definition new_graph_enhancer :: graph_enhancer where
  "new_graph_enhancer = \<lparr>ge_graph = empty_kgraph, ge_patterns = [], ge_communities = []\<rparr>"

definition enhance_graph :: "kg_env \<Rightarrow> graph_enhancer \<Rightarrow> graph_enhancer" where
  "enhance_graph env e =
     (let g = load_graph (ge_graph e); ps = discover_patterns env g
      in \<lparr>ge_graph = update_graph ps (learn_similarities env g) (infer_causality env g) (temporal_relations env g) g,
          ge_patterns = ge_patterns e @ ps, ge_communities = detect_communities env g\<rparr>)"

section \<open>Questions\<close>

record kg_recommendation =
  kr_entity :: string
  kr_type :: pyval
  kr_name :: pyval
  kr_data :: pydict
  kr_strength :: pyval

definition strength_num :: "kg_recommendation \<Rightarrow> rat" where
  "strength_num r = (case num_val (kr_strength r) of None \<Rightarrow> 0 | Some x \<Rightarrow> x)"

text \<open>The strengths of the edges the program makes are numbers.\<close>

definition get_recommendations :: "string \<Rightarrow> string \<Rightarrow> nat \<Rightarrow> kgraph \<Rightarrow> kg_recommendation list" where
  "get_recommendations v ty n g =
     (if \<not> dict_has (kg_nodes g) v then []
      else take n (sort_key (\<lambda>r. - strength_num r)
        (concat (map (\<lambda>w. map (\<lambda>e. \<lparr>kr_entity = w, kr_type = node_attr g w ''type'' (PStr ''unknown''),
               kr_name = node_attr g w ''name'' (PStr w), kr_data = ke_data e,
               kr_strength = dict_get_or (ke_data e) ''similarity'' (dict_get_or (ke_data e) ''correlation'' (PFloat 1))\<rparr>)
             (filter (\<lambda>e. py_eq (get_none (ke_data e) ''type'') (PStr ty)) (edges_between g v w))) (successors g v)))))"

definition find_related_vulnerabilities :: "string \<Rightarrow> kgraph \<Rightarrow> kg_recommendation list" where
  "find_related_vulnerabilities asset g = get_recommendations asset ''affects'' 20 g"

definition find_remediation_actions :: "string \<Rightarrow> kgraph \<Rightarrow> kg_recommendation list" where
  "find_remediation_actions v g = get_recommendations v ''remediated_by'' 10 g"

definition tally :: "pyval list \<Rightarrow> (pyval, nat) dict" where
  "tally xs = fold (\<lambda>x d. dict_set x (dict_get_or d x 0 + 1) d) xs []"

definition count_node_types :: "kgraph \<Rightarrow> (pyval, nat) dict" where
  "count_node_types g = tally (map (\<lambda>(v, a). dict_get_or a ''type'' (PStr ''unknown'')) (kg_nodes g))"

definition count_edge_types :: "kgraph \<Rightarrow> (pyval, nat) dict" where
  "count_edge_types g = tally (map (\<lambda>e. dict_get_or (ke_data e) ''type'' (PStr ''unknown'')) (edges_in_order g))"

definition avg_degree :: "kgraph \<Rightarrow> rat" where
  "avg_degree g =
     of_nat (sum_list (map (degree_of g) (dict_keys (kg_nodes g)))) / of_nat (max 1 (length (kg_nodes g)))"

section \<open>Causes and effects\<close>

record causal_path =
  cp_cause :: string
  cp_effect :: string
  cp_path :: "string list"
  cp_strength :: rat
  cp_confidence :: rat

definition causal_of :: "string \<Rightarrow> string \<Rightarrow> string list \<Rightarrow> causal_path" where
  "causal_of u v p =
     (let s = 1 / of_nat (length p)
      in \<lparr>cp_cause = u, cp_effect = v, cp_path = p, cp_strength = s, cp_confidence = min (9 / 10) (s * (8 / 10))\<rparr>)"

definition causal_between :: "kg_env \<Rightarrow> kgraph \<Rightarrow> nat \<Rightarrow> string \<Rightarrow> string \<Rightarrow> causal_path list" where
  "causal_between env g depth u v =
     (case kx_shortest_path env g u v of
        None \<Rightarrow> [] | Some p \<Rightarrow> if length p \<le> depth then [causal_of u v p] else [])"

definition strongest :: "nat \<Rightarrow> causal_path list \<Rightarrow> causal_path list" where
  "strongest n cs = take n (sort_key (\<lambda>c. - cp_strength c) cs)"

definition infer_causes :: "kg_env \<Rightarrow> kgraph \<Rightarrow> nat \<Rightarrow> string \<Rightarrow> causal_path list" where
  "infer_causes env g depth effect =
     (if \<not> dict_has (kg_nodes g) effect then []
      else strongest 20 (concat (map (\<lambda>u. causal_between env g depth u effect)
             (filter (\<lambda>u. u \<noteq> effect) (dict_keys (kg_nodes g))))))"

definition infer_effects :: "kg_env \<Rightarrow> kgraph \<Rightarrow> nat \<Rightarrow> string \<Rightarrow> causal_path list" where
  "infer_effects env g depth cause =
     (if \<not> dict_has (kg_nodes g) cause then []
      else strongest 20 (concat (map (causal_between env g depth cause)
             (filter (\<lambda>v. v \<noteq> cause) (dict_keys (kg_nodes g))))))"

definition get_causal_chain :: "kg_env \<Rightarrow> kgraph \<Rightarrow> string \<Rightarrow> string \<Rightarrow> causal_path option" where
  "get_causal_chain env g u v =
     map_option (\<lambda>p. (causal_of u v p)\<lparr>cp_confidence := min (9 / 10) (1 / of_nat (length p))\<rparr>) (kx_shortest_path env g u v)"

definition add_strengths :: "(causal_path \<Rightarrow> string) \<Rightarrow> causal_path list \<Rightarrow> (string, rat) dict \<Rightarrow> (string, rat) dict" where
  "add_strengths key cs d = fold (\<lambda>c d. dict_set (key c) (dict_get_or d (key c) 0 + cp_strength c) d) cs d"

definition find_common_causes :: "kg_env \<Rightarrow> kgraph \<Rightarrow> string list \<Rightarrow> (string \<times> rat) list" where
  "find_common_causes env g vs =
     take 10 (sort_key (\<lambda>x. - snd x) (fold (\<lambda>v. add_strengths cp_cause (infer_causes env g 2 v)) vs []))"

definition find_common_effects :: "kg_env \<Rightarrow> kgraph \<Rightarrow> string list \<Rightarrow> (string \<times> rat) list" where
  "find_common_effects env g vs =
     take 10 (sort_key (\<lambda>x. - snd x) (fold (\<lambda>v. add_strengths cp_effect (infer_effects env g 2 v)) vs []))"

section \<open>The edges the program makes\<close>

definition edge_kind :: "kg_edge \<Rightarrow> pyval" where
  "edge_kind e = get_none (ke_data e) ''type''"

definition edge_known :: "kg_edge \<Rightarrow> bool" where
  "edge_known e \<longleftrightarrow> (edge_kind e = PStr ''affects'' \<longrightarrow> ke_from e \<in> {''vuln_sqli'', ''vuln_xss'', ''vuln_rce''})
     \<and> edge_kind e \<noteq> PStr ''remediated_by''"

definition edges_known :: "kgraph \<Rightarrow> bool" where
  "edges_known g \<longleftrightarrow> list_all edge_known (kg_edges g)"

lemma kg_node_edges [simp]: "kg_edges (add_kg_node v a g) = kg_edges g" "kg_edges (ensure_node v g) = kg_edges g"
  by (simp_all add: add_kg_node_def ensure_node_def)

lemma kg_edge_edges [simp]: "kg_edges (add_kg_edge u v d g) = kg_edges g @ [\<lparr>ke_from = u, ke_to = v, ke_data = d\<rparr>]"
  by (simp add: add_kg_edge_def Let_def)

lemma fold_keeps: "(\<And>x s. x \<in> set xs \<Longrightarrow> P s \<Longrightarrow> P (f x s)) \<Longrightarrow> P s \<Longrightarrow> P (fold f xs s)"
  by (induction xs arbitrary: s) auto

lemma add_if_missing_keeps:
  "list_all Q (kg_edges g) \<Longrightarrow> Q \<lparr>ke_from = u, ke_to = v, ke_data = d\<rparr> \<Longrightarrow> list_all Q (kg_edges (add_if_missing u v d g))"
  by (simp add: add_if_missing_def)

lemma load_graph_keeps:
  assumes "list_all Q (kg_edges g)"
    and "\<And>u v ty. (u, v, ty) \<in> set sample_edges \<Longrightarrow> Q \<lparr>ke_from = u, ke_to = v, ke_data = [(''type'', PStr ty)]\<rparr>"
  shows "list_all Q (kg_edges (load_graph g))"
  unfolding load_graph_def
proof (rule fold_keeps [where P = "\<lambda>g. list_all Q (kg_edges g)"])
  show "list_all Q (kg_edges (fold (\<lambda>(v, ty, name, k, x). add_kg_node v [(''type'', PStr ty), (''name'', PStr name), (k, x)])
      sample_nodes g))"
    by (rule fold_keeps [where P = "\<lambda>g. list_all Q (kg_edges g)"]) (use assms(1) in auto)
qed (use assms(2) in auto)

text \<open>What holds of the loaded edges and of any edge of one of the added types holds of all.\<close>

lemma relations_keep:
  assumes "list_all Q (kg_edges g)"
    and new: "\<And>u v ty d. ty \<in> {''similar_to'', ''causes'', ''followed_by''} \<Longrightarrow>
      Q \<lparr>ke_from = u, ke_to = v, ke_data = (''type'', PStr ty) # d\<rparr>"
  shows "list_all Q (kg_edges (fold add_temporal ts (fold add_cause cs (fold add_similarity sims g))))"
proof -
  let ?P = "\<lambda>g :: kgraph. list_all Q (kg_edges g)"
  have "?P (fold add_similarity sims g)"
    by (rule fold_keeps [where P = ?P, rotated, OF assms(1)]) (auto simp: add_similarity_def intro!: add_if_missing_keeps new)
  then have "?P (fold add_cause cs (fold add_similarity sims g))"
    by (rule fold_keeps [where P = ?P, rotated]) (auto simp: add_cause_def intro!: add_if_missing_keeps new)
  then show ?thesis
    by (rule fold_keeps [where P = ?P, rotated]) (auto simp: add_temporal_def intro!: add_if_missing_keeps new)
qed

lemma update_graph_keeps:
  assumes "list_all Q (kg_edges g)"
    and new: "\<And>u v ty d. ty \<in> {''attack_step'', ''similar_to'', ''causes'', ''followed_by''} \<Longrightarrow>
      Q \<lparr>ke_from = u, ke_to = v, ke_data = (''type'', PStr ty) # d\<rparr>"
  shows "list_all Q (kg_edges (update_graph ps sims cs ts g))"
proof -
  let ?P = "\<lambda>g :: kgraph. list_all Q (kg_edges g)"
  have "?P (fold add_pattern ps g)"
  proof (rule fold_keeps [where P = ?P])
    fix p and g :: kgraph assume "?P g"
    then show "?P (add_pattern p g)"
      by (cases p) (auto simp: add_pattern_def intro!: fold_keeps [where P = ?P] add_if_missing_keeps new)
  qed (rule assms(1))
  then show ?thesis unfolding update_graph_def by (rule relations_keep) (auto intro: new)
qed

lemma enhance_known: "edges_known (ge_graph e) \<Longrightarrow> edges_known (ge_graph (enhance_graph env e))"
proof -
  assume "edges_known (ge_graph e)"
  then have "edges_known (load_graph (ge_graph e))" unfolding edges_known_def
    by (rule load_graph_keeps)
       (auto simp: sample_edges_def edge_known_def edge_kind_def get_none_def dict_get_or_def dict_get_Cons)
  then show ?thesis unfolding edges_known_def enhance_graph_def Let_def graph_enhancer.select_convs
    by (rule update_graph_keeps) (auto simp: edge_known_def edge_kind_def get_none_def dict_get_or_def dict_get_Cons)
qed

lemma concat_map_Nil: "concat (map (\<lambda>w. []) ws) = []"
  by (induction ws) simp_all

lemma no_recommendations:
  assumes "list_all (\<lambda>e. ke_from e = v \<longrightarrow> edge_kind e \<noteq> PStr ty) (kg_edges g)"
  shows "get_recommendations v ty n g = []"
proof -
  have "filter (\<lambda>e. py_eq (get_none (ke_data e) ''type'') (PStr ty)) (edges_between g v w) = []" for w
    using assms by (auto simp: edges_between_def filter_empty_conv list_all_iff edge_kind_def)
  then show ?thesis by (simp add: get_recommendations_def concat_map_Nil)
qed

section \<open>Properties\<close>

text \<open>
  However often the graph is enhanced, and whatever the library and the random draws give, nothing is
  ever found for an asset and no remedy for anything: the relation \<open>affects\<close> only ever starts at three
  vulnerabilities while the question follows it from the asset, and no operation makes a relation
  \<open>remediated_by\<close>.
\<close>
theorem graph_answers_nothing:
  assumes "asset \<notin> {''vuln_sqli'', ''vuln_xss'', ''vuln_rce''}"
  shows "find_related_vulnerabilities asset (ge_graph (fold enhance_graph envs new_graph_enhancer)) = []
    \<and> find_remediation_actions v (ge_graph (fold enhance_graph envs new_graph_enhancer)) = []"
proof -
  have "edges_known (ge_graph (fold enhance_graph envs new_graph_enhancer))"
    by (rule fold_keeps [where P = "\<lambda>e. edges_known (ge_graph e)", OF enhance_known])
       (simp_all add: edges_known_def new_graph_enhancer_def empty_kgraph_def)
  then have "list_all (\<lambda>e. ke_from e = asset \<longrightarrow> edge_kind e \<noteq> PStr ''affects'')
        (kg_edges (ge_graph (fold enhance_graph envs new_graph_enhancer)))"
      "list_all (\<lambda>e. ke_from e = v \<longrightarrow> edge_kind e \<noteq> PStr ''remediated_by'')
        (kg_edges (ge_graph (fold enhance_graph envs new_graph_enhancer)))"
    using assms by (auto simp: edges_known_def edge_known_def list_all_iff)
  then show ?thesis
    by (simp add: find_related_vulnerabilities_def find_remediation_actions_def no_recommendations)
qed

text \<open>The steps of the paths the library finds are edges of the graph.\<close>

definition paths_are_paths :: "kg_env \<Rightarrow> bool" where
  "paths_are_paths env \<longleftrightarrow>
     (\<forall>g u v n. \<forall>p \<in> set (kx_simple_paths env g u v n). \<forall>(x, y) \<in> set (steps_of p). has_kg_edge g x y)"

lemma attack_paths_add_nothing:
  assumes "paths_are_paths env"
  shows "fold add_pattern (discover_patterns env g) g = g"
proof -
  have id: "fold (\<lambda>(x, y). add_if_missing x y d) ss g = g" if "\<forall>(x, y) \<in> set ss. has_kg_edge g x y" for ss d
    using that by (induction ss) (auto simp: add_if_missing_def)
  have "\<exists>u v n. p \<in> set (kx_simple_paths env g u v n)"
    if "Attack_path p w a f r \<in> set (discover_patterns env g)" for p w a f r
    using that
    by (auto simp: discover_patterns_def find_motifs_def find_remediation_patterns_def find_attack_paths_def Let_def
        in_set_enumerate_eq split: if_splits dest!: in_set_takeD nth_mem) ((intro exI, assumption)+)
  then have "add_pattern q g = g" if "q \<in> set (discover_patterns env g)" for q
    using that assms id by (cases q) (fastforce simp: add_pattern_def paths_are_paths_def)+
  then have "fold add_pattern qs g = g" if "set qs \<subseteq> set (discover_patterns env g)" for qs
    using that by (induction qs) auto
  then show ?thesis by simp
qed

text \<open>
  The attack paths that are found leave no trace in the graph. If the library's paths run along edges
  of the graph, then after any number of enhancements no edge is of type \<open>attack_step\<close>: an update adds a
  relation only between nodes that have none, and the steps of a path already have one.
\<close>
theorem attack_steps_never_added:
  assumes "list_all paths_are_paths envs"
  shows "list_all (\<lambda>e. edge_kind e \<noteq> PStr ''attack_step'') (kg_edges (ge_graph (fold enhance_graph envs new_graph_enhancer)))"
proof (rule fold_keeps [where P = "\<lambda>e :: graph_enhancer. list_all (\<lambda>e. edge_kind e \<noteq> PStr ''attack_step'') (kg_edges (ge_graph e))"])
  let ?Q = "\<lambda>e. edge_kind e \<noteq> PStr ''attack_step''"
  note kind = edge_kind_def get_none_def dict_get_or_def dict_get_Cons
  fix env and e :: graph_enhancer
  assume env: "env \<in> set envs" and "list_all ?Q (kg_edges (ge_graph e))"
  then have load: "list_all ?Q (kg_edges (load_graph (ge_graph e)))"
    by (intro load_graph_keeps) (auto simp: sample_edges_def kind)
  have "paths_are_paths env" using assms env by (simp add: list_all_iff)
  note unchanged = attack_paths_add_nothing [OF this]
  let ?g = "load_graph (ge_graph e)"
  have eq: "ge_graph (enhance_graph env e) = fold add_temporal (temporal_relations env ?g)
      (fold add_cause (infer_causality env ?g) (fold add_similarity (learn_similarities env ?g) ?g))"
    by (simp add: enhance_graph_def Let_def update_graph_def unchanged)
  show "list_all ?Q (kg_edges (ge_graph (enhance_graph env e)))"
    unfolding eq by (rule relations_keep [OF load]) (auto simp: kind)
qed (simp add: new_graph_enhancer_def empty_kgraph_def)

definition ex_kg :: kgraph where
  "ex_kg = add_kg_edge ''a'' ''b'' [] empty_kgraph"

definition ex_kg_env :: kg_env where
  "ex_kg_env =
     \<lparr>kx_simple_paths = \<lambda>g u v n. if has_kg_edge g u v then [[u, v]] else [],
      kx_shortest_path = \<lambda>g u v. if u = v then Some [u] else if has_kg_edge g u v then Some [u, v] else None,
      kx_degree = \<lambda>g. [], kx_betweenness = \<lambda>g. [], kx_closeness = \<lambda>g. [], kx_cosine = \<lambda>x y. 0,
      kx_partition = \<lambda>g. None, kx_components = \<lambda>g. [], kx_path_draw = \<lambda>i. (1, 5), kx_fix_draw = \<lambda>i. (''patch'', 8 / 10),
      kx_cause_draw = \<lambda>i. (7 / 10, 6), kx_time_draw = \<lambda>i. (5, 6)\<rparr>"

theorem graph_answers_nothing_witness:
  "find_related_vulnerabilities ''asset_web'' (ge_graph (fold enhance_graph [ex_kg_env, ex_kg_env] new_graph_enhancer)) = []"
  using graph_answers_nothing [of "''asset_web''" "[ex_kg_env, ex_kg_env]"] by simp

theorem attack_steps_never_added_witness:
  "list_all (\<lambda>e. edge_kind e \<noteq> PStr ''attack_step'') (kg_edges (ge_graph (fold enhance_graph [ex_kg_env] new_graph_enhancer)))"
  by (rule attack_steps_never_added) (simp add: paths_are_paths_def ex_kg_env_def)

section \<open>Causes\<close>

definition is_path :: "kgraph \<Rightarrow> string \<Rightarrow> string \<Rightarrow> string list \<Rightarrow> bool" where
  "is_path g u v p \<longleftrightarrow> p \<noteq> [] \<and> hd p = u \<and> last p = v \<and> (\<forall>(x, y) \<in> set (steps_of p). has_kg_edge g x y)"

text \<open>The library finds a shortest path where there is one.\<close>

definition shortest_paths :: "kg_env \<Rightarrow> kgraph \<Rightarrow> bool" where
  "shortest_paths env g \<longleftrightarrow> (\<forall>u v. case kx_shortest_path env g u v of
       None \<Rightarrow> (\<forall>p. \<not> is_path g u v p)
     | Some p \<Rightarrow> is_path g u v p \<and> (\<forall>q. is_path g u v q \<longrightarrow> length p \<le> length q))"

lemma strongest_spec:
  "set (strongest n cs) \<subseteq> set cs \<and> sorted_wrt (\<lambda>a b. cp_strength a \<ge> cp_strength b) (strongest n cs)
   \<and> (length (strongest n cs) < n \<longrightarrow> set (strongest n cs) = set cs)"
proof -
  let ?ys = "sort_key (\<lambda>c. - cp_strength c) cs"
  have "sorted_wrt (\<lambda>a b. cp_strength a \<ge> cp_strength b) ?ys"
    using sorted_sort_key [of "\<lambda>c. - cp_strength c" cs] by (simp add: sorted_map)
  then have "sorted_wrt (\<lambda>a b. cp_strength a \<ge> cp_strength b) (take n ?ys)" by (rule sorted_wrt_take)
  moreover have "set (take n ?ys) \<subseteq> set ?ys" by (rule set_take_subset)
  moreover have "take n ?ys = ?ys" if "length (take n ?ys) < n" using that by simp
  ultimately show ?thesis by (auto simp: strongest_def)
qed

lemma causal_between_iff:
  "c \<in> set (causal_between env g depth u v) \<longleftrightarrow>
     (\<exists>p. kx_shortest_path env g u v = Some p \<and> length p \<le> depth \<and> c = causal_of u v p)"
  by (cases "kx_shortest_path env g u v") (auto simp: causal_between_def)

text \<open>
  The causes that are inferred for an effect are right, and all of them where there are fewer than
  twenty. Each is another node with a path of at most the given number of nodes to the effect, the path
  is a shortest one, and its strength is one over its length; the strongest come first. If the library
  finds shortest paths, no node with such a path is missing.
\<close>
theorem causes_correct:
  assumes "shortest_paths env g" and "dict_has (kg_nodes g) effect"
  shows "sorted_wrt (\<lambda>a b. cp_strength a \<ge> cp_strength b) (infer_causes env g depth effect)
    \<and> list_all (\<lambda>c. cp_cause c \<noteq> effect \<and> is_path g (cp_cause c) effect (cp_path c) \<and> length (cp_path c) \<le> depth
         \<and> cp_strength c = 1 / of_nat (length (cp_path c))
         \<and> (\<forall>q. is_path g (cp_cause c) effect q \<longrightarrow> length (cp_path c) \<le> length q)) (infer_causes env g depth effect)
    \<and> (length (infer_causes env g depth effect) < 20 \<longrightarrow>
         (\<forall>u q. dict_has (kg_nodes g) u \<and> u \<noteq> effect \<and> is_path g u effect q \<and> length q \<le> depth
            \<longrightarrow> u \<in> cp_cause ` set (infer_causes env g depth effect)))"
proof -
  let ?cs = "concat (map (\<lambda>u. causal_between env g depth u effect) (filter (\<lambda>u. u \<noteq> effect) (dict_keys (kg_nodes g))))"
  have eq: "infer_causes env g depth effect = strongest 20 ?cs" using assms(2) by (simp add: infer_causes_def)
  note sp = strongest_spec [of 20 ?cs]
  have good: "cp_cause c \<noteq> effect \<and> is_path g (cp_cause c) effect (cp_path c) \<and> length (cp_path c) \<le> depth
         \<and> cp_strength c = 1 / of_nat (length (cp_path c))
         \<and> (\<forall>q. is_path g (cp_cause c) effect q \<longrightarrow> length (cp_path c) \<le> length q)" if "c \<in> set ?cs" for c
  proof -
    from that obtain u where u: "u \<noteq> effect" "c \<in> set (causal_between env g depth u effect)" by auto
    then obtain p where p: "kx_shortest_path env g u effect = Some p" "length p \<le> depth" "c = causal_of u effect p"
      by (auto simp: causal_between_iff)
    with assms(1) have "is_path g u effect p \<and> (\<forall>q. is_path g u effect q \<longrightarrow> length p \<le> length q)"
      unfolding shortest_paths_def by (metis (mono_tags, lifting) option.simps(5))
    with u(1) p(2,3) show ?thesis by (simp add: causal_of_def Let_def)
  qed
  have all: "\<exists>c \<in> set ?cs. cp_cause c = u"
    if u: "dict_has (kg_nodes g) u" "u \<noteq> effect" and q: "is_path g u effect q" "length q \<le> depth" for u q
  proof -
    from assms(1) have "case kx_shortest_path env g u effect of None \<Rightarrow> (\<forall>p. \<not> is_path g u effect p)
        | Some p \<Rightarrow> is_path g u effect p \<and> (\<forall>q. is_path g u effect q \<longrightarrow> length p \<le> length q)"
      by (simp add: shortest_paths_def)
    with q(1) obtain p where p: "kx_shortest_path env g u effect = Some p" "length p \<le> length q"
      by (cases "kx_shortest_path env g u effect") auto
    with q(2) have "causal_of u effect p \<in> set (causal_between env g depth u effect)"
      by (auto simp: causal_between_iff)
    with u have "causal_of u effect p \<in> set ?cs" by (auto simp: dict_has_keys)
    then show ?thesis by (rule bexI [rotated]) (simp add: causal_of_def Let_def)
  qed
  show ?thesis unfolding eq list_all_iff
    using sp good all by (intro conjI ballI impI allI) (blast, blast, blast, blast, blast, blast, force)
qed

lemma ex_kg_edge: "has_kg_edge ex_kg x y \<longleftrightarrow> x = ''a'' \<and> y = ''b''"
  by (auto simp: ex_kg_def has_kg_edge_def empty_kgraph_def)

lemma ex_kg_paths: "is_path ex_kg u v p \<longleftrightarrow> u = v \<and> p = [u] \<or> u = ''a'' \<and> v = ''b'' \<and> p = [u, v]"
proof (cases p rule: steps_of.cases)
  case (1 x y xs)
  then show ?thesis by (cases xs) (auto simp: is_path_def ex_kg_edge)
qed (auto simp: is_path_def)

theorem causes_correct_witness:
  "\<exists>c. infer_causes ex_kg_env ex_kg 3 ''b'' = [c] \<and> is_path ex_kg ''a'' ''b'' (cp_path c)"
proof -
  have ok: "shortest_paths ex_kg_env ex_kg"
    by (auto simp: shortest_paths_def ex_kg_paths ex_kg_env_def ex_kg_edge)
  have b: "dict_has (kg_nodes ex_kg) ''b''" by code_simp
  have "infer_causes ex_kg_env ex_kg 3 ''b'' = [causal_of ''a'' ''b'' [''a'', ''b'']]" by code_simp
  moreover have "cp_cause (causal_of ''a'' ''b'' [''a'', ''b'']) = ''a''" by (simp add: causal_of_def Let_def)
  ultimately show ?thesis using causes_correct [OF ok b, of 3] by simp
qed

end
