(* ===== verification/HttpStack.thy ===== *)
theory HttpStack
  imports ApiRateLimit Authentication
begin

text \<open>
  \<open>src/api/app.py\<close> and \<open>src/api/middleware/\<close>: what a request passes on its way to an endpoint and back. A
  layer takes the application inside it and is an application again; it sees the request, whose state all
  layers share, and the state of the process. The layers of the web framework, the way it nests the layers
  that are added, and the endpoints are arguments. Times and drawn identifiers are fields of \<open>http_env\<close>.
\<close>

section \<open>Requests, responses, applications\<close>

record web_request =
  wr_http :: http_request
  wr_method :: string
  wr_tenant :: "string option"
  wr_correlation :: "string option"

record web_response =
  rp_status :: int
  rp_headers :: "(string, string) dict"
  rp_body :: pyval

record audit_entry =
  ae_request_id :: string
  ae_method :: string
  ae_path :: string
  ae_user :: pyval
  ae_ip :: "string option"
  ae_agent :: "string option"

datatype audit_line = Audit_request audit_entry | Audit_response audit_entry int

record 'a server =
  sv_storage :: storage
  sv_audit :: "audit_line list"
  sv_app :: 'a

type_synonym 'a outcome = "(exn + web_response) \<times> web_request \<times> 'a server"
type_synonym 'a app = "web_request \<Rightarrow> 'a server \<Rightarrow> 'a outcome"
type_synonym 'a layer = "'a app \<Rightarrow> 'a app"

definition set_header :: "string \<Rightarrow> string \<Rightarrow> web_response \<Rightarrow> web_response" where
  "set_header k v p = p\<lparr>rp_headers := dict_set k v (rp_headers p)\<rparr>"

text \<open>What follows \<open>await call_next(request)\<close>: nothing of it when the call raises.\<close>

definition afterwards ::
    "(web_request \<Rightarrow> web_response \<Rightarrow> 'a server \<Rightarrow> web_response \<times> 'a server) \<Rightarrow> 'a outcome \<Rightarrow> 'a outcome" where
  "afterwards f out =
     (case out of
        (Inl e, r, s) \<Rightarrow> (Inl e, r, s)
      | (Inr p, r, s) \<Rightarrow> (let (p', s') = f r p s in (Inr p', r, s')))"

lemma afterwards_simps [simp]:
  "afterwards f (Inl e, r, s) = (Inl e, r, s)"
  "afterwards (\<lambda>r p s. (g r p, s)) (Inr p, r, s) = (Inr (g r p), r, s)"
  by (simp_all add: afterwards_def)

text \<open>A layer of the framework answers itself or passes the request on and may change the response.\<close>

record library_layer =
  ll_before :: "web_request \<Rightarrow> web_response option"
  ll_after :: "web_request \<Rightarrow> web_response \<Rightarrow> web_response"

definition library :: "library_layer \<Rightarrow> 'a layer" where
  "library l app r s =
     (case ll_before l r of
        Some p \<Rightarrow> (Inr p, r, s)
      | None \<Rightarrow> afterwards (\<lambda>r p s. (ll_after l r p, s)) (app r s))"

section \<open>The environment\<close>

record http_env =
  he_auth :: auth_config
  he_limits :: rl_settings
  he_remote :: "(string \<Rightarrow> redis_reply) option"
  he_now :: time
  he_request_id :: string
  he_correlation_id :: string
  he_elapsed :: string
  he_security_headers :: bool
  he_https :: library_layer
  he_hosts :: library_layer
  he_cors :: library_layer
  he_gzip :: library_layer

section \<open>The layers\<close>

definition correlation_layer :: "string \<Rightarrow> 'a layer" where
  "correlation_layer drawn app r s =
     (let cid = (case nonempty_get (rq_headers (wr_http r)) ''X-Correlation-ID'' of None \<Rightarrow> drawn | Some c \<Rightarrow> c)
      in afterwards (\<lambda>r p s. (set_header ''X-Correlation-ID'' cid p, s)) (app (r\<lparr>wr_correlation := Some cid\<rparr>) s))"

text \<open>The answers of the other layers; times in a body are left out.\<close>

definition auth_refusal :: "int \<Rightarrow> string \<Rightarrow> msg \<Rightarrow> web_response" where
  "auth_refusal status code m =
     \<lparr>rp_status = status, rp_headers = [(''WWW-Authenticate'', ''Bearer'')],
      rp_body = PDict [(''error'', PDict [(''code'', PStr code), (''message'', msg_val m)])]\<rparr>"

definition authentication_layer :: "auth_config \<Rightarrow> 'a layer" where
  "authentication_layer cfg app r s =
     (case auth_dispatch cfg app_exclude_paths (wr_http r) of
        Forward h \<Rightarrow> app (r\<lparr>wr_http := h\<rparr>) s
      | Refuse status code m \<Rightarrow> (Inr (auth_refusal status code m), r, s)
      | Crash e \<Rightarrow> (Inl e, r, s))"

text \<open>A \<open>sub\<close> that is not a string is in no table of limits and counts as empty here.\<close>

definition limited_user :: "pydict \<Rightarrow> string option" where
  "limited_user u = (case dict_get u ''sub'' of None \<Rightarrow> None | Some (PStr x) \<Rightarrow> Some x | Some v \<Rightarrow> Some [])"

definition request_info_of :: "string \<Rightarrow> web_request \<Rightarrow> string \<Rightarrow> request_info" where
  "request_info_of header r host =
     request_info.make (map_option limited_user (rq_user (wr_http r))) (wr_tenant r)
       (dict_get (rq_headers (wr_http r)) header) host (rq_path (wr_http r))"

definition limit_refusal :: "int \<Rightarrow> string \<Rightarrow> pyval \<Rightarrow> pyval \<Rightarrow> web_response" where
  "limit_refusal status code retry l =
     \<lparr>rp_status = status,
      rp_headers = [(''Retry-After'', case retry of PInt n \<Rightarrow> int_str n | _ \<Rightarrow> ''None'')],
      rp_body = PDict [(''error'', PDict [(''code'', PStr code), (''message'', PStr ''Rate limit exceeded''),
        (''retry_after'', retry), (''limit'', l)])]\<rparr>"

definition limit_headers :: "http_env \<Rightarrow> web_response \<Rightarrow> web_response" where
  "limit_headers env p =
     set_header ''X-RateLimit-Reset'' (int_str (he_now env div second + 60))
       (set_header ''X-RateLimit-Remaining'' ''99''
         (set_header ''X-RateLimit-Limit'' (rs_default_limit (he_limits env)) p))"

definition rate_limit_layer :: "http_env \<Rightarrow> 'a layer" where
  "rate_limit_layer env app r s =
     (if \<not> rs_enabled (he_limits env) then app r s
      else (case client_host (wr_http r) of
              Inl e \<Rightarrow> (Inl e, r, s)
            | Inr host \<Rightarrow>
              (case dispatch (he_limits env) (he_remote env) (request_info_of (ac_header (he_auth env)) r host)
                      (he_now env) (sv_storage s) of
                 (TooMany status code retry l, m) \<Rightarrow> (Inr (limit_refusal status code retry l), r, s\<lparr>sv_storage := m\<rparr>)
               | (Forwarded, m) \<Rightarrow>
                   afterwards (\<lambda>r p s. (limit_headers env p, s)) (app r (s\<lparr>sv_storage := m\<rparr>)))))"

definition audit_entry_of :: "web_request \<Rightarrow> audit_entry" where
  "audit_entry_of r =
     (let h = wr_http r; user = (case rq_user h of Some u \<Rightarrow> u | None \<Rightarrow> [(''sub'', PStr ''anonymous'')])
      in \<lparr>ae_request_id = (case rq_request_id h of None \<Rightarrow> ''unknown'' | Some i \<Rightarrow> i), ae_method = wr_method r,
          ae_path = rq_path h, ae_user = dict_get_or user ''sub'' (PStr ''anonymous''),
          ae_ip = rq_client h, ae_agent = dict_get (rq_headers h) ''user-agent''\<rparr>)"

definition write_audit :: "audit_line \<Rightarrow> 'a server \<Rightarrow> 'a server" where
  "write_audit l s = s\<lparr>sv_audit := sv_audit s @ [l]\<rparr>"

definition audit_layer :: "'a layer" where
  "audit_layer app r s =
     (let e = audit_entry_of r
      in afterwards (\<lambda>r p s. (p, write_audit (Audit_response e (rp_status p)) s))
           (app r (write_audit (Audit_request e) s)))"

definition encryption_layer :: "'a layer" where
  "encryption_layer app r s =
     afterwards (\<lambda>r p s. (set_header ''X-Frame-Options'' ''DENY'' (set_header ''X-Content-Type-Options'' ''nosniff'' p), s))
       (app r s)"

definition timing_layer :: "string \<Rightarrow> 'a layer" where
  "timing_layer elapsed app r s = afterwards (\<lambda>r p s. (set_header ''X-Process-Time'' elapsed p, s)) (app r s)"

text \<open>The request has an identifier from here on; the one it has at the end goes into the response.\<close>

definition logging_layer :: "string \<Rightarrow> 'a layer" where
  "logging_layer drawn app r s =
     (let h = wr_http r; i = (case rq_request_id h of None \<Rightarrow> drawn | Some i \<Rightarrow> i)
      in afterwards (\<lambda>r p s. (set_header ''X-Request-ID'' (case rq_request_id (wr_http r) of None \<Rightarrow> [] | Some j \<Rightarrow> j) p, s))
           (app (r\<lparr>wr_http := h\<lparr>rq_request_id := Some i\<rparr>\<rparr>) s))"

text \<open>The layers in the order in which \<open>create_app\<close> adds them.\<close>

definition app_layers :: "http_env \<Rightarrow> 'a layer list" where
  "app_layers env =
     [correlation_layer (he_correlation_id env)]
     @ (if he_security_headers env then [library (he_https env), library (he_hosts env)] else [])
     @ [library (he_cors env), library (he_gzip env), authentication_layer (he_auth env), rate_limit_layer env,
        audit_layer, encryption_layer, timing_layer (he_elapsed env), logging_layer (he_request_id env)]"

section \<open>Exceptions\<close>

text \<open>
  What an endpoint ends with: a response, an \<open>HTTPException\<close>, or another exception. The handlers of
  \<open>create_app\<close> turn what they are registered for into responses; what is left reaches the outermost
  handler.
\<close>

datatype answer = Answer web_response | Http_exception int string | Uncaught exn

type_synonym 'a endpoint = "web_request \<Rightarrow> 'a \<Rightarrow> answer \<times> web_request \<times> 'a"

definition request_id_of :: "web_request \<Rightarrow> pyval" where
  "request_id_of r = (case rq_request_id (wr_http r) of None \<Rightarrow> PNone | Some i \<Rightarrow> PStr i)"

definition error_body :: "string \<Rightarrow> pyval \<Rightarrow> web_request \<Rightarrow> pydict \<Rightarrow> pyval" where
  "error_body code m r extra =
     PDict [(''error'', PDict ([(''code'', PStr code), (''message'', m)] @ extra
       @ [(''path'', PStr (rq_path (wr_http r))), (''request_id'', request_id_of r)]))]"

definition enterprise_exception_handler :: "web_request \<Rightarrow> exn \<Rightarrow> web_response" where
  "enterprise_exception_handler r e =
     \<lparr>rp_status = (case ex_status e of None \<Rightarrow> 500 | Some n \<Rightarrow> n),
      rp_headers = [(''X-Request-ID'', case rq_request_id (wr_http r) of None \<Rightarrow> [] | Some i \<Rightarrow> i)],
      rp_body = error_body (case ex_code e of None \<Rightarrow> [] | Some c \<Rightarrow> c) (msg_val (ex_message e)) r
        [(''details'', PDict (ex_details e))]\<rparr>"

definition not_found_handler :: "web_request \<Rightarrow> web_response" where
  "not_found_handler r =
     \<lparr>rp_status = 404, rp_headers = [],
      rp_body = error_body ''NOT_FOUND'' (PStr (''Route '' @ rq_path (wr_http r) @ '' not found'')) r []\<rparr>"

definition method_not_allowed_handler :: "web_request \<Rightarrow> web_response" where
  "method_not_allowed_handler r =
     \<lparr>rp_status = 405, rp_headers = [],
      rp_body = error_body ''METHOD_NOT_ALLOWED''
        (PStr (''Method '' @ wr_method r @ '' not allowed for '' @ rq_path (wr_http r))) r []\<rparr>"

definition internal_error_handler :: "web_request \<Rightarrow> web_response" where
  "internal_error_handler r =
     \<lparr>rp_status = 500, rp_headers = [],
      rp_body = error_body ''INTERNAL_ERROR'' (PStr ''An internal server error occurred'') r []\<rparr>"

text \<open>An \<open>HTTPException\<close> without a handler of its own is answered with its detail.\<close>

definition detail_response :: "int \<Rightarrow> string \<Rightarrow> web_response" where
  "detail_response n d = \<lparr>rp_status = n, rp_headers = [], rp_body = PDict [(''detail'', PStr d)]\<rparr>"

definition handled :: "web_request \<Rightarrow> answer \<Rightarrow> exn + web_response" where
  "handled r a =
     (case a of
        Answer p \<Rightarrow> Inr p
      | Http_exception n d \<Rightarrow>
          Inr (if n = 404 then not_found_handler r else if n = 405 then method_not_allowed_handler r else detail_response n d)
      | Uncaught e \<Rightarrow> if isinstance_exn e CEnterpriseBase then Inr (enterprise_exception_handler r e) else Inl e)"

definition routes :: "'a endpoint \<Rightarrow> 'a app" where
  "routes ep r s = (case ep r (sv_app s) of (a, r', x) \<Rightarrow> (handled r' a, r', s\<lparr>sv_app := x\<rparr>))"

text \<open>The whole application; \<open>compose\<close> is how the framework nests the layers.\<close>

definition serve ::
    "('a layer list \<Rightarrow> 'a app \<Rightarrow> 'a app) \<Rightarrow> http_env \<Rightarrow> 'a endpoint \<Rightarrow> web_request \<Rightarrow> 'a server \<Rightarrow> web_response \<times> 'a server" where
  "serve compose env ep r s =
     (case compose (app_layers env) (routes ep) r s of
        (Inl e, r', s') \<Rightarrow> (internal_error_handler r', s')
      | (Inr p, r', s') \<Rightarrow> (p, s'))"

text \<open>Documented of \<open>add_middleware\<close>: the layer added last is the outermost.\<close>

definition last_added_outermost :: "('a layer list \<Rightarrow> 'a app \<Rightarrow> 'a app) \<Rightarrow> bool" where
  "last_added_outermost compose \<longleftrightarrow>
     (\<forall>app. compose [] app = app) \<and> (\<forall>ls l app. compose (ls @ [l]) app = l (compose ls app))"

section \<open>The application as its layers\<close>

definition inner_layers :: "http_env \<Rightarrow> 'a layer" where
  "inner_layers env app =
     library (he_gzip env) (library (he_cors env)
       ((if he_security_headers env then library (he_hosts env) \<circ> library (he_https env) else (\<lambda>app. app))
         (correlation_layer (he_correlation_id env) app)))"

lemma compose_layers:
  "last_added_outermost compose \<Longrightarrow> compose ls app = fold (\<lambda>l app. l app) ls app"
  by (induction ls arbitrary: app rule: rev_induct) (simp_all add: last_added_outermost_def)

definition stamped :: "http_env \<Rightarrow> web_request \<Rightarrow> web_request" where
  "stamped env r =
     r\<lparr>wr_http := (wr_http r)\<lparr>rq_request_id :=
        Some (case rq_request_id (wr_http r) of None \<Rightarrow> he_request_id env | Some i \<Rightarrow> i)\<rparr>\<rparr>"

definition edge_headers :: "http_env \<Rightarrow> web_request \<Rightarrow> web_response \<Rightarrow> web_response" where
  "edge_headers env r p =
     set_header ''X-Request-ID'' (case rq_request_id (wr_http r) of None \<Rightarrow> [] | Some j \<Rightarrow> j)
       (set_header ''X-Process-Time'' (he_elapsed env)
         (set_header ''X-Frame-Options'' ''DENY'' (set_header ''X-Content-Type-Options'' ''nosniff'' p)))"

lemma set_header_status [simp]: "rp_status (set_header k v p) = rp_status p"
  by (simp add: set_header_def)

lemma edge_headers_status [simp]: "rp_status (edge_headers env r p) = rp_status p"
  by (simp add: edge_headers_def)

text \<open>From the audit layer outwards, given what the rate limiter and all inside it do.\<close>

lemma serve_edge:
  assumes "last_added_outermost compose"
  shows "serve compose env ep r s =
    (let r1 = stamped env r; e = audit_entry_of r1
     in case rate_limit_layer env (authentication_layer (he_auth env) (inner_layers env (routes ep))) r1
            (write_audit (Audit_request e) s) of
          (Inl x, r', s') \<Rightarrow> (internal_error_handler r', s')
        | (Inr p, r', s') \<Rightarrow> (edge_headers env r' p, write_audit (Audit_response e (rp_status p)) s'))"
  using compose_layers [OF assms]
  by (cases "he_security_headers env")
     (auto simp: serve_def app_layers_def logging_layer_def timing_layer_def encryption_layer_def audit_layer_def
       stamped_def edge_headers_def inner_layers_def afterwards_def Let_def split: prod.split sum.split)

lemma stamped_simps [simp]:
  "rq_user (wr_http (stamped env r)) = rq_user (wr_http r)" "rq_path (wr_http (stamped env r)) = rq_path (wr_http r)"
  "wr_tenant (stamped env r) = wr_tenant r" "rq_client (wr_http (stamped env r)) = rq_client (wr_http r)"
  by (simp_all add: stamped_def)

section \<open>What the layers keep\<close>

lemma authentication_open:
  "take 1 (rq_path (wr_http r)) = ''/'' \<Longrightarrow> authentication_layer cfg app r = app r"
  by (rule ext) (simp add: authentication_layer_def app_excludes_all)

text \<open>The identifiers of a request without user and tenant lead to the endpoint's and the default limit only.\<close>

lemma checks_anonymous:
  "limit_checks (st\<lparr>rs_user_limits := u, rs_tenant_limits := t\<rparr>) (get_identifiers (request_info.make None None k ip path))
    = limit_checks st (get_identifiers (request_info.make None None k' ip path))"
  by (simp add: limit_checks_def get_identifiers_def request_info.make_def dict_get_or_def dict_get_Cons Let_def
      split: option.split)

lemma dispatch_anonymous:
  "dispatch (st\<lparr>rs_user_limits := u, rs_tenant_limits := t\<rparr>) remote (request_info.make None None k ip path) now m
    = dispatch st remote (request_info.make None None k' ip path) now m"
  by (simp add: dispatch_def check_rate_limits_def checks_anonymous [where k' = k'])

definition keeps_audit :: "'a app \<Rightarrow> bool" where
  "keeps_audit app \<longleftrightarrow> (\<forall>r s x r' s'. app r s = (x, r', s') \<longrightarrow> sv_audit s' = sv_audit s)"

lemma keeps_audit_library: "keeps_audit app \<Longrightarrow> keeps_audit (library l app)"
  by (fastforce simp: keeps_audit_def library_def afterwards_def split: option.splits prod.splits sum.splits)

lemma keeps_audit_inner: "keeps_audit (inner_layers env (routes ep))"
proof -
  have "keeps_audit (routes ep)" by (auto simp: keeps_audit_def routes_def split: prod.splits)
  then have "keeps_audit (correlation_layer c (routes ep))" for c
    by (fastforce simp: keeps_audit_def correlation_layer_def afterwards_def Let_def split: prod.splits sum.splits)
  then show ?thesis by (simp add: inner_layers_def keeps_audit_library)
qed

lemma keeps_audit_authentication: "keeps_audit app \<Longrightarrow> keeps_audit (authentication_layer cfg app)"
  by (auto simp: keeps_audit_def authentication_layer_def split: auth_outcome.splits)

lemma keeps_audit_rate_limit: "keeps_audit app \<Longrightarrow> keeps_audit (rate_limit_layer env app)"
  by (fastforce simp: keeps_audit_def rate_limit_layer_def afterwards_def split: if_splits sum.splits prod.splits dispatched.splits)

section \<open>Properties\<close>

text \<open>
  C4: Neither the authentication settings nor the limits per user and tenant have any effect. For every
  request whose path begins with a slash, as it comes in without a user or a tenant in its state, the
  response and the state of the server are the same under any keys and signing secrets and any table of user
  and tenant limits: the empty list of excluded paths excludes every path, and the rate limiter, added after
  the authentication, runs before it.
\<close>
theorem authentication_is_irrelevant:
  assumes "last_added_outermost compose" and "take 1 (rq_path (wr_http r)) = ''/''"
    and "rq_user (wr_http r) = None" and "wr_tenant r = None"
  shows "serve compose (env\<lparr>he_auth := cfg, he_limits := (he_limits env)\<lparr>rs_user_limits := u, rs_tenant_limits := t\<rparr>\<rparr>) ep r s
    = serve compose env ep r s"
proof -
  let ?env = "env\<lparr>he_auth := cfg, he_limits := (he_limits env)\<lparr>rs_user_limits := u, rs_tenant_limits := t\<rparr>\<rparr>"
  have app: "authentication_layer c a (stamped env r) = a (stamped env r)" for c and a :: "'a app"
    using assms(2) by (simp add: authentication_open)
  have same: "stamped ?env r = stamped env r" "inner_layers ?env = inner_layers env" "edge_headers ?env = edge_headers env"
      "limit_headers ?env = limit_headers env"
    by (auto simp: stamped_def inner_layers_def edge_headers_def limit_headers_def fun_eq_iff split: option.split)
  have info: "request_info_of k (stamped env r) host = request_info.make None None (dict_get (rq_headers (wr_http (stamped env r))) k)
      host (rq_path (wr_http r))" for k host
    using assms(3,4) by (simp add: request_info_of_def)
  have "rate_limit_layer ?env (authentication_layer cfg a) (stamped env r) s'
      = rate_limit_layer env (authentication_layer (he_auth env) a) (stamped env r) s'" for s' and a :: "'a app"
    using dispatch_anonymous [where st = "he_limits env" and u = u and t = t and k' = "dict_get (rq_headers (wr_http (stamped env r))) (ac_header (he_auth env))"]
    by (cases "client_host (wr_http (stamped env r))")
       (simp_all add: rate_limit_layer_def app info same split: prod.split dispatched.split)
  then show ?thesis by (simp add: serve_edge [OF assms(1)] same Let_def split: prod.split sum.split)
qed

text \<open>
  Every request is audited as anonymous and under the identifier drawn for it, and its answer is audited
  with the status that is sent, unless an exception is left to the outermost handler: then the audit trail
  has no answer, and the client gets the fixed internal error.
\<close>
theorem audit_is_anonymous:
  assumes "last_added_outermost compose" and "rq_user (wr_http r) = None" and "rq_request_id (wr_http r) = None"
    and "serve compose env ep r s = (p, s')"
  shows "\<exists>e. ae_user e = PStr ''anonymous'' \<and> ae_request_id e = he_request_id env \<and> ae_path e = rq_path (wr_http r)
    \<and> (sv_audit s' = sv_audit s @ [Audit_request e, Audit_response e (rp_status p)]
       \<or> sv_audit s' = sv_audit s @ [Audit_request e] \<and> (\<exists>r'. p = internal_error_handler r'))"
proof -
  let ?r = "stamped env r" and ?e = "audit_entry_of (stamped env r)"
  let ?out = "rate_limit_layer env (authentication_layer (he_auth env) (inner_layers env (routes ep))) ?r
    (write_audit (Audit_request ?e) s)"
  obtain x r' s1 where out: "?out = (x, r', s1)" by (metis prod_cases3)
  have "keeps_audit (rate_limit_layer env (authentication_layer (he_auth env) (inner_layers env (routes ep))))"
    by (intro keeps_audit_rate_limit keeps_audit_authentication keeps_audit_inner)
  with out have "sv_audit s1 = sv_audit s @ [Audit_request ?e]"
    by (auto simp: keeps_audit_def write_audit_def)
  moreover have "ae_user ?e = PStr ''anonymous''" "ae_request_id ?e = he_request_id env" "ae_path ?e = rq_path (wr_http r)"
    using assms(2,3) by (simp_all add: audit_entry_of_def stamped_def Let_def dict_get_or_def dict_get_Cons)
  ultimately show ?thesis using assms(4) out
    by (cases x) (auto simp: serve_edge [OF assms(1)] Let_def write_audit_def intro!: exI [of _ ?e])
qed

text \<open>
  A request over the limit is refused with status 429 before anything else: no endpoint runs and no
  state but the limiter's own and the audit trail changes. The refusal carries the identifier drawn for the
  request and the audit has its status, but it has no correlation identifier, since the layer that was meant
  to come first is the innermost.
\<close>
theorem over_limit_is_refused:
  assumes "last_added_outermost compose" and "rs_enabled (he_limits env)" and "client_host (wr_http r) = Inr h"
    and "dispatch (he_limits env) (he_remote env) (request_info_of (ac_header (he_auth env)) (stamped env r) h) (he_now env)
      (sv_storage s) = (TooMany 429 code retry l, m)"
    and "rq_request_id (wr_http r) = None" and "serve compose env ep r s = (p, s')"
  shows "rp_status p = 429 \<and> sv_app s' = sv_app s \<and> sv_storage s' = m
    \<and> dict_get (rp_headers p) ''X-Request-ID'' = Some (he_request_id env)
    \<and> dict_get (rp_headers p) ''X-Correlation-ID'' = None
    \<and> (\<exists>e. sv_audit s' = sv_audit s @ [Audit_request e, Audit_response e 429])"
proof -
  have "client_host (wr_http (stamped env r)) = Inr h" using assms(3) by (simp add: client_host_def)
  with assms(2,4) have "rate_limit_layer env (authentication_layer (he_auth env) (inner_layers env (routes ep))) (stamped env r)
      (write_audit (Audit_request e) s)
    = (Inr (limit_refusal 429 code retry l), stamped env r, write_audit (Audit_request e) s\<lparr>sv_storage := m\<rparr>)" for e
    by (simp add: rate_limit_layer_def write_audit_def)
  with assms(5,6) show ?thesis
    by (auto simp: serve_edge [OF assms(1)] Let_def edge_headers_def set_header_def limit_refusal_def stamped_def
        write_audit_def dict_get_Cons)
qed

text \<open>A layer of the framework that lets a request and its response through as they are.\<close>

definition transparent :: "library_layer" where
  "transparent = \<lparr>ll_before = \<lambda>r. None, ll_after = \<lambda>r p. p\<rparr>"

definition passes_library :: "http_env \<Rightarrow> bool" where
  "passes_library env \<longleftrightarrow> he_https env = transparent \<and> he_hosts env = transparent \<and> he_cors env = transparent \<and> he_gzip env = transparent"

definition answer_status :: "answer \<Rightarrow> int" where
  "answer_status a =
     (case a of
        Answer p \<Rightarrow> rp_status p
      | Http_exception n d \<Rightarrow> n
      | Uncaught e \<Rightarrow> if isinstance_exn e CEnterpriseBase then (case ex_status e of None \<Rightarrow> 500 | Some n \<Rightarrow> n) else 500)"

lemma library_transparent [simp]: "library transparent app = app"
  by (intro ext) (auto simp: library_def transparent_def afterwards_def split: prod.split sum.split)

lemma inner_transparent: "passes_library env \<Longrightarrow> inner_layers env app = correlation_layer (he_correlation_id env) app"
  by (simp add: passes_library_def inner_layers_def)

text \<open>The request as the endpoint sees it.\<close>

definition seen :: "http_env \<Rightarrow> web_request \<Rightarrow> web_request" where
  "seen env r =
     (stamped env r)\<lparr>wr_correlation :=
        Some (case nonempty_get (rq_headers (wr_http r)) ''X-Correlation-ID'' of None \<Rightarrow> he_correlation_id env | Some c \<Rightarrow> c)\<rparr>"

lemma correlation_seen:
  "correlation_layer (he_correlation_id env) app (stamped env r) s
    = afterwards (\<lambda>_ p s. (set_header ''X-Correlation-ID'' (the (wr_correlation (seen env r))) p, s)) (app (seen env r) s)"
  by (simp add: correlation_layer_def seen_def stamped_def Let_def)


section \<open>An example\<close>

definition ex_compose :: "nat layer list \<Rightarrow> nat app \<Rightarrow> nat app" where
  "ex_compose ls app = fold (\<lambda>l a. l a) ls app"

lemma ex_compose_ok: "last_added_outermost ex_compose"
  by (simp add: last_added_outermost_def ex_compose_def)

definition ex_web_env :: "string \<Rightarrow> http_env" where
  "ex_web_env l =
     \<lparr>he_auth = ex_auth, he_limits = default_settings\<lparr>rs_default_limit := l\<rparr>, he_remote = None, he_now = 5,
      he_request_id = ''req'', he_correlation_id = ''cor'', he_elapsed = ''0.1'',
      he_security_headers = True, he_https = transparent, he_hosts = transparent, he_cors = transparent,
      he_gzip = transparent\<rparr>"

definition ex_web :: web_request where
  "ex_web = \<lparr>wr_http = ex_http\<lparr>rq_path := ''/api'', rq_headers := []\<rparr>, wr_method = ''GET'', wr_tenant = None, wr_correlation = None\<rparr>"

definition ex_server :: "nat server" where
  "ex_server = \<lparr>sv_storage = [], sv_audit = [], sv_app = 0\<rparr>"

definition ex_endpoint :: "nat endpoint" where
  "ex_endpoint r n = (Http_exception 404 ''no such execution'', r, n + 1)"

lemma ex_web_simps [simp]:
  "rq_user (wr_http ex_web) = None" "rq_request_id (wr_http ex_web) = None" "wr_tenant ex_web = None"
  "take (Suc 0) (rq_path (wr_http ex_web)) = ''/''" "client_host (wr_http ex_web) = Inr ''10.0.0.1''"
  by (simp_all add: ex_web_def ex_http_def client_host_def)

lemma ex_web_env_simps [simp]:
  "he_request_id (ex_web_env l) = ''req''" "rs_enabled (he_limits (ex_web_env l))" "passes_library (ex_web_env l)"
  by (simp_all add: ex_web_env_def default_settings_def passes_library_def)

lemma first_known: "fst x = a \<Longrightarrow> \<exists>m. x = (a, m)"
  by (cases x) simp

lemma ex_dispatch:
  "dispatch (he_limits (ex_web_env l)) (he_remote (ex_web_env l))
      (request_info_of (ac_header (he_auth (ex_web_env l))) (stamped (ex_web_env l) ex_web) ''10.0.0.1'')
      (he_now (ex_web_env l)) (sv_storage ex_server)
    = (case ApiRateLimit.check_limit None ''default:10.0.0.1'' l 5 [] of
         (Some e, m) \<Rightarrow> (exceeded_response e, m) | (None, m) \<Rightarrow> (Forwarded, m))"
  by (simp add: dispatch_def check_rate_limits_def limit_checks_def get_identifiers_def request_info_of_def
      request_info.make_def ex_web_env_def default_settings_def ex_server_def ex_web_def ex_http_def ex_auth_def stamped_def
      dict_get_or_def dict_get_Cons Let_def split: prod.split option.split)

theorem authentication_is_irrelevant_witness:
  "serve ex_compose ((ex_web_env ''9/day'')\<lparr>he_auth := ex_auth\<lparr>ac_header := ''X-Key''\<rparr>,
      he_limits := (he_limits (ex_web_env ''9/day''))\<lparr>rs_user_limits := [(''ann'', ''0/day'')], rs_tenant_limits := []\<rparr>\<rparr>)
     ex_endpoint ex_web ex_server = serve ex_compose (ex_web_env ''9/day'') ex_endpoint ex_web ex_server"
  by (rule authentication_is_irrelevant [OF ex_compose_ok]) simp_all

theorem audit_is_anonymous_witness:
  "\<exists>e. ae_user e = PStr ''anonymous'' \<and> ae_request_id e = ''req''
     \<and> Audit_request e \<in> set (sv_audit (snd (serve ex_compose (ex_web_env ''9/day'') ex_endpoint ex_web ex_server)))"
proof -
  obtain p s' where out: "serve ex_compose (ex_web_env ''9/day'') ex_endpoint ex_web ex_server = (p, s')" by fastforce
  obtain e where "ae_user e = PStr ''anonymous''" "ae_request_id e = ''req''" "Audit_request e \<in> set (sv_audit s')"
    using audit_is_anonymous [OF ex_compose_ok _ _ out] by auto
  with out show ?thesis by auto
qed

theorem over_limit_is_refused_witness:
  "rp_status (fst (serve ex_compose (ex_web_env ''0/day'') ex_endpoint ex_web ex_server)) = 429
   \<and> sv_app (snd (serve ex_compose (ex_web_env ''0/day'') ex_endpoint ex_web ex_server)) = 0"
proof -
  obtain p s' where out: "serve ex_compose (ex_web_env ''0/day'') ex_endpoint ex_web ex_server = (p, s')" by fastforce
  have "fst (case ApiRateLimit.check_limit None ''default:10.0.0.1'' ''0/day'' 5 [] of
      (Some e, m) \<Rightarrow> (exceeded_response e, m) | (None, m) \<Rightarrow> (Forwarded, m))
    = TooMany 429 ''RATE_LIMIT_EXCEEDED'' (PInt 86400) (PStr ''0/day'')"
    by code_simp
  from first_known [OF this] obtain m where "(case ApiRateLimit.check_limit None ''default:10.0.0.1'' ''0/day'' 5 [] of
      (Some e, m) \<Rightarrow> (exceeded_response e, m) | (None, m) \<Rightarrow> (Forwarded, m))
    = (TooMany 429 ''RATE_LIMIT_EXCEEDED'' (PInt 86400) (PStr ''0/day''), m)" by blast
  note d = ex_dispatch [of "''0/day''", unfolded this]
  from over_limit_is_refused [OF ex_compose_ok _ _ d _ out] have "rp_status p = 429 \<and> sv_app s' = sv_app ex_server" by simp
  with out show ?thesis by (simp add: ex_server_def)
qed


end
