(* ===== verification/ReportScheduler.thy ===== *)
theory ReportScheduler
  imports DomainAgents
begin

text \<open>
  \<open>src/reporting/scheduler/report_scheduler.py\<close>: recurring reports. The loop looks for due jobs once a minute
  and creates a task for each; a task looks its job up, runs the job's function and then updates the job. A
  tick of the loop, the begin of a task and its end are steps, so ticks come between the begin and the end.
  What a job's function returns or raises is an argument.
\<close>

section \<open>Jobs\<close>

record report_job =
  rj_type :: string
  rj_parts :: "string list"
  rj_recipients :: "string list"
  rj_created_at :: time
  rj_last_run :: "time option"
  rj_next_run :: time
  rj_status :: string
  rj_run_count :: nat

record job_run =
  jr_job :: string
  jr_start :: time
  jr_end :: time
  jr_status :: string
  jr_error :: "string option"

record report_scheduler =
  rep_jobs :: "(string, report_job) dict"
  rep_history :: "job_run list"
  rep_running :: bool
  rep_created :: "string list"
  rep_begun :: "(string \<times> time \<times> string list) list"

definition new_report_scheduler :: report_scheduler where
  "new_report_scheduler = \<lparr>rep_jobs = [], rep_history = [], rep_running = False, rep_created = [], rep_begun = []\<rparr>"

section \<open>The next run\<close>

definition start_of_hour :: "time \<Rightarrow> time" where
  "start_of_hour t = t div hour * hour"

definition minute_of :: "time \<Rightarrow> int" where
  "minute_of t = t mod hour div minute"

text \<open>Four patterns are known; any other schedule runs a day after the last run.\<close>

definition calculate_next_run :: "string list \<Rightarrow> time \<Rightarrow> time" where
  "calculate_next_run parts t =
     (if parts = [''0'', ''0'', ''*'', ''*'', ''*''] then start_of_day t + day
      else if parts = [''0'', ''9'', ''*'', ''*'', ''*''] then
        (let n = start_of_day t + 9 * hour in if n \<le> t then n + day else n)
      else if parts = [''0'', ''*'', ''*'', ''*'', ''*''] then start_of_hour t + hour
      else if parts = [''*/5'', ''*'', ''*'', ''*'', ''*''] then
        (let m = (minute_of t div 5 + 1) * 5
         in start_of_hour t + (m mod 60) * minute + (if m \<ge> 60 then hour else 0))
      else t + day)"

section \<open>Operations\<close>

definition schedule_job ::
    "string \<Rightarrow> string \<Rightarrow> string \<Rightarrow> string list \<Rightarrow> time \<Rightarrow> report_scheduler \<Rightarrow> (exn + string) \<times> report_scheduler" where
  "schedule_job i ty schedule recipients now s =
     (let parts = py_words [] schedule
      in if length parts \<noteq> 5
         then (Inl (ValueErr (''Schedule must be in cron format: 'minute hour day month day_of_week'' @ [CHR 0x27])), s)
         else (Inr i, s\<lparr>rep_jobs := dict_set i \<lparr>rj_type = ty, rj_parts = parts, rj_recipients = recipients,
                 rj_created_at = now, rj_last_run = None, rj_next_run = calculate_next_run parts now,
                 rj_status = ''active'', rj_run_count = 0\<rparr> (rep_jobs s), rep_running := True\<rparr>))"

definition due :: "time \<Rightarrow> report_job \<Rightarrow> bool" where
  "due now j \<longleftrightarrow> rj_status j = ''active'' \<and> rj_next_run j \<le> now"

definition scheduler_tick :: "time \<Rightarrow> report_scheduler \<Rightarrow> report_scheduler" where
  "scheduler_tick now s =
     (if rep_running s
      then s\<lparr>rep_created := rep_created s @ map fst (filter (\<lambda>(i, j). due now j) (rep_jobs s))\<rparr> else s)"

text \<open>The \<open>n\<close>-th created task begins; it ends at once when its job is gone.\<close>

definition begin_job :: "nat \<Rightarrow> time \<Rightarrow> report_scheduler \<Rightarrow> report_scheduler" where
  "begin_job n now s =
     (if n < length (rep_created s)
      then (let i = rep_created s ! n; s1 = s\<lparr>rep_created := take n (rep_created s) @ drop (Suc n) (rep_created s)\<rparr>
            in case dict_get (rep_jobs s) i of
                 None \<Rightarrow> s1
               | Some j \<Rightarrow> s1\<lparr>rep_begun := rep_begun s @ [(i, now, rj_recipients j)]\<rparr>)
      else s)"

text \<open>\<open>_deliver_report\<close> reads the identifier of the report it logs.\<close>

definition deliver_report :: "string list \<Rightarrow> pyval \<Rightarrow> exn option" where
  "deliver_report recipients r =
     (if recipients \<noteq> [] \<and> truthy r then (case r of PDict d \<Rightarrow> None | _ \<Rightarrow> Some (AttributeErr ''get'')) else None)"

definition run_error :: "string list \<Rightarrow> exn + pyval \<Rightarrow> exn option" where
  "run_error recipients out = (case out of Inl e \<Rightarrow> Some e | Inr r \<Rightarrow> deliver_report recipients r)"

text \<open>The \<open>n\<close>-th begun task ends. A job deleted in the meantime is no longer there to be updated.\<close>

definition finish_job :: "(exn \<Rightarrow> string) \<Rightarrow> nat \<Rightarrow> exn + pyval \<Rightarrow> time \<Rightarrow> report_scheduler \<Rightarrow> report_scheduler" where
  "finish_job str n out now s =
     (if n < length (rep_begun s)
      then (case rep_begun s ! n of (i, t, recipients) \<Rightarrow>
        (let e = run_error recipients out
         in s\<lparr>rep_begun := take n (rep_begun s) @ drop (Suc n) (rep_begun s),
              rep_history := rep_history s @ [\<lparr>jr_job = i, jr_start = t, jr_end = now,
                jr_status = (case e of None \<Rightarrow> ''success'' | Some e \<Rightarrow> ''failed''), jr_error = map_option str e\<rparr>],
              rep_jobs := dict_mod i (\<lambda>j. j\<lparr>rj_last_run := Some t, rj_run_count := rj_run_count j + 1,
                rj_next_run := calculate_next_run (rj_parts j) t\<rparr>) (rep_jobs s)\<rparr>))
      else s)"

definition set_job_status :: "string \<Rightarrow> string \<Rightarrow> report_scheduler \<Rightarrow> bool \<times> report_scheduler" where
  "set_job_status st i s =
     (if dict_has (rep_jobs s) i
      then (True, s\<lparr>rep_jobs := dict_mod i (\<lambda>j. j\<lparr>rj_status := st\<rparr>) (rep_jobs s)\<rparr>) else (False, s))"

definition pause_job :: "string \<Rightarrow> report_scheduler \<Rightarrow> bool \<times> report_scheduler" where
  "pause_job = set_job_status ''paused''"

definition resume_job :: "string \<Rightarrow> report_scheduler \<Rightarrow> bool \<times> report_scheduler" where
  "resume_job = set_job_status ''active''"

definition delete_job :: "string \<Rightarrow> report_scheduler \<Rightarrow> bool \<times> report_scheduler" where
  "delete_job i s =
     (if dict_has (rep_jobs s) i then (True, s\<lparr>rep_jobs := dict_pop i (rep_jobs s)\<rparr>) else (False, s))"

definition get_job :: "string \<Rightarrow> report_scheduler \<Rightarrow> report_job option" where
  "get_job i s = dict_get (rep_jobs s) i"

definition list_jobs :: "string option \<Rightarrow> report_scheduler \<Rightarrow> report_job list" where
  "list_jobs st s =
     (case st of None \<Rightarrow> dict_values (rep_jobs s)
      | Some x \<Rightarrow> if x = [] then dict_values (rep_jobs s) else filter (\<lambda>j. rj_status j = x) (dict_values (rep_jobs s)))"

definition get_execution_history :: "string option \<Rightarrow> nat \<Rightarrow> report_scheduler \<Rightarrow> job_run list" where
  "get_execution_history i n s =
     (let h = (case i of None \<Rightarrow> rep_history s
               | Some x \<Rightarrow> if x = [] then rep_history s else filter (\<lambda>r. jr_job r = x) (rep_history s))
      in take n (sort_key (\<lambda>r. - jr_start r) h))"

section \<open>Runs\<close>

datatype report_event =
    Schedule_job string string string "string list"
  | Tick
  | Begin_task nat
  | Finish_task nat "exn + pyval"
  | Pause string
  | Resume_it string
  | Delete string

fun report_exec :: "(exn \<Rightarrow> string) \<Rightarrow> report_event \<times> time \<Rightarrow> report_scheduler \<Rightarrow> report_scheduler" where
  "report_exec str (Schedule_job i ty sc rs, now) s = snd (schedule_job i ty sc rs now s)"
| "report_exec str (Tick, now) s = scheduler_tick now s"
| "report_exec str (Begin_task n, now) s = begin_job n now s"
| "report_exec str (Finish_task n out, now) s = finish_job str n out now s"
| "report_exec str (Pause i, now) s = snd (pause_job i s)"
| "report_exec str (Resume_it i, now) s = snd (resume_job i s)"
| "report_exec str (Delete i, now) s = snd (delete_job i s)"

fun schedules_job :: "string \<Rightarrow> report_event \<Rightarrow> bool" where
  "schedules_job i (Schedule_job j ty sc rs) = (j = i)"
| "schedules_job i ev = False"

text \<open>The runs of a job in the history, and its tasks that have not ended.\<close>

definition recorded_runs :: "string \<Rightarrow> report_scheduler \<Rightarrow> nat" where
  "recorded_runs i s = length (filter (\<lambda>r. jr_job r = i) (rep_history s))"

definition open_tasks :: "string \<Rightarrow> report_scheduler \<Rightarrow> nat" where
  "open_tasks i s = length (filter (\<lambda>j. j = i) (rep_created s)) + length (filter (\<lambda>b. fst b = i) (rep_begun s))"

text \<open>The counter of a job agrees with the history.\<close>

definition counted :: "string \<Rightarrow> report_scheduler \<Rightarrow> bool" where
  "counted i s \<longleftrightarrow> (\<forall>j. dict_get (rep_jobs s) i = Some j \<longrightarrow> rj_run_count j = recorded_runs i s)"

lemma counted_exec:
  assumes "\<not> schedules_job i (fst ev)" and "counted i s"
  shows "counted i (report_exec str ev s)"
proof (cases ev)
  case (Pair e now)
  show ?thesis
  proof (cases e)
    case (Schedule_job k ty sc rs)
    with assms Pair show ?thesis by (simp add: schedule_job_def counted_def recorded_runs_def Let_def)
  next
    case (Begin_task n)
    with assms Pair show ?thesis
      by (simp add: begin_job_def counted_def recorded_runs_def Let_def split: option.split)
  next
    case (Finish_task n out)
    with assms Pair show ?thesis
      by (cases "rep_begun s ! n") (auto simp: finish_job_def counted_def recorded_runs_def Let_def)
  qed (use assms Pair in \<open>auto simp: counted_def recorded_runs_def scheduler_tick_def pause_job_def resume_job_def
      set_job_status_def delete_job_def\<close>)
qed

interpretation job_counts: op_system "\<lambda>ev s. if schedules_job i (fst ev) then s else report_exec str ev s" "counted i"
  by unfold_locales (simp add: counted_exec)

section \<open>Properties\<close>

text \<open>The minutes at which a schedule of one of the known patterns is to run.\<close>

definition fires :: "string list \<Rightarrow> time \<Rightarrow> bool" where
  "fires parts t =
     (if parts = [''0'', ''0'', ''*'', ''*'', ''*''] then t mod day = 0
      else if parts = [''0'', ''9'', ''*'', ''*'', ''*''] then t mod day = 9 * hour
      else if parts = [''0'', ''*'', ''*'', ''*'', ''*''] then t mod hour = 0
      else parts = [''*/5'', ''*'', ''*'', ''*'', ''*''] \<and> t mod (5 * minute) = 0)"

definition known_patterns :: "string list list" where
  "known_patterns =
     [[''0'', ''0'', ''*'', ''*'', ''*''], [''0'', ''9'', ''*'', ''*'', ''*''], [''0'', ''*'', ''*'', ''*'', ''*''],
      [''*/5'', ''*'', ''*'', ''*'', ''*'']]"

text \<open>In a period of length \<open>p\<close> with offset \<open>o\<close> there is one instant.\<close>

lemma next_in_period:
  fixes t n p c :: int
  assumes "0 < p" and "0 \<le> c" and "c < p" and "n mod p = c" and "t < n" and "n \<le> t + p"
  shows "\<forall>u. t < u \<and> u < n \<longrightarrow> u mod p \<noteq> c"
proof (intro allI impI notI)
  fix u assume u: "t < u \<and> u < n" and "u mod p = c"
  with assms(4) have "n mod p = u mod p" by simp
  then have "p dvd n - u" by (simp only: mod_eq_dvd_iff)
  moreover have "0 < n - u" "n - u < p" using u assms(6) by auto
  ultimately show False using zdvd_imp_le by fastforce
qed

lemma period_start: "0 < p \<Longrightarrow> t div p * p + p \<le> t + p \<and> t < t div p * p + p" for t p :: int
  using div_mult_mod_eq [of t p] pos_mod_bound [of p t] pos_mod_sign [of p t] by linarith

lemma five_minutes:
  "start_of_hour t + ((minute_of t div 5 + 1) * 5 mod 60) * minute + (if (minute_of t div 5 + 1) * 5 \<ge> 60 then hour else 0)
    = t div (5 * minute) * (5 * minute) + 5 * minute"
proof -
  let ?k = "minute_of t div 5"
  have k: "?k = t mod hour div (5 * minute)"
    using zdiv_zmult2_eq [of 5 "t mod hour" minute] by (simp add: minute_of_def mult.commute)
  have b: "0 \<le> ?k" "?k \<le> 11"
    using pos_mod_bound [of hour t] pos_mod_sign [of hour t] by (simp_all add: minute_of_def unit_defs)
  have "start_of_hour t + ?k * (5 * minute) = t div (5 * minute) * (5 * minute)"
  proof -
    have h: "hour = 12 * (5 * minute)" by (simp add: unit_defs)
    have "t div (5 * minute) = (t div hour) * 12 + t mod hour div (5 * minute)"
    proof -
      have "t = t mod hour + (t div hour * 12) * (5 * minute)" using div_mult_mod_eq [of t hour] by (simp add: h)
      then have "t div (5 * minute) = (t mod hour + (t div hour * 12) * (5 * minute)) div (5 * minute)" by simp
      also have "\<dots> = t div hour * 12 + t mod hour div (5 * minute)" by (subst div_mult_self1) (simp_all add: unit_defs)
      finally show ?thesis .
    qed
    with k show ?thesis by (simp add: start_of_hour_def h algebra_simps)
  qed
  moreover have "((?k + 1) * 5 mod 60) * minute + (if (?k + 1) * 5 \<ge> 60 then hour else 0) = (?k + 1) * (5 * minute)"
  proof (cases "?k = 11")
    case True
    then show ?thesis by (simp add: unit_defs)
  next
    case False
    with b have "(?k + 1) * 5 mod 60 = (?k + 1) * 5" "\<not> (?k + 1) * 5 \<ge> 60" by auto
    then show ?thesis by simp
  qed
  ultimately show ?thesis by (simp add: algebra_simps)
qed

text \<open>
  C33: For the four known schedules the next run is the next instant after the last one at which the schedule
  fires: the first midnight, nine o'clock, full hour or fifth minute after it, on every day and over every
  boundary of an hour or a day, and never the time of the last run itself.
\<close>
theorem next_run_is_next_firing:
  assumes "parts \<in> set known_patterns"
  shows "fires parts (calculate_next_run parts t) \<and> t < calculate_next_run parts t
    \<and> (\<forall>u. t < u \<and> u < calculate_next_run parts t \<longrightarrow> \<not> fires parts u)"
proof -
  have pos: "0 < day" "0 < hour" "0 < 5 * minute" by (simp_all add: unit_defs)
  have every: "((t div p * p + p) mod p = 0) \<and> t < t div p * p + p \<and> (\<forall>u. t < u \<and> u < t div p * p + p \<longrightarrow> u mod p \<noteq> 0)"
    if "0 < p" for p :: int
    using next_in_period [OF that, of 0 "t div p * p + p" t] period_start [OF that, of t] that by simp
  from assms consider "parts = [''0'', ''0'', ''*'', ''*'', ''*'']" | "parts = [''0'', ''9'', ''*'', ''*'', ''*'']"
    | "parts = [''0'', ''*'', ''*'', ''*'', ''*'']" | "parts = [''*/5'', ''*'', ''*'', ''*'', ''*'']"
    by (auto simp: known_patterns_def)
  then show ?thesis
  proof cases
    case 1
    with every [OF pos(1)] show ?thesis
      by (simp add: calculate_next_run_def fires_def start_of_day_def day_number_def)
  next
    case 2
    let ?n = "start_of_day t + 9 * hour"
    have nine: "0 \<le> 9 * hour" "9 * hour < day" by (simp_all add: unit_defs)
    let ?m = "if ?n \<le> t then ?n + day else ?n"
    have "?m mod day = 9 * hour"
      by (simp add: start_of_day_def day_number_def mod_simps unit_defs)
    moreover have "t < ?m \<and> ?m \<le> t + day"
      using start_of_day_le [of t] by (auto simp: unit_defs)
    ultimately show ?thesis
      using 2 next_in_period [OF pos(1) nine, of ?m t] by (simp add: calculate_next_run_def fires_def Let_def)
  next
    case 3
    with every [OF pos(2)] show ?thesis by (simp add: calculate_next_run_def fires_def start_of_hour_def)
  next
    case 4
    with every [OF pos(3)] five_minutes [of t] show ?thesis by (simp add: calculate_next_run_def fires_def Let_def)
  qed
qed

text \<open>
  The counter of a job is exactly the number of its runs in the history. From the moment the job is
  scheduled under an identifier that has no runs yet, and through any ticks, overlapping or failing tasks,
  pauses and deletions, every task that ends adds one to both.
\<close>
theorem run_count_is_history:
  assumes "schedule_job i ty sc rs now s = (Inr i, s')" and "recorded_runs i s = 0"
    and "list_all (\<lambda>ev. \<not> schedules_job i (fst ev)) evs"
    and "dict_get (rep_jobs (fold (report_exec str) evs s')) i = Some j"
  shows "rj_run_count j = recorded_runs i (fold (report_exec str) evs s')"
proof -
  have "counted i s'"
    using assms(1,2) by (auto simp: schedule_job_def counted_def recorded_runs_def Let_def split: if_splits)
  moreover have "fold (report_exec str) evs s' = fold (\<lambda>ev s. if schedules_job i (fst ev) then s else report_exec str ev s) evs s'"
    using assms(3) by (intro fold_cong) (auto simp: list_all_iff)
  ultimately have "counted i (fold (report_exec str) evs s')" using job_counts.inv_run by simp
  with assms(4) show ?thesis by (simp add: counted_def)
qed

lemma jobs_ok_exec: "dict_ok (rep_jobs s) \<Longrightarrow> dict_ok (rep_jobs (report_exec str ev s))"
  by (induction str ev s rule: report_exec.induct)
     (auto simp: schedule_job_def scheduler_tick_def begin_job_def finish_job_def pause_job_def resume_job_def
       set_job_status_def delete_job_def Let_def split: option.split prod.split)

interpretation job_ids: op_system "report_exec str" "\<lambda>s. dict_ok (rep_jobs s)"
  by unfold_locales (rule jobs_ok_exec)

lemma started_once:
  "dict_ok js \<Longrightarrow> dict_get js i = Some j \<Longrightarrow> due now j \<Longrightarrow>
     length (filter (\<lambda>k. k = i) (map fst (filter (\<lambda>(i, j). due now j) js))) = 1"
proof (induction js)
  case (Cons x js)
  obtain k v where x: "x = (k, v)" by fastforce
  show ?case
  proof (cases "k = i")
    case True
    with Cons.prems x have "i \<notin> fst ` set js" by (auto simp: dict_ok_def dict_keys_def)
    then have "filter (\<lambda>k. k = i) (map fst (filter (\<lambda>(i, j). due now j) js)) = []"
      by (force simp: filter_empty_conv)
    with True Cons.prems x show ?thesis by (simp add: dict_get_Cons)
  next
    case False
    with Cons x show ?thesis by (simp add: dict_get_Cons dict_ok_def dict_keys_def)
  qed
qed simp

text \<open>Events that only look for due jobs, at or after a time, and let tasks begin.\<close>

definition only_starts :: "time \<Rightarrow> (report_event \<times> time) list \<Rightarrow> bool" where
  "only_starts t evs \<longleftrightarrow> list_all (\<lambda>ev. case fst ev of Tick \<Rightarrow> t \<le> snd ev | Begin_task n \<Rightarrow> True | _ \<Rightarrow> False) evs"

text \<open>
  A job that takes longer than a minute is started again at every look of the loop. Once an active job is
  due, each further tick creates one more task for it, however many of its tasks are already running, until
  one of them ends: only then is its next run moved.
\<close>
theorem slow_job_started_again:
  assumes "s = fold (report_exec str) before new_report_scheduler" and "rep_running s"
    and "dict_get (rep_jobs s) i = Some j" and "due t j" and "only_starts t evs"
  shows "open_tasks i (fold (report_exec str) evs s) = open_tasks i s + length (filter (\<lambda>ev. fst ev = Tick) evs)"
proof -
  have "dict_ok (rep_jobs s)"
    unfolding assms(1) by (rule job_ids.inv_run) (simp add: new_report_scheduler_def)
  with assms(2-5) show ?thesis
  proof (induction evs arbitrary: s)
    case Nil
    then show ?case by simp
  next
    case (Cons ev evs)
    obtain e now where ev: "ev = (e, now)" by fastforce
    let ?s = "report_exec str ev s"
    have rest: "only_starts t evs" using Cons.prems(4) by (simp add: only_starts_def)
    show ?case
    proof (cases e)
      case Tick
      with Cons.prems(3,4) ev have "due now j" by (auto simp: only_starts_def due_def)
      from started_once [OF Cons.prems(5,2) this] have "open_tasks i ?s = Suc (open_tasks i s)"
        using Tick ev Cons.prems(1) by (simp add: scheduler_tick_def open_tasks_def)
      moreover have "rep_jobs ?s = rep_jobs s" "rep_running ?s" using Tick ev Cons.prems(1) by (simp_all add: scheduler_tick_def)
      ultimately show ?thesis using Cons.IH [of ?s] Cons.prems rest Tick ev by simp
    next
      case (Begin_task n)
      have same: "rep_jobs ?s = rep_jobs s" "rep_running ?s"
        using Begin_task ev Cons.prems(1) by (simp_all add: begin_job_def Let_def split: option.split)
      have "open_tasks i ?s = open_tasks i s"
      proof (cases "n < length (rep_created s)")
        case True
        have split: "length (filter (\<lambda>k. k = i) (rep_created s))
            = length (filter (\<lambda>k. k = i) (take n (rep_created s) @ drop (Suc n) (rep_created s)))
              + (if rep_created s ! n = i then 1 else 0)"
          by (subst id_take_nth_drop [OF True]) simp
        show ?thesis
        proof (cases "dict_get (rep_jobs s) (rep_created s ! n)")
          case None
          with Cons.prems(2) have "rep_created s ! n \<noteq> i" by auto
          with None split True Begin_task ev show ?thesis by (simp add: begin_job_def open_tasks_def Let_def)
        next
          case (Some k)
          with split True Begin_task ev show ?thesis by (auto simp: begin_job_def open_tasks_def Let_def)
        qed
      qed (use Begin_task ev in \<open>simp add: begin_job_def\<close>)
      with same Cons.IH [of ?s] Cons.prems rest Begin_task ev show ?thesis by simp
    qed (use Cons.prems(4) ev in \<open>auto simp: only_starts_def\<close>)
  qed
qed

section \<open>Witnesses\<close>

theorem next_run_is_next_firing_witness:
  "fires [''0'', ''9'', ''*'', ''*'', ''*''] (calculate_next_run [''0'', ''9'', ''*'', ''*'', ''*''] (10 * hour))
   \<and> calculate_next_run [''0'', ''9'', ''*'', ''*'', ''*''] (10 * hour) = day + 9 * hour"
proof -
  have "[''0'', ''9'', ''*'', ''*'', ''*''] \<in> set known_patterns" by (simp add: known_patterns_def)
  from next_run_is_next_firing [OF this, of "10 * hour"]
  have "fires [''0'', ''9'', ''*'', ''*'', ''*''] (calculate_next_run [''0'', ''9'', ''*'', ''*'', ''*''] (10 * hour))" ..
  moreover have "calculate_next_run [''0'', ''9'', ''*'', ''*'', ''*''] (10 * hour) = day + 9 * hour" by code_simp
  ultimately show ?thesis ..
qed

definition ex_reports :: "report_scheduler" where
  "ex_reports = fold (report_exec (\<lambda>e. [])) [(Schedule_job ''j'' ''weekly'' ''0 * * * *'' [], 0)] new_report_scheduler"

definition ex_report_run :: "(report_event \<times> time) list" where
  "ex_report_run = [(Tick, hour), (Begin_task 0, hour + 1), (Tick, hour + minute), (Begin_task 0, hour + minute + 1)]"

theorem slow_job_started_again_witness:
  "open_tasks ''j'' (fold (report_exec (\<lambda>e. [])) ex_report_run ex_reports) = 2"
proof -
  have s: "rep_running ex_reports" "only_starts hour ex_report_run" "open_tasks ''j'' ex_reports = 0"
      "length (filter (\<lambda>ev. fst ev = Tick) ex_report_run) = 2"
    by code_simp+
  have "map_option (due hour) (dict_get (rep_jobs ex_reports) ''j'') = Some True" by code_simp
  then obtain j where j: "dict_get (rep_jobs ex_reports) ''j'' = Some j" "due hour j" by auto
  from slow_job_started_again [OF ex_reports_def s(1) j s(2)] s(3,4) show ?thesis by simp
qed

theorem run_count_is_history_witness:
  "\<exists>j. dict_get (rep_jobs (fold (report_exec (\<lambda>e. [])) (ex_report_run @ [(Finish_task 0 (Inr PNone), 9), (Finish_task 0 (Inr PNone), 9)])
      ex_reports)) ''j'' = Some j \<and> rj_run_count j = 2"
proof -
  let ?evs = "ex_report_run @ [(Finish_task 0 (Inr PNone), 9), (Finish_task 0 (Inr PNone), 9)]"
  have "fst (schedule_job ''j'' ''weekly'' ''0 * * * *'' [] 0 new_report_scheduler) = Inr ''j''" by code_simp
  then have s: "schedule_job ''j'' ''weekly'' ''0 * * * *'' [] 0 new_report_scheduler = (Inr ''j'', ex_reports)"
    by (simp add: ex_reports_def prod_eq_iff)
  have r: "recorded_runs ''j'' new_report_scheduler = 0" "list_all (\<lambda>ev. \<not> schedules_job ''j'' (fst ev)) ?evs"
      "recorded_runs ''j'' (fold (report_exec (\<lambda>e. [])) ?evs ex_reports) = 2"
      "dict_has (rep_jobs (fold (report_exec (\<lambda>e. [])) ?evs ex_reports)) ''j''"
    by code_simp+
  then obtain j where j: "dict_get (rep_jobs (fold (report_exec (\<lambda>e. [])) ?evs ex_reports)) ''j'' = Some j"
    by (auto simp: dict_has_def)
  from run_count_is_history [OF s r(1,2) j] r(3) j show ?thesis by auto
qed

end
