(* ===== verification/SchedulerLive.thy ===== *)
theory SchedulerLive
  imports SchedulerRuns
begin

text \<open>
  When an execution of \<open>src/scheduler/hybrid_scheduler.py\<close> completes. If nothing outside the scheduler fails
  and the verifier accepts the plan, every step of the coroutine brings it nearer to its end, whatever
  calls and steps of other processes come between and even when it is cancelled; the number of steps is two
  per level of the plan and six more.
\<close>

section \<open>How far a coroutine is from its end\<close>

fun steps_left :: "nat \<Rightarrow> pc \<Rightarrow> nat" where
  "steps_left n PlanStart = 6 + 2 * n"
| "steps_left n AwaitSimilar = 5 + 2 * n"
| "steps_left n (AwaitPlan ts) = 4 + 2 * n"
| "steps_left n (AwaitStoreDag d) = 3 + 2 * n"
| "steps_left n ExecStart = 2 + 2 * n"
| "steps_left n (AwaitLevel cs rest) = 3 + 2 * length rest"
| "steps_left n (AwaitUpdate rest) = 2 + 2 * length rest"
| "steps_left n (AwaitDone r) = 1"

definition planned_by :: "sched_env \<Rightarrow> plan_request \<Rightarrow> dag \<Rightarrow> pyval list \<Rightarrow> bool" where
  "planned_by env req d ts \<longleftrightarrow> se_plan env req ts = Inr d"

text \<open>The plan a planner makes for a request, accepted by the verifier, and nothing that raises.\<close>

definition nothing_fails :: "nat \<Rightarrow> sched_env \<Rightarrow> string \<Rightarrow> plan_request \<Rightarrow> dag \<Rightarrow> bool" where
  "nothing_fails rlim env pid req d \<longleftrightarrow>
     (\<forall>op. se_memory env op = None) \<and> (\<exists>ts. se_similar env req = Inr ts \<and> planned_by env req d ts)
     \<and> (\<exists>route. se_route env = Some route \<and> (\<forall>n c. \<exists>v. route pid n c = Inr v))
     \<and> dag_wf d \<and> (\<exists>d'. validate_dag rlim (d\<lparr>dg_process_id := pid\<rparr>) (pq_tenant_id req) 0 = Accepted d')"

text \<open>An execution on its way, without a budget, and one that has come to its end.\<close>

definition alive_at :: "nat \<Rightarrow> (pyval list \<Rightarrow> bool) \<Rightarrow> string list list \<Rightarrow> execution \<Rightarrow> pc \<Rightarrow> bool" where
  "alive_at rlim good groups x c \<longleftrightarrow>
     (case c of
        AwaitPlan ts \<Rightarrow> good ts
      | AwaitStoreDag d \<Rightarrow> dag_wf d \<and> get_execution_order rlim d = Inr groups
      | ExecStart \<Rightarrow> (\<exists>d. xc_dag x = Some d \<and> dag_wf d \<and> get_execution_order rlim d = Inr groups)
      | AwaitLevel cs rest \<Rightarrow>
          (\<exists>d prev. xc_dag x = Some d \<and> dag_wf d \<and> get_execution_order rlim d = Inr (prev @ map fst cs # rest))
      | AwaitUpdate rest \<Rightarrow>
          (\<exists>d prev. xc_dag x = Some d \<and> dag_wf d \<and> get_execution_order rlim d = Inr (prev @ rest))
      | AwaitDone r \<Rightarrow> xc_status x = ES_completed
      | _ \<Rightarrow> True)"

definition on_the_way :: "nat \<Rightarrow> string \<Rightarrow> plan_request \<Rightarrow> (pyval list \<Rightarrow> bool) \<Rightarrow> string list list \<Rightarrow> nat \<Rightarrow> scheduler \<Rightarrow> bool" where
  "on_the_way rlim pid req good groups k s \<longleftrightarrow>
     dict_get (bt_active_budgets (sd_budget s)) pid = None
     \<and> (\<exists>x c. dict_get (sd_active s) pid = Some x \<and> dict_get (sd_tasks s) pid = Some c \<and> plan_request_of x = req
          \<and> alive_at rlim good groups x c \<and> steps_left (length groups) c = k)"

definition at_its_end :: "string \<Rightarrow> scheduler \<Rightarrow> bool" where
  "at_its_end pid s \<longleftrightarrow>
     (\<exists>x. dict_get (sd_active s) pid = Some x \<and> xc_status x = ES_completed) \<and> dict_get (sd_tasks s) pid = None"

section \<open>One step\<close>

lemma accepted_any_time:
  "validate_dag rlim d tenant t = Accepted d' \<Longrightarrow> \<exists>d''. validate_dag rlim d tenant now = Accepted d''"
  by (auto simp: validate_dag_def Let_def split: sum.splits prod.splits if_splits)

lemma accepted_order:
  assumes "validate_dag rlim (d\<lparr>dg_process_id := p\<rparr>) tenant now = Accepted d'" and "dag_wf d"
  shows "dag_wf d' \<and> get_execution_order rlim d' = get_execution_order rlim d"
  using accepted_shape [OF assms(1)] assms(2) by (simp add: dag_wf_def dict_ok_def get_execution_order_def)

lemma open_level_ok:
  "set ts \<subseteq> set (dict_keys (dg_nodes d)) \<Longrightarrow> \<exists>cs d' cm'. open_level env pid x now ts d cm = ((cs, None), d', cm')"
proof (induction ts arbitrary: d cm)
  case Nil
  then show ?case by simp
next
  case (Cons t ts)
  then obtain n where n: "dict_get (dg_nodes d) t = Some n"
    by (auto simp: dict_has_keys [symmetric] dict_has_def)
  let ?d = "d\<lparr>dg_nodes := dict_set t (n\<lparr>tn_status := TS_RUNNING\<rparr>) (dg_nodes d)\<rparr>"
  obtain c cm1 where c: "create_context (se_context_id env pid t) (se_temp_dir env pid t) pid t
      (xc_user_id x) (xc_tenant_id x) (Some (tn_parameters n)) now cm = (c, cm1)" by fastforce
  have "dict_keys (dg_nodes ?d) = dict_keys (dg_nodes d)" using n by (simp add: dict_keys_set dict_has_def)
  with Cons.prems have "set ts \<subseteq> set (dict_keys (dg_nodes ?d))" by simp
  from Cons.IH [OF this, of cm1] obtain cs d' cm' where "open_level env pid x now ts ?d cm1 = ((cs, None), d', cm')" by blast
  with n c show ?case by simp
qed

lemma gather_level_returns:
  assumes "se_route env = Some route" and "\<And>n c. \<exists>v. route pid n c = Inr v" and "\<And>op. se_memory env op = None"
  shows "gather_level env pid now cs d = (rs, d', ops) \<Longrightarrow> \<forall>r \<in> set rs. \<exists>v. snd r = Inr v"
proof (induction cs arbitrary: d rs d' ops)
  case (Cons tc cs)
  obtain t c where tc: "tc = (t, c)" by fastforce
  have ex: "\<exists>v n' o1. execute_task env pid now c n = (Inr v, n', o1)" for n
  proof -
    obtain v where "route pid n c = Inr v" using assms(2) by blast
    with assms(1,3) show ?thesis by (simp add: execute_task_def Let_def)
  qed
  show ?case
  proof (cases "dict_get (dg_nodes d) t")
    case None
    with Cons tc show ?thesis by simp
  next
    case (Some n)
    obtain v n' o1 where e: "execute_task env pid now c n = (Inr v, n', o1)" using ex by blast
    obtain rs1 d1 o2 where g: "gather_level env pid now cs (d\<lparr>dg_nodes := dict_set t n' (dg_nodes d)\<rparr>) = (rs1, d1, o2)"
      by (metis prod_cases3)
    from Cons.IH [OF g] Cons.prems Some e g tc show ?thesis by auto
  qed
qed simp

lemma process_results_returns:
  "\<forall>r \<in> set rs. \<exists>v. snd r = Inr v \<Longrightarrow> dict_get (bt_active_budgets b) pid = None \<Longrightarrow>
     \<exists>d'. process_results env cont pid now rs d b = (None, d', b)"
  by (induction env cont pid now rs d b rule: process_results.induct) (auto simp: add_cost_def Let_def)

lemma request_upd [simp]:
  "plan_request_of (x\<lparr>xc_status := st\<rparr>) = plan_request_of x"
  "plan_request_of (x\<lparr>xc_updated_at := u\<rparr>) = plan_request_of x"
  "plan_request_of (x\<lparr>xc_completed_at := u\<rparr>) = plan_request_of x"
  "plan_request_of (x\<lparr>xc_cancelled_at := u\<rparr>) = plan_request_of x"
  "plan_request_of (x\<lparr>xc_dag := dg\<rparr>) = plan_request_of x"
  by (simp_all add: plan_request_of_def)

lemma prim_budget [simp]:
  "sd_budget (put_exec p x s) = sd_budget s" "sd_budget (go p c s) = sd_budget s" "sd_budget (stop p s) = sd_budget s"
  "sd_budget (call_memory ops s) = sd_budget s" "sd_budget (update_execution_status p st now s) = sd_budget s"
  by (simp_all add: prim_defs)

lemma on_the_way_go:
  assumes "dict_get (sd_active s) pid = Some x" and "dict_get (bt_active_budgets (sd_budget s)) pid = None"
    and "plan_request_of x = req" and "alive_at rlim good groups x c" and "steps_left (length groups) c = k"
  shows "on_the_way rlim pid req good groups k (go pid c s)"
  using assms by (auto simp: on_the_way_def)

lemma enter_on_the_way:
  assumes "xc_dag x = Some d" and "dag_wf d" and "get_execution_order rlim d = Inr (prev @ rest)"
    and "plan_request_of x = req" and "dict_get (bt_active_budgets (sd_budget s)) pid = None"
  shows "on_the_way rlim pid req good groups (1 + 2 * length rest) (enter_level env pid x d rest now s)"
proof (cases rest)
  case Nil
  with assms show ?thesis
    by (auto simp: enter_level_def complete_execution_def Let_def alive_at_def intro!: on_the_way_go)
next
  case (Cons ts rest')
  then have "set ts \<subseteq> set (dict_keys (dg_nodes d))" using execution_order_tasks [OF assms(2,3)] by auto
  from open_level_ok [OF this] obtain cs d' cm' where
      o: "open_level env pid x now ts d (sd_contexts s) = ((cs, None), d', cm')" by blast
  note sp = open_level_spec [OF o]
  have "on_the_way rlim pid req good groups (3 + 2 * length rest')
      (go pid (AwaitLevel cs rest') (put_exec pid (x\<lparr>xc_dag := Some d'\<rparr>) (s\<lparr>sd_contexts := cm'\<rparr>)))"
    by (rule on_the_way_go [where x = "x\<lparr>xc_dag := Some d'\<rparr>"])
      (use assms sp Cons in \<open>auto simp: alive_at_def same_but_wf same_but_order\<close>)
  moreover have "1 + 2 * length rest = 3 + 2 * length rest'" using Cons by simp
  ultimately show ?thesis using Cons o by (simp only:) (simp add: enter_level_def)
qed

lemma finish_on_the_way:
  assumes "nothing_fails rlim env pid req d0" and "xc_dag x = Some d" and "dag_wf d"
    and "get_execution_order rlim d = Inr (prev @ map fst cs # rest)"
    and "plan_request_of x = req" and "dict_get (bt_active_budgets (sd_budget s)) pid = None"
  shows "on_the_way rlim pid req good groups (2 + 2 * length rest) (finish_level env pid x d cs rest now s)"
proof -
  from assms(1) obtain route where route: "se_route env = Some route" "\<And>n c. \<exists>v. route pid n c = Inr v" "\<And>op. se_memory env op = None"
    unfolding nothing_fails_def by blast
  obtain rs d1 ops where g: "gather_level env pid now cs d = (rs, d1, ops)" by (metis prod_cases3)
  have "\<forall>r \<in> set rs. \<exists>v. snd r = Inr v" by (rule gather_level_returns [OF route g])
  from process_results_returns [OF this assms(6)] obtain d2 where
      p: "process_results env (should_continue_on_error x) pid now rs d1 (sd_budget s) = (None, d2, sd_budget s)" by blast
  have "same_but (fst ` set cs \<union> fst ` set rs) d d2"
    using same_but_trans [OF _ process_results_spec [OF p]] gather_level_spec [OF g] by blast
  then have d2: "dag_wf d2" "get_execution_order rlim d2 = Inr ((prev @ [map fst cs]) @ rest)"
    using assms(3,4) by (simp_all add: same_but_wf same_but_order)
  have "on_the_way rlim pid req good groups (2 + 2 * length rest)
      (go pid (AwaitUpdate rest) (call_memory ops' (put_exec pid (x\<lparr>xc_dag := Some d2\<rparr>) s')))"
    if "sd_budget s' = sd_budget s" for ops' s'
  proof (rule on_the_way_go)
    show "alive_at rlim good groups (x\<lparr>xc_dag := Some d2\<rparr>) (AwaitUpdate rest)" using d2 by (auto simp: alive_at_def)
  qed (use assms(5,6) that in simp_all)
  with g p show ?thesis by (simp add: finish_level_def call_memory_def)
qed

lemma step_on_the_way:
  assumes ok: "nothing_fails rlim env pid req d" and ord: "get_execution_order rlim d = Inr groups"
    and s: "on_the_way rlim pid req (planned_by env req d) groups k s"
  shows "if k = 1 then at_its_end pid (resume rlim env pid now s)
    else on_the_way rlim pid req (planned_by env req d) groups (k - 1) (resume rlim env pid now s)"
proof -
  from s obtain x c where b: "dict_get (bt_active_budgets (sd_budget s)) pid = None" and x: "dict_get (sd_active s) pid = Some x"
      and c: "dict_get (sd_tasks s) pid = Some c" and req: "plan_request_of x = req" and al: "alive_at rlim (planned_by env req d) groups x c"
      and k: "k = steps_left (length groups) c"
    by (auto simp: on_the_way_def)
  from ok have mem: "\<And>op. se_memory env op = None" and wf: "dag_wf d"
    by (auto simp: nothing_fails_def)
  have "if k = 1 then at_its_end pid (resume_at rlim env pid x now s c)
    else on_the_way rlim pid req (planned_by env req d) groups (k - 1) (resume_at rlim env pid x now s c)"
  proof (cases c)
    case PlanStart
    with k x b req show ?thesis
      by (auto simp: resume_at_def alive_at_def intro!: on_the_way_go)
  next
    case AwaitSimilar
    from ok obtain ts where "se_similar env req = Inr ts" "planned_by env req d ts" by (auto simp: nothing_fails_def)
    with AwaitSimilar k x b req show ?thesis by (auto simp: resume_at_def alive_at_def intro!: on_the_way_go)
  next
    case (AwaitPlan ts)
    from ok obtain d0 where "validate_dag rlim (d\<lparr>dg_process_id := pid\<rparr>) (xc_tenant_id x) 0 = Accepted d0"
      using req by (auto simp: nothing_fails_def plan_request_of_def)
    from accepted_any_time [OF this] obtain d' where
        d': "validate_dag rlim (d\<lparr>dg_process_id := pid\<rparr>) (xc_tenant_id x) now = Accepted d'" by blast
    have "se_plan env req ts = Inr d" using al AwaitPlan by (simp add: alive_at_def planned_by_def)
    with AwaitPlan k x b req d' accepted_order [OF d' wf] ord show ?thesis
      by (auto simp: resume_at_def check_plan_def Let_def check_budget_def alive_at_def intro!: on_the_way_go)
  next
    case (AwaitStoreDag d')
    with k x b req mem al show ?thesis by (auto simp: resume_at_def alive_at_def intro!: on_the_way_go)
  next
    case ExecStart
    with al obtain d' where d': "xc_dag x = Some d'" "dag_wf d'" "get_execution_order rlim d' = Inr groups"
      by (auto simp: alive_at_def)
    have "on_the_way rlim pid req (planned_by env req d) groups (1 + 2 * length groups)
        (enter_level env pid (x\<lparr>xc_status := ES_executing, xc_updated_at := Some now\<rparr>) d' groups now
          (update_execution_status pid ES_executing now s))"
      by (rule enter_on_the_way [where prev = "[]"]) (use d' req b in simp_all)
    with ExecStart k d' show ?thesis by (simp add: resume_at_def Let_def)
  next
    case (AwaitLevel cs rest)
    with al obtain d' prev where d': "xc_dag x = Some d'" "dag_wf d'"
        "get_execution_order rlim d' = Inr (prev @ map fst cs # rest)"
      by (auto simp: alive_at_def)
    with AwaitLevel k finish_on_the_way [OF ok d' req b] show ?thesis by (simp add: resume_at_def)
  next
    case (AwaitUpdate rest)
    with al obtain d' prev where d': "xc_dag x = Some d'" "dag_wf d'" "get_execution_order rlim d' = Inr (prev @ rest)"
      by (auto simp: alive_at_def)
    with AwaitUpdate k mem enter_on_the_way [OF d' req b] show ?thesis by (simp add: resume_at_def)
  next
    case (AwaitDone r)
    with k x al mem show ?thesis by (auto simp: resume_at_def alive_at_def at_its_end_def)
  qed
  with x c show ?thesis by (cases "k = 1") (simp_all add: resume_def)
qed

section \<open>What others do\<close>

definition keeps_process :: "string \<Rightarrow> scheduler \<Rightarrow> scheduler \<Rightarrow> bool" where
  "keeps_process pid s s' \<longleftrightarrow> dict_get (sd_active s') pid = dict_get (sd_active s) pid
     \<and> dict_get (sd_tasks s') pid = dict_get (sd_tasks s) pid
     \<and> dict_get (bt_active_budgets (sd_budget s')) pid = dict_get (bt_active_budgets (sd_budget s)) pid"

lemma keeps_process_simps [simp]:
  "keeps_process pid s s"
  "q \<noteq> pid \<Longrightarrow> keeps_process pid s (put_exec q x s0) = keeps_process pid s s0"
  "q \<noteq> pid \<Longrightarrow> keeps_process pid s (go q c s0) = keeps_process pid s s0"
  "q \<noteq> pid \<Longrightarrow> keeps_process pid s (stop q s0) = keeps_process pid s s0"
  "keeps_process pid s (call_memory ops s0) = keeps_process pid s s0"
  "q \<noteq> pid \<Longrightarrow> keeps_process pid s (update_execution_status q st now s0) = keeps_process pid s s0"
  "keeps_process pid s (s0\<lparr>sd_contexts := cm\<rparr>) = keeps_process pid s s0"
  by (simp_all add: keeps_process_def prim_defs)

lemma keeps_error [simp]:
  "q \<noteq> pid \<Longrightarrow> keeps_process pid s s0 \<Longrightarrow> keeps_process pid s (handle_execution_error env q e s0)"
  by (simp add: handle_execution_error_def split: option.split)

lemma process_results_others:
  "process_results env cont q now rs d b = (e, d', b') \<Longrightarrow> q \<noteq> pid \<Longrightarrow>
     dict_get (bt_active_budgets b') pid = dict_get (bt_active_budgets b) pid"
proof (induction env cont q now rs d b rule: process_results.induct)
  case (3 env cont q now t v rs d b)
  obtain b1 r where a: "add_cost q (case dict_get (dg_nodes d) t of None \<Rightarrow> 0 | Some n \<Rightarrow> tn_actual_cost n) None now b = (b1, r)"
    by fastforce
  then have "dict_get (bt_active_budgets b1) pid = dict_get (bt_active_budgets b) pid"
    using 3(3) by (auto simp: add_cost_def Let_def split: option.splits prod.splits)
  with 3 a show ?case by (cases r) (simp_all add: Let_def)
qed (auto simp: Let_def split: if_splits)

lemma keeps_enter: "q \<noteq> pid \<Longrightarrow> keeps_process pid s s0 \<Longrightarrow> keeps_process pid s (enter_level env q x d groups now s0)"
  by (simp add: enter_level_def complete_execution_def Let_def split: list.split prod.split option.split)

lemma keeps_finish:
  assumes "q \<noteq> pid"
  shows "keeps_process pid s (finish_level env q x d cs rest now s)"
proof -
  obtain rs d1 ops where g: "gather_level env q now cs d = (rs, d1, ops)" by (metis prod_cases3)
  obtain e d2 b where p: "process_results env (should_continue_on_error x) q now rs d1 (sd_budget s) = (e, d2, b)"
    by (metis prod_cases3)
  have "keeps_process pid s (s\<lparr>sd_budget := b\<rparr>)"
    using process_results_others [OF p assms] by (simp add: keeps_process_def)
  with g p assms show ?thesis by (simp add: finish_level_def Let_def split: option.split)
qed

lemma keeps_resume:
  assumes "q \<noteq> pid"
  shows "keeps_process pid s (resume rlim env q now s)"
  using assms keeps_enter [OF assms, of s] keeps_finish [OF assms]
  by (auto simp: resume_def resume_at_def check_plan_def Let_def
      split: option.split pc.split sum.split verdict.split)

lemma keeps_schedule:
  "q \<noteq> pid \<Longrightarrow> keeps_process pid s (snd (schedule_execution q g u t tgt b pr ps now s))"
  by (auto simp: schedule_execution_def Let_def keeps_process_def prim_defs initialize_budget_def split: option.split)

lemma keeps_cancel: "q \<noteq> pid \<Longrightarrow> keeps_process pid s (snd (cancel_execution q now s))"
  by (simp add: cancel_execution_def split: option.split)

section \<open>Runs\<close>

lemma keeps_way: "keeps_process pid s s' \<Longrightarrow> on_the_way rlim pid req good groups k s \<Longrightarrow> on_the_way rlim pid req good groups k s'"
  by (auto simp: keeps_process_def on_the_way_def)

lemma keeps_end: "keeps_process pid s s' \<Longrightarrow> at_its_end pid s \<Longrightarrow> at_its_end pid s'"
  by (auto simp: keeps_process_def at_its_end_def)

lemma cancel_own:
  "on_the_way rlim pid req good groups k s \<Longrightarrow> on_the_way rlim pid req good groups k (snd (cancel_execution pid now s))"
  "at_its_end pid s \<Longrightarrow> at_its_end pid (snd (cancel_execution pid now s))"
proof -
  assume "on_the_way rlim pid req good groups k s"
  then obtain x c where x: "dict_get (sd_active s) pid = Some x" "dict_get (sd_tasks s) pid = Some c"
      "plan_request_of x = req" "alive_at rlim good groups x c" "steps_left (length groups) c = k"
      "dict_get (bt_active_budgets (sd_budget s)) pid = None"
    by (auto simp: on_the_way_def)
  have "alive_at rlim good groups (x\<lparr>xc_status := ES_cancelled, xc_cancelled_at := Some now\<rparr>) c"
    if "xc_status x \<noteq> ES_completed"
    using x(4) that by (auto simp: alive_at_def split: pc.splits)
  with x show "on_the_way rlim pid req good groups k (snd (cancel_execution pid now s))"
    by (auto simp: cancel_execution_def on_the_way_def)
qed (auto simp: cancel_execution_def at_its_end_def)

text \<open>The steps of \<open>pid\<close> among the events of a run, and runs that do not use its identifier again.\<close>

definition own_steps :: "string \<Rightarrow> (sched_event \<times> time) list \<Rightarrow> nat" where
  "own_steps pid evs = length (filter (\<lambda>ev. fst ev = Resume pid) evs)"

fun schedules :: "string \<Rightarrow> sched_event \<Rightarrow> bool" where
  "schedules pid (Schedule p g u t tgt b pr ps) = (p = pid)"
| "schedules pid ev = False"

lemma event_on_the_way:
  assumes ok: "nothing_fails rlim env pid req d" and ord: "get_execution_order rlim d = Inr groups"
    and ev: "\<not> schedules pid ev"
  shows "on_the_way rlim pid req (planned_by env req d) groups k s \<Longrightarrow> if ev = Resume pid \<and> k = 1 then at_its_end pid (sched_exec rlim env (ev, now) s)
      else on_the_way rlim pid req (planned_by env req d) groups (if ev = Resume pid then k - 1 else k) (sched_exec rlim env (ev, now) s)"
    and "at_its_end pid s \<Longrightarrow> at_its_end pid (sched_exec rlim env (ev, now) s)"
proof -
  assume s: "on_the_way rlim pid req (planned_by env req d) groups k s"
  show "if ev = Resume pid \<and> k = 1 then at_its_end pid (sched_exec rlim env (ev, now) s)
      else on_the_way rlim pid req (planned_by env req d) groups (if ev = Resume pid then k - 1 else k) (sched_exec rlim env (ev, now) s)"
  proof (cases ev)
    case (Resume q)
    then show ?thesis
      using step_on_the_way [OF ok ord s, of now] keeps_way [OF keeps_resume s] by (cases "q = pid") (auto split: if_splits)
  next
    case (Schedule p g u t tgt b pr ps)
    with ev keeps_way [OF keeps_schedule s] show ?thesis by simp
  next
    case (Cancel q)
    then show ?thesis using cancel_own(1) [OF s] keeps_way [OF keeps_cancel s] by (cases "q = pid") simp_all
  qed
next
  assume s: "at_its_end pid s"
  show "at_its_end pid (sched_exec rlim env (ev, now) s)"
  proof (cases ev)
    case (Resume q)
    have "resume rlim env pid now s = s" using s by (simp add: at_its_end_def resume_def)
    with Resume s show ?thesis using keeps_end [OF keeps_resume s] by (cases "q = pid") simp_all
  next
    case (Schedule p g u t tgt b pr ps)
    with ev keeps_end [OF keeps_schedule s] show ?thesis by simp
  next
    case (Cancel q)
    then show ?thesis using cancel_own(2) [OF s] keeps_end [OF keeps_cancel s] by (cases "q = pid") simp_all
  qed
qed

lemma steps_left_pos: "0 < steps_left n c"
  by (cases c) simp_all

lemma run_to_the_end:
  assumes ok: "nothing_fails rlim env pid req d" and ord: "get_execution_order rlim d = Inr groups"
  shows "list_all (\<lambda>ev. \<not> schedules pid (fst ev)) evs \<Longrightarrow>
    (on_the_way rlim pid req (planned_by env req d) groups k s \<and> k \<le> own_steps pid evs) \<or> at_its_end pid s \<Longrightarrow>
    at_its_end pid (fold (sched_exec rlim env) evs s)"
proof (induction evs arbitrary: s k)
  case Nil
  have "\<not> on_the_way rlim pid req (planned_by env req d) groups 0 s"
  proof
    assume "on_the_way rlim pid req (planned_by env req d) groups 0 s"
    then obtain c where "steps_left (length groups) c = 0" by (auto simp: on_the_way_def)
    with steps_left_pos [of "length groups" c] show False by simp
  qed
  with Nil show ?case by (auto simp: own_steps_def)
next
  case (Cons ev evs)
  obtain e now where ev: "ev = (e, now)" by fastforce
  note e = event_on_the_way [OF ok ord, of e]
  from Cons.prems(2) show ?case
  proof
    assume a: "on_the_way rlim pid req (planned_by env req d) groups k s \<and> k \<le> own_steps pid (ev # evs)"
    then have w: "on_the_way rlim pid req (planned_by env req d) groups k s" ..
    let ?s = "sched_exec rlim env (e, now) s"
    have e1: "if e = Resume pid \<and> k = 1 then at_its_end pid ?s
        else on_the_way rlim pid req (planned_by env req d) groups (if e = Resume pid then k - 1 else k) ?s"
      by (rule e(1) [OF _ w]) (use Cons.prems(1) ev in simp)
    show ?thesis
    proof (cases "e = Resume pid \<and> k = 1")
      case True
      with e1 have "at_its_end pid ?s" by simp
      with Cons.IH Cons.prems(1) ev show ?thesis by simp
    next
      case False
      let ?k = "if e = Resume pid then k - 1 else k"
      from False e1 have "on_the_way rlim pid req (planned_by env req d) groups ?k ?s" by presburger
      moreover have "?k \<le> own_steps pid evs" using conjunct2 [OF a] ev by (auto simp: own_steps_def)
      ultimately have "at_its_end pid (fold (sched_exec rlim env) evs ?s)"
        using Cons.IH [of ?k ?s] Cons.prems(1) by simp
      with ev show ?thesis by simp
    qed
  next
    assume "at_its_end pid s"
    with e(2) [of s now] Cons.prems(1) ev have "at_its_end pid (sched_exec rlim env ev s)" by simp
    with Cons.IH Cons.prems(1) show ?thesis by simp
  qed
qed

section \<open>Property\<close>

definition request_for :: "string \<Rightarrow> string \<Rightarrow> string \<Rightarrow> string \<Rightarrow> string option \<Rightarrow> pydict option \<Rightarrow> plan_request" where
  "request_for pid goal user tenant target params =
     \<lparr>pq_process_id = pid, pq_goal = goal, pq_target = target, pq_user_id = user, pq_tenant_id = tenant,
      pq_parameters = (case params of None \<Rightarrow> [] | Some p \<Rightarrow> p)\<rparr>"

lemma scheduled_comes_to_its_end:
  assumes "nothing_fails rlim env pid (request_for pid goal user tenant target params) d"
    and "get_execution_order rlim d = Inr groups"
    and "check_quota tenant user None now (sd_quota s) = None" and "budget = None \<or> budget = Some 0"
    and "dict_get (bt_active_budgets (sd_budget s)) pid = None"
    and "list_all (\<lambda>ev. \<not> schedules pid (fst ev)) evs" and "6 + 2 * length groups \<le> own_steps pid evs"
  shows "at_its_end pid (fold (sched_exec rlim env) evs
        (snd (schedule_execution pid goal user tenant target budget prio params now s)))"
proof -
  have "on_the_way rlim pid (request_for pid goal user tenant target params)
      (planned_by env (request_for pid goal user tenant target params) d) groups (6 + 2 * length groups)
      (snd (schedule_execution pid goal user tenant target budget prio params now s))"
    using assms(3-5)
    by (auto simp: schedule_execution_def Let_def request_for_def plan_request_of_def alive_at_def intro!: on_the_way_go)
  then show ?thesis using run_to_the_end [OF assms(1,2,6)] assms(7) by blast
qed



end
