(* ===== verification/EndToEnd.thy ===== *)
theory EndToEnd
  imports Planner SchedulerLive
begin

text \<open>
  The planner, the verifier and the scheduler together: what becomes of a goal when the language model
  answers, but not with a plan. The scheduler's outside is filled in with the program's own planner.
\<close>

section \<open>The fallback plan and the verifier\<close>

definition costed :: "(string, task_node) dict \<Rightarrow> (string, task_node) dict" where
  "costed ns = map (\<lambda>(i, t). (i, t\<lparr>tn_estimated_cost := estimate_task_cost t\<rparr>)) ns"

text \<open>What the planner returns for an answer that is not a plan.\<close>

definition fallback_dag :: "plan_ids \<Rightarrow> plan_call \<Rightarrow> dag \<Rightarrow> bool" where
  "fallback_dag ids c d \<longleftrightarrow> plan_for c d \<and> dg_nodes d = costed (fallback_nodes ids c)
     \<and> dg_edges d = [(pi_recon ids, pi_scan ids)] \<and> dg_estimated_total_cost d = 2 / 100"

lemma fallback_made:
  assumes "parsed_plan rlim env ids c now response = Some (Inl e)" and "plan_tags (pc_parameters c) = Inr tags"
    and "pi_recon ids \<noteq> pi_scan ids" and "0 < rlim"
  shows "\<exists>d. run_bind (parse_llm_response rlim env ids c now response) estimate_task_costs = Some (Inr d) \<and> fallback_dag ids c d"
proof -
  obtain d where d: "fallback_plan rlim ids c now = Some (Inr d)" "plan_for c d" "is_fallback ids c d"
      "dg_nodes d = fallback_nodes ids c"
    using fallback_plan_ok [OF assms(4,3,2)] by blast
  have "dg_nodes d \<noteq> []" by (simp add: d(4) fallback_nodes_def)
  from estimate_task_costs_ok [OF d(2) this] obtain d' where d': "estimate_task_costs d = Some (Inr d')" "plan_for c d'"
      "dg_edges d' = dg_edges d" "dg_estimated_total_cost d' = of_int (dg_total_tasks d') / 100"
      "dg_nodes d' = costed (dg_nodes d)"
    unfolding costed_def by blast
  have "dg_total_tasks d' = 2"
    using d'(2,5) d(4) by (simp add: plan_for_def dag_inv_def costed_def fallback_nodes_def)
  with d d' assms(1) have "fallback_dag ids c d'" by (simp add: fallback_dag_def is_fallback_def)
  with d(1) d'(1) assms(1) show ?thesis by (simp add: parse_llm_response_def)
qed

lemma fallback_order:
  assumes "fallback_dag ids c d" and "pi_recon ids \<noteq> pi_scan ids" and "2 < rlim"
  shows "get_execution_order rlim d = Inr [[pi_recon ids], [pi_scan ids]]"
proof -
  obtain k where k: "rlim = Suc (Suc k)" using le_Suc_ex [of 2 rlim] assms(3) by auto
  let ?r = "pi_recon ids" and ?s = "pi_scan ids"
  let ?es = "[(?r, ?s)]"
  have inc: "incoming ?es ?r = []" "incoming ?es ?s = [?r]" using assms(2) by (simp_all add: incoming_def)
  have 1: "get_level (Suc n) ?es ?r [] = Inr (0, [(?r, 0)])" for n
    by (simp add: inc dict_set_def)
  have 2: "get_level (Suc (Suc n)) ?es ?s [(?r, 0)] = Inr (1, [(?r, 0), (?s, 1)])" for n
    using assms(2) by (simp add: inc dict_get_Cons dict_set_def Let_def)
  have "all_levels rlim ?es [?r, ?s] = Inr [(?r, 0), (?s, 1)]"
    by (simp add: all_levels_def k 1 2 del: get_level.simps)
  moreover have "dg_edges d = ?es" "dict_keys (dg_nodes d) = [?r, ?s]"
    using assms(1) by (simp_all add: fallback_dag_def costed_def fallback_nodes_def dict_keys_def)
  moreover have "group_levels [(?r, 0), (?s, 1)] = [[?r], [?s]]"
    using assms(2) by (simp add: group_levels_def)
  ultimately show ?thesis by (simp add: get_execution_order_def)
qed

lemma harmless_names:
  "list_ex (\<lambda>kw. sublist kw (lower ''target'')) sensitive_keywords = False"
  "list_ex (\<lambda>kw. sublist kw (lower ''scan_type'')) sensitive_keywords = False"
  "list_ex (\<lambda>kw. sublist kw (lower ''severity'')) sensitive_keywords = False"
  by code_simp+

lemma fallback_accepted:
  assumes "fallback_dag ids c d" and "pi_recon ids \<noteq> pi_scan ids" and "2 < rlim"
  shows "\<exists>d'. validate_dag rlim (d\<lparr>dg_process_id := pid\<rparr>) tenant now = Accepted d'
    \<and> map tn_assigned_agent (dict_values (dg_nodes d')) = [Some ''scanner_agent'', Some ''scanner_agent'']"
proof -
  let ?d = "d\<lparr>dg_process_id := pid\<rparr>"
  have ns: "dg_nodes d = costed (fallback_nodes ids c)" and es: "dg_edges d = [(pi_recon ids, pi_scan ids)]"
    and "dag_wf d" and n: "dg_total_tasks d = 2"
    using assms(1) by (auto simp: fallback_dag_def plan_for_def dag_inv_def costed_def fallback_nodes_def)
  then have wf: "dag_wf ?d" by (simp add: dag_wf_def)
  have st: "validate_structure rlim ?d = Inr []"
  proof (rule validate_structure_ok [OF wf])
    have "acyclic ({} :: (string \<times> string) set)" by (simp add: acyclic_def)
    then show "acyclic (set (dg_edges ?d))" using assms(2) by (simp add: es acyclic_insert)
    show "length (dg_nodes ?d) < rlim" using assms(3) by (simp add: ns costed_def fallback_nodes_def)
    show "check_dependencies ?d = []"
      by (simp add: check_dependencies_def ns costed_def fallback_nodes_def recon_task_def scan_task_def new_task_node_def
          dict_has_def dict_get_Cons)
    show "find_isolated_tasks ?d = []"
      by (simp add: find_isolated_tasks_def n es ns costed_def fallback_nodes_def dict_keys_def)
  qed
  have rs: "validate_resources ?d = Inr []"
    by (simp add: validate_resources_def ns costed_def fallback_nodes_def recon_task_def scan_task_def new_task_node_def
        check_limit_def dict_get_or_def dict_get_Cons py_gt_def)
  have cap: "validate_capabilities ?d = (?d\<lparr>dg_nodes := map (\<lambda>(i, t). (i, t\<lparr>tn_assigned_agent := Some ''scanner_agent''\<rparr>)) (dg_nodes d)\<rparr>, [])"
    by (simp add: validate_capabilities_def ns costed_def fallback_nodes_def recon_task_def scan_task_def new_task_node_def
        available_agents_def)
  have "validate_security_policies (fst (validate_capabilities ?d)) tenant = []"
    by (simp add: cap validate_security_policies_def ns costed_def fallback_nodes_def recon_task_def scan_task_def
        new_task_node_def task_security_errors_def check_sensitive_parameters_def is_tool_allowed_def meets_compliance_def
        dict_keys_def harmless_names Let_def)
  with st rs cap show ?thesis
    by (simp add: validate_dag_def validate_budget_def ns costed_def fallback_nodes_def dict_values_def)
qed

text \<open>
  C14: When the answer of the language model cannot be read as a plan, the plan the planner makes instead is
  accepted by the verifier for every process, tenant and time: its two tasks form two levels, both are
  assigned to the scanner agent, and it is estimated at two cents.
\<close>
theorem fallback_plan_verified:
  assumes "parsed_plan rlim env ids c now response = Some (Inl e)" and "plan_tags (pc_parameters c) = Inr tags"
    and "pi_recon ids \<noteq> pi_scan ids" and "2 < rlim"
  shows "\<exists>d d'. run_bind (parse_llm_response rlim env ids c now response) estimate_task_costs = Some (Inr d)
    \<and> validate_dag rlim (d\<lparr>dg_process_id := pid\<rparr>) tenant later = Accepted d'
    \<and> map tn_assigned_agent (dict_values (dg_nodes d')) = [Some ''scanner_agent'', Some ''scanner_agent'']
    \<and> get_execution_order rlim d = Inr [[pi_recon ids], [pi_scan ids]] \<and> dg_estimated_total_cost d = 2 / 100"
proof -
  obtain d where d: "run_bind (parse_llm_response rlim env ids c now response) estimate_task_costs = Some (Inr d)"
      "fallback_dag ids c d"
    using fallback_made [OF assms(1-3)] assms(4) by auto
  with fallback_accepted [OF d(2) assms(3,4), of pid tenant later] fallback_order [OF d(2) assms(3,4)]
  show ?thesis by (auto simp: fallback_dag_def)
qed

section \<open>The scheduler with the program's planner\<close>

text \<open>The memory service returns dictionaries.\<close>

definition plan_call_of :: "plan_request \<Rightarrow> pyval list \<Rightarrow> plan_call" where
  "plan_call_of req ts =
     \<lparr>pc_process = pq_process_id req, pc_goal = pq_goal req, pc_target = pq_target req, pc_user = pq_user_id req,
      pc_tenant = pq_tenant_id req, pc_similar = concat (map (\<lambda>v. case v of PDict d \<Rightarrow> [d] | _ \<Rightarrow> []) ts),
      pc_parameters = pq_parameters req\<rparr>"

text \<open>The first plan a planner is asked for, at \<open>now\<close> and done at \<open>later\<close>, as the scheduler gets it.\<close>

definition planner_outcome ::
    "nat \<Rightarrow> 's plan_env \<Rightarrow> plan_ids \<Rightarrow> time \<Rightarrow> time \<Rightarrow> memory \<Rightarrow> 's \<Rightarrow> plan_request \<Rightarrow> pyval list \<Rightarrow> exn + dag" where
  "planner_outcome rlim env ids now later m s req ts =
     (case create_plan rlim env ids (plan_call_of req ts) now later (new_planner m) s of
        None \<Rightarrow> Inl RecursionErr
      | Some (Inl e, pl, s') \<Rightarrow> Inl e
      | Some (Inr r, pl, s') \<Rightarrow> Inr (pl_heap pl ! r))"

definition goes_well :: "sched_env \<Rightarrow> string \<Rightarrow> plan_request \<Rightarrow> bool" where
  "goes_well senv pid req \<longleftrightarrow> se_similar senv req = Inr [] \<and> (\<forall>op. se_memory senv op = None)
     \<and> (\<exists>route. se_route senv = Some route \<and> (\<forall>n c. \<exists>v. route pid n c = Inr v))"

lemma prompt_made:
  assumes "pc_similar c = []"
  shows "\<exists>req. plan_request_of_call env c now = Inr req"
  using assms
  by (simp add: plan_request_of_call_def prepare_context_def create_planning_prompt_def get_item_def
      join_strings_def or_type_err_def py_iter_def all_capabilities_def Let_def dict_set_def dict_get_Cons)

lemma unreadable_answer_outcome:
  assumes "pe_generate env any s = (Inr response, s')" and "\<And>r. pe_generate env r s = pe_generate env any s"
    and "parsed_plan rlim env ids (plan_call_of req []) now response = Some (Inl e)"
    and "plan_tags (pq_parameters req) = Inr tags" and "pi_recon ids \<noteq> pi_scan ids" and "2 < rlim"
  shows "\<exists>d. planner_outcome rlim env ids now later m s req [] = Inr d \<and> fallback_dag ids (plan_call_of req []) d"
proof -
  let ?c = "plan_call_of req []"
  obtain q where q: "plan_request_of_call env ?c now = Inr q"
    using prompt_made [where c = ?c and env = env and now = now] by (auto simp: plan_call_of_def)
  obtain d where d: "run_bind (parse_llm_response rlim env ids ?c now response) estimate_task_costs = Some (Inr d)"
      "fallback_dag ids ?c d"
    using fallback_made [OF assms(3) _ assms(5)] assms(4,6) by (auto simp: plan_call_of_def)
  have "make_plan rlim env ids ?c now s = (Some (Inr d), s')"
    using assms(1) assms(2) [where r = q] q d(1) by (simp add: make_plan_def)
  with d(2) show ?thesis
    by (simp add: planner_outcome_def create_plan_def cached_plan_def new_planner_def)
qed


text \<open>The example planner, whose model answers in a form that cannot be read, and a scheduler around it.\<close>

definition ex_unreadable :: "unit plan_env" where
  "ex_unreadable = ex_plan_env\<lparr>pe_loads := \<lambda>t. Inl (ValueErr ''not JSON'')\<rparr>"

definition ex_sched_env :: sched_env where
  "ex_sched_env = ex_env\<lparr>se_plan := planner_outcome 5 ex_unreadable ex_ids 0 1 new_memory ()\<rparr>"

lemma ex_unreadable_answer: "\<exists>e. parsed_plan 5 ex_unreadable ex_ids c now ''{...}'' = Some (Inl e)"
  by (simp add: parsed_plan_def plan_data_def ex_unreadable_def strip_def is_space_def)

theorem fallback_plan_verified_witness:
  "\<exists>d d'. run_bind (parse_llm_response 5 ex_unreadable ex_ids ex_call 0 ''{...}'') estimate_task_costs = Some (Inr d)
    \<and> validate_dag 5 (d\<lparr>dg_process_id := ''p''\<rparr>) ''t'' 3 = Accepted d'"
proof -
  obtain e where p: "parsed_plan 5 ex_unreadable ex_ids ex_call 0 ''{...}'' = Some (Inl e)"
    using ex_unreadable_answer by blast
  have tags: "plan_tags (pc_parameters ex_call) = Inr []" by (simp add: plan_tags_def ex_call_def as_dict_def)
  have ids: "pi_recon ex_ids \<noteq> pi_scan ex_ids" by (simp add: ex_ids_def)
  from fallback_plan_verified [OF p tags ids, of "''p''" "''t''" 3] show ?thesis by auto
qed


end
