(* ===== verification/Container.thy ===== *)
theory Container
  imports Branching Calendar
begin

text \<open>
  \<open>src/workers/container.py\<close>: the containers of the workers. The Docker daemon is the record of
  functions \<open>docker_api\<close> over a state of its own: what it answers, and how a call changes it, is an
  argument of every operation. The output of a command is given decoded. The manager keeps a table of
  the containers it has created; \<open>container_host\<close> holds it beside the state of the daemon.
\<close>

section \<open>Resource limits\<close>

text \<open>\<open>int(x)\<close> of a float; the infinities and NaN raise.\<close>

fun int_of_float :: "pyfloat \<Rightarrow> exn + int" where
  "int_of_float (Fin r) = Inr (trunc r)"
| "int_of_float NaN = Inl (ValueErr ''cannot convert float NaN to integer'')"
| "int_of_float _ = Inl (py_exn PyException ''cannot convert float infinity to integer'')"

definition float_times :: "pyfloat \<Rightarrow> rat \<Rightarrow> pyfloat" where
  "float_times x m = (case x of Fin r \<Rightarrow> Fin (r * m) | _ \<Rightarrow> x)"

definition float_or_raise :: "pyval \<Rightarrow> exn + pyfloat" where
  "float_or_raise v =
     (case py_float v of Some x \<Rightarrow> Inr x
      | None \<Rightarrow> (case v of PStr s \<Rightarrow> Inl (ValueErr s) | _ \<Rightarrow> Inl TypeErr))"

definition memory_units :: "(string \<times> int) list" where
  "memory_units = [(''Ki'', 1024), (''Mi'', 1024 ^ 2), (''Gi'', 1024 ^ 3), (''Ti'', 1024 ^ 4)]"

definition parse_memory_string :: "pyval \<Rightarrow> exn + int" where
  "parse_memory_string v =
     (case v of
        PStr s \<Rightarrow>
          (case find (\<lambda>(u, m). suffix u s) memory_units of
             Some (u, m) \<Rightarrow>
               rbind (float_or_raise (PStr (take (length s - length u) s)))
                 (\<lambda>x. int_of_float (float_times x (of_int m)))
           | None \<Rightarrow> (case py_int s of Some n \<Rightarrow> Inr n | None \<Rightarrow> Inl (ValueErr s)))
      | _ \<Rightarrow> Inl (AttributeErr ''endswith''))"

definition cpu_limits :: "pydict \<Rightarrow> exn + pydict" where
  "cpu_limits limits =
     (case dict_get limits ''cpu'' of
        None \<Rightarrow> Inr []
      | Some v \<Rightarrow>
        rbind (float_or_raise v) (\<lambda>x. rbind (int_of_float (float_times x 100000)) (\<lambda>q.
          Inr [(''cpu_period'', PInt 100000), (''cpu_quota'', PInt q)])))"

definition memory_limits :: "pydict \<Rightarrow> exn + pydict" where
  "memory_limits limits =
     (case dict_get limits ''memory'' of
        None \<Rightarrow> Inr []
      | Some v \<Rightarrow>
        rbind (parse_memory_string v) (\<lambda>b.
          Inr [(''mem_limit'', PInt b), (''mem_reservation'', PInt (trunc (of_int b * (8 / 10))))]))"

definition disk_limits :: "pydict \<Rightarrow> exn + pydict" where
  "disk_limits limits =
     (case dict_get limits ''disk'' of
        None \<Rightarrow> Inr []
      | Some v \<Rightarrow>
        rbind (parse_memory_string v) (\<lambda>b. Inr [(''storage_opt'', PDict [(''size'', PStr (int_str b))])]))"

definition prepare_resource_limits :: "pydict \<Rightarrow> exn + pydict" where
  "prepare_resource_limits limits =
     rbind (cpu_limits limits) (\<lambda>c. rbind (memory_limits limits) (\<lambda>m. rbind (disk_limits limits) (\<lambda>d.
       Inr (c @ m @ d))))"

section \<open>The daemon and the table\<close>

record container_spec =
  sp_image :: string
  sp_command :: "string list"
  sp_name :: string
  sp_environment :: "pydict option"
  sp_volumes :: "pydict option"
  sp_network :: "string option"
  sp_labels :: "pydict option"
  sp_detach :: bool
  sp_stdin_open :: bool
  sp_tty :: bool
  sp_resources :: pydict

record exec_request =
  er_cmd :: "string list"
  er_environment :: "pydict option"
  er_workdir :: "string option"

record exec_answer =
  ea_exit_code :: int
  ea_stdout :: "string option"
  ea_stderr :: "string option"

text \<open>\<open>images.get\<close> answers whether the image is there (\<open>False\<close> is \<open>ImageNotFound\<close>); \<open>containers.get\<close>
  gives the status of the container.\<close>

record 'd docker_api =
  dk_image :: "string \<Rightarrow> 'd \<Rightarrow> exn + bool"
  dk_pull :: "string \<Rightarrow> 'd \<Rightarrow> (exn + unit) \<times> 'd"
  dk_create :: "container_spec \<Rightarrow> 'd \<Rightarrow> (exn + string) \<times> 'd"
  dk_get :: "string \<Rightarrow> 'd \<Rightarrow> exn + string"
  dk_start :: "string \<Rightarrow> 'd \<Rightarrow> (exn + unit) \<times> 'd"
  dk_stop :: "string \<Rightarrow> nat \<Rightarrow> 'd \<Rightarrow> (exn + unit) \<times> 'd"
  dk_remove :: "string \<Rightarrow> bool \<Rightarrow> 'd \<Rightarrow> (exn + unit) \<times> 'd"
  dk_exec :: "string \<Rightarrow> exec_request \<Rightarrow> 'd \<Rightarrow> (exn + exec_answer) \<times> 'd"
  dk_put_archive :: "string \<Rightarrow> string \<Rightarrow> string \<Rightarrow> 'd \<Rightarrow> (exn + unit) \<times> 'd"
  dk_get_archive :: "string \<Rightarrow> string \<Rightarrow> 'd \<Rightarrow> exn + string"
  dk_logs :: "string \<Rightarrow> nat \<Rightarrow> 'd \<Rightarrow> exn + string"

record tracked_container =
  tc_id :: string
  tc_name :: string
  tc_image :: string
  tc_created_at :: time
  tc_status :: string

record 'd container_host =
  ch_active :: "(string, tracked_container) dict"
  ch_daemon :: 'd

definition new_container_host :: "'d \<Rightarrow> 'd container_host" where
  "new_container_host d = \<lparr>ch_active = [], ch_daemon = d\<rparr>"

text \<open>A call of the daemon: what follows runs only when it does not raise.\<close>

definition call_then ::
    "('d \<Rightarrow> (exn + 'a) \<times> 'd) \<Rightarrow> ('a \<Rightarrow> 'd container_host \<Rightarrow> (exn + 'b) \<times> 'd container_host)
      \<Rightarrow> 'd container_host \<Rightarrow> (exn + 'b) \<times> 'd container_host" where
  "call_then f k h =
     (case f (ch_daemon h) of
        (Inl e, d) \<Rightarrow> (Inl e, h\<lparr>ch_daemon := d\<rparr>)
      | (Inr a, d) \<Rightarrow> k a (h\<lparr>ch_daemon := d\<rparr>))"

definition ask_then ::
    "('d \<Rightarrow> exn + 'a) \<Rightarrow> ('a \<Rightarrow> 'd container_host \<Rightarrow> (exn + 'b) \<times> 'd container_host)
      \<Rightarrow> 'd container_host \<Rightarrow> (exn + 'b) \<times> 'd container_host" where
  "ask_then f = call_then (\<lambda>d. (f d, d))"

section \<open>Operations\<close>

definition ensure_image :: "'d docker_api \<Rightarrow> string \<Rightarrow> 'd container_host \<Rightarrow> (exn + unit) \<times> 'd container_host" where
  "ensure_image dk img =
     ask_then (dk_image dk img) (\<lambda>present h.
       if present then (Inr (), h) else call_then (dk_pull dk img) (\<lambda>_ h. (Inr (), h)) h)"

text \<open>Every container runs the same command; the argument \<open>command\<close> is not looked at.\<close>

definition create_container ::
    "'d docker_api \<Rightarrow> string \<Rightarrow> string \<Rightarrow> string list option \<Rightarrow> pydict option \<Rightarrow> pydict option \<Rightarrow> pydict option
      \<Rightarrow> string option \<Rightarrow> pydict option \<Rightarrow> time \<Rightarrow> 'd container_host \<Rightarrow> (exn + string) \<times> 'd container_host" where
  "create_container dk img name command limits environment volumes network labels now h0 =
     (case ensure_image dk img h0 of
        (Inl e, h) \<Rightarrow> (Inl e, h)
      | (Inr _, h) \<Rightarrow>
        (case prepare_resource_limits (case limits of None \<Rightarrow> [] | Some l \<Rightarrow> l) of
           Inl e \<Rightarrow> (Inl e, h)
         | Inr res \<Rightarrow>
           call_then (dk_create dk \<lparr>sp_image = img, sp_command = [''tail'', ''-f'', ''/dev/null''], sp_name = name,
               sp_environment = environment, sp_volumes = volumes, sp_network = network, sp_labels = labels,
               sp_detach = True, sp_stdin_open = True, sp_tty = True, sp_resources = res\<rparr>)
             (\<lambda>cid. call_then (dk_start dk cid) (\<lambda>_ h1.
                (Inr cid, h1\<lparr>ch_active := dict_set cid \<lparr>tc_id = cid, tc_name = name, tc_image = img,
                    tc_created_at = now, tc_status = ''running''\<rparr> (ch_active h1)\<rparr>))) h))"

definition set_status :: "string \<Rightarrow> string \<Rightarrow> 'd container_host \<Rightarrow> 'd container_host" where
  "set_status cid st h = h\<lparr>ch_active := dict_mod cid (\<lambda>c. c\<lparr>tc_status := st\<rparr>) (ch_active h)\<rparr>"

definition start_container :: "'d docker_api \<Rightarrow> string \<Rightarrow> 'd container_host \<Rightarrow> (exn + unit) \<times> 'd container_host" where
  "start_container dk cid =
     ask_then (dk_get dk cid) (\<lambda>_. call_then (dk_start dk cid) (\<lambda>_ h. (Inr (), set_status cid ''running'' h)))"

definition stop_container :: "'d docker_api \<Rightarrow> string \<Rightarrow> nat \<Rightarrow> 'd container_host \<Rightarrow> (exn + unit) \<times> 'd container_host" where
  "stop_container dk cid timeout =
     ask_then (dk_get dk cid) (\<lambda>_. call_then (dk_stop dk cid timeout) (\<lambda>_ h. (Inr (), set_status cid ''stopped'' h)))"

definition remove_container :: "'d docker_api \<Rightarrow> string \<Rightarrow> bool \<Rightarrow> 'd container_host \<Rightarrow> (exn + unit) \<times> 'd container_host" where
  "remove_container dk cid force =
     ask_then (dk_get dk cid) (\<lambda>_. call_then (dk_remove dk cid force)
       (\<lambda>_ h. (Inr (), h\<lparr>ch_active := dict_pop cid (ch_active h)\<rparr>)))"

record exec_result =
  xr_exit_code :: int
  xr_stdout :: string
  xr_stderr :: string
  xr_duration :: rat
  xr_success :: bool

definition or_empty :: "string option \<Rightarrow> string" where
  "or_empty s = (case s of None \<Rightarrow> [] | Some t \<Rightarrow> t)"

text \<open>The argument \<open>timeout\<close> is not looked at; \<open>began\<close> and \<open>ended\<close> are the two readings of the clock.\<close>

definition execute_in_container ::
    "'d docker_api \<Rightarrow> string \<Rightarrow> string \<Rightarrow> string list \<Rightarrow> nat \<Rightarrow> pydict option \<Rightarrow> time \<Rightarrow> time
      \<Rightarrow> 'd container_host \<Rightarrow> (exn + exec_result) \<times> 'd container_host" where
  "execute_in_container dk cid command args timeout environment began ended h0 =
     (case dk_get dk cid (ch_daemon h0) of
        Inl e \<Rightarrow> (Inl e, h0)
      | Inr st \<Rightarrow>
        (case (if st = ''running'' then (Inr (), h0) else start_container dk cid h0) of
           (Inl e, h) \<Rightarrow> (Inl e, h)
         | (Inr _, h) \<Rightarrow>
           call_then (dk_exec dk cid \<lparr>er_cmd = [''test'', ''-d'', ''/home/worker''], er_environment = None, er_workdir = None\<rparr>)
             (\<lambda>probe. call_then (dk_exec dk cid \<lparr>er_cmd = command # args, er_environment = environment,
                  er_workdir = Some (if ea_exit_code probe = 0 then ''/home/worker'' else ''/'')\<rparr>)
                (\<lambda>a h1. (Inr \<lparr>xr_exit_code = ea_exit_code a, xr_stdout = or_empty (ea_stdout a),
                    xr_stderr = or_empty (ea_stderr a), xr_duration = total_seconds (ended - began),
                    xr_success = (ea_exit_code a = 0)\<rparr>, h1))) h))"

text \<open>The archive of the source file is an argument, as is what its construction raises.\<close>

definition copy_to_container ::
    "'d docker_api \<Rightarrow> string \<Rightarrow> exn + string \<Rightarrow> string \<Rightarrow> 'd container_host \<Rightarrow> (exn + unit) \<times> 'd container_host" where
  "copy_to_container dk cid archive dest =
     ask_then (dk_get dk cid) (\<lambda>_ h. case archive of
         Inl e \<Rightarrow> (Inl e, h)
       | Inr a \<Rightarrow> call_then (dk_put_archive dk cid dest a) (\<lambda>_ h. (Inr (), h)) h)"

text \<open>The extraction of the archive under \<open>dest_path\<close> is the argument \<open>extract\<close>.\<close>

definition copy_from_container ::
    "'d docker_api \<Rightarrow> (string \<Rightarrow> string \<Rightarrow> exn + unit) \<Rightarrow> string \<Rightarrow> string \<Rightarrow> string \<Rightarrow> 'd container_host
      \<Rightarrow> (exn + unit) \<times> 'd container_host" where
  "copy_from_container dk extract cid source dest =
     ask_then (dk_get dk cid) (\<lambda>_. ask_then (dk_get_archive dk cid source) (\<lambda>a h. (extract a dest, h)))"

definition check_health :: "'d docker_api \<Rightarrow> string \<Rightarrow> 'd container_host \<Rightarrow> bool" where
  "check_health dk cid h = (dk_get dk cid (ch_daemon h) = Inr ''running'')"

definition get_container_logs :: "'d docker_api \<Rightarrow> string \<Rightarrow> nat \<Rightarrow> 'd container_host \<Rightarrow> string" where
  "get_container_logs dk cid tail h =
     (case dk_get dk cid (ch_daemon h) of
        Inl e \<Rightarrow> []
      | Inr _ \<Rightarrow> (case dk_logs dk cid tail (ch_daemon h) of Inl e \<Rightarrow> [] | Inr l \<Rightarrow> l))"

definition cleanup_one :: "'d docker_api \<Rightarrow> string \<Rightarrow> 'd container_host \<Rightarrow> 'd container_host" where
  "cleanup_one dk cid h0 =
     (case stop_container dk cid 10 h0 of
        (Inl e, h) \<Rightarrow> h
      | (Inr _, h) \<Rightarrow> snd (remove_container dk cid True h))"

definition cleanup_all :: "'d docker_api \<Rightarrow> 'd container_host \<Rightarrow> 'd container_host" where
  "cleanup_all dk h = fold (cleanup_one dk) (dict_keys (ch_active h)) h"

section \<open>Runs\<close>

datatype container_op =
    Create string string "string list option" "pydict option" "pydict option" "pydict option" "string option"
      "pydict option" time
  | Start string
  | Stop string nat
  | Remove string bool
  | Execute string string "string list" nat "pydict option" time time
  | Copy_to string "exn + string" string
  | Cleanup

fun container_exec :: "'d docker_api \<Rightarrow> container_op \<Rightarrow> 'd container_host \<Rightarrow> 'd container_host" where
  "container_exec dk (Create img name cmd limits env vols net labels now) h =
     snd (create_container dk img name cmd limits env vols net labels now h)"
| "container_exec dk (Start c) h = snd (start_container dk c h)"
| "container_exec dk (Stop c n) h = snd (stop_container dk c n h)"
| "container_exec dk (Remove c force) h = snd (remove_container dk c force h)"
| "container_exec dk (Execute c cmd args n env t u) h = snd (execute_in_container dk c cmd args n env t u h)"
| "container_exec dk (Copy_to c a dest) h = snd (copy_to_container dk c a dest h)"
| "container_exec dk Cleanup h = cleanup_all dk h"

text \<open>
  What the daemon's documentation promises: \<open>alive d\<close> are the containers it has. It finds exactly these,
  stops them, removes them when forced, and no other call removes one.
\<close>

definition docker_contract :: "'d docker_api \<Rightarrow> ('d \<Rightarrow> string set) \<Rightarrow> bool" where
  "docker_contract dk alive \<longleftrightarrow>
     (\<forall>c d. is_ok (dk_get dk c d) \<longleftrightarrow> c \<in> alive d) \<and>
     (\<forall>c n d. c \<in> alive d \<longrightarrow> is_ok (fst (dk_stop dk c n d)) \<and> alive (snd (dk_stop dk c n d)) = alive d) \<and>
     (\<forall>c f d. c \<in> alive d \<longrightarrow> (if is_ok (fst (dk_remove dk c f d)) then alive (snd (dk_remove dk c f d)) = alive d - {c}
                              else \<not> f \<and> alive (snd (dk_remove dk c f d)) = alive d)) \<and>
     (\<forall>sp d. case fst (dk_create dk sp d) of Inl _ \<Rightarrow> alive (snd (dk_create dk sp d)) = alive d
                | Inr c \<Rightarrow> alive (snd (dk_create dk sp d)) = insert c (alive d)) \<and>
     (\<forall>i d. alive (snd (dk_pull dk i d)) = alive d) \<and>
     (\<forall>c d. alive (snd (dk_start dk c d)) = alive d) \<and>
     (\<forall>c r d. alive (snd (dk_exec dk c r d)) = alive d) \<and>
     (\<forall>c p a d. alive (snd (dk_put_archive dk c p a d)) = alive d)"

definition tracked_alive :: "('d \<Rightarrow> string set) \<Rightarrow> 'd container_host \<Rightarrow> bool" where
  "tracked_alive alive h \<longleftrightarrow> set (dict_keys (ch_active h)) \<subseteq> alive (ch_daemon h)"

section \<open>What is tracked exists\<close>

lemma contract_get: "docker_contract dk alive \<Longrightarrow> is_ok (dk_get dk c d) \<longleftrightarrow> c \<in> alive d"
  by (simp add: docker_contract_def)

lemma contract_stop:
  "docker_contract dk alive \<Longrightarrow> c \<in> alive d \<Longrightarrow> is_ok (fst (dk_stop dk c n d)) \<and> alive (snd (dk_stop dk c n d)) = alive d"
  by (simp add: docker_contract_def)

lemma contract_remove:
  "docker_contract dk alive \<Longrightarrow> c \<in> alive d \<Longrightarrow>
     (if is_ok (fst (dk_remove dk c f d)) then alive (snd (dk_remove dk c f d)) = alive d - {c}
      else \<not> f \<and> alive (snd (dk_remove dk c f d)) = alive d)"
  unfolding docker_contract_def by blast

lemma contract_create:
  "docker_contract dk alive \<Longrightarrow>
     (case fst (dk_create dk sp d) of Inl _ \<Rightarrow> alive (snd (dk_create dk sp d)) = alive d
      | Inr c \<Rightarrow> alive (snd (dk_create dk sp d)) = insert c (alive d))"
  unfolding docker_contract_def by blast

lemma contract_others:
  assumes "docker_contract dk alive"
  shows "alive (snd (dk_pull dk i d)) = alive d" "alive (snd (dk_start dk c d)) = alive d"
    "alive (snd (dk_exec dk c r d)) = alive d" "alive (snd (dk_put_archive dk c p a d)) = alive d"
  using assms by (simp_all add: docker_contract_def)

lemma call_then_keeps:
  assumes "alive (snd (f (ch_daemon h))) = alive (ch_daemon h)" and "tracked_alive alive h"
    and "\<And>a h'. tracked_alive alive h' \<Longrightarrow> tracked_alive alive (snd (k a h'))"
  shows "tracked_alive alive (snd (call_then f k h))"
proof -
  obtain r d where fd: "f (ch_daemon h) = (r, d)" by force
  with assms(1,2) have "tracked_alive alive (h\<lparr>ch_daemon := d\<rparr>)" by (simp add: tracked_alive_def)
  with assms(3) fd show ?thesis by (cases r) (simp_all add: call_then_def)
qed

lemma ask_then_keeps:
  assumes "tracked_alive alive h" and "\<And>a. f (ch_daemon h) = Inr a \<Longrightarrow> tracked_alive alive (snd (k a h))"
  shows "tracked_alive alive (snd (ask_then f k h))"
  using assms by (cases "f (ch_daemon h)") (simp_all add: ask_then_def call_then_def)

lemma set_status_tracked [simp]: "tracked_alive alive (set_status c st h) = tracked_alive alive h"
  by (simp add: tracked_alive_def set_status_def)

lemma ensure_image_tracked:
  "docker_contract dk alive \<Longrightarrow> tracked_alive alive h \<Longrightarrow> tracked_alive alive (snd (ensure_image dk img h))"
  unfolding ensure_image_def
  by (rule ask_then_keeps) (auto intro: call_then_keeps simp: contract_others)

lemma start_tracked:
  "docker_contract dk alive \<Longrightarrow> tracked_alive alive h \<Longrightarrow> tracked_alive alive (snd (start_container dk c h))"
  unfolding start_container_def by (rule ask_then_keeps) (auto intro: call_then_keeps simp: contract_others)

lemma stop_tracked:
  assumes "docker_contract dk alive" "tracked_alive alive h"
  shows "tracked_alive alive (snd (stop_container dk c n h))"
  unfolding stop_container_def
proof (rule ask_then_keeps [OF assms(2)])
  fix st assume "dk_get dk c (ch_daemon h) = Inr st"
  then have "c \<in> alive (ch_daemon h)" using contract_get [OF assms(1), of c "ch_daemon h"] by simp
  then show "tracked_alive alive (snd (call_then (dk_stop dk c n) (\<lambda>_ h. (Inr (), set_status c ''stopped'' h)) h))"
    using assms contract_stop [OF assms(1)] by (intro call_then_keeps) auto
qed

lemma remove_tracked:
  assumes "docker_contract dk alive" "tracked_alive alive h"
  shows "tracked_alive alive (snd (remove_container dk c f h))"
  unfolding remove_container_def
proof (rule ask_then_keeps [OF assms(2)])
  fix st assume "dk_get dk c (ch_daemon h) = Inr st"
  then have "c \<in> alive (ch_daemon h)" using contract_get [OF assms(1), of c "ch_daemon h"] by simp
  from contract_remove [OF assms(1) this, of f] assms(2)
  show "tracked_alive alive (snd (call_then (dk_remove dk c f)
      (\<lambda>_ h. (Inr (), h\<lparr>ch_active := dict_pop c (ch_active h)\<rparr>)) h))"
    by (auto simp: call_then_def tracked_alive_def split: prod.split sum.split if_splits)
qed

lemma create_tracked:
  assumes "docker_contract dk alive" "tracked_alive alive h0"
  shows "tracked_alive alive (snd (create_container dk img name cmd limits env vols net labels now h0))"
proof -
  have keep: "tracked_alive alive (snd (call_then (dk_create dk sp) (\<lambda>c. call_then (dk_start dk c) (\<lambda>_ h1.
      (Inr c, h1\<lparr>ch_active := dict_set c (t c) (ch_active h1)\<rparr>))) h))" if "tracked_alive alive h" for h sp t
    using that contract_create [OF assms(1), of sp "ch_daemon h"] contract_others(2) [OF assms(1)]
    by (auto simp: call_then_def tracked_alive_def split: prod.split sum.split)
      (metis insert_iff snd_conv subsetD)+
  obtain r h where e: "ensure_image dk img h0 = (r, h)" by force
  with ensure_image_tracked [OF assms, of img] have "tracked_alive alive h" by simp
  with keep e show ?thesis
    by (auto simp: create_container_def split: sum.split)
qed

lemma execute_tracked:
  assumes "docker_contract dk alive" "tracked_alive alive h0"
  shows "tracked_alive alive (snd (execute_in_container dk c cmd args n env t u h0))"
proof -
  note exec = contract_others(3) [OF assms(1)]
  have run: "tracked_alive alive (snd (call_then (dk_exec dk c q)
      (\<lambda>p. call_then (dk_exec dk c (q' p)) (\<lambda>a h1. (Inr (x a), h1))) h))" if "tracked_alive alive h" for h q q' x
    by (intro call_then_keeps that) (simp_all add: exec)
  obtain r h where s: "start_container dk c h0 = (r, h)" by force
  with start_tracked [OF assms, of c] have "tracked_alive alive h" by simp
  with run assms(2) s show ?thesis
    by (auto simp: execute_in_container_def split: sum.split)
qed

lemma copy_to_tracked:
  assumes "docker_contract dk alive" "tracked_alive alive h"
  shows "tracked_alive alive (snd (copy_to_container dk c a dest h))"
  unfolding copy_to_container_def
proof (rule ask_then_keeps [OF assms(2)])
  show "tracked_alive alive (snd (case a of Inl e \<Rightarrow> (Inl e, h)
      | Inr a \<Rightarrow> call_then (dk_put_archive dk c dest a) (\<lambda>_ h. (Inr (), h)) h))"
  proof (cases a)
    case Inl
    then show ?thesis using assms by simp
  next
    case (Inr b)
    then show ?thesis using assms
      by (auto intro!: call_then_keeps simp: contract_others)
  qed
qed

lemma fold_step_keeps: "(\<And>x s. P s \<Longrightarrow> P (f x s)) \<Longrightarrow> P s \<Longrightarrow> P (fold f xs s)"
  by (induction xs arbitrary: s) simp_all

lemma cleanup_one_tracked:
  assumes "docker_contract dk alive" "tracked_alive alive h"
  shows "tracked_alive alive (cleanup_one dk c h)"
proof -
  obtain r h1 where "stop_container dk c 10 h = (r, h1)" by force
  with stop_tracked [OF assms, of c 10] remove_tracked [OF assms(1), of h1 c True] show ?thesis
    by (auto simp: cleanup_one_def split: sum.split)
qed

lemma cleanup_all_tracked:
  "docker_contract dk alive \<Longrightarrow> tracked_alive alive h \<Longrightarrow> tracked_alive alive (cleanup_all dk h)"
  unfolding cleanup_all_def by (rule fold_step_keeps [where P = "tracked_alive alive"]) (simp_all add: cleanup_one_tracked)

lemma container_exec_tracked:
  "docker_contract dk alive \<Longrightarrow> tracked_alive alive h \<Longrightarrow> tracked_alive alive (container_exec dk op h)"
  by (cases op) (simp_all add: create_tracked start_tracked stop_tracked remove_tracked execute_tracked copy_to_tracked
      cleanup_all_tracked)

section \<open>Cleaning up\<close>

lemma dict_keys_pop: "dict_keys (dict_pop k m) = filter (\<lambda>x. x \<noteq> k) (dict_keys m)"
  by (induction m) (auto simp: dict_keys_def dict_pop_def)

lemma cleanup_one_effect:
  assumes "docker_contract dk alive"
  shows "dict_keys (ch_active (cleanup_one dk c h)) =
      filter (\<lambda>x. x \<noteq> c \<or> c \<notin> alive (ch_daemon h)) (dict_keys (ch_active h))"
    and "alive (ch_daemon (cleanup_one dk c h)) = alive (ch_daemon h) - {c}"
proof -
  have main: "dict_keys (ch_active (cleanup_one dk c h)) =
      filter (\<lambda>x. x \<noteq> c \<or> c \<notin> alive (ch_daemon h)) (dict_keys (ch_active h)) \<and>
      alive (ch_daemon (cleanup_one dk c h)) = alive (ch_daemon h) - {c}"
  proof (cases "c \<in> alive (ch_daemon h)")
    case False
    with contract_get [OF assms, of c "ch_daemon h"] obtain e where "dk_get dk c (ch_daemon h) = Inl e"
      by (cases "dk_get dk c (ch_daemon h)") auto
    with False show ?thesis by (simp add: cleanup_one_def stop_container_def ask_then_def call_then_def)
  next
    case True
    obtain r d where stop: "dk_stop dk c 10 (ch_daemon h) = (r, d)" by force
    with contract_stop [OF assms True, of 10] obtain u where r: "r = Inr u" and d: "alive d = alive (ch_daemon h)"
      by (cases r) auto
    obtain q e where rm: "dk_remove dk c True d = (q, e)" by force
    have "c \<in> alive d" using True d by simp
    from contract_remove [OF assms this, of True] rm have q: "is_ok q" "alive e = alive d - {c}"
      by (simp_all split: if_splits)
    then obtain w where "q = Inr w" by (cases q) auto
    then have rm': "dk_remove dk c True d = (Inr w, e)" "alive e = alive (ch_daemon h) - {c}" using rm q d by simp_all
    obtain st where st: "dk_get dk c (ch_daemon h) = Inr st"
      using contract_get [OF assms, of c "ch_daemon h"] True by (cases "dk_get dk c (ch_daemon h)") auto
    obtain st' where st': "dk_get dk c d = Inr st'"
      using contract_get [OF assms, of c d] True d by (cases "dk_get dk c d") auto
    have "cleanup_one dk c h = h\<lparr>ch_active := dict_pop c (dict_mod c (\<lambda>x. x\<lparr>tc_status := ''stopped''\<rparr>) (ch_active h)),
        ch_daemon := e\<rparr>"
      using stop unfolding r
      by (simp add: cleanup_one_def stop_container_def remove_container_def ask_then_def call_then_def set_status_def
          st st' rm'(1))
    then show ?thesis using True rm'(2) by (simp add: dict_keys_pop)
  qed
  then show "dict_keys (ch_active (cleanup_one dk c h)) =
      filter (\<lambda>x. x \<noteq> c \<or> c \<notin> alive (ch_daemon h)) (dict_keys (ch_active h))"
    and "alive (ch_daemon (cleanup_one dk c h)) = alive (ch_daemon h) - {c}" by auto
qed

lemma cleanup_fold_effect:
  assumes "docker_contract dk alive"
  shows "dict_keys (ch_active (fold (cleanup_one dk) cs h)) =
      filter (\<lambda>x. x \<notin> set cs \<or> x \<notin> alive (ch_daemon h)) (dict_keys (ch_active h))"
proof (induction cs arbitrary: h)
  case Nil
  show ?case by simp
next
  case (Cons c cs)
  show ?case
    by (simp add: Cons.IH cleanup_one_effect [OF assms]) (rule filter_cong; auto)
qed

text \<open>Cleaning up forgets a container exactly when the daemon still has it.\<close>

lemma cleanup_all_effect:
  "docker_contract dk alive \<Longrightarrow>
     dict_keys (ch_active (cleanup_all dk h)) = filter (\<lambda>c. c \<notin> alive (ch_daemon h)) (dict_keys (ch_active h))"
  unfolding cleanup_all_def by (simp add: cleanup_fold_effect cong: filter_cong)


text \<open>A container that has gone without the manager stays in the table through every later operation.\<close>

lemma vanished_container_stays:
  assumes "\<And>d. \<not> is_ok (dk_get dk c d)" and "dict_has (ch_active h) c"
  shows "dict_has (ch_active (cleanup_all dk h)) c"
proof -
  have rm: "dict_has (ch_active (snd (remove_container dk x f h'))) c" if "dict_has (ch_active h') c" for x f h'
  proof (cases "dk_get dk x (ch_daemon h')")
    case Inl
    then show ?thesis using that by (simp add: remove_container_def ask_then_def call_then_def)
  next
    case (Inr st)
    with assms(1) [of "ch_daemon h'"] have "x \<noteq> c" by auto
    with that Inr show ?thesis
      by (simp add: remove_container_def ask_then_def call_then_def split: prod.split sum.split)
  qed
  have st: "dict_has (ch_active (snd (stop_container dk x n h'))) c" if "dict_has (ch_active h') c" for x n h'
    using that by (simp add: stop_container_def ask_then_def call_then_def set_status_def split: prod.split sum.split)
  have one: "dict_has (ch_active (cleanup_one dk x h')) c" if "dict_has (ch_active h') c" for x h'
  proof -
    obtain r h1 where s: "stop_container dk x 10 h' = (r, h1)" by force
    with st [OF that, of x 10] have "dict_has (ch_active h1) c" by simp
    with rm [OF this, of x True] show ?thesis by (cases r) (simp_all add: cleanup_one_def s)
  qed
  show ?thesis unfolding cleanup_all_def
    by (rule fold_step_keeps [where P = "\<lambda>h. dict_has (ch_active h) c"]) (simp_all add: one assms(2))
qed

section \<open>Sizes\<close>

text \<open>The suffixes of Docker itself are not read.\<close>

lemma memory_examples:
  "parse_memory_string (PStr ''512Mi'') = Inr 536870912"
  "parse_memory_string (PStr ''0.5Gi'') = Inr 536870912"
  "parse_memory_string (PStr ''512m'') = Inl (ValueErr ''512m'')"
  "parse_memory_string (PInt 512) = Inl (AttributeErr ''endswith'')"
  by code_simp+

text \<open>What is reserved is never more than the limit.\<close>

lemma reservation_le_limit:
  assumes "memory_limits l = Inr c" "dict_get c ''mem_limit'' = Some (PInt b)" "0 \<le> b"
  shows "\<exists>r. dict_get c ''mem_reservation'' = Some (PInt r) \<and> 0 \<le> r \<and> r \<le> b"
proof -
  have "trunc (of_int b * (8 / 10)) \<le> b" "0 \<le> trunc (of_int b * (8 / 10))"
    using assms(3) by (simp_all add: trunc_def floor_le_iff)
  then show ?thesis using assms(1,2)
    by (auto simp: memory_limits_def rbind_Inr dict_get_Cons split: option.splits)
qed

section \<open>A daemon\<close>

text \<open>A daemon that numbers its containers and keeps its promise.\<close>

definition ex_docker :: "nat list docker_api" where
  "ex_docker = \<lparr>dk_image = \<lambda>_ _. Inr True, dk_pull = \<lambda>_ d. (Inr (), d),
     dk_create = \<lambda>_ d. (let n = Suc (foldr max d 0) in (Inr (nat_str n), n # d)),
     dk_get = \<lambda>c d. if list_ex (\<lambda>n. nat_str n = c) d then Inr ''running'' else Inl (py_exn PyException ''not found''),
     dk_start = \<lambda>_ d. (Inr (), d), dk_stop = \<lambda>_ _ d. (Inr (), d),
     dk_remove = \<lambda>c _ d. (Inr (), filter (\<lambda>n. nat_str n \<noteq> c) d),
     dk_exec = \<lambda>_ _ d. (Inr \<lparr>ea_exit_code = 0, ea_stdout = None, ea_stderr = None\<rparr>, d),
     dk_put_archive = \<lambda>_ _ _ d. (Inr (), d), dk_get_archive = \<lambda>_ _ _. Inr [], dk_logs = \<lambda>_ _ _. Inr []\<rparr>"

lemma ex_docker_contract: "docker_contract ex_docker (\<lambda>d. nat_str ` set d)"
  by (auto simp: docker_contract_def ex_docker_def list_ex_iff Let_def)


text \<open>A container that is created but does not start is left behind untracked.\<close>

lemma unstarted_container_untracked:
  assumes "fst (create_container dk img name cmd limits env vols net labels now h) = Inl e"
  shows "dict_keys (ch_active (snd (create_container dk img name cmd limits env vols net labels now h))) = dict_keys (ch_active h)"
  using assms by (auto simp: create_container_def ensure_image_def ask_then_def call_then_def
      split: prod.splits sum.splits if_splits)

end
