(* ===== verification/Gateway.thy ===== *)
theory Gateway
  imports ApiKeys GatewayAnalytics
begin

text \<open>
  \<open>src/gateway/api_gateway.py\<close> with the transformers of \<open>gateway/transformation/\<close>, over the keys of
  \<open>ApiKeys\<close> and the tracker of \<open>GatewayAnalytics\<close>. A handler of the gateway suspends while the API runs, so
  it is two steps, up to the call and after it, which other requests may come between. What an API
  returns or raises is an argument of the second step, and so is \<open>render\<close>, what the framework does with a
  content that is no string of the gateway's own.
  Then the portal and the adapters around it.
\<close>

section \<open>Requests and responses\<close>

record gateway_request =
  gr_tenant :: "string option"
  gr_key :: "string option"
  gr_method :: string
  gr_path :: string
  gr_headers :: "(string, string) dict"
  gr_query :: "(string, string) dict"
  gr_json :: "exn + pyval"
  gr_body :: string

datatype media = Json pyval | Octets string

record gateway_response =
  gp_content :: media
  gp_status :: int

definition error_response :: "pyval \<Rightarrow> int \<Rightarrow> gateway_response" where
  "error_response m status = \<lparr>gp_content = Json (PDict [(''error'', m)]), gp_status = status\<rparr>"

definition str_dict :: "(string, string) dict \<Rightarrow> pyval" where
  "str_dict d = PDict (map (\<lambda>(k, v). (k, PStr v)) d)"

text \<open>\<open>RequestTransformer\<close>: only GraphQL changes the shape, and only of a body that is a dictionary.\<close>

definition base_data :: "gateway_request \<Rightarrow> pydict" where
  "base_data r =
     [(''method'', PStr (gr_method r)), (''path'', PStr (gr_path r)), (''headers'', str_dict (gr_headers r)),
      (''query_params'', str_dict (gr_query r))] @
     (if gr_method r \<in> {''POST'', ''PUT'', ''PATCH''}
      then [(''body'', case gr_json r of Inr v \<Rightarrow> v | Inl _ \<Rightarrow> PStr (gr_body r))] else [])"

definition to_graphql :: "pydict \<Rightarrow> pydict" where
  "to_graphql d =
     (case dict_get d ''body'' of
        Some (PDict b) \<Rightarrow>
          [(''query'', dict_get_or b ''query'' PNone), (''variables'', dict_get_or b ''variables'' (PDict [])),
           (''operation_name'', dict_get_or b ''operationName'' PNone)]
      | _ \<Rightarrow> d)"

definition transform_request :: "gateway_request \<Rightarrow> string \<Rightarrow> pydict" where
  "transform_request r protocol = (if protocol = ''graphql'' then to_graphql (base_data r) else base_data r)"

definition transform_response :: "(pyval \<Rightarrow> exn + string) \<Rightarrow> pyval \<Rightarrow> string \<Rightarrow> exn + gateway_response" where
  "transform_response render data protocol =
     (if protocol = ''grpc'' then rbind (render data) (\<lambda>b. Inr \<lparr>gp_content = Octets b, gp_status = 200\<rparr>)
      else Inr \<lparr>gp_content = Json data, gp_status = 200\<rparr>)"

section \<open>State\<close>

record gateway_api =
  ga_name :: string
  ga_version :: string
  ga_protocol :: string
  ga_handler :: string
  ga_methods :: "string list"
  ga_path :: string
  ga_authentication_required :: bool
  ga_rate_limit :: string
  ga_documentation :: pydict
  ga_registered_at :: time
  ga_total_calls :: nat
  ga_total_errors :: nat

record gateway_route =
  go_path :: string
  go_methods :: "string list"
  go_handler :: string

record gateway =
  gw_keys :: key_manager
  gw_tracker :: usage_tracker
  gw_apis :: "(string, gateway_api) dict"
  gw_routes :: "(string, gateway_route) dict"
  gw_sockets :: "(string, nat list) dict"

definition new_gateway :: "key_manager \<Rightarrow> usage_tracker \<Rightarrow> gateway" where
  "new_gateway k u = \<lparr>gw_keys = k, gw_tracker = u, gw_apis = [], gw_routes = [], gw_sockets = []\<rparr>"

definition list_or :: "string list option \<Rightarrow> string list \<Rightarrow> string list" where
  "list_or xs d = (case xs of Some (y # ys) \<Rightarrow> y # ys | _ \<Rightarrow> d)"

definition str_or :: "string option \<Rightarrow> string \<Rightarrow> string" where
  "str_or x d = (case x of Some (c # cs) \<Rightarrow> c # cs | _ \<Rightarrow> d)"

definition api_id_of :: "string \<Rightarrow> string \<Rightarrow> string" where
  "api_id_of name version = name @ '':'' @ version"

definition register_api ::
    "string \<Rightarrow> string \<Rightarrow> string \<Rightarrow> string \<Rightarrow> string list option \<Rightarrow> string option \<Rightarrow> bool \<Rightarrow> string option
      \<Rightarrow> pydict option \<Rightarrow> time \<Rightarrow> gateway \<Rightarrow> string \<times> gateway" where
  "register_api name version protocol handler methods path auth rate docs now g =
     (let i = api_id_of name version;
          a = \<lparr>ga_name = name, ga_version = version, ga_protocol = protocol, ga_handler = handler,
               ga_methods = list_or methods [''GET''], ga_path = str_or path (''/api/'' @ version @ ''/'' @ name),
               ga_authentication_required = auth, ga_rate_limit = str_or rate ''100/minute'',
               ga_documentation = (case docs of None \<Rightarrow> [] | Some d \<Rightarrow> d), ga_registered_at = now,
               ga_total_calls = 0, ga_total_errors = 0\<rparr>
      in (i, g\<lparr>gw_apis := dict_set i a (gw_apis g),
               gw_routes := dict_set i \<lparr>go_path = ga_path a, go_methods = ga_methods a, go_handler = i\<rparr> (gw_routes g)\<rparr>))"

section \<open>Calls\<close>

text \<open>\<open>validate_key\<close> encodes the key first, which \<open>None\<close> does not have.\<close>

definition authenticate ::
    "(string \<Rightarrow> string) \<Rightarrow> string option \<Rightarrow> string \<Rightarrow> time \<Rightarrow> gateway \<Rightarrow> exn + (bool \<times> gateway)" where
  "authenticate hash key tenant now g =
     (case key of
        None \<Rightarrow> Inl (AttributeErr ''encode'')
      | Some k \<Rightarrow> (case validate_key hash k tenant now (gw_keys g) of (ok, km) \<Rightarrow> Inr (ok, g\<lparr>gw_keys := km\<rparr>)))"

definition check_gateway_limit :: "string \<Rightarrow> string \<Rightarrow> string option \<Rightarrow> time \<Rightarrow> gateway \<Rightarrow> exn + (bool \<times> gateway)" where
  "check_gateway_limit api tenant key now g =
     (case dict_get (gw_apis g) api of
        None \<Rightarrow> Inl (KeyErr api)
      | Some a \<Rightarrow> (case check_usage_limit api tenant key (ga_rate_limit a) now (gw_tracker g) of
          (ok, u) \<Rightarrow> Inr (ok, g\<lparr>gw_tracker := u\<rparr>)))"

text \<open>The first step of a handler: it answers at once, or calls the API with the transformed request.\<close>

datatype call_step = Answer gateway_response | Call string string pydict

definition admit_key ::
    "(string \<Rightarrow> string) \<Rightarrow> gateway_api \<Rightarrow> string option \<Rightarrow> string \<Rightarrow> time \<Rightarrow> gateway \<Rightarrow> exn + (bool \<times> gateway)" where
  "admit_key hash a key tenant now g =
     (if ga_authentication_required a then authenticate hash key tenant now g else Inr (True, g))"

definition admit_call ::
    "(string \<Rightarrow> string) \<Rightarrow> string \<Rightarrow> gateway_api \<Rightarrow> gateway_request \<Rightarrow> string \<Rightarrow> time \<Rightarrow> gateway
      \<Rightarrow> exn + (call_step \<times> gateway)" where
  "admit_call hash api a r tenant now g =
     (case admit_key hash a (gr_key r) tenant now g of
        Inl e \<Rightarrow> Inl e
      | Inr (False, g1) \<Rightarrow> Inr (Answer (error_response (PStr ''Invalid or missing API key'') 401), g1)
      | Inr (True, g1) \<Rightarrow>
        (case check_gateway_limit api tenant (gr_key r) now g1 of
           Inl e \<Rightarrow> Inl e
         | Inr (False, g2) \<Rightarrow> Inr (Answer (error_response (PStr ''Rate limit exceeded'') 429), g2)
         | Inr (True, g2) \<Rightarrow> Inr (Call tenant (ga_handler a) (transform_request r (ga_protocol a)), g2)))"

definition begin_call ::
    "(string \<Rightarrow> string) \<Rightarrow> string \<Rightarrow> gateway_request \<Rightarrow> time \<Rightarrow> gateway \<Rightarrow> exn + (call_step \<times> gateway)" where
  "begin_call hash api r now g =
     (case nonempty (gr_tenant r) of
        None \<Rightarrow> Inr (Answer (error_response (PStr ''X-Tenant-ID header required'') 400), g)
      | Some t \<Rightarrow>
        (case dict_get (gw_apis g) api of
           None \<Rightarrow> Inl (KeyErr api)
         | Some a \<Rightarrow> admit_call hash api a r t now g))"

definition count_call :: "bool \<Rightarrow> string \<Rightarrow> gateway \<Rightarrow> gateway" where
  "count_call ok api g =
     g\<lparr>gw_apis := dict_mod api (\<lambda>a. if ok then a\<lparr>ga_total_calls := ga_total_calls a + 1\<rparr>
                                  else a\<lparr>ga_total_errors := ga_total_errors a + 1\<rparr>) (gw_apis g)\<rparr>"

text \<open>The second step: the outcome of the API becomes a response, is tracked and counted.\<close>

definition track_on ::
    "string \<Rightarrow> string \<Rightarrow> string option \<Rightarrow> int \<Rightarrow> rat \<Rightarrow> msg option \<Rightarrow> time \<Rightarrow> gateway \<Rightarrow> gateway" where
  "track_on api tenant key status ms err now g =
     g\<lparr>gw_tracker := track_call api tenant key status ms err now (gw_tracker g)\<rparr>"

definition finish_call ::
    "(pyval \<Rightarrow> exn + string) \<Rightarrow> string \<Rightarrow> string \<Rightarrow> string option \<Rightarrow> time \<Rightarrow> exn + pyval \<Rightarrow> time \<Rightarrow> gateway
      \<Rightarrow> (exn + gateway_response) \<times> gateway" where
  "finish_call render api tenant key began outcome now g =
     (let ms = total_seconds (now - began) * 1000;
          failed = (\<lambda>e. track_on api tenant key 500 ms (Some (ex_message e)) now g)
      in case dict_get (gw_apis g) api of
           None \<Rightarrow> (Inl (KeyErr api), failed (case outcome of Inl e \<Rightarrow> e | Inr _ \<Rightarrow> KeyErr api))
         | Some a \<Rightarrow>
           (case rbind outcome (\<lambda>v. transform_response render v (ga_protocol a)) of
              Inr p \<Rightarrow> (Inr p, count_call True api (track_on api tenant key 200 ms None now g))
            | Inl e \<Rightarrow> (Inr (error_response (msg_val (ex_message e)) 500), count_call False api (failed e))))"

section \<open>Sockets\<close>

text \<open>A connection that is refused is closed; one that is accepted is kept under its tenant until it ends.
  The header of the tenant may be missing: then no key is valid.\<close>

definition socket_tenant :: "string option \<Rightarrow> string" where
  "socket_tenant t = (case t of None \<Rightarrow> [] | Some x \<Rightarrow> x)"

definition open_socket ::
    "(string \<Rightarrow> string) \<Rightarrow> nat \<Rightarrow> string option \<Rightarrow> string option \<Rightarrow> time \<Rightarrow> gateway \<Rightarrow> exn + (bool \<times> gateway)" where
  "open_socket hash w tenant key now g =
     (case (key, tenant) of
        (None, _) \<Rightarrow> Inl (AttributeErr ''encode'')
      | (Some k, None) \<Rightarrow> Inr (False, g)
      | (Some k, Some t) \<Rightarrow>
          rbind (authenticate hash (Some k) t now g) (\<lambda>(ok, g1).
            if ok then Inr (True, g1\<lparr>gw_sockets := dict_set t (dict_get_or (gw_sockets g1) t [] @ [w]) (gw_sockets g1)\<rparr>)
            else Inr (False, g1)))"

definition process_websocket_message :: "string \<Rightarrow> pyval" where
  "process_websocket_message m = PDict [(''status'', PStr ''received''), (''message'', PStr m)]"

definition close_socket :: "nat \<Rightarrow> string \<Rightarrow> gateway \<Rightarrow> gateway" where
  "close_socket w tenant g = g\<lparr>gw_sockets := dict_mod tenant (remove1 w) (gw_sockets g)\<rparr>"

text \<open>The sockets a broadcast is sent to; a socket that fails does not keep it from the others.\<close>

definition broadcast_to_tenant :: "string \<Rightarrow> gateway \<Rightarrow> nat list" where
  "broadcast_to_tenant tenant g = dict_get_or (gw_sockets g) tenant []"

section \<open>Reports\<close>

definition api_summary :: "gateway_api \<Rightarrow> pydict" where
  "api_summary a = [(''name'', PStr (ga_name a)), (''version'', PStr (ga_version a)), (''protocol'', PStr (ga_protocol a)),
     (''path'', PStr (ga_path a)), (''methods'', PList (map PStr (ga_methods a)))]"

definition get_api_documentation :: "string option \<Rightarrow> gateway \<Rightarrow> pydict" where
  "get_api_documentation api g =
     (case nonempty api of
        Some i \<Rightarrow>
          (case dict_get (gw_apis g) i of
             None \<Rightarrow> []
           | Some a \<Rightarrow> (''api_id'', PStr i) # api_summary a @
               [(''authentication_required'', PBool (ga_authentication_required a)),
                (''rate_limit'', PStr (ga_rate_limit a)), (''documentation'', PDict (ga_documentation a))])
      | None \<Rightarrow> map (\<lambda>(i, a). (i, PDict (api_summary a))) (gw_apis g))"

definition get_usage_stats ::
    "string option \<Rightarrow> string option \<Rightarrow> time option \<Rightarrow> time option \<Rightarrow> time \<Rightarrow> gateway \<Rightarrow> exn + (string, stats_view) dict" where
  "get_usage_stats api tenant from_t to_t now g = get_stats api tenant from_t to_t now (gw_tracker g)"

section \<open>Runs\<close>

text \<open>The calls that run, with what their second step needs: API, tenant, key and begin.\<close>

record gateway_run =
  rn_gateway :: gateway
  rn_running :: "(string \<times> string \<times> string option \<times> time) list"

datatype gateway_event =
    Register string string string string "string list option" "string option" bool "string option" "pydict option"
  | Key_op key_op
  | Begin string gateway_request
  | Finish nat "exn + pyval"
  | Open nat "string option" "string option"
  | Close nat string

fun gateway_step ::
    "(string \<Rightarrow> string) \<Rightarrow> (pyval \<Rightarrow> exn + string) \<Rightarrow> gateway_event \<times> time \<Rightarrow> gateway_run \<Rightarrow> gateway_run" where
  "gateway_step hash render (Register n v p h m pa au rl d, now) s =
     s\<lparr>rn_gateway := snd (register_api n v p h m pa au rl d now (rn_gateway s))\<rparr>"
| "gateway_step hash render (Key_op x, now) s =
     s\<lparr>rn_gateway := (rn_gateway s)\<lparr>gw_keys := key_exec hash (x, now) (gw_keys (rn_gateway s))\<rparr>\<rparr>"
| "gateway_step hash render (Begin api r, now) s =
     (case begin_call hash api r now (rn_gateway s) of
        Inl e \<Rightarrow> s
      | Inr (Answer p, g) \<Rightarrow> s\<lparr>rn_gateway := g\<rparr>
      | Inr (Call t h d, g) \<Rightarrow> s\<lparr>rn_gateway := g, rn_running := rn_running s @ [(api, t, gr_key r, now)]\<rparr>)"
| "gateway_step hash render (Finish i outcome, now) s =
     (if i < length (rn_running s)
      then (case rn_running s ! i of (api, t, k, began) \<Rightarrow>
        s\<lparr>rn_gateway := snd (finish_call render api t k began outcome now (rn_gateway s)),
          rn_running := take i (rn_running s) @ drop (Suc i) (rn_running s)\<rparr>)
      else s)"
| "gateway_step hash render (Open w t k, now) s =
     (case open_socket hash w t k now (rn_gateway s) of Inl e \<Rightarrow> s | Inr (b, g) \<Rightarrow> s\<lparr>rn_gateway := g\<rparr>)"
| "gateway_step hash render (Close w t, now) s = s\<lparr>rn_gateway := close_socket w t (rn_gateway s)\<rparr>"

section \<open>Keys\<close>

text \<open>A call is let through exactly when the tenant is given, its key is valid for it, and the limit leaves room.\<close>

definition key_valid :: "(string \<Rightarrow> string) \<Rightarrow> string option \<Rightarrow> string \<Rightarrow> time \<Rightarrow> gateway \<Rightarrow> bool" where
  "key_valid hash key tenant now g \<longleftrightarrow> (\<exists>k. key = Some k \<and> fst (validate_key hash k tenant now (gw_keys g)))"

definition limit_free :: "string \<Rightarrow> string \<Rightarrow> gateway_api \<Rightarrow> time \<Rightarrow> gateway \<Rightarrow> bool" where
  "limit_free api tenant a now g \<longleftrightarrow>
     int (length (filter (\<lambda>c. ac_timestamp c > now - snd (tracker_limit (ga_rate_limit a)) * second)
       (calls_of tenant api (gw_tracker g)))) < fst (tracker_limit (ga_rate_limit a))"

lemma authenticate_frame:
  "authenticate hash key t now g = Inr (ok, g') \<Longrightarrow>
     \<exists>k. key = Some k \<and> ok = fst (validate_key hash k t now (gw_keys g)) \<and>
         g' = g\<lparr>gw_keys := snd (validate_key hash k t now (gw_keys g))\<rparr>"
  by (auto simp: authenticate_def split: option.splits prod.splits)

lemma admit_key_frame:
  assumes "admit_key hash a key t now g = Inr (ok, g')"
  shows "gw_apis g' = gw_apis g" "gw_tracker g' = gw_tracker g" "gw_sockets g' = gw_sockets g"
    "ok \<longleftrightarrow> (ga_authentication_required a \<longrightarrow> key_valid hash key t now g)"
    "gw_keys g' = gw_keys g \<or> (\<exists>k. gw_keys g' = snd (validate_key hash k t now (gw_keys g)))"
  using assms authenticate_frame [of hash key t now g ok g']
  by (auto simp: admit_key_def key_valid_def split: if_splits)

lemma admit_key_fails: "admit_key hash a key t now g = Inl e \<Longrightarrow> ga_authentication_required a \<and> key = None"
  by (auto simp: admit_key_def authenticate_def split: if_splits option.splits prod.splits)

lemma check_gateway_limit_eq:
  assumes "dict_get (gw_apis g) api = Some a"
  shows "check_gateway_limit api t key now g =
    Inr (limit_free api t a now g, g\<lparr>gw_tracker := snd (check_usage_limit api t key (ga_rate_limit a) now (gw_tracker g))\<rparr>)"
  using assms passes_iff [of api t key "ga_rate_limit a" now "gw_tracker g"]
  by (auto simp: check_gateway_limit_def limit_free_def split: prod.split)

text \<open>The first step, when the API is there: which answer it gives, and that it changes only the keys' last
  use and the (empty) entries of the tracker.\<close>

lemma admit_call_cases:
  assumes "dict_get (gw_apis g) api = Some a"
  obtains (no_key) "ga_authentication_required a" "gr_key r = None" "admit_call hash api a r t now g = Inl (AttributeErr ''encode'')"
  | (refused) g1 where "ga_authentication_required a" "\<not> key_valid hash (gr_key r) t now g"
      "admit_key hash a (gr_key r) t now g = Inr (False, g1)"
      "admit_call hash api a r t now g = Inr (Answer (error_response (PStr ''Invalid or missing API key'') 401), g1)"
  | (limited) g1 u where "\<not> limit_free api t a now g" "admit_key hash a (gr_key r) t now g = Inr (True, g1)"
      "u = snd (check_usage_limit api t (gr_key r) (ga_rate_limit a) now (gw_tracker g))"
      "admit_call hash api a r t now g = Inr (Answer (error_response (PStr ''Rate limit exceeded'') 429), g1\<lparr>gw_tracker := u\<rparr>)"
  | (called) g1 u where "limit_free api t a now g" "ga_authentication_required a \<longrightarrow> key_valid hash (gr_key r) t now g"
      "admit_key hash a (gr_key r) t now g = Inr (True, g1)"
      "u = snd (check_usage_limit api t (gr_key r) (ga_rate_limit a) now (gw_tracker g))"
      "admit_call hash api a r t now g =
         Inr (Call t (ga_handler a) (transform_request r (ga_protocol a)), g1\<lparr>gw_tracker := u\<rparr>)"
proof (cases "admit_key hash a (gr_key r) t now g")
  case (Inl e)
  with admit_key_fails [OF this] show ?thesis
    by (intro no_key) (auto simp: admit_call_def admit_key_def authenticate_def)
next
  case (Inr q)
  obtain ok g1 where q: "q = (ok, g1)" by force
  note fr = admit_key_frame [OF Inr [unfolded q]]
  show ?thesis
  proof (cases ok)
    case False
    then show ?thesis using Inr q fr(4) by (intro refused [of g1]) (auto simp: admit_call_def)
  next
    case True
    have "dict_get (gw_apis g1) api = Some a" using assms fr(1) by simp
    note eq = check_gateway_limit_eq [OF this, of t "gr_key r" now]
    have fe: "limit_free api t a now g1 = limit_free api t a now g" by (simp add: limit_free_def fr(2))
    show ?thesis
    proof (cases "limit_free api t a now g")
      case lf: True
      then show ?thesis using Inr q True fr eq fe
        by (intro called [of g1 "snd (check_usage_limit api t (gr_key r) (ga_rate_limit a) now (gw_tracker g))"])
          (auto simp: admit_call_def)
    next
      case lf: False
      then show ?thesis using Inr q True fr eq fe
        by (intro limited [of g1 "snd (check_usage_limit api t (gr_key r) (ga_rate_limit a) now (gw_tracker g))"])
          (auto simp: admit_call_def)
    qed
  qed
qed

text \<open>A call is let through exactly when the tenant is given, its key is valid for it where one is asked for, and
  the limit leaves room.\<close>

lemma begin_call_passes_iff:
  "(\<exists>t h d g'. begin_call hash api r now g = Inr (Call t h d, g')) \<longleftrightarrow>
     (\<exists>t a. nonempty (gr_tenant r) = Some t \<and> dict_get (gw_apis g) api = Some a \<and>
        (ga_authentication_required a \<longrightarrow> key_valid hash (gr_key r) t now g) \<and> limit_free api t a now g)"
proof (cases "nonempty (gr_tenant r)")
  case None
  then show ?thesis by (simp add: begin_call_def)
next
  case t: (Some t)
  show ?thesis
  proof (cases "dict_get (gw_apis g) api")
    case None
    with t show ?thesis by (simp add: begin_call_def)
  next
    case (Some a)
    have "key_valid hash (gr_key r) t now g \<Longrightarrow> gr_key r \<noteq> None" by (auto simp: key_valid_def)
    moreover have "admit_key hash a (gr_key r) t now g = Inr (True, g1) \<Longrightarrow>
        ga_authentication_required a \<longrightarrow> key_valid hash (gr_key r) t now g" for g1
      using admit_key_frame(4) by blast
    ultimately show ?thesis using t Some
      by (cases rule: admit_call_cases [OF Some, of r hash t now]) (auto simp: begin_call_def)
  qed
qed

lemma begin_call_admits:
  "begin_call hash api r now g = Inr (x, g') \<Longrightarrow>
     g' = g \<or> (\<exists>a t. dict_get (gw_apis g) api = Some a \<and> admit_call hash api a r t now g = Inr (x, g'))"
  by (auto simp: begin_call_def split: option.splits)

lemma admit_call_frame:
  assumes "dict_get (gw_apis g) api = Some a" "admit_call hash api a r u now g = Inr (x, g')"
  shows "\<exists>ok g1. admit_key hash a (gr_key r) u now g = Inr (ok, g1) \<and>
    (g' = g1 \<or> g' = g1\<lparr>gw_tracker := snd (check_usage_limit api u (gr_key r) (ga_rate_limit a) now (gw_tracker g))\<rparr>)"
  using assms(2) by (cases rule: admit_call_cases [OF assms(1), of r hash u now]) auto

lemma begin_call_frame:
  assumes "begin_call hash api r now g = Inr (x, g')"
  shows "gw_apis g' = gw_apis g" "calls_of t i (gw_tracker g') = calls_of t i (gw_tracker g)"
    "gw_keys g' = gw_keys g \<or> (\<exists>k u. gw_keys g' = snd (validate_key hash k u now (gw_keys g)))"
proof -
  consider "g' = g" | a u where "dict_get (gw_apis g) api = Some a" "admit_call hash api a r u now g = Inr (x, g')"
    using begin_call_admits [OF assms] by blast
  then have "gw_apis g' = gw_apis g \<and> calls_of t i (gw_tracker g') = calls_of t i (gw_tracker g) \<and>
    (gw_keys g' = gw_keys g \<or> (\<exists>k u. gw_keys g' = snd (validate_key hash k u now (gw_keys g))))"
  proof cases
    case 1
    then show ?thesis by simp
  next
    case 2
    from admit_call_frame [OF 2] obtain ok g1 where k: "admit_key hash a (gr_key r) u now g = Inr (ok, g1)"
      and g': "g' = g1 \<or> g' = g1\<lparr>gw_tracker := snd (check_usage_limit api u (gr_key r) (ga_rate_limit a) now (gw_tracker g))\<rparr>"
      by blast
    note fr = admit_key_frame [OF k]
    from g' have "gw_apis g' = gw_apis g" "calls_of t i (gw_tracker g') = calls_of t i (gw_tracker g)" "gw_keys g' = gw_keys g1"
      using fr(1,2) by auto
    with fr(5) show ?thesis by metis
  qed
  then show "gw_apis g' = gw_apis g" "calls_of t i (gw_tracker g') = calls_of t i (gw_tracker g)"
    "gw_keys g' = gw_keys g \<or> (\<exists>k u. gw_keys g' = snd (validate_key hash k u now (gw_keys g)))" by blast+
qed

section \<open>A revoked key\<close>

text \<open>Every step changes the keys as one operation of the key manager, or not at all.\<close>

lemma open_socket_keys:
  assumes "open_socket hash w t k now g = Inr (b, g')"
  shows "gw_keys g' = gw_keys g \<or> (\<exists>k u. gw_keys g' = snd (validate_key hash k u now (gw_keys g)))"
proof (cases "gw_keys g' = gw_keys g")
  case False
  with assms obtain k' t' where "k = Some k'" "t = Some t'"
    and "rbind (authenticate hash (Some k') t' now g) (\<lambda>(ok, g1).
        if ok then Inr (True, g1\<lparr>gw_sockets := dict_set t' (dict_get_or (gw_sockets g1) t' [] @ [w]) (gw_sockets g1)\<rparr>)
        else Inr (False, g1)) = Inr (b, g')"
    by (auto simp: open_socket_def split: option.splits)
  then have "gw_keys g' = snd (validate_key hash k' t' now (gw_keys g))"
    by (auto simp: rbind_Inr dest!: authenticate_frame split: if_splits)
  then show ?thesis by blast
qed simp

lemma finish_call_keys [simp]: "gw_keys (snd (finish_call render api t k b x now g)) = gw_keys g"
  by (auto simp: finish_call_def Let_def count_call_def track_on_def split: option.split sum.split)

lemma register_keys [simp]: "gw_keys (snd (register_api n v p h m pa au rl d now g)) = gw_keys g"
  by (simp add: register_api_def Let_def)

fun drawn_keys :: "gateway_event \<times> time \<Rightarrow> string list" where
  "drawn_keys (Key_op x, now) = drawn x"
| "drawn_keys _ = []"

lemma revoked_inv_exec:
  "revoked_inv hash h s \<Longrightarrow> \<forall>k \<in> set (drawn x). hash k \<noteq> h \<Longrightarrow> revoked_inv hash h (key_exec hash (x, now) s)"
  using revoked.inv_exec [of hash h s "(x, now)"] by (simp add: safe_exec_def)

lemma revoked_inv_validate: "revoked_inv hash h s \<Longrightarrow> revoked_inv hash h (snd (validate_key hash k t now s))"
  using revoked_inv_exec [of hash h s "Validate k t" now] by simp

lemma gateway_step_revoked:
  assumes "revoked_inv hash h (gw_keys (rn_gateway s))" and "\<forall>k \<in> set (drawn_keys x). hash k \<noteq> h"
  shows "revoked_inv hash h (gw_keys (rn_gateway (gateway_step hash render x s)))"
proof -
  obtain ev now where x: "x = (ev, now)" by force
  show ?thesis
  proof (cases ev)
    case (Begin api r)
    show ?thesis
    proof (cases "begin_call hash api r now (rn_gateway s)")
      case (Inr q)
      obtain y g where q: "q = (y, g)" by force
      from begin_call_frame(3) [OF Inr [unfolded q]] assms(1) have "revoked_inv hash h (gw_keys g)"
        by (auto intro: revoked_inv_validate)
      then show ?thesis using x Begin Inr q by (cases y) simp_all
    qed (use x Begin assms in simp)
  next
    case (Open w t k)
    show ?thesis
    proof (cases "open_socket hash w t k now (rn_gateway s)")
      case (Inr q)
      obtain y g where q: "q = (y, g)" by force
      from open_socket_keys [OF Inr [unfolded q]] assms(1) show ?thesis
        using x Open Inr q by (auto intro: revoked_inv_validate)
    qed (use x Open assms in simp)
  next
    case (Finish i y)
    then show ?thesis using x assms by (auto split: prod.split)
  next
    case (Key_op y)
    then show ?thesis using x assms revoked_inv_exec by auto
  qed (use x assms in \<open>simp_all add: close_socket_def\<close>)
qed

lemma gateway_run_revoked:
  "revoked_inv hash h (gw_keys (rn_gateway s)) \<Longrightarrow> \<forall>x \<in> set evs. \<forall>k \<in> set (drawn_keys x). hash k \<noteq> h \<Longrightarrow>
     revoked_inv hash h (gw_keys (rn_gateway (fold (gateway_step hash render) evs s)))"
  by (induction evs arbitrary: s) (simp_all add: gateway_step_revoked)

lemma revoked_not_valid: "revoked_inv hash (hash k) (gw_keys g) \<Longrightarrow> \<not> key_valid hash (Some k) t now g"
  by (auto simp: key_valid_def revoked_inv_def inactive_def validate_key_def split: if_splits option.splits)

lemma revoke_revokes:
  assumes "dict_ok (km_keys s)" "find_key i t s = Some (hash k, info)"
  shows "revoked_inv hash (hash k) (snd (revoke_key i t now s))"
  using assms by (auto simp: revoke_key_def revoked_inv_def inactive_def)

text \<open>
  C11: after a key has been revoked, no request that carries it reaches an API that asks for a key, for any
  tenant and at any time, whatever requests, registrations and operations on keys follow, as long as no new
  key is drawn with the same hash.
\<close>

theorem revoked_key_reaches_nothing:
  assumes "dict_ok (km_keys (gw_keys g))" and "find_key i t (gw_keys g) = Some (hash k, info)"
    and "s = \<lparr>rn_gateway = g\<lparr>gw_keys := snd (revoke_key i t now (gw_keys g))\<rparr>, rn_running = run\<rparr>"
    and "\<forall>x \<in> set evs. \<forall>k' \<in> set (drawn_keys x). hash k' \<noteq> hash k"
    and "g' = rn_gateway (fold (gateway_step hash render) evs s)"
    and "dict_get (gw_apis g') api = Some a" "ga_authentication_required a" "gr_key r = Some k"
  shows "begin_call hash api r now' g' \<noteq> Inr (Call u h d, g'')"
proof
  assume "begin_call hash api r now' g' = Inr (Call u h d, g'')"
  with begin_call_passes_iff [of hash api r now' g'] assms(6,7,8)
  have "\<exists>v. key_valid hash (Some k) v now' g'" by auto
  moreover have "revoked_inv hash (hash k) (gw_keys g')"
    unfolding assms(5)
    by (rule gateway_run_revoked [OF _ assms(4)]) (simp add: assms(3) revoke_revokes [where hash = hash, OF assms(1,2)])
  ultimately show False using revoked_not_valid by blast
qed

section \<open>Calls that overlap\<close>

text \<open>A limit is read off the calls that have ended, so time alone frees it and calls that run do not fill it.\<close>

lemma later_filter_shorter:
  "now \<le> now' \<Longrightarrow> length (filter (\<lambda>c. f c > now' - p) cs) \<le> length (filter (\<lambda>c. f c > now - (p :: time)) cs)"
  by (induction cs) auto

lemma limit_free_later:
  assumes "limit_free api t a now g" "now \<le> now'" "calls_of t api (gw_tracker g') = calls_of t api (gw_tracker g)"
  shows "limit_free api t a now' g'"
proof -
  let ?p = "snd (tracker_limit (ga_rate_limit a)) * second" and ?cs = "calls_of t api (gw_tracker g)"
  have "length (filter (\<lambda>c. ac_timestamp c > now' - ?p) ?cs) \<le> length (filter (\<lambda>c. ac_timestamp c > now - ?p) ?cs)"
    using assms(2) by (rule later_filter_shorter)
  then show ?thesis using assms(1,3) by (simp add: limit_free_def)
qed

fun is_begin :: "gateway_event \<times> time \<Rightarrow> bool" where
  "is_begin (Begin api r, now) = True"
| "is_begin _ = False"

lemma begins_frame:
  "list_all is_begin evs \<Longrightarrow>
     gw_apis (rn_gateway (fold (gateway_step hash render) evs s)) = gw_apis (rn_gateway s) \<and>
     calls_of t i (gw_tracker (rn_gateway (fold (gateway_step hash render) evs s))) = calls_of t i (gw_tracker (rn_gateway s))"
proof (induction evs arbitrary: s)
  case Nil
  show ?case by simp
next
  case (Cons x evs)
  obtain api r now where x: "x = (Begin api r, now)" using Cons.prems by (cases x rule: is_begin.cases) auto
  have "gw_apis (rn_gateway (gateway_step hash render x s)) = gw_apis (rn_gateway s) \<and>
      calls_of t i (gw_tracker (rn_gateway (gateway_step hash render x s))) = calls_of t i (gw_tracker (rn_gateway s))"
  proof (cases "begin_call hash api r now (rn_gateway s)")
    case (Inr q)
    obtain y g where q: "q = (y, g)" by force
    show ?thesis using x Inr q begin_call_frame(1,2) [OF Inr [unfolded q]] by (cases y) auto
  qed (use x in simp)
  with Cons.IH [of "gateway_step hash render x s"] Cons.prems show ?case by simp
qed

text \<open>
  C35: once a request for an API without authentication passes, every later one of the same tenant passes too
  until a call ends, however many have begun: the limit does not bound the calls that run at once.
\<close>

theorem running_calls_unlimited:
  assumes "begin_call hash api r now (rn_gateway s) = Inr (Call t h d, g)"
    and "dict_get (gw_apis (rn_gateway s)) api = Some a" "\<not> ga_authentication_required a"
    and "list_all is_begin evs" "now \<le> now'" "gr_tenant r' = gr_tenant r"
  shows "\<exists>d' g'. begin_call hash api r' now' (rn_gateway (fold (gateway_step hash render) evs s)) = Inr (Call t (ga_handler a) d', g')"
proof -
  let ?g = "rn_gateway (fold (gateway_step hash render) evs s)"
  obtain u where u: "nonempty (gr_tenant r) = Some u" "limit_free api u a now (rn_gateway s)"
    using begin_call_passes_iff [of hash api r now "rn_gateway s"] assms(1,2) by auto
  have "t = u" using assms(1-3) u
    by (cases rule: admit_call_cases [OF assms(2), of r hash u now]) (auto simp: begin_call_def)
  note fr = begins_frame [OF assms(4), of hash render s u api]
  have free: "limit_free api u a now' ?g" using limit_free_later [OF u(2) assms(5)] fr by blast
  have there: "dict_get (gw_apis ?g) api = Some a" using fr assms(2) by simp
  show ?thesis
    using assms(3,6) u(1) free there \<open>t = u\<close>
    by (cases rule: admit_call_cases [OF there, of r' hash u now']) (auto simp: begin_call_def)
qed

section \<open>Examples\<close>

text \<open>A request without a key does not get the answer 401: it raises.\<close>

lemma missing_key_raises:
  assumes "dict_get (gw_apis g) api = Some a" "ga_authentication_required a" "nonempty (gr_tenant r) = Some t" "gr_key r = None"
  shows "begin_call hash api r now g = Inl (AttributeErr ''encode'')"
  using assms by (simp add: begin_call_def admit_call_def admit_key_def authenticate_def)

definition ex_render :: "pyval \<Rightarrow> exn + string" where
  "ex_render v = (case v of PStr x \<Rightarrow> Inr x | _ \<Rightarrow> Inl (AttributeErr ''encode''))"

definition ex_gateway :: "bool \<Rightarrow> gateway" where
  "ex_gateway auth = snd (register_api ''execute'' ''v1'' ''rest'' ''run'' (Some [''POST'']) None auth (Some ''1/minute'') None 0
     (new_gateway ex_keys empty_tracker))"

definition ex_request :: "string option \<Rightarrow> gateway_request" where
  "ex_request key = \<lparr>gr_tenant = Some ''acme'', gr_key = key, gr_method = ''POST'', gr_path = ''/api/v1/execute'', gr_headers = [],
     gr_query = [], gr_json = Inr (PDict []), gr_body = []\<rparr>"

definition ex_events :: "(gateway_event \<times> time) list" where
  "ex_events = [(Begin ''execute:v1'' (ex_request None), 2), (Begin ''execute:v1'' (ex_request None), 3),
     (Begin ''execute:v1'' (ex_request (Some ''k2'')), 4)]"

lemma ex_gateway_api:
  "dict_get (gw_apis (ex_gateway auth)) ''execute:v1'' = Some \<lparr>ga_name = ''execute'', ga_version = ''v1'', ga_protocol = ''rest'',
     ga_handler = ''run'', ga_methods = [''POST''], ga_path = ''/api/v1/execute'', ga_authentication_required = auth,
     ga_rate_limit = ''1/minute'', ga_documentation = [], ga_registered_at = 0, ga_total_calls = 0, ga_total_errors = 0\<rparr>"
  by (simp add: ex_gateway_def register_api_def api_id_of_def list_or_def str_or_def Let_def)

lemma one_minute: "tracker_limit ''1/minute'' = (1, 60)"
  by code_simp

theorem running_calls_unlimited_witness:
  "\<exists>d g. begin_call id ''execute:v1'' (ex_request None) 5
     (rn_gateway (fold (gateway_step id ex_render) ex_events \<lparr>rn_gateway = ex_gateway False, rn_running = []\<rparr>))
     = Inr (Call ''acme'' ''run'' d, g)"
proof -
  let ?s = "\<lparr>rn_gateway = ex_gateway False, rn_running = []\<rparr>"
  obtain a where a: "dict_get (gw_apis (ex_gateway False)) ''execute:v1'' = Some a" "\<not> ga_authentication_required a"
      "ga_rate_limit a = ''1/minute''" "ga_handler a = ''run''"
    by (simp add: ex_gateway_api)
  have "calls_of ''acme'' ''execute:v1'' (gw_tracker (ex_gateway False)) = []"
    by (simp add: ex_gateway_def register_api_def Let_def new_gateway_def empty_tracker_def calls_of_def dict_get_or_def)
  then have free: "limit_free ''execute:v1'' ''acme'' a 1 (ex_gateway False)"
    using a(3) by (simp add: limit_free_def one_minute)
  have t: "nonempty (gr_tenant (ex_request None)) = Some ''acme''" by (simp add: ex_request_def nonempty_def)
  obtain d g where b: "begin_call id ''execute:v1'' (ex_request None) 1 (rn_gateway ?s) = Inr (Call ''acme'' (ga_handler a) d, g)"
    using free a(1,2) t
    by (cases rule: admit_call_cases [OF a(1), of "ex_request None" id "''acme''" 1]) (auto simp: begin_call_def)
  show ?thesis
    using running_calls_unlimited [OF b, of a ex_events 5 "ex_request None" ex_render] a by (simp add: ex_events_def)
qed

definition ex_after_revocation :: "(gateway_event \<times> time) list" where
  "ex_after_revocation = [(Begin ''execute:v1'' (ex_request (Some ''k1'')), 6),
     (Key_op (Generate ''k2'' ''id2'' ''acme'' ''x'' None 30 ''2/minute''), 7)]"

lemma ex_run_api:
  "\<exists>a. dict_get (gw_apis (rn_gateway (fold (gateway_step id ex_render) ex_after_revocation
      \<lparr>rn_gateway = (ex_gateway True)\<lparr>gw_keys := ks\<rparr>, rn_running = []\<rparr>))) ''execute:v1'' = Some a \<and> ga_authentication_required a"
proof -
  let ?s = "\<lparr>rn_gateway = (ex_gateway True)\<lparr>gw_keys := ks\<rparr>, rn_running = []\<rparr>"
  have "gw_apis (rn_gateway (gateway_step id ex_render (Begin ''execute:v1'' (ex_request (Some ''k1'')), 6) ?s)) = gw_apis (ex_gateway True)"
    using begins_frame [of "[(Begin ''execute:v1'' (ex_request (Some ''k1'')), 6)]" id ex_render ?s] by simp
  then show ?thesis by (simp add: ex_after_revocation_def ex_gateway_api del: gateway_step.simps(3))
qed

theorem revoked_key_reaches_nothing_witness:
  "\<forall>u h d g. begin_call id ''execute:v1'' (ex_request (Some ''k1'')) 9
     (rn_gateway (fold (gateway_step id ex_render) ex_after_revocation
        \<lparr>rn_gateway = (ex_gateway True)\<lparr>gw_keys := snd (revoke_key ''id1'' ''acme'' 5 (gw_keys (ex_gateway True)))\<rparr>, rn_running = []\<rparr>))
     \<noteq> Inr (Call u h d, g)"
proof (intro allI)
  fix u h d g
  have keys: "gw_keys (ex_gateway True) = ex_keys" by (simp add: ex_gateway_def new_gateway_def)
  have 1: "dict_ok (km_keys (gw_keys (ex_gateway True)))"
    unfolding keys by (simp add: ex_keys_def generate_key_def new_key_manager_def)
  obtain k where 2: "find_key ''id1'' ''acme'' (gw_keys (ex_gateway True)) = Some (id ''k1'', k)"
    unfolding keys by (simp add: ex_keys_def generate_key_def new_key_manager_def find_key_def dict_set_def)
  obtain a where a: "dict_get (gw_apis (rn_gateway (fold (gateway_step id ex_render) ex_after_revocation
      \<lparr>rn_gateway = (ex_gateway True)\<lparr>gw_keys := snd (revoke_key ''id1'' ''acme'' 5 (gw_keys (ex_gateway True)))\<rparr>, rn_running = []\<rparr>)))
      ''execute:v1'' = Some a" "ga_authentication_required a"
    using ex_run_api by blast
  have 3: "\<forall>x \<in> set ex_after_revocation. \<forall>k' \<in> set (drawn_keys x). id k' \<noteq> id ''k1''"
    by (simp add: ex_after_revocation_def)
  show "begin_call id ''execute:v1'' (ex_request (Some ''k1'')) 9
     (rn_gateway (fold (gateway_step id ex_render) ex_after_revocation
        \<lparr>rn_gateway = (ex_gateway True)\<lparr>gw_keys := snd (revoke_key ''id1'' ''acme'' 5 (gw_keys (ex_gateway True)))\<rparr>, rn_running = []\<rparr>))
     \<noteq> Inr (Call u h d, g)"
    by (rule revoked_key_reaches_nothing [where k = "''k1''", OF 1 2 refl 3 refl a]) (simp add: ex_request_def)
qed

section \<open>The portal and the adapters\<close>

text \<open>
  The rest of \<open>src/gateway/\<close>: the applications of \<open>developer_portal/portal_service.py\<close>, the server of
  \<open>protocol_adapters/grpc_adapter.py\<close>, the requests of \<open>rest_adapter.py\<close>, the schemas of
  \<open>transformation/schema_convertor.py\<close> and the reports of \<open>analytics/api_analytics.py\<close>. Most of it answers
  with fixed data.
\<close>

section \<open>Applications\<close>

record application =
  ap_id :: string
  ap_name :: string
  ap_email :: string
  ap_description :: string
  ap_created_at :: time
  ap_status :: string

record portal =
  po_gateway :: gateway
  po_applications :: "(string, application) dict"

definition new_portal :: "gateway \<Rightarrow> portal" where
  "new_portal g = \<lparr>po_gateway = g, po_applications = []\<rparr>"

definition register_application :: "string \<Rightarrow> string \<Rightarrow> string \<Rightarrow> time \<Rightarrow> portal \<Rightarrow> application \<times> portal" where
  "register_application name email description now p =
     (let i = ''app_'' @ nat_str (length (po_applications p));
          a = \<lparr>ap_id = i, ap_name = name, ap_email = email, ap_description = description, ap_created_at = now,
               ap_status = ''active''\<rparr>
      in (a, p\<lparr>po_applications := dict_set i a (po_applications p)\<rparr>))"

definition portal_documentation :: "string option \<Rightarrow> portal \<Rightarrow> pydict" where
  "portal_documentation api p = get_api_documentation api (po_gateway p)"

definition get_usage_analytics :: "string \<Rightarrow> nat \<Rightarrow> pydict" where
  "get_usage_analytics app days =
     [(''app_id'', PStr app), (''period_days'', PInt (int days)), (''total_calls'', PInt 0),
      (''calls_by_api'', PDict []), (''calls_by_day'', PList [])]"

text \<open>The keys the portal hands out on a rotation are made from the key's identifier alone.\<close>

record rotation =
  ro_key_id :: string
  ro_new_key :: string
  ro_expires_at :: time

definition rotate_portal_key :: "string \<Rightarrow> time \<Rightarrow> rotation" where
  "rotate_portal_key key_id now = \<lparr>ro_key_id = key_id, ro_new_key = ''eso_new_'' @ key_id, ro_expires_at = now\<rparr>"

section \<open>The gRPC server\<close>

record grpc_server =
  gs_host :: string
  gs_port :: nat
  gs_status :: string

record grpc_adapter =
  gd_server :: "grpc_server option"
  gd_services :: "string list"

definition new_grpc_adapter :: grpc_adapter where
  "new_grpc_adapter = \<lparr>gd_server = None, gd_services = []\<rparr>"

definition start_server :: "string \<Rightarrow> nat \<Rightarrow> grpc_adapter \<Rightarrow> grpc_server \<times> grpc_adapter" where
  "start_server host port s =
     (let v = \<lparr>gs_host = host, gs_port = port, gs_status = ''running''\<rparr> in (v, s\<lparr>gd_server := Some v\<rparr>))"

definition stop_server :: "grpc_adapter \<Rightarrow> grpc_adapter" where
  "stop_server s = s\<lparr>gd_server := map_option (\<lambda>v. v\<lparr>gs_status := ''stopped''\<rparr>) (gd_server s)\<rparr>"

definition register_service :: "string \<Rightarrow> grpc_adapter \<Rightarrow> grpc_adapter" where
  "register_service name s = s\<lparr>gd_services := (if name \<in> set (gd_services s) then gd_services s else gd_services s @ [name])\<rparr>"

text \<open>The outer status is \<open>running\<close> once a server has been started, also after it has stopped.\<close>

definition get_server_info :: "grpc_adapter \<Rightarrow> grpc_server option \<times> string list \<times> string" where
  "get_server_info s =
     (gd_server s, gd_services s, if gd_server s = None then ''stopped'' else ''running'')"

definition stream_answers :: "pyval list \<Rightarrow> pydict list" where
  "stream_answers rs =
     map (\<lambda>(i, r). [(''sequence'', PInt (int i)), (''data'', r), (''status'', PStr ''streaming'')]) (enumerate 0 rs)"

section \<open>Requests, schemas, reports\<close>

definition rest_request :: "gateway_request \<Rightarrow> exn + pydict" where
  "rest_request r =
     rbind (if gr_method r \<in> {''POST'', ''PUT''} then gr_json r else Inr PNone) (\<lambda>b.
       Inr [(''method'', PStr (gr_method r)), (''path'', PStr (gr_path r)), (''query_params'', str_dict (gr_query r)),
            (''headers'', str_dict (gr_headers r)), (''body'', b)])"

definition openapi_stub :: "string \<Rightarrow> pydict" where
  "openapi_stub title =
     [(''openapi'', PStr ''3.0.0''), (''info'', PDict [(''title'', PStr title), (''version'', PStr ''1.0.0'')]), (''paths'', PDict [])]"

definition convert :: "pydict \<Rightarrow> string \<Rightarrow> string \<Rightarrow> pydict" where
  "convert schema from_format to_format =
     (let k = from_format @ ''_to_'' @ to_format
      in if k = ''openapi_to_graphql'' then [(''types'', PList []), (''queries'', PList []), (''mutations'', PList [])]
         else if k = ''graphql_to_openapi'' then openapi_stub ''Converted API''
         else if k = ''proto_to_openapi'' then openapi_stub ''gRPC API''
         else schema)"

text \<open>The loop over the days of a report, by the number of days it still has to do.\<close>

fun daily_entries :: "nat \<Rightarrow> time \<Rightarrow> time \<Rightarrow> (int \<times> int \<times> int) list" where
  "daily_entries 0 current end_date = []"
| "daily_entries (Suc n) current end_date =
     (if current \<le> end_date then civil (day_number current) # daily_entries n (current + day) end_date else [])"

definition get_daily_usage :: "nat \<Rightarrow> time \<Rightarrow> (int \<times> int \<times> int) list" where
  "get_daily_usage days now = daily_entries (Suc (Suc days)) (now - int days * day) now"

section \<open>Properties\<close>

lemma nat_str_eq [simp]: "nat_str m = nat_str n \<longleftrightarrow> m = n"
proof
  assume "nat_str m = nat_str n"
  then have "py_int (nat_str m) = py_int (nat_str n)" by (rule arg_cong)
  then show "m = n" unfolding py_int_nat_str by simp
qed simp

definition portal_inv :: "portal \<Rightarrow> bool" where
  "portal_inv p \<longleftrightarrow> dict_keys (po_applications p) = map (\<lambda>n. ''app_'' @ nat_str n) [0..<length (po_applications p)]"

lemma portal_inv_register: "portal_inv p \<Longrightarrow> portal_inv (snd (register_application n e d now p))"
proof -
  assume inv: "portal_inv p"
  let ?i = "''app_'' @ nat_str (length (po_applications p))"
  have "?i \<notin> set (dict_keys (po_applications p))"
    using inv by (auto simp: portal_inv_def)
  then have new: "\<not> dict_has (po_applications p) ?i" by (simp add: dict_has_keys)
  then have "po_applications (snd (register_application n e d now p)) =
      po_applications p @ [(?i, fst (register_application n e d now p))]"
    by (simp add: register_application_def Let_def dict_set_new)
  then show "portal_inv (snd (register_application n e d now p))" using inv by (simp add: portal_inv_def dict_keys_def)
qed

text \<open>No registration replaces another application: their number is that of the registrations.\<close>

lemma applications_counted:
  "length (po_applications (fold (\<lambda>(n, e, d, now) p. snd (register_application n e d now p)) rs (new_portal g))) = length rs"
proof -
  have "portal_inv p \<Longrightarrow> length (po_applications (fold (\<lambda>(n, e, d, now) p. snd (register_application n e d now p)) rs p)) =
      length (po_applications p) + length rs" for p
  proof (induction rs arbitrary: p)
    case Nil
    then show ?case by simp
  next
    case (Cons r rs)
    obtain n e d now where r: "r = (n, e, d, now)" by (metis prod_cases4)
    have "length (po_applications (snd (register_application n e d now p))) = Suc (length (po_applications p))"
      using Cons.prems by (auto simp: register_application_def Let_def length_dict_set dict_has_keys portal_inv_def)
    with Cons.IH [OF portal_inv_register [OF Cons.prems, of n e d now]] r show ?case by simp
  qed
  then show ?thesis by (simp add: new_portal_def portal_inv_def dict_keys_def)
qed

text \<open>A key handed out by a rotation of the portal is valid only if the manager happens to have it.\<close>

lemma rotated_portal_key_unknown:
  assumes "\<not> dict_has (km_keys (gw_keys (po_gateway p))) (hash (ro_new_key (rotate_portal_key key_id now)))"
  shows "\<not> key_valid hash (Some (ro_new_key (rotate_portal_key key_id now))) tenant now' (po_gateway p)"
  using assms by (simp add: key_valid_def validate_key_def dict_has_def)

lemma stopped_server_runs: "gd_server s \<noteq> None \<Longrightarrow> snd (snd (get_server_info (stop_server s))) = ''running''"
  by (auto simp: get_server_info_def stop_server_def)

lemma daily_entries_length:
  "current + int n * day \<le> end_date \<Longrightarrow> end_date < current + int (Suc n) * day \<Longrightarrow> length (daily_entries (Suc (Suc n)) current end_date) = Suc n"
proof (induction n arbitrary: current)
  case 0
  then show ?case by (simp add: day_def hour_def minute_def second_def)
next
  case (Suc n)
  have le: "current \<le> end_date" using Suc.prems by (simp add: day_def hour_def minute_def second_def)
  have "length (daily_entries (Suc (Suc n)) (current + day) end_date) = Suc n"
    using Suc.prems by (intro Suc.IH) (simp_all add: algebra_simps)
  with le show ?case by simp
qed

text \<open>A report over some days has an entry for each and one for today: the fuel is never used up.\<close>

lemma daily_usage_length: "length (get_daily_usage days now) = Suc days"
  unfolding get_daily_usage_def by (rule daily_entries_length) (simp_all add: algebra_simps day_def hour_def minute_def second_def)

end
