(* ===== verification/Alerting.thy ===== *)
theory Alerting
  imports Calendar Exceptions
begin

text \<open>
  \<open>src/monitoring/alerting.py\<close>: alerts with deduplication, silences, notification and escalation. The
  module uses three names it neither defines nor imports; which of them exist is the argument \<open>env\<close>, and
  \<open>shipped_env\<close> has none. An alert is a dictionary that the table and the history share: the history is
  the store, and the table refers to places in it. Its identifier, the name and the time of its begin
  in one string, is the pair. The escalation of an alert sleeps between its steps, so each step is an
  operation of its own; the rest of \<open>send_alert\<close> is one. What the HTTP posts answer is an argument.
\<close>

section \<open>The module's names\<close>

record alert_env =
  ae_logger :: bool
  ae_uuid :: bool
  ae_urls :: "(string, string) dict option"

definition shipped_env :: alert_env where
  "shipped_env = \<lparr>ae_logger = False, ae_uuid = False, ae_urls = None\<rparr>"

definition whole_env :: "(string, string) dict \<Rightarrow> alert_env" where
  "whole_env urls = \<lparr>ae_logger = True, ae_uuid = True, ae_urls = Some urls\<rparr>"

text \<open>A statement that logs, before the value \<open>x\<close> is returned.\<close>

definition logged :: "alert_env \<Rightarrow> 'a \<Rightarrow> exn + 'a" where
  "logged env x = (if ae_logger env then Inr x else Inl (NameErr ''logger''))"

section \<open>State\<close>

datatype alert_severity = A_info | A_warning | A_error | A_critical
datatype alert_status = Firing | Resolved | Acknowledged

definition severity_value :: "alert_severity \<Rightarrow> string" where
  "severity_value v = (case v of A_info \<Rightarrow> ''info'' | A_warning \<Rightarrow> ''warning'' | A_error \<Rightarrow> ''error'' | A_critical \<Rightarrow> ''critical'')"

text \<open>What callers pass as a severity: a member of the enumeration, or a string, which has no \<open>value\<close>.\<close>

datatype severity_arg = Member alert_severity | Plain string

record alert =
  al_name :: string
  al_severity :: string
  al_message :: string
  al_labels :: pydict
  al_annotations :: pydict
  al_status :: alert_status
  al_starts_at :: time
  al_ends_at :: "time option"
  al_notifications :: "(string \<times> time) list"
  al_acknowledged :: "(string \<times> time) option"

record silence =
  si_matchers :: "(string, pyval) dict"
  si_starts_at :: time
  si_ends_at :: time
  si_created_by :: string
  si_comment :: string
  si_active :: bool

record escalation_rule =
  es_delay :: nat
  es_channels :: "string list"

type_synonym alert_id = "string \<times> time"

record alert_manager =
  am_alerts :: "(alert_id, nat) dict"
  am_silences :: "(string, silence) dict"
  am_policies :: "(string, escalation_rule list) dict"
  am_history :: "alert list"
  am_pending :: "(nat \<times> escalation_rule list) list"
  am_escalated :: "(nat \<times> string) list"

definition empty_alert_manager :: alert_manager where
  "empty_alert_manager = \<lparr>am_alerts = [], am_silences = [], am_policies = [], am_history = [], am_pending = [], am_escalated = []\<rparr>"

definition new_alert_manager :: "alert_env \<Rightarrow> exn + alert_manager" where
  "new_alert_manager env = logged env empty_alert_manager"

section \<open>Channels\<close>

definition known_channels :: "string list" where
  "known_channels = [''email'', ''slack'', ''pagerduty'', ''webhook'']"

text \<open>\<open>post\<close> is what the HTTP request gives: whether the status is 200, or an exception.\<close>

definition post_alert :: "alert_env \<Rightarrow> string \<Rightarrow> exn + bool \<Rightarrow> exn + bool" where
  "post_alert env key post =
     (case ae_urls env of
        None \<Rightarrow> Inl (NameErr ''settings'')
      | Some urls \<Rightarrow>
        if dict_get_or urls key [] = [] then Inr False
        else (case post of Inr b \<Rightarrow> Inr b | Inl e \<Rightarrow> logged env False))"

definition send_channel :: "alert_env \<Rightarrow> (string \<Rightarrow> exn + bool) \<Rightarrow> string \<Rightarrow> exn + bool" where
  "send_channel env post ch =
     (if ch = ''slack'' then post_alert env ''slack_webhook_url'' (post ch)
      else if ch = ''webhook'' then post_alert env ''alert_webhook_url'' (post ch)
      else logged env True)"

section \<open>Operations\<close>

text \<open>The newest 50 alerts are searched for one of the last five minutes that is not resolved.\<close>

definition is_duplicate :: "alert \<Rightarrow> time \<Rightarrow> alert_manager \<Rightarrow> bool" where
  "is_duplicate a now s \<longleftrightarrow>
     list_ex (\<lambda>x. now - 5 * minute \<le> al_starts_at x \<and> al_name x = al_name a \<and> al_severity x = al_severity a \<and>
                  al_status x \<noteq> Resolved) (last_n 50 (am_history s))"

definition matches :: "(string, pyval) dict \<Rightarrow> pydict \<Rightarrow> bool" where
  "matches ms labels = list_all (\<lambda>(k, v). py_eq (dict_get_or labels k PNone) v) ms"

definition is_silenced :: "alert \<Rightarrow> time \<Rightarrow> alert_manager \<Rightarrow> bool" where
  "is_silenced a now s =
     list_ex (\<lambda>x. si_active x \<and> si_starts_at x \<le> now \<and> now \<le> si_ends_at x \<and> matches (si_matchers x) (al_labels a))
       (dict_values (am_silences s))"

text \<open>The loop over the channels: an unknown one is passed over; a failure is logged, and goes on.\<close>

fun notify :: "alert_env \<Rightarrow> (string \<Rightarrow> exn + bool) \<Rightarrow> time \<Rightarrow> string list \<Rightarrow> alert \<Rightarrow> (exn + unit) \<times> alert" where
  "notify env post now [] a = (Inr (), a)"
| "notify env post now (ch # chs) a =
     (if ch \<notin> set known_channels then notify env post now chs a
      else (case send_channel env post ch of
          Inr True \<Rightarrow> notify env post now chs (a\<lparr>al_notifications := al_notifications a @ [(ch, now)]\<rparr>)
        | Inr False \<Rightarrow> notify env post now chs a
        | Inl e \<Rightarrow> (case logged env () of Inl f \<Rightarrow> (Inl f, a) | Inr _ \<Rightarrow> notify env post now chs a)))"

definition list_or_default :: "'a list option \<Rightarrow> 'a list \<Rightarrow> 'a list" where
  "list_or_default xs d = (case xs of Some (y # ys) \<Rightarrow> y # ys | _ \<Rightarrow> d)"

text \<open>\<open>send_alert\<close> up to its escalation; the steps of the policy are left pending.\<close>

definition make_alert :: "string \<Rightarrow> alert_severity \<Rightarrow> string \<Rightarrow> pydict option \<Rightarrow> pydict option \<Rightarrow> time \<Rightarrow> alert" where
  "make_alert name v msg labels annotations now =
     \<lparr>al_name = name, al_severity = severity_value v, al_message = msg,
      al_labels = (case labels of None \<Rightarrow> [] | Some d \<Rightarrow> d),
      al_annotations = (case annotations of None \<Rightarrow> [] | Some d \<Rightarrow> d), al_status = Firing,
      al_starts_at = now, al_ends_at = None, al_notifications = [], al_acknowledged = None\<rparr>"

definition send_alert ::
    "alert_env \<Rightarrow> (string \<Rightarrow> exn + bool) \<Rightarrow> string \<Rightarrow> severity_arg \<Rightarrow> string \<Rightarrow> pydict option \<Rightarrow> pydict option
      \<Rightarrow> string list option \<Rightarrow> time \<Rightarrow> alert_manager \<Rightarrow> (exn + alert_id option) \<times> alert_manager" where
  "send_alert env post name severity msg labels annotations channels now s =
     (case severity of
        Plain _ \<Rightarrow> (Inl (AttributeErr ''value''), s)
      | Member v \<Rightarrow>
        (let a = make_alert name v msg labels annotations now
         in if is_duplicate a now s \<or> is_silenced a now s then (logged env None, s)
            else (let i = length (am_history s);
                      (r, a1) = notify env post now (list_or_default channels [''slack'', ''email'']) a;
                      s1 = s\<lparr>am_alerts := dict_set (name, now) i (am_alerts s), am_history := am_history s @ [a1]\<rparr>
                  in case r of
                       Inl e \<Rightarrow> (Inl e, s1)
                     | Inr _ \<Rightarrow> (logged env (Some (name, now)),
                         s1\<lparr>am_pending := am_pending s1 @ [(i, dict_get_or (am_policies s) (al_severity a1) [])]\<rparr>))))"

text \<open>One step of an escalation, after its delay: it ends when the alert no longer fires, and is given up when a
  channel raises.\<close>

fun escalate_channels ::
    "alert_env \<Rightarrow> (string \<Rightarrow> exn + bool) \<Rightarrow> nat \<Rightarrow> string list \<Rightarrow> (nat \<times> string) list \<Rightarrow> (exn + unit) \<times> (nat \<times> string) list" where
  "escalate_channels env post i [] out = (Inr (), out)"
| "escalate_channels env post i (ch # chs) out =
     (if ch \<notin> set known_channels then escalate_channels env post i chs out
      else (case send_channel env post ch of
          Inl e \<Rightarrow> (Inl e, out)
        | Inr b \<Rightarrow> escalate_channels env post i chs (out @ [(i, ch)])))"

definition drop_pending :: "nat \<Rightarrow> 'a list \<Rightarrow> 'a list" where
  "drop_pending n xs = take n xs @ drop (Suc n) xs"

definition escalation_step :: "alert_env \<Rightarrow> (string \<Rightarrow> exn + bool) \<Rightarrow> nat \<Rightarrow> alert_manager \<Rightarrow> alert_manager" where
  "escalation_step env post n s =
     (if n < length (am_pending s)
      then (case am_pending s ! n of
          (i, []) \<Rightarrow> s\<lparr>am_pending := drop_pending n (am_pending s)\<rparr>
        | (i, st # sts) \<Rightarrow>
          if al_status (am_history s ! i) \<noteq> Firing then s\<lparr>am_pending := drop_pending n (am_pending s)\<rparr>
          else (case escalate_channels env post i (es_channels st) (am_escalated s) of
              (Inl e, out) \<Rightarrow> s\<lparr>am_escalated := out, am_pending := drop_pending n (am_pending s)\<rparr>
            | (Inr _, out) \<Rightarrow> s\<lparr>am_escalated := out, am_pending := (am_pending s)[n := (i, sts)]\<rparr>))
      else s)"

definition on_alert :: "alert_env \<Rightarrow> alert_id \<Rightarrow> (alert \<Rightarrow> alert) \<Rightarrow> alert_manager \<Rightarrow> (exn + unit) \<times> alert_manager" where
  "on_alert env i f s =
     (case dict_get (am_alerts s) i of
        None \<Rightarrow> (Inr (), s)
      | Some n \<Rightarrow> (logged env (), s\<lparr>am_history := (am_history s)[n := f (am_history s ! n)]\<rparr>))"

definition resolve_alert :: "alert_env \<Rightarrow> alert_id \<Rightarrow> time \<Rightarrow> alert_manager \<Rightarrow> (exn + unit) \<times> alert_manager" where
  "resolve_alert env i now = on_alert env i (\<lambda>a. a\<lparr>al_status := Resolved, al_ends_at := Some now\<rparr>)"

definition acknowledge_alert :: "alert_env \<Rightarrow> alert_id \<Rightarrow> string \<Rightarrow> time \<Rightarrow> alert_manager \<Rightarrow> (exn + unit) \<times> alert_manager" where
  "acknowledge_alert env i user now = on_alert env i (\<lambda>a. a\<lparr>al_status := Acknowledged, al_acknowledged := Some (user, now)\<rparr>)"

definition create_silence ::
    "alert_env \<Rightarrow> string \<Rightarrow> (string, pyval) dict \<Rightarrow> int \<Rightarrow> string \<Rightarrow> string \<Rightarrow> time \<Rightarrow> alert_manager
      \<Rightarrow> (exn + string) \<times> alert_manager" where
  "create_silence env i ms duration creator note now s =
     (if \<not> ae_uuid env then (Inl (NameErr ''uuid''), s)
      else (logged env i, s\<lparr>am_silences := dict_set i \<lparr>si_matchers = ms, si_starts_at = now,
              si_ends_at = now + duration * second, si_created_by = creator, si_comment = note, si_active = True\<rparr>
              (am_silences s)\<rparr>))"

definition expire_silence :: "alert_env \<Rightarrow> string \<Rightarrow> alert_manager \<Rightarrow> (exn + unit) \<times> alert_manager" where
  "expire_silence env i s =
     (if dict_has (am_silences s) i
      then (logged env (), s\<lparr>am_silences := dict_mod i (\<lambda>x. x\<lparr>si_active := False\<rparr>) (am_silences s)\<rparr>)
      else (Inr (), s))"

definition set_escalation_policy :: "string \<Rightarrow> escalation_rule list \<Rightarrow> alert_manager \<Rightarrow> alert_manager" where
  "set_escalation_policy sev steps s = s\<lparr>am_policies := dict_set sev steps (am_policies s)\<rparr>"

definition get_active_alerts :: "alert_manager \<Rightarrow> alert list" where
  "get_active_alerts s =
     filter (\<lambda>a. al_status a = Firing) (map (\<lambda>n. am_history s ! n) (dict_values (am_alerts s)))"

text \<open>\<open>sorted(..., reverse=True)\<close> keeps the order of equal keys.\<close>

definition get_alert_history :: "nat \<Rightarrow> alert_manager \<Rightarrow> alert list" where
  "get_alert_history n s = take n (sort_key (\<lambda>a. - al_starts_at a) (am_history s))"

section \<open>Runs\<close>

datatype alert_op =
    Send "string \<Rightarrow> exn + bool" string severity_arg string "pydict option" "pydict option" "string list option"
  | Escalate "string \<Rightarrow> exn + bool" nat
  | Resolve alert_id
  | Acknowledge alert_id string
  | Silence string "(string, pyval) dict" int string string
  | Expire string
  | Set_policy string "escalation_rule list"

fun alert_exec :: "alert_env \<Rightarrow> alert_op \<times> time \<Rightarrow> alert_manager \<Rightarrow> alert_manager" where
  "alert_exec env (Send p n v m l a c, now) s = snd (send_alert env p n v m l a c now s)"
| "alert_exec env (Escalate p n, now) s = escalation_step env p n s"
| "alert_exec env (Resolve i, now) s = snd (resolve_alert env i now s)"
| "alert_exec env (Acknowledge i u, now) s = snd (acknowledge_alert env i u now s)"
| "alert_exec env (Silence i ms d c n, now) s = snd (create_silence env i ms d c n now s)"
| "alert_exec env (Expire i, now) s = snd (expire_silence env i s)"
| "alert_exec env (Set_policy v st, now) s = set_escalation_policy v st s"

section \<open>Duplicates\<close>

text \<open>What the code means to exclude: a second alert of the same kind within five minutes.\<close>

definition same_kind :: "alert \<Rightarrow> alert \<Rightarrow> bool" where
  "same_kind a b \<longleftrightarrow> al_name a = al_name b \<and> al_severity a = al_severity b"

definition spaced :: "alert list \<Rightarrow> bool" where
  "spaced h \<longleftrightarrow>
     (\<forall>i j. i < j \<longrightarrow> j < length h \<longrightarrow> same_kind (h ! i) (h ! j) \<longrightarrow> al_starts_at (h ! j) - 5 * minute \<le> al_starts_at (h ! i) \<longrightarrow>
        al_ends_at (h ! i) \<noteq> None \<or> 50 < j - i)"

definition closed_ends :: "alert list \<Rightarrow> bool" where
  "closed_ends h \<longleftrightarrow> (\<forall>a \<in> set h. al_status a = Resolved \<longrightarrow> al_ends_at a \<noteq> None)"

definition table_ok :: "alert_manager \<Rightarrow> bool" where
  "table_ok s \<longleftrightarrow> dict_all (\<lambda>_ n. n < length (am_history s)) (am_alerts s)"

definition alert_inv :: "alert_manager \<Rightarrow> bool" where
  "alert_inv s \<longleftrightarrow> table_ok s \<and> closed_ends (am_history s) \<and> spaced (am_history s)"

lemma in_last_n: "i < length xs \<Longrightarrow> length xs - n \<le> i \<Longrightarrow> xs ! i \<in> set (last_n n xs)"
  unfolding last_n_def in_set_conv_nth by (intro exI [of _ "i - (length xs - n)"]) auto

lemma spaced_snoc:
  assumes "spaced h" "closed_ends h"
    and "\<And>x. x \<in> set (last_n 50 h) \<Longrightarrow> al_starts_at a - 5 * minute \<le> al_starts_at x \<Longrightarrow> same_kind x a \<Longrightarrow> al_status x = Resolved"
  shows "spaced (h @ [a])"
  unfolding spaced_def
proof (intro allI impI)
  fix i j
  assume ij: "i < j" "j < length (h @ [a])" "same_kind ((h @ [a]) ! i) ((h @ [a]) ! j)"
    "al_starts_at ((h @ [a]) ! j) - 5 * minute \<le> al_starts_at ((h @ [a]) ! i)"
  show "al_ends_at ((h @ [a]) ! i) \<noteq> None \<or> 50 < j - i"
  proof (cases "j < length h")
    case True
    with ij assms(1) show ?thesis by (auto simp: spaced_def nth_append)
  next
    case False
    with ij have j: "j = length h" by simp
    show ?thesis
    proof (cases "50 < j - i")
      case False
      then have "h ! i \<in> set (last_n 50 h)" using ij(1) j by (intro in_last_n) auto
      moreover from this assms(3) ij j have "al_status (h ! i) = Resolved" by (simp add: nth_append)
      moreover have "h ! i \<in> set h" using ij(1) j by simp
      ultimately show ?thesis using assms(2) ij(1) j by (simp add: closed_ends_def nth_append)
    qed simp
  qed
qed

lemma notify_fields:
  "al_name (snd (notify env post now chs a)) = al_name a" "al_severity (snd (notify env post now chs a)) = al_severity a"
  "al_status (snd (notify env post now chs a)) = al_status a" "al_starts_at (snd (notify env post now chs a)) = al_starts_at a"
  "al_ends_at (snd (notify env post now chs a)) = al_ends_at a" "al_labels (snd (notify env post now chs a)) = al_labels a"
  by (induction env post now chs a rule: notify.induct) (auto split: sum.split bool.split)

text \<open>What \<open>send_alert\<close> does to the state: nothing, or one more alert of a kind not seen of late.\<close>

lemma send_alert_effect:
  obtains (kept) "snd (send_alert env p n v m l an c now s) = s"
  | (stored) a pend where "al_starts_at a = now" "al_status a = Firing" "al_ends_at a = None" "\<not> is_duplicate a now s"
      "snd (send_alert env p n v m l an c now s) =
         s\<lparr>am_alerts := dict_set (n, now) (length (am_history s)) (am_alerts s), am_history := am_history s @ [a], am_pending := pend\<rparr>"
proof (cases v)
  case (Plain x)
  then show ?thesis by (intro kept) (simp add: send_alert_def)
next
  case (Member w)
  let ?a0 = "make_alert n w m l an now"
  obtain r a1 where nt: "notify env p now (list_or_default c [''slack'', ''email'']) ?a0 = (r, a1)" by force
  have a1: "al_starts_at a1 = now" "al_status a1 = Firing" "al_ends_at a1 = None" "al_name a1 = al_name ?a0" "al_severity a1 = al_severity ?a0"
    using notify_fields [of env p now "list_or_default c [''slack'', ''email'']" ?a0] unfolding nt by (simp_all add: make_alert_def)
  have send: "send_alert env p n v m l an c now s =
    (if is_duplicate ?a0 now s \<or> is_silenced ?a0 now s then (logged env None, s)
     else (let i = length (am_history s);
               s1 = s\<lparr>am_alerts := dict_set (n, now) i (am_alerts s), am_history := am_history s @ [a1]\<rparr>
           in case r of Inl e \<Rightarrow> (Inl e, s1)
              | Inr _ \<Rightarrow> (logged env (Some (n, now)),
                  s1\<lparr>am_pending := am_pending s1 @ [(i, dict_get_or (am_policies s) (al_severity a1) [])]\<rparr>)))"
    unfolding send_alert_def Member by (simp add: Let_def nt)
  show ?thesis
  proof (cases "is_duplicate ?a0 now s \<or> is_silenced ?a0 now s")
    case True
    then show ?thesis using send by (intro kept) simp
  next
    case False
    then have "\<not> is_duplicate a1 now s" using a1 by (simp add: is_duplicate_def)
    note new = stored [OF a1(1-3) this]
    show ?thesis
    proof (cases r)
      case (Inl e)
      show ?thesis by (rule new [of "am_pending s"]) (simp add: send False Inl Let_def)
    next
      case (Inr u)
      show ?thesis
        by (rule new [of "am_pending s @ [(length (am_history s), dict_get_or (am_policies s) (al_severity a1) [])]"])
          (simp add: send False Inr Let_def)
    qed
  qed
qed

lemma send_alert_inv: "alert_inv s \<Longrightarrow> alert_inv (snd (send_alert env p n v m l an c now s))"
proof (cases rule: send_alert_effect [of env p n v m l an c now s])
  case (stored a pend)
  assume inv: "alert_inv s"
  have "spaced (am_history s @ [a])"
    using inv stored(1,4) by (intro spaced_snoc) (auto simp: alert_inv_def is_duplicate_def list_ex_iff same_kind_def)
  moreover have "dict_all (\<lambda>_ k. k < Suc (length (am_history s))) (am_alerts s)"
    using inv by (auto simp: alert_inv_def table_ok_def dict_all_def)
  ultimately show ?thesis using inv stored(2,5)
    by (auto simp: alert_inv_def table_ok_def closed_ends_def intro: dict_all_set)
qed simp

text \<open>A change of one alert that keeps its kind and its begin, and never reopens its end.\<close>

lemma on_alert_inv:
  assumes inv: "alert_inv s"
    and f: "\<And>a. same_kind (f a) a \<and> al_starts_at (f a) = al_starts_at a \<and> (al_ends_at a \<noteq> None \<longrightarrow> al_ends_at (f a) \<noteq> None) \<and>
           (al_status (f a) = Resolved \<longrightarrow> al_ends_at (f a) \<noteq> None)"
  shows "alert_inv (snd (on_alert env i f s))"
proof (cases "dict_get (am_alerts s) i")
  case None
  then show ?thesis using inv by (simp add: on_alert_def)
next
  case (Some n)
  let ?h = "am_history s" and ?h' = "(am_history s)[n := f (am_history s ! n)]"
  have k: "same_kind (?h' ! x) (?h ! x) \<and> al_starts_at (?h' ! x) = al_starts_at (?h ! x) \<and>
      (al_ends_at (?h ! x) \<noteq> None \<longrightarrow> al_ends_at (?h' ! x) \<noteq> None)" if "x < length ?h" for x
    using f [of "?h ! n"] that by (cases "x = n") (auto simp: same_kind_def)
  have "spaced ?h'"
    unfolding spaced_def
  proof (intro allI impI)
    fix x y
    assume a: "x < y" "y < length ?h'" "same_kind (?h' ! x) (?h' ! y)" "al_starts_at (?h' ! y) - 5 * minute \<le> al_starts_at (?h' ! x)"
    then have "same_kind (?h ! x) (?h ! y)" "al_starts_at (?h ! y) - 5 * minute \<le> al_starts_at (?h ! x)"
      using k [of x] k [of y] by (auto simp: same_kind_def)
    then have "al_ends_at (?h ! x) \<noteq> None \<or> 50 < y - x" using inv a(1,2) by (auto simp: alert_inv_def spaced_def)
    then show "al_ends_at (?h' ! x) \<noteq> None \<or> 50 < y - x" using k [of x] a(1,2) by auto
  qed
  moreover have "closed_ends ?h'"
    using inv f [of "?h ! n"] by (auto simp: alert_inv_def closed_ends_def dest!: set_update_subset_insert [THEN subsetD])
  ultimately show ?thesis using inv Some by (simp add: on_alert_def alert_inv_def table_ok_def)
qed

lemma escalation_frame [simp]:
  "am_history (escalation_step env p n s) = am_history s" "am_alerts (escalation_step env p n s) = am_alerts s"
  by (auto simp: escalation_step_def split: prod.split list.split sum.split)

lemma alert_inv_frame: "am_history s' = am_history s \<Longrightarrow> am_alerts s' = am_alerts s \<Longrightarrow> alert_inv s' = alert_inv s"
  by (simp add: alert_inv_def table_ok_def)

lemma alert_exec_inv: "alert_inv s \<Longrightarrow> alert_inv (alert_exec env (op, now) s)"
proof (cases op)
  case (Send p n v m l a c)
  assume "alert_inv s"
  then show ?thesis using Send by (simp add: send_alert_inv)
next
  case (Resolve i)
  assume "alert_inv s"
  then show ?thesis using Resolve by (simp add: resolve_alert_def on_alert_inv same_kind_def)
next
  case (Acknowledge i u)
  assume "alert_inv s"
  then show ?thesis using Acknowledge by (simp add: acknowledge_alert_def on_alert_inv same_kind_def)
qed (use alert_inv_frame [of "alert_exec env (op, now) s" s] in
    \<open>simp_all add: create_silence_def expire_silence_def set_escalation_policy_def\<close>)

interpretation alerts: op_system "alert_exec env" alert_inv
  by unfold_locales (metis alert_exec_inv surj_pair)

text \<open>
  C29: of two alerts with the same name and severity that begin within five minutes the first has been resolved,
  or more than 50 alerts were raised from the one to the other.
\<close>

theorem duplicates_suppressed:
  assumes "h = am_history (fold (alert_exec env) ops empty_alert_manager)" "i < j" "j < length h"
    "same_kind (h ! i) (h ! j)" "al_starts_at (h ! j) - al_starts_at (h ! i) \<le> 5 * minute"
  shows "al_ends_at (h ! i) \<noteq> None \<or> 50 < j - i"
proof -
  have "alert_inv empty_alert_manager"
    by (simp add: alert_inv_def empty_alert_manager_def table_ok_def closed_ends_def spaced_def)
  then have "spaced h" using alerts.inv_run [of empty_alert_manager env ops] assms(1) by (simp add: alert_inv_def)
  then show ?thesis using assms(2-5) by (auto simp: spaced_def)
qed

section \<open>Escalation\<close>

definition escalations_of :: "nat \<Rightarrow> alert_manager \<Rightarrow> (nat \<times> string) list" where
  "escalations_of i s = filter (\<lambda>x. fst x = i) (am_escalated s)"

definition settled_with :: "nat \<Rightarrow> (nat \<times> string) list \<Rightarrow> alert_manager \<Rightarrow> bool" where
  "settled_with i out s \<longleftrightarrow> i < length (am_history s) \<and> al_status (am_history s ! i) \<noteq> Firing \<and> escalations_of i s = out"

lemma escalate_channels_other:
  "i' \<noteq> i \<Longrightarrow> filter (\<lambda>x. fst x = i) (snd (escalate_channels env p i' chs out)) = filter (\<lambda>x. fst x = i) out"
  by (induction env p i' chs out rule: escalate_channels.induct) (auto split: sum.split)

lemma settled_escalation:
  assumes "settled_with i out s"
  shows "settled_with i out (escalation_step env p n s)"
proof -
  have "escalations_of i (escalation_step env p n s) = escalations_of i s"
  proof (cases "n < length (am_pending s)")
    case True
    obtain i' sts where q: "am_pending s ! n = (i', sts)" by force
    have "al_status (am_history s ! i') = Firing \<Longrightarrow> i' \<noteq> i" using assms by (auto simp: settled_with_def)
    then show ?thesis
      using True q escalate_channels_other [of i' i env p "es_channels (hd sts)" "am_escalated s"]
      by (cases sts) (auto simp: escalation_step_def escalations_of_def split: prod.split sum.split)
  qed (simp add: escalation_step_def)
  then show ?thesis using assms by (simp add: settled_with_def)
qed

lemma settled_on_alert:
  assumes "settled_with i out s" "\<And>a. al_status (f a) \<noteq> Firing"
  shows "settled_with i out (snd (on_alert env k f s))"
proof (cases "dict_get (am_alerts s) k")
  case (Some n)
  have "al_status ((am_history s)[n := f (am_history s ! n)] ! i) \<noteq> Firing"
    using assms by (cases "n = i") (auto simp: settled_with_def)
  then show ?thesis using assms(1) Some by (simp add: on_alert_def settled_with_def escalations_of_def)
qed (use assms in \<open>simp add: on_alert_def\<close>)

lemma settled_exec: "settled_with i out s \<Longrightarrow> settled_with i out (alert_exec env (op, now) s)"
proof (cases op)
  case (Send p n v m l a c)
  assume "settled_with i out s"
  then show ?thesis using Send
    by (cases rule: send_alert_effect [of env p n v m l a c now s])
      (auto simp: settled_with_def escalations_of_def nth_append)
qed (auto simp: settled_escalation settled_on_alert resolve_alert_def acknowledge_alert_def create_silence_def
    expire_silence_def set_escalation_policy_def, auto simp: settled_with_def escalations_of_def)

interpretation settled: op_system "alert_exec env" "settled_with i out"
  by unfold_locales (metis settled_exec surj_pair)

text \<open>
  once an alert has been resolved or acknowledged, none of its escalations is sent any more.\<close>

theorem settled_alert_not_escalated:
  assumes "i < length (am_history s)" "al_status (am_history s ! i) \<noteq> Firing"
  shows "escalations_of i (fold (alert_exec env) ops s) = escalations_of i s"
proof -
  have "settled_with i (escalations_of i s) s" using assms by (simp add: settled_with_def)
  from settled.inv_run [OF this] show ?thesis by (simp add: settled_with_def)
qed

text \<open>An acknowledgement reopens a resolved alert for the search for duplicates.\<close>

definition ex_alert_ops :: "(alert_op \<times> time) list" where
  "ex_alert_ops = [(Send (\<lambda>_. Inr True) ''cpu'' (Member A_error) ''high'' None None (Some [''email'']), 1),
     (Resolve (''cpu'', 1), 2), (Acknowledge (''cpu'', 1) ''ann'', 3),
     (Send (\<lambda>_. Inr True) ''cpu'' (Member A_error) ''high'' None None (Some [''email'']), 4)]"

lemma acknowledged_after_resolved:
  "length (am_history (fold (alert_exec (whole_env [])) (take 2 ex_alert_ops @ drop 3 ex_alert_ops) empty_alert_manager)) = 2"
  "length (am_history (fold (alert_exec (whole_env [])) ex_alert_ops empty_alert_manager)) = 1"
  by code_simp+

theorem duplicates_suppressed_witness:
  "al_ends_at (am_history (fold (alert_exec (whole_env [])) (take 2 ex_alert_ops @ drop 3 ex_alert_ops) empty_alert_manager) ! 0) \<noteq> None"
proof -
  let ?h = "am_history (fold (alert_exec (whole_env [])) (take 2 ex_alert_ops @ drop 3 ex_alert_ops) empty_alert_manager)"
  have "1 < length ?h" by code_simp
  moreover have "same_kind (?h ! 0) (?h ! 1)" by code_simp
  moreover have "al_starts_at (?h ! 1) - al_starts_at (?h ! 0) \<le> 5 * minute" by code_simp
  ultimately show ?thesis using duplicates_suppressed [OF refl, of 0 1 "whole_env []" "take 2 ex_alert_ops @ drop 3 ex_alert_ops"] by simp
qed

definition ex_escalating :: alert_manager where
  "ex_escalating = fold (alert_exec (whole_env []))
     [(Set_policy ''error'' [\<lparr>es_delay = 60, es_channels = [''pagerduty'']\<rparr>], 0),
      (Send (\<lambda>_. Inr True) ''cpu'' (Member A_error) ''high'' None None (Some [''email'']), 1), (Acknowledge (''cpu'', 1) ''ann'', 2)]
     empty_alert_manager"

theorem settled_alert_not_escalated_witness:
  "escalations_of 0 (fold (alert_exec (whole_env [])) [(Escalate (\<lambda>_. Inr True) 0, 61)] ex_escalating) = []"
proof -
  have 1: "0 < length (am_history ex_escalating)" by code_simp
  have 2: "al_status (am_history ex_escalating ! 0) \<noteq> Firing" by code_simp
  have "escalations_of 0 ex_escalating = []" by code_simp
  then show ?thesis by (rule trans [OF settled_alert_not_escalated [OF 1 2]])
qed

section \<open>The module as it is\<close>

text \<open>It cannot be constructed; every notification but to a channel it does not know raises.\<close>

lemma shipped_manager: "new_alert_manager shipped_env = Inl (NameErr ''logger'')"
  by (simp add: new_alert_manager_def logged_def shipped_env_def)

lemma shipped_send_raises: "\<not> is_ok (fst (send_alert shipped_env p n v m l a c now s))"
  by (cases v) (auto simp: send_alert_def Let_def logged_def shipped_env_def split: prod.split sum.split)

end
