(* ===== verification/SloTracker.thy ===== *)
theory SloTracker
  imports Alerting PyString
begin

text \<open>
  \<open>src/monitoring/slo_tracking.py\<close>: objectives, their measurements and error budgets, over the alert manager
  of \<open>Alerting\<close>. The module logs through a name it does not define in its constructor and in \<open>define_slo\<close>;
  \<open>env\<close> says whether it exists, as there. Sums and quotients of floats are exact.
\<close>

section \<open>State\<close>

datatype slo_status = At_risk | Breached | Healthy

record slo =
  sl_name :: string
  sl_sli :: string
  sl_target :: rat
  sl_window :: string
  sl_importance :: string
  sl_created_at :: time

record measurement =
  me_value :: rat
  me_timestamp :: time

text \<open>\<open>eb_measured\<close> are the entries that only an update writes: what is used, and the rate of compliance.\<close>

record error_budget =
  eb_total :: rat
  eb_remaining :: rat
  eb_burn_rate :: rat
  eb_forecast :: "time option"
  eb_measured :: "(rat \<times> rat) option"

record slo_tracker =
  st_slos :: "(string, slo) dict"
  st_measurements :: "(string, measurement list) dict"
  st_budgets :: "(string, error_budget) dict"
  st_alerts :: alert_manager

definition empty_slo_tracker :: "alert_manager \<Rightarrow> slo_tracker" where
  "empty_slo_tracker am = \<lparr>st_slos = [], st_measurements = [], st_budgets = [], st_alerts = am\<rparr>"

section \<open>Operations\<close>

definition define_slo ::
    "alert_env \<Rightarrow> string \<Rightarrow> string \<Rightarrow> rat \<Rightarrow> string \<Rightarrow> string \<Rightarrow> time \<Rightarrow> slo_tracker \<Rightarrow> (exn + unit) \<times> slo_tracker" where
  "define_slo env name sli target window importance now s =
     (logged env (), s\<lparr>st_slos := dict_set name \<lparr>sl_name = name, sl_sli = sli, sl_target = target, sl_window = window,
          sl_importance = importance, sl_created_at = now\<rparr> (st_slos s),
        st_budgets := dict_set name \<lparr>eb_total = 1 - target, eb_remaining = 1 - target, eb_burn_rate = 0, eb_forecast = None,
          eb_measured = None\<rparr> (st_budgets s)\<rparr>)"

definition window_units :: "(string \<times> int) list" where
  "window_units = [(''h'', 3600), (''d'', 86400), (''w'', 604800), (''m'', 2592000), (''y'', 31536000)]"

definition parse_window :: "string \<Rightarrow> exn + int" where
  "parse_window w =
     (case py_int (butlast w) of
        None \<Rightarrow> Inl (ValueErr w)
      | Some n \<Rightarrow> Inr (n * dict_get_or window_units [last w] 86400))"

definition budget_status :: "error_budget option \<Rightarrow> slo_status" where
  "budget_status b =
     (case b of
        None \<Rightarrow> Breached
      | Some x \<Rightarrow> if eb_remaining x \<le> 0 then Breached
                  else if eb_remaining x < eb_total x * (1 / 10) then At_risk else Healthy)"

definition get_slo_status :: "string \<Rightarrow> slo_tracker \<Rightarrow> slo_status" where
  "get_slo_status name s = budget_status (dict_get (st_budgets s) name)"

definition status_value :: "slo_status \<Rightarrow> string" where
  "status_value x = (case x of At_risk \<Rightarrow> ''at_risk'' | Breached \<Rightarrow> ''breached'' | Healthy \<Rightarrow> ''healthy'')"

text \<open>The budget from the measurements of the window; \<open>burn_rate\<close> is not assigned where nothing may be used.\<close>

definition good_value :: "slo \<Rightarrow> measurement \<Rightarrow> bool" where
  "good_value ob m \<longleftrightarrow> me_value m \<le> sl_target ob"

definition budget_from :: "slo \<Rightarrow> measurement list \<Rightarrow> time \<Rightarrow> exn + error_budget" where
  "budget_from ob ms now =
     (let rate = of_nat (length (filter (good_value ob) ms)) / of_nat (length ms);
          total_b = 1 - sl_target ob; used = 1 - rate; remaining = max 0 (total_b - used)
      in if total_b \<le> 0 then Inl (py_exn PyUnboundLocalError ''burn_rate'')
         else (let burn = used / total_b
               in Inr \<lparr>eb_total = total_b, eb_remaining = remaining, eb_burn_rate = burn,
                    eb_forecast = (if burn > 0 then Some (now + seconds_delta (remaining / burn * 86400)) else None),
                    eb_measured = Some (used, rate)\<rparr>))"

text \<open>The alert passes its severity as a string.\<close>

definition slo_alert ::
    "alert_env \<Rightarrow> (string \<Rightarrow> exn + bool) \<Rightarrow> slo_status \<Rightarrow> string \<Rightarrow> error_budget \<Rightarrow> slo \<Rightarrow> time \<Rightarrow> alert_manager
      \<Rightarrow> (exn + unit) \<times> alert_manager" where
  "slo_alert env post st name b ob now am =
     (let send = (\<lambda>kind sev note ann. case send_alert env post (''slo_'' @ kind @ ''_'' @ name) (Plain sev) (''SLO '' @ name @ note)
                     (Some [(''slo'', PStr name), (''status'', PStr kind)]) (Some ann) None now am of
                   (Inl e, am') \<Rightarrow> (Inl e, am') | (Inr _, am') \<Rightarrow> (Inr (), am'))
      in case st of
           At_risk \<Rightarrow> send ''at_risk'' ''warning'' '' is at risk''
             [(''remaining_budget'', PFloat (eb_remaining b)), (''burn_rate'', PFloat (eb_burn_rate b))]
         | Breached \<Rightarrow> send ''breached'' ''critical'' '' has been breached''
             [(''compliance_rate'', opt_val (\<lambda>x. PFloat (snd x)) (eb_measured b)), (''target'', PFloat (sl_target ob))]
         | Healthy \<Rightarrow> (Inr (), am))"

definition update_error_budget ::
    "alert_env \<Rightarrow> (string \<Rightarrow> exn + bool) \<Rightarrow> string \<Rightarrow> time \<Rightarrow> slo_tracker \<Rightarrow> (exn + unit) \<times> slo_tracker" where
  "update_error_budget env post name now s =
     (case dict_get (st_slos s) name of
        None \<Rightarrow> (Inl (KeyErr name), s)
      | Some ob \<Rightarrow>
        (let ms = dict_get_or (st_measurements s) name []
         in if ms = [] then (Inr (), s)
            else (case parse_window (sl_window ob) of
                Inl e \<Rightarrow> (Inl e, s)
              | Inr secs \<Rightarrow>
                (let wm = filter (\<lambda>m. now - secs * second \<le> me_timestamp m) ms
                 in if wm = [] then (Inr (), s)
                    else (case budget_from ob wm now of
                        Inl e \<Rightarrow> (Inl e, s)
                      | Inr b \<Rightarrow>
                        (let s1 = s\<lparr>st_budgets := dict_set name b (st_budgets s)\<rparr>;
                             (r, am) = slo_alert env post (get_slo_status name s1) name b ob now (st_alerts s1)
                         in (r, s1\<lparr>st_alerts := am\<rparr>)))))))"

definition record_sli ::
    "alert_env \<Rightarrow> (string \<Rightarrow> exn + bool) \<Rightarrow> string \<Rightarrow> rat \<Rightarrow> time option \<Rightarrow> time \<Rightarrow> slo_tracker \<Rightarrow> (exn + unit) \<times> slo_tracker" where
  "record_sli env post name v timestamp now s =
     (if \<not> dict_has (st_slos s) name then (Inl (ValueErr (''Unknown SLO: '' @ name)), s)
      else update_error_budget env post name now
        (s\<lparr>st_measurements := dict_set name
           (append_capped 10000 \<lparr>me_value = v, me_timestamp = (case timestamp of None \<Rightarrow> now | Some t \<Rightarrow> t)\<rparr>
              (dict_get_or (st_measurements s) name [])) (st_measurements s)\<rparr>))"

record slo_report =
  sr_slo :: slo
  sr_budget :: "error_budget option"
  sr_status :: string
  sr_count :: nat

definition get_slo_report :: "string \<Rightarrow> slo_tracker \<Rightarrow> slo_report option" where
  "get_slo_report name s =
     (case dict_get (st_slos s) name of
        None \<Rightarrow> None
      | Some ob \<Rightarrow> Some \<lparr>sr_slo = ob, sr_budget = dict_get (st_budgets s) name, sr_status = status_value (get_slo_status name s),
           sr_count = length (dict_get_or (st_measurements s) name [])\<rparr>)"

section \<open>Budgets\<close>

text \<open>What an error budget is: the share of bad measurements against the share allowed.\<close>

definition bad_share :: "slo \<Rightarrow> measurement list \<Rightarrow> rat" where
  "bad_share ob ms = of_nat (length (filter (\<lambda>m. \<not> good_value ob m) ms)) / of_nat (length ms)"

lemma bad_share_eq:
  assumes "ms \<noteq> []"
  shows "1 - of_nat (length (filter (good_value ob) ms)) / of_nat (length ms) = bad_share ob ms"
proof -
  have "length (filter (good_value ob) ms) + length (filter (\<lambda>m. \<not> good_value ob m) ms) = length ms"
    by (rule sum_length_filter_compl)
  then have "of_nat (length (filter (good_value ob) ms)) + of_nat (length (filter (\<lambda>m. \<not> good_value ob m) ms)) = (of_nat (length ms) :: rat)"
    by (metis of_nat_add)
  then show ?thesis using assms by (simp add: bad_share_def field_simps)
qed

lemma bad_share_bounds: "0 \<le> bad_share ob ms" "bad_share ob ms \<le> 1"
  by (auto simp: bad_share_def divide_le_eq_1 le_neq_implies_less)

text \<open>
  an update that returns a budget gives the share of bad measurements of the window as what is used; the
  budget is breached exactly when that reaches the share allowed, and the burn rate is then at least one.
\<close>

theorem budget_breached_iff:
  assumes "budget_from ob ms now = Inr b" "ms \<noteq> []"
  shows "eb_measured b = Some (bad_share ob ms, 1 - bad_share ob ms) \<and>
    (budget_status (Some b) = Breached \<longleftrightarrow> 1 - sl_target ob \<le> bad_share ob ms) \<and>
    (budget_status (Some b) = Breached \<longleftrightarrow> 1 \<le> eb_burn_rate b) \<and> 0 \<le> eb_remaining b \<and> eb_remaining b \<le> eb_total b"
proof -
  have sh: "of_nat (length (filter (good_value ob) ms)) / of_nat (length ms) = 1 - bad_share ob ms"
    using bad_share_eq [OF assms(2), of ob] by simp
  have t: "0 < 1 - sl_target ob" using assms(1) by (auto simp: budget_from_def Let_def split: if_splits)
  have b: "eb_total b = 1 - sl_target ob" "eb_remaining b = max 0 (1 - sl_target ob - bad_share ob ms)"
      "eb_burn_rate b = bad_share ob ms / (1 - sl_target ob)" "eb_measured b = Some (bad_share ob ms, 1 - bad_share ob ms)"
    using assms(1) t by (auto simp: budget_from_def Let_def sh split: if_splits)
  have "1 \<le> eb_burn_rate b \<longleftrightarrow> 1 - sl_target ob \<le> bad_share ob ms" using t by (simp add: b le_divide_eq)
  then show ?thesis using t bad_share_bounds [of ob ms] by (auto simp: b budget_status_def)
qed

section \<open>Alerts\<close>

text \<open>A severity given as a string makes \<open>send_alert\<close> raise before it does anything.\<close>

lemma slo_alert_outcome:
  "slo_alert env post st name b ob now am =
     (if st = Healthy then (Inr (), am) else (Inl (AttributeErr ''value''), am))"
  by (cases st) (simp_all add: slo_alert_def send_alert_def Let_def)

lemma update_keeps_alerts [simp]: "st_alerts (snd (update_error_budget env post name now s)) = st_alerts s"
  by (simp add: update_error_budget_def Let_def slo_alert_outcome split: option.split sum.split)

lemma update_slos [simp]: "st_slos (snd (update_error_budget env post name now s)) = st_slos s"
  by (simp add: update_error_budget_def Let_def slo_alert_outcome split: option.split sum.split)

datatype slo_op =
    Define string string rat string string
  | Record "string \<Rightarrow> exn + bool" string rat "time option"

fun slo_exec :: "alert_env \<Rightarrow> slo_op \<times> time \<Rightarrow> slo_tracker \<Rightarrow> slo_tracker" where
  "slo_exec env (Define n i t w imp, now) s = snd (define_slo env n i t w imp now s)"
| "slo_exec env (Record p n v t, now) s = snd (record_sli env p n v t now s)"

text \<open>
  a measurement that leaves its objective at risk or breached raises \<open>AttributeError\<close> instead of an alert.
\<close>

theorem risk_raises_no_alert:
  assumes "record_sli env post name v t now s = (r, s')" "dict_has (st_slos s) name"
    and "dict_get (st_budgets s') name \<noteq> dict_get (st_budgets s) name"
  shows "r = (if get_slo_status name s' = Healthy then Inr () else Inl (AttributeErr ''value'')) \<and> st_alerts s' = st_alerts s"
  using assms
  by (auto simp: record_sli_def update_error_budget_def Let_def slo_alert_outcome get_slo_status_def
      split: option.splits sum.splits if_splits)

text \<open>No run of the tracker raises an alert.\<close>

lemma slo_run_no_alert: "st_alerts (fold (slo_exec env) ops s) = st_alerts s"
proof -
  have "st_alerts (slo_exec env x s) = st_alerts s" for x s
    by (cases "(env, x, s)" rule: slo_exec.cases) (auto simp: define_slo_def record_sli_def)
  then show ?thesis by (induction ops arbitrary: s) simp_all
qed

section \<open>Examples\<close>

definition ex_slo :: slo_tracker where
  "ex_slo = snd (define_slo (whole_env []) ''avail'' ''availability'' (99 / 100) ''30d'' ''high'' 0 (empty_slo_tracker empty_alert_manager))"

text \<open>An availability of one, the best there is, is above its target and counts as bad.\<close>

lemma full_availability_breaches:
  "fst (record_sli (whole_env []) (\<lambda>_. Inr True) ''avail'' 1 None 1 ex_slo) = Inl (AttributeErr ''value'')"
  by code_simp

text \<open>A target of one or more, as for a latency in milliseconds, raises at the first measurement.\<close>

lemma large_target_raises:
  assumes "dict_get (st_slos s) name = Some ob" "1 \<le> sl_target ob" "sl_window ob = ''30d''"
  shows "fst (record_sli env post name v None now s) = Inl (py_exn PyUnboundLocalError ''burn_rate'')"
proof -
  have w: "parse_window ''30d'' = Inr 2592000" by code_simp
  let ?m = "\<lparr>me_value = v, me_timestamp = now\<rparr>"
  let ?ms = "append_capped 10000 ?m (dict_get_or (st_measurements s) name [])"
  have "?m \<in> set ?ms"
    by (simp add: append_capped_eq last_n_def)
  then have "?ms \<noteq> []" "filter (\<lambda>m. now - 2592000 * second \<le> me_timestamp m) ?ms \<noteq> []"
    by (auto simp: filter_empty_conv second_def intro!: bexI [of _ ?m])
  then show ?thesis using assms
    by (simp add: record_sli_def update_error_budget_def dict_has_def dict_get_or_def [of "dict_set name _ _"] w budget_from_def Let_def)
qed

theorem budget_breached_iff_witness:
  "budget_status (Some \<lparr>eb_total = 1 / 10, eb_remaining = 0, eb_burn_rate = 5, eb_forecast = Some 7, eb_measured = Some (1 / 2, 1 / 2)\<rparr>) = Breached"
proof -
  let ?o = "\<lparr>sl_name = ''l'', sl_sli = ''latency'', sl_target = 9 / 10, sl_window = ''30d'', sl_importance = ''high'', sl_created_at = 0\<rparr>"
  let ?ms = "[\<lparr>me_value = 1, me_timestamp = 0\<rparr>, \<lparr>me_value = 1 / 2, me_timestamp = 0\<rparr>]"
  let ?b = "\<lparr>eb_total = 1 / 10, eb_remaining = 0, eb_burn_rate = 5, eb_forecast = Some 7, eb_measured = Some (1 / 2, 1 / 2)\<rparr> :: error_budget"
  have "budget_from ?o ?ms 7 = Inr ?b" by code_simp
  from budget_breached_iff [OF this] show ?thesis by simp
qed

theorem risk_raises_no_alert_witness:
  "fst (record_sli (whole_env []) (\<lambda>_. Inr True) ''avail'' 1 None 1 ex_slo) = Inl (AttributeErr ''value'')"
proof -
  let ?r = "record_sli (whole_env []) (\<lambda>_. Inr True) ''avail'' 1 None 1 ex_slo"
  have 1: "dict_has (st_slos ex_slo) ''avail''" by code_simp
  have 2: "dict_get (st_budgets (snd ?r)) ''avail'' \<noteq> dict_get (st_budgets ex_slo) ''avail''" by code_simp
  have 3: "get_slo_status ''avail'' (snd ?r) \<noteq> Healthy" by code_simp
  from risk_raises_no_alert [where r = "fst ?r" and s' = "snd ?r", OF _ 1 2] 3 show ?thesis by simp
qed

end
