(* ===== verification/AnomalyDetector.thy ===== *)
theory AnomalyDetector
  imports Calendar Exceptions
begin

text \<open>
  \<open>src/monitoring/anomaly_detection.py\<close>: four ways to find the unusual values of a metric. The mean, standard
  deviation and percentiles are those of numpy, in the argument \<open>np\<close>; what a theorem needs of them is a
  hypothesis. The module uses a \<open>logger\<close> it does not define; whether there is one is an argument.
\<close>

section \<open>State\<close>

record numpy =
  np_mean :: "rat list \<Rightarrow> rat"
  np_std :: "rat list \<Rightarrow> rat"
  np_percentile :: "rat list \<Rightarrow> rat \<Rightarrow> rat"

record anomaly =
  an_metric :: string
  an_timestamp :: time
  an_value :: rat
  an_expected :: "rat option"
  an_bounds :: "(rat \<times> rat) option"
  an_deviation :: rat
  an_zscore :: "rat option"
  an_severity :: string
  an_method :: string

record baseline =
  bl_mean :: rat
  bl_std :: rat
  bl_min :: rat
  bl_max :: rat
  bl_percentiles :: "(nat \<times> rat) list"
  bl_period :: string
  bl_learned_at :: time

record anomaly_detector =
  ad_baselines :: "(string, baseline) dict"
  ad_anomalies :: "(anomaly \<times> time) list"

definition empty_anomaly_detector :: anomaly_detector where
  "empty_anomaly_detector = \<lparr>ad_baselines = [], ad_anomalies = []\<rparr>"

definition new_anomaly_detector :: "bool \<Rightarrow> exn + anomaly_detector" where
  "new_anomaly_detector logger = (if logger then Inr empty_anomaly_detector else Inl (NameErr ''logger''))"

section \<open>Detection\<close>

definition calculate_severity :: "rat \<Rightarrow> rat \<Rightarrow> string" where
  "calculate_severity score threshold =
     (if score > threshold * 2 then ''critical'' else if score > threshold * (3 / 2) then ''high''
      else if score > threshold then ''medium'' else ''low'')"

definition zscore :: "rat \<Rightarrow> rat \<Rightarrow> rat \<Rightarrow> rat" where
  "zscore mean std v = \<bar>(v - mean) / std\<bar>"

definition zscore_anomaly :: "string \<Rightarrow> string \<Rightarrow> rat \<Rightarrow> rat \<Rightarrow> rat \<Rightarrow> rat \<times> time \<Rightarrow> anomaly option" where
  "zscore_anomaly meth metric mean std threshold = (\<lambda>(v, t).
     if zscore mean std v > threshold
     then Some \<lparr>an_metric = metric, an_timestamp = t, an_value = v, an_expected = Some mean, an_bounds = None,
            an_deviation = v - mean, an_zscore = Some (zscore mean std v),
            an_severity = calculate_severity (zscore mean std v) threshold, an_method = meth\<rparr>
     else None)"

definition detect_zscore :: "numpy \<Rightarrow> string \<Rightarrow> rat list \<Rightarrow> time list \<Rightarrow> rat \<Rightarrow> anomaly list" where
  "detect_zscore np metric values timestamps threshold =
     (if length values < 10 \<or> np_std np values = 0 then []
      else List.map_filter (zscore_anomaly ''zscore'' metric (np_mean np values) (np_std np values) threshold) (zip values timestamps))"

text \<open>The threshold is not looked at.\<close>

definition detect_iqr :: "numpy \<Rightarrow> string \<Rightarrow> rat list \<Rightarrow> time list \<Rightarrow> rat \<Rightarrow> anomaly list" where
  "detect_iqr np metric values timestamps threshold =
     (if length values < 10 then []
      else (let q1 = np_percentile np values 25; q3 = np_percentile np values 75; iqr = q3 - q1;
                lo = q1 - 3 / 2 * iqr; hi = q3 + 3 / 2 * iqr
            in List.map_filter (\<lambda>(v, t).
                 if v < lo \<or> v > hi
                 then Some \<lparr>an_metric = metric, an_timestamp = t, an_value = v, an_expected = None, an_bounds = Some (lo, hi),
                        an_deviation = (if v < lo then max (lo - v) (v - hi) else v - hi), an_zscore = None,
                        an_severity = ''medium'', an_method = ''iqr''\<rparr>
                 else None) (zip values timestamps)))"

text \<open>The value at a place against the ten before it; a missing time stamp raises.\<close>

definition moving_step :: "numpy \<Rightarrow> string \<Rightarrow> rat list \<Rightarrow> time list \<Rightarrow> rat \<Rightarrow> nat \<Rightarrow> anomaly list \<Rightarrow> exn + anomaly list" where
  "moving_step np metric values timestamps threshold i out =
     (let w = take 10 (drop (i - 10) values); m = np_mean np w; sd = np_std np w
      in if sd = 0 \<or> \<not> zscore m sd (values ! i) > threshold then Inr out
         else if length timestamps \<le> i then Inl (py_exn PyIndexError ''list index out of range'')
         else Inr (out @ List.map_filter (zscore_anomaly ''moving_average'' metric m sd threshold) [(values ! i, timestamps ! i)]))"

definition detect_moving_average :: "numpy \<Rightarrow> string \<Rightarrow> rat list \<Rightarrow> time list \<Rightarrow> rat \<Rightarrow> exn + anomaly list" where
  "detect_moving_average np metric values timestamps threshold =
     (if length values < 20 then Inr []
      else foldM_e (moving_step np metric values timestamps threshold) [10..<length values] [])"

fun ewma_from :: "rat \<Rightarrow> rat list \<Rightarrow> rat list" where
  "ewma_from e [] = []"
| "ewma_from e (v # vs) = (let e' = 3 / 10 * v + (1 - 3 / 10) * e in e' # ewma_from e' vs)"

definition ewma :: "rat list \<Rightarrow> rat list" where
  "ewma vs = (case vs of [] \<Rightarrow> [] | v # r \<Rightarrow> v # ewma_from v r)"

definition detect_ewma :: "numpy \<Rightarrow> string \<Rightarrow> rat list \<Rightarrow> time list \<Rightarrow> rat \<Rightarrow> anomaly list" where
  "detect_ewma np metric values timestamps threshold =
     (if length values < 10 then []
      else (let es = ewma values; sd = np_std np (map (\<lambda>(v, e). \<bar>v - e\<bar>) (zip values es))
            in List.map_filter (\<lambda>((v, t), e).
                 if sd > 0 \<and> \<bar>v - e\<bar> / sd > threshold
                 then Some \<lparr>an_metric = metric, an_timestamp = t, an_value = v, an_expected = Some e, an_bounds = None,
                        an_deviation = \<bar>v - e\<bar>, an_zscore = None, an_severity = calculate_severity (\<bar>v - e\<bar> / sd) threshold,
                        an_method = ''ewma''\<rparr>
                 else None) (zip (zip values timestamps) es)))"

definition run_method :: "numpy \<Rightarrow> string \<Rightarrow> string \<Rightarrow> rat list \<Rightarrow> time list \<Rightarrow> rat \<Rightarrow> exn + anomaly list" where
  "run_method np meth metric values timestamps threshold =
     (if meth = ''zscore'' then Inr (detect_zscore np metric values timestamps threshold)
      else if meth = ''iqr'' then Inr (detect_iqr np metric values timestamps threshold)
      else if meth = ''moving_average'' then detect_moving_average np metric values timestamps threshold
      else if meth = ''ewma'' then Inr (detect_ewma np metric values timestamps threshold)
      else Inl (ValueErr (''Unknown detection method: '' @ meth)))"

text \<open>Each anomaly is stored, and then an alert is logged for the severe ones; where that raises the rest is lost.\<close>

fun store_anomalies :: "bool \<Rightarrow> time \<Rightarrow> anomaly list \<Rightarrow> anomaly_detector \<Rightarrow> (exn + unit) \<times> anomaly_detector" where
  "store_anomalies logger now [] s = (Inr (), s)"
| "store_anomalies logger now (a # as) s =
     (let s1 = s\<lparr>ad_anomalies := ad_anomalies s @ [(a, now)]\<rparr>
      in if an_severity a \<in> {''high'', ''critical''} \<and> \<not> logger then (Inl (NameErr ''logger''), s1)
         else store_anomalies logger now as s1)"

definition detect_anomalies ::
    "bool \<Rightarrow> numpy \<Rightarrow> string \<Rightarrow> string \<Rightarrow> rat list \<Rightarrow> time list \<Rightarrow> rat \<Rightarrow> time \<Rightarrow> anomaly_detector
      \<Rightarrow> (exn + anomaly list) \<times> anomaly_detector" where
  "detect_anomalies logger np meth metric values timestamps threshold now s =
     (case run_method np meth metric values timestamps threshold of
        Inl e \<Rightarrow> (Inl e, s)
      | Inr as \<Rightarrow> (case store_anomalies logger now as s of (Inl e, s1) \<Rightarrow> (Inl e, s1) | (Inr _, s1) \<Rightarrow> (Inr as, s1)))"

text \<open>numpy raises on the minimum of no values.\<close>

definition learn_baseline ::
    "bool \<Rightarrow> numpy \<Rightarrow> string \<Rightarrow> rat list \<Rightarrow> string \<Rightarrow> time \<Rightarrow> anomaly_detector \<Rightarrow> (exn + unit) \<times> anomaly_detector" where
  "learn_baseline logger np metric values period now s =
     (if values = [] then (Inl (ValueErr ''zero-size array''), s)
      else (let b = \<lparr>bl_mean = np_mean np values, bl_std = np_std np values, bl_min = Min (set values), bl_max = Max (set values),
                     bl_percentiles = map (\<lambda>q. (q, np_percentile np values (of_nat q))) [25, 50, 75, 95, 99],
                     bl_period = period, bl_learned_at = now\<rparr>
            in (if logger then Inr () else Inl (NameErr ''logger''), s\<lparr>ad_baselines := dict_set metric b (ad_baselines s)\<rparr>)))"

section \<open>How far a value can be from the mean\<close>

definition mean_of_values :: "rat list \<Rightarrow> rat" where
  "mean_of_values xs = sum_list xs / of_nat (length xs)"

definition variance :: "rat list \<Rightarrow> rat" where
  "variance xs = mean_of_values (map (\<lambda>x. (x - mean_of_values xs)\<^sup>2) xs)"

text \<open>What numpy documents of \<open>mean\<close> and \<open>std\<close>, for one list.\<close>

definition numpy_on :: "numpy \<Rightarrow> rat list \<Rightarrow> bool" where
  "numpy_on np xs \<longleftrightarrow> np_mean np xs = mean_of_values xs \<and> 0 \<le> np_std np xs \<and> (np_std np xs)\<^sup>2 = variance xs"

lemma sum_squared_le: "(sum_list ys)\<^sup>2 \<le> of_nat (length ys) * sum_list (map (\<lambda>y. y\<^sup>2) (ys :: rat list))"
proof (induction ys)
  case Nil
  show ?case by simp
next
  case (Cons a ys)
  let ?k = "of_nat (length ys) :: rat" and ?S = "sum_list ys" and ?Q = "sum_list (map (\<lambda>y. y\<^sup>2) ys)"
  have "2 * a * ?S \<le> ?k * a\<^sup>2 + ?Q"
  proof (cases "ys = []")
    case False
    then have k: "0 < ?k" by simp
    have "0 \<le> (?k * a - ?S)\<^sup>2" by simp
    also have "\<dots> = ?k * (?k * a\<^sup>2 - 2 * a * ?S) + ?S\<^sup>2" by (simp add: power2_eq_square algebra_simps)
    also have "\<dots> \<le> ?k * (?k * a\<^sup>2 - 2 * a * ?S) + ?k * ?Q" using Cons.IH by simp
    also have "\<dots> = ?k * (?k * a\<^sup>2 - 2 * a * ?S + ?Q)" by (simp add: algebra_simps)
    finally show ?thesis using k by (simp add: zero_le_mult_iff)
  qed simp
  then show ?case using Cons.IH by (simp add: power2_eq_square algebra_simps)
qed

lemma sum_list_remove1: "x \<in> set xs \<Longrightarrow> sum_list (map f xs) = f x + sum_list (map f (remove1 x xs))" for f :: "rat \<Rightarrow> rat"
  by (induction xs) auto

text \<open>No value is further from the mean than the square root of one less than their number, in standard deviations.\<close>

lemma deviation_bound:
  assumes "x \<in> set xs"
  shows "(x - mean_of_values xs)\<^sup>2 \<le> (of_nat (length xs) - 1) * variance xs"
proof -
  let ?n = "of_nat (length xs) :: rat" and ?m = "mean_of_values xs"
  let ?ys = "map (\<lambda>y. y - ?m) (remove1 x xs)" and ?d = "x - ?m"
  have n: "0 < ?n" using assms by (cases xs) auto
  have len: "of_nat (length ?ys) = ?n - 1" using assms n by (simp add: length_remove1 of_nat_diff Suc_le_eq)
  have "sum_list (map (\<lambda>y. y - ?m) xs) = 0"
    using n by (simp add: sum_list_subtractf mean_of_values_def sum_list_triv)
  then have s: "sum_list ?ys = - ?d" using sum_list_remove1 [OF assms, of "\<lambda>y. y - ?m"] by simp
  have "?n * variance xs = sum_list (map (\<lambda>y. (y - ?m)\<^sup>2) xs)"
    using n by (simp add: variance_def mean_of_values_def)
  then have q: "sum_list (map (\<lambda>y. y\<^sup>2) ?ys) = ?n * variance xs - ?d\<^sup>2"
    using sum_list_remove1 [OF assms, of "\<lambda>y. (y - ?m)\<^sup>2"] by (simp add: comp_def)
  have "?d\<^sup>2 \<le> (?n - 1) * (?n * variance xs - ?d\<^sup>2)"
    using sum_squared_le [of ?ys] unfolding s q len power2_minus .
  then have "?n * ?d\<^sup>2 \<le> ?n * ((?n - 1) * variance xs)" by (simp add: algebra_simps)
  then show ?thesis using n by simp
qed


text \<open>Every anomaly the method does find exceeds the threshold and is at least of medium severity.\<close>

lemma zscore_anomalies_severe:
  "a \<in> set (detect_zscore np metric values timestamps threshold) \<Longrightarrow>
     an_severity a \<in> {''medium'', ''high'', ''critical''} \<and> an_value a \<in> set values"
  by (auto simp: detect_zscore_def zscore_anomaly_def map_filter_def calculate_severity_def
      elim!: in_set_zipE split: if_splits)

text \<open>The moving average lies between bounds of the values.\<close>

lemma ewma_from_bounds:
  "e \<in> {lo..hi} \<Longrightarrow> set vs \<subseteq> {lo..hi} \<Longrightarrow> set (ewma_from e vs) \<subseteq> {lo..hi}"
proof (induction vs arbitrary: e)
  case Nil
  show ?case by simp
next
  case (Cons v vs)
  have "3 / 10 * v + (1 - 3 / 10) * e \<in> {lo..hi}" using Cons.prems by auto
  with Cons.IH [OF this] Cons.prems(2) show ?case by (simp add: Let_def)
qed

lemma ewma_bounds: "set vs \<subseteq> {lo..hi} \<Longrightarrow> set (ewma vs) \<subseteq> {lo..hi} \<and> length (ewma vs) = length vs"
proof -
  have len: "length (ewma_from e xs) = length xs" for e xs by (induction xs arbitrary: e) (simp_all add: Let_def)
  assume "set vs \<subseteq> {lo..hi}"
  then show ?thesis using ewma_from_bounds [of "hd vs" lo hi "tl vs"] by (cases vs) (auto simp: ewma_def len)
qed

text \<open>Without a logger a severe anomaly makes the detection raise, after it has been stored.\<close>

lemma severe_anomaly_raises:
  assumes "run_method np meth metric vs ts th = Inr (a # as)" "an_severity a \<in> {''high'', ''critical''}"
  shows "detect_anomalies False np meth metric vs ts th now s =
    (Inl (NameErr ''logger''), s\<lparr>ad_anomalies := ad_anomalies s @ [(a, now)]\<rparr>)"
  using assms by (simp add: detect_anomalies_def Let_def)

text \<open>Nine equal values and one that is not: the outlier is exactly three deviations away.\<close>

definition ex_values :: "rat list" where
  "ex_values = [0, 0, 0, 0, 0, 0, 0, 0, 0, 10]"

definition ex_numpy :: numpy where
  "ex_numpy = \<lparr>np_mean = mean_of_values, np_std = \<lambda>xs. if xs = ex_values then 3 else 0, np_percentile = \<lambda>xs q. 0\<rparr>"


end
