(* ===== verification/ModelRegistry.thy ===== *)
theory ModelRegistry
  imports Exceptions PyString
begin

text \<open>
  \<open>src/ai/\<close>: the registry of models (\<open>model_manager.py\<close>), the jobs that train them (\<open>training_pipeline.py\<close>) and
  the definitions of features (\<open>feature_store.py\<close>). A model is stored by an MLflow run; what MLflow, pandas and
  scikit-learn do with it (storing, loading, fitting, scoring) is an argument, a loaded model being the run it
  was stored by. The pipeline and the feature store use names their modules do not define.
\<close>

section \<open>The registry\<close>

type_synonym metrics = "(string \<times> rat) list"

record model_version =
  mv_id :: string
  mv_version :: string
  mv_run :: string
  mv_metrics :: metrics
  mv_parameters :: pydict
  mv_training_data :: pydict
  mv_created_at :: int
  mv_status :: string

record model_info =
  mi_id :: string
  mi_name :: string
  mi_type :: string
  mi_framework :: string
  mi_description :: string
  mi_tags :: pydict
  mi_created_at :: int
  mi_status :: string
  mi_current :: "string option"
  mi_promoted_at :: "int option"

record model_manager =
  mm_models :: "(string, model_info) dict"
  mm_versions :: "(string, model_version list) dict"
  mm_production :: "(string, string) dict"
  mm_performance :: "(string, metrics) dict"

definition new_model_manager :: model_manager where
  "new_model_manager = \<lparr>mm_models = [], mm_versions = [], mm_production = [], mm_performance = []\<rparr>"

definition versions_of :: "string \<Rightarrow> model_manager \<Rightarrow> model_version list" where
  "versions_of m s = dict_get_or (mm_versions s) m []"

definition performance_key :: "string \<Rightarrow> string \<Rightarrow> string" where
  "performance_key m v = m @ '':'' @ v"

definition given :: "string option \<Rightarrow> bool" where
  "given v = (v \<noteq> None \<and> v \<noteq> Some [])"

definition register_model ::
    "string \<Rightarrow> string \<Rightarrow> string \<Rightarrow> string \<Rightarrow> string \<Rightarrow> pydict option \<Rightarrow> int \<Rightarrow> model_manager \<Rightarrow> string \<times> model_manager" where
  "register_model i name ty framework description tags now s =
     (i, s\<lparr>mm_models := dict_set i \<lparr>mi_id = i, mi_name = name, mi_type = ty, mi_framework = framework,
             mi_description = description, mi_tags = (case tags of None \<Rightarrow> [] | Some t \<Rightarrow> t), mi_created_at = now,
             mi_status = ''development'', mi_current = None, mi_promoted_at = None\<rparr> (mm_models s),
           mm_versions := dict_set i [] (mm_versions s)\<rparr>)"

text \<open>\<open>run\<close> is the run that stored the model, or what MLflow raised.\<close>

definition save_model_version ::
    "string \<Rightarrow> exn + string \<Rightarrow> string \<Rightarrow> string \<Rightarrow> metrics \<Rightarrow> pydict \<Rightarrow> pydict \<Rightarrow> int \<Rightarrow> model_manager
      \<Rightarrow> (exn + string) \<times> model_manager" where
  "save_model_version vid run m version metrics parameters info now s =
     (if \<not> dict_has (mm_models s) m then (Inl (ValueErr (''Model '' @ m @ '' not found'')), s)
      else (case run of
          Inl e \<Rightarrow> (Inl e, s)
        | Inr r \<Rightarrow>
          (if \<not> dict_has (mm_versions s) m then (Inl (KeyErr m), s)
           else (Inr vid, s\<lparr>mm_versions := dict_mod m (\<lambda>vs. vs @ [\<lparr>mv_id = vid, mv_version = version, mv_run = r,
                    mv_metrics = metrics, mv_parameters = parameters, mv_training_data = info, mv_created_at = now,
                    mv_status = ''stored''\<rparr>]) (mm_versions s),
                  mm_models := dict_mod m (\<lambda>x. if given (mi_current x) then x else x\<lparr>mi_current := Some version\<rparr>) (mm_models s)\<rparr>))))"

text \<open>The stage comes before the version that is asked for.\<close>

definition wanted_version :: "string \<Rightarrow> string option \<Rightarrow> string \<Rightarrow> model_manager \<Rightarrow> exn + string" where
  "wanted_version m version stage s =
     (let v = (if stage = ''production'' \<and> dict_has (mm_production s) m then dict_get (mm_production s) m else version)
      in if given v then Inr (the v)
         else (case rev (versions_of m s) of
             [] \<Rightarrow> Inl (ValueErr (''No versions found for model '' @ m))
           | x # _ \<Rightarrow> Inr (mv_version x)))"

definition find_version :: "string \<Rightarrow> string \<Rightarrow> model_manager \<Rightarrow> model_version option" where
  "find_version m v s = find (\<lambda>x. mv_version x = v) (versions_of m s)"

definition load_model ::
    "(string \<Rightarrow> string \<Rightarrow> exn + unit) \<Rightarrow> string \<Rightarrow> string option \<Rightarrow> string \<Rightarrow> model_manager \<Rightarrow> exn + string" where
  "load_model mlflow m version stage s =
     rbind (wanted_version m version stage s) (\<lambda>v.
       case find_version m v s of
         None \<Rightarrow> Inl (ValueErr (''Version '' @ v @ '' not found for model '' @ m))
       | Some x \<Rightarrow>
         (case dict_get (mm_models s) m of
            None \<Rightarrow> Inl (KeyErr m)
          | Some i \<Rightarrow>
            if mi_framework i \<in> {''sklearn'', ''tensorflow'', ''xgboost''}
            then rbind (mlflow (mi_framework i) (mv_run x)) (\<lambda>_. Inr (mv_run x))
            else Inl (ValueErr (''Unsupported framework: '' @ mi_framework i))))"

definition promote_to_production :: "string \<Rightarrow> string \<Rightarrow> int \<Rightarrow> model_manager \<Rightarrow> (exn + bool) \<times> model_manager" where
  "promote_to_production m version now s =
     (if \<not> list_ex (\<lambda>x. mv_version x = version) (versions_of m s) then (Inr False, s)
      else (let s1 = s\<lparr>mm_production := dict_set m version (mm_production s)\<rparr>
            in if \<not> dict_has (mm_models s1) m then (Inl (KeyErr m), s1)
               else (Inr True, s1\<lparr>mm_models := dict_mod m (\<lambda>x. x\<lparr>mi_status := ''production'', mi_current := Some version,
                        mi_promoted_at := Some now\<rparr>) (mm_models s1)\<rparr>)))"

text \<open>\<open>score\<close> gives the measures of the model of a run on the test data, or raises; only two types have any.\<close>

definition evaluate_model ::
    "(string \<Rightarrow> string \<Rightarrow> exn + unit) \<Rightarrow> (string \<Rightarrow> exn + metrics) \<Rightarrow> string \<Rightarrow> string \<Rightarrow> model_manager
      \<Rightarrow> (exn + metrics) \<times> model_manager" where
  "evaluate_model mlflow score m version s =
     (case load_model mlflow m (Some version) ''production'' s of
        Inl e \<Rightarrow> (Inl e, s)
      | Inr run \<Rightarrow>
        (case dict_get (mm_models s) m of
           None \<Rightarrow> (Inl (KeyErr m), s)
         | Some i \<Rightarrow>
           if mi_type i \<notin> {''classification'', ''regression''} then (Inl (py_exn PyUnboundLocalError ''metrics''), s)
           else (case score run of
               Inl e \<Rightarrow> (Inl e, s)
             | Inr r \<Rightarrow> (Inr r, s\<lparr>mm_performance := dict_set (performance_key m version) r (mm_performance s)\<rparr>))))"

record model_view =
  vw_model :: model_info
  vw_versions :: "model_version list"
  vw_production :: "string option"
  vw_performance :: "metrics option"

definition get_model_info :: "string \<Rightarrow> model_manager \<Rightarrow> model_view option" where
  "get_model_info m s =
     (case dict_get (mm_models s) m of
        None \<Rightarrow> None
      | Some i \<Rightarrow> Some \<lparr>vw_model = i, vw_versions = versions_of m s, vw_production = dict_get (mm_production s) m,
          vw_performance = dict_get (mm_performance s)
            (performance_key m (case mi_current i of None \<Rightarrow> ''None'' | Some v \<Rightarrow> v))\<rparr>)"

definition list_models :: "string option \<Rightarrow> model_manager \<Rightarrow> model_info list" where
  "list_models status s =
     (if given status then filter (\<lambda>i. Some (mi_status i) = status) (dict_values (mm_models s)) else dict_values (mm_models s))"

definition delete_model :: "string \<Rightarrow> model_manager \<Rightarrow> model_manager" where
  "delete_model m s = s\<lparr>mm_models := dict_pop m (mm_models s), mm_versions := dict_pop m (mm_versions s),
     mm_production := dict_pop m (mm_production s)\<rparr>"

section \<open>Training jobs\<close>

record training_job =
  tj_model :: string
  tj_status :: string
  tj_started_at :: int
  tj_result :: "(int \<times> metrics \<times> string) option"
  tj_error :: "msg option"

record training_pipeline =
  tp_manager :: model_manager
  tp_jobs :: "(string, training_job) dict"

record pipeline_env =
  pe_logger :: bool
  pe_uuid :: bool

definition new_training_pipeline :: "pipeline_env \<Rightarrow> model_manager \<Rightarrow> exn + training_pipeline" where
  "new_training_pipeline env mm =
     (if pe_logger env then Inr \<lparr>tp_manager = mm, tp_jobs = []\<rparr> else Inl (NameErr ''logger''))"

text \<open>\<open>fit\<close> is the outcome of preparing the data, splitting it and training; a type other than the two raises after the
  data has been split. \<open>version\<close> is the rendered clock.\<close>

definition train_model ::
    "pipeline_env \<Rightarrow> string \<Rightarrow> exn + metrics \<Rightarrow> string \<Rightarrow> exn + string \<Rightarrow> string \<Rightarrow> string \<Rightarrow> string \<Rightarrow> pydict option \<Rightarrow> pydict
      \<Rightarrow> int \<Rightarrow> training_pipeline \<Rightarrow> (exn + metrics) \<times> training_pipeline" where
  "train_model env job fit vid run m ty version hyper info now s =
     (if \<not> pe_uuid env then (Inl (NameErr ''uuid''), s)
      else (let s1 = s\<lparr>tp_jobs := dict_set job \<lparr>tj_model = m, tj_status = ''started'', tj_started_at = now, tj_result = None,
                  tj_error = None\<rparr> (tp_jobs s)\<rparr>;
                failed = (\<lambda>e t. (Inl (if pe_logger env then e else NameErr ''logger''),
                  t\<lparr>tp_jobs := dict_mod job (\<lambda>j. j\<lparr>tj_status := ''failed'', tj_error := Some (ex_message e)\<rparr>) (tp_jobs t)\<rparr>))
            in case rbind fit (\<lambda>r. if ty \<in> {''classification'', ''regression''} then Inr r
                                   else Inl (ValueErr (''Unknown model type: '' @ ty))) of
                 Inl e \<Rightarrow> failed e s1
               | Inr r \<Rightarrow>
                 (case save_model_version vid run m version r (case hyper of None \<Rightarrow> [] | Some h \<Rightarrow> h) info now (tp_manager s1) of
                    (Inl e, mm) \<Rightarrow> failed e (s1\<lparr>tp_manager := mm\<rparr>)
                  | (Inr _, mm) \<Rightarrow>
                    (let s2 = s1\<lparr>tp_manager := mm, tp_jobs := dict_mod job (\<lambda>j. j\<lparr>tj_status := ''completed'',
                                 tj_result := Some (now, r, version)\<rparr>) (tp_jobs s1)\<rparr>
                     in if pe_logger env then (Inr r, s2) else failed (NameErr ''logger'') s2))))"

text \<open>The search: the parameters and the mean score of each trial are drawn; the first of the best is kept.\<close>

definition better_trial :: "pydict \<times> rat \<Rightarrow> (pydict \<times> rat) option \<Rightarrow> (pydict \<times> rat) option" where
  "better_trial t best = (case best of None \<Rightarrow> Some t | Some b \<Rightarrow> if snd t > snd b then Some t else Some b)"

definition hyperparameter_tuning :: "(pydict \<times> rat) list \<Rightarrow> (pydict \<times> rat) option" where
  "hyperparameter_tuning trials = fold better_trial trials None"

definition get_training_job :: "string \<Rightarrow> training_pipeline \<Rightarrow> training_job option" where
  "get_training_job i s = dict_get (tp_jobs s) i"

section \<open>Features\<close>

record feature =
  fe_name :: string
  fe_type :: string
  fe_description :: string
  fe_source :: string
  fe_transformation :: "string option"
  fe_tags :: "string list"
  fe_created_at :: int

record feature_store =
  fs_features :: "(string, feature) dict"
  fs_groups :: "(string, string list) dict"
  fs_transformations :: "(string, pydict \<Rightarrow> exn + pyval) dict"

text \<open>The constructor reads \<open>settings\<close> before the assignment that makes it a local name.\<close>

definition new_feature_store :: "exn + feature_store" where
  "new_feature_store = Inl (py_exn PyUnboundLocalError ''settings'')"

definition empty_feature_store :: feature_store where
  "empty_feature_store = \<lparr>fs_features = [], fs_groups = [], fs_transformations = []\<rparr>"

definition register_feature ::
    "string \<Rightarrow> string \<Rightarrow> string \<Rightarrow> string \<Rightarrow> string option \<Rightarrow> string list option \<Rightarrow> int \<Rightarrow> feature_store \<Rightarrow> feature_store" where
  "register_feature name ty description source tfm tags now s =
     s\<lparr>fs_features := dict_set name \<lparr>fe_name = name, fe_type = ty, fe_description = description, fe_source = source,
         fe_transformation = tfm, fe_tags = (case tags of None \<Rightarrow> [] | Some t \<Rightarrow> t), fe_created_at = now\<rparr> (fs_features s)\<rparr>"

definition create_feature_group :: "string \<Rightarrow> string list \<Rightarrow> feature_store \<Rightarrow> feature_store" where
  "create_feature_group g names s = s\<lparr>fs_groups := dict_set g names (fs_groups s)\<rparr>"

definition register_transformation :: "string \<Rightarrow> (pydict \<Rightarrow> exn + pyval) \<Rightarrow> feature_store \<Rightarrow> feature_store" where
  "register_transformation name f s = s\<lparr>fs_transformations := dict_set name f (fs_transformations s)\<rparr>"

definition compute_feature :: "string \<Rightarrow> pydict \<Rightarrow> feature_store \<Rightarrow> exn + pyval" where
  "compute_feature name ent s =
     (case dict_get (fs_features s) name of
        None \<Rightarrow> Inl (ValueErr (''Feature '' @ name @ '' not found''))
      | Some f \<Rightarrow>
        (case (if given (fe_transformation f) then dict_get (fs_transformations s) (the (fe_transformation f)) else None) of
           Some t \<Rightarrow> t ent
         | None \<Rightarrow> Inr (dict_get_or ent (fe_source f) PNone)))"

text \<open>A truth value is an \<open>int\<close> for \<open>isinstance\<close>.\<close>

definition feature_error :: "feature_store \<Rightarrow> string \<times> pyval \<Rightarrow> string option" where
  "feature_error s = (\<lambda>(n, v).
     (case dict_get (fs_features s) n of
        None \<Rightarrow> Some (''Unknown feature: '' @ n)
      | Some f \<Rightarrow>
        if fe_type f = ''numeric'' then (if num_val v \<noteq> None then None else Some (''Feature '' @ n @ '' should be numeric''))
        else if fe_type f = ''categorical'' then (case v of PStr _ \<Rightarrow> None | _ \<Rightarrow> Some (''Feature '' @ n @ '' should be string''))
        else if fe_type f = ''boolean'' then (case v of PBool _ \<Rightarrow> None | _ \<Rightarrow> Some (''Feature '' @ n @ '' should be boolean''))
        else None))"

definition validate_features :: "pydict \<Rightarrow> feature_store \<Rightarrow> string list" where
  "validate_features features s = List.map_filter (feature_error s) features"

section \<open>The registry stays consistent\<close>

datatype registry_op =
    Register string string string string string "pydict option"
  | Save string "exn + string" string string metrics pydict pydict
  | Promote string string
  | Evaluate "string \<Rightarrow> string \<Rightarrow> exn + unit" "string \<Rightarrow> exn + metrics" string string
  | Delete string

fun registry_exec :: "registry_op \<times> int \<Rightarrow> model_manager \<Rightarrow> model_manager" where
  "registry_exec (Register i n t f d tg, now) s = snd (register_model i n t f d tg now s)"
| "registry_exec (Save v r m ve me p ti, now) s = snd (save_model_version v r m ve me p ti now s)"
| "registry_exec (Promote m v, now) s = snd (promote_to_production m v now s)"
| "registry_exec (Evaluate ml sc m v, now) s = snd (evaluate_model ml sc m v s)"
| "registry_exec (Delete m, now) s = delete_model m s"

text \<open>A drawn identifier is new.\<close>

fun fresh_op :: "registry_op \<times> int \<Rightarrow> model_manager \<Rightarrow> bool" where
  "fresh_op (Register i n t f d tg, now) s = (\<not> dict_has (mm_production s) i)"
| "fresh_op _ s = True"

definition has_version :: "string \<Rightarrow> string \<Rightarrow> model_manager \<Rightarrow> bool" where
  "has_version m v s \<longleftrightarrow> (\<exists>x \<in> set (versions_of m s). mv_version x = v)"

definition registry_inv :: "model_manager \<Rightarrow> bool" where
  "registry_inv s \<longleftrightarrow>
     (\<forall>m. dict_has (mm_models s) m = dict_has (mm_versions s) m) \<and>
     (\<forall>m v. dict_get (mm_production s) m = Some v \<longrightarrow> dict_has (mm_models s) m \<and> has_version m v s)"

lemma versions_of_simps:
  "versions_of m (s\<lparr>mm_versions := dict_set i vs (mm_versions s)\<rparr>) = (if m = i then vs else versions_of m s)"
  "versions_of m (s\<lparr>mm_versions := dict_pop i (mm_versions s)\<rparr>) = (if m = i then [] else versions_of m s)"
  by (simp_all add: versions_of_def dict_get_or_def)

definition guarded_exec :: "registry_op \<times> int \<Rightarrow> model_manager \<Rightarrow> model_manager" where
  "guarded_exec x s = (if fresh_op x s then registry_exec x s else s)"

lemma evaluate_frame [simp]:
  "mm_models (snd (evaluate_model ml sc m v s)) = mm_models s"
  "mm_versions (snd (evaluate_model ml sc m v s)) = mm_versions s"
  "mm_production (snd (evaluate_model ml sc m v s)) = mm_production s"
  by (simp_all add: evaluate_model_def split: sum.split option.split)

lemma registry_inv_grow:
  assumes "registry_inv s" "mm_production s' = mm_production s"
    "\<And>m. dict_has (mm_models s') m = dict_has (mm_models s) m" "\<And>m. dict_has (mm_versions s') m = dict_has (mm_versions s) m"
    "\<And>m. set (versions_of m s) \<subseteq> set (versions_of m s')"
  shows "registry_inv s'"
  using assms unfolding registry_inv_def has_version_def by (metis subsetD)

lemma save_grows:
  "mm_production (snd (save_model_version v r m ve me p ti now s)) = mm_production s"
  "dict_has (mm_models (snd (save_model_version v r m ve me p ti now s))) m' = dict_has (mm_models s) m'"
  "dict_has (mm_versions (snd (save_model_version v r m ve me p ti now s))) m' = dict_has (mm_versions s) m'"
  "set (versions_of m' s) \<subseteq> set (versions_of m' (snd (save_model_version v r m ve me p ti now s)))"
  by (cases "dict_get (mm_versions s) m'"; auto simp: save_model_version_def versions_of_def dict_get_or_def split: sum.split)+

lemma guarded_exec_inv: "registry_inv s \<Longrightarrow> registry_inv (guarded_exec (op, now) s)"
proof (cases op)
  case (Save v r m ve me p ti)
  assume "registry_inv s"
  then show ?thesis using Save by (simp add: guarded_exec_def registry_inv_grow [OF _ save_grows])
next
  case (Register i n t f d tg)
  assume "registry_inv s"
  then show ?thesis using Register
    by (auto simp: guarded_exec_def register_model_def registry_inv_def has_version_def versions_of_def dict_get_or_def dict_has_def)
next
  case (Promote m v)
  assume "registry_inv s"
  then show ?thesis using Promote
    by (auto simp: guarded_exec_def promote_to_production_def registry_inv_def has_version_def versions_of_def dict_get_or_def
        dict_has_def list_ex_iff Let_def split: option.splits)
next
  case (Evaluate ml sc m v)
  assume "registry_inv s"
  then show ?thesis using Evaluate
    by (auto simp: guarded_exec_def versions_of_def intro: registry_inv_grow)
next
  case (Delete m)
  assume "registry_inv s"
  then show ?thesis using Delete
    by (auto simp: guarded_exec_def delete_model_def registry_inv_def has_version_def versions_of_def dict_get_or_def)
qed

interpretation registry: op_system guarded_exec registry_inv
  by unfold_locales (metis guarded_exec_inv surj_pair)


section \<open>Evaluation\<close>

text \<open>
  once a model has a version in production, evaluating any version of it measures the production version and
  stores the result as that of the version asked for.
\<close>

theorem evaluation_measures_production:
  assumes "dict_get (mm_production s) m = Some p" "p \<noteq> []" "evaluate_model mlflow score m v s = (Inr r, s')"
  shows "\<exists>x. find_version m p s = Some x \<and> score (mv_run x) = Inr r \<and>
    dict_get (mm_performance s') (performance_key m v) = Some r"
proof -
  have w: "wanted_version m (Some v) ''production'' s = Inr p"
    using assms(1,2) by (simp add: wanted_version_def dict_has_def given_def)
  obtain run where run: "load_model mlflow m (Some v) ''production'' s = Inr run" "score run = Inr r"
    "s' = s\<lparr>mm_performance := dict_set (performance_key m v) r (mm_performance s)\<rparr>"
    using assms(3) by (auto simp: evaluate_model_def split: sum.splits option.splits if_splits)
  from run(1) obtain x where "find_version m p s = Some x" "run = mv_run x"
    by (auto simp: load_model_def w rbind_Inr split: option.splits if_splits)
  with run(2,3) show ?thesis by simp
qed

section \<open>Training\<close>

text \<open>A job ends as completed exactly when its model version has been stored, provided the module's names exist.\<close>

lemma save_outcome:
  "save_model_version vid run m version me p info now s = (Inr v, s') \<Longrightarrow> has_version m version s'"
  by (auto simp: save_model_version_def has_version_def versions_of_def dict_get_or_def dict_has_def
      split: sum.splits if_splits)

lemma completed_job_stored:
  assumes "pe_logger env" "pe_uuid env" "train_model env job fit vid run m ty version hyper info now s = (r, s')"
  shows "(\<exists>j. get_training_job job s' = Some j \<and> tj_status j = (if is_ok r then ''completed'' else ''failed'')) \<and>
    (is_ok r \<longrightarrow> has_version m version (tp_manager s'))"
proof (cases "rbind fit (\<lambda>r. if ty \<in> {''classification'', ''regression''} then Inr r else Inl (ValueErr (''Unknown model type: '' @ ty)))")
  case (Inl e)
  with assms have "r = Inl e" "s' = s\<lparr>tp_jobs := dict_mod job (\<lambda>j. j\<lparr>tj_status := ''failed'', tj_error := Some (ex_message e)\<rparr>)
      (dict_set job \<lparr>tj_model = m, tj_status = ''started'', tj_started_at = now, tj_result = None, tj_error = None\<rparr> (tp_jobs s))\<rparr>"
    by (simp_all add: train_model_def Let_def)
  then show ?thesis by (simp add: get_training_job_def)
next
  case (Inr q)
  obtain w mm where sv: "save_model_version vid run m version q (case hyper of None \<Rightarrow> [] | Some h \<Rightarrow> h) info now (tp_manager s) = (w, mm)"
    by force
  show ?thesis
  proof (cases w)
    case (Inl e)
    with assms Inr sv have "r = Inl e" "tp_jobs s' = dict_mod job (\<lambda>j. j\<lparr>tj_status := ''failed'', tj_error := Some (ex_message e)\<rparr>)
      (dict_set job \<lparr>tj_model = m, tj_status = ''started'', tj_started_at = now, tj_result = None, tj_error = None\<rparr> (tp_jobs s))"
      by (auto simp: train_model_def Let_def)
    then show ?thesis by (simp add: get_training_job_def)
  next
    case v: (Inr v)
    with assms Inr sv have "r = Inr q" "tp_manager s' = mm"
      "tp_jobs s' = dict_mod job (\<lambda>j. j\<lparr>tj_status := ''completed'', tj_result := Some (now, q, version)\<rparr>)
      (dict_set job \<lparr>tj_model = m, tj_status = ''started'', tj_started_at = now, tj_result = None, tj_error = None\<rparr> (tp_jobs s))"
      by (auto simp: train_model_def Let_def)
    then show ?thesis using save_outcome sv v by (auto simp: get_training_job_def)
  qed
qed

lemma better_trial_fold:
  "fold better_trial ts (Some b) = Some c \<Longrightarrow> snd b \<le> snd c \<and> (\<forall>t \<in> set ts. snd t \<le> snd c) \<and> (c = b \<or> c \<in> set ts)"
proof (induction ts arbitrary: b)
  case Nil
  then show ?case by simp
next
  case (Cons t ts)
  show ?case
  proof (cases "snd t > snd b")
    case True
    with Cons.IH [of t] Cons.prems show ?thesis by (auto simp: better_trial_def)
  next
    case False
    with Cons.IH [of b] Cons.prems show ?thesis by (auto simp: better_trial_def)
  qed
qed

lemma tuning_finds_best:
  "hyperparameter_tuning ts = Some c \<Longrightarrow> c \<in> set ts \<and> (\<forall>t \<in> set ts. snd t \<le> snd c)"
  using better_trial_fold [of "tl ts" "hd ts" c] by (cases ts) (auto simp: hyperparameter_tuning_def better_trial_def)

section \<open>Examples\<close>

definition ex_registry_ops :: "(registry_op \<times> int) list" where
  "ex_registry_ops = [(Register ''m'' ''risk'' ''classification'' ''sklearn'' ''d'' None, 0),
     (Save ''a'' (Inr ''run1'') ''m'' ''1'' [] [] [], 1), (Save ''b'' (Inr ''run2'') ''m'' ''2'' [] [] [], 2), (Promote ''m'' ''1'', 3)]"


definition ex_score :: "string \<Rightarrow> exn + metrics" where
  "ex_score run = Inr [(''accuracy'', if run = ''run1'' then 9 / 10 else 2 / 10)]"

theorem evaluation_measures_production_witness:
  "dict_get (mm_performance (snd (evaluate_model (\<lambda>_ _. Inr ()) ex_score ''m'' ''2'' (fold guarded_exec ex_registry_ops new_model_manager))))
     ''m:2'' = Some [(''accuracy'', 9 / 10)]"
proof -
  let ?s = "fold guarded_exec ex_registry_ops new_model_manager"
  let ?e = "evaluate_model (\<lambda>_ _. Inr ()) ex_score ''m'' ''2'' ?s"
  have 1: "dict_get (mm_production ?s) ''m'' = Some ''1''" by code_simp
  have 2: "fst ?e = Inr [(''accuracy'', 9 / 10)]" by code_simp
  have "?e = (Inr [(''accuracy'', 9 / 10)], snd ?e)" using 2 by (metis prod.collapse)
  from evaluation_measures_production [OF 1 _ this] show ?thesis by (auto simp: performance_key_def)
qed

end
