(* ===== verification/PriorityEngine.thy ===== *)
theory PriorityEngine
  imports Calendar Exceptions
begin

text \<open>
  \<open>src/autonomous/priority_engine.py\<close>: scores of work items and a greedy schedule of them under resources. An item
  is a dictionary; the keys the engine reads are the fields, \<open>None\<close> where a key is missing. The constructor logs
  through a name the module does not define and raises; the operations are those of the object it would have made.
\<close>

record work_item =
  wi_name :: string
  wi_risk :: "rat option"
  wi_criticality :: "string option"
  wi_deadline :: bool
  wi_deadline_days :: "rat option"
  wi_dependencies :: nat
  wi_hours :: "rat option"
  wi_resources :: "(string, rat) dict"

definition new_priority_engine :: "exn + unit" where
  "new_priority_engine = Inl (NameErr ''logger'')"

section \<open>Scores\<close>

definition or_default :: "'a option \<Rightarrow> 'a \<Rightarrow> 'a" where
  "or_default x d = (case x of None \<Rightarrow> d | Some v \<Rightarrow> v)"

definition criticality_map :: "(string \<times> rat) list" where
  "criticality_map = [(''critical'', 1), (''high'', 8 / 10), (''medium'', 5 / 10), (''low'', 2 / 10), (''none'', 0)]"

definition proximity :: "rat \<Rightarrow> rat" where
  "proximity d = (if d \<le> 0 then 1 else if d \<le> 7 then 8 / 10 else if d \<le> 30 then 5 / 10 else 2 / 10)"

text \<open>The score before it is rounded; a deadline without its days raises.\<close>

definition raw_score :: "work_item \<Rightarrow> exn + rat" where
  "raw_score i =
     (let base = or_default (wi_risk i) 50 / 100 * (3 / 10) * 100 +
                 dict_get_or criticality_map (or_default (wi_criticality i) ''medium'') (5 / 10) * (25 / 100) * 100;
          rest = min (of_nat (wi_dependencies i) / 10) 1 * (15 / 100) * 100 +
                 max 0 (1 - or_default (wi_hours i) 8 / 40) * (1 / 10) * 100
      in if \<not> wi_deadline i then Inr (base + rest)
         else (case wi_deadline_days i of
             None \<Rightarrow> Inl (KeyErr ''deadline_days'')
           | Some d \<Rightarrow> Inr (base + proximity d * (2 / 10) * 100 + rest)))"

definition calculate_priority_score :: "work_item \<Rightarrow> exn + rat" where
  "calculate_priority_score i = rbind (raw_score i) (\<lambda>x. Inr (round2 x))"

definition priority_level :: "rat \<Rightarrow> string" where
  "priority_level s = (if s \<ge> 80 then ''critical'' else if s \<ge> 60 then ''high'' else if s \<ge> 40 then ''medium''
     else if s \<ge> 20 then ''low'' else ''lowest'')"

record scored_item =
  si_item :: work_item
  si_score :: rat
  si_level :: string

fun score_items :: "work_item list \<Rightarrow> exn + scored_item list" where
  "score_items [] = Inr []"
| "score_items (i # is) =
     rbind (calculate_priority_score i) (\<lambda>s. rbind (score_items is) (\<lambda>r.
       Inr (\<lparr>si_item = i, si_score = s, si_level = priority_level s\<rparr> # r)))"

text \<open>\<open>sorted(..., reverse=True)\<close>: highest first, equal ones in their order.\<close>

definition calculate_priority :: "work_item list \<Rightarrow> exn + scored_item list" where
  "calculate_priority is = rbind (score_items is) (\<lambda>r. Inr (sort_key (\<lambda>x. - si_score x) r))"

section \<open>The schedule\<close>

type_synonym amounts = "(string, rat) dict"

definition fits :: "amounts \<Rightarrow> amounts \<Rightarrow> amounts \<Rightarrow> bool" where
  "fits resources usage req = list_all (\<lambda>(k, a). dict_get_or usage k 0 + a \<le> dict_get_or resources k 0) req"

fun take_resources :: "amounts \<Rightarrow> amounts \<Rightarrow> exn + amounts" where
  "take_resources [] usage = Inr usage"
| "take_resources ((k, a) # req) usage =
     (case dict_get usage k of
        None \<Rightarrow> Inl (KeyErr k)
      | Some u \<Rightarrow> take_resources req (dict_set k (u + a) usage))"

record plan =
  pl_schedule :: "(scored_item \<times> nat) list"
  pl_usage :: amounts

definition place_item :: "amounts \<Rightarrow> nat \<Rightarrow> scored_item \<Rightarrow> plan \<Rightarrow> exn + plan" where
  "place_item resources days x p =
     (if \<not> fits resources (pl_usage p) (wi_resources (si_item x)) then Inr p
      else rbind (take_resources (wi_resources (si_item x)) (pl_usage p)) (\<lambda>u.
        if days = 0 then Inl (py_exn PyZeroDivisionError ''integer modulo by zero'')
        else Inr \<lparr>pl_schedule = pl_schedule p @ [(x, length (pl_schedule p) mod days + 1)], pl_usage = u\<rparr>))"

record schedule_result =
  sc_plan :: plan
  sc_scheduled :: nat
  sc_unscheduled :: int

definition optimize_schedule :: "work_item list \<Rightarrow> amounts \<Rightarrow> nat \<Rightarrow> exn + schedule_result" where
  "optimize_schedule is resources days =
     rbind (calculate_priority is) (\<lambda>xs.
       rbind (foldM_e (place_item resources days) xs \<lparr>pl_schedule = [], pl_usage = map (\<lambda>(k, v). (k, 0)) resources\<rparr>) (\<lambda>p.
         Inr \<lparr>sc_plan = p, sc_scheduled = length (pl_schedule p),
              sc_unscheduled = int (length is) - int (length (pl_schedule p))\<rparr>))"

section \<open>Properties\<close>

text \<open>The score of an item whose values are in their ranges is between 0 and 100.\<close>

lemma criticality_bounds: "0 \<le> dict_get_or criticality_map c (5 / 10) \<and> dict_get_or criticality_map c (5 / 10) \<le> 1"
  by (simp add: criticality_map_def dict_get_or_def dict_get_Cons)

lemma raw_score_bounds:
  assumes "raw_score i = Inr s" "0 \<le> or_default (wi_risk i) 50" "or_default (wi_risk i) 50 \<le> 100" "0 \<le> or_default (wi_hours i) 8"
  shows "0 \<le> s \<and> s \<le> 100"
proof -
  define C where "C = dict_get_or criticality_map (or_default (wi_criticality i) ''medium'') (5 / 10)"
  define D where "D = min (of_nat (wi_dependencies i) / 10) (1 :: rat)"
  define E where "E = max 0 (1 - or_default (wi_hours i) 8 / 40)"
  define R where "R = or_default (wi_risk i) 50"
  have c: "0 \<le> C" "C \<le> 1" using criticality_bounds by (auto simp: C_def)
  have p: "0 \<le> proximity d \<and> proximity d \<le> 1" for d by (simp add: proximity_def)
  have d: "0 \<le> D" "D \<le> 1" by (auto simp: D_def)
  have e: "0 \<le> E" "E \<le> 1" using assms(4) by (auto simp: E_def)
  have r: "0 \<le> R" "R \<le> 100" using assms(2,3) by (auto simp: R_def)
  note raw = assms(1) [unfolded raw_score_def Let_def, folded C_def D_def E_def R_def]
  show ?thesis
  proof (cases "wi_deadline i")
    case False
    then have "s = R / 100 * (3 / 10) * 100 + C * (25 / 100) * 100 + (D * (15 / 100) * 100 + E * (1 / 10) * 100)"
      using raw by simp
    then show ?thesis using c d e r by simp
  next
    case True
    then obtain w where "wi_deadline_days i = Some w" using raw by (auto split: option.splits)
    then have "s = R / 100 * (3 / 10) * 100 + C * (25 / 100) * 100 + proximity w * (2 / 10) * 100 +
        (D * (15 / 100) * 100 + E * (1 / 10) * 100)"
      using raw True by simp
    then show ?thesis using c d e r p [of w] by simp
  qed
qed

text \<open>Adding the amounts of one item to those of the plan.\<close>

lemma take_resources_get:
  "take_resources req u = Inr u' \<Longrightarrow> dict_ok req \<Longrightarrow>
     dict_get u' k = map_option (\<lambda>x. x + dict_get_or req k 0) (dict_get u k)"
proof (induction req u arbitrary: u' rule: take_resources.induct)
  case (1 u)
  then show ?case by (simp add: dict_get_or_def option.map_ident)
next
  case (2 k' a req u)
  then obtain v where v: "dict_get u k' = Some v" by (auto split: option.splits)
  have ok: "dict_ok req" "dict_get req k' = None"
    using 2(3) by (auto simp: dict_ok_def dict_keys_def dict_get_def map_of_eq_None_iff)
  from 2(1) [OF v _ ok(1), of u'] 2(2) v
  have "dict_get u' k = map_option (\<lambda>x. x + dict_get_or req k 0) (dict_get (dict_set k' (v + a) u) k)" by simp
  then show ?case using v ok(2) by (auto simp: dict_get_or_def dict_get_Cons)
qed

definition plan_within :: "amounts \<Rightarrow> plan \<Rightarrow> bool" where
  "plan_within resources p \<longleftrightarrow> (\<forall>k u. dict_get (pl_usage p) k = Some u \<longrightarrow> u \<le> dict_get_or resources k 0)"

lemma place_item_within:
  assumes "place_item resources days x p = Inr p'" "plan_within resources p" "dict_ok (wi_resources (si_item x))"
  shows "plan_within resources p'"
proof (cases "fits resources (pl_usage p) (wi_resources (si_item x))")
  case False
  then show ?thesis using assms by (simp add: place_item_def)
next
  case True
  then obtain u where u: "take_resources (wi_resources (si_item x)) (pl_usage p) = Inr u" "pl_usage p' = u"
    using assms(1) by (auto simp: place_item_def rbind_Inr split: if_splits)
  show ?thesis
    unfolding plan_within_def u(2)
  proof (intro allI impI)
    fix k v assume "dict_get u k = Some v"
    then obtain w where w: "dict_get (pl_usage p) k = Some w" "v = w + dict_get_or (wi_resources (si_item x)) k 0"
      using take_resources_get [OF u(1) assms(3), of k] by auto
    show "v \<le> dict_get_or resources k 0"
    proof (cases "dict_get (wi_resources (si_item x)) k")
      case None
      then show ?thesis using w assms(2) by (simp add: plan_within_def dict_get_or_def)
    next
      case (Some a)
      then have "(k, a) \<in> set (wi_resources (si_item x))" by (rule dict_get_in)
      with True have "dict_get_or (pl_usage p) k 0 + a \<le> dict_get_or resources k 0" by (auto simp: fits_def list_all_iff)
      then show ?thesis using w Some by (simp add: dict_get_or_def)
    qed
  qed
qed

lemma score_items_set: "score_items is = Inr xs \<Longrightarrow> map si_item xs = is"
  by (induction "is" arbitrary: xs) (auto simp: rbind_Inr)


text \<open>An item that asks for nothing of an unknown resource passes the check and raises when it is placed.\<close>

definition ex_item :: "string \<Rightarrow> amounts \<Rightarrow> work_item" where
  "ex_item n req = \<lparr>wi_name = n, wi_risk = Some 90, wi_criticality = Some ''high'', wi_deadline = True, wi_deadline_days = Some 3,
     wi_dependencies = 4, wi_hours = Some 8, wi_resources = req\<rparr>"

lemma unknown_resource_raises:
  "optimize_schedule [ex_item ''scan'' [(''gpu'', 0)]] [(''cpu'', 4)] 7 = Inl (KeyErr ''gpu'')"
  by code_simp


end
