(* ===== verification/RiskScorer.thy ===== *)
theory RiskScorer
  imports PriorityEngine
begin

text \<open>
  \<open>src/predictive/risk_scorer.py\<close>: risk of an asset from its vulnerabilities, of a portfolio, of a compliance
  framework, and a forecast. Keys a dictionary may lack are optional fields. The line numpy fits and its mean and
  deviation are arguments. The constructor logs through a name the module does not define, and the trend of an
  asset is asked of a method the class does not have; both raise.
\<close>

definition new_risk_scorer :: "exn + unit" where
  "new_risk_scorer = Inl (NameErr ''logger'')"

section \<open>Levels\<close>

definition risk_level :: "rat \<Rightarrow> string" where
  "risk_level s = (if s \<ge> 80 then ''critical'' else if s \<ge> 60 then ''high'' else if s \<ge> 40 then ''medium''
     else if s \<ge> 20 then ''low'' else ''none'')"

definition compliance_level :: "rat \<Rightarrow> string" where
  "compliance_level s = (if s \<ge> 95 then ''excellent'' else if s \<ge> 85 then ''good'' else if s \<ge> 70 then ''fair''
     else if s \<ge> 50 then ''poor'' else ''critical'')"

section \<open>Assets\<close>

record vuln =
  vu_id :: pyval
  vu_name :: pyval
  vu_cvss :: "rat option"
  vu_exploit :: bool
  vu_patch :: bool

record top_risk =
  tr_id :: pyval
  tr_name :: pyval
  tr_score :: rat
  tr_cvss :: rat

record vuln_risk =
  vr_weighted :: rat
  vr_count :: nat
  vr_top :: "top_risk list"

definition single_risk :: "vuln \<Rightarrow> rat" where
  "single_risk v = or_default (vu_cvss v) 5 * 10 * (3 / 10) + (if vu_exploit v then 100 else 0) * (2 / 10) +
     (if vu_patch v then 0 else 100) * (1 / 10)"

definition calculate_vulnerability_risk :: "vuln list \<Rightarrow> vuln_risk" where
  "calculate_vulnerability_risk vs =
     \<lparr>vr_weighted = (if vs = [] then 0 else sum_list (map single_risk vs) / of_nat (length vs)), vr_count = length vs,
      vr_top = take 5 (sort_key (\<lambda>t. - tr_score t)
        (map (\<lambda>v. \<lparr>tr_id = vu_id v, tr_name = vu_name v, tr_score = single_risk v, tr_cvss = or_default (vu_cvss v) 5\<rparr>) vs))\<rparr>"

record asset_info =
  as_criticality :: "rat option"
  as_exposure :: "string option"

definition exposure_factor :: "string \<Rightarrow> rat" where
  "exposure_factor e = dict_get_or [(''public'', 1), (''internal'', 6 / 10), (''restricted'', 3 / 10)] e (5 / 10)"

definition final_risk :: "rat \<Rightarrow> rat \<Rightarrow> rat \<Rightarrow> rat" where
  "final_risk weighted criticality exposure = weighted * (6 / 10) + criticality * 10 * (25 / 100) + exposure * 100 * (15 / 100)"

definition asset_score :: "vuln list \<Rightarrow> asset_info \<Rightarrow> rat" where
  "asset_score vs info =
     final_risk (vr_weighted (calculate_vulnerability_risk vs)) (or_default (as_criticality info) 5)
       (exposure_factor (or_default (as_exposure info) ''internal''))"

record asset_risk =
  ar_score :: rat
  ar_level :: string
  ar_trend :: pyval
  ar_factors :: "(vuln_risk \<times> rat \<times> rat) option"

text \<open>\<open>trend\<close> is what the missing method would give: the class has none, so it is \<open>no_trend\<close>.\<close>

definition no_trend :: "exn + pyval" where
  "no_trend = Inl (AttributeErr ''_calculate_risk_trend'')"

definition calculate_asset_risk :: "exn + pyval \<Rightarrow> vuln list \<Rightarrow> asset_info \<Rightarrow> exn + asset_risk" where
  "calculate_asset_risk trend vs info =
     (if vs = [] then Inr \<lparr>ar_score = 0, ar_level = ''none'', ar_trend = PNone, ar_factors = None\<rparr>
      else rbind trend (\<lambda>t. Inr \<lparr>ar_score = round2 (asset_score vs info), ar_level = risk_level (asset_score vs info), ar_trend = t,
             ar_factors = Some (calculate_vulnerability_risk vs, or_default (as_criticality info) 5 * 10,
               exposure_factor (or_default (as_exposure info) ''internal'') * 100)\<rparr>))"

section \<open>Portfolio\<close>

record portfolio =
  pf_risk :: rat
  pf_distribution :: "(string, nat) dict"
  pf_high :: "rat list"
  pf_total :: nat

definition no_distribution :: "(string, nat) dict" where
  "no_distribution = [(''critical'', 0), (''high'', 0), (''medium'', 0), (''low'', 0), (''none'', 0)]"

text \<open>An asset is its score here.\<close>

definition calculate_portfolio_risk :: "rat list \<Rightarrow> portfolio" where
  "calculate_portfolio_risk scores =
     (if scores = [] then \<lparr>pf_risk = 0, pf_distribution = [], pf_high = [], pf_total = 0\<rparr>
      else \<lparr>pf_risk = round2 (sum_list scores / of_nat (length scores)),
            pf_distribution = fold (\<lambda>s d. dict_mod (risk_level s) Suc d) scores no_distribution,
            pf_high = take 10 (filter (\<lambda>s. risk_level s \<in> {''critical'', ''high''}) scores), pf_total = length scores\<rparr>)"

section \<open>Compliance\<close>

record control =
  co_status :: string
  co_risk_level :: string

record compliance =
  cp_score :: rat
  cp_level :: string
  cp_risk :: rat
  cp_total :: nat
  cp_failed :: nat
  cp_partial :: nat
  cp_high_failures :: nat
  cp_critical :: "control list"

definition count_status :: "string \<Rightarrow> control list \<Rightarrow> nat" where
  "count_status st cs = length (filter (\<lambda>c. co_status c = st) cs)"

definition compliance_score :: "control list \<Rightarrow> rat" where
  "compliance_score cs =
     (of_nat (length cs) - of_nat (count_status ''failed'' cs) - of_nat (count_status ''partial'' cs) * (1 / 2)) / of_nat (length cs) * 100"

definition control_risk :: "control list \<Rightarrow> rat" where
  "control_risk cs = (of_nat (count_status ''failed'' cs) * 100 + of_nat (count_status ''partial'' cs) * 50) / of_nat (length cs)"

definition calculate_compliance_risk :: "control list \<Rightarrow> exn + compliance" where
  "calculate_compliance_risk cs =
     (if cs = [] then Inl (py_exn PyZeroDivisionError ''division by zero'')
      else (let high = filter (\<lambda>c. co_status c = ''failed'' \<and> co_risk_level c = ''high'') cs
            in Inr \<lparr>cp_score = round2 (compliance_score cs), cp_level = compliance_level (compliance_score cs),
                 cp_risk = round2 (control_risk cs), cp_total = length cs, cp_failed = count_status ''failed'' cs,
                 cp_partial = count_status ''partial'' cs, cp_high_failures = length high, cp_critical = take 5 high\<rparr>))"

section \<open>Forecast\<close>

record risk_forecast =
  rf_days :: "(nat \<times> rat) list"
  rf_direction :: string
  rf_magnitude :: rat
  rf_confidence :: string

definition forecast_risk :: "(rat list \<Rightarrow> rat) \<Rightarrow> (rat list \<Rightarrow> rat) \<Rightarrow> rat list \<Rightarrow> nat \<Rightarrow> risk_forecast option" where
  "forecast_risk slope std risks days =
     (if length risks < 7 then None
      else (let trend = slope risks; mean = sum_list risks / of_nat (length risks);
                volatility = (if mean > 0 then std risks / mean else 0)
            in Some \<lparr>rf_days = map (\<lambda>i. (i, max 0 (min 100 (round2 (last risks + trend * of_nat i))))) [1..<Suc days],
                 rf_direction = (if trend > 1 / 10 then ''increasing'' else if trend < - (1 / 10) then ''decreasing'' else ''stable''),
                 rf_magnitude = \<bar>round3 trend\<bar>,
                 rf_confidence = (if volatility < 2 / 10 then ''high'' else if volatility < 4 / 10 then ''medium'' else ''low'')\<rparr>))"

section \<open>Properties\<close>

text \<open>The weights of a vulnerability that are used add up to six tenths, so no average exceeds 60.\<close>

lemma single_risk_bounds:
  assumes "0 \<le> or_default (vu_cvss v) 5" "or_default (vu_cvss v) 5 \<le> 10"
  shows "0 \<le> single_risk v \<and> single_risk v \<le> 60"
  using assms by (auto simp: single_risk_def)

lemma average_le:
  assumes "\<And>x. x \<in> set xs \<Longrightarrow> f x \<le> (b :: rat)" "xs \<noteq> []"
  shows "sum_list (map f xs) / of_nat (length xs) \<le> b"
proof -
  have "sum_list (map f xs) \<le> of_nat (length xs) * b" if "\<And>x. x \<in> set xs \<Longrightarrow> f x \<le> b" for xs
    using that by (induction xs) (auto simp: algebra_simps add_mono)
  then show ?thesis using assms by (simp add: divide_le_eq mult.commute)
qed

lemma exposure_bounds: "0 \<le> exposure_factor e \<and> exposure_factor e \<le> 1"
  by (simp add: exposure_factor_def dict_get_or_def dict_get_Cons)

text \<open>
  C19: with scores and criticalities in their range of at most 10 no asset ever reaches the level critical: its score
  is at most 76, and the level begins at 80.
\<close>

theorem asset_never_critical:
  assumes "calculate_asset_risk trend vs info = Inr r"
    and "\<And>v. v \<in> set vs \<Longrightarrow> 0 \<le> or_default (vu_cvss v) 5 \<and> or_default (vu_cvss v) 5 \<le> 10"
    and "or_default (as_criticality info) 5 \<le> 10"
  shows "asset_score vs info \<le> 76 \<and> ar_level r \<noteq> ''critical''"
proof -
  have "vr_weighted (calculate_vulnerability_risk vs) \<le> 60"
    using average_le [of vs single_risk 60] single_risk_bounds assms(2) by (auto simp: calculate_vulnerability_risk_def)
  then have le: "asset_score vs info \<le> 76"
    using assms(3) exposure_bounds [of "or_default (as_exposure info) ''internal''"] by (simp add: asset_score_def final_risk_def)
  have "ar_level r = ''none'' \<or> ar_level r = risk_level (asset_score vs info)"
    using assms(1) by (auto simp: calculate_asset_risk_def rbind_Inr split: if_splits)
  with le show ?thesis by (auto simp: risk_level_def split: if_splits)
qed

text \<open>Score and risk of a framework are two sides of the same number.\<close>

lemma compliance_complement: "cs \<noteq> [] \<Longrightarrow> compliance_score cs + control_risk cs = 100"
  by (simp add: compliance_score_def control_risk_def field_simps)

text \<open>The distribution of a portfolio accounts for every asset.\<close>

lemma level_known: "risk_level s \<in> set (dict_keys no_distribution)"
  by (simp add: risk_level_def no_distribution_def dict_keys_def)

lemma update_sum: "map_of d k = Some v \<Longrightarrow> sum_list (map snd (AList.update k (Suc v) d)) = Suc (sum_list (map snd d))"
  by (induction d) (auto split: if_splits)

lemma dict_mod_sum:
  assumes "dict_has d k"
  shows "sum_list (dict_values (dict_mod k Suc d)) = Suc (sum_list (dict_values d))"
proof -
  obtain v where "dict_get d k = Some v" using assms by (auto simp: dict_has_def)
  then show ?thesis by (simp add: dict_mod_def dict_set_def dict_values_def dict_get_def update_sum)
qed

lemma distribution_total:
  assumes "scores \<noteq> []"
  shows "sum_list (dict_values (pf_distribution (calculate_portfolio_risk scores))) = length scores"
proof -
  have "set (dict_keys d) = set (dict_keys no_distribution) \<Longrightarrow>
      sum_list (dict_values (fold (\<lambda>s d. dict_mod (risk_level s) Suc d) xs d)) = length xs + sum_list (dict_values d)" for xs d
  proof (induction xs arbitrary: d)
    case (Cons s xs)
    have "dict_has d (risk_level s)" using Cons.prems level_known by (simp add: dict_has_keys)
    with Cons show ?case by (simp add: dict_mod_sum)
  qed simp
  from this [of no_distribution scores] assms show ?thesis
    by (simp add: calculate_portfolio_risk_def) (simp add: no_distribution_def dict_values_def)
qed

text \<open>Every prediction lies between 0 and 100.\<close>

lemma forecast_bounds:
  assumes "forecast_risk slope std risks days = Some f" "(i, x) \<in> set (rf_days f)"
  shows "0 \<le> x \<and> x \<le> 100"
proof -
  have "\<not> length risks < 7" using assms(1) by (simp add: forecast_risk_def split: if_split_asm)
  then have "rf_days f = map (\<lambda>i. (i, max 0 (min 100 (round2 (last risks + slope risks * of_nat i))))) [1..<Suc days]"
    using assms(1) unfolding forecast_risk_def Let_def by (simp only: if_False option.inject) auto
  then show ?thesis using assms(2) by (auto simp del: upt_Suc)
qed

text \<open>As the class is, every asset with a vulnerability raises.\<close>

lemma asset_risk_raises: "vs \<noteq> [] \<Longrightarrow> calculate_asset_risk no_trend vs info = Inl (AttributeErr ''_calculate_risk_trend'')"
  by (simp add: calculate_asset_risk_def no_trend_def)

definition worst_vuln :: vuln where
  "worst_vuln = \<lparr>vu_id = PStr ''CVE-1'', vu_name = PStr ''rce'', vu_cvss = Some 10, vu_exploit = True, vu_patch = False\<rparr>"

theorem asset_never_critical_witness:
  "asset_score [worst_vuln] \<lparr>as_criticality = Some 10, as_exposure = Some ''public''\<rparr> \<le> 76"
proof -
  let ?i = "\<lparr>as_criticality = Some 10, as_exposure = Some ''public''\<rparr>"
  obtain r where "calculate_asset_risk (Inr PNone) [worst_vuln] ?i = Inr r" by (simp add: calculate_asset_risk_def)
  from asset_never_critical [OF this] show ?thesis by (simp add: worst_vuln_def or_default_def)
qed

end
