(* ===== verification/SelfHealing.thy ===== *)
theory SelfHealing
  imports Exceptions Calendar
begin

text \<open>
  \<open>src/autonomous/self_healing.py\<close>: incidents, the strategies that heal them, and what is learned of their success.
  The recovery manager and the workflow engine are outside the class; their answers are the record \<open>recovery\<close>. The
  constructor names three methods the class does not have, so it raises; the operations are those of the object it
  would have made with the strategies it does have, in a module that had the two names it lacks.
\<close>

section \<open>State\<close>

record incident =
  ic_type :: "string option"
  ic_severity :: "string option"
  ic_worker :: pyval
  ic_tool :: pyval
  ic_config :: pyval
  ic_execution :: pyval
  ic_timeout :: "rat option"
  ic_resource :: "string option"

record past_incident =
  pa_healing_id :: string
  pa_success :: bool
  pa_strategy :: string

record analysis =
  na_type :: "string option"
  na_severity :: string
  na_components :: "string list"
  na_causes :: "string list"
  na_similar :: "past_incident list"

record healing_record =
  hr_id :: string
  hr_type :: "string option"
  hr_strategy :: string
  hr_analysis :: analysis
  hr_result :: pydict
  hr_check :: string
  hr_duration :: rat
  hr_success :: bool

record success_rate =
  sx_total :: nat
  sx_successes :: nat
  sx_rate :: rat

record self_healing =
  sh_history :: "healing_record list"
  sh_rates :: "(string, success_rate) dict"

definition new_self_healing :: "exn + self_healing" where
  "new_self_healing = Inl (AttributeErr ''_heal_network_issue'')"

definition empty_self_healing :: self_healing where
  "empty_self_healing = \<lparr>sh_history = [], sh_rates = []\<rparr>"

text \<open>The strategies there are: the type of an incident and the name of the method.\<close>

definition strategies :: "(string, string) dict" where
  "strategies = [(''worker_failure'', ''_heal_worker_failure''), (''tool_timeout'', ''_heal_tool_timeout''),
     (''resource_exhaustion'', ''_heal_resource_exhaustion'')]"

section \<open>Analysis and choice\<close>

definition analyze_incident :: "incident \<Rightarrow> self_healing \<Rightarrow> analysis" where
  "analyze_incident i s =
     \<lparr>na_type = ic_type i, na_severity = (case ic_severity i of None \<Rightarrow> ''medium'' | Some v \<Rightarrow> v),
      na_components = (if ic_type i = Some ''worker_failure'' then [''worker'']
        else if ic_type i = Some ''tool_timeout'' then [''tool''] else []),
      na_causes = (if ic_type i = Some ''worker_failure'' then [''resource_exhaustion'', ''network_issue'', ''process_crash'']
        else if ic_type i = Some ''tool_timeout'' then [''slow_execution'', ''infinite_loop'', ''external_dependency''] else []),
      na_similar = map (\<lambda>h. \<lparr>pa_healing_id = hr_id h, pa_success = hr_success h, pa_strategy = hr_strategy h\<rparr>)
        (filter (\<lambda>h. hr_type h = ic_type i) (last_n 100 (sh_history s)))\<rparr>"

definition count_strategies :: "past_incident list \<Rightarrow> (string, nat) dict" where
  "count_strategies ps =
     fold (\<lambda>p d. if pa_success p then dict_set (pa_strategy p) (dict_get_or d (pa_strategy p) 0 + 1) d else d) ps []"

text \<open>\<open>max(d, key=d.get)\<close>: the first key with the greatest count.\<close>

fun first_most :: "(string \<times> nat) list \<Rightarrow> string \<times> nat \<Rightarrow> string" where
  "first_most [] b = fst b"
| "first_most (x # xs) b = first_most xs (if snd x > snd b then x else b)"

definition select_strategy :: "analysis \<Rightarrow> string option" where
  "select_strategy a =
     (case (case na_type a of None \<Rightarrow> None | Some t \<Rightarrow> dict_get strategies t) of
        Some m \<Rightarrow> Some m
      | None \<Rightarrow>
        (case count_strategies (na_similar a) of
           [] \<Rightarrow> None
         | x # xs \<Rightarrow> dict_get strategies (first_most xs x)))"

section \<open>Healing\<close>

record recovery =
  re_restart :: "pyval \<Rightarrow> exn + pydict"
  re_create :: "pyval \<Rightarrow> pyval \<Rightarrow> exn + pydict"
  re_retry :: "pyval \<Rightarrow> rat \<Rightarrow> exn + pydict"
  re_alternative :: "pyval \<Rightarrow> pyval \<Rightarrow> exn + pydict"
  re_scale :: "string \<Rightarrow> pyval \<Rightarrow> exn + pydict"
  re_healthy :: "pyval \<Rightarrow> exn + bool"
  re_status :: "pyval \<Rightarrow> exn + pydict"

definition succeeded_result :: "pydict \<Rightarrow> bool" where
  "succeeded_result d = truthy (dict_get_or d ''success'' PNone)"

definition result_word :: "bool \<Rightarrow> pyval" where
  "result_word b = PStr (if b then ''success'' else ''failed'')"

text \<open>A replacement for a worker that does not restart is reported as a success whatever came of it.\<close>

definition heal_worker_failure :: "recovery \<Rightarrow> incident \<Rightarrow> exn + pydict" where
  "heal_worker_failure re i =
     rbind (re_restart re (ic_worker i)) (\<lambda>r.
       if succeeded_result r
       then Inr [(''action'', PStr ''restart_worker''), (''worker_id'', ic_worker i), (''result'', result_word True)]
       else rbind (re_create re (ic_tool i) (ic_config i)) (\<lambda>n.
         Inr [(''action'', PStr ''create_new_worker''), (''old_worker'', ic_worker i),
              (''new_worker'', dict_get_or n ''worker_id'' PNone), (''result'', result_word True)]))"

definition heal_tool_timeout :: "recovery \<Rightarrow> incident \<Rightarrow> exn + pydict" where
  "heal_tool_timeout re i =
     rbind (re_retry re (ic_execution i) ((case ic_timeout i of None \<Rightarrow> 300 | Some t \<Rightarrow> t) * 2)) (\<lambda>r.
       if succeeded_result r
       then Inr [(''action'', PStr ''retry_with_increased_timeout''), (''execution_id'', ic_execution i), (''result'', result_word True)]
       else rbind (re_alternative re (ic_execution i) (ic_tool i)) (\<lambda>a.
         Inr [(''action'', PStr ''use_alternative_tool''), (''execution_id'', ic_execution i), (''original_tool'', ic_tool i),
              (''alternative_tool'', dict_get_or a ''tool'' PNone), (''result'', result_word (succeeded_result a))]))"

definition resource_word :: "incident \<Rightarrow> string" where
  "resource_word i = (case ic_resource i of None \<Rightarrow> ''None'' | Some r \<Rightarrow> r)"

definition heal_resource_exhaustion :: "recovery \<Rightarrow> incident \<Rightarrow> exn + pydict" where
  "heal_resource_exhaustion re i =
     rbind (if ic_resource i \<in> {Some ''memory'', Some ''cpu'', Some ''disk''} then re_scale re (resource_word i) (ic_worker i)
            else Inr [(''success'', PBool False), (''reason'', PStr ''Unknown resource type'')])
       (\<lambda>r. Inr [(''action'', PStr (''scale_'' @ resource_word i)),
                 (''resource_type'', opt_val PStr (ic_resource i)), (''result'', result_word (succeeded_result r))])"

definition run_strategy :: "recovery \<Rightarrow> string \<Rightarrow> incident \<Rightarrow> exn + pydict" where
  "run_strategy re m i =
     (if m = ''_heal_worker_failure'' then heal_worker_failure re i
      else if m = ''_heal_tool_timeout'' then heal_tool_timeout re i
      else heal_resource_exhaustion re i)"

text \<open>Whether the incident is over, and what was looked at; other incidents are taken to be.\<close>

definition validate_healing :: "recovery \<Rightarrow> incident \<Rightarrow> exn + (bool \<times> string)" where
  "validate_healing re i =
     (if ic_type i = Some ''worker_failure'' then rbind (re_healthy re (ic_worker i)) (\<lambda>b. Inr (b, ''worker_health''))
      else if ic_type i = Some ''tool_timeout''
      then rbind (re_status re (ic_execution i)) (\<lambda>d. Inr (dict_get_or d ''status'' PNone = PStr ''completed'', ''execution_status''))
      else Inr (True, ''default''))"

definition update_success_rates :: "string \<Rightarrow> bool \<Rightarrow> self_healing \<Rightarrow> self_healing" where
  "update_success_rates m ok s =
     (let r = dict_get_or (sh_rates s) m \<lparr>sx_total = 0, sx_successes = 0, sx_rate = 0\<rparr>;
          n = sx_total r + 1; k = sx_successes r + (if ok then 1 else 0)
      in s\<lparr>sh_rates := dict_set m \<lparr>sx_total = n, sx_successes = k, sx_rate = of_nat k / of_nat n\<rparr> (sh_rates s)\<rparr>)"

datatype healing_outcome = Healed healing_record | No_strategy | Healing_error msg

definition detect_and_heal :: "recovery \<Rightarrow> string \<Rightarrow> incident \<Rightarrow> time \<Rightarrow> time \<Rightarrow> self_healing \<Rightarrow> healing_outcome \<times> self_healing" where
  "detect_and_heal re hid i began ended s =
     (let a = analyze_incident i s
      in case select_strategy a of
           None \<Rightarrow> (No_strategy, s)
         | Some m \<Rightarrow>
           (case rbind (run_strategy re m i) (\<lambda>r. rbind (validate_healing re i) (\<lambda>v. Inr (r, v))) of
              Inl e \<Rightarrow> (Healing_error (ex_message e), s)
            | Inr (r, ok, chk) \<Rightarrow>
              (let h = \<lparr>hr_id = hid, hr_type = ic_type i, hr_strategy = m, hr_analysis = a, hr_result = r, hr_check = chk,
                        hr_duration = total_seconds (ended - began), hr_success = ok\<rparr>
               in (Healed h, update_success_rates m ok (s\<lparr>sh_history := sh_history s @ [h]\<rparr>)))))"

record healing_stats =
  hs_total :: nat
  hs_successful :: nat
  hs_rate :: rat
  hs_by_strategy :: "(string, success_rate) dict"
  hs_recent :: "healing_record list"

definition get_healing_stats :: "self_healing \<Rightarrow> healing_stats" where
  "get_healing_stats s =
     (let n = length (sh_history s); k = length (filter hr_success (sh_history s))
      in \<lparr>hs_total = n, hs_successful = k, hs_rate = (if n > 0 then of_nat k / of_nat n else 0), hs_by_strategy = sh_rates s,
          hs_recent = last_n 10 (sh_history s)\<rparr>)"

section \<open>What is learned\<close>

type_synonym healing_step = "recovery \<times> string \<times> incident \<times> time \<times> time"

fun healing_exec :: "healing_step \<Rightarrow> self_healing \<Rightarrow> self_healing" where
  "healing_exec (re, hid, i, t, u) s = snd (detect_and_heal re hid i t u s)"

text \<open>The rates are those of the history; its strategies are names of methods, which are no types of incidents.\<close>

definition method_name :: "string \<Rightarrow> bool" where
  "method_name m \<longleftrightarrow> m \<in> set (dict_values strategies)"

definition rate_of :: "string \<Rightarrow> healing_record list \<Rightarrow> success_rate option" where
  "rate_of m hs =
     (let n = length (filter (\<lambda>h. hr_strategy h = m) hs); k = length (filter (\<lambda>h. hr_strategy h = m \<and> hr_success h) hs)
      in if n = 0 then None else Some \<lparr>sx_total = n, sx_successes = k, sx_rate = of_nat k / of_nat n\<rparr>)"

definition healing_inv :: "self_healing \<Rightarrow> bool" where
  "healing_inv s \<longleftrightarrow> (\<forall>m. dict_get (sh_rates s) m = rate_of m (sh_history s)) \<and> (\<forall>h \<in> set (sh_history s). method_name (hr_strategy h))"

lemma method_no_type: "method_name m \<Longrightarrow> dict_get strategies m = None"
  by (auto simp: method_name_def strategies_def dict_values_def dict_get_Cons)

lemma strategies_name: "dict_get strategies t = Some m \<Longrightarrow> method_name m"
  by (auto simp: method_name_def strategies_def dict_values_def dict_get_Cons split: if_splits)

lemma first_most_in: "first_most xs b \<in> insert (fst b) (fst ` set xs)"
proof (induction xs arbitrary: b)
  case (Cons x xs)
  show ?case using Cons [of "if snd x > snd b then x else b"] by (cases "snd x > snd b") auto
qed simp

lemma count_strategies_keys: "(k, n) \<in> set (count_strategies ps) \<Longrightarrow> \<exists>p \<in> set ps. pa_strategy p = k"
proof -
  have "(k, n) \<in> set (fold (\<lambda>p d. if pa_success p then dict_set (pa_strategy p) (dict_get_or d (pa_strategy p) 0 + 1) d else d) ps d) \<Longrightarrow>
      (k, n) \<in> set d \<or> (\<exists>p \<in> set ps. pa_strategy p = k)" for d :: "(string, nat) dict"
    by (induction ps arbitrary: d) (fastforce dest: dict_set_in_old split: if_splits)+
  then show "(k, n) \<in> set (count_strategies ps) \<Longrightarrow> \<exists>p \<in> set ps. pa_strategy p = k"
    unfolding count_strategies_def by fastforce
qed

lemma select_needs_type:
  assumes "\<And>p. p \<in> set (na_similar a) \<Longrightarrow> method_name (pa_strategy p)"
  shows "select_strategy a = (case na_type a of None \<Rightarrow> None | Some t \<Rightarrow> dict_get strategies t)"
proof (cases "count_strategies (na_similar a)")
  case Nil
  then show ?thesis by (auto simp: select_strategy_def split: option.split)
next
  case (Cons x xs)
  have "first_most xs x \<in> fst ` set (count_strategies (na_similar a))" using first_most_in [of xs x] Cons by simp
  then obtain p where "p \<in> set (na_similar a)" "pa_strategy p = first_most xs x" using count_strategies_keys by fastforce
  with assms have "dict_get strategies (first_most xs x) = None" using method_no_type by metis
  then show ?thesis using Cons by (auto simp: select_strategy_def split: option.split)
qed

lemma similar_methods: "healing_inv s \<Longrightarrow> p \<in> set (na_similar (analyze_incident i s)) \<Longrightarrow> method_name (pa_strategy p)"
  using set_mono_suffix [OF suffix_last_n [of 100 "sh_history s"]] by (auto simp: analyze_incident_def healing_inv_def)

lemma rate_of_snoc:
  "rate_of m (hs @ [h]) =
     (if hr_strategy h = m
      then (let r = (case rate_of m hs of None \<Rightarrow> \<lparr>sx_total = 0, sx_successes = 0, sx_rate = 0\<rparr> | Some r \<Rightarrow> r);
                n = sx_total r + 1; k = sx_successes r + (if hr_success h then 1 else 0)
            in Some \<lparr>sx_total = n, sx_successes = k, sx_rate = of_nat k / of_nat n\<rparr>)
      else rate_of m hs)"
proof -
  have "length (filter (\<lambda>h. hr_strategy h = m) hs) = 0 \<Longrightarrow> length (filter (\<lambda>h. hr_strategy h = m \<and> hr_success h) hs) = 0"
    by (auto simp: filter_empty_conv)
  then show ?thesis by (auto simp: rate_of_def Let_def)
qed

lemma healing_exec_inv: "healing_inv s \<Longrightarrow> healing_inv (healing_exec x s)"
proof -
  assume inv: "healing_inv s"
  obtain re hid i t u where x: "x = (re, hid, i, t, u)" by (cases x) auto
  let ?a = "analyze_incident i s"
  have sel: "select_strategy ?a = (case ic_type i of None \<Rightarrow> None | Some t \<Rightarrow> dict_get strategies t)"
    using select_needs_type [of ?a] similar_methods [OF inv, of _ i] by (simp add: analyze_incident_def)
  show ?thesis
  proof (cases "select_strategy ?a")
    case None
    then show ?thesis using inv x by (simp add: detect_and_heal_def)
  next
    case (Some m)
    then have m: "method_name m" using sel by (auto dest: strategies_name split: option.splits)
    show ?thesis
    proof (cases "rbind (run_strategy re m i) (\<lambda>r. rbind (validate_healing re i) (\<lambda>v. Inr (r, v)))")
      case (Inl e)
      then show ?thesis using inv x Some by (simp add: detect_and_heal_def)
    next
      case (Inr q)
      obtain r ok chk where q: "q = (r, ok, chk)" by (metis prod_cases3)
      show ?thesis using inv x Some Inr q m
        by (auto simp: detect_and_heal_def update_success_rates_def healing_inv_def rate_of_snoc dict_get_or_def Let_def split: option.split)
    qed
  qed
qed

interpretation healing: op_system healing_exec healing_inv
  by unfold_locales (rule healing_exec_inv)

lemma empty_healing_inv: "healing_inv empty_self_healing"
  by (simp add: healing_inv_def empty_self_healing_def rate_of_def)

text \<open>
  after any run the choice of a strategy depends on the type of the incident alone: an incident of another type is
  never healed, whatever similar ones have been, because the history names methods and the table is by type.
\<close>

theorem past_successes_never_used:
  "select_strategy (analyze_incident i (fold healing_exec xs empty_self_healing)) =
     (case ic_type i of None \<Rightarrow> None | Some t \<Rightarrow> dict_get strategies t)"
proof -
  let ?s = "fold healing_exec xs empty_self_healing"
  have "select_strategy (analyze_incident i ?s) =
      (case na_type (analyze_incident i ?s) of None \<Rightarrow> None | Some t \<Rightarrow> dict_get strategies t)"
    by (rule select_needs_type) (rule similar_methods [OF healing.inv_run [OF empty_healing_inv]])
  then show ?thesis by (simp add: analyze_incident_def)
qed

text \<open>
  the success rates are those of the whole history of healings, for every strategy.\<close>

theorem healing_rates_are_history:
  "dict_get (sh_rates (fold healing_exec xs empty_self_healing)) m = rate_of m (sh_history (fold healing_exec xs empty_self_healing))"
  using healing.inv_run [OF empty_healing_inv, of xs] by (simp add: healing_inv_def)

text \<open>Running out of an unknown resource is healed by nothing and recorded as a success.\<close>

lemma unknown_resource_succeeds:
  assumes "ic_type i = Some ''resource_exhaustion''" "ic_resource i = Some ''gpu''"
  shows "\<exists>h. fst (detect_and_heal re hid i t u s) = Healed h \<and> hr_success h \<and> dict_get (hr_result h) ''result'' = Some (PStr ''failed'')"
  using assms
  by (simp add: detect_and_heal_def Let_def analyze_incident_def select_strategy_def strategies_def dict_get_Cons run_strategy_def
      heal_resource_exhaustion_def resource_word_def succeeded_result_def dict_get_or_def validate_healing_def result_word_def)

end
