(* ===== verification/AdaptiveScanner.thy ===== *)
theory AdaptiveScanner
  imports PriorityEngine Branching
begin

text \<open>
  \<open>src/autonomous/adaptive_scanner.py\<close>: the strategies for a kind of target, their scores, and what is learned from
  results. The random draws (the efficiency of a strategy and the bonus for exploring) are the arguments of a
  selection, one pair per strategy.
\<close>

section \<open>Strategies\<close>

record strategy =
  sg_name :: string
  sg_type :: string
  sg_tools :: "string list"
  sg_parameters :: pydict
  sg_duration :: rat
  sg_description :: string

definition mk_strategy :: "string \<Rightarrow> string \<Rightarrow> string list \<Rightarrow> pydict \<Rightarrow> rat \<Rightarrow> string \<Rightarrow> strategy" where
  "mk_strategy n t ts ps d desc = \<lparr>sg_name = n, sg_type = t, sg_tools = ts, sg_parameters = ps, sg_duration = d, sg_description = desc\<rparr>"

definition get_available_strategies :: "string \<Rightarrow> strategy list" where
  "get_available_strategies t =
     (if t = ''web'' then
        [mk_strategy ''quick_web_scan'' ''web'' [''nuclei'', ''gobuster''] [(''threads'', PInt 10), (''timeout'', PInt 30)] 300
           ''Quick scan of common web vulnerabilities'',
         mk_strategy ''deep_web_scan'' ''web'' [''nuclei'', ''sqlmap'', ''gobuster'', ''nikto''] [(''threads'', PInt 20), (''timeout'', PInt 60)] 1800
           ''Comprehensive web application scan'',
         mk_strategy ''api_security_scan'' ''web'' [''nuclei'', ''postman''] [(''api_spec'', PBool True), (''auth_test'', PBool True)] 600
           ''API-specific security testing'']
      else if t = ''network'' then
        [mk_strategy ''quick_network_scan'' ''network'' [''nmap''] [(''ports'', PStr ''top1000''), (''timing'', PStr ''T4'')] 120
           ''Quick port and service discovery'',
         mk_strategy ''comprehensive_network_scan'' ''network'' [''nmap'', ''masscan'', ''unicornscan'']
           [(''ports'', PStr ''1-65535''), (''timing'', PStr ''T3'')] 3600 ''Full port range scan with service detection'',
         mk_strategy ''vulnerability_scan'' ''network'' [''nuclei'', ''openvas''] [(''severity'', PStr ''high'')] 1200 ''Vulnerability assessment'']
      else if t = ''cloud'' then
        [mk_strategy ''cloud_config_audit'' ''cloud'' [''prowler'', ''scoutsuite''] [(''compliance'', PStr ''cis'')] 900
           ''Cloud configuration auditing'',
         mk_strategy ''iam_assessment'' ''cloud'' [''aws_iam_analyzer''] [(''check_privileges'', PBool True)] 600
           ''IAM policy and permission analysis'']
      else [])"

definition get_default_strategy :: "string \<Rightarrow> strategy" where
  "get_default_strategy t = mk_strategy ''default_scan'' t [''nmap'', ''nuclei''] [(''threads'', PInt 5), (''timeout'', PInt 60)] 600
     ''Default scanning strategy''"

definition success_rates :: "(string \<times> rat) list" where
  "success_rates = [(''quick_web_scan'', 75 / 100), (''deep_web_scan'', 85 / 100), (''api_security_scan'', 70 / 100),
     (''quick_network_scan'', 80 / 100), (''comprehensive_network_scan'', 90 / 100), (''vulnerability_scan'', 65 / 100),
     (''cloud_config_audit'', 85 / 100), (''iam_assessment'', 80 / 100)]"

section \<open>Scores\<close>

definition goal_match :: "strategy \<Rightarrow> string \<Rightarrow> rat" where
  "goal_match g goal =
     (let ks = py_words [] (map lower goal);
          n = length (filter (\<lambda>k. sublist k (map lower (sg_description g)) \<or> sublist k (map lower (sg_name g))) ks)
      in min 1 (of_nat n / of_nat (max 1 (length ks))))"

text \<open>The limits of a context; a missing or falsy one does not count.\<close>

record scan_context =
  sn_max_duration :: "rat option"
  sn_tools :: "string list option"
  sn_max_cost :: "rat option"

definition active_limit :: "rat option \<Rightarrow> bool" where
  "active_limit x = (x \<noteq> None \<and> x \<noteq> Some 0)"

definition estimated_cost :: "strategy \<Rightarrow> rat" where
  "estimated_cost g = of_nat (length (sg_tools g)) * (1 / 100) * sg_duration g / 60"

definition context_match :: "strategy \<Rightarrow> scan_context \<Rightarrow> rat" where
  "context_match g c =
     (if active_limit (sn_max_duration c) \<and> sg_duration g > the (sn_max_duration c) then 3 / 10 else 1) *
     (case sn_tools c of
        Some (t # ts) \<Rightarrow> if sg_tools g \<noteq> [] \<and> \<not> set (sg_tools g) \<subseteq> set (t # ts) then 5 / 10 else 1
      | _ \<Rightarrow> 1) *
     (if active_limit (sn_max_cost c) \<and> estimated_cost g > the (sn_max_cost c) then 4 / 10 else 1)"

definition score_strategy :: "rat \<times> rat option \<Rightarrow> strategy \<Rightarrow> string \<Rightarrow> scan_context \<Rightarrow> rat" where
  "score_strategy draw g goal c =
     round2 (50 + dict_get_or success_rates (sg_name g) (6 / 10) * 30 + fst draw * 20 + goal_match g goal * 25 +
       context_match g c * 15 + (case snd draw of None \<Rightarrow> 0 | Some b \<Rightarrow> b))"

section \<open>The scanner\<close>

record selection =
  sl_time :: time
  sl_target :: string
  sl_goal :: string
  sl_strategy :: string
  sl_score :: rat
  sl_alternatives :: "(strategy \<times> rat) list"

record learned =
  lw_success :: nat
  lw_total :: nat
  lw_findings :: nat

record adaptive_scanner =
  ss_history :: "selection list"
  ss_weights :: "(string, learned) dict"

definition new_adaptive_scanner :: adaptive_scanner where
  "new_adaptive_scanner = \<lparr>ss_history = [], ss_weights = []\<rparr>"

definition ranked :: "(rat \<times> rat option) list \<Rightarrow> string \<Rightarrow> string \<Rightarrow> scan_context \<Rightarrow> (strategy \<times> rat) list" where
  "ranked draws t goal c =
     sort_key (\<lambda>x. - snd x) (map (\<lambda>(g, d). (g, score_strategy d g goal c)) (zip (get_available_strategies t) draws))"

definition select_scan :: "(rat \<times> rat option) list \<Rightarrow> string \<Rightarrow> string \<Rightarrow> scan_context \<Rightarrow> time \<Rightarrow> adaptive_scanner
    \<Rightarrow> strategy \<times> adaptive_scanner" where
  "select_scan draws t goal c now s =
     (case ranked draws t goal c of
        [] \<Rightarrow> (get_default_strategy t, s)
      | (g, x) # rest \<Rightarrow> (g, s\<lparr>ss_history := ss_history s @ [\<lparr>sl_time = now, sl_target = t, sl_goal = goal, sl_strategy = sg_name g,
           sl_score = x, sl_alternatives = take 2 rest\<rparr>]\<rparr>))"

definition learn_from_result :: "string \<Rightarrow> bool \<Rightarrow> nat \<Rightarrow> adaptive_scanner \<Rightarrow> adaptive_scanner" where
  "learn_from_result name ok findings s =
     (let w = dict_get_or (ss_weights s) name \<lparr>lw_success = 0, lw_total = 0, lw_findings = 0\<rparr>
      in s\<lparr>ss_weights := dict_set name \<lparr>lw_success = lw_success w + (if ok then 1 else 0), lw_total = lw_total w + 1,
           lw_findings = lw_findings w + findings\<rparr> (ss_weights s)\<rparr>)"

record advice =
  av_strategy :: strategy
  av_rate :: rat
  av_findings :: rat
  av_confidence :: rat

definition advise :: "adaptive_scanner \<Rightarrow> strategy \<Rightarrow> advice" where
  "advise s g =
     (case dict_get (ss_weights s) (sg_name g) of
        Some w \<Rightarrow> if lw_total w > 0
          then \<lparr>av_strategy = g, av_rate = round2 (of_nat (lw_success w) / of_nat (lw_total w)),
                av_findings = round1 (of_nat (lw_findings w) / of_nat (lw_total w)), av_confidence = min (9 / 10) (of_nat (lw_total w) / 20)\<rparr>
          else \<lparr>av_strategy = g, av_rate = 5 / 10, av_findings = 5, av_confidence = 0\<rparr>
      | None \<Rightarrow> \<lparr>av_strategy = g, av_rate = 5 / 10, av_findings = 5, av_confidence = 0\<rparr>)"

definition get_strategy_recommendations :: "string \<Rightarrow> rat option \<Rightarrow> adaptive_scanner \<Rightarrow> advice list" where
  "get_strategy_recommendations t max_duration s =
     sort_key (\<lambda>a. - av_rate a)
       (map (advise s) (filter (\<lambda>g. \<not> (active_limit max_duration \<and> sg_duration g > the max_duration)) (get_available_strategies t)))"

section \<open>Properties\<close>

text \<open>The strategy that is selected has the highest score of all.\<close>

lemma selected_is_best:
  assumes "length draws = length (get_available_strategies t)" "i < length draws"
  shows "score_strategy (draws ! i) (get_available_strategies t ! i) goal c \<le> snd (hd (ranked draws t goal c)) \<and>
    fst (select_scan draws t goal c now s) = fst (hd (ranked draws t goal c))"
proof -
  let ?xs = "map (\<lambda>(g, d). (g, score_strategy d g goal c)) (zip (get_available_strategies t) draws)"
  have in_xs: "(get_available_strategies t ! i, score_strategy (draws ! i) (get_available_strategies t ! i) goal c) \<in> set ?xs"
    using assms by (force simp: set_zip)
  moreover have same: "set (ranked draws t goal c) = set ?xs" unfolding ranked_def by (rule set_sort)
  ultimately have here: "(get_available_strategies t ! i, score_strategy (draws ! i) (get_available_strategies t ! i) goal c)
    \<in> set (ranked draws t goal c)" by (simp only:)
  then obtain y ys where y: "ranked draws t goal c = y # ys"
    by (cases "ranked draws t goal c") (simp_all only: list.set empty_iff)
  have "sorted (map (\<lambda>x. - snd x) (ranked draws t goal c))" unfolding ranked_def by (rule sorted_sort_key)
  then have "\<forall>z \<in> set ys. - snd y \<le> - snd z" by (simp add: y)
  then have "score_strategy (draws ! i) (get_available_strategies t ! i) goal c \<le> snd y" using here y by fastforce
  then show ?thesis by (simp add: y select_scan_def split: prod.split)
qed

text \<open>Learning changes no selection: it is read by the recommendations alone.\<close>

lemma learning_does_not_select:
  "fst (select_scan draws t goal c now (learn_from_result n ok k s)) = fst (select_scan draws t goal c now s)"
  by (simp add: select_scan_def split: list.split prod.split)

text \<open>What is learned is the history of results.\<close>

definition weights_of :: "(string \<times> bool \<times> nat) list \<Rightarrow> string \<Rightarrow> learned option" where
  "weights_of rs n =
     (let xs = filter (\<lambda>r. fst r = n) rs
      in if xs = [] then None
         else Some \<lparr>lw_success = length (filter (\<lambda>r. fst (snd r)) xs), lw_total = length xs, lw_findings = sum_list (map (snd \<circ> snd) xs)\<rparr>)"

lemma filter_filter_shorter: "length (filter (\<lambda>x. P x \<and> Q x) xs) \<le> length (filter P xs)"
  by (induction xs) auto

lemma filter_both_empty: "filter P xs = [] \<Longrightarrow> filter (\<lambda>x. P x \<and> Q x) xs = []"
  by (simp add: filter_empty_conv)

lemma learned_is_history:
  "dict_get (ss_weights (fold (\<lambda>(n, ok, k). learn_from_result n ok k) rs new_adaptive_scanner)) n = weights_of rs n"
proof (induction rs rule: rev_induct)
  case Nil
  show ?case by (simp add: weights_of_def new_adaptive_scanner_def)
next
  case (snoc r rs)
  obtain m ok k where r: "r = (m, ok, k)" by (metis prod_cases3)
  show ?case
  proof (cases "m = n")
    case True
    then show ?thesis using snoc r filter_both_empty [of "\<lambda>x. fst x = n" rs "\<lambda>x. fst (snd x)"]
      by (cases "filter (\<lambda>r. fst r = n) rs = []") (simp_all add: learn_from_result_def weights_of_def dict_get_or_def Let_def)
  next
    case False
    then show ?thesis using snoc r by (auto simp: learn_from_result_def weights_of_def Let_def)
  qed
qed

text \<open>
  after any results the rates and confidences of all recommendations are between 0 and 1 (the confidence at most
  nine tenths), and the recommendations come with the best rate first.
\<close>

theorem recommendations_bounded:
  "list_all (\<lambda>a. 0 \<le> av_rate a \<and> av_rate a \<le> 1 \<and> 0 \<le> av_confidence a \<and> av_confidence a \<le> 9 / 10)
     (get_strategy_recommendations t m (fold (\<lambda>(n, ok, k). learn_from_result n ok k) rs new_adaptive_scanner)) \<and>
   sorted_wrt (\<lambda>a b. av_rate b \<le> av_rate a)
     (get_strategy_recommendations t m (fold (\<lambda>(n, ok, k). learn_from_result n ok k) rs new_adaptive_scanner))"
proof -
  let ?s = "fold (\<lambda>(n, ok, k). learn_from_result n ok k) rs new_adaptive_scanner"
  have w: "lw_success w \<le> lw_total w" if "dict_get (ss_weights ?s) n = Some w" for n w
    using that filter_filter_shorter [of "\<lambda>x. fst x = n" "\<lambda>x. fst (snd x)" rs]
    by (auto simp: learned_is_history weights_of_def Let_def split: if_splits)
  have "0 \<le> av_rate (advise ?s g) \<and> av_rate (advise ?s g) \<le> 1 \<and> 0 \<le> av_confidence (advise ?s g) \<and> av_confidence (advise ?s g) \<le> 9 / 10" for g
  proof (cases "dict_get (ss_weights ?s) (sg_name g)")
    case (Some w)
    show ?thesis
    proof (cases "lw_total w > 0")
      case True
      with w [OF Some] have "0 \<le> (of_nat (lw_success w) / of_nat (lw_total w) :: rat)" "(of_nat (lw_success w) / of_nat (lw_total w) :: rat) \<le> 1"
        by (simp_all add: divide_le_eq_1)
      from round_unit(2) [OF this] True Some show ?thesis by (simp add: advise_def)
    qed (use Some in \<open>simp add: advise_def\<close>)
  qed (simp add: advise_def)
  moreover have "sorted (map (\<lambda>a. - av_rate a) (get_strategy_recommendations t m ?s))"
    unfolding get_strategy_recommendations_def by (rule sorted_sort_key)
  then have "sorted_wrt (\<lambda>a b. av_rate b \<le> av_rate a) (get_strategy_recommendations t m ?s)"
    by (simp add: sorted_map)
  ultimately show ?thesis by (simp add: list_all_iff get_strategy_recommendations_def)
qed

end
