(* ===== verification/Patterns.thy ===== *)
theory Patterns
  imports Branching
begin

text \<open>
  What the source uses of regular expressions: patterns that are a sequence of greedy or lazy repetitions of a
  class of characters and of word boundaries, in which a group is one repetition. \<open>re_match\<close> tries the
  greedy ones from the longest and the lazy ones from the shortest, as the matcher of the library does, and gives the text of every piece;
  \<open>re_scan\<close> finds the matches from left to right that do not overlap. No pattern of the source matches the
  empty text. Strings are ASCII.
\<close>

section \<open>Matching\<close>

datatype piece = Rep "char \<Rightarrow> bool" nat "nat option" | Lazy "char \<Rightarrow> bool" nat | Edge

definition is_letter :: "char \<Rightarrow> bool" where
  "is_letter c = (let n = of_char c :: nat in 65 \<le> n \<and> n \<le> 90 \<or> 97 \<le> n \<and> n \<le> 122)"

definition alnum :: "char \<Rightarrow> bool" where
  "alnum c \<longleftrightarrow> is_letter c \<or> is_digit c"

definition word_char :: "char \<Rightarrow> bool" where
  "word_char c \<longleftrightarrow> alnum c \<or> c = CHR ''_''"

definition at_edge :: "char option \<Rightarrow> string \<Rightarrow> bool" where
  "at_edge p s \<longleftrightarrow>
     (case p of None \<Rightarrow> False | Some c \<Rightarrow> word_char c) \<noteq> (case s of [] \<Rightarrow> False | c # _ \<Rightarrow> word_char c)"

fun first_some :: "('a \<Rightarrow> 'b option) \<Rightarrow> 'a list \<Rightarrow> 'b option" where
  "first_some f [] = None"
| "first_some f (x # xs) = (case f x of None \<Rightarrow> first_some f xs | Some y \<Rightarrow> Some y)"

definition before :: "char option \<Rightarrow> string \<Rightarrow> char option" where
  "before p t = (if t = [] then p else Some (last t))"

definition longest :: "(char \<Rightarrow> bool) \<Rightarrow> nat option \<Rightarrow> string \<Rightarrow> nat" where
  "longest c hi s = (case hi of None \<Rightarrow> length (takeWhile c s) | Some h \<Rightarrow> min h (length (takeWhile c s)))"

primrec re_match :: "piece list \<Rightarrow> char option \<Rightarrow> string \<Rightarrow> string list option" where
  "re_match [] p s = Some []"
| "re_match (x # ps) p s =
     (case x of
        Edge \<Rightarrow> if at_edge p s then map_option ((#) []) (re_match ps p s) else None
      | Rep c lo hi \<Rightarrow>
          first_some (\<lambda>k. map_option ((#) (take k s)) (re_match ps (before p (take k s)) (drop k s)))
            (rev [lo..<Suc (longest c hi s)])
      | Lazy c lo \<Rightarrow>
          first_some (\<lambda>k. map_option ((#) (take k s)) (re_match ps (before p (take k s)) (drop k s)))
            [lo..<Suc (longest c None s)])"

declare re_match.simps [simp del]

lemma re_match_simps [simp]:
  "re_match [] p s = Some []"
  "re_match (Edge # ps) p s = (if at_edge p s then map_option ((#) []) (re_match ps p s) else None)"
  "re_match (Rep c lo hi # ps) p s =
     first_some (\<lambda>k. map_option ((#) (take k s)) (re_match ps (before p (take k s)) (drop k s)))
       (rev [lo..<Suc (longest c hi s)])"
  "re_match (Lazy c lo # ps) p s =
     first_some (\<lambda>k. map_option ((#) (take k s)) (re_match ps (before p (take k s)) (drop k s)))
       [lo..<Suc (longest c None s)]"
  by (simp_all add: re_match.simps)

fun re_scan :: "piece list \<Rightarrow> nat \<Rightarrow> char option \<Rightarrow> string \<Rightarrow> (char + string list) list" where
  "re_scan ps n p [] = []"
| "re_scan ps (Suc n) p (c # cs) = re_scan ps n (Some c) cs"
| "re_scan ps 0 p (c # cs) =
     (case re_match ps p (c # cs) of
        Some g \<Rightarrow> if concat g = [] then Inl c # re_scan ps 0 (Some c) cs
                  else Inr g # re_scan ps (length (concat g) - 1) (Some c) cs
      | None \<Rightarrow> Inl c # re_scan ps 0 (Some c) cs)"

definition re_sub :: "piece list \<Rightarrow> (string list \<Rightarrow> string) \<Rightarrow> string \<Rightarrow> string" where
  "re_sub ps f s = concat (map (case_sum (\<lambda>c. [c]) f) (re_scan ps 0 None s))"

text \<open>\<open>finditer\<close>: the text of every match with its span.\<close>

fun spans :: "nat \<Rightarrow> (char + string list) list \<Rightarrow> (string \<times> nat \<times> nat) list" where
  "spans i [] = []"
| "spans i (Inl c # xs) = spans (Suc i) xs"
| "spans i (Inr g # xs) = (concat g, i, i + length (concat g)) # spans (i + length (concat g)) xs"

definition re_finditer :: "piece list \<Rightarrow> string \<Rightarrow> (string \<times> nat \<times> nat) list" where
  "re_finditer ps s = spans 0 (re_scan ps 0 None s)"

section \<open>What a match is\<close>

lemma first_some_Some: "first_some f xs = Some y \<Longrightarrow> \<exists>x \<in> set xs. f x = Some y"
  by (induction xs) (auto split: option.splits)

lemma take_then: "drop k s = concat g @ t \<Longrightarrow> s = concat (take k s # g) @ t"
  by (metis append.assoc append_take_drop_id concat.simps(2))

lemma re_match_prefix: "re_match ps p s = Some g \<Longrightarrow> \<exists>t. s = concat g @ t"
proof (induction ps arbitrary: p s g)
  case Nil
  then show ?case by simp
next
  case (Cons x ps)
  show ?case
  proof (cases x)
    case Edge
    with Cons.prems Cons.IH show ?thesis by (auto split: if_splits)
  next
    case (Rep c lo hi)
    with Cons.prems have "\<exists>k g'. g = take k s # g' \<and> re_match ps (before p (take k s)) (drop k s) = Some g'"
      by (auto dest!: first_some_Some)
    then show ?thesis using Cons.IH take_then by blast
  next
    case (Lazy c lo)
    with Cons.prems have "\<exists>k g'. g = take k s # g' \<and> re_match ps (before p (take k s)) (drop k s) = Some g'"
      by (auto dest!: first_some_Some)
    then show ?thesis using Cons.IH take_then by blast
  qed
qed

lemma re_scan_skip: "re_scan ps n p s = re_scan ps 0 (before p (take n s)) (drop n s)"
proof (induction n arbitrary: p s)
  case 0
  then show ?case by (simp add: before_def)
next
  case (Suc n)
  show ?case
  proof (cases s)
    case (Cons c cs)
    have "before (Some c) (take n cs) = before p (c # take n cs)" by (simp add: before_def)
    with Suc.IH [of "Some c" cs] Cons show ?thesis by simp
  qed simp
qed

text \<open>The pieces of a scan put together are the text.\<close>

lemma re_scan_text: "concat (map (case_sum (\<lambda>c. [c]) concat) (re_scan ps 0 p s)) = s"
proof (induction s arbitrary: p rule: length_induct)
  case (1 s)
  show ?case
  proof (cases s)
    case (Cons c cs)
    show ?thesis
    proof (cases "re_match ps p s")
      case None
      with Cons 1 show ?thesis by simp
    next
      case (Some g)
      obtain t where t: "s = concat g @ t" using re_match_prefix [OF Some] by blast
      show ?thesis
      proof (cases "concat g = []")
        case True
        with Cons Some 1 show ?thesis by simp
      next
        case False
        then have "drop (length (concat g) - 1) cs = t" using t Cons by (metis drop_Cons' append_eq_conv_conj length_0_conv)
        moreover have "length t < length s" using t False by simp
        ultimately show ?thesis
          using 1 Cons Some False t re_scan_skip [of ps "length (concat g) - 1" "Some c" cs] by simp
      qed
    qed
  qed simp
qed

lemma re_sub_same: "re_sub ps concat s = s"
  by (simp add: re_sub_def re_scan_text)

lemma re_sub_length:
  assumes "\<And>g. length (f g) = length (concat g)"
  shows "length (re_sub ps f s) = length s"
proof -
  have "length (concat (map (case_sum (\<lambda>c. [c]) f) xs)) = length (concat (map (case_sum (\<lambda>c. [c]) concat) xs))" for xs
    by (induction xs) (auto simp: assms split: sum.split)
  then show ?thesis by (simp add: re_sub_def re_scan_text)
qed

lemma re_sub_no_match: "(\<And>p t. suffix t s \<Longrightarrow> re_match ps p t = None) \<Longrightarrow> re_sub ps f s = s"
proof -
  assume none: "\<And>p t. suffix t s \<Longrightarrow> re_match ps p t = None"
  have "re_scan ps 0 p t = map Inl t" if "suffix t s" for p t
    using that none by (induction t arbitrary: p) (auto simp: suffix_ConsD)
  then show ?thesis by (simp add: re_sub_def comp_def)
qed

end
