(* ===== verification/Governance.thy ===== *)
theory Governance
  imports Patterns Exceptions Calendar
begin

text \<open>
  \<open>src/governance/masking.py\<close>: the masking of strings, dictionaries and lists by patterns and roles. A
  replacement is computed from a match, or is a template that names groups; the library looks at the
  template before it looks for a match, and raises \<open>re.error\<close> (here a \<open>PyException\<close>) when it names a group
  the pattern has not. The digest of \<open>consistent_mask\<close> is an argument.
  Then the retention of data.
\<close>

section \<open>Patterns and replacements\<close>

datatype template_part = Text string | Ref nat

datatype replacement = Computed "string list \<Rightarrow> string" | Template "template_part list"

text \<open>\<open>mp_groups\<close> are the places of the pieces that are groups.\<close>

record mask_pattern =
  mp_pieces :: "piece list"
  mp_groups :: "nat list"
  mp_replacement :: replacement

definition digits :: "nat \<Rightarrow> piece" where
  "digits n = Rep is_digit n (Some n)"

definition one_of :: "string \<Rightarrow> piece" where
  "one_of cs = Rep (\<lambda>c. c \<in> set cs) 1 (Some 1)"

definition maybe :: "string \<Rightarrow> piece" where
  "maybe cs = Rep (\<lambda>c. c \<in> set cs) 0 (Some 1)"

definition email_pieces :: "piece list" where
  "email_pieces = [Rep (\<lambda>c. c \<noteq> CHR ''@'') 1 None, one_of ''@'']"

definition stars :: "nat \<Rightarrow> string" where
  "stars n = replicate n (CHR ''*'')"

definition star_group :: "string list \<Rightarrow> string" where
  "star_group g = stars (length (hd g)) @ ''@''"

definition star_middle :: "string list \<Rightarrow> string" where
  "star_middle g = (let m = concat g in take 4 m @ stars (length m - 8) @ drop (length m - 4) m)"

definition masking_patterns :: "(string, mask_pattern) dict" where
  "masking_patterns =
     [(''email'', \<lparr>mp_pieces = email_pieces, mp_groups = [0], mp_replacement = Computed star_group\<rparr>),
      (''phone'', \<lparr>mp_pieces = [digits 3, maybe ''-.'', digits 3, maybe ''-.'', digits 4], mp_groups = [0, 2, 4],
                 mp_replacement = Template [Text ''XXX-XXX-'', Ref 3]\<rparr>),
      (''ssn'', \<lparr>mp_pieces = [digits 3, one_of ''-'', digits 2, one_of ''-'', digits 4], mp_groups = [],
               mp_replacement = Template [Text ''XXX-XX-'', Ref 3]\<rparr>),
      (''credit_card'', \<lparr>mp_pieces = [digits 4, maybe ''- '', digits 4, maybe ''- '', digits 4, maybe ''- '', digits 4], mp_groups = [],
                       mp_replacement = Template [Text ''XXXX-XXXX-XXXX-'', Ref 4]\<rparr>),
      (''ip_address'', \<lparr>mp_pieces = [Rep is_digit 1 (Some 3), one_of ''.'', Rep is_digit 1 (Some 3), one_of ''.'',
                        Rep is_digit 1 (Some 3), one_of ''.'', Rep is_digit 1 (Some 3)], mp_groups = [],
                      mp_replacement = Template [Text ''XXX.XXX.XXX.'', Ref 4]\<rparr>),
      (''api_key'', \<lparr>mp_pieces = [Rep alnum 20 (Some 40)], mp_groups = [], mp_replacement = Computed star_middle\<rparr>)]"

fun part_ok :: "nat \<Rightarrow> template_part \<Rightarrow> bool" where
  "part_ok n (Text s) = True"
| "part_ok n (Ref i) = (i \<le> n)"

fun part_text :: "nat list \<Rightarrow> string list \<Rightarrow> template_part \<Rightarrow> string" where
  "part_text gs g (Text s) = s"
| "part_text gs g (Ref i) = (if i = 0 then concat g else g ! (gs ! (i - 1)))"

definition group_error :: exn where
  "group_error = py_exn PyException ''invalid group reference''"

definition apply_pattern :: "mask_pattern \<Rightarrow> string \<Rightarrow> exn + string" where
  "apply_pattern mp s =
     (case mp_replacement mp of
        Computed f \<Rightarrow> Inr (re_sub (mp_pieces mp) f s)
      | Template ts \<Rightarrow>
          if list_all (part_ok (length (mp_groups mp))) ts
          then Inr (re_sub (mp_pieces mp) (\<lambda>g. concat (map (part_text (mp_groups mp) g) ts)) s)
          else Inl group_error)"

section \<open>Masking\<close>

definition unmask_permissions :: "(string, string list) dict" where
  "unmask_permissions =
     [(''admin'', [''*'']), (''security_engineer'', [''email'', ''ip_address'']), (''auditor'', [''email'']), (''viewer'', [])]"

definition given :: "string option \<Rightarrow> bool" where
  "given x = (case x of None \<Rightarrow> False | Some s \<Rightarrow> s \<noteq> [])"

definition can_unmask :: "string \<Rightarrow> string option \<Rightarrow> bool" where
  "can_unmask role ptype =
     (let allowed = dict_get_or unmask_permissions role []
      in ''*'' \<in> set allowed \<or> (given ptype \<and> the ptype \<in> set allowed))"

definition mask_string :: "string \<Rightarrow> string option \<Rightarrow> string option \<Rightarrow> exn + string" where
  "mask_string s ptype role =
     (if given role \<and> can_unmask (the role) ptype then Inr s
      else if given ptype \<and> dict_has masking_patterns (the ptype)
        then apply_pattern (the (dict_get masking_patterns (the ptype))) s
      else foldM_e (\<lambda>(n, mp). apply_pattern mp) masking_patterns s)"

definition sensitive_words :: "string list" where
  "sensitive_words = [''password'', ''token'', ''secret'', ''key'', ''credential'']"

definition sensitive_key :: "string \<Rightarrow> bool" where
  "sensitive_key k = list_ex (\<lambda>kw. sublist kw (map lower k)) sensitive_words"

text \<open>\<open>_mask_dict\<close> builds a new dictionary; its keys are those of the old one.\<close>

fun mask_data :: "string option \<Rightarrow> string option \<Rightarrow> pyval \<Rightarrow> exn + pyval"
  and mask_list :: "string option \<Rightarrow> string option \<Rightarrow> pyval list \<Rightarrow> exn + pyval list"
  and mask_dict :: "string option \<Rightarrow> string option \<Rightarrow> pydict \<Rightarrow> exn + pydict" where
  "mask_data ptype role (PStr s) = rbind (mask_string s ptype role) (\<lambda>t. Inr (PStr t))"
| "mask_data ptype role (PDict d) = rbind (mask_dict ptype role d) (\<lambda>e. Inr (PDict e))"
| "mask_data ptype role (PList xs) = rbind (mask_list ptype role xs) (\<lambda>ys. Inr (PList ys))"
| "mask_data ptype role v = Inr v"
| "mask_list ptype role [] = Inr []"
| "mask_list ptype role (x # xs) =
     rbind (mask_data ptype role x) (\<lambda>y. rbind (mask_list ptype role xs) (\<lambda>ys. Inr (y # ys)))"
| "mask_dict ptype role [] = Inr []"
| "mask_dict ptype role ((k, v) # d) =
     rbind (if sensitive_key k then Inr (PStr ''[MASKED]'') else mask_data ptype role v)
       (\<lambda>w. rbind (mask_dict ptype role d) (\<lambda>e. Inr ((k, w) # e)))"

text \<open>\<open>data.split('@')\<close> must give two parts; all other strings are answered by a piece of the digest.\<close>

definition consistent_mask :: "(string \<Rightarrow> string) \<Rightarrow> string \<Rightarrow> string option \<Rightarrow> exn + string" where
  "consistent_mask sha s salt =
     (let h = sha (s @ (if given salt then the salt else []))
      in if CHR ''@'' \<in> set s
         then (case split_on (CHR ''@'') s of
                 [l, d] \<Rightarrow> Inr (take (length l) h @ ''@'' @ d)
               | _ \<Rightarrow> Inl (ValueErr ''too many values to unpack (expected 2)''))
         else Inr (take (length s) h))"

section \<open>E-mail addresses\<close>

text \<open>A character is hidden when it is no \<open>@\<close> and an \<open>@\<close> follows.\<close>

fun hide_local :: "string \<Rightarrow> string" where
  "hide_local [] = []"
| "hide_local (c # cs) = (if c \<noteq> CHR ''@'' \<and> CHR ''@'' \<in> set cs then CHR ''*'' else c) # hide_local cs"

lemma hide_local_none: "CHR ''@'' \<notin> set s \<Longrightarrow> hide_local s = s"
  by (induction s) auto

lemma hide_local_run:
  "CHR ''@'' \<notin> set r \<Longrightarrow> hide_local (r @ CHR ''@'' # t) = stars (length r) @ CHR ''@'' # hide_local t"
  by (induction r) (auto simp: stars_def)

lemma first_some_None: "(\<And>x. x \<in> set xs \<Longrightarrow> f x = None) \<Longrightarrow> first_some f xs = None"
  by (induction xs) auto

lemma one_of_match:
  "re_match [one_of [a]] p s = (case s of [] \<Rightarrow> None | c # cs \<Rightarrow> if c = a then Some [[a]] else None)"
  by (cases s) (auto simp: one_of_def longest_def)

lemma email_match_run:
  assumes "CHR ''@'' \<notin> set r" "r \<noteq> []"
  shows "re_match email_pieces p (r @ CHR ''@'' # t) = Some [r, ''@'']"
proof -
  have run: "takeWhile (\<lambda>c. c \<noteq> CHR ''@'') (r @ CHR ''@'' # t) = r"
    using assms(1) by (subst takeWhile_append2) auto
  have range: "rev [1..<Suc (length r)] = length r # rev [1..<length r]"
    using assms(2) by (cases "length r") auto
  show ?thesis
    unfolding email_pieces_def re_match_simps longest_def option.case run range
    by (simp add: one_of_match)
qed

lemma email_match_none:
  assumes "CHR ''@'' \<notin> set s \<or> hd s = CHR ''@''"
  shows "re_match email_pieces p s = None"
proof -
  let ?run = "takeWhile (\<lambda>c. c \<noteq> CHR ''@'') s"
  have "re_match [one_of ''@''] q (drop k s) = None" if "1 \<le> k" "k \<le> length ?run" for k q
  proof (cases "CHR ''@'' \<in> set s")
    case True
    with assms that show ?thesis by (cases s) auto
  next
    case False
    then have "CHR ''@'' \<notin> set (drop k s)" by (meson in_set_dropD)
    then show ?thesis by (cases "drop k s") (auto simp: one_of_match)
  qed
  then show ?thesis
    unfolding email_pieces_def re_match_simps longest_def option.case
    by (intro first_some_None) auto
qed

lemma email_scan:
  "concat (map (case_sum (\<lambda>c. [c]) star_group) (re_scan email_pieces 0 p s)) = hide_local s"
proof (induction s arbitrary: p rule: length_induct)
  case (1 s)
  show ?case
  proof (cases s)
    case (Cons c cs)
    show ?thesis
    proof (cases "CHR ''@'' \<in> set s \<and> c \<noteq> CHR ''@''")
      case False
      then have "re_match email_pieces p s = None" using Cons by (intro email_match_none) auto
      with 1 Cons False show ?thesis by (auto simp: hide_local_none)
    next
      case True
      then obtain r t where r: "s = r @ CHR ''@'' # t" "CHR ''@'' \<notin> set r" by (meson split_list_first)
      with True Cons have "r \<noteq> []" by auto
      then have scan: "re_scan email_pieces 0 p s = Inr [r, ''@''] # re_scan email_pieces 0 (before (Some c) (take (length r) cs)) (drop (length r) cs)"
        using email_match_run [OF r(2) \<open>r \<noteq> []\<close>, of p t] re_scan_skip [of email_pieces "length r" "Some c" cs]
        by (simp add: Cons flip: r(1))
      have "drop (length r) cs = t" using r Cons \<open>r \<noteq> []\<close> by (cases r) auto
      with 1 r scan show ?thesis by (simp add: hide_local_run star_group_def)
    qed
  qed simp
qed

text \<open>
  C22: masking a string as an e-mail address hides exactly the characters that are no \<open>@\<close> and are followed
  by one, and keeps all others, whatever the string is.
\<close>

theorem email_masking_hides_local_parts:
  "mask_string s (Some ''email'') None = Inr (hide_local s)"
proof -
  have "dict_get masking_patterns ''email'' =
      Some \<lparr>mp_pieces = email_pieces, mp_groups = [0], mp_replacement = Computed star_group\<rparr>"
    by (simp add: masking_patterns_def dict_get_Cons)
  then show ?thesis
    by (simp add: mask_string_def given_def dict_has_def apply_pattern_def re_sub_def email_scan)
qed

section \<open>Masking without a pattern\<close>

text \<open>The template of the third pattern names a group the pattern has not.\<close>

lemma all_patterns_raise: "foldM_e (\<lambda>(n, mp). apply_pattern mp) masking_patterns s = Inl group_error"
  by (simp add: masking_patterns_def apply_pattern_def)

lemma unmask_without_type: "can_unmask r None \<longleftrightarrow> r = ''admin''"
  by (simp add: can_unmask_def given_def unmask_permissions_def dict_get_or_def dict_get_Cons)

lemma mask_string_untyped: "mask_string s None role = (if role = Some ''admin'' then Inr s else Inl group_error)"
  by (cases role) (auto simp: mask_string_def given_def unmask_without_type all_patterns_raise)

text \<open>The strings of a value that are not below a sensitive key.\<close>

fun open_texts :: "pyval \<Rightarrow> string list"
  and open_texts_list :: "pyval list \<Rightarrow> string list"
  and open_texts_dict :: "pydict \<Rightarrow> string list" where
  "open_texts (PStr s) = [s]"
| "open_texts (PDict d) = open_texts_dict d"
| "open_texts (PList xs) = open_texts_list xs"
| "open_texts v = []"
| "open_texts_list [] = []"
| "open_texts_list (x # xs) = open_texts x @ open_texts_list xs"
| "open_texts_dict [] = []"
| "open_texts_dict ((k, v) # d) = (if sensitive_key k then [] else open_texts v) @ open_texts_dict d"

lemma mask_untyped_ok:
  "is_ok (mask_data None role v) \<longleftrightarrow> role = Some ''admin'' \<or> open_texts v = []"
  "is_ok (mask_list None role xs) \<longleftrightarrow> role = Some ''admin'' \<or> open_texts_list xs = []"
  "is_ok (mask_dict None role d) \<longleftrightarrow> role = Some ''admin'' \<or> open_texts_dict d = []"
proof (induction v and xs and d rule: open_texts_open_texts_list_open_texts_dict.induct)
qed (auto simp: mask_string_untyped is_ok_def rbind_def split: sum.splits)

text \<open>
  C27: without a type of pattern, which is the default, masking succeeds for nobody but the administrator,
  unless the value has no string outside of sensitive keys: every other call raises.
\<close>

theorem default_masking_raises:
  "is_ok (mask_data None role v) = (if role = Some ''admin'' then True else open_texts v = [])"
  by (simp add: mask_untyped_ok)

text \<open>Three of the six patterns never work.\<close>

lemma broken_patterns:
  "mask_string s (Some ''ssn'') None = Inl group_error" "mask_string s (Some ''credit_card'') None = Inl group_error"
  "mask_string s (Some ''ip_address'') None = Inl group_error"
  by (simp_all add: mask_string_def given_def masking_patterns_def dict_get_Cons dict_has_def apply_pattern_def)

text \<open>The characters of a key from the forty-first on are shown.\<close>

lemma masking_examples:
  "mask_string ''call 555-123-4567'' (Some ''phone'') None = Inr ''call XXX-XXX-4567''"
  "mask_string (replicate 30 CHR ''k'') (Some ''api_key'') None = Inr (''kkkk'' @ stars 22 @ ''kkkk'')"
  "mask_string (replicate 50 CHR ''k'') (Some ''api_key'') None = Inr (''kkkk'' @ stars 32 @ ''kkkk'' @ replicate 10 CHR ''k'')"
  by code_simp+

text \<open>What \<open>consistent_mask\<close> answers has at most the length of the text, and as many characters when the digest is long enough.\<close>

lemma consistent_mask_length:
  "consistent_mask sha s salt = Inr m \<Longrightarrow> length m \<le> length s"
proof -
  assume m: "consistent_mask sha s salt = Inr m"
  show ?thesis
  proof (cases "CHR ''@'' \<in> set s")
    case True
    with m obtain l d where p: "split_on (CHR ''@'') s = [l, d]" "m = take (length l) (sha (s @ (if given salt then the salt else []))) @ ''@'' @ d"
      by (auto simp: consistent_mask_def Let_def split: list.splits)
    obtain r t where r: "s = r @ CHR ''@'' # t" "CHR ''@'' \<notin> set r" using split_list_first [OF True] by blast
    with p(1) have "l = r" "split_on (CHR ''@'') t = [d]" by (simp_all add: split_on_append)
    then have "CHR ''@'' \<notin> set t" using length_split_on [of "CHR ''@''" t] by (simp add: count_list_0_iff)
    then have "d = t" using \<open>split_on (CHR ''@'') t = [d]\<close> by (simp add: split_on_none)
    with p r \<open>l = r\<close> show ?thesis by simp
  qed (use m in \<open>auto simp: consistent_mask_def Let_def\<close>)
qed

section \<open>Retention\<close>

text \<open>
  \<open>src/governance/retention.py\<close>: the policies by kind of data, what they say of data of an age, the log of
  the worker and the report. A number that is \<open>None\<close> or zero is no limit.
\<close>

section \<open>Policies\<close>

record retention_policy =
  rt_type :: string
  rt_days :: int
  rt_archive :: "int option"
  rt_delete :: "int option"
  rt_tags :: "string list"

record retention_entry =
  re_time :: time
  re_type :: string
  re_policy :: "int \<times> int option \<times> int option"

record retention_manager =
  rm_policies :: "(string, retention_policy) dict"
  rm_log :: "retention_entry list"

definition mk_policy :: "string \<Rightarrow> int \<Rightarrow> int option \<Rightarrow> int option \<Rightarrow> string list option \<Rightarrow> retention_policy" where
  "mk_policy t d a e tags =
     \<lparr>rt_type = t, rt_days = d, rt_archive = a, rt_delete = e, rt_tags = (case tags of None \<Rightarrow> [] | Some ts \<Rightarrow> ts)\<rparr>"

definition add_policy :: "retention_policy \<Rightarrow> retention_manager \<Rightarrow> retention_manager" where
  "add_policy p s = s\<lparr>rm_policies := dict_set (rt_type p) p (rm_policies s)\<rparr>"

definition default_policies :: "retention_policy list" where
  "default_policies =
     [mk_policy ''execution_logs'' 90 (Some 30) (Some 365) (Some [''soc2'', ''gdpr'']),
      mk_policy ''audit_logs'' (365 * 7) (Some 365) None (Some [''soc2'', ''hipaa'', ''pci_dss'']),
      mk_policy ''scan_results'' 365 (Some 90) (Some 730) (Some [''gdpr'']),
      mk_policy ''findings'' (365 * 2) (Some 365) (Some (365 * 3)) (Some [''soc2'', ''pci_dss'']),
      mk_policy ''metrics'' 30 (Some 7) (Some 90) (Some [])]"

definition default_manager :: retention_manager where
  "default_manager = fold add_policy default_policies \<lparr>rm_policies = [], rm_log = []\<rparr>"

text \<open>The constructor starts the worker, for which a loop has to run, and then uses \<open>logger\<close>, which the module has not;
  \<open>add_policy\<close> uses it first.\<close>

definition new_retention_manager :: "bool \<Rightarrow> bool \<Rightarrow> exn + retention_manager" where
  "new_retention_manager logs loop =
     (if \<not> logs then Inl (NameErr ''logger'') else if \<not> loop then Inl (py_exn PyException ''no running event loop'') else Inr default_manager)"

section \<open>What a policy says\<close>

datatype retention_action = Keep | Archive int | Delete int

definition limit_passed :: "int option \<Rightarrow> int \<Rightarrow> bool" where
  "limit_passed l age \<longleftrightarrow> (case l of None \<Rightarrow> False | Some n \<Rightarrow> n \<noteq> 0 \<and> age > n)"

definition policy_action :: "retention_policy \<Rightarrow> int \<Rightarrow> retention_action" where
  "policy_action p age =
     (if limit_passed (rt_delete p) age then Delete (the (rt_delete p))
      else if limit_passed (rt_archive p) age then Archive (the (rt_archive p))
      else Keep)"

definition check_retention :: "string \<Rightarrow> time \<Rightarrow> time \<Rightarrow> retention_manager \<Rightarrow> retention_action" where
  "check_retention t created now s =
     (case dict_get (rm_policies s) t of None \<Rightarrow> Keep | Some p \<Rightarrow> policy_action p ((now - created) div day))"

definition enforce_retention :: "time \<Rightarrow> retention_manager \<Rightarrow> retention_manager" where
  "enforce_retention now s =
     s\<lparr>rm_log := rm_log s @ map (\<lambda>(t, p). \<lparr>re_time = now, re_type = t, re_policy = (rt_days p, rt_archive p, rt_delete p)\<rparr>) (rm_policies s)\<rparr>"

text \<open>The waiting time of the worker after a round.\<close>

definition retention_round :: "time \<Rightarrow> retention_manager \<Rightarrow> time \<times> retention_manager" where
  "retention_round now s = (86400 * second, enforce_retention now s)"

record retention_report =
  rr_policies :: "(string, retention_policy) dict"
  rr_compliance :: "(string, bool \<times> time \<times> nat) dict"

definition get_retention_report :: "string option \<Rightarrow> time \<Rightarrow> retention_manager \<Rightarrow> retention_report" where
  "get_retention_report t now s =
     (let ps = filter (\<lambda>(k, p). t = None \<or> t = Some [] \<or> t = Some k) (rm_policies s)
      in \<lparr>rr_policies = ps, rr_compliance = map (\<lambda>(k, p). (k, (True, now, 0))) ps\<rparr>)"

section \<open>Properties\<close>

fun severity :: "retention_action \<Rightarrow> nat" where
  "severity Keep = 0"
| "severity (Archive n) = 1"
| "severity (Delete n) = 2"

text \<open>As data grows older its action never weakens.\<close>

lemma action_mono: "age \<le> age' \<Longrightarrow> severity (policy_action p age) \<le> severity (policy_action p age')"
  by (auto simp: policy_action_def limit_passed_def split: option.splits)

text \<open>The days of retention are read by nothing: neither an action nor the compliance of a report depends on them.\<close>

lemma retention_days_unused:
  "policy_action (p\<lparr>rt_days := d\<rparr>) age = policy_action p age"
  by (simp add: policy_action_def)

lemma always_compliant: "dict_all (\<lambda>k (c, t, n). c) (rr_compliance (get_retention_report t now s))"
  by (auto simp: get_retention_report_def dict_all_def Let_def)

lemma default_lookup:
  "dict_get (rm_policies default_manager) t = find (\<lambda>p. rt_type p = t) default_policies"
  by (auto simp: default_manager_def default_policies_def add_policy_def mk_policy_def)

text \<open>
  every kind of data with a default policy is kept past its days of retention: on the day after them it
  is only archived, and audit logs are never deleted.
\<close>

theorem data_outlives_retention:
  "list_all (\<lambda>p. \<exists>n. policy_action p (rt_days p + 1) = Archive n) default_policies \<and>
   severity (check_retention ''audit_logs'' created now default_manager) \<le> 1"
proof
  show "list_all (\<lambda>p. \<exists>n. policy_action p (rt_days p + 1) = Archive n) default_policies"
    by (simp add: default_policies_def mk_policy_def policy_action_def limit_passed_def)
  show "severity (check_retention ''audit_logs'' created now default_manager) \<le> 1"
    by (simp add: check_retention_def default_lookup default_policies_def mk_policy_def policy_action_def limit_passed_def)
qed

text \<open>The log of the worker grows by one entry for each policy in every round and is never cut.\<close>

lemma log_grows: "length (rm_log (fold enforce_retention ts s)) = length (rm_log s) + length ts * length (rm_policies s)"
  by (induction ts arbitrary: s) (simp_all add: enforce_retention_def)

end
