(* ===== verification/Classification.thy ===== *)
theory Classification
  imports Governance Calendar
begin

text \<open>
  \<open>src/security/data_classification.py\<close>: the search for personal data, the level it leads to, the cache of
  results and the redaction. The module uses \<open>json\<close> and \<open>datetime\<close> and imports neither; the fields of
  \<open>class_env\<close> say whether they are there, so the model covers the module as it is and what its code does
  with the imports. The digest, and what \<open>json.dumps\<close> makes of a value, are arguments.
\<close>

section \<open>Levels and rules\<close>

datatype data_level = Public | Internal | Confidential | Restricted | Critical

record class_rule =
  cr_patterns :: "string list"
  cr_max_pii :: "nat option"
  cr_encryption :: bool

definition email_class :: "char \<Rightarrow> bool" where
  "email_class c \<longleftrightarrow> alnum c \<or> c \<in> set ''._%+-''"

definition domain_class :: "char \<Rightarrow> bool" where
  "domain_class c \<longleftrightarrow> alnum c \<or> c \<in> set ''.-''"

definition key_pieces :: "piece list" where
  "key_pieces = [Rep alnum 20 (Some 40)]"

definition pii_patterns :: "(string, piece list) dict" where
  "pii_patterns =
     [(''email'', [Rep email_class 1 None, one_of ''@'', Rep domain_class 1 None, one_of ''.'', Rep is_letter 2 None]),
      (''phone'', [Edge, digits 3, maybe ''-.'', digits 3, maybe ''-.'', digits 4, Edge]),
      (''ssn'', [Edge, digits 3, one_of ''-'', digits 2, one_of ''-'', digits 4, Edge]),
      (''credit_card'', [Edge, digits 4, maybe ''- '', digits 4, maybe ''- '', digits 4, maybe ''- '', digits 4, Edge]),
      (''ip_address'', [Edge, Rep is_digit 1 (Some 3), one_of ''.'', Rep is_digit 1 (Some 3), one_of ''.'',
                      Rep is_digit 1 (Some 3), one_of ''.'', Rep is_digit 1 (Some 3), Edge]),
      (''api_key'', key_pieces)]"

fun class_rules :: "data_level \<Rightarrow> class_rule" where
  "class_rules Public = \<lparr>cr_patterns = [], cr_max_pii = Some 0, cr_encryption = False\<rparr>"
| "class_rules Internal = \<lparr>cr_patterns = [''email'', ''ip_address''], cr_max_pii = Some 10, cr_encryption = False\<rparr>"
| "class_rules Confidential = \<lparr>cr_patterns = [''ssn'', ''credit_card''], cr_max_pii = Some 100, cr_encryption = True\<rparr>"
| "class_rules Restricted = \<lparr>cr_patterns = [''all''], cr_max_pii = None, cr_encryption = True\<rparr>"
| "class_rules Critical = \<lparr>cr_patterns = [''all''], cr_max_pii = None, cr_encryption = True\<rparr>"

section \<open>Classification\<close>

record pii =
  pi_type :: string
  pi_value :: string
  pi_span :: "nat \<times> nat"

definition detect_pii :: "string \<Rightarrow> pii list" where
  "detect_pii s =
     concat (map (\<lambda>(t, ps). map (\<lambda>(v, i, j). \<lparr>pi_type = t, pi_value = v, pi_span = (i, j)\<rparr>) (re_finditer ps s)) pii_patterns)"

definition context_value :: "pydict option \<Rightarrow> string \<Rightarrow> pyval" where
  "context_value ctx k = (case ctx of None \<Rightarrow> PNone | Some d \<Rightarrow> dict_get_or d k PNone)"

definition determine_level :: "pii list \<Rightarrow> pydict option \<Rightarrow> data_level" where
  "determine_level found ctx =
     (if context_value ctx ''data_type'' \<in> {PStr ''credentials'', PStr ''encryption_keys''} then Critical
      else if list_ex (\<lambda>x. pi_type x \<in> {''ssn'', ''credit_card''}) found then Restricted
      else if length found > 10 then Confidential
      else if length found > 0 then Confidential
      else if context_value ctx ''source'' = PStr ''internal'' then Internal
      else Public)"

record classified =
  cl_level :: data_level
  cl_pii :: "pii list"
  cl_encryption :: bool
  cl_time :: time
  cl_hash :: string

record classifier =
  cm_cache :: "(string, classified \<times> time) dict"

definition new_classifier :: classifier where
  "new_classifier = \<lparr>cm_cache = []\<rparr>"

record class_env =
  ce_json :: bool
  ce_datetime :: bool
  ce_dumps :: "pyval \<Rightarrow> exn + string"
  ce_md5 :: "string \<Rightarrow> string"

definition data_text :: "class_env \<Rightarrow> pyval \<Rightarrow> exn + string" where
  "data_text env v =
     (case v of PStr s \<Rightarrow> Inr s | _ \<Rightarrow> if ce_json env then ce_dumps env v else Inl (NameErr ''json''))"

text \<open>\<open>(a - b).seconds\<close> is the part of the difference below a day.\<close>

definition seconds_part :: "time \<Rightarrow> int" where
  "seconds_part d = (d mod day) div second"

definition classify_text :: "class_env \<Rightarrow> string \<Rightarrow> pydict option \<Rightarrow> time \<Rightarrow> classifier \<Rightarrow> (exn + classified) \<times> classifier" where
  "classify_text env s ctx now m =
     (let h = ce_md5 env s;
          found = detect_pii s;
          level = determine_level found ctx;
          res = \<lparr>cl_level = level, cl_pii = found, cl_encryption = cr_encryption (class_rules level), cl_time = now, cl_hash = h\<rparr>
      in if \<not> ce_datetime env then (Inl (NameErr ''datetime''), m)
         else case dict_get (cm_cache m) h of
           Some (r, t) \<Rightarrow> if seconds_part (now - t) < 3600 then (Inr r, m)
                         else (Inr res, m\<lparr>cm_cache := dict_set h (res, now) (cm_cache m)\<rparr>)
         | None \<Rightarrow> (Inr res, m\<lparr>cm_cache := dict_set h (res, now) (cm_cache m)\<rparr>))"

definition classify_data :: "class_env \<Rightarrow> pyval \<Rightarrow> pydict option \<Rightarrow> time \<Rightarrow> classifier \<Rightarrow> (exn + classified) \<times> classifier" where
  "classify_data env v ctx now m =
     (case data_text env v of Inl e \<Rightarrow> (Inl e, m) | Inr s \<Rightarrow> classify_text env s ctx now m)"

section \<open>Redaction\<close>

definition redacted :: string where
  "redacted = ''[REDACTED]''"

definition mask_match :: "string list \<Rightarrow> string" where
  "mask_match g = (let v = concat g in if length v > 4 then stars (length v - 4) @ drop (length v - 4) v else redacted)"

definition redact_pattern :: "data_level \<Rightarrow> string \<times> piece list \<Rightarrow> string \<Rightarrow> string" where
  "redact_pattern level = (\<lambda>(t, ps) s.
     if level \<in> {Restricted, Critical} then re_sub ps (\<lambda>g. redacted) s
     else if level = Confidential then
       (if t \<in> {''ssn'', ''credit_card''} then re_sub ps (\<lambda>g. redacted) s else re_sub ps mask_match s)
     else s)"

definition redact_string :: "data_level \<Rightarrow> string \<Rightarrow> string" where
  "redact_string level s = fold (redact_pattern level) pii_patterns s"

fun redact_data :: "data_level \<Rightarrow> pyval \<Rightarrow> pyval"
  and redact_list :: "data_level \<Rightarrow> pyval list \<Rightarrow> pyval list"
  and redact_dict :: "data_level \<Rightarrow> pydict \<Rightarrow> pydict" where
  "redact_data level (PStr s) = PStr (redact_string level s)"
| "redact_data level (PDict d) = PDict (redact_dict level d)"
| "redact_data level (PList xs) = PList (redact_list level xs)"
| "redact_data level v = v"
| "redact_list level [] = []"
| "redact_list level (x # xs) = redact_data level x # redact_list level xs"
| "redact_dict level [] = []"
| "redact_dict level ((k, v) # d) =
     (k, if sensitive_key k then PStr redacted else redact_data level v) # redact_dict level d"

section \<open>Properties\<close>

text \<open>The module as it is classifies nothing: every call raises and leaves the cache empty.\<close>

lemma classification_never_returns:
  "\<not> ce_json env \<Longrightarrow> \<not> ce_datetime env \<Longrightarrow>
   \<exists>n. classify_data env v ctx now m = (Inl (NameErr n), m)"
  by (cases v) (auto simp: classify_data_def data_text_def classify_text_def Let_def)

text \<open>The level of data with personal data in it, whatever the rules of the levels say about patterns and counts.\<close>

lemma personal_data_level:
  "found \<noteq> [] \<Longrightarrow> determine_level found ctx \<in> {Confidential, Restricted, Critical}"
  by (auto simp: determine_level_def)

lemma internal_only_by_context:
  "determine_level found ctx = Internal \<longleftrightarrow> found = [] \<and> context_value ctx ''source'' = PStr ''internal'' \<and>
     context_value ctx ''data_type'' \<notin> {PStr ''credentials'', PStr ''encryption_keys''}"
  by (auto simp: determine_level_def)

text \<open>
  a cached result is returned for the same text whatever the context is now, within the hour and again
  within an hour of every full day after it.
\<close>

theorem cached_level_ignores_context:
  assumes "ce_datetime env" "data_text env v = Inr s" "\<not> dict_has (cm_cache m) (ce_md5 env s)" "0 \<le> d" "d < hour"
  shows "fst (classify_data env v ctx' (t + int n * day + d) (snd (classify_data env v ctx t m))) =
         fst (classify_data env v ctx t m)"
proof -
  have "(int n * day + d) mod day = d" using assms(4,5) by (simp add: unit_defs)
  then have "seconds_part (t + int n * day + d - t) < 3600"
    using assms(5) by (simp add: seconds_part_def unit_defs)
  moreover have "dict_get (cm_cache m) (ce_md5 env s) = None"
    using assms(3) by (cases "dict_get (cm_cache m) (ce_md5 env s)") (simp_all add: dict_has_def)
  ultimately show ?thesis using assms(1,2) by (simp add: classify_data_def classify_text_def Let_def)
qed

theorem cached_level_ignores_context_witness:
  "let env = \<lparr>ce_json = True, ce_datetime = True, ce_dumps = (\<lambda>v. Inr []), ce_md5 = id\<rparr>;
       again = fst (classify_data env (PStr ''root'') (Some [(''data_type'', PStr ''credentials'')]) (int 2 * day + minute)
         (snd (classify_data env (PStr ''root'') None 0 new_classifier)))
   in again = fst (classify_data env (PStr ''root'') None 0 new_classifier) \<and> map_sum id cl_level again = Inr Public"
proof -
  let ?env = "\<lparr>ce_json = True, ce_datetime = True, ce_dumps = (\<lambda>v. Inr []), ce_md5 = id\<rparr>"
  have "fst (classify_data ?env (PStr ''root'') (Some [(''data_type'', PStr ''credentials'')]) (0 + int 2 * day + minute)
         (snd (classify_data ?env (PStr ''root'') None 0 new_classifier))) =
       fst (classify_data ?env (PStr ''root'') None 0 new_classifier)"
    by (rule cached_level_ignores_context [where s = "''root''"]) (simp_all add: data_text_def new_classifier_def unit_defs)
  moreover have "map_sum id cl_level (fst (classify_data ?env (PStr ''root'') None 0 new_classifier)) = Inr Public"
    by code_simp
  ultimately show ?thesis by (simp add: Let_def)
qed

section \<open>What redaction removes\<close>

text \<open>A text in which at most \<open>n\<close> letters and digits follow each other; \<open>k\<close> is the length of the current run.\<close>

fun runs_below :: "nat \<Rightarrow> nat \<Rightarrow> string \<Rightarrow> bool" where
  "runs_below n k [] = (k < n)"
| "runs_below n k (c # cs) = (k < n \<and> runs_below n (if alnum c then Suc k else 0) cs)"

lemma runs_below_run:
  "list_all alnum r \<Longrightarrow> t = [] \<or> \<not> alnum (hd t) \<Longrightarrow> k + length r < n \<Longrightarrow> runs_below n 0 t \<Longrightarrow> runs_below n k (r @ t)"
  by (induction r arbitrary: k) (cases t; auto)+

lemma runs_below_redacted: "runs_below 20 0 t \<Longrightarrow> runs_below 20 0 (redacted @ t)"
  by (simp add: redacted_def alnum_def is_letter_def is_digit_def)

lemma key_match:
  "re_match key_pieces p s =
     (if 20 \<le> length (takeWhile alnum s) then Some [take (min 40 (length (takeWhile alnum s))) s] else None)"
proof -
  have "rev [20..<Suc (min 40 n)] = (if 20 \<le> n then min 40 n # rev [20..<min 40 n] else [])" for n :: nat
    by (auto simp: min_def)
  then show ?thesis by (simp add: key_pieces_def longest_def)
qed

lemma key_scan_run:
  "length (takeWhile alnum (r @ t)) < 20 \<Longrightarrow> list_all alnum r \<Longrightarrow>
   \<exists>q. re_scan key_pieces 0 p (r @ t) = map Inl r @ re_scan key_pieces 0 q t"
proof (induction r arbitrary: p)
  case (Cons c r)
  then have "length (takeWhile alnum (r @ t)) < 20" by simp
  with Cons obtain q where "re_scan key_pieces 0 (Some c) (r @ t) = map Inl r @ re_scan key_pieces 0 q t" by auto
  with Cons.prems show ?case by (auto simp: key_match)
qed auto

lemma key_redaction_runs:
  "runs_below 20 0 (concat (map (case_sum (\<lambda>c. [c]) (\<lambda>g. redacted)) (re_scan key_pieces 0 p s)))"
proof (induction s arbitrary: p rule: length_induct)
  case (1 s)
  let ?out = "\<lambda>p s. concat (map (case_sum (\<lambda>c. [c]) (\<lambda>g. redacted)) (re_scan key_pieces 0 p s))"
  let ?run = "takeWhile alnum s" and ?rest = "dropWhile alnum s"
  show ?case
  proof (cases "s = []")
    case False
    then obtain c cs where s: "s = c # cs" by (cases s) auto
    show ?thesis
    proof (cases "20 \<le> length ?run")
      case True
      define k where "k = min 40 (length ?run)"
      define m where "m = take k s"
      have "1 \<le> k" "k \<le> length s" using True length_takeWhile_le [of alnum s] by (auto simp: k_def)
      then have m: "length m = k" "m \<noteq> []" by (auto simp: m_def)
      have "re_match key_pieces p (c # cs) = Some [m]" using True s by (simp add: key_match m_def k_def)
      then have "?out p s = redacted @ concat (map (case_sum (\<lambda>c. [c]) (\<lambda>g. redacted)) (re_scan key_pieces (k - 1) (Some c) cs))"
        using m by (simp add: s)
      also have "re_scan key_pieces (k - 1) (Some c) cs = re_scan key_pieces 0 (before (Some c) (take (k - 1) cs)) (drop (k - 1) cs)"
        by (rule re_scan_skip)
      finally show ?thesis using 1 s runs_below_redacted by simp
    next
      case short: False
      have all: "list_all alnum ?run" by (auto simp: list_all_iff dest: set_takeWhileD)
      from short key_scan_run [of ?run ?rest p] all obtain q where
        scan: "re_scan key_pieces 0 p s = map Inl ?run @ re_scan key_pieces 0 q ?rest" by auto
      then have out: "?out p s = ?run @ ?out q ?rest" by (simp add: comp_def)
      show ?thesis
      proof (cases ?rest)
        case Nil
        with out all short show ?thesis using runs_below_run [of ?run "[]" 0 20] by simp
      next
        case (Cons d ds)
        then have d: "\<not> alnum d" by (metis hd_dropWhile list.distinct(1) list.sel(1))
        have "length ds < length s" using Cons by (metis length_dropWhile_le length_Cons Suc_le_eq)
        then have "runs_below 20 0 (?out (Some d) ds)" using 1 by blast
        moreover have "?out q ?rest = d # ?out (Some d) ds" using d Cons by (simp add: key_match)
        ultimately have "runs_below 20 0 (?out q ?rest) \<and> \<not> alnum (hd (?out q ?rest))" using d by simp
        then show ?thesis using out all short runs_below_run [of ?run "?out q ?rest" 0 20] by simp
      qed
    qed
  qed simp
qed

text \<open>
  C24: data redacted as restricted or critical never shows twenty letters and digits in a row, so no key of
  an interface, whatever it was before.
\<close>

theorem no_key_survives_redaction:
  assumes "level \<in> {Restricted, Critical}"
  shows "runs_below 20 0 (redact_string level s)"
proof -
  have "\<exists>t. redact_string level s = redact_pattern level (''api_key'', key_pieces) t"
    unfolding redact_string_def pii_patterns_def fold_simps by (rule exI) (rule refl)
  then obtain t where "redact_string level s = redact_pattern level (''api_key'', key_pieces) t" by blast
  then show ?thesis using assms by (simp add: redact_pattern_def re_sub_def key_redaction_runs)
qed

theorem no_key_survives_redaction_witness:
  "runs_below 20 0 (redact_string Critical (''id '' @ replicate 30 CHR ''k''))"
  by (rule no_key_survives_redaction) simp

text \<open>
  The keys are removed last: the pattern of social security numbers finds nothing behind a long key, where no
  word begins, and the removal of the key then shows the number.
\<close>

lemma number_behind_key_survives:
  "re_sub (the (dict_get pii_patterns ''ssn'')) f (replicate 40 CHR ''k'' @ ''123-45-6789'') = replicate 40 CHR ''k'' @ ''123-45-6789''"
  "re_sub key_pieces (\<lambda>g. redacted) (replicate 40 CHR ''k'' @ ''123-45-6789'') = ''[REDACTED]123-45-6789''"
  by code_simp+

lemma number_redacted: "redact_string Critical ''123-45-6789'' = redacted"
  by code_simp

text \<open>Public and internal data keeps its strings; what is below a sensitive key is removed at every level.\<close>

lemma low_levels_keep_strings: "level \<in> {Public, Internal} \<Longrightarrow> redact_string level s = s"
  by (auto simp: redact_string_def pii_patterns_def redact_pattern_def)

lemma redact_dict_keys: "map fst (redact_dict level d) = map fst d"
  by (induction d) auto

lemma sensitive_values_removed:
  "(k, v) \<in> set (redact_dict level d) \<Longrightarrow> sensitive_key k \<Longrightarrow> v = PStr redacted"
  by (induction d) (auto split: if_splits)

end
