(* ===== verification/SecretsManager.thy ===== *)
theory SecretsManager
  imports Exceptions Branching
begin

text \<open>
  \<open>src/security/secrets.py\<close>: secrets in the vault, with the environment and encrypted files behind it when
  there is no vault. The vault is a record of functions over a state of its own; the settings, the reading of
  JSON, the files and the cipher are arguments, and so are the values drawn for new secrets.
\<close>

section \<open>The vault and what is behind it\<close>

record 'v vault_api =
  va_read :: "string \<Rightarrow> 'v \<Rightarrow> exn + pydict"
  va_write :: "string \<Rightarrow> pydict \<Rightarrow> 'v \<Rightarrow> (exn + unit) \<times> 'v"
  va_credentials :: "string \<Rightarrow> 'v \<Rightarrow> exn + pydict"

record local_store =
  ls_setting :: "string \<Rightarrow> string option"
  ls_json :: "string \<Rightarrow> exn + pydict"
  ls_file :: "string \<Rightarrow> exn + string option"
  ls_decrypt :: "string \<Rightarrow> exn + string"
  ls_encrypt :: "string \<Rightarrow> string"

text \<open>The client answers whether it is authenticated, or raises; then there is no client.\<close>

definition init_vault :: "exn + bool \<Rightarrow> bool" where
  "init_vault r = (case r of Inl e \<Rightarrow> False | Inr b \<Rightarrow> b)"

definition pick :: "string option \<Rightarrow> pydict \<Rightarrow> pyval" where
  "pick key d = (case key of Some (c # cs) \<Rightarrow> dict_get_or d (c # cs) PNone | _ \<Rightarrow> PDict d)"

definition env_key :: "string \<Rightarrow> string" where
  "env_key path = map (\<lambda>c. let n = of_char c :: nat in
     if c = CHR ''/'' then CHR ''_'' else if 97 \<le> n \<and> n \<le> 122 then char_of (n - 32) else c) path"

definition file_secret :: "local_store \<Rightarrow> string \<Rightarrow> string option \<Rightarrow> pyval" where
  "file_secret ls path key =
     (case ls_file ls path of
        Inl e \<Rightarrow> PNone
      | Inr None \<Rightarrow> PNone
      | Inr (Some []) \<Rightarrow> PNone
      | Inr (Some (c # cs)) \<Rightarrow>
          (case rbind (ls_decrypt ls (c # cs)) (ls_json ls) of Inl e \<Rightarrow> PNone | Inr d \<Rightarrow> pick key d))"

definition get_local_secret :: "local_store \<Rightarrow> string \<Rightarrow> string option \<Rightarrow> pyval" where
  "get_local_secret ls path key =
     (case ls_setting ls (env_key path) of
        Some (c # cs) \<Rightarrow>
          (if key = None \<or> key = Some [] then PStr (c # cs)
           else case ls_json ls (c # cs) of Inr d \<Rightarrow> dict_get_or d (the key) PNone | Inl e \<Rightarrow> PStr (c # cs))
      | _ \<Rightarrow> file_secret ls path key)"

definition get_secret :: "'v vault_api \<Rightarrow> bool \<Rightarrow> local_store \<Rightarrow> string \<Rightarrow> string option \<Rightarrow> 'v \<Rightarrow> pyval" where
  "get_secret va client ls path key v =
     (if client then (case va_read va path v of Inl e \<Rightarrow> PNone | Inr d \<Rightarrow> pick key d)
      else get_local_secret ls path key)"

text \<open>What the vault raises is logged and dropped.\<close>

definition write_secret :: "'v vault_api \<Rightarrow> bool \<Rightarrow> string \<Rightarrow> pydict \<Rightarrow> 'v \<Rightarrow> 'v" where
  "write_secret va client path data v = (if client then snd (va_write va path data v) else v)"

definition sensitive_name :: "string \<Rightarrow> bool" where
  "sensitive_name k \<longleftrightarrow> sublist ''password'' (map lower k) \<or> sublist ''token'' (map lower k) \<or> sublist ''key'' (map lower k)"

text \<open>\<open>tok\<close> and \<open>pw\<close> are the values drawn for a key: a token, or sixteen characters.\<close>

definition generate_new_version :: "(string \<Rightarrow> string) \<Rightarrow> (string \<Rightarrow> string) \<Rightarrow> pydict \<Rightarrow> pydict" where
  "generate_new_version tok pw d =
     map (\<lambda>(k, x). (k, if sensitive_name k then PStr (if sublist ''token'' (map lower k) then tok k else pw k) else x)) d"

definition rotate_secret :: "'v vault_api \<Rightarrow> bool \<Rightarrow> (string \<Rightarrow> string) \<Rightarrow> (string \<Rightarrow> string) \<Rightarrow> string \<Rightarrow> 'v \<Rightarrow> bool \<times> 'v" where
  "rotate_secret va client tok pw path v =
     (if \<not> client then (False, v)
      else case va_read va path v of
        Inl e \<Rightarrow> (False, v)
      | Inr d \<Rightarrow> (True, write_secret va client path (generate_new_version tok pw d) v))"

definition generate_database_credentials :: "'v vault_api \<Rightarrow> bool \<Rightarrow> string \<Rightarrow> 'v \<Rightarrow> pydict" where
  "generate_database_credentials va client db v =
     (if client then (case va_credentials va db v of Inl e \<Rightarrow> [] | Inr d \<Rightarrow> d) else [])"

definition encrypt_text :: "local_store \<Rightarrow> string \<Rightarrow> string" where
  "encrypt_text ls s = ls_encrypt ls s"

definition decrypt_text :: "local_store \<Rightarrow> string \<Rightarrow> exn + string" where
  "decrypt_text ls s = ls_decrypt ls s"

section \<open>Properties\<close>

text \<open>
  What the documentation of a versioned store promises: after a write that does not raise, the path reads
  as what was written, and a write that raises changes nothing.
\<close>

definition vault_contract :: "'v vault_api \<Rightarrow> bool" where
  "vault_contract va \<longleftrightarrow>
     (\<forall>p d v. (case va_write va p d v of (Inr _, w) \<Rightarrow> va_read va p w = Inr d | (Inl _, w) \<Rightarrow> w = v))"

lemma new_version_keys: "map fst (generate_new_version tok pw d) = map fst d"
  by (induction d) (auto simp: generate_new_version_def)

lemma new_version_get:
  "dict_get (generate_new_version tok pw d) k =
     map_option (\<lambda>x. if sensitive_name k then PStr (if sublist ''token'' (map lower k) then tok k else pw k) else x) (dict_get d k)"
  by (induction d) (auto simp: generate_new_version_def dict_get_Cons)

text \<open>
  a rotation reports success whenever the secret can be read: if the vault refuses the new version, the
  caller is told that the secret was rotated and still reads the old one, and if it takes it, exactly the
  values whose names speak of passwords, tokens or keys have been replaced.
\<close>

theorem rotation_reports_success:
  assumes "vault_contract va" "va_read va path v = Inr d"
  shows "fst (rotate_secret va True tok pw path v) \<and>
    va_read va path (snd (rotate_secret va True tok pw path v)) =
      Inr (if is_ok (fst (va_write va path (generate_new_version tok pw d) v)) then generate_new_version tok pw d else d)"
proof (cases "va_write va path (generate_new_version tok pw d) v")
  case (Pair r w)
  have "case va_write va path (generate_new_version tok pw d) v of (Inr _, w) \<Rightarrow> va_read va path w = Inr (generate_new_version tok pw d) | (Inl _, w) \<Rightarrow> w = v"
    by (rule assms(1) [unfolded vault_contract_def, THEN spec, THEN spec, THEN spec])
  with Pair assms(2) show ?thesis by (cases r) (simp_all add: rotate_secret_def write_secret_def)
qed

text \<open>A vault of one secret that is sealed for writing.\<close>

definition sealed_vault :: "pydict vault_api" where
  "sealed_vault = \<lparr>va_read = (\<lambda>p v. Inr v), va_write = (\<lambda>p d v. (Inl (py_exn PyException ''permission denied''), v)),
     va_credentials = (\<lambda>p v. Inr [])\<rparr>"

theorem rotation_reports_success_witness:
  "fst (rotate_secret sealed_vault True id id ''app/db'' [(''db_password'', PStr ''old'')]) \<and>
   va_read sealed_vault ''app/db'' (snd (rotate_secret sealed_vault True id id ''app/db'' [(''db_password'', PStr ''old'')])) =
     Inr [(''db_password'', PStr ''old'')]"
proof -
  have "vault_contract sealed_vault" by (simp add: vault_contract_def sealed_vault_def)
  moreover have "va_read sealed_vault ''app/db'' [(''db_password'', PStr ''old'')] = Inr [(''db_password'', PStr ''old'')]"
    by (simp add: sealed_vault_def)
  ultimately show ?thesis using rotation_reports_success [of sealed_vault "''app/db''" "[(''db_password'', PStr ''old'')]" _ id id]
    by (simp add: sealed_vault_def)
qed

text \<open>A vault that fails to answer is not replaced by the local secrets.\<close>

lemma failing_vault_no_fallback: "va_read va path v = Inl e \<Longrightarrow> get_secret va True ls path key v = PNone"
  by (simp add: get_secret_def)

text \<open>A setting that is no JSON is given whole to a caller that asked for one key of it.\<close>

lemma whole_setting_for_one_key:
  "ls_setting ls (env_key path) = Some (c # cs) \<Longrightarrow> ls_json ls (c # cs) = Inl e \<Longrightarrow> get_local_secret ls path (Some k) = PStr (c # cs)"
  by (simp add: get_local_secret_def)

text \<open>Every value under a name with \<open>key\<close> in it is replaced, also when it is no secret.\<close>

lemma monkey_is_sensitive: "sensitive_name ''monkey_count''"
  by code_simp

end
