(* ===== verification/AuditTrail.thy ===== *)
theory AuditTrail
  imports Exceptions Calendar
begin

text \<open>
  \<open>src/observability/logging.py\<close> and \<open>src/services/audit.py\<close>: the audit trails in memory, the signatures
  of their entries, queries and the report on them. The message authentication code is the argument \<open>mac\<close>,
  the rendering of a time in it is \<open>iso\<close>. The verification of an entry uses \<open>hmac\<close>, which only the signing
  imports; \<open>here\<close> says whether it is there.
\<close>

section \<open>Entries\<close>

record audit_entry =
  ae_id :: string
  ae_time :: time
  ae_action :: string
  ae_user :: string
  ae_tenant :: string
  ae_resource :: string
  ae_resource_id :: "string option"
  ae_details :: pydict
  ae_result :: string
  ae_ip :: "string option"
  ae_agent :: "string option"
  ae_environment :: string
  ae_signature :: string

record audit_trail =
  at_entries :: "audit_entry list"
  at_key :: string

text \<open>The settings have no signing key, which is \<open>None\<close>.\<close>

definition new_audit_trail :: "string option \<Rightarrow> exn + audit_trail" where
  "new_audit_trail key =
     (case key of None \<Rightarrow> Inl (AttributeErr ''audit_signing_key'') | Some k \<Rightarrow> Inr \<lparr>at_entries = [], at_key = k\<rparr>)"

record audit_env =
  av_mac :: "string \<Rightarrow> string \<Rightarrow> string"
  av_iso :: "time \<Rightarrow> string"
  av_hmac :: bool

definition canonical :: "audit_env \<Rightarrow> audit_entry \<Rightarrow> string" where
  "canonical env e = ae_id e @ av_iso env (ae_time e) @ ae_action e @ ae_user e"

definition sign_audit_entry :: "audit_env \<Rightarrow> string \<Rightarrow> audit_entry \<Rightarrow> string" where
  "sign_audit_entry env key e = av_mac env key (canonical env e)"

text \<open>\<open>e\<close> holds the arguments of the call; the id, the time, the environment and the signature are filled in.\<close>

definition log_event :: "audit_env \<Rightarrow> string \<Rightarrow> string \<Rightarrow> audit_entry \<Rightarrow> time \<Rightarrow> audit_trail \<Rightarrow> string \<times> audit_trail" where
  "log_event env uid environment e now s =
     (let e1 = e\<lparr>ae_id := uid, ae_time := now, ae_environment := environment\<rparr>;
          e2 = e1\<lparr>ae_signature := sign_audit_entry env (at_key s) e1\<rparr>
      in (uid, s\<lparr>at_entries := append_capped 10000 e2 (at_entries s)\<rparr>))"

definition get_audit_entry :: "string \<Rightarrow> audit_trail \<Rightarrow> audit_entry option" where
  "get_audit_entry i s = find (\<lambda>e. ae_id e = i) (at_entries s)"

definition verify_audit_entry :: "audit_env \<Rightarrow> string \<Rightarrow> audit_trail \<Rightarrow> exn + bool" where
  "verify_audit_entry env i s =
     (case get_audit_entry i s of
        None \<Rightarrow> Inr False
      | Some e \<Rightarrow> if av_hmac env then Inr (ae_signature e = sign_audit_entry env (at_key s) e) else Inl (NameErr ''hmac''))"

section \<open>Queries\<close>

record audit_query =
  aq_user :: "string option"
  aq_tenant :: "string option"
  aq_action :: "string option"
  aq_resource :: "string option"
  aq_start :: "time option"
  aq_end :: "time option"

definition wants :: "string option \<Rightarrow> string \<Rightarrow> bool" where
  "wants w x = (case w of None \<Rightarrow> True | Some s \<Rightarrow> s = [] \<or> x = s)"

definition selects :: "audit_query \<Rightarrow> audit_entry \<Rightarrow> bool" where
  "selects q e \<longleftrightarrow>
     wants (aq_user q) (ae_user e) \<and> wants (aq_tenant q) (ae_tenant e) \<and> wants (aq_action q) (ae_action e) \<and>
     wants (aq_resource q) (ae_resource e) \<and> (case aq_start q of None \<Rightarrow> True | Some t \<Rightarrow> t \<le> ae_time e) \<and>
     (case aq_end q of None \<Rightarrow> True | Some t \<Rightarrow> ae_time e \<le> t)"

fun query_loop :: "audit_query \<Rightarrow> int \<Rightarrow> audit_entry list \<Rightarrow> audit_entry list \<Rightarrow> audit_entry list" where
  "query_loop q limit acc [] = acc"
| "query_loop q limit acc (e # es) =
     (if \<not> selects q e then query_loop q limit acc es
      else if int (length (acc @ [e])) \<ge> limit then acc @ [e]
      else query_loop q limit (acc @ [e]) es)"

definition query_audit_trail :: "audit_query \<Rightarrow> int \<Rightarrow> audit_trail \<Rightarrow> audit_entry list" where
  "query_audit_trail q limit s = query_loop q limit [] (at_entries s)"

section \<open>The report\<close>

record audit_report =
  ar_total :: nat
  ar_users :: nat
  ar_actions :: nat
  ar_by_action :: "(string, nat) dict"
  ar_by_user :: "(string, nat) dict"
  ar_by_resource :: "(string, nat) dict"
  ar_valid :: nat
  ar_invalid :: nat

definition count_key :: "string \<Rightarrow> (string, nat) dict \<Rightarrow> (string, nat) dict" where
  "count_key k d = dict_set k (dict_get_or d k 0 + 1) d"

definition report_entry :: "audit_env \<Rightarrow> audit_trail \<Rightarrow> audit_entry \<Rightarrow> audit_report \<Rightarrow> exn + audit_report" where
  "report_entry env s e r =
     rbind (verify_audit_entry env (ae_id e) s) (\<lambda>ok.
       Inr (r\<lparr>ar_valid := ar_valid r + (if ok then 1 else 0), ar_invalid := ar_invalid r + (if ok then 0 else 1),
              ar_by_action := count_key (ae_action e) (ar_by_action r), ar_by_user := count_key (ae_user e) (ar_by_user r),
              ar_by_resource := count_key (ae_resource e) (ar_by_resource r)\<rparr>))"

definition period_query :: "time \<Rightarrow> time \<Rightarrow> audit_query" where
  "period_query a b = \<lparr>aq_user = None, aq_tenant = None, aq_action = None, aq_resource = None, aq_start = Some a, aq_end = Some b\<rparr>"

definition generate_audit_report :: "audit_env \<Rightarrow> time \<Rightarrow> time \<Rightarrow> audit_trail \<Rightarrow> exn + audit_report" where
  "generate_audit_report env a b s =
     (let es = query_audit_trail (period_query a b) 10000 s
      in foldM_e (report_entry env s) es
           \<lparr>ar_total = length es, ar_users = card (set (map ae_user es)), ar_actions = card (set (map ae_action es)),
            ar_by_action = [], ar_by_user = [], ar_by_resource = [], ar_valid = 0, ar_invalid = 0\<rparr>)"

section \<open>The service\<close>

text \<open>\<open>services/audit.py\<close>: a trail of its own, of 1000 entries, without signatures.\<close>

record service_entry =
  se_id :: string
  se_time :: time
  se_action :: string
  se_user :: string
  se_tenant :: string
  se_resource :: string
  se_details :: pydict

definition service_log :: "service_entry \<Rightarrow> service_entry list \<Rightarrow> string \<times> service_entry list" where
  "service_log e trail = (se_id e, append_capped 1000 e trail)"

definition service_query :: "string option \<Rightarrow> string option \<Rightarrow> time option \<Rightarrow> nat \<Rightarrow> service_entry list \<Rightarrow> service_entry list" where
  "service_query user action start limit trail =
     take limit (filter (\<lambda>e. case start of None \<Rightarrow> True | Some t \<Rightarrow> t \<le> se_time e)
       (filter (\<lambda>e. wants action (se_action e)) (filter (\<lambda>e. wants user (se_user e)) trail)))"

interpretation audit_log: bounded_log "append_capped 10000" 10000
  by unfold_locales (simp_all add: append_capped_eq)

interpretation service_trail: bounded_log "append_capped 1000" 1000
  by unfold_locales (simp_all add: append_capped_eq)

section \<open>What a query gives\<close>

lemma query_loop_take:
  "query_loop q limit acc es = acc @ take (nat (max 1 (limit - int (length acc)))) (filter (selects q) es)"
proof (induction es arbitrary: acc)
  case (Cons e es)
  have "nat (max 1 (limit - int (length acc))) = Suc (nat (max 1 (limit - int (length (acc @ [e])))))"
    if "\<not> limit \<le> int (length (acc @ [e]))"
    using that by simp
  moreover have "nat (max 1 (limit - int (length acc))) = 1" if "limit \<le> int (length (acc @ [e]))"
    using that by simp
  ultimately show ?case using Cons by (cases "limit \<le> int (length (acc @ [e]))") simp_all
qed simp

text \<open>A trail after logging events, given with their ids and times.\<close>

definition logged_trail :: "audit_env \<Rightarrow> string \<Rightarrow> (string \<times> audit_entry \<times> time) list \<Rightarrow> audit_trail \<Rightarrow> audit_trail" where
  "logged_trail env environment evs s = fold (\<lambda>(i, e, t) s. snd (log_event env i environment e t s)) evs s"

definition event_entry :: "audit_env \<Rightarrow> string \<Rightarrow> string \<Rightarrow> string \<times> audit_entry \<times> time \<Rightarrow> audit_entry" where
  "event_entry env key environment = (\<lambda>(i, e, t).
     let e1 = e\<lparr>ae_id := i, ae_time := t, ae_environment := environment\<rparr> in e1\<lparr>ae_signature := sign_audit_entry env key e1\<rparr>)"

lemma logged_trail_entries:
  "at_entries (logged_trail env environment evs s) = fold (append_capped 10000) (map (event_entry env (at_key s) environment) evs) (at_entries s)
   \<and> at_key (logged_trail env environment evs s) = at_key s"
proof (induction evs arbitrary: s)
  case (Cons ev evs)
  obtain i e t where "ev = (i, e, t)" by (metis prod_cases3)
  with Cons [of "snd (log_event env i environment e t s)"] show ?case
    by (simp add: logged_trail_def log_event_def event_entry_def Let_def)
qed (simp add: logged_trail_def)

lemma logged_newest:
  "at_entries (logged_trail env environment evs \<lparr>at_entries = [], at_key = k\<rparr>) = last_n 10000 (map (event_entry env k environment) evs)"
  using audit_log.push_run [of "map (event_entry env k environment) evs" "[]"]
  by (simp add: logged_trail_entries last_n_def)

text \<open>
  a query answers the oldest selected entries of the newest 10000 events, as many as the limit says, and
  one even when the limit is zero or below.
\<close>

theorem query_answers_oldest:
  "query_audit_trail q limit (logged_trail env environment evs \<lparr>at_entries = [], at_key = k\<rparr>) =
     take (nat (max 1 limit)) (filter (selects q) (last_n 10000 (map (event_entry env k environment) evs)))"
  by (simp add: query_audit_trail_def query_loop_take logged_newest)

section \<open>Signatures\<close>

lemma find_id: "e \<in> set es \<Longrightarrow> \<exists>e' \<in> set es. find (\<lambda>x. ae_id x = ae_id e) es = Some e'"
  by (induction es) auto

definition all_signed :: "audit_env \<Rightarrow> audit_trail \<Rightarrow> bool" where
  "all_signed env s \<longleftrightarrow> (\<forall>e \<in> set (at_entries s). ae_signature e = sign_audit_entry env (at_key s) e)"

lemma logged_signed: "all_signed env (logged_trail env environment evs \<lparr>at_entries = [], at_key = k\<rparr>)"
proof -
  have signed: "ae_signature (event_entry env k environment ev) = sign_audit_entry env k (event_entry env k environment ev)" for ev
    by (simp add: event_entry_def sign_audit_entry_def canonical_def Let_def split: prod.split)
  have "set (last_n 10000 (map (event_entry env k environment) evs)) \<subseteq> event_entry env k environment ` set evs"
    using set_mono_suffix [OF suffix_last_n] by (metis list.set_map)
  then have "\<forall>e \<in> set (last_n 10000 (map (event_entry env k environment) evs)). ae_signature e = sign_audit_entry env k e"
    using signed by blast
  then show ?thesis
    unfolding all_signed_def logged_newest logged_trail_entries [THEN conjunct2] audit_trail.select_convs .
qed

text \<open>The report: with the module at hand it counts, without it the first entry raises.\<close>

lemma report_fold:
  "av_hmac env \<Longrightarrow> all_signed env s \<Longrightarrow> set es \<subseteq> set (at_entries s) \<Longrightarrow>
   \<exists>r'. foldM_e (report_entry env s) es r = Inr r' \<and> ar_valid r' = ar_valid r + length es \<and> ar_invalid r' = ar_invalid r \<and> ar_total r' = ar_total r"
proof (induction es arbitrary: r)
  case (Cons e es)
  obtain e' where "e' \<in> set (at_entries s)" "get_audit_entry (ae_id e) s = Some e'"
    using Cons.prems(3) find_id [of e "at_entries s"] by (auto simp: get_audit_entry_def)
  then have "verify_audit_entry env (ae_id e) s = Inr True"
    using Cons.prems(1,2) by (simp add: verify_audit_entry_def all_signed_def)
  then obtain r1 where "report_entry env s e r = Inr r1" "ar_valid r1 = ar_valid r + 1" "ar_invalid r1 = ar_invalid r" "ar_total r1 = ar_total r"
    by (simp add: report_entry_def)
  moreover obtain r' where "foldM_e (report_entry env s) es r1 = Inr r'" "ar_valid r' = ar_valid r1 + length es" "ar_invalid r' = ar_invalid r1"
      "ar_total r' = ar_total r1"
    using Cons.IH [of r1] Cons.prems by auto
  ultimately show ?case by simp
qed simp

lemma query_subset: "set (query_audit_trail q limit s) \<subseteq> set (at_entries s)"
  by (auto simp: query_audit_trail_def query_loop_take dest: in_set_takeD)

lemma logged_report_valid:
  "av_hmac env \<Longrightarrow> \<exists>r. generate_audit_report env a b (logged_trail env environment evs \<lparr>at_entries = [], at_key = k\<rparr>) = Inr r \<and>
     ar_invalid r = 0 \<and> ar_valid r = ar_total r"
proof -
  assume h: "av_hmac env"
  let ?s = "logged_trail env environment evs \<lparr>at_entries = [], at_key = k\<rparr>"
  let ?es = "query_audit_trail (period_query a b) 10000 ?s"
  let ?r = "\<lparr>ar_total = length ?es, ar_users = card (set (map ae_user ?es)), ar_actions = card (set (map ae_action ?es)),
            ar_by_action = [], ar_by_user = [], ar_by_resource = [], ar_valid = 0, ar_invalid = 0\<rparr>"
  obtain r where "foldM_e (report_entry env ?s) ?es ?r = Inr r" "ar_valid r = ar_valid ?r + length ?es"
      "ar_invalid r = ar_invalid ?r" "ar_total r = ar_total ?r"
    using report_fold [OF h logged_signed query_subset, where r = ?r] by blast
  then show ?thesis by (simp add: generate_audit_report_def Let_def)
qed

text \<open>
  as the module is, a report on a period succeeds exactly when nothing was logged in the period: the
  first entry it verifies raises \<open>NameError\<close>.
\<close>

theorem report_needs_silence:
  assumes "\<not> av_hmac env"
  shows "is_ok (generate_audit_report env a b s) \<longleftrightarrow> filter (selects (period_query a b)) (at_entries s) = []"
proof (cases "filter (selects (period_query a b)) (at_entries s)")
  case Nil
  then show ?thesis by (simp add: generate_audit_report_def Let_def query_audit_trail_def query_loop_take)
next
  case (Cons e es)
  then have "e \<in> set (at_entries s)" by (metis filter_is_subset list.set_intros(1) subsetD)
  then obtain e' where "get_audit_entry (ae_id e) s = Some e'"
    using find_id [of e "at_entries s"] by (auto simp: get_audit_entry_def)
  then have "report_entry env s e r = Inl (NameErr ''hmac'')" for r
    using assms by (simp add: report_entry_def verify_audit_entry_def)
  with Cons show ?thesis by (simp add: generate_audit_report_def Let_def query_audit_trail_def query_loop_take)
qed

text \<open>What is not signed can be changed: the tenant, the resource, the details and the result.\<close>

definition forge :: "string \<Rightarrow> string \<Rightarrow> pydict \<Rightarrow> string \<Rightarrow> audit_entry \<Rightarrow> audit_entry" where
  "forge t r d res e = e\<lparr>ae_tenant := t, ae_resource := r, ae_details := d, ae_result := res\<rparr>"

lemma find_map_id: "(\<And>e. ae_id (f e) = ae_id e) \<Longrightarrow> find (\<lambda>x. ae_id x = i) (map f es) = map_option f (find (\<lambda>x. ae_id x = i) es)"
  by (induction es) auto


text \<open>The signed fields are joined without a mark between them, so an action and a user can take letters of each other.\<close>

lemma signature_joins_fields:
  "canonical env (e\<lparr>ae_action := a @ x, ae_user := u\<rparr>) = canonical env (e\<lparr>ae_action := a, ae_user := x @ u\<rparr>)"
  by (simp add: canonical_def)

section \<open>Witness\<close>

definition ex_entry :: audit_entry where
  "ex_entry = \<lparr>ae_id = [], ae_time = 0, ae_action = ''delete'', ae_user = ''ann'', ae_tenant = ''acme'', ae_resource = ''key'',
     ae_resource_id = None, ae_details = [], ae_result = ''success'', ae_ip = None, ae_agent = None, ae_environment = [], ae_signature = []\<rparr>"

definition ex_audit_env :: audit_env where
  "ex_audit_env = \<lparr>av_mac = (@), av_iso = (\<lambda>t. []), av_hmac = False\<rparr>"

theorem report_needs_silence_witness:
  "is_ok (generate_audit_report ex_audit_env 0 4 (logged_trail ex_audit_env ''test'' [(''a1'', ex_entry, 5)] \<lparr>at_entries = [], at_key = ''k''\<rparr>)) \<and>
   \<not> is_ok (generate_audit_report ex_audit_env 0 5 (logged_trail ex_audit_env ''test'' [(''a1'', ex_entry, 5)] \<lparr>at_entries = [], at_key = ''k''\<rparr>))"
proof -
  let ?s = "logged_trail ex_audit_env ''test'' [(''a1'', ex_entry, 5)] \<lparr>at_entries = [], at_key = ''k''\<rparr>"
  have "\<not> av_hmac ex_audit_env" by (simp add: ex_audit_env_def)
  moreover have "filter (selects (period_query 0 4)) (at_entries ?s) = []" "filter (selects (period_query 0 5)) (at_entries ?s) \<noteq> []"
    by (simp_all add: logged_trail_def log_event_def append_capped_def ex_entry_def selects_def period_query_def wants_def Let_def)
  ultimately show ?thesis using report_needs_silence [of ex_audit_env _ _ ?s] by blast
qed

end
