(* ===== verification/Compliance.thy ===== *)
theory Compliance
  imports AuditTrail
begin

text \<open>
  \<open>src/security/compliance.py\<close>: the requirements of the frameworks, the check of a component against them,
  and the report over the components that were checked. The module uses \<open>logger\<close> and \<open>uuid\<close> and imports
  neither; \<open>compliance_env\<close> says whether they are there.
\<close>

section \<open>Requirements\<close>

datatype framework = SOC2 | HIPAA | GDPR | PCI_DSS | ISO27001

fun framework_value :: "framework \<Rightarrow> string" where
  "framework_value SOC2 = ''soc2''"
| "framework_value HIPAA = ''hipaa''"
| "framework_value GDPR = ''gdpr''"
| "framework_value PCI_DSS = ''pci_dss''"
| "framework_value ISO27001 = ''iso27001''"

fun requirements :: "framework \<Rightarrow> (string, string list) dict" where
  "requirements SOC2 =
     [(''security'', [''access_control'', ''audit_logging'', ''encryption_at_rest'', ''encryption_in_transit'', ''incident_response'']),
      (''availability'', [''backup_retention'', ''disaster_recovery'', ''monitoring'']),
      (''confidentiality'', [''data_classification'', ''access_reviews'', ''data_masking''])]"
| "requirements HIPAA =
     [(''administrative'', [''security_officer'', ''access_management'', ''workforce_training'', ''contingency_plan'']),
      (''physical'', [''facility_access'', ''device_security'']),
      (''technical'', [''access_control'', ''audit_controls'', ''integrity_controls'', ''transmission_security''])]"
| "requirements GDPR =
     [(''data_subject_rights'', [''right_to_access'', ''right_to_rectification'', ''right_to_erasure'', ''right_to_restrict_processing'']),
      (''data_protection'', [''pseudonymization'', ''encryption'', ''data_minimization'', ''storage_limitation'']),
      (''accountability'', [''processing_records'', ''dpo_appointment'', ''impact_assessments'', ''breach_notification''])]"
| "requirements PCI_DSS =
     [(''build_maintain_secure_networks'', [''firewall_configuration'', ''secure_configurations'']),
      (''protect_cardholder_data'', [''encryption_transmission'', ''encryption_storage'']),
      (''maintain_vulnerability_management'', [''antivirus'', ''secure_development'', ''vulnerability_scanning'']),
      (''implement_strong_access_control'', [''access_restrictions'', ''unique_ids'', ''physical_access'']),
      (''monitor_test_networks'', [''audit_logging'', ''monitoring'', ''penetration_testing''])]"
| "requirements ISO27001 = []"

record check_result =
  ck_status :: string
  ck_details :: "string option"
  ck_recommendation :: "string option"
  ck_reason :: "string option"

definition switch_check :: "pydict \<Rightarrow> string \<Rightarrow> string \<Rightarrow> string option \<Rightarrow> check_result" where
  "switch_check data k details recommendation =
     \<lparr>ck_status = (if truthy (dict_get_or data k PNone) then ''compliant'' else ''non_compliant''), ck_details = Some details,
      ck_recommendation = recommendation, ck_reason = None\<rparr>"

definition check_requirement :: "string \<Rightarrow> pydict \<Rightarrow> check_result" where
  "check_requirement req data =
     (if req = ''access_control'' then switch_check data ''rbac_enabled'' ''RBAC is enabled and configured'' None
      else if req = ''audit_logging'' then switch_check data ''audit_enabled'' ''Audit logging is enabled with 1-year retention''
        (Some ''Consider extending retention to 7 years for PCI-DSS'')
      else if req = ''encryption_at_rest'' then switch_check data ''encryption_enabled'' ''AES-256 encryption enabled'' None
      else if req = ''encryption_in_transit'' then switch_check data ''tls_enabled'' ''TLS 1.3 enabled'' None
      else \<lparr>ck_status = ''unknown'', ck_details = Some ''Check not implemented'', ck_recommendation = None, ck_reason = None\<rparr>)"

section \<open>The check\<close>

record violation =
  vi_category :: string
  vi_requirement :: string
  vi_reason :: "string option"

record compliance_result =
  cq_framework :: framework
  cq_component :: string
  cq_time :: time
  cq_status :: string
  cq_requirements :: "(string, (string \<times> string \<times> string option) list) dict"
  cq_violations :: "violation list"
  cq_recommendations :: "string list"

definition note_requirement :: "pydict \<Rightarrow> string \<Rightarrow> string
    \<Rightarrow> (string \<times> string \<times> string option) list \<times> compliance_result \<Rightarrow> (string \<times> string \<times> string option) list \<times> compliance_result" where
  "note_requirement data category req = (\<lambda>(acc, r).
     let st = check_requirement req data;
         r1 = (if ck_status st \<noteq> ''compliant''
               then r\<lparr>cq_status := ''non_compliant'', cq_violations := cq_violations r @ [\<lparr>vi_category = category, vi_requirement = req, vi_reason = ck_reason st\<rparr>]\<rparr>
               else r);
         r2 = (case ck_recommendation st of Some (c # cs) \<Rightarrow> r1\<lparr>cq_recommendations := cq_recommendations r1 @ [c # cs]\<rparr> | _ \<Rightarrow> r1)
     in (acc @ [(req, ck_status st, ck_details st)], r2))"

definition note_category :: "pydict \<Rightarrow> string \<times> string list \<Rightarrow> compliance_result \<Rightarrow> compliance_result" where
  "note_category data = (\<lambda>(category, reqs) r.
     case fold (note_requirement data category) reqs ([], r) of
       (acc, r1) \<Rightarrow> r1\<lparr>cq_requirements := dict_set category acc (cq_requirements r1)\<rparr>)"

definition check_framework :: "framework \<Rightarrow> string \<Rightarrow> pydict \<Rightarrow> time \<Rightarrow> compliance_result" where
  "check_framework f component data now =
     fold (note_category data) (requirements f)
       \<lparr>cq_framework = f, cq_component = component, cq_time = now, cq_status = ''compliant'', cq_requirements = [],
        cq_violations = [], cq_recommendations = []\<rparr>"

record compliance_manager =
  co_status :: "(string, compliance_result) dict"

record compliance_env =
  ce_logger :: bool
  ce_uuid :: "string option"

definition new_compliance_manager :: "compliance_env \<Rightarrow> exn + compliance_manager" where
  "new_compliance_manager env = (if ce_logger env then Inr \<lparr>co_status = []\<rparr> else Inl (NameErr ''logger''))"

definition status_key :: "framework \<Rightarrow> string \<Rightarrow> string" where
  "status_key f component = framework_value f @ '':'' @ component"

definition check_compliance :: "framework \<Rightarrow> string \<Rightarrow> pydict \<Rightarrow> time \<Rightarrow> compliance_manager \<Rightarrow> compliance_result \<times> compliance_manager" where
  "check_compliance f component data now s =
     (let r = check_framework f component data now
      in (r, s\<lparr>co_status := dict_set (status_key f component) r (co_status s)\<rparr>))"

section \<open>The report\<close>

record compliance_report =
  rp_id :: string
  rp_framework :: framework
  rp_components :: "(string, compliance_result) dict"
  rp_total :: nat
  rp_compliant :: nat
  rp_non_compliant :: nat
  rp_percentage :: rat
  rp_audit :: "audit_entry list"
  rp_remediation :: "(string \<times> violation \<times> string list) list"

text \<open>\<open>key.split(':', 1)[1]\<close>\<close>

definition component_of :: "string \<Rightarrow> string" where
  "component_of k = drop 1 (dropWhile (\<lambda>c. c \<noteq> CHR '':'') k)"

definition report_component :: "string \<times> compliance_result \<Rightarrow> compliance_report \<Rightarrow> compliance_report" where
  "report_component = (\<lambda>(k, st) r.
     let c = component_of k;
         r1 = r\<lparr>rp_components := dict_set c st (rp_components r), rp_total := rp_total r + 1\<rparr>
     in if cq_status st = ''compliant'' then r1\<lparr>rp_compliant := rp_compliant r1 + 1\<rparr>
        else r1\<lparr>rp_non_compliant := rp_non_compliant r1 + 1,
                rp_remediation := rp_remediation r1 @ map (\<lambda>v. (c, v, cq_recommendations st)) (cq_violations st)\<rparr>)"

definition start_report :: "string \<Rightarrow> framework \<Rightarrow> audit_entry list \<Rightarrow> compliance_report" where
  "start_report i f es =
     \<lparr>rp_id = i, rp_framework = f, rp_components = [], rp_total = 0, rp_compliant = 0, rp_non_compliant = 0, rp_percentage = 0,
      rp_audit = es, rp_remediation = []\<rparr>"

definition generate_compliance_report :: "compliance_env \<Rightarrow> framework \<Rightarrow> time \<Rightarrow> time \<Rightarrow> audit_trail \<Rightarrow> compliance_manager \<Rightarrow> exn + compliance_report" where
  "generate_compliance_report env f a b trail s =
     (case ce_uuid env of
        None \<Rightarrow> Inl (NameErr ''uuid'')
      | Some i \<Rightarrow>
          (let r = fold report_component (filter (\<lambda>(k, st). prefix (framework_value f) k) (co_status s))
                (start_report i f (query_audit_trail (period_query a b) 1000 trail))
           in Inr (if rp_total r > 0 then r\<lparr>rp_percentage := of_nat (rp_compliant r) / of_nat (rp_total r) * 100\<rparr> else r)))"

section \<open>What a check says\<close>

lemma note_requirement_status:
  "cq_status (snd (note_requirement data c req x)) = (if ck_status (check_requirement req data) = ''compliant'' then cq_status (snd x) else ''non_compliant'')"
  by (cases x) (auto simp: note_requirement_def Let_def split: option.split list.split)

lemma fold_requirements_status:
  "cq_status (snd (fold (note_requirement data c) reqs x)) =
     (if list_all (\<lambda>q. ck_status (check_requirement q data) = ''compliant'') reqs then cq_status (snd x) else ''non_compliant'')"
  by (induction reqs arbitrary: x) (auto simp: note_requirement_status)

lemma note_category_status:
  "cq_status (note_category data (c, reqs) r) =
     (if list_all (\<lambda>q. ck_status (check_requirement q data) = ''compliant'') reqs then cq_status r else ''non_compliant'')"
  using fold_requirements_status [of data c reqs "([], r)"]
  by (cases "fold (note_requirement data c) reqs ([], r)") (simp add: note_category_def)

lemma fold_categories_status:
  "cq_status (fold (note_category data) cs r) =
     (if list_all (\<lambda>(c, reqs). list_all (\<lambda>q. ck_status (check_requirement q data) = ''compliant'') reqs) cs then cq_status r else ''non_compliant'')"
  by (induction cs arbitrary: r) (auto simp: note_category_status)

lemma check_framework_status:
  "cq_status (check_framework f component data now) =
     (if list_all (\<lambda>(c, reqs). list_all (\<lambda>q. ck_status (check_requirement q data) = ''compliant'') reqs) (requirements f)
      then ''compliant'' else ''non_compliant'')"
  by (simp add: check_framework_def fold_categories_status)

lemma compliance_status_of:
  "cq_status (check_framework f component data now) = (if f = ISO27001 then ''compliant'' else ''non_compliant'')"
proof -
  have "ck_status (check_requirement q data) = ''unknown''"
    if "q \<in> {''incident_response'', ''security_officer'', ''encryption'', ''antivirus''}" for q
    using that by (auto simp: check_requirement_def)
  then show ?thesis by (cases f) (simp_all add: check_framework_status)
qed

text \<open>
  C17: whatever the data says, a component is compliant with ISO 27001, for which no requirement is listed,
  and with no other framework, since each has a requirement whose check is not implemented.
\<close>

theorem compliance_ignores_data:
  "cq_status (fst (check_compliance f component data now s)) = (if f = ISO27001 then ''compliant'' else ''non_compliant'')"
  by (simp add: check_compliance_def Let_def compliance_status_of)

section \<open>What a report counts\<close>

lemma report_component_counts:
  "rp_total (report_component x r) = rp_total r + 1"
  "rp_compliant (report_component x r) = rp_compliant r + (if cq_status (snd x) = ''compliant'' then 1 else 0)"
  "rp_non_compliant (report_component x r) = rp_non_compliant r + (if cq_status (snd x) = ''compliant'' then 0 else 1)"
  by (auto simp: report_component_def Let_def split: prod.split)

lemma report_counts:
  "rp_total (fold report_component xs r) = rp_total r + length xs"
  "rp_compliant (fold report_component xs r) = rp_compliant r + length (filter (\<lambda>x. cq_status (snd x) = ''compliant'') xs)"
  "rp_non_compliant (fold report_component xs r) = rp_non_compliant r + length (filter (\<lambda>x. cq_status (snd x) \<noteq> ''compliant'') xs)"
  by (induction xs arbitrary: r) (auto simp: report_component_counts)

text \<open>The states a manager reaches by checks.\<close>

definition checks :: "(framework \<times> string \<times> pydict \<times> time) list \<Rightarrow> compliance_manager" where
  "checks cs = fold (\<lambda>(f, c, d, t) s. snd (check_compliance f c d t s)) cs \<lparr>co_status = []\<rparr>"

lemma framework_prefix: "prefix (framework_value f) (status_key g c) \<longleftrightarrow> f = g"
  by (cases f; cases g) (simp_all add: status_key_def)

definition known_status :: "string \<Rightarrow> compliance_result \<Rightarrow> bool" where
  "known_status k r \<longleftrightarrow>
     (\<exists>f c. k = status_key f c \<and> cq_status r = (if f = ISO27001 then ''compliant'' else ''non_compliant''))"

definition status_inv :: "compliance_manager \<Rightarrow> bool" where
  "status_inv s \<longleftrightarrow> dict_all known_status (co_status s)"

lemma status_inv_check: "status_inv s \<Longrightarrow> status_inv (snd (check_compliance f c d t s))"
proof -
  have "known_status (status_key f c) (check_framework f c d t)"
    unfolding known_status_def using compliance_status_of by blast
  then show "status_inv s \<Longrightarrow> ?thesis" by (simp add: status_inv_def check_compliance_def Let_def dict_all_set)
qed

lemma known_status_of: "known_status k r \<Longrightarrow> prefix (framework_value f) k \<Longrightarrow> cq_status r = (if f = ISO27001 then ''compliant'' else ''non_compliant'')"
  unfolding known_status_def by (elim exE conjE) (simp only: framework_prefix)

interpretation checked: op_system "\<lambda>(f, c, d, t) s. snd (check_compliance f c d t s)" status_inv
  by unfold_locales (simp add: case_prod_beta status_inv_check)

text \<open>
  The summary of a report after any checks: the parts add up, the percentage is 100 for ISO 27001 and 0 for
  every other framework when anything was checked.
\<close>

lemma report_after_checks:
  assumes "generate_compliance_report env f a b trail (checks cs) = Inr r"
  shows "rp_total r = rp_compliant r + rp_non_compliant r \<and>
    rp_percentage r = (if f = ISO27001 \<and> rp_total r > 0 then 100 else 0)"
proof -
  define xs where "xs = filter (\<lambda>(k, st). prefix (framework_value f) k) (co_status (checks cs))"
  have inv: "dict_all known_status (co_status (checks cs))"
    using checked.inv_run [of "\<lparr>co_status = []\<rparr>" cs] by (simp add: checks_def status_inv_def)
  have st: "cq_status (snd x) = (if f = ISO27001 then ''compliant'' else ''non_compliant'')" if "x \<in> set xs" for x
  proof (rule known_status_of)
    show "known_status (fst x) (snd x)" using that inv by (auto simp: dict_all_def xs_def)
    show "prefix (framework_value f) (fst x)" using that by (auto simp: xs_def)
  qed
  have comp: "filter (\<lambda>x. cq_status (snd x) = ''compliant'') xs = (if f = ISO27001 then xs else [])"
    by (cases "f = ISO27001") (simp_all add: filter_empty_conv filter_id_conv st)
  have non: "filter (\<lambda>x. cq_status (snd x) \<noteq> ''compliant'') xs = (if f = ISO27001 then [] else xs)"
    by (cases "f = ISO27001") (simp_all add: filter_empty_conv filter_id_conv st)
  obtain i where i: "ce_uuid env = Some i" using assms by (cases "ce_uuid env") (simp_all add: generate_compliance_report_def)
  define z where "z = start_report i f (query_audit_trail (period_query a b) 1000 trail)"
  have z: "rp_total z = 0" "rp_compliant z = 0" "rp_non_compliant z = 0" "rp_percentage z = 0"
    by (simp_all add: z_def start_report_def)
  define w where "w = fold report_component xs z"
  have w: "rp_total w = length xs" "rp_compliant w = (if f = ISO27001 then length xs else 0)"
    "rp_non_compliant w = (if f = ISO27001 then 0 else length xs)"
    by (simp_all add: w_def report_counts z comp non)
  have "generate_compliance_report env f a b trail (checks cs) =
      Inr (if rp_total w > 0 then w\<lparr>rp_percentage := of_nat (rp_compliant w) / of_nat (rp_total w) * 100\<rparr> else w)"
    by (simp only: generate_compliance_report_def i option.case Let_def xs_def z_def w_def)
  then have "r = (if rp_total w > 0 then w\<lparr>rp_percentage := of_nat (rp_compliant w) / of_nat (rp_total w) * 100\<rparr> else w)"
    using assms by simp
  moreover have "xs = [] \<Longrightarrow> rp_percentage w = 0" by (simp add: w_def z)
  ultimately show ?thesis by (cases "xs = []") (simp_all add: w)
qed

text \<open>The module as it is has neither name, so there is no manager, and a report would raise first.\<close>

lemma shipped_compliance:
  "\<not> ce_logger env \<Longrightarrow> new_compliance_manager env = Inl (NameErr ''logger'')"
  "ce_uuid env = None \<Longrightarrow> generate_compliance_report env f a b trail s = Inl (NameErr ''uuid'')"
  by (simp_all add: new_compliance_manager_def generate_compliance_report_def)

end
