(* ===== verification/ResourcePredictor.thy ===== *)
theory ResourcePredictor
  imports AnomalyDetector PriorityEngine
begin

text \<open>
  \<open>src/predictive/resource_predictor.py\<close>: forecasts of processor, memory, storage, workers, durations of
  scans and spending. The histories the source makes up are built from draws that are arguments, with the
  waves of \<open>np.sin\<close> among them; the draws of the forecasts are the lists \<open>draws\<close>, one for every period, so
  their length is the number of periods asked for. The statistics of numpy are the record of
  \<open>AnomalyDetector\<close>, and the fit of a line, which may raise, is an argument.
\<close>

section \<open>Histories\<close>

definition history_value :: "string \<Rightarrow> nat \<Rightarrow> rat \<times> rat \<Rightarrow> rat" where
  "history_value resource i = (\<lambda>(wave, noise).
     max 0 (if resource = ''cpu'' then 30 + 20 * wave + noise
            else if resource = ''memory'' then 512 + 256 * wave + noise
            else if resource = ''storage'' then 100 + of_nat (i div 24) * 2 + noise
            else noise))"

text \<open>One value for every hour from the start to the end, both included.\<close>

definition resource_history :: "string \<Rightarrow> nat \<Rightarrow> (nat \<Rightarrow> rat \<times> rat) \<Rightarrow> rat list" where
  "resource_history resource days draw = map (\<lambda>i. history_value resource i (draw i)) [0..<24 * days + 1]"

definition hour_of :: "time \<Rightarrow> int" where
  "hour_of t = (t div hour) mod 24"

definition worker_base :: "int \<Rightarrow> rat" where
  "worker_base h = (if 9 \<le> h \<and> h \<le> 17 then 10 else if 18 \<le> h \<and> h \<le> 22 then 5 else 2)"

definition worker_history :: "nat \<Rightarrow> time \<Rightarrow> (nat \<Rightarrow> rat) \<Rightarrow> rat list" where
  "worker_history days now draw =
     map (\<lambda>i. max 0 (worker_base (hour_of (now - int days * day + int i * hour)) + draw i)) [0..<24 * days + 1]"

section \<open>Forecasts of usage\<close>

definition calculate_confidence :: "numpy \<Rightarrow> rat list \<Rightarrow> rat" where
  "calculate_confidence np xs =
     (if length xs < 10 then 1 / 2
      else if np_mean np xs = 0 then 1 / 2
      else round2 (max 0 (min 1 (1 - np_std np xs / np_mean np xs))))"

record usage_point =
  up_time :: time
  up_predicted :: rat
  up_lower :: "rat option"
  up_upper :: "rat option"

record usage_forecast =
  uf_resource :: string
  uf_unit :: "string option"
  uf_points :: "usage_point list"
  uf_confidence :: rat
  uf_peak :: "rat option"
  uf_average :: "rat option"

text \<open>The periods are hours only for a resource whose name holds \<open>hour\<close>.\<close>

definition default_prediction :: "string \<Rightarrow> nat \<Rightarrow> string \<Rightarrow> time \<Rightarrow> usage_forecast" where
  "default_prediction resource periods unit now =
     \<lparr>uf_resource = resource, uf_unit = Some unit,
      uf_points = map (\<lambda>i. \<lparr>up_time = now + int i * (if sublist ''hour'' resource then hour else day), up_predicted = 50,
                          up_lower = Some 25, up_upper = Some 75\<rparr>) [0..<periods],
      uf_confidence = 3 / 10, uf_peak = None, uf_average = None\<rparr>"

fun py_max :: "rat list \<Rightarrow> exn + rat" where
  "py_max [] = Inl (ValueErr ''max() arg is an empty sequence'')"
| "py_max (x # xs) = Inr (fold max xs x)"

definition average :: "rat list \<Rightarrow> rat" where
  "average xs = sum_list xs / of_nat (length xs)"

definition with_summary :: "string \<Rightarrow> string option \<Rightarrow> rat \<Rightarrow> usage_point list \<Rightarrow> exn + usage_forecast" where
  "with_summary resource unit conf ps =
     rbind (py_max (map up_predicted ps)) (\<lambda>p.
       Inr \<lparr>uf_resource = resource, uf_unit = unit, uf_points = ps, uf_confidence = conf, uf_peak = Some p,
            uf_average = Some (average (map up_predicted ps))\<rparr>)"

definition cpu_point :: "rat \<Rightarrow> rat \<Rightarrow> time \<Rightarrow> nat \<times> rat \<Rightarrow> usage_point" where
  "cpu_point avg std now = (\<lambda>(i, d).
     \<lparr>up_time = now + int i * hour, up_predicted = max 0 (min 100 (round2 (avg + d))),
      up_lower = Some (max 0 (round2 (avg + d - std))), up_upper = Some (min 100 (round2 (avg + d + std)))\<rparr>)"

definition predict_cpu_usage :: "numpy \<Rightarrow> rat list \<Rightarrow> rat list \<Rightarrow> time \<Rightarrow> exn + usage_forecast" where
  "predict_cpu_usage np hist draws now =
     (if hist = [] then Inr (default_prediction ''cpu'' (length draws) ''%'' now)
      else let values = last_n 24 hist
           in with_summary ''cpu'' None (calculate_confidence np values)
                (map (cpu_point (np_mean np values) (np_std np values) now) (enumerate 0 draws)))"

definition round0 :: "rat \<Rightarrow> rat" where
  "round0 x = of_int (round_half_even x)"

definition memory_point :: "rat \<Rightarrow> rat \<Rightarrow> time \<Rightarrow> nat \<times> rat \<Rightarrow> usage_point" where
  "memory_point avg std now = (\<lambda>(i, d).
     \<lparr>up_time = now + int i * hour, up_predicted = max 0 (round0 (avg + d)),
      up_lower = Some (max 0 (round0 (avg + d - std))), up_upper = Some (round0 (avg + d + std))\<rparr>)"

definition predict_memory_usage :: "numpy \<Rightarrow> rat list \<Rightarrow> rat list \<Rightarrow> time \<Rightarrow> exn + usage_forecast" where
  "predict_memory_usage np hist draws now =
     (if hist = [] then Inr (default_prediction ''memory'' (length draws) ''MB'' now)
      else let values = last_n 24 hist
           in with_summary ''memory'' (Some ''MB'') (calculate_confidence np values)
                (map (memory_point (np_mean np values) (np_std np values) now) (enumerate 0 draws)))"

section \<open>Storage\<close>

record storage_forecast =
  sf_points :: "(time \<times> rat \<times> rat) list"
  sf_current :: rat
  sf_growth :: rat
  sf_days_until_full :: "int option"
  sf_trend :: string

definition predict_storage_usage :: "(rat list \<Rightarrow> (rat \<times> rat) option) \<Rightarrow> rat list \<Rightarrow> nat \<Rightarrow> time \<Rightarrow> usage_forecast + storage_forecast" where
  "predict_storage_usage fit hist days now =
     (if length hist < 7 then Inl (default_prediction ''storage'' days ''GB'' now)
      else let slope = (case fit hist of Some (m, b) \<Rightarrow> m | None \<Rightarrow> 0); l = last hist
           in Inr \<lparr>sf_points = map (\<lambda>i. (now + int i * day, max 0 (round2 (l + slope * of_nat (i + 1))), round2 slope)) [0..<days],
                   sf_current = l, sf_growth = round2 slope,
                   sf_days_until_full = (if slope > 0 then Some (trunc ((1000 - l) / slope)) else None),
                   sf_trend = (if slope > 1 / 10 then ''increasing'' else if slope > - (1 / 10) then ''stable'' else ''decreasing'')\<rparr>)"

section \<open>Workers\<close>

definition worker_tools :: "string list" where
  "worker_tools = [''nmap'', ''nuclei'', ''sqlmap'', ''gobuster'']"

definition worker_point :: "rat \<Rightarrow> time \<Rightarrow> nat \<times> rat \<Rightarrow> usage_point" where
  "worker_point avg now = (\<lambda>(i, d).
     let factor = (if 9 \<le> (hour_of now + int i) mod 24 \<and> (hour_of now + int i) mod 24 \<le> 17 then 3 / 2 else 1)
     in \<lparr>up_time = now + int i * hour, up_predicted = max 0 (round0 (avg * factor + d)), up_lower = None, up_upper = None\<rparr>)"

definition tool_demand :: "numpy \<Rightarrow> rat list \<Rightarrow> rat list \<Rightarrow> time \<Rightarrow> exn + usage_forecast" where
  "tool_demand np hist draws now =
     (if hist = [] then Inr (default_prediction ''workers'' (length draws) ''%'' now)
      else with_summary ''workers'' None 0 (map (worker_point (np_mean np (last_n 24 hist)) now) (enumerate 0 draws)))"

fun demand_of_tools :: "numpy \<Rightarrow> (string \<Rightarrow> rat list) \<Rightarrow> (string \<Rightarrow> rat list) \<Rightarrow> time \<Rightarrow> string list \<Rightarrow> exn + (string \<times> usage_forecast) list" where
  "demand_of_tools np hist draws now [] = Inr []"
| "demand_of_tools np hist draws now (t # ts) =
     rbind (tool_demand np (hist t) (draws t) now) (\<lambda>f. rbind (demand_of_tools np hist draws now ts) (\<lambda>fs. Inr ((t, f) # fs)))"

fun sum_peaks :: "(string \<times> usage_forecast) list \<Rightarrow> exn + rat" where
  "sum_peaks [] = Inr 0"
| "sum_peaks ((t, f) # fs) =
     (case uf_peak f of None \<Rightarrow> Inl (KeyErr ''peak_demand'') | Some p \<Rightarrow> rbind (sum_peaks fs) (\<lambda>q. Inr (p + q)))"

definition predict_worker_demand :: "numpy \<Rightarrow> (string \<Rightarrow> rat list) \<Rightarrow> (string \<Rightarrow> rat list) \<Rightarrow> time \<Rightarrow> exn + ((string \<times> usage_forecast) list \<times> rat)" where
  "predict_worker_demand np hist draws now =
     rbind (demand_of_tools np hist draws now worker_tools) (\<lambda>fs. rbind (sum_peaks fs) (\<lambda>n. Inr (fs, n)))"

section \<open>Durations and spending\<close>

definition default_durations :: "(string, (string, int) dict) dict" where
  "default_durations =
     [(''port_scan'', [(''small'', 60), (''medium'', 300), (''large'', 900)]),
      (''vuln_scan'', [(''small'', 300), (''medium'', 900), (''large'', 3600)]),
      (''web_scan'', [(''small'', 180), (''medium'', 600), (''large'', 1800)]),
      (''full_audit'', [(''small'', 900), (''medium'', 3600), (''large'', 14400)])]"

definition base_duration :: "string \<Rightarrow> string \<Rightarrow> int" where
  "base_duration scan extent =
     (case dict_get default_durations scan of None \<Rightarrow> 600 | Some d \<Rightarrow> dict_get_or d extent 600)"

record duration_forecast =
  df_seconds :: int
  df_minutes :: rat
  df_confidence :: rat
  df_min :: int
  df_max :: int

definition duration_of :: "int \<Rightarrow> rat \<Rightarrow> duration_forecast" where
  "duration_of b conf =
     \<lparr>df_seconds = b, df_minutes = round1 (of_int b / 60), df_confidence = round2 conf,
      df_min = trunc (of_int b * (7 / 10)), df_max = trunc (of_int b * (3 / 2))\<rparr>"

definition predict_scan_duration :: "numpy \<Rightarrow> string \<Rightarrow> string \<Rightarrow> (string \<times> rat) list option \<Rightarrow> duration_forecast" where
  "predict_scan_duration np scan extent hist =
     (let b = base_duration scan extent
      in case hist of
           None \<Rightarrow> duration_of b (6 / 10)
         | Some h \<Rightarrow>
             if h = [] then duration_of b (6 / 10)
             else let ds = map snd (filter (\<lambda>s. fst s = scan) h)
                  in if ds = [] then duration_of b (1 / 2)
                     else duration_of (trunc (3 / 10 * of_int b + 7 / 10 * np_mean np ds))
                            (if np_mean np ds > 0 then max 0 (1 - np_std np ds / np_mean np ds) else 1 / 2))"

definition daily_spend :: "(time \<times> rat) list \<Rightarrow> (int, rat) dict" where
  "daily_spend hist = fold (\<lambda>(t, c) d. dict_set (day_number t) (dict_get_or d (day_number t) 0 + c) d) hist []"

fun spend_points :: "rat \<Rightarrow> time \<Rightarrow> nat \<Rightarrow> rat \<Rightarrow> rat list \<Rightarrow> (time \<times> rat \<times> rat) list \<times> rat" where
  "spend_points avg now i cum [] = ([], cum)"
| "spend_points avg now i cum (d # ds) =
     (let t = now + int i * day;
          p = avg * (if weekday t \<ge> 5 then 6 / 10 else 1) + d
      in case spend_points avg now (Suc i) (cum + p) ds of (ps, c) \<Rightarrow> ((t, round2 p, round2 (cum + p)) # ps, c))"

record budget_forecast =
  bf_points :: "(time \<times> rat \<times> rat) list"
  bf_total :: rat
  bf_daily :: rat
  bf_confidence :: "rat option"

definition predict_budget_usage :: "numpy \<Rightarrow> (time \<times> rat) list \<Rightarrow> rat list \<Rightarrow> time \<Rightarrow> budget_forecast" where
  "predict_budget_usage np hist draws now =
     (if hist = [] then \<lparr>bf_points = [], bf_total = 0, bf_daily = 0, bf_confidence = None\<rparr>
      else let vs = dict_values (daily_spend hist);
               avg = (if length vs < 7 then np_mean np vs else np_mean np (last_n 7 vs));
               (ps, c) = spend_points avg now 0 0 draws
           in \<lparr>bf_points = ps, bf_total = round2 c, bf_daily = round2 avg,
               bf_confidence = Some (if length vs \<ge> 30 then calculate_confidence np (last_n 30 vs) else 1 / 2)\<rparr>)"

section \<open>Models\<close>

record trained_model =
  tm_tenant :: string
  tm_resource :: string
  tm_trained_at :: time
  tm_status :: string
  tm_accuracy :: rat

definition train_prediction :: "string \<Rightarrow> string \<Rightarrow> string \<Rightarrow> time \<Rightarrow> (string, trained_model) dict \<Rightarrow> trained_model \<times> (string, trained_model) dict" where
  "train_prediction stamp tenant resource now models =
     (let m = \<lparr>tm_tenant = tenant, tm_resource = resource, tm_trained_at = now, tm_status = ''trained'', tm_accuracy = 85 / 100\<rparr>
      in (m, dict_set (''model_'' @ tenant @ ''_'' @ resource @ ''_'' @ stamp) m models))"

section \<open>Bounds\<close>

lemma fold_max_start: "x \<le> fold max xs x" for x :: rat
  by (induction xs arbitrary: x) (auto intro: order_trans [OF max.cobounded2])

lemma fold_max_ge: "y \<in> set xs \<Longrightarrow> y \<le> fold max xs x" for x :: rat
  using fold_max_start by (induction xs arbitrary: x) (auto intro: order_trans [OF max.cobounded1])

lemma fold_max_in: "fold max xs x \<in> insert x (set xs)" for x :: rat
  by (induction xs arbitrary: x) (auto simp: max_def split: if_splits)

lemma py_max_bounds: "py_max xs = Inr m \<Longrightarrow> m \<in> set xs \<and> (\<forall>x \<in> set xs. x \<le> m)"
  using fold_max_in fold_max_start fold_max_ge by (cases xs) auto

lemma average_upper: "xs \<noteq> [] \<Longrightarrow> \<forall>x \<in> set xs. x \<le> m \<Longrightarrow> average xs \<le> m"
proof -
  assume xs: "xs \<noteq> []" "\<forall>x \<in> set xs. x \<le> m"
  have "\<forall>x \<in> set ys. x \<le> m \<Longrightarrow> sum_list ys \<le> of_nat (length ys) * m" for ys
    by (induction ys) (auto simp: algebra_simps add_mono)
  with xs show ?thesis by (simp add: average_def divide_le_eq mult.commute)
qed

text \<open>
  A forecast of the processor: what is predicted is a percentage, the lower bounds are not negative and the
  upper ones at most 100; the peak is one of the predictions and no prediction, nor their average, is above it.
\<close>

lemma cpu_forecast_bounds:
  assumes "predict_cpu_usage np hist draws now = Inr f" "hist \<noteq> []"
  shows "list_all (\<lambda>p. 0 \<le> up_predicted p \<and> up_predicted p \<le> 100 \<and> 0 \<le> the (up_lower p) \<and> the (up_upper p) \<le> 100) (uf_points f)"
    "\<exists>m. uf_peak f = Some m \<and> m \<in> set (map up_predicted (uf_points f)) \<and> the (uf_average f) \<le> m"
proof -
  obtain m where f: "uf_points f = map (cpu_point (np_mean np (last_n 24 hist)) (np_std np (last_n 24 hist)) now) (enumerate 0 draws)"
      "py_max (map up_predicted (uf_points f)) = Inr m" "uf_peak f = Some m" "uf_average f = Some (average (map up_predicted (uf_points f)))"
    using assms by (auto simp: predict_cpu_usage_def with_summary_def Let_def rbind_Inr)
  show "list_all (\<lambda>p. 0 \<le> up_predicted p \<and> up_predicted p \<le> 100 \<and> 0 \<le> the (up_lower p) \<and> the (up_upper p) \<le> 100) (uf_points f)"
    by (auto simp: f(1) cpu_point_def list_all_iff)
  have "map up_predicted (uf_points f) \<noteq> []" using f(2) by (cases "map up_predicted (uf_points f)") auto
  with f py_max_bounds [OF f(2)] average_upper [of "map up_predicted (uf_points f)" m]
  show "\<exists>m. uf_peak f = Some m \<and> m \<in> set (map up_predicted (uf_points f)) \<and> the (uf_average f) \<le> m" by simp
qed

text \<open>No period asked for: the maximum of nothing raises.\<close>

lemma no_period_raises: "hist \<noteq> [] \<Longrightarrow> predict_cpu_usage np hist [] now = Inl (ValueErr ''max() arg is an empty sequence'')"
  by (simp add: predict_cpu_usage_def with_summary_def Let_def)

lemma confidence_unit: "0 \<le> calculate_confidence np xs \<and> calculate_confidence np xs \<le> 1"
  using round_unit(2) [of "max 0 (min 1 (1 - np_std np xs / np_mean np xs))"] by (simp add: calculate_confidence_def)

text \<open>A forecast by default is made of days, also where the caller asked for hours.\<close>

lemma default_steps_are_days:
  "uf_points (default_prediction ''cpu'' (Suc (Suc n)) u now) ! 1 = \<lparr>up_time = now + day, up_predicted = 50, up_lower = Some 25, up_upper = Some 75\<rparr>"
proof -
  have "\<not> sublist ''hour'' ''cpu''" by code_simp
  then show ?thesis by (simp add: default_prediction_def nth_append del: upt_Suc)
qed

text \<open>The number of workers is the sum of the peaks, and a tool without a history raises \<open>KeyError\<close>.\<close>

lemma sum_peaks_sum: "sum_peaks fs = Inr n \<Longrightarrow> n = sum_list (map (\<lambda>(t, f). the (uf_peak f)) fs)"
  by (induction fs arbitrary: n) (auto simp: rbind_Inr split: option.splits)

lemma no_history_raises:
  "fst (fs ! i) = t \<Longrightarrow> i < length fs \<Longrightarrow> snd (fs ! i) = default_prediction ''workers'' n u now \<Longrightarrow> \<exists>e. sum_peaks fs = Inl e"
proof (induction fs arbitrary: i)
  case (Cons f fs)
  show ?case
  proof (cases i)
    case 0
    with Cons.prems show ?thesis by (cases f) (simp add: default_prediction_def)
  next
    case (Suc j)
    with Cons.prems Cons.IH [of j] obtain e where "sum_peaks fs = Inl e" by auto
    then show ?thesis by (cases f) (auto split: option.split)
  qed
qed simp

text \<open>The predicted duration of a scan lies in its range.\<close>

lemma duration_in_range: "0 \<le> b \<Longrightarrow> df_min (duration_of b c) \<le> df_seconds (duration_of b c) \<and> df_seconds (duration_of b c) \<le> df_max (duration_of b c)"
  using trunc_mono [of "of_int b * (7 / 10)" "of_int b"] trunc_mono [of "of_int b" "of_int b * (3 / 2)"]
  by (simp add: duration_of_def)

text \<open>The days of a budget add up: the last sum is that of all predictions before rounding.\<close>

lemma spend_total:
  "snd (spend_points avg now i cum ds) = cum + sum_list (map (\<lambda>(j, d). avg * (if weekday (now + int j * day) \<ge> 5 then 6 / 10 else 1) + d) (enumerate i ds))"
  by (induction ds arbitrary: i cum) (simp_all add: Let_def case_prod_beta)

section \<open>Storage\<close>

text \<open>
  the history of the storage has a value for every hour and the forecast takes them for days: of a
  storage that has grown by \<open>g\<close> each day, with a fit that finds the line exactly, it says a growth per day
  of a 24th of \<open>g\<close>, predicts a day's growth for 24 days ahead, and calls it stable up to 2.4 a day.
\<close>

theorem storage_growth_by_the_hour:
  assumes "hist = map (\<lambda>i. a + g * of_nat i / 24) [0..<n]" "7 \<le> n" "fit hist = Some (g / 24, b)" "0 < g"
  shows "\<exists>f. predict_storage_usage fit hist days now = Inr f \<and> sf_growth f = round2 (g / 24) \<and>
    (sf_trend f = ''stable'') = (g \<le> 12 / 5) \<and>
    (23 < days \<longrightarrow> sf_points f ! 23 = (now + 23 * day, max 0 (round2 (last hist + g)), round2 (g / 24)))"
proof -
  have len: "\<not> length hist < 7" using assms(1,2) by simp
  have "\<not> (g / 24 \<le> - (1 / 10))" "(1 / 10 < g / 24) = (\<not> g \<le> 12 / 5)" using assms(4) by (simp_all add: field_simps not_le)
  with len assms(3) show ?thesis
    by (simp add: predict_storage_usage_def Let_def nth_append del: upt_Suc)
qed

text \<open>The history the source makes up grows by two each day.\<close>

theorem storage_growth_by_the_hour_witness:
  "\<exists>f. predict_storage_usage (\<lambda>h. Some (2 / 24, 100)) (map (\<lambda>i. 100 + 2 * of_nat i / 24) [0..<2161]) 30 0 = Inr f \<and>
     sf_growth f = round2 (2 / 24) \<and> sf_trend f = ''stable''"
  using storage_growth_by_the_hour [OF refl, where a = 100 and g = 2 and n = 2161 and fit = "\<lambda>h. Some (2 / 24, 100)" and days = 30 and now = 0]
  by auto

end
