(* ===== verification/ParameterOptimizer.thy ===== *)
theory ParameterOptimizer
  imports Calendar Exceptions
begin

text \<open>
  \<open>src/recommendation/parameter_optimizer.py\<close>: the choice of parameters of a tool by the scores of past runs,
  and the adaptive search. The grid of combinations (of \<open>sklearn\<close>) and the indices that are drawn from it are
  arguments, as are the answers of the memory service to the two calls made of it; the memory service of the
  repository has neither method (\<open>shipped_memory\<close>).
\<close>

section \<open>Spaces and scores\<close>

definition param_spaces :: "(string, (string, pyval list) dict) dict" where
  "param_spaces =
     [(''nmap'', [(''ports'', map PStr [''1-1000'', ''1-5000'', ''1-10000'', ''top-1000'']),
                (''timing'', map PStr [''T0'', ''T1'', ''T2'', ''T3'', ''T4'']),
                (''scan_type'', map PStr [''-sS'', ''-sT'', ''-sU'', ''-sV''])]),
      (''nuclei'', [(''severity'', map PStr [''info'', ''low'', ''medium'', ''high'', ''critical'']),
                  (''rate_limit'', map PInt [50, 100, 150, 200]), (''timeout'', map PInt [5, 10, 15, 30])]),
      (''sqlmap'', [(''level'', map PInt [1, 2, 3, 4, 5]), (''risk'', map PInt [1, 2, 3]), (''threads'', map PInt [1, 2, 5, 10])])]"

record past_run =
  pr_duration :: "rat option"
  pr_accuracy :: "rat option"
  pr_coverage :: "rat option"
  pr_cost :: "rat option"

record memory_calls =
  mc_similar :: "string \<Rightarrow> pydict \<Rightarrow> exn + past_run list"
  mc_count :: "string \<Rightarrow> pydict \<Rightarrow> exn + nat"

definition shipped_memory :: memory_calls where
  "shipped_memory =
     \<lparr>mc_similar = (\<lambda>t p. Inl (AttributeErr ''find_similar_executions'')), mc_count = (\<lambda>t p. Inl (AttributeErr ''count_executions''))\<rparr>"

definition or_else :: "rat option \<Rightarrow> rat \<Rightarrow> rat" where
  "or_else x d = (case x of None \<Rightarrow> d | Some v \<Rightarrow> v)"

definition mean_of :: "rat list \<Rightarrow> rat" where
  "mean_of xs = sum_list xs / of_nat (length xs)"

text \<open>\<open>h["duration"]\<close> of every run.\<close>

fun durations :: "past_run list \<Rightarrow> exn + rat list" where
  "durations [] = Inr []"
| "durations (h # hs) =
     (case pr_duration h of None \<Rightarrow> Inl (KeyErr ''duration'') | Some d \<Rightarrow> rbind (durations hs) (\<lambda>ds. Inr (d # ds)))"

definition score_runs :: "string \<Rightarrow> past_run list \<Rightarrow> exn + rat" where
  "score_runs objective hs =
     (if hs = [] then Inr (1 / 2)
      else rbind
        (if objective = ''speed'' then rbind (durations hs) (\<lambda>ds. Inr (1 / (1 + mean_of ds / 100)))
         else if objective = ''accuracy'' then Inr (mean_of (map (\<lambda>h. or_else (pr_accuracy h) 0) hs))
         else if objective = ''coverage'' then Inr (mean_of (map (\<lambda>h. or_else (pr_coverage h) 0) hs))
         else if objective = ''cost'' then Inr (1 / (1 + mean_of (map (\<lambda>h. or_else (pr_cost h) 0) hs) * 10))
         else Inr ((1 / (1 + mean_of (map (\<lambda>h. or_else (pr_duration h) 300) hs) / 100) + mean_of (map (\<lambda>h. or_else (pr_accuracy h) (1 / 2)) hs)) / 2))
        (\<lambda>x. Inr (round3 x)))"

definition score_parameters :: "memory_calls \<Rightarrow> string \<Rightarrow> string \<Rightarrow> pydict \<Rightarrow> exn + rat" where
  "score_parameters mc tool objective params = rbind (mc_similar mc tool params) (score_runs objective)"

definition get_confidence :: "memory_calls \<Rightarrow> string \<Rightarrow> pydict \<Rightarrow> exn + string" where
  "get_confidence mc tool params =
     rbind (mc_count mc tool params) (\<lambda>n.
       Inr (if n \<ge> 100 then ''high'' else if n \<ge> 20 then ''medium'' else if n \<ge> 5 then ''low'' else ''very_low''))"

section \<open>The choice\<close>

fun score_all :: "memory_calls \<Rightarrow> string \<Rightarrow> string \<Rightarrow> pydict list \<Rightarrow> exn + (pydict \<times> rat) list" where
  "score_all mc tool objective [] = Inr []"
| "score_all mc tool objective (p # ps) =
     rbind (score_parameters mc tool objective p) (\<lambda>x. rbind (score_all mc tool objective ps) (\<lambda>xs. Inr ((p, x) # xs)))"

text \<open>\<open>max\<close> gives the first of the best.\<close>

fun first_best :: "(pydict \<times> rat) list \<Rightarrow> pydict \<times> rat \<Rightarrow> pydict \<times> rat" where
  "first_best [] b = b"
| "first_best (x # xs) b = first_best xs (if snd x > snd b then x else b)"

record optimized =
  oz_tool :: string
  oz_parameters :: pydict
  oz_score :: rat
  oz_confidence :: string
  oz_alternatives :: "(pydict \<times> rat) list"

definition sampled :: "nat list \<Rightarrow> nat \<Rightarrow> pydict list \<Rightarrow> pydict list" where
  "sampled drawn limit ps = (if length ps > limit then map (\<lambda>i. ps ! i) drawn else ps)"

definition recommend :: "memory_calls \<Rightarrow> string \<Rightarrow> (pydict \<times> rat) list \<Rightarrow> exn + optimized option" where
  "recommend mc tool xs =
     (case xs of
        [] \<Rightarrow> Inl (ValueErr ''max() arg is an empty sequence'')
      | x # rest \<Rightarrow>
          rbind (get_confidence mc tool (fst (first_best rest x))) (\<lambda>c.
            Inr (Some \<lparr>oz_tool = tool, oz_parameters = fst (first_best rest x), oz_score = snd (first_best rest x),
                      oz_confidence = c, oz_alternatives = take 5 xs\<rparr>)))"

definition optimize_parameters ::
    "memory_calls \<Rightarrow> ((string, pyval list) dict \<Rightarrow> pydict list) \<Rightarrow> nat list \<Rightarrow> string \<Rightarrow> string \<Rightarrow> nat \<Rightarrow> exn + optimized option" where
  "optimize_parameters mc grid drawn tool objective limit =
     (case dict_get param_spaces tool of
        None \<Rightarrow> Inr None
      | Some space \<Rightarrow> rbind (score_all mc tool objective (sampled drawn limit (grid space))) (recommend mc tool))"

text \<open>The first step of the adaptive search calls a method that does not exist.\<close>

definition adaptive_optimization :: "string \<Rightarrow> pydict \<Rightarrow> exn + pydict" where
  "adaptive_optimization tool params = Inl (AttributeErr ''_execute_with_params'')"

section \<open>Properties\<close>

lemma first_best_max:
  "first_best xs b \<in> insert b (set xs) \<and> snd b \<le> snd (first_best xs b) \<and> (\<forall>x \<in> set xs. snd x \<le> snd (first_best xs b))"
proof (induction xs arbitrary: b)
  case (Cons x xs)
  show ?case using Cons [of "if snd x > snd b then x else b"] by (auto split: if_splits)
qed simp

lemma recommend_fields:
  "recommend mc tool (x # rest) = Inr (Some r) \<Longrightarrow>
   oz_parameters r = fst (first_best rest x) \<and> oz_score r = snd (first_best rest x) \<and> oz_alternatives r = take 5 (x # rest)"
  by (cases "get_confidence mc tool (fst (first_best rest x))") (auto simp: recommend_def)

lemma score_all_set:
  "score_all mc tool objective ps = Inr xs \<Longrightarrow> map fst xs = ps \<and> (\<forall>(p, x) \<in> set xs. score_parameters mc tool objective p = Inr x)"
  by (induction ps arbitrary: xs) (auto simp: rbind_Inr)

text \<open>
  The recommended parameters are among the combinations that were looked at, and none of these has a
  higher score; the alternatives are the first five, whatever their scores.
\<close>

lemma recommended_is_best:
  assumes "optimize_parameters mc grid drawn tool objective limit = Inr (Some r)" "dict_get param_spaces tool = Some space"
  shows "oz_parameters r \<in> set (sampled drawn limit (grid space))"
    "\<forall>p \<in> set (sampled drawn limit (grid space)). \<exists>x. score_parameters mc tool objective p = Inr x \<and> x \<le> oz_score r"
    "map fst (oz_alternatives r) = take 5 (sampled drawn limit (grid space))"
proof -
  have "rbind (score_all mc tool objective (sampled drawn limit (grid space))) (recommend mc tool) = Inr (Some r)"
    using assms by (simp add: optimize_parameters_def)
  then obtain ys where ys: "score_all mc tool objective (sampled drawn limit (grid space)) = Inr ys" "recommend mc tool ys = Inr (Some r)"
    unfolding rbind_Inr by blast
  obtain x rest where cons: "ys = x # rest" using ys(2) by (cases ys) (simp_all add: recommend_def)
  note xs = ys(1) [unfolded cons]
  from recommend_fields [OF ys(2) [unfolded cons]]
  have r: "oz_parameters r = fst (first_best rest x)" "oz_score r = snd (first_best rest x)" "oz_alternatives r = take 5 (x # rest)"
    by simp_all
  have ps: "sampled drawn limit (grid space) = map fst (x # rest)" using score_all_set [OF xs] by simp
  have sc: "score_parameters mc tool objective (fst y) = Inr (snd y)" if "y \<in> set (x # rest)" for y
    using bspec [OF conjunct2 [OF score_all_set [OF xs]] that] by (simp add: case_prod_beta)
  note best = first_best_max [of rest x]
  show "oz_parameters r \<in> set (sampled drawn limit (grid space))"
    using best unfolding ps r(1) set_map list.set(2) by blast
  show "\<forall>p \<in> set (sampled drawn limit (grid space)). \<exists>y. score_parameters mc tool objective p = Inr y \<and> y \<le> oz_score r"
  proof
    fix p
    assume "p \<in> set (sampled drawn limit (grid space))"
    then obtain y where y: "y \<in> set (x # rest)" "p = fst y" unfolding ps set_map by blast
    then have "snd y \<le> oz_score r" using best unfolding r(2) by auto
    then show "\<exists>y. score_parameters mc tool objective p = Inr y \<and> y \<le> oz_score r" using sc y by blast
  qed
  show "map fst (oz_alternatives r) = take 5 (sampled drawn limit (grid space))" by (simp only: ps r(3) take_map)
qed

text \<open>
  with the memory service of the repository nothing is optimised: a tool without a space gets an empty
  answer, and every other one raises at the first combination that is scored.
\<close>

theorem shipped_optimizer_raises:
  assumes "sampled drawn limit (grid (the (dict_get param_spaces tool))) \<noteq> []"
  shows "optimize_parameters shipped_memory grid drawn tool objective limit =
    (if dict_has param_spaces tool then Inl (AttributeErr ''find_similar_executions'') else Inr None)"
proof (cases "dict_get param_spaces tool")
  case None
  then show ?thesis by (simp add: optimize_parameters_def dict_has_def)
next
  case (Some space)
  with assms obtain p ps where "sampled drawn limit (grid space) = p # ps" by (metis list.exhaust option.sel)
  with Some show ?thesis by (simp add: optimize_parameters_def dict_has_def score_parameters_def shipped_memory_def)
qed

theorem shipped_optimizer_raises_witness:
  "optimize_parameters shipped_memory (\<lambda>s. [[(''timing'', PStr ''T3'')]]) [] ''nmap'' ''speed'' 50 = Inl (AttributeErr ''find_similar_executions'')"
proof -
  have "dict_has param_spaces ''nmap''" by code_simp
  with shipped_optimizer_raises [of "[]" 50 "\<lambda>s. [[(''timing'', PStr ''T3'')]]" "''nmap''" "''speed''"] show ?thesis
    by (simp add: sampled_def)
qed

end
