(* ===== verification/VulnerabilityPredictor.thy ===== *)
theory VulnerabilityPredictor
  imports ModelRegistry
begin

text \<open>
  \<open>src/predictive/vulnerability_predictor.py\<close>: the loading of its three models through the registry of
  \<open>ModelRegistry\<close>, the features, and the predictions. A loaded model is known by its run; what it answers is an
  argument, as is the order of \<open>np.argsort\<close>. The module has no \<open>logger\<close>; \<open>logs\<close> says whether it is there.
\<close>

section \<open>Models\<close>

record vuln_models =
  vm_vuln :: "string option"
  vm_severity :: "string option"
  vm_exploit :: "string option"

definition no_models :: vuln_models where
  "no_models = \<lparr>vm_vuln = None, vm_severity = None, vm_exploit = None\<rparr>"

definition new_vulnerability_predictor :: "bool \<Rightarrow> exn + vuln_models" where
  "new_vulnerability_predictor logs = (if logs then Inr no_models else Inl (NameErr ''logger''))"

text \<open>The models are loaded one after another; what was loaded before an exception is kept.\<close>

definition load_production :: "(string \<Rightarrow> string \<Rightarrow> exn + unit) \<Rightarrow> string \<Rightarrow> model_manager \<Rightarrow> exn + string" where
  "load_production mlflow m reg = load_model mlflow m None ''production'' reg"

definition initialize :: "bool \<Rightarrow> (string \<Rightarrow> string \<Rightarrow> exn + unit) \<Rightarrow> model_manager \<Rightarrow> vuln_models \<Rightarrow> (exn + unit) \<times> vuln_models" where
  "initialize logs mlflow reg p =
     (let warned = (if logs then Inr () else Inl (NameErr ''logger''))
      in case load_production mlflow ''vulnerability_prediction'' reg of
           Inl e \<Rightarrow> (warned, p)
         | Inr v \<Rightarrow> (let p1 = p\<lparr>vm_vuln := Some v\<rparr> in
             case load_production mlflow ''severity_prediction'' reg of
               Inl e \<Rightarrow> (warned, p1)
             | Inr s \<Rightarrow> (let p2 = p1\<lparr>vm_severity := Some s\<rparr> in
                 case load_production mlflow ''exploit_prediction'' reg of
                   Inl e \<Rightarrow> (warned, p2)
                 | Inr x \<Rightarrow> (Inr (), p2\<lparr>vm_exploit := Some x\<rparr>))))"

section \<open>Predictions\<close>

definition extract_features :: "pydict \<Rightarrow> pydict \<Rightarrow> pyval list" where
  "extract_features target environment =
     [dict_get_or target ''port_count'' (PInt 0), dict_get_or target ''service_count'' (PInt 0),
      PInt (if truthy (dict_get_or target ''has_ssl'' (PBool False)) then 1 else 0), dict_get_or target ''response_time_ms'' (PInt 0),
      dict_get_or environment ''scan_frequency'' (PInt 0), dict_get_or environment ''previous_vulnerabilities'' (PInt 0),
      dict_get_or environment ''patch_level'' (PInt 0)]"

definition vuln_types :: "string list" where
  "vuln_types = [''SQL Injection'', ''Cross-Site Scripting (XSS)'', ''Remote Code Execution'', ''Path Traversal'', ''CSRF'',
     ''SSRF'', ''XXE'', ''Authentication Bypass'', ''Information Disclosure'', ''Buffer Overflow'']"

definition vuln_type :: "nat \<Rightarrow> string" where
  "vuln_type i = vuln_types ! (i mod length vuln_types)"

text \<open>What the models answer on features: the probabilities of the kinds, a score, and the probability of an exploit.\<close>

record model_answers =
  ma_kinds :: "string \<Rightarrow> pyval list \<Rightarrow> rat list"
  ma_score :: "string \<Rightarrow> pyval list \<Rightarrow> rat"
  ma_exploit :: "string \<Rightarrow> pyval list \<Rightarrow> rat"

record vuln_prediction =
  vp_type :: string
  vp_probability :: rat
  vp_confidence :: string
  vp_cvss :: rat
  vp_exploit :: rat

definition predicted_cvss :: "model_answers \<Rightarrow> vuln_models \<Rightarrow> pyval list \<Rightarrow> nat \<Rightarrow> rat" where
  "predicted_cvss ma p fs i = (case vm_severity p of None \<Rightarrow> 5 | Some m \<Rightarrow> ma_score ma m fs)"

definition predicted_exploit :: "model_answers \<Rightarrow> vuln_models \<Rightarrow> pyval list \<Rightarrow> nat \<Rightarrow> rat" where
  "predicted_exploit ma p fs i = (case vm_exploit p of None \<Rightarrow> 1 / 2 | Some m \<Rightarrow> ma_exploit ma m fs)"

definition prediction_of :: "model_answers \<Rightarrow> vuln_models \<Rightarrow> pyval list \<Rightarrow> rat list \<Rightarrow> nat \<Rightarrow> vuln_prediction" where
  "prediction_of ma p fs probs i =
     \<lparr>vp_type = vuln_type i, vp_probability = probs ! i, vp_confidence = (if probs ! i > 7 / 10 then ''high'' else ''medium''),
      vp_cvss = predicted_cvss ma p fs i, vp_exploit = predicted_exploit ma p fs i\<rparr>"

definition predict_vulnerabilities :: "model_answers \<Rightarrow> (rat list \<Rightarrow> nat list) \<Rightarrow> pydict \<Rightarrow> pydict \<Rightarrow> vuln_models \<Rightarrow> vuln_prediction list" where
  "predict_vulnerabilities ma argsort target environment p =
     (let fs = extract_features target environment
      in case vm_vuln p of
           None \<Rightarrow> []
         | Some m \<Rightarrow> (let probs = ma_kinds ma m fs
             in map (prediction_of ma p fs probs) (filter (\<lambda>i. probs ! i > 3 / 10) (rev (last_n 10 (argsort probs))))))"

text \<open>The features of the other two predictions are extracted by methods that do not exist.\<close>

definition predict_severity :: "pydict \<Rightarrow> exn + pyval" where
  "predict_severity info = Inl (AttributeErr ''_extract_severity_features'')"

definition predict_exploit_probability :: "pydict \<Rightarrow> exn + pyval" where
  "predict_exploit_probability info = Inl (AttributeErr ''_extract_exploit_features'')"

section \<open>What is predicted\<close>

text \<open>At most ten, each above the threshold, all with the same score and the same likelihood of an exploit.\<close>

lemma predictions_bounded:
  "length (predict_vulnerabilities ma argsort target environment p) \<le> 10"
  using length_filter_le order_trans [of _ "length (rev (last_n 10 (argsort _)))" 10]
  by (auto simp: predict_vulnerabilities_def Let_def split: option.split intro: order_trans [OF length_filter_le])

lemma predictions_above_threshold:
  "x \<in> set (predict_vulnerabilities ma argsort target environment p) \<Longrightarrow> 3 / 10 < vp_probability x"
  by (auto simp: predict_vulnerabilities_def Let_def prediction_of_def split: option.splits)

lemma predictions_alike:
  "x \<in> set (predict_vulnerabilities ma argsort target environment p) \<Longrightarrow>
   y \<in> set (predict_vulnerabilities ma argsort target environment p) \<Longrightarrow> vp_cvss x = vp_cvss y \<and> vp_exploit x = vp_exploit y"
  by (auto simp: predict_vulnerabilities_def Let_def prediction_of_def predicted_cvss_def predicted_exploit_def split: option.splits)

section \<open>The models are never found\<close>

text \<open>The identifiers of \<open>register_model\<close> begin with \<open>model_\<close>; the predictor asks for models by other names.\<close>

fun drawn_id :: "registry_op \<times> int \<Rightarrow> bool" where
  "drawn_id (Register i n ty f d tg, now) = prefix ''model_'' i"
| "drawn_id _ = True"

definition only_drawn :: "model_manager \<Rightarrow> bool" where
  "only_drawn s \<longleftrightarrow> (\<forall>m. dict_has (mm_versions s) m \<or> dict_has (mm_production s) m \<longrightarrow> prefix ''model_'' m)"

lemma only_drawn_exec: "only_drawn s \<Longrightarrow> drawn_id x \<Longrightarrow> only_drawn (registry_exec x s)"
proof (cases x rule: drawn_id.cases)
qed (auto simp: only_drawn_def register_model_def save_model_version_def promote_to_production_def delete_model_def
       versions_of_def dict_get_or_def dict_has_def Let_def split: sum.splits option.splits if_splits)

lemma only_drawn_run: "only_drawn s \<Longrightarrow> list_all drawn_id ops \<Longrightarrow> only_drawn (fold registry_exec ops s)"
  by (induction ops arbitrary: s) (simp_all add: only_drawn_exec)

lemma other_name_not_loaded:
  assumes "only_drawn s" "\<not> prefix ''model_'' m"
  shows "\<exists>e. load_production mlflow m s = Inl e"
proof -
  have "\<not> dict_has (mm_production s) m" "\<not> dict_has (mm_versions s) m" using assms by (auto simp: only_drawn_def)
  then have "versions_of m s = []" by (simp add: versions_of_def dict_get_or_def dict_has_def split: option.split)
  with \<open>\<not> dict_has (mm_production s) m\<close> show ?thesis
    by (simp add: load_production_def load_model_def wanted_version_def ModelRegistry.given_def)
qed

text \<open>
  C20: whatever happens in the registry, whose identifiers all begin with \<open>model_\<close>, the predictor loads no model,
  and predicts no vulnerability for any target.
\<close>

theorem predictor_predicts_nothing:
  assumes "list_all drawn_id ops"
  shows "predict_vulnerabilities ma argsort target environment
    (snd (initialize logs mlflow (fold registry_exec ops new_model_manager) no_models)) = []"
proof -
  have "only_drawn (fold registry_exec ops new_model_manager)"
    using assms by (intro only_drawn_run) (simp_all add: only_drawn_def new_model_manager_def)
  from other_name_not_loaded [OF this, of "''vulnerability_prediction''" mlflow]
  obtain e where "load_production mlflow ''vulnerability_prediction'' (fold registry_exec ops new_model_manager) = Inl e" by auto
  then show ?thesis by (simp add: initialize_def no_models_def predict_vulnerabilities_def Let_def)
qed

theorem predictor_predicts_nothing_witness:
  "predict_vulnerabilities \<lparr>ma_kinds = (\<lambda>m fs. [9 / 10]), ma_score = (\<lambda>m fs. 9), ma_exploit = (\<lambda>m fs. 1)\<rparr> (\<lambda>xs. [0]) [] []
     (snd (initialize True (\<lambda>f r. Inr ())
        (fold registry_exec
           [(Register ''model_1a'' ''vulnerability_prediction'' ''classification'' ''sklearn'' [] None, 0),
            (Save ''ver_1'' (Inr ''run1'') ''model_1a'' ''1'' [] [] [], 1), (Promote ''model_1a'' ''1'', 2)] new_model_manager) no_models)) = []"
  by (rule predictor_predicts_nothing) simp

end
