(* ===== verification/Spec2Isabelle.thy ===== *)
theory Spec2Isabelle
  imports SchedulerRuns Retry ToolRateLimit ApiRateLimit ApiKeys
    Rbac Abac StateManager Lifecycle OrchestratorRuns
    Approval TaskAssignment Branching Sla WorkflowEngine
    WorkerPool ToolRouter Tenants DomainAgentRuns GatewayAnalytics Planner LlmClients AutoScaler HybridApi Authentication
    Recommender KnowledgeGraph HttpStack ReportScheduler EndToEnd
    Container Gateway SloTracker AnomalyDetector ModelRegistry RiskScorer SelfHealing AdaptiveScanner
    Classification Governance SecretsManager Compliance ResourcePredictor ParameterOptimizer VulnerabilityPredictor
begin

text \<open>
  A verification library for the core of the CyberSecurity-Platform, a Python service that turns a
  security goal into a graph of tasks, runs the tasks through tools and agents under budgets,
  quotas and rate limits, and drives human workflows around them. File names are relative to
  \<open>src/src/\<close>.

  The way a request goes. The API checks a key (\<open>ApiKeys\<close>), a rate limit (\<open>ApiRateLimit\<close>) and the
  caller's rights (\<open>Rbac\<close>, \<open>Abac\<close>). A planner's graph of tasks (\<open>Dag\<close>, \<open>DagOps\<close>) is validated
  (\<open>DagValidator\<close>, \<open>Verifier\<close>) and executed by the scheduler (\<open>Scheduler\<close>) or the agent orchestrator
  (\<open>Orchestrator\<close>); both retry (\<open>Retry\<close>), fall back (\<open>Fallback\<close>), stop at open circuits
  (\<open>CircuitBreaker\<close>), charge budgets (\<open>BudgetTracker\<close>), respect quotas (\<open>QuotaManager\<close>) and tool limits
  (\<open>ToolRateLimit\<close>), and escalate (\<open>Escalation\<close>). Workflows (\<open>WorkflowEngine\<close>) add conditions
  (\<open>Branching\<close>), approvals (\<open>Approval\<close>), assignment (\<open>TaskAssignment\<close>) and service levels (\<open>Sla\<close>).

  Shared theories.
  \<^item> \<open>Prelude\<close>: dictionaries in insertion order, the result of code that may raise, capped lists, and
    the contracts (locales) \<open>kv_store\<close>, \<open>op_system\<close> (an invariant over all runs of a component's
    operations) and \<open>bounded_log\<close>, each interpreted on the models that provide it.
  \<^item> \<open>PyValue\<close>, \<open>PyString\<close>, \<open>Calendar\<close>: what a \<open>Dict[str, Any]\<close> holds, with Python's truth, equality,
    order and membership; splitting, integer literals and rendering; times in microseconds and the
    rounding of numbers. \<open>Patterns\<close>: the regular expressions the code uses, as sequences of pieces that are
    repeated greedily with backtracking, with search and substitution.
  \<^item> \<open>Exceptions\<close>: the classes of \<open>core/exceptions.py\<close> and the built-in ones the code raises.

  Components, in the order of the code.
  \<^item> \<open>Dag\<close>, \<open>DagOrder\<close>, \<open>DagPath\<close>, \<open>DagOps\<close> (\<open>models/dag.py\<close>): the graph, its operations,
    topological levels, critical path, and what an operation on one node keeps of the rest.
  \<^item> \<open>DagValidator\<close> (\<open>core/dag_validator.py\<close>): the checks, cycle search with an explicit stack of
    recursion (its depth bounded by the recursion limit \<open>rlim\<close>), correctness against reachability.
  \<^item> \<open>Verifier\<close> (\<open>agents/verifier.py\<close>): policies, resources and approval of a plan.
  \<^item> \<open>BudgetTracker\<close>, \<open>QuotaManager\<close>: cost and usage accounts, limits, alerts; refinement of the
    tracker's dictionaries to plain accounts.
  \<^item> \<open>CircuitBreaker\<close>, \<open>Fallback\<close>, \<open>Escalation\<close>, \<open>Retry\<close> (\<open>core/\<close>): the breaker as a state machine, the
    strategies, the levels, and the attempts with their delays.
  \<^item> \<open>RateLimits\<close>, \<open>ToolRateLimit\<close>, \<open>ApiRateLimit\<close>, \<open>ApiKeys\<close>: the sliding-window contract and its
    users, the token bucket, the middleware and the API keys.
  \<^item> \<open>TaskContexts\<close>, \<open>Scheduler\<close>, \<open>SchedulerRuns\<close> (\<open>scheduler/hybrid_scheduler.py\<close>): the background run of
    a process as a program counter; a step is what happens between two suspensions.
  \<^item> \<open>Lifecycle\<close> (\<open>scheduler/lifecycle_manager.py\<close>): executions and their listeners.
  \<^item> \<open>Rbac\<close>, \<open>Abac\<close> (\<open>security/\<close>): roles with inheritance, attribute policies.
  \<^item> \<open>StateManager\<close>, \<open>CommunicationBus\<close>, \<open>Orchestrator\<close>, \<open>OrchestratorRuns\<close> (\<open>orchestrator/\<close>): versioned
    state with a cache, topics with history and dead letters, routing and execution of plans.
  \<^item> \<open>Approval\<close>, \<open>TaskAssignment\<close>, \<open>Branching\<close>, \<open>Sla\<close>, \<open>WorkflowEngine\<close> (\<open>workflow/\<close>): requests and
    decisions, the choice of agents, conditions, deadline monitors, and runs of workflows.
  \<^item> \<open>WorkerPool\<close> (\<open>workers/worker_pool.py\<close>): pools of containers, their leases and their health.
  \<^item> \<open>ToolRegistry\<close>, \<open>ToolCosts\<close>, \<open>ToolCache\<close>, \<open>ToolRouter\<close> (\<open>tools/\<close>): the catalogue of tools and its index
    by capability, cost and budget accounts, the result cache, and the routing of one execution.
  \<^item> \<open>MemoryStores\<close>, \<open>MemoryService\<close> (\<open>memory/\<close>, \<open>agents/collaboration/\<close>): the three stores in memory, the
    service over them and the bus on which agents share what they find.
  \<^item> \<open>DomainAgents\<close>, \<open>DomainAgentRuns\<close> (\<open>domain_agents/\<close>, \<open>agents/base_agent.py\<close>): the phases of
    an agent, its execution with healing and retries, and the two agents of the program.
  \<^item> \<open>Planner\<close> (\<open>agents/planner/planner_agent.py\<close>, \<open>prompt_templates.py\<close>): planning through a language
    model, the reading of its answer, the fallback plan, the plan cache; \<open>LlmClients\<close>
    (\<open>llm_factory.py\<close>): the clients and the factory that keeps them.
  \<^item> \<open>SchedulerLive\<close>, \<open>EndToEnd\<close>: when an execution completes, with the steps its coroutine has left as the measure,
    whatever is interleaved; and the planner, the verifier and the scheduler run together.
  \<^item> \<open>AutoScaler\<close> (\<open>autonomous/auto_scaler.py\<close>): decisions on the size of the worker pools and their execution.
  \<^item> \<open>HybridApi\<close> (\<open>api/routes/v1/hybrid.py\<close>, \<open>api/models/\<close>): the endpoints over the scheduler and their jobs.
  \<^item> \<open>Authentication\<close> (\<open>api/middleware/auth.py\<close>, \<open>core/security.py\<close>, \<open>api/dependencies.py\<close>): who a request comes
    from, tokens, field encryption and masking.
  \<^item> \<open>HttpStack\<close> (\<open>api/app.py\<close>, \<open>api/middleware/\<close>): the layers a request passes on its way to an endpoint and
    back, in the order the application adds them, over \<open>Authentication\<close> and \<open>ApiRateLimit\<close>, and the handlers
    of exceptions. How the framework nests added layers is a named hypothesis, its own layers are arguments.
  \<^item> \<open>ReportScheduler\<close> (\<open>reporting/scheduler/report_scheduler.py\<close>): recurring reports, the ticks of the
    loop and the tasks that overlap with them.
  \<^item> \<open>Recommender\<close> (\<open>recommendation/tool_recommender.py\<close>): scores of tools and what is learned from executions.
  \<^item> \<open>KnowledgeGraph\<close> (\<open>knowledge_graph/graph_enhancer.py\<close>, \<open>casual_inference.py\<close>): the graph of vulnerabilities,
    assets and tools, the relations added to it, its queries, and causes read off its paths.
  \<^item> \<open>GatewayAnalytics\<close>, \<open>Gateway\<close> (\<open>gateway/\<close>): the running sums of calls, quotas per day, hour and month, the
    handler of an API in the two steps between which other requests come, its sockets, and the portal and
    adapters around it.
  \<^item> \<open>Container\<close> (\<open>workers/container.py\<close>): the containers of the workers over a Docker daemon that is a record of
    functions; its documented behaviour is a named hypothesis with an instance.
  \<^item> \<open>Alerting\<close>, \<open>SloTracker\<close>, \<open>AnomalyDetector\<close> (\<open>monitoring/\<close>): alerts with suppression, silences and escalation
    as a list of waiting tasks, error budgets of objectives, and the statistical methods over an argument for numpy.
  \<^item> \<open>ModelRegistry\<close> (\<open>ai/\<close>): models, their versions and promotion, training jobs, definitions of features.
  \<^item> \<open>PriorityEngine\<close>, \<open>SelfHealing\<close>, \<open>AdaptiveScanner\<close> (\<open>autonomous/\<close>): scores and a greedy schedule, the choice
    and recording of healings, and strategies of scans; \<open>RiskScorer\<close> (\<open>predictive/risk_scorer.py\<close>).
  \<^item> \<open>Governance\<close> (\<open>governance/\<close>), \<open>Classification\<close>, \<open>SecretsManager\<close>, \<open>Compliance\<close> (\<open>security/\<close>): masking and
    redaction of nested values by patterns, the levels of data and their cache, the ages at which data is archived,
    secrets over a vault that is a record of functions, and the checks of frameworks with their report over
    \<open>AuditTrail\<close> (\<open>observability/logging.py\<close>, \<open>services/audit.py\<close>), the signed trails.
  \<^item> \<open>ResourcePredictor\<close>, \<open>VulnerabilityPredictor\<close> (\<open>predictive/\<close>), \<open>ParameterOptimizer\<close> (\<open>recommendation/\<close>): forecasts
    from histories, predictions by the models of \<open>ModelRegistry\<close>, and the choice of parameters by past runs.
  \<^item> \<open>Tenants\<close> (\<open>tenant/\<close>): tenants, their quotas, the isolation of their resources and their bills.

  What the lemmas show. Each component has an invariant with a preservation lemma per operation and
  its closure over runs, the behaviour of its operations on every branch, and one or more
  properties of the program built on them; the text before a property states it.

  Conventions and bounds. A \<open>float\<close> is an exact rational, so rounding, overflow and NaN are out of
  scope except where a number is read from a string. Times are integers of microseconds; where the
  code reads the clock, the operation has an argument \<open>now\<close>. Drawn ids and random choices are
  arguments. The recursion limit of Python is the argument \<open>rlim\<close> or a number of frames; the theorems
  give a bound from which on it is never hit. Log output is left out. A coroutine runs without
  interruption between two suspensions; where a component's operation is modelled as one step
  although it awaits outside code, its theory says so.

  Not modelled: the construction of the services when the application starts, the rendering of reports and
  dashboards, the learning of patterns and similarities by numerical libraries, metrics and tracing output, and the
  clients of third-party services, which are mostly calls of libraries outside the repository or string building;
  the manifest lists every part with the reason.
\<close>

end
